(* ===== verification/Prelude.thy ===== *)
theory Prelude
  imports Main "HOL-Library.Multiset" "HOL-Library.Sublist"
begin

text \<open>
  Shared vocabulary of the development: Go's time values, results with an error,
  the two loop shapes that almost every store of the program uses (prune a map, update
  the first match of a slice), and reachability with its invariant rule.

  A \<open>time.Time\<close> is its number of nanoseconds since the epoch and a Unix time its number of
  seconds; the clock is an argument of every operation that calls \<open>time.Now\<close>. A Go
  \<open>map[K]V\<close> is a partial function; a loop over a map whose result depends on the iteration
  order takes that order as an argument, because Go leaves it unspecified.
\<close>

section \<open>Time\<close>

type_synonym nanos = int
type_synonym secs = int

definition unix :: "nanos \<Rightarrow> secs" where
  "unix t = t div 1000000000"

definition second :: nanos where
  "second = 1000000000"

lemma unix_mono: "s \<le> t \<Longrightarrow> unix s \<le> unix t"
  by (simp add: unix_def zdiv_mono1)

lemma unix_add_second: "unix (t + n * second) = unix t + n"
  by (simp add: unix_def second_def)

lemma less_unix_imp: "t < s * second \<Longrightarrow> unix t < s"
  by (simp add: unix_def second_def)

section \<open>Results\<close>

abbreviation Err :: "'e \<Rightarrow> 'e + 'a" where
  "Err \<equiv> Inl"

abbreviation Ok :: "'a \<Rightarrow> 'e + 'a" where
  "Ok \<equiv> Inr"

section \<open>JSON files\<close>

text \<open>
  What a store finds at its path: nothing, a file it cannot read, one that is not the expected JSON,
  or a document. Encoding a value and decoding it again gives the value back.
\<close>

datatype 'a jsonfile = NoFile | Unreadable | Garbled | Doc 'a

section \<open>Integers of 64 bits\<close>

text \<open>\<open>int64\<close> wrap-around, and Go's division, which truncates towards zero.\<close>

definition wrap64 :: "int \<Rightarrow> int" where
  "wrap64 x = (x + 2 ^ 63) mod 2 ^ 64 - 2 ^ 63"

definition quot :: "int \<Rightarrow> int \<Rightarrow> int" where
  "quot a b = sgn a * sgn b * (\<bar>a\<bar> div \<bar>b\<bar>)"

lemma wrap64_id: "- (2 ^ 63) \<le> x \<Longrightarrow> x < 2 ^ 63 \<Longrightarrow> wrap64 x = x"
  by (simp add: wrap64_def)

lemma quot_pos: "0 \<le> a \<Longrightarrow> 0 < b \<Longrightarrow> quot a b = a div b"
  by (cases "a = 0") (simp_all add: quot_def)

section \<open>Pruning a map\<close>

text \<open>
  The loop \<^verbatim>\<open>for k, v := range m { if !keep(v) { delete(m, k) } }\<close>. Deleting the current
  key while ranging is defined in Go and the result does not depend on the order.
\<close>

definition keep_vals :: "('v \<Rightarrow> bool) \<Rightarrow> ('k \<rightharpoonup> 'v) \<Rightarrow> ('k \<rightharpoonup> 'v)" where
  "keep_vals P m = (\<lambda>k. case m k of None \<Rightarrow> None | Some v \<Rightarrow> if P v then Some v else None)"

lemma keep_vals_Some [simp]: "keep_vals P m k = Some v \<longleftrightarrow> m k = Some v \<and> P v"
  by (auto simp: keep_vals_def split: option.splits)

lemma keep_vals_None: "keep_vals P m k = None \<longleftrightarrow> (\<forall>v. m k = Some v \<longrightarrow> \<not> P v)"
  by (auto simp: keep_vals_def split: option.splits)

lemma keep_vals_idem [simp]: "keep_vals P (keep_vals P m) = keep_vals P m"
  by (auto simp: keep_vals_def fun_eq_iff split: option.splits)

lemma dom_keep_vals: "dom (keep_vals P m) \<subseteq> dom m"
  by (auto simp: dom_def)

section \<open>Updating the first match of a slice\<close>

text \<open>The loop \<^verbatim>\<open>for i := range xs { if p(xs[i]) { xs[i] = f(xs[i]); break } }\<close>.\<close>

fun upd_first :: "('a \<Rightarrow> bool) \<Rightarrow> ('a \<Rightarrow> 'a) \<Rightarrow> 'a list \<Rightarrow> 'a list" where
  "upd_first p f [] = []"
| "upd_first p f (x # xs) = (if p x then f x # xs else x # upd_first p f xs)"

lemma length_upd_first [simp]: "length (upd_first p f xs) = length xs"
  by (induction xs) auto

lemma upd_first_none: "(\<forall>x\<in>set xs. \<not> p x) \<Longrightarrow> upd_first p f xs = xs"
  by (induction xs) auto

lemma set_upd_first_subset: "set (upd_first p f xs) \<subseteq> set xs \<union> f ` {x \<in> set xs. p x}"
  by (induction xs) auto

lemma upd_first_in: "\<exists>x\<in>set xs. p x \<Longrightarrow> \<exists>x\<in>set xs. p x \<and> f x \<in> set (upd_first p f xs)"
  by (induction xs) auto

lemma upd_first_keeps: "x \<in> set xs \<Longrightarrow> \<not> p x \<Longrightarrow> x \<in> set (upd_first p f xs)"
  by (induction xs) auto

lemma upd_first_split:
  "\<exists>x\<in>set xs. p x \<Longrightarrow>
    \<exists>us x vs. xs = us @ x # vs \<and> p x \<and> (\<forall>u\<in>set us. \<not> p u) \<and> upd_first p f xs = us @ f x # vs"
proof (induction xs)
  case Nil
  then show ?case by simp
next
  case (Cons a xs)
  show ?case
  proof (cases "p a")
    case True
    then have "a # xs = [] @ a # xs \<and> p a \<and> (\<forall>u\<in>set []. \<not> p u)
        \<and> upd_first p f (a # xs) = [] @ f a # xs"
      by simp
    then show ?thesis by blast
  next
    case False
    with Cons obtain us x vs where "xs = us @ x # vs" "p x" "\<forall>u\<in>set us. \<not> p u"
        "upd_first p f xs = us @ f x # vs"
      by auto
    with False have "a # xs = (a # us) @ x # vs \<and> p x \<and> (\<forall>u\<in>set (a # us). \<not> p u)
        \<and> upd_first p f (a # xs) = (a # us) @ f x # vs"
      by simp
    then show ?thesis by blast
  qed
qed

lemma map_upd_first: "(\<And>x. p x \<Longrightarrow> g (f x) = g x) \<Longrightarrow> map g (upd_first p f xs) = map g xs"
  by (induction xs) auto

section \<open>Newest first\<close>

text \<open>\<open>sort.SliceStable\<close> with \<^verbatim>\<open>out[i].F > out[k].F\<close>: a stable sort by descending key.\<close>

definition sort_desc :: "('a \<Rightarrow> int) \<Rightarrow> 'a list \<Rightarrow> 'a list" where
  "sort_desc f xs = sort_key (\<lambda>x. - f x) xs"

lemma mset_sort_desc [simp]: "mset (sort_desc f xs) = mset xs"
  by (simp add: sort_desc_def)

lemma set_sort_desc [simp]: "set (sort_desc f xs) = set xs"
  by (simp add: sort_desc_def)

lemma length_sort_desc [simp]: "length (sort_desc f xs) = length xs"
  by (simp add: sort_desc_def)

lemma sort_desc_sorted: "sorted_wrt (\<lambda>x y. f y \<le> f x) (sort_desc f xs)"
proof -
  have "sorted (map (\<lambda>x. - f x) (sort_desc f xs))"
    by (simp add: sort_desc_def)
  then show ?thesis
    by (simp add: sorted_wrt_map)
qed

lemma sort_desc_stable: "filter (\<lambda>x. f x = k) (sort_desc f xs) = filter (\<lambda>x. f x = k) xs"
proof -
  have "filter (\<lambda>x. - f x = - k) (sort_key (\<lambda>x. - f x) xs) = filter (\<lambda>x. - f x = - k) xs"
    by (rule sort_key_stable)
  then show ?thesis
    by (simp add: sort_desc_def)
qed

lemma sorted_wrt_take: "sorted_wrt P xs \<Longrightarrow> sorted_wrt P (take n xs)"
  by (metis append_take_drop_id sorted_wrt_append)

section \<open>Sorting with a comparison\<close>

text \<open>\<open>sort.SliceStable\<close> with an arbitrary \<open>lt\<close>: insertion that never moves an element past an equal one.\<close>

fun insert_stable :: "('a \<Rightarrow> 'a \<Rightarrow> bool) \<Rightarrow> 'a \<Rightarrow> 'a list \<Rightarrow> 'a list" where
  "insert_stable lt x [] = [x]"
| "insert_stable lt x (y # ys) = (if lt y x then y # insert_stable lt x ys else x # y # ys)"

definition slice_stable :: "('a \<Rightarrow> 'a \<Rightarrow> bool) \<Rightarrow> 'a list \<Rightarrow> 'a list" where
  "slice_stable lt xs = foldr (insert_stable lt) xs []"

lemma mset_insert_stable [simp]: "mset (insert_stable lt x ys) = add_mset x (mset ys)"
  by (induction ys) auto

lemma mset_slice_stable [simp]: "mset (slice_stable lt xs) = mset xs"
  by (induction xs) (simp_all add: slice_stable_def)

lemma set_slice_stable [simp]: "set (slice_stable lt xs) = set xs"
  by (metis mset_slice_stable set_mset_mset)

lemma insert_stable_sorted:
  assumes "\<And>a b. lt a b \<Longrightarrow> \<not> lt b a"
    and "\<And>a b c. \<not> lt b a \<Longrightarrow> \<not> lt c b \<Longrightarrow> \<not> lt c a"
    and "sorted_wrt (\<lambda>a b. \<not> lt b a) ys"
  shows "sorted_wrt (\<lambda>a b. \<not> lt b a) (insert_stable lt x ys)"
  using assms(3)
proof (induction ys)
  case (Cons y ys)
  have s: "set (insert_stable lt x ys) = insert x (set ys)"
    using mset_insert_stable [of lt x ys] by (metis set_mset_add_mset_insert set_mset_mset)
  show ?case
  proof (cases "lt y x")
    case True
    with Cons assms(1) s show ?thesis by auto
  next
    case False
    with Cons.prems assms(2) [OF False] show ?thesis by auto
  qed
qed simp

lemma slice_stable_sorted:
  assumes "\<And>a b. lt a b \<Longrightarrow> \<not> lt b a"
    and "\<And>a b c. \<not> lt b a \<Longrightarrow> \<not> lt c b \<Longrightarrow> \<not> lt c a"
  shows "sorted_wrt (\<lambda>a b. \<not> lt b a) (slice_stable lt xs)"
proof (induction xs)
  case (Cons x xs)
  have "sorted_wrt (\<lambda>a b. \<not> lt b a) (insert_stable lt x (slice_stable lt xs))"
    using assms Cons.IH by (rule insert_stable_sorted)
  then show ?case by (simp add: slice_stable_def)
qed (simp add: slice_stable_def)

section \<open>Reachability\<close>

inductive reach :: "('s \<Rightarrow> bool) \<Rightarrow> ('s \<Rightarrow> 's \<Rightarrow> bool) \<Rightarrow> 's \<Rightarrow> bool" for init step where
  reach_init: "init s \<Longrightarrow> reach init step s"
| reach_step: "reach init step s \<Longrightarrow> step s t \<Longrightarrow> reach init step t"

inductive steps :: "('s \<Rightarrow> 's \<Rightarrow> bool) \<Rightarrow> 's \<Rightarrow> 's \<Rightarrow> bool" for step where
  steps_refl: "steps step s s"
| steps_step: "steps step s t \<Longrightarrow> step t u \<Longrightarrow> steps step s u"

lemma reach_steps: "steps step s t \<Longrightarrow> reach init step s \<Longrightarrow> reach init step t"
  by (induction rule: steps.induct) (auto intro: reach.reach_step)

text \<open>The contract of an inductive invariant, and what a client gets from it.\<close>

locale inductive_invariant =
  fixes init :: "'s \<Rightarrow> bool"
    and step :: "'s \<Rightarrow> 's \<Rightarrow> bool"
    and inv :: "'s \<Rightarrow> bool"
  assumes inv_init: "init s \<Longrightarrow> inv s"
    and inv_step: "inv s \<Longrightarrow> step s t \<Longrightarrow> inv t"
begin

lemma inv_reach: "reach init step s \<Longrightarrow> inv s"
  by (induction rule: reach.induct) (auto intro: inv_init inv_step)

lemma inv_steps: "steps step s t \<Longrightarrow> inv s \<Longrightarrow> inv t"
  by (induction rule: steps.induct) (auto intro: inv_step)

end

section \<open>Bounded logs\<close>

text \<open>The contract of a fixed-capacity buffer whose reading \<open>newest\<close> lists the latest entries, newest first.\<close>

locale bounded_log =
  fixes push :: "'a \<Rightarrow> 'r \<Rightarrow> 'r"
    and newest :: "'r \<Rightarrow> 'a list"
    and capacity :: "'r \<Rightarrow> nat"
    and valid :: "'r \<Rightarrow> bool"
  assumes push_valid: "valid r \<Longrightarrow> valid (push x r)"
    and push_capacity: "valid r \<Longrightarrow> capacity (push x r) = capacity r"
    and push_newest: "valid r \<Longrightarrow> newest (push x r) = take (capacity r) (x # newest r)"
begin

lemma pushes_valid: "valid r \<Longrightarrow> valid (fold push xs r) \<and> capacity (fold push xs r) = capacity r"
  by (induction xs arbitrary: r) (simp_all add: push_valid push_capacity)

lemma pushes_newest:
  "valid r \<Longrightarrow> length (newest r) \<le> capacity r \<Longrightarrow>
     newest (fold push xs r) = take (capacity r) (rev xs @ newest r)"
proof (induction xs arbitrary: r)
  case (Cons x xs)
  have "newest (fold push xs (push x r)) = take (capacity r) (rev xs @ take (capacity r) (x # newest r))"
    using Cons by (simp add: push_valid push_capacity push_newest)
  also have "\<dots> = take (capacity r) (rev xs @ x # newest r)"
    by (simp only: take_append take_take min_def) simp
  finally show ?case by simp
qed simp

end

section \<open>Stores with a file\<close>

text \<open>
  The contract a client of a store with a file relies on: a mutation that reports success is applied to what the store shows
  and is what a new process reads; one that fails leaves what a new process reads as it was.
\<close>

locale durable_document =
  fixes mutate :: "'p \<Rightarrow> 's \<Rightarrow> 's \<times> bool"
    and view :: "'s \<Rightarrow> 'v"
    and stored :: "'s \<Rightarrow> 'v option"
    and effect :: "'p \<Rightarrow> 'v \<Rightarrow> 'v"
    and legal :: "'p \<Rightarrow> bool"
    and valid :: "'s \<Rightarrow> bool"
  assumes mutate_valid: "valid s \<Longrightarrow> legal p \<Longrightarrow> valid (fst (mutate p s))"
    and mutate_ok: "valid s \<Longrightarrow> legal p \<Longrightarrow> snd (mutate p s) \<Longrightarrow>
      view (fst (mutate p s)) = effect p (view s) \<and> stored (fst (mutate p s)) = Some (view (fst (mutate p s)))"
    and mutate_failed: "valid s \<Longrightarrow> legal p \<Longrightarrow> \<not> snd (mutate p s) \<Longrightarrow>
      stored (fst (mutate p s)) = stored s"
begin

definition run :: "'p list \<Rightarrow> 's \<Rightarrow> 's" where
  "run ps s = fold (\<lambda>p s. fst (mutate p s)) ps s"

lemma run_valid: "valid s \<Longrightarrow> list_all legal ps \<Longrightarrow> valid (run ps s)"
  by (induction ps arbitrary: s) (simp_all add: run_def mutate_valid)

lemma run_stored: "valid s \<Longrightarrow> list_all legal ps \<Longrightarrow> stored s \<noteq> None \<Longrightarrow> stored (run ps s) \<noteq> None"
proof (induction ps arbitrary: s)
  case (Cons p ps)
  have "stored (fst (mutate p s)) \<noteq> None"
    using Cons.prems mutate_ok [of s p] mutate_failed [of s p] by (cases "snd (mutate p s)") auto
  with Cons mutate_valid [of s p] show ?case
    by (simp add: run_def)
qed (simp add: run_def)

lemma last_write_stored:
  assumes "valid s" "list_all legal ps" "legal p" "snd (mutate p (run ps s))"
  shows "stored (fst (mutate p (run ps s))) = Some (effect p (view (run ps s)))"
  using mutate_ok [OF run_valid [OF assms(1,2)] assms(3,4)] by simp

end

end
