(* ===== verification/GoStrings.thy ===== *)
theory GoStrings
  imports Prelude
begin

text \<open>
  The part of Go's \<open>strings\<close> package the modelled code calls, on strings as byte sequences
  (\<open>char list\<close>), which is what a Go string is. \<open>TrimSpace\<close> and \<open>EqualFold\<close> work on Unicode code
  points in Go; they are given here on the UTF-8 bytes: \<open>TrimSpace\<close> for every Unicode space,
  \<open>EqualFold\<close> for a second argument in ASCII, the only kind the code uses, including the two
  non-ASCII letters that fold to ASCII ones. \<open>ToLower\<close> maps the ASCII capitals; the code applies
  it to hexadecimal codes and to email addresses.
\<close>

text \<open>The format \<^verbatim>\<open>%d\<close> of a number that is not negative.\<close>

fun decimal :: "nat \<Rightarrow> string" where
  "decimal n = (if n < 10 then [char_of (48 + n)] else decimal (n div 10) @ [char_of (48 + n mod 10)])"

declare decimal.simps [simp del]

section \<open>Prefixes and indices\<close>

definition HasPrefix :: "string \<Rightarrow> string \<Rightarrow> bool" where
  "HasPrefix s p \<longleftrightarrow> take (length p) s = p"

definition TrimPrefix :: "string \<Rightarrow> string \<Rightarrow> string" where
  "TrimPrefix s p = (if HasPrefix s p then drop (length p) s else s)"

fun IndexByte :: "string \<Rightarrow> char \<Rightarrow> nat option" where
  "IndexByte [] c = None"
| "IndexByte (x # xs) c = (if x = c then Some 0 else map_option Suc (IndexByte xs c))"

lemma HasPrefix_iff_prefix: "HasPrefix s p \<longleftrightarrow> prefix p s"
  by (metis HasPrefix_def append_eq_conv_conj append_take_drop_id prefixE prefixI)

lemma HasPrefix_append [simp]: "HasPrefix (p @ s) p"
  by (simp add: HasPrefix_def)

lemma HasPrefix_Nil [simp]: "HasPrefix s []"
  by (simp add: HasPrefix_def)

lemma HasPrefix_Cons [simp]: "HasPrefix (x # s) (y # p) \<longleftrightarrow> x = y \<and> HasPrefix s p"
  by (simp add: HasPrefix_def)

lemma HasPrefix_Nil_Cons [simp]: "\<not> HasPrefix [] (y # p)"
  by (simp add: HasPrefix_def)

lemma HasPrefixE:
  assumes "HasPrefix s p"
  obtains t where "s = p @ t"
  using assms by (auto simp: HasPrefix_iff_prefix prefix_def)

lemma TrimPrefix_append [simp]: "TrimPrefix (p @ s) p = s"
  by (simp add: TrimPrefix_def)

lemma prefixes_comparable: "HasPrefix s p \<Longrightarrow> HasPrefix s q \<Longrightarrow> HasPrefix p q \<or> HasPrefix q p"
  by (metis HasPrefix_iff_prefix prefix_same_cases)

lemma IndexByte_split:
  "IndexByte s c = Some i \<Longrightarrow>
    s = take i s @ c # drop (Suc i) s \<and> c \<notin> set (take i s) \<and> i < length s"
  by (induction s arbitrary: i) (auto split: if_splits)

lemma IndexByte_append: "c \<notin> set s \<Longrightarrow> IndexByte (s @ c # t) c = Some (length s)"
  by (induction s) auto

section \<open>Splitting at a byte\<close>

fun SplitByte :: "string \<Rightarrow> char \<Rightarrow> string list" where
  "SplitByte [] c = [[]]"
| "SplitByte (x # xs) c =
     (if x = c then [] # SplitByte xs c
      else case SplitByte xs c of [] \<Rightarrow> [[x]] | w # ws \<Rightarrow> (x # w) # ws)"

lemma SplitByte_nonempty [simp]: "SplitByte s c \<noteq> []"
  by (induction s) (auto split: list.splits)

lemma hd_SplitByte: "hd (SplitByte s c) = takeWhile (\<lambda>x. x \<noteq> c) s"
  by (induction s) (auto split: list.splits)

lemma SplitByte_append: "SplitByte (s @ c # t) c = SplitByte s c @ SplitByte t c"
  by (induction s) (auto split: list.splits)

lemma SplitByte_none: "c \<notin> set s \<Longrightarrow> SplitByte s c = [s]"
  by (induction s) auto

lemma SplitByte_pieces: "w \<in> set (SplitByte s c) \<Longrightarrow> c \<notin> set w"
  by (induction s arbitrary: w) (fastforce split: list.splits if_splits)+

section \<open>Letter case\<close>

definition lower_char :: "char \<Rightarrow> char" where
  "lower_char c = (if 65 \<le> (of_char c :: nat) \<and> (of_char c :: nat) \<le> 90
     then char_of (of_char c + 32 :: nat) else c)"

definition ToLower :: "string \<Rightarrow> string" where
  "ToLower s = map lower_char s"

text \<open>
  \<open>strings.EqualFold s t\<close> for \<open>t\<close> in ASCII: letters are compared without case, and U+212A (Kelvin,
  bytes E2 84 AA) folds to \<open>k\<close>, U+017F (long s, bytes C5 BF) to \<open>s\<close>.
\<close>

function EqualFold :: "string \<Rightarrow> string \<Rightarrow> bool" where
  "EqualFold s [] = (s = [])"
| "EqualFold s (c # t) =
     (if s \<noteq> [] \<and> lower_char (hd s) = lower_char c then EqualFold (tl s) t
      else if lower_char c = CHR ''k'' \<and> HasPrefix s [CHR 0xE2, CHR 0x84, CHR 0xAA]
        then EqualFold (drop 3 s) t
      else if lower_char c = CHR ''s'' \<and> HasPrefix s [CHR 0xC5, CHR 0xBF]
        then EqualFold (drop 2 s) t
      else False)"
  by pat_completeness auto
termination
  by (relation "measure (\<lambda>(s, t). length t)") auto

lemma EqualFold_refl: "EqualFold s s"
  by (induction s) auto

section \<open>White space\<close>

definition space_encodings :: "string list" where
  "space_encodings =
     [[CHR 0x09], [CHR 0x0A], [CHR 0x0B], [CHR 0x0C], [CHR 0x0D], [CHR 0x20],
      [CHR 0xC2, CHR 0x85], [CHR 0xC2, CHR 0xA0], [CHR 0xE1, CHR 0x9A, CHR 0x80],
      [CHR 0xE2, CHR 0x80, CHR 0x80], [CHR 0xE2, CHR 0x80, CHR 0x81],
      [CHR 0xE2, CHR 0x80, CHR 0x82], [CHR 0xE2, CHR 0x80, CHR 0x83],
      [CHR 0xE2, CHR 0x80, CHR 0x84], [CHR 0xE2, CHR 0x80, CHR 0x85],
      [CHR 0xE2, CHR 0x80, CHR 0x86], [CHR 0xE2, CHR 0x80, CHR 0x87],
      [CHR 0xE2, CHR 0x80, CHR 0x88], [CHR 0xE2, CHR 0x80, CHR 0x89],
      [CHR 0xE2, CHR 0x80, CHR 0x8A], [CHR 0xE2, CHR 0x80, CHR 0xA8],
      [CHR 0xE2, CHR 0x80, CHR 0xA9], [CHR 0xE2, CHR 0x80, CHR 0xAF],
      [CHR 0xE2, CHR 0x81, CHR 0x9F], [CHR 0xE3, CHR 0x80, CHR 0x80]]"

lemma space_encodings_nonempty: "e \<in> set space_encodings \<Longrightarrow> 0 < length e"
  by (auto simp: space_encodings_def)

text \<open>Strip the encodings of a list from the left, as long as one of them is a prefix.\<close>

function strip_left :: "string list \<Rightarrow> string \<Rightarrow> string" where
  "strip_left es s =
     (case find (\<lambda>e. e \<noteq> [] \<and> HasPrefix s e) es of
        None \<Rightarrow> s
      | Some e \<Rightarrow> strip_left es (drop (length e) s))"
  by pat_completeness auto
termination
proof (relation "measure (\<lambda>(es, s). length s)", simp)
  fix es s e
  assume "find (\<lambda>e. e \<noteq> [] \<and> HasPrefix s e) es = Some e"
  then have "e \<noteq> []" "HasPrefix s e"
    by (auto simp: find_Some_iff)
  then have "0 < length e" "length e \<le> length s"
    by (auto simp: HasPrefix_iff_prefix prefix_length_le)
  then show "((es, drop (length e) s), es, s) \<in> measure (\<lambda>(es, s). length s)"
    by (simp del: length_greater_0_conv)
qed

declare strip_left.simps [simp del]

definition TrimSpace :: "string \<Rightarrow> string" where
  "TrimSpace s = rev (strip_left (map rev space_encodings) (rev (strip_left space_encodings s)))"

lemma strip_left_none: "find (\<lambda>e. e \<noteq> [] \<and> HasPrefix s e) es = None \<Longrightarrow> strip_left es s = s"
  by (simp add: strip_left.simps)

lemma strip_left_suffix: "suffix (strip_left es s) s"
proof (induction es s rule: strip_left.induct)
  case (1 es s)
  show ?case
  proof (cases "find (\<lambda>e. e \<noteq> [] \<and> HasPrefix s e) es")
    case None
    then show ?thesis by (simp add: strip_left_none)
  next
    case (Some e)
    with "1.IH" have "suffix (strip_left es (drop (length e) s)) (drop (length e) s)"
      by simp
    then have "suffix (strip_left es (drop (length e) s)) s"
      using suffix_drop suffix_order.trans by blast
    with Some show ?thesis by (simp add: strip_left.simps [of es s])
  qed
qed

lemma strip_left_clean: "find (\<lambda>e. e \<noteq> [] \<and> HasPrefix (strip_left es s) e) es = None"
proof (induction es s rule: strip_left.induct)
  case (1 es s)
  then show ?case
    by (cases "find (\<lambda>e. e \<noteq> [] \<and> HasPrefix s e) es")
      (simp_all add: strip_left.simps [of es s])
qed

end
