(* ===== verification/Http.thy ===== *)
theory Http
  imports GoStrings
begin

text \<open>
  What the modelled handlers read of an \<open>http.Request\<close>: method, path, remote address, the first value
  of a header, a query parameter and a cookie. \<open>Header.Get\<close> and \<open>Query().Get\<close> return the empty
  string for an absent name, \<open>Cookie\<close> an error (here \<open>None\<close>).
\<close>

record request =
  Method :: string
  Path :: string
  RemoteAddr :: string
  Header :: "string \<Rightarrow> string"
  Query :: "string \<Rightarrow> string"
  Cookie :: "string \<Rightarrow> string option"

definition MethodGet :: string where "MethodGet = ''GET''"
definition MethodHead :: string where "MethodHead = ''HEAD''"
definition MethodPost :: string where "MethodPost = ''POST''"
definition MethodPut :: string where "MethodPut = ''PUT''"
definition MethodPatch :: string where "MethodPatch = ''PATCH''"
definition MethodDelete :: string where "MethodDelete = ''DELETE''"

lemmas method_defs = MethodGet_def MethodHead_def MethodPost_def MethodPut_def MethodPatch_def MethodDelete_def

text \<open>A request with no headers, query or cookies.\<close>

definition plain_request :: "string \<Rightarrow> string \<Rightarrow> request" where
  "plain_request m p = \<lparr>Method = m, Path = p, RemoteAddr = '''', Header = (\<lambda>_. ''''),
     Query = (\<lambda>_. ''''), Cookie = (\<lambda>_. None)\<rparr>"

end
