(* ===== verification/DemoGate.thy ===== *)
theory DemoGate
  imports Http
begin

text \<open>
  The public demo's gate: \<^verbatim>\<open>internal/api/demo_mode.go\<close> and the wrapper in \<^verbatim>\<open>Router.ServeHTTP\<close>
  (\<^verbatim>\<open>internal/api/api.go\<close>). The gate is a predicate on the request; the wrapper lets a request
  through to the router's handler, a parameter here, only when the gate allows it or demo mode
  is off. The lemmas show that the gate denies by default: what passes is a read of an allowlisted
  path or one of three session POSTs, never an upgrade and never a path that reaches a shell.
\<close>

section \<open>The switch\<close>

text \<open>
  \<open>demoMode\<close> reads the environment inside a \<open>sync.Once\<close>: the state is the answer of the first call,
  if there was one, and the argument the value of DEMO_MODE at the time of the call.
\<close>

definition demo_enabled_by :: "string \<Rightarrow> bool" where
  "demo_enabled_by env =
     (let v = TrimSpace env in v \<noteq> '''' \<and> v \<noteq> ''0'' \<and> \<not> EqualFold v ''false'')"

fun demoMode :: "bool option \<Rightarrow> string \<Rightarrow> bool \<times> bool option" where
  "demoMode None env = (demo_enabled_by env, Some (demo_enabled_by env))"
| "demoMode (Some b) env = (b, Some b)"

section \<open>The lists\<close>

definition demoReadableAPI :: "string list" where
  "demoReadableAPI =
     [''/api/health'', ''/api/metrics'', ''/api/system'', ''/api/docker'', ''/api/deploy'',
      ''/api/scheduler'', ''/api/audit'', ''/api/queue'', ''/api/procs'', ''/api/nodes'',
      ''/api/proxmox'', ''/api/gameservers'', ''/api/todos'', ''/api/user/prefs'',
      ''/api/auth/session'', ''/api/auth/me'']"

definition demoPublicPrefixes :: "string list" where
  "demoPublicPrefixes =
     [''/assets/'', ''/vendor/'', ''/fonts/'', ''/icon-'', ''/apple-touch-icon'',
      ''/favicon'', ''/manifest.webmanifest'', ''/sw.js'', ''/_docs'',
      ''/tailwind.css'', ''/telemetry.js'']"

definition demoWritablePaths :: "string list" where
  "demoWritablePaths =
     [''/api/auth/login'', ''/api/auth/refresh-cookie'', ''/api/auth/logout'']"

definition demoDeniedPrefixes :: "string list" where
  "demoDeniedPrefixes =
     [''/recovery'', ''/_code/'', ''/_port/'', ''/browser/'', ''/browser-persistent/'',
      ''/ws/'', ''/_internal/'', ''/api/agent/hook'', ''/metrics'']"

section \<open>The rules\<close>

fun hasAnyPrefix :: "string \<Rightarrow> string list \<Rightarrow> bool" where
  "hasAnyPrefix path [] = False"
| "hasAnyPrefix path (p # ps) = (if HasPrefix path p then True else hasAnyPrefix path ps)"

lemma hasAnyPrefix_iff: "hasAnyPrefix path ps \<longleftrightarrow> (\<exists>p\<in>set ps. HasPrefix path p)"
  by (induction ps) auto

definition demoAllows :: "request \<Rightarrow> bool" where
  "demoAllows req =
     (let path = Path req in
      if hasAnyPrefix path demoDeniedPrefixes then False
      else if EqualFold (Header req ''Upgrade'') ''websocket'' then False
      else if Method req = MethodGet \<or> Method req = MethodHead then
        (if path = ''/'' \<or> \<not> HasPrefix path ''/api/''
         then hasAnyPrefix path demoPublicPrefixes \<or> path = ''/'' \<or>
              path = ''/android/install'' \<or> path = ''/.well-known/assetlinks.json''
         else hasAnyPrefix path demoReadableAPI)
      else if Method req = MethodPost then path \<in> set demoWritablePaths
      else False)"

section \<open>The wrapper\<close>

record response =
  RespStatus :: nat
  RespHeader :: "(string \<times> string) list"
  Body :: "(string \<times> string) list"

definition demoDeny :: response where
  "demoDeny = \<lparr>RespStatus = 403,
     RespHeader = [(''Content-Type'', ''application/json; charset=utf-8''),
       (''X-Demo-Mode'', ''read-only'')],
     Body = [(''error'', ''read-only demo''), (''demo'', ''true''),
       (''hint'', ''This public demo serves fabricated data and refuses writes, terminals and shell access. For the full thing, run it yourself without DEMO_MODE (see 'Running it for real' in the README).'')]\<rparr>"

text \<open>
  \<open>Router.ServeHTTP\<close>: the inner handler works on a server state; a denied request leaves it alone.
\<close>

definition ServeHTTP ::
  "('s \<Rightarrow> request \<Rightarrow> 's \<times> response) \<Rightarrow> bool option \<Rightarrow> string \<Rightarrow> 's \<Rightarrow> request
    \<Rightarrow> ('s \<times> response) \<times> bool option" where
  "ServeHTTP handler once env s req =
     (let (on, once') = demoMode once env in
      if on \<and> \<not> demoAllows req then ((s, demoDeny), once') else (handler s req, once'))"

section \<open>Lemmas\<close>

lemma demoDeny_status [simp]: "RespStatus demoDeny = 403"
  by (simp add: demoDeny_def)

lemma demoMode_once: "demoMode once env = (b, once') \<Longrightarrow> demoMode once' env' = (b, Some b)"
  by (cases once) auto

lemma not_any_prefix:
  assumes "HasPrefix path fam" and "\<forall>p\<in>set ps. \<not> HasPrefix fam p \<and> \<not> HasPrefix p fam"
  shows "\<not> hasAnyPrefix path ps"
  using assms by (auto simp: hasAnyPrefix_iff dest: prefixes_comparable)

lemma demoAllows_not_denied:
  "demoAllows req \<Longrightarrow> \<not> hasAnyPrefix (Path req) demoDeniedPrefixes"
  by (simp only: demoAllows_def Let_def simp_thms split: if_split_asm)

lemma demoAllows_no_upgrade:
  "demoAllows req \<Longrightarrow> \<not> EqualFold (Header req ''Upgrade'') ''websocket''"
  by (simp only: demoAllows_def Let_def simp_thms split: if_split_asm)

lemma demoAllows_method:
  "demoAllows req \<Longrightarrow>
    (Method req = MethodGet \<or> Method req = MethodHead) \<or>
    (Method req = MethodPost \<and> Path req \<in> set demoWritablePaths)"
  by (simp only: demoAllows_def Let_def simp_thms split: if_split_asm)

lemma demoAllows_api:
  "demoAllows req \<Longrightarrow> HasPrefix (Path req) ''/api/'' \<Longrightarrow> Path req \<noteq> ''/'' \<Longrightarrow>
    hasAnyPrefix (Path req) demoReadableAPI \<or> Path req \<in> set demoWritablePaths"
  by (simp only: demoAllows_def Let_def simp_thms split: if_split_asm)

text \<open>The families the source says it leaves out on purpose.\<close>

definition demo_excluded :: "string list" where
  "demo_excluded =
     [''/api/terminal'', ''/api/claude'', ''/api/users'', ''/api/backup'', ''/api/admin'',
      ''/api/session'', ''/api/notify'', ''/api/jira'', ''/api/videocall'', ''/api/whatsapp'',
      ''/api/datasaver'', ''/api/tunnel'', ''/api/private-ai'', ''/api/adguard'',
      ''/api/browser-instances'', ''/api/ai'']"

lemma excluded_not_readable:
  "fam \<in> set demo_excluded \<Longrightarrow>
     \<forall>p\<in>set demoReadableAPI. \<not> HasPrefix fam p \<and> \<not> HasPrefix p fam"
  by (auto simp: demo_excluded_def demoReadableAPI_def)

lemma excluded_not_writable:
  "fam \<in> set demo_excluded \<Longrightarrow> \<forall>p\<in>set demoWritablePaths. \<not> HasPrefix p fam"
  by (auto simp: demo_excluded_def demoWritablePaths_def)

lemma excluded_is_api: "fam \<in> set demo_excluded \<Longrightarrow> HasPrefix fam ''/api/''"
  by (auto simp: demo_excluded_def)

lemma HasPrefix_trans: "HasPrefix s p \<Longrightarrow> HasPrefix p q \<Longrightarrow> HasPrefix s q"
  by (simp add: HasPrefix_iff_prefix)

text \<open>
  C37. In demo mode a request reaches the router's handler only if it is a plain read (GET or HEAD)
  or one of the three session POSTs, asks for no WebSocket upgrade and is on no path that reaches
  a shell; every other request is answered 403 and changes no server state.
\<close>

theorem demo_gate_readonly:
  assumes "demo_enabled_by env" and "ServeHTTP handler None env s req = ((s', resp), once')"
  shows "(s' = s \<and> resp = demoDeny \<and> RespStatus resp = 403) \<or>
     ((s', resp) = handler s req \<and>
      (Method req \<in> {MethodGet, MethodHead} \<or>
       (Method req = MethodPost \<and> Path req \<in> set demoWritablePaths)) \<and>
      \<not> EqualFold (Header req ''Upgrade'') ''websocket'' \<and>
      (\<nexists>p. p \<in> set demoDeniedPrefixes \<and> HasPrefix (Path req) p))"
proof (cases "demoAllows req")
  case False
  with assms show ?thesis
    by (simp add: ServeHTTP_def)
next
  case True
  with assms have "(s', resp) = handler s req"
    by (simp add: ServeHTTP_def)
  with True show ?thesis
    using demoAllows_not_denied demoAllows_no_upgrade demoAllows_method
    by (auto simp only: hasAnyPrefix_iff)
qed

theorem demo_gate_readonly_witness:
  "demo_enabled_by ''1'' \<and>
   (let handler = (\<lambda>(n::nat) r. (n + 1, demoDeny));
        r = ServeHTTP handler None ''1'' 7 (plain_request ''DELETE'' ''/api/docker/containers'')
    in fst r = (7, demoDeny))"
proof -
  let ?h = "\<lambda>(n::nat) r::request. (n + 1, demoDeny)"
  let ?req = "plain_request ''DELETE'' ''/api/docker/containers''"
  have "strip_left es ''1'' = ''1''" if "\<forall>e\<in>set es. hd e \<noteq> CHR ''1''" for es
    using that by (intro strip_left_none) (auto simp: find_None_iff HasPrefix_def take_Cons split: nat.splits list.splits)
  then have "TrimSpace ''1'' = ''1''"
    by (simp add: TrimSpace_def space_encodings_def)
  then have on: "demo_enabled_by ''1''"
    by (simp add: demo_enabled_by_def lower_char_def)
  obtain s' resp once' where r: "ServeHTTP ?h None ''1'' 7 ?req = ((s', resp), once')"
    by (metis surj_pair)
  from demo_gate_readonly [OF on r] have "(s', resp) = (7, demoDeny)"
    by (auto simp: plain_request_def method_defs)
  with on r show ?thesis by (simp add: Let_def)
qed

text \<open>
  The families the source leaves out of the allowlist on purpose (terminals, agents, accounts,
  backups, the secret vault, sessions, notification channels and the unconfigured subsystems) are
  refused for every method, header and sub-path.
\<close>

theorem demo_excluded_families_refused:
  assumes "fam \<in> set demo_excluded" and "HasPrefix (Path req) fam"
  shows "\<not> demoAllows req"
proof -
  have "\<not> hasAnyPrefix (Path req) demoReadableAPI"
    using assms excluded_not_readable not_any_prefix by blast
  moreover have "Path req \<notin> set demoWritablePaths"
    using assms excluded_not_writable by blast
  moreover have "HasPrefix (Path req) ''/api/''"
    using assms excluded_is_api HasPrefix_trans by blast
  moreover from this have "Path req \<noteq> ''/''" by auto
  ultimately show ?thesis
    using demoAllows_api by blast
qed

theorem demo_excluded_families_refused_witness:
  "\<not> demoAllows (plain_request ''GET'' ''/api/admin/secrets'')"
  using demo_excluded_families_refused [of "''/api/admin''" "plain_request ''GET'' ''/api/admin/secrets''"]
  by (simp add: demo_excluded_def plain_request_def)

end
