(* ===== verification/JobQueue.thy ===== *)
theory JobQueue
  imports GoStrings
begin

text \<open>
  The background-job queue, \<^verbatim>\<open>internal/queue/queue.go\<close>: its data, and one definition per critical
  section or method. A \<^verbatim>\<open>*Job\<close> is an address in an explicit heap, because \<open>Enqueue\<close>, \<open>Rerun\<close>, the
  workers and the reaper keep pointers to a job across releases of \<^verbatim>\<open>q.mu\<close> while other goroutines
  change or remove it. The clock, the result of the detach launcher, the liveness of a systemd
  scope and the outcome of the log file's creation are arguments.

  \<^verbatim>\<open>state.json\<close> is the field \<open>disk\<close>: the job records by id, without the two unexported fields, and
  the id history. The JSON array's order is that of a Go map and \<open>load\<close> puts it back into a map, so
  the array is modelled by the map. A write that fails at any step leaves the file as it was;
  \<open>diskOK\<close> says whether writes currently succeed.
\<close>

section \<open>Data\<close>

datatype status =
    StatusQueued | StatusRunning | StatusDone | StatusFailed | StatusCancelled
  | StatusInterrupted
  | StatusOther string  \<comment> \<open>any other string, e.g. the empty one, decoded from a status file\<close>

record job =
  ID :: string
  Kind :: string
  Args :: string
  Owner :: string
  Status :: status
  Progress :: int
  Step :: string
  LogPath :: string
  Error :: string
  Queued :: secs
  Started :: secs
  Finished :: secs
  Source :: string
  Scope :: string
  cancel :: "nat option"
  notifiedTerminal :: bool

record DetachedStatus =
  dStatus :: status
  dProgress :: int
  dStep :: string
  dError :: string
  dStarted :: secs
  dFinished :: secs

datatype event =
    EvStatus string status secs
  | EvProgress string int secs
  | EvStep string string secs
  | EvLog string string secs

datatype qerror = ErrUnknownKind | ErrNotFound | ErrConflict | ErrIO | ErrCorrupt

record stored =
  sJobs :: "string \<rightharpoonup> job"
  sOrder :: "string list"

text \<open>
  A listener is a channel with capacity 64, identified by a number. \<open>cancelled\<close> is the set of
  contexts whose cancel function was called, \<open>notified\<close> the calls of the terminal hook so far,
  \<open>scopeStops\<close> the scopes that were asked to stop, \<open>senders\<close> the goroutines blocked on the full
  \<open>pending\<close> channel.
\<close>

record queue =
  maxKeep :: nat
  heap :: "nat \<Rightarrow> job"
  nextRef :: nat
  jobs :: "string \<rightharpoonup> nat"
  order :: "string list"
  pending :: "string list"
  senders :: "string list"
  runners :: "string set"
  detachKinds :: "string set"
  detachLauncher :: bool
  notifier :: bool
  notified :: "(nat \<times> job) list"
  hub :: "string \<Rightarrow> (nat \<times> event list) list"
  nextChan :: nat
  nextCtx :: nat
  cancelled :: "nat set"
  scopeStops :: "string list"
  detached :: "string \<rightharpoonup> DetachedStatus"
  logs :: "string \<rightharpoonup> string"
  disk :: "stored option"
  diskOK :: bool
  shutdown :: bool

section \<open>Small helpers of the source\<close>

definition detachStartupGrace :: secs where
  "detachStartupGrace = 15"

definition pendingCap :: nat where "pendingCap = 256"

definition listenerCap :: nat where "listenerCap = 64"

fun isTerminal :: "status \<Rightarrow> bool" where
  "isTerminal StatusDone = True"
| "isTerminal StatusFailed = True"
| "isTerminal StatusCancelled = True"
| "isTerminal StatusInterrupted = True"
| "isTerminal _ = False"

definition SafeToResume :: "string \<Rightarrow> bool" where
  "SafeToResume kind \<longleftrightarrow> kind \<in>
     {''apt_upgrade'', ''docker_pull'', ''docker_compose_pull'', ''image_prune'', ''backup_now''}"

text \<open>\<open>fmt.Sprintf("j_%x", now.UnixNano())\<close>\<close>

definition hex_digit :: "nat \<Rightarrow> char" where
  "hex_digit n = (if n < 10 then char_of (48 + n) else char_of (87 + n))"

fun hex :: "nat \<Rightarrow> string" where
  "hex n = (if n < 16 then [hex_digit n] else hex (n div 16) @ [hex_digit (n mod 16)])"

declare hex.simps [simp del]

definition job_id :: "nanos \<Rightarrow> string" where
  "job_id now = ''j_'' @ hex (nat now)"

definition log_path :: "string \<Rightarrow> string" where
  "log_path i = ''runs/'' @ i @ ''.log''"

section \<open>The heap, the file and the listeners\<close>

definition setj :: "nat \<Rightarrow> (job \<Rightarrow> job) \<Rightarrow> queue \<Rightarrow> queue" where
  "setj r f q = q\<lparr>heap := (heap q)(r := f (heap q r))\<rparr>"

definition persisted :: "job \<Rightarrow> job" where
  "persisted j = j\<lparr>cancel := None, notifiedTerminal := False\<rparr>"

definition snapshot_state :: "queue \<Rightarrow> stored" where
  "snapshot_state q =
     \<lparr>sJobs = (\<lambda>i. map_option (\<lambda>r. persisted (heap q r)) (jobs q i)), sOrder = order q\<rparr>"

definition persistLocked :: "queue \<Rightarrow> queue" where
  "persistLocked q = (if diskOK q then q\<lparr>disk := Some (snapshot_state q)\<rparr> else q)"

definition broadcast :: "string \<Rightarrow> event \<Rightarrow> queue \<Rightarrow> queue" where
  "broadcast i ev q =
     q\<lparr>hub := (hub q)(i := map (\<lambda>(c, buf). (c, if length buf < listenerCap then buf @ [ev] else buf))
       (hub q i))\<rparr>"

definition Subscribe :: "string \<Rightarrow> queue \<Rightarrow> nat \<times> queue" where
  "Subscribe i q =
     (nextChan q, q\<lparr>hub := (hub q)(i := hub q i @ [(nextChan q, [])]), nextChan := Suc (nextChan q)\<rparr>)"

fun remove_chan :: "nat \<Rightarrow> (nat \<times> event list) list \<Rightarrow> (nat \<times> event list) list" where
  "remove_chan c [] = []"
| "remove_chan c (x # xs) = (if fst x = c then xs else x # remove_chan c xs)"

definition unsubscribe :: "string \<Rightarrow> nat \<Rightarrow> queue \<Rightarrow> queue" where
  "unsubscribe i c q = q\<lparr>hub := (hub q)(i := remove_chan c (hub q i))\<rparr>"

definition pushPending :: "string \<Rightarrow> queue \<Rightarrow> queue" where
  "pushPending i q =
     (if length (pending q) < pendingCap then q\<lparr>pending := pending q @ [i]\<rparr>
      else q\<lparr>senders := senders q @ [i]\<rparr>)"

text \<open>A blocked sender gets a free slot of the channel.\<close>

definition unblock :: "nat \<Rightarrow> queue \<Rightarrow> queue" where
  "unblock n q =
     (if n < length (senders q) \<and> length (pending q) < pendingCap
      then q\<lparr>pending := pending q @ [senders q ! n],
             senders := take n (senders q) @ drop (Suc n) (senders q)\<rparr>
      else q)"

section \<open>The terminal hook\<close>

definition notifyTerminalLocked :: "nat \<Rightarrow> queue \<Rightarrow> queue" where
  "notifyTerminalLocked r q =
     (if \<not> notifier q then q
      else if \<not> isTerminal (Status (heap q r)) \<or> notifiedTerminal (heap q r) then q
      else let q1 = setj r (\<lambda>j. j\<lparr>notifiedTerminal := True\<rparr>) q
           in q1\<lparr>notified := notified q1 @ [(r, heap q1 r)]\<rparr>)"

section \<open>Registration\<close>

definition Register :: "string \<Rightarrow> queue \<Rightarrow> queue" where
  "Register kind q = q\<lparr>runners := insert kind (runners q)\<rparr>"

definition SetDetach :: "bool \<Rightarrow> string list \<Rightarrow> queue \<Rightarrow> queue" where
  "SetDetach launcher kinds q = q\<lparr>detachLauncher := launcher, detachKinds := set kinds\<rparr>"

definition SetNotifier :: "bool \<Rightarrow> queue \<Rightarrow> queue" where
  "SetNotifier fn q = q\<lparr>notifier := fn\<rparr>"

section \<open>History pruning\<close>

definition drop_job :: "string \<Rightarrow> job \<Rightarrow> queue \<Rightarrow> queue" where
  "drop_job i j q =
     q\<lparr>jobs := (jobs q)(i := None), logs := (logs q)(LogPath j := None),
       detached := (detached q)(i := None)\<rparr>"

text \<open>\<open>n\<close> is \<^verbatim>\<open>len(q.order)\<close> at the start, \<open>d\<close> the number dropped so far.\<close>

fun prune_loop :: "nat \<Rightarrow> nat \<Rightarrow> string list \<Rightarrow> queue \<Rightarrow> queue \<times> string list" where
  "prune_loop n d [] q = (q, [])"
| "prune_loop n d (i # is) q =
     (case jobs q i of
        None \<Rightarrow> (case prune_loop n d is q of (q', keep) \<Rightarrow> (q', i # keep))
      | Some r \<Rightarrow>
          if isTerminal (Status (heap q r)) \<and> n - d > maxKeep q
          then prune_loop n (Suc d) is (drop_job i (heap q r) q)
          else (case prune_loop n d is q of (q', keep) \<Rightarrow> (q', i # keep)))"

definition pruneLocked :: "queue \<Rightarrow> queue" where
  "pruneLocked q =
     (if length (order q) \<le> maxKeep q then q
      else case prune_loop (length (order q)) 0 (order q) q of (q', keep) \<Rightarrow> q'\<lparr>order := keep\<rparr>)"

section \<open>Submission\<close>

definition new_job :: "nanos \<Rightarrow> string \<Rightarrow> string \<Rightarrow> string \<Rightarrow> string \<Rightarrow> job" where
  "new_job now kind args owner source =
     \<lparr>ID = job_id now, Kind = kind, Args = args, Owner = owner, Status = StatusQueued, Progress = 0,
      Step = '''', LogPath = log_path (job_id now), Error = '''', Queued = unix now, Started = 0,
      Finished = 0, Source = source, Scope = '''', cancel = None, notifiedTerminal = False\<rparr>"

definition alloc :: "job \<Rightarrow> queue \<Rightarrow> nat \<times> queue" where
  "alloc j q = (nextRef q, q\<lparr>heap := (heap q)(nextRef q := j), nextRef := Suc (nextRef q)\<rparr>)"

text \<open>The first critical sections of \<open>Enqueue\<close>: registry check, insertion, pruning, persistence.\<close>

definition enqueue_insert ::
  "nanos \<Rightarrow> string \<Rightarrow> string \<Rightarrow> string \<Rightarrow> string \<Rightarrow> queue \<Rightarrow> qerror + (nat \<times> queue)" where
  "enqueue_insert now kind args owner source q =
     (if kind \<notin> runners q then Err ErrUnknownKind
      else let j = new_job now kind args owner source;
               (r, q1) = alloc j q;
               q2 = q1\<lparr>jobs := (jobs q1)(ID j \<mapsto> r), order := order q1 @ [ID j]\<rparr>
           in Ok (r, persistLocked (pruneLocked q2)))"

text \<open>
  \<open>dispatch\<close>: \<open>launched\<close> is what the launcher returned when it is called, the scope's name or an
  error.
\<close>

definition dispatch :: "nanos \<Rightarrow> string option \<Rightarrow> nat \<Rightarrow> queue \<Rightarrow> queue" where
  "dispatch now launched r q =
     (let j = heap q r in
      if Kind j \<in> detachKinds q \<and> detachLauncher q then
        let q1 = q\<lparr>detached := (detached q)(ID j := None)\<rparr> in
        (case launched of
           Some scope \<Rightarrow>
             if scope \<noteq> '''' then
               let q2 = persistLocked (setj r (\<lambda>j. j\<lparr>Scope := scope, Status := StatusRunning,
                          Started := unix now\<rparr>) q1)
               in broadcast (ID j) (EvStatus (ID j) StatusRunning (unix now)) q2
             else pushPending (ID j) (persistLocked (setj r (\<lambda>j. j\<lparr>Scope := ''''\<rparr>) q1))
         | None \<Rightarrow> pushPending (ID j) (persistLocked (setj r (\<lambda>j. j\<lparr>Scope := ''''\<rparr>) q1)))
      else pushPending (ID j) q)"

definition snapshot :: "string \<Rightarrow> queue \<Rightarrow> job option" where
  "snapshot i q = map_option (\<lambda>r. (heap q r)\<lparr>cancel := None\<rparr>) (jobs q i)"

text \<open>The whole of \<open>Enqueue\<close>, when no other goroutine runs in between.\<close>

definition Enqueue ::
  "nanos \<Rightarrow> string option \<Rightarrow> string \<Rightarrow> string \<Rightarrow> string \<Rightarrow> string \<Rightarrow> queue \<Rightarrow> qerror + (job \<times> queue)"
where
  "Enqueue now launched kind args owner source q =
     (case enqueue_insert now kind args owner source q of
        Err e \<Rightarrow> Err e
      | Ok (r, q1) \<Rightarrow>
          let q2 = dispatch now launched r q1 in
          Ok (case snapshot (ID (heap q2 r)) q2 of Some j \<Rightarrow> j | None \<Rightarrow> heap q2 r, q2))"

section \<open>Queries\<close>

definition Get :: "string \<Rightarrow> queue \<Rightarrow> qerror + job" where
  "Get i q = (case jobs q i of None \<Rightarrow> Err ErrNotFound | Some r \<Rightarrow> Ok ((heap q r)\<lparr>cancel := None\<rparr>))"

definition cut :: "int \<Rightarrow> 'a list \<Rightarrow> 'a list" where
  "cut limit xs = (if 0 < limit \<and> limit < int (length xs) then take (nat limit) xs else xs)"

definition list_jobs :: "(job \<Rightarrow> bool) \<Rightarrow> queue \<Rightarrow> job list" where
  "list_jobs P q =
     concat (map (\<lambda>i. case jobs q i of
               None \<Rightarrow> []
             | Some r \<Rightarrow> if P (heap q r) then [(heap q r)\<lparr>cancel := None\<rparr>] else []) (order q))"

definition List_jobs :: "string \<Rightarrow> status \<Rightarrow> int \<Rightarrow> queue \<Rightarrow> job list" where
  "List_jobs owner st limit q =
     cut limit (sort_desc Queued (list_jobs (\<lambda>j.
       \<not> (owner \<noteq> '''' \<and> Owner j \<noteq> owner) \<and> \<not> (st \<noteq> StatusOther '''' \<and> Status j \<noteq> st)) q))"

definition ListBySource :: "string set \<Rightarrow> int \<Rightarrow> queue \<Rightarrow> job list" where
  "ListBySource sources limit q =
     cut limit (sort_desc Queued (list_jobs (\<lambda>j. Source j \<in> sources) q))"

text \<open>\<open>Counts\<close> ranges over the map; \<open>is\<close> is the order in which it does.\<close>

fun Counts :: "string list \<Rightarrow> queue \<Rightarrow> nat \<times> nat" where
  "Counts [] q = (0, 0)"
| "Counts (i # is) q =
     (let (running, queued) = Counts is q in
      case jobs q i of
        None \<Rightarrow> (running, queued)
      | Some r \<Rightarrow>
          if Status (heap q r) = StatusRunning
          then (if Scope (heap q r) = '''' then Suc running else running, queued)
          else if Status (heap q r) = StatusQueued then (running, Suc queued)
          else (running, queued))"

definition ReadLog :: "string \<Rightarrow> int \<Rightarrow> queue \<Rightarrow> qerror + string" where
  "ReadLog i maxBytes q =
     (case jobs q i of
        None \<Rightarrow> Err ErrNotFound
      | Some r \<Rightarrow>
          if LogPath (heap q r) = '''' then Ok ''''
          else case logs q (LogPath (heap q r)) of
                 None \<Rightarrow> Ok ''''
               | Some s \<Rightarrow>
                   Ok (if 0 < maxBytes \<and> int (length s) > maxBytes
                       then drop (length s - nat maxBytes) s else s))"

section \<open>Cancel, delete, rerun\<close>

definition Cancel :: "nanos \<Rightarrow> string \<Rightarrow> queue \<Rightarrow> qerror + queue" where
  "Cancel now i q =
     (case jobs q i of
        None \<Rightarrow> Err ErrNotFound
      | Some r \<Rightarrow>
          let j = heap q r in
          if Status j = StatusDone \<or> Status j = StatusFailed \<or> Status j = StatusCancelled \<or>
             Status j = StatusInterrupted
          then Ok q
          else
            let scope = (if Scope j \<noteq> '''' \<and> Status j = StatusRunning then Scope j else '''');
                q1 = (if Status j = StatusQueued \<or> scope \<noteq> ''''
                      then notifyTerminalLocked r (persistLocked
                             (setj r (\<lambda>j. j\<lparr>Status := StatusCancelled, Finished := unix now\<rparr>) q))
                      else q);
                q2 = (case cancel j of None \<Rightarrow> q1
                      | Some c \<Rightarrow> q1\<lparr>cancelled := insert c (cancelled q1)\<rparr>);
                q3 = (if scope \<noteq> '''' then q2\<lparr>scopeStops := scopeStops q2 @ [scope]\<rparr> else q2)
            in Ok (broadcast i (EvStatus i StatusCancelled (unix now)) q3))"

definition Delete :: "string \<Rightarrow> queue \<Rightarrow> qerror + queue" where
  "Delete i q =
     (case jobs q i of
        None \<Rightarrow> Err ErrNotFound
      | Some r \<Rightarrow>
          let j = heap q r in
          if Status j = StatusQueued \<or> Status j = StatusRunning then Err ErrConflict
          else
            let q1 = q\<lparr>jobs := (jobs q)(i := None), order := filter (\<lambda>x. x \<noteq> i) (order q)\<rparr>;
                q2 = (if LogPath j \<noteq> '''' then q1\<lparr>logs := (logs q1)(LogPath j := None)\<rparr> else q1)
            in Ok (persistLocked (q2\<lparr>detached := (detached q2)(i := None)\<rparr>)))"

text \<open>The critical section of \<open>Rerun\<close>; \<open>dispatch\<close> follows after the lock is released.\<close>

definition rerun_reset :: "nanos \<Rightarrow> string \<Rightarrow> queue \<Rightarrow> qerror + (nat \<times> queue)" where
  "rerun_reset now i q =
     (case jobs q i of
        None \<Rightarrow> Err ErrNotFound
      | Some r \<Rightarrow>
          if Status (heap q r) = StatusQueued \<or> Status (heap q r) = StatusRunning then Err ErrConflict
          else if Kind (heap q r) \<notin> runners q then Err ErrUnknownKind
          else
            let q1 = persistLocked (setj r (\<lambda>j. j\<lparr>Status := StatusQueued, Progress := 0,
                       Error := '''', Started := 0, Finished := 0, Step := '''', Scope := '''',
                       Queued := unix now, cancel := None\<rparr>) q)
            in Ok (r, broadcast i (EvStatus i StatusQueued (unix now)) q1))"

definition Rerun :: "nanos \<Rightarrow> string option \<Rightarrow> string \<Rightarrow> queue \<Rightarrow> qerror + (job \<times> queue)" where
  "Rerun now launched i q =
     (case rerun_reset now i q of
        Err e \<Rightarrow> Err e
      | Ok (r, q1) \<Rightarrow>
          let q2 = dispatch now launched r q1 in
          Ok (case snapshot i q2 of Some j \<Rightarrow> j | None \<Rightarrow> heap q2 r, q2))"

section \<open>The worker\<close>

datatype begun = Skipped | Began nat nat  \<comment> \<open>the job's address and the context's number\<close>

definition runOne_begin :: "nanos \<Rightarrow> string \<Rightarrow> queue \<Rightarrow> begun \<times> queue" where
  "runOne_begin now i q =
     (case jobs q i of
        None \<Rightarrow> (Skipped, q)
      | Some r \<Rightarrow>
          let j = heap q r in
          if Status j = StatusCancelled then (Skipped, q)
          else if Kind j \<notin> runners q then
            (Skipped, notifyTerminalLocked r (persistLocked (setj r (\<lambda>j. j\<lparr>Status := StatusFailed,
               Error := ''unknown kind: '' @ Kind j, Finished := unix now\<rparr>) q)))
          else
            let c = nextCtx q;
                q1 = persistLocked (setj r (\<lambda>j. j\<lparr>cancel := Some c, Status := StatusRunning,
                       Started := unix now\<rparr>) (q\<lparr>nextCtx := Suc c\<rparr>))
            in (Began r c, broadcast i (EvStatus i StatusRunning (unix now)) q1))"

definition fail :: "nanos \<Rightarrow> string \<Rightarrow> string \<Rightarrow> queue \<Rightarrow> queue" where
  "fail now i msg q =
     (case jobs q i of
        None \<Rightarrow> q
      | Some r \<Rightarrow>
          notifyTerminalLocked r (broadcast i (EvStatus i StatusFailed (unix now))
            (persistLocked (setj r (\<lambda>j. j\<lparr>Status := StatusFailed, Error := msg,
               Finished := unix now\<rparr>) q))))"

definition clamp_progress :: "int \<Rightarrow> int" where
  "clamp_progress p = (let p1 = (if p < 0 then 0 else p) in if p1 > 100 then 100 else p1)"

definition prog :: "nanos \<Rightarrow> nat \<Rightarrow> int \<Rightarrow> queue \<Rightarrow> queue" where
  "prog now r p q =
     (let p' = clamp_progress p; q1 = persistLocked (setj r (\<lambda>j. j\<lparr>Progress := p'\<rparr>) q)
      in broadcast (ID (heap q r)) (EvProgress (ID (heap q r)) p' (unix now)) q1)"

definition setStep :: "nanos \<Rightarrow> nat \<Rightarrow> string \<Rightarrow> queue \<Rightarrow> queue" where
  "setStep now r s q =
     broadcast (ID (heap q r)) (EvStep (ID (heap q r)) s (unix now))
       (persistLocked (setj r (\<lambda>j. j\<lparr>Step := s\<rparr>) q))"

text \<open>\<^verbatim>\<open>os.Create(j.LogPath)\<close> when it succeeds: the log of an earlier run is truncated.\<close>

definition create_log :: "nat \<Rightarrow> queue \<Rightarrow> queue" where
  "create_log r q = q\<lparr>logs := (logs q)(LogPath (heap q r) \<mapsto> [])\<rparr>"

text \<open>A write of the runner to its log: the tee to the file and to the listeners.\<close>

definition append_log :: "string \<Rightarrow> string \<Rightarrow> queue \<Rightarrow> queue" where
  "append_log path s q =
     q\<lparr>logs := (logs q)(path := Some ((case logs q path of None \<Rightarrow> '''' | Some t \<Rightarrow> t) @ s))\<rparr>"

definition log_write :: "nanos \<Rightarrow> nat \<Rightarrow> string \<Rightarrow> queue \<Rightarrow> queue" where
  "log_write now r s q =
     (let q1 = append_log (LogPath (heap q r)) s q in
      if s = '''' then q1
      else broadcast (ID (heap q r)) (EvLog (ID (heap q r)) s (unix now)) q1)"

text \<open>The end of \<open>runOne\<close>: \<open>err\<close> is what the runner returned.\<close>

definition runOne_end :: "nanos \<Rightarrow> nat \<Rightarrow> nat \<Rightarrow> string option \<Rightarrow> queue \<Rightarrow> queue" where
  "runOne_end now r c err q =
     (let q1 = setj r (\<lambda>j. j\<lparr>cancel := None, Finished := unix now\<rparr>) q;
          q2 = (if c \<in> cancelled q1 then setj r (\<lambda>j. j\<lparr>Status := StatusCancelled\<rparr>) q1
                else case err of
                  Some e \<Rightarrow> append_log (LogPath (heap q1 r))
                     ([CHR 0x0A] @ ''--- FAILED: '' @ e @ '' ---'' @ [CHR 0x0A]) (setj r (\<lambda>j. j\<lparr>Status := StatusFailed, Error := e\<rparr>) q1)
                | None \<Rightarrow> setj r (\<lambda>j. j\<lparr>Status := StatusDone, Progress := 100\<rparr>) q1);
          j = heap q2 r
      in notifyTerminalLocked r
           (broadcast (ID j) (EvStatus (ID j) (Status j) (Finished j)) (persistLocked q2)))"

section \<open>Detached jobs\<close>

text \<open>\<open>WriteDetachedStatus\<close>, by the external process; \<open>readDetachedStatus\<close>, by this one.\<close>

definition WriteDetachedStatus :: "string \<Rightarrow> DetachedStatus \<Rightarrow> queue \<Rightarrow> queue" where
  "WriteDetachedStatus i s q = q\<lparr>detached := (detached q)(i \<mapsto> s)\<rparr>"

definition applyDetached :: "nanos \<Rightarrow> DetachedStatus \<Rightarrow> job \<Rightarrow> job" where
  "applyDetached now ds j =
     (let j1 = (if dStatus ds \<noteq> StatusOther '''' then j\<lparr>Status := dStatus ds\<rparr> else j);
          j2 = (if dProgress ds > Progress j1 then j1\<lparr>Progress := dProgress ds\<rparr> else j1);
          j3 = (if dStep ds \<noteq> '''' then j2\<lparr>Step := dStep ds\<rparr> else j2);
          j4 = (if dError ds \<noteq> '''' then j3\<lparr>Error := dError ds\<rparr> else j3);
          j5 = (if dStarted ds \<noteq> 0 then j4\<lparr>Started := dStarted ds\<rparr> else j4)
      in if isTerminal (dStatus ds) then
           let j6 = (if dFinished ds \<noteq> 0 then j5\<lparr>Finished := dFinished ds\<rparr>
                     else if Finished j5 = 0 then j5\<lparr>Finished := unix now\<rparr> else j5)
           in if dStatus ds = StatusDone \<and> Progress j6 < 100 then j6\<lparr>Progress := 100\<rparr> else j6
         else j5)"

text \<open>\<open>reapDetachedOnce\<close> first collects the detached running jobs; \<open>is\<close> is the map's order.\<close>

definition reap_scoped :: "string list \<Rightarrow> queue \<Rightarrow> nat list" where
  "reap_scoped is q =
     concat (map (\<lambda>i. case jobs q i of None \<Rightarrow> []
        | Some r \<Rightarrow> if Scope (heap q r) \<noteq> '''' \<and> Status (heap q r) = StatusRunning then [r] else []) is)"

text \<open>
  One iteration of its second loop. The status file is read before the lock is taken: \<open>d\<close> is what was
  read. \<open>alive\<close> is what \<open>scopeAlive\<close> answers for this job, the same in both calls of one iteration.
  First the record and whether it changed, then what is done with a changed record.
\<close>

definition reap_record :: "nanos \<Rightarrow> bool \<Rightarrow> DetachedStatus option \<Rightarrow> job \<Rightarrow> job \<times> bool" where
  "reap_record now alive d j =
     (let late = (unix now - Started j \<ge> detachStartupGrace \<and> \<not> alive);
          found = (case d of
                     None \<Rightarrow> None
                   | Some ds \<Rightarrow> if \<not> isTerminal (dStatus ds) \<and> late then None else Some ds)
      in case found of
           Some ds \<Rightarrow>
             let j1 = applyDetached now ds j
             in (j1, Status j \<noteq> Status j1 \<or> Progress j \<noteq> Progress j1 \<or> Step j \<noteq> Step j1)
         | None \<Rightarrow>
             if late then (j\<lparr>Status := StatusInterrupted,
                 Error := ''interrupted: detached process vanished'', Finished := unix now\<rparr>, True)
             else (j, False))"

definition reap_publish :: "nanos \<Rightarrow> nat \<Rightarrow> queue \<Rightarrow> queue" where
  "reap_publish now r q =
     (let j = heap q r;
          q1 = persistLocked q;
          q2 = (if isTerminal (Status j) then notifyTerminalLocked r q1 else q1);
          q3 = broadcast (ID j) (EvProgress (ID j) (Progress j) (unix now)) q2;
          q4 = (if Step j \<noteq> '''' then broadcast (ID j) (EvStep (ID j) (Step j) (unix now)) q3 else q3)
      in if isTerminal (Status j) then broadcast (ID j) (EvStatus (ID j) (Status j) (unix now)) q4 else q4)"

definition reap_apply :: "nanos \<Rightarrow> bool \<Rightarrow> DetachedStatus option \<Rightarrow> nat \<Rightarrow> queue \<Rightarrow> queue" where
  "reap_apply now alive d r q =
     (let (j1, changed) = reap_record now alive d (heap q r);
          q1 = setj r (\<lambda>_. j1) q
      in if changed then reap_publish now r q1 else q1)"

definition reap_one :: "nanos \<Rightarrow> bool \<Rightarrow> nat \<Rightarrow> queue \<Rightarrow> queue" where
  "reap_one now alive r q = reap_apply now alive (detached q (ID (heap q r))) r q"

fun reap_all :: "nanos \<Rightarrow> (string \<Rightarrow> bool) \<Rightarrow> nat list \<Rightarrow> queue \<Rightarrow> queue" where
  "reap_all now alive [] q = q"
| "reap_all now alive (r # rs) q = reap_all now alive rs (reap_one now (alive (Scope (heap q r))) r q)"

definition reapDetachedOnce :: "nanos \<Rightarrow> (string \<Rightarrow> bool) \<Rightarrow> string list \<Rightarrow> queue \<Rightarrow> queue" where
  "reapDetachedOnce now alive is q = reap_all now alive (reap_scoped is q) q"

section \<open>Boot\<close>

datatype state_file = Missing | Unreadable | Empty_file | Corrupt_file | Stored stored

definition empty_queue :: "bool \<Rightarrow> nat \<Rightarrow> job \<Rightarrow> queue" where
  "empty_queue dok keep j0 =
     \<lparr>maxKeep = keep, heap = (\<lambda>_. j0), nextRef = 0, jobs = Map.empty, order = [], pending = [],
      senders = [], runners = {}, detachKinds = {}, detachLauncher = False, notifier = False,
      notified = [], hub = (\<lambda>_. []), nextChan = 0, nextCtx = 0, cancelled = {}, scopeStops = [],
      detached = Map.empty, logs = Map.empty, disk = None, diskOK = dok, shutdown = False\<rparr>"

text \<open>\<open>load\<close> allocates one object per stored record; \<open>is\<close> is the order of the JSON array.\<close>

fun load_jobs :: "string list \<Rightarrow> stored \<Rightarrow> queue \<Rightarrow> queue" where
  "load_jobs [] st q = q"
| "load_jobs (i # is) st q =
     (case sJobs st i of
        None \<Rightarrow> load_jobs is st q
      | Some j \<Rightarrow> let (r, q1) = alloc j q in load_jobs is st (q1\<lparr>jobs := (jobs q1)(i \<mapsto> r)\<rparr>))"

definition load :: "string list \<Rightarrow> state_file \<Rightarrow> queue \<Rightarrow> qerror + queue" where
  "load is f q =
     (case f of
        Missing \<Rightarrow> Ok q
      | Unreadable \<Rightarrow> Err ErrIO
      | Empty_file \<Rightarrow> Ok q
      | Corrupt_file \<Rightarrow> Err ErrCorrupt
      | Stored st \<Rightarrow> Ok ((load_jobs is st q)\<lparr>order := sOrder st\<rparr>))"

definition interrupt :: "string \<Rightarrow> nanos \<Rightarrow> job \<Rightarrow> job" where
  "interrupt why now j = j\<lparr>Status := StatusInterrupted, Error := why, Finished := unix now\<rparr>"

definition reconcile_one :: "nanos \<Rightarrow> (string \<Rightarrow> bool) \<Rightarrow> string \<Rightarrow> queue \<Rightarrow> queue" where
  "reconcile_one now alive i q =
     (case jobs q i of
        None \<Rightarrow> q
      | Some r \<Rightarrow>
          let j = heap q r in
          if Status j = StatusQueued then pushPending (ID j) q
          else if Status j = StatusRunning then
            if Scope j \<noteq> '''' then
              if alive (Scope j) then q
              else case detached q (ID j) of
                     Some ds \<Rightarrow>
                       if isTerminal (dStatus ds) then setj r (applyDetached now ds) q
                       else setj r (interrupt ''interrupted: vps-manager restart'' now) q
                   | None \<Rightarrow> setj r (interrupt ''interrupted: vps-manager restart'' now) q
            else if SafeToResume (Kind j) then
              pushPending (ID j) (setj r (\<lambda>j. j\<lparr>Status := StatusQueued, Started := 0, Progress := 0\<rparr>) q)
            else setj r (interrupt ''interrupted: vps-manager restart'' now) q
          else q)"

fun reconcile :: "nanos \<Rightarrow> (string \<Rightarrow> bool) \<Rightarrow> string list \<Rightarrow> queue \<Rightarrow> queue" where
  "reconcile now alive [] q = q"
| "reconcile now alive (i # is) q = reconcile now alive is (reconcile_one now alive i q)"

text \<open>
  \<open>NewQueue\<close>: \<open>dok\<close> says whether writes succeed at the start, \<open>opt_keep\<close> is \<^verbatim>\<open>opts.MaxKeep\<close>, \<open>ds\<close> and \<open>ls\<close> the status and log files found on disk.
  The array and the map may be traversed in different orders (\<open>is\<close>, \<open>is'\<close>).
\<close>

definition NewQueue ::
  "bool \<Rightarrow> int \<Rightarrow> nanos \<Rightarrow> (string \<Rightarrow> bool) \<Rightarrow> string list \<Rightarrow> string list \<Rightarrow> state_file
    \<Rightarrow> (string \<rightharpoonup> DetachedStatus) \<Rightarrow> (string \<rightharpoonup> string) \<Rightarrow> job \<Rightarrow> qerror + queue" where
  "NewQueue dok opt_keep now alive is is' f ds ls j0 =
     (let keep = (if opt_keep \<le> 0 then 500 else nat opt_keep);
          q0 = (empty_queue dok keep j0)\<lparr>detached := ds, logs := ls,
                 disk := (case f of Stored st \<Rightarrow> Some st | _ \<Rightarrow> None)\<rparr>
      in case load is f q0 of
           Err e \<Rightarrow> Err e
         | Ok q1 \<Rightarrow> Ok (persistLocked (reconcile now alive is' q1)))"

section \<open>Shutdown\<close>

definition shutdown_begin :: "string list \<Rightarrow> queue \<Rightarrow> queue" where
  "shutdown_begin is q =
     q\<lparr>shutdown := True,
       cancelled := cancelled q \<union> set (List.map_filter (\<lambda>i. Option.bind (jobs q i) (\<lambda>r. cancel (heap q r))) is)\<rparr>"

fun shutdown_mark :: "nanos \<Rightarrow> string list \<Rightarrow> queue \<Rightarrow> queue" where
  "shutdown_mark now [] q = q"
| "shutdown_mark now (i # is) q =
     shutdown_mark now is
       (case jobs q i of
          None \<Rightarrow> q
        | Some r \<Rightarrow>
            if Status (heap q r) = StatusRunning \<and> Scope (heap q r) = ''''
            then setj r (interrupt ''interrupted: shutdown timeout'' now) q else q)"

text \<open>The two outcomes of the bounded wait for the workers.\<close>

definition shutdown_drained :: "queue \<Rightarrow> queue" where
  "shutdown_drained q = persistLocked q"

definition shutdown_timeout :: "nanos \<Rightarrow> string list \<Rightarrow> queue \<Rightarrow> queue" where
  "shutdown_timeout now is q = persistLocked (shutdown_mark now is q)"

end
