(* ===== verification/QueueLemmas.thy ===== *)
theory QueueLemmas
  imports JobQueue
begin

text \<open>
  What each operation of the job queue does: frame lemmas for the helpers, then the functional
  behaviour of pruning, deletion, rerun, listing, boot reconciliation, persistence and the reaper,
  each on one call at a time. The interleaving of calls is in the theory \<open>QueueSystem\<close>.
\<close>

section \<open>Frames\<close>

lemma setj_frame [simp]:
  "maxKeep (setj r f q) = maxKeep q" "nextRef (setj r f q) = nextRef q"
  "jobs (setj r f q) = jobs q" "order (setj r f q) = order q" "pending (setj r f q) = pending q"
  "senders (setj r f q) = senders q" "runners (setj r f q) = runners q"
  "detachKinds (setj r f q) = detachKinds q" "detachLauncher (setj r f q) = detachLauncher q"
  "notifier (setj r f q) = notifier q" "notified (setj r f q) = notified q"
  "hub (setj r f q) = hub q" "nextChan (setj r f q) = nextChan q"
  "nextCtx (setj r f q) = nextCtx q" "cancelled (setj r f q) = cancelled q"
  "scopeStops (setj r f q) = scopeStops q" "detached (setj r f q) = detached q"
  "logs (setj r f q) = logs q" "disk (setj r f q) = disk q" "diskOK (setj r f q) = diskOK q"
  "shutdown (setj r f q) = shutdown q"
  by (simp_all add: setj_def)

lemma persist_frame [simp]:
  "maxKeep (persistLocked q) = maxKeep q" "heap (persistLocked q) = heap q"
  "nextRef (persistLocked q) = nextRef q" "jobs (persistLocked q) = jobs q"
  "order (persistLocked q) = order q" "pending (persistLocked q) = pending q"
  "senders (persistLocked q) = senders q" "runners (persistLocked q) = runners q"
  "detachKinds (persistLocked q) = detachKinds q"
  "detachLauncher (persistLocked q) = detachLauncher q" "notifier (persistLocked q) = notifier q"
  "notified (persistLocked q) = notified q" "hub (persistLocked q) = hub q"
  "nextChan (persistLocked q) = nextChan q" "nextCtx (persistLocked q) = nextCtx q"
  "cancelled (persistLocked q) = cancelled q" "scopeStops (persistLocked q) = scopeStops q"
  "detached (persistLocked q) = detached q" "logs (persistLocked q) = logs q"
  "diskOK (persistLocked q) = diskOK q" "shutdown (persistLocked q) = shutdown q"
  by (simp_all add: persistLocked_def)

lemma broadcast_frame [simp]:
  "maxKeep (broadcast i ev q) = maxKeep q" "heap (broadcast i ev q) = heap q"
  "nextRef (broadcast i ev q) = nextRef q" "jobs (broadcast i ev q) = jobs q"
  "order (broadcast i ev q) = order q" "pending (broadcast i ev q) = pending q"
  "senders (broadcast i ev q) = senders q" "runners (broadcast i ev q) = runners q"
  "detachKinds (broadcast i ev q) = detachKinds q"
  "detachLauncher (broadcast i ev q) = detachLauncher q"
  "notifier (broadcast i ev q) = notifier q" "notified (broadcast i ev q) = notified q"
  "nextChan (broadcast i ev q) = nextChan q" "nextCtx (broadcast i ev q) = nextCtx q"
  "cancelled (broadcast i ev q) = cancelled q" "scopeStops (broadcast i ev q) = scopeStops q"
  "detached (broadcast i ev q) = detached q" "logs (broadcast i ev q) = logs q"
  "disk (broadcast i ev q) = disk q" "diskOK (broadcast i ev q) = diskOK q"
  "shutdown (broadcast i ev q) = shutdown q"
  by (simp_all add: broadcast_def)

lemma push_frame [simp]:
  "maxKeep (pushPending i q) = maxKeep q" "heap (pushPending i q) = heap q"
  "nextRef (pushPending i q) = nextRef q" "jobs (pushPending i q) = jobs q"
  "order (pushPending i q) = order q" "runners (pushPending i q) = runners q"
  "detachKinds (pushPending i q) = detachKinds q"
  "detachLauncher (pushPending i q) = detachLauncher q" "notifier (pushPending i q) = notifier q"
  "notified (pushPending i q) = notified q" "hub (pushPending i q) = hub q"
  "nextChan (pushPending i q) = nextChan q" "nextCtx (pushPending i q) = nextCtx q"
  "cancelled (pushPending i q) = cancelled q" "scopeStops (pushPending i q) = scopeStops q"
  "detached (pushPending i q) = detached q" "logs (pushPending i q) = logs q"
  "disk (pushPending i q) = disk q" "diskOK (pushPending i q) = diskOK q"
  "shutdown (pushPending i q) = shutdown q"
  by (simp_all add: pushPending_def)

lemma unblock_frame [simp]:
  "maxKeep (unblock n q) = maxKeep q" "heap (unblock n q) = heap q"
  "nextRef (unblock n q) = nextRef q" "jobs (unblock n q) = jobs q"
  "order (unblock n q) = order q" "runners (unblock n q) = runners q"
  "detachKinds (unblock n q) = detachKinds q" "detachLauncher (unblock n q) = detachLauncher q"
  "notifier (unblock n q) = notifier q" "notified (unblock n q) = notified q"
  "hub (unblock n q) = hub q" "nextChan (unblock n q) = nextChan q"
  "nextCtx (unblock n q) = nextCtx q" "cancelled (unblock n q) = cancelled q"
  "scopeStops (unblock n q) = scopeStops q" "detached (unblock n q) = detached q"
  "logs (unblock n q) = logs q" "disk (unblock n q) = disk q" "diskOK (unblock n q) = diskOK q"
  "shutdown (unblock n q) = shutdown q"
  by (simp_all add: unblock_def)

lemma notify_frame [simp]:
  "maxKeep (notifyTerminalLocked r q) = maxKeep q"
  "nextRef (notifyTerminalLocked r q) = nextRef q" "jobs (notifyTerminalLocked r q) = jobs q"
  "order (notifyTerminalLocked r q) = order q" "pending (notifyTerminalLocked r q) = pending q"
  "senders (notifyTerminalLocked r q) = senders q"
  "runners (notifyTerminalLocked r q) = runners q"
  "detachKinds (notifyTerminalLocked r q) = detachKinds q"
  "detachLauncher (notifyTerminalLocked r q) = detachLauncher q"
  "notifier (notifyTerminalLocked r q) = notifier q" "hub (notifyTerminalLocked r q) = hub q"
  "nextChan (notifyTerminalLocked r q) = nextChan q"
  "nextCtx (notifyTerminalLocked r q) = nextCtx q"
  "cancelled (notifyTerminalLocked r q) = cancelled q"
  "scopeStops (notifyTerminalLocked r q) = scopeStops q"
  "detached (notifyTerminalLocked r q) = detached q" "logs (notifyTerminalLocked r q) = logs q"
  "disk (notifyTerminalLocked r q) = disk q" "diskOK (notifyTerminalLocked r q) = diskOK q"
  "shutdown (notifyTerminalLocked r q) = shutdown q"
  by (simp_all add: notifyTerminalLocked_def Let_def)

lemma append_log_frame [simp]:
  "maxKeep (append_log p s q) = maxKeep q" "heap (append_log p s q) = heap q"
  "nextRef (append_log p s q) = nextRef q" "jobs (append_log p s q) = jobs q"
  "order (append_log p s q) = order q" "pending (append_log p s q) = pending q"
  "senders (append_log p s q) = senders q" "runners (append_log p s q) = runners q"
  "detachKinds (append_log p s q) = detachKinds q"
  "detachLauncher (append_log p s q) = detachLauncher q"
  "notifier (append_log p s q) = notifier q" "notified (append_log p s q) = notified q"
  "hub (append_log p s q) = hub q" "nextChan (append_log p s q) = nextChan q"
  "nextCtx (append_log p s q) = nextCtx q" "cancelled (append_log p s q) = cancelled q"
  "scopeStops (append_log p s q) = scopeStops q" "detached (append_log p s q) = detached q"
  "disk (append_log p s q) = disk q" "diskOK (append_log p s q) = diskOK q"
  "shutdown (append_log p s q) = shutdown q"
  by (simp_all add: append_log_def)

lemma drop_job_frame [simp]:
  "maxKeep (drop_job i j q) = maxKeep q" "heap (drop_job i j q) = heap q"
  "nextRef (drop_job i j q) = nextRef q" "order (drop_job i j q) = order q"
  "pending (drop_job i j q) = pending q" "senders (drop_job i j q) = senders q"
  "runners (drop_job i j q) = runners q" "detachKinds (drop_job i j q) = detachKinds q"
  "detachLauncher (drop_job i j q) = detachLauncher q" "notifier (drop_job i j q) = notifier q"
  "notified (drop_job i j q) = notified q" "hub (drop_job i j q) = hub q"
  "nextChan (drop_job i j q) = nextChan q" "nextCtx (drop_job i j q) = nextCtx q"
  "cancelled (drop_job i j q) = cancelled q" "scopeStops (drop_job i j q) = scopeStops q"
  "disk (drop_job i j q) = disk q" "diskOK (drop_job i j q) = diskOK q"
  "shutdown (drop_job i j q) = shutdown q"
  by (simp_all add: drop_job_def)

lemma heap_setj [simp]: "heap (setj r f q) = (heap q)(r := f (heap q r))"
  by (simp add: setj_def)

lemma disk_persist: "diskOK q \<Longrightarrow> disk (persistLocked q) = Some (snapshot_state q)"
  by (simp add: persistLocked_def)

lemma heap_notify:
  "heap (notifyTerminalLocked r q) =
     (heap q)(r := (heap q r)\<lparr>notifiedTerminal := notifiedTerminal (heap q r) \<or>
        (notifier q \<and> isTerminal (Status (heap q r)))\<rparr>)"
proof -
  have id: "notifiedTerminal j = b \<Longrightarrow> j\<lparr>notifiedTerminal := b\<rparr> = j" for j :: job and b
    by simp
  show ?thesis
  proof (cases "notifier q \<and> isTerminal (Status (heap q r)) \<and> \<not> notifiedTerminal (heap q r)")
    case True
    then show ?thesis by (simp add: notifyTerminalLocked_def Let_def)
  next
    case False
    then have "notifyTerminalLocked r q = q" by (auto simp: notifyTerminalLocked_def)
    moreover from False have "notifiedTerminal (heap q r) =
        (notifiedTerminal (heap q r) \<or> (notifier q \<and> isTerminal (Status (heap q r))))"
      by blast
    note e = id [OF this]
    ultimately show ?thesis by (simp only: e fun_upd_triv)
  qed
qed

lemma job_fields_notify [simp]:
  "ID (heap (notifyTerminalLocked r q) x) = ID (heap q x)"
  "Status (heap (notifyTerminalLocked r q) x) = Status (heap q x)"
  "Kind (heap (notifyTerminalLocked r q) x) = Kind (heap q x)"
  "Scope (heap (notifyTerminalLocked r q) x) = Scope (heap q x)"
  "cancel (heap (notifyTerminalLocked r q) x) = cancel (heap q x)"
  "Error (heap (notifyTerminalLocked r q) x) = Error (heap q x)"
  "Finished (heap (notifyTerminalLocked r q) x) = Finished (heap q x)"
  by (simp_all add: heap_notify)

lemma ID_applyDetached [simp]:
  "ID (applyDetached now ds j) = ID j" "Kind (applyDetached now ds j) = Kind j"
  "Scope (applyDetached now ds j) = Scope j" "cancel (applyDetached now ds j) = cancel j"
  "notifiedTerminal (applyDetached now ds j) = notifiedTerminal j"
  by (simp_all add: applyDetached_def Let_def)

lemma Status_applyDetached:
  "Status (applyDetached now ds j) =
     (if dStatus ds \<noteq> StatusOther '''' then dStatus ds else Status j)"
  by (simp add: applyDetached_def Let_def)

lemma persisted_idem [simp]: "persisted (persisted j) = persisted j"
  by (simp add: persisted_def)

lemma persisted_fields [simp]:
  "ID (persisted j) = ID j" "Status (persisted j) = Status j" "Kind (persisted j) = Kind j"
  "Scope (persisted j) = Scope j" "cancel (persisted j) = None"
  "notifiedTerminal (persisted j) = False"
  by (simp_all add: persisted_def)

lemma ID_interrupt [simp]:
  "ID (interrupt w now j) = ID j" "Status (interrupt w now j) = StatusInterrupted"
  "Kind (interrupt w now j) = Kind j" "Scope (interrupt w now j) = Scope j"
  "cancel (interrupt w now j) = cancel j"
  "notifiedTerminal (interrupt w now j) = notifiedTerminal j"
  by (simp_all add: interrupt_def)

section \<open>The pending channel\<close>

lemma pushPending_conserves:
  "mset (pending (pushPending i q)) + mset (senders (pushPending i q)) =
     add_mset i (mset (pending q) + mset (senders q))"
  by (simp add: pushPending_def)

lemma unblock_conserves:
  "mset (pending (unblock n q)) + mset (senders (unblock n q)) = mset (pending q) + mset (senders q)"
proof (cases "n < length (senders q) \<and> length (pending q) < pendingCap")
  case True
  then have "senders q = take n (senders q) @ senders q ! n # drop (Suc n) (senders q)"
    by (simp add: id_take_nth_drop)
  then have "mset (senders q) =
      add_mset (senders q ! n) (mset (take n (senders q)) + mset (drop (Suc n) (senders q)))"
    by (metis mset.simps(2) mset_append union_mset_add_mset_right)
  with True show ?thesis by (simp add: unblock_def)
next
  case False
  then show ?thesis by (simp only: unblock_def if_False)
qed

lemma pushPending_bounded: "length (pending q) \<le> pendingCap \<Longrightarrow> length (pending (pushPending i q)) \<le> pendingCap"
  by (simp add: pushPending_def)

lemma unblock_bounded: "length (pending q) \<le> pendingCap \<Longrightarrow> length (pending (unblock n q)) \<le> pendingCap"
  by (simp add: unblock_def)

section \<open>Pruning\<close>

text \<open>The reference: drop the first \<open>k\<close> elements that satisfy \<open>P\<close>.\<close>

fun drop_first :: "nat \<Rightarrow> ('a \<Rightarrow> bool) \<Rightarrow> 'a list \<Rightarrow> 'a list" where
  "drop_first k P [] = []"
| "drop_first k P (x # xs) =
     (if P x \<and> 0 < k then drop_first (k - 1) P xs else x # drop_first k P xs)"

lemma drop_first_0 [simp]: "drop_first 0 P xs = xs"
  by (induction xs) auto

lemma drop_first_subseq: "subseq (drop_first k P xs) xs"
  by (induction xs arbitrary: k) auto

lemma drop_first_keeps: "x \<in> set xs \<Longrightarrow> \<not> P x \<Longrightarrow> x \<in> set (drop_first k P xs)"
  by (induction xs arbitrary: k) auto

lemma length_drop_first: "length (drop_first k P xs) + min k (length (filter P xs)) = length xs"
proof (induction xs arbitrary: k)
  case (Cons a xs)
  then show ?case by (cases k) auto
qed simp

definition term_entry :: "queue \<Rightarrow> string \<Rightarrow> bool" where
  "term_entry q i = (case jobs q i of None \<Rightarrow> False | Some r \<Rightarrow> isTerminal (Status (heap q r)))"

lemma term_entry_drop_job: "x \<noteq> i \<Longrightarrow> term_entry (drop_job i j q) x = term_entry q x"
  by (simp add: term_entry_def drop_job_def split: option.split)

lemma drop_first_cong: "(\<And>x. x \<in> set xs \<Longrightarrow> P x = P' x) \<Longrightarrow> drop_first k P xs = drop_first k P' xs"
  by (induction xs arbitrary: k) auto

lemma prune_loop_keep:
  "prune_loop n d is q = (q', keep) \<Longrightarrow> distinct is \<Longrightarrow>
     keep = drop_first (n - d - maxKeep q) (term_entry q) is"
proof (induction n d "is" q arbitrary: q' keep rule: prune_loop.induct)
  case (1 n d q)
  then show ?case by simp
next
  case (2 n d i "is" q)
  show ?case
  proof (cases "term_entry q i \<and> n - d > maxKeep q")
    case True
    then obtain r where r: "jobs q i = Some r" "isTerminal (Status (heap q r))"
      by (auto simp: term_entry_def split: option.splits)
    let ?q = "drop_job i (heap q r) q"
    from 2(4,5) r True have "keep = drop_first (n - Suc d - maxKeep q) (term_entry ?q) is"
      using 2(2) [OF r(1)] by simp
    also have "\<dots> = drop_first (n - Suc d - maxKeep q) (term_entry q) is"
      using 2(5) by (intro drop_first_cong term_entry_drop_job) auto
    finally show ?thesis using True by (simp add: less_diff_conv add.commute)
  next
    case False
    then obtain keep' where k: "prune_loop n d is q = (q', keep')" "keep = i # keep'"
      using 2(4) by (auto simp: term_entry_def split: option.splits prod.splits if_splits)
    have "keep' = drop_first (n - d - maxKeep q) (term_entry q) is"
    proof (cases "jobs q i")
      case None
      with 2(1) k(1) 2(5) show ?thesis by simp
    next
      case (Some r)
      with False have "\<not> (isTerminal (Status (heap q r)) \<and> maxKeep q < n - d)"
        by (simp add: term_entry_def)
      with 2(3) [OF Some] k(1) 2(5) show ?thesis by simp
    qed
    with False k(2) show ?thesis by auto
  qed
qed

lemma prune_loop_frame:
  "heap (fst (prune_loop n d is q)) = heap q" "maxKeep (fst (prune_loop n d is q)) = maxKeep q"
  by (induction n d "is" q rule: prune_loop.induct)
    (simp_all add: case_prod_unfold split: option.split)

lemma prune_loop_jobs:
  "distinct is \<Longrightarrow> jobs (fst (prune_loop n d is q)) =
     (\<lambda>x. if x \<in> set is - set (snd (prune_loop n d is q)) then None else jobs q x)"
proof (induction n d "is" q rule: prune_loop.induct)
  case (1 n d q)
  then show ?case by simp
next
  case (2 n d i "is" q)
  then have fresh: "i \<notin> set is" "distinct is" by auto
  have sub: "set (snd (prune_loop n d' is q')) \<subseteq> set is" for d' q'
    using fresh prune_loop_keep [of n d' "is" q'] drop_first_subseq
    by (metis prod.collapse set_nths_subset subseq_conv_nths)
  show ?case
  proof (cases "jobs q i")
    case None
    with 2(1) fresh show ?thesis by (auto simp: case_prod_unfold fun_eq_iff)
  next
    case (Some r)
    show ?thesis
    proof (cases "isTerminal (Status (heap q r)) \<and> n - d > maxKeep q")
      case True
      with 2(2) [OF Some] fresh Some sub [of "Suc d" "drop_job i (heap q r) q"] show ?thesis
        by (auto simp: drop_job_def fun_eq_iff)
    next
      case False
      with 2(3) [OF Some] fresh Some show ?thesis
        by (auto simp: case_prod_unfold fun_eq_iff)
    qed
  qed
qed

lemma prune_order:
  assumes "distinct (order q)"
  shows "order (pruneLocked q) = drop_first (length (order q) - maxKeep q) (term_entry q) (order q)"
  using prune_loop_keep [of "length (order q)" 0 "order q" q] assms
  by (auto simp: pruneLocked_def split: prod.splits)

lemma prune_frame [simp]: "heap (pruneLocked q) = heap q" "maxKeep (pruneLocked q) = maxKeep q"
  using prune_loop_frame by (simp_all add: pruneLocked_def case_prod_unfold)

lemma prune_jobs:
  assumes "distinct (order q)"
  shows "jobs (pruneLocked q) =
    (\<lambda>i. if i \<in> set (order q) - set (order (pruneLocked q)) then None else jobs q i)"
  using prune_loop_jobs [OF assms] by (auto simp: pruneLocked_def case_prod_unfold)

section \<open>The visible records\<close>

text \<open>
  The abstract state of the queue: the record of each id. \<open>wf_queue\<close> ties the map to the heap: every
  address in the map is allocated and holds the record of its own id, so no two ids share one.
\<close>

definition view :: "queue \<Rightarrow> string \<rightharpoonup> job" where
  "view q = (\<lambda>i. map_option (heap q) (jobs q i))"

definition wf_queue :: "queue \<Rightarrow> bool" where
  "wf_queue q \<longleftrightarrow> (\<forall>i r. jobs q i = Some r \<longrightarrow> r < nextRef q \<and> ID (heap q r) = i)"

lemma wfD: "wf_queue q \<Longrightarrow> jobs q i = Some r \<Longrightarrow> r < nextRef q \<and> ID (heap q r) = i"
  by (simp add: wf_queue_def)

lemma wf_inj: "wf_queue q \<Longrightarrow> jobs q i = Some r \<Longrightarrow> jobs q i' = Some r \<Longrightarrow> i = i'"
  by (auto simp: wf_queue_def)

lemma view_setj:
  assumes "wf_queue q" and "jobs q i = Some r"
  shows "view (setj r f q) = (view q)(i \<mapsto> f (heap q r))"
proof
  fix x
  show "view (setj r f q) x = ((view q)(i \<mapsto> f (heap q r))) x"
    using assms wf_inj [OF assms(1) assms(2), of x]
    by (cases "jobs q x") (auto simp: view_def)
qed

lemma view_eqI: "jobs q' = jobs q \<Longrightarrow> heap q' = heap q \<Longrightarrow> view q' = view q"
  by (simp add: view_def)

lemma wf_setj: "wf_queue q \<Longrightarrow> (\<And>j. ID (f j) = ID j) \<Longrightarrow> wf_queue (setj r f q)"
  by (simp add: wf_queue_def)

lemma wf_cong: "jobs q' = jobs q \<Longrightarrow> heap q' = heap q \<Longrightarrow> nextRef q' = nextRef q \<Longrightarrow> wf_queue q' = wf_queue q"
  by (simp add: wf_queue_def)

lemma wf_persist [simp]: "wf_queue (persistLocked q) = wf_queue q"
  by (rule wf_cong) simp_all

lemma wf_broadcast [simp]: "wf_queue (broadcast i ev q) = wf_queue q"
  by (rule wf_cong) simp_all

lemma wf_pushPending [simp]: "wf_queue (pushPending i q) = wf_queue q"
  by (rule wf_cong) simp_all

lemma wf_unblock [simp]: "wf_queue (unblock n q) = wf_queue q"
  by (rule wf_cong) simp_all

lemma wf_append_log [simp]: "wf_queue (append_log p s q) = wf_queue q"
  by (rule wf_cong) simp_all

lemma wf_notify [simp]: "wf_queue (notifyTerminalLocked r q) = wf_queue q"
  by (simp add: wf_queue_def)

lemmas view_simps = view_eqI [of "persistLocked q" q for q, simplified]
  view_eqI [of "broadcast i ev q" q for i ev q, simplified]
  view_eqI [of "pushPending i q" q for i q, simplified]

end
