(* ===== verification/QueueProps.thy ===== *)
theory QueueProps
  imports QueueLemmas
begin

text \<open>
  Properties of single operations of the job queue: pruning, the guards of Delete and Rerun,
  listing, counting, boot reconciliation with the round trip through \<^verbatim>\<open>state.json\<close>, the reaper and
  shutdown.
\<close>

section \<open>Pruning\<close>

lemma term_entry_active:
  "jobs q i = Some r \<Longrightarrow> \<not> isTerminal (Status (heap q r)) \<Longrightarrow> \<not> term_entry q i"
  by (simp add: term_entry_def)

text \<open>
  Pruning the history drops exactly the oldest finished jobs, as many as exceed the cap: it
  never drops a queued or running job, keeps the order of the rest, and leaves at most
  max(cap, number of unfinished entries) entries.
\<close>

theorem prune_drops_oldest_finished:
  assumes "distinct (order q)"
  shows "order (pruneLocked q) = drop_first (length (order q) - maxKeep q) (term_entry q) (order q) \<and>
    (\<forall>i r. jobs q i = Some r \<and> \<not> isTerminal (Status (heap q r)) \<longrightarrow> jobs (pruneLocked q) i = Some r) \<and>
    length (order (pruneLocked q)) \<le>
      max (maxKeep q) (length (filter (\<lambda>i. \<not> term_entry q i) (order q)))"
proof (intro conjI)
  show o: "order (pruneLocked q) = drop_first (length (order q) - maxKeep q) (term_entry q) (order q)"
    by (rule prune_order [OF assms])
  show "\<forall>i r. jobs q i = Some r \<and> \<not> isTerminal (Status (heap q r)) \<longrightarrow> jobs (pruneLocked q) i = Some r"
  proof (intro allI impI)
    fix i r
    assume a: "jobs q i = Some r \<and> \<not> isTerminal (Status (heap q r))"
    then have "\<not> term_entry q i"
      by (simp add: term_entry_active)
    then have "i \<in> set (order q) \<longrightarrow> i \<in> set (order (pruneLocked q))"
      unfolding o by (simp add: drop_first_keeps)
    with a show "jobs (pruneLocked q) i = Some r"
      by (simp add: prune_jobs [OF assms])
  qed
  have "length (filter (\<lambda>i. \<not> term_entry q i) (order q)) + length (filter (term_entry q) (order q))
      = length (order q)"
    using sum_length_filter_compl [of "term_entry q" "order q"] by simp
  then show "length (order (pruneLocked q)) \<le>
      max (maxKeep q) (length (filter (\<lambda>i. \<not> term_entry q i) (order q)))"
    using length_drop_first [of "length (order q) - maxKeep q" "term_entry q" "order q"]
    unfolding o by linarith
qed

text \<open>A job and a queue for the witnesses.\<close>

definition sample_job :: "string \<Rightarrow> status \<Rightarrow> job" where
  "sample_job i st =
     \<lparr>ID = i, Kind = ''shell'', Args = '''', Owner = ''ann'', Status = st, Progress = 0, Step = '''',
      LogPath = log_path i, Error = '''', Queued = 5, Started = 0, Finished = 0, Source = ''user'',
      Scope = '''', cancel = None, notifiedTerminal = False\<rparr>"

lemma sample_job_fields [simp]:
  "ID (sample_job i st) = i" "Kind (sample_job i st) = ''shell''" "Status (sample_job i st) = st"
  "Scope (sample_job i st) = ''''" "cancel (sample_job i st) = None" "Queued (sample_job i st) = 5"
  "Owner (sample_job i st) = ''ann''" "notifiedTerminal (sample_job i st) = False"
  "Started (sample_job i st) = 0"
  by (simp_all add: sample_job_def)

definition sample_queue :: "status \<Rightarrow> status \<Rightarrow> queue" where
  "sample_queue s t =
     (empty_queue True 1 (sample_job ''x'' StatusDone))\<lparr>
        heap := (\<lambda>r. if r = 0 then sample_job ''a'' s else sample_job ''b'' t),
        nextRef := 2, jobs := [''a'' \<mapsto> 0, ''b'' \<mapsto> 1], order := [''a'', ''b''], runners := {''shell''}\<rparr>"

lemma sample_queue_fields [simp]:
  "jobs (sample_queue s t) = [''a'' \<mapsto> 0, ''b'' \<mapsto> 1]" "order (sample_queue s t) = [''a'', ''b'']"
  "heap (sample_queue s t) 0 = sample_job ''a'' s" "heap (sample_queue s t) (Suc 0) = sample_job ''b'' t"
  "heap (sample_queue s t) 1 = sample_job ''b'' t"
  "maxKeep (sample_queue s t) = 1" "runners (sample_queue s t) = {''shell''}"
  "nextRef (sample_queue s t) = 2" "detachKinds (sample_queue s t) = {}"
  "detached (sample_queue s t) = Map.empty" "pending (sample_queue s t) = []"
  "senders (sample_queue s t) = []" "diskOK (sample_queue s t)" "notifier (sample_queue s t) = False"
  "notified (sample_queue s t) = []"
  by (simp_all add: sample_queue_def empty_queue_def)

lemma wf_sample [simp]: "wf_queue (sample_queue s t)"
  by (auto simp: wf_queue_def split: if_splits)

theorem prune_drops_oldest_finished_witness:
  "distinct (order (sample_queue StatusDone StatusRunning)) \<and>
   order (pruneLocked (sample_queue StatusDone StatusRunning)) = [''b'']"
  using prune_drops_oldest_finished [of "sample_queue StatusDone StatusRunning"]
  by (simp add: term_entry_def)

section \<open>Delete and Rerun\<close>

lemma Delete_ok:
  assumes "jobs q i = Some r" and "Status (heap q r) \<noteq> StatusQueued" and "Status (heap q r) \<noteq> StatusRunning"
  shows "\<exists>q'. Delete i q = Ok q' \<and> jobs q' = (jobs q)(i := None) \<and> heap q' = heap q \<and>
    order q' = filter (\<lambda>x. x \<noteq> i) (order q) \<and> detached q' i = None"
  using assms by (simp add: Delete_def Let_def)

lemma rerun_reset_ok:
  assumes "jobs q i = Some r" and "Status (heap q r) \<noteq> StatusQueued" and "Status (heap q r) \<noteq> StatusRunning"
    and "Kind (heap q r) \<in> runners q"
  shows "\<exists>q'. rerun_reset now i q = Ok (r, q') \<and> jobs q' = jobs q \<and> order q' = order q \<and>
    heap q' = (heap q)(r := (heap q r)\<lparr>Status := StatusQueued, Progress := 0, Error := '''', Started := 0,
       Finished := 0, Step := '''', Scope := '''', Queued := unix now, cancel := None\<rparr>)"
  using assms by (simp add: rerun_reset_def Let_def)

text \<open>
  Delete and Rerun refuse an active job with a conflict and an unknown id with not-found. On a
  finished job Delete removes the record and its history entry and nothing else, and a Rerun of a
  registered kind resets the same record to queued with a cleared result.
\<close>

theorem delete_rerun_guards:
  assumes "jobs q i = Some r"
  shows "(Status (heap q r) \<in> {StatusQueued, StatusRunning} \<longrightarrow>
      Delete i q = Err ErrConflict \<and> rerun_reset now i q = Err ErrConflict) \<and>
    (Status (heap q r) \<notin> {StatusQueued, StatusRunning} \<longrightarrow>
      (\<exists>q'. Delete i q = Ok q' \<and> view q' = (view q)(i := None) \<and>
         order q' = filter (\<lambda>x. x \<noteq> i) (order q)) \<and>
      (Kind (heap q r) \<in> runners q \<longrightarrow>
        (\<exists>q' j'. rerun_reset now i q = Ok (r, q') \<and> heap q' = (heap q)(r := j') \<and>
           jobs q' = jobs q \<and> ID j' = ID (heap q r) \<and> Kind j' = Kind (heap q r) \<and>
           Args j' = Args (heap q r) \<and> Owner j' = Owner (heap q r) \<and> Source j' = Source (heap q r) \<and>
           Status j' = StatusQueued \<and> Progress j' = 0 \<and> Error j' = '''' \<and> Scope j' = '''' \<and>
           Queued j' = unix now)) \<and>
      (Kind (heap q r) \<notin> runners q \<longrightarrow> rerun_reset now i q = Err ErrUnknownKind))"
proof (cases "Status (heap q r) \<in> {StatusQueued, StatusRunning}")
  case True
  with assms show ?thesis by (auto simp: Delete_def rerun_reset_def)
next
  case False
  then have n: "Status (heap q r) \<noteq> StatusQueued" "Status (heap q r) \<noteq> StatusRunning"
    by auto
  have "view q' = (view q)(i := None)" if "jobs q' = (jobs q)(i := None)" "heap q' = heap q" for q'
    using that by (auto simp: view_def)
  with Delete_ok [OF assms n]
  have "\<exists>q'. Delete i q = Ok q' \<and> view q' = (view q)(i := None) \<and>
      order q' = filter (\<lambda>x. x \<noteq> i) (order q)"
    by blast
  moreover have "\<exists>q' j'. rerun_reset now i q = Ok (r, q') \<and> heap q' = (heap q)(r := j') \<and>
      jobs q' = jobs q \<and> ID j' = ID (heap q r) \<and> Kind j' = Kind (heap q r) \<and>
      Args j' = Args (heap q r) \<and> Owner j' = Owner (heap q r) \<and> Source j' = Source (heap q r) \<and>
      Status j' = StatusQueued \<and> Progress j' = 0 \<and> Error j' = '''' \<and> Scope j' = '''' \<and>
      Queued j' = unix now" if "Kind (heap q r) \<in> runners q"
    using rerun_reset_ok [OF assms n that, of now] by fastforce
  moreover have "rerun_reset now i q = Err ErrUnknownKind" if "Kind (heap q r) \<notin> runners q"
    using that assms n by (simp add: rerun_reset_def)
  ultimately show ?thesis using False by blast
qed

theorem delete_rerun_guards_witness:
  "jobs (sample_queue StatusRunning StatusDone) ''a'' = Some 0 \<and>
   Delete ''a'' (sample_queue StatusRunning StatusDone) = Err ErrConflict"
  using delete_rerun_guards [of "sample_queue StatusRunning StatusDone" "''a''" 0 7] by simp

section \<open>Listing and counting\<close>

lemma list_jobs_set:
  "j \<in> set (list_jobs P q) \<longleftrightarrow>
     (\<exists>i r. i \<in> set (order q) \<and> jobs q i = Some r \<and> P (heap q r) \<and> j = (heap q r)\<lparr>cancel := None\<rparr>)"
  by (auto simp: list_jobs_def split: option.split) metis+

lemma set_cut_subset: "set (cut n xs) \<subseteq> set xs"
  by (auto simp: cut_def dest: in_set_takeD)

lemma cut_all: "n \<le> 0 \<Longrightarrow> cut n xs = xs"
  by (simp add: cut_def)

lemma length_cut: "0 < n \<Longrightarrow> length (cut n xs) = min (nat n) (length xs)"
  by (auto simp: cut_def min_def)

text \<open>
  A listing is newest first, honours the limit, and contains only records that match the owner
  and status filters; with no limit it contains every matching record of the history.
\<close>

theorem list_newest_first:
  shows "sorted_wrt (\<lambda>a b. Queued b \<le> Queued a) (List_jobs owner st limit q) \<and>
    (0 < limit \<longrightarrow> int (length (List_jobs owner st limit q)) \<le> limit) \<and>
    (\<forall>j \<in> set (List_jobs owner st limit q).
       (owner = '''' \<or> Owner j = owner) \<and> (st = StatusOther '''' \<or> Status j = st) \<and> cancel j = None) \<and>
    (limit \<le> 0 \<longrightarrow>
      (\<forall>i r. i \<in> set (order q) \<and> jobs q i = Some r \<and> (owner = '''' \<or> Owner (heap q r) = owner) \<and>
         (st = StatusOther '''' \<or> Status (heap q r) = st) \<longrightarrow>
         (heap q r)\<lparr>cancel := None\<rparr> \<in> set (List_jobs owner st limit q)))"
proof (intro conjI)
  show "sorted_wrt (\<lambda>a b. Queued b \<le> Queued a) (List_jobs owner st limit q)"
    using sort_desc_sorted sorted_wrt_take by (auto simp: List_jobs_def cut_def)
  show "0 < limit \<longrightarrow> int (length (List_jobs owner st limit q)) \<le> limit"
    by (auto simp: List_jobs_def length_cut)
  show "\<forall>j \<in> set (List_jobs owner st limit q).
      (owner = '''' \<or> Owner j = owner) \<and> (st = StatusOther '''' \<or> Status j = st) \<and> cancel j = None"
    using set_cut_subset by (fastforce simp: List_jobs_def list_jobs_set)
  show "limit \<le> 0 \<longrightarrow>
      (\<forall>i r. i \<in> set (order q) \<and> jobs q i = Some r \<and> (owner = '''' \<or> Owner (heap q r) = owner) \<and>
         (st = StatusOther '''' \<or> Status (heap q r) = st) \<longrightarrow>
         (heap q r)\<lparr>cancel := None\<rparr> \<in> set (List_jobs owner st limit q))"
    by (auto simp: List_jobs_def cut_all list_jobs_set)
qed

theorem list_newest_first_witness:
  "int (length (List_jobs ''ann'' StatusDone 1 (sample_queue StatusDone StatusDone))) \<le> 1 \<and>
   (sample_job ''b'' StatusDone)\<lparr>cancel := None\<rparr> \<in> set (List_jobs ''ann'' StatusDone 0 (sample_queue StatusDone StatusDone))"
proof -
  let ?q = "sample_queue StatusDone StatusDone"
  have "''b'' \<in> set (order ?q) \<and> jobs ?q ''b'' = Some 1 \<and> (''ann'' = '''' \<or> Owner (heap ?q 1) = ''ann'') \<and>
      (StatusDone = StatusOther '''' \<or> Status (heap ?q 1) = StatusDone)"
    by simp
  then have "(heap ?q 1)\<lparr>cancel := None\<rparr> \<in> set (List_jobs ''ann'' StatusDone 0 ?q)"
    using list_newest_first [of "''ann''" StatusDone 0 ?q] by blast
  moreover have "int (length (List_jobs ''ann'' StatusDone 1 ?q)) \<le> 1"
    using list_newest_first [of "''ann''" StatusDone 1 ?q] by simp
  ultimately show ?thesis by simp
qed

lemma Counts_filter:
  "Counts is q =
    (length (filter (\<lambda>i. \<exists>r. jobs q i = Some r \<and> Status (heap q r) = StatusRunning \<and> Scope (heap q r) = '''') is),
     length (filter (\<lambda>i. \<exists>r. jobs q i = Some r \<and> Status (heap q r) = StatusQueued) is))"
  by (induction "is") (auto simp: Let_def split: option.split)

section \<open>Boot\<close>

text \<open>The reference for one record: what a restart makes of it.\<close>

definition boot_job :: "nanos \<Rightarrow> (string \<Rightarrow> bool) \<Rightarrow> (string \<rightharpoonup> DetachedStatus) \<Rightarrow> job \<Rightarrow> job" where
  "boot_job now alive d j =
     (if Status j \<noteq> StatusRunning then j
      else if Scope j \<noteq> '''' then
        if alive (Scope j) then j
        else case d (ID j) of
               Some ds \<Rightarrow> if isTerminal (dStatus ds) then applyDetached now ds j
                          else interrupt ''interrupted: vps-manager restart'' now j
             | None \<Rightarrow> interrupt ''interrupted: vps-manager restart'' now j
      else if SafeToResume (Kind j) then j\<lparr>Status := StatusQueued, Started := 0, Progress := 0\<rparr>
      else interrupt ''interrupted: vps-manager restart'' now j)"

lemma ID_boot_job [simp]: "ID (boot_job now alive d j) = ID j"
  by (simp add: boot_job_def split: option.split)

lemma reconcile_one_some:
  assumes "wf_queue q" and "jobs q i = Some r"
  shows "view (reconcile_one now alive i q) = (view q)(i \<mapsto> boot_job now alive (detached q) (heap q r))"
proof -
  have v: "view q i = Some (heap q r)" using assms(2) by (simp add: view_def)
  then have t: "(view q)(i \<mapsto> heap q r) = view q" by (simp add: map_upd_triv)
  show ?thesis
    using assms by (auto simp: reconcile_one_def boot_job_def Let_def view_setj view_simps t
        split: option.split)
qed

lemma reconcile_one_frame [simp]:
  "jobs (reconcile_one now alive i q) = jobs q" "order (reconcile_one now alive i q) = order q"
  "detached (reconcile_one now alive i q) = detached q" "nextRef (reconcile_one now alive i q) = nextRef q"
  "diskOK (reconcile_one now alive i q) = diskOK q" "disk (reconcile_one now alive i q) = disk q" "notified (reconcile_one now alive i q) = notified q"
  "maxKeep (reconcile_one now alive i q) = maxKeep q" "logs (reconcile_one now alive i q) = logs q"
  by (simp_all add: reconcile_one_def Let_def split: option.split)

lemma reconcile_one_wf: "wf_queue q \<Longrightarrow> wf_queue (reconcile_one now alive i q)"
  by (simp add: reconcile_one_def Let_def wf_setj split: option.split)

lemma reconcile_one_none: "jobs q i = None \<Longrightarrow> reconcile_one now alive i q = q"
  by (simp add: reconcile_one_def)

lemma view_None: "view q i = None \<longleftrightarrow> jobs q i = None"
  by (simp add: view_def)

lemma view_Some: "jobs q i = Some r \<Longrightarrow> view q i = Some (heap q r)"
  by (simp add: view_def)

lemma reconcile_one_view:
  "wf_queue q \<Longrightarrow> view (reconcile_one now alive i q) =
     (\<lambda>x. if x = i then map_option (boot_job now alive (detached q)) (view q i) else view q x)"
  by (cases "jobs q i") (auto simp: reconcile_one_some reconcile_one_none view_Some view_None [THEN iffD2] fun_eq_iff)

definition waiting :: "queue \<Rightarrow> string multiset" where
  "waiting q = mset (pending q) + mset (senders q)"

lemma waiting_simps [simp]:
  "waiting (pushPending i q) = add_mset i (waiting q)" "waiting (setj r f q) = waiting q"
  "waiting (persistLocked q) = waiting q"
  by (simp_all add: waiting_def pushPending_conserves)

definition is_queued :: "job option \<Rightarrow> bool" where
  "is_queued x = (case x of None \<Rightarrow> False | Some j \<Rightarrow> Status j = StatusQueued)"

lemma isTerminal_not_queued: "isTerminal s \<Longrightarrow> s \<noteq> StatusQueued \<and> s \<noteq> StatusRunning \<and> s \<noteq> StatusOther x"
  by (cases s) simp_all

lemma boot_job_queued:
  "Status (boot_job now alive d j) = StatusQueued \<longleftrightarrow>
     Status j = StatusQueued \<or> (Status j = StatusRunning \<and> Scope j = '''' \<and> SafeToResume (Kind j))"
  by (auto simp: boot_job_def Status_applyDetached isTerminal_not_queued split: option.split)

lemma reconcile_one_waiting:
  assumes "wf_queue q"
  shows "waiting (reconcile_one now alive i q) =
     (if is_queued (map_option (boot_job now alive (detached q)) (view q i)) then add_mset i (waiting q)
      else waiting q)"
proof (cases "jobs q i")
  case None
  then show ?thesis by (simp add: reconcile_one_def is_queued_def view_def)
next
  case (Some r)
  with assms have "ID (heap q r) = i" by (simp add: wfD)
  with Some show ?thesis
    by (auto simp: reconcile_one_def is_queued_def view_def boot_job_queued Let_def split: option.split)
qed

lemma reconcile_frame [simp]:
  "jobs (reconcile now alive is q) = jobs q" "order (reconcile now alive is q) = order q"
  "detached (reconcile now alive is q) = detached q" "nextRef (reconcile now alive is q) = nextRef q"
  "diskOK (reconcile now alive is q) = diskOK q" "disk (reconcile now alive is q) = disk q" "notified (reconcile now alive is q) = notified q"
  "maxKeep (reconcile now alive is q) = maxKeep q" "logs (reconcile now alive is q) = logs q"
  by (induction "is" arbitrary: q) simp_all

lemma reconcile_wf: "wf_queue q \<Longrightarrow> wf_queue (reconcile now alive is q)"
  by (induction "is" arbitrary: q) (simp_all add: reconcile_one_wf)

lemma reconcile_view:
  "wf_queue q \<Longrightarrow> distinct is \<Longrightarrow> view (reconcile now alive is q) =
     (\<lambda>x. if x \<in> set is then map_option (boot_job now alive (detached q)) (view q x) else view q x)"
  by (induction "is" arbitrary: q) (auto simp: reconcile_one_wf reconcile_one_view fun_eq_iff)

lemma reconcile_waiting:
  "wf_queue q \<Longrightarrow> distinct is \<Longrightarrow> waiting (reconcile now alive is q) = waiting q +
     mset (filter (\<lambda>i. is_queued (map_option (boot_job now alive (detached q)) (view q i))) is)"
proof (induction "is" arbitrary: q)
  case (Cons i "is")
  have "filter (\<lambda>x. is_queued (map_option (boot_job now alive (detached q))
          (view (reconcile_one now alive i q) x))) is =
      filter (\<lambda>x. is_queued (map_option (boot_job now alive (detached q)) (view q x))) is"
    using Cons.prems by (intro filter_cong) (auto simp: reconcile_one_view)
  with Cons show ?case by (simp add: reconcile_one_wf reconcile_one_waiting del: mset_filter)
qed simp

text \<open>Reading \<^verbatim>\<open>state.json\<close>: the records are keyed by their own ids.\<close>

definition keyed :: "stored \<Rightarrow> bool" where
  "keyed st \<longleftrightarrow> (\<forall>i j. sJobs st i = Some j \<longrightarrow> ID j = i)"

lemma alloc_view:
  assumes "wf_queue q" and "ID j = i"
  defines "q2 \<equiv> (snd (alloc j q))\<lparr>jobs := (jobs (snd (alloc j q)))(i \<mapsto> nextRef q)\<rparr>"
  shows "wf_queue q2 \<and> view q2 = (view q)(i \<mapsto> j)"
proof -
  have lt: "r < nextRef q" if "jobs q x = Some r" for x r
    using assms(1) that by (simp add: wfD)
  then have "wf_queue q2"
    using assms(1,2) by (auto simp: wf_queue_def q2_def alloc_def less_SucI)
  moreover have "view q2 x = ((view q)(i \<mapsto> j)) x" for x
    using lt [of x] by (cases "jobs q x") (auto simp: view_def q2_def alloc_def)
  ultimately show ?thesis by blast
qed

lemma load_jobs_view:
  "wf_queue q \<Longrightarrow> keyed st \<Longrightarrow> wf_queue (load_jobs is st q) \<and>
     view (load_jobs is st q) = (\<lambda>x. if x \<in> set is \<and> sJobs st x \<noteq> None then sJobs st x else view q x)"
proof (induction "is" arbitrary: q)
  case (Cons i "is")
  show ?case
  proof (cases "sJobs st i")
    case None
    with Cons show ?thesis by (auto simp: fun_eq_iff)
  next
    case (Some j)
    let ?q = "(snd (alloc j q))\<lparr>jobs := (jobs (snd (alloc j q)))(i \<mapsto> nextRef q)\<rparr>"
    have q: "wf_queue ?q" "view ?q = (view q)(i \<mapsto> j)"
      using Cons.prems Some alloc_view [of q j i] by (auto simp: keyed_def)
    have l: "load_jobs (i # is) st q = load_jobs is st ?q"
      using Some by (simp add: alloc_def)
    show ?thesis
      unfolding l using Cons.IH [OF q(1) Cons.prems(2)] Some by (auto simp: q(2) fun_eq_iff)
  qed
qed simp

lemma load_jobs_frame [simp]:
  "pending (load_jobs is st q) = pending q" "senders (load_jobs is st q) = senders q"
  "detached (load_jobs is st q) = detached q" "notified (load_jobs is st q) = notified q"
  "diskOK (load_jobs is st q) = diskOK q" "disk (load_jobs is st q) = disk q" "maxKeep (load_jobs is st q) = maxKeep q"
  by (induction "is" arbitrary: q) (simp_all add: alloc_def split: option.split)

lemma order_update_frame [simp]:
  "wf_queue (q\<lparr>order := os\<rparr>) = wf_queue q" "view (q\<lparr>order := os\<rparr>) = view q" "waiting (q\<lparr>order := os\<rparr>) = waiting q"
  by (simp_all add: wf_queue_def view_def waiting_def)

lemma empty_queue_wf:
  "wf_queue ((empty_queue dok n j0)\<lparr>detached := ds, logs := ls, disk := d\<rparr>)"
  "view ((empty_queue dok n j0)\<lparr>detached := ds, logs := ls, disk := d\<rparr>) = Map.empty"
  by (simp_all add: wf_queue_def view_def empty_queue_def)

definition boot_view ::
  "nanos \<Rightarrow> (string \<Rightarrow> bool) \<Rightarrow> (string \<rightharpoonup> DetachedStatus) \<Rightarrow> stored \<Rightarrow> string \<rightharpoonup> job" where
  "boot_view now alive ds st = (\<lambda>i. map_option (boot_job now alive ds) (sJobs st i))"

lemma NewQueue_stored:
  assumes "keyed st" and "set is = dom (sJobs st)" and "set is' = dom (sJobs st)" and "distinct is'"
  shows "\<exists>q. NewQueue dok opt now alive is is' (Stored st) ds ls j0 = Ok q \<and> wf_queue q \<and>
    view q = boot_view now alive ds st \<and> order q = sOrder st \<and>
    waiting q = mset (filter (\<lambda>i. is_queued (boot_view now alive ds st i)) is') \<and>
    disk q = (if dok then Some (snapshot_state q) else Some st) \<and> notified q = []"
proof -
  define k where "k = (if opt \<le> 0 then 500 else nat opt)"
  define q0 where "q0 = (empty_queue dok k j0)\<lparr>detached := ds, logs := ls, disk := Some st\<rparr>"
  define q1 where "q1 = (load_jobs is st q0)\<lparr>order := sOrder st\<rparr>"
  define q2 where "q2 = reconcile now alive is' q1"
  have e: "NewQueue dok opt now alive is is' (Stored st) ds ls j0 = Ok (persistLocked q2)"
    by (simp add: NewQueue_def load_def q2_def q1_def q0_def k_def)
  have q0: "wf_queue q0" "view q0 = Map.empty" "pending q0 = []" "senders q0 = []" "detached q0 = ds"
      "notified q0 = []" "diskOK q0 = dok" "disk q0 = Some st"
    by (simp_all add: q0_def empty_queue_wf) (simp_all add: empty_queue_def)
  have q1: "wf_queue q1" "view q1 = sJobs st" "waiting q1 = {#}" "detached q1 = ds" "notified q1 = []"
      "diskOK q1 = dok" "disk q1 = Some st" "order q1 = sOrder st"
    using load_jobs_view [OF q0(1) assms(1), of "is"] assms(2) q0
    by (auto simp: q1_def waiting_def fun_eq_iff)
  have "view q2 x = boot_view now alive ds st x" for x
    unfolding q2_def reconcile_view [OF q1(1) assms(4)] assms(3) q1(2,4) boot_view_def
    by (cases "sJobs st x") auto
  then have "view q2 = boot_view now alive ds st" ..
  moreover have "waiting q2 = mset (filter (\<lambda>i. is_queued (boot_view now alive ds st i)) is')"
    using reconcile_waiting [OF q1(1) assms(4)] q1 by (simp add: q2_def boot_view_def)
  moreover have "wf_queue q2" "order q2 = sOrder st" "diskOK q2 = dok" "disk q2 = Some st" "notified q2 = []"
    using q1 by (simp_all add: q2_def reconcile_wf)
  ultimately show ?thesis
    using e by (auto simp: persistLocked_def view_def snapshot_state_def wf_queue_def waiting_def)
qed

lemma boot_job_not_running:
  "Status (boot_job now alive d j) = StatusRunning \<Longrightarrow> Scope j \<noteq> '''' \<and> alive (Scope j)"
  by (auto simp: boot_job_def Status_applyDetached isTerminal_not_queued
      split: option.splits if_splits)

text \<open>
  C35. A restart rebuilds exactly the records of the state file, each reconciled on its own: an
  unfinished in-process job goes back to the queue when its kind may be resumed and is marked
  interrupted otherwise, a detached one stays running only while its scope is alive and otherwise
  takes its recorded result or is marked interrupted, every other record is unchanged. The ids
  waiting for a worker are exactly those of the queued records, once each; the reconciled state is
  written back when the disk accepts writes (the file stays as it was otherwise) and no terminal hook has run.
\<close>

theorem boot_reconciles:
  assumes "keyed st" and "set is = dom (sJobs st)" and "set is' = dom (sJobs st)" and "distinct is'"
  shows "\<exists>q. NewQueue dok opt now alive is is' (Stored st) ds ls j0 = Ok q \<and>
    view q = (\<lambda>i. map_option (boot_job now alive ds) (sJobs st i)) \<and> order q = sOrder st \<and>
    (\<forall>i j. view q i = Some j \<and> Status j = StatusRunning \<longrightarrow> Scope j \<noteq> '''' \<and> alive (Scope j)) \<and>
    mset (pending q) + mset (senders q) =
      mset (filter (\<lambda>i. \<exists>j. view q i = Some j \<and> Status j = StatusQueued) is') \<and>
    disk q = (if dok then Some (snapshot_state q) else Some st) \<and> notified q = []"
proof -
  obtain q where q: "NewQueue dok opt now alive is is' (Stored st) ds ls j0 = Ok q"
      "view q = boot_view now alive ds st" "order q = sOrder st"
      "waiting q = mset (filter (\<lambda>i. is_queued (boot_view now alive ds st i)) is')"
      "disk q = (if dok then Some (snapshot_state q) else Some st)" "notified q = []"
    using NewQueue_stored [OF assms] by blast
  have qd: "(\<lambda>i. is_queued (boot_view now alive ds st i)) =
      (\<lambda>i. \<exists>j. view q i = Some j \<and> Status j = StatusQueued)"
    by (auto simp: is_queued_def q(2) split: option.splits)
  have run: "Scope j \<noteq> '''' \<and> alive (Scope j)" if "view q i = Some j" "Status j = StatusRunning" for i j
  proof -
    from that obtain j0 where j0: "j = boot_job now alive ds j0"
      by (auto simp: q(2) boot_view_def)
    with that(2) have s: "Scope j0 \<noteq> '''' \<and> alive (Scope j0)"
      using boot_job_not_running by blast
    moreover have "Scope j = Scope j0"
      by (simp add: j0 boot_job_def split: option.split)
    ultimately show ?thesis by simp
  qed
  have "mset (pending q) + mset (senders q) =
      mset (filter (\<lambda>i. \<exists>j. view q i = Some j \<and> Status j = StatusQueued) is')"
    using q(4) unfolding qd waiting_def .
  with q(1,3,5,6) q(2) [unfolded boot_view_def] run show ?thesis
    by blast
qed

definition sample_stored :: stored where
  "sample_stored = \<lparr>sJobs = [''a'' \<mapsto> sample_job ''a'' StatusRunning, ''b'' \<mapsto> sample_job ''b'' StatusQueued],
     sOrder = [''a'', ''b'']\<rparr>"

lemma sample_stored_hyps:
  "keyed sample_stored" "set [''a'', ''b''] = dom (sJobs sample_stored)"
  "set [''b'', ''a''] = dom (sJobs sample_stored)" "distinct [''b'', ''a'']"
  by (auto simp: keyed_def sample_stored_def split: if_splits)

theorem boot_reconciles_witness:
  "\<exists>q. NewQueue True 0 7 (\<lambda>_. False) [''a'', ''b''] [''b'', ''a''] (Stored sample_stored) Map.empty Map.empty
       (sample_job ''x'' StatusDone) = Ok q \<and>
     mset (pending q) + mset (senders q) = {#''b''#} \<and> disk q = Some (snapshot_state q)"
proof -
  obtain q where q: "NewQueue True 0 7 (\<lambda>_. False) [''a'', ''b''] [''b'', ''a''] (Stored sample_stored) Map.empty
        Map.empty (sample_job ''x'' StatusDone) = Ok q"
      "view q = (\<lambda>i. map_option (boot_job 7 (\<lambda>_. False) Map.empty) (sJobs sample_stored i))"
      "mset (pending q) + mset (senders q) =
        mset (filter (\<lambda>i. \<exists>j. view q i = Some j \<and> Status j = StatusQueued) [''b'', ''a''])"
      "disk q = Some (snapshot_state q)"
    using boot_reconciles [OF sample_stored_hyps, of True 0 7 "\<lambda>_. False" Map.empty Map.empty
        "sample_job ''x'' StatusDone"] by auto
  have "\<exists>j. view q ''b'' = Some j \<and> Status j = StatusQueued"
      "\<not> (\<exists>j. view q ''a'' = Some j \<and> Status j = StatusQueued)"
    by (simp_all add: q(2) sample_stored_def boot_job_queued SafeToResume_def)
  then have "filter (\<lambda>i. \<exists>j. view q i = Some j \<and> Status j = StatusQueued) [''b'', ''a''] = [''b'']"
    by (simp only: filter.simps if_True if_False)
  with q(3) have "mset (pending q) + mset (senders q) = {#''b''#}"
    by (simp only: mset.simps)
  with q(1,4) show ?thesis by blast
qed

section \<open>Restart\<close>

lemma keyed_snapshot: "wf_queue q \<Longrightarrow> keyed (snapshot_state q)"
  by (auto simp: keyed_def snapshot_state_def wf_queue_def)

lemma sJobs_snapshot: "sJobs (snapshot_state q) i = map_option persisted (view q i)"
  by (simp add: snapshot_state_def view_def option.map_comp comp_def)

lemma dom_snapshot [simp]: "dom (sJobs (snapshot_state q)) = dom (jobs q)"
  by (auto simp: snapshot_state_def)

text \<open>
  Restart round trip: booting from the file a well-formed queue has written gives back every
  record in the same history order; a record that is not running comes back unchanged (apart from
  the process-local cancel function and notified mark), so finished work is never lost or repeated
  and queued work is queued again.
\<close>

theorem restart_roundtrip:
  assumes "wf_queue q" and "diskOK q" and "set is = dom (jobs q)" and "set is' = dom (jobs q)"
    and "distinct is'"
  shows "\<exists>st q'. disk (persistLocked q) = Some st \<and>
    NewQueue dok opt now alive is is' (Stored st) (detached q) (logs q) j0 = Ok q' \<and>
    dom (jobs q') = dom (jobs q) \<and> order q' = order q \<and>
    (\<forall>i j. view q i = Some j \<and> Status j \<noteq> StatusRunning \<longrightarrow> view q' i = Some (persisted j)) \<and>
    (\<forall>i j. view q i = Some j \<and> Status j = StatusQueued \<longrightarrow> i \<in># mset (pending q') + mset (senders q'))"
proof -
  obtain q' where q': "NewQueue dok opt now alive is is' (Stored (snapshot_state q)) (detached q) (logs q) j0 = Ok q'"
      "view q' = boot_view now alive (detached q) (snapshot_state q)"
      "order q' = sOrder (snapshot_state q)"
      "waiting q' = mset (filter (\<lambda>i. is_queued (boot_view now alive (detached q) (snapshot_state q) i)) is')"
    using NewQueue_stored [OF keyed_snapshot [OF assms(1)]] assms(3-5) by (metis dom_snapshot)
  have v: "view q' i = map_option (\<lambda>j. boot_job now alive (detached q) (persisted j)) (view q i)" for i
    by (simp add: q'(2) boot_view_def sJobs_snapshot option.map_comp comp_def)
  have d: "dom (jobs q') = dom (jobs q)"
  proof -
    have "jobs q' i = None \<longleftrightarrow> jobs q i = None" for i
      using v [of i] view_None [of q' i] view_None [of q i] by simp
    then show ?thesis by (simp add: dom_def)
  qed
  have "i \<in># waiting q'" if "view q i = Some j" "Status j = StatusQueued" for i j
  proof -
    have "i \<in> set is'"
      using that(1) assms(4) view_None [of q i] by auto
    with that show ?thesis
      by (simp add: q'(4) boot_view_def sJobs_snapshot is_queued_def boot_job_def)
  qed
  moreover have "view q' i = Some (persisted j)" if "view q i = Some j" "Status j \<noteq> StatusRunning" for i j
    using that by (simp add: v boot_job_def)
  moreover have "order q' = order q"
    by (simp add: q'(3) snapshot_state_def)
  ultimately show ?thesis
    using q'(1) d disk_persist [OF assms(2)] unfolding waiting_def by blast
qed

theorem restart_roundtrip_witness:
  "\<exists>st q'. disk (persistLocked (sample_queue StatusDone StatusQueued)) = Some st \<and>
     NewQueue True 0 7 (\<lambda>_. True) [''a'', ''b''] [''b'', ''a''] (Stored st)
       (detached (sample_queue StatusDone StatusQueued)) (logs (sample_queue StatusDone StatusQueued))
       (sample_job ''x'' StatusDone) = Ok q' \<and>
     view q' ''a'' = Some (persisted (sample_job ''a'' StatusDone))"
proof -
  let ?q = "sample_queue StatusDone StatusQueued"
  have h: "wf_queue ?q" "diskOK ?q" "set [''a'', ''b''] = dom (jobs ?q)" "set [''b'', ''a''] = dom (jobs ?q)"
      "distinct [''b'', ''a'']"
    by auto
  have a: "view ?q ''a'' = Some (sample_job ''a'' StatusDone) \<and>
      Status (sample_job ''a'' StatusDone) \<noteq> StatusRunning"
    by (simp add: view_def)
  from restart_roundtrip [OF h, of True 0 7 "\<lambda>_. True" "sample_job ''x'' StatusDone"] a
  show ?thesis by blast
qed

section \<open>The reaper\<close>

lemma reap_publish_frame [simp]:
  "jobs (reap_publish now r q) = jobs q" "detached (reap_publish now r q) = detached q"
  "order (reap_publish now r q) = order q" "nextRef (reap_publish now r q) = nextRef q"
  "pending (reap_publish now r q) = pending q" "senders (reap_publish now r q) = senders q"
  "Status (heap (reap_publish now r q) x) = Status (heap q x)"
  by (simp_all add: reap_publish_def Let_def)

lemma reap_publish_other: "x \<noteq> r \<Longrightarrow> heap (reap_publish now r q) x = heap q x"
  by (simp add: reap_publish_def Let_def heap_notify)

lemma reap_one_frame [simp]:
  "jobs (reap_one now a r q) = jobs q" "detached (reap_one now a r q) = detached q"
  "order (reap_one now a r q) = order q" "nextRef (reap_one now a r q) = nextRef q"
  "pending (reap_one now a r q) = pending q" "senders (reap_one now a r q) = senders q"
  by (simp_all add: reap_one_def reap_apply_def Let_def case_prod_unfold)

lemma reap_one_other: "x \<noteq> r \<Longrightarrow> heap (reap_one now a r q) x = heap q x"
  by (simp add: reap_one_def reap_apply_def Let_def case_prod_unfold reap_publish_other)

text \<open>The reference for the status after one visit.\<close>

definition reaped_status :: "nanos \<Rightarrow> bool \<Rightarrow> DetachedStatus option \<Rightarrow> job \<Rightarrow> status" where
  "reaped_status now alive d j =
     (let late = (detachStartupGrace \<le> unix now - Started j \<and> \<not> alive) in
      case d of
        None \<Rightarrow> if late then StatusInterrupted else Status j
      | Some ds \<Rightarrow> if isTerminal (dStatus ds) then dStatus ds
                   else if late then StatusInterrupted
                   else if dStatus ds = StatusOther '''' then Status j else dStatus ds)"

lemma reap_record_status: "Status (fst (reap_record now a d j)) = reaped_status now a d j"
  by (auto simp: reap_record_def reaped_status_def Let_def Status_applyDetached isTerminal_not_queued
      split: option.split)

lemma reap_one_status:
  "Status (heap (reap_one now a r q) r) = reaped_status now a (detached q (ID (heap q r))) (heap q r)"
  by (simp add: reap_one_def reap_apply_def Let_def case_prod_unfold reap_record_status)

lemma reap_all_other: "r \<notin> set rs \<Longrightarrow> heap (reap_all now alive rs q) r = heap q r"
  by (induction rs arbitrary: q) (simp_all add: reap_one_other)

lemma reap_all_status:
  "distinct rs \<Longrightarrow> r \<in> set rs \<Longrightarrow> Status (heap (reap_all now alive rs q) r) =
     reaped_status now (alive (Scope (heap q r))) (detached q (ID (heap q r))) (heap q r)"
proof (induction rs arbitrary: q)
  case (Cons x rs)
  then show ?case
    by (cases "x = r") (auto simp: reap_all_other reap_one_status reap_one_other)
qed simp

lemma reap_all_frame [simp]: "jobs (reap_all now alive rs q) = jobs q"
  by (induction rs arbitrary: q) simp_all

lemma set_reap_scoped:
  "r \<in> set (reap_scoped is q) \<longleftrightarrow>
     (\<exists>i\<in>set is. jobs q i = Some r \<and> Scope (heap q r) \<noteq> '''' \<and> Status (heap q r) = StatusRunning)"
  by (induction "is") (auto simp: reap_scoped_def split: option.splits if_splits)

lemma distinct_reap_scoped: "wf_queue q \<Longrightarrow> distinct is \<Longrightarrow> distinct (reap_scoped is q)"
proof (induction "is")
  case (Cons i "is")
  have "r \<notin> set (reap_scoped is q)" if "jobs q i = Some r" for r
    using Cons.prems wf_inj [OF Cons.prems(1) that] by (auto simp: set_reap_scoped)
  with Cons show ?case by (auto simp: reap_scoped_def split: option.split)
qed (simp add: reap_scoped_def)

text \<open>
  One pass of the reaper settles every detached running job whose process has ended: it takes the
  final status the process recorded, and when the scope is gone past the startup grace without one,
  it is marked interrupted, so it cannot stay running forever. A job that is not a detached running
  one is left alone.
\<close>

theorem reaper_settles:
  fixes now :: nanos and alive :: "string \<Rightarrow> bool"
  assumes "wf_queue q" and "set is = dom (jobs q)" and "distinct is" and "jobs q i = Some r"
  defines "q' \<equiv> reapDetachedOnce now alive is q"
  shows "jobs q' i = Some r \<and>
    (Scope (heap q r) \<noteq> '''' \<and> Status (heap q r) = StatusRunning \<longrightarrow>
      (\<forall>ds. detached q i = Some ds \<and> isTerminal (dStatus ds) \<longrightarrow> Status (heap q' r) = dStatus ds) \<and>
      (\<not> alive (Scope (heap q r)) \<and> detachStartupGrace \<le> unix now - Started (heap q r) \<longrightarrow>
        isTerminal (Status (heap q' r)))) \<and>
    (\<not> (Scope (heap q r) \<noteq> '''' \<and> Status (heap q r) = StatusRunning) \<longrightarrow> heap q' r = heap q r)"
proof -
  have i: "i \<in> set is" "ID (heap q r) = i"
    using assms(1,2,4) by (auto simp: wfD)
  have j: "jobs q' i = Some r"
    using assms(4) by (simp add: q'_def reapDetachedOnce_def)
  show ?thesis
  proof (cases "Scope (heap q r) \<noteq> '''' \<and> Status (heap q r) = StatusRunning")
    case True
    with i(1) assms(4) have "r \<in> set (reap_scoped is q)" by (auto simp: set_reap_scoped)
    with distinct_reap_scoped [OF assms(1,3)] i(2)
    have "Status (heap q' r) = reaped_status now (alive (Scope (heap q r))) (detached q i) (heap q r)"
      by (simp add: q'_def reapDetachedOnce_def reap_all_status)
    with True j show ?thesis by (auto simp: reaped_status_def Let_def split: option.split)
  next
    case False
    then have "r \<notin> set (reap_scoped is q)" by (auto simp: set_reap_scoped)
    then have "heap q' r = heap q r" by (simp add: q'_def reapDetachedOnce_def reap_all_other)
    with False j show ?thesis by blast
  qed
qed

definition scoped_queue :: queue where
  "scoped_queue = setj 0 (\<lambda>j. j\<lparr>Scope := ''s''\<rparr>) (sample_queue StatusRunning StatusDone)"

theorem reaper_settles_witness:
  "isTerminal (Status (heap (reapDetachedOnce (20 * second) (\<lambda>_. False) [''a'', ''b''] scoped_queue) 0))"
proof -
  have h: "wf_queue scoped_queue" "set [''a'', ''b''] = dom (jobs scoped_queue)" "distinct [''a'', ''b'']"
      "jobs scoped_queue ''a'' = Some 0"
    by (auto simp: scoped_queue_def wf_setj)
  have "\<not> (\<lambda>_. False) (Scope (heap scoped_queue 0)) \<and>
      detachStartupGrace \<le> unix (20 * second) - Started (heap scoped_queue 0)"
    by (simp add: scoped_queue_def detachStartupGrace_def unix_def second_def)
  moreover have "Scope (heap scoped_queue 0) \<noteq> '''' \<and> Status (heap scoped_queue 0) = StatusRunning"
    by (simp add: scoped_queue_def)
  ultimately show ?thesis
    using reaper_settles [OF h, of "20 * second" "\<lambda>_. False"] by blast
qed

section \<open>Shutdown\<close>

lemma shutdown_mark_frame [simp]:
  "jobs (shutdown_mark now is q) = jobs q" "diskOK (shutdown_mark now is q) = diskOK q"
  "order (shutdown_mark now is q) = order q" "nextRef (shutdown_mark now is q) = nextRef q"
  by (induction "is" arbitrary: q) (simp_all split: option.split)

definition stop_job :: "nanos \<Rightarrow> job \<Rightarrow> job" where
  "stop_job now j = (if Status j = StatusRunning \<and> Scope j = ''''
     then interrupt ''interrupted: shutdown timeout'' now j else j)"

lemma stop_job_idem [simp]: "stop_job now (stop_job now j) = stop_job now j"
  by (simp add: stop_job_def)

lemma stop_job_running: "Status (stop_job now j) = StatusRunning \<Longrightarrow> Scope (stop_job now j) \<noteq> []"
  by (simp add: stop_job_def split: if_split_asm)

lemma shutdown_mark_Cons:
  assumes "wf_queue q"
  shows "\<exists>q1. shutdown_mark now (i # is) q = shutdown_mark now is q1 \<and> wf_queue q1 \<and>
    view q1 = (view q)(i := map_option (stop_job now) (view q i))"
proof (cases "jobs q i")
  case None
  then have "view q i = None" by (simp add: view_None)
  then have "view q = (view q)(i := map_option (stop_job now) (view q i))" by (auto simp: fun_eq_iff)
  moreover from None have "shutdown_mark now (i # is) q = shutdown_mark now is q" by simp
  ultimately show ?thesis using assms by metis
next
  case (Some r)
  note v = view_Some [OF Some]
  let ?f = "interrupt ''interrupted: shutdown timeout'' now"
  show ?thesis
  proof (cases "Status (heap q r) = StatusRunning \<and> Scope (heap q r) = ''''")
    case True
    with Some have "shutdown_mark now (i # is) q = shutdown_mark now is (setj r ?f q)" by simp
    moreover have "view (setj r ?f q) = (view q)(i := map_option (stop_job now) (view q i))"
      using True by (simp add: view_setj [OF assms Some] v stop_job_def)
    ultimately show ?thesis using wf_setj [OF assms, of ?f r] by fastforce
  next
    case False
    with Some have "shutdown_mark now (i # is) q = shutdown_mark now is q" by auto
    moreover from False have "view q = (view q)(i := map_option (stop_job now) (view q i))"
      by (auto simp: v stop_job_def fun_eq_iff)
    ultimately show ?thesis using assms by metis
  qed
qed

lemma shutdown_mark_view:
  "wf_queue q \<Longrightarrow> view (shutdown_mark now is q) =
     (\<lambda>i. if i \<in> set is then map_option (stop_job now) (view q i) else view q i)"
proof (induction "is" arbitrary: q)
  case (Cons i "is")
  obtain q1 where q1: "shutdown_mark now (i # is) q = shutdown_mark now is q1" "wf_queue q1"
      "view q1 = (view q)(i := map_option (stop_job now) (view q i))"
    using shutdown_mark_Cons [OF Cons.prems] by blast
  have "map_option (stop_job now) (map_option (stop_job now) x) = map_option (stop_job now) x" for x
    by (cases x) simp_all
  with Cons.IH [OF q1(2)] show ?case unfolding q1(1,3) by (auto simp: fun_eq_iff)
qed simp

text \<open>
  A shutdown that times out marks every in-process job still running as interrupted and changes
  no other record, in particular no detached one; what is written to the state file is that, and the
  next boot keeps it.
\<close>

theorem shutdown_timeout_honest:
  fixes now :: nanos
  assumes "wf_queue q" and "set is = dom (jobs q)" and "diskOK q"
  defines "q' \<equiv> shutdown_timeout now is q"
  shows "view q' = (\<lambda>i. map_option (stop_job now) (view q i)) \<and>
    (\<forall>i j. view q' i = Some j \<and> Status j = StatusRunning \<longrightarrow> Scope j \<noteq> '''') \<and>
    (\<exists>st. disk q' = Some st \<and> (\<forall>i. sJobs st i = map_option persisted (view q' i)))"
proof -
  have v: "view q' i = map_option (stop_job now) (view q i)" for i
  proof (cases "view q i")
    case None
    then show ?thesis by (simp add: q'_def shutdown_timeout_def view_simps shutdown_mark_view [OF assms(1)])
  next
    case (Some j)
    then have "i \<in> set is" using assms(2) view_None [of q i] by auto
    then show ?thesis by (simp add: q'_def shutdown_timeout_def view_simps shutdown_mark_view [OF assms(1)])
  qed
  moreover have "Scope j \<noteq> ''''" if "view q' i = Some j" "Status j = StatusRunning" for i j
    using that stop_job_running by (auto simp: v)
  moreover have "\<exists>st. disk q' = Some st \<and> (\<forall>i. sJobs st i = map_option persisted (view q' i))"
    using assms(3) by (simp add: q'_def shutdown_timeout_def disk_persist sJobs_snapshot view_simps)
  ultimately show ?thesis by blast
qed

theorem shutdown_timeout_honest_witness:
  "view (shutdown_timeout 7 [''a'', ''b''] (sample_queue StatusRunning StatusDone)) ''a'' =
     Some (interrupt ''interrupted: shutdown timeout'' 7 (sample_job ''a'' StatusRunning))"
proof -
  let ?q = "sample_queue StatusRunning StatusDone"
  have h: "wf_queue ?q" "set [''a'', ''b''] = dom (jobs ?q)" "diskOK ?q" by auto
  have "view (shutdown_timeout 7 [''a'', ''b''] ?q) ''a'' = map_option (stop_job 7) (view ?q ''a'')"
    using shutdown_timeout_honest [OF h, of 7] by metis
  then show ?thesis by (simp add: view_Some stop_job_def)
qed

end
