(* ===== verification/QueueSystem.thy ===== *)
theory QueueSystem
  imports QueueProps
begin

text \<open>
  The job queue as a concurrent system. Every critical section of \<^verbatim>\<open>queue.go\<close> is one step; between
  two steps any other goroutine may run. Besides the queue the state has what the goroutines hold
  while they do not hold \<^verbatim>\<open>q.mu\<close>: the job each worker runs with its context, the jobs inserted by
  \<open>Enqueue\<close> or reset by \<open>Rerun\<close> and not dispatched yet, and the reaper's list with the status file it
  has read. Arguments of the steps are arbitrary, so an invariant here holds for every client.
\<close>

section \<open>State and steps\<close>

datatype worker = Idle | Starting nat nat | Running nat nat

record sys =
  Q :: queue
  workers :: "nat \<Rightarrow> worker"
  dispatching :: "nat list"
  reaping :: "nat list"
  reapRead :: "(nat \<times> DetachedStatus option) option"

inductive step :: "sys \<Rightarrow> sys \<Rightarrow> bool" where
  Register: "step s (s\<lparr>Q := Register k (Q s)\<rparr>)"
| SetDetach: "step s (s\<lparr>Q := SetDetach l ks (Q s)\<rparr>)"
| SetNotifier: "step s (s\<lparr>Q := SetNotifier b (Q s)\<rparr>)"
| Enqueue: "enqueue_insert now k a own src (Q s) = Ok (r, q) \<Longrightarrow>
    step s (s\<lparr>Q := q, dispatching := r # dispatching s\<rparr>)"
| Rerun: "rerun_reset now i (Q s) = Ok (r, q) \<Longrightarrow>
    step s (s\<lparr>Q := q, dispatching := r # dispatching s\<rparr>)"
| Dispatch: "r \<in> set (dispatching s) \<Longrightarrow>
    step s (s\<lparr>Q := dispatch now launched r (Q s), dispatching := remove1 r (dispatching s)\<rparr>)"
| Cancel: "Cancel now i (Q s) = Ok q \<Longrightarrow> step s (s\<lparr>Q := q\<rparr>)"
| Delete: "Delete i (Q s) = Ok q \<Longrightarrow> step s (s\<lparr>Q := q\<rparr>)"
| Take_skip: "workers s w = Idle \<Longrightarrow> pending (Q s) = i # is \<Longrightarrow>
    runOne_begin now i ((Q s)\<lparr>pending := is\<rparr>) = (Skipped, q) \<Longrightarrow> step s (s\<lparr>Q := q\<rparr>)"
| Take_run: "workers s w = Idle \<Longrightarrow> pending (Q s) = i # is \<Longrightarrow>
    runOne_begin now i ((Q s)\<lparr>pending := is\<rparr>) = (Began r c, q) \<Longrightarrow>
    step s (s\<lparr>Q := q, workers := (workers s)(w := Starting r c)\<rparr>)"
| Open_log: "workers s w = Starting r c \<Longrightarrow>
    step s (s\<lparr>Q := create_log r (Q s), workers := (workers s)(w := Running r c)\<rparr>)"
| Open_failed: "workers s w = Starting r c \<Longrightarrow>
    step s (s\<lparr>Q := fail now (ID (heap (Q s) r)) (''create log: '' @ msg) (Q s),
              workers := (workers s)(w := Idle)\<rparr>)"
| Prog: "workers s w = Running r c \<Longrightarrow> step s (s\<lparr>Q := prog now r p (Q s)\<rparr>)"
| Set_step: "workers s w = Running r c \<Longrightarrow> step s (s\<lparr>Q := setStep now r t (Q s)\<rparr>)"
| Log_write: "workers s w = Running r c \<Longrightarrow> step s (s\<lparr>Q := log_write now r t (Q s)\<rparr>)"
| Finish: "workers s w = Running r c \<Longrightarrow>
    step s (s\<lparr>Q := runOne_end now r c err (Q s), workers := (workers s)(w := Idle)\<rparr>)"
| Reap_start: "reaping s = [] \<Longrightarrow> reapRead s = None \<Longrightarrow> set is = dom (jobs (Q s)) \<Longrightarrow> distinct is \<Longrightarrow>
    step s (s\<lparr>reaping := reap_scoped is (Q s)\<rparr>)"
| Reap_read: "reaping s = r # rs \<Longrightarrow> reapRead s = None \<Longrightarrow>
    step s (s\<lparr>reaping := rs, reapRead := Some (r, detached (Q s) (ID (heap (Q s) r)))\<rparr>)"
| Reap_apply: "reapRead s = Some (r, d) \<Longrightarrow>
    step s (s\<lparr>Q := reap_apply now alive d r (Q s), reapRead := None\<rparr>)"
| Unblock: "step s (s\<lparr>Q := unblock n (Q s)\<rparr>)"
| Subscribe: "step s (s\<lparr>Q := snd (Subscribe i (Q s))\<rparr>)"
| Unsubscribe: "step s (s\<lparr>Q := unsubscribe i ch (Q s)\<rparr>)"
| Write_status: "step s (s\<lparr>Q := WriteDetachedStatus i ds (Q s)\<rparr>)"
| Disk: "step s (s\<lparr>Q := (Q s)\<lparr>diskOK := b\<rparr>\<rparr>)"
| Shutdown_begin: "set is = dom (jobs (Q s)) \<Longrightarrow> step s (s\<lparr>Q := shutdown_begin is (Q s)\<rparr>)"
| Shutdown_drained: "step s (s\<lparr>Q := shutdown_drained (Q s)\<rparr>)"
| Shutdown_timeout: "set is = dom (jobs (Q s)) \<Longrightarrow> step s (s\<lparr>Q := shutdown_timeout now is (Q s)\<rparr>)"

text \<open>A fresh process: \<open>NewQueue\<close> has booted from some file and every worker is idle.\<close>

definition init :: "sys \<Rightarrow> bool" where
  "init s \<longleftrightarrow>
     (\<exists>dok opt now alive is is' st ds ls j0.
        keyed st \<and> set is = dom (sJobs st) \<and> set is' = dom (sJobs st) \<and> distinct is' \<and>
        (\<forall>i j. sJobs st i = Some j \<longrightarrow> cancel j = None \<and> \<not> notifiedTerminal j) \<and>
        NewQueue dok opt now alive is is' (Stored st) ds ls j0 = Ok (Q s)) \<and>
     workers s = (\<lambda>_. Idle) \<and> dispatching s = [] \<and> reaping s = [] \<and> reapRead s = None"

section \<open>The invariant of the queue\<close>

text \<open>
  The map is well formed; the hook has run exactly for the objects that carry the mark, once each,
  with a finished record; the channels respect their capacities.
\<close>

definition hub_ok :: "queue \<Rightarrow> bool" where
  "hub_ok q \<longleftrightarrow> (\<forall>i x. x \<in> set (hub q i) \<longrightarrow> length (snd x) \<le> listenerCap)"

definition Inv :: "queue \<Rightarrow> bool" where
  "Inv q \<longleftrightarrow> wf_queue q \<and>
     distinct (map fst (notified q)) \<and>
     (\<forall>r < nextRef q. notifiedTerminal (heap q r) \<longleftrightarrow> r \<in> fst ` set (notified q)) \<and>
     (\<forall>(r, j) \<in> set (notified q). r < nextRef q \<and> isTerminal (Status j)) \<and>
     length (pending q) \<le> pendingCap \<and>
     hub_ok q"

lemma Inv_cong:
  assumes "Inv q" and "jobs q' \<subseteq>\<^sub>m jobs q" and "heap q' = heap q" and "nextRef q' = nextRef q"
    and "notified q' = notified q" and "length (pending q') \<le> length (pending q)" and "hub q' = hub q"
  shows "Inv q'"
proof -
  have "jobs q i = Some r" if "jobs q' i = Some r" for i r
    using assms(2) that by (metis domI map_le_def)
  then have "wf_queue q'"
    using assms(1,3,4) by (auto simp: Inv_def wf_queue_def)
  then show ?thesis
    using assms(1,3-7) by (simp add: Inv_def hub_ok_def)
qed

lemma hub_ok_cong: "hub q' = hub q \<Longrightarrow> hub_ok q' = hub_ok q"
  by (simp add: hub_ok_def)

lemmas hub_ok_simps [simp] = hub_ok_cong [OF setj_frame(12)] hub_ok_cong [OF persist_frame(13)]
  hub_ok_cong [OF push_frame(11)] hub_ok_cong [OF unblock_frame(11)] hub_ok_cong [OF notify_frame(11)]
  hub_ok_cong [OF append_log_frame(13)]

lemma hub_ok_broadcast: "hub_ok q \<Longrightarrow> hub_ok (broadcast i ev q)"
  by (auto simp: hub_ok_def broadcast_def)

lemma Inv_setj:
  assumes "Inv q" and "\<And>j. ID (f j) = ID j" and "\<And>j. notifiedTerminal (f j) = notifiedTerminal j"
  shows "Inv (setj r f q)"
proof -
  have "wf_queue (setj r f q)"
    using assms(1,2) by (simp add: Inv_def wf_setj)
  with assms(1,3) show ?thesis by (simp add: Inv_def)
qed

lemma Inv_persist [simp]: "Inv (persistLocked q) = Inv q"
  by (simp add: Inv_def)

lemma Inv_broadcast: "Inv q \<Longrightarrow> Inv (broadcast i ev q)"
  by (simp add: Inv_def hub_ok_broadcast)

lemma Inv_pushPending: "Inv q \<Longrightarrow> Inv (pushPending i q)"
  by (simp add: Inv_def pushPending_bounded)

lemma Inv_unblock: "Inv q \<Longrightarrow> Inv (unblock n q)"
  by (simp add: Inv_def unblock_bounded)

lemma Inv_append_log: "Inv q \<Longrightarrow> Inv (append_log p s q)"
  by (simp add: Inv_def)

lemma Inv_notify:
  assumes "Inv q" and "r < nextRef q"
  shows "Inv (notifyTerminalLocked r q)"
proof (cases "notifier q \<and> isTerminal (Status (heap q r)) \<and> \<not> notifiedTerminal (heap q r)")
  case True
  let ?q = "notifyTerminalLocked r q"
  have w: "wf_queue ?q" using assms(1) by (simp add: Inv_def)
  have n: "notified ?q = notified q @ [(r, (heap q r)\<lparr>notifiedTerminal := True\<rparr>)]"
    using True by (simp add: notifyTerminalLocked_def Let_def)
  have h: "heap ?q = (heap q)(r := (heap q r)\<lparr>notifiedTerminal := True\<rparr>)"
    using True by (simp add: heap_notify)
  have "r \<notin> fst ` set (notified q)" using assms True by (auto simp: Inv_def)
  with assms True w show ?thesis by (auto simp: Inv_def n h)
next
  case False
  then have "notifyTerminalLocked r q = q" by (auto simp: notifyTerminalLocked_def)
  with assms(1) show ?thesis by simp
qed

lemmas Inv_intros = Inv_broadcast Inv_pushPending Inv_unblock Inv_append_log Inv_notify Inv_setj

section \<open>Every operation keeps the invariant\<close>

lemma prune_loop_shrinks:
  "jobs (fst (prune_loop n d is q)) \<subseteq>\<^sub>m jobs q \<and> nextRef (fst (prune_loop n d is q)) = nextRef q \<and>
   notified (fst (prune_loop n d is q)) = notified q \<and> pending (fst (prune_loop n d is q)) = pending q \<and>
   hub (fst (prune_loop n d is q)) = hub q"
proof (induction n d "is" q rule: prune_loop.induct)
  case (2 n d i "is" q)
  have "jobs (drop_job i j q) \<subseteq>\<^sub>m jobs q" for j
    by (simp add: drop_job_def map_le_def)
  with 2 show ?case
    by (auto simp: case_prod_unfold split: option.split intro: map_le_trans)
qed simp

lemma prune_shrinks:
  "jobs (pruneLocked q) \<subseteq>\<^sub>m jobs q" "nextRef (pruneLocked q) = nextRef q"
  "notified (pruneLocked q) = notified q" "pending (pruneLocked q) = pending q"
  "hub (pruneLocked q) = hub q"
  using prune_loop_shrinks [of "length (order q)" 0 "order q" q]
  by (simp_all add: pruneLocked_def case_prod_unfold)

lemma Inv_prune: "Inv q \<Longrightarrow> Inv (pruneLocked q)"
  by (erule Inv_cong) (simp_all add: prune_shrinks)

lemma Inv_insert:
  assumes "Inv q" and "\<not> notifiedTerminal j" and "ID j = i"
  shows "Inv (q\<lparr>heap := (heap q)(nextRef q := j), nextRef := Suc (nextRef q),
    jobs := (jobs q)(i \<mapsto> nextRef q), order := os\<rparr>)"
proof -
  have n: "r < nextRef q" if "r \<in> fst ` set (notified q)" for r
    using assms(1) that by (auto simp: Inv_def)
  have "wf_queue (q\<lparr>heap := (heap q)(nextRef q := j), nextRef := Suc (nextRef q),
      jobs := (jobs q)(i \<mapsto> nextRef q), order := os\<rparr>)"
    using assms by (auto simp: Inv_def wf_queue_def less_SucI)
  moreover have "(notifiedTerminal (((heap q)(nextRef q := j)) r)) = (r \<in> fst ` set (notified q))"
    if "r < Suc (nextRef q)" for r
    using assms that n [of r] by (cases "r = nextRef q") (auto simp: Inv_def less_Suc_eq)
  ultimately show ?thesis
    using assms(1) by (auto simp: Inv_def hub_ok_def less_SucI)
qed

lemma Inv_enqueue:
  assumes "Inv q" and "enqueue_insert now k a own src q = Ok (r, q')"
  shows "Inv q' \<and> nextRef q' = Suc (nextRef q) \<and> r = nextRef q"
proof -
  let ?j = "new_job now k a own src"
  have j: "\<not> notifiedTerminal ?j" "ID ?j = job_id now"
    by (simp_all add: new_job_def)
  let ?q = "q\<lparr>heap := (heap q)(nextRef q := ?j), nextRef := Suc (nextRef q),
      jobs := (jobs q)(job_id now \<mapsto> nextRef q), order := order q @ [job_id now]\<rparr>"
  have "q' = persistLocked (pruneLocked ?q)" "r = nextRef q"
    using assms(2) j(2) by (auto simp: enqueue_insert_def alloc_def Let_def split: if_splits)
  then show ?thesis
    using Inv_insert [OF assms(1) j] by (simp add: Inv_prune prune_shrinks)
qed

lemma Inv_rerun:
  assumes "Inv q" and "rerun_reset now i q = Ok (r, q')"
  shows "Inv q' \<and> nextRef q' = nextRef q \<and> r < nextRef q"
proof -
  let ?f = "\<lambda>j. j\<lparr>Status := StatusQueued, Progress := 0, Error := '''', Started := 0, Finished := 0,
      Step := '''', Scope := '''', Queued := unix now, cancel := None\<rparr>"
  from assms(2) have q': "q' = broadcast i (EvStatus i StatusQueued (unix now)) (persistLocked (setj r ?f q))"
      and r: "jobs q i = Some r"
    by (auto simp: rerun_reset_def Let_def split: option.splits if_splits)
  have "wf_queue q" using assms(1) by (simp add: Inv_def)
  with r have "r < nextRef q" by (simp add: wfD)
  then show ?thesis
    using assms(1) by (simp add: q' Inv_broadcast Inv_setj)
qed

lemma Inv_dispatch:
  assumes "Inv q" and "r < nextRef q"
  shows "Inv (dispatch now launched r q) \<and> nextRef (dispatch now launched r q) = nextRef q"
proof -
  let ?q = "q\<lparr>detached := (detached q)(ID (heap q r) := None)\<rparr>"
  have "Inv ?q" by (rule Inv_cong [OF assms(1)]) simp_all
  then have "Inv (setj r f ?q)" if "\<And>j. ID (f j) = ID j" "\<And>j. notifiedTerminal (f j) = notifiedTerminal j" for f
    using that by (rule Inv_setj)
  then show ?thesis
    using assms(1) by (simp add: dispatch_def Let_def Inv_broadcast Inv_pushPending split: option.split)
qed

lemma Inv_Cancel:
  assumes "Inv q" and "Cancel now i q = Ok q'"
  shows "Inv q' \<and> nextRef q' = nextRef q"
proof (cases "jobs q i")
  case None
  with assms show ?thesis by (simp add: Cancel_def)
next
  case (Some r)
  have wf: "wf_queue q" using assms(1) by (simp add: Inv_def)
  with Some have r: "r < nextRef q" by (simp add: wfD)
  have q0: "Inv (notifyTerminalLocked r (persistLocked
      (setj r (\<lambda>j. j\<lparr>Status := StatusCancelled, Finished := unix now\<rparr>) q)))"
    using assms(1) r by (simp add: Inv_notify Inv_setj)
  have c: "Inv (x\<lparr>cancelled := C\<rparr>)" "Inv (x\<lparr>scopeStops := S\<rparr>)" "Inv (x\<lparr>cancelled := C, scopeStops := S\<rparr>)"
    if "Inv x" for x C S
    using that by (auto intro: Inv_cong)
  from assms(2) Some show ?thesis
    using assms(1) q0 c
    by (auto simp: Cancel_def Let_def Inv_broadcast split: if_splits option.splits)
qed

lemma Inv_Delete: "Inv q \<Longrightarrow> Delete i q = Ok q' \<Longrightarrow> Inv q' \<and> nextRef q' = nextRef q"
  by (auto simp: Delete_def Let_def map_le_def split: option.splits if_splits intro!: Inv_cong [of q])

lemma Inv_begin:
  assumes "Inv q" and "runOne_begin now i q = (b, q')"
  shows "Inv q' \<and> nextRef q' = nextRef q \<and> (\<forall>r c. b = Began r c \<longrightarrow> r < nextRef q)"
proof (cases "jobs q i")
  case None
  with assms show ?thesis by (simp add: runOne_begin_def)
next
  case (Some r)
  have "wf_queue q" using assms(1) by (simp add: Inv_def)
  with Some have r: "r < nextRef q" by (simp add: wfD)
  have "Inv (q\<lparr>nextCtx := n\<rparr>)" for n
    by (rule Inv_cong [OF assms(1)]) simp_all
  then have f: "Inv (setj r f (q\<lparr>nextCtx := n\<rparr>))"
    if "\<And>j. ID (f j) = ID j" "\<And>j. notifiedTerminal (f j) = notifiedTerminal j" for f n
    using that by (rule Inv_setj)
  from assms(2) Some r assms(1) show ?thesis
    by (auto simp: runOne_begin_def Let_def f Inv_notify Inv_setj Inv_broadcast split: if_splits)
qed

lemma Inv_fail:
  assumes "Inv q"
  shows "Inv (fail now i msg q) \<and> nextRef (fail now i msg q) = nextRef q"
proof -
  have "wf_queue q" using assms by (simp add: Inv_def)
  with assms show ?thesis
    by (auto simp: fail_def wfD Inv_notify Inv_broadcast Inv_setj split: option.split)
qed

lemma Inv_run_updates:
  assumes "Inv q"
  shows "Inv (prog now r p q)" "Inv (setStep now r t q)" "Inv (log_write now r t q)" "Inv (create_log r q)"
    "nextRef (prog now r p q) = nextRef q" "nextRef (setStep now r t q) = nextRef q"
    "nextRef (log_write now r t q) = nextRef q" "nextRef (create_log r q) = nextRef q"
  using assms Inv_cong [OF assms, of "create_log r q"]
  by (simp_all add: prog_def setStep_def log_write_def Let_def Inv_broadcast Inv_setj Inv_append_log
      create_log_def)

lemma Inv_end:
  assumes "Inv q" and "r < nextRef q"
  shows "Inv (runOne_end now r c err q) \<and> nextRef (runOne_end now r c err q) = nextRef q"
proof -
  have "Inv (setj r (\<lambda>j. j\<lparr>cancel := None, Finished := unix now\<rparr>) q)"
    by (rule Inv_setj [OF assms(1)]) simp_all
  note s = Inv_setj [OF this]
  show ?thesis
    using assms(2) by (simp add: runOne_end_def Let_def Inv_notify Inv_broadcast Inv_append_log s
        split: option.split)
qed

lemma reap_record_fields:
  "ID (fst (reap_record now a d j)) = ID j"
  "notifiedTerminal (fst (reap_record now a d j)) = notifiedTerminal j"
  by (simp_all add: reap_record_def Let_def split: option.split)

lemma Inv_set_record:
  assumes "Inv q" and "ID j = ID (heap q r)" and "notifiedTerminal j = notifiedTerminal (heap q r)"
  shows "Inv (setj r (\<lambda>_. j) q)"
proof -
  have "wf_queue (setj r (\<lambda>_. j) q)"
    using assms(1,2) by (auto simp: Inv_def wf_queue_def)
  with assms(1,3) show ?thesis by (auto simp: Inv_def)
qed

lemma Inv_reap:
  assumes "Inv q" and "r < nextRef q"
  shows "Inv (reap_apply now a d r q) \<and> nextRef (reap_apply now a d r q) = nextRef q"
proof -
  have "Inv (setj r (\<lambda>_. fst (reap_record now a d (heap q r))) q)"
    by (rule Inv_set_record [OF assms(1)]) (simp_all add: reap_record_fields)
  with assms(2) show ?thesis
    by (simp add: reap_apply_def reap_publish_def case_prod_unfold Let_def Inv_notify Inv_broadcast)
qed

lemma set_remove_chan: "set (remove_chan c xs) \<subseteq> set xs"
  by (induction xs) auto

lemma Inv_listeners:
  assumes "Inv q"
  shows "Inv (snd (Subscribe i q))" "Inv (unsubscribe i c q)"
    "nextRef (snd (Subscribe i q)) = nextRef q" "nextRef (unsubscribe i c q) = nextRef q"
proof -
  have "hub_ok q" using assms by (simp add: Inv_def)
  then have "hub_ok (snd (Subscribe i q))" "hub_ok (unsubscribe i c q)"
    using set_remove_chan [of c "hub q i"] by (auto simp: hub_ok_def Subscribe_def unsubscribe_def)
  then show "Inv (snd (Subscribe i q))" "Inv (unsubscribe i c q)"
    using assms by (simp_all add: Inv_def wf_queue_def Subscribe_def unsubscribe_def)
qed (simp_all add: Subscribe_def unsubscribe_def)

lemma Inv_environment:
  assumes "Inv q"
  shows "Inv (Register k q)" "Inv (SetDetach l ks q)" "Inv (SetNotifier b q)"
    "Inv (WriteDetachedStatus i ds q)" "Inv (q\<lparr>diskOK := b\<rparr>)" "Inv (shutdown_begin is q)"
    "Inv (shutdown_drained q)"
  using assms by (auto simp: Register_def SetDetach_def SetNotifier_def WriteDetachedStatus_def
      shutdown_begin_def shutdown_drained_def intro!: Inv_cong [OF assms])

lemma nextRef_environment [simp]:
  "nextRef (Register k q) = nextRef q" "nextRef (SetDetach l ks q) = nextRef q"
  "nextRef (SetNotifier b q) = nextRef q" "nextRef (WriteDetachedStatus i ds q) = nextRef q"
  "nextRef (shutdown_begin is q) = nextRef q" "nextRef (shutdown_drained q) = nextRef q"
  "nextRef (shutdown_timeout now is q) = nextRef q"
  by (simp_all add: Register_def SetDetach_def SetNotifier_def WriteDetachedStatus_def
      shutdown_begin_def shutdown_drained_def shutdown_timeout_def)

lemma Inv_shutdown_mark: "Inv q \<Longrightarrow> Inv (shutdown_mark now is q)"
  by (induction "is" arbitrary: q) (simp_all add: Inv_setj split: option.split)

lemma Inv_shutdown_timeout: "Inv q \<Longrightarrow> Inv (shutdown_timeout now is q)"
  by (simp add: shutdown_timeout_def Inv_shutdown_mark)

lemma Inv_boot:
  assumes "keyed st" and "\<forall>i j. sJobs st i = Some j \<longrightarrow> \<not> notifiedTerminal j"
    and "NewQueue dok opt now alive is is' (Stored st) ds ls j0 = Ok q"
  shows "Inv q"
proof -
  have load: "Inv (load_jobs xs st x)" if "Inv x" for xs x
    using that
  proof (induction xs arbitrary: x)
    case (Cons i xs)
    show ?case
    proof (cases "sJobs st i")
      case (Some j)
      with assms(1,2) have j: "\<not> notifiedTerminal j" "ID j = i" by (auto simp: keyed_def)
      have "Inv ((snd (alloc j x))\<lparr>jobs := (jobs x)(i \<mapsto> nextRef x)\<rparr>)"
        by (rule Inv_cong [OF Inv_insert [OF Cons.prems j]]) (simp_all add: alloc_def)
      with Some Cons.IH show ?thesis by (simp add: alloc_def)
    qed (use Cons in simp)
  qed simp
  have one: "Inv (reconcile_one now alive i x)" if "Inv x" for i x
    using that by (simp add: reconcile_one_def Let_def Inv_pushPending Inv_setj split: option.split)
  have rec: "Inv (reconcile now alive xs x)" if "Inv x" for xs x
    using that by (induction xs arbitrary: x) (simp_all add: one)
  have "Inv ((empty_queue dok k j0)\<lparr>detached := ds, logs := ls, disk := d\<rparr>)" for k d
    using empty_queue_wf(1) [where n = k and d = d] by (simp add: Inv_def hub_ok_def empty_queue_def)
  note this [THEN load]
  then have "Inv ((load_jobs is st ((empty_queue dok k j0)\<lparr>detached := ds, logs := ls, disk := d\<rparr>))\<lparr>order := os\<rparr>)" for k d os
    by (rule Inv_cong) simp_all
  with rec assms(3) show ?thesis
    by (auto simp: NewQueue_def load_def Let_def)
qed

section \<open>The invariant of the system\<close>

fun worker_ref :: "worker \<Rightarrow> nat set" where
  "worker_ref Idle = {}"
| "worker_ref (Starting r c) = {r}"
| "worker_ref (Running r c) = {r}"

definition held :: "sys \<Rightarrow> nat set" where
  "held s = set (dispatching s) \<union> (\<Union>w. worker_ref (workers s w)) \<union> set (reaping s) \<union>
     (case reapRead s of None \<Rightarrow> {} | Some (r, d) \<Rightarrow> {r})"

definition SInv :: "sys \<Rightarrow> bool" where
  "SInv s \<longleftrightarrow> Inv (Q s) \<and> (\<forall>r \<in> held s. r < nextRef (Q s))"

lemma SInv_I: "Inv (Q t) \<Longrightarrow> nextRef (Q s) \<le> nextRef (Q t) \<Longrightarrow> SInv s \<Longrightarrow>
    (\<And>r. r \<in> held t \<Longrightarrow> r \<in> held s \<or> r < nextRef (Q t)) \<Longrightarrow> SInv t"
  unfolding SInv_def by (meson order_less_le_trans)

lemma held_worker:
  "r \<in> held (s\<lparr>Q := q, workers := (workers s)(w := x)\<rparr>) \<Longrightarrow> r \<in> held s \<or> r \<in> worker_ref x"
  by (auto simp: held_def split: if_splits)

lemma held_dispatch:
  "r \<in> held (s\<lparr>Q := q, dispatching := ds\<rparr>) \<Longrightarrow> r \<in> held s \<or> r \<in> set ds"
  by (auto simp: held_def)

lemma held_Q [simp]: "held (s\<lparr>Q := q\<rparr>) = held s"
  by (simp add: held_def)

lemma held_workerI: "r \<in> worker_ref (workers s w) \<Longrightarrow> r \<in> held s"
  by (auto simp: held_def)

lemma heldI:
  "workers s w = Starting r c \<Longrightarrow> r \<in> held s" "workers s w = Running r c \<Longrightarrow> r \<in> held s"
  "r \<in> set (dispatching s) \<Longrightarrow> r \<in> held s" "reapRead s = Some (r, d) \<Longrightarrow> r \<in> held s"
  using held_workerI [of r s w] by (simp_all add: held_def)

lemma SInv_Q: "SInv s \<Longrightarrow> Inv q \<Longrightarrow> nextRef (Q s) \<le> nextRef q \<Longrightarrow> SInv (s\<lparr>Q := q\<rparr>)"
  by (auto simp: SInv_def)

lemma SInv_worker:
  "SInv s \<Longrightarrow> Inv q \<Longrightarrow> nextRef q = nextRef (Q s) \<Longrightarrow> (\<And>r. r \<in> worker_ref x \<Longrightarrow> r < nextRef q) \<Longrightarrow>
     SInv (s\<lparr>Q := q, workers := (workers s)(w := x)\<rparr>)"
  by (rule SInv_I [of _ s]) (auto dest: held_worker)

lemma SInv_dispatch:
  "SInv s \<Longrightarrow> Inv q \<Longrightarrow> nextRef (Q s) \<le> nextRef q \<Longrightarrow>
     (\<And>r. r \<in> set ds \<Longrightarrow> r \<in> set (dispatching s) \<or> r < nextRef q) \<Longrightarrow>
     SInv (s\<lparr>Q := q, dispatching := ds\<rparr>)"
  by (rule SInv_I [of _ s]) (auto dest: held_dispatch heldI(3))

lemma SInv_init: "init s \<Longrightarrow> SInv s"
proof -
  assume i: "init s"
  then obtain dok opt now alive "is" is' st ds ls j0 where
      k: "keyed st" "\<forall>i j. sJobs st i = Some j \<longrightarrow> cancel j = None \<and> \<not> notifiedTerminal j"
        "NewQueue dok opt now alive is is' (Stored st) ds ls j0 = Ok (Q s)"
    unfolding init_def by blast
  then have "Inv (Q s)" by (blast intro: Inv_boot)
  with i show ?thesis by (auto simp: SInv_def init_def held_def)
qed

lemma Inv_pop: "Inv q \<Longrightarrow> pending q = i # is \<Longrightarrow> Inv (q\<lparr>pending := is\<rparr>)"
  by (erule Inv_cong) simp_all

lemma SInv_step:
  assumes "SInv s" and "step s t"
  shows "SInv t"
proof -
  have I: "Inv (Q s)" and H: "\<And>r. r \<in> held s \<Longrightarrow> r < nextRef (Q s)"
    using assms(1) by (auto simp: SInv_def)
  note env = SInv_Q [OF assms(1)] Inv_environment [OF I] Inv_listeners [OF I] Inv_run_updates [OF I]
  from assms(2) show ?thesis
  proof cases
    case (Enqueue now k a own src r q)
    then show ?thesis using Inv_enqueue [OF I Enqueue(2)] by (auto intro: SInv_dispatch [OF assms(1)])
  next
    case (Rerun now i r q)
    then show ?thesis using Inv_rerun [OF I Rerun(2)] by (auto intro: SInv_dispatch [OF assms(1)])
  next
    case (Dispatch r now l)
    then show ?thesis using Inv_dispatch [OF I H [OF heldI(3) [OF Dispatch(2)]]]
      by (auto intro!: SInv_dispatch [OF assms(1)] dest: set_remove1_subset [THEN subsetD])
  next
    case (Take_skip w i "is" now q)
    then show ?thesis using Inv_begin [OF Inv_pop [OF I Take_skip(3)] Take_skip(4)] by (auto intro: env(1))
  next
    case (Take_run w i "is" now r c q)
    then show ?thesis using Inv_begin [OF Inv_pop [OF I Take_run(3)] Take_run(4)]
      by (auto intro: SInv_worker [OF assms(1)])
  next
    case (Open_log w r c)
    then show ?thesis using H [OF heldI(1)] by (auto intro!: SInv_worker [OF assms(1)] simp: env)
  next
    case (Open_failed w r c now msg)
    then show ?thesis using Inv_fail [OF I] by (auto intro!: SInv_worker [OF assms(1)])
  next
    case (Finish w r c now err)
    then show ?thesis using Inv_end [OF I H [OF heldI(2)]] by (auto intro!: SInv_worker [OF assms(1)])
  next
    case (Reap_start "is")
    have "r < nextRef (Q s)" if "r \<in> set (reap_scoped is (Q s))" for r
      using I that by (auto simp: set_reap_scoped Inv_def wf_queue_def)
    with Reap_start I H show ?thesis by (auto simp: SInv_def held_def)
  next
    case (Reap_read r rs)
    with I H show ?thesis by (auto simp: SInv_def held_def)
  next
    case (Reap_apply r d now alive)
    with Inv_reap [OF I H [OF heldI(4)]] H show ?thesis by (auto simp: SInv_def held_def)
  next
    case (Cancel now i q)
    then show ?thesis using Inv_Cancel [OF I] by (auto intro: env(1))
  next
    case (Delete i q)
    then show ?thesis using Inv_Delete [OF I] by (auto intro: env(1))
  qed (auto intro!: env simp: env Inv_unblock I Inv_shutdown_timeout)
qed

interpretation jobs_inv: inductive_invariant init step SInv
  by unfold_locales (auto intro: SInv_init SInv_step)

section \<open>Properties of every interleaving\<close>

text \<open>A process that has just booted from an empty file.\<close>

definition fresh_sys :: sys where
  "fresh_sys =
     \<lparr>Q = persistLocked ((empty_queue True 500 (sample_job ''x'' StatusDone))\<lparr>disk := Some \<lparr>sJobs = Map.empty, sOrder = []\<rparr>\<rparr>),
      workers = (\<lambda>_. Idle), dispatching = [], reaping = [], reapRead = None\<rparr>"

lemma init_fresh: "init fresh_sys"
proof -
  let ?st = "\<lparr>sJobs = Map.empty, sOrder = []\<rparr>"
  have "NewQueue True 0 0 (\<lambda>_. False) [] [] (Stored ?st) Map.empty Map.empty (sample_job ''x'' StatusDone) = Ok (Q fresh_sys)"
    by (simp add: NewQueue_def load_def fresh_sys_def empty_queue_def)
  moreover have "keyed ?st" "set [] = dom (sJobs ?st)" "distinct []"
      "\<forall>i j. sJobs ?st i = Some j \<longrightarrow> cancel j = None \<and> \<not> notifiedTerminal j"
    by (simp_all add: keyed_def)
  ultimately have "\<exists>dok opt now alive is is' st ds ls j0.
      keyed st \<and> set is = dom (sJobs st) \<and> set is' = dom (sJobs st) \<and> distinct is' \<and>
      (\<forall>i j. sJobs st i = Some j \<longrightarrow> cancel j = None \<and> \<not> notifiedTerminal j) \<and>
      NewQueue dok opt now alive is is' (Stored st) ds ls j0 = Ok (Q fresh_sys)"
    by blast
  then show ?thesis unfolding init_def by (simp add: fresh_sys_def)
qed

lemma reach_fresh: "reach init step fresh_sys"
  by (rule reach_init) (rule init_fresh)

text \<open>
  C1. In every interleaving of clients, workers, the reaper, the status files and shutdown, the
  terminal hook runs at most once per job object, only with a finished record, and has run for a job
  in the history exactly when the job carries the notified mark.
\<close>

theorem hook_at_most_once:
  assumes "reach init step s"
  shows "distinct (map fst (notified (Q s))) \<and>
    (\<forall>r j. (r, j) \<in> set (notified (Q s)) \<longrightarrow> isTerminal (Status j)) \<and>
    (\<forall>i r. jobs (Q s) i = Some r \<longrightarrow>
       (notifiedTerminal (heap (Q s) r) \<longleftrightarrow> r \<in> fst ` set (notified (Q s))))"
proof -
  have "Inv (Q s)" using jobs_inv.inv_reach [OF assms] by (simp add: SInv_def)
  then show ?thesis by (auto simp: Inv_def dest: wfD)
qed

theorem hook_at_most_once_witness:
  "reach init step fresh_sys \<and> distinct (map fst (notified (Q fresh_sys)))"
  using hook_at_most_once [OF reach_fresh] reach_fresh by blast

text \<open>
  C3. In every interleaving the job map stays consistent and the channels bounded: each id maps to a
  live object that carries that id, no two ids share an object, the pending channel never holds
  more than 256 ids and no listener buffer more than 64 events.
\<close>

theorem queue_stays_consistent:
  assumes "reach init step s"
  shows "(\<forall>i r. jobs (Q s) i = Some r \<longrightarrow> r < nextRef (Q s) \<and> ID (heap (Q s) r) = i) \<and>
    (\<forall>i i' r. jobs (Q s) i = Some r \<and> jobs (Q s) i' = Some r \<longrightarrow> i = i') \<and>
    length (pending (Q s)) \<le> 256 \<and>
    (\<forall>i x. x \<in> set (hub (Q s) i) \<longrightarrow> length (snd x) \<le> 64)"
proof -
  have I: "Inv (Q s)" using jobs_inv.inv_reach [OF assms] by (simp add: SInv_def)
  then have w: "wf_queue (Q s)" by (simp add: Inv_def)
  show ?thesis
    using wfD [OF w] wf_inj [OF w] I by (auto simp: Inv_def hub_ok_def pendingCap_def listenerCap_def)
qed

theorem queue_stays_consistent_witness:
  "reach init step fresh_sys \<and> length (pending (Q fresh_sys)) \<le> 256"
  using queue_stays_consistent [OF reach_fresh] reach_fresh by blast

lemma Cancel_active:
  assumes "jobs q i = Some r"
    and "Status (heap q r) = StatusQueued \<or> Status (heap q r) = StatusRunning \<and> Scope (heap q r) \<noteq> ''''"
  shows "\<exists>q'. Cancel now i q = Ok q' \<and> jobs q' = jobs q \<and> pending q' = pending q \<and> runners q' = runners q \<and>
    detachKinds q' = detachKinds q \<and> detached q' = detached q \<and>
    heap q' = heap (notifyTerminalLocked r
      (setj r (\<lambda>j. j\<lparr>Status := StatusCancelled, Finished := unix now\<rparr>) q))"
  using assms(2)
proof
  assume "Status (heap q r) = StatusQueued"
  with assms(1) show ?thesis
    by (cases "cancel (heap q r)") (simp_all add: Cancel_def Let_def heap_notify)
next
  assume "Status (heap q r) = StatusRunning \<and> Scope (heap q r) \<noteq> ''''"
  with assms(1) show ?thesis
    by (cases "cancel (heap q r)") (simp_all add: Cancel_def Let_def heap_notify)
qed

text \<open>
  No terminal transition at run time is missed: once the notifier is wired, a job that finishes
  in a worker, fails to open its log, is cancelled while queued or detached, or is settled by the
  reaper has had its hook called.
\<close>

theorem terminal_transitions_notify:
  assumes "Inv q" and "notifier q" and "jobs q i = Some r"
  shows "r \<in> fst ` set (notified (runOne_end now r c err q)) \<and>
    r \<in> fst ` set (notified (fail now i msg q)) \<and>
    (Status (heap q r) = StatusQueued \<or> Status (heap q r) = StatusRunning \<and> Scope (heap q r) \<noteq> '''' \<longrightarrow>
      (\<exists>q'. Cancel now i q = Ok q' \<and> r \<in> fst ` set (notified q'))) \<and>
    (Status (heap q r) = StatusRunning \<and> isTerminal (reaped_status now alive d (heap q r)) \<longrightarrow>
      r \<in> fst ` set (notified (reap_apply now alive d r q)))"
proof -
  have r: "r < nextRef q" using assms(1,3) by (auto simp: Inv_def dest: wfD)
  have marked: "r \<in> fst ` set (notified x)" if "Inv x" "notifiedTerminal (heap x r)" "nextRef x = nextRef q" for x
    using that r by (simp add: Inv_def)
  have "notifiedTerminal (heap (runOne_end now r c err q) r)"
    using assms(2) by (simp add: runOne_end_def Let_def heap_notify split: option.split)
  then have e: "r \<in> fst ` set (notified (runOne_end now r c err q))"
    using Inv_end [OF assms(1) r] marked by blast
  have "notifiedTerminal (heap (fail now i msg q) r)"
    using assms(2,3) by (simp add: fail_def heap_notify)
  then have f: "r \<in> fst ` set (notified (fail now i msg q))"
    using Inv_fail [OF assms(1)] marked by blast
  have cn: "\<exists>q'. Cancel now i q = Ok q' \<and> r \<in> fst ` set (notified q')"
    if "Status (heap q r) = StatusQueued \<or> Status (heap q r) = StatusRunning \<and> Scope (heap q r) \<noteq> ''''"
  proof -
    from Cancel_active [OF assms(3) that, of now] assms(2)
    obtain q' where q': "Cancel now i q = Ok q'" "notifiedTerminal (heap q' r)"
      by (auto simp: heap_notify)
    with Inv_Cancel [OF assms(1) q'(1)] marked show ?thesis by blast
  qed
  have rp: "r \<in> fst ` set (notified (reap_apply now alive d r q))"
    if a: "Status (heap q r) = StatusRunning" "isTerminal (reaped_status now alive d (heap q r))"
  proof -
    let ?p = "reap_record now alive d (heap q r)"
    have t: "isTerminal (Status (fst ?p))" using a(2) by (simp add: reap_record_status)
    with a(1) have "snd ?p"
      by (auto simp: reap_record_def Let_def split: option.splits if_splits)
    with t assms(2) have "notifiedTerminal (heap (reap_apply now alive d r q) r)"
      by (simp add: reap_apply_def case_prod_unfold Let_def reap_publish_def heap_notify)
    with Inv_reap [OF assms(1) r] marked show ?thesis by blast
  qed
  from e f cn rp show ?thesis by blast
qed

definition notified_sample :: queue where
  "notified_sample = (sample_queue StatusQueued StatusDone)\<lparr>notifier := True\<rparr>"

theorem terminal_transitions_notify_witness:
  "Inv notified_sample \<and> 0 \<in> fst ` set (notified (runOne_end 7 0 0 None notified_sample))"
proof -
  have "wf_queue notified_sample" by (simp add: notified_sample_def wf_queue_def)
  moreover have "hub_ok notified_sample"
    by (simp add: notified_sample_def sample_queue_def empty_queue_def hub_ok_def)
  moreover have "\<not> notifiedTerminal (heap notified_sample r)" if "r < 2" for r
    using that by (auto simp: notified_sample_def less_2_cases_iff)
  ultimately have i: "Inv notified_sample" by (simp add: Inv_def notified_sample_def)
  have "notifier notified_sample" "jobs notified_sample ''a'' = Some 0"
    by (simp_all add: notified_sample_def)
  with terminal_transitions_notify [OF i] i show ?thesis by blast
qed

section \<open>Races\<close>

lemmas trace_step = steps_step [of step]

lemma rerun_then_dispatch:
  assumes "jobs q i = Some r" and "ID (heap q r) = i" and "Status (heap q r) = StatusCancelled"
    and "Kind (heap q r) \<in> runners q" and "Kind (heap q r) \<notin> detachKinds q" and "pending q = [i]"
  shows "\<exists>q1. rerun_reset now i q = Ok (r, q1) \<and>
    (let q2 = dispatch now l r q1 in jobs q2 = jobs q \<and> Status (heap q2 r) = StatusQueued \<and>
      Kind (heap q2 r) \<in> runners q2 \<and> pending q2 = [i, i])"
  using assms
  by (simp add: rerun_reset_def Let_def dispatch_def) (simp add: pushPending_def pendingCap_def)

lemma begin_runs:
  assumes "jobs q i = Some r" and "Status (heap q r) \<noteq> StatusCancelled" and "Kind (heap q r) \<in> runners q"
  shows "\<exists>q'. runOne_begin now i q = (Began r (nextCtx q), q') \<and> jobs q' = jobs q \<and>
    Status (heap q' r) = StatusRunning \<and> Kind (heap q' r) \<in> runners q' \<and> pending q' = pending q \<and>
    nextCtx q' = Suc (nextCtx q)"
  using assms by (simp add: runOne_begin_def Let_def)

text \<open>
  A job can be executed twice at once: when a queued job is cancelled and rerun before a worker
  reaches it, its id is in the pending channel twice, and because a worker skips only cancelled jobs
  two workers start the same job, each with its own context.
\<close>

theorem cancel_rerun_runs_twice:
  assumes "jobs (Q s) i = Some r" and "ID (heap (Q s) r) = i" and "Status (heap (Q s) r) = StatusQueued"
    and "Kind (heap (Q s) r) \<in> runners (Q s)" and "Kind (heap (Q s) r) \<notin> detachKinds (Q s)"
    and "pending (Q s) = [i]" and "workers s v = Idle" and "workers s w = Idle" and "v \<noteq> w"
  shows "\<exists>t c d. steps step s t \<and> workers t v = Starting r c \<and> workers t w = Starting r d \<and> c \<noteq> d"
proof -
  obtain q1 where q1: "Cancel 0 i (Q s) = Ok q1" "jobs q1 = jobs (Q s)" "pending q1 = [i]"
      "runners q1 = runners (Q s)" "detachKinds q1 = detachKinds (Q s)"
      "ID (heap q1 r) = i" "Status (heap q1 r) = StatusCancelled" "Kind (heap q1 r) = Kind (heap (Q s) r)"
    using Cancel_active [OF assms(1), of 0] assms(2,3,6) by auto
  have "jobs q1 i = Some r" "Kind (heap q1 r) \<in> runners q1" "Kind (heap q1 r) \<notin> detachKinds q1"
    using q1 assms by simp_all
  from rerun_then_dispatch [OF this(1) q1(6,7) this(2,3) q1(3), of 0 None] this(1)
  obtain q2 q3 where q2: "rerun_reset 0 i q1 = Ok (r, q2)" and q3: "q3 = dispatch 0 None r q2"
      "jobs q3 i = Some r" "Status (heap q3 r) = StatusQueued" "Kind (heap q3 r) \<in> runners q3"
      "pending q3 = [i, i]"
    by (auto simp: Let_def)
  let ?p3 = "q3\<lparr>pending := [i]\<rparr>"
  from begin_runs [of ?p3 i r 0] q3
  obtain q4 where q4: "runOne_begin 0 i ?p3 = (Began r (nextCtx q3), q4)" "jobs q4 i = Some r"
      "Status (heap q4 r) = StatusRunning" "Kind (heap q4 r) \<in> runners q4" "pending q4 = [i]"
      "nextCtx q4 = Suc (nextCtx q3)"
    by auto
  let ?p4 = "q4\<lparr>pending := []\<rparr>"
  from begin_runs [of ?p4 i r 0] q4
  obtain q5 where q5: "runOne_begin 0 i ?p4 = (Began r (nextCtx q4), q5)"
    by auto
  let ?s1 = "s\<lparr>Q := q1\<rparr>"
  let ?s2 = "?s1\<lparr>Q := q2, dispatching := r # dispatching ?s1\<rparr>"
  let ?s3 = "?s2\<lparr>Q := q3, dispatching := remove1 r (dispatching ?s2)\<rparr>"
  let ?s4 = "?s3\<lparr>Q := q4, workers := (workers ?s3)(v := Starting r (nextCtx q3))\<rparr>"
  let ?s5 = "?s4\<lparr>Q := q5, workers := (workers ?s4)(w := Starting r (nextCtx q4))\<rparr>"
  have st1: "step s ?s1" by (rule step.Cancel) (rule q1(1))
  have st2: "step ?s1 ?s2" by (rule step.Rerun [of 0 i]) (simp add: q2)
  have st3: "step ?s2 ?s3"
    using step.Dispatch [of r ?s2 0 None] by (simp add: q3(1))
  have st4: "step ?s3 ?s4"
    by (rule step.Take_run [of _ _ i "[i]" 0]) (use assms(7-9) q3(5) q4(1) in simp_all)
  have st5: "step ?s4 ?s5"
    by (rule step.Take_run [of _ _ i "[]" 0]) (use assms(7-9) q4(5) q5 in simp_all)
  have "steps step s ?s5"
    by (rule trace_step [OF trace_step [OF trace_step [OF trace_step [OF trace_step [OF
        steps_refl [of step] st1] st2] st3] st4] st5])
  moreover have "workers ?s5 v = Starting r (nextCtx q3)" "workers ?s5 w = Starting r (nextCtx q4)"
    using assms(9) by simp_all
  moreover have "nextCtx q3 \<noteq> nextCtx q4" using q4(6) by simp
  ultimately show ?thesis by blast
qed

definition idle_sys :: "queue \<Rightarrow> sys" where
  "idle_sys q = \<lparr>Q = q, workers = (\<lambda>_. Idle), dispatching = [], reaping = [], reapRead = None\<rparr>"

theorem cancel_rerun_runs_twice_witness:
  "\<exists>t c d. steps step (idle_sys ((sample_queue StatusQueued StatusDone)\<lparr>pending := [''a'']\<rparr>)) t \<and>
     workers t 0 = Starting 0 c \<and> workers t 1 = Starting 0 d \<and> c \<noteq> d"
  by (rule cancel_rerun_runs_twice [of _ "''a''"]) (simp_all add: idle_sys_def)

text \<open>
  A cancelled detached job can come back as running: the reaper collects the running detached
  jobs and reads the status file before it takes the lock, so a cancellation in between is undone by
  the stale record the process wrote earlier, although the cancellation was reported as done.
\<close>

theorem reaper_resurrects_cancelled:
  assumes "jobs (Q s) i = Some r" and "ID (heap (Q s) r) = i" and "Status (heap (Q s) r) = StatusRunning"
    and "Scope (heap (Q s) r) \<noteq> ''''" and "detached (Q s) i = Some ds" and "dStatus ds = StatusRunning"
    and "reaping s = r # rs" and "reapRead s = None"
  shows "\<exists>t u. steps step s t \<and> Status (heap (Q t) r) = StatusCancelled \<and>
    steps step t u \<and> Status (heap (Q u) r) = StatusRunning"
proof -
  obtain q1 where q1: "Cancel 0 i (Q s) = Ok q1" "Status (heap q1 r) = StatusCancelled"
    using Cancel_active [OF assms(1), of 0] assms(3,4) by auto
  let ?s1 = "s\<lparr>reaping := rs, reapRead := Some (r, detached (Q s) (ID (heap (Q s) r)))\<rparr>"
  let ?t = "?s1\<lparr>Q := q1\<rparr>"
  let ?u = "?t\<lparr>Q := reap_apply 0 True (Some ds) r (Q ?t), reapRead := None\<rparr>"
  have "step s ?s1" using assms(7,8) by (rule step.Reap_read)
  moreover have "step ?s1 ?t" by (rule step.Cancel [of 0 i]) (simp add: q1(1))
  moreover have "step ?t ?u" by (rule step.Reap_apply) (simp add: assms(2,5))
  moreover have "Status (heap (Q ?u) r) = StatusRunning"
    using assms(6) by (simp add: reap_apply_def case_prod_unfold Let_def reap_record_status reaped_status_def)
  moreover have "Status (heap (Q ?t) r) = StatusCancelled" using q1(2) by simp
  ultimately show ?thesis by (blast intro: steps_refl steps_step)
qed

definition running_status :: DetachedStatus where
  "running_status = \<lparr>dStatus = StatusRunning, dProgress = 10, dStep = '''', dError = '''', dStarted = 5, dFinished = 0\<rparr>"

theorem reaper_resurrects_cancelled_witness:
  "\<exists>t u. steps step ((idle_sys (scoped_queue\<lparr>detached := [''a'' \<mapsto> running_status]\<rparr>))\<lparr>reaping := [0]\<rparr>) t \<and>
     Status (heap (Q t) 0) = StatusCancelled \<and> steps step t u \<and> Status (heap (Q u) 0) = StatusRunning"
  by (rule reaper_resurrects_cancelled [of _ "''a''" _ running_status "[]"])
    (simp_all add: idle_sys_def scoped_queue_def running_status_def)

end
