(* ===== verification/Scheduler.thy ===== *)
theory Scheduler
  imports QueueProps
begin

text \<open>
  The cron scheduler, \<^verbatim>\<open>internal/scheduler/scheduler.go\<close> and \<^verbatim>\<open>queue_adapter.go\<close>. Jobs are objects in a
  heap, because the tick loop keeps pointers to due jobs after it releases the lock while \<open>Save\<close>
  replaces the object under an id. The cron package is a parameter: \<open>parse\<close> gives the schedule of an
  expression and \<open>nxt\<close> its next activation after a time; the package returns the zero time when no
  time within its horizon matches. The queue is reached only through the \<^verbatim>\<open>Enqueuer\<close> interface, the
  parameter \<open>enq\<close>, whose laws are the locale \<open>enqueuer\<close>; \<open>QueueEnqueuer\<close> is its implementation over
  the job queue.
\<close>

section \<open>Data\<close>

datatype AlertMode = AlertNever | AlertFail | AlertAlways | AlertOther string

record sjob =
  sID :: string
  sName :: string
  sSchedule :: string
  sKind :: string
  sArgs :: string
  sEnabled :: bool
  sOwner :: string
  RunAsRoot :: bool
  TimeoutSec :: int
  RetryMax :: int
  AlertOn :: AlertMode
  ThenKind :: string
  ThenArgs :: string
  ThenOn :: string
  NotifyChannels :: "string list"
  NotifyOn :: string
  LastFire :: secs
  LastStatus :: string
  LastJobID :: string
  NextFire :: secs
  Created :: secs
  Updated :: secs

datatype serror = SNotFound | SBadInput string | SIO | SCorrupt | SEnqueue qerror

record scheduler =
  sheap :: "nat \<Rightarrow> sjob"
  snextRef :: nat
  sjobs :: "string \<rightharpoonup> nat"
  sfile :: "(string \<rightharpoonup> sjob) option"
  sfileOK :: bool
  authz :: "(string \<Rightarrow> string \<Rightarrow> bool) option"
  alerter :: bool
  alerted :: "(string \<times> sjob \<times> string \<times> string) list"
  stopped :: bool

text \<open>\<^verbatim>\<open>time.Time{}.Unix()\<close>\<close>

definition zero_time_unix :: secs where
  "zero_time_unix = - 62135596800"

definition seth :: "nat \<Rightarrow> (sjob \<Rightarrow> sjob) \<Rightarrow> scheduler \<Rightarrow> scheduler" where
  "seth r f s = s\<lparr>sheap := (sheap s)(r := f (sheap s r))\<rparr>"

definition sview :: "scheduler \<Rightarrow> string \<rightharpoonup> sjob" where
  "sview s = (\<lambda>i. map_option (sheap s) (sjobs s i))"

section \<open>The file\<close>

definition saveLocked :: "scheduler \<Rightarrow> serror + scheduler" where
  "saveLocked s = (if sfileOK s then Ok (s\<lparr>sfile := Some (sview s)\<rparr>) else Err SIO)"

text \<open>\<^verbatim>\<open>_ = s.saveLocked()\<close>\<close>

definition try_save :: "scheduler \<Rightarrow> scheduler" where
  "try_save s = (case saveLocked s of Ok s' \<Rightarrow> s' | Err _ \<Rightarrow> s)"

datatype sched_file = SMissing | SUnreadable | SEmpty | SBad | SList "sjob list"

fun load_list :: "sjob list \<Rightarrow> scheduler \<Rightarrow> scheduler" where
  "load_list [] s = s"
| "load_list (j # js) s =
     load_list js (s\<lparr>sheap := (sheap s)(snextRef s := j), snextRef := Suc (snextRef s),
       sjobs := (sjobs s)(sID j \<mapsto> snextRef s)\<rparr>)"

definition sched_load :: "sched_file \<Rightarrow> scheduler \<Rightarrow> serror + scheduler" where
  "sched_load f s =
     (case f of
        SMissing \<Rightarrow> Ok s
      | SUnreadable \<Rightarrow> Err SIO
      | SEmpty \<Rightarrow> Ok s
      | SBad \<Rightarrow> Err SCorrupt
      | SList js \<Rightarrow> Ok (load_list js s))"

section \<open>Next activation\<close>

definition recompute_job :: "(string \<Rightarrow> 'c option) \<Rightarrow> ('c \<Rightarrow> nanos \<Rightarrow> nanos) \<Rightarrow> nanos \<Rightarrow> sjob \<Rightarrow> sjob" where
  "recompute_job parse nxt now j =
     (if \<not> sEnabled j then j\<lparr>NextFire := 0\<rparr>
      else case parse (sSchedule j) of
             None \<Rightarrow> j
           | Some sch \<Rightarrow> j\<lparr>NextFire := unix (nxt sch now)\<rparr>)"

text \<open>The loop of \<open>recomputeAllNextFire\<close>; \<open>is\<close> is the order of the map.\<close>

fun recompute_loop ::
  "(string \<Rightarrow> 'c option) \<Rightarrow> ('c \<Rightarrow> nanos \<Rightarrow> nanos) \<Rightarrow> nanos \<Rightarrow> string list \<Rightarrow> scheduler \<Rightarrow> scheduler" where
  "recompute_loop parse nxt now [] s = s"
| "recompute_loop parse nxt now (i # is) s =
     recompute_loop parse nxt now is
       (case sjobs s i of None \<Rightarrow> s | Some r \<Rightarrow> seth r (recompute_job parse nxt now) s)"

definition recomputeAllNextFire ::
  "(string \<Rightarrow> 'c option) \<Rightarrow> ('c \<Rightarrow> nanos \<Rightarrow> nanos) \<Rightarrow> nanos \<Rightarrow> string list \<Rightarrow> scheduler \<Rightarrow> scheduler" where
  "recomputeAllNextFire parse nxt now is s = try_save (recompute_loop parse nxt now is s)"

definition empty_scheduler :: "sjob \<Rightarrow> scheduler" where
  "empty_scheduler j0 =
     \<lparr>sheap = (\<lambda>_. j0), snextRef = 0, sjobs = Map.empty, sfile = None, sfileOK = True, authz = None,
      alerter = False, alerted = [], stopped = False\<rparr>"

definition New_scheduler ::
  "(string \<Rightarrow> 'c option) \<Rightarrow> ('c \<Rightarrow> nanos \<Rightarrow> nanos) \<Rightarrow> nanos \<Rightarrow> string list \<Rightarrow> sched_file \<Rightarrow> sjob \<Rightarrow> serror + scheduler"
where
  "New_scheduler parse nxt now is f j0 =
     (case sched_load f (empty_scheduler j0) of
        Err e \<Rightarrow> Err e
      | Ok s \<Rightarrow> Ok (recomputeAllNextFire parse nxt now is s))"

section \<open>Configuration, queries, editing\<close>

definition SetAlerter :: "bool \<Rightarrow> scheduler \<Rightarrow> scheduler" where
  "SetAlerter a s = s\<lparr>alerter := a\<rparr>"

definition SetAuthorizer :: "(string \<Rightarrow> string \<Rightarrow> bool) option \<Rightarrow> scheduler \<Rightarrow> scheduler" where
  "SetAuthorizer a s = s\<lparr>authz := a\<rparr>"

definition sched_Stop :: "scheduler \<Rightarrow> scheduler" where
  "sched_Stop s = (if stopped s then s else s\<lparr>stopped := True\<rparr>)"

definition fires_before :: "sjob \<Rightarrow> sjob \<Rightarrow> bool" where
  "fires_before a b \<longleftrightarrow>
     (if NextFire a = 0 then False else if NextFire b = 0 then True else NextFire a < NextFire b)"

definition sched_List :: "string list \<Rightarrow> string \<Rightarrow> scheduler \<Rightarrow> sjob list" where
  "sched_List is owner s =
     slice_stable fires_before
       (concat (map (\<lambda>i. case sjobs s i of None \<Rightarrow> []
          | Some r \<Rightarrow> if owner \<noteq> '''' \<and> sOwner (sheap s r) \<noteq> owner then [] else [sheap s r]) is))"

definition sched_Get :: "string \<Rightarrow> scheduler \<Rightarrow> serror + sjob" where
  "sched_Get i s = (case sjobs s i of None \<Rightarrow> Err SNotFound | Some r \<Rightarrow> Ok (sheap s r))"

definition sched_id :: "nanos \<Rightarrow> string" where
  "sched_id now = ''sc_'' @ hex (nat now)"

definition fill_job :: "('c \<Rightarrow> nanos \<Rightarrow> nanos) \<Rightarrow> nanos \<Rightarrow> 'c \<Rightarrow> sjob \<Rightarrow> sjob" where
  "fill_job nxt now sch j0 =
     (let j1 = (if AlertOn j0 = AlertOther '''' then j0\<lparr>AlertOn := AlertFail\<rparr> else j0);
          j2 = (if sID j1 = '''' then j1\<lparr>sID := sched_id now, Created := unix now\<rparr> else j1)
      in j2\<lparr>Updated := unix now, NextFire := unix (nxt sch now)\<rparr>)"

text \<open>\<open>Save\<close> keeps the new object in memory even when writing the file fails.\<close>

definition sched_Save ::
  "(string \<Rightarrow> 'c option) \<Rightarrow> ('c \<Rightarrow> nanos \<Rightarrow> nanos) \<Rightarrow> nanos \<Rightarrow> sjob \<Rightarrow> scheduler
     \<Rightarrow> (serror + sjob) \<times> scheduler" where
  "sched_Save parse nxt now j0 s =
     (if TrimSpace (sName j0) = '''' then (Err (SBadInput ''name''), s)
      else case parse (sSchedule j0) of
        None \<Rightarrow> (Err (SBadInput ''cron expr''), s)
      | Some sch \<Rightarrow>
          if sKind j0 = '''' then (Err (SBadInput ''kind''), s)
          else
            let j3 = fill_job nxt now sch j0;
                s1 = s\<lparr>sheap := (sheap s)(snextRef s := j3), snextRef := Suc (snextRef s),
                       sjobs := (sjobs s)(sID j3 \<mapsto> snextRef s)\<rparr>
            in case saveLocked s1 of
                 Err e \<Rightarrow> (Err e, s1)
               | Ok s2 \<Rightarrow> (Ok j3, s2))"

definition sched_Delete :: "string \<Rightarrow> scheduler \<Rightarrow> (serror + unit) \<times> scheduler" where
  "sched_Delete i s =
     (case sjobs s i of
        None \<Rightarrow> (Err SNotFound, s)
      | Some r \<Rightarrow>
          let s1 = s\<lparr>sjobs := (sjobs s)(i := None)\<rparr> in
          case saveLocked s1 of Err e \<Rightarrow> (Err e, s1) | Ok s2 \<Rightarrow> (Ok (), s2))"

text \<open>The loop of \<open>NextFires\<close>: \<open>n\<close> successive activations after \<open>t\<close>.\<close>

fun next_fires :: "('c \<Rightarrow> nanos \<Rightarrow> nanos) \<Rightarrow> 'c \<Rightarrow> nat \<Rightarrow> nanos \<Rightarrow> nanos list" where
  "next_fires nxt sch 0 t = []"
| "next_fires nxt sch (Suc n) t = nxt sch t # next_fires nxt sch n (nxt sch t)"

definition NextFires ::
  "(string \<Rightarrow> 'c option) \<Rightarrow> ('c \<Rightarrow> nanos \<Rightarrow> nanos) \<Rightarrow> nanos \<Rightarrow> string \<Rightarrow> int \<Rightarrow> serror + nanos list" where
  "NextFires parse nxt now expr n =
     (case parse expr of
        None \<Rightarrow> Err (SBadInput ''cron expr'')
      | Some sch \<Rightarrow> Ok (next_fires nxt sch (if n \<le> 0 then 5 else nat n) now))"

section \<open>Firing\<close>

type_synonym 'q enqueue = "string \<Rightarrow> string \<Rightarrow> string \<Rightarrow> string \<Rightarrow> 'q \<Rightarrow> qerror + (string \<times> 'q)"

definition alert :: "sjob \<Rightarrow> string \<Rightarrow> string \<Rightarrow> scheduler \<Rightarrow> scheduler" where
  "alert j qid st s = s\<lparr>alerted := alerted s @ [(sOwner j, j, qid, st)]\<rparr>"

definition allowed :: "scheduler \<Rightarrow> string \<Rightarrow> string \<Rightarrow> bool" where
  "allowed s owner kind = (case authz s of None \<Rightarrow> True | Some a \<Rightarrow> a owner kind)"

definition fire_source :: "bool \<Rightarrow> string \<Rightarrow> string" where
  "fire_source manual i = (if manual then ''scheduler-manual:'' @ i else ''scheduler:'' @ i)"

definition fire ::
  "'q enqueue \<Rightarrow> nanos \<Rightarrow> bool \<Rightarrow> nat \<Rightarrow> scheduler \<Rightarrow> 'q \<Rightarrow> (qerror + string) \<times> scheduler \<times> 'q" where
  "fire enq now manual r s q =
     (let j = sheap s r in
      if \<not> manual \<and> \<not> allowed s (sOwner j) (sKind j) then
        (Ok '''', try_save (seth r (\<lambda>j. j\<lparr>LastFire := unix now, LastStatus := ''skipped''\<rparr>) s), q)
      else case enq (sKind j) (sArgs j) (sOwner j) (fire_source manual (sID j)) q of
        Err e \<Rightarrow>
          let s1 = try_save (seth r (\<lambda>j. j\<lparr>LastFire := unix now, LastStatus := ''failed''\<rparr>) s);
              s2 = (if alerter s1 \<and> (AlertOn j = AlertFail \<or> AlertOn j = AlertAlways)
                    then alert (sheap s1 r) '''' ''failed'' s1 else s1)
          in (Err e, s2, q)
      | Ok (qid, q') \<Rightarrow>
          let s1 = try_save (seth r (\<lambda>j. j\<lparr>LastFire := unix now, LastStatus := ''ok'', LastJobID := qid\<rparr>) s);
              s2 = (if alerter s1 \<and> AlertOn j = AlertAlways then alert (sheap s1 r) qid ''ok'' s1 else s1)
          in (Ok qid, s2, q'))"

definition RunNow ::
  "'q enqueue \<Rightarrow> nanos \<Rightarrow> string \<Rightarrow> scheduler \<Rightarrow> 'q \<Rightarrow> (serror + string) \<times> scheduler \<times> 'q" where
  "RunNow enq now i s q =
     (case sjobs s i of
        None \<Rightarrow> (Err SNotFound, s, q)
      | Some r \<Rightarrow>
          (case fire enq now True r s q of
             (Err e, s', q') \<Rightarrow> (Err (SEnqueue e), s', q')
           | (Ok qid, s', q') \<Rightarrow> (Ok qid, s', q')))"

section \<open>The tick\<close>

definition is_due :: "(string \<Rightarrow> 'c option) \<Rightarrow> nanos \<Rightarrow> sjob \<Rightarrow> bool" where
  "is_due parse now j \<longleftrightarrow>
     sEnabled j \<and> parse (sSchedule j) \<noteq> None \<and> NextFire j \<noteq> 0 \<and> NextFire j \<le> unix now"

definition tick_job :: "(string \<Rightarrow> 'c option) \<Rightarrow> ('c \<Rightarrow> nanos \<Rightarrow> nanos) \<Rightarrow> nanos \<Rightarrow> sjob \<Rightarrow> sjob \<times> bool" where
  "tick_job parse nxt now j =
     (if \<not> sEnabled j then (j, False)
      else case parse (sSchedule j) of
        None \<Rightarrow> (j, False)
      | Some sch \<Rightarrow>
          if NextFire j = 0 then (j\<lparr>NextFire := unix (nxt sch now)\<rparr>, False)
          else if NextFire j \<le> unix now then
            let j1 = (if unix now - NextFire j > 300 then j\<lparr>LastStatus := ''late''\<rparr> else j)
            in (j1\<lparr>NextFire := unix (nxt sch now)\<rparr>, True)
          else (j, False))"

fun tick_scan ::
  "(string \<Rightarrow> 'c option) \<Rightarrow> ('c \<Rightarrow> nanos \<Rightarrow> nanos) \<Rightarrow> nanos \<Rightarrow> string list \<Rightarrow> scheduler \<Rightarrow> scheduler \<times> nat list"
where
  "tick_scan parse nxt now [] s = (s, [])"
| "tick_scan parse nxt now (i # is) s =
     (case sjobs s i of
        None \<Rightarrow> tick_scan parse nxt now is s
      | Some r \<Rightarrow>
          let (j, due) = tick_job parse nxt now (sheap s r);
              (s', rs) = tick_scan parse nxt now is (seth r (\<lambda>_. j) s)
          in (s', if due then r # rs else rs))"

fun fire_all :: "'q enqueue \<Rightarrow> nanos \<Rightarrow> nat list \<Rightarrow> scheduler \<Rightarrow> 'q \<Rightarrow> scheduler \<times> 'q" where
  "fire_all enq now [] s q = (s, q)"
| "fire_all enq now (r # rs) s q =
     (case fire enq now False r s q of (_, s', q') \<Rightarrow> fire_all enq now rs s' q')"

definition tickOnce ::
  "(string \<Rightarrow> 'c option) \<Rightarrow> ('c \<Rightarrow> nanos \<Rightarrow> nanos) \<Rightarrow> 'q enqueue \<Rightarrow> nanos \<Rightarrow> string list
     \<Rightarrow> scheduler \<Rightarrow> 'q \<Rightarrow> scheduler \<times> 'q" where
  "tickOnce parse nxt enq now is s q =
     (let (s1, due) = tick_scan parse nxt now is s;
          s2 = (if due \<noteq> [] then try_save s1 else s1)
      in fire_all enq now due s2 q)"

section \<open>Chaining\<close>

definition chain_id :: "string \<Rightarrow> string option" where
  "chain_id source =
     (if HasPrefix source ''scheduler:'' then Some (TrimPrefix source ''scheduler:'')
      else if HasPrefix source ''scheduler-manual:'' then Some (TrimPrefix source ''scheduler-manual:'')
      else None)"

definition chain_runs :: "string \<Rightarrow> string \<Rightarrow> bool" where
  "chain_runs thenOn status =
     (let success = (status = ''done'') in
      if thenOn = ''always'' then True else if thenOn = ''failure'' then \<not> success else success)"

definition OnQueueTerminal :: "'q enqueue \<Rightarrow> string \<Rightarrow> string \<Rightarrow> scheduler \<Rightarrow> 'q \<Rightarrow> 'q" where
  "OnQueueTerminal enq source status s q =
     (case chain_id source of
        None \<Rightarrow> q
      | Some i \<Rightarrow>
          case sjobs s i of
            None \<Rightarrow> q
          | Some r \<Rightarrow>
              let j = sheap s r in
              if ThenKind j = '''' then q
              else if \<not> chain_runs (ThenOn j) status then q
              else if \<not> allowed s (sOwner j) (ThenKind j) then q
              else case enq (ThenKind j) (ThenArgs j) (sOwner j) (''scheduler-chain:'' @ i) q of
                     Err _ \<Rightarrow> q
                   | Ok (_, q') \<Rightarrow> q')"

section \<open>The adapter\<close>

definition QueueEnqueuer :: "nanos \<Rightarrow> string option \<Rightarrow> queue enqueue" where
  "QueueEnqueuer now launched kind args owner source q =
     (case Enqueue now launched kind args owner source q of
        Err e \<Rightarrow> Err e
      | Ok (j, q') \<Rightarrow> Ok (ID j, q'))"

end
