(* ===== verification/SchedulerProps.thy ===== *)
theory SchedulerProps
  imports Scheduler
begin

text \<open>
  Properties of the scheduler: the tick fires every due job exactly once, autonomous submissions are
  authorized, chained runs never chain, editing is persistent, and two behaviours that differ from
  what the comments say: a restart drops past-due runs, and a schedule that never matches fires on
  every tick. The interface to the queue is the locale \<open>enqueuer\<close>, interpreted on the adapter.
\<close>

section \<open>Helpers\<close>

lemma seth_frame [simp]:
  "snextRef (seth r f s) = snextRef s" "sjobs (seth r f s) = sjobs s" "sfile (seth r f s) = sfile s"
  "sfileOK (seth r f s) = sfileOK s" "authz (seth r f s) = authz s" "alerter (seth r f s) = alerter s"
  "alerted (seth r f s) = alerted s" "sheap (seth r f s) = (sheap s)(r := f (sheap s r))"
  by (simp_all add: seth_def)

lemma try_save_frame [simp]:
  "sheap (try_save s) = sheap s" "snextRef (try_save s) = snextRef s" "sjobs (try_save s) = sjobs s"
  "sfileOK (try_save s) = sfileOK s" "authz (try_save s) = authz s" "alerter (try_save s) = alerter s"
  "alerted (try_save s) = alerted s"
  by (simp_all add: try_save_def saveLocked_def)

lemma alert_frame [simp]:
  "sheap (alert j a b s) = sheap s" "snextRef (alert j a b s) = snextRef s"
  "sjobs (alert j a b s) = sjobs s" "authz (alert j a b s) = authz s"
  by (simp_all add: alert_def)

lemma allowed_cong: "authz s' = authz s \<Longrightarrow> allowed s' = allowed s"
  by (simp add: allowed_def fun_eq_iff)

definition wf_sched :: "scheduler \<Rightarrow> bool" where
  "wf_sched s \<longleftrightarrow> (\<forall>i r. sjobs s i = Some r \<longrightarrow> r < snextRef s \<and> sID (sheap s r) = i)"

lemma wf_schedD: "wf_sched s \<Longrightarrow> sjobs s i = Some r \<Longrightarrow> r < snextRef s \<and> sID (sheap s r) = i"
  by (simp add: wf_sched_def)

lemma wf_sched_inj: "wf_sched s \<Longrightarrow> sjobs s i = Some r \<Longrightarrow> sjobs s i' = Some r \<Longrightarrow> i = i'"
  by (auto simp: wf_sched_def)

lemma wf_sched_seth: "wf_sched s \<Longrightarrow> sID (f (sheap s r)) = sID (sheap s r) \<Longrightarrow> wf_sched (seth r f s)"
  by (simp add: wf_sched_def)

lemma sview_seth:
  assumes "wf_sched s" and "sjobs s i = Some r"
  shows "sview (seth r f s) = (sview s)(i \<mapsto> f (sheap s r))"
proof
  fix x
  show "sview (seth r f s) x = ((sview s)(i \<mapsto> f (sheap s r))) x"
    using assms wf_sched_inj [OF assms, of x] by (cases "sjobs s x") (auto simp: sview_def)
qed

lemma sview_Some: "sjobs s i = Some r \<Longrightarrow> sview s i = Some (sheap s r)"
  by (simp add: sview_def)

lemma sview_None: "sview s i = None \<longleftrightarrow> sjobs s i = None"
  by (simp add: sview_def)

section \<open>The tick\<close>

lemma tick_job_due: "snd (tick_job parse nxt now j) = is_due parse now j"
  by (simp add: tick_job_def is_due_def Let_def split: option.split)

lemma tick_job_ID [simp]: "sID (fst (tick_job parse nxt now j)) = sID j"
  by (simp add: tick_job_def Let_def split: option.split)

lemma tick_scan_Cons:
  "sjobs s i = Some r \<Longrightarrow> tick_scan parse nxt now (i # is) s =
     (fst (tick_scan parse nxt now is (seth r (\<lambda>_. fst (tick_job parse nxt now (sheap s r))) s)),
      (if is_due parse now (sheap s r) then [r] else []) @
      snd (tick_scan parse nxt now is (seth r (\<lambda>_. fst (tick_job parse nxt now (sheap s r))) s)))"
  by (simp add: Let_def case_prod_unfold tick_job_due)

lemma tick_scan_sjobs [simp]: "sjobs (fst (tick_scan parse nxt now is s)) = sjobs s"
  "authz (fst (tick_scan parse nxt now is s)) = authz s"
  by (induction "is" arbitrary: s) (simp_all add: Let_def case_prod_unfold split: option.split)

lemma tick_scan_effect:
  assumes "wf_sched s" and "distinct is"
  shows "sview (fst (tick_scan parse nxt now is s)) =
       (\<lambda>i. if i \<in> set is then map_option (\<lambda>j. fst (tick_job parse nxt now j)) (sview s i) else sview s i) \<and>
     set (snd (tick_scan parse nxt now is s)) =
       {r. \<exists>i\<in>set is. sjobs s i = Some r \<and> is_due parse now (sheap s r)} \<and>
     distinct (snd (tick_scan parse nxt now is s))"
  using assms
proof (induction "is" arbitrary: s)
  case (Cons i "is")
  show ?case
  proof (cases "sjobs s i")
    case None
    then have "sview s i = None" by (simp add: sview_None)
    with None Cons show ?thesis by (auto simp: fun_eq_iff)
  next
    case (Some r)
    let ?f = "\<lambda>_. fst (tick_job parse nxt now (sheap s r))"
    let ?s = "seth r ?f s"
    have w: "wf_sched ?s" using Cons.prems(1) by (rule wf_sched_seth) simp
    have other: "r' \<noteq> r" if "x \<in> set is" "sjobs s x = Some r'" for x r'
      using Cons.prems that wf_sched_inj [OF Cons.prems(1) Some, of x] by auto
    have IH: "sview (fst (tick_scan parse nxt now is ?s)) =
        (\<lambda>x. if x \<in> set is then map_option (\<lambda>j. fst (tick_job parse nxt now j)) (sview ?s x) else sview ?s x)"
        "set (snd (tick_scan parse nxt now is ?s)) =
          {r'. \<exists>x\<in>set is. sjobs s x = Some r' \<and> is_due parse now (sheap ?s r')}"
        "distinct (snd (tick_scan parse nxt now is ?s))"
      using Cons.IH [OF w] Cons.prems(2) by simp_all
    have S: "set (snd (tick_scan parse nxt now is ?s)) =
        {r'. \<exists>x\<in>set is. sjobs s x = Some r' \<and> is_due parse now (sheap s r')}"
      unfolding IH(2) using other by (auto split: if_splits)
    have V: "sview (fst (tick_scan parse nxt now is ?s)) =
        (\<lambda>x. if x \<in> set (i # is) then map_option (\<lambda>j. fst (tick_job parse nxt now j)) (sview s x) else sview s x)"
      unfolding IH(1) sview_seth [OF Cons.prems(1) Some]
      using Cons.prems(2) sview_Some [OF Some] by (auto simp: fun_eq_iff)
    from S have "r \<notin> set (snd (tick_scan parse nxt now is ?s))"
      using other by auto
    with V S IH(3) Some show ?thesis
      unfolding tick_scan_Cons [OF Some] fst_conv snd_conv by auto
  qed
qed simp

text \<open>The next activation is in a later second: what the cron package promises when it finds one.\<close>

definition advances :: "('c \<Rightarrow> nanos \<Rightarrow> nanos) \<Rightarrow> bool" where
  "advances nxt \<longleftrightarrow> (\<forall>sch t. unix t < unix (nxt sch t))"

lemma tick_job_not_due:
  "advances nxt \<Longrightarrow> \<not> is_due parse now (fst (tick_job parse nxt now j))"
  by (auto simp: tick_job_def is_due_def advances_def Let_def not_le split: option.split)

text \<open>
  A tick selects exactly the jobs that are enabled, have a valid schedule and whose planned time
  has come, each once, and moves the planned time of each past the present, so another tick at the
  same time selects none of them: a missed window is caught up by one run, never by several.
\<close>

theorem tick_selects_due_once:
  assumes "wf_sched s" and "set is = dom (sjobs s)" and "distinct is" and "advances nxt"
  shows "distinct (snd (tick_scan parse nxt now is s)) \<and>
    (\<forall>i r. sjobs s i = Some r \<longrightarrow>
       (r \<in> set (snd (tick_scan parse nxt now is s)) \<longleftrightarrow> is_due parse now (sheap s r))) \<and>
    snd (tick_scan parse nxt now is (fst (tick_scan parse nxt now is s))) = []"
proof -
  let ?s = "fst (tick_scan parse nxt now is s)"
  note e = tick_scan_effect [OF assms(1,3), of parse nxt now]
  have a: "r \<in> set (snd (tick_scan parse nxt now is s)) \<longleftrightarrow> is_due parse now (sheap s r)"
    if "sjobs s i = Some r" for i r
  proof -
    from that assms(2) have "i \<in> set is" by auto
    with e that show ?thesis by auto
  qed
  have v: "sview ?s = (\<lambda>i. map_option (\<lambda>j. fst (tick_job parse nxt now j)) (sview s i))"
    using e assms(2) by (auto simp: fun_eq_iff domIff sview_None [THEN iffD2])
  have nd: "\<not> is_due parse now (sheap ?s r)" if "sjobs s i = Some r" for i r
  proof -
    have "Some (sheap ?s r) = map_option (\<lambda>j. fst (tick_job parse nxt now j)) (Some (sheap s r))"
      using fun_cong [OF v, of i] that by (simp add: sview_Some)
    with tick_job_not_due [OF assms(4)] show ?thesis by simp
  qed
  have w: "wf_sched ?s"
  proof -
    have "sID (sheap ?s r) = i" if "sjobs s i = Some r" for i r
      using fun_cong [OF v, of i] that wf_schedD [OF assms(1) that] by (simp add: sview_Some)
    moreover have "snextRef ?s = snextRef s"
      by (induction "is" arbitrary: s) (simp_all add: Let_def case_prod_unfold split: option.split)
    ultimately show ?thesis using assms(1) by (simp add: wf_sched_def)
  qed
  have "set (snd (tick_scan parse nxt now is ?s)) = {}"
    using tick_scan_effect [OF w assms(3), of parse nxt now] nd by auto
  then show ?thesis using e a by auto
qed

text \<open>A scheduler for the witnesses: cron expressions are minute counts, the next activation is one minute later.\<close>

definition minute_parse :: "string \<Rightarrow> unit option" where
  "minute_parse e = (if e = ''* * * * *'' then Some () else None)"

definition minute_next :: "unit \<Rightarrow> nanos \<Rightarrow> nanos" where
  "minute_next u t = (unix t div 60 + 1) * 60 * second"

lemma minute_advances: "advances minute_next"
proof -
  have "unix t < (unix t div 60 + 1) * 60" for t by presburger
  moreover have "unix (minute_next u t) = (unix t div 60 + 1) * 60" for u t
    unfolding minute_next_def unix_def second_def by (rule nonzero_mult_div_cancel_right) simp
  ultimately show ?thesis unfolding advances_def by simp
qed

definition sample_sjob :: "string \<Rightarrow> secs \<Rightarrow> sjob" where
  "sample_sjob i n =
     \<lparr>sID = i, sName = ''backup'', sSchedule = ''* * * * *'', sKind = ''shell'', sArgs = '''', sEnabled = True,
      sOwner = ''ann'', RunAsRoot = False, TimeoutSec = 0, RetryMax = 0, AlertOn = AlertFail,
      ThenKind = ''shell'', ThenArgs = '''', ThenOn = '''', NotifyChannels = [], NotifyOn = '''', LastFire = 0,
      LastStatus = '''', LastJobID = '''', NextFire = n, Created = 0, Updated = 0\<rparr>"

definition sample_sched :: "secs \<Rightarrow> scheduler" where
  "sample_sched n = load_list [sample_sjob ''a'' n] (empty_scheduler (sample_sjob ''x'' 0))"

lemma sample_sched_fields [simp]:
  "sjobs (sample_sched n) = [''a'' \<mapsto> 0]" "sheap (sample_sched n) 0 = sample_sjob ''a'' n"
  "snextRef (sample_sched n) = 1" "authz (sample_sched n) = None" "sfileOK (sample_sched n)"
  "alerter (sample_sched n) = False"
  by (simp_all add: sample_sched_def empty_scheduler_def sample_sjob_def)

lemma wf_sample_sched: "wf_sched (sample_sched n)"
  by (simp add: wf_sched_def) (simp add: sample_sjob_def)

theorem tick_selects_due_once_witness:
  "0 \<in> set (snd (tick_scan minute_parse minute_next (100 * second) [''a''] (sample_sched 60)))"
proof -
  have h: "set [''a''] = dom (sjobs (sample_sched 60))" "distinct [''a'']" by simp_all
  have "is_due minute_parse (100 * second) (sheap (sample_sched 60) 0)"
    by (simp add: is_due_def sample_sjob_def minute_parse_def unix_def second_def)
  then show ?thesis
    using tick_selects_due_once [OF wf_sample_sched h minute_advances, of minute_parse "100 * second"]
    by (metis fun_upd_same sample_sched_fields(1))
qed

section \<open>Restart\<close>

lemma wf_sched_insert:
  "wf_sched s \<Longrightarrow> wf_sched (s\<lparr>sheap := (sheap s)(snextRef s := j), snextRef := Suc (snextRef s),
     sjobs := (sjobs s)(sID j \<mapsto> snextRef s)\<rparr>)"
  by (auto simp: wf_sched_def less_SucI)

lemma load_list_wf: "wf_sched s \<Longrightarrow> wf_sched (load_list js s)"
  by (induction js arbitrary: s) (simp_all add: wf_sched_insert)

lemma recompute_ID [simp]: "sID (recompute_job parse nxt now j) = sID j"
  by (simp add: recompute_job_def split: option.split)

lemma recompute_frame [simp]: "sjobs (recompute_loop parse nxt now is s) = sjobs s"
  by (induction "is" arbitrary: s) (simp_all split: option.split)

lemma recompute_idem:
  "recompute_job parse nxt now (recompute_job parse nxt now j) = recompute_job parse nxt now j"
  by (simp add: recompute_job_def split: option.split)

lemma recompute_view:
  "wf_sched s \<Longrightarrow> sview (recompute_loop parse nxt now is s) =
     (\<lambda>i. if i \<in> set is then map_option (recompute_job parse nxt now) (sview s i) else sview s i)"
proof (induction "is" arbitrary: s)
  case (Cons i "is")
  have m: "map_option (recompute_job parse nxt now) (map_option (recompute_job parse nxt now) x) =
      map_option (recompute_job parse nxt now) x" for x
    by (cases x) (simp_all add: recompute_idem)
  show ?case
  proof (cases "sjobs s i")
    case None
    then have "sview s i = None" by (simp add: sview_None)
    with None Cons show ?thesis by (auto simp: fun_eq_iff)
  next
    case (Some r)
    have w: "wf_sched (seth r (recompute_job parse nxt now) s)"
      using Cons.prems by (rule wf_sched_seth) simp
    show ?thesis
      using Cons.IH [OF w] Some sview_seth [OF Cons.prems Some, of "recompute_job parse nxt now"] sview_Some [OF Some]
      by (auto simp: fun_eq_iff recompute_idem)
  qed
qed simp

lemma recompute_not_due: "advances nxt \<Longrightarrow> \<not> is_due parse now (recompute_job parse nxt now j)"
  by (auto simp: recompute_job_def is_due_def advances_def not_le split: option.split)

lemma wf_empty_scheduler: "wf_sched (empty_scheduler j0)"
  by (simp add: wf_sched_def empty_scheduler_def)

text \<open>
  A restart drops every past-due run: whatever planned times the file holds, after the scheduler
  has loaded it no job is due at that time, so the tick made at once after boot selects nothing.
\<close>

theorem restart_drops_past_due:
  assumes "New_scheduler parse nxt now is (SList js) j0 = Ok s" and "set is = sID ` set js"
    and "advances nxt"
  shows "\<forall>i r. sjobs s i = Some r \<longrightarrow> \<not> is_due parse now (sheap s r)"
proof -
  let ?s0 = "load_list js (empty_scheduler j0)"
  let ?s1 = "recompute_loop parse nxt now is ?s0"
  have s: "s = try_save ?s1"
    using assms(1) by (simp add: New_scheduler_def sched_load_def recomputeAllNextFire_def)
  have w: "wf_sched ?s0" by (simp add: load_list_wf wf_empty_scheduler)
  have dom: "dom (sjobs (load_list js x)) \<subseteq> dom (sjobs x) \<union> sID ` set js" for x
  proof (induction js arbitrary: x)
    case (Cons j js)
    from Cons.IH [of "x\<lparr>sheap := (sheap x)(snextRef x := j), snextRef := Suc (snextRef x),
       sjobs := (sjobs x)(sID j \<mapsto> snextRef x)\<rparr>"] show ?case
      by auto
  qed simp
  have "\<not> is_due parse now (sheap ?s1 r)" if "sjobs ?s0 i = Some r" for i r
  proof -
    have "i \<in> set is" using dom [of "empty_scheduler j0"] that assms(2) by (auto simp: empty_scheduler_def)
    then have "sview ?s1 i = map_option (recompute_job parse nxt now) (sview ?s0 i)"
      by (simp add: recompute_view [OF w])
    with that recompute_not_due [OF assms(3)] show ?thesis by (simp add: sview_Some)
  qed
  then show ?thesis by (simp add: s)
qed

theorem restart_drops_past_due_witness:
  "\<exists>s. New_scheduler minute_parse minute_next (100 * second) [''a''] (SList [sample_sjob ''a'' 60]) (sample_sjob ''x'' 0) = Ok s \<and>
     is_due minute_parse (100 * second) (sample_sjob ''a'' 60) \<and>
     sjobs s ''a'' = Some 0 \<and> \<not> is_due minute_parse (100 * second) (sheap s 0)"
proof -
  let ?j = "sample_sjob ''a'' 60"
  have i: "sID ?j = ''a''" by (simp add: sample_sjob_def)
  obtain s where s: "New_scheduler minute_parse minute_next (100 * second) [''a''] (SList [?j]) (sample_sjob ''x'' 0) = Ok s"
    by (simp add: New_scheduler_def sched_load_def)
  then have j: "sjobs s ''a'' = Some 0"
    by (auto simp: New_scheduler_def sched_load_def recomputeAllNextFire_def i empty_scheduler_def)
  have d: "is_due minute_parse (100 * second) ?j"
    by (simp add: is_due_def sample_sjob_def minute_parse_def unix_def second_def)
  have "set [''a''] = sID ` set [?j]" by (simp add: i)
  from restart_drops_past_due [OF s this minute_advances] j have "\<not> is_due minute_parse (100 * second) (sheap s 0)"
    by blast
  with s d j show ?thesis by blast
qed

section \<open>Editing\<close>

lemma sview_insert:
  assumes "wf_sched s"
  shows "sview (s\<lparr>sheap := (sheap s)(snextRef s := j), snextRef := Suc (snextRef s),
     sjobs := (sjobs s)(i \<mapsto> snextRef s)\<rparr>) = (sview s)(i \<mapsto> j)"
proof
  fix x
  show "sview (s\<lparr>sheap := (sheap s)(snextRef s := j), snextRef := Suc (snextRef s),
      sjobs := (sjobs s)(i \<mapsto> snextRef s)\<rparr>) x = ((sview s)(i \<mapsto> j)) x"
    using wf_schedD [OF assms, of x] by (cases "sjobs s x") (auto simp: sview_def)
qed

definition valid_input :: "(string \<Rightarrow> 'c option) \<Rightarrow> sjob \<Rightarrow> bool" where
  "valid_input parse j \<longleftrightarrow> TrimSpace (sName j) \<noteq> '''' \<and> parse (sSchedule j) \<noteq> None \<and> sKind j \<noteq> ''''"

definition saved_job :: "(string \<Rightarrow> 'c option) \<Rightarrow> ('c \<Rightarrow> nanos \<Rightarrow> nanos) \<Rightarrow> nanos \<Rightarrow> sjob \<Rightarrow> sjob" where
  "saved_job parse nxt now j = fill_job nxt now (the (parse (sSchedule j))) j"

lemma sched_Save_valid:
  fixes nxt :: "'c \<Rightarrow> nanos \<Rightarrow> nanos" and now :: nanos and s :: scheduler
  assumes "valid_input parse j"
  defines "j' \<equiv> saved_job parse nxt now j"
  defines "s1 \<equiv> s\<lparr>sheap := (sheap s)(snextRef s := j'), snextRef := Suc (snextRef s),
     sjobs := (sjobs s)(sID j' \<mapsto> snextRef s)\<rparr>"
  shows "sched_Save parse nxt now j s =
    (case saveLocked s1 of Err e \<Rightarrow> (Err e, s1) | Ok s2 \<Rightarrow> (Ok j', s2))"
  using assms(1)
  by (auto simp: sched_Save_def valid_input_def s1_def j'_def saved_job_def Let_def split: sum.split)

text \<open>
  Saving a valid job makes it, with its id, times and default alert mode filled in, what a lookup
  returns and what the file holds, and touches no other job; invalid input is rejected with no
  change. Deleting removes that job from memory and file.
\<close>

theorem sched_save_get:
  assumes "wf_sched s" and "sfileOK s"
  shows "(valid_input parse j \<longrightarrow>
      (\<exists>s'. sched_Save parse nxt now j s = (Ok (saved_job parse nxt now j), s') \<and> wf_sched s' \<and>
         sview s' = (sview s)(sID (saved_job parse nxt now j) \<mapsto> saved_job parse nxt now j) \<and>
         sfile s' = Some (sview s'))) \<and>
    (\<not> valid_input parse j \<longrightarrow> (\<exists>e. sched_Save parse nxt now j s = (Err (SBadInput e), s))) \<and>
    (\<forall>i. sjobs s i \<noteq> None \<longrightarrow>
      (\<exists>s'. sched_Delete i s = (Ok (), s') \<and> sview s' = (sview s)(i := None) \<and> sfile s' = Some (sview s')))"
proof (intro conjI impI allI)
  assume v: "valid_input parse j"
  let ?j = "saved_job parse nxt now j"
  let ?s1 = "s\<lparr>sheap := (sheap s)(snextRef s := ?j), snextRef := Suc (snextRef s),
     sjobs := (sjobs s)(sID ?j \<mapsto> snextRef s)\<rparr>"
  let ?s2 = "?s1\<lparr>sfile := Some (sview ?s1)\<rparr>"
  have "sched_Save parse nxt now j s = (Ok ?j, ?s2)"
    using assms(2) by (simp add: sched_Save_valid [OF v] saveLocked_def)
  moreover have "wf_sched ?s2" using wf_sched_insert [OF assms(1), of ?j] by (simp add: wf_sched_def)
  moreover have "sview ?s2 = sview ?s1" by (simp add: sview_def)
  ultimately show "\<exists>s'. sched_Save parse nxt now j s = (Ok ?j, s') \<and> wf_sched s' \<and>
      sview s' = (sview s)(sID ?j \<mapsto> ?j) \<and> sfile s' = Some (sview s')"
    using sview_insert [OF assms(1), where j = ?j and i = "sID ?j"] by auto
next
  assume "\<not> valid_input parse j"
  then show "\<exists>e. sched_Save parse nxt now j s = (Err (SBadInput e), s)"
    by (auto simp: valid_input_def sched_Save_def split: option.split)
next
  fix i assume "sjobs s i \<noteq> None"
  then show "\<exists>s'. sched_Delete i s = (Ok (), s') \<and> sview s' = (sview s)(i := None) \<and> sfile s' = Some (sview s')"
    using assms(2) by (auto simp: sched_Delete_def saveLocked_def Let_def sview_def fun_eq_iff)
qed

lemma trim_backup: "TrimSpace ''backup'' = ''backup''"
  by code_simp

theorem sched_save_get_witness:
  "\<exists>s'. sched_Save minute_parse minute_next (100 * second) (sample_sjob ''b'' 0) (sample_sched 60) =
     (Ok (saved_job minute_parse minute_next (100 * second) (sample_sjob ''b'' 0)), s') \<and>
     sfile s' = Some (sview s')"
proof -
  have "valid_input minute_parse (sample_sjob ''b'' 0)"
    by (simp add: valid_input_def sample_sjob_def minute_parse_def trim_backup)
  with sched_save_get [OF wf_sample_sched, of 60 minute_parse "sample_sjob ''b'' 0" minute_next "100 * second"]
  show ?thesis by auto
qed

section \<open>A schedule that never matches\<close>

text \<open>
  A schedule with no activation in the cron package's horizon, such as the 30th of February, is
  accepted, and because the package then answers the zero time, whose Unix time is negative, the job
  is due on every tick: each tick fires it and leaves it due for the next one.
\<close>

theorem never_matching_fires_every_tick:
  assumes "valid_input parse j" and "sEnabled j" and "sfileOK s"
    and "\<And>sch t. parse (sSchedule j) = Some sch \<Longrightarrow> unix (nxt sch t) = zero_time_unix"
  shows "\<exists>j' s'. sched_Save parse nxt now j s = (Ok j', s') \<and> sched_Get (sID j') s' = Ok j' \<and>
    (\<forall>now'. 0 \<le> now' \<longrightarrow> is_due parse now' j' \<and> is_due parse now' (fst (tick_job parse nxt now' j')))"
proof -
  let ?j = "saved_job parse nxt now j"
  obtain sch where sch: "parse (sSchedule j) = Some sch" using assms(1) by (auto simp: valid_input_def)
  have f: "sEnabled ?j" "sSchedule ?j = sSchedule j" "NextFire ?j = zero_time_unix"
    using assms(2) assms(4) [OF sch] sch by (simp_all add: saved_job_def fill_job_def Let_def)
  have z: "zero_time_unix \<noteq> 0" "0 \<le> t \<Longrightarrow> zero_time_unix \<le> unix t" for t
    using unix_mono [of 0 t] by (simp_all add: zero_time_unix_def unix_def)
  have due: "is_due parse now' x"
    if "sEnabled x" "sSchedule x = sSchedule j" "NextFire x = zero_time_unix" "0 \<le> now'" for x now'
    using that z sch by (simp add: is_due_def)
  have again: "is_due parse now' (fst (tick_job parse nxt now' ?j))" if "0 \<le> now'" for now'
    using that f sch z assms(4) [OF sch] by (auto simp: tick_job_def Let_def intro!: due)
  have "\<exists>s'. sched_Save parse nxt now j s = (Ok ?j, s') \<and> sched_Get (sID ?j) s' = Ok ?j"
    using assms(3) by (simp add: sched_Save_valid [OF assms(1)] saveLocked_def sched_Get_def)
  with due [OF f] again show ?thesis by blast
qed

theorem never_matching_fires_every_tick_witness:
  "\<exists>j' s'. sched_Save minute_parse (\<lambda>_ _. zero_time_unix * second) 0 (sample_sjob ''b'' 0) (sample_sched 60) = (Ok j', s') \<and>
     is_due minute_parse (100 * second) j' \<and>
     is_due minute_parse (100 * second) (fst (tick_job minute_parse (\<lambda>_ _. zero_time_unix * second) (100 * second) j'))"
proof -
  have v: "valid_input minute_parse (sample_sjob ''b'' 0)" "sEnabled (sample_sjob ''b'' 0)"
    by (simp_all add: valid_input_def sample_sjob_def minute_parse_def trim_backup)
  have "unix ((\<lambda>_ _. zero_time_unix * second) sch t) = zero_time_unix" for sch :: unit and t :: nanos
    by (simp add: unix_def second_def)
  from never_matching_fires_every_tick [OF v, of "sample_sched 60" "\<lambda>_ _. zero_time_unix * second" 0, OF _ this]
  show ?thesis by (auto simp: second_def)
qed

section \<open>Authorization\<close>

lemma fire_frame:
  "sjobs (fst (snd (fire enq now m r s q))) = sjobs s \<and> authz (fst (snd (fire enq now m r s q))) = authz s"
  by (simp add: fire_def Let_def split: sum.split prod.split)

lemma fire_authorized:
  assumes "P q" and "\<And>k a o' src x i x'. allowed s o' k \<Longrightarrow> P x \<Longrightarrow> enq k a o' src x = Ok (i, x') \<Longrightarrow> P x'"
  shows "P (snd (snd (fire enq now False r s q)))"
  using assms(1) assms(2) [of "sOwner (sheap s r)" "sKind (sheap s r)" q]
  by (auto simp: fire_def Let_def split: sum.split prod.split)

lemma fire_all_authorized:
  assumes "P q" and "\<And>k a o' src x i x'. allowed s o' k \<Longrightarrow> P x \<Longrightarrow> enq k a o' src x = Ok (i, x') \<Longrightarrow> P x'"
  shows "P (snd (fire_all enq now rs s q))"
  using assms
proof (induction rs arbitrary: s q)
  case (Cons r rs)
  have "P (snd (snd (fire enq now False r s q)))"
    using Cons.prems by (rule fire_authorized)
  moreover have "allowed (fst (snd (fire enq now False r s q))) = allowed s"
    by (rule allowed_cong) (simp add: fire_frame)
  ultimately show ?case
    using Cons.IH [of "snd (snd (fire enq now False r s q))" "fst (snd (fire enq now False r s q))"] Cons.prems(2)
    by (simp add: case_prod_unfold)
qed simp

text \<open>
  C36. Every job a tick submits on its own is one its owner may run: whatever property of the queue the
  authorized submissions keep, a tick keeps, whichever jobs are due; and the same holds of the
  follow-ups of finished jobs.
\<close>

theorem autonomous_runs_authorized:
  assumes "P q" and "\<And>k a o' src x i x'. allowed s o' k \<Longrightarrow> P x \<Longrightarrow> enq k a o' src x = Ok (i, x') \<Longrightarrow> P x'"
  shows "P (snd (tickOnce parse nxt enq now is s q)) \<and> P (OnQueueTerminal enq source status s q)"
proof
  let ?s1 = "fst (tick_scan parse nxt now is s)"
  let ?s2 = "if snd (tick_scan parse nxt now is s) \<noteq> [] then try_save ?s1 else ?s1"
  have a: "allowed ?s2 = allowed s" by (rule allowed_cong) simp
  have "P (snd (fire_all enq now (snd (tick_scan parse nxt now is s)) ?s2 q))"
    by (rule fire_all_authorized [of P, OF assms(1)]) (use a assms(2) in auto)
  then show "P (snd (tickOnce parse nxt enq now is s q))"
    by (simp add: tickOnce_def case_prod_unfold Let_def)
  show "P (OnQueueTerminal enq source status s q)"
    using assms by (auto simp: OnQueueTerminal_def Let_def split: option.split sum.split prod.split)
qed

text \<open>For the witness: only ann may run anything, and the queue's records belong to her.\<close>

definition log_enqueue :: "(string \<times> string) list enqueue" where
  "log_enqueue kind args owner source q = Ok (kind, q @ [(owner, source)])"

theorem autonomous_runs_authorized_witness:
  "list_all (\<lambda>e. fst e = ''ann'')
     (snd (tickOnce minute_parse minute_next log_enqueue (100 * second) [''a'']
       (SetAuthorizer (Some (\<lambda>ow k. ow = ''ann'')) (sample_sched 60)) []))"
  by (rule autonomous_runs_authorized [where P = "list_all (\<lambda>e. fst e = ''ann'')", THEN conjunct1])
    (auto simp: allowed_def SetAuthorizer_def log_enqueue_def)

section \<open>Chaining\<close>

lemma chain_id_fire [simp]: "chain_id (fire_source m i) = Some i"
  by (simp add: chain_id_def fire_source_def TrimPrefix_def)

lemma chain_id_chain [simp]: "chain_id (''scheduler-chain:'' @ i) = None"
  by (simp add: chain_id_def)

text \<open>
  Chaining stops after one step: a run started by the tick or by hand is traced back to its job,
  whose follow-up carries a source for which nothing is chained, whatever the jobs are and however it
  ends.
\<close>

theorem chain_never_loops:
  "chain_id (fire_source manual i) = Some i \<and>
   OnQueueTerminal enq (''scheduler-chain:'' @ i) status s q = q"
  by (simp only: OnQueueTerminal_def chain_id_chain chain_id_fire option.case simp_thms)

section \<open>The interface to the queue\<close>

locale enqueuer =
  fixes enq :: "'q enqueue"
    and known :: "'q \<Rightarrow> string \<Rightarrow> bool"
    and holds :: "'q \<Rightarrow> string \<Rightarrow> string \<Rightarrow> string \<Rightarrow> string \<Rightarrow> string \<Rightarrow> bool"
  assumes enq_known: "known q k \<Longrightarrow> \<exists>i q'. enq k a ow src q = Ok (i, q')"
    and enq_unknown: "\<not> known q k \<Longrightarrow> enq k a ow src q = Err ErrUnknownKind"
    and enq_holds: "enq k a ow src q = Ok (i, q') \<Longrightarrow> holds q' i k a ow src"
begin

lemma fire_submits:
  assumes "known q (sKind (sheap s r))" and "m \<or> allowed s (sOwner (sheap s r)) (sKind (sheap s r))"
  shows "\<exists>i s' q'. fire enq now m r s q = (Ok i, s', q') \<and>
    holds q' i (sKind (sheap s r)) (sArgs (sheap s r)) (sOwner (sheap s r)) (fire_source m (sID (sheap s r))) \<and>
    LastStatus (sheap s' r) = ''ok'' \<and> LastJobID (sheap s' r) = i \<and> LastFire (sheap s' r) = unix now"
proof -
  obtain i q' where e: "enq (sKind (sheap s r)) (sArgs (sheap s r)) (sOwner (sheap s r))
      (fire_source m (sID (sheap s r))) q = Ok (i, q')"
    using enq_known [OF assms(1)] by blast
  from enq_holds [OF e] assms(2) e show ?thesis
    by (auto simp: fire_def Let_def)
qed

lemma fire_unknown:
  assumes "\<not> known q (sKind (sheap s r))" and "m \<or> allowed s (sOwner (sheap s r)) (sKind (sheap s r))"
  shows "\<exists>s'. fire enq now m r s q = (Err ErrUnknownKind, s', q) \<and> LastStatus (sheap s' r) = ''failed''"
  using assms enq_unknown [OF assms(1)] by (auto simp: fire_def Let_def)

lemma chain_submits:
  assumes "sjobs s i = Some r" and "ThenKind (sheap s r) \<noteq> ''''" and "chain_runs (ThenOn (sheap s r)) st"
    and "allowed s (sOwner (sheap s r)) (ThenKind (sheap s r))" and "known q (ThenKind (sheap s r))"
  shows "\<exists>qid. holds (OnQueueTerminal enq (fire_source m i) st s q) qid (ThenKind (sheap s r))
    (ThenArgs (sheap s r)) (sOwner (sheap s r)) (''scheduler-chain:'' @ i)"
proof -
  obtain qid q' where e: "enq (ThenKind (sheap s r)) (ThenArgs (sheap s r)) (sOwner (sheap s r))
      (''scheduler-chain:'' @ i) q = Ok (qid, q')"
    using enq_known [OF assms(5)] by blast
  from enq_holds [OF e] assms e show ?thesis
    by (auto simp: OnQueueTerminal_def Let_def)
qed

end

text \<open>The job queue behind the adapter keeps the contract: a submitted job is in the queue under the returned id.\<close>

lemma prune_loop_active:
  "jobs q i = Some r \<Longrightarrow> \<not> isTerminal (Status (heap q r)) \<Longrightarrow>
     jobs (fst (prune_loop n d is q)) i = Some r"
proof (induction n d "is" q rule: prune_loop.induct)
  case (2 n d x "is" q)
  have "jobs (drop_job x (heap q r') q) i = Some r" if "jobs q x = Some r'" "isTerminal (Status (heap q r'))" for r'
    using 2(4,5) that by (auto simp: drop_job_def)
  with 2 show ?case by (auto simp: case_prod_unfold split: option.split)
qed simp

lemma prune_active:
  "jobs q i = Some r \<Longrightarrow> \<not> isTerminal (Status (heap q r)) \<Longrightarrow> jobs (pruneLocked q) i = Some r"
  by (simp add: pruneLocked_def case_prod_unfold prune_loop_active)

definition queue_holds :: "queue \<Rightarrow> string \<Rightarrow> string \<Rightarrow> string \<Rightarrow> string \<Rightarrow> string \<Rightarrow> bool" where
  "queue_holds q i k a ow src \<longleftrightarrow>
     (\<exists>j. view q i = Some j \<and> ID j = i \<and> Kind j = k \<and> Args j = a \<and> Owner j = ow \<and> Source j = src \<and>
        (Status j = StatusQueued \<or> Status j = StatusRunning))"

lemma dispatch_frame:
  "jobs (dispatch now l r q) = jobs q"
  "ID (heap (dispatch now l r q) x) = ID (heap q x)" "Kind (heap (dispatch now l r q) x) = Kind (heap q x)"
  "Args (heap (dispatch now l r q) x) = Args (heap q x)" "Owner (heap (dispatch now l r q) x) = Owner (heap q x)"
  "Source (heap (dispatch now l r q) x) = Source (heap q x)"
  "Status (heap (dispatch now l r q) x) = Status (heap q x) \<or> Status (heap (dispatch now l r q) x) = StatusRunning"
  by (simp_all add: dispatch_def Let_def split: option.split)

lemma enqueue_inserted:
  assumes "enqueue_insert now k a ow src q = Ok (r, q')"
  shows "jobs q' (job_id now) = Some r \<and> heap q' r = new_job now k a ow src"
proof -
  let ?j = "new_job now k a ow src"
  have j: "ID ?j = job_id now" "\<not> isTerminal (Status ?j)" by (simp_all add: new_job_def)
  let ?q = "q\<lparr>heap := (heap q)(nextRef q := ?j), nextRef := Suc (nextRef q),
      jobs := (jobs q)(job_id now \<mapsto> nextRef q), order := order q @ [job_id now]\<rparr>"
  have q': "q' = persistLocked (pruneLocked ?q)" "r = nextRef q"
    using assms j(1) by (auto simp: enqueue_insert_def alloc_def Let_def split: if_splits)
  then show ?thesis using j(2) prune_active [of ?q "job_id now" "nextRef q"] by simp
qed

lemma QueueEnqueuer_holds:
  assumes "QueueEnqueuer now l k a ow src q = Ok (i, q')"
  shows "queue_holds q' i k a ow src"
proof -
  from assms obtain r q1 where e: "enqueue_insert now k a ow src q = Ok (r, q1)"
    by (auto simp: QueueEnqueuer_def Enqueue_def split: sum.splits prod.splits)
  let ?q = "dispatch now l r q1"
  have n: "jobs q1 (job_id now) = Some r" "heap q1 r = new_job now k a ow src"
    using enqueue_inserted [OF e] by simp_all
  have id: "ID (heap ?q r) = job_id now" by (simp add: dispatch_frame n new_job_def)
  then have "q' = ?q" "i = job_id now"
    using assms e n(1) by (auto simp: QueueEnqueuer_def Enqueue_def Let_def snapshot_def dispatch_frame)
  then show ?thesis
    using n id dispatch_frame(7) [of now l r q1 r]
    by (auto simp: queue_holds_def view_def dispatch_frame new_job_def)
qed

interpretation queue_enq: enqueuer "QueueEnqueuer now l" "\<lambda>q k. k \<in> runners q" queue_holds for now l
proof
  fix q :: queue and k a ow src i q'
  show "k \<in> runners q \<Longrightarrow> \<exists>i q'. QueueEnqueuer now l k a ow src q = Ok (i, q')"
    by (auto simp: QueueEnqueuer_def Enqueue_def enqueue_insert_def alloc_def Let_def)
  show "k \<notin> runners q \<Longrightarrow> QueueEnqueuer now l k a ow src q = Err ErrUnknownKind"
    by (simp add: QueueEnqueuer_def Enqueue_def enqueue_insert_def)
  show "QueueEnqueuer now l k a ow src q = Ok (i, q') \<Longrightarrow> queue_holds q' i k a ow src"
    by (rule QueueEnqueuer_holds)
qed

text \<open>
  A fired schedule reaches the queue: for a registered kind and an authorized owner the queue holds
  an active job with the schedule's kind, arguments and owner and a source naming the schedule, under
  the id the scheduler records; for an unregistered kind the run is recorded as failed.
\<close>

theorem fire_reaches_queue:
  assumes "m \<or> allowed s (sOwner (sheap s r)) (sKind (sheap s r))"
  shows "(sKind (sheap s r) \<in> runners q \<longrightarrow>
      (\<exists>i s' q'. fire (QueueEnqueuer t l) now m r s q = (Ok i, s', q') \<and>
         queue_holds q' i (sKind (sheap s r)) (sArgs (sheap s r)) (sOwner (sheap s r))
           (fire_source m (sID (sheap s r))) \<and>
         LastStatus (sheap s' r) = ''ok'' \<and> LastJobID (sheap s' r) = i)) \<and>
    (sKind (sheap s r) \<notin> runners q \<longrightarrow>
      (\<exists>s'. fire (QueueEnqueuer t l) now m r s q = (Err ErrUnknownKind, s', q) \<and>
         LastStatus (sheap s' r) = ''failed''))"
  using queue_enq.fire_submits [OF _ assms] queue_enq.fire_unknown [OF _ assms] by blast

theorem fire_reaches_queue_witness:
  "\<exists>i s' q'. fire (QueueEnqueuer 7 None) 7 True 0 (sample_sched 60) (sample_queue StatusDone StatusDone) = (Ok i, s', q') \<and>
     queue_holds q' i ''shell'' '''' ''ann'' ''scheduler-manual:a''"
proof -
  have "sKind (sheap (sample_sched 60) 0) \<in> runners (sample_queue StatusDone StatusDone)"
    by (simp add: sample_sjob_def)
  with fire_reaches_queue [of True "sample_sched 60" 0 "sample_queue StatusDone StatusDone" 7 None 7]
  show ?thesis by (auto simp: sample_sjob_def fire_source_def)
qed

end
