(* ===== verification/Notify.thy ===== *)
theory Notify
  imports GoStrings Http
begin

text \<open>
  The notification spine, \<^verbatim>\<open>internal/notify\<close>: the ring buffer, rules, the router with its throttle and
  circuit breaker, the persisted rules and channels, and the HTTP handler that edits channels. The
  worker is one goroutine, so its state is passed explicitly. What a channel does is a parameter:
  \<open>send n t ev cfg\<close> says whether the \<open>n\<close>-th call of any channel, on type \<open>t\<close>, succeeds. The calls made
  are recorded in \<open>calls\<close>.
\<close>

section \<open>Ring\<close>

record 'e ring =
  buf :: "'e list"
  nextw :: nat
  count :: nat

definition newRing :: "int \<Rightarrow> 'e \<Rightarrow> 'e ring" where
  "newRing capacity e0 =
     (let c = (if capacity < 1 then 1 else capacity)
      in \<lparr>buf = replicate (nat c) e0, nextw = 0, count = 0\<rparr>)"

definition ring_push :: "'e \<Rightarrow> 'e ring \<Rightarrow> 'e ring" where
  "ring_push ev r =
     r\<lparr>buf := (buf r)[nextw r := ev],
       nextw := (nextw r + 1) mod length (buf r),
       count := (if count r < length (buf r) then count r + 1 else count r)\<rparr>"

text \<open>Go's \<open>%\<close> truncates towards zero, so the code adds \<open>n\<close> and reduces again.\<close>

definition go_rem :: "int \<Rightarrow> int \<Rightarrow> int" where
  "go_rem a b = sgn a * (\<bar>a\<bar> mod \<bar>b\<bar>)"

definition ring_index :: "'e ring \<Rightarrow> nat \<Rightarrow> int" where
  "ring_index r i =
     (let n = int (length (buf r)) in go_rem (go_rem (int (nextw r) - 1 - int i) n + n) n)"

definition ring_snapshot :: "'e ring \<Rightarrow> 'e list" where
  "ring_snapshot r = map (\<lambda>i. buf r ! nat (ring_index r i)) [0..<count r]"

section \<open>Events and rules\<close>

record nevent =
  evType :: string
  evSeverity :: string
  evSource :: string
  evOwner :: string
  evTitle :: string
  evBody :: string
  evLabels :: "string \<rightharpoonup> string"
  evTS :: secs
  DedupKey :: string
  RuleID :: string

definition severityRank :: "string \<Rightarrow> nat" where
  "severityRank s = (if s = ''critical'' then 2 else if s = ''warning'' then 1 else 0)"

record rule =
  ruleID :: string
  ruleName :: string
  ruleEnabled :: bool
  TypePrefix :: string
  MinSeverity :: string
  SourcePrefix :: string
  ruleLabels :: "(string \<times> string) list"
  ruleChannels :: "string list"

definition label :: "nevent \<Rightarrow> string \<Rightarrow> string" where
  "label ev k = (case evLabels ev k of None \<Rightarrow> '''' | Some v \<Rightarrow> v)"

definition matches :: "rule \<Rightarrow> nevent \<Rightarrow> bool" where
  "matches rl ev \<longleftrightarrow>
     (if \<not> ruleEnabled rl then False
      else if TypePrefix rl \<noteq> '''' \<and> \<not> HasPrefix (evType ev) (TypePrefix rl) then False
      else if MinSeverity rl \<noteq> '''' \<and> severityRank (evSeverity ev) < severityRank (MinSeverity rl) then False
      else if SourcePrefix rl \<noteq> '''' \<and> \<not> HasPrefix (evSource ev) (SourcePrefix rl) then False
      else list_all (\<lambda>(k, v). label ev k = v) (ruleLabels rl))"

section \<open>Channels and the router\<close>

record ChannelConfig =
  FromUser :: string
  ChatJID :: string
  BotToken :: string
  ChatID :: string
  SMTPHost :: string
  SMTPPort :: int
  SMTPUser :: string
  SMTPPass :: string
  cfgFrom :: string
  cfgTo :: string
  ToUser :: string
  ToDevice :: string
  cfgURL :: string
  FixedBody :: string

record ChannelDef =
  chID :: string
  chName :: string
  chType :: string
  chEnabled :: bool
  chConfig :: ChannelConfig

record breakerState =
  failures :: nat
  openUntil :: secs

record router =
  bufSize :: nat
  window :: secs
  brkLimit :: nat
  brkOpen :: secs
  impls :: "string set"
  rules :: "rule list"
  channelsC :: "string \<rightharpoonup> ChannelDef"
  throttle :: "string \<rightharpoonup> secs"
  breaker :: "string \<rightharpoonup> breakerState"
  history :: "nevent ring"
  inbox :: "nevent ring"
  dropped :: nat
  chan :: "nevent list"
  calls :: "(ChannelDef \<times> nevent) list"
  rulesFile :: "rule list option"
  channelsFile :: "(string \<rightharpoonup> ChannelDef) option"
  cfgOK :: bool

type_synonym sender = "nat \<Rightarrow> string \<Rightarrow> nevent \<Rightarrow> ChannelConfig \<Rightarrow> bool"

definition orInt :: "int \<Rightarrow> int \<Rightarrow> int" where
  "orInt v d = (if v > 0 then v else d)"

definition historyCapacity :: int where "historyCapacity = 500"

text \<open>\<open>rs\<close> and \<open>cs\<close> are what reading the two files gives; no file and an empty file give no rules and no channels.\<close>

datatype nerror = NIO | NCorrupt | NNotFound | NNoImpl | NSend

definition New_router ::
  "int \<Rightarrow> int \<Rightarrow> int \<Rightarrow> int \<Rightarrow> string set \<Rightarrow> nerror + rule list \<Rightarrow> nerror + ChannelDef list \<Rightarrow> nevent
     \<Rightarrow> nerror + router" where
  "New_router bs win lim op ims rs cs e0 =
     (case rs of
        Err e \<Rightarrow> Err e
      | Ok rl \<Rightarrow>
        (case cs of
           Err e \<Rightarrow> Err e
         | Ok cl \<Rightarrow>
             let chans = foldl (\<lambda>m c. m(chID c \<mapsto> c)) Map.empty cl in
             Ok \<lparr>bufSize = nat (orInt bs 1024), window = orInt win 300, brkLimit = nat (orInt lim 5),
                 brkOpen = orInt op 60, impls = ims, rules = rl, channelsC = chans, throttle = Map.empty,
                 breaker = Map.empty, history = newRing historyCapacity e0,
                 inbox = newRing historyCapacity e0, dropped = 0, chan = [], calls = [],
                 rulesFile = Some rl, channelsFile = Some chans, cfgOK = True\<rparr>))"

section \<open>Producing\<close>

definition Dispatch :: "secs \<Rightarrow> nevent \<Rightarrow> router \<Rightarrow> router" where
  "Dispatch now ev0 r =
     (let ev = (if evTS ev0 = 0 then ev0\<lparr>evTS := now\<rparr> else ev0);
          r1 = r\<lparr>history := ring_push ev (history r)\<rparr>
      in if length (chan r1) < bufSize r1 then r1\<lparr>chan := chan r1 @ [ev]\<rparr>
         else r1\<lparr>dropped := Suc (dropped r1)\<rparr>)"

definition InboxAdd :: "nevent \<Rightarrow> router \<Rightarrow> router" where
  "InboxAdd ev r = r\<lparr>inbox := ring_push ev (inbox r)\<rparr>"

definition Inbox :: "int \<Rightarrow> router \<Rightarrow> nevent list" where
  "Inbox limit0 r =
     (let all = ring_snapshot (inbox r); limit = (if limit0 \<le> 0 then 50 else limit0)
      in if int (length all) > limit then take (nat limit) all else all)"

section \<open>The worker\<close>

definition sendVia :: "sender \<Rightarrow> ChannelDef \<Rightarrow> nevent \<Rightarrow> secs \<Rightarrow> router \<Rightarrow> router" where
  "sendVia send d ev now r =
     (let b = (case breaker r (chID d) of None \<Rightarrow> \<lparr>failures = 0, openUntil = 0\<rparr> | Some b \<Rightarrow> b);
          r1 = r\<lparr>breaker := (breaker r)(chID d \<mapsto> b)\<rparr>
      in if now < openUntil b then r1
         else
           let ok = send (length (calls r1)) (chType d) ev (chConfig d);
               r2 = r1\<lparr>calls := calls r1 @ [(d, ev)]\<rparr>
           in if \<not> ok then
                let f = Suc (failures b);
                    b' = (if f \<ge> brkLimit r2 then b\<lparr>failures := f, openUntil := now + brkOpen r2\<rparr>
                          else b\<lparr>failures := f\<rparr>)
                in r2\<lparr>breaker := (breaker r2)(chID d \<mapsto> b')\<rparr>
              else r2\<lparr>breaker := (breaker r2)(chID d \<mapsto> b\<lparr>failures := 0, openUntil := 0\<rparr>)\<rparr>)"

definition evictThrottle :: "secs \<Rightarrow> router \<Rightarrow> router" where
  "evictThrottle now r = r\<lparr>throttle := keep_vals (\<lambda>ts. \<not> now - ts > window r) (throttle r)\<rparr>"

fun fan_out :: "sender \<Rightarrow> rule \<Rightarrow> nevent \<Rightarrow> secs \<Rightarrow> string list \<Rightarrow> router \<Rightarrow> router" where
  "fan_out send rl ev now [] r = r"
| "fan_out send rl ev now (c # cs) r =
     fan_out send rl ev now cs
       (case channelsC r c of
          None \<Rightarrow> r
        | Some d \<Rightarrow>
            if \<not> chEnabled d then r
            else if chType d \<notin> impls r then r
            else sendVia send d (ev\<lparr>RuleID := ruleID rl\<rparr>) now r)"

definition throttle_key :: "nevent \<Rightarrow> rule \<Rightarrow> string" where
  "throttle_key ev rl = DedupKey ev @ ''|'' @ ruleID rl"

definition throttled :: "secs \<Rightarrow> nevent \<Rightarrow> rule \<Rightarrow> router \<Rightarrow> bool" where
  "throttled now ev rl r \<longleftrightarrow>
     DedupKey ev \<noteq> '''' \<and>
     (case throttle r (throttle_key ev rl) of None \<Rightarrow> False | Some lst \<Rightarrow> now - lst < window r)"

definition handle_rule :: "sender \<Rightarrow> nevent \<Rightarrow> secs \<Rightarrow> rule \<Rightarrow> router \<Rightarrow> router" where
  "handle_rule send ev now rl r =
     (if \<not> matches rl ev then r
      else if throttled now ev rl r then r
      else
        let r1 = (if DedupKey ev \<noteq> '''' then r\<lparr>throttle := (throttle r)(throttle_key ev rl \<mapsto> now)\<rparr> else r)
        in fan_out send rl ev now (ruleChannels rl) r1)"

fun handle_rules :: "sender \<Rightarrow> nevent \<Rightarrow> secs \<Rightarrow> rule list \<Rightarrow> router \<Rightarrow> router" where
  "handle_rules send ev now [] r = r"
| "handle_rules send ev now (rl # rls) r = handle_rules send ev now rls (handle_rule send ev now rl r)"

definition handle :: "sender \<Rightarrow> secs \<Rightarrow> nevent \<Rightarrow> router \<Rightarrow> router" where
  "handle send now ev r = handle_rules send ev now (rules r) (evictThrottle now r)"

text \<open>One iteration of \<open>run\<close>: take an event off the channel and handle it.\<close>

definition run_step :: "sender \<Rightarrow> secs \<Rightarrow> router \<Rightarrow> router" where
  "run_step send now r =
     (case chan r of [] \<Rightarrow> r | ev # evs \<Rightarrow> handle send now ev (r\<lparr>chan := evs\<rparr>))"

section \<open>Rules and channels\<close>

definition saveRulesLocked :: "router \<Rightarrow> nerror + router" where
  "saveRulesLocked r = (if cfgOK r then Ok (r\<lparr>rulesFile := Some (rules r)\<rparr>) else Err NIO)"

definition saveChannelsLocked :: "router \<Rightarrow> nerror + router" where
  "saveChannelsLocked r = (if cfgOK r then Ok (r\<lparr>channelsFile := Some (channelsC r)\<rparr>) else Err NIO)"

text \<open>\<open>fresh\<close> is what \<open>newID\<close> returns.\<close>

definition UpsertRule :: "string \<Rightarrow> rule \<Rightarrow> router \<Rightarrow> (nerror + rule) \<times> router" where
  "UpsertRule fresh rl0 r =
     (let rl = (if ruleID rl0 = '''' then rl0\<lparr>ruleID := fresh\<rparr> else rl0);
          next0 = map (\<lambda>x. if ruleID x = ruleID rl then rl else x) (rules r);
          replaced = list_ex (\<lambda>x. ruleID x = ruleID rl) (rules r);
          r1 = r\<lparr>rules := (if replaced then next0 else next0 @ [rl])\<rparr>
      in case saveRulesLocked r1 of Err e \<Rightarrow> (Err e, r1) | Ok r2 \<Rightarrow> (Ok rl, r2))"

definition DeleteRule :: "string \<Rightarrow> router \<Rightarrow> (nerror + unit) \<times> router" where
  "DeleteRule i r =
     (let r1 = r\<lparr>rules := filter (\<lambda>x. ruleID x \<noteq> i) (rules r)\<rparr>
      in case saveRulesLocked r1 of Err e \<Rightarrow> (Err e, r1) | Ok r2 \<Rightarrow> (Ok (), r2))"

definition redact :: "ChannelDef \<Rightarrow> ChannelDef" where
  "redact d = d\<lparr>chConfig := (chConfig d)\<lparr>BotToken := '''', SMTPPass := ''''\<rparr>\<rparr>"

text \<open>\<open>ChannelDefsRedacted\<close>; \<open>is\<close> is the order of the map.\<close>

definition ChannelDefsRedacted :: "string list \<Rightarrow> router \<Rightarrow> ChannelDef list" where
  "ChannelDefsRedacted is r = map redact (List.map_filter (channelsC r) is)"

definition keep_secrets :: "ChannelDef option \<Rightarrow> ChannelDef \<Rightarrow> ChannelDef" where
  "keep_secrets old c =
     (case old of
        None \<Rightarrow> c
      | Some o' \<Rightarrow>
          let c1 = (if BotToken (chConfig c) = '''' then c\<lparr>chConfig := (chConfig c)\<lparr>BotToken := BotToken (chConfig o')\<rparr>\<rparr> else c)
          in if SMTPPass (chConfig c1) = '''' then c1\<lparr>chConfig := (chConfig c1)\<lparr>SMTPPass := SMTPPass (chConfig o')\<rparr>\<rparr>
             else c1)"

definition UpsertChannel :: "string \<Rightarrow> ChannelDef \<Rightarrow> router \<Rightarrow> (nerror + ChannelDef) \<times> router" where
  "UpsertChannel fresh c0 r =
     (let c1 = (if chID c0 = '''' then c0\<lparr>chID := fresh\<rparr> else c0);
          c = keep_secrets (channelsC r (chID c1)) c1;
          r1 = r\<lparr>channelsC := (channelsC r)(chID c \<mapsto> c)\<rparr>
      in case saveChannelsLocked r1 of Err e \<Rightarrow> (Err e, r1) | Ok r2 \<Rightarrow> (Ok c, r2))"

definition DeleteChannel :: "string \<Rightarrow> router \<Rightarrow> (nerror + unit) \<times> router" where
  "DeleteChannel i r =
     (let r1 = r\<lparr>channelsC := (channelsC r)(i := None)\<rparr>
      in case saveChannelsLocked r1 of Err e \<Rightarrow> (Err e, r1) | Ok r2 \<Rightarrow> (Ok (), r2))"

definition TestChannel :: "sender \<Rightarrow> string \<Rightarrow> nevent \<Rightarrow> router \<Rightarrow> (nerror + unit) \<times> router" where
  "TestChannel send i ev r =
     (case channelsC r i of
        None \<Rightarrow> (Err NNotFound, r)
      | Some d \<Rightarrow>
          if chType d \<notin> impls r then (Err NNoImpl, r)
          else (if send (length (calls r)) (chType d) ev (chConfig d) then Ok () else Err NSend,
                r\<lparr>calls := calls r @ [(d, ev)]\<rparr>))"

section \<open>History and preview\<close>

fun take_matching :: "('a \<Rightarrow> bool) \<Rightarrow> nat \<Rightarrow> 'a list \<Rightarrow> 'a list" where
  "take_matching P n [] = []"
| "take_matching P n (x # xs) =
     (if \<not> P x then take_matching P n xs
      else x # (if 1 \<ge> n then [] else take_matching P (n - 1) xs))"

definition History :: "string \<Rightarrow> string \<Rightarrow> int \<Rightarrow> router \<Rightarrow> nevent list" where
  "History src typ limit0 r =
     (let limit = (if limit0 \<le> 0 then 200 else limit0)
      in take_matching (\<lambda>ev. \<not> (src \<noteq> '''' \<and> evSource ev \<noteq> src) \<and> \<not> (typ \<noteq> '''' \<and> evType ev \<noteq> typ))
           (nat limit) (ring_snapshot (history r)))"

definition DryRun :: "rule \<Rightarrow> router \<Rightarrow> nevent list" where
  "DryRun rl r = filter (matches (rl\<lparr>ruleEnabled := True\<rparr>)) (ring_snapshot (history r))"

section \<open>The channel handler\<close>

datatype channel_reply =
    RForbidden | RUnavailable | RList "ChannelDef list" | RSaved ChannelDef | RBadJSON | RError nerror
  | RMethod

text \<open>\<open>primary\<close>: the caller passed \<open>mustPrimary\<close>; \<open>body\<close>: the decoded JSON; \<open>is\<close>: the map's order.\<close>

definition handleNotifyChannels ::
  "bool \<Rightarrow> string \<Rightarrow> ChannelDef option \<Rightarrow> string \<Rightarrow> string list \<Rightarrow> router option
     \<Rightarrow> channel_reply \<times> router option" where
  "handleNotifyChannels primary meth body fresh is ro =
     (if \<not> primary then (RForbidden, ro)
      else case ro of
        None \<Rightarrow> (RUnavailable, None)
      | Some r \<Rightarrow>
          if meth = MethodGet then (RList (ChannelDefsRedacted is r), Some r)
          else if meth = MethodPost \<or> meth = ''PUT'' then
            (case body of
               None \<Rightarrow> (RBadJSON, Some r)
             | Some c \<Rightarrow>
                 (case UpsertChannel fresh c r of
                    (Err e, r') \<Rightarrow> (RError e, Some r')
                  | (Ok saved, r') \<Rightarrow> (RSaved saved, Some r')))
          else (RMethod, Some r))"

end
