(* ===== verification/NotifyProps.thy ===== *)
theory NotifyProps
  imports Notify
begin

text \<open>
  Properties of the notification spine: the ring is the list of the newest events, dispatch never
  blocks and counts what it drops, a repeated event is sent once per rule and window, the breaker
  stops calling a dead channel, secrets survive an edit of the redacted listing, and the reply to
  such an edit discloses them.
\<close>

section \<open>The ring\<close>

lemma go_rem_pos: "0 < m \<Longrightarrow> 0 < n \<Longrightarrow> go_rem m n = m mod n"
  by (simp add: go_rem_def)

lemma go_rem_twice:
  assumes "0 < n"
  shows "go_rem (go_rem a n + n) n = a mod n"
proof (cases "0 \<le> a")
  case True
  then have "go_rem a n = a mod n" using assms by (cases "a = 0") (simp_all add: go_rem_def)
  moreover have "0 < a mod n + n" using assms by (simp add: add_nonneg_pos)
  ultimately show ?thesis using assms by (simp add: go_rem_pos)
next
  case False
  then have "go_rem a n + n = n - (- a) mod n" using assms by (simp add: go_rem_def)
  moreover have "0 < n - (- a) mod n" using assms by simp
  ultimately have "go_rem (go_rem a n + n) n = (n - (- a) mod n) mod n"
    using assms by (simp only: go_rem_pos)
  also have "\<dots> = a mod n" using assms by (simp add: mod_simps)
  finally show ?thesis .
qed

definition wf_ring :: "'e ring \<Rightarrow> bool" where
  "wf_ring r \<longleftrightarrow> 0 < length (buf r) \<and> nextw r < length (buf r) \<and> count r \<le> length (buf r)"

lemma ring_index_mod:
  "wf_ring r \<Longrightarrow> ring_index r i = (int (nextw r) - 1 - int i) mod int (length (buf r))"
  by (simp add: ring_index_def wf_ring_def Let_def go_rem_twice)

lemma wf_newRing: "wf_ring (newRing c e)"
  by (simp add: wf_ring_def newRing_def Let_def)

lemma wf_ring_push: "wf_ring r \<Longrightarrow> wf_ring (ring_push ev r)"
  by (auto simp: wf_ring_def ring_push_def)

lemma push_index:
  assumes "wf_ring r"
  shows "ring_index (ring_push ev r) 0 = int (nextw r)"
    and "ring_index (ring_push ev r) (Suc i) = ring_index r i"
proof -
  let ?n = "int (length (buf r))"
  have i: "ring_index (ring_push ev r) k = (int (nextw r) - int k) mod ?n" for k
  proof -
    have "ring_index (ring_push ev r) k = (int ((nextw r + 1) mod length (buf r)) - 1 - int k) mod ?n"
      using wf_ring_push [OF assms, of ev] by (simp add: ring_index_mod) (simp add: ring_push_def)
    also have "\<dots> = (int (nextw r) + 1 - 1 - int k) mod ?n"
      by (simp add: zmod_int mod_simps algebra_simps)
    finally show ?thesis by simp
  qed
  show "ring_index (ring_push ev r) 0 = int (nextw r)"
    using assms by (simp add: i wf_ring_def)
  show "ring_index (ring_push ev r) (Suc i) = ring_index r i"
    using assms by (simp add: i ring_index_mod algebra_simps)
qed

lemma old_slot:
  assumes "wf_ring r" and "Suc i < length (buf r)"
  shows "nat (ring_index r i) \<noteq> nextw r" and "nat (ring_index r i) < length (buf r)"
proof -
  let ?n = "int (length (buf r))"
  have n: "0 < ?n" using assms(1) by (simp add: wf_ring_def)
  have b: "0 \<le> ring_index r i" "ring_index r i < ?n"
    using n by (simp_all add: ring_index_mod [OF assms(1)])
  then show "nat (ring_index r i) < length (buf r)" by linarith
  show "nat (ring_index r i) \<noteq> nextw r"
  proof
    assume "nat (ring_index r i) = nextw r"
    with b have "ring_index r i = int (nextw r)" by linarith
    then have "(int (nextw r) - 1 - int i) mod ?n = int (nextw r) mod ?n"
      using assms(1) by (simp add: ring_index_mod [OF assms(1)] wf_ring_def)
    then have "?n dvd (int (nextw r) - 1 - int i) - int (nextw r)" by (simp only: mod_eq_dvd_iff)
    moreover have "(int (nextw r) - 1 - int i) - int (nextw r) = - int (Suc i)" by simp
    ultimately have "?n dvd int (Suc i)" by (simp only: dvd_minus_iff)
    then have "?n \<le> int (Suc i)" by (rule zdvd_imp_le) simp
    with assms(2) show False by simp
  qed
qed

lemma length_snapshot [simp]: "length (ring_snapshot r) = count r"
  by (simp add: ring_snapshot_def)

lemma ring_push_newest:
  assumes "wf_ring r"
  shows "ring_snapshot (ring_push ev r) = take (length (buf r)) (ev # ring_snapshot r)"
proof -
  let ?r = "ring_push ev r"
  have n: "0 < length (buf r)" "count r \<le> length (buf r)" using assms by (simp_all add: wf_ring_def)
  have len: "length (ring_snapshot ?r) = length (take (length (buf r)) (ev # ring_snapshot r))"
    using n by (simp add: ring_push_def)
  have nth: "ring_snapshot ?r ! k = take (length (buf r)) (ev # ring_snapshot r) ! k"
    if k: "k < length (ring_snapshot ?r)" for k
  proof (cases k)
    case 0
    have "ring_snapshot ?r ! 0 = buf ?r ! nextw r"
      using k 0 by (simp add: ring_snapshot_def push_index(1) [OF assms])
    with 0 n assms show ?thesis by (simp add: ring_push_def wf_ring_def)
  next
    case (Suc i)
    from k Suc n have i: "Suc i < length (buf r)" "i < count r"
      by (auto simp: ring_push_def split: if_splits)
    have "ring_snapshot ?r ! k = buf ?r ! nat (ring_index r i)"
      using k Suc by (simp add: ring_snapshot_def push_index(2) [OF assms])
    also have "\<dots> = buf r ! nat (ring_index r i)"
      using old_slot [OF assms i(1)] by (simp add: ring_push_def)
    also have "\<dots> = ring_snapshot r ! i" using i(2) by (simp add: ring_snapshot_def)
    finally show ?thesis using Suc i by simp
  qed
  from len nth show ?thesis by (rule nth_equalityI)
qed

interpretation event_ring: bounded_log ring_push ring_snapshot "\<lambda>r. length (buf r)" wf_ring
  by unfold_locales (simp_all add: wf_ring_push ring_push_newest, simp add: ring_push_def)

lemma newRing_fields: "ring_snapshot (newRing c e) = []" "length (buf (newRing c e)) = (if c < 1 then 1 else nat c)"
  by (simp_all add: ring_snapshot_def newRing_def Let_def)

text \<open>
  The ring buffer of events is the list of the newest ones: after any sequence of pushes a snapshot
  gives them newest first, up to the capacity (at least 1).
\<close>

theorem ring_refines_newest:
  "ring_snapshot (fold ring_push evs (newRing c e)) = take (if c < 1 then 1 else nat c) (rev evs)"
  using event_ring.pushes_newest [OF wf_newRing, of c e evs] by (simp add: newRing_fields)

section \<open>Dispatch\<close>

text \<open>
  Dispatch never blocks and loses nothing silently: the event is in the history, and it is either
  appended to the worker's bounded buffer or, when that is full, counted as dropped.
\<close>

theorem dispatch_accounts:
  fixes ev :: nevent and now :: secs
  assumes "wf_ring (history r)" and "length (chan r) \<le> bufSize r"
  defines "ev' \<equiv> (if evTS ev = 0 then ev\<lparr>evTS := now\<rparr> else ev)"
  shows "ring_snapshot (history (Dispatch now ev r)) = take (length (buf (history r))) (ev' # ring_snapshot (history r)) \<and>
    wf_ring (history (Dispatch now ev r)) \<and> length (chan (Dispatch now ev r)) \<le> bufSize r \<and>
    (chan (Dispatch now ev r) = chan r @ [ev'] \<and> dropped (Dispatch now ev r) = dropped r \<or>
     length (chan r) = bufSize r \<and> chan (Dispatch now ev r) = chan r \<and>
       dropped (Dispatch now ev r) = Suc (dropped r))"
proof -
  have h: "history (Dispatch now ev r) = ring_push ev' (history r)"
    unfolding Dispatch_def Let_def ev'_def [symmetric] by simp
  have "chan (Dispatch now ev r) = (if length (chan r) < bufSize r then chan r @ [ev'] else chan r)"
      "dropped (Dispatch now ev r) = (if length (chan r) < bufSize r then dropped r else Suc (dropped r))"
    unfolding Dispatch_def Let_def ev'_def [symmetric] by simp_all
  with h assms(2) ring_push_newest [OF assms(1), of ev'] wf_ring_push [OF assms(1), of ev'] show ?thesis
    by (auto split: if_splits)
qed

section \<open>Frames of the worker\<close>

lemma sendVia_frame [simp]:
  "rules (sendVia send d ev now r) = rules r" "channelsC (sendVia send d ev now r) = channelsC r"
  "impls (sendVia send d ev now r) = impls r" "throttle (sendVia send d ev now r) = throttle r"
  "window (sendVia send d ev now r) = window r" "brkLimit (sendVia send d ev now r) = brkLimit r"
  "brkOpen (sendVia send d ev now r) = brkOpen r" "history (sendVia send d ev now r) = history r"
  "chan (sendVia send d ev now r) = chan r"
  by (simp_all add: sendVia_def Let_def)

lemma fan_out_frame [simp]:
  "rules (fan_out send rl ev now cs r) = rules r" "channelsC (fan_out send rl ev now cs r) = channelsC r"
  "impls (fan_out send rl ev now cs r) = impls r" "throttle (fan_out send rl ev now cs r) = throttle r"
  "window (fan_out send rl ev now cs r) = window r" "history (fan_out send rl ev now cs r) = history r"
  by (induction cs arbitrary: r) (simp_all split: option.split)

lemma sendVia_calls:
  "calls (sendVia send d ev now r) = calls r \<or> calls (sendVia send d ev now r) = calls r @ [(d, ev)]"
  by (simp add: sendVia_def Let_def)

definition extends :: "(nevent \<Rightarrow> bool) \<Rightarrow> router \<Rightarrow> router \<Rightarrow> bool" where
  "extends P r r' \<longleftrightarrow> (\<exists>new. calls r' = calls r @ new \<and> (\<forall>x\<in>set new. P (snd x)))"

lemma extends_refl [simp]: "extends P r r"
  by (simp add: extends_def)

lemma extends_trans: "extends P r r' \<Longrightarrow> extends P r' r'' \<Longrightarrow> extends P r r''"
  unfolding extends_def by (metis (no_types, lifting) Un_iff append_assoc set_append)

lemma extends_cong: "calls r' = calls r \<Longrightarrow> extends P r r'' = extends P r' r''"
  by (simp add: extends_def)

lemma extends_throttle [simp]: "extends P (r\<lparr>throttle := T\<rparr>) r' = extends P r r'"
  by (simp add: extends_def)

lemma evict_simps [simp]:
  "throttle (evictThrottle now r) k = Some t \<longleftrightarrow> throttle r k = Some t \<and> now - t \<le> window r"
  "rules (evictThrottle now r) = rules r" "window (evictThrottle now r) = window r"
  "calls (evictThrottle now r) = calls r"
  by (auto simp: evictThrottle_def)

lemma fan_out_extends:
  "extends (\<lambda>e. RuleID e = ruleID rl) r (fan_out send rl ev now cs r)"
proof (induction cs arbitrary: r)
  case (Cons c cs)
  let ?r1 = "case channelsC r c of None \<Rightarrow> r
     | Some d \<Rightarrow> if \<not> chEnabled d then r else if chType d \<notin> impls r then r
       else sendVia send d (ev\<lparr>RuleID := ruleID rl\<rparr>) now r"
  have "extends (\<lambda>e. RuleID e = ruleID rl) r (sendVia send d (ev\<lparr>RuleID := ruleID rl\<rparr>) now r)" for d
    using sendVia_calls [of send d "ev\<lparr>RuleID := ruleID rl\<rparr>" now r] by (auto simp: extends_def)
  then have "extends (\<lambda>e. RuleID e = ruleID rl) r ?r1" by (simp split: option.split)
  from extends_trans [OF this Cons [of ?r1]] show ?case by (simp only: fan_out.simps)
qed simp

section \<open>The throttle\<close>

lemma throttle_key_inj: "throttle_key ev rl = throttle_key ev rl' \<longleftrightarrow> ruleID rl = ruleID rl'"
  by (simp add: throttle_key_def)

lemma throttle_key_cong: "DedupKey ev' = DedupKey ev \<Longrightarrow> throttle_key ev' rl = throttle_key ev rl"
  by (simp add: throttle_key_def)

lemma handle_rule_throttle:
  "throttle (handle_rule send ev now rl r) =
     (if matches rl ev \<and> \<not> throttled now ev rl r \<and> DedupKey ev \<noteq> ''''
      then (throttle r)(throttle_key ev rl \<mapsto> now) else throttle r)"
  by (auto simp: handle_rule_def Let_def)

lemma handle_rule_frame [simp]:
  "rules (handle_rule send ev now rl r) = rules r" "window (handle_rule send ev now rl r) = window r"
  by (simp_all add: handle_rule_def Let_def)

lemma handle_rules_frame [simp]:
  "rules (handle_rules send ev now rls r) = rules r" "window (handle_rules send ev now rls r) = window r"
  by (induction rls arbitrary: r) simp_all

text \<open>A mark in its window stays, whatever event is handled, and while it is there its rule sends nothing for its identity.\<close>

lemma handle_rule_keeps_mark:
  "throttle r k = Some t \<Longrightarrow> now - t < window r \<Longrightarrow> throttle (handle_rule send ev now rl r) k = Some t"
  by (auto simp: handle_rule_throttle throttled_def)

lemma handle_rules_keep_mark:
  "throttle r k = Some t \<Longrightarrow> now - t < window r \<Longrightarrow> throttle (handle_rules send ev now rls r) k = Some t"
  by (induction rls arbitrary: r) (simp_all add: handle_rule_keeps_mark)

lemma handle_keeps_mark:
  "throttle r k = Some t \<Longrightarrow> now - t < window r \<Longrightarrow> throttle (handle send now ev r) k = Some t"
  by (simp add: handle_def handle_rules_keep_mark)

lemma fan_out_other_rule:
  "ruleID rl \<noteq> i \<Longrightarrow> extends (\<lambda>e. RuleID e \<noteq> i) r (fan_out send rl ev now cs (r\<lparr>throttle := T\<rparr>))"
  "ruleID rl \<noteq> i \<Longrightarrow> extends (\<lambda>e. RuleID e \<noteq> i) r (fan_out send rl ev now cs r)"
  using fan_out_extends [of rl "r\<lparr>throttle := T\<rparr>" send ev now cs] fan_out_extends [of rl r send ev now cs]
  by (auto simp: extends_def)

text \<open>One rule sends nothing under another name, nothing while it is throttled, and leaves the mark when it sends.\<close>

lemma handle_rule_sends:
  assumes "\<not> extends (\<lambda>e. RuleID e \<noteq> i) r (handle_rule send ev now rl r)"
  shows "ruleID rl = i \<and> matches rl ev \<and> \<not> throttled now ev rl r"
proof (rule ccontr)
  assume "\<not> ?thesis"
  then have "extends (\<lambda>e. RuleID e \<noteq> i) r (handle_rule send ev now rl r)"
    by (cases "ruleID rl = i") (auto simp: handle_rule_def Let_def fan_out_other_rule)
  with assms show False by contradiction
qed

lemma handle_rules_silent:
  assumes "throttle r (DedupKey ev @ ''|'' @ i) = Some t" "DedupKey ev \<noteq> ''''" "now - t < window r"
  shows "extends (\<lambda>e. RuleID e \<noteq> i) r (handle_rules send ev now rls r)"
  using assms
proof (induction rls arbitrary: r)
  case (Cons x rls)
  let ?r = "handle_rule send ev now x r"
  have "extends (\<lambda>e. RuleID e \<noteq> i) r ?r"
    using handle_rule_sends [of i r send ev now x] Cons.prems by (cases "ruleID x = i") (auto simp: throttled_def throttle_key_def)
  moreover have "extends (\<lambda>e. RuleID e \<noteq> i) ?r (handle_rules send ev now rls ?r)"
    using Cons.prems by (intro Cons.IH) (simp_all add: handle_rule_keeps_mark)
  ultimately show ?case by (auto intro: extends_trans)
qed simp

lemma handle_rules_mark:
  assumes "\<not> extends (\<lambda>e. RuleID e \<noteq> i) r (handle_rules send ev now rls r)" "DedupKey ev \<noteq> ''''" "0 < window r"
  shows "throttle (handle_rules send ev now rls r) (DedupKey ev @ ''|'' @ i) = Some now"
  using assms
proof (induction rls arbitrary: r)
  case (Cons x rls)
  let ?r = "handle_rule send ev now x r"
  show ?case
  proof (cases "extends (\<lambda>e. RuleID e \<noteq> i) r ?r")
    case True
    then have "\<not> extends (\<lambda>e. RuleID e \<noteq> i) ?r (handle_rules send ev now rls ?r)"
      using Cons.prems(1) by (auto intro: extends_trans)
    with Cons.IH Cons.prems show ?thesis by simp
  next
    case False
    from handle_rule_sends [OF this] have "throttle ?r (DedupKey ev @ ''|'' @ i) = Some now"
      using Cons.prems(2) by (auto simp: handle_rule_throttle throttle_key_def)
    then show ?thesis using Cons.prems(3) by (simp add: handle_rules_keep_mark)
  qed
qed simp

text \<open>
  What may happen to the router in between, in the order of time: any event handled, events arriving, the worker's rounds, and edits of
  rules and channels that are saved or not.
\<close>

inductive router_moves :: "secs \<Rightarrow> router \<Rightarrow> secs \<Rightarrow> router \<Rightarrow> bool" for t0 r0 where
  start: "router_moves t0 r0 t0 r0"
| handles: "router_moves t0 r0 t r \<Longrightarrow> t \<le> u \<Longrightarrow> router_moves t0 r0 u (handle send u ev r)"
| runs: "router_moves t0 r0 t r \<Longrightarrow> t \<le> u \<Longrightarrow> router_moves t0 r0 u (run_step send u r)"
| dispatches: "router_moves t0 r0 t r \<Longrightarrow> router_moves t0 r0 t (Dispatch now ev r)"
| inboxes: "router_moves t0 r0 t r \<Longrightarrow> router_moves t0 r0 t (InboxAdd ev r)"
| puts_rule: "router_moves t0 r0 t r \<Longrightarrow> router_moves t0 r0 t (snd (UpsertRule fresh rl r))"
| drops_rule: "router_moves t0 r0 t r \<Longrightarrow> router_moves t0 r0 t (snd (DeleteRule i r))"
| puts_channel: "router_moves t0 r0 t r \<Longrightarrow> router_moves t0 r0 t (snd (UpsertChannel fresh ch r))"
| drops_channel: "router_moves t0 r0 t r \<Longrightarrow> router_moves t0 r0 t (snd (DeleteChannel i r))"
| tests: "router_moves t0 r0 t r \<Longrightarrow> router_moves t0 r0 t (snd (TestChannel send i ev r))"

lemma handle_window [simp]: "window (handle send now ev r) = window r"
  by (simp add: handle_def)

lemma router_edits_frame [simp]:
  "throttle (Dispatch now ev r) = throttle r" "throttle (InboxAdd ev r) = throttle r"
  "throttle (snd (UpsertRule fresh rl r)) = throttle r" "throttle (snd (DeleteRule i r)) = throttle r"
  "throttle (snd (UpsertChannel fresh ch r)) = throttle r" "throttle (snd (DeleteChannel i r)) = throttle r"
  "throttle (snd (TestChannel send i ev r)) = throttle r"
  "window (Dispatch now ev r) = window r" "window (InboxAdd ev r) = window r"
  "window (snd (UpsertRule fresh rl r)) = window r" "window (snd (DeleteRule i r)) = window r"
  "window (snd (UpsertChannel fresh ch r)) = window r" "window (snd (DeleteChannel i r)) = window r"
  "window (snd (TestChannel send i ev r)) = window r"
  by (auto simp: Dispatch_def InboxAdd_def UpsertRule_def DeleteRule_def UpsertChannel_def DeleteChannel_def TestChannel_def
    saveRulesLocked_def saveChannelsLocked_def Let_def split: option.splits)

lemma router_moves_mark:
  assumes "router_moves t0 r0 t r" "throttle r0 k = Some t0" "t < t0 + window r0"
  shows "throttle r k = Some t0 \<and> window r = window r0 \<and> t0 \<le> t"
  using assms
proof (induction rule: router_moves.induct)
  case (runs t r u send)
  then show ?case by (cases "chan r") (auto simp: run_step_def intro!: handle_keeps_mark)
qed (auto intro!: handle_keeps_mark)

text \<open>
  C32. One notification per identity, rule and window: after an event with a given identity made a rule send at \<open>t\<close>, no
  event with that identity makes this rule send anything before \<open>t\<close> plus the window, whatever events are handled, whatever rules and
  channels are edited in between, and whatever the channels answer. Two sends of one rule for one identity are a window apart.
\<close>

theorem throttle_once_per_window:
  assumes "calls (handle send t ev r) = calls r @ new" and "x \<in> set new"
    and "DedupKey ev \<noteq> ''''" and "DedupKey ev' = DedupKey ev"
    and "router_moves t (handle send t ev r) u r'" and "u \<le> t'" and "t' < t + window r"
  shows "\<exists>new'. calls (handle send' t' ev' r') = calls r' @ new' \<and> RuleID (snd x) \<notin> (RuleID \<circ> snd) ` set new'"
proof -
  let ?i = "RuleID (snd x)" and ?r0 = "evictThrottle t r"
  have "0 < window r"
    using assms(5-7) by (induction rule: router_moves.induct) auto
  moreover have "\<not> extends (\<lambda>e. RuleID e \<noteq> ?i) ?r0 (handle_rules send ev t (rules r) ?r0)"
    using assms(1,2) by (auto simp: extends_def handle_def)
  ultimately have "throttle (handle send t ev r) (DedupKey ev @ ''|'' @ ?i) = Some t"
    using handle_rules_mark assms(3) by (simp add: handle_def)
  from router_moves_mark [OF assms(5) this] assms(6,7)
  have m: "throttle (evictThrottle t' r') (DedupKey ev' @ ''|'' @ ?i) = Some t" "window r' = window r"
    by (auto simp: assms(4))
  have "extends (\<lambda>e. RuleID e \<noteq> ?i) (evictThrottle t' r') (handle_rules send' ev' t' (rules r') (evictThrottle t' r'))"
    using m assms(3,4,7) by (intro handle_rules_silent) auto
  then show ?thesis by (force simp: extends_def handle_def)
qed

section \<open>The breaker\<close>

definition brk :: "router \<Rightarrow> ChannelDef \<Rightarrow> breakerState" where
  "brk r d = (case breaker r (chID d) of None \<Rightarrow> \<lparr>failures = 0, openUntil = 0\<rparr> | Some b \<Rightarrow> b)"

lemma sendVia_open: "now < openUntil (brk r d) \<Longrightarrow>
    calls (sendVia send d ev now r) = calls r \<and> brk (sendVia send d ev now r) d = brk r d"
  by (simp add: sendVia_def brk_def Let_def split: option.split)

lemma sendVia_failed:
  assumes "openUntil (brk r d) \<le> now" and "\<not> send (length (calls r)) (chType d) ev (chConfig d)"
  shows "calls (sendVia send d ev now r) = calls r @ [(d, ev)] \<and>
    brk (sendVia send d ev now r) d =
      \<lparr>failures = Suc (failures (brk r d)),
       openUntil = (if brkLimit r \<le> Suc (failures (brk r d)) then now + brkOpen r else openUntil (brk r d))\<rparr>"
  using assms by (auto simp: sendVia_def brk_def Let_def split: option.split)

lemma sendVia_succeeded:
  assumes "openUntil (brk r d) \<le> now" and "send (length (calls r)) (chType d) ev (chConfig d)"
  shows "calls (sendVia send d ev now r) = calls r @ [(d, ev)] \<and>
    brk (sendVia send d ev now r) d = \<lparr>failures = 0, openUntil = 0\<rparr>"
  using assms by (auto simp: sendVia_def brk_def Let_def split: option.split)

definition burst :: "sender \<Rightarrow> ChannelDef \<Rightarrow> secs \<Rightarrow> nevent list \<Rightarrow> router \<Rightarrow> router" where
  "burst send d now evs r = fold (\<lambda>ev. sendVia send d ev now) evs r"

lemma burst_open: "now < openUntil (brk r d) \<Longrightarrow> calls (burst send d now evs r) = calls r"
  by (induction evs arbitrary: r) (simp_all add: burst_def sendVia_open)

lemma burst_dead:
  assumes "\<And>n t ev c. \<not> send n t ev c" and "0 < brkOpen r"
    and "openUntil (brk r d) \<le> now" and "failures (brk r d) < brkLimit r"
  shows "length (calls (burst send d now evs r)) =
    length (calls r) + min (length evs) (brkLimit r - failures (brk r d))"
  using assms(2-4)
proof (induction evs arbitrary: r)
  case (Cons ev evs)
  let ?r = "sendVia send d ev now r"
  note f = sendVia_failed [of r d now send ev, OF Cons.prems(2) assms(1)]
  have b: "burst send d now (ev # evs) r = burst send d now evs ?r" by (simp add: burst_def)
  show ?case
  proof (cases "brkLimit r \<le> Suc (failures (brk r d))")
    case True
    with f Cons.prems have "now < openUntil (brk ?r d)" by simp
    with burst_open [OF this] f Cons.prems(3) True show ?thesis unfolding b by simp
  next
    case False
    have "openUntil (brk ?r d) \<le> now" "failures (brk ?r d) < brkLimit ?r" "0 < brkOpen ?r"
      using f False Cons.prems by simp_all
    from Cons.IH [OF this(3,1,2)] f False show ?thesis unfolding b by simp
  qed
qed (simp add: burst_def)

text \<open>
  The circuit breaker bounds the calls to a dead channel: of a burst of events to a channel that
  always fails, at most as many calls as the threshold are made, then none until the breaker's period
  is over; one success closes it completely.
\<close>

theorem breaker_bounds_dead_channel:
  assumes "0 < brkOpen r" and "openUntil (brk r d) \<le> now" and "failures (brk r d) = 0"
  shows "((\<forall>n t ev c. \<not> send n t ev c) \<and> 0 < brkLimit r \<longrightarrow>
      length (calls (burst send d now evs r)) = length (calls r) + min (length evs) (brkLimit r)) \<and>
    (now' < openUntil (brk r d) \<longrightarrow> calls (burst send d now' evs r) = calls r) \<and>
    (send (length (calls r)) (chType d) ev (chConfig d) \<longrightarrow>
      brk (sendVia send d ev now r) d = \<lparr>failures = 0, openUntil = 0\<rparr>)"
  using burst_dead [of send r d now evs] burst_open [of now' r d send evs] sendVia_succeeded [of r d now send ev]
    assms by auto

text \<open>A router for the witnesses: one channel, one rule.\<close>

definition sample_config :: ChannelConfig where
  "sample_config = \<lparr>FromUser = '''', ChatJID = '''', BotToken = ''tok'', ChatID = ''1'', SMTPHost = '''',
     SMTPPort = 0, SMTPUser = '''', SMTPPass = '''', cfgFrom = '''', cfgTo = '''', ToUser = '''', ToDevice = '''',
     cfgURL = '''', FixedBody = ''''\<rparr>"

definition sample_def :: ChannelDef where
  "sample_def = \<lparr>chID = ''c'', chName = ''ops'', chType = ''telegram'', chEnabled = True, chConfig = sample_config\<rparr>"

definition sample_rule :: rule where
  "sample_rule = \<lparr>ruleID = ''r'', ruleName = ''all'', ruleEnabled = True, TypePrefix = ''job.'', MinSeverity = '''',
     SourcePrefix = '''', ruleLabels = [], ruleChannels = [''c'']\<rparr>"

definition sample_event :: nevent where
  "sample_event = \<lparr>evType = ''job.failed'', evSeverity = ''critical'', evSource = ''user'', evOwner = '''',
     evTitle = '''', evBody = '''', evLabels = Map.empty, evTS = 0, DedupKey = ''job:1'', RuleID = ''''\<rparr>"

definition sample_router :: router where
  "sample_router = \<lparr>bufSize = 2, window = 300, brkLimit = 5, brkOpen = 60, impls = {''telegram''},
     rules = [sample_rule], channelsC = [''c'' \<mapsto> sample_def], throttle = Map.empty, breaker = Map.empty,
     history = newRing 500 sample_event, inbox = newRing 500 sample_event, dropped = 0, chan = [],
     calls = [], rulesFile = None, channelsFile = None, cfgOK = True\<rparr>"

lemma sample_router_fields [simp]:
  "bufSize sample_router = 2" "window sample_router = 300" "brkLimit sample_router = 5"
  "brkOpen sample_router = 60" "rules sample_router = [sample_rule]"
  "channelsC sample_router = [''c'' \<mapsto> sample_def]" "throttle sample_router = Map.empty"
  "breaker sample_router = Map.empty" "chan sample_router = []" "calls sample_router = []"
  "history sample_router = newRing 500 sample_event" "cfgOK sample_router"
  "brk sample_router d = \<lparr>failures = 0, openUntil = 0\<rparr>"
  by (simp_all add: sample_router_def brk_def)

theorem breaker_bounds_dead_channel_witness:
  "length (calls (burst (\<lambda>_ _ _ _. False) sample_def 9 (replicate 7 sample_event) sample_router)) = 5"
  using breaker_bounds_dead_channel [of sample_router sample_def 9 "\<lambda>_ _ _ _. False" "replicate 7 sample_event" 0 sample_event]
  by simp

theorem dispatch_accounts_witness:
  "length (chan (Dispatch 9 sample_event sample_router)) \<le> 2"
  using dispatch_accounts [where r = sample_router and ev = sample_event and now = 9] by (simp add: wf_newRing)

theorem throttle_once_per_window_witness:
  "(let send = (\<lambda>_ _ _ _. True); r1 = handle send 0 sample_event sample_router; r2 = handle send 200 sample_event r1
    in length (calls r1) = 1 \<and> (\<exists>new'. calls (handle send 299 sample_event r2) = calls r2 @ new' \<and> ''r'' \<notin> (RuleID \<circ> snd) ` set new'))"
proof -
  let ?send = "\<lambda>_ _ _ _. True"
  let ?x = "(sample_def, sample_event\<lparr>RuleID := ''r''\<rparr>)"
  have c: "calls (handle ?send 0 sample_event sample_router) = calls sample_router @ [?x]"
    by (simp add: handle_def handle_rule_def throttled_def matches_def sample_rule_def sample_event_def sendVia_def sample_def_def
      evictThrottle_def sample_router_def HasPrefix_def keep_vals_def Let_def)
  have m: "router_moves 0 (handle ?send 0 sample_event sample_router) 200
      (handle ?send 200 sample_event (handle ?send 0 sample_event sample_router))"
    by (rule router_moves.handles [OF router_moves.start]) simp
  show ?thesis
    using throttle_once_per_window [OF c _ _ refl m, of ?x 299 ?send] c by (simp add: Let_def sample_event_def)
qed

section \<open>Secrets\<close>

lemma keep_secrets_redact [simp]: "keep_secrets (Some d) (redact d) = d"
  by (simp add: keep_secrets_def redact_def Let_def)

lemma redact_fields [simp]:
  "chID (redact d) = chID d" "BotToken (chConfig (redact d)) = ''''" "SMTPPass (chConfig (redact d)) = ''''"
  by (simp_all add: redact_def)

text \<open>
  The listing shows no secret, and saving a listed channel unchanged restores it completely: the
  stored channel, with its token and password, is the same as before and is what the file holds.
\<close>

theorem redacted_edit_keeps_secrets:
  assumes "channelsC r (chID d) = Some d" and "chID d \<noteq> ''''" and "cfgOK r"
  shows "(\<forall>x \<in> set (ChannelDefsRedacted is r). BotToken (chConfig x) = '''' \<and> SMTPPass (chConfig x) = '''') \<and>
    (\<exists>r'. UpsertChannel fresh (redact d) r = (Ok d, r') \<and> channelsC r' = channelsC r \<and>
       channelsFile r' = Some (channelsC r))"
proof
  show "\<forall>x \<in> set (ChannelDefsRedacted is r). BotToken (chConfig x) = '''' \<and> SMTPPass (chConfig x) = ''''"
    by (auto simp: ChannelDefsRedacted_def)
  have "(channelsC r)(chID d \<mapsto> d) = channelsC r" using assms(1) by (simp add: map_upd_triv)
  with assms show "\<exists>r'. UpsertChannel fresh (redact d) r = (Ok d, r') \<and> channelsC r' = channelsC r \<and>
       channelsFile r' = Some (channelsC r)"
    by (simp add: UpsertChannel_def Let_def saveChannelsLocked_def)
qed

theorem redacted_edit_keeps_secrets_witness:
  "\<exists>r'. UpsertChannel ''f'' (redact sample_def) sample_router = (Ok sample_def, r') \<and> channelsC r' ''c'' = Some sample_def"
proof -
  have "channelsC sample_router (chID sample_def) = Some sample_def" "chID sample_def \<noteq> ''''"
    by (simp_all add: sample_def_def)
  from redacted_edit_keeps_secrets [OF this] show ?thesis by fastforce
qed

text \<open>
  The reply to an edit discloses the secrets the listing hides: posting a listed channel back with
  its blank secret fields is answered with the stored bot token and password.
\<close>

theorem channel_post_discloses_secrets:
  assumes "channelsC r (chID d) = Some d" and "chID d \<noteq> ''''" and "cfgOK r"
  shows "\<exists>r'. handleNotifyChannels True MethodPost (Some (redact d)) fresh is (Some r) = (RSaved d, Some r')"
proof -
  have "UpsertChannel fresh (redact d) r = (Ok d, snd (UpsertChannel fresh (redact d) r))"
    using assms by (simp add: UpsertChannel_def Let_def saveChannelsLocked_def)
  then obtain r' where u: "UpsertChannel fresh (redact d) r = (Ok d, r')" by blast
  have "handleNotifyChannels True MethodPost (Some (redact d)) fresh is (Some r) = (RSaved d, Some r')"
    by (simp add: handleNotifyChannels_def u method_defs)
  then show ?thesis by blast
qed

theorem channel_post_discloses_secrets_witness:
  "\<exists>r'. handleNotifyChannels True MethodPost (Some (redact sample_def)) ''f'' [''c''] (Some sample_router) =
     (RSaved sample_def, Some r') \<and> BotToken (chConfig sample_def) = ''tok''"
proof -
  have "channelsC sample_router (chID sample_def) = Some sample_def" "chID sample_def \<noteq> ''''"
      "BotToken (chConfig sample_def) = ''tok''"
    by (simp_all add: sample_def_def sample_config_def)
  with channel_post_discloses_secrets [OF this(1,2), of "''f''" "[''c'']"] show ?thesis by simp
qed

end
