(* ===== verification/GoFloat.thy ===== *)
theory GoFloat
  imports Complex_Main
begin

text \<open>
  Go's \<open>float64\<close>: NaN, an infinity or a real number, compared as Go compares, with sums, products and
  quotients rounded to the nearest double. The sign of zero is not kept, no comparison sees it.
\<close>

section \<open>Floating point\<close>

datatype f64 = NaN | NegInf | Fin real | PosInf

fun flt :: "f64 \<Rightarrow> f64 \<Rightarrow> bool" where
  "flt (Fin a) (Fin b) = (a < b)"
| "flt NegInf (Fin _) = True"
| "flt NegInf PosInf = True"
| "flt (Fin _) PosInf = True"
| "flt _ _ = False"

fun fle :: "f64 \<Rightarrow> f64 \<Rightarrow> bool" where
  "fle NaN _ = False"
| "fle _ NaN = False"
| "fle a b = (\<not> flt b a)"

text \<open>Rounding to nearest, ties to even, with 53 bits of precision and the exponent range of a double.\<close>

definition round_even :: "real \<Rightarrow> int" where
  "round_even x =
     (let n = \<lfloor>x\<rfloor>; d = x - of_int n
      in if d < 1 / 2 then n else if d > 1 / 2 then n + 1 else if even n then n else n + 1)"

definition round_f64 :: "real \<Rightarrow> f64" where
  "round_f64 x =
     (if x = 0 then Fin 0
      else let e = max \<lfloor>log 2 \<bar>x\<bar>\<rfloor> (- 1022);
               ulp = 2 powi (e - 52);
               y = of_int (round_even (x / ulp)) * ulp
           in if y \<ge> 2 ^ 1024 then PosInf else if y \<le> - (2 ^ 1024) then NegInf else Fin y)"

fun fneg :: "f64 \<Rightarrow> f64" where
  "fneg NaN = NaN"
| "fneg NegInf = PosInf"
| "fneg PosInf = NegInf"
| "fneg (Fin a) = Fin (- a)"

fun fadd :: "f64 \<Rightarrow> f64 \<Rightarrow> f64" where
  "fadd (Fin a) (Fin b) = round_f64 (a + b)"
| "fadd NaN _ = NaN"
| "fadd _ NaN = NaN"
| "fadd PosInf NegInf = NaN"
| "fadd NegInf PosInf = NaN"
| "fadd PosInf _ = PosInf"
| "fadd _ PosInf = PosInf"
| "fadd NegInf _ = NegInf"
| "fadd _ NegInf = NegInf"

definition fsub :: "f64 \<Rightarrow> f64 \<Rightarrow> f64" where
  "fsub a b = fadd a (fneg b)"

section \<open>Products and quotients\<close>

fun fsgn :: "f64 \<Rightarrow> real" where
  "fsgn NaN = 0"
| "fsgn NegInf = - 1"
| "fsgn PosInf = 1"
| "fsgn (Fin a) = sgn a"

definition finf :: "real \<Rightarrow> f64" where
  "finf s = (if s > 0 then PosInf else if s < 0 then NegInf else NaN)"

fun fmul :: "f64 \<Rightarrow> f64 \<Rightarrow> f64" where
  "fmul NaN _ = NaN"
| "fmul _ NaN = NaN"
| "fmul (Fin a) (Fin b) = round_f64 (a * b)"
| "fmul a b = finf (fsgn a * fsgn b)"

text \<open>The quotient of two integers converted to \<open>float64\<close>, for a divisor that is not zero.\<close>

fun fquot :: "f64 \<Rightarrow> f64 \<Rightarrow> f64" where
  "fquot (Fin a) (Fin b) = (if b = 0 then NaN else round_f64 (a / b))"
| "fquot _ _ = NaN"

definition f64_of_int :: "int \<Rightarrow> f64" where
  "f64_of_int i = round_f64 (of_int i)"

lemma round_f64_0 [simp]: "round_f64 0 = Fin 0"
  by (simp add: round_f64_def)

end
