(* ===== verification/Metrics.thy ===== *)
theory Metrics
  imports GoFloat GoStrings
begin

text \<open>
  Metric history and alert rules: \<^verbatim>\<open>internal/metrics/history.go\<close> and \<^verbatim>\<open>alerts.go\<close>. A \<open>float64\<close> is NaN, an
  infinity or a real number, compared as Go compares; sums and differences are rounded to the nearest
  double. The sign of zero is not kept, no comparison sees it. A missing entry of a
  \<^verbatim>\<open>map[string]int64\<close> reads as 0, so \<open>firstTrue\<close> is a total function.
\<close>

section \<open>Ring of points\<close>

record 'p Ring =
  rbuf :: "'p list"
  rcap :: nat
  rhead :: nat
  rsize :: nat

definition NewRing :: "int \<Rightarrow> 'p \<Rightarrow> 'p Ring" where
  "NewRing capacity p0 =
     (let c = (if capacity \<le> 0 then 1440 else capacity)
      in \<lparr>rbuf = replicate (nat c) p0, rcap = nat c, rhead = 0, rsize = 0\<rparr>)"

definition Ring_Push :: "'p \<Rightarrow> 'p Ring \<Rightarrow> 'p Ring" where
  "Ring_Push p r =
     r\<lparr>rbuf := (rbuf r)[rhead r := p],
       rhead := (rhead r + 1) mod rcap r,
       rsize := (if rsize r < rcap r then rsize r + 1 else rsize r)\<rparr>"

definition Ring_Snapshot :: "'p Ring \<Rightarrow> 'p list" where
  "Ring_Snapshot r =
     (let start0 = int (rhead r) - int (rsize r);
          start = (if start0 < 0 then start0 + int (rcap r) else start0)
      in map (\<lambda>i. rbuf r ! ((nat start + i) mod rcap r)) [0..<rsize r])"

definition Ring_Last :: "'p Ring \<Rightarrow> 'p option" where
  "Ring_Last r =
     (if rsize r = 0 then None
      else let idx0 = int (rhead r) - 1; idx = (if idx0 < 0 then idx0 + int (rcap r) else idx0)
           in Some (rbuf r ! nat idx))"

section \<open>Rules\<close>

record arule =
  aName :: string
  aMetric :: string
  aField :: string
  aOp :: string
  aThreshold :: f64
  aDuration :: int
  aLastFired :: secs
  aSeverity :: string
  ActiveSince :: secs
  RearmMargin :: f64
  RenotifySec :: int

record Fire =
  fRule :: string
  fTime :: secs
  fValue :: f64
  fSeverity :: string
  Episode :: secs
  Resolved :: bool

record Snapshot =
  snapT :: secs
  Values :: "string \<rightharpoonup> f64"

record Engine =
  arules :: "string \<rightharpoonup> arule"
  firstTrue :: "string \<Rightarrow> secs"
  lastSnap :: Snapshot

definition metricKey :: "arule \<Rightarrow> string" where
  "metricKey r =
     (if aMetric r \<noteq> '''' then aMetric r
      else if aField r = ''cpu'' then ''sys.cpu''
      else if aField r = ''mem_pct'' then ''sys.mem_pct''
      else if aField r = ''load1'' then ''sys.load1''
      else if aField r = ''disk_pct'' then ''sys.disk.max''
      else aField r)"

definition NewEngine :: Engine where
  "NewEngine = \<lparr>arules = Map.empty, firstTrue = (\<lambda>_. 0), lastSnap = \<lparr>snapT = 0, Values = Map.empty\<rparr>\<rparr>"

definition validField :: "string \<Rightarrow> bool" where
  "validField f \<longleftrightarrow> f \<in> {''cpu'', ''mem_pct'', ''load1'', ''disk_pct''}"

definition validOp :: "string \<Rightarrow> bool" where
  "validOp x \<longleftrightarrow> x \<in> {''>'', ''>='', ''<'', ''<=''}"

definition validSeverity :: "string \<Rightarrow> bool" where
  "validSeverity s \<longleftrightarrow> s \<in> {'''', ''info'', ''warning'', ''critical''}"

datatype rule_error = ENoName | EField | EOp | ESeverity | EMargin | ERenotify

definition AddRule :: "arule \<Rightarrow> Engine \<Rightarrow> rule_error + Engine" where
  "AddRule r e =
     (if aName r = '''' then Err ENoName
      else if aMetric r = '''' \<and> \<not> validField (aField r) then Err EField
      else if \<not> validOp (aOp r) then Err EOp
      else if \<not> validSeverity (aSeverity r) then Err ESeverity
      else if flt (RearmMargin r) (Fin 0) then Err EMargin
      else if RenotifySec r < 0 then Err ERenotify
      else Ok (e\<lparr>arules := (arules e)(aName r \<mapsto> r),
                 firstTrue := (firstTrue e)(aName r := ActiveSince r)\<rparr>))"

definition RemoveRule :: "string \<Rightarrow> Engine \<Rightarrow> Engine" where
  "RemoveRule n e = e\<lparr>arules := (arules e)(n := None), firstTrue := (firstTrue e)(n := 0)\<rparr>"

definition cmp :: "f64 \<Rightarrow> f64 \<Rightarrow> string \<Rightarrow> bool" where
  "cmp v t x =
     (if x = ''>'' then flt t v else if x = ''>='' then fle t v
      else if x = ''<'' then flt v t else if x = ''<='' then fle v t else False)"

definition rearmAllowed :: "f64 \<Rightarrow> arule \<Rightarrow> bool" where
  "rearmAllowed v r =
     (if aOp r = ''>'' \<or> aOp r = ''>='' then fle v (fsub (aThreshold r) (RearmMargin r))
      else if aOp r = ''<'' \<or> aOp r = ''<='' then fle (fadd (aThreshold r) (RearmMargin r)) v
      else True)"

section \<open>Evaluation\<close>

text \<open>One iteration: the rule, its window anchor and the fire it emits. \<open>n\<close> is the rule's key in the map.\<close>

definition eval_rule ::
  "secs \<Rightarrow> string \<Rightarrow> f64 option \<Rightarrow> arule \<Rightarrow> secs \<Rightarrow> arule \<times> secs \<times> Fire option" where
  "eval_rule now n vo r ft =
     (let cond = (case vo of None \<Rightarrow> False | Some v \<Rightarrow> cmp v (aThreshold r) (aOp r));
          v = (case vo of None \<Rightarrow> Fin 0 | Some v \<Rightarrow> v)
      in if cond then
           let ft' = (if ft = 0 then now else ft)
           in if now - ft' \<ge> aDuration r \<and> ActiveSince r = 0 then
                (r\<lparr>ActiveSince := now, aLastFired := now\<rparr>, ft',
                 Some \<lparr>fRule = n, fTime = now, fValue = v, fSeverity = aSeverity r, Episode = now, Resolved = False\<rparr>)
              else if ActiveSince r \<noteq> 0 \<and> RenotifySec r > 0 \<and> now - aLastFired r \<ge> RenotifySec r then
                (r\<lparr>aLastFired := now\<rparr>, ft',
                 Some \<lparr>fRule = n, fTime = now, fValue = v, fSeverity = aSeverity r,
                       Episode = ActiveSince r, Resolved = False\<rparr>)
              else (r, ft', None)
         else if vo \<noteq> None \<and> ActiveSince r \<noteq> 0 \<and> rearmAllowed v r then
           (r\<lparr>ActiveSince := 0\<rparr>, 0,
            Some \<lparr>fRule = n, fTime = now, fValue = v, fSeverity = aSeverity r,
                  Episode = ActiveSince r, Resolved = True\<rparr>)
         else (r, if ActiveSince r = 0 then 0 else ft, None))"

text \<open>The loop over the map; \<open>is\<close> is its order.\<close>

fun eval_loop :: "secs \<Rightarrow> Snapshot \<Rightarrow> string list \<Rightarrow> Engine \<Rightarrow> Engine \<times> Fire list" where
  "eval_loop now snap [] e = (e, [])"
| "eval_loop now snap (n # ns) e =
     (case arules e n of
        None \<Rightarrow> eval_loop now snap ns e
      | Some r \<Rightarrow>
          let (r', ft', f) = eval_rule now n (Values snap (metricKey r)) r (firstTrue e n);
              (e', fs) = eval_loop now snap ns
                (e\<lparr>arules := (arules e)(n \<mapsto> r'), firstTrue := (firstTrue e)(n := ft')\<rparr>)
          in (e', (case f of None \<Rightarrow> fs | Some x \<Rightarrow> x # fs)))"

definition Evaluate :: "secs \<Rightarrow> string list \<Rightarrow> Snapshot \<Rightarrow> Engine \<Rightarrow> Engine \<times> Fire list" where
  "Evaluate now is snap e = eval_loop now snap is (e\<lparr>lastSnap := snap\<rparr>)"

section \<open>Status\<close>

datatype rstate = SNormal | SPending | SFiring | SNodata

record RuleStatus =
  stRule :: arule
  State :: rstate
  CurrentValue :: f64
  PendingSince :: secs
  MetricKey :: string

definition staleAfter :: secs where "staleAfter = 30"

definition status_of :: "secs \<Rightarrow> string \<Rightarrow> arule \<Rightarrow> Engine \<Rightarrow> RuleStatus" where
  "status_of now n r e =
     (let stale = (snapT (lastSnap e) = 0 \<or> now - snapT (lastSnap e) > staleAfter);
          key = metricKey r;
          vo = Values (lastSnap e) key;
          v = (case vo of None \<Rightarrow> Fin 0 | Some v \<Rightarrow> v);
          st = \<lparr>stRule = r, State = SNormal, CurrentValue = v, PendingSince = 0, MetricKey = key\<rparr>
      in if stale \<or> vo = None then st\<lparr>State := SNodata\<rparr>
         else if cmp v (aThreshold r) (aOp r) then
           let ft = (if firstTrue e n = 0 then now else firstTrue e n)
           in if now - ft \<ge> aDuration r then st\<lparr>PendingSince := ft, State := SFiring\<rparr>
              else st\<lparr>PendingSince := ft, State := SPending\<rparr>
         else if ActiveSince r \<noteq> 0 then st\<lparr>State := SFiring, PendingSince := ActiveSince r\<rparr>
         else st)"

definition Status_list :: "secs \<Rightarrow> string list \<Rightarrow> Engine \<Rightarrow> RuleStatus list" where
  "Status_list now is e =
     concat (map (\<lambda>n. case arules e n of None \<Rightarrow> [] | Some r \<Rightarrow> [status_of now n r e]) is)"

section \<open>Persistence\<close>

text \<open>\<open>List\<close>, which is what \<open>Save\<close> writes.\<close>

definition List_rules :: "string list \<Rightarrow> Engine \<Rightarrow> arule list" where
  "List_rules is e = List.map_filter (arules e) is"

text \<open>The loop of \<open>Load\<close> on the decoded rules: invalid ones are skipped.\<close>

fun Load_rules :: "arule list \<Rightarrow> Engine \<Rightarrow> Engine" where
  "Load_rules [] e = e"
| "Load_rules (r # rs) e = Load_rules rs (case AddRule r e of Ok e' \<Rightarrow> e' | Err _ \<Rightarrow> e)"

end
