(* ===== verification/MetricsProps.thy ===== *)
theory MetricsProps
  imports Metrics
begin

text \<open>
  Properties of the metric history and the alert engine: the ring of points keeps the newest samples,
  every alert episode is one fire, possibly reminders, and one recovery, a gap in the data changes
  nothing, a restart does not repeat an alert, and what the status shows after one.
\<close>

section \<open>The ring of points\<close>

definition wf_Ring :: "'p Ring \<Rightarrow> bool" where
  "wf_Ring r \<longleftrightarrow> 0 < rcap r \<and> length (rbuf r) = rcap r \<and> rhead r < rcap r \<and> rsize r \<le> rcap r"

text \<open>The slot of the sample that is \<open>i\<close> steps older than the newest one.\<close>

definition slot :: "'p Ring \<Rightarrow> nat \<Rightarrow> nat" where
  "slot r i = (rhead r + rcap r - 1 - i) mod rcap r"

lemma snapshot_slots:
  assumes "wf_Ring r"
  shows "rev (Ring_Snapshot r) = map (\<lambda>i. rbuf r ! slot r i) [0..<rsize r]"
proof (rule nth_equalityI)
  show "length (rev (Ring_Snapshot r)) = length (map (\<lambda>i. rbuf r ! slot r i) [0..<rsize r])"
    by (simp add: Ring_Snapshot_def Let_def)
next
  fix i
  have l: "length (Ring_Snapshot r) = rsize r" by (simp add: Ring_Snapshot_def Let_def)
  assume "i < length (rev (Ring_Snapshot r))"
  then have i: "i < rsize r" by (simp add: l)
  let ?start = "if int (rhead r) - int (rsize r) < 0 then int (rhead r) - int (rsize r) + int (rcap r)
      else int (rhead r) - int (rsize r)"
  have "(nat ?start + (rsize r - 1 - i)) mod rcap r = slot r i"
  proof (cases "rhead r < rsize r")
    case True
    then have "nat ?start = rhead r + rcap r - rsize r" using assms by (auto simp: wf_Ring_def)
    with True i assms show ?thesis by (simp add: slot_def wf_Ring_def)
  next
    case False
    then have "nat ?start = rhead r - rsize r" by simp
    moreover have "rhead r + rcap r - 1 - i = (rhead r - rsize r + (rsize r - 1 - i)) + rcap r"
      using False i by simp
    ultimately show ?thesis by (simp add: slot_def)
  qed
  moreover have n: "Ring_Snapshot r ! k = rbuf r ! ((nat ?start + k) mod rcap r)" if "k < rsize r" for k
    using that by (simp add: Ring_Snapshot_def Let_def)
  ultimately show "rev (Ring_Snapshot r) ! i = map (\<lambda>i. rbuf r ! slot r i) [0..<rsize r] ! i"
    using i n by (simp add: rev_nth l)
qed

lemma slot_push:
  assumes "wf_Ring r"
  shows "slot (Ring_Push p r) 0 = rhead r"
    and "Suc i < rcap r \<Longrightarrow> slot (Ring_Push p r) (Suc i) = slot r i \<and> slot r i \<noteq> rhead r \<and> slot r i < rcap r"
proof -
  have h: "0 < rcap r" "rhead r < rcap r" using assms by (auto simp: wf_Ring_def)
  show "slot (Ring_Push p r) 0 = rhead r"
    using h by (cases "rhead r + 1 = rcap r") (simp_all add: slot_def Ring_Push_def)
  assume i: "Suc i < rcap r"
  have e: "slot r i = (if Suc i \<le> rhead r then rhead r - Suc i else rhead r + rcap r - Suc i)"
  proof (cases "Suc i \<le> rhead r")
    case True
    then have e: "rhead r + rcap r - 1 - i = (rhead r - Suc i) + rcap r" by simp
    have "(rhead r - Suc i) mod rcap r = rhead r - Suc i" using h by simp
    then show ?thesis by (simp only: slot_def e mod_add_self2 True if_True)
  next
    case False
    with i h show ?thesis by (simp add: slot_def)
  qed
  moreover have "slot (Ring_Push p r) (Suc i) = slot r i"
  proof (cases "rhead r + 1 = rcap r")
    case True
    with i e show ?thesis by (simp add: slot_def Ring_Push_def)
  next
    case False
    with h have "(rhead r + 1) mod rcap r = rhead r + 1" by simp
    with i show ?thesis by (simp add: slot_def Ring_Push_def)
  qed
  ultimately show "slot (Ring_Push p r) (Suc i) = slot r i \<and> slot r i \<noteq> rhead r \<and> slot r i < rcap r"
    using i h by auto
qed

lemma Ring_push_newest:
  assumes "wf_Ring r"
  shows "rev (Ring_Snapshot (Ring_Push p r)) = take (rcap r) (p # rev (Ring_Snapshot r))"
proof (rule nth_equalityI)
  have w: "wf_Ring (Ring_Push p r)" using assms by (auto simp: wf_Ring_def Ring_Push_def)
  note s = snapshot_slots [OF w] snapshot_slots [OF assms]
  show "length (rev (Ring_Snapshot (Ring_Push p r))) = length (take (rcap r) (p # rev (Ring_Snapshot r)))"
    unfolding s using assms by (simp add: Ring_Push_def wf_Ring_def)
  fix k
  assume "k < length (rev (Ring_Snapshot (Ring_Push p r)))"
  then have k: "k < rsize (Ring_Push p r)" unfolding s by simp
  show "rev (Ring_Snapshot (Ring_Push p r)) ! k = take (rcap r) (p # rev (Ring_Snapshot r)) ! k"
  proof (cases k)
    case 0
    with k assms show ?thesis
      unfolding s by (simp add: slot_push(1)) (simp add: Ring_Push_def wf_Ring_def)
  next
    case (Suc i)
    from k Suc assms have i: "Suc i < rcap r" "i < rsize r"
      by (auto simp: Ring_Push_def wf_Ring_def split: if_splits)
    from slot_push(2) [OF assms i(1), of p]
    have "rbuf (Ring_Push p r) ! slot (Ring_Push p r) (Suc i) = rbuf r ! slot r i"
      by (simp add: Ring_Push_def)
    with Suc k i show ?thesis unfolding s by simp
  qed
qed

interpretation metric_ring: bounded_log Ring_Push "\<lambda>r. rev (Ring_Snapshot r)" rcap wf_Ring
  by unfold_locales (auto simp: Ring_push_newest, auto simp: wf_Ring_def Ring_Push_def)

lemma wf_NewRing: "wf_Ring (NewRing c p)" "rsize (NewRing c p) = 0" "Ring_Snapshot (NewRing c p) = []"
  "rcap (NewRing c p) = (if c \<le> 0 then 1440 else nat c)"
  by (simp_all add: wf_Ring_def NewRing_def Ring_Snapshot_def Let_def)

lemma Ring_Last_newest:
  "wf_Ring r \<Longrightarrow> Ring_Last r = (case rev (Ring_Snapshot r) of [] \<Rightarrow> None | x # _ \<Rightarrow> Some x)"
proof -
  assume w: "wf_Ring r"
  show ?thesis
  proof (cases "rsize r")
    case 0
    then show ?thesis by (simp add: Ring_Last_def Ring_Snapshot_def Let_def)
  next
    case (Suc m)
    have "slot r 0 = nat (if int (rhead r) - 1 < 0 then int (rhead r) - 1 + int (rcap r) else int (rhead r) - 1)"
      using w by (cases "rhead r") (auto simp: slot_def wf_Ring_def)
    with Suc show ?thesis
      by (simp add: snapshot_slots [OF w] Ring_Last_def Let_def upt_conv_Cons del: upt_Suc)
  qed
qed

text \<open>
  After any sequence of samples the metric ring reads back, oldest first, exactly the newest
  samples up to its capacity (1440 by default), and the last sample is the latest one pushed.
\<close>

theorem metric_ring_keeps_newest:
  shows "Ring_Snapshot (fold Ring_Push ps (NewRing c p0)) =
      rev (take (if c \<le> 0 then 1440 else nat c) (rev ps)) \<and>
    Ring_Last (fold Ring_Push ps (NewRing c p0)) = (if ps = [] then None else Some (last ps))"
proof -
  let ?r = "fold Ring_Push ps (NewRing c p0)"
  have w: "wf_Ring (NewRing c p0)" by (rule wf_NewRing)
  have n: "rev (Ring_Snapshot ?r) = take (rcap (NewRing c p0)) (rev ps)"
    using metric_ring.pushes_newest [OF w, of ps] by (simp add: wf_NewRing)
  have "wf_Ring ?r" using metric_ring.pushes_valid [OF w] by simp
  then have "Ring_Last ?r = (case take (rcap (NewRing c p0)) (rev ps) of [] \<Rightarrow> None | x # _ \<Rightarrow> Some x)"
    by (simp add: Ring_Last_newest n)
  also have "\<dots> = (if ps = [] then None else Some (last ps))"
  proof (cases ps rule: rev_cases)
    case (snoc qs q)
    have "0 < rcap (NewRing c p0)" using w by (simp add: wf_Ring_def)
    with snoc show ?thesis by (cases "rcap (NewRing c p0)") auto
  qed simp
  finally show ?thesis
    using arg_cong [OF n, of rev] by (simp add: wf_NewRing)
qed

section \<open>Episodes\<close>

text \<open>One rule of the loop, independent of the others.\<close>

lemma eval_rule_name: "eval_rule now n vo r ft = (r', ft', Some f) \<Longrightarrow> fRule f = n"
  by (auto simp: eval_rule_def Let_def split: if_splits)

lemma eval_loop_other:
  "n \<notin> set ns \<Longrightarrow> arules (fst (eval_loop now snap ns e)) n = arules e n \<and>
     firstTrue (fst (eval_loop now snap ns e)) n = firstTrue e n \<and>
     filter (\<lambda>f. fRule f = n) (snd (eval_loop now snap ns e)) = []"
proof (induction ns arbitrary: e)
  case (Cons m ns)
  show ?case
  proof (cases "arules e m")
    case None
    with Cons show ?thesis by simp
  next
    case (Some r)
    obtain r' ft' f where v: "eval_rule now m (Values snap (metricKey r)) r (firstTrue e m) = (r', ft', f)"
      by (metis prod_cases3)
    have "\<forall>x. f = Some x \<longrightarrow> fRule x \<noteq> n"
      using eval_rule_name v Cons.prems by auto
    with Cons Some v show ?thesis
      by (auto simp: Let_def case_prod_unfold split: option.split)
  qed
qed simp

lemma eval_loop_rule:
  assumes "distinct ns" and "n \<in> set ns" and "arules e n = Some r"
    and "eval_rule now n (Values snap (metricKey r)) r (firstTrue e n) = (r', ft', f)"
  shows "arules (fst (eval_loop now snap ns e)) n = Some r' \<and>
    firstTrue (fst (eval_loop now snap ns e)) n = ft' \<and>
    filter (\<lambda>x. fRule x = n) (snd (eval_loop now snap ns e)) = (case f of None \<Rightarrow> [] | Some x \<Rightarrow> [x])"
  using assms
proof (induction ns arbitrary: e)
  case (Cons m ns)
  show ?case
  proof (cases "m = n")
    case True
    let ?e = "e\<lparr>arules := (arules e)(n \<mapsto> r'), firstTrue := (firstTrue e)(n := ft')\<rparr>"
    have "n \<notin> set ns" using Cons.prems(1) True by simp
    from eval_loop_other [OF this, of now snap ?e] True Cons.prems eval_rule_name
    show ?thesis by (auto simp: Let_def case_prod_unfold split: option.split)
  next
    case False
    with Cons.prems have n: "distinct ns" "n \<in> set ns" by simp_all
    show ?thesis
    proof (cases "arules e m")
      case None
      with Cons False n show ?thesis by simp
    next
      case (Some s)
      obtain s' g x where v: "eval_rule now m (Values snap (metricKey s)) s (firstTrue e m) = (s', g, x)"
        by (metis prod_cases3)
      let ?e = "e\<lparr>arules := (arules e)(m \<mapsto> s'), firstTrue := (firstTrue e)(m := g)\<rparr>"
      have "\<forall>y. x = Some y \<longrightarrow> fRule y \<noteq> n" using eval_rule_name v False by auto
      moreover have "arules ?e n = Some r" "firstTrue ?e n = firstTrue e n"
        using False Cons.prems(3) by simp_all
      note Cons.IH [OF n this(1)]
      ultimately show ?thesis
        using Some v False Cons.prems(4) by (auto simp: Let_def case_prod_unfold split: option.split)
    qed
  qed
qed simp

text \<open>A run: any number of evaluations, each at its own time, with its own map order and snapshot.\<close>

fun eval_seq :: "(secs \<times> string list \<times> Snapshot) list \<Rightarrow> Engine \<Rightarrow> Engine \<times> Fire list" where
  "eval_seq [] e = (e, [])"
| "eval_seq ((now, is, snap) # xs) e =
     (let (e1, f1) = Evaluate now is snap e; (e2, f2) = eval_seq xs e1 in (e2, f1 @ f2))"

text \<open>
  The shape of a rule's fires when episode \<open>ep\<close> is open (0 for none): a crossing opens an episode named
  by its time, reminders (if enabled) and one recovery carry that name, and the recovery closes it.
\<close>

fun episodes :: "bool \<Rightarrow> secs \<Rightarrow> Fire list \<Rightarrow> bool" where
  "episodes rem ep [] = True"
| "episodes rem ep (f # fs) =
     (if ep = 0 then \<not> Resolved f \<and> Episode f = fTime f \<and> Episode f \<noteq> 0 \<and> episodes rem (Episode f) fs
      else Episode f = ep \<and> (if Resolved f then episodes rem 0 fs else rem \<and> episodes rem ep fs))"

lemma eval_rule_step:
  assumes "eval_rule now n vo r ft = (r', ft', f)" and "0 < now"
    and "episodes (RenotifySec r > 0) (ActiveSince r') fs"
  shows "RenotifySec r' = RenotifySec r \<and>
    episodes (RenotifySec r > 0) (ActiveSince r) ((case f of None \<Rightarrow> [] | Some x \<Rightarrow> [x]) @ fs)"
  using assms by (auto simp: eval_rule_def Let_def split: if_splits)

text \<open>
  C26. Alerts are edge-triggered: over any run of evaluations the fires of a rule are episodes, each one
  crossing followed by one recovery with the same episode name, with repeats in between only when the
  rule asks for reminders; so a metric that stays over its threshold notifies once.
\<close>

theorem alert_episodes:
  assumes "arules e n = Some r" and "list_all (\<lambda>(now, is, snap). 0 < now \<and> distinct is \<and> n \<in> set is) xs"
  shows "episodes (RenotifySec r > 0) (ActiveSince r) (filter (\<lambda>f. fRule f = n) (snd (eval_seq xs e)))"
  using assms
proof (induction xs arbitrary: e r)
  case (Cons x xs)
  obtain now "is" snap where x: "x = (now, is, snap)" by (metis prod_cases3)
  let ?e = "e\<lparr>lastSnap := snap\<rparr>"
  obtain r' ft' f where v: "eval_rule now n (Values snap (metricKey r)) r (firstTrue ?e n) = (r', ft', f)"
    by (metis prod_cases3)
  have h: "0 < now" "distinct is" "n \<in> set is" "arules ?e n = Some r"
    using Cons.prems by (simp_all add: x)
  note l = eval_loop_rule [OF h(2,3,4) v]
  let ?e1 = "fst (Evaluate now is snap e)"
  have e1: "arules ?e1 n = Some r'"
      "filter (\<lambda>f. fRule f = n) (snd (Evaluate now is snap e)) = (case f of None \<Rightarrow> [] | Some x \<Rightarrow> [x])"
    using l by (simp_all add: Evaluate_def)
  have rn: "RenotifySec r' = RenotifySec r" using v by (auto simp: eval_rule_def Let_def split: if_splits)
  have "episodes (RenotifySec r > 0) (ActiveSince r') (filter (\<lambda>f. fRule f = n) (snd (eval_seq xs ?e1)))"
    using Cons.IH [OF e1(1)] Cons.prems(2) rn by simp
  from eval_rule_step [OF v h(1) this] show ?case
    by (simp add: x Let_def case_prod_unfold e1(2))
qed simp

definition sample_arule :: "secs \<Rightarrow> int \<Rightarrow> arule" where
  "sample_arule act dur =
     \<lparr>aName = ''cpu'', aMetric = ''sys.cpu'', aField = '''', aOp = ''>'', aThreshold = Fin 90, aDuration = dur,
      aLastFired = act, aSeverity = '''', ActiveSince = act, RearmMargin = Fin 0, RenotifySec = 0\<rparr>"

definition sample_engine :: Engine where
  "sample_engine = NewEngine\<lparr>arules := [''cpu'' \<mapsto> sample_arule 0 0]\<rparr>"

definition cpu_snap :: "secs \<Rightarrow> real \<Rightarrow> Snapshot" where
  "cpu_snap t v = \<lparr>snapT = t, Values = [''sys.cpu'' \<mapsto> Fin v]\<rparr>"

theorem alert_episodes_witness:
  "episodes False 0 (filter (\<lambda>f. fRule f = ''cpu'')
     (snd (eval_seq [(5, [''cpu''], cpu_snap 5 95), (10, [''cpu''], cpu_snap 10 96), (15, [''cpu''], cpu_snap 15 50)] sample_engine)))"
proof -
  have "arules sample_engine ''cpu'' = Some (sample_arule 0 0)"
      "RenotifySec (sample_arule 0 0) = 0" "ActiveSince (sample_arule 0 0) = 0"
    by (simp_all add: sample_engine_def sample_arule_def)
  from alert_episodes [OF this(1), of "[(5, [''cpu''], cpu_snap 5 95), (10, [''cpu''], cpu_snap 10 96), (15, [''cpu''], cpu_snap 15 50)]"] this(2,3)
  show ?thesis by simp
qed

section \<open>Restart\<close>

definition valid_rule :: "arule \<Rightarrow> bool" where
  "valid_rule r \<longleftrightarrow> aName r \<noteq> '''' \<and> (aMetric r = '''' \<longrightarrow> validField (aField r)) \<and> validOp (aOp r) \<and>
     validSeverity (aSeverity r) \<and> \<not> flt (RearmMargin r) (Fin 0) \<and> 0 \<le> RenotifySec r"

lemma AddRule_valid:
  "valid_rule r \<Longrightarrow> AddRule r e = Ok (e\<lparr>arules := (arules e)(aName r \<mapsto> r),
     firstTrue := (firstTrue e)(aName r := ActiveSince r)\<rparr>)"
  by (auto simp: AddRule_def valid_rule_def)

lemma AddRule_name:
  "AddRule r e = Ok e' \<Longrightarrow> e' = e\<lparr>arules := (arules e)(aName r \<mapsto> r),
     firstTrue := (firstTrue e)(aName r := ActiveSince r)\<rparr>"
  by (auto simp: AddRule_def split: if_splits)

lemma Load_rules_other:
  "n \<notin> aName ` set rs \<Longrightarrow> arules (Load_rules rs e) n = arules e n \<and> firstTrue (Load_rules rs e) n = firstTrue e n"
proof (induction rs arbitrary: e)
  case (Cons r rs)
  then show ?case
    by (cases "AddRule r e") (auto dest!: AddRule_name)
qed simp

lemma Load_rules_one:
  "r \<in> set rs \<Longrightarrow> distinct (map aName rs) \<Longrightarrow> valid_rule r \<Longrightarrow>
     arules (Load_rules rs e) (aName r) = Some r \<and> firstTrue (Load_rules rs e) (aName r) = ActiveSince r"
proof (induction rs arbitrary: e)
  case (Cons x rs)
  show ?case
  proof (cases "x = r")
    case True
    with Cons.prems have "aName r \<notin> aName ` set rs" by (metis distinct.simps(2) list.set_map list.simps(9))
    with Load_rules_other [OF this] True Cons.prems(3) show ?thesis by (simp add: AddRule_valid)
  next
    case False
    with Cons show ?thesis by simp
  qed
qed simp

lemma List_rules_saved:
  assumes "distinct is" and "n \<in> set is" and "arules e n = Some r"
    and "\<And>n r. arules e n = Some r \<Longrightarrow> aName r = n"
  shows "r \<in> set (List_rules is e)" and "distinct (map aName (List_rules is e))"
proof -
  have l: "List_rules ns e = concat (map (\<lambda>n. case arules e n of None \<Rightarrow> [] | Some r \<Rightarrow> [r]) ns)" for ns
    by (induction ns) (simp_all add: List_rules_def map_filter_simps split: option.split)
  show "r \<in> set (List_rules is e)" using assms(2,3) by (auto simp: l intro!: bexI [of _ n])
  have sub: "set (map aName (List_rules ns e)) \<subseteq> set ns" for ns
    using assms(4) by (auto simp: l split: option.splits)
  show "distinct (map aName (List_rules is e))"
    using assms(1)
  proof (induction "is")
    case (Cons m ns)
    with sub [of ns] show ?case
      using assms(4) [of m] by (auto simp: l split: option.split)
  qed (simp add: l)
qed

lemma active_silent:
  assumes "ActiveSince r \<noteq> 0" and "RenotifySec r = 0" and "cmp v (aThreshold r) (aOp r)"
  shows "eval_rule now n (Some v) r ft = (r, if ft = 0 then now else ft, None)"
  using assms by (simp add: eval_rule_def Let_def)

text \<open>
  A restart in the middle of an episode does not repeat the alert: when the saved rules are loaded
  again, an evaluation in which the metric is still over the threshold emits nothing for the rule and
  keeps the episode open.
\<close>

theorem restart_does_not_renotify:
  assumes "distinct is" and "n \<in> set is" and "arules e n = Some r"
    and "\<And>n r. arules e n = Some r \<Longrightarrow> aName r = n" and "valid_rule r"
    and "ActiveSince r \<noteq> 0" and "RenotifySec r = 0"
    and "Values snap (metricKey r) = Some v" and "cmp v (aThreshold r) (aOp r)"
    and "distinct is'" and "n \<in> set is'"
  defines "e' \<equiv> Load_rules (List_rules is e) NewEngine"
  shows "filter (\<lambda>f. fRule f = n) (snd (Evaluate now is' snap e')) = [] \<and>
    arules (fst (Evaluate now is' snap e')) n = Some r"
proof -
  have nm: "aName r = n" using assms(3,4) by blast
  have "arules e' n = Some r \<and> firstTrue e' n = ActiveSince r"
    using Load_rules_one [OF List_rules_saved [OF assms(1-4)] assms(5), of NewEngine]
    unfolding e'_def nm .
  then have a: "arules (e'\<lparr>lastSnap := snap\<rparr>) n = Some r" by simp
  have "eval_rule now n (Values snap (metricKey r)) r (firstTrue (e'\<lparr>lastSnap := snap\<rparr>) n) =
      (r, if firstTrue e' n = 0 then now else firstTrue e' n, None)"
    using active_silent [OF assms(6,7,9)] assms(8) by simp
  from eval_loop_rule [OF assms(10,11) a this] show ?thesis by (simp add: Evaluate_def)
qed

definition active_engine :: Engine where
  "active_engine = NewEngine\<lparr>arules := [''cpu'' \<mapsto> sample_arule 5 300]\<rparr>"

lemma valid_sample_arule: "valid_rule (sample_arule a d)"
  by (simp add: valid_rule_def sample_arule_def validOp_def validSeverity_def)

theorem restart_does_not_renotify_witness:
  "filter (\<lambda>f. fRule f = ''cpu'') (snd (Evaluate 15 [''cpu''] (cpu_snap 15 95)
     (Load_rules (List_rules [''cpu''] active_engine) NewEngine))) = []"
proof -
  let ?r = "sample_arule 5 300"
  have h: "distinct [''cpu'']" "''cpu'' \<in> set [''cpu'']" "arules active_engine ''cpu'' = Some ?r"
    by (simp_all add: active_engine_def)
  have nm: "aName r = n" if "arules active_engine n = Some r" for n r
    using that by (auto simp: active_engine_def NewEngine_def sample_arule_def split: if_splits)
  have x: "ActiveSince ?r \<noteq> 0" "RenotifySec ?r = 0" "Values (cpu_snap 15 95) (metricKey ?r) = Some (Fin 95)"
      "cmp (Fin 95) (aThreshold ?r) (aOp ?r)"
    by (simp_all add: sample_arule_def cpu_snap_def metricKey_def cmp_def)
  from restart_does_not_renotify [OF h nm valid_sample_arule x h(1,2), of 15] show ?thesis by blast
qed

text \<open>
  After a restart in the middle of an episode the status can say pending although the alert has
  fired: the anchor restored from the episode's start is younger than the rule's duration, so for that
  long the rule is shown as pending.
\<close>

theorem reloaded_episode_shown_pending:
  assumes "valid_rule r" and "ActiveSince r \<noteq> 0" and "now - ActiveSince r < aDuration r"
    and "Values snap (metricKey r) = Some v" and "cmp v (aThreshold r) (aOp r)"
    and "snapT snap \<noteq> 0" and "now - snapT snap \<le> staleAfter"
  shows "\<exists>e. AddRule r NewEngine = Ok e \<and>
    State (status_of now (aName r) r (e\<lparr>lastSnap := snap\<rparr>)) = SPending"
  using assms by (simp add: AddRule_valid status_of_def Let_def)

theorem reloaded_episode_shown_pending_witness:
  "\<exists>e. AddRule (sample_arule 5 300) NewEngine = Ok e \<and>
     State (status_of 15 ''cpu'' (sample_arule 5 300) (e\<lparr>lastSnap := cpu_snap 15 95\<rparr>)) = SPending"
proof -
  let ?r = "sample_arule 5 300"
  have h: "ActiveSince ?r \<noteq> 0" "15 - ActiveSince ?r < aDuration ?r"
      "Values (cpu_snap 15 95) (metricKey ?r) = Some (Fin 95)" "cmp (Fin 95) (aThreshold ?r) (aOp ?r)"
      "snapT (cpu_snap 15 95) \<noteq> 0" "15 - snapT (cpu_snap 15 95) \<le> staleAfter" "aName ?r = ''cpu''"
    by (simp_all add: sample_arule_def cpu_snap_def metricKey_def cmp_def staleAfter_def)
  from reloaded_episode_shown_pending [OF valid_sample_arule h(1-6)] h(7) show ?thesis by simp
qed

end
