(* ===== verification/Wire.thy ===== *)
theory Wire
  imports SchedulerProps NotifyProps MetricsProps
begin

text \<open>
  How the parts are wired, \<^verbatim>\<open>internal/api/notify_wire.go\<close>: the events made of finished jobs and of metric
  fires, and the terminal hook the queue calls. The hook runs while its caller holds \<^verbatim>\<open>q.mu\<close>; Go's mutex
  is not reentrant, so a call that takes \<^verbatim>\<open>q.mu\<close> again never returns. The hook is modelled over
  \<^verbatim>\<open>queue option\<close>: \<open>None\<close> is a goroutine that is blocked forever.
\<close>

section \<open>Numbers as text\<close>

text \<open>\<open>strconv.FormatInt(n, 10)\<close>\<close>

fun nat_digits :: "nat \<Rightarrow> string" where
  "nat_digits n = (if n < 10 then [char_of (48 + n)] else nat_digits (n div 10) @ [char_of (48 + n mod 10)])"

declare nat_digits.simps [simp del]

definition FormatInt :: "int \<Rightarrow> string" where
  "FormatInt n = (if n < 0 then ''-'' @ nat_digits (nat (- n)) else nat_digits (nat n))"

text \<open>\<open>fmt.Sprintf("%.2f", v)\<close>: the exact value rounded half to even to two places.\<close>

definition two_digits :: "nat \<Rightarrow> string" where
  "two_digits n = [char_of (48 + n div 10 mod 10), char_of (48 + n mod 10)]"

fun format_2f :: "f64 \<Rightarrow> string" where
  "format_2f NaN = ''NaN''"
| "format_2f PosInf = ''+Inf''"
| "format_2f NegInf = ''-Inf''"
| "format_2f (Fin x) =
     (let n = nat (round_even (\<bar>x\<bar> * 100))
      in (if x < 0 then ''-'' else '''') @ nat_digits (n div 100) @ ''.'' @ two_digits (n mod 100))"

section \<open>Events\<close>

fun status_string :: "status \<Rightarrow> string" where
  "status_string StatusQueued = ''queued''"
| "status_string StatusRunning = ''running''"
| "status_string StatusDone = ''done''"
| "status_string StatusFailed = ''failed''"
| "status_string StatusCancelled = ''cancelled''"
| "status_string StatusInterrupted = ''interrupted''"
| "status_string (StatusOther s) = s"

definition originOf :: "string \<Rightarrow> string" where
  "originOf source =
     (if HasPrefix source ''scheduler:'' \<or> HasPrefix source ''scheduler-manual:'' then ''scheduler''
      else if HasPrefix source ''user:ai-analyze:'' then ''ai''
      else ''user'')"

definition jobTitle :: "job \<Rightarrow> string" where
  "jobTitle j =
     (case Status j of
        StatusDone \<Rightarrow> ''Job completed: '' @ Kind j
      | StatusFailed \<Rightarrow> ''Job failed: '' @ Kind j
      | StatusCancelled \<Rightarrow> ''Job cancelled: '' @ Kind j
      | StatusInterrupted \<Rightarrow> ''Job interrupted: '' @ Kind j
      | st \<Rightarrow> ''Job '' @ status_string st @ '': '' @ Kind j)"

definition jobEvent :: "job \<Rightarrow> nevent" where
  "jobEvent j =
     \<lparr>evType = ''job.'' @ status_string (Status j),
      evSeverity = (if Status j = StatusFailed \<or> Status j = StatusInterrupted then ''critical'' else ''info''),
      evSource = Source j, evOwner = Owner j, evTitle = jobTitle j, evBody = Error j,
      evLabels = [''kind'' \<mapsto> Kind j, ''source'' \<mapsto> Source j, ''job_id'' \<mapsto> ID j, ''origin'' \<mapsto> originOf (Source j)],
      evTS = Finished j, DedupKey = ''job:'' @ ID j, RuleID = ''''\<rparr>"

definition mapSeverity :: "string \<Rightarrow> string" where
  "mapSeverity s = (if s = ''info'' then ''info'' else if s = ''critical'' then ''critical'' else ''warning'')"

definition metric_key :: "Fire \<Rightarrow> string" where
  "metric_key f =
     (let ep = FormatInt (Episode f) in
      if Resolved f then ''metric-res:'' @ fRule f @ '':'' @ ep
      else ''metric:'' @ fRule f @ '':'' @ ep @
        (if Episode f \<noteq> 0 \<and> fTime f \<noteq> Episode f then '':r'' @ FormatInt (fTime f) else ''''))"

definition metricEvent :: "Fire \<Rightarrow> nevent" where
  "metricEvent f =
     (if Resolved f then
        \<lparr>evType = ''metric.resolved'', evSeverity = ''info'', evSource = ''metrics'', evOwner = '''',
         evTitle = ''Metric recovered: '' @ fRule f,
         evBody = ''value '' @ format_2f (fValue f) @ '' is back to normal'',
         evLabels = [''rule'' \<mapsto> fRule f], evTS = fTime f, DedupKey = metric_key f, RuleID = ''''\<rparr>
      else
        \<lparr>evType = ''metric.threshold'', evSeverity = mapSeverity (fSeverity f), evSource = ''metrics'',
         evOwner = '''', evTitle = ''Metric: '' @ fRule f,
         evBody = ''value '' @ format_2f (fValue f) @ '' crossed the threshold'',
         evLabels = [''rule'' \<mapsto> fRule f], evTS = fTime f, DedupKey = metric_key f, RuleID = ''''\<rparr>)"

definition schedSourceID :: "string \<Rightarrow> string" where
  "schedSourceID source =
     (if HasPrefix source ''scheduler:'' then TrimPrefix source ''scheduler:''
      else if HasPrefix source ''scheduler-manual:'' then TrimPrefix source ''scheduler-manual:''
      else '''')"

section \<open>The terminal hook\<close>

text \<open>\<open>Enqueue\<close> starts with \<^verbatim>\<open>q.mu.Lock()\<close>; \<open>held\<close>: the calling goroutine already holds it.\<close>

definition locked_enqueue :: "bool \<Rightarrow> nanos \<Rightarrow> string option \<Rightarrow> queue option enqueue" where
  "locked_enqueue held now l kind args owner source qo =
     (case qo of
        None \<Rightarrow> Ok ('''', None)
      | Some q \<Rightarrow>
          if held then Ok ('''', None)
          else case QueueEnqueuer now l kind args owner source q of
                 Err e \<Rightarrow> Err e
               | Ok (i, q') \<Rightarrow> Ok (i, Some q'))"

definition notify_wanted :: "string \<Rightarrow> bool \<Rightarrow> bool" where
  "notify_wanted on ok \<longleftrightarrow> on = ''always'' \<or> on = ''failure'' \<and> \<not> ok \<or> (on = '''' \<or> on = ''success'') \<and> ok"

text \<open>
  The function given to \<open>SetNotifier\<close>, with the router, the scheduler if there is one, and the queue;
  the result has the sends it starts in the background, as pairs of channel id and event.
\<close>

definition terminal_hook ::
  "bool \<Rightarrow> nanos \<Rightarrow> string option \<Rightarrow> job \<Rightarrow> router \<Rightarrow> scheduler option \<Rightarrow> queue
     \<Rightarrow> router \<times> (string \<times> nevent) list \<times> queue option" where
  "terminal_hook held now l j rt sched q =
     (let rt1 = Dispatch (unix now) (jobEvent j) rt in
      case sched of
        None \<Rightarrow> (rt1, [], Some q)
      | Some s \<Rightarrow>
          case OnQueueTerminal (locked_enqueue held now l) (Source j) (status_string (Status j)) s (Some q) of
            None \<Rightarrow> (rt1, [], None)
          | Some q' \<Rightarrow>
              let i = schedSourceID (Source j) in
              if i = '''' then (rt1, [], Some q')
              else case sched_Get i s of
                Err _ \<Rightarrow> (rt1, [], Some q')
              | Ok sj \<Rightarrow>
                  if NotifyChannels sj \<noteq> [] \<and> notify_wanted (NotifyOn sj) (Status j = StatusDone)
                  then (rt1, map (\<lambda>c. (c, jobEvent j)) (NotifyChannels sj), Some q')
                  else (rt1, [], Some q'))"

section \<open>Seeding\<close>

text \<open>\<open>fresh1\<close> and \<open>fresh2\<close> are the ids \<open>newID\<close> returns; \<open>from\<close> and \<open>jid\<close> the legacy destination.\<close>

definition zero_config :: ChannelConfig where
  "zero_config = \<lparr>FromUser = [], ChatJID = [], BotToken = [], ChatID = [], SMTPHost = [], SMTPPort = 0,
     SMTPUser = [], SMTPPass = [], cfgFrom = [], cfgTo = [], ToUser = [], ToDevice = [], cfgURL = [],
     FixedBody = []\<rparr>"

definition seedNotifyDefaults :: "string \<Rightarrow> string \<Rightarrow> string \<Rightarrow> string \<Rightarrow> router \<Rightarrow> router" where
  "seedNotifyDefaults fresh1 fresh2 from jid r =
     (if rules r \<noteq> [] \<or> dom (channelsC r) \<noteq> {} then r
      else if from = '''' \<or> jid = '''' then r
      else
        (case UpsertChannel fresh1 \<lparr>chID = '''', chName = ''WhatsApp (migrated from alerting)'',
                chType = ''whatsapp'', chEnabled = True, chConfig = zero_config\<lparr>FromUser := from, ChatJID := jid\<rparr>\<rparr> r of
           (Err e, r1) \<Rightarrow> r1
         | (Ok ch, r1) \<Rightarrow>
             snd (UpsertRule fresh2 \<lparr>ruleID = '''', ruleName = ''Jobs (failure and completion)'', ruleEnabled = True,
               TypePrefix = ''job.'', MinSeverity = '''', SourcePrefix = '''', ruleLabels = [],
               ruleChannels = [chID ch]\<rparr> r1)))"

section \<open>Properties of the hook\<close>

definition follow_up_due :: "scheduler \<Rightarrow> string \<Rightarrow> string \<Rightarrow> bool" where
  "follow_up_due s source status \<longleftrightarrow>
     (\<exists>i r. chain_id source = Some i \<and> sjobs s i = Some r \<and> ThenKind (sheap s r) \<noteq> [] \<and>
        chain_runs (ThenOn (sheap s r)) status \<and> allowed s (sOwner (sheap s r)) (ThenKind (sheap s r)))"

lemma OnQueueTerminal_held:
  "OnQueueTerminal (locked_enqueue True now l) source st s (Some q) =
     (if follow_up_due s source st then None else Some q)"
  by (auto simp: OnQueueTerminal_def follow_up_due_def locked_enqueue_def Let_def split: option.split)

lemma hook_blocks:
  "snd (snd (terminal_hook held now l j rt (Some s) q)) = None \<longleftrightarrow>
     OnQueueTerminal (locked_enqueue held now l) (Source j) (status_string (Status j)) s (Some q) = None"
  by (simp add: terminal_hook_def Let_def split: option.split sum.split)

lemma OnQueueTerminal_free:
  "OnQueueTerminal (locked_enqueue False now l) source st s (Some q) \<noteq> None"
  by (auto simp: OnQueueTerminal_def locked_enqueue_def Let_def split: option.split sum.split prod.split)

text \<open>
  The terminal hook deadlocks the queue exactly when the finished job is a scheduled run with a due
  follow-up: called with the queue's lock held, as it always is, it submits the follow-up to the same
  queue, which takes the lock again. Without the lock it would always return.
\<close>

theorem terminal_hook_deadlocks:
  "(snd (snd (terminal_hook True now l j rt (Some s) q)) = None \<longleftrightarrow>
      follow_up_due s (Source j) (status_string (Status j))) \<and>
   snd (snd (terminal_hook False now l j rt (Some s) q)) \<noteq> None"
  by (simp add: hook_blocks OnQueueTerminal_held OnQueueTerminal_free)

section \<open>Properties of the events\<close>

lemma schedSourceID_chain_id: "schedSourceID src = (case chain_id src of None \<Rightarrow> [] | Some i \<Rightarrow> i)"
  by (simp add: schedSourceID_def chain_id_def)


text \<open>
  The origin label tells scheduled runs apart only for the first run of a chain: a run started by the
  tick or by hand is labelled scheduler, but its follow-up, whose source is not in the catalogue the
  code assumes closed, is labelled user.
\<close>

theorem chained_run_labelled_user:
  "originOf (fire_source manual i) = ''scheduler'' \<and> originOf (''scheduler-chain:'' @ i) = ''user''"
  by (simp add: originOf_def fire_source_def)

lemma of_char_digit: "d < 10 \<Longrightarrow> of_char (char_of (48 + d) :: char) = (48 + d :: nat)"
  by simp

definition digits_value :: "string \<Rightarrow> nat" where
  "digits_value s = foldl (\<lambda>a c. 10 * a + (of_char c - 48)) 0 s"

lemma digits_value_nat_digits: "digits_value (nat_digits n) = n"
proof (induction n rule: nat_digits.induct)
  case (1 n)
  show ?case
  proof (cases "n < 10")
    case True
    then show ?thesis by (subst nat_digits.simps) (simp add: digits_value_def of_char_digit)
  next
    case False
    with 1 have "digits_value (nat_digits (n div 10)) = n div 10" by simp
    with False show ?thesis
      by (subst nat_digits.simps) (simp add: digits_value_def of_char_digit)
  qed
qed

lemma nat_digits_inj: "nat_digits m = nat_digits n \<Longrightarrow> m = n"
  by (metis digits_value_nat_digits)

lemma set_nat_digits: "set (nat_digits n) \<subseteq> {c. 48 \<le> (of_char c :: nat) \<and> of_char c < (58 :: nat)}"
proof (induction n rule: nat_digits.induct)
  case (1 n)
  show ?case
  proof (cases "n < 10")
    case True
    then show ?thesis by (subst nat_digits.simps) (simp add: of_char_digit)
  next
    case False
    with 1 show ?thesis by (subst nat_digits.simps) (simp add: of_char_digit)
  qed
qed

lemma set_FormatInt: "CHR '':'' \<notin> set (FormatInt n)"
  using set_nat_digits [of "nat n"] set_nat_digits [of "nat (- n)"] by (auto simp: FormatInt_def)

lemma FormatInt_inj:
  assumes "FormatInt m = FormatInt n"
  shows "m = n"
proof -
  have d: "nat_digits k \<noteq> CHR ''-'' # s" for k s
    using set_nat_digits [of k] by (auto simp: set_eq_iff)
  consider "m < 0" "n < 0" | "m < 0" "\<not> n < 0" | "\<not> m < 0" "n < 0" | "\<not> m < 0" "\<not> n < 0"
    by blast
  then show ?thesis
  proof cases
    case 1
    with assms have "nat (- m) = nat (- n)" by (intro nat_digits_inj) (simp add: FormatInt_def)
    with 1 show ?thesis by simp
  next
    case 2
    with assms d [of "nat n" "nat_digits (nat (- m))"] show ?thesis by (simp add: FormatInt_def)
  next
    case 3
    with assms d [of "nat m" "nat_digits (nat (- n))"] show ?thesis by (simp add: FormatInt_def)
  next
    case 4
    with assms have "nat m = nat n" by (intro nat_digits_inj) (simp add: FormatInt_def)
    with 4 show ?thesis by simp
  qed
qed

lemma split_at_colon:
  "CHR '':'' \<notin> set a \<Longrightarrow> CHR '':'' \<notin> set b \<Longrightarrow> a @ x = b @ y \<Longrightarrow> (x = [] \<or> hd x = CHR '':'') \<Longrightarrow>
     (y = [] \<or> hd y = CHR '':'') \<Longrightarrow> a = b \<and> x = y"
proof (induction a arbitrary: b)
  case Nil
  then show ?case by (cases b) auto
next
  case (Cons c a)
  then show ?case by (cases b) auto
qed

text \<open>
  The identities of a rule's alert events separate what must be notified separately: two fires of
  one rule share an identity only if both are recoveries or both are not, they belong to the same
  episode, and, when they are reminders, they happened at the same time.
\<close>

theorem metric_keys_separate:
  assumes "fRule f = fRule g" and "Episode f \<noteq> 0" and "Episode g \<noteq> 0"
    and "DedupKey (metricEvent f) = DedupKey (metricEvent g)"
  shows "Resolved f = Resolved g \<and> Episode f = Episode g \<and>
    (\<not> Resolved f \<longrightarrow> fTime f = fTime g)"
proof -
  have k: "metric_key f = metric_key g" using assms(4) by (simp add: metricEvent_def split: if_splits)
  then have r: "Resolved f = Resolved g" by (auto simp: metric_key_def Let_def split: if_splits)
  let ?t = "\<lambda>h. if fTime h \<noteq> Episode h then '':r'' @ FormatInt (fTime h) else ''''"
  show ?thesis
  proof (cases "Resolved f")
    case True
    with k r assms(1) have "FormatInt (Episode f) = FormatInt (Episode g)"
      by (simp add: metric_key_def)
    with True r show ?thesis using FormatInt_inj by simp
  next
    case False
    with k r assms(1-3) have e: "FormatInt (Episode f) @ ?t f = FormatInt (Episode g) @ ?t g"
      by (simp add: metric_key_def)
    have "FormatInt (Episode f) = FormatInt (Episode g) \<and> ?t f = ?t g"
      by (rule split_at_colon [OF set_FormatInt set_FormatInt e]) auto
    with r FormatInt_inj show ?thesis by (auto split: if_splits)
  qed
qed

theorem metric_keys_separate_witness:
  "\<exists>f g. fRule f = fRule g \<and> Episode f = 5 \<and> Episode g = 5 \<and> \<not> Resolved f \<and>
     DedupKey (metricEvent f) = DedupKey (metricEvent g) \<and> Episode f = Episode g \<and> fTime f = fTime g"
proof -
  let ?f = "\<lparr>fRule = ''cpu'', fTime = 9, fValue = Fin 95, fSeverity = '''', Episode = 5, Resolved = False\<rparr>"
  let ?g = "?f\<lparr>fValue := Fin 96\<rparr>"
  have "DedupKey (metricEvent ?f) = DedupKey (metricEvent ?g)" by (simp add: metricEvent_def metric_key_def)
  moreover from metric_keys_separate [of ?f ?g, OF _ _ _ this] have "Episode ?f = Episode ?g \<and> fTime ?f = fTime ?g"
    by simp
  ultimately show ?thesis by (intro exI [of _ ?f] exI [of _ ?g]) simp
qed

end
