(* ===== verification/Sessions.thy ===== *)
theory Sessions
  imports Prelude
begin

text \<open>
  \<^verbatim>\<open>internal/sessions/store.go\<close>: the table of session tokens by their \<open>jti\<close>, with tombstones for revoked
  ones, written to \<^verbatim>\<open>sessions.json\<close> by a flusher every five seconds.

  Every method holds the mutex from its first access to its return, so it is one step; \<open>flush\<close> is the
  body of the flusher's tick. The file is the field \<open>sfile\<close>. The argument \<open>ks\<close> of the methods that range over the map is the order in
  which Go visits its keys, which is unspecified.
\<close>

section \<open>State\<close>

record Session =
  JTI :: string
  User :: string
  IP :: string
  UserAgent :: string
  IssuedAt :: secs
  LastSeen :: secs
  ExpiresAt :: secs
  Revoked :: bool

type_synonym session_file = "Session list jsonfile"

record Store =
  sessions :: "string \<rightharpoonup> Session"
  dirty :: bool
  sfile :: session_file

section \<open>Loading and saving\<close>

definition expired_row :: "secs \<Rightarrow> Session \<Rightarrow> bool" where
  "expired_row now x \<longleftrightarrow> 0 < ExpiresAt x \<and> ExpiresAt x < now"

definition load_rows :: "secs \<Rightarrow> Session list \<Rightarrow> (string \<rightharpoonup> Session)" where
  "load_rows now arr =
     fold (\<lambda>x m. if expired_row now x then m else m(JTI x \<mapsto> x)) arr Map.empty"

text \<open>\<open>Open\<close> and \<open>load\<close>: a missing or corrupt file gives an empty store, an unreadable one an error.\<close>

definition Open :: "nanos \<Rightarrow> session_file \<Rightarrow> Store option" where
  "Open now f =
     (case f of
        NoFile \<Rightarrow> Some \<lparr>sessions = Map.empty, dirty = False, sfile = f\<rparr>
      | Unreadable \<Rightarrow> None
      | Garbled \<Rightarrow> Some \<lparr>sessions = Map.empty, dirty = False, sfile = f\<rparr>
      | Doc arr \<Rightarrow> Some \<lparr>sessions = load_rows (unix now) arr, dirty = False, sfile = f\<rparr>)"

text \<open>\<open>save\<close>: \<open>ok\<close> says whether every system call up to the rename succeeds; if not, the old file stays.\<close>

definition save :: "string list \<Rightarrow> bool \<Rightarrow> Store \<Rightarrow> Store" where
  "save ks ok s = (if ok then s\<lparr>sfile := Doc (List.map_filter (sessions s) ks)\<rparr> else s)"

definition flush :: "string list \<Rightarrow> bool \<Rightarrow> Store \<Rightarrow> Store" where
  "flush ks ok s =
     (let needSave = dirty s; s' = s\<lparr>dirty := False\<rparr> in if needSave then save ks ok s' else s')"

definition Close :: "string list \<Rightarrow> bool \<Rightarrow> Store \<Rightarrow> Store" where
  "Close ks ok s = save ks ok s"

section \<open>Methods\<close>

definition Add :: "Session \<Rightarrow> Store \<Rightarrow> Store" where
  "Add x s =
     (if JTI x = '''' then s
      else if sessions s (JTI x) \<noteq> None then s
      else s\<lparr>sessions := (sessions s)(JTI x \<mapsto> x), dirty := True\<rparr>)"

definition Touch :: "nanos \<Rightarrow> string \<Rightarrow> Store \<Rightarrow> bool \<times> Store" where
  "Touch now jti s =
     (if jti = '''' then (False, s)
      else case sessions s jti of
        None \<Rightarrow> (False, s)
      | Some x \<Rightarrow>
          if Revoked x then (False, s)
          else (True, s\<lparr>sessions := (sessions s)(jti \<mapsto> x\<lparr>LastSeen := unix now\<rparr>), dirty := True\<rparr>))"

definition HasTombstone :: "string \<Rightarrow> Store \<Rightarrow> bool" where
  "HasTombstone jti s \<longleftrightarrow>
     jti \<noteq> '''' \<and> (case sessions s jti of None \<Rightarrow> False | Some x \<Rightarrow> Revoked x)"

definition Has :: "string \<Rightarrow> Store \<Rightarrow> bool" where
  "Has jti s \<longleftrightarrow> jti \<noteq> '''' \<and> sessions s jti \<noteq> None"

definition zero_session :: Session where
  "zero_session = \<lparr>JTI = '''', User = '''', IP = '''', UserAgent = '''', IssuedAt = 0, LastSeen = 0,
     ExpiresAt = 0, Revoked = False\<rparr>"

definition Revoke :: "nanos \<Rightarrow> string \<Rightarrow> Store \<Rightarrow> string \<times> Store" where
  "Revoke now jti s =
     (if jti = '''' then ('''', s)
      else case sessions s jti of
        None \<Rightarrow>
          ('''', s\<lparr>sessions := (sessions s)(jti \<mapsto>
             zero_session\<lparr>JTI := jti, Revoked := True, LastSeen := unix now\<rparr>), dirty := True\<rparr>)
      | Some x \<Rightarrow>
          if Revoked x then (User x, s)
          else (User x, s\<lparr>sessions := (sessions s)(jti \<mapsto> x\<lparr>Revoked := True\<rparr>), dirty := True\<rparr>))"

definition other_live :: "string \<Rightarrow> string \<Rightarrow> string \<Rightarrow> Session \<Rightarrow> bool" where
  "other_live user keep jti x \<longleftrightarrow> User x = user \<and> jti \<noteq> keep \<and> \<not> Revoked x"

definition RevokeAllExcept :: "string list \<Rightarrow> string \<Rightarrow> string \<Rightarrow> Store \<Rightarrow> nat \<times> Store" where
  "RevokeAllExcept ks user keep s =
     (let hit = (\<lambda>j. case sessions s j of None \<Rightarrow> False | Some x \<Rightarrow> other_live user keep j x);
          n = length (filter hit ks);
          s' = s\<lparr>sessions := (\<lambda>j. map_option
                 (\<lambda>x. if other_live user keep j x then x\<lparr>Revoked := True\<rparr> else x) (sessions s j))\<rparr>
      in (n, if n > 0 then s'\<lparr>dirty := True\<rparr> else s'))"

definition ListForUser :: "string list \<Rightarrow> string \<Rightarrow> Store \<Rightarrow> Session list" where
  "ListForUser ks user s =
     sort_desc IssuedAt
       (filter (\<lambda>x. User x = user \<and> \<not> Revoked x) (List.map_filter (sessions s) ks))"

definition PruneExpired :: "nanos \<Rightarrow> string list \<Rightarrow> Store \<Rightarrow> nat \<times> Store" where
  "PruneExpired now ks s =
     (let n = length (filter (\<lambda>j. case sessions s j of None \<Rightarrow> False | Some x \<Rightarrow> expired_row (unix now) x) ks);
          s' = s\<lparr>sessions := keep_vals (\<lambda>x. \<not> expired_row (unix now) x) (sessions s)\<rparr>
      in (n, if n > 0 then s'\<lparr>dirty := True\<rparr> else s'))"

section \<open>The table is keyed by the session ids\<close>

definition wf_store :: "Store \<Rightarrow> bool" where
  "wf_store s \<longleftrightarrow> (\<forall>j x. sessions s j = Some x \<longrightarrow> JTI x = j)"

text \<open>An enumeration of the keys of the map, as \<open>range\<close> gives one.\<close>

definition key_order :: "string list \<Rightarrow> Store \<Rightarrow> bool" where
  "key_order ks s \<longleftrightarrow> distinct ks \<and> set ks = dom (sessions s)"

lemma load_rows_Some:
  "fold (\<lambda>x m. if expired_row now x then m else m(JTI x \<mapsto> x)) arr m j = Some x \<Longrightarrow>
     m j = Some x \<or> x \<in> set arr \<and> JTI x = j \<and> \<not> expired_row now x"
  by (induction arr arbitrary: m) (fastforce split: if_splits)+

lemma wf_Open: "Open now f = Some s \<Longrightarrow> wf_store s"
  by (auto simp: Open_def wf_store_def load_rows_def split: jsonfile.splits dest: load_rows_Some)

named_theorems store_defs

lemmas [store_defs] = Add_def Touch_def Revoke_def RevokeAllExcept_def PruneExpired_def save_def
  flush_def Close_def HasTombstone_def other_live_def Let_def

section \<open>What any holder of the store may do to it\<close>

text \<open>
  One step of the store at time \<open>now\<close>: any method with any arguments, and a restart of the process with
  the file that was last written.
\<close>

inductive store_step :: "nanos \<Rightarrow> Store \<Rightarrow> Store \<Rightarrow> bool" for now where
  step_Add: "store_step now s (Add x s)"
| step_Touch: "store_step now s (snd (Touch now jti s))"
| step_Revoke: "store_step now s (snd (Revoke now jti s))"
| step_RevokeAllExcept: "store_step now s (snd (RevokeAllExcept ks user keep s))"
| step_PruneExpired: "store_step now s (snd (PruneExpired now ks s))"
| step_flush: "key_order ks s \<Longrightarrow> store_step now s (flush ks ok s)"
| step_restart: "key_order ks s \<Longrightarrow> Open now (sfile (Close ks True s)) = Some s' \<Longrightarrow> store_step now s s'"

inductive store_run :: "nanos \<Rightarrow> Store \<Rightarrow> nanos \<Rightarrow> Store \<Rightarrow> bool" for t0 s0 where
  run_refl: "store_run t0 s0 t0 s0"
| run_step: "store_run t0 s0 t s \<Longrightarrow> t \<le> t' \<Longrightarrow> store_step t' s s' \<Longrightarrow> store_run t0 s0 t' s'"

lemma store_run_mono: "store_run t0 s0 t s \<Longrightarrow> t0 \<le> t"
  by (induction rule: store_run.induct) auto

text \<open>Reading back what \<open>save\<close> wrote gives every session that has not expired.\<close>

lemma load_rows_fold:
  assumes "wf_store s" and "distinct ks"
  shows "fold (\<lambda>x m. if expired_row now x then m else m(JTI x \<mapsto> x)) (List.map_filter (sessions s) ks) m j =
    (if j \<in> set ks then (case sessions s j of
         Some x \<Rightarrow> if expired_row now x then m j else Some x | None \<Rightarrow> m j) else m j)"
  using assms(2)
proof (induction ks arbitrary: m)
  case (Cons k ks)
  show ?case
  proof (cases "sessions s k")
    case None
    then show ?thesis using Cons by (auto simp: List.map_filter_def)
  next
    case (Some x)
    moreover have "JTI x = k" using assms(1) Some by (simp add: wf_store_def)
    ultimately show ?thesis
      using Cons by (auto simp: map_filter_simps split: option.splits)
  qed
qed (simp add: map_filter_simps)

lemma restart_sessions:
  assumes "wf_store s" and "key_order ks s" and "Open now (sfile (Close ks True s)) = Some s'"
  shows "sessions s' = keep_vals (\<lambda>x. \<not> expired_row (unix now) x) (sessions s)"
proof
  fix j
  have "sessions s' j = load_rows (unix now) (List.map_filter (sessions s) ks) j"
    using assms(3) by (auto simp: Open_def Close_def save_def)
  also have "\<dots> = keep_vals (\<lambda>x. \<not> expired_row (unix now) x) (sessions s) j"
    using load_rows_fold [OF assms(1), of ks "unix now" Map.empty j] assms(2)
    by (auto simp: load_rows_def key_order_def keep_vals_def split: option.splits)
  finally show "sessions s' j = keep_vals (\<lambda>x. \<not> expired_row (unix now) x) (sessions s) j" .
qed

lemma wf_step: "store_step now s s' \<Longrightarrow> wf_store s \<Longrightarrow> wf_store s'"
proof (induction rule: store_step.induct)
  case (step_restart ks s s')
  then show ?case by (simp add: wf_Open)
qed (auto simp: store_defs wf_store_def zero_session_def split: option.splits if_splits)

text \<open>A tombstone stays until the expiry it carries has passed; with no expiry it stays for good.\<close>

definition tombstone :: "string \<Rightarrow> secs \<Rightarrow> Store \<Rightarrow> bool" where
  "tombstone jti e s \<longleftrightarrow>
     (\<exists>x. sessions s jti = Some x \<and> Revoked x \<and> (ExpiresAt x \<le> 0 \<or> e \<le> ExpiresAt x))"

lemma tombstone_step:
  assumes "store_step now s s'" and "wf_store s" and "tombstone jti e s" and "unix now \<le> e"
  shows "tombstone jti e s'"
  using assms
proof (induction rule: store_step.induct)
  case (step_restart ks s s')
  then show ?case
    using restart_sessions by (fastforce simp: tombstone_def expired_row_def)
qed (auto simp: store_defs tombstone_def expired_row_def split: option.splits if_splits)

lemma tombstone_run:
  assumes "store_run t0 s0 t s" and "wf_store s0" and "tombstone jti e s0" and "unix t \<le> e"
  shows "tombstone jti e s \<and> wf_store s"
  using assms
proof (induction rule: store_run.induct)
  case (run_step t s t' s')
  then have "unix t \<le> e" using unix_mono [of t t'] by simp
  with run_step show ?case using tombstone_step wf_step by blast
qed simp

lemma tombstone_HasTombstone: "tombstone jti e s \<Longrightarrow> jti \<noteq> '''' \<Longrightarrow> HasTombstone jti s"
  by (auto simp: tombstone_def HasTombstone_def)

lemma tombstone_Touch: "tombstone jti e s \<Longrightarrow> fst (Touch now jti s) = False"
  by (auto simp: tombstone_def Touch_def)

lemma Revoke_tombstone:
  assumes "jti \<noteq> ''''"
    and "\<And>x. sessions s jti = Some x \<Longrightarrow> ExpiresAt x \<le> 0 \<or> e \<le> ExpiresAt x"
  shows "tombstone jti e (snd (Revoke now jti s))"
  using assms by (auto simp: tombstone_def Revoke_def zero_session_def split: option.splits)

end
