(* ===== verification/GoNet.thy ===== *)
theory GoNet
  imports GoStrings
begin

text \<open>
  The part of Go's \<open>net\<close> and \<open>net/netip\<close> packages that the client address of a request is derived
  with: \<open>SplitHostPort\<close>, \<open>ParseIP\<close> for both address families, \<open>IsLoopback\<close> and \<open>IsPrivate\<close>. An IP
  address is its list of 16 bytes, IPv4 in its mapped form, as \<open>net.IP\<close> from \<open>ParseIP\<close> is.
\<close>

section \<open>More of the strings package\<close>

definition LastIndexByte :: "string \<Rightarrow> char \<Rightarrow> nat option" where
  "LastIndexByte s c = map_option (\<lambda>i. length s - 1 - i) (IndexByte (rev s) c)"

section \<open>Host and port\<close>

text \<open>The host of \<open>net.SplitHostPort\<close>; \<open>None\<close> is an error.\<close>

definition SplitHostPort :: "string \<Rightarrow> (string \<times> string) option" where
  "SplitHostPort hp =
     (case LastIndexByte hp CHR '':'' of
        None \<Rightarrow> None
      | Some i \<Rightarrow>
          (let r = (if hd hp = CHR ''['' then
                (case IndexByte hp CHR '']'' of
                   None \<Rightarrow> None
                 | Some e \<Rightarrow> if e + 1 = i then Some (drop 1 (take e hp), 1, e + 1) else None)
              else if IndexByte (take i hp) CHR '':'' \<noteq> None then None
              else Some (take i hp, 0, 0))
           in case r of
                None \<Rightarrow> None
              | Some (host, j, k) \<Rightarrow>
                  if IndexByte (drop j hp) CHR ''['' \<noteq> None then None
                  else if IndexByte (drop k hp) CHR '']'' \<noteq> None then None
                  else Some (host, drop (i + 1) hp)))"

section \<open>Addresses\<close>

type_synonym ip = "nat list"

definition digit_val :: "char \<Rightarrow> nat option" where
  "digit_val c = (let n = of_char c :: nat in if 48 \<le> n \<and> n \<le> 57 then Some (n - 48) else None)"

definition hex_val :: "char \<Rightarrow> nat option" where
  "hex_val c = (let n = of_char c :: nat in
     if 48 \<le> n \<and> n \<le> 57 then Some (n - 48)
     else if 97 \<le> n \<and> n \<le> 102 then Some (n - 87)
     else if 65 \<le> n \<and> n \<le> 70 then Some (n - 55)
     else None)"

text \<open>
  Four decimal fields: \<open>val\<close> is the current field, \<open>dig\<close> its number of digits and \<open>fs\<close> the finished
  fields. A dot needs a digit before it and a character after it.
\<close>

fun ipv4_fields :: "string \<Rightarrow> nat \<Rightarrow> nat \<Rightarrow> nat list \<Rightarrow> nat list option" where
  "ipv4_fields [] val dig fs = (if length fs < 3 then None else Some (fs @ [val]))"
| "ipv4_fields (c # s) val dig fs =
     (case digit_val c of
        Some d \<Rightarrow>
          if dig = 1 \<and> val = 0 then None
          else if 10 * val + d > 255 then None
          else ipv4_fields s (10 * val + d) (dig + 1) fs
      | None \<Rightarrow>
          if c = CHR ''.'' then
            if dig = 0 \<or> s = [] \<or> length fs = 3 then None
            else ipv4_fields s 0 0 (fs @ [val])
          else None)"

definition hex_digits :: "string \<Rightarrow> string" where
  "hex_digits s = takeWhile (\<lambda>c. hex_val c \<noteq> None) s"

definition hex_number :: "string \<Rightarrow> nat" where
  "hex_number s = foldl (\<lambda>a c. 16 * a + the (hex_val c)) 0 s"

text \<open>
  The groups of an IPv6 address: \<open>ip\<close> holds the bytes so far and \<open>ell\<close> the place of the ellipsis.
  The result also has the unread rest of the text.
\<close>

function ipv6_groups ::
    "string \<Rightarrow> nat list \<Rightarrow> nat option \<Rightarrow> (string \<times> nat list \<times> nat option) option" where
  "ipv6_groups s ip ell =
     (if length ip \<ge> 16 then Some (s, ip, ell)
      else
        let ds = hex_digits s; r = drop (length ds) s;
            ip' = ip @ [hex_number ds div 256, hex_number ds mod 256]
        in
          if ds = [] \<or> length ds > 4 then None
          else if r \<noteq> [] \<and> hd r = CHR ''.'' then
            (if ell = None \<and> length ip \<noteq> 12 then None
             else if length ip + 4 > 16 then None
             else case ipv4_fields s 0 0 [] of
                    None \<Rightarrow> None
                  | Some f \<Rightarrow> Some ([], ip @ f, ell))
          else if r = [] then Some ([], ip', ell)
          else if hd r \<noteq> CHR '':'' \<or> tl r = [] then None
          else if hd (tl r) = CHR '':'' then
            (if ell \<noteq> None then None
             else if tl (tl r) = [] then Some ([], ip', Some (length ip'))
             else ipv6_groups (tl (tl r)) ip' (Some (length ip')))
          else ipv6_groups (tl r) ip' ell)"
  by pat_completeness auto
termination
  by (relation "measure (\<lambda>(s, ip, ell). 16 - length ip)") (auto simp: Let_def)

declare ipv6_groups.simps [simp del]

definition expand_ellipsis :: "nat list \<Rightarrow> nat option \<Rightarrow> ip option" where
  "expand_ellipsis ip ell =
     (case ell of
        None \<Rightarrow> if length ip < 16 then None else Some ip
      | Some e \<Rightarrow>
          if length ip < 16 then Some (take e ip @ replicate (16 - length ip) 0 @ drop e ip)
          else None)"

definition parse_ipv6 :: "string \<Rightarrow> ip option" where
  "parse_ipv6 s =
     (let (s', ell) = (if HasPrefix s ''::'' then (drop 2 s, Some 0) else (s, None))
      in if ell \<noteq> None \<and> s' = [] then Some (replicate 16 0)
         else case ipv6_groups s' [] ell of
                None \<Rightarrow> None
              | Some (rest, ip, ell') \<Rightarrow> if rest \<noteq> [] then None else expand_ellipsis ip ell')"

text \<open>
  \<open>net.ParseIP\<close>: the first dot, colon or percent sign decides the family. A zone (after a percent
  sign) is refused, empty or not.
\<close>

definition ParseIP :: "string \<Rightarrow> ip option" where
  "ParseIP s =
     (case find (\<lambda>c. c \<in> set ''.:%'') s of
        None \<Rightarrow> None
      | Some c \<Rightarrow>
          if c = CHR ''.'' then
            map_option (\<lambda>f. replicate 10 0 @ [255, 255] @ f) (ipv4_fields s 0 0 [])
          else if c = CHR '':'' then
            if IndexByte s CHR ''%'' \<noteq> None then None else parse_ipv6 s
          else None)"

definition To4 :: "ip \<Rightarrow> nat list option" where
  "To4 ip = (if take 12 ip = replicate 10 0 @ [255, 255] then Some (drop 12 ip) else None)"

definition IsLoopback :: "ip \<Rightarrow> bool" where
  "IsLoopback ip = (case To4 ip of Some f \<Rightarrow> f ! 0 = 127 | None \<Rightarrow> ip = replicate 15 0 @ [1])"

definition IsPrivate :: "ip \<Rightarrow> bool" where
  "IsPrivate ip =
     (case To4 ip of
        Some f \<Rightarrow> f ! 0 = 10 \<or> (f ! 0 = 172 \<and> f ! 1 div 16 = 1) \<or> (f ! 0 = 192 \<and> f ! 1 = 168)
      | None \<Rightarrow> length ip = 16 \<and> ip ! 0 div 2 = 126)"

section \<open>Every parsed address has 16 bytes\<close>

lemma ipv4_fields_length:
  "ipv4_fields s val dig fs = Some f \<Longrightarrow> length fs \<le> 3 \<Longrightarrow> length f = 4"
  by (induction s val dig fs rule: ipv4_fields.induct)
    (auto split: option.splits if_splits)

lemma ipv4_fields_bytes:
  "ipv4_fields s val dig fs = Some f \<Longrightarrow> val \<le> 255 \<Longrightarrow> list_all (\<lambda>x. x \<le> 255) fs \<Longrightarrow>
    list_all (\<lambda>x. x \<le> 255) f"
  by (induction s val dig fs rule: ipv4_fields.induct)
    (auto split: option.splits if_splits)

lemma ipv6_groups_length:
  "ipv6_groups s ip ell = Some (rest, ip', ell') \<Longrightarrow> length ip \<le> 16 \<Longrightarrow> even (length ip) \<Longrightarrow>
     length ip' \<le> 16"
proof (induction s ip ell rule: ipv6_groups.induct)
  case (1 s ip ell)
  let ?ds = "hex_digits s" and ?r = "drop (length (hex_digits s)) s"
  let ?ip = "ip @ [hex_number ?ds div 256, hex_number ?ds mod 256]"
  note eq = ipv6_groups.simps [of s ip ell]
  show ?case
  proof (cases "length ip \<ge> 16")
    case True
    then show ?thesis using "1.prems" by (simp add: eq)
  next
    case small: False
    then have grown: "length ?ip \<le> 16" "even (length ?ip)"
      using "1.prems"(3) by (simp_all, presburger)
    have ds: "\<not> (?ds = [] \<or> length ?ds > 4)"
      using "1.prems"(1) small by (auto simp: eq Let_def)
    show ?thesis
    proof (cases "(?r \<noteq> [] \<and> hd ?r = CHR ''.'') \<or> ?r = []")
      case True
      then show ?thesis
        using "1.prems" small ds grown
        by (auto simp: eq Let_def split: if_splits option.splits dest!: ipv4_fields_length)
    next
      case False
      then have colon: "\<not> (hd ?r \<noteq> CHR '':'' \<or> tl ?r = [])"
        using "1.prems"(1) small ds by (auto simp: eq Let_def split: if_splits)
      note ih = "1.IH" [OF small refl refl refl ds]
      show ?thesis
      proof (cases "hd (tl ?r) = CHR '':'' ")
        case True
        then show ?thesis
          using "1.prems" small ds False colon grown ih(1) [OF _ _ colon True]
          by (simp add: eq Let_def split: if_splits) (use grown(1) in blast)
      next
        case next_group: False
        then have "ipv6_groups (tl ?r) ?ip ell = Some (rest, ip', ell')"
          using "1.prems"(1) small ds False colon by (simp add: eq Let_def split: if_splits)
        then show ?thesis
          using ih(2) [OF _ _ colon next_group] False grown by blast
      qed
    qed
  qed
qed

lemma ParseIP_length: "ParseIP s = Some ip \<Longrightarrow> length ip = 16"
  by (auto simp: ParseIP_def parse_ipv6_def expand_ellipsis_def Let_def ipv4_fields_length
      split: option.splits if_splits prod.splits dest: ipv6_groups_length)

end
