(* ===== verification/RateLimit.thy ===== *)
theory RateLimit
  imports GoNet Http
begin

text \<open>
  \<^verbatim>\<open>internal/auth/ratelimit.go\<close>: the sliding-window limiter per address, the escalating lock per user
  name, and the client address they are keyed by. Times are nanoseconds; the clock is an argument.
  Both tables are guarded by a mutex held for a whole method, so a method is one step.
\<close>

section \<open>Sliding window\<close>

record bucket =
  attempts :: "nanos list"

record Limiter =
  lbuckets :: "string \<rightharpoonup> bucket"
  maxAttempts :: int
  lwindow :: nanos

definition NewLimiter :: "int \<Rightarrow> nanos \<Rightarrow> Limiter" where
  "NewLimiter m w = \<lparr>lbuckets = Map.empty, maxAttempts = m, lwindow = w\<rparr>"

definition Allow :: "nanos \<Rightarrow> string \<Rightarrow> Limiter \<Rightarrow> bool \<times> Limiter" where
  "Allow now ip l =
     (let cutoff = now - lwindow l;
          b = (case lbuckets l ip of None \<Rightarrow> \<lparr>attempts = []\<rparr> | Some b \<Rightarrow> b);
          pruned = filter (\<lambda>t. cutoff < t) (attempts b)
      in if int (length pruned) \<ge> maxAttempts l
         then (False, l\<lparr>lbuckets := (lbuckets l)(ip \<mapsto> \<lparr>attempts = pruned\<rparr>)\<rparr>)
         else (True, l\<lparr>lbuckets := (lbuckets l)(ip \<mapsto> \<lparr>attempts = pruned @ [now]\<rparr>)\<rparr>))"

definition Limiter_Reset :: "string \<Rightarrow> Limiter \<Rightarrow> Limiter" where
  "Limiter_Reset ip l = l\<lparr>lbuckets := (lbuckets l)(ip := None)\<rparr>"

section \<open>Lock per user name\<close>

record lockoutEntry =
  failures :: int
  lockedUntil :: nanos
  lastFail :: nanos

record Lockout =
  entries :: "string \<rightharpoonup> lockoutEntry"
  threshold :: int
  lbase :: nanos
  lcap :: nanos
  owindow :: nanos

definition NewLockout :: "int \<Rightarrow> nanos \<Rightarrow> nanos \<Rightarrow> nanos \<Rightarrow> Lockout" where
  "NewLockout th b c w =
     \<lparr>entries = Map.empty, threshold = th, lbase = b, lcap = c, owindow = w\<rparr>"

text \<open>The zero \<open>time.Time\<close> (year 1), which is before every clock value.\<close>

definition zero_time :: nanos where
  "zero_time = - 62135596800 * 1000000000"

definition Allowed :: "nanos \<Rightarrow> string \<Rightarrow> Lockout \<Rightarrow> (bool \<times> nanos) \<times> Lockout" where
  "Allowed now user l =
     (if user = '''' then ((True, zero_time), l)
      else case entries l user of
        None \<Rightarrow> ((True, zero_time), l)
      | Some e \<Rightarrow>
          if now < lockedUntil e then ((False, lockedUntil e), l)
          else if now - lastFail e > owindow l
            then ((True, zero_time), l\<lparr>entries := (entries l)(user := None)\<rparr>)
          else ((True, zero_time), l))"

text \<open>\<^verbatim>\<open>for i := 0; i < step && dur < cap; i++ { dur *= 2 }\<close>\<close>

fun double_upto :: "nanos \<Rightarrow> nat \<Rightarrow> nanos \<Rightarrow> nanos" where
  "double_upto c 0 dur = dur"
| "double_upto c (Suc n) dur = (if dur < c then double_upto c n (2 * dur) else dur)"

text \<open>
  \<open>over / threshold\<close> is a Go division; it is taken on non-negative operands. A zero threshold panics
  there, and has no successor state here; \<open>now\<close> and \<open>now'\<close> are the two clock readings.
\<close>

definition RecordFailure :: "nanos \<Rightarrow> nanos \<Rightarrow> string \<Rightarrow> Lockout \<Rightarrow> Lockout option" where
  "RecordFailure now now' user l =
     (if user = '''' then Some l
      else
        let e = (case entries l user of
                   None \<Rightarrow> \<lparr>failures = 0, lockedUntil = zero_time, lastFail = zero_time\<rparr>
                 | Some e \<Rightarrow> e);
            e1 = e\<lparr>failures := failures e + 1, lastFail := now\<rparr>
        in
          if failures e1 < threshold l then Some (l\<lparr>entries := (entries l)(user \<mapsto> e1)\<rparr>)
          else if threshold l = 0 then None
          else
            let over = failures e1 - threshold l;
                step = over div threshold l;
                dur = double_upto (lcap l) (nat step) (lbase l);
                dur' = (if dur > lcap l then lcap l else dur)
            in Some (l\<lparr>entries := (entries l)(user \<mapsto> e1\<lparr>lockedUntil := now' + dur'\<rparr>)\<rparr>))"

definition RecordSuccess :: "string \<Rightarrow> Lockout \<Rightarrow> Lockout" where
  "RecordSuccess user l =
     (if user = '''' then l else l\<lparr>entries := (entries l)(user := None)\<rparr>)"

section \<open>Client address\<close>

definition trustedProxyIP :: "string \<Rightarrow> bool" where
  "trustedProxyIP remoteAddr =
     (let host = (case SplitHostPort remoteAddr of None \<Rightarrow> remoteAddr | Some (h, _) \<Rightarrow> h)
      in case ParseIP (TrimSpace host) of
           None \<Rightarrow> False
         | Some ip \<Rightarrow> if IsLoopback ip \<or> IsPrivate ip then True else False)"

definition ClientIP :: "request \<Rightarrow> string" where
  "ClientIP r =
     (let trusted = trustedProxyIP (RemoteAddr r);
          xff = Header r ''X-Forwarded-For''; xr = Header r ''X-Real-IP''
      in if trusted \<and> xff \<noteq> '''' then TrimSpace (hd (SplitByte xff CHR '',''))
         else if trusted \<and> xr \<noteq> '''' then TrimSpace xr
         else case SplitHostPort (RemoteAddr r) of
                Some (host, _) \<Rightarrow> host
              | None \<Rightarrow>
                  (case LastIndexByte (RemoteAddr r) CHR '':'' of
                     Some idx \<Rightarrow> take idx (RemoteAddr r)
                   | None \<Rightarrow> RemoteAddr r))"

end
