(* ===== verification/Tokens.thy ===== *)
theory Tokens
  imports Sessions RateLimit
begin

text \<open>
  \<^verbatim>\<open>internal/auth/tokens.go\<close> and the token half of \<^verbatim>\<open>internal/auth/auth.go\<close>: one-shot tickets, the tokens
  of every kind with their issue and verify functions, and the middleware that admits a request.

  The JWT package is a parameter: \<open>sign\<close> is \<open>SignedString\<close> with the service's secret and \<open>jparse now\<close> is
  \<open>jwt.Parse\<close> at clock \<open>now\<close> with the key function of this file (HMAC only), \<open>None\<close> for every error and
  for an invalid token. A claim set is a map to JSON values; numbers are whole seconds, as every issuer
  writes them. Random identifiers are arguments.
\<close>

section \<open>Claims\<close>

datatype json = JStr string | JNum int | JOther

type_synonym claims = "string \<rightharpoonup> json"

text \<open>\<^verbatim>\<open>v, _ := claims[k].(string)\<close> and \<^verbatim>\<open>v, _ := claims[k].(float64)\<close>\<close>

definition str_claim :: "claims \<Rightarrow> string \<Rightarrow> string" where
  "str_claim c k = (case c k of Some (JStr s) \<Rightarrow> s | _ \<Rightarrow> '''')"

definition num_claim :: "claims \<Rightarrow> string \<Rightarrow> int" where
  "num_claim c k = (case c k of Some (JNum n) \<Rightarrow> n | _ \<Rightarrow> 0)"

type_synonym jwt_parse = "nanos \<Rightarrow> string \<Rightarrow> claims option"

section \<open>WebSocket tickets\<close>

definition WSTicketTTL :: nanos where "WSTicketTTL = 60 * second"

record wsTicket =
  wuser :: string
  wjti :: string
  wexpires :: nanos

type_synonym wsTicketStore = "string \<rightharpoonup> wsTicket"

definition IssueWSTicket :: "nanos \<Rightarrow> string \<Rightarrow> string \<Rightarrow> string \<Rightarrow> wsTicketStore \<Rightarrow> wsTicketStore" where
  "IssueWSTicket now t user jti m =
     (keep_vals (\<lambda>v. \<not> wexpires v < now) m)
       (t \<mapsto> \<lparr>wuser = user, wjti = jti, wexpires = now + WSTicketTTL\<rparr>)"

definition ConsumeWSTicket ::
    "nanos \<Rightarrow> string \<Rightarrow> wsTicketStore \<Rightarrow> (string \<times> string) option \<times> wsTicketStore" where
  "ConsumeWSTicket now t m =
     (if t = '''' then (None, m)
      else case m t of
        None \<Rightarrow> (None, m)
      | Some v \<Rightarrow> (if wexpires v < now then None else Some (wuser v, wjti v), m(t := None)))"

section \<open>Pairing tickets\<close>

definition PairingTicketTTL :: nanos where "PairingTicketTTL = 5 * 60 * second"

record pairingTicket =
  puser :: string
  pexpires :: nanos

type_synonym pairingTicketStore = "string \<rightharpoonup> pairingTicket"

definition IssuePairingTicket ::
    "nanos \<Rightarrow> string \<Rightarrow> string \<Rightarrow> pairingTicketStore \<Rightarrow> pairingTicketStore" where
  "IssuePairingTicket now t user m =
     (keep_vals (\<lambda>v. \<not> pexpires v < now) m)(t \<mapsto> \<lparr>puser = user, pexpires = now + PairingTicketTTL\<rparr>)"

definition ConsumePairingTicket ::
    "nanos \<Rightarrow> string \<Rightarrow> pairingTicketStore \<Rightarrow> string option \<times> pairingTicketStore" where
  "ConsumePairingTicket now t m =
     (if t = '''' then (None, m)
      else case m t of
        None \<Rightarrow> (None, m)
      | Some v \<Rightarrow> (if pexpires v < now then None else Some (puser v), m(t := None)))"

section \<open>The service\<close>

text \<open>
  The state the token functions share: the session store if one is attached, and the package's three
  global tables.
\<close>

record auth_state =
  asessions :: "Store option"
  tickets :: wsTicketStore
  pairings :: pairingTicketStore
  seen :: "string \<rightharpoonup> nanos"

record IssueMeta =
  meta_ip :: string
  meta_ua :: string

definition TokenTTL :: nanos where "TokenTTL = 12 * 60 * 60 * second"

definition trimUA :: "string \<Rightarrow> string" where
  "trimUA ua = (if length ua > 200 then take 200 ua @ [CHR 0xE2, CHR 0x80, CHR 0xA6] else ua)"

text \<open>The claims of a session token, and \<open>Issue\<close>; \<open>sign\<close> returns \<open>None\<close> for a signing error.\<close>

definition session_claims :: "nanos \<Rightarrow> string \<Rightarrow> string \<Rightarrow> claims" where
  "session_claims now jti user =
     [''sub'' \<mapsto> JStr user, ''exp'' \<mapsto> JNum (unix (now + TokenTTL)), ''iat'' \<mapsto> JNum (unix now), ''jti'' \<mapsto> JStr jti]"

definition Issue ::
    "(claims \<Rightarrow> string option) \<Rightarrow> nanos \<Rightarrow> string \<Rightarrow> string \<Rightarrow> IssueMeta option \<Rightarrow> auth_state \<Rightarrow>
       (string \<times> string) option \<times> auth_state" where
  "Issue sign now jti user meta st =
     (let ex = unix (now + TokenTTL)
      in case sign (session_claims now jti user) of
           None \<Rightarrow> (None, st)
         | Some tok \<Rightarrow>
             (Some (tok, jti),
              case asessions st of
                None \<Rightarrow> st
              | Some s \<Rightarrow>
                  let x = zero_session\<lparr>JTI := jti, User := user, IssuedAt := unix now,
                            LastSeen := unix now, ExpiresAt := ex\<rparr>;
                      x' = (case meta of None \<Rightarrow> x
                            | Some me \<Rightarrow> x\<lparr>IP := meta_ip me, UserAgent := trimUA (meta_ua me)\<rparr>)
                  in st\<lparr>asessions := Some (Add x' s)\<rparr>))"

section \<open>Tokens with a kind\<close>

text \<open>The claim sets of the other issuers; each is then signed.\<close>

definition setup_claims :: "nanos \<Rightarrow> string \<Rightarrow> nanos \<Rightarrow> claims" where
  "setup_claims now user ttl =
     [''sub'' \<mapsto> JStr user, ''exp'' \<mapsto> JNum (unix (now + ttl)), ''iat'' \<mapsto> JNum (unix now),
      ''kind'' \<mapsto> JStr ''setup'']"

definition recovery_claims :: "nanos \<Rightarrow> string \<Rightarrow> nanos \<Rightarrow> nanos \<Rightarrow> claims" where
  "recovery_claims now user ttl ini =
     [''sub'' \<mapsto> JStr user, ''exp'' \<mapsto> JNum (unix (now + ttl)), ''iat'' \<mapsto> JNum (unix now),
      ''ini'' \<mapsto> JNum (unix ini), ''kind'' \<mapsto> JStr ''recovery'']"

definition invite_claims :: "nanos \<Rightarrow> string \<Rightarrow> string \<Rightarrow> string \<Rightarrow> nanos \<Rightarrow> claims" where
  "invite_claims now jti inviter room ttl =
     [''sub'' \<mapsto> JStr inviter, ''exp'' \<mapsto> JNum (unix (now + ttl)), ''iat'' \<mapsto> JNum (unix now),
      ''jti'' \<mapsto> JStr jti, ''kind'' \<mapsto> JStr ''videocall_invite'', ''room_id'' \<mapsto> JStr room]"

definition guest_claims :: "nanos \<Rightarrow> string \<Rightarrow> string \<Rightarrow> string \<Rightarrow> nanos \<Rightarrow> claims" where
  "guest_claims now jti name room ttl =
     (let name' = (if name = '''' then ''Convidado'' else name)
      in [''sub'' \<mapsto> JStr (''guest:'' @ name'), ''exp'' \<mapsto> JNum (unix (now + ttl)),
          ''iat'' \<mapsto> JNum (unix now), ''jti'' \<mapsto> JStr jti, ''kind'' \<mapsto> JStr ''videocall_guest'',
          ''room_id'' \<mapsto> JStr room])"

definition webAuthnCeremonyTTL :: nanos where "webAuthnCeremonyTTL = 2 * 60 * second"

text \<open>\<open>b64\<close> is \<open>base64.StdEncoding.EncodeToString\<close>.\<close>

definition ceremony_claims ::
    "(string \<Rightarrow> string) \<Rightarrow> nanos \<Rightarrow> string \<Rightarrow> string \<Rightarrow> string \<Rightarrow> string option \<Rightarrow> claims" where
  "ceremony_claims b64 now jti user kd payload =
     (let c0 = [''exp'' \<mapsto> JNum (unix (now + webAuthnCeremonyTTL)), ''iat'' \<mapsto> JNum (unix now),
                ''jti'' \<mapsto> JStr jti, ''kind'' \<mapsto> JStr kd];
          c1 = (if user \<noteq> '''' then c0(''sub'' \<mapsto> JStr user) else c0)
      in case payload of None \<Rightarrow> c1 | Some p \<Rightarrow> c1(''data'' \<mapsto> JStr (b64 p)))"

text \<open>\<open>verifyKindToken\<close>, and through it \<open>VerifySetupToken\<close> and \<open>VerifyRecoveryToken\<close>.\<close>

definition verifyKindToken :: "jwt_parse \<Rightarrow> nanos \<Rightarrow> string \<Rightarrow> string \<Rightarrow> string option" where
  "verifyKindToken jparse now expectKind token =
     (case jparse now token of
        None \<Rightarrow> None
      | Some c \<Rightarrow>
          if str_claim c ''kind'' \<noteq> expectKind then None
          else if str_claim c ''sub'' = '''' then None
          else Some (str_claim c ''sub''))"

definition VerifySetupToken :: "jwt_parse \<Rightarrow> nanos \<Rightarrow> string \<Rightarrow> string option" where
  "VerifySetupToken jparse now token = verifyKindToken jparse now ''setup'' token"

definition VerifyRecoveryToken :: "jwt_parse \<Rightarrow> nanos \<Rightarrow> string \<Rightarrow> string option" where
  "VerifyRecoveryToken jparse now token = verifyKindToken jparse now ''recovery'' token"

definition RecoveryTokenStart :: "jwt_parse \<Rightarrow> nanos \<Rightarrow> string \<Rightarrow> secs option" where
  "RecoveryTokenStart jparse now token =
     (case jparse now token of
        None \<Rightarrow> None
      | Some c \<Rightarrow>
          if 0 < num_claim c ''ini'' then Some (num_claim c ''ini'')
          else if 0 < num_claim c ''iat'' then Some (num_claim c ''iat'')
          else None)"

definition VerifyVideocallGuestToken :: "jwt_parse \<Rightarrow> nanos \<Rightarrow> string \<Rightarrow> (string \<times> string) option" where
  "VerifyVideocallGuestToken jparse now token =
     (case jparse now token of
        None \<Rightarrow> None
      | Some c \<Rightarrow>
          if str_claim c ''kind'' \<noteq> ''videocall_guest'' then None
          else if str_claim c ''room_id'' = '''' then None
          else Some (str_claim c ''room_id'', TrimPrefix (str_claim c ''sub'') ''guest:''))"

definition VerifyVideocallInviteToken :: "jwt_parse \<Rightarrow> nanos \<Rightarrow> string \<Rightarrow> (string \<times> string) option" where
  "VerifyVideocallInviteToken jparse now token =
     (case jparse now token of
        None \<Rightarrow> None
      | Some c \<Rightarrow>
          if str_claim c ''kind'' \<noteq> ''videocall_invite'' then None
          else if str_claim c ''room_id'' = '''' then None
          else Some (str_claim c ''room_id'', str_claim c ''jti''))"

section \<open>Single-use ceremony tokens\<close>

definition consume :: "nanos \<Rightarrow> string \<Rightarrow> nanos \<Rightarrow> (string \<rightharpoonup> nanos) \<Rightarrow> bool \<times> (string \<rightharpoonup> nanos)" where
  "consume now jti ttl u =
     (let u' = keep_vals (\<lambda>e. \<not> e < now) u
      in if u' jti \<noteq> None then (False, u') else (True, u'(jti \<mapsto> now + ttl)))"

text \<open>
  \<open>now\<close> is the clock of \<open>jwt.Parse\<close> and \<open>now'\<close> that of \<open>consume\<close>; \<open>unb64\<close> is \<open>DecodeString\<close>. The
  payload of a token without one is the nil slice, here \<open>None\<close>.
\<close>

definition verifyCeremonyToken ::
    "jwt_parse \<Rightarrow> (string \<Rightarrow> string option) \<Rightarrow> nanos \<Rightarrow> nanos \<Rightarrow> string \<Rightarrow> string \<Rightarrow> auth_state \<Rightarrow>
       (string \<times> string option) option \<times> auth_state" where
  "verifyCeremonyToken jparse unb64 now now' expectKind token st =
     (case jparse now token of
        None \<Rightarrow> (None, st)
      | Some c \<Rightarrow>
          if str_claim c ''kind'' \<noteq> expectKind then (None, st)
          else if str_claim c ''jti'' = '''' then (None, st)
          else
            let (fresh, u) = consume now' (str_claim c ''jti'') webAuthnCeremonyTTL (seen st);
                st' = st\<lparr>seen := u\<rparr>; raw = str_claim c ''data''
            in if \<not> fresh then (None, st')
               else if raw = '''' then (Some (str_claim c ''sub'', None), st')
               else case unb64 raw of
                      None \<Rightarrow> (None, st')
                    | Some p \<Rightarrow> (Some (str_claim c ''sub'', Some p), st'))"

section \<open>Parsing\<close>

definition ParseClaims :: "jwt_parse \<Rightarrow> nanos \<Rightarrow> string \<Rightarrow> claims option" where
  "ParseClaims jparse now token = jparse now token"

definition ExtractJTI :: "jwt_parse \<Rightarrow> nanos \<Rightarrow> string \<Rightarrow> string option" where
  "ExtractJTI jparse now token =
     (case ParseClaims jparse now token of
        None \<Rightarrow> None
      | Some c \<Rightarrow> if str_claim c ''jti'' \<noteq> '''' then Some (str_claim c ''jti'') else None)"

definition ParseWithJTI :: "jwt_parse \<Rightarrow> nanos \<Rightarrow> string \<Rightarrow> (string \<times> string) option" where
  "ParseWithJTI jparse now token =
     (case jparse now token of
        None \<Rightarrow> None
      | Some c \<Rightarrow>
          let k = str_claim c ''kind''
          in if k \<noteq> '''' \<and> k \<noteq> ''session'' then None
             else Some (str_claim c ''sub'', str_claim c ''jti''))"

section \<open>Admitting a request\<close>

definition extractToken :: "request \<Rightarrow> string" where
  "extractToken r =
     (let h = Header r ''Authorization'' in
      if HasPrefix h ''Bearer '' then TrimPrefix h ''Bearer ''
      else if HasPrefix (Path r) ''/ws/'' \<and> Query r ''token'' \<noteq> '''' then Query r ''token''
      else case Cookie r ''vpsm_token'' of Some v \<Rightarrow> v | None \<Rightarrow> '''')"

definition wsTicketAuth :: "nanos \<Rightarrow> request \<Rightarrow> auth_state \<Rightarrow> (string \<times> string) option \<times> auth_state" where
  "wsTicketAuth now r st =
     (if \<not> HasPrefix (Path r) ''/ws/'' then (None, st)
      else if Query r ''ticket'' = '''' then (None, st)
      else
        let (v, m) = ConsumeWSTicket now (Query r ''ticket'') (tickets st); st1 = st\<lparr>tickets := m\<rparr>
        in case v of
             None \<Rightarrow> (None, st1)
           | Some (u, j) \<Rightarrow>
               (case asessions st1 of
                  None \<Rightarrow> (Some (u, j), st1)
                | Some s \<Rightarrow>
                    if j = '''' then (Some (u, j), st1)
                    else
                      let (live, s') = Touch now j s; st2 = st1\<lparr>asessions := Some s'\<rparr>
                      in if \<not> live \<and> HasTombstone j s' then (None, st2) else (Some (u, j), st2)))"

datatype admission = Unauthorized | SessionRevoked | Serve string string

definition Middleware :: "jwt_parse \<Rightarrow> nanos \<Rightarrow> request \<Rightarrow> auth_state \<Rightarrow> admission \<times> auth_state" where
  "Middleware jparse now r st0 =
     (let (tk, st) = wsTicketAuth now r st0 in
      case tk of
        Some (user, jti) \<Rightarrow> (Serve user jti, st)
      | None \<Rightarrow>
          let token = extractToken r in
          if token = '''' then (Unauthorized, st)
          else case ParseWithJTI jparse now token of
            None \<Rightarrow> (Unauthorized, st)
          | Some (sub, jti) \<Rightarrow>
              (case asessions st of
                 None \<Rightarrow> (Serve sub jti, st)
               | Some s \<Rightarrow>
                   if jti = '''' then (Serve sub jti, st)
                   else
                     let (live, s1) = Touch now jti s in
                     if live then (Serve sub jti, st\<lparr>asessions := Some s1\<rparr>)
                     else if HasTombstone jti s1 then (SessionRevoked, st\<lparr>asessions := Some s1\<rparr>)
                     else
                       let c = (case ParseClaims jparse now token of None \<Rightarrow> Map.empty | Some c \<Rightarrow> c);
                           x = \<lparr>JTI = jti, User = sub, IP = ClientIP r,
                                UserAgent = trimUA (Header r ''User-Agent''),
                                IssuedAt = num_claim c ''iat'', LastSeen = unix now,
                                ExpiresAt = num_claim c ''exp'', Revoked = False\<rparr>
                       in (Serve sub jti, st\<lparr>asessions := Some (Add x s1)\<rparr>)))"

definition ExtractWSAuth :: "jwt_parse \<Rightarrow> nanos \<Rightarrow> request \<Rightarrow> auth_state \<Rightarrow> (string \<times> string) \<times> auth_state" where
  "ExtractWSAuth jparse now r st0 =
     (let (tk, st) = wsTicketAuth now r st0 in
      case tk of
        Some (u, j) \<Rightarrow> ((u, j), st)
      | None \<Rightarrow>
          let tok = extractToken r in
          if tok = '''' then (('''', ''''), st)
          else case ParseWithJTI jparse now tok of
                 None \<Rightarrow> (('''', ''''), st)
               | Some (u, j) \<Rightarrow> ((u, j), st))"

text \<open>The admission test of \<open>HandleMobileEventsWS\<close>, before it upgrades the connection.\<close>

definition HandleMobileEventsWS :: "jwt_parse \<Rightarrow> nanos \<Rightarrow> request \<Rightarrow> auth_state \<Rightarrow> admission \<times> auth_state" where
  "HandleMobileEventsWS jparse now r st =
     (let ((user, jti), st') = ExtractWSAuth jparse now r st
      in (if user = '''' then Unauthorized else Serve user jti, st'))"

end
