(* ===== verification/AuthProps.thy ===== *)
theory AuthProps
  imports Tokens
begin

text \<open>
  Properties of the tokens and of the admission of requests: a revoked session is refused for good, a
  token of one kind is accepted by the verifier of that kind only, tickets and ceremony tokens work
  once, and the two places where a revocation does not take effect.
\<close>

section \<open>What the JWT package promises\<close>

text \<open>A token that carries an expiry is accepted only before it.\<close>

definition jwt_checks_expiry :: "jwt_parse \<Rightarrow> bool" where
  "jwt_checks_expiry jparse \<longleftrightarrow>
     (\<forall>now tok c e. jparse now tok = Some c \<longrightarrow> c ''exp'' = Some (JNum e) \<longrightarrow> now < e * second)"

text \<open>The tokens that carry the identifier \<open>jti\<close> all expire at \<open>e\<close> (there is one of them).\<close>

definition jti_expires :: "jwt_parse \<Rightarrow> string \<Rightarrow> secs \<Rightarrow> bool" where
  "jti_expires jparse jti e \<longleftrightarrow>
     (\<forall>now tok c. jparse now tok = Some c \<longrightarrow> str_claim c ''jti'' = jti \<longrightarrow> c ''exp'' = Some (JNum e))"

section \<open>One-shot tickets\<close>

datatype 'v ticket_op = Put nanos string 'v | Take nanos string

fun op_time :: "'v ticket_op \<Rightarrow> nanos" where
  "op_time (Put now t v) = now"
| "op_time (Take now t) = now"

fun op_ticket :: "'v ticket_op \<Rightarrow> string" where
  "op_ticket (Put now t v) = t"
| "op_ticket (Take now t) = t"

fun puts :: "string \<Rightarrow> 'v ticket_op \<Rightarrow> bool" where
  "puts t (Put now k v) = (k = t)"
| "puts t (Take now k) = False"

fun ticket_step ::
    "(nanos \<Rightarrow> string \<Rightarrow> 'v \<Rightarrow> 'm \<Rightarrow> 'm) \<Rightarrow> (nanos \<Rightarrow> string \<Rightarrow> 'm \<Rightarrow> 'v option \<times> 'm) \<Rightarrow> 'v ticket_op \<Rightarrow> 'm \<Rightarrow> 'm" where
  "ticket_step put tk (Put now t v) m = put now t v m"
| "ticket_step put tk (Take now t) m = snd (tk now t m)"

text \<open>
  The contract of a store of one-shot tickets: \<open>held\<close> gives the value and the deadline under a ticket.
  Issuing drops the other tickets whose deadline has passed.
\<close>

locale one_shot_store =
  fixes put :: "nanos \<Rightarrow> string \<Rightarrow> 'v \<Rightarrow> 'm \<Rightarrow> 'm"
    and tk :: "nanos \<Rightarrow> string \<Rightarrow> 'm \<Rightarrow> 'v option \<times> 'm"
    and held :: "'m \<Rightarrow> string \<Rightarrow> ('v \<times> nanos) option"
    and ttl :: nanos
  assumes put_same: "held (put now t v m) t = Some (v, now + ttl)"
    and put_other: "k \<noteq> t \<Longrightarrow> held (put now t v m) k = Option.bind (held m k)
          (\<lambda>(w, e). if e < now then None else Some (w, e))"
    and take_value: "t \<noteq> '''' \<Longrightarrow> fst (tk now t m) = Option.bind (held m t)
          (\<lambda>(w, e). if e < now then None else Some w)"
    and take_same: "t \<noteq> '''' \<Longrightarrow> held (snd (tk now t m)) t = None"
    and take_other: "k \<noteq> t \<Longrightarrow> held (snd (tk now t m)) k = held m k"
begin

lemma spent_step: "t \<noteq> '''' \<Longrightarrow> held m t = None \<Longrightarrow> \<not> puts t p \<Longrightarrow> held (ticket_step put tk p m) t = None"
  by (cases p) (auto simp: put_other intro: take_same, metis take_other take_same)

lemma spent_stays_spent:
  "t \<noteq> '''' \<Longrightarrow> held m t = None \<Longrightarrow> (\<And>p. p \<in> set ps \<Longrightarrow> \<not> puts t p) \<Longrightarrow>
     held (fold (ticket_step put tk) ps m) t = None"
  by (induction ps arbitrary: m) (simp_all add: spent_step)

lemma kept_step:
  "held m t = Some (v, e) \<Longrightarrow> op_ticket p \<noteq> t \<Longrightarrow> op_time p \<le> e \<Longrightarrow>
     held (ticket_step put tk p m) t = Some (v, e)"
  by (cases p) (auto simp: put_other take_other)

lemma kept_until_deadline:
  "held m t = Some (v, e) \<Longrightarrow> (\<And>p. p \<in> set ps \<Longrightarrow> op_ticket p \<noteq> t \<and> op_time p \<le> e) \<Longrightarrow>
     held (fold (ticket_step put tk) ps m) t = Some (v, e)"
  by (induction ps arbitrary: m) (simp_all add: kept_step)

lemma works_once:
  fixes v :: 'v and m :: 'm
  assumes "t \<noteq> ''''" and "\<And>p. p \<in> set ps \<Longrightarrow> op_ticket p \<noteq> t \<and> op_time p \<le> now0 + ttl"
    and "now \<le> now0 + ttl"
  defines "m1 \<equiv> fold (ticket_step put tk) ps (put now0 t v m)"
  shows "fst (tk now t m1) = Some v"
    and "(\<And>p. p \<in> set qs \<Longrightarrow> \<not> puts t p) \<Longrightarrow>
       fst (tk now' t (fold (ticket_step put tk) qs (snd (tk now t m1)))) = None"
proof -
  have "held m1 t = Some (v, now0 + ttl)"
    unfolding m1_def using assms(2) by (intro kept_until_deadline) (simp_all add: put_same)
  then show "fst (tk now t m1) = Some v"
    using assms(1,3) by (simp add: take_value)
  show "fst (tk now' t (fold (ticket_step put tk) qs (snd (tk now t m1)))) = None"
    if "\<And>p. p \<in> set qs \<Longrightarrow> \<not> puts t p"
    using spent_stays_spent [OF assms(1) take_same [OF assms(1)] that] assms(1) by (simp add: take_value)
qed

end

definition put_ws :: "nanos \<Rightarrow> string \<Rightarrow> string \<times> string \<Rightarrow> wsTicketStore \<Rightarrow> wsTicketStore" where
  "put_ws now t v m = IssueWSTicket now t (fst v) (snd v) m"

interpretation ws_tickets: one_shot_store put_ws ConsumeWSTicket
  "\<lambda>m t. map_option (\<lambda>v. ((wuser v, wjti v), wexpires v)) (m t)" WSTicketTTL
  by unfold_locales
    (auto simp: put_ws_def IssueWSTicket_def ConsumeWSTicket_def keep_vals_def split: option.splits)

interpretation pairing_tickets: one_shot_store IssuePairingTicket ConsumePairingTicket
  "\<lambda>m t. map_option (\<lambda>v. (puser v, pexpires v)) (m t)" PairingTicketTTL
  by unfold_locales
    (auto simp: IssuePairingTicket_def ConsumePairingTicket_def keep_vals_def split: option.splits)

text \<open>
  A pairing ticket, whatever happens to the other tickets, is exchanged for its owner's name once
  within its five minutes, and every later attempt with it fails unless it is issued anew.
\<close>
theorem pairing_ticket_works_once:
  assumes "t \<noteq> ''''" and "\<forall>p\<in>set ps. op_ticket p \<noteq> t \<and> op_time p \<le> now0 + PairingTicketTTL"
    and "now \<le> now0 + PairingTicketTTL" and "\<forall>p\<in>set qs. \<not> puts t p"
  defines "run \<equiv> fold (ticket_step IssuePairingTicket ConsumePairingTicket)"
  shows "fst (ConsumePairingTicket now t (run ps (IssuePairingTicket now0 t user m))) = Some user
    \<and> fst (ConsumePairingTicket now' t (run qs (snd (ConsumePairingTicket now t
        (run ps (IssuePairingTicket now0 t user m)))))) = None"
  unfolding run_def using assms by (intro conjI pairing_tickets.works_once) auto

theorem pairing_ticket_works_once_witness:
  "fst (ConsumePairingTicket 250 ''t1'' (IssuePairingTicket 0 ''t1'' ''sam'' Map.empty)) = Some ''sam''
   \<and> fst (ConsumePairingTicket 251 ''t1'' (snd (ConsumePairingTicket 250 ''t1''
        (IssuePairingTicket 0 ''t1'' ''sam'' Map.empty)))) = None"
  using pairing_ticket_works_once [of "''t1''" "[]" 0 250 "[]" "''sam''" Map.empty 251]
  by (simp add: PairingTicketTTL_def second_def)

section \<open>Admission by ticket\<close>

definition ws_request :: "request \<Rightarrow> bool" where
  "ws_request r \<longleftrightarrow> HasPrefix (Path r) ''/ws/'' \<and> Query r ''ticket'' \<noteq> ''''"

lemma wsTicketAuth_spent:
  "fst (ConsumeWSTicket now (Query r ''ticket'') (tickets st)) = None \<Longrightarrow> fst (wsTicketAuth now r st) = None"
  by (auto simp: wsTicketAuth_def split: prod.splits)

lemma wsTicketAuth_valid:
  assumes "ws_request r" and "fst (ConsumeWSTicket now (Query r ''ticket'') (tickets st)) = Some (u, j)"
    and "\<And>s. asessions st = Some s \<Longrightarrow> \<not> HasTombstone j s"
  shows "fst (wsTicketAuth now r st) = Some (u, j)"
    and "tickets (snd (wsTicketAuth now r st)) = snd (ConsumeWSTicket now (Query r ''ticket'') (tickets st))"
proof -
  have "\<not> HasTombstone j (snd (Touch now j s))" if "asessions st = Some s" for s
    using assms(3) [OF that] by (auto simp: Touch_def HasTombstone_def split: option.splits)
  with assms show "fst (wsTicketAuth now r st) = Some (u, j)"
    and "tickets (snd (wsTicketAuth now r st)) = snd (ConsumeWSTicket now (Query r ''ticket'') (tickets st))"
    by (auto simp: wsTicketAuth_def ws_request_def Let_def split: prod.splits option.splits)
qed

text \<open>
  A WebSocket handshake with a ticket is admitted as the user and session that asked for the
  ticket, within its 60 seconds and unless that session has been revoked; the same handshake, with no
  other credential, is refused from then on, whatever other tickets are issued or used and whatever
  becomes of the sessions.
\<close>
theorem ws_ticket_admits_once:
  assumes "ws_request r" and "t = Query r ''ticket''" and "extractToken r = ''''"
    and "\<forall>p\<in>set ps. op_ticket p \<noteq> t \<and> op_time p \<le> now0 + WSTicketTTL"
    and "now \<le> now0 + WSTicketTTL" and "\<forall>p\<in>set qs. \<not> puts t p"
    and "tickets st = fold (ticket_step put_ws ConsumeWSTicket) ps (IssueWSTicket now0 t u j m)"
    and "\<forall>s. asessions st = Some s \<longrightarrow> \<not> HasTombstone j s"
    and "tickets st' = fold (ticket_step put_ws ConsumeWSTicket) qs (tickets (snd (Middleware jparse now r st)))"
  shows "fst (Middleware jparse now r st) = Serve u j \<and> fst (Middleware jparse now' r st') = Unauthorized"
proof -
  have t: "t \<noteq> ''''" using assms(1,2) by (simp add: ws_request_def)
  have m: "tickets st = fold (ticket_step put_ws ConsumeWSTicket) ps (put_ws now0 t (u, j) m)"
    using assms(7) by (simp add: put_ws_def)
  have first: "fst (ConsumeWSTicket now t (tickets st)) = Some (u, j)"
    unfolding m using t assms(4,5) by (intro ws_tickets.works_once(1)) auto
  have auth: "fst (wsTicketAuth now r st) = Some (u, j)"
    "tickets (snd (wsTicketAuth now r st)) = snd (ConsumeWSTicket now t (tickets st))"
    using wsTicketAuth_valid [OF assms(1)] first assms(2,8) by auto
  then have served: "fst (Middleware jparse now r st) = Serve u j"
    "tickets (snd (Middleware jparse now r st)) = snd (ConsumeWSTicket now t (tickets st))"
    by (auto simp: Middleware_def split: prod.splits)
  have "fst (ConsumeWSTicket now' t (tickets st')) = None"
    unfolding assms(9) served(2) m using t assms(4-6) by (intro ws_tickets.works_once(2)) auto
  then have "fst (wsTicketAuth now' r st') = None"
    using wsTicketAuth_spent assms(2) by simp
  then show ?thesis
    using served(1) assms(3) by (auto simp: Middleware_def split: prod.splits)
qed

definition ws_handshake :: request where
  "ws_handshake = (plain_request MethodGet ''/ws/shell'')\<lparr>Query := (\<lambda>k. if k = ''ticket'' then ''tk'' else '''')\<rparr>"

definition ticket_state :: auth_state where
  "ticket_state = \<lparr>asessions = None, tickets = IssueWSTicket 0 ''tk'' ''sam'' ''j1'' Map.empty,
     pairings = Map.empty, seen = Map.empty\<rparr>"

theorem ws_ticket_admits_once_witness:
  "fst (Middleware (\<lambda>_ _. None) 5 ws_handshake ticket_state) = Serve ''sam'' ''j1''
   \<and> fst (Middleware (\<lambda>_ _. None) 6 ws_handshake
        (snd (Middleware (\<lambda>_ _. None) 5 ws_handshake ticket_state))) = Unauthorized"
  by (rule ws_ticket_admits_once [of _ "''tk''" "[]" 0 5 "[]" _ _ _ Map.empty])
    (simp_all add: ws_request_def ws_handshake_def plain_request_def extractToken_def ticket_state_def
      WSTicketTTL_def second_def)

section \<open>Revocation is final\<close>

text \<open>A session is known until it expires: nothing but its expiry removes its row.\<close>

definition known :: "string \<Rightarrow> secs \<Rightarrow> Store \<Rightarrow> bool" where
  "known jti e s \<longleftrightarrow> (case sessions s jti of None \<Rightarrow> False | Some x \<Rightarrow> ExpiresAt x = e)"

lemma known_step:
  assumes "store_step now s s'" and "wf_store s" and "known jti e s" and "unix now \<le> e"
  shows "known jti e s'"
  using assms
proof (induction rule: store_step.induct)
  case (step_restart ks s s')
  then show ?case
    using restart_sessions by (auto simp: known_def expired_row_def keep_vals_def split: option.splits)
qed (auto simp: store_defs known_def expired_row_def split: option.splits if_splits)

lemma known_run:
  assumes "store_run t0 s0 t s" and "wf_store s0" and "known jti e s0" and "unix t \<le> e"
  shows "known jti e s \<and> wf_store s"
  using assms
proof (induction rule: store_run.induct)
  case (run_step t s t' s')
  then have "unix t \<le> e" using unix_mono [of t t'] by simp
  with run_step show ?case using known_step wf_step by blast
qed simp

lemma Revoke_known:
  "known jti e s \<Longrightarrow> jti \<noteq> '''' \<Longrightarrow> tombstone jti e (snd (Revoke now jti s))"
  by (rule Revoke_tombstone) (auto simp: known_def split: option.splits)

lemma Issue_known:
  assumes "Issue sign now jti user meta st = (Some (tok, jti), st')" and "asessions st = Some s0"
    and "asessions st' = Some s1" and "jti \<noteq> ''''" and "sessions s0 jti = None"
  shows "known jti (unix (now + TokenTTL)) s1"
  using assms
  by (auto simp: Issue_def Let_def Add_def known_def zero_session_def split: option.splits)

lemma Issue_wf:
  assumes "Issue sign now jti user meta st = (r, st')" and "asessions st = Some s0"
    and "asessions st' = Some s1" and "wf_store s0"
  shows "wf_store s1"
  using assms by (auto simp: Issue_def Let_def Add_def wf_store_def split: option.splits if_splits)

lemma wsTicketAuth_tombstone:
  assumes "asessions st = Some s" and "tombstone jti e s" and "jti \<noteq> ''''"
  shows "fst (wsTicketAuth now r st) \<noteq> Some (u, jti)"
    and "\<exists>s'. asessions (snd (wsTicketAuth now r st)) = Some s' \<and> tombstone jti e s'"
proof -
  have keep: "tombstone jti e (snd (Touch now k s))" for k
    using assms(2) by (auto simp: tombstone_def Touch_def split: option.splits)
  have dead: "HasTombstone jti s'" "\<not> live" if "Touch now jti s = (live, s')" for live s'
    using tombstone_HasTombstone [OF keep assms(3), of jti] tombstone_Touch [OF assms(2), of now] that by simp_all
  show "fst (wsTicketAuth now r st) \<noteq> Some (u, jti)"
    using assms(1,3) by (auto simp: wsTicketAuth_def Let_def dead(1) dest: dead(2) split: prod.splits option.splits)
  show "\<exists>s'. asessions (snd (wsTicketAuth now r st)) = Some s' \<and> tombstone jti e s'"
    using assms keep
    by (auto simp: wsTicketAuth_def Let_def split: prod.splits option.splits) (metis snd_conv)+
qed

lemma Middleware_tombstone:
  assumes "asessions st = Some s" and "tombstone jti e s" and "jti \<noteq> ''''"
  shows "fst (Middleware jparse now r st) \<noteq> Serve u jti"
proof -
  obtain tkt st1 where tk: "wsTicketAuth now r st = (tkt, st1)" by fastforce
  obtain s1 where s1: "asessions st1 = Some s1" "tombstone jti e s1"
    using wsTicketAuth_tombstone(2) [OF assms, of now r] tk by auto
  have "tkt \<noteq> Some (u, jti)" using wsTicketAuth_tombstone(1) [OF assms, of now r u] tk by simp
  moreover have "fst (Touch now jti s1) = False" "HasTombstone jti (snd (Touch now jti s1))"
    using s1(2) assms(3) tombstone_HasTombstone [OF s1(2) assms(3)]
    by (auto simp: tombstone_def Touch_def)
  ultimately show ?thesis
    using s1 assms(3) by (auto simp: Middleware_def tk Let_def split: prod.splits option.splits)
qed

lemma Middleware_token:
  assumes "fst (wsTicketAuth now r st) = None" and "fst (Middleware jparse now r st) = Serve u jti"
  shows "\<exists>c. jparse now (extractToken r) = Some c \<and> str_claim c ''jti'' = jti"
  using assms
  by (auto simp: Middleware_def ParseWithJTI_def Let_def split: prod.splits option.splits if_splits)


text \<open>A signer and parser for examples: the token is the identifier, with the claims of \<open>Issue\<close> at time 0.\<close>

definition demo_claims :: claims where
  "demo_claims = [''sub'' \<mapsto> JStr ''sam'', ''exp'' \<mapsto> JNum 43200, ''iat'' \<mapsto> JNum 0, ''jti'' \<mapsto> JStr ''j1'']"

definition demo_parse :: jwt_parse where
  "demo_parse now tok = (if tok = ''tok'' \<and> now < 43200 * second then Some demo_claims else None)"

definition demo_state :: "Store \<Rightarrow> auth_state" where
  "demo_state s = \<lparr>asessions = Some s, tickets = Map.empty, pairings = Map.empty, seen = Map.empty\<rparr>"

definition empty_store :: Store where
  "empty_store = \<lparr>sessions = Map.empty, dirty = False, sfile = NoFile\<rparr>"

definition demo_store :: Store where
  "demo_store = Add (zero_session\<lparr>JTI := ''j1'', User := ''sam'', ExpiresAt := 43200\<rparr>) empty_store"

definition bearer :: request where
  "bearer = (plain_request MethodGet ''/api/me'')
     \<lparr>Header := (\<lambda>k. if k = ''Authorization'' then ''Bearer tok'' else '''')\<rparr>"

lemma demo_expiry: "jwt_checks_expiry demo_parse"
  by (auto simp: jwt_checks_expiry_def demo_parse_def demo_claims_def split: if_splits)

lemma demo_jti: "jti_expires demo_parse ''j1'' 43200"
  by (auto simp: jti_expires_def demo_parse_def demo_claims_def split: if_splits)

lemma empty_store_wf: "wf_store empty_store"
  by (simp add: empty_store_def wf_store_def)

lemma empty_store_none: "sessions empty_store ''j1'' = None"
  by (simp add: empty_store_def)

lemma demo_Issue:
  "Issue (\<lambda>_. Some ''tok'') 0 ''j1'' ''sam'' None (demo_state empty_store) = (Some (''tok'', ''j1''), demo_state demo_store)"
  by (simp add: Issue_def demo_state_def demo_store_def empty_store_def Let_def TokenTTL_def second_def
      unix_def zero_session_def)


section \<open>Where a revocation does not take effect\<close>

text \<open>
  The handler of \<^verbatim>\<open>/ws/mobile-events\<close> stands outside the middleware and admits the token of a revoked
  session: for the same request and state, the middleware answers that the session is revoked and the
  handler serves its user.
\<close>
theorem mobile_events_admit_revoked:
  assumes "asessions st = Some s" and "HasTombstone jti s" and "Query r ''ticket'' = ''''"
    and "extractToken r \<noteq> ''''" and "ParseWithJTI jparse now (extractToken r) = Some (user, jti)" and "user \<noteq> ''''"
  shows "fst (Middleware jparse now r st) = SessionRevoked
    \<and> fst (HandleMobileEventsWS jparse now r st) = Serve user jti"
proof -
  have "wsTicketAuth now r st = (None, st)" using assms(3) by (simp add: wsTicketAuth_def)
  moreover have "jti \<noteq> ''''" "Touch now jti s = (False, s)"
    using assms(2) by (auto simp: HasTombstone_def Touch_def split: option.splits)
  ultimately show ?thesis
    using assms by (simp add: Middleware_def HandleMobileEventsWS_def ExtractWSAuth_def)
qed

definition ws_cookie :: request where
  "ws_cookie = (plain_request MethodGet ''/ws/mobile-events'')
     \<lparr>Cookie := (\<lambda>k. if k = ''vpsm_token'' then Some ''tok'' else None)\<rparr>"

theorem mobile_events_admit_revoked_witness:
  "fst (Middleware demo_parse 7 ws_cookie (demo_state (snd (Revoke 6 ''j1'' demo_store)))) = SessionRevoked
   \<and> fst (HandleMobileEventsWS demo_parse 7 ws_cookie (demo_state (snd (Revoke 6 ''j1'' demo_store)))) =
       Serve ''sam'' ''j1''"
  by (rule mobile_events_admit_revoked [where s = "snd (Revoke 6 ''j1'' demo_store)"])
    (simp_all add: demo_state_def demo_store_def empty_store_def Add_def Revoke_def zero_session_def
      HasTombstone_def ws_cookie_def plain_request_def extractToken_def HasPrefix_def ParseWithJTI_def
      demo_parse_def demo_claims_def str_claim_def second_def)

definition ticks :: "(string list \<times> bool) list \<Rightarrow> Store \<Rightarrow> Store" where
  "ticks fs s = fold (\<lambda>(ks, ok). flush ks ok) fs s"

lemma ticks_clean: "\<not> dirty s \<Longrightarrow> ticks fs s = s"
  by (induction fs arbitrary: s) (auto simp: ticks_def flush_def)



section \<open>Kinds of tokens\<close>

text \<open>The verifiers of the program that accept a token, by name.\<close>

definition acceptors :: "jwt_parse \<Rightarrow> (string \<Rightarrow> string option) \<Rightarrow> nanos \<Rightarrow> auth_state \<Rightarrow> string \<Rightarrow> string list" where
  "acceptors jparse unb64 now st tok =
     map fst (filter snd
       [(''session'', ParseWithJTI jparse now tok \<noteq> None),
        (''setup'', VerifySetupToken jparse now tok \<noteq> None),
        (''recovery'', VerifyRecoveryToken jparse now tok \<noteq> None),
        (''videocall_invite'', VerifyVideocallInviteToken jparse now tok \<noteq> None),
        (''videocall_guest'', VerifyVideocallGuestToken jparse now tok \<noteq> None),
        (''webauthn_reg'', fst (verifyCeremonyToken jparse unb64 now now ''webauthn_reg'' tok st) \<noteq> None),
        (''webauthn_reg_session'', fst (verifyCeremonyToken jparse unb64 now now ''webauthn_reg_session'' tok st) \<noteq> None),
        (''webauthn_login_session'',
          fst (verifyCeremonyToken jparse unb64 now now ''webauthn_login_session'' tok st) \<noteq> None)])"

lemmas verifier_defs = acceptors_def ParseWithJTI_def VerifySetupToken_def VerifyRecoveryToken_def
  verifyKindToken_def VerifyVideocallInviteToken_def VerifyVideocallGuestToken_def verifyCeremonyToken_def
  str_claim_def Let_def

lemma consume_fresh: "u jti = None \<Longrightarrow> fst (consume now jti ttl u)"
  by (simp add: consume_def keep_vals_def Let_def)

lemma ceremony_str:
  "str_claim (ceremony_claims b64 i jti user kd payload) ''kind'' = kd"
  "str_claim (ceremony_claims b64 i jti user kd payload) ''jti'' = jti"
  "str_claim (ceremony_claims b64 i jti user kd payload) ''data'' = (case payload of None \<Rightarrow> '''' | Some p \<Rightarrow> b64 p)"
  by (simp_all add: ceremony_claims_def str_claim_def Let_def split: option.splits)

lemma verifyCeremony_kind:
  assumes "jparse now tok = Some (ceremony_claims b64 i jti user kd payload)" and "jti \<noteq> ''''"
    and "seen st jti = None" and "\<And>p. unb64 (b64 p) = Some p"
  shows "fst (verifyCeremonyToken jparse unb64 now now kd' tok st) \<noteq> None \<longleftrightarrow> kd' = kd"
proof -
  have "fst (consume now jti webAuthnCeremonyTTL (seen st))"
    using assms(3) by (rule consume_fresh)
  then show ?thesis
    using assms by (auto simp: verifyCeremonyToken_def ceremony_str Let_def split: prod.splits option.splits)
qed

lemma acceptors_ceremony:
  assumes "jparse now tok = Some (ceremony_claims b64 i jti user kd payload)" and "jti \<noteq> ''''"
    and "seen st jti = None" and "\<And>p. unb64 (b64 p) = Some p"
    and "kd \<in> set [''webauthn_reg'', ''webauthn_reg_session'', ''webauthn_login_session'']"
  shows "acceptors jparse unb64 now st tok = [kd]"
proof -
  have v: "fst (verifyCeremonyToken jparse unb64 now now k tok st) \<noteq> None \<longleftrightarrow> k = kd" for k
    using assms(1-4) by (rule verifyCeremony_kind)
  have "kd = ''webauthn_reg'' \<or> kd = ''webauthn_reg_session'' \<or> kd = ''webauthn_login_session''"
    using assms(5) by simp
  then show ?thesis
    unfolding acceptors_def v using assms(1)
    by (elim disjE) (simp_all add: ParseWithJTI_def VerifySetupToken_def VerifyRecoveryToken_def verifyKindToken_def
        VerifyVideocallInviteToken_def VerifyVideocallGuestToken_def ceremony_str)
qed

text \<open>
  C34. All tokens are signed with one secret, and each is accepted by the verifier of its own kind and by
  no other: a session token opens the API and nothing else; setup, recovery, call invitation, call guest
  and passkey ceremony tokens never open the API and never stand in for one another.
\<close>
theorem token_kinds_separate:
  assumes "\<forall>p. unb64 (b64 p) = Some p" and "user \<noteq> ''''" and "room \<noteq> ''''" and "jti \<noteq> ''''"
    and "seen st jti = None"
    and "kd \<in> set [''webauthn_reg'', ''webauthn_reg_session'', ''webauthn_login_session'']"
  shows "(jparse now tok = Some (session_claims i jti user) \<longrightarrow> acceptors jparse unb64 now st tok = [''session''])
    \<and> (jparse now tok = Some (setup_claims i user ttl) \<longrightarrow> acceptors jparse unb64 now st tok = [''setup''])
    \<and> (jparse now tok = Some (recovery_claims i user ttl ini) \<longrightarrow> acceptors jparse unb64 now st tok = [''recovery''])
    \<and> (jparse now tok = Some (invite_claims i jti user room ttl) \<longrightarrow>
         acceptors jparse unb64 now st tok = [''videocall_invite''])
    \<and> (jparse now tok = Some (guest_claims i jti name room ttl) \<longrightarrow>
         acceptors jparse unb64 now st tok = [''videocall_guest''])
    \<and> (jparse now tok = Some (ceremony_claims b64 i jti sub kd payload) \<longrightarrow>
         acceptors jparse unb64 now st tok = [kd])"
proof (intro conjI impI)
  assume "jparse now tok = Some (ceremony_claims b64 i jti sub kd payload)"
  then show "acceptors jparse unb64 now st tok = [kd]"
    using assms by (intro acceptors_ceremony) auto
qed (use assms(2,3) in \<open>simp_all add: verifier_defs session_claims_def setup_claims_def recovery_claims_def
      invite_claims_def guest_claims_def\<close>)

theorem token_kinds_separate_witness:
  "acceptors (\<lambda>_ _. Some (recovery_claims 0 ''sam'' 1800 0)) Some 5 (demo_state empty_store) ''t'' = [''recovery'']"
  using token_kinds_separate [of Some id "''sam''" "''room''" "''j''" "demo_state empty_store" "''webauthn_reg''"
      "\<lambda>_ _. Some (recovery_claims 0 ''sam'' 1800 0)" 5 "''t''" 0 1800 0]
  by (simp add: demo_state_def)

section \<open>Ceremony tokens work once\<close>

record ceremony_call =
  ctime :: nanos
  ctime' :: nanos
  ckind :: string
  ctoken :: string

definition ceremony_step ::
    "jwt_parse \<Rightarrow> (string \<Rightarrow> string option) \<Rightarrow> ceremony_call \<Rightarrow> auth_state \<Rightarrow> auth_state" where
  "ceremony_step jparse unb64 c st =
     snd (verifyCeremonyToken jparse unb64 (ctime c) (ctime' c) (ckind c) (ctoken c) st)"

lemma consume_keeps:
  "u j = Some e \<Longrightarrow> now \<le> e \<Longrightarrow> snd (consume now k ttl u) j = Some e"
  by (auto simp: consume_def keep_vals_def Let_def)

lemma ceremony_step_keeps:
  assumes "seen st jti = Some e" and "ctime' c \<le> e"
  shows "seen (ceremony_step jparse unb64 c st) jti = Some e"
  using assms consume_keeps
  by (auto simp: ceremony_step_def verifyCeremonyToken_def Let_def split: option.splits prod.splits)
    (metis snd_conv)+

lemma ceremony_steps_keep:
  "seen st jti = Some e \<Longrightarrow> (\<And>c. c \<in> set cs \<Longrightarrow> ctime' c \<le> e) \<Longrightarrow>
     seen (fold (ceremony_step jparse unb64) cs st) jti = Some e"
  by (induction cs arbitrary: st) (simp_all add: ceremony_step_keeps)

lemma verify_consumes:
  assumes "verifyCeremonyToken jparse unb64 t t' kd tok st = (Some v, st')" and "jparse t tok = Some c"
  shows "seen st' (str_claim c ''jti'') = Some (t' + webAuthnCeremonyTTL)"
  using assms by (auto simp: verifyCeremonyToken_def consume_def Let_def split: option.splits prod.splits if_splits)

lemma verify_seen_fails:
  assumes "jparse t tok = Some c" and "seen st (str_claim c ''jti'') = Some e" and "t' \<le> e"
  shows "fst (verifyCeremonyToken jparse unb64 t t' kd tok st) = None"
  using assms by (auto simp: verifyCeremonyToken_def consume_def keep_vals_def Let_def split: option.splits prod.splits)

text \<open>
  A ceremony token that \<open>issueCeremonyToken\<close> made and that has been verified once is refused at
  every later time, whatever other ceremony tokens are verified in between: the record of its use
  outlives the token. The clock is read twice, for the expiry (\<open>n\<close>) and for the use record (\<open>n'\<close>); the
  delay between the readings is assumed to be at most the token's age at its first use.
\<close>
theorem ceremony_token_single_use:
  assumes "jwt_checks_expiry jparse"
    and "\<forall>t c. jparse t tok = Some c \<longrightarrow> c = ceremony_claims b64 i jti user kd payload"
    and "verifyCeremonyToken jparse unb64 t t' kd tok st = (Some v, st1)"
    and "\<forall>c\<in>set cs. ctime' c \<le> n'" and "n' \<le> n + (t' - i)"
  shows "fst (verifyCeremonyToken jparse unb64 n n' kd' tok (fold (ceremony_step jparse unb64) cs st1)) = None"
proof (cases "jparse n tok")
  case None
  then show ?thesis by (simp add: verifyCeremonyToken_def)
next
  case (Some c)
  then have c: "c = ceremony_claims b64 i jti user kd payload" using assms(2) by blast
  then have exp: "c ''exp'' = Some (JNum (unix (i + webAuthnCeremonyTTL)))" and j: "str_claim c ''jti'' = jti"
    by (auto simp: ceremony_claims_def str_claim_def Let_def split: option.splits)
  have "n < unix (i + webAuthnCeremonyTTL) * second"
    using assms(1) Some exp by (simp add: jwt_checks_expiry_def)
  also have "\<dots> \<le> i + webAuthnCeremonyTTL"
    by (simp add: unix_def second_def)
  finally have late: "n' \<le> t' + webAuthnCeremonyTTL" using assms(5) by simp
  obtain c1 where "jparse t tok = Some c1"
    using assms(3) by (auto simp: verifyCeremonyToken_def split: option.splits)
  with assms(2) c have "jparse t tok = Some c" by blast
  then have "seen st1 jti = Some (t' + webAuthnCeremonyTTL)"
    using verify_consumes [OF assms(3)] j by simp
  then have "seen (fold (ceremony_step jparse unb64) cs st1) jti = Some (t' + webAuthnCeremonyTTL)"
    using late assms(4) by (intro ceremony_steps_keep) auto
  then show ?thesis using verify_seen_fails [of jparse n tok c] Some late j by blast
qed

definition demo_ceremony :: jwt_parse where
  "demo_ceremony now tok = (if tok = ''c1'' \<and> now < 120 * second
     then Some (ceremony_claims id 0 ''j9'' ''sam'' ''webauthn_reg'' None) else None)"

theorem ceremony_token_single_use_witness:
  "\<exists>st1. verifyCeremonyToken demo_ceremony Some 5 5 ''webauthn_reg'' ''c1'' (demo_state empty_store) =
       (Some (''sam'', None), st1)
     \<and> fst (verifyCeremonyToken demo_ceremony Some 9 9 ''webauthn_reg'' ''c1''
         (fold (ceremony_step demo_ceremony Some)
            [\<lparr>ctime = 7, ctime' = 7, ckind = ''webauthn_reg'', ctoken = ''c2''\<rparr>] st1)) = None"
proof -
  let ?cs = "[\<lparr>ctime = 7, ctime' = 7, ckind = ''webauthn_reg'', ctoken = ''c2''\<rparr>]"
  have x: "jwt_checks_expiry demo_ceremony"
    by (auto simp: jwt_checks_expiry_def demo_ceremony_def ceremony_claims_def webAuthnCeremonyTTL_def second_def
        unix_def split: if_splits)
  have o: "\<forall>t c. demo_ceremony t ''c1'' = Some c \<longrightarrow> c = ceremony_claims id 0 ''j9'' ''sam'' ''webauthn_reg'' None"
    by (auto simp: demo_ceremony_def split: if_splits)
  obtain st1 where v: "verifyCeremonyToken demo_ceremony Some 5 5 ''webauthn_reg'' ''c1'' (demo_state empty_store) =
      (Some (''sam'', None), st1)"
    by (simp add: verifyCeremonyToken_def demo_ceremony_def ceremony_claims_def second_def str_claim_def
        consume_def keep_vals_def demo_state_def)
  have "fst (verifyCeremonyToken demo_ceremony Some 9 9 ''webauthn_reg'' ''c1''
      (fold (ceremony_step demo_ceremony Some) ?cs st1)) = None"
    by (rule ceremony_token_single_use [OF x o v]) simp_all
  with v show ?thesis by blast
qed

end
