(* ===== verification/RateLimitProps.thy ===== *)
theory RateLimitProps
  imports RateLimit
begin

text \<open>
  Properties of the limiter, the lock and the client address: no window between two resets holds more accepted
  attempts than configured and nothing else is refused, the lock doubles up to its cap, and a peer on
  a public address cannot choose the address it is counted under.
\<close>

section \<open>The window bound\<close>

datatype limiter_call = CallAllow nanos string | CallReset string

type_synonym limiter_trace = "(nanos \<times> string \<times> bool) list"

fun limiter_step :: "limiter_call \<Rightarrow> Limiter \<times> limiter_trace \<Rightarrow> Limiter \<times> limiter_trace" where
  "limiter_step (CallAllow now ip) (l, tr) =
     (let (ok, l') = Allow now ip l in (l', tr @ [(now, ip, ok)]))"
| "limiter_step (CallReset ip) (l, tr) = (Limiter_Reset ip l, tr)"

definition limiter_run :: "Limiter \<Rightarrow> limiter_call list \<Rightarrow> Limiter \<times> limiter_trace" where
  "limiter_run l0 cs = fold limiter_step cs (l0, [])"

definition accepted :: "string \<Rightarrow> limiter_trace \<Rightarrow> nanos list" where
  "accepted k tr = map fst (filter (\<lambda>(t, ip, ok). ip = k \<and> ok) tr)"

definition stored :: "string \<Rightarrow> Limiter \<Rightarrow> nanos list" where
  "stored k l = (case lbuckets l k of None \<Rightarrow> [] | Some b \<Rightarrow> attempts b)"

fun call_times :: "limiter_call list \<Rightarrow> nanos list" where
  "call_times [] = []"
| "call_times (CallAllow t ip # cs) = t # call_times cs"
| "call_times (CallReset ip # cs) = call_times cs"

lemma call_times_append [simp]: "call_times (cs @ ds) = call_times cs @ call_times ds"
  by (induction cs rule: call_times.induct) auto

lemma accepted_snoc [simp]:
  "accepted k (tr @ [(t, ip, ok)]) = accepted k tr @ (if ip = k \<and> ok then [t] else [])"
  by (simp add: accepted_def)

lemma Allow_verdict:
  "fst (Allow now ip l) \<longleftrightarrow>
     int (length (filter (\<lambda>t. now - lwindow l < t) (stored ip l))) < maxAttempts l"
  by (auto simp: Allow_def stored_def Let_def split: option.splits)

lemma Allow_stored:
  "stored k (snd (Allow now ip l)) =
     (if k = ip then filter (\<lambda>t. now - lwindow l < t) (stored k l) @ (if fst (Allow now ip l) then [now] else [])
      else stored k l)"
  by (auto simp: Allow_def stored_def Let_def split: option.splits)

lemma Allow_config [simp]:
  "maxAttempts (snd (Allow now ip l)) = maxAttempts l" "lwindow (snd (Allow now ip l)) = lwindow l"
  by (simp_all add: Allow_def Let_def)

lemma Reset_simps [simp]:
  "maxAttempts (Limiter_Reset ip l) = maxAttempts l" "lwindow (Limiter_Reset ip l) = lwindow l"
  "stored k (Limiter_Reset ip l) = (if k = ip then [] else stored k l)"
  by (simp_all add: Limiter_Reset_def stored_def)

lemma limiter_run_snoc:
  "limiter_run l0 (cs @ [c]) = limiter_step c (limiter_run l0 cs)"
  by (simp add: limiter_run_def)

text \<open>
  The invariant: for every time from the last call on, the recent part of the stored attempts is the
  recent part of the accepted ones.
\<close>

definition limiter_inv :: "Limiter \<Rightarrow> int \<Rightarrow> nanos \<Rightarrow> string \<Rightarrow> limiter_call list \<Rightarrow> bool" where
  "limiter_inv l0 m w k cs \<longleftrightarrow>
     (let (l, tr) = limiter_run l0 cs in
        maxAttempts l = m \<and> lwindow l = w
        \<and> (\<forall>t. (\<forall>s\<in>set (call_times cs). s \<le> t) \<longrightarrow>
             filter (\<lambda>s. t - w < s) (stored k l) = filter (\<lambda>s. t - w < s) (accepted k tr))
        \<and> (0 \<le> m \<longrightarrow>
             (\<forall>t. int (length (filter (\<lambda>s. t - w < s \<and> s \<le> t) (accepted k tr))) \<le> m)))"

lemma length_filter_mono: "(\<And>x. P x \<Longrightarrow> Q x) \<Longrightarrow> length (filter P xs) \<le> length (filter Q xs)"
  by (induction xs) auto

lemma limiter_inv_run:
  assumes "stored k l0 = []" "maxAttempts l0 = m" "lwindow l0 = w"
  shows "CallReset k \<notin> set cs \<Longrightarrow> sorted (call_times cs) \<Longrightarrow> limiter_inv l0 m w k cs"
proof (induction cs rule: rev_induct)
  case Nil
  show ?case
    using assms by (simp add: limiter_inv_def limiter_run_def accepted_def)
next
  case (snoc c cs)
  obtain l tr where run: "limiter_run l0 cs = (l, tr)" by fastforce
  have prev: "maxAttempts l = m" "lwindow l = w"
    and rec: "\<And>t. (\<forall>s\<in>set (call_times cs). s \<le> t) \<Longrightarrow>
       filter (\<lambda>s. t - w < s) (stored k l) = filter (\<lambda>s. t - w < s) (accepted k tr)"
    and bnd: "\<And>t. 0 \<le> m \<Longrightarrow> int (length (filter (\<lambda>s. t - w < s \<and> s \<le> t) (accepted k tr))) \<le> m"
    using snoc by (auto simp: limiter_inv_def run sorted_append)
  show ?case
  proof (cases c)
    case (CallReset ip)
    then show ?thesis
      using snoc.prems(1) prev rec bnd
      by (auto simp: limiter_inv_def limiter_run_snoc run)
  next
    case (CallAllow now ip)
    have before: "\<forall>s\<in>set (call_times cs). s \<le> now"
      using snoc.prems(2) CallAllow by (simp add: sorted_append)
    obtain ok l' where al: "Allow now ip l = (ok, l')" by fastforce
    have l': "maxAttempts l' = m" "lwindow l' = w"
      using Allow_config [of now ip l] al prev by simp_all
    have st: "stored k l' = (if k = ip then filter (\<lambda>t. now - w < t) (stored k l) @ (if ok then [now] else [])
        else stored k l)"
      using Allow_stored [of k now ip l] al prev by simp
    have verdict: "ok \<longleftrightarrow> int (length (filter (\<lambda>t. now - w < t) (accepted k tr))) < m" if "k = ip"
      using Allow_verdict [of now ip l] al prev that rec [OF before] by simp
    have recent: "filter (\<lambda>s. t - w < s) (stored k l') =
        filter (\<lambda>s. t - w < s) (accepted k (tr @ [(now, ip, ok)]))"
      if t: "\<forall>s\<in>set (call_times (cs @ [c])). s \<le> t" for t
    proof -
      have "now \<le> t" "\<forall>s\<in>set (call_times cs). s \<le> t" using t CallAllow by auto
      moreover from \<open>now \<le> t\<close> have "filter (\<lambda>x. now - w < x \<and> t - w < x) xs = filter (\<lambda>x. t - w < x) xs" for xs
        by (intro filter_cong) auto
      ultimately show ?thesis
        using rec [of t] by (auto simp: st)
    qed
    have bound: "int (length (filter (\<lambda>s. t - w < s \<and> s \<le> t) (accepted k (tr @ [(now, ip, ok)])))) \<le> m"
      if "0 \<le> m" for t
    proof (cases "ip = k \<and> ok \<and> t - w < now \<and> now \<le> t")
      case True
      have "length (filter (\<lambda>s. t - w < s \<and> s \<le> t) (accepted k tr))
          \<le> length (filter (\<lambda>s. now - w < s) (accepted k tr))"
        using True by (intro length_filter_mono) auto
      then show ?thesis using True verdict by auto
    next
      case False
      then show ?thesis using bnd [OF that, of t] by auto
    qed
    show ?thesis
      using l' recent bound by (simp add: limiter_inv_def limiter_run_snoc run CallAllow al)
  qed
qed

text \<open>
  C33. Between two resets of an address (a successful login resets it), with a non-decreasing clock: from the creation of the
  limiter or a reset of the address, in any state of the other addresses, and as long as the address is not reset again, every window
  of the configured length holds at most the configured number of accepted attempts from that address, and the next attempt is
  accepted exactly when fewer than that number were accepted in the window that ends with it: calls from other addresses, their
  resets and refused attempts do not count.
\<close>
theorem limiter_window_bound:
  fixes w :: nanos
  assumes "l0 = NewLimiter m w \<or> l0 = Limiter_Reset k l1 \<and> maxAttempts l1 = m \<and> lwindow l1 = w"
    and "CallReset k \<notin> set cs" and "sorted (call_times cs)" and "0 \<le> m"
    and "\<forall>s\<in>set (call_times cs). s \<le> now"
  defines "l \<equiv> fst (limiter_run l0 cs)" and "acc \<equiv> accepted k (snd (limiter_run l0 cs))"
  shows "int (length (filter (\<lambda>s. t - w < s \<and> s \<le> t) acc)) \<le> m
    \<and> (fst (Allow now k l) \<longleftrightarrow> int (length (filter (\<lambda>s. now - w < s) acc)) < m)"
proof -
  have "stored k l0 = []" "maxAttempts l0 = m" "lwindow l0 = w"
    using assms(1) by (auto simp: NewLimiter_def) (simp add: stored_def)
  then show ?thesis
    using limiter_inv_run [of k l0 m w cs, OF _ _ _ assms(2,3)] assms(4,5)
    by (auto simp: limiter_inv_def l_def acc_def Allow_verdict split: prod.splits)
qed

definition reset_start :: Limiter where
  "reset_start = Limiter_Reset ''a'' (fst (limiter_run (NewLimiter 2 60) [CallAllow 0 ''a'', CallAllow 1 ''a'']))"

definition after_reset :: "limiter_call list" where
  "after_reset = [CallAllow 1 ''a'', CallAllow 2 ''b'', CallReset ''b'', CallAllow 3 ''a'', CallAllow 4 ''a'']"

theorem limiter_window_bound_witness:
  "int (length (filter (\<lambda>s. 60 - 60 < s \<and> s \<le> 60) (accepted ''a'' (snd (limiter_run reset_start after_reset))))) \<le> 2
   \<and> \<not> fst (Allow 60 ''a'' (fst (limiter_run reset_start after_reset)))"
proof -
  let ?l1 = "fst (limiter_run (NewLimiter 2 60) [CallAllow 0 ''a'', CallAllow 1 ''a''])"
  have h: "reset_start = NewLimiter 2 60 \<or> reset_start = Limiter_Reset ''a'' ?l1 \<and> maxAttempts ?l1 = 2 \<and> lwindow ?l1 = 60"
    by (simp add: reset_start_def limiter_run_def NewLimiter_def Allow_def)
  have c: "CallReset ''a'' \<notin> set after_reset" "sorted (call_times after_reset)" "(0::int) \<le> 2"
    "\<forall>s\<in>set (call_times after_reset). s \<le> 60"
    by (simp_all add: after_reset_def)
  have "accepted ''a'' (snd (limiter_run reset_start after_reset)) = [1, 3]"
    by (simp add: reset_start_def after_reset_def limiter_run_def NewLimiter_def Allow_def Limiter_Reset_def accepted_def)
  then show ?thesis
    using limiter_window_bound [where t = 60, OF h c] by simp
qed

text \<open>
  A reset starts the count again: two attempts, a successful login, and two more are accepted in a window that would hold two.
\<close>
lemma reset_starts_again:
  "accepted ''a'' (snd (limiter_run (NewLimiter 2 60)
     [CallAllow 1 ''a'', CallAllow 2 ''a'', CallReset ''a'', CallAllow 3 ''a'', CallAllow 4 ''a''])) = [1, 2, 3, 4]"
  by (simp add: limiter_run_def NewLimiter_def Allow_def Limiter_Reset_def accepted_def)

section \<open>The lock\<close>

lemma double_upto_closed:
  assumes "0 < b"
  shows "min c (double_upto c n b) = min c (b * 2 ^ n)"
  using assms
proof (induction n arbitrary: b)
  case (Suc n)
  show ?case
  proof (cases "b < c")
    case True
    with Suc.IH [of "2 * b"] Suc.prems show ?thesis by (simp add: ac_simps)
  next
    case False
    have "b * 1 \<le> b * 2 ^ Suc n" using Suc.prems by (intro mult_left_mono one_le_power) auto
    with False show ?thesis by (simp add: min_def)
  qed
qed simp

fun record_failures :: "string \<Rightarrow> (nanos \<times> nanos) list \<Rightarrow> Lockout \<Rightarrow> Lockout option" where
  "record_failures user [] l = Some l"
| "record_failures user ((a, b) # ts) l = Option.bind (RecordFailure a b user l) (record_failures user ts)"

lemma record_failures_snoc:
  "record_failures user (ts @ [(a, b)]) l =
     Option.bind (record_failures user ts l) (RecordFailure a b user)"
  by (induction user ts l rule: record_failures.induct) (auto split: bind_splits)

definition lock_duration :: "Lockout \<Rightarrow> nat \<Rightarrow> nanos" where
  "lock_duration l n = min (lcap l) (lbase l * 2 ^ nat ((int n - threshold l) div threshold l))"

lemma RecordFailure_some:
  assumes "user \<noteq> ''''" and "0 < threshold l" and "0 < lbase l"
    and "entries l user = Some e \<or> entries l user = None \<and> e = \<lparr>failures = 0, lockedUntil = zero_time, lastFail = zero_time\<rparr>"
    and "failures e = int n"
  shows "RecordFailure a b user l = Some (l\<lparr>entries := (entries l)(user \<mapsto>
      \<lparr>failures = int (Suc n),
       lockedUntil = (if int (Suc n) < threshold l then lockedUntil e else b + lock_duration l (Suc n)),
       lastFail = a\<rparr>)\<rparr>)"
proof -
  have "(if d > lcap l then lcap l else d) = lock_duration l (Suc n)"
    if "d = double_upto (lcap l) (nat ((int n + 1 - threshold l) div threshold l)) (lbase l)" for d
  proof -
    have "(if d > lcap l then lcap l else d) = min (lcap l) d" by (simp add: min_def)
    then show ?thesis using that double_upto_closed [OF assms(3)]
      by (simp add: lock_duration_def add.commute [of 1])
  qed
  moreover have "e = \<lparr>failures = int n, lockedUntil = lockedUntil e, lastFail = lastFail e\<rparr>"
    using assms(5) by simp
  ultimately show ?thesis
    using assms(1-4) by (cases e) (auto simp: RecordFailure_def Let_def add.commute [of 1])
qed

lemma record_failures_state:
  assumes "user \<noteq> ''''" and "0 < th" and "0 < b"
  shows "ts \<noteq> [] \<Longrightarrow> \<exists>l. record_failures user ts (NewLockout th b c w) = Some l
     \<and> threshold l = th \<and> lbase l = b \<and> lcap l = c \<and> owindow l = w
     \<and> entries l user = Some \<lparr>failures = int (length ts),
          lockedUntil = (if int (length ts) < th then zero_time
             else snd (last ts) + min c (b * 2 ^ nat ((int (length ts) - th) div th))),
          lastFail = fst (last ts)\<rparr>"
proof (induction ts rule: rev_induct)
  case (snoc t ts)
  obtain a d where t: "t = (a, d)" by fastforce
  show ?case
  proof (cases "ts = []")
    case True
    then show ?thesis
      using assms RecordFailure_some [of user "NewLockout th b c w" _ 0 a d]
      by (simp add: t NewLockout_def lock_duration_def)
  next
    case False
    with snoc obtain l where l: "record_failures user ts (NewLockout th b c w) = Some l"
      "threshold l = th" "lbase l = b" "lcap l = c" "owindow l = w"
      and e: "entries l user = Some \<lparr>failures = int (length ts),
          lockedUntil = (if int (length ts) < th then zero_time
             else snd (last ts) + min c (b * 2 ^ nat ((int (length ts) - th) div th))),
          lastFail = fst (last ts)\<rparr>"
      by blast
    show ?thesis
      using assms l e RecordFailure_some [of user l _ "length ts" a d, OF _ _ _ disjI1 [OF e]]
      by (simp add: t record_failures_snoc lock_duration_def)
  qed
qed simp

text \<open>
  After \<open>n\<close> recorded failures of one user name in a row, of which the last at time \<open>d\<close>, the name is
  refused exactly when \<open>n\<close> has reached the threshold and less than \<open>min cap (base * 2 ^ ((n - threshold)
  div threshold))\<close> has passed since: the lock starts at the base duration, doubles with every further
  \<open>threshold\<close> failures, never exceeds the cap, and the answer names its end.
\<close>
theorem lockout_escalates:
  fixes c :: nanos
  assumes "user \<noteq> ''''" and "0 < th" and "0 < b" and "n = length (ts @ [(a, d)])" and "zero_time \<le> now"
  defines "lock \<equiv> min c (b * 2 ^ nat ((int n - th) div th))"
  shows "\<exists>l. record_failures user (ts @ [(a, d)]) (NewLockout th b c w) = Some l
     \<and> (fst (fst (Allowed now user l)) \<longleftrightarrow> \<not> (th \<le> int n \<and> now < d + lock))
     \<and> (th \<le> int n \<and> now < d + lock \<longrightarrow> Allowed now user l = ((False, d + lock), l))
     \<and> fst (fst (Allowed now user (RecordSuccess user l)))"
  using record_failures_state [OF assms(1-3), of "ts @ [(a, d)]" c w] assms
  by (auto simp: Allowed_def RecordSuccess_def lock_def)

theorem lockout_escalates_witness:
  "\<exists>l. record_failures ''sam'' (replicate 9 (5, 5) @ [(10, 10)]) (NewLockout 5 30 1800 3600) = Some l
     \<and> \<not> fst (fst (Allowed 69 ''sam'' l)) \<and> Allowed 69 ''sam'' l = ((False, 70), l)"
proof -
  have "zero_time \<le> 69" by (simp add: zero_time_def)
  with lockout_escalates [of "''sam''" 5 30 10 "replicate 9 (5, 5)" 10 10 69 1800 3600]
  show ?thesis by auto
qed

section \<open>The client address\<close>

definition digit :: "nat \<Rightarrow> char" where
  "digit d = char_of (48 + d)"

definition octet :: "nat \<Rightarrow> string" where
  "octet n = (if n < 10 then [digit n] else if n < 100 then [digit (n div 10), digit (n mod 10)]
     else [digit (n div 10 div 10), digit (n div 10 mod 10), digit (n mod 10)])"

definition quad :: "nat \<Rightarrow> nat \<Rightarrow> nat \<Rightarrow> nat \<Rightarrow> string" where
  "quad a b c d = octet a @ ''.'' @ octet b @ ''.'' @ octet c @ ''.'' @ octet d"

lemma of_char_octet_digit [simp]: "d < 10 \<Longrightarrow> of_char (digit d) = (48 + d :: nat)"
  by (simp add: digit_def)

lemma digit_val_digit [simp]: "d < 10 \<Longrightarrow> digit_val (digit d) = Some d"
  by (simp add: digit_val_def Let_def)

lemma digit_neq:
  assumes "d < 10" and "(of_char c :: nat) < 48 \<or> 57 < (of_char c :: nat)"
  shows "digit d \<noteq> c" "c \<noteq> digit d"
  using assms of_char_octet_digit [of d] by auto

lemma octet_digits:
  fixes n :: nat
  assumes "n < 256"
  shows "n mod 10 < 10" "n div 10 mod 10 < 10" "n div 10 div 10 < 10" "n < 100 \<Longrightarrow> n div 10 < 10"
    "10 \<le> n \<Longrightarrow> n div 10 \<noteq> 0" "100 \<le> n \<Longrightarrow> n div 10 div 10 \<noteq> 0"
    "10 * (n div 10 div 10) + n div 10 mod 10 = n div 10" "10 * (n div 10) + n mod 10 = n"
    "n div 10 \<le> 255"
  using assms by auto

lemma octet_chars: "x \<in> set (octet n) \<Longrightarrow> n < 256 \<Longrightarrow> x \<in> digit ` {d. d < 10}"
  using octet_digits [of n] by (auto simp: octet_def split: if_splits)

lemma octet_not:
  assumes "n < 256" and "(of_char c :: nat) < 48 \<or> 57 < (of_char c :: nat)"
  shows "c \<notin> set (octet n)"
  using octet_chars [OF _ assms(1)] digit_neq [OF _ assms(2)] by fastforce

lemma ipv4_octet_append:
  assumes "n < 256"
  shows "ipv4_fields (octet n @ s) 0 0 fs = ipv4_fields s n (length (octet n)) fs"
proof -
  consider "n < 10" | "10 \<le> n" "n < 100" | "100 \<le> n" by linarith
  then show ?thesis
  proof cases
    case 3
    then have "octet n = [digit (n div 10 div 10), digit (n div 10 mod 10), digit (n mod 10)]"
      by (simp add: octet_def)
    moreover have "\<not> 255 < n div 10 div 10" "n div 10 div 10 \<noteq> 0" "n div 10 \<noteq> 0" "\<not> 255 < n div 10" "\<not> 255 < n"
      using 3 assms by linarith+
    ultimately show ?thesis using octet_digits [OF assms] by (simp del: not_less) linarith
  qed (use assms octet_digits [OF assms] in \<open>auto simp: octet_def\<close>)
qed

lemma ipv4_octet:
  assumes "n < 256"
  shows "ipv4_fields (octet n) 0 0 fs = (if length fs < 3 then None else Some (fs @ [n]))"
    and "s \<noteq> [] \<Longrightarrow> length fs \<noteq> 3 \<Longrightarrow> ipv4_fields (octet n @ CHR ''.'' # s) 0 0 fs = ipv4_fields s 0 0 (fs @ [n])"
proof -
  have "digit_val CHR ''.'' = None" "length (octet n) \<noteq> 0" by (simp_all add: digit_val_def octet_def)
  then show "ipv4_fields (octet n) 0 0 fs = (if length fs < 3 then None else Some (fs @ [n]))"
    and "s \<noteq> [] \<Longrightarrow> length fs \<noteq> 3 \<Longrightarrow> ipv4_fields (octet n @ CHR ''.'' # s) 0 0 fs = ipv4_fields s 0 0 (fs @ [n])"
    using ipv4_octet_append [OF assms, of "[]" fs] ipv4_octet_append [OF assms, of "CHR ''.'' # s" fs]
    by simp_all
qed

lemma octet_nonempty [simp]: "octet n \<noteq> []"
  by (simp add: octet_def)

lemma find_skip: "(\<And>x. x \<in> set xs \<Longrightarrow> \<not> P x) \<Longrightarrow> find P (xs @ ys) = find P ys"
  by (induction xs) auto

lemma parse_quad:
  assumes "a < 256" "b < 256" "c < 256" "d < 256"
  shows "ParseIP (quad a b c d) = Some (replicate 10 0 @ [255, 255, a, b, c, d])"
proof -
  have f: "ipv4_fields (quad a b c d) 0 0 [] = Some [a, b, c, d]"
    using assms by (simp add: quad_def ipv4_octet)
  have "find (\<lambda>x. x \<in> set ''.:%'') (octet a @ s) = find (\<lambda>x. x \<in> set ''.:%'') s" for s
    using octet_not [OF assms(1)] by (intro find_skip) auto
  then have "find (\<lambda>x. x \<in> set ''.:%'') (quad a b c d) = Some CHR ''.''"
    by (simp add: quad_def)
  with f show ?thesis by (simp add: ParseIP_def)
qed

lemma quad_chars:
  assumes "a < 256" "b < 256" "c < 256" "d < 256" and "x \<in> set (quad a b c d)"
  shows "x = CHR ''.'' \<or> x \<in> digit ` {n. n < 10}"
  using assms octet_chars by (auto simp: quad_def)

lemma strip_left_id:
  "s \<noteq> [] \<Longrightarrow> (\<And>e. e \<in> set es \<Longrightarrow> e \<noteq> [] \<Longrightarrow> hd e \<noteq> hd s) \<Longrightarrow> strip_left es s = s"
  by (rule strip_left_none) (fastforce simp: find_None_iff elim: HasPrefixE)

lemma not_space_digit:
  assumes "n < 10" and "e \<in> set space_encodings"
  shows "hd e \<noteq> digit n" and "last e \<noteq> digit n"
  using assms by (auto simp: space_encodings_def digit_neq)

lemma TrimSpace_id:
  assumes "s \<noteq> []" and "n < 10" "hd s = digit n" and "k < 10" "last s = digit k"
  shows "TrimSpace s = s"
proof -
  have "strip_left space_encodings s = s"
    using assms not_space_digit(1) [OF assms(2)] by (intro strip_left_id) auto
  moreover have "strip_left (map rev space_encodings) (rev s) = rev s"
  proof (rule strip_left_id)
    show "hd e \<noteq> hd (rev s)" if "e \<in> set (map rev space_encodings)" "e \<noteq> []" for e
      using that assms not_space_digit(2) [OF assms(4)] by (auto simp: hd_rev)
  qed (use assms in simp)
  ultimately show ?thesis by (simp add: TrimSpace_def)
qed

lemma octet_ends:
  assumes "n < 256"
  shows "\<exists>d<10. hd (octet n) = digit d" and "\<exists>d<10. last (octet n) = digit d"
  using octet_chars [OF hd_in_set assms] octet_chars [OF last_in_set assms] by auto

lemma TrimSpace_quad:
  assumes "a < 256" "b < 256" "c < 256" "d < 256"
  shows "TrimSpace (quad a b c d) = quad a b c d"
proof -
  obtain i where "i < 10" "hd (octet a) = digit i" using octet_ends(1) [OF assms(1)] by blast
  moreover obtain j where "j < 10" "last (octet d) = digit j" using octet_ends(2) [OF assms(4)] by blast
  ultimately show ?thesis
    by (intro TrimSpace_id [of _ i j]) (simp_all add: quad_def)
qed

lemma LastIndexByte_append: "c \<notin> set t \<Longrightarrow> LastIndexByte (s @ c # t) c = Some (length s)"
  by (simp add: LastIndexByte_def IndexByte_append)

lemma IndexByte_None [simp]: "IndexByte s c = None \<longleftrightarrow> c \<notin> set s"
  by (induction s) auto

lemma split_quad:
  assumes "a < 256" "b < 256" "c < 256" "d < 256"
    and "CHR '':'' \<notin> set port" "CHR ''['' \<notin> set port" "CHR '']'' \<notin> set port"
  shows "SplitHostPort (quad a b c d @ CHR '':'' # port) = Some (quad a b c d, port)"
proof -
  let ?q = "quad a b c d"
  have q: "CHR '':'' \<notin> set ?q" "CHR ''['' \<notin> set ?q" "CHR '']'' \<notin> set ?q"
    using quad_chars [OF assms(1-4)] by (fastforce simp: digit_neq)+
  have "?q \<noteq> []" by (simp add: quad_def)
  then have "hd (?q @ CHR '':'' # port) \<noteq> CHR ''[''"
    using q(2) by (metis hd_append2 hd_in_set)
  then show ?thesis
    using q assms LastIndexByte_append [of "CHR '':''" port ?q] \<open>?q \<noteq> []\<close>
    by (simp add: SplitHostPort_def Let_def)
qed

lemma To4_mapped: "To4 (replicate 10 0 @ [255, 255, a, b, c, d]) = Some [a, b, c, d]"
  by (simp add: To4_def)

text \<open>
  A request whose peer has the IPv4 address \<open>a.b.c.d\<close> may name its client in a forwarding header
  exactly when the address is in 127/8, 10/8, 172.16/12 or 192.168/16. From every other peer the
  client address is the peer's own, whatever the headers say, so limits and locks cannot be evaded by
  forging them.
\<close>
theorem forwarded_headers_private_only:
  assumes "a < 256" "b < 256" "c < 256" "d < 256"
    and "CHR '':'' \<notin> set port" "CHR ''['' \<notin> set port" "CHR '']'' \<notin> set port"
    and "RemoteAddr r = quad a b c d @ CHR '':'' # port"
  defines "private \<equiv> a = 127 \<or> a = 10 \<or> (a = 172 \<and> 16 \<le> b \<and> b < 32) \<or> (a = 192 \<and> b = 168)"
  shows "(trustedProxyIP (RemoteAddr r) \<longleftrightarrow> private)
    \<and> (\<not> private \<or> (Header r ''X-Forwarded-For'' = '''' \<and> Header r ''X-Real-IP'' = '''')
         \<longrightarrow> ClientIP r = quad a b c d)
    \<and> (private \<and> Header r ''X-Forwarded-For'' \<noteq> ''''
         \<longrightarrow> ClientIP r = TrimSpace (takeWhile (\<lambda>x. x \<noteq> CHR '','') (Header r ''X-Forwarded-For'')))"
proof -
  note parse = split_quad [OF assms(1-7)] TrimSpace_quad [OF assms(1-4)] parse_quad [OF assms(1-4)]
  have nib: "b div 16 = 1 \<longleftrightarrow> 16 \<le> b \<and> b < 32" by presburger
  have "trustedProxyIP (RemoteAddr r) \<longleftrightarrow> private"
    by (auto simp: trustedProxyIP_def assms(8) parse IsLoopback_def IsPrivate_def To4_mapped private_def nib)
  then show ?thesis
    using parse(1) by (auto simp: ClientIP_def Let_def assms(8) hd_SplitByte)
qed

definition forged :: request where
  "forged = (plain_request ''POST'' ''/api/auth/login'')
     \<lparr>RemoteAddr := ''203.0.113.9:4711'', Header := (\<lambda>_. ''10.0.0.1'')\<rparr>"

theorem forwarded_headers_private_only_witness:
  "\<not> trustedProxyIP (RemoteAddr forged) \<and> ClientIP forged = ''203.0.113.9''"
proof -
  have q: "quad 203 0 113 9 = ''203.0.113.9''" by code_simp
  have r: "RemoteAddr forged = quad 203 0 113 9 @ CHR '':'' # ''4711''" by (simp add: forged_def q)
  show ?thesis
    using forwarded_headers_private_only [of 203 0 113 9 "''4711''" forged, OF _ _ _ _ _ _ _ r]
    by (simp add: q)
qed

end
