(* ===== verification/Devices.thy ===== *)
theory Devices
  imports GoStrings
begin

text \<open>
  The per-user files of credentials under \<^verbatim>\<open>internal/auth\<close>: backup codes (\<^verbatim>\<open>backup_codes.go\<close>), mobile
  refresh tokens (\<^verbatim>\<open>mobile_sessions.go\<close>), trusted devices (\<^verbatim>\<open>trusted_devices.go\<close>) and passkeys
  (\<^verbatim>\<open>webauthn_credentials.go\<close>).

  A store keeps nothing in memory: every method reads its file and writes it back, so the file is the
  state. \<open>ok\<close> says whether the write (or the removal of an emptied file) succeeds; if not, the old file
  stays. \<open>H\<close> is the hexadecimal SHA-256 digest. Random values are arguments, \<open>None\<close> when the system has
  no entropy to give.
\<close>

datatype io_error = IOError

section \<open>Backup codes\<close>

record BackupCode =
  bHash :: string
  bUsed :: bool
  bUsedAt :: secs

record BackupCodesFile =
  bUser :: string
  bGeneratedAt :: secs
  bCodes :: "BackupCode list"

definition upper_char :: "char \<Rightarrow> char" where
  "upper_char c = (if 97 \<le> (of_char c :: nat) \<and> (of_char c :: nat) \<le> 122
     then char_of (of_char c - 32 :: nat) else c)"

definition ToUpper :: "string \<Rightarrow> string" where
  "ToUpper s = map upper_char s"

definition normalizeCode :: "string \<Rightarrow> string" where
  "normalizeCode input = ToLower (filter (\<lambda>c. c \<noteq> CHR ''-'') input)"

definition hashCode :: "(string \<Rightarrow> string) \<Rightarrow> string \<Rightarrow> string" where
  "hashCode H input = H (normalizeCode input)"

definition readable :: "string \<Rightarrow> string" where
  "readable raw = ToUpper (take 4 raw @ ''-'' @ drop 4 raw)"

text \<open>\<open>raws\<close> are the random codes in hexadecimal, as many as asked for (ten if the number is not positive).\<close>

definition GenerateBackupCodes ::
    "(string \<Rightarrow> string) \<Rightarrow> nanos \<Rightarrow> string \<Rightarrow> int \<Rightarrow> (nat \<Rightarrow> string option) \<Rightarrow>
       (string list \<times> BackupCodesFile) option" where
  "GenerateBackupCodes H now user n rnd =
     (let n' = (if n \<le> 0 then 10 else nat n); raws = map rnd [0..<n']
      in if None \<in> set raws then None
         else Some (map (readable \<circ> the) raws,
           \<lparr>bUser = user, bGeneratedAt = unix now,
            bCodes = map (\<lambda>r. \<lparr>bHash = hashCode H (the r), bUsed = False, bUsedAt = 0\<rparr>) raws\<rparr>))"

definition BackupSave :: "bool \<Rightarrow> BackupCodesFile \<Rightarrow> BackupCodesFile jsonfile \<Rightarrow> (io_error + unit) \<times> BackupCodesFile jsonfile" where
  "BackupSave ok f file = (if ok then (Ok (), Doc f) else (Err IOError, file))"

definition BackupLoad :: "BackupCodesFile jsonfile \<Rightarrow> io_error + BackupCodesFile option" where
  "BackupLoad file =
     (case file of NoFile \<Rightarrow> Ok None | Unreadable \<Rightarrow> Err IOError | Garbled \<Rightarrow> Err IOError | Doc f \<Rightarrow> Ok (Some f))"

definition BackupDelete :: "bool \<Rightarrow> BackupCodesFile jsonfile \<Rightarrow> (io_error + unit) \<times> BackupCodesFile jsonfile" where
  "BackupDelete ok file =
     (if file = NoFile then (Ok (), file) else if ok then (Ok (), NoFile) else (Err IOError, file))"

definition usable :: "string \<Rightarrow> BackupCode \<Rightarrow> bool" where
  "usable target c \<longleftrightarrow> bHash c = target \<and> \<not> bUsed c"

text \<open>
  \<open>TryConsume\<close> after its \<open>Load\<close>: \<open>loaded\<close> is what it read, \<open>file\<close> what the file holds when it saves. The
  two methods lock the mutex separately, so another call may run in between.
\<close>

definition consume_loaded ::
    "(string \<Rightarrow> string) \<Rightarrow> nanos \<Rightarrow> bool \<Rightarrow> string \<Rightarrow> BackupCodesFile option \<Rightarrow> BackupCodesFile jsonfile \<Rightarrow>
       (io_error + bool) \<times> BackupCodesFile jsonfile" where
  "consume_loaded H now ok code loaded file =
     (case loaded of
        None \<Rightarrow> (Ok False, file)
      | Some f \<Rightarrow>
          let target = hashCode H code in
          if \<not> list_ex (usable target) (bCodes f) then (Ok False, file)
          else
            let f' = f\<lparr>bCodes := upd_first (usable target)
                         (\<lambda>c. c\<lparr>bUsed := True, bUsedAt := unix now\<rparr>) (bCodes f)\<rparr>;
                (r, file') = BackupSave ok f' file
            in (case r of Err e \<Rightarrow> Err e | Ok _ \<Rightarrow> Ok True, file'))"

definition TryConsume ::
    "(string \<Rightarrow> string) \<Rightarrow> nanos \<Rightarrow> bool \<Rightarrow> string \<Rightarrow> BackupCodesFile jsonfile \<Rightarrow>
       (io_error + bool) \<times> BackupCodesFile jsonfile" where
  "TryConsume H now ok code file =
     (case BackupLoad file of
        Err e \<Rightarrow> (Err e, file)
      | Ok loaded \<Rightarrow> consume_loaded H now ok code loaded file)"

definition CountUnused :: "BackupCodesFile jsonfile \<Rightarrow> io_error + nat" where
  "CountUnused file =
     (case BackupLoad file of
        Err e \<Rightarrow> Err e
      | Ok None \<Rightarrow> Ok 0
      | Ok (Some f) \<Rightarrow> Ok (length (filter (\<lambda>c. \<not> bUsed c) (bCodes f))))"

section \<open>Mobile refresh tokens\<close>

definition MobileRefreshTTL :: secs where "MobileRefreshTTL = 30 * 24 * 60 * 60"

record MobileSession =
  mID :: string
  mHash :: string
  mLabel :: string
  mCreatedAt :: secs
  mExpiresAt :: secs
  mLastSeen :: secs

record mobileSessionsFile =
  mSchema :: nat
  mUser :: string
  mSessions :: "MobileSession list"

type_synonym mobile_file = "mobileSessionsFile jsonfile"

definition ParseMobileRefreshUsername :: "string \<Rightarrow> string option" where
  "ParseMobileRefreshUsername token =
     (case IndexByte token CHR ''.'' of
        None \<Rightarrow> None
      | Some i \<Rightarrow> if i = 0 \<or> i = length token - 1 then None else Some (take i token))"

definition mintMobileRefreshToken :: "string \<Rightarrow> string option \<Rightarrow> string option" where
  "mintMobileRefreshToken user raw = map_option (\<lambda>r. user @ ''.'' @ r) raw"

definition mobile_load :: "mobile_file \<Rightarrow> io_error + mobileSessionsFile option" where
  "mobile_load file =
     (case file of NoFile \<Rightarrow> Ok None | Unreadable \<Rightarrow> Err IOError | Garbled \<Rightarrow> Err IOError | Doc f \<Rightarrow> Ok (Some f))"

definition mobile_save :: "bool \<Rightarrow> mobileSessionsFile \<Rightarrow> mobile_file \<Rightarrow> (io_error + unit) \<times> mobile_file" where
  "mobile_save ok f file =
     (if mSessions f = [] then
        if file = NoFile then (Ok (), NoFile) else if ok then (Ok (), NoFile) else (Err IOError, file)
      else if ok then (Ok (), Doc f) else (Err IOError, file))"

definition gcExpiredSessions :: "MobileSession list \<Rightarrow> secs \<Rightarrow> MobileSession list" where
  "gcExpiredSessions xs now = filter (\<lambda>x. mExpiresAt x > now) xs"

text \<open>
  The store and its mutex are built anew for every request (\<open>mobileRefreshStoreFor\<close>), so two requests of one user do not exclude each
  other: each reads the file, and later writes it, and others may write in between. The operations that do both therefore take the
  file twice: \<open>seen\<close> is what their load found, \<open>file\<close> is what their save replaces. With nobody in between the two are the same.
\<close>

definition Mint_from ::
    "(string \<Rightarrow> string) \<Rightarrow> nanos \<Rightarrow> bool \<Rightarrow> string option \<Rightarrow> string \<Rightarrow> string \<Rightarrow> string \<Rightarrow> mobile_file \<Rightarrow> mobile_file \<Rightarrow>
       (io_error + string) \<times> mobile_file" where
  "Mint_from H now ok raw rid user label seen file =
     (case mintMobileRefreshToken user raw of
        None \<Rightarrow> (Err IOError, file)
      | Some token \<Rightarrow>
          (case mobile_load seen of
             Err e \<Rightarrow> (Err e, file)
           | Ok loaded \<Rightarrow>
               let f = (case loaded of None \<Rightarrow> \<lparr>mSchema = 1, mUser = user, mSessions = []\<rparr> | Some f \<Rightarrow> f);
                   n = unix now;
                   f' = f\<lparr>mSessions := gcExpiredSessions (mSessions f) n @
                     [\<lparr>mID = rid, mHash = H token, mLabel = label, mCreatedAt = n,
                       mExpiresAt = n + MobileRefreshTTL, mLastSeen = n\<rparr>]\<rparr>;
                   (r, file') = mobile_save ok f' file
               in (case r of Err e \<Rightarrow> Err e | Ok _ \<Rightarrow> Ok token, file')))"

text \<open>The answer of \<open>Rotate\<close>: the new token and the user name, or nothing when \<open>ok=false\<close>.\<close>

definition Rotate_from ::
    "(string \<Rightarrow> string) \<Rightarrow> nanos \<Rightarrow> bool \<Rightarrow> string option \<Rightarrow> string \<Rightarrow> mobile_file \<Rightarrow> mobile_file \<Rightarrow>
       (io_error + (string \<times> string) option) \<times> mobile_file" where
  "Rotate_from H now ok raw oldToken seen file =
     (case ParseMobileRefreshUsername oldToken of
        None \<Rightarrow> (Ok None, file)
      | Some user \<Rightarrow>
          (case mobile_load seen of
             Err e \<Rightarrow> (Err e, file)
           | Ok None \<Rightarrow> (Ok None, file)
           | Ok (Some f) \<Rightarrow>
               let n = unix now; target = H oldToken;
                   found = list_ex (\<lambda>x. mHash x = target \<and> mExpiresAt x > n) (mSessions f);
                   f1 = f\<lparr>mSessions := gcExpiredSessions (mSessions f) n\<rparr>
               in if \<not> found then
                    (Ok None, if length (mSessions f1) \<noteq> length (mSessions f)
                              then snd (mobile_save ok f1 file) else file)
                  else case mintMobileRefreshToken user raw of
                    None \<Rightarrow> (Err IOError, file)
                  | Some newTok \<Rightarrow>
                      let f2 = f1\<lparr>mSessions := upd_first (\<lambda>x. mHash x = target)
                                 (\<lambda>x. x\<lparr>mHash := H newTok, mExpiresAt := n + MobileRefreshTTL, mLastSeen := n\<rparr>)
                                 (mSessions f1)\<rparr>;
                          (r, file') = mobile_save ok f2 file
                      in (case r of Err e \<Rightarrow> Err e | Ok _ \<Rightarrow> Ok (Some (newTok, user)), file')))"

definition mobile_Revoke_from :: "(string \<Rightarrow> string) \<Rightarrow> bool \<Rightarrow> string \<Rightarrow> mobile_file \<Rightarrow> mobile_file \<Rightarrow> (io_error + unit) \<times> mobile_file" where
  "mobile_Revoke_from H ok token seen file =
     (if token = '''' then (Ok (), file)
      else case mobile_load seen of
        Err e \<Rightarrow> (Err e, file)
      | Ok None \<Rightarrow> (Ok (), file)
      | Ok (Some f) \<Rightarrow> mobile_save ok (f\<lparr>mSessions := filter (\<lambda>x. mHash x \<noteq> H token) (mSessions f)\<rparr>) file)"

text \<open>A request that nobody overlaps.\<close>

definition Mint ::
    "(string \<Rightarrow> string) \<Rightarrow> nanos \<Rightarrow> bool \<Rightarrow> string option \<Rightarrow> string \<Rightarrow> string \<Rightarrow> string \<Rightarrow> mobile_file \<Rightarrow>
       (io_error + string) \<times> mobile_file" where
  "Mint H now ok raw rid user label file = Mint_from H now ok raw rid user label file file"

definition Rotate ::
    "(string \<Rightarrow> string) \<Rightarrow> nanos \<Rightarrow> bool \<Rightarrow> string option \<Rightarrow> string \<Rightarrow> mobile_file \<Rightarrow>
       (io_error + (string \<times> string) option) \<times> mobile_file" where
  "Rotate H now ok raw oldToken file = Rotate_from H now ok raw oldToken file file"

definition mobile_Revoke :: "(string \<Rightarrow> string) \<Rightarrow> bool \<Rightarrow> string \<Rightarrow> mobile_file \<Rightarrow> (io_error + unit) \<times> mobile_file" where
  "mobile_Revoke H ok token file = mobile_Revoke_from H ok token file file"

definition mobile_RevokeAll :: "bool \<Rightarrow> mobile_file \<Rightarrow> (io_error + unit) \<times> mobile_file" where
  "mobile_RevokeAll ok file =
     (if file = NoFile then (Ok (), file) else if ok then (Ok (), NoFile) else (Err IOError, file))"

definition mobile_List :: "nanos \<Rightarrow> mobile_file \<Rightarrow> io_error + MobileSession list" where
  "mobile_List now file =
     (case mobile_load file of
        Err e \<Rightarrow> Err e
      | Ok None \<Rightarrow> Ok []
      | Ok (Some f) \<Rightarrow> Ok (gcExpiredSessions (mSessions f) (unix now)))"

section \<open>Trusted devices\<close>

definition DeviceTrustTTL :: secs where "DeviceTrustTTL = 14 * 24 * 60 * 60"

record TrustedDevice =
  dHash :: string
  dLabel :: string
  dIP :: string
  dCreatedAt :: secs
  dExpiresAt :: secs
  dLastSeen :: secs

record TrustedDevicesFile =
  dSchema :: nat
  dUser :: string
  dDevices :: "TrustedDevice list"

type_synonym device_file = "TrustedDevicesFile jsonfile"

definition device_load :: "device_file \<Rightarrow> io_error + TrustedDevicesFile option" where
  "device_load file =
     (case file of NoFile \<Rightarrow> Ok None | Unreadable \<Rightarrow> Err IOError | Garbled \<Rightarrow> Err IOError | Doc f \<Rightarrow> Ok (Some f))"

definition device_save :: "bool \<Rightarrow> TrustedDevicesFile \<Rightarrow> device_file \<Rightarrow> (io_error + unit) \<times> device_file" where
  "device_save ok f file =
     (if dDevices f = [] then
        if file = NoFile then (Ok (), NoFile) else if ok then (Ok (), NoFile) else (Err IOError, file)
      else if ok then (Ok (), Doc f) else (Err IOError, file))"

definition gcExpired :: "TrustedDevice list \<Rightarrow> secs \<Rightarrow> TrustedDevice list" where
  "gcExpired xs now = filter (\<lambda>x. dExpiresAt x > now) xs"

definition device_Mint ::
    "(string \<Rightarrow> string) \<Rightarrow> nanos \<Rightarrow> bool \<Rightarrow> string option \<Rightarrow> string \<Rightarrow> string \<Rightarrow> string \<Rightarrow> device_file \<Rightarrow>
       (io_error + string) \<times> device_file" where
  "device_Mint H now ok raw user label ip file =
     (case raw of
        None \<Rightarrow> (Err IOError, file)
      | Some secret \<Rightarrow>
          (case device_load file of
             Err e \<Rightarrow> (Err e, file)
           | Ok loaded \<Rightarrow>
               let f = (case loaded of None \<Rightarrow> \<lparr>dSchema = 1, dUser = user, dDevices = []\<rparr> | Some f \<Rightarrow> f);
                   n = unix now;
                   f' = f\<lparr>dDevices := gcExpired (dDevices f) n @
                     [\<lparr>dHash = H secret, dLabel = label, dIP = ip, dCreatedAt = n,
                       dExpiresAt = n + DeviceTrustTTL, dLastSeen = n\<rparr>]\<rparr>;
                   (r, file') = device_save ok f' file
               in (case r of Err e \<Rightarrow> Err e | Ok _ \<Rightarrow> Ok secret, file')))"

definition IsTrusted ::
    "(string \<Rightarrow> string) \<Rightarrow> nanos \<Rightarrow> bool \<Rightarrow> string \<Rightarrow> device_file \<Rightarrow> (io_error + bool) \<times> device_file" where
  "IsTrusted H now ok secret file =
     (if secret = '''' then (Ok False, file)
      else case device_load file of
        Err e \<Rightarrow> (Err e, file)
      | Ok None \<Rightarrow> (Ok False, file)
      | Ok (Some f) \<Rightarrow>
          let n = unix now; target = H secret;
              found = list_ex (\<lambda>x. dHash x = target \<and> dExpiresAt x > n) (dDevices f);
              f1 = f\<lparr>dDevices := gcExpired (dDevices f) n\<rparr>
          in if \<not> found then
               (Ok False, if length (dDevices f1) \<noteq> length (dDevices f)
                          then snd (device_save ok f1 file) else file)
             else
               let f2 = f1\<lparr>dDevices := upd_first (\<lambda>x. dHash x = target) (\<lambda>x. x\<lparr>dLastSeen := n\<rparr>) (dDevices f1)\<rparr>;
                   (r, file') = device_save ok f2 file
               in (case r of Err e \<Rightarrow> Err e | Ok _ \<Rightarrow> Ok True, file'))"

definition device_Revoke :: "(string \<Rightarrow> string) \<Rightarrow> bool \<Rightarrow> string \<Rightarrow> device_file \<Rightarrow> (io_error + unit) \<times> device_file" where
  "device_Revoke H ok secret file =
     (if secret = '''' then (Ok (), file)
      else case device_load file of
        Err e \<Rightarrow> (Err e, file)
      | Ok None \<Rightarrow> (Ok (), file)
      | Ok (Some f) \<Rightarrow> device_save ok (f\<lparr>dDevices := filter (\<lambda>x. dHash x \<noteq> H secret) (dDevices f)\<rparr>) file)"

definition device_RevokeAll :: "bool \<Rightarrow> device_file \<Rightarrow> (io_error + unit) \<times> device_file" where
  "device_RevokeAll ok file =
     (if file = NoFile then (Ok (), file) else if ok then (Ok (), NoFile) else (Err IOError, file))"

definition device_List :: "nanos \<Rightarrow> device_file \<Rightarrow> io_error + TrustedDevice list" where
  "device_List now file =
     (case device_load file of
        Err e \<Rightarrow> Err e
      | Ok None \<Rightarrow> Ok []
      | Ok (Some f) \<Rightarrow> Ok (gcExpired (dDevices f) (unix now)))"

section \<open>Passkeys\<close>

datatype credential_status = Pending | Approved

text \<open>The credential of the WebAuthn library: its raw identifier and the rest of it, which is opaque here.\<close>

record 'c wcredential =
  wcID :: string
  wcRest :: 'c

record 'c CredentialRecord =
  crID :: string
  crLabel :: string
  crStatus :: credential_status
  crCreatedAt :: nanos
  crApprovedAt :: "nanos option"
  crCredential :: "'c wcredential"

type_synonym 'c passkey_file = "'c CredentialRecord list jsonfile"

text \<open>\<open>base64.RawURLEncoding.EncodeToString\<close>: six bits a character, the last group cut short.\<close>

definition base64url_alphabet :: string where
  "base64url_alphabet = ''ABCDEFGHIJKLMNOPQRSTUVWXYZabcdefghijklmnopqrstuvwxyz0123456789-_''"

definition base64_char :: "nat \<Rightarrow> char" where
  "base64_char n = base64url_alphabet ! (n mod 64)"

fun base64url :: "string \<Rightarrow> string" where
  "base64url [] = []"
| "base64url [a] =
     (let n = of_char a * 65536 in [base64_char (n div 262144), base64_char (n div 4096)])"
| "base64url [a, b] =
     (let n = of_char a * 65536 + of_char b * 256
      in [base64_char (n div 262144), base64_char (n div 4096), base64_char (n div 64)])"
| "base64url (a # b # c # s) =
     (let n = of_char a * 65536 + of_char b * 256 + of_char c
      in [base64_char (n div 262144), base64_char (n div 4096), base64_char (n div 64), base64_char n]
         @ base64url s)"

definition CredentialRecordID :: "'c wcredential \<Rightarrow> string" where
  "CredentialRecordID cred = base64url (wcID cred)"

definition passkey_load :: "'c passkey_file \<Rightarrow> io_error + 'c CredentialRecord list" where
  "passkey_load file =
     (case file of NoFile \<Rightarrow> Ok [] | Unreadable \<Rightarrow> Err IOError | Garbled \<Rightarrow> Err IOError | Doc cs \<Rightarrow> Ok cs)"

definition passkey_save ::
    "bool \<Rightarrow> 'c CredentialRecord list \<Rightarrow> 'c passkey_file \<Rightarrow> (io_error + unit) \<times> 'c passkey_file" where
  "passkey_save ok cs file =
     (if cs = [] then
        (case file of NoFile \<Rightarrow> (Ok (), NoFile) | _ \<Rightarrow> if ok then (Ok (), NoFile) else (Err IOError, file))
      else if ok then (Ok (), Doc cs) else (Err IOError, file))"

datatype passkey_error = PIO | AlreadyRegistered | NotFound

definition passkey_result :: "io_error + unit \<Rightarrow> 'a \<Rightarrow> passkey_error + 'a" where
  "passkey_result r v = (case r of Err _ \<Rightarrow> Err PIO | Ok _ \<Rightarrow> Ok v)"

definition passkey_Add ::
    "nanos \<Rightarrow> bool \<Rightarrow> 'c wcredential \<Rightarrow> string \<Rightarrow> 'c passkey_file \<Rightarrow>
       (passkey_error + 'c CredentialRecord) \<times> 'c passkey_file" where
  "passkey_Add now ok cred label file =
     (case passkey_load file of
        Err _ \<Rightarrow> (Err PIO, file)
      | Ok cs \<Rightarrow>
          let i = CredentialRecordID cred in
          if list_ex (\<lambda>r. crID r = i) cs then (Err AlreadyRegistered, file)
          else
            let rec = \<lparr>crID = i, crLabel = label, crStatus = Pending, crCreatedAt = now, crApprovedAt = None,
                       crCredential = cred\<rparr>;
                (r, file') = passkey_save ok (cs @ [rec]) file
            in (passkey_result r rec, file'))"

definition passkey_List :: "'c passkey_file \<Rightarrow> io_error + 'c CredentialRecord list" where
  "passkey_List file =
     (case passkey_load file of Err e \<Rightarrow> Err e | Ok cs \<Rightarrow> Ok (filter (\<lambda>r. crStatus r = Approved) cs))"

definition passkey_ListAll :: "'c passkey_file \<Rightarrow> io_error + 'c CredentialRecord list" where
  "passkey_ListAll file = passkey_load file"

definition CredentialByID :: "string \<Rightarrow> 'c passkey_file \<Rightarrow> io_error + 'c CredentialRecord option" where
  "CredentialByID i file =
     (case passkey_load file of Err e \<Rightarrow> Err e | Ok cs \<Rightarrow> Ok (find (\<lambda>r. crID r = i) cs))"

definition Approve :: "nanos \<Rightarrow> bool \<Rightarrow> string \<Rightarrow> 'c passkey_file \<Rightarrow> (passkey_error + unit) \<times> 'c passkey_file" where
  "Approve now ok i file =
     (case passkey_load file of
        Err _ \<Rightarrow> (Err PIO, file)
      | Ok cs \<Rightarrow>
          if \<not> list_ex (\<lambda>r. crID r = i) cs then (Err NotFound, file)
          else
            let (r, file') = passkey_save ok
                  (upd_first (\<lambda>r. crID r = i) (\<lambda>r. r\<lparr>crStatus := Approved, crApprovedAt := Some now\<rparr>) cs) file
            in (passkey_result r (), file'))"

definition passkey_Remove :: "bool \<Rightarrow> string \<Rightarrow> 'c passkey_file \<Rightarrow> (passkey_error + unit) \<times> 'c passkey_file" where
  "passkey_Remove ok i file =
     (case passkey_load file of
        Err _ \<Rightarrow> (Err PIO, file)
      | Ok cs \<Rightarrow>
          if \<not> list_ex (\<lambda>r. crID r = i) cs then (Err NotFound, file)
          else let (r, file') = passkey_save ok (filter (\<lambda>r. crID r \<noteq> i) cs) file
               in (passkey_result r (), file'))"

definition UpdateCredential ::
    "bool \<Rightarrow> 'c wcredential \<Rightarrow> 'c passkey_file \<Rightarrow> (passkey_error + unit) \<times> 'c passkey_file" where
  "UpdateCredential ok cred file =
     (case passkey_load file of
        Err _ \<Rightarrow> (Err PIO, file)
      | Ok cs \<Rightarrow>
          let i = CredentialRecordID cred in
          if \<not> list_ex (\<lambda>r. crID r = i) cs then (Err NotFound, file)
          else
            let (r, file') = passkey_save ok (upd_first (\<lambda>r. crID r = i) (\<lambda>r. r\<lparr>crCredential := cred\<rparr>) cs) file
            in (passkey_result r (), file'))"

end
