(* ===== verification/DevicesProps.thy ===== *)
theory DevicesProps
  imports Devices
begin

text \<open>
  Properties of the credential files: backup codes behave as a set from which each code is taken once,
  except for two calls that overlap; a rotated or revoked refresh token, an expired or revoked device
  and a passkey without approval are never valid again without a new grant.
\<close>

section \<open>Stores of credentials\<close>

text \<open>
  The contract of a store in which credentials, named by a key, are valid up to a time: no operation
  makes a credential valid (or valid for longer) except one that grants that very key.
\<close>

locale credential_store =
  fixes step :: "'op \<Rightarrow> 'f \<Rightarrow> 'f"
    and grants :: "'op \<Rightarrow> 'k \<Rightarrow> bool"
    and valid :: "'f \<Rightarrow> secs \<Rightarrow> 'k \<Rightarrow> bool"
  assumes step_valid: "valid (step p f) t k \<Longrightarrow> valid f t k \<or> grants p k"
    and valid_earlier: "valid f t k \<Longrightarrow> s \<le> t \<Longrightarrow> valid f s k"
begin

lemma refused_stays_refused:
  "\<not> valid f t k \<Longrightarrow> (\<And>p. p \<in> set ps \<Longrightarrow> \<not> grants p k) \<Longrightarrow> t \<le> t' \<Longrightarrow> \<not> valid (fold step ps f) t' k"
proof (induction ps arbitrary: f)
  case Nil
  then show ?case using valid_earlier by fastforce
next
  case (Cons p ps)
  then have "\<not> valid (step p f) t k" using step_valid by fastforce
  with Cons show ?case by simp
qed

end

section \<open>Backup codes\<close>

definition hex_alphabet :: string where
  "hex_alphabet = ''0123456789abcdef''"

definition lower_hex :: "string \<Rightarrow> bool" where
  "lower_hex s \<longleftrightarrow> list_all (\<lambda>c. c \<in> set hex_alphabet) s"

definition hex_char_ok :: "char \<Rightarrow> bool" where
  "hex_char_ok c \<longleftrightarrow> lower_char c = c \<and> c \<noteq> CHR ''-'' \<and> lower_char (upper_char c) = c \<and> upper_char c \<noteq> CHR ''-''"

lemma hex_chars_ok: "list_all hex_char_ok hex_alphabet"
  by code_simp

lemma hex_chars:
  assumes "c \<in> set hex_alphabet"
  shows "lower_char c = c" "c \<noteq> CHR ''-''" "lower_char (upper_char c) = c" "upper_char c \<noteq> CHR ''-''"
  using bspec [OF hex_chars_ok [unfolded list_all_iff] assms] by (simp_all add: hex_char_ok_def)

lemma lower_hex_Cons: "lower_hex (c # s) \<longleftrightarrow> c \<in> set hex_alphabet \<and> lower_hex s"
  by (simp add: lower_hex_def)

lemma normalizeCode_Cons:
  "normalizeCode (c # s) = (if c = CHR ''-'' then normalizeCode s else lower_char c # normalizeCode s)"
  by (simp add: normalizeCode_def ToLower_def)

lemma normalizeCode_Nil: "normalizeCode [] = []"
  by (simp add: normalizeCode_def ToLower_def)

lemma normalizeCode_lower_hex: "lower_hex s \<Longrightarrow> normalizeCode s = s"
  by (induction s) (simp_all only: lower_hex_Cons normalizeCode_Cons normalizeCode_Nil hex_chars if_False)

lemma normalizeCode_append: "normalizeCode (s @ t) = normalizeCode s @ normalizeCode t"
  by (simp add: normalizeCode_def ToLower_def)

lemma normalizeCode_upper: "lower_hex s \<Longrightarrow> normalizeCode (ToUpper s) = s"
  unfolding ToUpper_def
  by (induction s) (simp_all only: list.map lower_hex_Cons normalizeCode_Cons normalizeCode_Nil hex_chars if_False)

text \<open>The code as shown to the user stands for the random code.\<close>

lemma normalizeCode_readable: "lower_hex raw \<Longrightarrow> normalizeCode (readable raw) = raw"
proof -
  assume "lower_hex raw"
  then have "lower_hex (take 4 raw)" "lower_hex (drop 4 raw)"
    by (auto simp: lower_hex_def list_all_iff dest: in_set_takeD in_set_dropD)
  moreover have "normalizeCode (ToUpper ''-'') = ''''"
    by code_simp
  ultimately have "normalizeCode (ToUpper (take 4 raw) @ ToUpper ''-'' @ ToUpper (drop 4 raw)) = take 4 raw @ drop 4 raw"
    by (simp only: normalizeCode_append normalizeCode_upper) simp
  then show ?thesis by (simp add: readable_def ToUpper_def)
qed

fun consume_run :: "(string \<Rightarrow> string) \<Rightarrow> (nanos \<times> string) list \<Rightarrow> BackupCodesFile jsonfile \<Rightarrow> (io_error + bool) list" where
  "consume_run H [] file = []"
| "consume_run H ((now, code) # cs) file =
     (let (r, file') = TryConsume H now True code file in r # consume_run H cs file')"

text \<open>The specification: a list of codes that are left, from which a code is taken when it is used.\<close>

fun spec_run :: "string list \<Rightarrow> string list \<Rightarrow> bool list" where
  "spec_run left [] = []"
| "spec_run left (code # cs) = (normalizeCode code \<in> set left) # spec_run (remove1 (normalizeCode code) left) cs"

definition represents :: "(string \<Rightarrow> string) \<Rightarrow> BackupCodesFile \<Rightarrow> string list \<Rightarrow> bool" where
  "represents H f left \<longleftrightarrow> map bHash (filter (\<lambda>c. \<not> bUsed c) (bCodes f)) = map H left"

lemma filter_upd_first:
  "map bHash (filter (\<lambda>c. \<not> bUsed c) (upd_first (usable h) (\<lambda>c. c\<lparr>bUsed := True, bUsedAt := n\<rparr>) cs)) =
    remove1 h (map bHash (filter (\<lambda>c. \<not> bUsed c) cs))"
  by (induction cs) (auto simp: usable_def)

lemma map_remove1_inj:
  "inj_on H (insert x (set xs)) \<Longrightarrow> map H (remove1 x xs) = remove1 (H x) (map H xs)"
  by (induction xs) (auto simp: inj_on_def)

lemma usable_iff: "list_ex (usable h) (bCodes f) \<longleftrightarrow> h \<in> set (map bHash (filter (\<lambda>c. \<not> bUsed c) (bCodes f)))"
  by (auto simp: list_ex_iff usable_def)

lemma TryConsume_spec:
  assumes "represents H f left" and "inj_on H (insert (normalizeCode code) (set left))"
  shows "fst (TryConsume H now True code (Doc f)) = Ok (normalizeCode code \<in> set left)"
    and "\<exists>f'. snd (TryConsume H now True code (Doc f)) = Doc f' \<and> represents H f' (remove1 (normalizeCode code) left)"
proof -
  let ?h = "hashCode H code"
  have r: "map bHash (filter (\<lambda>c. \<not> bUsed c) (bCodes f)) = map H left"
    using assms(1) by (simp add: represents_def)
  have u: "list_ex (usable ?h) (bCodes f) \<longleftrightarrow> normalizeCode code \<in> set left"
    unfolding usable_iff r hashCode_def using assms(2) by (auto simp: inj_on_def)
  have m: "map H (remove1 (normalizeCode code) left) = remove1 ?h (map H left)"
    using map_remove1_inj [OF assms(2)] by (simp add: hashCode_def)
  show "fst (TryConsume H now True code (Doc f)) = Ok (normalizeCode code \<in> set left)"
    using u by (simp add: TryConsume_def BackupLoad_def consume_loaded_def BackupSave_def Let_def)
  show "\<exists>f'. snd (TryConsume H now True code (Doc f)) = Doc f' \<and> represents H f' (remove1 (normalizeCode code) left)"
  proof (cases "normalizeCode code \<in> set left")
    case True
    with u show ?thesis
      by (simp add: filter_upd_first TryConsume_def BackupLoad_def consume_loaded_def BackupSave_def Let_def represents_def m r)
  next
    case False
    then show ?thesis
      using u assms(1) by (simp add: TryConsume_def BackupLoad_def consume_loaded_def Let_def remove1_idem)
  qed
qed

lemma consume_run_spec:
  assumes "represents H f left" and "inj_on H (normalizeCode ` snd ` set cs \<union> set left)"
  shows "consume_run H cs (Doc f) = map Ok (spec_run left (map snd cs))"
  using assms
proof (induction cs arbitrary: f left)
  case (Cons c cs)
  obtain now code where c: "c = (now, code)" by fastforce
  have inj: "inj_on H (insert (normalizeCode code) (set left))"
    using Cons.prems(2) c by (auto intro: inj_on_subset)
  obtain f' where f': "snd (TryConsume H now True code (Doc f)) = Doc f'"
    "represents H f' (remove1 (normalizeCode code) left)"
    using TryConsume_spec(2) [OF Cons.prems(1) inj] by blast
  have "inj_on H (normalizeCode ` snd ` set cs \<union> set (remove1 (normalizeCode code) left))"
    using Cons.prems(2) by (rule inj_on_subset) (auto dest: set_remove1_subset [THEN subsetD])
  from Cons.IH [OF f'(2) this] show ?case
    using TryConsume_spec(1) [OF Cons.prems(1) inj, of now] f'(1)
    by (simp add: c case_prod_beta' Let_def)
qed simp

text \<open>
  Backup codes work once each: from the file that \<open>GenerateBackupCodes\<close> made, a sequence of attempts
  at login succeeds exactly where the typed code, in any letter case and with or without dashes, is one
  of the generated codes and has not been used up by an earlier attempt; the codes as shown to the user
  are those. The digest is assumed not to collide on the codes and attempts at hand.
\<close>
theorem backup_codes_work_once:
  assumes "GenerateBackupCodes H t user n rnd = Some (shown, f)"
    and "raws = map (the \<circ> rnd) [0..<length shown]" and "list_all lower_hex raws"
    and "inj_on H (normalizeCode ` snd ` set cs \<union> set raws)"
  shows "map normalizeCode shown = raws
    \<and> consume_run H cs (Doc f) = map Ok (spec_run raws (map snd cs))"
proof -
  define m where "m = (if n \<le> 0 then 10 else nat n)"
  have gen: "shown = map (readable \<circ> the) (map rnd [0..<m])"
    "bCodes f = map (\<lambda>r. \<lparr>bHash = hashCode H (the r), bUsed = False, bUsedAt = 0\<rparr>) (map rnd [0..<m])"
    using assms(1) by (auto simp: GenerateBackupCodes_def Let_def m_def split: if_splits)
  then have raws: "raws = map (the \<circ> rnd) [0..<m]" using assms(2) by simp
  have hex: "normalizeCode r = r" "normalizeCode (readable r) = r" if "r \<in> set raws" for r
    using assms(3) that by (auto simp: list_all_iff normalizeCode_lower_hex normalizeCode_readable)
  have "map normalizeCode shown = raws"
    using hex by (auto simp: gen(1) raws)
  moreover have "represents H f raws"
    using hex(1) by (auto simp: represents_def gen(2) raws hashCode_def comp_def filter_map)
  ultimately show ?thesis using consume_run_spec assms(4) by blast
qed

theorem backup_codes_work_once_witness:
  "\<exists>shown f. GenerateBackupCodes id 0 ''sam'' 2 (\<lambda>i. Some (if i = 0 then ''0a1b2c3d'' else ''ffff0000'')) = Some (shown, f)
     \<and> shown = [''0A1B-2C3D'', ''FFFF-0000'']
     \<and> consume_run id [(5, ''FFFF-0000''), (6, ''ffff0000''), (7, ''0a1b2C3d''), (8, ''nope'')] (Doc f) =
         [Ok True, Ok False, Ok True, Ok False]"
proof -
  let ?rnd = "\<lambda>i::nat. Some (if i = 0 then ''0a1b2c3d'' else ''ffff0000'')"
  let ?cs = "[(5::nanos, ''FFFF-0000''), (6, ''ffff0000''), (7, ''0a1b2C3d''), (8, ''nope'')]"
  have upt2: "[0..<2] = [0, 1::nat]" "[0..<Suc (Suc 0)] = [0, 1]" by code_simp+
  obtain shown f where g: "GenerateBackupCodes id 0 ''sam'' 2 ?rnd = Some (shown, f)"
    and sh: "shown = map readable [''0a1b2c3d'', ''ffff0000'']"
    by (simp add: GenerateBackupCodes_def upt2 Let_def image_iff)
  have rd: "map readable [''0a1b2c3d'', ''ffff0000''] = [''0A1B-2C3D'', ''FFFF-0000'']" by code_simp
  have raws: "[''0a1b2c3d'', ''ffff0000''] = map (the \<circ> ?rnd) [0..<length shown]"
    by (simp add: sh upt2)
  have "consume_run id ?cs (Doc f) = map Ok (spec_run [''0a1b2c3d'', ''ffff0000''] (map snd ?cs))"
    by (rule conjunct2 [OF backup_codes_work_once [OF g raws]]) (simp_all add: lower_hex_def hex_alphabet_def)
  moreover have "spec_run [''0a1b2c3d'', ''ffff0000''] (map snd ?cs) = [True, False, True, False]" by code_simp
  ultimately show ?thesis using g sh rd by simp
qed

text \<open>
  Two calls of \<open>TryConsume\<close> with one unused code, where both load the file before either saves it,
  both succeed: the mutex is released between the two, so a one-shot code is accepted twice.
\<close>
theorem backup_code_accepted_twice:
  assumes "list_ex (usable (hashCode H code)) (bCodes f)"
  shows "BackupLoad (Doc f) = Ok (Some f)
    \<and> fst (consume_loaded H t1 True code (Some f) (Doc f)) = Ok True
    \<and> fst (consume_loaded H t2 True code (Some f) (snd (consume_loaded H t1 True code (Some f) (Doc f)))) = Ok True"
  using assms by (simp add: BackupLoad_def consume_loaded_def BackupSave_def Let_def)

theorem backup_code_accepted_twice_witness:
  "fst (consume_loaded id 2 True ''ABCD-0123'' (Some \<lparr>bUser = ''sam'', bGeneratedAt = 0,
       bCodes = [\<lparr>bHash = ''abcd0123'', bUsed = False, bUsedAt = 0\<rparr>]\<rparr>)
     (snd (consume_loaded id 1 True ''ABCD-0123'' (Some \<lparr>bUser = ''sam'', bGeneratedAt = 0,
       bCodes = [\<lparr>bHash = ''abcd0123'', bUsed = False, bUsedAt = 0\<rparr>]\<rparr>)
       (Doc \<lparr>bUser = ''sam'', bGeneratedAt = 0, bCodes = [\<lparr>bHash = ''abcd0123'', bUsed = False, bUsedAt = 0\<rparr>]\<rparr>)))) =
     Ok True"
proof -
  have "hashCode id ''ABCD-0123'' = ''abcd0123''" by code_simp
  then show ?thesis
    using backup_code_accepted_twice [of id "''ABCD-0123''" "\<lparr>bUser = ''sam'', bGeneratedAt = 0,
       bCodes = [\<lparr>bHash = ''abcd0123'', bUsed = False, bUsedAt = 0\<rparr>]\<rparr>" 1 2]
    by (simp add: usable_def)
qed

section \<open>Mobile refresh tokens\<close>

datatype mobile_op =
    OpMint nanos bool "string option" string string string
  | OpRotate nanos bool "string option" string
  | OpRevoke bool string
  | OpRevokeAll bool

text \<open>How an operation ends that found \<open>seen\<close> when it read the file.\<close>

fun mobile_end :: "(string \<Rightarrow> string) \<Rightarrow> mobile_op \<Rightarrow> mobile_file \<Rightarrow> mobile_file \<Rightarrow> mobile_file" where
  "mobile_end H (OpMint now ok raw rid user label) seen file = snd (Mint_from H now ok raw rid user label seen file)"
| "mobile_end H (OpRotate now ok raw old) seen file = snd (Rotate_from H now ok raw old seen file)"
| "mobile_end H (OpRevoke ok token) seen file = snd (mobile_Revoke_from H ok token seen file)"
| "mobile_end H (OpRevokeAll ok) seen file = snd (mobile_RevokeAll ok file)"

definition mobile_step :: "(string \<Rightarrow> string) \<Rightarrow> mobile_op \<Rightarrow> mobile_file \<Rightarrow> mobile_file" where
  "mobile_step H p file = mobile_end H p file file"

text \<open>The digest of the token that an operation hands out, if any.\<close>

fun mobile_grants :: "(string \<Rightarrow> string) \<Rightarrow> mobile_op \<Rightarrow> string \<Rightarrow> bool" where
  "mobile_grants H (OpMint now ok raw rid user label) h =
     (\<exists>t. mintMobileRefreshToken user raw = Some t \<and> h = H t)"
| "mobile_grants H (OpRotate now ok raw old) h =
     (\<exists>u t. ParseMobileRefreshUsername old = Some u \<and> mintMobileRefreshToken u raw = Some t \<and> h = H t)"
| "mobile_grants H (OpRevoke ok token) h = False"
| "mobile_grants H (OpRevokeAll ok) h = False"

definition live_hash :: "MobileSession list \<Rightarrow> secs \<Rightarrow> string \<Rightarrow> bool" where
  "live_hash xs now h \<longleftrightarrow> list_ex (\<lambda>x. mHash x = h \<and> now < mExpiresAt x) xs"

definition mobile_valid :: "mobile_file \<Rightarrow> secs \<Rightarrow> string \<Rightarrow> bool" where
  "mobile_valid file now h \<longleftrightarrow> (case file of Doc f \<Rightarrow> live_hash (mSessions f) now h | _ \<Rightarrow> False)"

lemma live_hash_iff: "live_hash xs now h \<longleftrightarrow> (\<exists>x\<in>set xs. mHash x = h \<and> now < mExpiresAt x)"
  by (simp add: live_hash_def list_ex_iff)

lemma mobile_valid_simps [simp]:
  "mobile_valid (Doc f) now h \<longleftrightarrow> live_hash (mSessions f) now h"
  "\<not> mobile_valid NoFile now h" "\<not> mobile_valid Unreadable now h" "\<not> mobile_valid Garbled now h"
  by (simp_all add: mobile_valid_def)

lemma mobile_save_valid:
  "mobile_valid (snd (mobile_save ok f file)) now h \<Longrightarrow> mobile_valid file now h \<or> live_hash (mSessions f) now h"
  by (auto simp: mobile_save_def split: if_splits)

lemma live_hash_filter: "live_hash (filter P xs) now h \<Longrightarrow> live_hash xs now h"
  by (auto simp: live_hash_iff)

lemma live_hash_gc: "live_hash (gcExpiredSessions xs n) now h \<Longrightarrow> live_hash xs now h"
  unfolding gcExpiredSessions_def by (rule live_hash_filter)

lemma live_hash_simps [simp]:
  "\<not> live_hash [] now h" "live_hash (x # xs) now h \<longleftrightarrow> mHash x = h \<and> now < mExpiresAt x \<or> live_hash xs now h"
  "live_hash (xs @ ys) now h \<longleftrightarrow> live_hash xs now h \<or> live_hash ys now h"
  by (auto simp: live_hash_iff)

lemma live_hash_upd:
  "live_hash (upd_first p (\<lambda>x. x\<lparr>mHash := k, mExpiresAt := e, mLastSeen := l\<rparr>) xs) now h \<Longrightarrow> live_hash xs now h \<or> h = k"
  by (induction xs) (auto split: if_splits)

lemma Mint_valid:
  assumes "mobile_valid (snd (Mint_from H now ok raw rid user label seen file)) t h"
  shows "mobile_valid file t h \<or> mobile_valid seen t h \<or> (\<exists>tok. mintMobileRefreshToken user raw = Some tok \<and> h = H tok)"
  using assms
  by (cases seen) (auto simp: Mint_from_def mobile_load_def Let_def case_prod_beta' split: option.splits
      dest!: mobile_save_valid live_hash_gc)

lemma Rotate_valid:
  assumes "mobile_valid (snd (Rotate_from H now ok raw old seen file)) t h"
  shows "mobile_valid file t h \<or> mobile_valid seen t h \<or>
    (\<exists>u tok. ParseMobileRefreshUsername old = Some u \<and> mintMobileRefreshToken u raw = Some tok \<and> h = H tok)"
  using assms
  by (cases seen) (auto simp: Rotate_from_def mobile_load_def Let_def case_prod_beta' split: option.splits if_splits
      dest!: mobile_save_valid live_hash_upd dest: live_hash_gc)

lemma Revoke_valid:
  assumes "mobile_valid (snd (mobile_Revoke_from H ok token seen file)) t h"
  shows "mobile_valid file t h \<or> mobile_valid seen t h"
  using assms
  by (cases seen) (auto simp: mobile_Revoke_from_def mobile_load_def dest!: mobile_save_valid live_hash_filter split: if_splits)

text \<open>What an operation leaves valid was so in the file it found, in the one it replaced, or is what it hands out.\<close>

lemma mobile_end_valid:
  assumes "mobile_valid (mobile_end H p seen file) t h"
  shows "mobile_valid file t h \<or> mobile_valid seen t h \<or> mobile_grants H p h"
proof (cases p)
  case (OpMint now ok raw rid user label)
  with assms Mint_valid show ?thesis by fastforce
next
  case (OpRotate now ok raw old)
  with assms Rotate_valid show ?thesis by fastforce
next
  case (OpRevoke ok token)
  with assms Revoke_valid show ?thesis by fastforce
next
  case (OpRevokeAll ok)
  with assms show ?thesis by (auto simp: mobile_RevokeAll_def mobile_valid_def split: if_splits)
qed

lemma mobile_valid_earlier: "mobile_valid f t k \<Longrightarrow> s \<le> t \<Longrightarrow> mobile_valid f s k"
  by (cases f) (force simp: live_hash_iff)+

interpretation refresh_tokens: credential_store "mobile_step H" "mobile_grants H" mobile_valid for H
proof
  show "mobile_valid f t k \<or> mobile_grants H p k" if "mobile_valid (mobile_step H p f) t k" for p f t k
    using mobile_end_valid that unfolding mobile_step_def by blast
qed (rule mobile_valid_earlier)

definition readable_file :: "'f jsonfile \<Rightarrow> bool" where
  "readable_file file \<longleftrightarrow> (case file of Unreadable \<Rightarrow> False | Garbled \<Rightarrow> False | _ \<Rightarrow> True)"

lemma mobile_save_readable: "readable_file file \<Longrightarrow> readable_file (snd (mobile_save ok f file))"
  by (auto simp: mobile_save_def readable_file_def)

lemma mobile_end_readable: "readable_file file \<Longrightarrow> readable_file (mobile_end H p seen file)"
proof (cases p)
  case (OpRevokeAll ok)
  then show "readable_file file \<Longrightarrow> readable_file (mobile_end H p seen file)"
    by (auto simp: mobile_RevokeAll_def readable_file_def)
qed (auto simp: Mint_from_def Rotate_from_def mobile_Revoke_from_def Let_def case_prod_beta' mobile_save_readable
    split: option.splits sum.splits)

section \<open>Overlapping requests\<close>

text \<open>
  Requests of one user on the file: each first reads it and later ends on what it read, while others read and end. \<open>fl\<close> holds the
  requests in flight with what they found; \<open>ps\<close> says which requests are made.
\<close>

inductive mobile_inter :: "(string \<Rightarrow> string) \<Rightarrow> (mobile_op \<Rightarrow> bool) \<Rightarrow> mobile_file \<times> (mobile_op \<times> mobile_file) list
    \<Rightarrow> mobile_file \<times> (mobile_op \<times> mobile_file) list \<Rightarrow> bool" for H ps where
  reads: "ps p \<Longrightarrow> mobile_inter H ps (file, fl) (file, (p, file) # fl)"
| ends: "(p, seen) \<in> set fl \<Longrightarrow> mobile_inter H ps (file, fl) (mobile_end H p seen file, remove1 (p, seen) fl)"

text \<open>No file, as it is or as a request in flight found it, holds the digest, and nobody hands it out.\<close>

definition token_dead :: "(string \<Rightarrow> string) \<Rightarrow> (mobile_op \<Rightarrow> bool) \<Rightarrow> secs \<Rightarrow> string
    \<Rightarrow> mobile_file \<times> (mobile_op \<times> mobile_file) list \<Rightarrow> bool" where
  "token_dead H ps t h s \<longleftrightarrow>
     \<not> mobile_valid (fst s) t h \<and> readable_file (fst s)
   \<and> (\<forall>(p, seen) \<in> set (snd s). ps p \<and> \<not> mobile_valid seen t h \<and> readable_file seen)"

lemma token_dead_step:
  assumes "mobile_inter H ps s s'" "token_dead H ps t h s" "\<And>p. ps p \<Longrightarrow> \<not> mobile_grants H p h"
  shows "token_dead H ps t h s'"
  using assms(1,2)
proof cases
  case (ends p seen fl "file")
  have "\<not> mobile_valid (mobile_end H p seen file) t h" "readable_file (mobile_end H p seen file)"
    using assms(2,3) ends mobile_end_valid [of H p seen "file" t h] mobile_end_readable [of "file" H p seen]
    by (auto simp: token_dead_def)
  moreover have "set (remove1 (p, seen) fl) \<subseteq> set fl" by (rule set_remove1_subset)
  ultimately show ?thesis using assms(2) ends by (auto simp: token_dead_def)
qed (auto simp: token_dead_def)

text \<open>A user name that is read off a token has no dot and is not empty.\<close>

lemma parsed_username: "ParseMobileRefreshUsername token = Some u \<Longrightarrow> u \<noteq> '''' \<and> CHR ''.'' \<notin> set u"
  using IndexByte_split [of token "CHR ''.''"]
  by (auto simp: ParseMobileRefreshUsername_def split: option.splits if_splits)

lemma Rotate_outcome:
  "fst (Rotate_from H now ok raw old seen file) = Ok (Some v) \<Longrightarrow> mobile_valid seen (unix now) (H old)"
  "\<not> mobile_valid seen (unix now) (H old) \<Longrightarrow> readable_file seen \<Longrightarrow> fst (Rotate_from H now ok raw old seen file) = Ok None"
  by (cases seen; auto simp: Rotate_from_def mobile_load_def live_hash_def Let_def readable_file_def
    split: option.splits if_splits sum.splits)+

lemma upd_hash_gone:
  "distinct (map mHash xs) \<Longrightarrow> k \<noteq> h \<Longrightarrow>
     h \<notin> mHash ` set (upd_first (\<lambda>x. mHash x = h) (\<lambda>x. x\<lparr>mHash := k, mExpiresAt := e, mLastSeen := l\<rparr>) xs)"
  by (induction xs) auto

lemma upd_hash_live:
  "\<exists>x\<in>set xs. mHash x = h \<Longrightarrow> now < e \<Longrightarrow>
     live_hash (upd_first (\<lambda>x. mHash x = h) (\<lambda>x. x\<lparr>mHash := k, mExpiresAt := e, mLastSeen := l\<rparr>) xs) now k"
  by (induction xs) auto

lemma Rotate_success:
  assumes "Rotate_from H now True raw old (Doc f) file = (Ok (Some (new, u)), file')"
  shows "ParseMobileRefreshUsername old = Some u" "mintMobileRefreshToken u raw = Some new"
    "live_hash (mSessions f) (unix now) (H old)"
    "\<exists>f'. file' = Doc f' \<and> mSessions f' = upd_first (\<lambda>x. mHash x = H old)
       (\<lambda>x. x\<lparr>mHash := H new, mExpiresAt := unix now + MobileRefreshTTL, mLastSeen := unix now\<rparr>)
       (gcExpiredSessions (mSessions f) (unix now))"
proof -
  obtain u0 where u: "ParseMobileRefreshUsername old = Some u0"
    using assms by (auto simp: Rotate_from_def split: option.splits)
  have live: "live_hash (mSessions f) (unix now) (H old)"
    using assms u by (auto simp: Rotate_from_def mobile_load_def Let_def live_hash_def split: if_splits)
  obtain t where t: "mintMobileRefreshToken u0 raw = Some t"
    using assms u live by (auto simp: Rotate_from_def mobile_load_def Let_def live_hash_def split: option.splits)
  have ne: "gcExpiredSessions (mSessions f) (unix now) \<noteq> []"
    using live by (auto simp: live_hash_iff gcExpiredSessions_def filter_empty_conv)
  have ne': "upd_first p g xs = [] \<longleftrightarrow> xs = []" for p g and xs :: "MobileSession list"
    by (metis length_0_conv length_upd_first)
  have eq: "Rotate_from H now True raw old (Doc f) file = (Ok (Some (t, u0)), Doc (f\<lparr>mSessions := upd_first (\<lambda>x. mHash x = H old)
       (\<lambda>x. x\<lparr>mHash := H t, mExpiresAt := unix now + MobileRefreshTTL, mLastSeen := unix now\<rparr>)
       (gcExpiredSessions (mSessions f) (unix now))\<rparr>))"
    using u t live ne ne' by (simp add: Rotate_from_def mobile_load_def Let_def live_hash_def mobile_save_def)
  show "ParseMobileRefreshUsername old = Some u" "mintMobileRefreshToken u raw = Some new"
    "live_hash (mSessions f) (unix now) (H old)"
    "\<exists>f'. file' = Doc f' \<and> mSessions f' = upd_first (\<lambda>x. mHash x = H old)
       (\<lambda>x. x\<lparr>mHash := H new, mExpiresAt := unix now + MobileRefreshTTL, mLastSeen := unix now\<rparr>)
       (gcExpiredSessions (mSessions f) (unix now))"
    using assms u t live by (auto simp: eq)
qed

lemma Rotate_live:
  assumes "ParseMobileRefreshUsername tok = Some u" and "live_hash (mSessions f) (unix now) (H tok)"
  shows "fst (Rotate H now True (Some raw) tok (Doc f)) = Ok (Some (u @ ''.'' @ raw, u))"
proof -
  have ne: "gcExpiredSessions (mSessions f) (unix now) \<noteq> []"
    using assms(2) by (auto simp: live_hash_iff gcExpiredSessions_def filter_empty_conv)
  have ne': "upd_first p g xs = [] \<longleftrightarrow> xs = []" for p g and xs :: "MobileSession list"
    by (metis length_0_conv length_upd_first)
  show ?thesis
    using assms ne ne'
    by (simp add: Rotate_def Rotate_from_def mobile_load_def Let_def live_hash_def mobile_save_def mintMobileRefreshToken_def)
qed

lemma parse_minted:
  assumes "CHR ''.'' \<notin> set u" and "u \<noteq> ''''" and "raw \<noteq> ''''"
  shows "ParseMobileRefreshUsername (u @ ''.'' @ raw) = Some u"
  using assms IndexByte_append [of "CHR ''.''" u raw] by (simp add: ParseMobileRefreshUsername_def)

text \<open>
  C31. Rotating a refresh token replaces it, when no other request of the user that has read the file is still to write it.
  The new token names the same user and can itself be rotated at any time in the following 30 days; the old one is refused at every
  later time, by a request that reads the file then and by every request then in flight, whatever tokens are minted, rotated or
  revoked in between and however those requests overlap each other, as long as none of the new ones has the digest of the old one.
\<close>
theorem refresh_token_rotates:
  assumes "Rotate_from H now True (Some raw) old (Doc f) before = (Ok (Some (new, u)), file')" and "raw \<noteq> ''''"
    and "distinct (map mHash (mSessions f))" and "H new \<noteq> H old"
    and "steps (mobile_inter H ps) (file', []) (file2, fl)" and "\<forall>p. ps p \<longrightarrow> \<not> mobile_grants H p (H old)"
    and "unix now \<le> unix later" and "unix next < unix now + MobileRefreshTTL" and "seen \<in> insert file2 (snd ` set fl)"
  shows "fst (Rotate H next True (Some raw') new file') = Ok (Some (u @ ''.'' @ raw', u))
    \<and> fst (Rotate_from H later ok raw'' old seen after) = Ok None"
proof
  let ?xs = "gcExpiredSessions (mSessions f) (unix now)"
  note rot = Rotate_success [OF assms(1)]
  obtain f' where f': "file' = Doc f'" "mSessions f' = upd_first (\<lambda>x. mHash x = H old)
       (\<lambda>x. x\<lparr>mHash := H new, mExpiresAt := unix now + MobileRefreshTTL, mLastSeen := unix now\<rparr>) ?xs"
    using rot(4) by blast
  have "\<exists>x\<in>set ?xs. mHash x = H old"
    using rot(3) by (auto simp: live_hash_iff gcExpiredSessions_def)
  then have live: "live_hash (mSessions f') (unix next) (H new)"
    using assms(8) by (simp add: f'(2) upd_hash_live)
  have "new = u @ ''.'' @ raw" using rot(2) by (simp add: mintMobileRefreshToken_def)
  then have "ParseMobileRefreshUsername new = Some u"
    using parse_minted assms(2) parsed_username [OF rot(1)] by blast
  then show "fst (Rotate H next True (Some raw') new file') = Ok (Some (u @ ''.'' @ raw', u))"
    using Rotate_live live f'(1) by blast
  have "distinct (map mHash ?xs)" using assms(3) by (simp add: gcExpiredSessions_def distinct_map_filter)
  from upd_hash_gone [OF this assms(4)] have "H old \<notin> mHash ` set (mSessions f')"
    unfolding f'(2) by blast
  then have "token_dead H ps (unix later) (H old) (file', [])"
    unfolding f'(1) by (auto simp: token_dead_def live_hash_iff readable_file_def) (metis imageI)
  with assms(5) have "token_dead H ps (unix later) (H old) (file2, fl)"
    by (induction rule: steps.induct) (use assms(6) token_dead_step in blast)+
  then show "fst (Rotate_from H later ok raw'' old seen after) = Ok None"
    using assms(9) by (intro Rotate_outcome(2)) (auto simp: token_dead_def)
qed

definition demo_mobile :: mobileSessionsFile where
  "demo_mobile = \<lparr>mSchema = 1, mUser = ''sam'', mSessions =
     [\<lparr>mID = ''d1'', mHash = ''sam.aa'', mLabel = '''', mCreatedAt = 0, mExpiresAt = 100, mLastSeen = 0\<rparr>]\<rparr>"

definition demo_rotated :: mobile_file where
  "demo_rotated = Doc (demo_mobile\<lparr>mSessions :=
     [\<lparr>mID = ''d1'', mHash = ''sam.bb'', mLabel = '''', mCreatedAt = 0, mExpiresAt = MobileRefreshTTL, mLastSeen = 0\<rparr>]\<rparr>)"

lemmas mobile_eval = Rotate_from_def Mint_from_def ParseMobileRefreshUsername_def demo_mobile_def demo_rotated_def mobile_load_def
  unix_def gcExpiredSessions_def mintMobileRefreshToken_def mobile_save_def MobileRefreshTTL_def Let_def

lemma demo_rotation:
  "Rotate_from id 0 True (Some ''bb'') ''sam.aa'' (Doc demo_mobile) (Doc demo_mobile) = (Ok (Some (''sam.bb'', ''sam'')), demo_rotated)"
  by (simp add: mobile_eval)

text \<open>A mint that has read the file after the rotation and not yet written it.\<close>

theorem refresh_token_rotates_witness:
  "fst (Rotate id 5 True (Some ''cc'') ''sam.bb'' demo_rotated) = Ok (Some (''sam.cc'', ''sam''))
   \<and> fst (Rotate_from id 9 True (Some ''dd'') ''sam.aa'' demo_rotated demo_rotated) = Ok None"
proof -
  let ?p = "OpMint 6 True (Some ''ee'') ''d2'' ''sam'' ''''"
  have s: "steps (mobile_inter id (\<lambda>p. p = ?p)) (demo_rotated, []) (demo_rotated, [(?p, demo_rotated)])"
    by (rule steps.steps_step [OF steps.steps_refl], rule mobile_inter.reads) simp
  have "fst (Rotate id 5 True (Some ''cc'') ''sam.bb'' demo_rotated) = Ok (Some (''sam'' @ ''.'' @ ''cc'', ''sam''))
     \<and> fst (Rotate_from id 9 True (Some ''dd'') ''sam.aa'' demo_rotated demo_rotated) = Ok None"
    by (rule refresh_token_rotates [OF demo_rotation _ _ _ s])
      (simp_all add: demo_mobile_def unix_def MobileRefreshTTL_def mintMobileRefreshToken_def)
  then show ?thesis by simp
qed

text \<open>
  The store and its mutex are built for each request, so requests do overlap. Two rotations of one token that both read the file before
  either writes it both succeed; and a mint that read the file before the rotation and writes it after it brings the old token back.
\<close>

lemma overlapping_rotations_both_succeed:
  "fst (Rotate_from id 0 True (Some ''bb'') ''sam.aa'' (Doc demo_mobile) (Doc demo_mobile)) = Ok (Some (''sam.bb'', ''sam''))
   \<and> fst (Rotate_from id 0 True (Some ''cc'') ''sam.aa'' (Doc demo_mobile) demo_rotated) = Ok (Some (''sam.cc'', ''sam''))"
  by (simp add: mobile_eval)

lemma late_mint_brings_old_token_back:
  "fst (Rotate id 9 True (Some ''dd'') ''sam.aa''
      (snd (Mint_from id 0 True (Some ''ee'') ''d2'' ''sam'' '''' (Doc demo_mobile) demo_rotated))) = Ok (Some (''sam.dd'', ''sam''))"
  by (simp add: Rotate_def mobile_eval)

section \<open>Trusted devices\<close>

datatype device_op =
    DMint nanos bool "string option" string string string
  | DCheck nanos bool string
  | DRevoke bool string
  | DRevokeAll bool

fun device_step :: "(string \<Rightarrow> string) \<Rightarrow> device_op \<Rightarrow> device_file \<Rightarrow> device_file" where
  "device_step H (DMint now ok raw user label ip) file = snd (device_Mint H now ok raw user label ip file)"
| "device_step H (DCheck now ok secret) file = snd (IsTrusted H now ok secret file)"
| "device_step H (DRevoke ok secret) file = snd (device_Revoke H ok secret file)"
| "device_step H (DRevokeAll ok) file = snd (device_RevokeAll ok file)"

fun device_grants :: "(string \<Rightarrow> string) \<Rightarrow> device_op \<Rightarrow> string \<Rightarrow> bool" where
  "device_grants H (DMint now ok raw user label ip) h = (\<exists>t. raw = Some t \<and> h = H t)"
| "device_grants H (DCheck now ok secret) h = False"
| "device_grants H (DRevoke ok secret) h = False"
| "device_grants H (DRevokeAll ok) h = False"

definition live_device :: "TrustedDevice list \<Rightarrow> secs \<Rightarrow> string \<Rightarrow> bool" where
  "live_device xs now h \<longleftrightarrow> list_ex (\<lambda>x. dHash x = h \<and> now < dExpiresAt x) xs"

definition device_valid :: "device_file \<Rightarrow> secs \<Rightarrow> string \<Rightarrow> bool" where
  "device_valid file now h \<longleftrightarrow> (case file of Doc f \<Rightarrow> live_device (dDevices f) now h | _ \<Rightarrow> False)"

lemma live_device_iff: "live_device xs now h \<longleftrightarrow> (\<exists>x\<in>set xs. dHash x = h \<and> now < dExpiresAt x)"
  by (simp add: live_device_def list_ex_iff)

lemma live_device_simps [simp]:
  "\<not> live_device [] now h" "live_device (x # xs) now h \<longleftrightarrow> dHash x = h \<and> now < dExpiresAt x \<or> live_device xs now h"
  "live_device (xs @ ys) now h \<longleftrightarrow> live_device xs now h \<or> live_device ys now h"
  by (auto simp: live_device_iff)

lemma device_valid_simps [simp]:
  "device_valid (Doc f) now h \<longleftrightarrow> live_device (dDevices f) now h"
  "\<not> device_valid NoFile now h" "\<not> device_valid Unreadable now h" "\<not> device_valid Garbled now h"
  by (simp_all add: device_valid_def)

lemma live_device_filter: "live_device (filter P xs) now h \<Longrightarrow> live_device xs now h"
  by (auto simp: live_device_iff)

lemma live_device_gc: "live_device (gcExpired xs n) now h \<Longrightarrow> live_device xs now h"
  unfolding gcExpired_def by (rule live_device_filter)

lemma live_device_seen [simp]: "live_device (upd_first p (\<lambda>x. x\<lparr>dLastSeen := l\<rparr>) xs) now h \<longleftrightarrow> live_device xs now h"
  by (induction xs) auto

lemma device_save_valid:
  "device_valid (snd (device_save ok f file)) now h \<Longrightarrow> device_valid file now h \<or> live_device (dDevices f) now h"
  by (auto simp: device_save_def split: if_splits)

interpretation trusted_devices: credential_store "device_step H" "device_grants H" device_valid for H
proof
  fix p f t k
  assume v: "device_valid (device_step H p f) t k"
  show "device_valid f t k \<or> device_grants H p k"
  proof (cases p)
    case (DMint now ok raw user label ip)
    with v show ?thesis
      by (cases f) (auto simp: device_Mint_def device_load_def Let_def case_prod_beta' split: option.splits
          dest!: device_save_valid live_device_gc)
  next
    case (DCheck now ok secret)
    with v show ?thesis
      by (cases f) (auto simp: IsTrusted_def device_load_def Let_def case_prod_beta' split: if_splits
          dest!: device_save_valid dest: live_device_gc)
  next
    case (DRevoke ok secret)
    with v show ?thesis
      by (cases f) (auto simp: device_Revoke_def device_load_def dest!: device_save_valid live_device_filter split: if_splits)
  next
    case (DRevokeAll ok)
    with v show ?thesis by (auto simp: device_RevokeAll_def device_valid_def split: if_splits)
  qed
next
  show "device_valid f s k" if "device_valid f t k" "s \<le> t" for f t k s
    using that by (cases f) (force simp: live_device_iff)+
qed

lemma IsTrusted_valid: "fst (IsTrusted H now ok secret file) = Ok True \<Longrightarrow> device_valid file (unix now) (H secret)"
  by (cases "file") (auto simp: IsTrusted_def device_load_def Let_def live_device_def split: if_splits sum.splits)

lemma device_Revoke_gone:
  assumes "fst (device_Revoke H True secret file) = Ok ()" and "secret \<noteq> ''''"
  shows "\<not> device_valid (snd (device_Revoke H True secret file)) t (H secret)"
  using assms
  by (cases "file") (auto simp: device_Revoke_def device_load_def device_save_def live_device_iff)

lemma device_Mint_expiry:
  assumes "fst (device_Mint H t0 ok (Some secret) user label ip file) = Ok secret" and "\<not> device_valid file t (H secret)"
    and "unix t0 + DeviceTrustTTL \<le> t"
  shows "\<not> device_valid (snd (device_Mint H t0 ok (Some secret) user label ip file)) t (H secret)"
  using assms
  by (cases "file") (auto simp: device_Mint_def device_load_def Let_def case_prod_beta' split: sum.splits
      dest!: device_save_valid live_device_gc)

text \<open>
  Trust in a device ends: a secret minted at \<open>t0\<close> never waives the second factor from 14 days later
  on, however often it was used (using it does not extend it), and once it is revoked it is refused from
  then on, whatever else happens to the file, unless a secret with its digest is minted again.
\<close>
theorem device_trust_ends:
  assumes "\<forall>p\<in>set ps. \<not> device_grants H p (H secret)" and "secret \<noteq> ''''"
    and "\<not> device_valid file (unix t0 + DeviceTrustTTL) (H secret)"
    and "fst (device_Mint H t0 mok (Some secret) user label ip file) = Ok secret"
    and "unix t0 + DeviceTrustTTL \<le> unix now"
    and "fst (device_Revoke H True secret file') = Ok ()"
  shows "fst (IsTrusted H now ok secret
        (fold (device_step H) ps (snd (device_Mint H t0 mok (Some secret) user label ip file)))) \<noteq> Ok True
    \<and> fst (IsTrusted H now' ok secret (fold (device_step H) ps (snd (device_Revoke H True secret file')))) \<noteq> Ok True"
proof -
  have "\<not> device_valid (fold (device_step H) ps (snd (device_Mint H t0 mok (Some secret) user label ip file)))
      (unix now) (H secret)"
    using trusted_devices.refused_stays_refused [OF device_Mint_expiry [OF assms(4,3) order_refl]] assms(1,5) by blast
  moreover have "\<not> device_valid (fold (device_step H) ps (snd (device_Revoke H True secret file'))) (unix now') (H secret)"
    using trusted_devices.refused_stays_refused [OF device_Revoke_gone [OF assms(6,2)]] assms(1) by blast
  ultimately show ?thesis using IsTrusted_valid by blast
qed

theorem device_trust_ends_witness:
  "fst (IsTrusted id (DeviceTrustTTL * second) True ''s''
        (fold (device_step id) [DCheck (5 * second) True ''s'']
          (snd (device_Mint id 0 True (Some ''s'') ''sam'' ''ua'' ''ip'' NoFile)))) \<noteq> Ok True
    \<and> fst (IsTrusted id 9 True ''s'' (fold (device_step id) [DCheck (5 * second) True ''s'']
         (snd (device_Revoke id True ''s'' (snd (device_Mint id 0 True (Some ''s'') ''sam'' ''ua'' ''ip'' NoFile)))))) \<noteq> Ok True"
  by (rule device_trust_ends)
    (simp_all add: device_Mint_def device_load_def gcExpired_def device_save_def unix_def second_def device_Revoke_def)

section \<open>Passkeys\<close>

datatype 'c passkey_op =
    PAdd nanos bool "'c wcredential" string
  | PApprove nanos bool string
  | PRemove bool string
  | PUpdate bool "'c wcredential"

fun passkey_step :: "'c passkey_op \<Rightarrow> 'c passkey_file \<Rightarrow> 'c passkey_file" where
  "passkey_step (PAdd now ok cred label) file = snd (passkey_Add now ok cred label file)"
| "passkey_step (PApprove now ok i) file = snd (Approve now ok i file)"
| "passkey_step (PRemove ok i) file = snd (passkey_Remove ok i file)"
| "passkey_step (PUpdate ok cred) file = snd (UpdateCredential ok cred file)"

fun approves :: "'c passkey_op \<Rightarrow> string \<Rightarrow> bool" where
  "approves (PApprove now ok i) k = (i = k)"
| "approves (PAdd now ok cred label) k = False"
| "approves (PRemove ok i) k = False"
| "approves (PUpdate ok cred) k = False"

text \<open>Whether a passkey is listed as the user's own; an approval has no expiry.\<close>

definition approved_id :: "'c CredentialRecord list \<Rightarrow> string \<Rightarrow> bool" where
  "approved_id cs k \<longleftrightarrow> list_ex (\<lambda>r. crID r = k \<and> crStatus r = Approved) cs"

definition listed :: "'c passkey_file \<Rightarrow> secs \<Rightarrow> string \<Rightarrow> bool" where
  "listed file now k \<longleftrightarrow> (case file of Doc cs \<Rightarrow> approved_id cs k | _ \<Rightarrow> False)"

lemma approved_id_simps [simp]:
  "\<not> approved_id [] k" "approved_id (r # cs) k \<longleftrightarrow> crID r = k \<and> crStatus r = Approved \<or> approved_id cs k"
  "approved_id (cs @ ds) k \<longleftrightarrow> approved_id cs k \<or> approved_id ds k"
  by (auto simp: approved_id_def)

lemma listed_simps [simp]:
  "listed (Doc cs) now k \<longleftrightarrow> approved_id cs k"
  "\<not> listed NoFile now k" "\<not> listed Unreadable now k" "\<not> listed Garbled now k"
  by (simp_all add: listed_def)

lemma approved_filter: "approved_id (filter P cs) k \<Longrightarrow> approved_id cs k"
  by (induction cs) (auto split: if_splits)

lemma approved_update [simp]: "approved_id (upd_first p (\<lambda>r. r\<lparr>crCredential := c\<rparr>) cs) k \<longleftrightarrow> approved_id cs k"
  by (induction cs) auto

lemma approved_approve:
  "approved_id (upd_first (\<lambda>r. crID r = i) (\<lambda>r. r\<lparr>crStatus := Approved, crApprovedAt := a\<rparr>) cs) k \<Longrightarrow>
     approved_id cs k \<or> i = k"
  by (induction cs) (auto split: if_splits)

lemma passkey_save_listed:
  "listed (snd (passkey_save ok cs file)) now k \<Longrightarrow> listed file now k \<or> approved_id cs k"
  by (cases "file") (auto simp: passkey_save_def split: if_splits)

interpretation passkeys: credential_store passkey_step approves listed
proof
  fix p :: "'c passkey_op" and f t k
  assume v: "listed (passkey_step p f) t k"
  show "listed f t k \<or> approves p k"
  proof (cases p)
    case (PAdd now ok cred label)
    with v show ?thesis
      by (cases f) (auto simp: passkey_Add_def passkey_load_def Let_def case_prod_beta' split: if_splits
          dest!: passkey_save_listed)
  next
    case (PApprove now ok i)
    with v show ?thesis
      by (cases f) (auto simp: Approve_def passkey_load_def Let_def case_prod_beta' split: if_splits
          dest!: passkey_save_listed approved_approve)
  next
    case (PRemove ok i)
    with v show ?thesis
      by (cases f) (auto simp: passkey_Remove_def passkey_load_def Let_def case_prod_beta' split: if_splits
          dest!: passkey_save_listed approved_filter)
  next
    case (PUpdate ok cred)
    with v show ?thesis
      by (cases f) (auto simp: UpdateCredential_def passkey_load_def Let_def case_prod_beta' split: if_splits
          dest!: passkey_save_listed)
  qed
qed (simp add: listed_def)

lemma passkey_List_listed: "passkey_List file = Ok rs \<Longrightarrow> r \<in> set rs \<Longrightarrow> listed file 0 (crID r)"
  by (cases "file") (auto simp: passkey_List_def passkey_load_def approved_id_def list_ex_iff)

lemma Remove_not_listed:
  "fst (passkey_Remove True i file) = Ok () \<Longrightarrow> \<not> listed (snd (passkey_Remove True i file)) now i"
  by (cases "file") (auto simp: passkey_Remove_def passkey_load_def passkey_save_def Let_def case_prod_beta'
      approved_id_def list_ex_iff split: if_splits)

lemma Add_not_listed:
  assumes "fst (passkey_Add now ok cred label file) = Ok r"
  shows "\<not> listed (snd (passkey_Add now ok cred label file)) t (crID r) \<and> crID r = CredentialRecordID cred"
  using assms
  by (cases "file") (auto simp: passkey_Add_def passkey_load_def passkey_save_def passkey_result_def Let_def
      approved_id_def list_ex_iff split: if_splits)

text \<open>
  A passkey counts as the user's only by approval: after a registration, and likewise after a removal,
  the listing of the user's credentials has no entry with that identifier, whatever else is registered,
  approved, removed or updated, until that identifier itself is approved.
\<close>
theorem passkey_needs_approval:
  assumes "fst (passkey_Add now ok cred label file) = Ok rec
      \<and> file1 = snd (passkey_Add now ok cred label file) \<and> k = CredentialRecordID cred
    \<or> fst (passkey_Remove True k file) = Ok () \<and> file1 = snd (passkey_Remove True k file)"
    and "\<forall>p\<in>set ps. \<not> approves p k"
    and "passkey_List (fold passkey_step ps file1) = Ok rs"
  shows "k \<notin> crID ` set rs"
proof -
  have "\<not> listed file1 0 k"
    using assms(1) Add_not_listed Remove_not_listed by metis
  then have "\<not> listed (fold passkey_step ps file1) 0 k"
    using passkeys.refused_stays_refused assms(2) by blast
  then show ?thesis using passkey_List_listed [OF assms(3)] by blast
qed

definition demo_key :: "unit wcredential" where
  "demo_key = \<lparr>wcID = ''abc'', wcRest = ()\<rparr>"

theorem passkey_needs_approval_witness:
  "passkey_List (fold passkey_step [PUpdate True demo_key] (snd (passkey_Add 5 True demo_key ''phone'' NoFile))) = Ok []
   \<and> CredentialRecordID demo_key \<notin> crID ` set ([] :: unit CredentialRecord list)
   \<and> (\<exists>r. passkey_List (snd (Approve 6 True (CredentialRecordID demo_key) (snd (passkey_Add 5 True demo_key ''phone'' NoFile)))) = Ok [r])"
proof -
  obtain rec where r: "fst (passkey_Add 5 True demo_key ''phone'' NoFile) = Ok rec"
    by (simp add: passkey_Add_def passkey_load_def passkey_save_def passkey_result_def Let_def)
  have l: "passkey_List (fold passkey_step [PUpdate True demo_key] (snd (passkey_Add 5 True demo_key ''phone'' NoFile))) = Ok []"
    by (simp add: passkey_Add_def passkey_load_def passkey_save_def UpdateCredential_def passkey_List_def Let_def)
  have "CredentialRecordID demo_key \<notin> crID ` set ([] :: unit CredentialRecord list)"
    by (rule passkey_needs_approval [OF disjI1 [OF conjI [OF r]] _ l]) simp_all
  moreover have "\<exists>r. passkey_List (snd (Approve 6 True (CredentialRecordID demo_key) (snd (passkey_Add 5 True demo_key ''phone'' NoFile)))) = Ok [r]"
    by (simp add: passkey_Add_def passkey_load_def passkey_save_def Approve_def passkey_List_def Let_def)
  ultimately show ?thesis using l by blast
qed

end
