(* ===== verification/Accounts.thy ===== *)
theory Accounts
  imports GoStrings
begin

text \<open>
  \<^verbatim>\<open>internal/auth/uuid_map.go\<close> and the password half of \<^verbatim>\<open>internal/auth/auth.go\<close>: the map from user names
  to GoTrue accounts, and the policy that decides which authority checks a password.

  The GoTrue client and bcrypt are parameters: \<open>gotrue email password\<close> is a session or an error, and
  \<open>bcrypt_ok hash password\<close> says whether the comparison succeeds. A nil map is \<open>None\<close>.
\<close>

section \<open>User names and accounts\<close>

record uuidMapEntry =
  uEmail :: string
  uUUID :: string

type_synonym UUIDMap = "(string \<rightharpoonup> uuidMapEntry) option"

record uuidMapFile =
  uSchema :: int
  uMappings :: "(string \<times> uuidMapEntry) list"

datatype map_error = ReadFailed | ParseFailed | WrongSchema | EmptyEntry

definition LoadUUIDMap :: "uuidMapFile jsonfile \<Rightarrow> map_error + UUIDMap" where
  "LoadUUIDMap file =
     (case file of
        NoFile \<Rightarrow> Ok None
      | Unreadable \<Rightarrow> Err ReadFailed
      | Garbled \<Rightarrow> Err ParseFailed
      | Doc f \<Rightarrow>
          if uSchema f \<noteq> 1 then Err WrongSchema
          else if list_ex (\<lambda>(u, e). uEmail e = '''' \<or> uUUID e = '''') (uMappings f) then Err EmptyEntry
          else Ok (Some (map_of (uMappings f))))"

definition Lookup :: "UUIDMap \<Rightarrow> string \<Rightarrow> (string \<times> string) option" where
  "Lookup u name =
     (case u of None \<Rightarrow> None
      | Some m \<Rightarrow> map_option (\<lambda>e. (uEmail e, uUUID e)) (m name))"

text \<open>The argument \<open>ks\<close> is the order in which Go ranges over the map.\<close>

definition LookupByEmail :: "string list \<Rightarrow> UUIDMap \<Rightarrow> string \<Rightarrow> string option" where
  "LookupByEmail ks u email =
     (case u of None \<Rightarrow> None
      | Some m \<Rightarrow>
          let needle = ToLower (TrimSpace email)
          in find (\<lambda>n. case m n of None \<Rightarrow> False | Some e \<Rightarrow> ToLower (uEmail e) = needle) ks)"

definition EmailFor :: "UUIDMap \<Rightarrow> string \<Rightarrow> string" where
  "EmailFor u name =
     (case u of None \<Rightarrow> '''' | Some m \<Rightarrow> (case m name of None \<Rightarrow> '''' | Some e \<Rightarrow> uEmail e))"

definition uuid_Remove :: "string \<Rightarrow> UUIDMap \<Rightarrow> bool \<times> UUIDMap" where
  "uuid_Remove name u =
     (case u of None \<Rightarrow> (False, None)
      | Some m \<Rightarrow> if m name = None then (False, u) else (True, Some (m(name := None))))"

definition SaveUUIDMap :: "string list \<Rightarrow> bool \<Rightarrow> UUIDMap \<Rightarrow> uuidMapFile jsonfile \<Rightarrow> uuidMapFile jsonfile" where
  "SaveUUIDMap ks ok u file =
     (case u of None \<Rightarrow> file
      | Some m \<Rightarrow>
          if ok then Doc \<lparr>uSchema = 1, uMappings = List.map_filter (\<lambda>k. map_option (Pair k) (m k)) ks\<rparr> else file)"

section \<open>Checking a password\<close>

record Credential =
  Username :: string
  PasswordHash :: string

datatype AuthBackend = BackendLocal | BackendSupabase | BackendBoth | BackendOther string

datatype verify_error = SupabaseUnexpected | SupabaseInvalidCredentials | SupabaseOther string

record 's VerifyResult =
  vOK :: bool
  vSource :: string
  vEmail :: string
  vSession :: "'s option"

record 's account_service =
  aUsers :: "Credential list"
  aBackend :: AuthBackend
  aSupabase :: "(string \<Rightarrow> string \<Rightarrow> verify_error + 's) option"
  aUUIDMap :: UUIDMap

fun verifyLocal_loop :: "(string \<Rightarrow> string \<Rightarrow> bool) \<Rightarrow> Credential list \<Rightarrow> string \<Rightarrow> string \<Rightarrow> bool" where
  "verifyLocal_loop bcrypt_ok [] name pass = False"
| "verifyLocal_loop bcrypt_ok (u # us) name pass =
     (if Username u = name then (if PasswordHash u = '''' then False else bcrypt_ok (PasswordHash u) pass)
      else verifyLocal_loop bcrypt_ok us name pass)"

definition verifyLocal :: "(string \<Rightarrow> string \<Rightarrow> bool) \<Rightarrow> 's account_service \<Rightarrow> string \<Rightarrow> string \<Rightarrow> bool" where
  "verifyLocal bcrypt_ok s name pass = verifyLocal_loop bcrypt_ok (aUsers s) name pass"

text \<open>The result and the error, if any, as the Go function returns both.\<close>

definition verifySupabase :: "'s account_service \<Rightarrow> string \<Rightarrow> string \<Rightarrow> 's VerifyResult \<times> verify_error option" where
  "verifySupabase s name pass =
     (case aSupabase s of
        None \<Rightarrow> (\<lparr>vOK = False, vSource = ''supabase'', vEmail = '''', vSession = None\<rparr>, Some SupabaseUnexpected)
      | Some gotrue \<Rightarrow>
          (case Lookup (aUUIDMap s) name of
             None \<Rightarrow>
               (\<lparr>vOK = False, vSource = ''supabase'', vEmail = '''', vSession = None\<rparr>, Some SupabaseInvalidCredentials)
           | Some (email, _) \<Rightarrow>
               (case gotrue email pass of
                  Err e \<Rightarrow> (\<lparr>vOK = False, vSource = ''supabase'', vEmail = email, vSession = None\<rparr>, Some e)
                | Ok sess \<Rightarrow> (\<lparr>vOK = True, vSource = ''supabase'', vEmail = email, vSession = Some sess\<rparr>, None))))"

definition VerifyDetailed ::
    "(string \<Rightarrow> string \<Rightarrow> bool) \<Rightarrow> 's account_service \<Rightarrow> string \<Rightarrow> string \<Rightarrow> 's VerifyResult \<times> verify_error option" where
  "VerifyDetailed bcrypt_ok s name pass =
     (case aBackend s of
        BackendLocal \<Rightarrow>
          (\<lparr>vOK = verifyLocal bcrypt_ok s name pass, vSource = ''local'', vEmail = '''', vSession = None\<rparr>, None)
      | _ \<Rightarrow> verifySupabase s name pass)"

definition Verify :: "(string \<Rightarrow> string \<Rightarrow> bool) \<Rightarrow> 's account_service \<Rightarrow> string \<Rightarrow> string \<Rightarrow> bool" where
  "Verify bcrypt_ok s name pass = vOK (fst (VerifyDetailed bcrypt_ok s name pass))"

section \<open>What the policy gives\<close>

lemma find_map_filter_pair:
  "map_of (List.map_filter (\<lambda>k. map_option (Pair k) (m k)) ks) n = (if n \<in> set ks then m n else None)"
  by (induction ks) (auto simp: map_filter_simps split: option.splits)

text \<open>What is saved is what is loaded again, as long as no entry is empty.\<close>

lemma uuid_map_roundtrip:
  assumes "set ks = dom m" and "\<And>n e. m n = Some e \<Longrightarrow> uEmail e \<noteq> '''' \<and> uUUID e \<noteq> ''''"
  shows "LoadUUIDMap (SaveUUIDMap ks True (Some m) file) = Ok (Some m)"
proof -
  have "map_of (List.map_filter (\<lambda>k. map_option (Pair k) (m k)) ks) = m"
    using assms(1) by (auto simp: find_map_filter_pair fun_eq_iff domIff)
  then show ?thesis
    using assms(2) by (auto simp: LoadUUIDMap_def SaveUUIDMap_def list_ex_iff List.map_filter_def)
qed

text \<open>
  Unless the local backend is selected, a password is accepted exactly when the name is mapped to an
  account and GoTrue accepts the password for that account's address: the local bcrypt hashes are never
  consulted, also under the policy \<open>both\<close> and when GoTrue fails. Once a name has been removed from the
  map no password is accepted for it, and no address leads to it.
\<close>
theorem password_policy:
  assumes "aBackend s \<noteq> BackendLocal" and "aSupabase s = Some gotrue" and "aUUIDMap s = Some m"
  shows "(Verify bcrypt_ok s name pass \<longleftrightarrow> (\<exists>e sess. m name = Some e \<and> gotrue (uEmail e) pass = Ok sess))
    \<and> \<not> Verify bcrypt_ok (s\<lparr>aUUIDMap := snd (uuid_Remove name (Some m))\<rparr>) name pass
    \<and> LookupByEmail ks (snd (uuid_Remove name (Some m))) email \<noteq> Some name"
proof -
  have "VerifyDetailed bcrypt_ok s' name pass = verifySupabase s' name pass" if "aBackend s' \<noteq> BackendLocal" for s' :: "'a account_service"
    using that by (simp add: VerifyDetailed_def split: AuthBackend.splits)
  then show ?thesis
    using assms
    by (auto simp: Verify_def verifySupabase_def Lookup_def uuid_Remove_def LookupByEmail_def find_Some_iff Let_def
        split: option.splits sum.splits if_splits)
qed

definition demo_accounts :: "unit account_service" where
  "demo_accounts = \<lparr>aUsers = [\<lparr>Username = ''sam'', PasswordHash = ''h''\<rparr>], aBackend = BackendBoth,
     aSupabase = Some (\<lambda>email pass. if pass = ''pw'' then Ok () else Err (SupabaseOther ''network'')),
     aUUIDMap = Some [''sam'' \<mapsto> \<lparr>uEmail = ''sam@x'', uUUID = ''1''\<rparr>]\<rparr>"

theorem password_policy_witness:
  "Verify (\<lambda>_ _. True) demo_accounts ''sam'' ''pw'' \<and> \<not> Verify (\<lambda>_ _. True) demo_accounts ''sam'' ''other''"
  using password_policy [of demo_accounts _ _ "\<lambda>_ _. True" "''sam''" "''pw''"]
    password_policy [of demo_accounts _ _ "\<lambda>_ _. True" "''sam''" "''other''"]
  by (simp add: demo_accounts_def)

end
