(* ===== verification/DurableFile.thy ===== *)
theory DurableFile
  imports Prelude
begin

text \<open>
  The writers behind every JSON store: \<open>writeFileAtomic\<close> of \<^verbatim>\<open>internal/inventory/store.go\<close> (with its copies in
  \<^verbatim>\<open>config/migrate.go\<close> and \<^verbatim>\<open>deploy/migrate.go\<close>), \<open>atomicWriteJSON\<close> of \<^verbatim>\<open>internal/webpush/store.go\<close> (copied in
  \<^verbatim>\<open>videocall/push.go\<close>), \<open>atomicWrite\<close> of \<^verbatim>\<open>internal/datasaver/datasaver.go\<close> and \<open>writeFileAtomic\<close> of
  \<^verbatim>\<open>internal/whatsapp/manager.go\<close>.

  A writer is the sequence of file-system calls it makes, which depends on the call that fails first.
  The file system keeps what the page cache holds apart from what survives a power cut: an inode is
  \<open>flushed\<close> when its content has reached the disk, and after a rename that no directory sync has followed
  either entry may be the one on the disk. Reading an inode that was not flushed may give anything.
\<close>

section \<open>The file system\<close>

record inode =
  page :: string
  flushed :: bool

record fs =
  inodes :: "nat \<Rightarrow> inode"
  fresh :: nat
  pathE :: "nat option"
  tmpE :: "nat option"
  pathD :: "nat option list"

datatype fsop = Create | Append string | FSync | Rename | Unlink | DirSync

definition on_tmp :: "(inode \<Rightarrow> inode) \<Rightarrow> fs \<Rightarrow> fs" where
  "on_tmp f s = (case tmpE s of None \<Rightarrow> s | Some i \<Rightarrow> s\<lparr>inodes := (inodes s)(i := f (inodes s i))\<rparr>)"

fun do_op :: "fsop \<Rightarrow> fs \<Rightarrow> fs" where
  "do_op Create s =
     (case tmpE s of
        Some i \<Rightarrow> s\<lparr>inodes := (inodes s)(i := \<lparr>page = '''', flushed = False\<rparr>)\<rparr>
      | None \<Rightarrow> s\<lparr>inodes := (inodes s)(fresh s := \<lparr>page = '''', flushed = False\<rparr>),
                 tmpE := Some (fresh s), fresh := fresh s + 1\<rparr>)"
| "do_op (Append d) s = on_tmp (\<lambda>n. \<lparr>page = page n @ d, flushed = False\<rparr>) s"
| "do_op FSync s = on_tmp (\<lambda>n. n\<lparr>flushed := True\<rparr>) s"
| "do_op Rename s =
     (case tmpE s of None \<Rightarrow> s
      | Some i \<Rightarrow> s\<lparr>pathE := Some i, tmpE := None, pathD := Some i # pathD s\<rparr>)"
| "do_op Unlink s = s\<lparr>tmpE := None\<rparr>"
| "do_op DirSync s = s\<lparr>pathD := [pathE s]\<rparr>"

definition run_ops :: "fsop list \<Rightarrow> fs \<Rightarrow> fs" where
  "run_ops ops s = fold do_op ops s"

datatype reading = Absent | Whole string | Torn

text \<open>What a read of the path gives now, and what it may give after a power cut.\<close>

definition read_now :: "fs \<Rightarrow> reading" where
  "read_now s = (case pathE s of None \<Rightarrow> Absent | Some i \<Rightarrow> Whole (page (inodes s i)))"

definition entry_reading :: "fs \<Rightarrow> nat option \<Rightarrow> reading" where
  "entry_reading s e =
     (case e of None \<Rightarrow> Absent
      | Some i \<Rightarrow> if flushed (inodes s i) then Whole (page (inodes s i)) else Torn)"

definition cut_reads :: "fs \<Rightarrow> reading list" where
  "cut_reads s = map (entry_reading s) (pathD s)"

section \<open>The writers\<close>

datatype wfault = MkdirF | OpenF | WriteF nat | ChmodF | SyncF | CloseF | RenameF

text \<open>Inventory, configuration and deploy: both syncs, the temporary file removed except when the close fails.\<close>

definition writeFileAtomic :: "wfault option \<Rightarrow> bool \<Rightarrow> string \<Rightarrow> fsop list \<times> (wfault + unit)" where
  "writeFileAtomic fault dirOpens data =
     (case fault of
        Some MkdirF \<Rightarrow> ([], Err MkdirF)
      | Some OpenF \<Rightarrow> ([], Err OpenF)
      | Some (WriteF n) \<Rightarrow> ([Create, Append (take n data), Unlink], Err (WriteF n))
      | Some SyncF \<Rightarrow> ([Create, Append data, Unlink], Err SyncF)
      | Some CloseF \<Rightarrow> ([Create, Append data, FSync], Err CloseF)
      | Some RenameF \<Rightarrow> ([Create, Append data, FSync, Unlink], Err RenameF)
      | _ \<Rightarrow> ([Create, Append data, FSync, Rename] @ (if dirOpens then [DirSync] else []), Ok ()))"

text \<open>Web push and video calls: the temporary file stays after a failed write, a failed close is ignored.\<close>

definition atomicWriteJSON :: "wfault option \<Rightarrow> bool \<Rightarrow> string \<Rightarrow> fsop list \<times> (wfault + unit)" where
  "atomicWriteJSON fault dirOpens data =
     (case fault of
        Some MkdirF \<Rightarrow> ([], Err MkdirF)
      | Some OpenF \<Rightarrow> ([], Err OpenF)
      | Some (WriteF n) \<Rightarrow> ([Create, Append (take n data)], Err (WriteF n))
      | Some SyncF \<Rightarrow> ([Create, Append data], Err SyncF)
      | Some RenameF \<Rightarrow> ([Create, Append data, FSync, Unlink], Err RenameF)
      | _ \<Rightarrow> ([Create, Append data, FSync, Rename] @ (if dirOpens then [DirSync] else []), Ok ()))"

text \<open>Data saver: a temporary file under a new name each time (so an earlier one is out of reach), always
  removed, and no sync of the directory.\<close>

definition atomicWrite :: "wfault option \<Rightarrow> string \<Rightarrow> fsop list \<times> (wfault + unit)" where
  "atomicWrite fault data =
     (case fault of
        Some OpenF \<Rightarrow> ([], Err OpenF)
      | Some (WriteF n) \<Rightarrow> ([Unlink, Create, Append (take n data), Unlink], Err (WriteF n))
      | Some ChmodF \<Rightarrow> ([Unlink, Create, Append data, Unlink], Err ChmodF)
      | Some SyncF \<Rightarrow> ([Unlink, Create, Append data, Unlink], Err SyncF)
      | Some CloseF \<Rightarrow> ([Unlink, Create, Append data, FSync, Unlink], Err CloseF)
      | Some RenameF \<Rightarrow> ([Unlink, Create, Append data, FSync, Unlink], Err RenameF)
      | _ \<Rightarrow> ([Unlink, Create, Append data, FSync, Rename, Unlink], Ok ()))"

text \<open>WhatsApp: \<open>os.WriteFile\<close> and \<open>os.Rename\<close>, no sync at all.\<close>

definition waha_writeFileAtomic :: "wfault option \<Rightarrow> string \<Rightarrow> fsop list \<times> (wfault + unit)" where
  "waha_writeFileAtomic fault body =
     (case fault of
        Some OpenF \<Rightarrow> ([], Err OpenF)
      | Some (WriteF n) \<Rightarrow> ([Create, Append (take n body)], Err (WriteF n))
      | Some CloseF \<Rightarrow> ([Create, Append body], Err CloseF)
      | Some RenameF \<Rightarrow> ([Create, Append body], Err RenameF)
      | _ \<Rightarrow> ([Create, Append body, Rename], Ok ()))"

text \<open>
  Maintenance checklist: the file is synced, the directory is not; a failed rename leaves the temporary file. The copy to the
  backup path, after the rename, has no part in the outcome.
\<close>

definition todos_save :: "wfault option \<Rightarrow> string \<Rightarrow> fsop list \<times> (wfault + unit)" where
  "todos_save fault data =
     (case fault of
        Some MkdirF \<Rightarrow> ([], Err MkdirF)
      | Some OpenF \<Rightarrow> ([], Err OpenF)
      | Some (WriteF n) \<Rightarrow> ([Create, Append (take n data), Unlink], Err (WriteF n))
      | Some SyncF \<Rightarrow> ([Create, Append data, Unlink], Err SyncF)
      | Some CloseF \<Rightarrow> ([Create, Append data, FSync, Unlink], Err CloseF)
      | Some RenameF \<Rightarrow> ([Create, Append data, FSync], Err RenameF)
      | _ \<Rightarrow> ([Create, Append data, FSync, Rename], Ok ()))"

section \<open>Scripts that sync before they rename\<close>

text \<open>
  \<open>disciplined d st ops\<close>: starting with the temporary file as \<open>st\<close> says (absent, or its content and
  whether it is synced), every rename in \<open>ops\<close> publishes exactly \<open>d\<close>, already synced.
\<close>

fun disciplined :: "string \<Rightarrow> (string \<times> bool) option \<Rightarrow> fsop list \<Rightarrow> bool" where
  "disciplined d st [] = True"
| "disciplined d st (Create # ops) = disciplined d (Some ('''', False)) ops"
| "disciplined d None (Append x # ops) = False"
| "disciplined d (Some (a, c)) (Append x # ops) = disciplined d (Some (a @ x, False)) ops"
| "disciplined d st (FSync # ops) = disciplined d (map_option (\<lambda>(a, c). (a, True)) st) ops"
| "disciplined d st (Rename # ops) \<longleftrightarrow> st = Some (d, True) \<and> disciplined d None ops"
| "disciplined d st (Unlink # ops) = disciplined d None ops"
| "disciplined d st (DirSync # ops) = disciplined d st ops"

definition tracks :: "fs \<Rightarrow> (string \<times> bool) option \<Rightarrow> bool" where
  "tracks s st =
     (case st of None \<Rightarrow> True
      | Some (a, c) \<Rightarrow> (case tmpE s of None \<Rightarrow> False
          | Some i \<Rightarrow> page (inodes s i) = a \<and> (c \<longrightarrow> flushed (inodes s i))))"

text \<open>Every entry that may be on the disk is flushed, and the temporary file is none of them.\<close>

definition entry_safe :: "fs \<Rightarrow> nat option \<Rightarrow> bool" where
  "entry_safe s e = (case e of None \<Rightarrow> True
     | Some i \<Rightarrow> flushed (inodes s i) \<and> i < fresh s \<and> tmpE s \<noteq> Some i)"

definition settled :: "fs \<Rightarrow> bool" where
  "settled s \<longleftrightarrow> list_all (entry_safe s) (pathD s) \<and> pathE s \<in> set (pathD s)
     \<and> (case tmpE s of None \<Rightarrow> True | Some i \<Rightarrow> i < fresh s)"

lemma disciplined_take: "disciplined d st ops \<Longrightarrow> disciplined d st (take k ops)"
  by (induction d st ops arbitrary: k rule: disciplined.induct) (auto split: nat.splits simp: take_Cons)

text \<open>Changing the temporary file, or an inode nobody uses, leaves every durable reading alone.\<close>

definition untouched :: "fs \<Rightarrow> nat \<Rightarrow> bool" where
  "untouched s i \<longleftrightarrow> tmpE s = Some i \<or> fresh s \<le> i"

lemma entry_reading_other:
  "entry_safe s e \<Longrightarrow> untouched s i \<Longrightarrow> inodes t = (inodes s)(i := n) \<Longrightarrow>
    entry_reading t e = entry_reading s e"
  by (auto simp: entry_safe_def untouched_def entry_reading_def split: option.splits)

lemma cut_reads_other:
  "settled s \<Longrightarrow> untouched s i \<Longrightarrow> inodes t = (inodes s)(i := n) \<Longrightarrow> pathD t = pathD s \<Longrightarrow>
    cut_reads t = cut_reads s"
  by (auto simp: settled_def cut_reads_def list_all_iff intro: entry_reading_other)

lemma on_tmp_safe:
  assumes "settled s" "tmpE s = Some i"
  shows "settled (on_tmp f s) \<and> cut_reads (on_tmp f s) = cut_reads s
    \<and> tmpE (on_tmp f s) = Some i \<and> inodes (on_tmp f s) i = f (inodes s i)"
proof -
  have "cut_reads (on_tmp f s) = cut_reads s"
    using assms by (intro cut_reads_other [where i = i and n = "f (inodes s i)"])
      (simp_all add: on_tmp_def untouched_def)
  moreover have "settled (on_tmp f s)"
    using assms by (auto simp: settled_def on_tmp_def list_all_iff entry_safe_def split: option.splits)
  ultimately show ?thesis
    using assms by (simp add: on_tmp_def)
qed

lemma create_safe:
  assumes "settled s"
  shows "settled (do_op Create s) \<and> cut_reads (do_op Create s) = cut_reads s
    \<and> tracks (do_op Create s) (Some ('''', False))"
proof (cases "tmpE s")
  case None
  have "cut_reads (do_op Create s) = cut_reads s"
    using assms None by (intro cut_reads_other [where i = "fresh s" and n = "\<lparr>page = '''', flushed = False\<rparr>"])
      (simp_all add: untouched_def)
  moreover have "settled (do_op Create s)"
    using assms None by (auto simp: settled_def list_all_iff entry_safe_def split: option.splits)
  ultimately show ?thesis using None by (simp add: tracks_def)
next
  case (Some i)
  have "cut_reads (do_op Create s) = cut_reads s"
    using assms Some by (intro cut_reads_other [where i = i and n = "\<lparr>page = '''', flushed = False\<rparr>"])
      (simp_all add: untouched_def)
  moreover have "settled (do_op Create s)"
    using assms Some by (auto simp: settled_def list_all_iff entry_safe_def split: option.splits)
  ultimately show ?thesis using Some by (simp add: tracks_def)
qed

lemma rename_safe:
  assumes "settled s" "tracks s (Some (d, True))"
  shows "settled (do_op Rename s) \<and> cut_reads (do_op Rename s) = Whole d # cut_reads s"
proof -
  from assms(2) obtain i where i: "tmpE s = Some i" "page (inodes s i) = d" "flushed (inodes s i)"
    by (auto simp: tracks_def split: option.splits)
  then show ?thesis
    using assms(1) by (auto simp: settled_def cut_reads_def entry_reading_def list_all_iff entry_safe_def
      split: option.splits)
qed

lemma unlink_safe:
  "settled s \<Longrightarrow> settled (do_op Unlink s) \<and> cut_reads (do_op Unlink s) = cut_reads s"
  by (auto simp: settled_def cut_reads_def entry_reading_def list_all_iff entry_safe_def split: option.splits)

lemma dirsync_safe:
  assumes "settled s"
  shows "settled (do_op DirSync s) \<and> set (cut_reads (do_op DirSync s)) \<subseteq> set (cut_reads s)"
proof -
  have r: "entry_reading (do_op DirSync s) e = entry_reading s e" for e
    by (simp add: entry_reading_def split: option.splits)
  have "settled (do_op DirSync s)"
    using assms by (auto simp: settled_def list_all_iff entry_safe_def split: option.splits)
  with assms r show ?thesis
    by (simp add: cut_reads_def settled_def)
qed

lemma do_op_settled:
  assumes "settled s" "tracks s st" "disciplined d st (oper # ops)"
  shows "settled (do_op oper s)
    \<and> (\<exists>st'. tracks (do_op oper s) st' \<and> disciplined d st' ops)
    \<and> set (cut_reads (do_op oper s)) \<subseteq> insert (Whole d) (set (cut_reads s))"
proof (cases oper)
  case Create
  with assms create_safe [of s] show ?thesis by auto
next
  case (Append x)
  with assms(3) obtain a c where st: "st = Some (a, c)" by (cases st) auto
  with assms(2) obtain i where i: "tmpE s = Some i" "page (inodes s i) = a"
    by (auto simp: tracks_def split: option.splits)
  with on_tmp_safe [OF assms(1) i(1)] Append st assms(3) show ?thesis
    by (auto simp: tracks_def intro!: exI [of _ "Some (a @ x, False)"])
next
  case FSync
  show ?thesis
  proof (cases "tmpE s")
    case None
    with assms FSync show ?thesis
      by (auto simp: on_tmp_def tracks_def split: option.splits)
  next
    case (Some i)
    with on_tmp_safe [OF assms(1) Some] FSync assms show ?thesis
      by (auto simp: tracks_def split: option.splits
        intro!: exI [of _ "map_option (\<lambda>(a, c). (a, True)) st"])
  qed
next
  case Rename
  with assms rename_safe [of s d] show ?thesis
    by (auto simp: tracks_def intro!: exI [of _ None])
next
  case Unlink
  with assms unlink_safe [of s] show ?thesis by (auto simp: tracks_def intro!: exI [of _ None])
next
  case DirSync
  have "tracks (do_op DirSync s) st"
    using assms(2) by (auto simp: tracks_def split: option.splits)
  with DirSync assms dirsync_safe [of s] show ?thesis by auto
qed

lemma run_disciplined:
  "settled s \<Longrightarrow> tracks s st \<Longrightarrow> disciplined d st ops \<Longrightarrow>
    settled (run_ops ops s) \<and> set (cut_reads (run_ops ops s)) \<subseteq> insert (Whole d) (set (cut_reads s))"
proof (induction ops arbitrary: s st)
  case (Cons oper ops)
  from do_op_settled [OF Cons.prems] obtain st' where "settled (do_op oper s)"
      "tracks (do_op oper s) st'" "disciplined d st' ops"
      "set (cut_reads (do_op oper s)) \<subseteq> insert (Whole d) (set (cut_reads s))"
    by blast
  with Cons.IH [of "do_op oper s" st'] show ?case
    by (auto simp: run_ops_def)
qed (auto simp: run_ops_def)

section \<open>The contract of a durable writer\<close>

text \<open>
  What a store expects of its writer: whatever call fails, it publishes nothing but the new content,
  synced; on success the new content is what a reader sees.
\<close>

locale durable_writer =
  fixes script :: "'p \<Rightarrow> string \<Rightarrow> fsop list \<times> (wfault + unit)"
  assumes script_disciplined: "disciplined d None (fst (script p d))"
    and script_publishes: "snd (script p d) = Ok () \<Longrightarrow> read_now (run_ops (fst (script p d)) s) = Whole d"
begin

lemma cut_reads_old_or_new:
  assumes "settled s"
  shows "settled (run_ops (take k (fst (script p d))) s)
    \<and> set (cut_reads (run_ops (take k (fst (script p d))) s)) \<subseteq> insert (Whole d) (set (cut_reads s))"
  using run_disciplined [OF assms _ disciplined_take [OF script_disciplined]]
  by (simp add: tracks_def)

text \<open>Any number of writes, each possibly failing.\<close>

definition run_writes :: "('p \<times> string) list \<Rightarrow> fs \<Rightarrow> fs" where
  "run_writes ws s = fold (\<lambda>(p, d) s. run_ops (fst (script p d)) s) ws s"

lemma run_writes_cut:
  "settled s \<Longrightarrow> settled (run_writes ws s)
    \<and> set (cut_reads (run_writes ws s)) \<subseteq> Whole ` snd ` set ws \<union> set (cut_reads s)"
proof (induction ws arbitrary: s)
  case (Cons w ws)
  obtain p d where w: "w = (p, d)" by fastforce
  let ?s = "run_ops (fst (script p d)) s"
  have "settled ?s \<and> set (cut_reads ?s) \<subseteq> insert (Whole d) (set (cut_reads s))"
    using cut_reads_old_or_new [OF Cons.prems, of "length (fst (script p d))" p d] by simp
  with Cons.IH [of ?s] w show ?case
    by (auto simp: run_writes_def)
qed (simp add: run_writes_def)

end

lemmas fs_eval = run_ops_def on_tmp_def read_now_def

interpretation inventory_writer: durable_writer "\<lambda>(f, dirOpens) d. writeFileAtomic f dirOpens d"
  by unfold_locales
    (auto simp: writeFileAtomic_def fs_eval split: option.splits wfault.splits prod.splits if_splits)

interpretation push_writer: durable_writer "\<lambda>(f, dirOpens) d. atomicWriteJSON f dirOpens d"
  by unfold_locales
    (auto simp: atomicWriteJSON_def fs_eval split: option.splits wfault.splits prod.splits if_splits)

interpretation todos_writer: durable_writer todos_save
  by unfold_locales (auto simp: todos_save_def fs_eval split: option.splits wfault.splits)

interpretation datasaver_writer: durable_writer atomicWrite
  by unfold_locales (auto simp: atomicWrite_def fs_eval split: option.splits wfault.splits)

text \<open>
  C25. A power cut during \<open>writeFileAtomic\<close> never loses the document. At whatever point of the write the
  cut falls, and whichever call of the write fails, the path afterwards reads as one of the documents it
  could read as before, or as the complete new one, never as a torn file; a write that returns without an
  error is what the next read sees, and one that also synced the directory is the only thing a cut can leave.
\<close>
theorem power_cut_keeps_document:
  assumes "settled s"
  shows "set (cut_reads (run_ops (take k (fst (writeFileAtomic fault dirOpens data))) s))
           \<subseteq> insert (Whole data) (set (cut_reads s))
    \<and> (snd (writeFileAtomic fault dirOpens data) = Ok () \<longrightarrow>
         read_now (run_ops (fst (writeFileAtomic fault dirOpens data)) s) = Whole data)
    \<and> (snd (writeFileAtomic fault dirOpens data) = Ok () \<and> dirOpens \<longrightarrow>
         cut_reads (run_ops (fst (writeFileAtomic fault dirOpens data)) s) = [Whole data])"
proof -
  have "snd (writeFileAtomic fault dirOpens data) = Ok () \<and> dirOpens \<longrightarrow>
         cut_reads (run_ops (fst (writeFileAtomic fault dirOpens data)) s) = [Whole data]"
    by (auto simp: writeFileAtomic_def fs_eval cut_reads_def entry_reading_def
      split: option.splits wfault.splits)
  with inventory_writer.cut_reads_old_or_new [OF assms, of k "(fault, dirOpens)" data]
    inventory_writer.script_publishes [of "(fault, dirOpens)" data s]
  show ?thesis by simp
qed

definition one_file :: fs where
  "one_file = \<lparr>inodes = (\<lambda>i. \<lparr>page = ''old'', flushed = True\<rparr>), fresh = 1, pathE = Some 0,
     tmpE = None, pathD = [Some 0]\<rparr>"

lemma one_file_settled: "settled one_file"
  by (simp add: settled_def one_file_def entry_safe_def)

theorem power_cut_keeps_document_witness:
  "settled one_file
   \<and> cut_reads (run_ops (take 4 (fst (writeFileAtomic None True ''new''))) one_file)
       = [Whole ''new'', Whole ''old'']
   \<and> set (cut_reads (run_ops (take 4 (fst (writeFileAtomic None True ''new''))) one_file))
       \<subseteq> insert (Whole ''new'') (set (cut_reads one_file))"
  using power_cut_keeps_document [OF one_file_settled, of 4 None True "''new''"] one_file_settled
  by (simp add: writeFileAtomic_def fs_eval cut_reads_def entry_reading_def one_file_def)

text \<open>The writer without the sync publishes a file that a cut can leave torn.\<close>
lemma unsynced_rename_tears:
  "Torn \<in> set (cut_reads (run_ops (fst (waha_writeFileAtomic None body)) s))"
  by (simp add: waha_writeFileAtomic_def fs_eval cut_reads_def entry_reading_def split: option.splits)

end
