(* ===== verification/Inventory.thy ===== *)
theory Inventory
  imports GoFloat GoStrings DurableFile "HOL-Library.Char_ord" "HOL-Library.List_Lexorder"
    "HOL-Library.AList"
begin

text \<open>
  The multi-node inventory: \<^verbatim>\<open>internal/inventory/model.go\<close>, \<^verbatim>\<open>freshness.go\<close>, \<^verbatim>\<open>pollclock.go\<close>, \<^verbatim>\<open>seeds.go\<close>,
  \<^verbatim>\<open>store.go\<close>, \<^verbatim>\<open>hypervisor.go\<close> and \<^verbatim>\<open>storage.go\<close>, with the rows of \<^verbatim>\<open>internal/pve\<close> they consume.

  Strings are ordered byte by byte, as Go orders them. Transports, kinds and states are strings as in
  the source, whose sets are closed only by \<open>Validate\<close>. \<open>int64\<close> quantities are integers; the one
  difference that could leave the range is written with its wrap-around. \<open>sort.Slice\<close> is a sort that keeps
  equal keys in their order, which is what it does on the node list, whose keys are distinct.
  \<open>strconv.ParseFloat\<close> is a parameter.
\<close>

section \<open>The model\<close>

definition SchemaVersion :: int where
  "SchemaVersion = 1"

definition TransportAgente :: string where "TransportAgente = ''agente''"
definition TransportPVEAPI :: string where "TransportPVEAPI = ''pve-api''"
definition TransportSSH :: string where "TransportSSH = ''ssh''"

definition Transport_Valido :: "string \<Rightarrow> bool" where
  "Transport_Valido t \<longleftrightarrow> t = TransportAgente \<or> t = TransportPVEAPI \<or> t = TransportSSH"

definition NodeKindHost :: string where "NodeKindHost = ''host''"
definition NodeKindGuest :: string where "NodeKindGuest = ''guest''"
definition NodeKindExterno :: string where "NodeKindExterno = ''externo''"

definition NodeKind_Valido :: "string \<Rightarrow> bool" where
  "NodeKind_Valido k \<longleftrightarrow> k = NodeKindHost \<or> k = NodeKindGuest \<or> k = NodeKindExterno"

record 'a Observed =
  Value :: 'a
  ObservedAt :: secs

definition Observe :: "'a \<Rightarrow> secs \<Rightarrow> 'a Observed" where
  "Observe v unixSeconds = \<lparr>Value = v, ObservedAt = unixSeconds\<rparr>"

definition NaoReportado :: int where
  "NaoReportado = -1"

definition CredOK :: string where "CredOK = ''ok''"
definition CredAusente :: string where "CredAusente = ''ausente''"
definition CredRevogada :: string where "CredRevogada = ''revogada''"
definition CredExpirada :: string where "CredExpirada = ''expirada''"

record NodeCredential =
  TokenID :: string
  Expire :: secs
  CredState :: string

record Node =
  nID :: string
  nName :: string
  nTransport :: string
  nAddress :: string
  nKind :: string
  nVMID :: int
  AusenteDesde :: secs
  nStatus :: "string Observed"
  nUptime :: "int Observed"
  nCPUFrac :: "f64 Observed"
  nCPUCores :: "int Observed"
  nMemUsed :: "int Observed"
  nMemTotal :: "int Observed"
  nMemHost :: "int Observed"
  nDiskUsed :: "int Observed"
  nDiskTotal :: "int Observed"
  nNetIn :: "int Observed"
  nNetOut :: "int Observed"
  nDiskRead :: "int Observed"
  nDiskWrite :: "int Observed"
  nNetInRate :: "int Observed"
  nNetOutRate :: "int Observed"
  nTemplate :: bool
  nCredential :: NodeCredential

text \<open>The zero value of the struct, which a missing key of a \<^verbatim>\<open>map[string]Node\<close> reads as.\<close>

definition zero_cred :: NodeCredential where
  "zero_cred = \<lparr>TokenID = '''', Expire = 0, CredState = ''''\<rparr>"

definition zero_node :: Node where
  "zero_node =
     \<lparr>nID = '''', nName = '''', nTransport = '''', nAddress = '''', nKind = '''', nVMID = 0, AusenteDesde = 0,
      nStatus = Observe '''' 0, nUptime = Observe 0 0, nCPUFrac = Observe (Fin 0) 0, nCPUCores = Observe 0 0,
      nMemUsed = Observe 0 0, nMemTotal = Observe 0 0, nMemHost = Observe 0 0, nDiskUsed = Observe 0 0,
      nDiskTotal = Observe 0 0, nNetIn = Observe 0 0, nNetOut = Observe 0 0, nDiskRead = Observe 0 0,
      nDiskWrite = Observe 0 0, nNetInRate = Observe 0 0, nNetOutRate = Observe 0 0, nTemplate = False,
      nCredential = zero_cred\<rparr>"

datatype node_error = NodeWithoutID | BadTransport string string | BadKind string string

definition Node_Validate :: "Node \<Rightarrow> node_error + unit" where
  "Node_Validate n =
     (if nID n = '''' then Err NodeWithoutID
      else if \<not> Transport_Valido (nTransport n) then Err (BadTransport (nID n) (nTransport n))
      else if \<not> NodeKind_Valido (nKind n) then Err (BadKind (nID n) (nKind n))
      else Ok ())"

record Service =
  vID :: string
  vNodeID :: string
  vName :: string
  vUnit :: string

record Project =
  pID :: string
  pName :: string

record Deployment =
  depID :: string
  depProjectID :: string
  depNodeID :: string
  depBranch :: string

record JobRef =
  jrID :: string
  jrKind :: string
  jrNodeID :: string
  jrSource :: string

record StoragePool =
  spID :: string
  spType :: string
  spContent :: "string list"
  spTotal :: int
  spUsed :: int
  spAvail :: int
  spUsedPct :: f64
  spAtivo :: bool
  spHabilitado :: bool
  spCompartilhado :: bool

record ZPool =
  zName :: string
  zHealth :: string
  zSaudavel :: bool
  zSize :: int
  zAlloc :: int
  zFree :: int
  zFragPct :: int
  zDedup :: f64

record Hypervisor =
  hNode :: string
  hVersion :: "string Observed"
  hUptime :: "int Observed"
  hLoad :: "(f64 \<times> f64 \<times> f64) Observed"
  hMemTotal :: "int Observed"
  hMemUsed :: "int Observed"
  hSwapTotal :: "int Observed"
  hSwapUsed :: "int Observed"
  hRootTotal :: "int Observed"
  hRootUsed :: "int Observed"
  hKSMShared :: "int Observed"
  hCPU :: "f64 Observed"
  hWait :: "f64 Observed"
  hKernel :: "string Observed"
  hCPUModel :: "string Observed"
  hCPUCores :: "int Observed"
  hStorage :: "StoragePool list Observed"
  hZPools :: "ZPool list Observed"
  hDatastoreAudit :: "bool Observed"

definition zero_hypervisor :: Hypervisor where
  "zero_hypervisor =
     \<lparr>hNode = '''', hVersion = Observe '''' 0, hUptime = Observe 0 0, hLoad = Observe (Fin 0, Fin 0, Fin 0) 0,
      hMemTotal = Observe 0 0, hMemUsed = Observe 0 0, hSwapTotal = Observe 0 0, hSwapUsed = Observe 0 0,
      hRootTotal = Observe 0 0, hRootUsed = Observe 0 0, hKSMShared = Observe 0 0, hCPU = Observe (Fin 0) 0,
      hWait = Observe (Fin 0) 0, hKernel = Observe '''' 0, hCPUModel = Observe '''' 0, hCPUCores = Observe 0 0,
      hStorage = Observe [] 0, hZPools = Observe [] 0, hDatastoreAudit = Observe False 0\<rparr>"

record Inventory =
  iSchemaVersion :: int
  iNodes :: "Node list"
  iHypervisor :: Hypervisor
  iServices :: "Service list"
  iProjects :: "Project list"
  iDeployments :: "Deployment list"
  iJobs :: "JobRef list"
  LastPollAt :: secs
  LastPollError :: string

definition zero_inventory :: Inventory where
  "zero_inventory =
     \<lparr>iSchemaVersion = 0, iNodes = [], iHypervisor = zero_hypervisor, iServices = [], iProjects = [],
      iDeployments = [], iJobs = [], LastPollAt = 0, LastPollError = ''''\<rparr>"

section \<open>Freshness\<close>

definition AgeSeconds :: "secs \<Rightarrow> nanos \<Rightarrow> int" where
  "AgeSeconds observedAt now =
     (if observedAt \<le> 0 then -1
      else let idade = unix now - observedAt in if idade < 0 then 0 else idade)"

definition observedAtDoNo :: "Node \<Rightarrow> secs" where
  "observedAtDoNo n =
     (let maisNovo = ObservedAt (nStatus n)
      in if ObservedAt (nUptime n) > maisNovo then ObservedAt (nUptime n) else maisNovo)"

text \<open>\<^verbatim>\<open>int64(ttl.Seconds())\<close> is the whole seconds of a duration; a TTL is positive.\<close>

definition Stale :: "secs \<Rightarrow> nanos \<Rightarrow> nanos \<Rightarrow> bool" where
  "Stale observedAt ttl now =
     (let idade = AgeSeconds observedAt now in if idade < 0 then True else idade > ttl div second)"

definition credentialState :: "NodeCredential \<Rightarrow> nanos \<Rightarrow> string" where
  "credentialState c now =
     (if CredState c = CredRevogada then CredRevogada
      else if TokenID c = '''' then CredAusente
      else if Expire c > 0 \<and> Expire c < unix now then CredExpirada
      else CredOK)"

record NodeView =
  nvNode :: Node
  nvAgeSeconds :: int
  nvStale :: bool

definition View :: "Inventory \<Rightarrow> nanos \<Rightarrow> nanos \<Rightarrow> NodeView list" where
  "View iv ttl now =
     map (\<lambda>n. let carimbo = observedAtDoNo n
               in \<lparr>nvNode = n\<lparr>nCredential := (nCredential n)\<lparr>CredState := credentialState (nCredential n) now\<rparr>\<rparr>,
                   nvAgeSeconds = AgeSeconds carimbo now, nvStale = Stale carimbo ttl now\<rparr>) (iNodes iv)"

record PollView =
  pvObservedAt :: secs
  pvAgeSeconds :: int
  pvStale :: bool
  pvError :: string

definition ViewPoll :: "Inventory \<Rightarrow> nanos \<Rightarrow> nanos \<Rightarrow> PollView" where
  "ViewPoll iv ttl now =
     \<lparr>pvObservedAt = LastPollAt iv, pvAgeSeconds = AgeSeconds (LastPollAt iv) now,
      pvStale = Stale (LastPollAt iv) ttl now, pvError = LastPollError iv\<rparr>"

section \<open>Declared nodes\<close>

datatype seeds_error =
    SeedsUnreadable
  | SeedsMalformed
  | SeedInvalid nat node_error
  | SeedDuplicate nat string
  | SeedNeedsAddress nat string

fun check_seeds :: "nat \<Rightarrow> string list \<Rightarrow> Node list \<Rightarrow> seeds_error option" where
  "check_seeds i vistos [] = None"
| "check_seeds i vistos (s # ss) =
     (case Node_Validate s of
        Inl e \<Rightarrow> Some (SeedInvalid i e)
      | Inr _ \<Rightarrow>
          if nID s \<in> set vistos then Some (SeedDuplicate i (nID s))
          else if nTransport s = TransportAgente \<and> nAddress s = '''' then Some (SeedNeedsAddress i (nID s))
          else check_seeds (Suc i) (nID s # vistos) ss)"

definition LoadSeeds :: "Node list jsonfile \<Rightarrow> seeds_error + Node list" where
  "LoadSeeds f =
     (case f of
        NoFile \<Rightarrow> Ok []
      | Unreadable \<Rightarrow> Err SeedsUnreadable
      | Garbled \<Rightarrow> Err SeedsMalformed
      | Doc seeds \<Rightarrow> (case check_seeds 0 [] seeds of Some e \<Rightarrow> Err e | None \<Rightarrow> Ok seeds))"

section \<open>The store\<close>

datatype store_error =
    StoreUnreadable
  | StoreCorrupted
  | SchemaTooNew int
  | RefusesNode node_error
  | NoMutation
  | MarshalFails
  | WriteFails wfault

definition load_inventory :: "Inventory jsonfile \<Rightarrow> store_error + Inventory" where
  "load_inventory f =
     (case f of
        NoFile \<Rightarrow> Ok (zero_inventory\<lparr>iSchemaVersion := SchemaVersion\<rparr>)
      | Unreadable \<Rightarrow> Err StoreUnreadable
      | Garbled \<Rightarrow> Err StoreCorrupted
      | Doc iv \<Rightarrow>
          if iSchemaVersion iv > SchemaVersion then Err (SchemaTooNew (iSchemaVersion iv))
          else if iSchemaVersion iv = 0 then Ok (iv\<lparr>iSchemaVersion := SchemaVersion\<rparr>)
          else Ok iv)"

definition Open_inventory :: "Inventory jsonfile \<Rightarrow> store_error + unit" where
  "Open_inventory f = (case load_inventory f of Inl e \<Rightarrow> Err e | Inr _ \<Rightarrow> Ok ())"

definition Snapshot_inventory :: "Inventory jsonfile \<Rightarrow> store_error + Inventory" where
  "Snapshot_inventory f = load_inventory f"

fun first_invalid :: "Node list \<Rightarrow> node_error option" where
  "first_invalid [] = None"
| "first_invalid (n # ns) = (case Node_Validate n of Inl e \<Rightarrow> Some e | Inr _ \<Rightarrow> first_invalid ns)"

definition sorted_inventory :: "Inventory \<Rightarrow> Inventory" where
  "sorted_inventory iv =
     iv\<lparr>iSchemaVersion := SchemaVersion, iNodes := sort_key nID (iNodes iv),
         iServices := sort_key vID (iServices iv), iProjects := sort_key pID (iProjects iv),
         iDeployments := sort_key depID (iDeployments iv), iJobs := sort_key jrID (iJobs iv)\<rparr>"

text \<open>\<^verbatim>\<open>json.MarshalIndent\<close> refuses a document with a number that is not finite; nothing else in these types fails.\<close>

definition is_fin :: "f64 \<Rightarrow> bool" where
  "is_fin x = (case x of Fin _ \<Rightarrow> True | _ \<Rightarrow> False)"

definition node_finite :: "Node \<Rightarrow> bool" where
  "node_finite n = is_fin (Value (nCPUFrac n))"

definition hypervisor_finite :: "Hypervisor \<Rightarrow> bool" where
  "hypervisor_finite h \<longleftrightarrow>
     (case Value (hLoad h) of (a, b, c) \<Rightarrow> is_fin a \<and> is_fin b \<and> is_fin c)
   \<and> is_fin (Value (hCPU h)) \<and> is_fin (Value (hWait h))
   \<and> list_all (\<lambda>p. is_fin (spUsedPct p)) (Value (hStorage h)) \<and> list_all (\<lambda>z. is_fin (zDedup z)) (Value (hZPools h))"

definition marshals :: "Inventory \<Rightarrow> bool" where
  "marshals iv \<longleftrightarrow> list_all node_finite (iNodes iv) \<and> hypervisor_finite (iHypervisor iv)"

text \<open>The document on the disk after a write: the new one when every call succeeded, else the old one.\<close>

definition persist_inventory ::
  "wfault option \<Rightarrow> Inventory \<Rightarrow> Inventory jsonfile \<Rightarrow> Inventory jsonfile \<times> (store_error + unit)" where
  "persist_inventory fault iv f =
     (case first_invalid (iNodes iv) of
        Some e \<Rightarrow> (f, Err (RefusesNode e))
      | None \<Rightarrow>
          if \<not> marshals (sorted_inventory iv) then (f, Err MarshalFails)
          else (case snd (writeFileAtomic fault True '''') of
             Inl e \<Rightarrow> (f, Err (WriteFails e))
           | Inr _ \<Rightarrow> (Doc (sorted_inventory iv), Ok ())))"

definition Replace ::
  "wfault option \<Rightarrow> (Inventory \<Rightarrow> Inventory) option \<Rightarrow> Inventory jsonfile
     \<Rightarrow> Inventory jsonfile \<times> (store_error + unit)" where
  "Replace fault mutate f =
     (case mutate of
        None \<Rightarrow> (f, Err NoMutation)
      | Some g \<Rightarrow>
          (case load_inventory f of
             Inl e \<Rightarrow> (f, Err e)
           | Inr iv \<Rightarrow> persist_inventory fault (g iv) f))"

end
