(* ===== verification/Poller.thy ===== *)
theory Poller
  imports Inventory
begin

text \<open>
  The loop that keeps the inventory alive: \<^verbatim>\<open>internal/inventory/poller.go\<close>, with the upserts of
  \<^verbatim>\<open>hypervisor.go\<close> and \<^verbatim>\<open>storage.go\<close> and the rows of \<^verbatim>\<open>internal/pve\<close> (\<^verbatim>\<open>resources.go\<close>, \<^verbatim>\<open>node.go\<close>,
  \<^verbatim>\<open>storage.go\<close>, the classification of \<^verbatim>\<open>client.go\<close>).

  What the hypervisor, the agents and the injected sources answer during one tick is the record
  \<open>answers\<close>. A \<^verbatim>\<open>map[string]Node\<close> is an association list with distinct keys, its order an iteration
  order; \<open>ordenaPorID\<close> does not depend on it. The fan-out of the address and liveness calls writes
  different keys from different goroutines, so its result is the one of any order. A panic of an injected source
  is not modelled: it abandons the tick before anything is written.
\<close>

section \<open>Rows of the hypervisor\<close>

record Resource =
  rID :: string
  rVMID :: int
  rName :: string
  rNode :: string
  rType :: string
  rStatus :: string
  rUptime :: int
  rCPU :: f64
  rMaxCPU :: int
  rMem :: int
  rMaxMem :: int
  rMemHost :: int
  rDisk :: int
  rMaxDisk :: int
  rNetIn :: int
  rNetOut :: int
  rDiskRead :: int
  rDiskWrite :: int
  rTemplate :: int

definition IsGuest :: "Resource \<Rightarrow> bool" where
  "IsGuest r \<longleftrightarrow> rType r = ''qemu'' \<or> rType r = ''lxc''"

record MemInfo =
  miTotal :: int
  miUsed :: int
  miFree :: int

record RootFSInfo =
  riTotal :: int
  riUsed :: int
  riAvail :: int

record CPUInfo =
  ciModel :: string
  ciCpus :: int
  ciSockets :: int
  ciMHz :: string

record NodeStatus =
  nsUptime :: int
  nsPVEVersion :: string
  nsCPU :: f64
  nsLoadAvg :: "string list"
  nsMemory :: MemInfo
  nsSwap :: MemInfo
  nsRootFS :: RootFSInfo
  nsKSMShared :: int
  nsWait :: f64
  nsKVersion :: string
  nsCPUInfo :: CPUInfo

record PStorage =
  psStorage :: string
  psType :: string
  psContent :: string
  psTotal :: int
  psUsed :: int
  psAvail :: int
  psUsedFraction :: f64
  psActive :: int
  psEnabled :: int
  psShared :: int

definition Ativo :: "PStorage \<Rightarrow> bool" where "Ativo s \<longleftrightarrow> psActive s = 1"
definition Habilitado :: "PStorage \<Rightarrow> bool" where "Habilitado s \<longleftrightarrow> psEnabled s = 1"
definition Compartilhado :: "PStorage \<Rightarrow> bool" where "Compartilhado s \<longleftrightarrow> psShared s = 1"

definition Conteudos :: "PStorage \<Rightarrow> string list" where
  "Conteudos s = sort (filter (\<lambda>c. c \<noteq> '''') (map TrimSpace (SplitByte (psContent s) CHR '','')))"

record PZPool =
  pzName :: string
  pzHealth :: string
  pzSize :: int
  pzAlloc :: int
  pzFree :: int
  pzFrag :: int
  pzDedup :: f64

definition Saudavel :: "PZPool \<Rightarrow> bool" where
  "Saudavel p \<longleftrightarrow> pzHealth p = ''ONLINE''"

definition privsDeDatastore :: "string list" where
  "privsDeDatastore =
     [''Datastore.Audit'', ''Datastore.Allocate'', ''Datastore.AllocateSpace'', ''Datastore.AllocateTemplate'']"

definition cobreStorage :: "string \<Rightarrow> bool" where
  "cobreStorage caminho \<longleftrightarrow> caminho = ''/'' \<or> caminho = ''/storage'' \<or> HasPrefix caminho ''/storage/''"

text \<open>The two nested maps are association lists; a missing privilege reads as 0.\<close>

definition PodeAuditarDatastore :: "(string \<times> (string \<times> int) list) list \<Rightarrow> bool" where
  "PodeAuditarDatastore perms \<longleftrightarrow>
     list_ex (\<lambda>(caminho, privs). cobreStorage caminho
       \<and> list_ex (\<lambda>p. map_of privs p = Some 1) privsDeDatastore) perms"

datatype Kind = KindOK | KindNoCredential | KindForbidden | KindUnreachable | KindHypervisor

record pve_error =
  peKind :: Kind
  peStatus :: int
  peText :: string

text \<open>
  How \<^verbatim>\<open>Client.do\<close> classifies an answer: none at all, a body that cannot be read or is too long, or the status
  code. \<open>Body None\<close> is a read that failed; \<open>decoded\<close> says whether the \<^verbatim>\<open>data\<close> envelope was decoded.
\<close>

definition maxBodyBytes :: nat where
  "maxBodyBytes = 1048576"

definition classify :: "(int \<times> string option) option \<Rightarrow> bool \<Rightarrow> Kind" where
  "classify resp decoded =
     (case resp of
        None \<Rightarrow> KindUnreachable
      | Some (st, None) \<Rightarrow> KindUnreachable
      | Some (st, Some raw) \<Rightarrow>
          if length raw > maxBodyBytes then KindHypervisor
          else if st = 401 then KindNoCredential
          else if st = 403 then KindForbidden
          else if st \<ge> 400 then KindHypervisor
          else if decoded then KindOK else KindHypervisor)"

section \<open>Sorting by key in place\<close>

text \<open>
  The nested loops of \<open>ordenaPorID\<close>: the element at position \<open>j\<close> is swapped downwards while it is
  smaller than the one before it.
\<close>

fun sink :: "('a \<Rightarrow> 'k::linorder) \<Rightarrow> nat \<Rightarrow> 'a list \<Rightarrow> 'a list" where
  "sink key 0 out = out"
| "sink key (Suc j) out =
     (if key (out ! Suc j) < key (out ! j)
      then sink key j (out[Suc j := out ! j, j := out ! Suc j]) else out)"

definition insertion_sort :: "('a \<Rightarrow> 'k::linorder) \<Rightarrow> 'a list \<Rightarrow> 'a list" where
  "insertion_sort key out = fold (sink key) [1..<length out] out"

definition indicePorID :: "Node list \<Rightarrow> (string \<times> Node) list" where
  "indicePorID nos = fold (\<lambda>n m. AList.update (nID n) n m) nos []"

definition ordenaPorID :: "(string \<times> Node) list \<Rightarrow> Node list" where
  "ordenaPorID m = insertion_sort nID (map snd m)"

section \<open>Rates\<close>

definition taxaEntreObservacoes :: "int Observed \<Rightarrow> int \<Rightarrow> secs \<Rightarrow> int \<Rightarrow> int" where
  "taxaEntreObservacoes anterior atual agora buracoMax =
     (if ObservedAt anterior \<le> 0 \<or> agora \<le> ObservedAt anterior then NaoReportado
      else let intervalo = agora - ObservedAt anterior
           in if buracoMax > 0 \<and> intervalo > buracoMax then NaoReportado
              else if atual < Value anterior then NaoReportado
              else quot (wrap64 (atual - Value anterior)) intervalo)"

definition naoSeiQuandoZero :: "int \<Rightarrow> int" where
  "naoSeiQuandoZero v = (if v \<le> 0 then NaoReportado else v)"

definition aplicaContadores :: "Node \<Rightarrow> Node \<Rightarrow> Resource \<Rightarrow> secs \<Rightarrow> int \<Rightarrow> Node" where
  "aplicaContadores n anterior r agora buracoMax =
     n\<lparr>nCPUFrac := Observe (rCPU r) agora,
       nCPUCores := Observe (rMaxCPU r) agora,
       nMemUsed := Observe (rMem r) agora,
       nMemTotal := Observe (rMaxMem r) agora,
       nMemHost := Observe (naoSeiQuandoZero (rMemHost r)) agora,
       nDiskUsed := Observe (naoSeiQuandoZero (rDisk r)) agora,
       nDiskTotal := Observe (rMaxDisk r) agora,
       nNetIn := Observe (rNetIn r) agora,
       nNetOut := Observe (rNetOut r) agora,
       nDiskRead := Observe (rDiskRead r) agora,
       nDiskWrite := Observe (rDiskWrite r) agora,
       nNetInRate := Observe (taxaEntreObservacoes (nNetIn anterior) (rNetIn r) agora buracoMax) agora,
       nNetOutRate := Observe (taxaEntreObservacoes (nNetOut anterior) (rNetOut r) agora buracoMax) agora\<rparr>"

section \<open>Discovery\<close>

definition get_node :: "(string \<times> Node) list \<Rightarrow> string \<Rightarrow> Node" where
  "get_node m i = (case map_of m i of None \<Rightarrow> zero_node | Some n \<Rightarrow> n)"

definition hosts_of :: "Resource list \<Rightarrow> string list" where
  "hosts_of recursos = remdups (filter (\<lambda>h. h \<noteq> '''') (map rNode recursos))"

definition upsert_host :: "secs \<Rightarrow> string \<Rightarrow> (string \<times> Node) list \<Rightarrow> (string \<times> Node) list" where
  "upsert_host agora nome m =
     (let i = ''node/'' @ nome
      in AList.update i ((get_node m i)\<lparr>nID := i, nName := nome, nKind := NodeKindHost,
           nTransport := TransportPVEAPI, nStatus := Observe ''online'' agora\<rparr>) m)"

definition upsert_guest ::
  "(string \<rightharpoonup> string) \<Rightarrow> secs \<Rightarrow> int \<Rightarrow> Resource \<Rightarrow> (string \<times> Node) list \<Rightarrow> (string \<times> Node) list" where
  "upsert_guest enderecos agora buracoMax r m =
     (let anterior = get_node m (rID r);
          n1 = anterior\<lparr>nID := rID r, nName := rName r, nKind := NodeKindGuest, nTransport := TransportPVEAPI,
                 nVMID := rVMID r, nStatus := Observe (rStatus r) agora, nUptime := Observe (rUptime r) agora,
                 nTemplate := (rTemplate r = 1)\<rparr>;
          n2 = aplicaContadores n1 anterior r agora buracoMax;
          n3 = (case enderecos (rID r) of Some addr \<Rightarrow> n2\<lparr>nAddress := addr\<rparr> | None \<Rightarrow> n2)
      in AList.update (rID r) n3 m)"

definition aplicaDescoberta ::
  "Resource list \<Rightarrow> (string \<rightharpoonup> string) \<Rightarrow> secs \<Rightarrow> int \<Rightarrow> Inventory \<Rightarrow> Inventory" where
  "aplicaDescoberta recursos enderecos agora buracoMax iv =
     (let m0 = indicePorID (iNodes iv);
          m1 = fold (upsert_host agora) (hosts_of recursos) m0;
          m2 = fold (upsert_guest enderecos agora buracoMax) (filter IsGuest recursos) m1
      in iv\<lparr>iNodes := ordenaPorID m2\<rparr>)"

section \<open>Nodes the hypervisor stopped listing\<close>

definition presentes :: "Resource list \<Rightarrow> string set" where
  "presentes recursos =
     set (map (\<lambda>r. ''node/'' @ rNode r) (filter (\<lambda>r. rNode r \<noteq> '''') recursos))
     \<union> set (map rID (filter IsGuest recursos))"

definition marca_no :: "Resource list \<Rightarrow> string set \<Rightarrow> secs \<Rightarrow> Node \<Rightarrow> Node" where
  "marca_no recursos declarados agora n =
     (if nTransport n \<noteq> TransportPVEAPI \<or> nID n \<in> declarados then n
      else if nID n \<in> presentes recursos then n\<lparr>AusenteDesde := 0\<rparr>
      else if AusenteDesde n = 0 then n\<lparr>AusenteDesde := agora\<rparr>
      else n)"

definition novo_ausente :: "Resource list \<Rightarrow> string set \<Rightarrow> Node \<Rightarrow> bool" where
  "novo_ausente recursos declarados n \<longleftrightarrow>
     nTransport n = TransportPVEAPI \<and> nID n \<notin> declarados \<and> nID n \<notin> presentes recursos \<and> AusenteDesde n = 0"

definition marcaSumidos ::
  "Resource list \<Rightarrow> Node list \<Rightarrow> secs \<Rightarrow> Inventory \<Rightarrow> Inventory \<times> string list" where
  "marcaSumidos recursos seeds agora iv =
     (if filter IsGuest recursos = [] then (iv, [])
      else let declarados = set (map nID seeds)
           in (iv\<lparr>iNodes := map (marca_no recursos declarados agora) (iNodes iv)\<rparr>,
               map nID (filter (novo_ausente recursos declarados) (iNodes iv))))"

definition removeSumidos :: "Resource list \<Rightarrow> Node list \<Rightarrow> Inventory \<Rightarrow> Inventory \<times> string list" where
  "removeSumidos recursos seeds iv =
     (if filter IsGuest recursos = [] then (iv, [])
      else let declarados = set (map nID seeds);
               keeps = (\<lambda>n. nTransport n \<noteq> TransportPVEAPI \<or> nID n \<in> declarados \<or> nID n \<in> presentes recursos);
               removidos = map nID (filter (\<lambda>n. \<not> keeps n) (iNodes iv))
           in if removidos = [] then (iv, []) else (iv\<lparr>iNodes := filter keeps (iNodes iv)\<rparr>, removidos))"

section \<open>Health and capacity of the hypervisor\<close>

definition nomeDoHipervisor :: "Resource list \<Rightarrow> string" where
  "nomeDoHipervisor recursos =
     fold (\<lambda>r nome. if rNode r = '''' then nome
                     else if nome = '''' \<or> rNode r < nome then rNode r else nome) recursos ''''"

definition load_at :: "(string \<Rightarrow> f64 option) \<Rightarrow> string list \<Rightarrow> nat \<Rightarrow> f64" where
  "load_at ParseFloat xs i =
     (if i < length xs then case ParseFloat (xs ! i) of Some f \<Rightarrow> f | None \<Rightarrow> Fin 0 else Fin 0)"

definition loadDeStrings :: "(string \<Rightarrow> f64 option) \<Rightarrow> string list \<Rightarrow> f64 \<times> f64 \<times> f64" where
  "loadDeStrings ParseFloat xs = (load_at ParseFloat xs 0, load_at ParseFloat xs 1, load_at ParseFloat xs 2)"

definition aplicaHipervisor ::
  "(string \<Rightarrow> f64 option) \<Rightarrow> string \<Rightarrow> NodeStatus \<Rightarrow> secs \<Rightarrow> Inventory \<Rightarrow> Inventory" where
  "aplicaHipervisor ParseFloat nome st agora iv =
     (let h0 = iHypervisor iv;
          h1 = (if nome \<noteq> '''' then h0\<lparr>hNode := nome\<rparr> else h0)
      in iv\<lparr>iHypervisor := h1\<lparr>
           hVersion := Observe (nsPVEVersion st) agora,
           hUptime := Observe (nsUptime st) agora,
           hLoad := Observe (loadDeStrings ParseFloat (nsLoadAvg st)) agora,
           hMemTotal := Observe (miTotal (nsMemory st)) agora,
           hMemUsed := Observe (miUsed (nsMemory st)) agora,
           hSwapTotal := Observe (miTotal (nsSwap st)) agora,
           hSwapUsed := Observe (miUsed (nsSwap st)) agora,
           hRootTotal := Observe (riTotal (nsRootFS st)) agora,
           hRootUsed := Observe (riUsed (nsRootFS st)) agora,
           hKSMShared := Observe (nsKSMShared st) agora,
           hCPU := Observe (nsCPU st) agora,
           hWait := Observe (nsWait st) agora,
           hKernel := Observe (nsKVersion st) agora,
           hCPUModel := Observe (ciModel (nsCPUInfo st)) agora,
           hCPUCores := Observe (ciCpus (nsCPUInfo st)) agora\<rparr>\<rparr>)"

definition observedAtDoHipervisor :: "Hypervisor \<Rightarrow> secs" where
  "observedAtDoHipervisor h =
     fold (\<lambda>c maisNovo. if c > maisNovo then c else maisNovo)
       [ObservedAt (hVersion h), ObservedAt (hUptime h), ObservedAt (hLoad h),
        ObservedAt (hMemTotal h), ObservedAt (hMemUsed h),
        ObservedAt (hSwapTotal h), ObservedAt (hSwapUsed h),
        ObservedAt (hRootTotal h), ObservedAt (hRootUsed h), ObservedAt (hKSMShared h),
        ObservedAt (hCPU h), ObservedAt (hWait h), ObservedAt (hKernel h),
        ObservedAt (hCPUModel h), ObservedAt (hCPUCores h)] 0"

record HypervisorView =
  hvHypervisor :: Hypervisor
  hvAgeSeconds :: int
  hvStale :: bool

definition ViewHypervisor :: "Hypervisor \<Rightarrow> nanos \<Rightarrow> nanos \<Rightarrow> HypervisorView" where
  "ViewHypervisor h ttl now =
     (let carimbo = observedAtDoHipervisor h
      in \<lparr>hvHypervisor = h, hvAgeSeconds = AgeSeconds carimbo now, hvStale = Stale carimbo ttl now\<rparr>)"

definition pctDeUso :: "f64 \<Rightarrow> int \<Rightarrow> int \<Rightarrow> f64" where
  "pctDeUso fracao usado tot =
     (if flt (Fin 0) fracao then fmul fracao (Fin 100)
      else if tot \<le> 0 \<or> usado \<le> 0 then Fin 0
      else fmul (fquot (f64_of_int usado) (f64_of_int tot)) (Fin 100))"

definition pool_of :: "PStorage \<Rightarrow> StoragePool" where
  "pool_of s =
     \<lparr>spID = psStorage s, spType = psType s, spContent = Conteudos s, spTotal = psTotal s, spUsed = psUsed s,
      spAvail = psAvail s, spUsedPct = pctDeUso (psUsedFraction s) (psUsed s) (psTotal s),
      spAtivo = Ativo s, spHabilitado = Habilitado s, spCompartilhado = Compartilhado s\<rparr>"

definition aplicaStorage :: "PStorage list \<Rightarrow> secs \<Rightarrow> Inventory \<Rightarrow> Inventory" where
  "aplicaStorage ss agora iv =
     iv\<lparr>iHypervisor := (iHypervisor iv)\<lparr>hStorage := Observe (sort_key spID (map pool_of ss)) agora\<rparr>\<rparr>"

definition zpool_of :: "PZPool \<Rightarrow> ZPool" where
  "zpool_of p =
     \<lparr>zName = pzName p, zHealth = pzHealth p, zSaudavel = Saudavel p, zSize = pzSize p, zAlloc = pzAlloc p,
      zFree = pzFree p, zFragPct = pzFrag p, zDedup = pzDedup p\<rparr>"

definition aplicaZPools :: "PZPool list \<Rightarrow> secs \<Rightarrow> Inventory \<Rightarrow> Inventory" where
  "aplicaZPools ps agora iv =
     iv\<lparr>iHypervisor := (iHypervisor iv)\<lparr>hZPools := Observe (sort_key zName (map zpool_of ps)) agora\<rparr>\<rparr>"

definition aplicaDatastoreAudit :: "bool \<Rightarrow> secs \<Rightarrow> Inventory \<Rightarrow> Inventory" where
  "aplicaDatastoreAudit pode agora iv =
     iv\<lparr>iHypervisor := (iHypervisor iv)\<lparr>hDatastoreAudit := Observe pode agora\<rparr>\<rparr>"

record StorageView =
  svPools :: "StoragePool list"
  svDatastoreAudit :: "bool Observed"
  svAgeSeconds :: int
  svStale :: bool

definition ViewStorage :: "Hypervisor \<Rightarrow> nanos \<Rightarrow> nanos \<Rightarrow> StorageView" where
  "ViewStorage h ttl now =
     (let carimbo = ObservedAt (hStorage h)
      in \<lparr>svPools = Value (hStorage h), svDatastoreAudit = hDatastoreAudit h,
          svAgeSeconds = AgeSeconds carimbo now, svStale = Stale carimbo ttl now\<rparr>)"

record ZPoolsView =
  zvPools :: "ZPool list"
  zvAgeSeconds :: int
  zvStale :: bool

definition ViewZPools :: "Hypervisor \<Rightarrow> nanos \<Rightarrow> nanos \<Rightarrow> ZPoolsView" where
  "ViewZPools h ttl now =
     (let carimbo = ObservedAt (hZPools h)
      in \<lparr>zvPools = Value (hZPools h), zvAgeSeconds = AgeSeconds carimbo now, zvStale = Stale carimbo ttl now\<rparr>)"

section \<open>What one tick hears\<close>

datatype 'a source = NoSource | SourceFails | Gives 'a

text \<open>The source the panel installs: the seeds file is read again on every tick.\<close>

definition SeedsSource :: "Node list jsonfile \<Rightarrow> Node list source" where
  "SeedsSource sf = (case LoadSeeds sf of Inl _ \<Rightarrow> SourceFails | Inr ss \<Rightarrow> Gives ss)"

record answers =
  ClusterResources :: "pve_error + Resource list"
  GuestAddress :: "string \<Rightarrow> int \<Rightarrow> string \<Rightarrow> string option"
  GetNodeStatus :: "string \<Rightarrow> NodeStatus option"
  StorageList :: "string \<Rightarrow> PStorage list option"
  ZFSList :: "string \<Rightarrow> PZPool list option"
  Permissions :: "(string \<times> (string \<times> int) list) list option"
  srcProjects :: "(Project list option \<times> Deployment list option) source"
  srcJobs :: "JobRef list option source"
  srcServices :: "Service list option source"
  srcSeeds :: "Node list source"
  srcCredentials :: "(Node list \<Rightarrow> (string \<rightharpoonup> NodeCredential) option) option"
  AgentPing :: "(string \<Rightarrow> bool) option"
  HealthzStatus :: "string \<Rightarrow> int option"
  ParseFloat :: "string \<Rightarrow> f64 option"

record PollerConfig =
  cfgInterval :: nanos
  cfgTTL :: nanos
  cfgTimeout :: nanos
  cfgFanOut :: int

definition aplicaPadroes :: "PollerConfig \<Rightarrow> PollerConfig" where
  "aplicaPadroes c =
     \<lparr>cfgInterval = (if cfgInterval c \<le> 0 then 30 * second else cfgInterval c),
      cfgTTL = (if cfgTTL c \<le> 0 then 90 * second else cfgTTL c),
      cfgTimeout = (if cfgTimeout c \<le> 0 then 10 * second else cfgTimeout c),
      cfgFanOut = (if cfgFanOut c \<le> 0 then 4 else cfgFanOut c)\<rparr>"

definition buracoMax :: "PollerConfig \<Rightarrow> int" where
  "buracoMax c = (cfgInterval c * 3) div second div 2"

definition erroDeCredencial :: "pve_error \<Rightarrow> bool" where
  "erroDeCredencial e \<longleftrightarrow> peKind e = KindNoCredential"

definition enderecosEmParalelo :: "answers \<Rightarrow> Resource list \<Rightarrow> (string \<rightharpoonup> string)" where
  "enderecosEmParalelo w recursos =
     fold (\<lambda>r out. case GuestAddress w (rNode r) (rVMID r) (rType r) of
             None \<Rightarrow> out
           | Some addr \<Rightarrow> if addr = '''' then out else out(rID r \<mapsto> addr))
       (filter IsGuest recursos) Map.empty"

definition carregaSeeds :: "answers \<Rightarrow> Node list" where
  "carregaSeeds w = (case srcSeeds w of Gives seeds \<Rightarrow> seeds | _ \<Rightarrow> [])"

definition carregaProjects :: "answers \<Rightarrow> Project list option \<times> Deployment list option" where
  "carregaProjects w = (case srcProjects w of Gives pd \<Rightarrow> pd | _ \<Rightarrow> (None, None))"

definition carregaJobs :: "answers \<Rightarrow> JobRef list option" where
  "carregaJobs w = (case srcJobs w of Gives js \<Rightarrow> js | _ \<Rightarrow> None)"

definition carregaServices :: "answers \<Rightarrow> Service list option" where
  "carregaServices w = (case srcServices w of Gives ss \<Rightarrow> ss | _ \<Rightarrow> None)"

definition pingHealthz :: "(string \<Rightarrow> int option) \<Rightarrow> string \<Rightarrow> bool" where
  "pingHealthz get address =
     (case get (''http://'' @ address @ ''/healthz'') of None \<Rightarrow> False | Some st \<Rightarrow> \<not> st \<ge> 400)"

definition pingaSeeds :: "answers \<Rightarrow> Node list \<Rightarrow> string set" where
  "pingaSeeds w seeds =
     (let ping = (case AgentPing w of Some p \<Rightarrow> p | None \<Rightarrow> pingHealthz (HealthzStatus w))
      in set (map nID (filter (\<lambda>s. \<not> (nTransport s \<noteq> TransportAgente \<or> nAddress s = '''') \<and> ping (nAddress s)) seeds)))"

record capacidadeColetada =
  ccPools :: "PStorage list option"
  ccZPools :: "PZPool list option"
  ccPodeAuditar :: "bool option"

definition coletaCapacidade :: "answers \<Rightarrow> string \<Rightarrow> capacidadeColetada" where
  "coletaCapacidade w nomeHV =
     (if nomeHV = '''' then \<lparr>ccPools = None, ccZPools = None, ccPodeAuditar = None\<rparr>
      else \<lparr>ccPools = StorageList w nomeHV, ccZPools = ZFSList w nomeHV,
            ccPodeAuditar = map_option PodeAuditarDatastore (Permissions w)\<rparr>)"

definition upsert_seed :: "string set \<Rightarrow> secs \<Rightarrow> Node \<Rightarrow> (string \<times> Node) list \<Rightarrow> (string \<times> Node) list" where
  "upsert_seed vivos agora s m =
     (let n0 = (case map_of m (nID s) of
                  None \<Rightarrow> s
                | Some n \<Rightarrow> n\<lparr>nName := nName s, nTransport := nTransport s, nAddress := nAddress s,
                               nKind := nKind s\<rparr>);
          n1 = (if nID s \<in> vivos then n0\<lparr>nStatus := Observe ''running'' agora\<rparr> else n0)
      in AList.update (nID s) n1 m)"

definition aplicaSeeds :: "Node list \<Rightarrow> string set \<Rightarrow> secs \<Rightarrow> Inventory \<Rightarrow> Inventory" where
  "aplicaSeeds seeds vivos agora iv =
     (if seeds = [] then iv
      else iv\<lparr>iNodes := ordenaPorID (fold (upsert_seed vivos agora) seeds (indicePorID (iNodes iv)))\<rparr>)"

definition cred_no :: "(string \<rightharpoonup> NodeCredential) \<Rightarrow> Node \<Rightarrow> Node" where
  "cred_no creds n =
     (case creds (nID n) of
        None \<Rightarrow> if CredState (nCredential n) = CredRevogada then n else n\<lparr>nCredential := zero_cred\<rparr>
      | Some c \<Rightarrow> n\<lparr>nCredential := \<lparr>TokenID = TokenID c, Expire = Expire c, CredState = ''''\<rparr>\<rparr>)"

definition aplicaCredenciais :: "answers \<Rightarrow> Inventory \<Rightarrow> Inventory" where
  "aplicaCredenciais w iv =
     (case srcCredentials w of
        None \<Rightarrow> iv
      | Some f \<Rightarrow> (case f (iNodes iv) of
            None \<Rightarrow> iv
          | Some creds \<Rightarrow> iv\<lparr>iNodes := map (cred_no creds) (iNodes iv)\<rparr>))"

definition revoga_no :: "secs \<Rightarrow> Node \<Rightarrow> Node" where
  "revoga_no agora n =
     (if nTransport n \<noteq> TransportPVEAPI then n
      else if Expire (nCredential n) > 0 \<and> Expire (nCredential n) < agora then n
      else n\<lparr>nCredential := (nCredential n)\<lparr>CredState := CredRevogada\<rparr>\<rparr>)"

definition marcaCredencialRevogada ::
  "wfault option \<Rightarrow> secs \<Rightarrow> Inventory jsonfile \<Rightarrow> Inventory jsonfile \<times> (store_error + unit)" where
  "marcaCredencialRevogada fault agora f =
     Replace fault (Some (\<lambda>iv. iv\<lparr>iNodes := map (revoga_no agora) (iNodes iv)\<rparr>)) f"

definition registraTentativa ::
  "wfault option \<Rightarrow> secs \<Rightarrow> string \<Rightarrow> Inventory jsonfile \<Rightarrow> Inventory jsonfile" where
  "registraTentativa fault agora motivo f =
     fst (Replace fault (Some (\<lambda>iv. iv\<lparr>LastPollAt := agora, LastPollError := motivo\<rparr>)) f)"

section \<open>The tick\<close>

definition opt_apply :: "('x \<Rightarrow> 's \<Rightarrow> 's) \<Rightarrow> 'x option \<Rightarrow> 's \<Rightarrow> 's" where
  "opt_apply g x s = (case x of None \<Rightarrow> s | Some v \<Rightarrow> g v s)"

text \<open>The mutation the successful tick passes to \<open>Replace\<close>, and the identifiers it reports as gone.\<close>

definition tick_mutation :: "answers \<Rightarrow> PollerConfig \<Rightarrow> secs \<Rightarrow> Resource list \<Rightarrow> Inventory \<Rightarrow> Inventory \<times> string list" where
  "tick_mutation w cfg agora recursos iv0 =
     (let nomeHV = nomeDoHipervisor recursos;
          saude = (if nomeHV \<noteq> '''' then GetNodeStatus w nomeHV else None);
          cap = coletaCapacidade w nomeHV;
          observados = enderecosEmParalelo w recursos;
          seeds = carregaSeeds w;
          vivos = pingaSeeds w seeds;
          (projects, deployments) = carregaProjects w;
          iv1 = iv0\<lparr>iSchemaVersion := SchemaVersion, LastPollAt := agora, LastPollError := ''''\<rparr>;
          iv2 = aplicaDescoberta recursos observados agora (buracoMax cfg) iv1;
          (iv3, sumiram) = marcaSumidos recursos seeds agora iv2;
          iv4 = opt_apply (\<lambda>st. aplicaHipervisor (ParseFloat w) nomeHV st agora) saude iv3;
          iv5 = opt_apply (\<lambda>ss. aplicaStorage ss agora) (ccPools cap) iv4;
          iv6 = opt_apply (\<lambda>ps. aplicaZPools ps agora) (ccZPools cap) iv5;
          iv7 = opt_apply (\<lambda>b. aplicaDatastoreAudit b agora) (ccPodeAuditar cap) iv6;
          iv8 = aplicaSeeds seeds vivos agora iv7;
          iv9 = aplicaCredenciais w iv8;
          iv10 = opt_apply (\<lambda>ps iv. iv\<lparr>iProjects := ps\<rparr>) projects iv9;
          iv11 = opt_apply (\<lambda>ds iv. iv\<lparr>iDeployments := ds\<rparr>) deployments iv10;
          iv12 = opt_apply (\<lambda>js iv. iv\<lparr>iJobs := js\<rparr>) (carregaJobs w) iv11;
          iv13 = opt_apply (\<lambda>ss iv. iv\<lparr>iServices := ss\<rparr>) (carregaServices w) iv12
      in (iv13, sumiram))"

datatype tick_error =
    DiscoveryFailed pve_error
  | DiscoveryAndMarkFailed pve_error store_error
  | TickStore store_error

text \<open>The three writes a tick may make can each fail: the attempt, the revocation mark, the final document.\<close>

record tick_faults =
  fltAttempt :: "wfault option"
  fltMark :: "wfault option"
  fltFinal :: "wfault option"

definition tick ::
  "answers \<Rightarrow> PollerConfig \<Rightarrow> tick_faults \<Rightarrow> nanos \<Rightarrow> Inventory jsonfile
     \<Rightarrow> Inventory jsonfile \<times> (tick_error + unit)" where
  "tick w cfg flts now f =
     (let agora = unix now
      in case ClusterResources w of
           Inl e \<Rightarrow>
             (let f1 = registraTentativa (fltAttempt flts) agora (peText e) f
              in if erroDeCredencial e
                 then (case marcaCredencialRevogada (fltMark flts) agora f1 of
                         (f2, Inl err) \<Rightarrow> (f2, Err (DiscoveryAndMarkFailed e err))
                       | (f2, Inr _) \<Rightarrow> (f2, Err (DiscoveryFailed e)))
                 else (f1, Err (DiscoveryFailed e)))
         | Inr recursos \<Rightarrow>
             (case Replace (fltFinal flts) (Some (\<lambda>iv. fst (tick_mutation w cfg agora recursos iv))) f of
                (f1, Inl err) \<Rightarrow> (f1, Err (TickStore err))
              | (f1, Inr _) \<Rightarrow> (f1, Ok ())))"

end
