(* ===== verification/InventoryProps.thy ===== *)
theory InventoryProps
  imports Poller
begin

text \<open>
  What the inventory guarantees: the in-place sort is the sort by key whatever the iteration order of the map;
  the document on the disk stays well-formed under every sequence of ticks; a tick never forgets a node
  and never renews the time stamp of one it did not hear; absence is dated by the first tick that saw it;
  a rate is derived from neighbouring observations or not at all.
\<close>

section \<open>Insertion sort\<close>

fun insert_last :: "('a \<Rightarrow> 'k::linorder) \<Rightarrow> 'a \<Rightarrow> 'a list \<Rightarrow> 'a list" where
  "insert_last key x [] = [x]"
| "insert_last key x (y # ys) = (if key x < key y then x # y # ys else y # insert_last key x ys)"

lemma sink_step:
  "sorted (map key (us @ [u])) \<Longrightarrow>
    insert_last key x (us @ [u]) = (if key x < key u then insert_last key x us @ [u] else us @ [u, x])"
  by (induction us) (auto simp: sorted_append)

lemma sink_insert:
  "sorted (map key us) \<Longrightarrow> sink key (length us) (us @ x # vs) = insert_last key x us @ vs"
proof (induction us arbitrary: vs rule: rev_induct)
  case (snoc u us)
  have s: "sorted (map key us)"
    using snoc.prems by (simp add: sorted_append)
  have "(us @ u # x # vs) ! Suc (length us) = x" "(us @ u # x # vs) ! length us = u"
    by (simp_all add: nth_append)
  then have "sink key (Suc (length us)) (us @ u # x # vs) =
      (if key x < key u then sink key (length us) (us @ x # u # vs) else us @ u # x # vs)"
    by (simp add: list_update_append)
  then show ?case
    using snoc.IH [OF s, of "u # vs"] sink_step [OF snoc.prems, of x] by simp
qed simp

lemma mset_insert_last [simp]: "mset (insert_last key x ys) = add_mset x (mset ys)"
  by (induction ys) auto

lemma set_insert_last [simp]: "set (insert_last key x ys) = insert x (set ys)"
  by (induction ys) auto

lemma sorted_insert_last: "sorted (map key ys) \<Longrightarrow> sorted (map key (insert_last key x ys))"
  by (induction ys) auto

lemma length_insert_last [simp]: "length (insert_last key x ys) = Suc (length ys)"
  by (induction ys) auto

lemma insertion_prefix:
  "1 \<le> k \<Longrightarrow> k \<le> length xs \<Longrightarrow>
    \<exists>us. fold (sink key) [1..<k] xs = us @ drop k xs \<and> length us = k
      \<and> sorted (map key us) \<and> mset us = mset (take k xs)"
proof (induction k rule: nat_induct_at_least)
  case base
  then show ?case
    by (intro exI [of _ "take 1 xs"]) (auto simp: sorted01)
next
  case (Suc k)
  then obtain us where us: "fold (sink key) [1..<k] xs = us @ drop k xs" "length us = k"
      "sorted (map key us)" "mset us = mset (take k xs)"
    by auto
  have d: "drop k xs = xs ! k # drop (Suc k) xs"
    using Suc.prems by (simp add: Cons_nth_drop_Suc)
  have "fold (sink key) [1..<Suc k] xs = insert_last key (xs ! k) us @ drop (Suc k) xs"
    using Suc.hyps us(1) d sink_insert [OF us(3), of "xs ! k" "drop (Suc k) xs"] us(2) by simp
  moreover have "mset (insert_last key (xs ! k) us) = mset (take (Suc k) xs)"
    using us(4) Suc.prems by (simp add: take_Suc_conv_app_nth)
  ultimately show ?case
    using us sorted_insert_last by (intro exI [of _ "insert_last key (xs ! k) us"]) auto
qed

lemma insertion_sort_sorts:
  "sorted (map key (insertion_sort key xs)) \<and> mset (insertion_sort key xs) = mset xs"
proof (cases xs)
  case Nil
  then show ?thesis by (simp add: insertion_sort_def)
next
  case (Cons x ys)
  then show ?thesis
    using insertion_prefix [of "length xs" xs key] by (auto simp: insertion_sort_def)
qed

lemma insertion_sort_sort_key:
  assumes "distinct (map key xs)"
  shows "insertion_sort key xs = sort_key key xs"
  using insertion_sort_sorts [of key xs] assms
  by (intro sort_key_inj_key_eq [symmetric]) (auto simp: distinct_map)

lemma set_insertion_sort [simp]: "set (insertion_sort key xs) = set xs"
  using insertion_sort_sorts [of key xs] by (metis set_mset_mset)

section \<open>Maps indexed by identifier\<close>

definition keyed :: "(string \<times> Node) list \<Rightarrow> bool" where
  "keyed m \<longleftrightarrow> distinct (map fst m) \<and> list_all (\<lambda>(i, n). nID n = i) m"

lemma keyed_Nil [simp]: "keyed []"
  by (simp add: keyed_def)

lemma keyed_update [simp]: "keyed m \<Longrightarrow> nID n = i \<Longrightarrow> keyed (AList.update i n m)"
proof -
  assume "keyed m" "nID n = i"
  moreover have "list_all (\<lambda>(i, n). nID n = i) m \<Longrightarrow> list_all (\<lambda>(i, n). nID n = i) (AList.update i n m)"
    using \<open>nID n = i\<close> by (induction m) auto
  ultimately show ?thesis
    by (simp add: keyed_def distinct_update)
qed

lemma keyed_map_of: "keyed m \<Longrightarrow> map_of m i = Some n \<Longrightarrow> nID n = i"
  by (auto simp: keyed_def list_all_iff dest!: map_of_SomeD)

lemma keyed_fold: "(\<And>x m. keyed m \<Longrightarrow> keyed (f x m)) \<Longrightarrow> keyed m \<Longrightarrow> keyed (fold f xs m)"
  by (induction xs arbitrary: m) auto

lemma keyed_snd: "keyed m \<Longrightarrow> map nID (map snd m) = map fst m"
  by (auto simp: keyed_def list_all_iff)

definition node_of :: "Node list \<Rightarrow> string \<Rightarrow> Node option" where
  "node_of ns i = find (\<lambda>n. nID n = i) ns"

lemma node_of_Some: "node_of ns i = Some n \<Longrightarrow> n \<in> set ns \<and> nID n = i"
  by (auto simp: node_of_def find_Some_iff)

lemma node_of_iff: "distinct (map nID ns) \<Longrightarrow> node_of ns i = Some n \<longleftrightarrow> n \<in> set ns \<and> nID n = i"
proof (induction ns)
  case (Cons a ns)
  then show ?case
    by (cases "nID a = i") (auto simp: node_of_def image_iff)
qed (simp add: node_of_def)

lemma node_of_None: "node_of ns i = None \<longleftrightarrow> i \<notin> nID ` set ns"
  by (auto simp: node_of_def find_None_iff)

lemma node_of_map: "(\<And>n. nID (g n) = nID n) \<Longrightarrow> node_of (map g ns) i = map_option g (node_of ns i)"
  by (induction ns) (auto simp: node_of_def)

lemma indicePorID_keyed [simp]: "keyed (indicePorID ns)"
  unfolding indicePorID_def by (rule keyed_fold) auto

lemma map_of_indice_aux:
  "distinct (map nID ns) \<Longrightarrow>
    map_of (fold (\<lambda>n m. AList.update (nID n) n m) ns m) i = (case node_of ns i of Some n \<Rightarrow> Some n | None \<Rightarrow> map_of m i)"
proof (induction ns arbitrary: m)
  case (Cons a ns)
  then have "node_of ns (nID a) = None"
    by (auto simp: node_of_None)
  with Cons show ?case
    by (auto simp: update_conv' node_of_def split: option.splits)
qed (simp add: node_of_def)

lemma map_of_indice [simp]: "distinct (map nID ns) \<Longrightarrow> map_of (indicePorID ns) i = node_of ns i"
  by (simp add: indicePorID_def map_of_indice_aux split: option.splits)

lemma distinct_ordena [simp]: "keyed m \<Longrightarrow> distinct (map nID (ordenaPorID m))"
proof -
  assume "keyed m"
  then have "distinct (map nID (map snd m))"
    by (simp only: keyed_snd keyed_def)
  moreover have "mset (map nID (ordenaPorID m)) = mset (map nID (map snd m))"
    using insertion_sort_sorts [of nID "map snd m"] by (metis mset_map ordenaPorID_def)
  ultimately show ?thesis
    using mset_eq_imp_distinct_iff by blast
qed

lemma set_ordena [simp]: "set (ordenaPorID m) = snd ` set m"
  by (simp add: ordenaPorID_def)

lemma node_of_ordena [simp]:
  assumes "keyed m"
  shows "node_of (ordenaPorID m) i = map_of m i"
proof (cases "map_of m i")
  case None
  then have "i \<notin> fst ` set m"
    by (simp add: map_of_eq_None_iff)
  moreover have "nID ` snd ` set m = fst ` set m"
    using keyed_snd [OF assms] by (metis image_image image_set map_map)
  ultimately show ?thesis
    using None by (simp add: node_of_None)
next
  case (Some n)
  then have "n \<in> set (ordenaPorID m)" "nID n = i"
    using keyed_map_of [OF assms Some] by (auto simp: image_iff dest!: map_of_SomeD intro!: bexI)
  with Some assms show ?thesis
    by (simp add: node_of_iff)
qed

text \<open>
  \<open>ordenaPorID\<close> is the sort by identifier, independent of the order in which Go iterates the map: on the
  values of a \<^verbatim>\<open>map[string]Node\<close> indexed by identifier, in any iteration order, the nested swapping loops return
  the same list, the nodes of the map in increasing order of their identifiers.
\<close>
theorem ordenaPorID_deterministic:
  assumes "keyed m" and "mset m' = mset m"
  shows "ordenaPorID m' = ordenaPorID m \<and> ordenaPorID m = sort_key nID (map snd m)
    \<and> sorted_wrt (<) (map nID (ordenaPorID m)) \<and> set (ordenaPorID m) = snd ` set m"
proof -
  have ms: "mset (map snd m') = mset (map snd m)"
    using assms(2) by simp
  have d: "distinct (map nID (map snd m))"
    using assms(1) by (simp only: keyed_snd keyed_def)
  have "mset (map nID (map snd m')) = mset (map nID (map snd m))"
    using ms by (metis mset_map)
  with d have d': "distinct (map nID (map snd m'))"
    using mset_eq_imp_distinct_iff by blast
  have "inj_on nID (set (map snd m'))"
    using d' by (simp only: distinct_map)
  then have "sort_key nID (map snd m') = sort_key nID (map snd m)"
    using ms by (intro sort_key_inj_key_eq) simp_all
  moreover have "sorted_wrt (<) (map nID (ordenaPorID m))"
    using insertion_sort_sorts [of nID "map snd m"] distinct_ordena [OF assms(1)]
    by (simp add: strict_sorted_iff ordenaPorID_def)
  ultimately show ?thesis
    using insertion_sort_sort_key [OF d] insertion_sort_sort_key [OF d']
    by (simp add: ordenaPorID_def)
qed

definition two_nodes :: "(string \<times> Node) list" where
  "two_nodes = [(''lxc/2'', zero_node\<lparr>nID := ''lxc/2''\<rparr>), (''lxc/1'', zero_node\<lparr>nID := ''lxc/1''\<rparr>)]"

theorem ordenaPorID_deterministic_witness:
  "keyed two_nodes \<and> mset (rev two_nodes) = mset two_nodes
   \<and> ordenaPorID (rev two_nodes) = ordenaPorID two_nodes"
proof -
  have k: "keyed two_nodes"
    by (simp add: keyed_def two_nodes_def)
  show ?thesis
    using ordenaPorID_deterministic [OF k, of "rev two_nodes"] k by simp
qed

section \<open>A tick, node by node\<close>

lemma map_of_upsert_host:
  "map_of (upsert_host agora nome m) i =
    (if i = ''node/'' @ nome
     then Some ((get_node m i)\<lparr>nID := i, nName := nome, nKind := NodeKindHost,
       nTransport := TransportPVEAPI, nStatus := Observe ''online'' agora\<rparr>)
     else map_of m i)"
  by (auto simp: upsert_host_def Let_def update_conv')

definition heard_guest :: "(string \<rightharpoonup> string) \<Rightarrow> secs \<Rightarrow> int \<Rightarrow> Resource \<Rightarrow> Node \<Rightarrow> Node" where
  "heard_guest enderecos agora buraco r anterior =
     (let n2 = aplicaContadores (anterior\<lparr>nID := rID r, nName := rName r, nKind := NodeKindGuest,
                 nTransport := TransportPVEAPI, nVMID := rVMID r, nStatus := Observe (rStatus r) agora,
                 nUptime := Observe (rUptime r) agora, nTemplate := (rTemplate r = 1)\<rparr>) anterior r agora buraco
      in case enderecos (rID r) of Some addr \<Rightarrow> n2\<lparr>nAddress := addr\<rparr> | None \<Rightarrow> n2)"

lemma upsert_guest_heard:
  "upsert_guest en agora b r m = AList.update (rID r) (heard_guest en agora b r (get_node m (rID r))) m"
  by (simp add: upsert_guest_def heard_guest_def Let_def)

lemma heard_guest_ID [simp]: "nID (heard_guest en agora b r n) = rID r"
  by (simp add: heard_guest_def Let_def aplicaContadores_def split: option.splits)

lemma upsert_host_keyed [simp]: "keyed m \<Longrightarrow> keyed (upsert_host agora nome m)"
  by (simp add: upsert_host_def Let_def)

lemma upsert_guest_keyed [simp]: "keyed m \<Longrightarrow> keyed (upsert_guest en agora b r m)"
  by (simp add: upsert_guest_heard)

lemma upsert_seed_keyed [simp]: "keyed m \<Longrightarrow> keyed (upsert_seed vivos agora s m)"
  by (auto simp: upsert_seed_def Let_def keyed_map_of split: option.splits)

lemma fold_upsert_other:
  assumes "\<And>x m. key x \<noteq> i \<Longrightarrow> map_of (f x m) i = map_of m i"
  shows "i \<notin> key ` set xs \<Longrightarrow> map_of (fold f xs m) i = map_of m i"
  using assms by (induction xs arbitrary: m) auto

text \<open>What every upsert keeps of the entry at \<open>i\<close>, the loop keeps.\<close>

lemma fold_keeps:
  assumes "\<And>x m. Q (map_of m i) \<Longrightarrow> Q (map_of (f x m) i)"
  shows "Q (map_of m i) \<Longrightarrow> Q (map_of (fold f xs m) i)"
  using assms by (induction xs arbitrary: m) auto

text \<open>The nodes after each stage depend on the nodes before it alone.\<close>

definition discovered :: "answers \<Rightarrow> PollerConfig \<Rightarrow> secs \<Rightarrow> Resource list \<Rightarrow> Node list \<Rightarrow> (string \<times> Node) list" where
  "discovered w cfg agora rs ns =
     fold (upsert_guest (enderecosEmParalelo w rs) agora (buracoMax cfg)) (filter IsGuest rs)
       (fold (upsert_host agora) (hosts_of rs) (indicePorID ns))"

definition marked :: "Resource list \<Rightarrow> Node list \<Rightarrow> secs \<Rightarrow> Node \<Rightarrow> Node" where
  "marked rs seeds agora n = (if filter IsGuest rs = [] then n else marca_no rs (set (map nID seeds)) agora n)"

definition credited :: "answers \<Rightarrow> Node list \<Rightarrow> Node \<Rightarrow> Node" where
  "credited w ns n =
     (case srcCredentials w of None \<Rightarrow> n
      | Some g \<Rightarrow> (case g ns of None \<Rightarrow> n | Some creds \<Rightarrow> cred_no creds n))"

definition seeded :: "answers \<Rightarrow> secs \<Rightarrow> Node list \<Rightarrow> Node list" where
  "seeded w agora ns =
     (if carregaSeeds w = [] then ns
      else ordenaPorID (fold (upsert_seed (pingaSeeds w (carregaSeeds w)) agora) (carregaSeeds w) (indicePorID ns)))"

definition tick_nodes :: "answers \<Rightarrow> PollerConfig \<Rightarrow> secs \<Rightarrow> Resource list \<Rightarrow> Node list \<Rightarrow> Node list" where
  "tick_nodes w cfg agora rs ns =
     (let ns3 = map (marked rs (carregaSeeds w) agora) (ordenaPorID (discovered w cfg agora rs ns));
          ns4 = seeded w agora ns3
      in map (credited w ns4) ns4)"

lemma opt_apply_frame: "(\<And>v s. g (h v s) = g s) \<Longrightarrow> g (opt_apply h x s) = g s"
  by (cases x) (simp_all add: opt_apply_def)

lemma marcaSumidos_nodes:
  "iNodes (fst (marcaSumidos rs seeds agora iv)) = map (marked rs seeds agora) (iNodes iv)"
  by (simp add: marcaSumidos_def marked_def [abs_def] Let_def)

lemma marcaSumidos_hv:
  "iHypervisor (fst (marcaSumidos rs seeds agora iv)) = iHypervisor iv
   \<and> LastPollAt (fst (marcaSumidos rs seeds agora iv)) = LastPollAt iv
   \<and> LastPollError (fst (marcaSumidos rs seeds agora iv)) = LastPollError iv"
  by (simp add: marcaSumidos_def Let_def)

lemma aplicaSeeds_nodes:
  "iNodes (aplicaSeeds (carregaSeeds w) (pingaSeeds w (carregaSeeds w)) agora iv) = seeded w agora (iNodes iv)"
  by (simp add: aplicaSeeds_def seeded_def)

lemma aplicaCredenciais_nodes:
  "iNodes (aplicaCredenciais w iv) = map (credited w (iNodes iv)) (iNodes iv)"
  by (auto simp: aplicaCredenciais_def credited_def [abs_def] split: option.splits)

lemma tick_mutation_nodes:
  "iNodes (fst (tick_mutation w cfg agora rs iv)) = tick_nodes w cfg agora rs (iNodes iv)"
  by (simp add: tick_mutation_def Let_def case_prod_beta' opt_apply_frame [where g = iNodes]
    aplicaCredenciais_nodes aplicaSeeds_nodes aplicaDatastoreAudit_def aplicaZPools_def aplicaStorage_def
    aplicaHipervisor_def marcaSumidos_nodes aplicaDescoberta_def tick_nodes_def discovered_def)

section \<open>The document stays well-formed\<close>

definition node_ok :: "Node \<Rightarrow> bool" where
  "node_ok n \<longleftrightarrow> nID n \<noteq> '''' \<and> Transport_Valido (nTransport n) \<and> NodeKind_Valido (nKind n)"

lemma Node_Validate_ok: "Node_Validate n = Ok () \<longleftrightarrow> node_ok n"
  by (simp add: Node_Validate_def node_ok_def)

lemma first_invalid_None: "first_invalid ns = None \<longleftrightarrow> list_all node_ok ns"
  by (induction ns) (auto simp: Node_Validate_ok [symmetric] split: sum.splits)

text \<open>
  What the type of the document promises: the current schema version, nodes that validate, in strictly
  increasing order of their identifiers, the other sections sorted, and finite numbers, as JSON has no others.
\<close>

definition wf_inventory :: "Inventory \<Rightarrow> bool" where
  "wf_inventory iv \<longleftrightarrow> iSchemaVersion iv = SchemaVersion \<and> list_all node_ok (iNodes iv)
     \<and> sorted_wrt (<) (map nID (iNodes iv)) \<and> sorted (map vID (iServices iv)) \<and> sorted (map pID (iProjects iv))
     \<and> sorted (map depID (iDeployments iv)) \<and> sorted (map jrID (iJobs iv)) \<and> marshals iv"

definition wf_file :: "Inventory jsonfile \<Rightarrow> bool" where
  "wf_file f = (case f of Doc iv \<Rightarrow> wf_inventory iv | _ \<Rightarrow> True)"

lemma wf_distinct: "wf_inventory iv \<Longrightarrow> distinct (map nID (iNodes iv))"
  by (simp add: wf_inventory_def strict_sorted_iff)

lemmas finite_defs = marshals_def node_finite_def hypervisor_finite_def is_fin_def Observe_def

lemma marshals_sorted [simp]: "marshals (sorted_inventory iv) = marshals iv"
  by (simp add: marshals_def sorted_inventory_def list_all_iff)

lemma sorted_inventory_wf:
  "list_all node_ok (iNodes iv) \<Longrightarrow> distinct (map nID (iNodes iv)) \<Longrightarrow> marshals iv \<Longrightarrow> wf_inventory (sorted_inventory iv)"
  by (simp add: wf_inventory_def list_all_iff strict_sorted_iff distinct_map) (simp add: sorted_inventory_def)

lemma persist_inventory_cases:
  "persist_inventory fault iv f =
     (if list_all node_ok (iNodes iv)
      then if marshals iv
           then (case snd (writeFileAtomic fault True '''') of
                   Inl e \<Rightarrow> (f, Err (WriteFails e)) | Inr _ \<Rightarrow> (Doc (sorted_inventory iv), Ok ()))
           else (f, Err MarshalFails)
      else (f, Err (RefusesNode (the (first_invalid (iNodes iv))))))"
  by (auto simp: persist_inventory_def first_invalid_None [symmetric] split: option.splits)

lemma load_wf: "wf_file f \<Longrightarrow> load_inventory f = Ok iv \<Longrightarrow> distinct (map nID (iNodes iv))"
  by (auto simp: load_inventory_def wf_file_def zero_inventory_def wf_distinct split: jsonfile.splits if_splits)

lemma Replace_wf:
  assumes "wf_file f" and "\<And>iv. distinct (map nID (iNodes iv)) \<Longrightarrow> distinct (map nID (iNodes (g iv)))"
  shows "wf_file (fst (Replace fault (Some g) f))"
proof (cases "load_inventory f")
  case (Inl e)
  with assms show ?thesis by (simp add: Replace_def)
next
  case (Inr iv)
  have "distinct (map nID (iNodes (g iv)))"
    using assms load_wf [OF assms(1) Inr] by simp
  with Inr assms(1) show ?thesis
    by (auto simp: Replace_def persist_inventory_cases wf_file_def sorted_inventory_wf split: sum.splits)
qed

lemma marked_ID [simp]: "nID (marked rs seeds agora n) = nID n"
  by (simp add: marked_def marca_no_def)

lemma cred_no_ID [simp]: "nID (cred_no creds n) = nID n"
  by (simp add: cred_no_def split: option.splits)

lemma credited_ID [simp]: "nID (credited w ns n) = nID n"
  by (simp add: credited_def split: option.splits)

lemma revoga_no_ID [simp]: "nID (revoga_no agora n) = nID n"
  by (simp add: revoga_no_def)

lemma map_keeps_IDs: "(\<And>n. nID (g n) = nID n) \<Longrightarrow> map nID (map g ns) = map nID ns"
  by simp

lemma discovered_keyed [simp]: "keyed (discovered w cfg agora rs ns)"
  by (auto simp: discovered_def intro!: keyed_fold)

lemma seeded_distinct: "distinct (map nID ns) \<Longrightarrow> distinct (map nID (seeded w agora ns))"
  by (auto simp: seeded_def intro!: distinct_ordena keyed_fold)

lemma tick_nodes_distinct: "distinct (map nID (tick_nodes w cfg agora rs ns))"
proof -
  let ?ns3 = "map (marked rs (carregaSeeds w) agora) (ordenaPorID (discovered w cfg agora rs ns))"
  have "distinct (map nID ?ns3)"
    by (simp only: map_keeps_IDs [OF marked_ID] distinct_ordena discovered_keyed)
  then show ?thesis
    by (simp only: tick_nodes_def Let_def map_keeps_IDs [OF credited_ID] seeded_distinct)
qed

lemma tick_file:
  "fst (tick w cfg flts now f) =
     (case ClusterResources w of
        Inl e \<Rightarrow>
          (let f1 = registraTentativa (fltAttempt flts) (unix now) (peText e) f
           in if erroDeCredencial e then fst (marcaCredencialRevogada (fltMark flts) (unix now) f1) else f1)
      | Inr rs \<Rightarrow> fst (Replace (fltFinal flts) (Some (\<lambda>iv. fst (tick_mutation w cfg (unix now) rs iv))) f))"
  by (auto simp: tick_def Let_def split: sum.splits prod.splits)

lemma tick_wf:
  assumes "wf_file f"
  shows "wf_file (fst (tick w cfg flts now f))"
proof -
  have att: "wf_file (registraTentativa fa ag mo f)" for fa ag mo
    unfolding registraTentativa_def using assms by (rule Replace_wf) simp
  have mark: "wf_file f1 \<Longrightarrow> wf_file (fst (marcaCredencialRevogada fa ag f1))" for fa ag f1
    unfolding marcaCredencialRevogada_def
    by (erule Replace_wf) (simp del: map_map add: map_keeps_IDs [OF revoga_no_ID])
  have fin: "wf_file (fst (Replace fa (Some (\<lambda>iv. fst (tick_mutation w cfg ag rs iv))) f))" for fa ag rs
    using assms by (rule Replace_wf) (simp add: tick_mutation_nodes tick_nodes_distinct del: distinct_map map_map)
  show ?thesis
    using att mark [OF att] fin
    by (simp add: tick_file Let_def split: sum.splits)
qed

lemma Replace_readable:
  "load_inventory f = Ok iv \<Longrightarrow> \<exists>iv'. load_inventory (fst (Replace fault (Some g) f)) = Ok iv'"
  by (auto simp: Replace_def persist_inventory_cases load_inventory_def sorted_inventory_def SchemaVersion_def
    split: sum.splits)

lemma tick_readable:
  assumes "\<exists>iv. load_inventory f = Ok iv"
  shows "\<exists>iv'. load_inventory (fst (tick w cfg flts now f)) = Ok iv'"
proof -
  have att: "\<exists>iv. load_inventory (registraTentativa fa ag mo f) = Ok iv" for fa ag mo
    using assms Replace_readable by (auto simp: registraTentativa_def)
  then have "\<exists>iv. load_inventory (fst (marcaCredencialRevogada fm ag' (registraTentativa fa ag mo f))) = Ok iv" for fa ag mo fm ag'
    unfolding marcaCredencialRevogada_def using Replace_readable by blast
  moreover have "\<exists>iv. load_inventory (fst (Replace fa (Some g) f)) = Ok iv" for fa g
    using assms Replace_readable by blast
  ultimately show ?thesis
    using att by (simp add: tick_file Let_def split: sum.splits)
qed

text \<open>The life of the file: ticks with any answers, any failing calls, at any time.\<close>

inductive poll_step :: "Inventory jsonfile \<Rightarrow> Inventory jsonfile \<Rightarrow> bool" where
  "poll_step f (fst (tick w cfg flts now f))"

definition healthy :: "Inventory jsonfile \<Rightarrow> bool" where
  "healthy f \<longleftrightarrow> wf_file f \<and> Open_inventory f = Ok ()"

lemma Open_iff: "Open_inventory f = Ok () \<longleftrightarrow> (\<exists>iv. load_inventory f = Ok iv)"
  by (auto simp: Open_inventory_def split: sum.splits)

interpretation inventory_file: inductive_invariant "\<lambda>f. f = NoFile" poll_step healthy
proof unfold_locales
  show "s = NoFile \<Longrightarrow> healthy s" for s
    by (simp add: healthy_def wf_file_def Open_inventory_def load_inventory_def)
  show "healthy s \<Longrightarrow> poll_step s t \<Longrightarrow> healthy t" for s t
    by (auto simp: healthy_def Open_iff elim!: poll_step.cases intro: tick_wf tick_readable)
qed

text \<open>
  C23. The stored inventory is well-formed for ever. From a well-formed file, or none, and after any number of
  ticks with any answers of the hypervisor and of the sources, any failing write and at any time, the file still opens,
  and its document carries the current schema version, nodes that all validate (identifier, transport and
  kind), in strictly increasing order of identifier, hence without duplicates, and every other section sorted.
\<close>
theorem inventory_stays_wellformed:
  assumes "healthy f" and "steps poll_step f f'"
  shows "Open_inventory f' = Ok () \<and> (case f' of Doc iv \<Rightarrow> wf_inventory iv | _ \<Rightarrow> f' = NoFile)"
proof -
  have "healthy f'"
    using assms by (blast intro: inventory_file.inv_steps)
  then show ?thesis
    by (auto simp: healthy_def wf_file_def Open_inventory_def load_inventory_def split: jsonfile.splits)
qed

text \<open>A world in which the hypervisor lists one container and nothing else is configured.\<close>

definition apps_row :: Resource where
  "apps_row =
     \<lparr>rID = ''lxc/207'', rVMID = 207, rName = ''apps'', rNode = ''pve'', rType = ''lxc'', rStatus = ''running'',
      rUptime = 60, rCPU = Fin 0, rMaxCPU = 2, rMem = 100, rMaxMem = 200, rMemHost = 0, rDisk = 0, rMaxDisk = 10,
      rNetIn = 5, rNetOut = 7, rDiskRead = 0, rDiskWrite = 0, rTemplate = 0\<rparr>"

definition quiet :: "pve_error + Resource list \<Rightarrow> answers" where
  "quiet rs =
     \<lparr>ClusterResources = rs, GuestAddress = (\<lambda>_ _ _. None), GetNodeStatus = (\<lambda>_. None), StorageList = (\<lambda>_. None),
      ZFSList = (\<lambda>_. None), Permissions = None, srcProjects = NoSource, srcJobs = NoSource, srcServices = NoSource,
      srcSeeds = NoSource, srcCredentials = None, AgentPing = None, HealthzStatus = (\<lambda>_. None), ParseFloat = (\<lambda>_. None)\<rparr>"

definition default_cfg :: PollerConfig where
  "default_cfg = aplicaPadroes \<lparr>cfgInterval = 0, cfgTTL = 0, cfgTimeout = 0, cfgFanOut = 0\<rparr>"

definition no_faults :: tick_faults where
  "no_faults = \<lparr>fltAttempt = None, fltMark = None, fltFinal = None\<rparr>"

definition file1 :: "Inventory jsonfile" where
  "file1 = fst (tick (quiet (Ok [apps_row])) default_cfg no_faults (1000 * second) NoFile)"

lemma NoFile_healthy: "healthy NoFile"
  using inventory_file.inv_init by simp

theorem inventory_stays_wellformed_witness:
  "healthy NoFile \<and> steps poll_step NoFile file1 \<and> Open_inventory file1 = Ok ()"
proof -
  have st: "steps poll_step NoFile file1"
    unfolding file1_def by (rule steps.steps_step [OF steps.steps_refl]) (rule poll_step.intros)
  show ?thesis
    using inventory_stays_wellformed [OF NoFile_healthy st] NoFile_healthy st by simp
qed

section \<open>Silence ages, it does not erase\<close>

text \<open>Everything the poller measured of a node, each value with its time stamp.\<close>

definition readings :: "Node \<Rightarrow>
    string Observed \<times> int Observed \<times> f64 Observed \<times> int Observed list" where
  "readings n =
     (nStatus n, nUptime n, nCPUFrac n,
      [nCPUCores n, nMemUsed n, nMemTotal n, nMemHost n, nDiskUsed n, nDiskTotal n, nNetIn n, nNetOut n,
       nDiskRead n, nDiskWrite n, nNetInRate n, nNetOutRate n])"

definition heard :: "answers \<Rightarrow> string \<Rightarrow> bool" where
  "heard w i =
     (case ClusterResources w of
        Inl _ \<Rightarrow> False
      | Inr rs \<Rightarrow> i \<in> presentes rs \<or> i \<in> pingaSeeds w (carregaSeeds w))"

lemma readings_observed: "readings n' = readings n \<Longrightarrow> observedAtDoNo n' = observedAtDoNo n"
  by (simp add: readings_def observedAtDoNo_def Let_def)

lemma marked_readings [simp]: "readings (marked rs seeds agora n) = readings n"
  by (simp add: marked_def marca_no_def readings_def)

lemma credited_readings [simp]: "readings (credited w ns n) = readings n"
  by (simp add: credited_def cred_no_def readings_def split: option.splits)

lemma revoga_readings [simp]: "readings (revoga_no agora n) = readings n"
  by (simp add: revoga_no_def readings_def)

lemma upsert_host_other: "''node/'' @ h \<noteq> i \<Longrightarrow> map_of (upsert_host agora h m) i = map_of m i"
  by (auto simp: map_of_upsert_host)

lemma upsert_guest_other: "rID r \<noteq> i \<Longrightarrow> map_of (upsert_guest en agora b r m) i = map_of m i"
  by (simp add: upsert_guest_heard update_conv')

lemma fold_hosts_other:
  "i \<notin> (\<lambda>h. ''node/'' @ h) ` set hs \<Longrightarrow> map_of (fold (upsert_host agora) hs m) i = map_of m i"
  by (rule fold_upsert_other [where key = "\<lambda>h. ''node/'' @ h"]) (rule upsert_host_other)

lemma fold_guests_other:
  "i \<notin> rID ` set rs \<Longrightarrow> map_of (fold (upsert_guest en agora b) rs m) i = map_of m i"
  by (rule fold_upsert_other [where key = rID]) (rule upsert_guest_other)

lemma discovered_other:
  assumes "distinct (map nID ns)" and "i \<notin> presentes rs"
  shows "map_of (discovered w cfg agora rs ns) i = node_of ns i"
proof -
  have g: "i \<notin> rID ` set (filter IsGuest rs)" and h: "i \<notin> (\<lambda>h. ''node/'' @ h) ` set (hosts_of rs)"
    using assms(2) by (auto simp: presentes_def hosts_of_def)
  show ?thesis
    unfolding discovered_def fold_guests_other [OF g] fold_hosts_other [OF h] using assms(1) by (rule map_of_indice)
qed

lemma upsert_keeps_dom:
  "map_of m i \<noteq> None \<Longrightarrow> map_of (upsert_host agora h m) i \<noteq> None"
  "map_of m i \<noteq> None \<Longrightarrow> map_of (upsert_guest en agora b r m) i \<noteq> None"
  "map_of m i \<noteq> None \<Longrightarrow> map_of (upsert_seed vivos agora s m) i \<noteq> None"
  by (simp_all add: map_of_upsert_host upsert_guest_heard upsert_seed_def Let_def update_conv')

lemma discovered_keeps:
  "distinct (map nID ns) \<Longrightarrow> node_of ns i \<noteq> None \<Longrightarrow> map_of (discovered w cfg agora rs ns) i \<noteq> None"
  unfolding discovered_def
  by (intro fold_keeps [where Q = "\<lambda>x. x \<noteq> None"] upsert_keeps_dom) simp_all

text \<open>A seed that did not answer changes no reading of the node it declares.\<close>

lemma upsert_seed_unheard:
  assumes "i \<notin> vivos" "\<exists>n'. map_of m i = Some n' \<and> readings n' = x"
  shows "\<exists>n'. map_of (upsert_seed vivos agora s m) i = Some n' \<and> readings n' = x"
  using assms by (auto simp: upsert_seed_def Let_def update_conv' readings_def split: option.splits)

lemma fold_seeds_unheard:
  "i \<notin> vivos \<Longrightarrow> \<exists>n'. map_of m i = Some n' \<and> readings n' = x \<Longrightarrow>
    \<exists>n'. map_of (fold (upsert_seed vivos agora) seeds m) i = Some n' \<and> readings n' = x"
proof (induction seeds arbitrary: m)
  case (Cons s seeds)
  show ?case
    using Cons.IH [OF Cons.prems(1) upsert_seed_unheard [OF Cons.prems]] by simp
qed simp

text \<open>The nodes as they are when the seeds are applied.\<close>

definition pre_seed :: "answers \<Rightarrow> PollerConfig \<Rightarrow> secs \<Rightarrow> Resource list \<Rightarrow> Node list \<Rightarrow> Node list" where
  "pre_seed w cfg agora rs ns =
     map (marked rs (carregaSeeds w) agora) (ordenaPorID (discovered w cfg agora rs ns))"

definition after_seeds :: "answers \<Rightarrow> PollerConfig \<Rightarrow> secs \<Rightarrow> Resource list \<Rightarrow> Node list \<Rightarrow> (string \<times> Node) list" where
  "after_seeds w cfg agora rs ns =
     fold (upsert_seed (pingaSeeds w (carregaSeeds w)) agora) (carregaSeeds w) (indicePorID (pre_seed w cfg agora rs ns))"

lemma pre_seed_distinct: "distinct (map nID (pre_seed w cfg agora rs ns))"
  by (simp only: pre_seed_def map_keeps_IDs [OF marked_ID] distinct_ordena discovered_keyed)

lemma pre_seed_at:
  "map_of (indicePorID (pre_seed w cfg agora rs ns)) i =
    map_option (marked rs (carregaSeeds w) agora) (map_of (discovered w cfg agora rs ns) i)"
proof -
  have "map_of (indicePorID (pre_seed w cfg agora rs ns)) i = node_of (pre_seed w cfg agora rs ns) i"
    by (rule map_of_indice [OF pre_seed_distinct])
  also have "\<dots> = map_option (marked rs (carregaSeeds w) agora) (map_of (discovered w cfg agora rs ns) i)"
    by (simp only: pre_seed_def node_of_map [OF marked_ID] node_of_ordena [OF discovered_keyed])
  finally show ?thesis .
qed

lemma tick_nodes_at:
  "node_of (tick_nodes w cfg agora rs ns) i =
    map_option (credited w (seeded w agora (pre_seed w cfg agora rs ns))) (map_of (after_seeds w cfg agora rs ns) i)"
proof -
  have "node_of (seeded w agora (pre_seed w cfg agora rs ns)) i = map_of (after_seeds w cfg agora rs ns) i"
    using map_of_indice [OF pre_seed_distinct]
    by (auto simp: seeded_def after_seeds_def keyed_fold)
  then show ?thesis
    by (simp only: tick_nodes_def Let_def node_of_map [OF credited_ID] pre_seed_def [symmetric])
qed

lemma tick_nodes_unheard:
  assumes "distinct (map nID ns)" "node_of ns i = Some n"
    and "i \<notin> presentes rs" "i \<notin> pingaSeeds w (carregaSeeds w)"
  shows "\<exists>n'. node_of (tick_nodes w cfg agora rs ns) i = Some n' \<and> readings n' = readings n"
proof -
  have "map_of (discovered w cfg agora rs ns) i = Some n"
    using discovered_other [OF assms(1,3)] assms(2) by simp
  then have "\<exists>n'. map_of (indicePorID (pre_seed w cfg agora rs ns)) i = Some n' \<and> readings n' = readings n"
    by (simp add: pre_seed_at)
  from fold_seeds_unheard [OF assms(4) this, of agora "carregaSeeds w"]
  obtain n' where "map_of (after_seeds w cfg agora rs ns) i = Some n'" "readings n' = readings n"
    by (auto simp: after_seeds_def)
  then show ?thesis
    by (simp add: tick_nodes_at)
qed

lemma tick_nodes_keeps:
  assumes "distinct (map nID ns)" "node_of ns i \<noteq> None"
  shows "node_of (tick_nodes w cfg agora rs ns) i \<noteq> None"
proof -
  have "map_of (indicePorID (pre_seed w cfg agora rs ns)) i \<noteq> None"
    using discovered_keeps [OF assms] by (simp add: pre_seed_at)
  then have "map_of (after_seeds w cfg agora rs ns) i \<noteq> None"
    unfolding after_seeds_def by (intro fold_keeps [where Q = "\<lambda>x. x \<noteq> None"] upsert_keeps_dom(3))
  then show ?thesis by (simp add: tick_nodes_at)
qed

text \<open>A row of the answer, or a seed that answered, leaves the stamp of this tick.\<close>

definition stamped :: "secs \<Rightarrow> Node option \<Rightarrow> bool" where
  "stamped agora x = (case x of None \<Rightarrow> False | Some n \<Rightarrow> ObservedAt (nStatus n) = agora)"

lemma stamped_marked: "stamped agora (map_option (marked rs seeds ag) x) = stamped agora x"
  by (simp add: stamped_def marked_def marca_no_def split: option.splits)

lemma stamped_credited: "stamped agora (map_option (credited w ns) x) = stamped agora x"
  by (auto simp: stamped_def credited_def cred_no_def split: option.splits)

lemma upsert_guest_stamped:
  "rID r = i \<or> stamped agora (map_of m i) \<Longrightarrow> stamped agora (map_of (upsert_guest en agora b r m) i)"
  by (auto simp: upsert_guest_heard update_conv' stamped_def heard_guest_def aplicaContadores_def Let_def
    Observe_def split: option.splits)

lemma upsert_seed_stamped:
  "stamped agora (map_of m i) \<Longrightarrow> stamped agora (map_of (upsert_seed vivos agora s m) i)"
  by (auto simp: upsert_seed_def Let_def update_conv' stamped_def Observe_def split: option.splits)

lemma fold_guest_stamped:
  "r \<in> set rs \<Longrightarrow> stamped agora (map_of (fold (upsert_guest en agora b) rs m) (rID r))"
proof (induction rs arbitrary: m)
  case (Cons q rs)
  show ?case
  proof (cases "q = r")
    case True
    then show ?thesis
      by (simp add: fold_keeps [where Q = "stamped agora"] upsert_guest_stamped)
  next
    case False
    with Cons show ?thesis by simp
  qed
qed simp

lemma tick_nodes_stamps:
  assumes "r \<in> set rs" "IsGuest r"
  shows "stamped agora (node_of (tick_nodes w cfg agora rs ns) (rID r))"
proof -
  have "stamped agora (map_of (discovered w cfg agora rs ns) (rID r))"
    using assms by (simp add: discovered_def fold_guest_stamped)
  then have "stamped agora (map_of (indicePorID (pre_seed w cfg agora rs ns)) (rID r))"
    by (simp add: pre_seed_at stamped_marked)
  then have "stamped agora (map_of (after_seeds w cfg agora rs ns) (rID r))"
    unfolding after_seeds_def by (intro fold_keeps [where Q = "stamped agora"] upsert_seed_stamped)
  then show ?thesis
    by (simp add: tick_nodes_at stamped_credited)
qed

lemma Replace_cases:
  assumes "load_inventory f = Ok iv"
  obtains (kept) e where "Replace fault (Some g) f = (f, Err e)"
    | (written) "Replace fault (Some g) f = (Doc (sorted_inventory (g iv)), Ok ())"
  using assms by (fastforce simp: Replace_def persist_inventory_cases split: if_splits sum.splits)

lemma load_sorted: "load_inventory (Doc (sorted_inventory iv)) = Ok (sorted_inventory iv)"
  by (simp add: load_inventory_def sorted_inventory_def SchemaVersion_def)

lemma set_sorted_nodes [simp]: "set (iNodes (sorted_inventory iv)) = set (iNodes iv)"
  by (simp add: sorted_inventory_def)

lemma sorted_inventory_clock [simp]:
  "LastPollAt (sorted_inventory iv) = LastPollAt iv" "LastPollError (sorted_inventory iv) = LastPollError iv"
  by (simp_all add: sorted_inventory_def)

text \<open>A store update that maps every node to one with the same identifier and property.\<close>

lemma Replace_node:
  assumes "load_inventory f = Ok iv" "n \<in> set (iNodes iv)" "P n"
    and "\<exists>n'\<in>set (iNodes (g iv)). P n'"
  shows "\<exists>iv' n'. load_inventory (fst (Replace fault (Some g) f)) = Ok iv' \<and> n' \<in> set (iNodes iv') \<and> P n'"
proof (rule Replace_cases [OF assms(1), of fault g])
  fix e
  assume "Replace fault (Some g) f = (f, Err e)"
  then show ?thesis using assms by auto
next
  assume "Replace fault (Some g) f = (Doc (sorted_inventory (g iv)), Ok ())"
  then show ?thesis using assms(4) by (auto simp: load_sorted)
qed

lemma tick_node:
  assumes "wf_file f" "load_inventory f = Ok iv" "n \<in> set (iNodes iv)" "P n"
    and "\<And>n. P n \<Longrightarrow> P (revoga_no (unix now) n)"
    and "\<And>rs. ClusterResources w = Ok rs \<Longrightarrow>
      \<exists>n'\<in>set (tick_nodes w cfg (unix now) rs (iNodes iv)). P n'"
  shows "\<exists>iv' n'. load_inventory (fst (tick w cfg flts now f)) = Ok iv' \<and> n' \<in> set (iNodes iv') \<and> P n'"
proof (cases "ClusterResources w")
  case (Inl e)
  let ?f1 = "registraTentativa (fltAttempt flts) (unix now) (peText e) f"
  have "\<exists>iv' n'. load_inventory ?f1 = Ok iv' \<and> n' \<in> set (iNodes iv') \<and> P n'"
    unfolding registraTentativa_def using assms(3,4) by (intro Replace_node [where n = n and P = P, OF assms(2)]) auto
  then obtain iv1 n1 where 1: "load_inventory ?f1 = Ok iv1" "n1 \<in> set (iNodes iv1)" "P n1"
    by blast
  have "\<exists>iv' n'. load_inventory (fst (marcaCredencialRevogada (fltMark flts) (unix now) ?f1)) = Ok iv'
      \<and> n' \<in> set (iNodes iv') \<and> P n'"
    unfolding marcaCredencialRevogada_def
  proof (rule Replace_node [where n = n1 and P = P, OF 1])
    have "P (revoga_no (unix now) n1)"
      using 1(3) by (rule assms(5))
    with 1(2) show "\<exists>n'\<in>set (iNodes (iv1\<lparr>iNodes := map (revoga_no (unix now)) (iNodes iv1)\<rparr>)). P n'"
      by auto
  qed
  with Inl 1 show ?thesis
    by (auto simp: tick_file Let_def)
next
  case (Inr rs)
  with assms(6) have "\<exists>n'\<in>set (iNodes (fst (tick_mutation w cfg (unix now) rs iv))). P n'"
    by (simp add: tick_mutation_nodes)
  from Replace_node [where n = n and P = P and g = "\<lambda>iv. fst (tick_mutation w cfg (unix now) rs iv)",
      OF assms(2,3,4) this, of "fltFinal flts"] Inr
  show ?thesis by (simp add: tick_file)
qed

text \<open>
  The poller never forgets a node and never presents an old reading as a new one. Whatever a tick hears,
  and whatever fails in it, every node of the inventory is still there afterwards under its identifier; one that
  was not heard (the discovery failed, or neither the hypervisor listed it nor its agent answered) keeps
  every value with the time stamp it had, so its age at any later instant is unaffected by the tick.
\<close>
theorem silent_node_kept:
  assumes "wf_file f" and "Snapshot_inventory f = Ok iv" and "n \<in> set (iNodes iv)"
  shows "\<exists>iv' n'. Snapshot_inventory (fst (tick w cfg flts now f)) = Ok iv' \<and> n' \<in> set (iNodes iv')
    \<and> nID n' = nID n
    \<and> (\<not> heard w (nID n) \<longrightarrow> readings n' = readings n
        \<and> AgeSeconds (observedAtDoNo n') later = AgeSeconds (observedAtDoNo n) later)"
proof -
  let ?P = "\<lambda>n'. nID n' = nID n \<and> (\<not> heard w (nID n) \<longrightarrow> readings n' = readings n)"
  have ld: "load_inventory f = Ok iv"
    using assms(2) by (simp add: Snapshot_inventory_def)
  have d: "distinct (map nID (iNodes iv))"
    using load_wf [OF assms(1) ld] .
  then have at: "node_of (iNodes iv) (nID n) = Some n"
    using assms(3) by (simp add: node_of_iff)
  have "\<exists>n'\<in>set (tick_nodes w cfg (unix now) rs (iNodes iv)). ?P n'" if rs: "ClusterResources w = Ok rs" for rs
  proof (cases "heard w (nID n)")
    case True
    obtain n' where "node_of (tick_nodes w cfg (unix now) rs (iNodes iv)) (nID n) = Some n'"
      using tick_nodes_keeps [OF d, of "nID n" w cfg "unix now" rs] at by auto
    with True node_of_Some show ?thesis by blast
  next
    case False
    then have "nID n \<notin> presentes rs" "nID n \<notin> pingaSeeds w (carregaSeeds w)"
      using rs by (simp_all add: heard_def)
    from tick_nodes_unheard [OF d at this] obtain n' where
        "node_of (tick_nodes w cfg (unix now) rs (iNodes iv)) (nID n) = Some n'" "readings n' = readings n"
      by blast
    with node_of_Some show ?thesis by blast
  qed
  then have "\<exists>iv' n'. load_inventory (fst (tick w cfg flts now f)) = Ok iv' \<and> n' \<in> set (iNodes iv') \<and> ?P n'"
    by (intro tick_node [where n = n and P = ?P, OF assms(1) ld assms(3)]) simp_all
  then obtain iv' n' where "load_inventory (fst (tick w cfg flts now f)) = Ok iv'" "n' \<in> set (iNodes iv')"
      "nID n' = nID n" "\<not> heard w (nID n) \<longrightarrow> readings n' = readings n"
    by blast
  then show ?thesis
    using readings_observed [of n' n] by (intro exI [of _ iv'] exI [of _ n']) (auto simp: Snapshot_inventory_def)
qed

definition old_apps :: Node where
  "old_apps = zero_node\<lparr>nID := ''lxc/207'', nTransport := TransportPVEAPI, nKind := NodeKindGuest,
     nStatus := Observe ''running'' 100\<rparr>"

definition old_doc :: Inventory where
  "old_doc = zero_inventory\<lparr>iSchemaVersion := 1, iNodes := [old_apps]\<rparr>"

definition down :: pve_error where
  "down = \<lparr>peKind = KindUnreachable, peStatus = 0, peText = ''timeout''\<rparr>"

lemmas closed_sets = TransportPVEAPI_def TransportAgente_def TransportSSH_def Transport_Valido_def NodeKindGuest_def
  NodeKindHost_def NodeKindExterno_def NodeKind_Valido_def

lemma old_doc_facts:
  "wf_file (Doc old_doc)" "Snapshot_inventory (Doc old_doc) = Ok old_doc" "old_apps \<in> set (iNodes old_doc)"
  by (simp_all add: wf_file_def wf_inventory_def old_doc_def zero_inventory_def SchemaVersion_def node_ok_def
    old_apps_def zero_node_def closed_sets Snapshot_inventory_def load_inventory_def finite_defs zero_hypervisor_def)

theorem silent_node_kept_witness:
  "wf_file (Doc old_doc) \<and> old_apps \<in> set (iNodes old_doc)
   \<and> (\<exists>iv' n'. Snapshot_inventory (fst (tick (quiet (Err down)) default_cfg no_faults (500 * second) (Doc old_doc))) = Ok iv'
        \<and> n' \<in> set (iNodes iv') \<and> nID n' = ''lxc/207'' \<and> readings n' = readings old_apps
        \<and> AgeSeconds (observedAtDoNo n') (600 * second) = 500)"
proof -
  have h: "\<not> heard (quiet (Err down)) (nID old_apps)"
    by (simp add: heard_def quiet_def)
  have a: "AgeSeconds (observedAtDoNo old_apps) (600 * second) = 500" "nID old_apps = ''lxc/207''"
    by (simp_all add: AgeSeconds_def observedAtDoNo_def old_apps_def zero_node_def Observe_def unix_def second_def)
  show ?thesis
    using silent_node_kept [OF old_doc_facts, of "quiet (Err down)" default_cfg no_faults "500 * second" "600 * second"]
      h a old_doc_facts by auto
qed

section \<open>Absence is dated by the tick that first saw it\<close>

text \<open>Discovery copies the absence mark and sets the transport; the seeds leave an undeclared node alone.\<close>

definition carries :: "secs \<Rightarrow> Node option \<Rightarrow> bool" where
  "carries a x = (case x of None \<Rightarrow> False | Some n \<Rightarrow> AusenteDesde n = a \<and> nTransport n = TransportPVEAPI)"

lemma upsert_host_carries: "carries a (map_of m i) \<Longrightarrow> carries a (map_of (upsert_host agora h m) i)"
  by (auto simp: map_of_upsert_host carries_def get_node_def split: option.splits)

lemma upsert_guest_carries: "carries a (map_of m i) \<Longrightarrow> carries a (map_of (upsert_guest en agora b r m) i)"
  by (auto simp: upsert_guest_heard update_conv' carries_def get_node_def heard_guest_def aplicaContadores_def
    Let_def split: option.splits)

lemma discovered_carries:
  assumes "distinct (map nID ns)" "carries a (node_of ns i)"
  shows "carries a (map_of (discovered w cfg agora rs ns) i)"
  unfolding discovered_def using assms
  by (intro fold_keeps [where Q = "carries a"] upsert_guest_carries upsert_host_carries) simp_all

lemma upsert_seed_other: "nID s \<noteq> i \<Longrightarrow> map_of (upsert_seed vivos agora s m) i = map_of m i"
  by (simp add: upsert_seed_def Let_def update_conv')

lemma after_seeds_other:
  assumes "i \<notin> nID ` set (carregaSeeds w)"
  shows "map_of (after_seeds w cfg agora rs ns) i =
    map_option (marked rs (carregaSeeds w) agora) (map_of (discovered w cfg agora rs ns) i)"
proof -
  have "map_of (after_seeds w cfg agora rs ns) i = map_of (indicePorID (pre_seed w cfg agora rs ns)) i"
    unfolding after_seeds_def using assms by (intro fold_upsert_other [where key = nID] upsert_seed_other)
  then show ?thesis by (simp only: pre_seed_at)
qed

definition absence_after :: "Resource list \<Rightarrow> secs \<Rightarrow> Node \<Rightarrow> secs" where
  "absence_after rs agora n =
     (if list_all (\<lambda>r. \<not> IsGuest r) rs then AusenteDesde n
      else if nID n \<in> presentes rs then 0
      else if AusenteDesde n = 0 then agora
      else AusenteDesde n)"

lemma credited_AusenteDesde [simp]: "AusenteDesde (credited w ns n) = AusenteDesde n"
  by (simp add: credited_def cred_no_def split: option.splits)

lemma tick_nodes_absence:
  assumes "distinct (map nID ns)" "node_of ns i = Some n" "nTransport n = TransportPVEAPI"
    and "i \<notin> nID ` set (carregaSeeds w)"
  shows "\<exists>n'. node_of (tick_nodes w cfg agora rs ns) i = Some n' \<and> AusenteDesde n' = absence_after rs agora n"
proof -
  have i: "nID n = i"
    using node_of_Some [OF assms(2)] by simp
  have "carries (AusenteDesde n) (map_of (discovered w cfg agora rs ns) i)"
    using discovered_carries [OF assms(1)] assms(2,3) by (simp add: carries_def)
  then obtain m where m: "map_of (discovered w cfg agora rs ns) i = Some m" "AusenteDesde m = AusenteDesde n"
      "nTransport m = TransportPVEAPI"
    by (auto simp: carries_def split: option.splits)
  have "nID m = i"
    using keyed_map_of [OF discovered_keyed m(1)] .
  with m i assms(4) have "AusenteDesde (marked rs (carregaSeeds w) agora m) = absence_after rs agora n"
    by (auto simp: marked_def marca_no_def absence_after_def list_all_iff filter_empty_conv image_iff)
  with m after_seeds_other [OF assms(4)] show ?thesis
    by (simp add: tick_nodes_at)
qed

lemma tick_Ok_written:
  assumes "ClusterResources w = Ok rs" "load_inventory f = Ok iv" "snd (tick w cfg flts now f) = Ok ()"
  shows "load_inventory (fst (tick w cfg flts now f)) =
    Ok (sorted_inventory (fst (tick_mutation w cfg (unix now) rs iv)))"
proof (rule Replace_cases [OF assms(2), of "fltFinal flts" "\<lambda>iv. fst (tick_mutation w cfg (unix now) rs iv)"])
  fix e
  assume "Replace (fltFinal flts) (Some (\<lambda>iv. fst (tick_mutation w cfg (unix now) rs iv))) f = (f, Err e)"
  with assms(1,3) show ?thesis by (simp add: tick_def)
next
  assume "Replace (fltFinal flts) (Some (\<lambda>iv. fst (tick_mutation w cfg (unix now) rs iv))) f =
    (Doc (sorted_inventory (fst (tick_mutation w cfg (unix now) rs iv))), Ok ())"
  with assms(1) show ?thesis by (simp add: tick_file load_sorted)
qed

text \<open>
  Absence is an observation of the hypervisor, not a guess. After a successful tick, a node that the
  hypervisor owns and no seed declares carries as its absence date: nothing, when the hypervisor listed it
  again; the instant of this tick, when it is missing for the first time; the date it already had, when it was
  missing before; and what it had, when the answer listed no guest at all.
\<close>
theorem absence_dated_once:
  assumes "wf_file f" and "Snapshot_inventory f = Ok iv" and "n \<in> set (iNodes iv)"
    and "nTransport n = TransportPVEAPI" and "nID n \<notin> nID ` set (carregaSeeds w)"
    and "ClusterResources w = Ok rs" and "snd (tick w cfg flts now f) = Ok ()"
  shows "\<exists>iv' n'. Snapshot_inventory (fst (tick w cfg flts now f)) = Ok iv' \<and> n' \<in> set (iNodes iv')
    \<and> nID n' = nID n \<and> AusenteDesde n' = absence_after rs (unix now) n"
proof -
  have ld: "load_inventory f = Ok iv"
    using assms(2) by (simp add: Snapshot_inventory_def)
  have d: "distinct (map nID (iNodes iv))"
    using load_wf [OF assms(1) ld] .
  then have "node_of (iNodes iv) (nID n) = Some n"
    using assms(3) by (simp add: node_of_iff)
  from tick_nodes_absence [OF d this assms(4,5)] obtain n' where
      "node_of (tick_nodes w cfg (unix now) rs (iNodes iv)) (nID n) = Some n'"
      "AusenteDesde n' = absence_after rs (unix now) n"
    by blast
  then show ?thesis
    using tick_Ok_written [OF assms(6) ld assms(7)] node_of_Some
    by (auto simp: Snapshot_inventory_def tick_mutation_nodes)
qed

section \<open>A tick that hears goes through\<close>

text \<open>A node that validates and whose number is finite.\<close>

definition node_sound :: "Node \<Rightarrow> bool" where
  "node_sound n \<longleftrightarrow> node_ok n \<and> node_finite n"

definition all_ok :: "(string \<times> Node) list \<Rightarrow> bool" where
  "all_ok m \<longleftrightarrow> list_all (\<lambda>(i, n). node_sound n) m"

lemma all_ok_Nil [simp]: "all_ok []"
  by (simp add: all_ok_def)

lemma all_ok_update: "all_ok m \<Longrightarrow> node_sound n \<Longrightarrow> all_ok (AList.update i n m)"
  unfolding all_ok_def by (induction m) auto

lemma all_ok_map_of: "all_ok m \<Longrightarrow> map_of m i = Some n \<Longrightarrow> node_sound n"
  by (auto simp: all_ok_def list_all_iff dest!: map_of_SomeD)

lemma all_ok_fold:
  assumes "\<And>x m. x \<in> set xs \<Longrightarrow> all_ok m \<Longrightarrow> all_ok (f x m)"
  shows "all_ok m \<Longrightarrow> all_ok (fold f xs m)"
  using assms by (induction xs arbitrary: m) auto

lemma all_ok_indice: "list_all node_sound ns \<Longrightarrow> all_ok (indicePorID ns)"
  unfolding indicePorID_def by (rule all_ok_fold) (auto simp: list_all_iff intro: all_ok_update)

lemma all_ok_ordena: "all_ok m \<Longrightarrow> list_all node_sound (ordenaPorID m)"
  by (auto simp: all_ok_def list_all_iff)

lemma all_ok_get: "all_ok m \<Longrightarrow> is_fin (Value (nCPUFrac (get_node m i)))"
  using all_ok_map_of [of m i]
  by (auto simp: get_node_def node_sound_def node_finite_def zero_node_def is_fin_def Observe_def split: option.split)

lemma upsert_host_ok: "all_ok m \<Longrightarrow> all_ok (upsert_host agora h m)"
  using all_ok_get [of m "''node/'' @ h"]
  by (auto simp: upsert_host_def Let_def node_sound_def node_ok_def node_finite_def closed_sets intro!: all_ok_update)

lemma upsert_guest_ok: "rID r \<noteq> '''' \<Longrightarrow> is_fin (rCPU r) \<Longrightarrow> all_ok m \<Longrightarrow> all_ok (upsert_guest en agora b r m)"
  by (auto simp: upsert_guest_heard heard_guest_def Let_def aplicaContadores_def node_sound_def node_ok_def node_finite_def closed_sets
    Observe_def intro!: all_ok_update split: option.splits)

lemma upsert_seed_ok: "node_sound s \<Longrightarrow> all_ok m \<Longrightarrow> all_ok (upsert_seed vivos agora s m)"
  by (auto simp: upsert_seed_def Let_def node_sound_def node_ok_def node_finite_def intro!: all_ok_update split: option.splits
    dest: all_ok_map_of)

lemma tick_nodes_ok:
  assumes "list_all node_sound ns" "list_all (\<lambda>r. IsGuest r \<longrightarrow> rID r \<noteq> '''' \<and> is_fin (rCPU r)) rs" "list_all node_sound (carregaSeeds w)"
  shows "list_all node_sound (tick_nodes w cfg agora rs ns)"
proof -
  have "all_ok (discovered w cfg agora rs ns)"
    unfolding discovered_def using assms(1,2)
    by (intro all_ok_fold upsert_guest_ok upsert_host_ok all_ok_indice) (auto simp: list_all_iff)
  then have "list_all node_sound (pre_seed w cfg agora rs ns)"
    using all_ok_ordena by (force simp: pre_seed_def list_all_iff node_sound_def node_ok_def node_finite_def marked_def marca_no_def)
  moreover from this have "all_ok (after_seeds w cfg agora rs ns)"
    unfolding after_seeds_def using assms(3)
    by (intro all_ok_fold upsert_seed_ok all_ok_indice) (auto simp: list_all_iff)
  then have "list_all node_sound (ordenaPorID (after_seeds w cfg agora rs ns))"
    by (rule all_ok_ordena)
  ultimately have "list_all node_sound (seeded w agora (pre_seed w cfg agora rs ns))"
    by (simp only: seeded_def after_seeds_def simp_thms split: if_split)
  then show ?thesis
    by (auto simp: tick_nodes_def Let_def pre_seed_def list_all_iff node_sound_def node_ok_def node_finite_def credited_def cred_no_def
      split: option.splits)
qed

lemma load_ok_nodes: "wf_file f \<Longrightarrow> load_inventory f = Ok iv \<Longrightarrow> list_all node_ok (iNodes iv)"
  by (auto simp: load_inventory_def wf_file_def wf_inventory_def zero_inventory_def split: jsonfile.splits if_splits)

lemma check_seeds_None:
  "check_seeds i vistos ss = None \<Longrightarrow>
    list_all node_ok ss \<and> distinct (map nID ss) \<and> set vistos \<inter> nID ` set ss = {}
    \<and> list_all (\<lambda>s. nTransport s = TransportAgente \<longrightarrow> nAddress s \<noteq> '''') ss"
proof (induction ss arbitrary: i vistos)
  case (Cons s ss)
  have "node_ok s" "nID s \<notin> set vistos" "nTransport s = TransportAgente \<longrightarrow> nAddress s \<noteq> ''''"
    and "check_seeds (Suc i) (nID s # vistos) ss = None"
    using Cons.prems by (auto simp: Node_Validate_ok [symmetric] split: sum.splits if_splits)
  with Cons.IH [of "Suc i" "nID s # vistos"] show ?case by auto
qed simp

lemma LoadSeeds_ok:
  "LoadSeeds sf = Ok ss \<Longrightarrow> list_all node_ok ss \<and> distinct (map nID ss)
    \<and> list_all (\<lambda>s. nTransport s = TransportAgente \<longrightarrow> nAddress s \<noteq> '''') ss"
  using check_seeds_None by (fastforce simp: LoadSeeds_def split: jsonfile.splits option.splits)

lemma write_without_fault: "snd (writeFileAtomic None b d) = Ok ()"
  by (simp add: writeFileAtomic_def)

lemma load_marshals: "wf_file f \<Longrightarrow> load_inventory f = Ok iv \<Longrightarrow> marshals iv"
  by (auto simp: load_inventory_def wf_file_def wf_inventory_def zero_inventory_def finite_defs zero_hypervisor_def
    split: jsonfile.splits if_splits)

lemma load_sound: "wf_file f \<Longrightarrow> load_inventory f = Ok iv \<Longrightarrow> list_all node_sound (iNodes iv)"
  using load_ok_nodes [of f iv] load_marshals [of f iv] by (auto simp: list_all_iff node_sound_def marshals_def)

text \<open>
  The numbers the answers carry are ones JSON can hold. The ones decoded from JSON always are; the load averages come as
  text and pass through \<open>ParseFloat\<close>, which also reads \<open>NaN\<close> and \<open>Inf\<close>, and a percentage of use is a product that
  can overflow.
\<close>

definition finite_answers :: "answers \<Rightarrow> Resource list \<Rightarrow> bool" where
  "finite_answers w rs \<longleftrightarrow>
     list_all (\<lambda>r. IsGuest r \<longrightarrow> is_fin (rCPU r)) rs \<and> list_all node_finite (carregaSeeds w)
   \<and> (case GetNodeStatus w (nomeDoHipervisor rs) of None \<Rightarrow> True
      | Some st \<Rightarrow> is_fin (nsCPU st) \<and> is_fin (nsWait st)
          \<and> (case loadDeStrings (ParseFloat w) (nsLoadAvg st) of (a, b, c) \<Rightarrow> is_fin a \<and> is_fin b \<and> is_fin c))
   \<and> (case StorageList w (nomeDoHipervisor rs) of None \<Rightarrow> True
      | Some ss \<Rightarrow> list_all (\<lambda>s. is_fin (spUsedPct (pool_of s))) ss)
   \<and> (case ZFSList w (nomeDoHipervisor rs) of None \<Rightarrow> True | Some ps \<Rightarrow> list_all (\<lambda>p. is_fin (pzDedup p)) ps)"

lemma opt_apply_keeps:
  "P s \<Longrightarrow> (\<And>v. x = Some v \<Longrightarrow> P s \<Longrightarrow> P (g v s)) \<Longrightarrow> P (opt_apply g x s)"
  by (cases x) (simp_all add: opt_apply_def)

lemma tick_mutation_hypervisor:
  assumes "finite_answers w rs" "hypervisor_finite (iHypervisor iv)"
  shows "hypervisor_finite (iHypervisor (fst (tick_mutation w cfg agora rs iv)))"
proof -
  let ?n = "nomeDoHipervisor rs" and ?P = "\<lambda>iv. hypervisor_finite (iHypervisor iv)"
  have hv: "?P (aplicaHipervisor (ParseFloat w) ?n st agora iv')"
    if "(if ?n \<noteq> '''' then GetNodeStatus w ?n else None) = Some st" "?P iv'" for st iv'
    using assms(1) that
    by (auto simp: finite_answers_def aplicaHipervisor_def Let_def hypervisor_finite_def Observe_def split: if_splits)
  have st: "?P (aplicaStorage ss agora iv')" if "ccPools (coletaCapacidade w ?n) = Some ss" "?P iv'" for ss iv'
    using assms(1) that
    by (auto simp: finite_answers_def aplicaStorage_def coletaCapacidade_def hypervisor_finite_def Observe_def list_all_iff
      split: if_splits)
  have zp: "?P (aplicaZPools ps agora iv')" if "ccZPools (coletaCapacidade w ?n) = Some ps" "?P iv'" for ps iv'
    using assms(1) that
    by (auto simp: finite_answers_def aplicaZPools_def zpool_of_def coletaCapacidade_def hypervisor_finite_def Observe_def
      list_all_iff split: if_splits)
  have da: "?P (aplicaDatastoreAudit b agora iv')" if "?P iv'" for b iv'
    using that by (simp add: aplicaDatastoreAudit_def hypervisor_finite_def)
  have rest: "?P (aplicaCredenciais w iv') = ?P iv'" "?P (aplicaSeeds seeds vivos agora iv') = ?P iv'"
    "?P (fst (marcaSumidos rs seeds agora iv')) = ?P iv'" "?P (aplicaDescoberta rs obs agora b iv') = ?P iv'" for iv' seeds vivos obs b
    by (simp_all add: aplicaCredenciais_def aplicaSeeds_def aplicaDescoberta_def marcaSumidos_hv split: option.splits)
  show ?thesis
    unfolding tick_mutation_def Let_def case_prod_beta' fst_conv
    using assms(2)
    by (intro opt_apply_keeps [where P = ?P] rest [THEN iffD2] hv st zp da) simp_all
qed

lemma tick_written:
  assumes "wf_file f" and "load_inventory f = Ok iv"
    and "ClusterResources w = Ok rs" and "list_all (\<lambda>r. IsGuest r \<longrightarrow> rID r \<noteq> '''') rs"
    and "finite_answers w rs" and "srcSeeds w = SeedsSource sf" and "fltFinal flts = None"
  shows "tick w cfg flts now f = (Doc (sorted_inventory (fst (tick_mutation w cfg (unix now) rs iv))), Ok ())"
proof -
  let ?g = "\<lambda>iv. fst (tick_mutation w cfg (unix now) rs iv)"
  have "list_all node_ok (carregaSeeds w)"
    using assms(6) LoadSeeds_ok [of sf] by (auto simp: carregaSeeds_def SeedsSource_def split: sum.splits)
  then have "list_all node_sound (carregaSeeds w)"
      "list_all (\<lambda>r. IsGuest r \<longrightarrow> rID r \<noteq> '''' \<and> is_fin (rCPU r)) rs"
    using assms(4,5) by (auto simp: finite_answers_def node_sound_def list_all_iff)
  then have "list_all node_sound (iNodes (?g iv))"
    using tick_nodes_ok [OF load_sound [OF assms(1,2)]] by (simp add: tick_mutation_nodes)
  moreover have "hypervisor_finite (iHypervisor (?g iv))"
    using tick_mutation_hypervisor [OF assms(5)] load_marshals [OF assms(1,2)] by (simp add: marshals_def)
  ultimately have "list_all node_ok (iNodes (?g iv))" "marshals (?g iv)"
    by (auto simp: marshals_def list_all_iff node_sound_def)
  then have "Replace None (Some ?g) f = (Doc (sorted_inventory (?g iv)), Ok ())"
    using assms(2) by (simp add: Replace_def persist_inventory_cases write_without_fault)
  then show ?thesis
    using assms(3,7) by (simp add: tick_def Let_def)
qed

text \<open>
  C39. When the hypervisor answers with rows that carry identifiers, every number the answers carry is finite (the load
  averages after \<open>ParseFloat\<close> and the percentages of use included) and the disk accepts the write, the tick
  succeeds, whatever else fails (a seeds file that is missing, unreadable or invalid, a health call that
  fails, a vault that is down), and every guest listed is in the inventory with the stamp of this tick, age zero;
  the attempt is recorded as one without an error.
\<close>
theorem tick_goes_through:
  assumes "wf_file f" and "Snapshot_inventory f = Ok iv"
    and "ClusterResources w = Ok rs" and "list_all (\<lambda>r. IsGuest r \<longrightarrow> rID r \<noteq> '''') rs"
    and "finite_answers w rs" and "srcSeeds w = SeedsSource sf" and "fltFinal flts = None" and "0 < unix now"
  shows "snd (tick w cfg flts now f) = Ok ()
    \<and> (\<exists>iv'. Snapshot_inventory (fst (tick w cfg flts now f)) = Ok iv' \<and> LastPollAt iv' = unix now
        \<and> LastPollError iv' = ''''
        \<and> (\<forall>r \<in> set rs. IsGuest r \<longrightarrow> (\<exists>n\<in>set (iNodes iv'). nID n = rID r \<and> ObservedAt (nStatus n) = unix now)))"
proof -
  let ?g = "\<lambda>iv. fst (tick_mutation w cfg (unix now) rs iv)"
  have ld: "load_inventory f = Ok iv"
    using assms(2) by (simp add: Snapshot_inventory_def)
  have t: "tick w cfg flts now f = (Doc (sorted_inventory (?g iv)), Ok ())"
    using tick_written [OF assms(1) ld assms(3-7)] .
  have p: "LastPollAt (?g iv) = unix now" "LastPollError (?g iv) = ''''"
    by (simp_all add: tick_mutation_def Let_def case_prod_beta' opt_apply_frame [where g = LastPollAt]
      opt_apply_frame [where g = LastPollError] aplicaCredenciais_def aplicaSeeds_def aplicaDatastoreAudit_def
      aplicaZPools_def aplicaStorage_def aplicaHipervisor_def marcaSumidos_hv aplicaDescoberta_def split: option.splits)
  have "\<exists>n\<in>set (iNodes (?g iv)). nID n = rID r \<and> ObservedAt (nStatus n) = unix now"
    if "r \<in> set rs" "IsGuest r" for r
  proof -
    have "stamped (unix now) (node_of (tick_nodes w cfg (unix now) rs (iNodes iv)) (rID r))"
      using tick_nodes_stamps [OF that] .
    then obtain n where "node_of (tick_nodes w cfg (unix now) rs (iNodes iv)) (rID r) = Some n"
        "ObservedAt (nStatus n) = unix now"
      by (auto simp: stamped_def split: option.splits)
    with node_of_Some show ?thesis
      by (fastforce simp: tick_mutation_nodes)
  qed
  with t p show ?thesis
    by (simp add: Snapshot_inventory_def load_sorted)
qed

definition db_row :: Resource where
  "db_row = apps_row\<lparr>rID := ''lxc/9'', rVMID := 9, rName := ''db''\<rparr>"

definition listing_db :: answers where
  "listing_db = (quiet (Ok [db_row]))\<lparr>srcSeeds := SeedsSource Garbled\<rparr>"

lemma listing_db_facts:
  "ClusterResources listing_db = Ok [db_row]" "srcSeeds listing_db = SeedsSource Garbled"
  "list_all (\<lambda>r. IsGuest r \<longrightarrow> rID r \<noteq> '''') [db_row]" "fltFinal no_faults = None" "0 < unix (1000 * second)"
  "carregaSeeds listing_db = []" "finite_answers listing_db [db_row]"
  by (simp_all add: finite_answers_def is_fin_def listing_db_def quiet_def db_row_def apps_row_def no_faults_def unix_def second_def
    carregaSeeds_def SeedsSource_def LoadSeeds_def)

theorem tick_goes_through_witness:
  "snd (tick listing_db default_cfg no_faults (1000 * second) (Doc old_doc)) = Ok ()
   \<and> (\<exists>iv' n. Snapshot_inventory (fst (tick listing_db default_cfg no_faults (1000 * second) (Doc old_doc))) = Ok iv'
        \<and> n \<in> set (iNodes iv') \<and> nID n = ''lxc/9'' \<and> AgeSeconds (ObservedAt (nStatus n)) (1000 * second) = 0)"
proof -
  have g: "IsGuest db_row" "rID db_row = ''lxc/9''"
    by (simp_all add: IsGuest_def db_row_def apps_row_def)
  have a: "AgeSeconds (unix (1000 * second)) (1000 * second) = 0"
    by (simp add: AgeSeconds_def unix_def second_def)
  show ?thesis
    using tick_goes_through [OF old_doc_facts(1,2) listing_db_facts(1,3,7,2,4,5), of default_cfg] g a by fastforce
qed

theorem absence_dated_once_witness:
  "snd (tick listing_db default_cfg no_faults (1000 * second) (Doc old_doc)) = Ok ()
   \<and> (\<exists>iv' n'. Snapshot_inventory (fst (tick listing_db default_cfg no_faults (1000 * second) (Doc old_doc))) = Ok iv'
        \<and> n' \<in> set (iNodes iv') \<and> nID n' = ''lxc/207'' \<and> AusenteDesde n' = 1000)"
proof -
  have ok: "snd (tick listing_db default_cfg no_faults (1000 * second) (Doc old_doc)) = Ok ()"
    using tick_written [OF old_doc_facts(1) _ listing_db_facts(1,3,7,2,4)] old_doc_facts(2)
    by (simp add: Snapshot_inventory_def)
  have n: "nTransport old_apps = TransportPVEAPI" "nID old_apps \<notin> nID ` set (carregaSeeds listing_db)"
    "nID old_apps = ''lxc/207''" "absence_after [db_row] (unix (1000 * second)) old_apps = 1000"
    by (simp_all add: old_apps_def zero_node_def listing_db_facts absence_after_def presentes_def db_row_def
      apps_row_def IsGuest_def unix_def second_def)
  show ?thesis
    using absence_dated_once [OF old_doc_facts n(1,2) listing_db_facts(1) ok] ok n by simp
qed

section \<open>Rates\<close>

text \<open>
  A transfer rate is measured or refused, never invented. For counters an \<open>int64\<close> holds, the derived value is
  the marker of "not reported" exactly when there was no earlier observation, time did not advance, the gap is wider than the
  allowed one, or the counter went backwards; otherwise it is the non-negative whole number of bytes per second
  between the two observations, rounded down.
\<close>
theorem rate_measured_or_refused:
  assumes "0 \<le> Value anterior" and "atual < 2 ^ 63"
  shows "(taxaEntreObservacoes anterior atual agora buraco = NaoReportado \<longleftrightarrow>
      ObservedAt anterior \<le> 0 \<or> agora \<le> ObservedAt anterior
      \<or> (0 < buraco \<and> buraco < agora - ObservedAt anterior) \<or> atual < Value anterior)
    \<and> (taxaEntreObservacoes anterior atual agora buraco \<noteq> NaoReportado \<longrightarrow>
      0 \<le> taxaEntreObservacoes anterior atual agora buraco
      \<and> taxaEntreObservacoes anterior atual agora buraco * (agora - ObservedAt anterior) \<le> atual - Value anterior
      \<and> atual - Value anterior
        < (taxaEntreObservacoes anterior atual agora buraco + 1) * (agora - ObservedAt anterior))"
proof (cases "ObservedAt anterior \<le> 0 \<or> agora \<le> ObservedAt anterior
      \<or> (0 < buraco \<and> buraco < agora - ObservedAt anterior) \<or> atual < Value anterior")
  case True
  then show ?thesis
    by (auto simp: taxaEntreObservacoes_def Let_def)
next
  case False
  define d where "d = atual - Value anterior"
  define t where "t = agora - ObservedAt anterior"
  have d: "0 \<le> d" "d < 2 ^ 63" and t: "0 < t"
    using False assms by (auto simp: d_def t_def)
  have v: "taxaEntreObservacoes anterior atual agora buraco = d div t"
    using False d t by (auto simp: taxaEntreObservacoes_def Let_def quot_pos wrap64_id d_def [symmetric] t_def [symmetric])
  have "d div t * t \<le> d" "d < (d div t + 1) * t" "0 \<le> d div t"
    using d t by (simp_all add: pos_imp_zdiv_nonneg_iff distrib_right)
      (smt (verit) minus_mod_eq_div_mult pos_mod_sign pos_mod_bound)+
  then show ?thesis
    using False v by (auto simp: NaoReportado_def d_def t_def)
qed

theorem rate_measured_or_refused_witness:
  "taxaEntreObservacoes \<lparr>Value = 1000, ObservedAt = 100\<rparr> 4100 130 45 = 103
   \<and> taxaEntreObservacoes \<lparr>Value = 1000, ObservedAt = 100\<rparr> 4100 160 45 = NaoReportado"
  using rate_measured_or_refused [of "\<lparr>Value = 1000, ObservedAt = 100\<rparr>" 4100 160 45]
  by (simp add: taxaEntreObservacoes_def Let_def quot_def wrap64_def NaoReportado_def)

text \<open>One missed tick already exceeds the allowed gap, for every interval of whole seconds.\<close>
lemma missed_tick_refuses_rate:
  assumes "cfgInterval cfg = s * second" "0 < s"
  shows "taxaEntreObservacoes anterior atual (ObservedAt anterior + 2 * s) (buracoMax cfg) = NaoReportado"
proof -
  have "buracoMax cfg = 3 * s div 2"
    using assms(1) by (simp add: buracoMax_def second_def mult.commute)
  then have "0 < buracoMax cfg" "buracoMax cfg < 2 * s"
    using assms(2) by linarith+
  then show ?thesis
    by (simp add: taxaEntreObservacoes_def Let_def)
qed

section \<open>Credentials\<close>

definition branded :: "Node option \<Rightarrow> bool" where
  "branded x = (case x of None \<Rightarrow> False | Some n \<Rightarrow> CredState (nCredential n) = CredRevogada)"

lemma upsert_branded:
  "branded (map_of m i) \<Longrightarrow> branded (map_of (upsert_host agora h m) i)"
  "branded (map_of m i) \<Longrightarrow> branded (map_of (upsert_guest en agora b r m) i)"
  "branded (map_of m i) \<Longrightarrow> branded (map_of (upsert_seed vivos agora s m) i)"
  by (auto simp: map_of_upsert_host upsert_guest_heard upsert_seed_def update_conv' branded_def get_node_def
    heard_guest_def aplicaContadores_def Let_def split: option.splits)

text \<open>The source says nothing of this node: it is not configured, it fails, or it has no entry.\<close>

definition no_entry :: "answers \<Rightarrow> string \<Rightarrow> bool" where
  "no_entry w i \<longleftrightarrow>
     (\<forall>g. srcCredentials w = Some g \<longrightarrow> (\<forall>ns creds. g ns = Some creds \<longrightarrow> creds i = None))"

lemma credited_branded:
  "no_entry w (nID n) \<Longrightarrow> CredState (nCredential n) = CredRevogada \<Longrightarrow>
    CredState (nCredential (credited w ns n)) = CredRevogada"
  by (fastforce simp: credited_def cred_no_def no_entry_def split: option.splits)

lemma tick_nodes_branded:
  assumes "distinct (map nID ns)" "branded (node_of ns i)" "no_entry w i"
  shows "branded (node_of (tick_nodes w cfg agora rs ns) i)"
proof -
  have "branded (map_of (discovered w cfg agora rs ns) i)"
    unfolding discovered_def using assms(1,2)
    by (intro fold_keeps [where Q = branded] upsert_branded) simp_all
  then have "branded (map_of (indicePorID (pre_seed w cfg agora rs ns)) i)"
    by (auto simp: pre_seed_at branded_def marked_def marca_no_def split: option.splits)
  then have "branded (map_of (after_seeds w cfg agora rs ns) i)"
    unfolding after_seeds_def by (intro fold_keeps [where Q = branded] upsert_branded)
  then obtain n where n: "map_of (after_seeds w cfg agora rs ns) i = Some n" "CredState (nCredential n) = CredRevogada"
    by (auto simp: branded_def split: option.splits)
  have "keyed (after_seeds w cfg agora rs ns)"
    unfolding after_seeds_def by (rule keyed_fold) simp_all
  then have "nID n = i"
    using keyed_map_of n(1) by blast
  with n assms(3) show ?thesis
    by (simp add: tick_nodes_at branded_def credited_branded)
qed

definition has_branded :: "string \<Rightarrow> Inventory jsonfile \<Rightarrow> bool" where
  "has_branded i f \<longleftrightarrow> wf_file f \<and> (\<exists>iv n. load_inventory f = Ok iv \<and> n \<in> set (iNodes iv) \<and> nID n = i
     \<and> CredState (nCredential n) = CredRevogada)"

lemma tick_branded:
  assumes "has_branded i f" "no_entry w i"
  shows "has_branded i (fst (tick w cfg flts now f))"
proof -
  let ?P = "\<lambda>n. nID n = i \<and> CredState (nCredential n) = CredRevogada"
  from assms(1) obtain iv n where wf: "wf_file f" and ld: "load_inventory f = Ok iv" and n: "n \<in> set (iNodes iv)" "?P n"
    by (auto simp: has_branded_def)
  have d: "distinct (map nID (iNodes iv))"
    using load_wf [OF wf ld] .
  have "\<exists>n'\<in>set (tick_nodes w cfg (unix now) rs (iNodes iv)). ?P n'" for rs
  proof -
    have "branded (node_of (iNodes iv) i)"
      using n by (auto simp: node_of_iff [OF d, of i n, THEN iffD2] branded_def)
    from tick_nodes_branded [OF d this assms(2), of cfg "unix now" rs] show ?thesis
      by (auto simp: branded_def split: option.splits dest!: node_of_Some)
  qed
  then have "\<exists>iv' n'. load_inventory (fst (tick w cfg flts now f)) = Ok iv' \<and> n' \<in> set (iNodes iv') \<and> ?P n'"
    by (intro tick_node [where n = n and P = ?P, OF wf ld n]) (auto simp: revoga_no_def)
  with tick_wf [OF wf] show ?thesis
    by (simp add: has_branded_def)
qed

definition run_ticks ::
  "(answers \<times> PollerConfig \<times> tick_faults \<times> nanos) list \<Rightarrow> Inventory jsonfile \<Rightarrow> Inventory jsonfile" where
  "run_ticks ts f = fold (\<lambda>(w, cfg, flts, now) f. fst (tick w cfg flts now f)) ts f"

lemma run_ticks_branded:
  "has_branded i f \<Longrightarrow> list_all (\<lambda>(w, _). no_entry w i) ts \<Longrightarrow> has_branded i (run_ticks ts f)"
proof (induction ts arbitrary: f)
  case (Cons t ts)
  obtain w cfg flts now where "t = (w, cfg, flts, now)" by (cases t)
  with Cons tick_branded show ?case
    by (simp add: run_ticks_def)
qed (simp add: run_ticks_def)

text \<open>
  One 401 from the hypervisor brands every node it owns, and nothing takes the brand away while the
  vault has no entry for the node. After a tick whose discovery was answered 401, a node of the hypervisor whose
  stored expiry has not passed, even one that never had a token, reads as revoked at every later instant, through any
  number of further ticks, successful or not, whose credential source gives no entry for it.
\<close>
theorem discovery_401_brands_nodes:
  assumes "wf_file f" and "Snapshot_inventory f = Ok iv" and "n \<in> set (iNodes iv)"
    and "nTransport n = TransportPVEAPI" and "Expire (nCredential n) = 0"
    and "ClusterResources w = Err e" and "erroDeCredencial e"
    and "fltAttempt flts = None" and "fltMark flts = None"
    and "list_all (\<lambda>(w, _). no_entry w (nID n)) ts"
  shows "\<exists>iv' n'. Snapshot_inventory (run_ticks ts (fst (tick w cfg flts now f))) = Ok iv' \<and> n' \<in> set (iNodes iv')
    \<and> nID n' = nID n \<and> credentialState (nCredential n') later = CredRevogada"
proof -
  have ld: "load_inventory f = Ok iv"
    using assms(2) by (simp add: Snapshot_inventory_def)
  let ?f1 = "Doc (sorted_inventory (iv\<lparr>LastPollAt := unix now, LastPollError := peText e\<rparr>))"
  have ok: "list_all node_ok (iNodes iv)" "marshals iv"
    using load_ok_nodes [OF assms(1) ld] load_marshals [OF assms(1) ld] .
  have 1: "registraTentativa None (unix now) (peText e) f = ?f1"
    using ld ok by (simp add: registraTentativa_def Replace_def persist_inventory_cases write_without_fault marshals_def)
  let ?iv2 = "(sorted_inventory (iv\<lparr>LastPollAt := unix now, LastPollError := peText e\<rparr>))"
  have "list_all node_ok (map (revoga_no (unix now)) (iNodes ?iv2))"
    "marshals (?iv2\<lparr>iNodes := map (revoga_no (unix now)) (iNodes ?iv2)\<rparr>)"
    using ok by (auto simp: list_all_iff node_ok_def revoga_no_def marshals_def node_finite_def sorted_inventory_def)
  then have 2: "fst (tick w cfg flts now f) = Doc (sorted_inventory (?iv2\<lparr>iNodes := map (revoga_no (unix now)) (iNodes ?iv2)\<rparr>))"
    using assms(6-9) 1
    by (simp add: tick_file Let_def marcaCredencialRevogada_def Replace_def load_sorted persist_inventory_cases write_without_fault)
  have "n \<in> set (iNodes ?iv2)"
    using assms(3) by simp
  then have "has_branded (nID n) (fst (tick w cfg flts now f))"
    using 2 tick_wf [OF assms(1), of w cfg flts now] assms(4,5)
    by (auto simp: has_branded_def load_sorted revoga_no_def intro!: exI [of _ "revoga_no (unix now) n"])
  from run_ticks_branded [OF this assms(10)] show ?thesis
    by (auto simp: has_branded_def Snapshot_inventory_def credentialState_def)
qed

definition refused :: pve_error where
  "refused = \<lparr>peKind = KindNoCredential, peStatus = 401, peText = ''401''\<rparr>"

definition empty_vault :: answers where
  "empty_vault = listing_db\<lparr>srcCredentials := Some (\<lambda>_. Some Map.empty)\<rparr>"

theorem discovery_401_brands_nodes_witness:
  "TokenID (nCredential old_apps) = ''''
   \<and> (\<exists>iv' n'. Snapshot_inventory (run_ticks [(empty_vault, default_cfg, no_faults, 1000 * second)]
          (fst (tick (quiet (Err refused)) default_cfg no_faults (500 * second) (Doc old_doc)))) = Ok iv'
        \<and> n' \<in> set (iNodes iv') \<and> nID n' = ''lxc/207''
        \<and> credentialState (nCredential n') (9000 * second) = CredRevogada)"
proof -
  have n: "nTransport old_apps = TransportPVEAPI" "Expire (nCredential old_apps) = 0" "nID old_apps = ''lxc/207''"
    "TokenID (nCredential old_apps) = ''''"
    by (simp_all add: old_apps_def zero_node_def zero_cred_def)
  have w: "ClusterResources (quiet (Err refused)) = Err refused" "erroDeCredencial refused"
    "fltAttempt no_faults = None" "fltMark no_faults = None"
    "list_all (\<lambda>(w, _). no_entry w (nID old_apps)) [(empty_vault, default_cfg, no_faults, 1000 * second)]"
    by (simp_all add: quiet_def erroDeCredencial_def refused_def no_faults_def no_entry_def empty_vault_def)
  show ?thesis
    using discovery_401_brands_nodes [OF old_doc_facts n(1,2) w] n by simp
qed

text \<open>
  A declared node that was marked absent while the seeds file could not be read stays marked when the file
  is readable again: the declaration that protects it from the mark also keeps the mark from being cleared.
\<close>
lemma declared_node_keeps_absence:
  "nID n \<in> set (map nID seeds) \<Longrightarrow> AusenteDesde (marked rs seeds agora n) = AusenteDesde n"
  by (simp add: marked_def marca_no_def)

text \<open>One row without an identifier makes the tick write nothing at all, not even the attempt.\<close>
lemma row_without_id_freezes_inventory:
  assumes "wf_file f" "load_inventory f = Ok iv" "ClusterResources w = Ok rs"
    and "r \<in> set rs" "IsGuest r" "rID r = ''''"
  shows "fst (tick w cfg flts now f) = f \<and> (\<exists>e. snd (tick w cfg flts now f) = Err e)"
proof -
  let ?g = "\<lambda>iv. fst (tick_mutation w cfg (unix now) rs iv)"
  obtain n where "node_of (tick_nodes w cfg (unix now) rs (iNodes iv)) '''' = Some n"
    using tick_nodes_stamps [OF assms(4,5), of "unix now" w cfg "iNodes iv"] assms(6)
    by (auto simp: stamped_def split: option.splits)
  then have "\<not> list_all node_ok (iNodes (?g iv))"
    using node_of_Some by (fastforce simp: tick_mutation_nodes list_all_iff node_ok_def)
  then show ?thesis
    using assms(2,3) by (simp add: tick_def Let_def Replace_def persist_inventory_cases)
qed

text \<open>
  One number that is not finite does the same: a load average that \<open>ParseFloat\<close> reads as \<open>NaN\<close> or as an infinity makes
  the document one that JSON cannot hold, and the tick writes nothing, not even the attempt.
\<close>
lemma nan_load_freezes_inventory:
  assumes "load_inventory f = Ok iv" "ClusterResources w = Ok rs" "nomeDoHipervisor rs \<noteq> ''''"
    and "GetNodeStatus w (nomeDoHipervisor rs) = Some st" "nsLoadAvg st = l # ls" "ParseFloat w l = Some x" "\<not> is_fin x"
  shows "fst (tick w cfg flts now f) = f \<and> (\<exists>e. snd (tick w cfg flts now f) = Err e)"
proof -
  let ?g = "\<lambda>iv. fst (tick_mutation w cfg (unix now) rs iv)"
  have "Value (hLoad (iHypervisor (?g iv))) = loadDeStrings (ParseFloat w) (nsLoadAvg st)"
    using assms(3,4)
    by (simp add: tick_mutation_def Let_def case_prod_beta' opt_apply_frame [where g = "\<lambda>iv. hLoad (iHypervisor iv)"]
      aplicaCredenciais_def aplicaSeeds_def aplicaDatastoreAudit_def aplicaZPools_def aplicaStorage_def split: option.splits)
      (simp add: opt_apply_def aplicaHipervisor_def Let_def Observe_def)
  then have "\<not> marshals (?g iv)"
    using assms(5-7) by (simp add: marshals_def hypervisor_finite_def loadDeStrings_def load_at_def)
  then show ?thesis
    using assms(1,2) by (simp add: tick_def Let_def Replace_def persist_inventory_cases)
qed

end
