(* ===== verification/GoPath.thy ===== *)
theory GoPath
  imports GoStrings
begin

text \<open>
  \<open>filepath.Clean\<close> and \<open>filepath.Join\<close> on Unix. \<open>Clean\<close> is given on the elements between the slashes: empty ones and
  dots go, a double dot removes the element before it, at the root it is dropped, and in a relative path
  with nothing left to remove it stays.
\<close>

fun join_with :: "string \<Rightarrow> string list \<Rightarrow> string" where
  "join_with sep [] = ''''"
| "join_with sep [w] = w"
| "join_with sep (w # ws) = w @ sep @ join_with sep ws"

definition clean_step :: "bool \<Rightarrow> string \<Rightarrow> string list \<Rightarrow> string list" where
  "clean_step rooted w acc =
     (if w = '''' \<or> w = ''.'' then acc
      else if w = ''..'' then
        (if acc \<noteq> [] \<and> last acc \<noteq> ''..'' then butlast acc
         else if rooted then acc else acc @ [''..''])
      else acc @ [w])"

definition is_rooted :: "string \<Rightarrow> bool" where
  "is_rooted p \<longleftrightarrow> HasPrefix p ''/''"

definition elements :: "string \<Rightarrow> string list" where
  "elements p = fold (clean_step (is_rooted p)) (SplitByte p CHR ''/'') []"

definition Clean :: "string \<Rightarrow> string" where
  "Clean p =
     (if is_rooted p then CHR ''/'' # join_with ''/'' (elements p)
      else if elements p = [] then ''.'' else join_with ''/'' (elements p))"

fun Join :: "string list \<Rightarrow> string" where
  "Join [] = ''''"
| "Join (e # es) = (if e = '''' then Join es else Clean (join_with ''/'' (e # es)))"

section \<open>Ordinary elements\<close>

definition ordinary :: "string \<Rightarrow> bool" where
  "ordinary w \<longleftrightarrow> w \<noteq> '''' \<and> w \<noteq> ''.'' \<and> w \<noteq> ''..'' \<and> CHR ''/'' \<notin> set w"

lemma clean_step_ordinary: "ordinary w \<Longrightarrow> clean_step r w acc = acc @ [w]"
  by (simp add: clean_step_def ordinary_def)

lemma fold_clean_ordinary: "list_all ordinary ws \<Longrightarrow> fold (clean_step r) ws acc = acc @ ws"
  by (induction ws arbitrary: acc) (simp_all add: clean_step_ordinary)

lemma join_with_Cons: "ws \<noteq> [] \<Longrightarrow> join_with sep (w # ws) = w @ sep @ join_with sep ws"
  by (cases ws) simp_all

lemma join_with_append:
  "us \<noteq> [] \<Longrightarrow> vs \<noteq> [] \<Longrightarrow> join_with sep (us @ vs) = join_with sep us @ sep @ join_with sep vs"
proof (induction us)
  case (Cons u us)
  then show ?case
    by (cases "us = []") (simp_all add: join_with_Cons)
qed simp

lemma SplitByte_join:
  "ws \<noteq> [] \<Longrightarrow> list_all (\<lambda>w. CHR ''/'' \<notin> set w) ws \<Longrightarrow> SplitByte (join_with ''/'' ws) CHR ''/'' = ws"
proof (induction ws)
  case (Cons w ws)
  then show ?case
    by (cases ws) (simp_all add: SplitByte_none SplitByte_append)
qed simp

text \<open>Appending ordinary elements to a path that is not empty.\<close>

lemma elements_extend:
  assumes "p \<noteq> ''''" "ws \<noteq> []" "list_all ordinary ws"
  shows "elements (p @ ''/'' @ join_with ''/'' ws) = elements p @ ws
    \<and> is_rooted (p @ ''/'' @ join_with ''/'' ws) = is_rooted p"
proof -
  have r: "is_rooted (p @ ''/'' @ join_with ''/'' ws) = is_rooted p"
    using assms(1) by (cases p) (auto simp: is_rooted_def)
  have "list_all (\<lambda>w. CHR ''/'' \<notin> set w) ws"
    using assms(3) by (simp add: list_all_iff ordinary_def)
  then have "SplitByte (p @ ''/'' @ join_with ''/'' ws) CHR ''/'' = SplitByte p CHR ''/'' @ ws"
    using SplitByte_append [of p "CHR ''/''" "join_with ''/'' ws"] SplitByte_join [OF assms(2)] by simp
  then show ?thesis
    using r assms(3) by (simp add: elements_def fold_clean_ordinary)
qed

lemma Join_ordinary:
  assumes "p \<noteq> ''''" "ws \<noteq> []" "list_all ordinary ws"
  shows "Join (p # ws) =
    (if is_rooted p then CHR ''/'' # join_with ''/'' (elements p @ ws) else join_with ''/'' (elements p @ ws))"
proof -
  have "join_with ''/'' (p # ws) = p @ ''/'' @ join_with ''/'' ws"
    using assms(2) by (cases ws) auto
  then show ?thesis
    using assms elements_extend [OF assms] by (simp add: Clean_def)
qed

declare Join.simps [simp del]

text \<open>Two lists of elements without slashes join to the same string only if they are equal.\<close>

lemma join_with_inj:
  assumes "list_all (\<lambda>w. CHR ''/'' \<notin> set w) us" "list_all (\<lambda>w. CHR ''/'' \<notin> set w) vs"
    and "us \<noteq> []" "vs \<noteq> []" "join_with ''/'' us = join_with ''/'' vs"
  shows "us = vs"
proof -
  have "us = SplitByte (join_with ''/'' us) CHR ''/''"
    by (rule SplitByte_join [OF assms(3,1), symmetric])
  also have "\<dots> = SplitByte (join_with ''/'' vs) CHR ''/''"
    by (rule arg_cong [OF assms(5)])
  also have "\<dots> = vs"
    by (rule SplitByte_join [OF assms(4,2)])
  finally show ?thesis .
qed

lemma clean_step_set: "set (clean_step r w acc) \<subseteq> insert w (set acc)"
  by (auto simp: clean_step_def dest: in_set_butlastD)

lemma fold_clean_set: "set (fold (clean_step r) ws acc) \<subseteq> set acc \<union> set ws"
proof (induction ws arbitrary: acc)
  case (Cons w ws)
  show ?case
    using Cons.IH [of "clean_step r w acc"] clean_step_set [of r w acc] by auto
qed simp

lemma elements_no_slash: "list_all (\<lambda>w. CHR ''/'' \<notin> set w) (elements p)"
proof (unfold list_all_iff, rule ballI)
  fix w
  assume "w \<in> set (elements p)"
  then have "w \<in> set (SplitByte p CHR ''/'')"
    using fold_clean_set [of "is_rooted p" "SplitByte p CHR ''/''" "[]"] by (auto simp: elements_def)
  then show "CHR ''/'' \<notin> set w"
    by (rule SplitByte_pieces)
qed

section \<open>Normal form\<close>

definition normal :: "bool \<Rightarrow> string list \<Rightarrow> bool" where
  "normal r acc \<longleftrightarrow> (\<exists>n os. acc = replicate n ''..'' @ os \<and> list_all ordinary os \<and> (r \<longrightarrow> n = 0))"

lemma normal_step:
  assumes "normal r acc" "CHR ''/'' \<notin> set w"
  shows "normal r (clean_step r w acc)"
proof -
  obtain n os where acc: "acc = replicate n ''..'' @ os" "list_all ordinary os" "r \<longrightarrow> n = 0"
    using assms(1) by (auto simp: normal_def)
  consider "w = '''' \<or> w = ''.''" | "w = ''..''" "os = []" | "w = ''..''" "os \<noteq> []" | "ordinary w"
    using assms(2) by (auto simp: ordinary_def)
  then show ?thesis
  proof cases
    case 1
    with assms(1) show ?thesis by (auto simp: clean_step_def)
  next
    case 2
    then have "clean_step r w acc = (if r then [] else replicate (Suc n) ''..'')"
      using acc by (auto simp: clean_step_def replicate_append_same)
    then show ?thesis
      by (auto simp: normal_def intro!: exI [of _ "if r then 0 else Suc n"] exI [of _ "[]"])
  next
    case 3
    have "last os \<noteq> ''..''"
      using acc(2) 3(2) by (auto simp: list_all_iff ordinary_def)
    then have "clean_step r w acc = replicate n ''..'' @ butlast os"
      using acc 3 by (simp add: clean_step_def butlast_append)
    moreover have "list_all ordinary (butlast os)"
      using acc(2) by (auto simp: list_all_iff dest: in_set_butlastD)
    ultimately show ?thesis
      using acc(3) by (auto simp: normal_def)
  next
    case 4
    then have "clean_step r w acc = replicate n ''..'' @ os @ [w]"
      using acc by (simp add: clean_step_ordinary)
    moreover have "list_all ordinary (os @ [w])"
      using acc(2) 4 by simp
    ultimately show ?thesis
      using acc(3) unfolding normal_def by blast
  qed
qed

lemma normal_fold:
  "normal r acc \<Longrightarrow> list_all (\<lambda>w. CHR ''/'' \<notin> set w) ws \<Longrightarrow> normal r (fold (clean_step r) ws acc)"
  by (induction ws arbitrary: acc) (simp_all add: normal_step)

lemma normal_elements: "normal (is_rooted p) (elements p)"
  unfolding elements_def
  by (rule normal_fold) (auto simp: normal_def list_all_iff dest: SplitByte_pieces)

lemma fold_dots: "fold (clean_step False) (replicate n ''..'') (replicate k ''..'') = replicate (n + k) ''..''"
proof (induction n arbitrary: k)
  case (Suc n)
  have "clean_step False ''..'' (replicate k ''..'') = replicate (Suc k) ''..''"
    by (cases k) (auto simp: clean_step_def replicate_append_same)
  with Suc.IH [of "Suc k"] show ?case by simp
qed simp

lemma fold_normal: "normal r ws \<Longrightarrow> fold (clean_step r) ws [] = ws"
proof -
  assume "normal r ws"
  then obtain n os where ws: "ws = replicate n ''..'' @ os" "list_all ordinary os" "r \<longrightarrow> n = 0"
    by (auto simp: normal_def)
  have "fold (clean_step r) (replicate n ''..'') [] = replicate n ''..''"
    using ws(3) fold_dots [of n 0] by (cases r) auto
  with ws show ?thesis by (simp add: fold_clean_ordinary)
qed

lemma elements_rooted: "normal True es \<Longrightarrow> list_all (\<lambda>w. CHR ''/'' \<notin> set w) es \<Longrightarrow> elements (CHR ''/'' # join_with ''/'' es) = es"
proof (cases "es = []")
  case True
  then show ?thesis by (simp add: elements_def clean_step_def)
next
  case False
  assume n: "normal True es" and s: "list_all (\<lambda>w. CHR ''/'' \<notin> set w) es"
  have "SplitByte (CHR ''/'' # join_with ''/'' es) CHR ''/'' = '''' # es"
    using SplitByte_join [OF False s] by simp
  then have "elements (CHR ''/'' # join_with ''/'' es) = fold (clean_step True) es (clean_step True '''' [])"
    by (simp add: elements_def is_rooted_def)
  with fold_normal [OF n] show ?thesis by (simp add: clean_step_def)
qed

lemma elements_relative:
  assumes "normal False es" "list_all (\<lambda>w. CHR ''/'' \<notin> set w) es" "es \<noteq> []"
  shows "elements (join_with ''/'' es) = es \<and> \<not> is_rooted (join_with ''/'' es)"
proof -
  obtain n os where "es = replicate n ''..'' @ os" "list_all ordinary os"
    using assms(1) by (auto simp: normal_def)
  then have "'''' \<notin> set es"
    by (auto simp: list_all_iff ordinary_def)
  moreover obtain w ws where "es = w # ws"
    using assms(3) by (cases es) auto
  ultimately obtain c cs where es: "es = (c # cs) # ws"
    by (cases w) auto
  moreover have "c \<noteq> CHR ''/''"
    using assms(2) es by auto
  ultimately have "\<not> is_rooted (join_with ''/'' es)"
    by (cases ws) (simp_all add: is_rooted_def)
  then show ?thesis
    using SplitByte_join [OF assms(3,2)] fold_normal [OF assms(1)] by (simp add: elements_def)
qed

lemma elements_Clean: "elements (Clean p) = elements p \<and> is_rooted (Clean p) = is_rooted p"
proof (cases "is_rooted p")
  case True
  then show ?thesis
    using elements_rooted [OF _ elements_no_slash, of p] normal_elements [of p] by (simp add: Clean_def is_rooted_def)
next
  case False
  then show ?thesis
  proof (cases "elements p = []")
    case True
    have "elements ''.'' = []" "\<not> is_rooted ''.''"
      by (simp_all add: elements_def clean_step_def is_rooted_def)
    with True False show ?thesis by (simp add: Clean_def)
  next
    case ne: False
    then show ?thesis
      using False elements_relative [OF _ elements_no_slash ne] normal_elements [of p] by (simp add: Clean_def)
  qed
qed

lemma Clean_idem: "Clean (Clean p) = Clean p"
  using elements_Clean [of p] by (simp add: Clean_def [of "Clean p"]) (simp add: Clean_def)

text \<open>The elements of a join, and what a directory contains.\<close>

lemma Join_elements:
  assumes "p \<noteq> ''''" "ws \<noteq> []" "list_all ordinary ws"
  shows "elements (Join (p # ws)) = elements p @ ws \<and> is_rooted (Join (p # ws)) = is_rooted p \<and> Join (p # ws) \<noteq> ''''"
proof -
  have j: "join_with ''/'' (p # ws) = p @ ''/'' @ join_with ''/'' ws"
    using assms(2) by (cases ws) auto
  have ne: "elements (p @ ''/'' @ join_with ''/'' ws) \<noteq> []"
    using elements_extend [OF assms] assms(2) by simp
  have "Clean q \<noteq> ''''" if "elements q \<noteq> []" for q
  proof
    assume "Clean q = ''''"
    then have "elements q = elements ''''"
      using elements_Clean [of q] by simp
    with that show False by (simp add: elements_def clean_step_def)
  qed
  with ne j assms(1) elements_extend [OF assms] elements_Clean [of "p @ ''/'' @ join_with ''/'' ws"] show ?thesis
    by (simp add: Join.simps)
qed

lemma Join_inside:
  assumes "p \<noteq> ''''" "list_all ordinary us" "us \<noteq> []" "list_all ordinary ws" "ws \<noteq> []"
  shows "HasPrefix (Join (Join (p # us) # ws)) (Join (p # us) @ ''/'')"
proof -
  define R where "R = Join (p # us)"
  have R: "elements R = elements p @ us" "is_rooted R = is_rooted p" "R \<noteq> ''''"
    using Join_elements [OF assms(1,3,2)] by (simp_all add: R_def)
  have "Join (R # ws) = (if is_rooted p then CHR ''/'' # join_with ''/'' ((elements p @ us) @ ws)
      else join_with ''/'' ((elements p @ us) @ ws))"
    using Join_ordinary [OF R(3) assms(5,4)] R by simp
  moreover have "R = (if is_rooted p then CHR ''/'' # join_with ''/'' (elements p @ us)
      else join_with ''/'' (elements p @ us))"
    using Join_ordinary [OF assms(1,3,2)] by (simp add: R_def)
  moreover have "join_with ''/'' ((elements p @ us) @ ws) = join_with ''/'' (elements p @ us) @ ''/'' @ join_with ''/'' ws"
    using assms by (intro join_with_append) simp_all
  ultimately show ?thesis
    unfolding R_def [symmetric] by (simp add: HasPrefix_iff_prefix prefix_def)
qed

text \<open>Nothing below \<open>p/u\<close> is \<open>p/v\<close> or below it, for two different last elements.\<close>

lemma Join_disjoint:
  assumes "p \<noteq> ''''" "list_all ordinary (us @ [u])" "list_all ordinary (us @ [v])" "u \<noteq> v"
    and "list_all ordinary ws"
  shows "\<not> HasPrefix (Join (p # us @ [v] @ ws)) (Join (p # us @ [u]) @ ''/'')"
proof
  assume "HasPrefix (Join (p # us @ [v] @ ws)) (Join (p # us @ [u]) @ ''/'')"
  then obtain t where t: "Join (p # us @ [v] @ ws) = Join (p # us @ [u]) @ CHR ''/'' # t"
    by (auto elim!: HasPrefixE)
  let ?es = "elements p"
  have o: "list_all ordinary (us @ [v] @ ws)"
    using assms by simp
  have "join_with ''/'' (?es @ us @ [v] @ ws) = join_with ''/'' (?es @ us @ [u]) @ CHR ''/'' # t"
    using t Join_ordinary [OF assms(1) _ o] Join_ordinary [OF assms(1) _ assms(2)] by (simp split: if_splits)
  then have "SplitByte (join_with ''/'' (?es @ us @ [v] @ ws)) CHR ''/'' =
      SplitByte (join_with ''/'' (?es @ us @ [u])) CHR ''/'' @ SplitByte t CHR ''/''"
    by (simp add: SplitByte_append)
  moreover have sl: "list_all (\<lambda>w. CHR ''/'' \<notin> set w) xs" if "list_all ordinary xs" for xs
    using that by (auto simp: list_all_iff ordinary_def)
  have "SplitByte (join_with ''/'' (?es @ us @ [v] @ ws)) CHR ''/'' = ?es @ us @ [v] @ ws"
    using elements_no_slash [of p] sl [OF o] by (intro SplitByte_join) simp_all
  moreover have "SplitByte (join_with ''/'' (?es @ us @ [u])) CHR ''/'' = ?es @ us @ [u]"
    using elements_no_slash [of p] sl [OF assms(2)] by (intro SplitByte_join) simp_all
  ultimately show False
    using assms(4) by simp
qed

end
