(* ===== verification/Vault.thy ===== *)
theory Vault
  imports Http GoPath "HOL-Library.Char_ord" "HOL-Library.List_Lexorder" "HOL-Library.Product_Lexorder"
begin

text \<open>
  The encrypted vault \<^verbatim>\<open>internal/secrets/secrets.go\<close> and the tenant scope over it, \<^verbatim>\<open>internal/scope\<close>
  (\<^verbatim>\<open>scope.go\<close>, \<^verbatim>\<open>vault.go\<close>, \<^verbatim>\<open>http.go\<close>).

  The cryptography is a record of parameters: \<open>kdf\<close> is scrypt, \<open>seal\<close> and \<open>unseal\<close> are AES-256-GCM
  on the marshalled map (their ciphertexts are of an abstract type), \<open>legacy\<close> the first sixteen bytes of SHA-256. A vault file holds its salt, nonce and ciphertext ; one that is not
  JSON or whose fields are not hexadecimal is \<open>VBad\<close>. The file's modification time and size, which the store
  compares to notice another process, are its \<open>stamp\<close>. Random bytes are arguments, \<open>None\<close> when the system has none.
\<close>

section \<open>The vault\<close>

record 'c crypto =
  kdf :: "string \<Rightarrow> string \<Rightarrow> string"
  seal :: "string \<Rightarrow> string \<Rightarrow> (string \<rightharpoonup> string) \<Rightarrow> 'c"
  unseal :: "string \<Rightarrow> string \<Rightarrow> 'c \<Rightarrow> (string \<rightharpoonup> string) option"
  legacy :: "string \<Rightarrow> string"

record 'c fileFormat =
  ffSalt :: string
  ffNonce :: string
  ffCiphertext :: 'c

type_synonym stamp = "int \<times> int"

datatype 'c vaultdisk = VNone | VUnreadable | VEmpty stamp | VBad stamp | VFile "'c fileFormat" stamp

fun vstat :: "'c vaultdisk \<Rightarrow> stamp option" where
  "vstat VNone = None"
| "vstat VUnreadable = None"
| "vstat (VEmpty st) = Some st"
| "vstat (VBad st) = Some st"
| "vstat (VFile _ st) = Some st"

record vault =
  vpass :: string
  vkey :: string
  vsalt :: string
  vdata :: "string \<rightharpoonup> string"
  vstamp :: stamp
  needsResalt :: bool

datatype vault_error =
    VaultIO
  | VaultNoRandom
  | VaultMalformed
  | VaultWrongKey
  | VaultVerifyFailed

definition deriveKey :: "'c crypto \<Rightarrow> string \<Rightarrow> string \<Rightarrow> string" where
  "deriveKey c passphrase salt = kdf c passphrase salt"

definition legacySalt :: "'c crypto \<Rightarrow> string \<Rightarrow> string" where
  "legacySalt c passphrase = legacy c passphrase"

text \<open>\<open>stamp\<close>: the zero time when the file cannot be read.\<close>

definition stamp_of :: "'c vaultdisk \<Rightarrow> stamp \<Rightarrow> stamp" where
  "stamp_of d old = (case vstat d of None \<Rightarrow> old | Some st \<Rightarrow> st)"

definition fresh_vault :: "'c crypto \<Rightarrow> string \<Rightarrow> string option \<Rightarrow> 'c vaultdisk \<Rightarrow> vault_error + vault" where
  "fresh_vault c pp rnd d =
     (case rnd of
        None \<Rightarrow> Err VaultNoRandom
      | Some salt \<Rightarrow> Ok \<lparr>vpass = pp, vkey = deriveKey c pp salt, vsalt = salt, vdata = Map.empty,
                        vstamp = stamp_of d (0, 0), needsResalt = False\<rparr>)"

definition Open_vault :: "'c crypto \<Rightarrow> string \<Rightarrow> string option \<Rightarrow> 'c vaultdisk \<Rightarrow> vault_error + vault" where
  "Open_vault c pp rnd d =
     (case d of
        VNone \<Rightarrow> fresh_vault c pp rnd d
      | VUnreadable \<Rightarrow> Err VaultIO
      | VEmpty _ \<Rightarrow> fresh_vault c pp rnd d
      | VBad _ \<Rightarrow> Err VaultMalformed
      | VFile ff _ \<Rightarrow>
          (let salt = (if ffSalt ff \<noteq> '''' then ffSalt ff else legacySalt c pp);
               key = deriveKey c pp salt
           in case unseal c key (ffNonce ff) (ffCiphertext ff) of
                None \<Rightarrow> Err VaultWrongKey
              | Some m \<Rightarrow> Ok \<lparr>vpass = pp, vkey = key, vsalt = salt, vdata = m, vstamp = stamp_of d (0, 0),
                              needsResalt = (ffSalt ff = '''')\<rparr>))"

definition vault_Get :: "vault \<Rightarrow> string \<Rightarrow> string option" where
  "vault_Get v k = vdata v k"

text \<open>
  What a save meets: the random salt and nonce, whether the temporary file could be written and renamed, and
  the stamp the new file gets.
\<close>

record saving =
  rndSalt :: "string option"
  rndNonce :: "string option"
  writeOk :: bool
  renameOk :: bool
  newStamp :: stamp

definition resalt :: "'c crypto \<Rightarrow> saving \<Rightarrow> vault \<Rightarrow> vault option" where
  "resalt c e v =
     (if needsResalt v
      then map_option (\<lambda>salt. v\<lparr>vsalt := salt, vkey := deriveKey c (vpass v) salt, needsResalt := False\<rparr>) (rndSalt e)
      else Some v)"

definition save_vault :: "'c crypto \<Rightarrow> saving \<Rightarrow> vault \<times> 'c vaultdisk \<Rightarrow> (vault \<times> 'c vaultdisk) \<times> (vault_error + unit)" where
  "save_vault c e s =
     (case s of (v, d) \<Rightarrow>
       case resalt c e v of
         None \<Rightarrow> (s, Err VaultNoRandom)
       | Some v1 \<Rightarrow>
           (case rndNonce e of
              None \<Rightarrow> ((v1, d), Err VaultNoRandom)
            | Some nonce \<Rightarrow>
                let ff = \<lparr>ffSalt = vsalt v1, ffNonce = nonce, ffCiphertext = seal c (vkey v1) nonce (vdata v1)\<rparr>
                in if \<not> writeOk e then ((v1, d), Err VaultIO)
                   else if \<not> renameOk e then ((v1, d), Err VaultIO)
                   else ((v1\<lparr>vstamp := newStamp e\<rparr>, VFile ff (newStamp e)), Ok ())))"

definition vault_Set :: "'c crypto \<Rightarrow> saving \<Rightarrow> string \<Rightarrow> string \<Rightarrow> vault \<times> 'c vaultdisk
    \<Rightarrow> (vault \<times> 'c vaultdisk) \<times> (vault_error + unit)" where
  "vault_Set c e k x s = (case s of (v, d) \<Rightarrow> save_vault c e (v\<lparr>vdata := (vdata v)(k \<mapsto> x)\<rparr>, d))"

definition vault_Delete :: "'c crypto \<Rightarrow> saving \<Rightarrow> string \<Rightarrow> vault \<times> 'c vaultdisk
    \<Rightarrow> (vault \<times> 'c vaultdisk) \<times> (vault_error + unit)" where
  "vault_Delete c e k s = (case s of (v, d) \<Rightarrow> save_vault c e (v\<lparr>vdata := (vdata v)(k := None)\<rparr>, d))"

text \<open>\<open>ks\<close> is the order in which Go ranges over the map.\<close>

definition vault_List :: "string list \<Rightarrow> vault \<Rightarrow> string list" where
  "vault_List ks v = sort (filter (\<lambda>k. vdata v k \<noteq> None) ks)"

definition Export :: "vault \<Rightarrow> (string \<rightharpoonup> string)" where
  "Export v = vdata v"

text \<open>What \<open>verifyDecrypt\<close> finds in the temporary file it reads back.\<close>

definition verifyDecrypt :: "'c crypto \<Rightarrow> 'c vaultdisk \<Rightarrow> string \<Rightarrow> bool" where
  "verifyDecrypt c d key =
     (case d of VFile ff _ \<Rightarrow> unseal c key (ffNonce ff) (ffCiphertext ff) \<noteq> None | _ \<Rightarrow> False)"

definition vault_Rotate :: "'c crypto \<Rightarrow> saving \<Rightarrow> ('c vaultdisk \<Rightarrow> 'c vaultdisk) \<Rightarrow> string \<Rightarrow> vault \<times> 'c vaultdisk
    \<Rightarrow> (vault \<times> 'c vaultdisk) \<times> (vault_error + unit)" where
  "vault_Rotate c e readback newPassphrase s =
     (case s of (v, d) \<Rightarrow>
       case (rndSalt e, rndNonce e) of
         (Some newSalt, Some nonce) \<Rightarrow>
           (let newKey = deriveKey c newPassphrase newSalt;
                ff = \<lparr>ffSalt = newSalt, ffNonce = nonce, ffCiphertext = seal c newKey nonce (vdata v)\<rparr>;
                tmp = readback (VFile ff (newStamp e))
            in if \<not> writeOk e then (s, Err VaultIO)
               else if \<not> verifyDecrypt c tmp newKey then (s, Err VaultVerifyFailed)
               else if \<not> renameOk e then (s, Err VaultIO)
               else ((v\<lparr>vkey := newKey, vsalt := newSalt, vpass := newPassphrase, needsResalt := False\<rparr>, tmp), Ok ()))
       | _ \<Rightarrow> (s, Err VaultNoRandom))"

definition ReloadIfChanged :: "'c crypto \<Rightarrow> string option \<Rightarrow> vault \<times> 'c vaultdisk \<Rightarrow> vault \<times> (vault_error + bool)" where
  "ReloadIfChanged c rnd s =
     (case s of (v, d) \<Rightarrow>
       case vstat d of
         None \<Rightarrow> (v, Err VaultIO)
       | Some st \<Rightarrow>
           if st = vstamp v then (v, Ok False)
           else (case Open_vault c (vpass v) rnd d of
                   Inl e \<Rightarrow> (v, Err e)
                 | Inr novo \<Rightarrow> (v\<lparr>vdata := vdata novo, vsalt := vsalt novo, vkey := vkey novo,
                                  needsResalt := needsResalt novo, vstamp := vstamp novo\<rparr>, Ok True)))"

section \<open>Users\<close>

datatype scope_error = ErrEmpty | ErrTooLong | ErrInvalidChar | ErrReserved

definition MaxUsernameLen :: nat where
  "MaxUsernameLen = 40"

definition reserved :: "string list" where
  "reserved = [''system'', ''anon'', ''archive'', ''root'', '''']"

definition user_char :: "char \<Rightarrow> bool" where
  "user_char c \<longleftrightarrow> (CHR ''a'' \<le> c \<and> c \<le> CHR ''z'') \<or> (CHR ''A'' \<le> c \<and> c \<le> CHR ''Z'')
     \<or> (CHR ''0'' \<le> c \<and> c \<le> CHR ''9'') \<or> c = CHR ''_'' \<or> c = CHR ''-''"

definition New_user :: "string \<Rightarrow> scope_error + string" where
  "New_user raw =
     (if raw = '''' then Err ErrEmpty
      else if length raw > MaxUsernameLen then Err ErrTooLong
      else if \<not> list_all user_char raw then Err ErrInvalidChar
      else if ToLower raw \<in> set reserved then Err ErrReserved
      else Ok raw)"

definition Valid_user :: "string \<Rightarrow> bool" where
  "Valid_user u = (case New_user u of Inl _ \<Rightarrow> False | Inr _ \<Rightarrow> True)"

record Paths =
  pRoot :: string
  pWhatsapp :: string
  pWhatsappContainer :: string
  pWhatsappMedia :: string
  pUploads :: string
  pBrowser :: string
  pAIEnv :: string

definition PathsFor :: "string \<Rightarrow> string \<Rightarrow> Paths" where
  "PathsFor dataDir u =
     (let root = Join [dataDir, ''users'', u]; wac = Join [''/var/lib/vpsm-whatsapp'', u]
      in \<lparr>pRoot = root, pWhatsapp = Join [root, ''whatsapp''], pWhatsappContainer = wac,
          pWhatsappMedia = Join [wac, ''media''], pUploads = Join [root, ''uploads''],
          pBrowser = Join [root, ''browser''], pAIEnv = Join [''/etc/claude-router/users'', u @ ''.env'']\<rparr>)"

record Factory =
  fDataDir :: string
  fHasVault :: bool
  fPrimary :: string

definition NewFactory :: "string \<Rightarrow> bool \<Rightarrow> string \<Rightarrow> Factory" where
  "NewFactory dataDir hasVault primary =
     \<lparr>fDataDir = dataDir, fHasVault = hasVault,
      fPrimary = (if primary \<noteq> '''' then case New_user primary of Inr u \<Rightarrow> u | Inl _ \<Rightarrow> '''' else '''')\<rparr>"

record Scope =
  scUser :: string
  scDataDir :: string
  scHasVault :: bool
  scPaths :: Paths
  scIsPrimary :: bool

definition Factory_For :: "Factory \<Rightarrow> string \<Rightarrow> Scope" where
  "Factory_For f u =
     \<lparr>scUser = u, scDataDir = fDataDir f, scHasVault = fHasVault f, scPaths = PathsFor (fDataDir f) u,
      scIsPrimary = (fPrimary f \<noteq> '''' \<and> u = fPrimary f)\<rparr>"

text \<open>\<open>raw\<close> is \<open>auth.UserFrom\<close> of the request.\<close>

definition FromRequest :: "Factory \<Rightarrow> string \<Rightarrow> scope_error + Scope" where
  "FromRequest f raw =
     (if raw = '''' then Err ErrEmpty
      else case New_user raw of Inl e \<Rightarrow> Err e | Inr u \<Rightarrow> Ok (Factory_For f u))"

definition Require :: "Factory \<Rightarrow> string \<Rightarrow> nat + Scope" where
  "Require f raw =
     (case FromRequest f raw of
        Inl e \<Rightarrow> if e = ErrEmpty then Err 401 else Err 500
      | Inr sc \<Rightarrow> Ok sc)"

text \<open>The directories the two functions create, in order; \<open>mk\<close> says which \<open>MkdirAll\<close> succeed.\<close>

fun make_dirs :: "(string \<Rightarrow> bool) \<Rightarrow> string list \<Rightarrow> string list \<times> bool" where
  "make_dirs mk [] = ([], True)"
| "make_dirs mk (d # ds) =
     (if mk d then let (made, ok) = make_dirs mk ds in (d # made, ok) else ([], False))"

definition EnsureDirs :: "(string \<Rightarrow> bool) \<Rightarrow> Paths \<Rightarrow> string list \<times> bool" where
  "EnsureDirs mk p =
     make_dirs mk [pRoot p, pWhatsapp p, Join [pWhatsapp p, ''messages''], pUploads p, pBrowser p]"

definition EnsureWhatsappContainerDirs :: "(string \<Rightarrow> bool) \<Rightarrow> Paths \<Rightarrow> string list \<times> bool" where
  "EnsureWhatsappContainerDirs mk p =
     make_dirs mk [pWhatsappContainer p, Join [pWhatsappContainer p, ''sessions''],
       Join [pWhatsappContainer p, ''media''], Join [pWhatsappContainer p, ''files'']]"

section \<open>The per-user vault\<close>

definition globalKeys :: "string list" where
  "globalKeys = [''JWT_SECRET'', ''adguard_user'', ''adguard_password'', ''singbox_clash_secret'']"

definition IsGlobalKey :: "string \<Rightarrow> bool" where
  "IsGlobalKey k \<longleftrightarrow> k \<in> set globalKeys"

definition metaLogicalKey :: string where
  "metaLogicalKey = ''__meta__''"

record EntryMeta =
  mGroup :: string
  mType :: string
  mNotes :: string
  mCreatedAt :: secs
  mUpdatedAt :: secs

definition zero_meta :: EntryMeta where
  "zero_meta = \<lparr>mGroup = '''', mType = '''', mNotes = '''', mCreatedAt = 0, mUpdatedAt = 0\<rparr>"

definition user_key :: "string \<Rightarrow> string \<Rightarrow> string" where
  "user_key u logical = (if IsGlobalKey logical then logical else u @ '':'' @ logical)"

text \<open>
  The metadata blob is the JSON of a map: \<open>marshal\<close> writes it, and \<open>unmarshal\<close> is what decoding leaves in an
  empty map, errors ignored.
\<close>

record meta_codec =
  marshal :: "(string \<rightharpoonup> EntryMeta) \<Rightarrow> string"
  unmarshal :: "string \<Rightarrow> (string \<rightharpoonup> EntryMeta)"

text \<open>The environment of a request: cryptography, codec, the outcome of each save in turn, and the time.\<close>

record 'c venv =
  vcrypto :: "'c crypto"
  vcodec :: meta_codec
  save1 :: saving
  save2 :: saving
  vnow :: secs

type_synonym 'c vstate = "vault \<times> 'c vaultdisk"

definition loadMeta :: "'c venv \<Rightarrow> string \<Rightarrow> vault \<Rightarrow> (string \<rightharpoonup> EntryMeta)" where
  "loadMeta e u v =
     (case vault_Get v (user_key u metaLogicalKey) of
        None \<Rightarrow> Map.empty
      | Some blob \<Rightarrow> if blob = '''' then Map.empty else unmarshal (vcodec e) blob)"

definition saveMeta :: "'c venv \<Rightarrow> string \<Rightarrow> (string \<rightharpoonup> EntryMeta) \<Rightarrow> 'c vstate \<Rightarrow> 'c vstate \<times> (vault_error + unit)" where
  "saveMeta e u m s =
     (if m = Map.empty then
        (if vault_Get (fst s) (user_key u metaLogicalKey) \<noteq> None
         then vault_Delete (vcrypto e) (save2 e) (user_key u metaLogicalKey) s
         else (s, Ok ()))
      else vault_Set (vcrypto e) (save2 e) (user_key u metaLogicalKey) (marshal (vcodec e) m) s)"

definition UserVault_Get :: "string \<Rightarrow> vault \<Rightarrow> string \<Rightarrow> string option" where
  "UserVault_Get u v k = vault_Get v (user_key u k)"

definition UserVault_Set :: "'c venv \<Rightarrow> string \<Rightarrow> string \<Rightarrow> string \<Rightarrow> 'c vstate \<Rightarrow> 'c vstate \<times> (vault_error + unit)" where
  "UserVault_Set e u k x s = vault_Set (vcrypto e) (save1 e) (user_key u k) x s"

definition stamp_meta :: "'c venv \<Rightarrow> EntryMeta option \<Rightarrow> EntryMeta \<Rightarrow> EntryMeta" where
  "stamp_meta e prev m =
     (let created = (case prev of
            Some p \<Rightarrow> if mCreatedAt p \<noteq> 0 then mCreatedAt p else if mCreatedAt m = 0 then vnow e else mCreatedAt m
          | None \<Rightarrow> if mCreatedAt m = 0 then vnow e else mCreatedAt m)
      in m\<lparr>mCreatedAt := created, mUpdatedAt := vnow e\<rparr>)"

definition SetMeta :: "'c venv \<Rightarrow> string \<Rightarrow> string \<Rightarrow> EntryMeta \<Rightarrow> 'c vstate \<Rightarrow> 'c vstate \<times> (vault_error + unit)" where
  "SetMeta e u k m s =
     (let meta = loadMeta e u (fst s) in saveMeta e u (meta(k \<mapsto> stamp_meta e (meta k) m)) s)"

definition SetWithMeta :: "'c venv \<Rightarrow> string \<Rightarrow> string \<Rightarrow> string \<Rightarrow> EntryMeta \<Rightarrow> 'c vstate \<Rightarrow> 'c vstate \<times> (vault_error + unit)" where
  "SetWithMeta e u k x m s =
     (case vault_Set (vcrypto e) (save1 e) (user_key u k) x s of
        (s1, Inl err) \<Rightarrow> (s1, Err err)
      | (s1, Inr _) \<Rightarrow> SetMeta e u k m s1)"

definition UserVault_Delete :: "'c venv \<Rightarrow> string \<Rightarrow> string \<Rightarrow> 'c vstate \<Rightarrow> 'c vstate \<times> (vault_error + unit)" where
  "UserVault_Delete e u k s =
     (case vault_Delete (vcrypto e) (save1 e) (user_key u k) s of
        (s1, Inl err) \<Rightarrow> (s1, Err err)
      | (s1, Inr _) \<Rightarrow>
          (let meta = loadMeta e u (fst s1)
           in if meta k \<noteq> None then saveMeta e u (meta(k := None)) s1 else (s1, Ok ())))"

definition UserVault_List :: "string \<Rightarrow> string list \<Rightarrow> vault \<Rightarrow> string list" where
  "UserVault_List u ks v =
     filter (\<lambda>l. l \<noteq> metaLogicalKey)
       (map (\<lambda>k. TrimPrefix k (u @ '':'')) (filter (\<lambda>k. HasPrefix k (u @ '':'')) (vault_List ks v)))"

record Entry =
  eKey :: string
  eMeta :: EntryMeta

definition ListEntries :: "'c venv \<Rightarrow> string \<Rightarrow> string list \<Rightarrow> vault \<Rightarrow> Entry list" where
  "ListEntries e u ks v =
     (let meta = loadMeta e u v
      in map (\<lambda>k. \<lparr>eKey = k, eMeta = (case meta k of Some m \<Rightarrow> m | None \<Rightarrow> zero_meta)\<rparr>) (UserVault_List u ks v))"

definition targetFor :: "'c venv \<Rightarrow> string \<Rightarrow> vault \<Rightarrow> string \<Rightarrow> string" where
  "targetFor e u v k =
     (case loadMeta e u v k of
        Some m \<Rightarrow> if mGroup m \<noteq> '''' then mGroup m @ ''/'' @ k else k
      | None \<Rightarrow> k)"

text \<open>\<open>lower\<close> is \<open>strings.ToLower\<close> on the group names, which may be any text.\<close>

definition groupEntries :: "(string \<Rightarrow> string) \<Rightarrow> Entry list \<Rightarrow> (string \<times> Entry list) list" where
  "groupEntries lower entries =
     (let names = sort_key (\<lambda>a. (a = '''', lower a, a)) (remdups (map (\<lambda>e. mGroup (eMeta e)) entries))
      in map (\<lambda>name. (name, filter (\<lambda>e. mGroup (eMeta e) = name) entries)) names)"

definition validLogicalKey :: "string \<Rightarrow> bool" where
  "validLogicalKey k \<longleftrightarrow> k \<noteq> '''' \<and> k \<noteq> metaLogicalKey \<and> CHR '':'' \<notin> set k \<and> CHR 0x00 \<notin> set k"

definition validGroupName :: "string \<Rightarrow> bool \<Rightarrow> bool" where
  "validGroupName name isPrimary \<longleftrightarrow>
     name \<noteq> '''' \<and> CHR '':'' \<notin> set name \<and> CHR ''/'' \<notin> set name \<and> CHR 0x00 \<notin> set name
     \<and> \<not> (EqualFold name ''system'' \<and> \<not> isPrimary)"

section \<open>The HTTP handler\<close>

text \<open>
  The mux of \<open>UserVault.Handler\<close>. The decoded body is an argument, \<open>None\<close> when decoding fails. A path other than the
  four is left to the mux (not found, or a redirect to the cleaned path): \<open>VUnrouted\<close>.
\<close>

record HandlerOpts =
  AllowSystemGroup :: bool
  MaxValueBytes :: int

record vbody =
  bKey :: string
  bValue :: string
  bGroup :: string
  bType :: string
  bNotes :: string

datatype vresponse =
    VError nat
  | VListed "(string \<times> Entry list) list" "string list"
  | VRevealed string string
  | VDone
  | VUnrouted

definition defaultMaxValueBytes :: int where
  "defaultMaxValueBytes = 65536"

definition maxValue :: "HandlerOpts \<Rightarrow> int" where
  "maxValue opts = (if MaxValueBytes opts \<le> 0 then defaultMaxValueBytes else MaxValueBytes opts)"

definition handle_list :: "'c venv \<Rightarrow> (string \<Rightarrow> string) \<Rightarrow> string list \<Rightarrow> string \<Rightarrow> request \<Rightarrow> 'c vstate
    \<Rightarrow> 'c vstate \<times> vresponse \<times> (string \<times> string) list" where
  "handle_list e lower ks u req s =
     (if Method req \<noteq> MethodGet then (s, VError 405, [])
      else (s, VListed (groupEntries lower (ListEntries e u ks (fst s))) (UserVault_List u ks (fst s)), []))"

definition handle_get :: "'c venv \<Rightarrow> string \<Rightarrow> request \<Rightarrow> 'c vstate \<Rightarrow> 'c vstate \<times> vresponse \<times> (string \<times> string) list" where
  "handle_get e u req s =
     (if Method req \<noteq> MethodGet then (s, VError 405, [])
      else let k = Query req ''key''
           in if \<not> validLogicalKey k then (s, VError 400, [])
              else (case UserVault_Get u (fst s) k of
                      None \<Rightarrow> (s, VError 404, [])
                    | Some x \<Rightarrow> (s, VRevealed k x, [(''secrets.reveal'', targetFor e u (fst s) k)])))"

definition handle_set :: "'c venv \<Rightarrow> HandlerOpts \<Rightarrow> string \<Rightarrow> request \<Rightarrow> vbody option \<Rightarrow> 'c vstate
    \<Rightarrow> 'c vstate \<times> vresponse \<times> (string \<times> string) list" where
  "handle_set e opts u req body s =
     (if Method req \<noteq> MethodPost then (s, VError 405, [])
      else case body of
        None \<Rightarrow> (s, VError 400, [])
      | Some b \<Rightarrow>
          if \<not> validLogicalKey (bKey b) then (s, VError 400, [])
          else if int (length (bValue b)) > maxValue opts then (s, VError 413, [])
          else if bGroup b \<noteq> '''' \<and> \<not> validGroupName (bGroup b) (AllowSystemGroup opts) then (s, VError 400, [])
          else (case SetWithMeta e u (bKey b) (bValue b)
                       (zero_meta\<lparr>mGroup := bGroup b, mType := bType b, mNotes := bNotes b\<rparr>) s of
                  (s1, Inl _) \<Rightarrow> (s1, VError 500, [])
                | (s1, Inr _) \<Rightarrow>
                    (s1, VDone, [(''secrets.set'', if bGroup b \<noteq> '''' then bGroup b @ ''/'' @ bKey b else bKey b)])))"

definition handle_delete :: "'c venv \<Rightarrow> string \<Rightarrow> request \<Rightarrow> vbody option \<Rightarrow> 'c vstate
    \<Rightarrow> 'c vstate \<times> vresponse \<times> (string \<times> string) list" where
  "handle_delete e u req body s =
     (if Method req \<noteq> MethodPost then (s, VError 405, [])
      else case body of
        None \<Rightarrow> (s, VError 400, [])
      | Some b \<Rightarrow>
          if \<not> validLogicalKey (bKey b) then (s, VError 400, [])
          else let target = targetFor e u (fst s) (bKey b)
               in (case UserVault_Delete e u (bKey b) s of
                     (s1, Inl _) \<Rightarrow> (s1, VError 500, [])
                   | (s1, Inr _) \<Rightarrow> (s1, VDone, [(''secrets.delete'', target)])))"

definition UserVault_Handler ::
  "'c venv \<Rightarrow> HandlerOpts \<Rightarrow> (string \<Rightarrow> string) \<Rightarrow> string list \<Rightarrow> string \<Rightarrow> request \<Rightarrow> vbody option \<Rightarrow> 'c vstate
    \<Rightarrow> 'c vstate \<times> vresponse \<times> (string \<times> string) list" where
  "UserVault_Handler e opts lower ks u req body s =
     (if Path req = ''/list'' then handle_list e lower ks u req s
      else if Path req = ''/get'' then handle_get e u req s
      else if Path req = ''/set'' then handle_set e opts u req body s
      else if Path req = ''/delete'' then handle_delete e u req body s
      else (s, VUnrouted, []))"

text \<open>
  The mount in \<^verbatim>\<open>internal/api/api.go\<close>, after the prefix is stripped: \<open>user\<close> is the subject of the request's token and
  \<open>isPrimary\<close> the router's test.
\<close>

definition secrets_mount ::
  "'c venv \<Rightarrow> (string \<Rightarrow> bool) \<Rightarrow> (string \<Rightarrow> string) \<Rightarrow> string list \<Rightarrow> string \<Rightarrow> request \<Rightarrow> vbody option \<Rightarrow> 'c vstate
    \<Rightarrow> 'c vstate \<times> vresponse \<times> (string \<times> string) list" where
  "secrets_mount e isPrimary lower ks user req body s =
     (if user = '''' then (s, VError 401, [])
      else case New_user user of
        Inl _ \<Rightarrow> (s, VError 400, [])
      | Inr u \<Rightarrow>
          UserVault_Handler e \<lparr>AllowSystemGroup = isPrimary user, MaxValueBytes = 65536\<rparr> lower ks u req body s)"

text \<open>The store's own handler, without namespaces; no route of the panel mounts it.\<close>

definition Store_Handler :: "'c venv \<Rightarrow> string list \<Rightarrow> request \<Rightarrow> vbody option \<Rightarrow> 'c vstate \<Rightarrow> 'c vstate \<times> vresponse" where
  "Store_Handler e ks req body s =
     (if Path req = ''/list''
      then (s, if Method req \<noteq> MethodGet then VError 405 else VListed [] (vault_List ks (fst s)))
      else if Path req = ''/get''
      then (s, if Method req \<noteq> MethodGet then VError 405
               else (case vault_Get (fst s) (Query req ''key'') of
                       None \<Rightarrow> VError 404 | Some x \<Rightarrow> VRevealed (Query req ''key'') x))
      else if Path req \<in> {''/set'', ''/delete''}
      then (if Method req \<noteq> MethodPost then (s, VError 405)
            else case body of
              None \<Rightarrow> (s, VError 400)
            | Some b \<Rightarrow>
                if bKey b = '''' then (s, VError 400)
                else (case (if Path req = ''/set'' then vault_Set (vcrypto e) (save1 e) (bKey b) (bValue b) s
                            else vault_Delete (vcrypto e) (save1 e) (bKey b) s) of
                        (s1, Inl _) \<Rightarrow> (s1, VError 500)
                      | (s1, Inr _) \<Rightarrow> (s1, VDone)))
      else (s, VUnrouted))"

end
