(* ===== verification/Todos.thy ===== *)
theory Todos
  imports Vault DurableFile
begin

text \<open>
  The maintenance checklist: the store \<^verbatim>\<open>internal/todos/todos.go\<close>, the suggestions of \<^verbatim>\<open>seed.go\<close> and the HTTP
  layer \<^verbatim>\<open>internal/api/handlers_todos.go\<close>.

  Nothing is cached: every operation reads the file and replaces it, so the state of a store is its file. Due dates are
  \<open>int64\<close> seconds and their arithmetic wraps. The clock and the outcome of the save are arguments; a save either fails
  in one of the ways of \<open>todos_save\<close> and leaves the file, or replaces it.
\<close>

section \<open>Data\<close>

definition CatSSLRenewal :: string where "CatSSLRenewal = ''ssl_renewal''"
definition CatSecretRotation :: string where "CatSecretRotation = ''secret_rotation''"
definition CatAptUpgrade :: string where "CatAptUpgrade = ''apt_upgrade''"
definition CatBackupCheck :: string where "CatBackupCheck = ''backup_check''"
definition CatRebootDue :: string where "CatRebootDue = ''reboot_due''"
definition CatCustom :: string where "CatCustom = ''custom''"

lemmas category_defs = CatSSLRenewal_def CatSecretRotation_def CatAptUpgrade_def CatBackupCheck_def CatRebootDue_def CatCustom_def

definition ValidCategory :: "string \<Rightarrow> bool" where
  "ValidCategory c \<longleftrightarrow> c \<in> {CatSSLRenewal, CatSecretRotation, CatAptUpgrade, CatBackupCheck, CatRebootDue, CatCustom}"

definition StatusPending :: string where "StatusPending = ''pending''"
definition StatusDone :: string where "StatusDone = ''done''"
definition StatusSnoozed :: string where "StatusSnoozed = ''snoozed''"

lemmas todo_status_defs = StatusPending_def StatusDone_def StatusSnoozed_def

record Todo =
  tID :: string
  tTitle :: string
  tNotes :: string
  tCategory :: string
  tStatus :: string
  tDue :: int
  tIntervalDays :: int
  tSnoozeUntil :: int
  tLastDone :: int
  tDoneCount :: int
  tNotifyWA :: bool
  tCreated :: int
  tUpdated :: int

datatype Bucket = BucketOverdue | BucketWeek | BucketMonth | BucketFuture | BucketDone

record Summary =
  sumOverdue :: nat
  sumWeek :: nat
  sumMonth :: nat
  sumFuture :: nat
  sumDone :: nat

datatype todo_error = TodoNotFound | TodoBadInput | TodoCorrupt | TodoUnreadable | TodoIO wfault | TodoPanic

datatype todofile = TNone | TUnreadable | TEmpty | TGarbled | TDoc "Todo list"

section \<open>Numbers as text\<close>

text \<open>
  The conversion loop of \<open>strconvFormatInt\<close> and \<open>itoa\<close>: digits are written from the end of a buffer of which \<open>pos\<close>
  bytes are free; \<open>None\<close> is the panic of an index out of range or of a division by zero.
\<close>

definition digits :: string where
  "digits = ''0123456789abcdefghijklmnopqrstuvwxyz''"

fun put_digits :: "int \<Rightarrow> nat \<Rightarrow> int \<Rightarrow> string \<Rightarrow> string option" where
  "put_digits base pos n acc =
     (if n > 0
      then (case pos of
              0 \<Rightarrow> None
            | Suc p \<Rightarrow> if base \<le> 0 \<or> n mod base \<ge> 36 then None
                      else put_digits base p (n div base) (digits ! nat (n mod base) # acc))
      else Some acc)"

declare put_digits.simps [simp del]

definition neg64 :: "int \<Rightarrow> int" where
  "neg64 n = wrap64 (- n)"

definition strconvFormatInt :: "int \<Rightarrow> int \<Rightarrow> string option" where
  "strconvFormatInt n base =
     (let n = (if n < 0 then neg64 n else n)
      in if n = 0 then Some ''0'' else put_digits base 16 n [])"

definition todo_newID :: "nanos \<Rightarrow> string option" where
  "todo_newID t = map_option (\<lambda>s. ''t_'' @ s) (strconvFormatInt (wrap64 t) 36)"

definition itoa :: "int \<Rightarrow> string option" where
  "itoa n =
     (if n = 0 then Some ''0''
      else if n < 0
      then (case put_digits 10 10 (neg64 n) [] of
              None \<Rightarrow> None
            | Some s \<Rightarrow> if length s = 10 then None else Some (CHR ''-'' # s))
      else put_digits 10 10 n [])"

section \<open>The store\<close>

definition load_todos :: "todofile \<Rightarrow> todo_error + Todo list" where
  "load_todos d =
     (case d of TNone \<Rightarrow> Ok [] | TUnreadable \<Rightarrow> Err TodoUnreadable | TEmpty \<Rightarrow> Ok [] | TGarbled \<Rightarrow> Err TodoCorrupt
      | TDoc ts \<Rightarrow> Ok ts)"

definition save_todos :: "wfault option \<Rightarrow> Todo list \<Rightarrow> todofile \<Rightarrow> todofile \<times> (todo_error + unit)" where
  "save_todos fault ts d =
     (case snd (todos_save fault '''') of
        Inl w \<Rightarrow> (d, Err (TodoIO w))
      | Inr _ \<Rightarrow> (TDoc ts, Ok ()))"

definition groupKey :: "Todo \<Rightarrow> int" where
  "groupKey t =
     (if tStatus t = StatusPending then 0
      else if tStatus t = StatusSnoozed then 1
      else if tStatus t = StatusDone then 2
      else 3)"

definition todo_less :: "Todo \<Rightarrow> Todo \<Rightarrow> bool" where
  "todo_less a b =
     (if groupKey a \<noteq> groupKey b then groupKey a < groupKey b
      else if tDue a = 0 \<and> tDue b = 0 then tCreated a < tCreated b
      else if tDue a = 0 then False
      else if tDue b = 0 then True
      else tDue a < tDue b)"

definition sortTodos :: "Todo list \<Rightarrow> Todo list" where
  "sortTodos ts = slice_stable todo_less ts"

definition todo_List :: "todofile \<Rightarrow> todo_error + Todo list" where
  "todo_List d = (case load_todos d of Inl e \<Rightarrow> Err e | Inr ts \<Rightarrow> Ok (sortTodos ts))"

text \<open>\<open>now + int64(days)*86400\<close>.\<close>

definition days_after :: "secs \<Rightarrow> int \<Rightarrow> int" where
  "days_after now days = wrap64 (now + wrap64 (days * 86400))"

text \<open>The record \<open>Create\<close> stores, once the input is accepted.\<close>

definition new_todo :: "secs \<Rightarrow> string \<Rightarrow> Todo \<Rightarrow> Todo" where
  "new_todo now ident x =
     x\<lparr>tCategory := (if ValidCategory (tCategory x) then tCategory x else CatCustom),
       tStatus := (if tStatus x = '''' then StatusPending else tStatus x),
       tID := ident, tCreated := now, tUpdated := now,
       tDue := (if tIntervalDays x > 0 \<and> tDue x = 0 then days_after now (tIntervalDays x) else tDue x)\<rparr>"

text \<open>\<open>now\<close> is the clock of the time stamps and \<open>idnow\<close> its later reading for the identifier.\<close>

definition todo_Create :: "wfault option \<Rightarrow> nanos \<Rightarrow> nanos \<Rightarrow> Todo \<Rightarrow> todofile \<Rightarrow> todofile \<times> (todo_error + Todo)" where
  "todo_Create fault now idnow x d =
     (if TrimSpace (tTitle x) = '''' then (d, Err TodoBadInput)
      else if tIntervalDays x < 0 then (d, Err TodoBadInput)
      else case todo_newID idnow of
        None \<Rightarrow> (d, Err TodoPanic)
      | Some ident \<Rightarrow>
          (case load_todos d of
             Inl e \<Rightarrow> (d, Err e)
           | Inr ts \<Rightarrow>
               (let t = new_todo (unix now) ident x
                in case save_todos fault (ts @ [t]) d of
                     (d', Inl e) \<Rightarrow> (d', Err e)
                   | (d', Inr _) \<Rightarrow> (d', Ok t))))"

text \<open>The loop that \<open>Update\<close>, \<open>MarkDone\<close> and \<open>Snooze\<close> share: change the first record with the identifier and save.\<close>

definition edit_todo :: "wfault option \<Rightarrow> string \<Rightarrow> (Todo \<Rightarrow> Todo) \<Rightarrow> todofile \<Rightarrow> todofile \<times> (todo_error + Todo)" where
  "edit_todo fault ident g d =
     (case load_todos d of
        Inl e \<Rightarrow> (d, Err e)
      | Inr ts \<Rightarrow>
          (case find (\<lambda>t. tID t = ident) ts of
             None \<Rightarrow> (d, Err TodoNotFound)
           | Some t \<Rightarrow>
               (case save_todos fault (upd_first (\<lambda>t. tID t = ident) g ts) d of
                  (d', Inl e) \<Rightarrow> (d', Err e)
                | (d', Inr _) \<Rightarrow> (d', Ok (g t)))))"

definition patched :: "secs \<Rightarrow> Todo \<Rightarrow> Todo \<Rightarrow> Todo" where
  "patched now p t =
     t\<lparr>tTitle := (if TrimSpace (tTitle p) \<noteq> '''' then tTitle p else tTitle t),
       tNotes := tNotes p,
       tCategory := (if ValidCategory (tCategory p) then tCategory p else tCategory t),
       tDue := tDue p, tIntervalDays := tIntervalDays p, tNotifyWA := tNotifyWA p, tUpdated := now\<rparr>"

definition todo_Update :: "wfault option \<Rightarrow> nanos \<Rightarrow> string \<Rightarrow> Todo \<Rightarrow> todofile \<Rightarrow> todofile \<times> (todo_error + Todo)" where
  "todo_Update fault now ident p d = edit_todo fault ident (patched (unix now) p) d"

definition todo_Delete :: "wfault option \<Rightarrow> string \<Rightarrow> todofile \<Rightarrow> todofile \<times> (todo_error + unit)" where
  "todo_Delete fault ident d =
     (case load_todos d of
        Inl e \<Rightarrow> (d, Err e)
      | Inr ts \<Rightarrow>
          (case find (\<lambda>t. tID t = ident) ts of
             None \<Rightarrow> (d, Err TodoNotFound)
           | Some t \<Rightarrow> save_todos fault (remove1 t ts) d))"

definition completed :: "secs \<Rightarrow> Todo \<Rightarrow> Todo" where
  "completed now t =
     (let t1 = t\<lparr>tLastDone := now, tDoneCount := wrap64 (tDoneCount t + 1), tUpdated := now\<rparr>
      in if tIntervalDays t > 0
         then t1\<lparr>tStatus := StatusPending, tDue := days_after now (tIntervalDays t), tSnoozeUntil := 0\<rparr>
         else t1\<lparr>tStatus := StatusDone\<rparr>)"

definition MarkDone :: "wfault option \<Rightarrow> nanos \<Rightarrow> string \<Rightarrow> todofile \<Rightarrow> todofile \<times> (todo_error + Todo)" where
  "MarkDone fault now ident d = edit_todo fault ident (completed (unix now)) d"

text \<open>\<open>now0\<close> is the clock of the check, before the lock, and \<open>now\<close> that of the time stamp.\<close>

definition Snooze :: "wfault option \<Rightarrow> nanos \<Rightarrow> nanos \<Rightarrow> string \<Rightarrow> int \<Rightarrow> todofile \<Rightarrow> todofile \<times> (todo_error + Todo)" where
  "Snooze fault now0 now ident until d =
     (if until \<le> unix now0 then (d, Err TodoBadInput)
      else edit_todo fault ident (\<lambda>t. t\<lparr>tStatus := StatusSnoozed, tSnoozeUntil := until, tUpdated := unix now\<rparr>) d)"

section \<open>Urgency\<close>

text \<open>
  \<open>time.Unix(due, 0).Sub(now)\<close>: the seconds are kept with an offset that wraps, and the difference saturates at the
  range of a duration.
\<close>

definition until_due :: "int \<Rightarrow> nanos \<Rightarrow> int" where
  "until_due due now =
     (let d = (wrap64 (due + 62135596800) - 62135596800) * second - now
      in max (- (2 ^ 63)) (min (2 ^ 63 - 1) d))"

definition day :: nanos where
  "day = 86400 * second"

definition BucketOf :: "Todo \<Rightarrow> nanos \<Rightarrow> Bucket" where
  "BucketOf t now =
     (if tStatus t = StatusDone then BucketDone
      else if tStatus t = StatusSnoozed \<and> tSnoozeUntil t > unix now then BucketFuture
      else if tDue t = 0 then BucketFuture
      else let dt = until_due (tDue t) now
           in if dt < 0 then BucketOverdue
              else if dt < 7 * day then BucketWeek
              else if dt < 31 * day then BucketMonth
              else BucketFuture)"

definition count_bucket :: "Bucket \<Rightarrow> Summary \<Rightarrow> Summary" where
  "count_bucket b s =
     (case b of
        BucketOverdue \<Rightarrow> s\<lparr>sumOverdue := Suc (sumOverdue s)\<rparr>
      | BucketWeek \<Rightarrow> s\<lparr>sumWeek := Suc (sumWeek s)\<rparr>
      | BucketMonth \<Rightarrow> s\<lparr>sumMonth := Suc (sumMonth s)\<rparr>
      | BucketFuture \<Rightarrow> s\<lparr>sumFuture := Suc (sumFuture s)\<rparr>
      | BucketDone \<Rightarrow> s\<lparr>sumDone := Suc (sumDone s)\<rparr>)"

definition SummaryOf :: "Todo list \<Rightarrow> nanos \<Rightarrow> Summary" where
  "SummaryOf ts now =
     fold (\<lambda>t s. count_bucket (BucketOf t now) s) ts
       \<lparr>sumOverdue = 0, sumWeek = 0, sumMonth = 0, sumFuture = 0, sumDone = 0\<rparr>"

section \<open>Suggestions\<close>

text \<open>
  What \<open>SuggestSeed\<close> reads of the host: the expiry of the certificate with the number of whole days to it as the
  floating-point division gives it, the age of the last package update (\<open>0\<close> when unknown), the modification time of
  the vault, and the uptime. The texts of dates and durations are parameters.
\<close>

record hoststate =
  tlsExpires :: "(nanos \<times> int) option"
  aptAge :: nanos
  vaultMTime :: "nanos option"
  hostUptime :: nanos
  showDate :: "nanos \<Rightarrow> string"
  showAge :: "nanos \<Rightarrow> string"
  showDays :: "nanos \<Rightarrow> string"

definition zero_todo :: Todo where
  "zero_todo = \<lparr>tID = '''', tTitle = '''', tNotes = '''', tCategory = '''', tStatus = '''', tDue = 0, tIntervalDays = 0,
     tSnoozeUntil = 0, tLastDone = 0, tDoneCount = 0, tNotifyWA = False, tCreated = 0, tUpdated = 0\<rparr>"

definition seed_tls :: "hoststate \<Rightarrow> Todo list option" where
  "seed_tls h =
     (case tlsExpires h of
        None \<Rightarrow> Some []
      | Some (t, days) \<Rightarrow>
          if days < 60
          then map_option (\<lambda>n. [zero_todo\<lparr>tTitle := ''Renew TLS certificate ('' @ showDate h t @ '')'',
                 tNotes := ''Certbot/CertMagic failed or the cert expires in '' @ n @ '' days. Check the auto-renew logs.'',
                 tCategory := CatSSLRenewal, tDue := unix (t - 7 * day)\<rparr>]) (itoa days)
          else Some [])"

definition seed_apt :: "hoststate \<Rightarrow> nanos \<Rightarrow> Todo list" where
  "seed_apt h now =
     (if aptAge h > 14 * day
      then [zero_todo\<lparr>tTitle := ''Run apt update + upgrade'', tNotes := ''Last update was '' @ showAge h (aptAge h),
              tCategory := CatAptUpgrade, tIntervalDays := 14, tDue := unix (now + day)\<rparr>]
      else [])"

definition seed_vault :: "hoststate \<Rightarrow> nanos \<Rightarrow> Todo list" where
  "seed_vault h now =
     (case vaultMTime h of
        None \<Rightarrow> []
      | Some mt \<Rightarrow>
          if now - mt > 90 * day
          then [zero_todo\<lparr>tTitle := ''Rotate vault secrets (HMAC_KEY, etc.)'',
                  tNotes := ''secrets.vault has not changed for '' @ showDays h (now - mt),
                  tCategory := CatSecretRotation, tIntervalDays := 90, tDue := unix (now + 7 * day)\<rparr>]
          else [])"

definition seed_uptime :: "hoststate \<Rightarrow> nanos \<Rightarrow> Todo list" where
  "seed_uptime h now =
     (if hostUptime h > 30 * day
      then [zero_todo\<lparr>tTitle := ''Consider a scheduled reboot'',
              tNotes := ''Current uptime: '' @ showAge h (hostUptime h) @ ''. The kernel may have pending updates.'',
              tCategory := CatRebootDue, tDue := unix (now + 7 * day)\<rparr>]
      else [])"

definition SuggestSeed :: "hoststate \<Rightarrow> nanos \<Rightarrow> Todo list option" where
  "SuggestSeed h now = map_option (\<lambda>ts. ts @ seed_apt h now @ seed_vault h now @ seed_uptime h now) (seed_tls h)"

section \<open>HTTP\<close>

text \<open>
  The files of all users, by path. \<open>user\<close> is the subject of the request's token, \<open>body\<close> the decoded body (\<open>None\<close>
  when it is not JSON), and a result is the new files, the response and the audit records.
\<close>

type_synonym todofs = "string \<Rightarrow> todofile"

record thost =
  thFault :: "wfault option"
  thNow0 :: nanos
  thNow :: nanos
  thID :: nanos

datatype tresponse =
    TErr nat
  | TListed "Todo list" Summary
  | TOne Todo
  | TDeleted
  | TCandidates "Todo list"
  | TInserted "Todo list"
  | TPanic

type_synonym tresult = "todofs \<times> tresponse \<times> (string \<times> string) list"

definition todoStoreFor :: "string \<Rightarrow> string \<Rightarrow> string option" where
  "todoStoreFor dataDir user =
     (if user = '''' then None
      else case New_user user of
        Inl _ \<Rightarrow> None
      | Inr u \<Rightarrow> Some (Join [pRoot (PathsFor dataDir u), ''todos.json'']))"

definition status_of :: "nat \<Rightarrow> todo_error \<Rightarrow> tresponse" where
  "status_of other e = (if e = TodoNotFound then TErr 404 else if e = TodoPanic then TPanic else TErr other)"

definition handleTodos :: "string \<Rightarrow> thost \<Rightarrow> string \<Rightarrow> request \<Rightarrow> Todo option \<Rightarrow> todofs \<Rightarrow> tresult" where
  "handleTodos dataDir h user req body f =
     (case todoStoreFor dataDir user of
        None \<Rightarrow> (f, TErr 401, [])
      | Some path \<Rightarrow>
          if Method req = MethodGet
          then (case todo_List (f path) of
                  Inl _ \<Rightarrow> (f, TErr 500, [])
                | Inr ts \<Rightarrow> (f, TListed ts (SummaryOf ts (thNow h)), []))
          else if Method req = MethodPost
          then (case body of
                  None \<Rightarrow> (f, TErr 400, [])
                | Some x \<Rightarrow>
                    (case todo_Create (thFault h) (thNow h) (thID h) x (f path) of
                       (d, Inl e) \<Rightarrow> (f(path := d), if e = TodoPanic then TPanic else TErr 400, [])
                     | (d, Inr t) \<Rightarrow> (f(path := d), TOne t, [(''todo.create'', tID t @ '':'' @ tTitle t)])))
          else (f, TErr 405, []))"

text \<open>\<open>strings.SplitN(rest, "/", 2)\<close>: the identifier and the action.\<close>

definition split_action :: "string \<Rightarrow> string \<times> string" where
  "split_action rest =
     (case IndexByte rest (CHR ''/'') of None \<Rightarrow> (rest, '''') | Some i \<Rightarrow> (take i rest, drop (Suc i) rest))"

definition handleTodoByID :: "string \<Rightarrow> thost \<Rightarrow> string \<Rightarrow> request \<Rightarrow> Todo option \<Rightarrow> int option \<Rightarrow> todofs \<Rightarrow> tresult" where
  "handleTodoByID dataDir h user req body until f =
     (case todoStoreFor dataDir user of
        None \<Rightarrow> (f, TErr 401, [])
      | Some path \<Rightarrow>
          let rest = TrimPrefix (Path req) ''/api/todos/'';
              ident = fst (split_action rest);
              action = snd (split_action rest);
              edited = (\<lambda>other act r. case r of
                  (d, Inl e) \<Rightarrow> (f(path := d), status_of other e, [])
                | (d, Inr t) \<Rightarrow> (f(path := d), TOne t, [(act, ident)]))
          in if rest = '''' then (f, TErr 400, [])
             else if action = '''' then
               (if Method req \<in> {MethodPatch, MethodPut} then
                  (case body of
                     None \<Rightarrow> (f, TErr 400, [])
                   | Some p \<Rightarrow> edited 400 ''todo.update'' (todo_Update (thFault h) (thNow h) ident p (f path)))
                else if Method req = MethodDelete then
                  (case todo_Delete (thFault h) ident (f path) of
                     (d, Inl e) \<Rightarrow> (f(path := d), status_of 500 e, [])
                   | (d, Inr _) \<Rightarrow> (f(path := d), TDeleted, [(''todo.delete'', ident)]))
                else (f, TErr 405, []))
             else if action = ''done'' then
               (if Method req \<noteq> MethodPost then (f, TErr 405, [])
                else edited 500 ''todo.done'' (MarkDone (thFault h) (thNow h) ident (f path)))
             else if action = ''snooze'' then
               (if Method req \<noteq> MethodPost then (f, TErr 405, [])
                else case until of
                  None \<Rightarrow> (f, TErr 400, [])
                | Some u \<Rightarrow> edited 400 ''todo.snooze'' (Snooze (thFault h) (thNow0 h) (thNow h) ident u (f path)))
             else (f, TErr 404, []))"

text \<open>The insertion loop: a candidate that cannot be stored is skipped; each \<open>Create\<close> meets its own clock and disk.\<close>

fun insert_seeds :: "(nat \<Rightarrow> thost) \<Rightarrow> Todo list \<Rightarrow> todofile \<Rightarrow> todofile \<times> Todo list" where
  "insert_seeds hs [] d = (d, [])"
| "insert_seeds hs (c # cs) d =
     (case todo_Create (thFault (hs 0)) (thNow (hs 0)) (thID (hs 0)) c d of
        (d', Inl _) \<Rightarrow> insert_seeds (\<lambda>i. hs (Suc i)) cs d'
      | (d', Inr t) \<Rightarrow> (case insert_seeds (\<lambda>i. hs (Suc i)) cs d' of (d'', ts) \<Rightarrow> (d'', t # ts)))"

definition handleTodosSeed :: "string \<Rightarrow> hoststate \<Rightarrow> nanos \<Rightarrow> (nat \<Rightarrow> thost) \<Rightarrow> string \<Rightarrow> request \<Rightarrow> todofs \<Rightarrow> tresult" where
  "handleTodosSeed dataDir st now hs user req f =
     (case todoStoreFor dataDir user of
        None \<Rightarrow> (f, TErr 401, [])
      | Some path \<Rightarrow>
          (case SuggestSeed st now of
             None \<Rightarrow> (f, TPanic, [])
           | Some cands \<Rightarrow>
               if Method req = MethodGet then (f, TCandidates cands, [])
               else if Method req = MethodPost then
                 (case insert_seeds hs cands (f path) of
                    (d, ts) \<Rightarrow>
                      (case itoa (int (length ts)) of
                         None \<Rightarrow> (f(path := d), TPanic, [])
                       | Some n \<Rightarrow> (f(path := d), TInserted ts, [(''todo.seed'', ''n='' @ n)])))
               else (f, TErr 405, [])))"

end
