(* ===== verification/VaultProps.thy ===== *)
theory VaultProps
  imports Vault
begin

text \<open>
  What the vault and the tenant scope guarantee: the passphrase the store holds always opens the file;
  a saved change is what the next process reads; a user's requests neither touch nor observe another user's
  secrets, and their directories do not overlap; and what they do reach: the daemon-wide keys.
\<close>

section \<open>Key-value contract\<close>

text \<open>
  The documented behaviour of authenticated encryption: opening what was sealed with the same key and nonce gives the
  plaintext back.
\<close>

definition correct :: "'c crypto \<Rightarrow> bool" where
  "correct c \<longleftrightarrow> (\<forall>k n m. unseal c k n (seal c k n m) = Some m)"

text \<open>What a new process reads from the file with a passphrase.\<close>

definition reads_as :: "'c crypto \<Rightarrow> string \<Rightarrow> 'c vaultdisk \<Rightarrow> (string \<rightharpoonup> string) option" where
  "reads_as c pp d = (case Open_vault c pp (Some ''s'') d of Inl _ \<Rightarrow> None | Inr w \<Rightarrow> Some (vdata w))"

definition key_ok :: "'c crypto \<Rightarrow> vault \<Rightarrow> bool" where
  "key_ok c v \<longleftrightarrow> vkey v = kdf c (vpass v) (vsalt v) \<and> (needsResalt v \<or> vsalt v \<noteq> '''')"

definition salted :: "saving \<Rightarrow> bool" where
  "salted e \<longleftrightarrow> rndSalt e \<noteq> Some ''''"

lemma reads_VFile:
  "reads_as c pp (VFile ff st) =
    unseal c (kdf c pp (if ffSalt ff \<noteq> '''' then ffSalt ff else legacy c pp)) (ffNonce ff) (ffCiphertext ff)"
  by (simp add: reads_as_def Open_vault_def Let_def deriveKey_def legacySalt_def split: option.splits)

lemma reads_fresh: "reads_as c pp VNone = Some Map.empty" "reads_as c pp (VEmpty st) = Some Map.empty"
  by (simp_all add: reads_as_def Open_vault_def fresh_vault_def)

lemma Open_vault_ok:
  assumes "Open_vault c pp rnd d = Ok v" and "rnd \<noteq> Some ''''"
  shows "key_ok c v \<and> vpass v = pp \<and> reads_as c pp d = Some (vdata v)"
  using assms
  by (auto simp: Open_vault_def fresh_vault_def key_ok_def deriveKey_def reads_fresh reads_VFile Let_def
    legacySalt_def split: vaultdisk.splits option.splits if_splits)

lemma save_vault_outcome:
  assumes "correct c" "key_ok c v" "salted e"
  obtains (failed) v1 err where "save_vault c e (v, d) = ((v1, d), Err err)" "vdata v1 = vdata v"
      "vpass v1 = vpass v" "key_ok c v1"
    | (saved) v1 d1 where "save_vault c e (v, d) = ((v1, d1), Ok ())" "vdata v1 = vdata v" "vpass v1 = vpass v"
      "key_ok c v1" "reads_as c (vpass v1) d1 = Some (vdata v1)"
proof (cases "resalt c e v")
  case None
  then show ?thesis using failed assms by (simp add: save_vault_def)
next
  case (Some v1)
  have v1: "vdata v1 = vdata v" "vpass v1 = vpass v" "key_ok c v1" "vsalt v1 \<noteq> ''''" "vkey v1 = kdf c (vpass v1) (vsalt v1)"
    using Some assms(2,3) by (auto simp: resalt_def key_ok_def deriveKey_def salted_def split: if_splits)
  show ?thesis
  proof (cases "\<exists>nonce. rndNonce e = Some nonce \<and> writeOk e \<and> renameOk e")
    case True
    then obtain nonce where n: "rndNonce e = Some nonce" "writeOk e" "renameOk e" by blast
    let ?v = "v1\<lparr>vstamp := newStamp e\<rparr>"
    have "key_ok c ?v" "reads_as c (vpass ?v) (VFile \<lparr>ffSalt = vsalt v1, ffNonce = nonce,
        ffCiphertext = seal c (vkey v1) nonce (vdata v1)\<rparr> (newStamp e)) = Some (vdata ?v)"
      using v1 assms(1) by (simp_all add: key_ok_def reads_VFile correct_def)
    with saved [of ?v] Some n v1 show ?thesis by (simp add: save_vault_def Let_def)
  next
    case False
    then have "\<exists>err. save_vault c e (v, d) = ((v1, d), Err err)"
      using Some by (auto simp: save_vault_def Let_def split: option.splits)
    then show ?thesis using failed [of v1] v1 by blast
  qed
qed

datatype 'c vop = OpSet saving string string | OpDelete saving string | OpRotate saving "'c vaultdisk \<Rightarrow> 'c vaultdisk" string

fun do_vop :: "'c crypto \<Rightarrow> 'c vop \<Rightarrow> 'c vstate \<Rightarrow> 'c vstate \<times> (vault_error + unit)" where
  "do_vop c (OpSet e k x) s = vault_Set c e k x s"
| "do_vop c (OpDelete e k) s = vault_Delete c e k s"
| "do_vop c (OpRotate e rb pp) s = vault_Rotate c e rb pp s"

fun vop_effect :: "'c vop \<Rightarrow> (string \<rightharpoonup> string) \<Rightarrow> (string \<rightharpoonup> string)" where
  "vop_effect (OpSet e k x) m = m(k \<mapsto> x)"
| "vop_effect (OpDelete e k) m = m(k := None)"
| "vop_effect (OpRotate e rb pp) m = m"

text \<open>Salts are not empty, and what a rotation reads back is what it wrote, or a file it cannot decrypt.\<close>

fun vop_legal :: "'c crypto \<Rightarrow> 'c vop \<Rightarrow> bool" where
  "vop_legal c (OpSet e k x) = salted e"
| "vop_legal c (OpDelete e k) = salted e"
| "vop_legal c (OpRotate e rb pp) \<longleftrightarrow> salted e
     \<and> (\<forall>ff st. rb (VFile ff st) = VFile ff st \<or> (\<forall>key. \<not> verifyDecrypt c (rb (VFile ff st)) key))"

lemma save_do:
  assumes "correct c" "key_ok c v" "salted e"
  shows "key_ok c (fst (fst (save_vault c e (v, d))))
    \<and> (snd (save_vault c e (v, d)) = Ok () \<longrightarrow> vdata (fst (fst (save_vault c e (v, d)))) = vdata v
        \<and> reads_as c (vpass (fst (fst (save_vault c e (v, d))))) (snd (fst (save_vault c e (v, d)))) = Some (vdata v))
    \<and> (snd (save_vault c e (v, d)) \<noteq> Ok () \<longrightarrow>
        snd (fst (save_vault c e (v, d))) = d \<and> vpass (fst (fst (save_vault c e (v, d)))) = vpass v)"
  by (rule save_vault_outcome [OF assms, of d]) auto

lemma rotate_do:
  assumes "correct c" "vop_legal c (OpRotate e rb pp)" "key_ok c v"
  shows "key_ok c (fst (fst (vault_Rotate c e rb pp (v, d))))
    \<and> (snd (vault_Rotate c e rb pp (v, d)) = Ok () \<longrightarrow> vdata (fst (fst (vault_Rotate c e rb pp (v, d)))) = vdata v
        \<and> reads_as c (vpass (fst (fst (vault_Rotate c e rb pp (v, d))))) (snd (fst (vault_Rotate c e rb pp (v, d)))) = Some (vdata v))
    \<and> (snd (vault_Rotate c e rb pp (v, d)) \<noteq> Ok () \<longrightarrow> fst (vault_Rotate c e rb pp (v, d)) = (v, d))"
proof (cases "\<exists>salt nonce. rndSalt e = Some salt \<and> rndNonce e = Some nonce")
  case True
  then obtain salt nonce where r: "rndSalt e = Some salt" "rndNonce e = Some nonce" by blast
  let ?k = "kdf c pp salt"
  let ?ff = "\<lparr>ffSalt = salt, ffNonce = nonce, ffCiphertext = seal c ?k nonce (vdata v)\<rparr>"
  have s: "salt \<noteq> ''''"
    using assms(2) r by (auto simp: salted_def)
  have rb: "rb (VFile ?ff (newStamp e)) = VFile ?ff (newStamp e) \<or> \<not> verifyDecrypt c (rb (VFile ?ff (newStamp e))) ?k"
    using assms(2) by (simp only: vop_legal.simps) blast
  have rd: "reads_as c pp (VFile ?ff (newStamp e)) = Some (vdata v)"
    using s assms(1) by (simp add: reads_VFile correct_def)
  show ?thesis
    using rb rd r s assms(3) by (auto simp: vault_Rotate_def Let_def deriveKey_def key_ok_def)
next
  case False
  then show ?thesis
    using assms(3) by (auto simp: vault_Rotate_def split: option.splits)
qed

definition vault_valid :: "'c crypto \<Rightarrow> 'c vstate \<Rightarrow> bool" where
  "vault_valid c s \<longleftrightarrow> correct c \<and> key_ok c (fst s)"

lemma do_vop_law:
  assumes "vault_valid c s" "vop_legal c p"
  shows "vault_valid c (fst (do_vop c p s))
    \<and> (snd (do_vop c p s) = Ok () \<longrightarrow> vdata (fst (fst (do_vop c p s))) = vop_effect p (vdata (fst s))
        \<and> reads_as c (vpass (fst (fst (do_vop c p s)))) (snd (fst (do_vop c p s))) = Some (vop_effect p (vdata (fst s))))
    \<and> (snd (do_vop c p s) \<noteq> Ok () \<longrightarrow>
        reads_as c (vpass (fst (fst (do_vop c p s)))) (snd (fst (do_vop c p s))) = reads_as c (vpass (fst s)) (snd s))"
proof -
  obtain v d where s: "s = (v, d)" by (cases s)
  have ok: "correct c" "key_ok c v"
    using assms(1) s by (simp_all add: vault_valid_def)
  have upd: "key_ok c (v\<lparr>vdata := m\<rparr>)" for m
    using ok(2) by (simp add: key_ok_def)
  show ?thesis
  proof (cases p)
    case (OpSet e k x)
    then show ?thesis
      using save_do [OF ok(1) upd, of e "(vdata v)(k \<mapsto> x)" d] assms(2) ok s by (auto simp: vault_Set_def vault_valid_def)
  next
    case (OpDelete e k)
    then show ?thesis
      using save_do [OF ok(1) upd, of e "(vdata v)(k := None)" d] assms(2) ok s by (auto simp: vault_Delete_def vault_valid_def)
  next
    case (OpRotate e rb pp)
    then show ?thesis
      using rotate_do [OF ok(1) _ ok(2), of e rb pp d] assms(2) ok s by (auto simp: vault_valid_def)
  qed
qed

interpretation vault_map: durable_document "\<lambda>p s. (fst (do_vop c p s), snd (do_vop c p s) = Ok ())"
  "\<lambda>s. vdata (fst s)" "\<lambda>s. reads_as c (vpass (fst s)) (snd s)" vop_effect "vop_legal c" "vault_valid c" for c
  by unfold_locales (use do_vop_law in auto)

definition run_vops :: "'c crypto \<Rightarrow> 'c vop list \<Rightarrow> 'c vstate \<Rightarrow> 'c vstate" where
  "run_vops c ops s = fold (\<lambda>p s. fst (do_vop c p s)) ops s"

lemma run_vops_run: "run_vops c ops s = vault_map.run c ops s"
  by (simp add: run_vops_def vault_map.run_def)

lemma reads_as_Some: "reads_as c pp d = Some m \<longleftrightarrow> (\<exists>w. Open_vault c pp (Some ''s'') d = Ok w \<and> vdata w = m)"
  by (auto simp: reads_as_def split: sum.splits)

text \<open>
  C24. The vault never locks its owner out and never loses a reported change. Open a vault file, legacy or new, and run any
  sequence of sets, deletes and rotations in which random numbers, writes, renames and the verification of a rotation may fail
  at any point: the file still opens with the passphrase the store then holds. And when a further operation reports success, a
  new process that opens the file finds exactly the map of the store with that operation applied.
\<close>
theorem vault_opens_and_keeps:
  assumes "correct c" and "Open_vault c pp (Some salt) d = Ok v" and "salt \<noteq> ''''"
    and "list_all (vop_legal c) ops" and "vop_legal c p"
  shows "(\<exists>w. Open_vault c (vpass (fst (run_vops c ops (v, d)))) (Some ''s'') (snd (run_vops c ops (v, d))) = Ok w)
    \<and> (snd (do_vop c p (run_vops c ops (v, d))) = Ok () \<longrightarrow>
        (\<exists>w. Open_vault c (vpass (fst (fst (do_vop c p (run_vops c ops (v, d)))))) (Some ''s'')
               (snd (fst (do_vop c p (run_vops c ops (v, d))))) = Ok w
             \<and> vdata w = vop_effect p (vdata (fst (run_vops c ops (v, d))))))"
proof -
  have v: "key_ok c v" "vpass v = pp" "reads_as c pp d = Some (vdata v)"
    using Open_vault_ok [OF assms(2)] assms(3) by simp_all
  then have valid: "vault_valid c (v, d)"
    using assms(1) by (simp add: vault_valid_def)
  have "reads_as c (vpass (fst (run_vops c ops (v, d)))) (snd (run_vops c ops (v, d))) \<noteq> None"
    using vault_map.run_stored [OF valid assms(4)] v by (simp add: run_vops_run)
  moreover have "snd (do_vop c p (run_vops c ops (v, d))) = Ok () \<longrightarrow>
      reads_as c (vpass (fst (fst (do_vop c p (run_vops c ops (v, d))))))
        (snd (fst (do_vop c p (run_vops c ops (v, d))))) = Some (vop_effect p (vdata (fst (run_vops c ops (v, d)))))"
    using vault_map.last_write_stored [OF valid assms(4,5)] by (simp add: run_vops_run)
  ultimately show ?thesis
    by (simp add: reads_as_Some)
qed

text \<open>A correct instance of the cryptography: the ciphertext is the plaintext under its key and nonce.\<close>

definition box :: "(string \<times> string \<times> (string \<rightharpoonup> string)) crypto" where
  "box =
     \<lparr>kdf = (\<lambda>p s. p @ s), seal = (\<lambda>k n m. (k, n, m)),
      unseal = (\<lambda>k n (k', n', m). if k = k' \<and> n = n' then Some m else None), legacy = (\<lambda>p. ''legacy'')\<rparr>"

lemma box_correct: "correct box"
  by (simp add: correct_def box_def)

definition good_save :: saving where
  "good_save = \<lparr>rndSalt = Some ''salt'', rndNonce = Some ''nonce'', writeOk = True, renameOk = True, newStamp = (1, 1)\<rparr>"

lemma good_save_simps [simp]:
  "rndSalt good_save = Some ''salt''" "rndNonce good_save = Some ''nonce''" "writeOk good_save" "renameOk good_save"
  "salted good_save"
  by (simp_all add: good_save_def salted_def)

text \<open>A legacy vault whose one secret is read, a failed write, a rotation, and a successful write.\<close>

definition old_file :: "(string \<times> string \<times> (string \<rightharpoonup> string)) vaultdisk" where
  "old_file = VFile \<lparr>ffSalt = '''', ffNonce = ''n'', ffCiphertext = (''pwlegacy'', ''n'', [''b'' \<mapsto> ''1''])\<rparr> (0, 0)"

theorem vault_opens_and_keeps_witness:
  "\<exists>v w. Open_vault box ''pw'' (Some ''x'') old_file = Ok v
     \<and> snd (do_vop box (OpSet good_save ''a'' ''2'')
         (run_vops box [OpSet (good_save\<lparr>writeOk := False\<rparr>) ''z'' ''9'', OpRotate good_save id ''new''] (v, old_file))) = Ok ()
     \<and> Open_vault box ''new'' (Some ''s'') (snd (fst (do_vop box (OpSet good_save ''a'' ''2'')
         (run_vops box [OpSet (good_save\<lparr>writeOk := False\<rparr>) ''z'' ''9'', OpRotate good_save id ''new''] (v, old_file))))) = Ok w
     \<and> vdata w ''a'' = Some ''2'' \<and> vdata w ''b'' = Some ''1''"
proof -
  let ?ops = "[OpSet (good_save\<lparr>writeOk := False\<rparr>) ''z'' ''9'', OpRotate good_save id ''new'']"
  let ?p = "OpSet good_save ''a'' ''2''"
  obtain v where v: "Open_vault box ''pw'' (Some ''x'') old_file = Ok v" "vdata v = [''b'' \<mapsto> ''1'']" "needsResalt v"
    by (simp add: Open_vault_def old_file_def box_def deriveKey_def legacySalt_def Let_def)
  have legal: "list_all (vop_legal box) ?ops" "vop_legal box ?p"
    by (simp_all add: salted_def good_save_def)
  note eval = run_vops_def vault_Set_def save_vault_def resalt_def vault_Rotate_def verifyDecrypt_def box_def good_save_def
    Let_def deriveKey_def
  have ok: "snd (do_vop box ?p (run_vops box ?ops (v, old_file))) = Ok ()"
    and pw: "vpass (fst (fst (do_vop box ?p (run_vops box ?ops (v, old_file))))) = ''new''"
    and dt: "vdata (fst (run_vops box ?ops (v, old_file))) = [''b'' \<mapsto> ''1'', ''z'' \<mapsto> ''9'']"
    using v by (simp_all add: eval)
  show ?thesis
    using vault_opens_and_keeps [OF box_correct v(1) _ legal] v(1) ok pw dt by auto
qed

text \<open>
  The verification of a rotation decrypts with the key in memory and never looks at the salt that was written: a
  temporary file whose salt is damaged passes, replaces the vault, and opens with neither passphrase.
\<close>
lemma rotation_verifies_without_salt:
  assumes "rb = (\<lambda>d. case d of VFile ff st \<Rightarrow> VFile (ff\<lparr>ffSalt := ''damaged''\<rparr>) st | _ \<Rightarrow> d)"
  shows "snd (vault_Rotate box good_save rb ''new'' (v, d)) = Ok ()
    \<and> reads_as box ''new'' (snd (fst (vault_Rotate box good_save rb ''new'' (v, d)))) = None
    \<and> reads_as box ''old'' (snd (fst (vault_Rotate box good_save rb ''new'' (v, d)))) = None"
  by (simp add: assms vault_Rotate_def verifyDecrypt_def box_def good_save_def Let_def deriveKey_def reads_VFile)

section \<open>Tenants\<close>

lemma New_user_ok: "New_user raw = Ok u \<Longrightarrow> u = raw \<and> raw \<noteq> '''' \<and> list_all user_char raw"
  by (auto simp: New_user_def split: if_splits)

lemma user_char_not: "\<not> user_char CHR '':''" "\<not> user_char CHR ''/''" "\<not> user_char CHR ''.''"
  by (simp_all add: user_char_def less_eq_char_def)

lemma valid_user_chars:
  "New_user raw = Ok u \<Longrightarrow> CHR '':'' \<notin> set u \<and> CHR ''/'' \<notin> set u \<and> CHR ''.'' \<notin> set u \<and> u \<noteq> ''''"
  using New_user_ok [of raw u] user_char_not by (auto simp: list_all_iff)

lemma colon_prefix_inj: "CHR '':'' \<notin> set u \<Longrightarrow> CHR '':'' \<notin> set u' \<Longrightarrow> u @ CHR '':'' # l = u' @ CHR '':'' # l' \<Longrightarrow> u = u'"
proof (induction u arbitrary: u')
  case Nil
  then show ?case by (cases u') auto
next
  case (Cons x u)
  then show ?case by (cases u') auto
qed

text \<open>The on-disk keys that belong to a user.\<close>

definition owned :: "string \<Rightarrow> string \<Rightarrow> bool" where
  "owned u k \<longleftrightarrow> HasPrefix k (u @ '':'')"

lemma global_no_colon: "IsGlobalKey k \<Longrightarrow> CHR '':'' \<notin> set k"
  by (auto simp: IsGlobalKey_def globalKeys_def)

lemma owned_iff: "owned u k \<longleftrightarrow> (\<exists>l. k = u @ CHR '':'' # l)"
  by (auto simp: owned_def HasPrefix_iff_prefix prefix_def)

lemma user_key_owned: "owned u (user_key u l) \<or> IsGlobalKey (user_key u l)"
  by (auto simp: user_key_def owned_iff)

lemma user_key_not_owned:
  assumes "CHR '':'' \<notin> set u" "CHR '':'' \<notin> set u'" "u \<noteq> u'"
  shows "\<not> owned u' (user_key u l)"
proof
  assume "owned u' (user_key u l)"
  then obtain t where t: "user_key u l = u' @ CHR '':'' # t"
    by (auto simp: owned_iff)
  show False
  proof (cases "IsGlobalKey l")
    case True
    with t global_no_colon [OF True] show False by (simp add: user_key_def)
  next
    case False
    with t colon_prefix_inj [OF assms(1,2), of l t] assms(3) show False by (simp add: user_key_def)
  qed
qed

lemma meta_not_global: "\<not> IsGlobalKey metaLogicalKey"
  by (simp add: IsGlobalKey_def globalKeys_def metaLogicalKey_def)

lemma save_vault_data: "vdata (fst (fst (save_vault c e s))) = vdata (fst s)"
  by (auto simp: save_vault_def resalt_def Let_def split: prod.splits option.splits if_splits)

lemma vault_Set_data: "vdata (fst (fst (vault_Set c e k x s))) = (vdata (fst s))(k \<mapsto> x)"
  by (simp add: vault_Set_def save_vault_data split: prod.splits)

lemma vault_Delete_data: "vdata (fst (fst (vault_Delete c e k s))) = (vdata (fst s))(k := None)"
  by (simp add: vault_Delete_def save_vault_data split: prod.splits)

text \<open>An operation of user \<open>u\<close> writes only keys that \<open>u\<close> owns or that are global.\<close>

definition frames :: "string \<Rightarrow> 'c vstate \<Rightarrow> 'c vstate \<Rightarrow> bool" where
  "frames u s s1 \<longleftrightarrow> (\<forall>k. \<not> owned u k \<longrightarrow> \<not> IsGlobalKey k \<longrightarrow> vdata (fst s1) k = vdata (fst s) k)"

lemma frames_refl [simp]: "frames u s s"
  by (simp add: frames_def)

lemma frames_trans: "frames u s s1 \<Longrightarrow> frames u s1 s2 \<Longrightarrow> frames u s s2"
  by (simp add: frames_def)

lemma frames_Set: "frames u s (fst (vault_Set c e (user_key u l) x s))"
  using user_key_owned [of u l] by (auto simp: frames_def vault_Set_data)

lemma frames_Delete: "frames u s (fst (vault_Delete c e (user_key u l) s))"
  using user_key_owned [of u l] by (auto simp: frames_def vault_Delete_data)

lemma frames_saveMeta: "frames u s (fst (saveMeta e u m s))"
  by (simp add: saveMeta_def frames_Set frames_Delete)

lemma frames_SetWithMeta: "frames u s (fst (SetWithMeta e u k x m s))"
proof -
  obtain s1 r where r: "vault_Set (vcrypto e) (save1 e) (user_key u k) x s = (s1, r)"
    by fastforce
  then have 1: "frames u s s1"
    using frames_Set [of u s "vcrypto e" "save1 e" k x] by simp
  have "frames u s (fst (saveMeta e u mm s1))" for mm
    using 1 frames_saveMeta by (rule frames_trans)
  then show ?thesis
    using r 1 by (simp add: SetWithMeta_def SetMeta_def Let_def split: sum.splits)
qed

lemma frames_UserVault_Delete: "frames u s (fst (UserVault_Delete e u k s))"
proof -
  obtain s1 r where r: "vault_Delete (vcrypto e) (save1 e) (user_key u k) s = (s1, r)"
    by fastforce
  then have 1: "frames u s s1"
    using frames_Delete [of u s "vcrypto e" "save1 e" k] by simp
  have "frames u s (fst (saveMeta e u mm s1))" for mm
    using 1 frames_saveMeta by (rule frames_trans)
  then show ?thesis
    using r 1 by (simp add: UserVault_Delete_def Let_def split: sum.splits)
qed

text \<open>The state after a request, operation by operation.\<close>

lemma fst_case_sum [simp]: "fst (case r of (s1, Inl x) \<Rightarrow> (s1, f x) | (s1, Inr y) \<Rightarrow> (s1, g y)) = fst r"
  by (simp split: prod.splits sum.splits)

lemma handle_set_state:
  "fst (handle_set e opts u req body s) = s
   \<or> (\<exists>k x m. fst (handle_set e opts u req body s) = fst (SetWithMeta e u k x m s))"
  by (auto simp: handle_set_def case_prod_beta' split: option.splits sum.splits)

lemma handle_delete_state:
  "fst (handle_delete e u req body s) = s \<or> (\<exists>k. fst (handle_delete e u req body s) = fst (UserVault_Delete e u k s))"
  by (auto simp: handle_delete_def Let_def case_prod_beta' split: option.splits sum.splits)

lemma handle_reads_state:
  "fst (handle_list e lower ks u req s) = s" "fst (handle_get e u req s) = s"
  by (simp_all add: handle_list_def handle_get_def Let_def split: option.splits)

lemma frames_Handler: "frames u s (fst (UserVault_Handler e opts lower ks u req body s))"
proof -
  have "frames u s (fst (handle_set e opts u req body s))"
    using handle_set_state [of e opts u req body s] frames_SetWithMeta [of u s e] by auto
  moreover have "frames u s (fst (handle_delete e u req body s))"
    using handle_delete_state [of e u req body s] frames_UserVault_Delete [of u s e] by auto
  ultimately show ?thesis
    by (simp add: UserVault_Handler_def handle_reads_state)
qed

text \<open>Two vaults that user \<open>u\<close> cannot tell apart: they agree on the keys \<open>u\<close> owns and on the global ones.\<close>

definition agree :: "string \<Rightarrow> 'c vstate \<Rightarrow> 'c vstate \<Rightarrow> bool" where
  "agree u s t \<longleftrightarrow> needsResalt (fst s) = needsResalt (fst t)
     \<and> (\<forall>k. owned u k \<or> IsGlobalKey k \<longrightarrow> vdata (fst s) k = vdata (fst t) k)"

lemma save_vault_needs:
  "snd (save_vault c e s) = snd (save_vault c e t) \<and>
   needsResalt (fst (fst (save_vault c e s))) = needsResalt (fst (fst (save_vault c e t)))"
  if "needsResalt (fst s) = needsResalt (fst t)"
  using that by (cases "rndSalt e"; cases "rndNonce e")
    (auto simp: save_vault_def resalt_def Let_def split: prod.splits)

lemma agree_Set:
  assumes "agree u s t"
  shows "snd (vault_Set c e k x s) = snd (vault_Set c e k x t)
    \<and> agree u (fst (vault_Set c e k x s)) (fst (vault_Set c e k x t))"
proof -
  obtain v d w d' where st: "s = (v, d)" "t = (w, d')" by (cases s; cases t)
  show ?thesis
    using save_vault_needs [of "(v\<lparr>vdata := (vdata v)(k \<mapsto> x)\<rparr>, d)" "(w\<lparr>vdata := (vdata w)(k \<mapsto> x)\<rparr>, d')" c e] assms st
    by (simp add: agree_def vault_Set_def save_vault_data)
qed

lemma agree_Delete:
  assumes "agree u s t"
  shows "snd (vault_Delete c e k s) = snd (vault_Delete c e k t)
    \<and> agree u (fst (vault_Delete c e k s)) (fst (vault_Delete c e k t))"
proof -
  obtain v d w d' where st: "s = (v, d)" "t = (w, d')" by (cases s; cases t)
  show ?thesis
    using save_vault_needs [of "(v\<lparr>vdata := (vdata v)(k := None)\<rparr>, d)" "(w\<lparr>vdata := (vdata w)(k := None)\<rparr>, d')" c e] assms st
    by (simp add: agree_def vault_Delete_def save_vault_data)
qed

lemma agree_Get: "agree u s t \<Longrightarrow> UserVault_Get u (fst s) k = UserVault_Get u (fst t) k"
  using user_key_owned [of u k] by (auto simp: agree_def UserVault_Get_def vault_Get_def)

lemma agree_loadMeta: "agree u s t \<Longrightarrow> loadMeta e u (fst s) = loadMeta e u (fst t)"
  using agree_Get [of u s t metaLogicalKey] by (simp add: loadMeta_def UserVault_Get_def)

lemma agree_targetFor: "agree u s t \<Longrightarrow> targetFor e u (fst s) k = targetFor e u (fst t) k"
  using agree_loadMeta [of u s t e] by (simp add: targetFor_def)

lemma agree_List:
  assumes "agree u s t"
  shows "UserVault_List u ks (fst s) = UserVault_List u ks (fst t)"
proof -
  have "filter (owned u) (vault_List ks (fst s)) = filter (owned u) (vault_List ks (fst t))"
    using assms by (auto simp: vault_List_def filter_sort agree_def intro!: arg_cong [where f = sort] filter_cong)
  then show ?thesis
    by (simp add: UserVault_List_def owned_def [abs_def])
qed

lemma agree_saveMeta:
  assumes "agree u s t"
  shows "snd (saveMeta e u m s) = snd (saveMeta e u m t)"
  using agree_Set [OF assms] agree_Delete [OF assms] agree_Get [OF assms, of metaLogicalKey]
  by (simp add: saveMeta_def UserVault_Get_def)

lemma agree_SetMeta: "agree u s t \<Longrightarrow> snd (SetMeta e u k m s) = snd (SetMeta e u k m t)"
  using agree_saveMeta [of u s t] agree_loadMeta [of u s t e] by (simp add: SetMeta_def Let_def)

lemma agree_SetWithMeta:
  assumes "agree u s t"
  shows "snd (SetWithMeta e u k x m s) = snd (SetWithMeta e u k x m t)"
proof -
  obtain s1 r t1 r' where 1: "vault_Set (vcrypto e) (save1 e) (user_key u k) x s = (s1, r)"
      "vault_Set (vcrypto e) (save1 e) (user_key u k) x t = (t1, r')"
    by fastforce
  with agree_Set [OF assms, of "vcrypto e" "save1 e" "user_key u k" x] have "r = r'" "agree u s1 t1"
    by simp_all
  then show ?thesis
    using 1 agree_SetMeta [of u s1 t1 e k m] by (auto simp: SetWithMeta_def split: sum.splits)
qed

lemma agree_UserVault_Delete:
  assumes "agree u s t"
  shows "snd (UserVault_Delete e u k s) = snd (UserVault_Delete e u k t)"
proof -
  obtain s1 r t1 r' where 1: "vault_Delete (vcrypto e) (save1 e) (user_key u k) s = (s1, r)"
      "vault_Delete (vcrypto e) (save1 e) (user_key u k) t = (t1, r')"
    by fastforce
  with agree_Delete [OF assms, of "vcrypto e" "save1 e" "user_key u k"] have "r = r'" "agree u s1 t1"
    by simp_all
  then show ?thesis
    using 1 agree_saveMeta [of u s1 t1] agree_loadMeta [of u s1 t1 e]
    by (auto simp: UserVault_Delete_def Let_def split: sum.splits)
qed

lemma agree_Handler:
  assumes "agree u s t"
  shows "snd (UserVault_Handler e opts lower ks u req body s) = snd (UserVault_Handler e opts lower ks u req body t)"
proof -
  have "snd (handle_list e lower ks u req s) = snd (handle_list e lower ks u req t)"
    using agree_List [OF assms] agree_loadMeta [OF assms, of e] by (simp add: handle_list_def ListEntries_def Let_def)
  moreover have "snd (handle_get e u req s) = snd (handle_get e u req t)"
    using agree_Get [OF assms, of "Query req ''key''"] agree_targetFor [OF assms, of e "Query req ''key''"]
    by (simp add: handle_get_def Let_def split: option.splits)
  moreover have "snd (handle_set e opts u req body s) = snd (handle_set e opts u req body t)"
    using agree_SetWithMeta [OF assms, of e]
    by (auto simp: handle_set_def case_prod_beta' split: option.splits sum.splits)
  moreover have "snd (handle_delete e u req body s) = snd (handle_delete e u req body t)"
    using agree_UserVault_Delete [OF assms, of e] agree_targetFor [OF assms, of e]
    by (auto simp: handle_delete_def Let_def case_prod_beta' split: option.splits sum.splits)
  ultimately show ?thesis
    by (simp add: UserVault_Handler_def)
qed

text \<open>
  C4. Tenants are isolated. Whatever request a user sends to \<open>/api/secrets\<close>, the entries stored for any other user
  (keys, values and metadata) are the same afterwards, and the response and the audit record are the same in
  every vault that holds the same entries of this user and the same daemon-wide keys, whatever the other users keep there.
\<close>
theorem tenants_isolated:
  assumes "New_user user = Ok u" and "New_user other = Ok u'" and "u \<noteq> u'" and "agree u s t"
  shows "vdata (fst (fst (secrets_mount e isPrimary lower ks user req body s))) (u' @ '':'' @ l)
           = vdata (fst s) (u' @ '':'' @ l)
    \<and> snd (secrets_mount e isPrimary lower ks user req body s) = snd (secrets_mount e isPrimary lower ks user req body t)"
proof -
  have c: "CHR '':'' \<notin> set u" "CHR '':'' \<notin> set u'" "user \<noteq> ''''"
    using valid_user_chars [OF assms(1)] valid_user_chars [OF assms(2)] New_user_ok [OF assms(1)] by auto
  have "\<not> IsGlobalKey (u' @ '':'' @ l)"
    using global_no_colon [of "u' @ '':'' @ l"] by auto
  moreover have "\<not> owned u (u' @ '':'' @ l)"
    using colon_prefix_inj [OF c(2,1)] assms(3) by (auto simp: owned_iff)
  ultimately show ?thesis
    using frames_Handler [of u s e] agree_Handler [OF assms(4)] assms(1) c(3)
    by (simp add: secrets_mount_def frames_def)
qed

definition sample_env :: "(string \<times> string \<times> (string \<rightharpoonup> string)) venv" where
  "sample_env = \<lparr>vcrypto = box, vcodec = \<lparr>marshal = (\<lambda>_. ''{}''), unmarshal = (\<lambda>_. Map.empty)\<rparr>,
     save1 = good_save, save2 = good_save, vnow = 7\<rparr>"

definition sample_vault :: vault where
  "sample_vault = \<lparr>vpass = ''pw'', vkey = ''pwsalt'', vsalt = ''salt'',
     vdata = [''ana:token'' \<mapsto> ''1'', ''bob:token'' \<mapsto> ''2'', ''adguard_password'' \<mapsto> ''hunter2''],
     vstamp = (0, 0), needsResalt = False\<rparr>"

definition get_request :: "string \<Rightarrow> request" where
  "get_request k = (plain_request MethodGet ''/get'')\<lparr>Query := (\<lambda>_. k)\<rparr>"

lemma New_ana_bob: "New_user ''ana'' = Ok ''ana''" "New_user ''bob'' = Ok ''bob''"
  by (code_simp, code_simp)

theorem tenants_isolated_witness:
  "New_user ''ana'' = Ok ''ana''
   \<and> vdata (fst (fst (secrets_mount sample_env (\<lambda>_. False) id [] ''ana'' (get_request ''bob'') None (sample_vault, VNone)))) ''bob:token''
       = Some ''2''"
proof -
  have "agree ''ana'' (sample_vault, VNone :: (string \<times> string \<times> (string \<rightharpoonup> string)) vaultdisk) (sample_vault, VNone)"
    by (simp add: agree_def)
  from tenants_isolated [OF New_ana_bob _ this, of sample_env "\<lambda>_. False" id "[]" "get_request ''bob''" None "''token''"]
  show ?thesis
    by (simp add: New_ana_bob sample_vault_def)
qed

text \<open>
  The daemon-wide keys are within reach of every account. Any valid user, primary or not, reads the value of a
  global key that the vault holds (the AdGuard password, say) with one GET, replaces it with one POST, and removes it with another,
  although the listing hides those keys.
\<close>
theorem any_user_reaches_global_keys:
  assumes "New_user user = Ok u" and "IsGlobalKey k" and "vdata (fst s) k = Some secret"
    and "Method req = MethodGet" and "Path req = ''/get''" and "Query req ''key'' = k"
    and "Method post = MethodPost" and "Path post = ''/set''" and "Path del = ''/delete''" and "Method del = MethodPost"
    and "length x \<le> 65536"
  shows "(\<exists>target. snd (secrets_mount e isPrimary lower ks user req body s) = (VRevealed k secret, [(''secrets.reveal'', target)]))
    \<and> vdata (fst (fst (secrets_mount e isPrimary lower ks user post
        (Some \<lparr>bKey = k, bValue = x, bGroup = '''', bType = '''', bNotes = ''''\<rparr>) s))) k = Some x
    \<and> vdata (fst (fst (secrets_mount e isPrimary lower ks user del
        (Some \<lparr>bKey = k, bValue = '''', bGroup = '''', bType = '''', bNotes = ''''\<rparr>) s))) k = None
    \<and> \<not> owned u k"
proof -
  have u: "user \<noteq> ''''" "CHR '':'' \<notin> set u"
    using New_user_ok [OF assms(1)] valid_user_chars [OF assms(1)] by auto
  have k: "validLogicalKey k" "user_key u k = k"
    using assms(2) by (auto simp: validLogicalKey_def user_key_def IsGlobalKey_def globalKeys_def metaLogicalKey_def)
  have own: "\<not> owned u k" "k \<noteq> user_key u metaLogicalKey"
    using global_no_colon [OF assms(2)] meta_not_global by (auto simp: owned_iff user_key_def)
  have get: "UserVault_Get u (fst s) k = Some secret"
    using assms(3) k by (simp add: UserVault_Get_def vault_Get_def)
  have meta: "vdata (fst (fst (saveMeta e u m s1))) k = vdata (fst s1) k" for m s1
    using own(2) by (simp add: saveMeta_def vault_Set_data vault_Delete_data)
  have set: "vdata (fst (fst (SetWithMeta e u k x m s))) k = Some x" for m
    using vault_Set_data [of "vcrypto e" "save1 e" "user_key u k" x s] k meta
    by (auto simp: SetWithMeta_def SetMeta_def Let_def split: prod.splits sum.splits)
  have del: "vdata (fst (fst (UserVault_Delete e u k s))) k = None"
    using vault_Delete_data [of "vcrypto e" "save1 e" "user_key u k" s] k meta
    by (auto simp: UserVault_Delete_def Let_def split: prod.splits sum.splits)
  show ?thesis
    using assms u k own get set del
    by (simp add: secrets_mount_def UserVault_Handler_def handle_get_def handle_set_def handle_delete_def Let_def
      maxValue_def case_prod_beta' method_defs split: sum.splits)
qed

definition at_path :: "string \<Rightarrow> request" where
  "at_path p = plain_request MethodPost p"

theorem any_user_reaches_global_keys_witness:
  "(\<exists>target. snd (secrets_mount sample_env (\<lambda>_. False) id [] ''ana'' (get_request ''adguard_password'') None (sample_vault, VNone))
      = (VRevealed ''adguard_password'' ''hunter2'', [(''secrets.reveal'', target)]))
   \<and> vdata (fst (fst (secrets_mount sample_env (\<lambda>_. False) id [] ''ana'' (at_path ''/set'')
        (Some \<lparr>bKey = ''adguard_password'', bValue = ''mine'', bGroup = '''', bType = '''', bNotes = ''''\<rparr>) (sample_vault, VNone))))
      ''adguard_password'' = Some ''mine''"
proof -
  have g: "IsGlobalKey ''adguard_password''" "vdata (fst (sample_vault, VNone :: (string \<times> string \<times> (string \<rightharpoonup> string)) vaultdisk)) ''adguard_password'' = Some ''hunter2''"
    by (simp_all add: IsGlobalKey_def globalKeys_def sample_vault_def)
  show ?thesis
    using any_user_reaches_global_keys [OF New_ana_bob(1) g, of "get_request ''adguard_password''" "at_path ''/set''"
      "at_path ''/delete''" "''mine''" sample_env "\<lambda>_. False" id "[]" None]
    by (simp add: get_request_def at_path_def plain_request_def)
qed

section \<open>Directories\<close>

lemma valid_user_ordinary: "New_user raw = Ok u \<Longrightarrow> ordinary u"
  using valid_user_chars [of raw u] by (auto simp: ordinary_def)

text \<open>
  The directories of two users never overlap. For valid names, every directory that holds a user's data lies
  below that user's root, the roots differ, and no directory of one user lies below the root of another, whatever the
  data directory is (relative, absolute, with dots or double slashes).
\<close>
theorem tenant_directories_disjoint:
  assumes "New_user raw = Ok u" and "New_user raw' = Ok u'" and "u \<noteq> u'" and "dataDir \<noteq> ''''"
  shows "list_all (\<lambda>p. HasPrefix p (pRoot (PathsFor dataDir u) @ ''/''))
      [pWhatsapp (PathsFor dataDir u), pUploads (PathsFor dataDir u), pBrowser (PathsFor dataDir u)]
    \<and> pRoot (PathsFor dataDir u') \<noteq> pRoot (PathsFor dataDir u)
    \<and> list_all (\<lambda>p. \<not> HasPrefix p (pRoot (PathsFor dataDir u) @ ''/''))
      [pRoot (PathsFor dataDir u'), pWhatsapp (PathsFor dataDir u'), pUploads (PathsFor dataDir u'), pBrowser (PathsFor dataDir u')]"
proof -
  have o: "ordinary u" "ordinary u'" "ordinary ''users''" "ordinary ''whatsapp''" "ordinary ''uploads''" "ordinary ''browser''"
    using valid_user_ordinary [OF assms(1)] valid_user_ordinary [OF assms(2)] by (simp_all add: ordinary_def)
  have in_root: "HasPrefix (Join [Join [dataDir, ''users'', v], w]) (Join [dataDir, ''users'', v] @ ''/'')"
    if "ordinary v" "ordinary w" for v w
    using Join_inside [OF assms(4), of "[''users'', v]" "[w]"] that o by simp
  have root: "\<not> HasPrefix (Join [dataDir, ''users'', u']) (Join [dataDir, ''users'', u] @ ''/'')"
    using Join_disjoint [OF assms(4), of "[''users'']" u u' "[]"] o assms(3) by simp
  have flat: "Join [Join [dataDir, ''users'', u'], w] = Join [dataDir, ''users'', u', w]" if "ordinary w" for w
    using Join_ordinary [of "Join [dataDir, ''users'', u']" "[w]"] Join_elements [OF assms(4), of "[''users'', u']"]
      Join_ordinary [OF assms(4), of "[''users'', u', w]"] o that by simp
  have out: "\<not> HasPrefix (Join [Join [dataDir, ''users'', u'], w]) (Join [dataDir, ''users'', u] @ ''/'')"
    if "ordinary w" for w
    using Join_disjoint [OF assms(4), of "[''users'']" u u' "[w]"] o assms(3) that by (simp add: flat)
  have "elements (Join [dataDir, ''users'', u']) \<noteq> elements (Join [dataDir, ''users'', u])"
    using Join_elements [OF assms(4), of "[''users'', u']"] Join_elements [OF assms(4), of "[''users'', u]"] o assms(3) by simp
  then have "Join [dataDir, ''users'', u'] \<noteq> Join [dataDir, ''users'', u]"
    by auto
  with in_root out root o show ?thesis
    by (simp add: PathsFor_def Let_def)
qed

theorem tenant_directories_disjoint_witness:
  "pRoot (PathsFor ''./data//'' ''ana'') = ''data/users/ana''
   \<and> pRoot (PathsFor ''./data//'' ''bob'') \<noteq> pRoot (PathsFor ''./data//'' ''ana'')"
proof -
  have "pRoot (PathsFor ''./data//'' ''ana'') = ''data/users/ana''"
    by code_simp
  moreover have "pRoot (PathsFor ''./data//'' ''bob'') \<noteq> pRoot (PathsFor ''./data//'' ''ana'')"
    using tenant_directories_disjoint [OF New_ana_bob, of "''./data//''"] by simp
  ultimately show ?thesis by simp
qed

end
