(* ===== verification/TodosProps.thy ===== *)
theory TodosProps
  imports Todos VaultProps
begin

text \<open>
  What the maintenance checklist guarantees: identifiers are always produced and differ when the clock does, the file is
  a map from identifiers to records that each operation changes at one point, the listing is the stable sort by status and
  urgency, its summary counts every record once, and no request of one user reaches the file of another.
\<close>

section \<open>Numbers as text\<close>

definition digit_value :: "char \<Rightarrow> int" where
  "digit_value c = int (length (takeWhile (\<lambda>d. d \<noteq> c) digits))"

definition number :: "int \<Rightarrow> string \<Rightarrow> int" where
  "number base s = foldl (\<lambda>v c. v * base + digit_value c) 0 s"

lemma digit_value_nth: "0 \<le> k \<Longrightarrow> k < 36 \<Longrightarrow> digit_value (digits ! nat k) = k"
proof -
  have "list_all (\<lambda>i. digit_value (digits ! i) = int i) [0..<36]"
    by code_simp
  moreover assume "0 \<le> k" "k < 36"
  ultimately show ?thesis
    by (auto simp: list_all_iff dest: bspec [where x = "nat k"])
qed

lemma zdiv_less_iff: "0 < b \<Longrightarrow> n div b < m \<longleftrightarrow> n < b * (m :: int)"
proof -
  assume b: "0 < b"
  have "n = b * (n div b) + n mod b" "0 \<le> n mod b" "n mod b < b"
    using b by simp_all
  moreover have "b * (n div b) + b \<le> b * m" if "n div b < m"
    using b that mult_left_mono [of "n div b + 1" m b] by (simp add: distrib_left)
  moreover have "b * m \<le> b * (n div b)" if "m \<le> n div b"
    using b that by simp
  ultimately show ?thesis by linarith
qed

lemma zle_div_iff: "0 < b \<Longrightarrow> m \<le> n div b \<longleftrightarrow> b * m \<le> (n :: int)"
  using zdiv_less_iff [of b n m] by linarith

text \<open>A number below \<open>base ^ k\<close> needs at most \<open>k\<close> digits, which are those of the number.\<close>

lemma put_digits_number:
  assumes "2 \<le> base" "base \<le> 36"
  shows "0 \<le> n \<Longrightarrow> n < base ^ k \<Longrightarrow> k \<le> pos \<Longrightarrow>
    \<exists>s. put_digits base pos n acc = Some (s @ acc) \<and> length s \<le> k \<and> number base s = n"
proof (induction k arbitrary: pos n acc)
  case 0
  then show ?case
    by (intro exI [of _ "[]"]) (simp add: put_digits.simps number_def)
next
  case (Suc k)
  show ?case
  proof (cases "n = 0")
    case True
    then show ?thesis
      by (intro exI [of _ "[]"]) (simp add: put_digits.simps number_def)
  next
    case False
    obtain p where p: "pos = Suc p" "k \<le> p"
      using Suc.prems(3) by (cases pos) auto
    have m: "0 \<le> n mod base" "n mod base < 36"
      using assms pos_mod_sign [of base n] pos_mod_bound [of base n] by linarith+
    have "n div base < base ^ k"
      using Suc.prems(2) assms(1) by (simp add: zdiv_less_iff)
    moreover have "0 \<le> n div base"
      using Suc.prems(1) assms(1) by (simp add: pos_imp_zdiv_nonneg_iff)
    ultimately obtain s where s: "put_digits base p (n div base) (digits ! nat (n mod base) # acc) =
        Some (s @ digits ! nat (n mod base) # acc)" "length s \<le> k" "number base s = n div base"
      using Suc.IH [of "n div base" p "digits ! nat (n mod base) # acc"] p(2) by blast
    have "number base (s @ [digits ! nat (n mod base)]) = n"
      using s(3) digit_value_nth [OF m] by (simp add: number_def)
    moreover have "put_digits base pos n acc = Some ((s @ [digits ! nat (n mod base)]) @ acc)"
      using s(1) p m False Suc.prems(1) assms by (simp add: put_digits.simps [of base "Suc p"])
    ultimately show ?thesis
      using s(2) by (intro exI [of _ "s @ [digits ! nat (n mod base)]"]) simp
  qed
qed

text \<open>A number of more than \<open>k\<close> digits does not fit a buffer of \<open>k\<close> bytes.\<close>

lemma put_digits_none:
  assumes "2 \<le> base" "base \<le> 36"
  shows "base ^ pos \<le> n \<Longrightarrow> put_digits base pos n acc = None"
proof (induction pos arbitrary: n acc)
  case (Suc p)
  have "base ^ p \<le> n div base"
    using Suc.prems assms(1) by (simp add: zle_div_iff)
  moreover have "n > 0"
    using Suc.prems assms(1) zero_less_power [of base "Suc p"] by linarith
  ultimately show ?case
    using Suc.IH by (simp add: put_digits.simps [of base "Suc p"])
qed (simp add: put_digits.simps)

lemma wrap64_range: "- (2 ^ 63) \<le> wrap64 x" "wrap64 x < 2 ^ 63"
  by (simp_all add: wrap64_def)

lemma strconvFormatInt_36:
  "- (2 ^ 63) < n \<Longrightarrow> n < 2 ^ 63 \<Longrightarrow>
    \<exists>s. strconvFormatInt n 36 = Some s \<and> length s \<le> 13 \<and> number 36 s = \<bar>n\<bar>"
proof -
  assume n: "- (2 ^ 63) < n" "n < 2 ^ 63"
  have abs: "(if n < 0 then neg64 n else n) = \<bar>n\<bar>"
    using n by (simp add: neg64_def wrap64_id)
  have "\<bar>n\<bar> < 36 ^ 13"
    using n by simp
  then have "\<exists>s. put_digits 36 16 \<bar>n\<bar> [] = Some (s @ []) \<and> length s \<le> 13 \<and> number 36 s = \<bar>n\<bar>"
    by (intro put_digits_number) simp_all
  moreover have "number 36 ''0'' = 0"
    by code_simp
  ultimately show ?thesis
    using abs by (cases "n = 0") (auto simp: strconvFormatInt_def)
qed

lemma newID_inj:
  "0 \<le> t \<Longrightarrow> t < 2 ^ 63 \<Longrightarrow> 0 \<le> t' \<Longrightarrow> t' < 2 ^ 63 \<Longrightarrow> todo_newID t = todo_newID t' \<Longrightarrow> t = t'"
  using strconvFormatInt_36 [of t] strconvFormatInt_36 [of t'] by (auto simp: todo_newID_def wrap64_id)

lemma newID_Some: "0 \<le> t \<Longrightarrow> t < 2 ^ 63 \<Longrightarrow> \<exists>i. todo_newID t = Some i"
  using strconvFormatInt_36 [of t] by (auto simp: todo_newID_def wrap64_id)

text \<open>
  C40. Making an identifier always ends and never runs out of its buffer. For every reading of the clock the conversion to base
  36 returns, with at most 13 digits in the 16 byte buffer; and two readings of the nanosecond clock that differ, from 1970 to
  2262, give different identifiers.
\<close>
theorem new_ids_total_and_distinct:
  "(\<exists>s. todo_newID t = Some (''t_'' @ s) \<and> length s \<le> 13)
   \<and> (0 \<le> t \<and> t < 2 ^ 63 \<and> 0 \<le> t' \<and> t' < 2 ^ 63 \<and> todo_newID t = todo_newID t' \<longrightarrow> t = t')"
proof -
  have "\<exists>s. strconvFormatInt (wrap64 t) 36 = Some s \<and> length s \<le> 13"
  proof (cases "wrap64 t = - (2 ^ 63)")
    case True
    then have "strconvFormatInt (wrap64 t) 36 = put_digits 36 16 (- (2 ^ 63)) []"
      by (simp add: strconvFormatInt_def neg64_def wrap64_def)
    then show ?thesis by (simp add: put_digits.simps)
  next
    case False
    then show ?thesis
      using strconvFormatInt_36 [of "wrap64 t"] wrap64_range [of t] by auto
  qed
  then show ?thesis
    using newID_inj [of t t'] by (auto simp: todo_newID_def)
qed

theorem new_ids_total_and_distinct_witness:
  "todo_newID 1700000000000000000 = Some ''t_cwyvpelgpse8'' \<and> todo_newID 1700000000000000000 \<noteq> todo_newID 1700000000000000001"
proof -
  have "todo_newID 1700000000000000000 = Some ''t_cwyvpelgpse8''"
    by code_simp
  moreover have "todo_newID 1700000000000000000 \<noteq> todo_newID 1700000000000000001"
    using new_ids_total_and_distinct [of 1700000000000000000 1700000000000000001] by auto
  ultimately show ?thesis ..
qed

text \<open>\<open>itoa\<close> has ten bytes, the sign included: it returns for these numbers.\<close>
lemma itoa_returns: "- (10 ^ 9) < n \<Longrightarrow> n < 10 ^ 10 \<Longrightarrow> \<exists>s. itoa n = Some s"
proof -
  assume n: "- (10 ^ 9) < n" "n < 10 ^ 10"
  have neg: "\<exists>s. put_digits 10 10 (- n) [] = Some s \<and> length s \<le> 9" if "n < 0"
    using put_digits_number [of 10 "- n" 9 10 "[]"] that n by auto
  moreover have "\<exists>s. put_digits 10 10 n [] = Some s" if "0 \<le> n"
    using put_digits_number [of 10 n 10 10 "[]"] that n by auto
  ultimately show ?thesis
    using n by (auto simp: itoa_def neg64_def wrap64_id)
qed

section \<open>Listing\<close>

text \<open>When the comparison is that of a key, \<open>sort.SliceStable\<close> is the stable sort by the key.\<close>

lemma slice_stable_key:
  assumes "\<And>a b. lt a b \<longleftrightarrow> key a < (key b :: 'k :: linorder)"
  shows "slice_stable lt xs = sort_key key xs"
proof -
  have "insert_stable lt x ys = insort_key key x ys" for x ys
    by (induction ys) (auto simp: assms not_less)
  then have "insert_stable lt = insort_key key"
    by (intro ext)
  then show ?thesis
    by (simp add: slice_stable_def sort_key_def)
qed

text \<open>Status first, then records with a due date by that date, then those without one by their creation.\<close>

definition urgency :: "Todo \<Rightarrow> int \<times> bool \<times> int" where
  "urgency t = (groupKey t, tDue t = 0, if tDue t = 0 then tCreated t else tDue t)"

lemma todo_less_urgency: "todo_less a b \<longleftrightarrow> urgency a < urgency b"
  by (auto simp: todo_less_def urgency_def)

definition in_bucket :: "Bucket \<Rightarrow> nanos \<Rightarrow> Todo list \<Rightarrow> nat" where
  "in_bucket b now ts = length (filter (\<lambda>t. BucketOf t now = b) ts)"

lemma SummaryOf_fold:
  "fold (\<lambda>t s. count_bucket (BucketOf t now) s) ts s =
    \<lparr>sumOverdue = sumOverdue s + in_bucket BucketOverdue now ts, sumWeek = sumWeek s + in_bucket BucketWeek now ts,
     sumMonth = sumMonth s + in_bucket BucketMonth now ts, sumFuture = sumFuture s + in_bucket BucketFuture now ts,
     sumDone = sumDone s + in_bucket BucketDone now ts\<rparr>"
proof (induction ts arbitrary: s)
  case (Cons t ts)
  then show ?case
    by (cases "BucketOf t now") (simp_all add: in_bucket_def count_bucket_def)
qed (simp add: in_bucket_def)

lemma SummaryOf_counts:
  "SummaryOf ts now =
    \<lparr>sumOverdue = in_bucket BucketOverdue now ts, sumWeek = in_bucket BucketWeek now ts, sumMonth = in_bucket BucketMonth now ts,
     sumFuture = in_bucket BucketFuture now ts, sumDone = in_bucket BucketDone now ts\<rparr>"
  by (simp add: SummaryOf_def SummaryOf_fold)

lemma in_bucket_mset: "mset xs = mset ys \<Longrightarrow> in_bucket b now xs = in_bucket b now ys"
  unfolding in_bucket_def by (metis mset_filter size_mset)

lemma buckets_partition:
  "in_bucket BucketOverdue now ts + in_bucket BucketWeek now ts + in_bucket BucketMonth now ts
    + in_bucket BucketFuture now ts + in_bucket BucketDone now ts = length ts"
proof (induction ts)
  case (Cons t ts)
  then show ?case
    by (cases "BucketOf t now") (simp_all add: in_bucket_def)
qed (simp add: in_bucket_def)

text \<open>
  The listing shows every record once, most urgent first. For a file that can be read the answer holds exactly its
  records, in the order of a stable sort by status, then due date, then creation for those without a date; the five counts of
  its summary are those of the file, whatever the order, and add up to the number of records.
\<close>
theorem checklist_listing:
  assumes "load_todos d = Ok ts"
  shows "todo_List d = Ok (sort_key urgency ts)
    \<and> SummaryOf (sort_key urgency ts) now = SummaryOf ts now
    \<and> sumOverdue (SummaryOf ts now) = in_bucket BucketOverdue now ts
    \<and> sumOverdue (SummaryOf ts now) + sumWeek (SummaryOf ts now) + sumMonth (SummaryOf ts now)
        + sumFuture (SummaryOf ts now) + sumDone (SummaryOf ts now) = length ts"
proof -
  have "in_bucket b now (sort_key urgency ts) = in_bucket b now ts" for b
    by (rule in_bucket_mset) simp
  then show ?thesis
    using assms buckets_partition [of now ts] slice_stable_key [of todo_less urgency, OF todo_less_urgency]
    by (simp add: todo_List_def sortTodos_def SummaryOf_counts)
qed

definition dated :: "string \<Rightarrow> int \<Rightarrow> Todo" where
  "dated ident due = zero_todo\<lparr>tID := ident, tStatus := StatusPending, tDue := due\<rparr>"

theorem checklist_listing_witness:
  "todo_List (TDoc [dated ''a'' 0, dated ''b'' 90, dated ''c'' 10])
     = Ok [dated ''c'' 10, dated ''b'' 90, dated ''a'' 0]
   \<and> sumOverdue (SummaryOf [dated ''a'' 0, dated ''b'' 90, dated ''c'' 10] (50 * second)) = 1"
proof -
  let ?ts = "[dated ''a'' 0, dated ''b'' 90, dated ''c'' 10]"
  have l: "load_todos (TDoc ?ts) = Ok ?ts"
    by (simp add: load_todos_def)
  have "sort_key urgency ?ts = [dated ''c'' 10, dated ''b'' 90, dated ''a'' 0]"
    by (simp add: urgency_def dated_def zero_todo_def groupKey_def)
  moreover have "in_bucket BucketOverdue (50 * second) ?ts = 1"
    by (simp add: in_bucket_def BucketOf_def dated_def zero_todo_def until_due_def wrap64_def second_def day_def todo_status_defs)
  ultimately show ?thesis
    using checklist_listing [OF l, of "50 * second"] by simp
qed

section \<open>The file as a map\<close>

datatype todo_op =
    OpCreate "wfault option" nanos nanos Todo
  | OpUpdate "wfault option" nanos string Todo
  | OpRemove "wfault option" string
  | OpDone "wfault option" nanos string
  | OpSnooze "wfault option" nanos nanos string int

definition succeeded :: "'d \<times> ('e + 'a) \<Rightarrow> 'd \<times> bool" where
  "succeeded r = (fst r, case snd r of Inl _ \<Rightarrow> False | Inr _ \<Rightarrow> True)"

fun do_todo :: "todo_op \<Rightarrow> todofile \<Rightarrow> todofile \<times> bool" where
  "do_todo (OpCreate fault now idnow x) d = succeeded (todo_Create fault now idnow x d)"
| "do_todo (OpUpdate fault now i p) d = succeeded (todo_Update fault now i p d)"
| "do_todo (OpRemove fault i) d = succeeded (todo_Delete fault i d)"
| "do_todo (OpDone fault now i) d = succeeded (MarkDone fault now i d)"
| "do_todo (OpSnooze fault now0 now i u) d = succeeded (Snooze fault now0 now i u d)"

text \<open>The records of a file by identifier.\<close>

definition todo_map :: "Todo list \<Rightarrow> (string \<rightharpoonup> Todo)" where
  "todo_map ts i = find (\<lambda>t. tID t = i) ts"

text \<open>What an operation that succeeds does to the map.\<close>

fun todo_effect :: "todo_op \<Rightarrow> (string \<rightharpoonup> Todo) \<Rightarrow> (string \<rightharpoonup> Todo)" where
  "todo_effect (OpCreate fault now idnow x) m =
     (let i = the (todo_newID idnow) in m(i \<mapsto> new_todo (unix now) i x))"
| "todo_effect (OpUpdate fault now i p) m = m(i := map_option (patched (unix now) p) (m i))"
| "todo_effect (OpRemove fault i) m = m(i := None)"
| "todo_effect (OpDone fault now i) m = m(i := map_option (completed (unix now)) (m i))"
| "todo_effect (OpSnooze fault now0 now i u) m =
     m(i := map_option (\<lambda>t. t\<lparr>tStatus := StatusSnoozed, tSnoozeUntil := u, tUpdated := unix now\<rparr>) (m i))"

definition readable :: "todofile \<Rightarrow> bool" where
  "readable d \<longleftrightarrow> (case load_todos d of Inl _ \<Rightarrow> False | Inr ts \<Rightarrow> distinct (map tID ts))"

definition records :: "todofile \<Rightarrow> Todo list" where
  "records d = (case load_todos d of Inl _ \<Rightarrow> [] | Inr ts \<Rightarrow> ts)"

text \<open>A new record has an identifier that the file does not hold: the clock has moved since every earlier creation.\<close>

fun fresh_op :: "todo_op \<Rightarrow> todofile \<Rightarrow> bool" where
  "fresh_op (OpCreate fault now idnow x) d \<longleftrightarrow> the (todo_newID idnow) \<notin> tID ` set (records d)"
| "fresh_op _ d \<longleftrightarrow> True"

lemma readableE:
  assumes "readable d"
  obtains ts where "load_todos d = Ok ts" "records d = ts" "distinct (map tID ts)"
  using assms by (auto simp: readable_def records_def split: sum.splits)

lemma save_todos_cases:
  "save_todos fault ts d = (TDoc ts, Ok ()) \<or> (\<exists>w. save_todos fault ts d = (d, Err (TodoIO w)))"
  by (auto simp: save_todos_def split: sum.splits)

lemma todo_map_upd_first:
  assumes "\<And>t. tID (g t) = tID t"
  shows "todo_map (upd_first (\<lambda>t. tID t = i) g ts) = (todo_map ts)(i := map_option g (todo_map ts i))"
proof
  fix k
  show "todo_map (upd_first (\<lambda>t. tID t = i) g ts) k = ((todo_map ts)(i := map_option g (todo_map ts i))) k"
    by (induction ts) (auto simp: todo_map_def assms)
qed

lemma remove1_filter: "distinct (map tID ts) \<Longrightarrow> t \<in> set ts \<Longrightarrow> remove1 t ts = filter (\<lambda>x. tID x \<noteq> tID t) ts"
proof (induction ts)
  case (Cons a ts)
  then show ?case
    by (cases "a = t") (auto simp: image_iff intro!: filter_True [symmetric])
qed simp

lemma find_tID: "find (\<lambda>t. tID t = i) ts = Some t \<Longrightarrow> t \<in> set ts \<and> tID t = i"
  by (auto simp: find_Some_iff)

lemma todo_map_remove1:
  assumes "distinct (map tID ts)" "find (\<lambda>t. tID t = i) ts = Some t"
  shows "todo_map (remove1 t ts) = (todo_map ts)(i := None)"
proof
  fix k
  have "remove1 t ts = filter (\<lambda>x. tID x \<noteq> i) ts"
    using remove1_filter [OF assms(1)] find_tID [OF assms(2)] by blast
  moreover have "todo_map (filter (\<lambda>x. tID x \<noteq> i) ts) k = ((todo_map ts)(i := None)) k"
    by (induction ts) (auto simp: todo_map_def)
  ultimately show "todo_map (remove1 t ts) k = ((todo_map ts)(i := None)) k"
    by simp
qed

lemma edit_todo_law:
  assumes "readable d" "\<And>t. tID (g t) = tID t"
  shows "(\<exists>t. edit_todo fault i g d = (TDoc (upd_first (\<lambda>t. tID t = i) g (records d)), Ok (g t)) \<and> todo_map (records d) i = Some t)
    \<or> (\<exists>e. edit_todo fault i g d = (d, Err e))"
proof -
  obtain ts where ts: "load_todos d = Ok ts" "records d = ts"
    using assms(1) by (rule readableE)
  show ?thesis
    using ts save_todos_cases [of fault "upd_first (\<lambda>t. tID t = i) g ts" d]
    by (cases "find (\<lambda>t. tID t = i) ts") (auto simp: edit_todo_def todo_map_def)
qed

lemma edit_todo_map:
  assumes "readable d" "\<And>t. tID (g t) = tID t"
  shows "readable (fst (edit_todo fault i g d))
    \<and> (snd (succeeded (edit_todo fault i g d)) \<longrightarrow>
        todo_map (records (fst (edit_todo fault i g d))) = (todo_map (records d))(i := map_option g (todo_map (records d) i)))
    \<and> (\<not> snd (succeeded (edit_todo fault i g d)) \<longrightarrow> fst (edit_todo fault i g d) = d)"
proof -
  have "map tID (upd_first (\<lambda>t. tID t = i) g (records d)) = map tID (records d)"
    by (rule map_upd_first) (simp add: assms(2))
  moreover have "distinct (map tID (records d))"
    using assms(1) by (auto elim: readableE)
  ultimately have "readable (TDoc (upd_first (\<lambda>t. tID t = i) g (records d)))"
    by (simp add: readable_def load_todos_def)
  moreover have "records (TDoc ts) = ts" for ts
    by (simp add: records_def load_todos_def)
  ultimately show ?thesis
    using edit_todo_law [OF assms(1), of g fault i] assms todo_map_upd_first [of g i "records d"]
    by (auto simp: succeeded_def)
qed

lemma create_map:
  assumes "readable d" "fresh_op (OpCreate fault now idnow x) d"
  shows "readable (fst (todo_Create fault now idnow x d))
    \<and> (snd (succeeded (todo_Create fault now idnow x d)) \<longrightarrow>
        todo_map (records (fst (todo_Create fault now idnow x d))) = todo_effect (OpCreate fault now idnow x) (todo_map (records d)))
    \<and> (\<not> snd (succeeded (todo_Create fault now idnow x d)) \<longrightarrow> fst (todo_Create fault now idnow x d) = d)"
proof -
  obtain ts where ts: "load_todos d = Ok ts" "records d = ts" "distinct (map tID ts)"
    using assms(1) by (rule readableE)
  let ?t = "\<lambda>i. new_todo (unix now) i x"
  have out: "(\<exists>i. todo_newID idnow = Some i \<and> todo_Create fault now idnow x d = (TDoc (ts @ [?t i]), Ok (?t i)))
      \<or> (\<exists>e. todo_Create fault now idnow x d = (d, Err e))"
    using ts save_todos_cases [of fault "ts @ [?t (the (todo_newID idnow))]" d]
    by (cases "todo_newID idnow") (auto simp: todo_Create_def Let_def)
  have tid: "tID (?t i) = i" for i
    by (simp add: new_todo_def)
  have app: "todo_map (ts @ [?t i]) = (todo_map ts)(i \<mapsto> ?t i)" if "i \<notin> tID ` set ts" for i
  proof
    fix k
    show "todo_map (ts @ [?t i]) k = ((todo_map ts)(i \<mapsto> ?t i)) k"
      using that by (induction ts) (auto simp: todo_map_def tid)
  qed
  show ?thesis
    using out assms ts app by (auto simp: succeeded_def readable_def records_def load_todos_def tid)
qed

lemma delete_map:
  assumes "readable d"
  shows "readable (fst (todo_Delete fault i d))
    \<and> (snd (succeeded (todo_Delete fault i d)) \<longrightarrow> todo_map (records (fst (todo_Delete fault i d))) = (todo_map (records d))(i := None))
    \<and> (\<not> snd (succeeded (todo_Delete fault i d)) \<longrightarrow> fst (todo_Delete fault i d) = d)"
proof -
  obtain ts where ts: "load_todos d = Ok ts" "records d = ts" "distinct (map tID ts)"
    using assms by (rule readableE)
  show ?thesis
  proof (cases "find (\<lambda>t. tID t = i) ts")
    case None
    then show ?thesis
      using ts assms by (simp add: todo_Delete_def succeeded_def)
  next
    case (Some t)
    have "distinct (map tID (remove1 t ts))"
      using remove1_filter [OF ts(3)] find_tID [OF Some] ts(3) by (simp add: distinct_map_filter)
    then show ?thesis
      using Some ts assms todo_map_remove1 [OF ts(3) Some] save_todos_cases [of fault "remove1 t ts" d]
      by (auto simp: todo_Delete_def succeeded_def readable_def records_def load_todos_def)
  qed
qed

lemma do_todo_law:
  assumes "readable d" "fresh_op p d"
  shows "readable (fst (do_todo p d))
    \<and> (snd (do_todo p d) \<longrightarrow> todo_map (records (fst (do_todo p d))) = todo_effect p (todo_map (records d)))
    \<and> (\<not> snd (do_todo p d) \<longrightarrow> fst (do_todo p d) = d)"
proof (cases p)
  case (OpCreate fault now idnow x)
  then show ?thesis
    using create_map [OF assms(1)] assms(2) by (simp add: succeeded_def)
next
  case (OpUpdate fault now i q)
  then show ?thesis
    using edit_todo_map [OF assms(1), of "patched (unix now) q"] by (simp add: succeeded_def todo_Update_def patched_def)
next
  case (OpRemove fault i)
  then show ?thesis
    using delete_map [OF assms(1)] by (simp add: succeeded_def)
next
  case (OpDone fault now i)
  then show ?thesis
    using edit_todo_map [OF assms(1), of "completed (unix now)"] by (simp add: succeeded_def MarkDone_def completed_def Let_def)
next
  case (OpSnooze fault now0 now i u)
  then show ?thesis
    using edit_todo_map [OF assms(1), of "\<lambda>t. t\<lparr>tStatus := StatusSnoozed, tSnoozeUntil := u, tUpdated := unix now\<rparr>"] assms(1)
    by (simp add: succeeded_def Snooze_def)
qed

text \<open>
  The clock of creations only moves forward: every identifier in the file stems from a reading before \<open>t\<close>, and the creations
  of a sequence read later and later times.
\<close>

definition ids_before :: "nanos \<Rightarrow> todofile \<Rightarrow> bool" where
  "ids_before t d \<longleftrightarrow> 0 \<le> t \<and> (\<forall>x \<in> set (records d). \<exists>s. 0 \<le> s \<and> s < t \<and> s < 2 ^ 63 \<and> todo_newID s = Some (tID x))"

fun clocked :: "nanos \<Rightarrow> todo_op list \<Rightarrow> bool" where
  "clocked t [] = True"
| "clocked t (OpCreate fault now idnow x # ps) = (t \<le> idnow \<and> idnow < 2 ^ 63 \<and> clocked (idnow + 1) ps)"
| "clocked t (p # ps) = clocked t ps"

fun clock_after :: "todo_op \<Rightarrow> nanos \<Rightarrow> nanos" where
  "clock_after (OpCreate fault now idnow x) t = idnow + 1"
| "clock_after p t = t"

lemma clocked_Cons: "clocked t (p # ps) \<Longrightarrow> clocked (clock_after p t) ps"
  by (cases p) auto

lemma clocked_fresh:
  assumes "ids_before t d" "clocked t (p # ps)"
  shows "fresh_op p d"
proof (cases p)
  case (OpCreate fault now idnow x)
  have "the (todo_newID idnow) \<noteq> tID y" if y: "y \<in> set (records d)" for y
  proof
    assume e: "the (todo_newID idnow) = tID y"
    from assms(1) y obtain s where s: "0 \<le> s" "s < t" "s < 2 ^ 63" "todo_newID s = Some (tID y)"
      unfolding ids_before_def by blast
    have i: "t \<le> idnow" "idnow < 2 ^ 63"
      using assms(2) OpCreate by simp_all
    with s(1,2) have "0 \<le> idnow" by linarith
    then have "todo_newID s = todo_newID idnow"
      using newID_Some [of idnow] i(2) s(4) e by auto
    then show False
      using newID_inj [OF s(1,3) \<open>0 \<le> idnow\<close> i(2)] s(2) i(1) by simp
  qed
  with OpCreate show ?thesis by auto
qed simp_all

lemma todo_map_dom: "i \<in> tID ` set ts \<longleftrightarrow> todo_map ts i \<noteq> None"
  by (auto simp: todo_map_def find_None_iff)

lemma effect_dom:
  "todo_effect p m i \<noteq> None \<Longrightarrow> m i \<noteq> None \<or> (\<exists>fault now idnow x. p = OpCreate fault now idnow x \<and> i = the (todo_newID idnow))"
  by (cases p) (auto simp: Let_def split: if_splits)

lemma ids_before_step:
  assumes "ids_before t d" "clocked t (p # ps)" "readable d"
  shows "ids_before (clock_after p t) (fst (do_todo p d))"
proof -
  note law = do_todo_law [OF assms(3) clocked_fresh [OF assms(1,2)]]
  have mono: "t \<le> clock_after p t" "0 \<le> t"
    using assms(1,2) by (cases p; simp add: ids_before_def)+
  have "\<exists>s. 0 \<le> s \<and> s < clock_after p t \<and> s < 2 ^ 63 \<and> todo_newID s = Some (tID x)"
    if x: "x \<in> set (records (fst (do_todo p d)))" for x
  proof (cases "todo_map (records d) (tID x) = None")
    case False
    then have "tID x \<in> tID ` set (records d)"
      by (simp add: todo_map_dom)
    then obtain s where "0 \<le> s" "s < t" "s < 2 ^ 63" "todo_newID s = Some (tID x)"
      using assms(1) unfolding ids_before_def by (metis imageE)
    with mono show ?thesis
      by (intro exI [of _ s]) linarith
  next
    case True
    have "todo_map (records (fst (do_todo p d))) (tID x) \<noteq> None"
      using x todo_map_dom [of "tID x" "records (fst (do_todo p d))"] by blast
    with True law have "todo_effect p (todo_map (records d)) (tID x) \<noteq> None"
      by (cases "snd (do_todo p d)") auto
    then obtain fault now idnow y where p: "p = OpCreate fault now idnow y" "tID x = the (todo_newID idnow)"
      using effect_dom [of p "todo_map (records d)" "tID x"] True by blast
    then show ?thesis
      using assms(2) mono newID_Some [of idnow] by (intro exI [of _ idnow]) auto
  qed
  with mono show ?thesis
    by (simp add: ids_before_def)
qed

text \<open>Run a sequence; the second component collects the operations that reported success.\<close>

fun run_todos :: "todo_op list \<Rightarrow> todofile \<Rightarrow> todofile \<times> todo_op list" where
  "run_todos [] d = (d, [])"
| "run_todos (p # ps) d =
     (case run_todos ps (fst (do_todo p d)) of (d', qs) \<Rightarrow> (d', if snd (do_todo p d) then p # qs else qs))"

text \<open>
  The checklist file is a map from identifiers to records. After any sequence of creations, edits, completions, snoozes
  and deletions, each of which may be refused or fail to save, the file can be read, its identifiers are distinct, and its records
  are those the successful operations alone leave when applied in order to the map: each changes the record it names and no
  other, and one that reports an error changes nothing.
\<close>
theorem checklist_refines_map:
  assumes "readable d" and "ids_before t d" and "clocked t ps"
  shows "readable (fst (run_todos ps d))
    \<and> todo_map (records (fst (run_todos ps d))) = fold todo_effect (snd (run_todos ps d)) (todo_map (records d))"
  using assms
proof (induction ps arbitrary: t d)
  case (Cons p ps)
  note law = do_todo_law [OF Cons.prems(1) clocked_fresh [OF Cons.prems(2,3)]]
  have "readable (fst (run_todos ps (fst (do_todo p d)))) \<and> todo_map (records (fst (run_todos ps (fst (do_todo p d)))))
      = fold todo_effect (snd (run_todos ps (fst (do_todo p d)))) (todo_map (records (fst (do_todo p d))))"
    using Cons.IH [OF _ ids_before_step [OF Cons.prems(2,3,1)] clocked_Cons [OF Cons.prems(3)]] law by blast
  with law show ?case
    by (auto split: prod.splits)
qed simp

definition weekly :: Todo where
  "weekly = zero_todo\<lparr>tTitle := ''patch'', tIntervalDays := 7\<rparr>"

definition some_ops :: "todo_op list" where
  "some_ops = [OpCreate None 0 0 weekly, OpCreate (Some SyncF) 0 1 weekly, OpDone None (5 * second) ''t_0'']"

theorem checklist_refines_map_witness:
  "readable TNone \<and> ids_before 0 TNone \<and> clocked 0 some_ops
   \<and> map_option tDue (todo_map (records (fst (run_todos some_ops TNone))) ''t_0'') = Some (5 + 7 * 86400)"
proof -
  have h: "readable TNone" "ids_before 0 TNone" "clocked 0 some_ops"
    by (simp_all add: readable_def load_todos_def ids_before_def records_def some_ops_def)
  have ids: "todo_newID 0 = Some ''t_0''" "todo_newID 1 = Some ''t_1''"
    by (code_simp, code_simp)
  have title: "TrimSpace ''patch'' = ''patch''"
    by code_simp
  have ok: "snd (run_todos some_ops TNone) = [OpCreate None 0 0 weekly, OpDone None (5 * second) ''t_0'']"
    by (simp add: some_ops_def ids weekly_def zero_todo_def todo_Create_def title load_todos_def save_todos_def todos_save_def
      succeeded_def Let_def new_todo_def MarkDone_def edit_todo_def)
  show ?thesis
    using checklist_refines_map [OF h] h
    by (simp add: ok ids weekly_def zero_todo_def records_def load_todos_def todo_map_def new_todo_def completed_def
      days_after_def wrap64_def unix_def second_def Let_def)
qed

section \<open>Completion\<close>

lemma until_due_in_range:
  "\<bar>due\<bar> < 2 ^ 33 \<Longrightarrow> 0 \<le> now \<Longrightarrow> now < 2 ^ 62 \<Longrightarrow> until_due due now < 0 \<longleftrightarrow> due * second < now"
  by (auto simp: until_due_def wrap64_id second_def)

text \<open>
  Completing a recurring record never leaves it done or overdue: it is pending with a due date in the future, so the next round
  appears. Completing any other record puts it among the done ones.
\<close>
lemma completion_reschedules:
  assumes "0 \<le> now" "now < 2 ^ 62" "tIntervalDays t < 10000"
  shows "if tIntervalDays t > 0
    then tStatus (completed (unix now) t) = StatusPending \<and> tDue (completed (unix now) t) = unix now + tIntervalDays t * 86400
      \<and> BucketOf (completed (unix now) t) now \<notin> {BucketOverdue, BucketDone}
    else BucketOf (completed (unix now) t) now = BucketDone"
proof (cases "tIntervalDays t > 0")
  case True
  have u: "0 \<le> unix now" "unix now < 2 ^ 33"
    using assms by (simp_all add: unix_def pos_imp_zdiv_nonneg_iff)
  let ?due = "unix now + tIntervalDays t * 86400"
  have due: "days_after (unix now) (tIntervalDays t) = ?due"
    using u True assms(3) by (simp add: days_after_def wrap64_id)
  have later: "now \<le> ?due * second"
    using True by (simp add: unix_def second_def)
  have near: "\<bar>?due\<bar> < 2 ^ 34" "?due \<noteq> 0"
    using u True assms(3) by simp_all
  have "\<not> until_due ?due now < 0"
    using near later u assms(1,2) by (simp add: until_due_def wrap64_id Let_def)
  with True due near show ?thesis
    by (simp add: completed_def Let_def BucketOf_def todo_status_defs)
next
  case False
  then show ?thesis
    by (simp add: completed_def Let_def BucketOf_def)
qed

text \<open>
  A one-off record that is done does not stay done: a snooze is accepted for it, and once the snooze has passed the record
  counts as overdue again.
\<close>
lemma snooze_revives_done:
  assumes "readable d" "todo_map (records d) i = Some t" "tStatus t = StatusDone" "0 < tDue t" "tDue t < 2 ^ 33"
    and "unix now0 < u" "unix later \<ge> u" "later > tDue t * second" "later < 2 ^ 62"
  shows "\<exists>t'. snd (Snooze None now0 now i u d) = Ok t' \<and> tDue t' = tDue t \<and> BucketOf t' later = BucketOverdue"
proof -
  let ?g = "\<lambda>t. t\<lparr>tStatus := StatusSnoozed, tSnoozeUntil := u, tUpdated := unix now\<rparr>"
  obtain ts where ts: "load_todos d = Ok ts" "records d = ts"
    using assms(1) by (rule readableE)
  then have "snd (Snooze None now0 now i u d) = Ok (?g t)"
    using assms(2,6) by (simp add: Snooze_def edit_todo_def todo_map_def save_todos_def todos_save_def)
  moreover have "0 \<le> later"
    using assms(4,8) by (simp add: second_def)
  then have "until_due (tDue t) later < 0"
    using until_due_in_range [of "tDue t" later] assms(4,5,8,9) by simp
  ultimately show ?thesis
    using assms(4,7) by (intro exI [of _ "?g t"]) (simp add: BucketOf_def todo_status_defs)
qed

section \<open>Privacy\<close>

lemma todo_path:
  "todoStoreFor dataDir user = Some p \<longleftrightarrow>
    (\<exists>u. user \<noteq> '''' \<and> New_user user = Ok u \<and> p = Join [Join [dataDir, ''users'', u], ''todos.json''])"
  by (auto simp: todoStoreFor_def PathsFor_def Let_def split: sum.splits)

lemma todo_paths_differ:
  assumes "New_user user = Ok u" "New_user other = Ok u'" "u \<noteq> u'" "dataDir \<noteq> ''''"
  shows "todoStoreFor dataDir user \<noteq> todoStoreFor dataDir other"
proof -
  let ?p = "\<lambda>u. Join [Join [dataDir, ''users'', u], ''todos.json'']"
  have o: "ordinary u" "ordinary u'" "ordinary ''users''" "ordinary ''todos.json''"
    using valid_user_ordinary [OF assms(1)] valid_user_ordinary [OF assms(2)] by (simp_all add: ordinary_def)
  have el: "elements (?p v) = elements dataDir @ [''users'', v, ''todos.json'']" if "ordinary v" for v
    using Join_elements [OF assms(4), of "[''users'', v]"] Join_elements [of "Join [dataDir, ''users'', v]" "[''todos.json'']"] that o
    by simp
  have "?p u \<noteq> ?p u'"
  proof
    assume "?p u = ?p u'"
    then have "elements (?p u) = elements (?p u')" by simp
    with el o assms(3) show False by simp
  qed
  moreover have "todoStoreFor dataDir user = Some (?p u)" "todoStoreFor dataDir other = Some (?p u')"
    using assms(1,2) New_user_ok [OF assms(1)] New_user_ok [OF assms(2)] by (auto simp: todo_path)
  ultimately show ?thesis by simp
qed

text \<open>A handler that works on one file: the others keep their content, and the response does not depend on them.\<close>

definition works_on :: "string option \<Rightarrow> (todofs \<Rightarrow> tresult) \<Rightarrow> bool" where
  "works_on path h \<longleftrightarrow> (\<forall>f q. path \<noteq> Some q \<longrightarrow> fst (h f) q = f q)
     \<and> (\<forall>f g. (\<forall>q. path = Some q \<longrightarrow> f q = g q) \<longrightarrow> snd (h f) = snd (h g))"

text \<open>The file on which a handler works, alone.\<close>

definition alone :: "(todofs \<Rightarrow> tresult) \<Rightarrow> string \<Rightarrow> todofs \<Rightarrow> bool" where
  "alone h p f \<longleftrightarrow> h f = (f(p := fst (h (\<lambda>_. f p)) p), snd (h (\<lambda>_. f p)))"

lemma works_onI:
  assumes "path = None \<Longrightarrow> \<exists>r. \<forall>f. h f = (f, r)" and "\<And>p f. path = Some p \<Longrightarrow> alone h p f"
  shows "works_on path h"
proof (cases path)
  case None
  with assms(1) show ?thesis by (auto simp: works_on_def)
next
  case (Some p)
  have eq: "h f = (f(p := fst (h (\<lambda>_. f p)) p), snd (h (\<lambda>_. f p)))" for f
    using assms(2) [OF Some] unfolding alone_def .
  have other: "fst (h f) q = f q" if "q \<noteq> p" for f q
    using that by (subst eq) simp
  have "snd (h f) = snd (h (\<lambda>_. f p))" for f
    by (subst eq) simp
  then have same: "snd (h f) = snd (h g)" if "f p = g p" for f g
    using that by metis
  show ?thesis
    unfolding works_on_def Some
  proof (intro conjI allI impI)
    fix f :: todofs and q
    assume "Some p \<noteq> Some q"
    then show "fst (h f) q = f q" by (intro other) simp
  next
    fix f g :: todofs
    assume "\<forall>q. Some p = Some q \<longrightarrow> f q = g q"
    then show "snd (h f) = snd (h g)" by (intro same) simp
  qed
qed

lemma alone_const: "alone (\<lambda>f. (f, r)) p f"
  by (simp add: alone_def)

lemma alone_if: "alone a p f \<Longrightarrow> alone b p f \<Longrightarrow> alone (\<lambda>f. if c then a f else b f) p f"
  by (simp add: alone_def)

lemma alone_option: "alone a p f \<Longrightarrow> (\<And>x. alone (b x) p f) \<Longrightarrow> alone (\<lambda>f. case y of None \<Rightarrow> a f | Some x \<Rightarrow> b x f) p f"
  by (cases y) (simp_all add: alone_def)

lemma alone_read: "alone (\<lambda>f. case r (f p) of Inl e \<Rightarrow> (f, a e) | Inr x \<Rightarrow> (f, b x)) p f"
  by (simp add: alone_def split: sum.split)

lemma alone_write:
  "alone (\<lambda>f. case r (f p) of (d, Inl e) \<Rightarrow> (f(p := d), a e, a' e) | (d, Inr x) \<Rightarrow> (f(p := d), b x, b' x)) p f"
  by (simp add: alone_def split: sum.split prod.split)

lemmas alone_rules = alone_const alone_if alone_option alone_read alone_write

lemma handleTodos_on: "works_on (todoStoreFor dataDir user) (handleTodos dataDir h user req body)"
  by (rule works_onI) (simp add: handleTodos_def, simp add: handleTodos_def [abs_def], (rule alone_rules)+)

lemma handleTodoByID_on: "works_on (todoStoreFor dataDir user) (handleTodoByID dataDir h user req body until)"
  by (rule works_onI) (simp add: handleTodoByID_def, simp add: handleTodoByID_def [abs_def] Let_def, (rule alone_rules)+)

lemma handleTodosSeed_on: "works_on (todoStoreFor dataDir user) (handleTodosSeed dataDir st now hs user req)"
proof (rule works_onI)
  fix p f
  assume "todoStoreFor dataDir user = Some p"
  moreover have "alone (\<lambda>f. case insert_seeds hs cs (f p) of (d, ts) \<Rightarrow>
      (case itoa (int (length ts)) of None \<Rightarrow> (f(p := d), TPanic, []) | Some n \<Rightarrow> (f(p := d), TInserted ts, [(''todo.seed'', ''n='' @ n)]))) p f" for cs
    by (simp add: alone_def split: prod.split option.split)
  ultimately show "alone (handleTodosSeed dataDir st now hs user req) p f"
    by (simp add: handleTodosSeed_def [abs_def] alone_const alone_if alone_option)
qed (simp add: handleTodosSeed_def)

text \<open>
  Every user has a checklist of their own. Whatever request a user sends to the three routes, with any body, clock and disk,
  the file of every other user is the same afterwards, and the response and audit record do not depend on the others' files.
\<close>
theorem checklists_private:
  assumes "New_user user = Ok u" and "New_user other = Ok u'" and "u \<noteq> u'" and "dataDir \<noteq> ''''"
    and "todoStoreFor dataDir other = Some q" and "todoStoreFor dataDir user = Some p" and "f p = g p"
    and "r \<in> {handleTodos dataDir h user req body, handleTodoByID dataDir h user req body until, handleTodosSeed dataDir st now hs user req}"
  shows "fst (r f) q = f q \<and> snd (r f) = snd (r g)"
proof -
  have "works_on (Some p) r"
    using assms(6,8) handleTodos_on [of dataDir user h req body] handleTodoByID_on [of dataDir user h req body until]
      handleTodosSeed_on [of dataDir user st now hs req] by auto
  moreover have "Some p \<noteq> Some q"
    using todo_paths_differ [OF assms(1-4)] assms(5,6) by simp
  ultimately show ?thesis
    using assms(7) unfolding works_on_def by blast
qed

definition idle :: thost where
  "idle = \<lparr>thFault = None, thNow0 = 0, thNow = 0, thID = 0\<rparr>"

theorem checklists_private_witness:
  "todoStoreFor ''data'' ''ana'' = Some ''data/users/ana/todos.json''
   \<and> fst (handleTodos ''data'' idle ''ana'' (plain_request MethodPost ''/api/todos'') (Some weekly) (\<lambda>_. TGarbled)) ''data/users/bob/todos.json''
       = TGarbled"
proof -
  have p: "todoStoreFor ''data'' ''bob'' = Some ''data/users/bob/todos.json''" "todoStoreFor ''data'' ''ana'' = Some ''data/users/ana/todos.json''"
    by (code_simp, code_simp)
  show ?thesis
    using checklists_private [OF New_ana_bob _ _ p, of "\<lambda>_. TGarbled" "\<lambda>_. TGarbled"
        "handleTodos ''data'' idle ''ana'' (plain_request MethodPost ''/api/todos'') (Some weekly)" idle
        "plain_request MethodPost ''/api/todos''" "Some weekly"] p by simp
qed

end
