(* ===== verification/VideoHub.thy ===== *)
theory VideoHub
  imports GoStrings GoFloat Prelude
begin

text \<open>
  The signalling hub of video calls, \<^verbatim>\<open>internal/videocall/signaling.go\<close>: who is connected to which room, the
  delivery of messages between peers of a room, and the message rate of a peer.

  A peer is kept with the queue \<open>peSend\<close> that its socket drains (\<open>SendCh\<close>, 64 places). The set of identifiers of a room
  is a list without repetitions; Go leaves the order of its iteration open, and only the order of a snapshot shows it.
  \<open>closedCh\<close> collects the peers whose channel \<open>closed\<close> has been closed; closing one twice panics, which \<open>hPanic\<close>
  records. All methods run under the hub's lock.
\<close>

section \<open>Data\<close>

record PeerInfo =
  piID :: string
  piUser :: string
  piClientID :: string

datatype payload = Raw string | Info PeerInfo

record SignalingMsg =
  mgType :: string
  mgFrom :: string
  mgTo :: string
  mgRoomID :: string
  mgPayload :: payload
  mgError :: string

definition blank_msg :: "string \<Rightarrow> SignalingMsg" where
  "blank_msg t = \<lparr>mgType = t, mgFrom = '''', mgTo = '''', mgRoomID = '''', mgPayload = Raw '''', mgError = ''''\<rparr>"

record Peer =
  peID :: string
  peUser :: string
  peRoomID :: string
  peClientID :: string
  peSend :: "SignalingMsg list"

record rateBucket =
  tokens :: int
  lastRefill :: nanos

record Hub =
  hPeers :: "string \<rightharpoonup> Peer"
  byRoom :: "string \<rightharpoonup> string list"
  hRate :: "string \<rightharpoonup> rateBucket"
  maxPerRm :: nat
  closedCh :: "string list"
  hPanic :: bool

datatype hub_error =
    ErrMissingID
  | ErrRoomFull
  | ErrPeerNotInRoom
  | ErrTargetNotInRoom
  | ErrTargetUnknown
  | ErrRateLimited
  | ErrAlreadyJoined

definition NewHub :: "int \<Rightarrow> Hub" where
  "NewHub m = \<lparr>hPeers = Map.empty, byRoom = Map.empty, hRate = Map.empty, maxPerRm = (if m \<le> 0 then 4 else nat m),
     closedCh = [], hPanic = False\<rparr>"

definition sendBuf :: nat where
  "sendBuf = 64"

definition peer_info :: "Peer \<Rightarrow> PeerInfo" where
  "peer_info p = \<lparr>piID = peID p, piUser = peUser p, piClientID = peClientID p\<rparr>"

section \<open>Delivery and removal\<close>

text \<open>A peer that is not in the hub (a \<open>nil\<close> pointer) gets nothing; a full queue drops the message.\<close>

definition deliver :: "SignalingMsg \<Rightarrow> string \<Rightarrow> Hub \<Rightarrow> Hub" where
  "deliver msg i h =
     (case hPeers h i of
        None \<Rightarrow> h
      | Some p \<Rightarrow>
          if length (peSend p) < sendBuf
          then h\<lparr>hPeers := (hPeers h)(i \<mapsto> p\<lparr>peSend := peSend p @ [msg]\<rparr>)\<rparr>
          else h)"

definition deliver_all :: "SignalingMsg \<Rightarrow> string list \<Rightarrow> Hub \<Rightarrow> Hub" where
  "deliver_all msg ids h = fold (deliver msg) ids h"

definition close_ch :: "string \<Rightarrow> Hub \<Rightarrow> Hub" where
  "close_ch i h = (if i \<in> set (closedCh h) then h\<lparr>hPanic := True\<rparr> else h\<lparr>closedCh := i # closedCh h\<rparr>)"

definition cleanupRate :: "string \<Rightarrow> Hub \<Rightarrow> Hub" where
  "cleanupRate i h = h\<lparr>hRate := (hRate h)(i := None)\<rparr>"

definition room_set :: "Hub \<Rightarrow> string \<Rightarrow> string list" where
  "room_set h room = (case byRoom h room of None \<Rightarrow> [] | Some ids \<Rightarrow> ids)"

definition left_msg :: "string \<Rightarrow> SignalingMsg" where
  "left_msg i = (blank_msg ''peer-left'')\<lparr>mgFrom := i\<rparr>"

definition evictLocked :: "string \<Rightarrow> string \<Rightarrow> Hub \<Rightarrow> Hub" where
  "evictLocked room i h =
     (case hPeers h i of
        None \<Rightarrow> h
      | Some _ \<Rightarrow>
          let rest = removeAll i (room_set h room);
              h1 = h\<lparr>hPeers := (hPeers h)(i := None), byRoom := (byRoom h)(room \<mapsto> rest)\<rparr>
          in cleanupRate i (close_ch i (deliver_all (left_msg i) rest h1)))"

definition Leave :: "string \<Rightarrow> Hub \<Rightarrow> Hub" where
  "Leave i h =
     (case hPeers h i of
        None \<Rightarrow> h
      | Some p \<Rightarrow>
          let h1 = h\<lparr>hPeers := (hPeers h)(i := None)\<rparr>
          in close_ch i
               (case byRoom h (peRoomID p) of
                  None \<Rightarrow> h1
                | Some ids \<Rightarrow>
                    let rest = removeAll i ids
                    in deliver_all (left_msg i) rest
                         (h1\<lparr>byRoom := (byRoom h)(peRoomID p := if rest = [] then None else Some rest)\<rparr>)))"

definition Disconnect :: "string \<Rightarrow> Hub \<Rightarrow> Hub" where
  "Disconnect i h = (if hPeers h i = None then h else Leave i h)"

section \<open>Joining\<close>

text \<open>The peers of a room that carry the same client identity: what is left of an earlier connection of that client.\<close>

definition ghosts :: "Hub \<Rightarrow> Peer \<Rightarrow> string list" where
  "ghosts h p =
     (if peClientID p = '''' then []
      else filter (\<lambda>i. case hPeers h i of None \<Rightarrow> False | Some old \<Rightarrow> peClientID old = peClientID p) (room_set h (peRoomID p)))"

definition is_guest :: "string \<Rightarrow> bool" where
  "is_guest user \<longleftrightarrow> HasPrefix user ''guest:''"

definition already_joined :: "Hub \<Rightarrow> Peer \<Rightarrow> bool" where
  "already_joined h p \<longleftrightarrow>
     peUser p \<noteq> '''' \<and> \<not> is_guest (peUser p)
     \<and> list_ex (\<lambda>i. case hPeers h i of None \<Rightarrow> False | Some q \<Rightarrow> peUser q = peUser p) (room_set h (peRoomID p))"

definition joined_msg :: "Peer \<Rightarrow> SignalingMsg" where
  "joined_msg p = (blank_msg ''peer-joined'')\<lparr>mgFrom := peID p, mgPayload := Info (peer_info p)\<rparr>"

definition Join_hub :: "Peer \<Rightarrow> Hub \<Rightarrow> Hub \<times> (hub_error + PeerInfo list)" where
  "Join_hub p h =
     (if peRoomID p = '''' \<or> peID p = '''' then (h, Err ErrMissingID)
      else
        let room = peRoomID p;
            h0 = h\<lparr>byRoom := (byRoom h)(room \<mapsto> room_set h room)\<rparr>;
            h1 = fold (evictLocked room) (ghosts h0 p) h0;
            ids = room_set h1 room
        in if length ids \<ge> maxPerRm h1 then (h1, Err ErrRoomFull)
           else if already_joined h1 p then (h1, Err ErrAlreadyJoined)
           else
             let existing = map peer_info (List.map_filter (hPeers h1) ids);
                 h2 = h1\<lparr>hPeers := (hPeers h1)(peID p \<mapsto> p), byRoom := (byRoom h1)(room \<mapsto> List.insert (peID p) ids)\<rparr>
             in (deliver_all (joined_msg p) (filter (\<lambda>i. i \<noteq> peID p) (List.insert (peID p) ids)) h2, Ok existing))"

section \<open>Rate\<close>

definition rateBurst :: int where "rateBurst = 50"
definition rateRefill :: int where "rateRefill = 50"
definition rateMinStep :: nanos where "rateMinStep = 20000000"

text \<open>\<open>int(dt.Seconds() * float64(rateRefill))\<close> for a positive duration.\<close>

definition dur_seconds :: "nanos \<Rightarrow> f64" where
  "dur_seconds d = fadd (f64_of_int (d div second)) (fquot (f64_of_int (d mod second)) (f64_of_int second))"

definition refill :: "nanos \<Rightarrow> int" where
  "refill dt = (case fmul (dur_seconds dt) (f64_of_int rateRefill) of Fin r \<Rightarrow> \<lfloor>r\<rfloor> | _ \<Rightarrow> 0)"

definition refilled :: "nanos \<Rightarrow> rateBucket \<Rightarrow> rateBucket" where
  "refilled now b =
     (let dt = now - lastRefill b
      in if dt > rateMinStep \<and> refill dt > 0
         then b\<lparr>tokens := min rateBurst (tokens b + refill dt), lastRefill := now\<rparr>
         else b)"

definition allowMsg :: "nanos \<Rightarrow> string \<Rightarrow> Hub \<Rightarrow> Hub \<times> bool" where
  "allowMsg now i h =
     (let b = refilled now (case hRate h i of None \<Rightarrow> \<lparr>tokens = rateBurst, lastRefill = now\<rparr> | Some b \<Rightarrow> b)
      in if tokens b \<le> 0 then (h\<lparr>hRate := (hRate h)(i \<mapsto> b)\<rparr>, False)
         else (h\<lparr>hRate := (hRate h)(i \<mapsto> b\<lparr>tokens := tokens b - 1\<rparr>)\<rparr>, True))"

section \<open>Routing\<close>

definition Forward :: "nanos \<Rightarrow> string \<Rightarrow> SignalingMsg \<Rightarrow> Hub \<Rightarrow> Hub \<times> (hub_error + unit)" where
  "Forward now fromID msg h =
     (case allowMsg now fromID h of
        (h1, False) \<Rightarrow> (h1, Err ErrRateLimited)
      | (h1, True) \<Rightarrow>
          (case hPeers h1 fromID of
             None \<Rightarrow> (h1, Err ErrPeerNotInRoom)
           | Some frm \<Rightarrow>
               (case hPeers h1 (mgTo msg) of
                  None \<Rightarrow> (h1, Err ErrTargetUnknown)
                | Some trg \<Rightarrow>
                    if peRoomID trg \<noteq> peRoomID frm then (h1, Err ErrTargetNotInRoom)
                    else (deliver (msg\<lparr>mgFrom := fromID\<rparr>) (mgTo msg) h1, Ok ()))))"

definition Broadcast :: "nanos \<Rightarrow> string \<Rightarrow> SignalingMsg \<Rightarrow> Hub \<Rightarrow> Hub \<times> (hub_error + unit)" where
  "Broadcast now fromID msg h =
     (case allowMsg now fromID h of
        (h1, False) \<Rightarrow> (h1, Err ErrRateLimited)
      | (h1, True) \<Rightarrow>
          (case hPeers h1 fromID of
             None \<Rightarrow> (h1, Err ErrPeerNotInRoom)
           | Some frm \<Rightarrow>
               (deliver_all (msg\<lparr>mgFrom := fromID\<rparr>) (filter (\<lambda>i. i \<noteq> fromID) (room_set h1 (peRoomID frm))) h1, Ok ())))"

section \<open>Lookups and moderation\<close>

definition PeersInRoom :: "string \<Rightarrow> Hub \<Rightarrow> string list" where
  "PeersInRoom room h = room_set h room"

definition PeerUser :: "string \<Rightarrow> Hub \<Rightarrow> string option" where
  "PeerUser i h = map_option peUser (hPeers h i)"

definition PeersInRoomWithUser :: "string \<Rightarrow> Hub \<Rightarrow> PeerInfo list" where
  "PeersInRoomWithUser room h = map peer_info (List.map_filter (hPeers h) (room_set h room))"

text \<open>\<open>rooms\<close> is the order in which Go ranges over the map of rooms.\<close>

definition OccupiedRooms :: "string list \<Rightarrow> Hub \<Rightarrow> string list" where
  "OccupiedRooms rooms h = filter (\<lambda>r. room_set h r \<noteq> []) rooms"

text \<open>The message now; the removal \<open>Leave peerID\<close> follows 50 ms later.\<close>

definition KickPeer :: "string \<Rightarrow> string \<Rightarrow> Hub \<Rightarrow> Hub \<times> string option" where
  "KickPeer i reason h =
     (case hPeers h i of
        None \<Rightarrow> (h, None)
      | Some p \<Rightarrow> (deliver ((blank_msg ''kicked'')\<lparr>mgError := reason\<rparr>) i h, Some (peUser p)))"

text \<open>The socket's writer takes one message from the queue.\<close>

definition drain :: "string \<Rightarrow> Hub \<Rightarrow> Hub" where
  "drain i h = (case hPeers h i of None \<Rightarrow> h | Some p \<Rightarrow> h\<lparr>hPeers := (hPeers h)(i \<mapsto> p\<lparr>peSend := tl (peSend p)\<rparr>)\<rparr>)"

end
