(* ===== verification/LiveCalls.thy ===== *)
theory LiveCalls
  imports GoStrings Prelude "HOL-Library.AList" "HOL-Library.Char_ord" "HOL-Library.List_Lexorder"
begin

text \<open>
  Live calls, the ringing policy of devices and the presence channel of video calls:
  \<^verbatim>\<open>internal/videocall/livecall.go\<close>, \<^verbatim>\<open>devices.go\<close> and \<^verbatim>\<open>presence.go\<close>.

  The clock (in seconds, as the code reads it) and random identifiers are arguments; maps whose emptiness or order the
  code inspects are association lists, the others partial functions. A file is what the last successful save wrote; saving goes
  through the writer \<open>atomicWriteJSON\<close> of \<open>DurableFile\<close>.
\<close>

section \<open>Live calls\<close>

record LiveCall =
  lcRoom :: string
  lcCallID :: string
  lcStartedAt :: secs
  lcLastActive :: secs
  lcParticipants :: "(string \<times> secs) list"
  lcUsers :: "(string \<times> secs) list"

definition liveCallGraceSec :: secs where "liveCallGraceSec = 90"
definition ringDedupSec :: secs where "ringDedupSec = 60"
definition liveCallTouchSec :: secs where "liveCallTouchSec = 15"

datatype ringReason = NewCall | Ongoing | Rejoin | ResumeHint

record ringDecision =
  rdRing :: bool
  rdCallID :: string
  rdReason :: ringReason
  rdNew :: bool

record callRegistry =
  rcalls :: "string \<rightharpoonup> LiveCall"
  lastRing :: "string \<rightharpoonup> secs"
  rdirty :: bool
  rfile :: "LiveCall list jsonfile"

definition load_call :: "secs \<Rightarrow> LiveCall \<Rightarrow> (string \<rightharpoonup> LiveCall) \<Rightarrow> (string \<rightharpoonup> LiveCall)" where
  "load_call now c m =
     (if lcRoom c = '''' \<or> lcCallID c = '''' then m
      else if now - lcLastActive c > liveCallGraceSec then m
      else m(lcRoom c \<mapsto> c))"

text \<open>\<open>newCallRegistry\<close>: the file is read once; one that cannot be read or decoded starts an empty registry.\<close>

definition newCallRegistry :: "secs \<Rightarrow> LiveCall list jsonfile \<Rightarrow> callRegistry" where
  "newCallRegistry now f =
     \<lparr>rcalls = (case f of Doc arr \<Rightarrow> fold (load_call now) arr Map.empty | _ \<Rightarrow> Map.empty),
      lastRing = Map.empty, rdirty = False, rfile = f\<rparr>"

text \<open>\<open>ks\<close> is the order of the range over the map; the flag is cleared whether or not the write succeeds.\<close>

definition save_calls :: "string list \<Rightarrow> bool \<Rightarrow> callRegistry \<Rightarrow> callRegistry" where
  "save_calls ks ok r =
     (let arr = sort_key lcRoom (List.map_filter (rcalls r) ks)
      in r\<lparr>rdirty := False, rfile := (if ok then Doc arr else rfile r)\<rparr>)"

definition liveLocked :: "string \<Rightarrow> secs \<Rightarrow> callRegistry \<Rightarrow> LiveCall option" where
  "liveLocked room now r =
     (case rcalls r room of
        None \<Rightarrow> None
      | Some c \<Rightarrow> if now - lcLastActive c > liveCallGraceSec then None else Some c)"

definition put_if :: "string \<Rightarrow> secs \<Rightarrow> (string \<times> secs) list \<Rightarrow> (string \<times> secs) list" where
  "put_if k now xs = (if k \<noteq> '''' then AList.update k now xs else xs)"

definition first_seen :: "string \<Rightarrow> secs \<Rightarrow> (string \<times> secs) list \<Rightarrow> (string \<times> secs) list" where
  "first_seen u now xs = (if u \<noteq> '''' \<and> map_of xs u = None then AList.update u now xs else xs)"

definition OnJoin :: "string \<Rightarrow> string \<Rightarrow> string \<Rightarrow> bool \<Rightarrow> secs \<Rightarrow> string \<Rightarrow> callRegistry \<Rightarrow> callRegistry \<times> ringDecision" where
  "OnJoin room user client resume now newID r =
     (case liveLocked room now r of
        Some c \<Rightarrow>
          (let reason = (if client \<noteq> '''' \<and> map_of (lcParticipants c) client \<noteq> None then Rejoin else Ongoing);
               c' = c\<lparr>lcParticipants := put_if client now (lcParticipants c), lcUsers := first_seen user now (lcUsers c),
                      lcLastActive := now\<rparr>
           in (r\<lparr>rcalls := (rcalls r)(room \<mapsto> c'), rdirty := True\<rparr>,
               \<lparr>rdRing = False, rdCallID = lcCallID c, rdReason = reason, rdNew = False\<rparr>))
      | None \<Rightarrow>
          (let c = \<lparr>lcRoom = room, lcCallID = newID, lcStartedAt = now, lcLastActive = now,
                    lcParticipants = put_if client now [], lcUsers = put_if user now []\<rparr>
           in (r\<lparr>rcalls := (rcalls r)(room \<mapsto> c), rdirty := True\<rparr>,
               \<lparr>rdRing = (\<not> resume), rdCallID = newID, rdReason = (if resume then ResumeHint else NewCall), rdNew = True\<rparr>)))"

definition OnPeerGone :: "string \<Rightarrow> string \<Rightarrow> bool \<Rightarrow> secs \<Rightarrow> callRegistry \<Rightarrow> callRegistry \<times> bool \<times> string" where
  "OnPeerGone room client graceful now r =
     (case rcalls r room of
        None \<Rightarrow> (r, False, '''')
      | Some c \<Rightarrow>
          if \<not> graceful then (r\<lparr>rdirty := True\<rparr>, False, '''')
          else let left = (if client \<noteq> '''' then AList.delete client (lcParticipants c) else lcParticipants c)
               in if left = [] then (r\<lparr>rcalls := (rcalls r)(room := None), rdirty := True\<rparr>, True, lcCallID c)
                  else (r\<lparr>rcalls := (rcalls r)(room \<mapsto> c\<lparr>lcParticipants := left, lcLastActive := now\<rparr>), rdirty := True\<rparr>,
                        False, lcCallID c))"

definition touch_call :: "secs \<Rightarrow> string \<Rightarrow> callRegistry \<Rightarrow> callRegistry" where
  "touch_call now room r =
     (case rcalls r room of
        None \<Rightarrow> r
      | Some c \<Rightarrow> r\<lparr>rcalls := (rcalls r)(room \<mapsto> c\<lparr>lcLastActive := now\<rparr>), rdirty := True\<rparr>)"

definition Touch_calls :: "string list \<Rightarrow> secs \<Rightarrow> callRegistry \<Rightarrow> callRegistry" where
  "Touch_calls rooms now r = fold (touch_call now) rooms r"

definition call_expired :: "secs \<Rightarrow> LiveCall \<Rightarrow> bool" where
  "call_expired now c \<longleftrightarrow> now - lcLastActive c > liveCallGraceSec"

definition GC_calls :: "string list \<Rightarrow> secs \<Rightarrow> callRegistry \<Rightarrow> callRegistry \<times> LiveCall list" where
  "GC_calls ks now r =
     (let gone = filter (call_expired now) (List.map_filter (rcalls r) ks)
      in (r\<lparr>rcalls := keep_vals (\<lambda>c. \<not> call_expired now c) (rcalls r), rdirty := (rdirty r \<or> gone \<noteq> [])\<rparr>,
          sort_key lcRoom gone))"

definition ring_key :: "string \<Rightarrow> string \<Rightarrow> string" where
  "ring_key room recipient = room @ [CHR 0x00] @ recipient"

definition AllowRing :: "string \<Rightarrow> string \<Rightarrow> secs \<Rightarrow> callRegistry \<Rightarrow> callRegistry \<times> bool" where
  "AllowRing room recipient now r =
     (if recipient = '''' then (r, False)
      else let key = ring_key room recipient
           in if (case lastRing r key of None \<Rightarrow> False | Some t \<Rightarrow> now - t < ringDedupSec) then (r, False)
              else (r\<lparr>lastRing := keep_vals (\<lambda>ts. \<not> now - ts > ringDedupSec * 4) ((lastRing r)(key \<mapsto> now))\<rparr>, True))"

definition ActiveCall :: "string \<Rightarrow> secs \<Rightarrow> callRegistry \<Rightarrow> LiveCall option" where
  "ActiveCall room now r = liveLocked room now r"

section \<open>Devices\<close>

record RingDevice =
  dvUser :: string
  dvDeviceID :: string
  dvLabel :: string
  dvRing :: bool
  dvMuteUntil :: secs
  dvLastSeen :: secs
  dvCreatedAt :: secs

definition Muted :: "RingDevice \<Rightarrow> secs \<Rightarrow> bool" where
  "Muted d now \<longleftrightarrow> \<not> dvRing d \<or> dvMuteUntil d > now"

definition maxDevicesPerUser :: nat where "maxDevicesPerUser = 50"
definition deviceStaleDays :: secs where "deviceStaleDays = 120"

record deviceStore =
  ddevices :: "string \<rightharpoonup> RingDevice"
  dfile :: "RingDevice list jsonfile"

definition deviceKey :: "string \<Rightarrow> string \<Rightarrow> string" where
  "deviceKey user dev = user @ [CHR 0x00] @ dev"

definition load_device :: "secs \<Rightarrow> RingDevice \<Rightarrow> (string \<rightharpoonup> RingDevice) \<Rightarrow> (string \<rightharpoonup> RingDevice)" where
  "load_device now d m =
     (if dvUser d = '''' \<or> dvDeviceID d = '''' then m
      else if dvLastSeen d < now - deviceStaleDays * 86400 then m
      else m(deviceKey (dvUser d) (dvDeviceID d) \<mapsto> d))"

definition newDeviceStore :: "secs \<Rightarrow> RingDevice list jsonfile \<Rightarrow> deviceStore" where
  "newDeviceStore now f =
     \<lparr>ddevices = (case f of Doc arr \<Rightarrow> fold (load_device now) arr Map.empty | _ \<Rightarrow> Map.empty), dfile = f\<rparr>"

definition save_devices :: "string list \<Rightarrow> bool \<Rightarrow> deviceStore \<Rightarrow> deviceStore" where
  "save_devices ks ok s =
     (let arr = slice_stable (\<lambda>a b. if dvUser a \<noteq> dvUser b then dvUser a < dvUser b else dvDeviceID a < dvDeviceID b)
                  (List.map_filter (ddevices s) ks)
      in if ok then s\<lparr>dfile := Doc arr\<rparr> else s)"

text \<open>The devices of a user, in the order of a range over the map, and what is cut beyond the limit.\<close>

definition mine :: "string list \<Rightarrow> string \<Rightarrow> deviceStore \<Rightarrow> RingDevice list" where
  "mine ks user s = filter (\<lambda>d. dvUser d = user) (List.map_filter (ddevices s) ks)"

definition prune_devices :: "string list \<Rightarrow> string \<Rightarrow> deviceStore \<Rightarrow> deviceStore" where
  "prune_devices ks user s =
     (let ds = mine ks user s
      in if length ds \<le> maxDevicesPerUser then s
         else s\<lparr>ddevices := fold (\<lambda>d m. m(deviceKey (dvUser d) (dvDeviceID d) := None))
                  (drop maxDevicesPerUser (sort_desc dvLastSeen ds)) (ddevices s)\<rparr>)"

definition Seen :: "string list \<Rightarrow> bool \<Rightarrow> secs \<Rightarrow> string \<Rightarrow> string \<Rightarrow> string \<Rightarrow> deviceStore \<Rightarrow> deviceStore" where
  "Seen ks ok now user dev label s =
     (if user = '''' \<or> dev = '''' then s
      else let k = deviceKey user dev;
               d = (case ddevices s k of
                      None \<Rightarrow> \<lparr>dvUser = user, dvDeviceID = dev, dvLabel = '''', dvRing = True, dvMuteUntil = 0, dvLastSeen = 0, dvCreatedAt = now\<rparr>
                    | Some d \<Rightarrow> d);
               d' = d\<lparr>dvLabel := (if label \<noteq> '''' then label else dvLabel d), dvLastSeen := now\<rparr>
           in save_devices ks ok (prune_devices ks user (s\<lparr>ddevices := (ddevices s)(k \<mapsto> d')\<rparr>)))"

definition ShouldRing :: "string \<Rightarrow> string \<Rightarrow> secs \<Rightarrow> deviceStore \<Rightarrow> bool" where
  "ShouldRing user dev now s =
     (if user = '''' \<or> dev = '''' then True
      else case ddevices s (deviceKey user dev) of None \<Rightarrow> True | Some d \<Rightarrow> \<not> Muted d now)"

definition List_devices :: "string list \<Rightarrow> string \<Rightarrow> deviceStore \<Rightarrow> RingDevice list" where
  "List_devices ks user s = sort_desc dvLastSeen (mine ks user s)"

definition Set_device :: "string list \<Rightarrow> bool \<Rightarrow> string \<Rightarrow> string \<Rightarrow> bool option \<Rightarrow> secs option \<Rightarrow> string \<Rightarrow> deviceStore
    \<Rightarrow> deviceStore \<times> bool" where
  "Set_device ks ok user dev ring mute label s =
     (if user = '''' \<or> dev = '''' then (s, False)
      else case ddevices s (deviceKey user dev) of
        None \<Rightarrow> (s, False)
      | Some d \<Rightarrow>
          (let d1 = (case ring of None \<Rightarrow> d | Some b \<Rightarrow> d\<lparr>dvRing := b, dvMuteUntil := (if b then 0 else dvMuteUntil d)\<rparr>);
               d2 = (case mute of None \<Rightarrow> d1 | Some t \<Rightarrow> d1\<lparr>dvMuteUntil := t\<rparr>);
               d3 = (if label \<noteq> '''' then d2\<lparr>dvLabel := label\<rparr> else d2)
           in (save_devices ks ok (s\<lparr>ddevices := (ddevices s)(deviceKey user dev \<mapsto> d3)\<rparr>), True)))"

definition Forget :: "string list \<Rightarrow> bool \<Rightarrow> string \<Rightarrow> string \<Rightarrow> deviceStore \<Rightarrow> deviceStore \<times> bool" where
  "Forget ks ok user dev s =
     (if ddevices s (deviceKey user dev) = None then (s, False)
      else (save_devices ks ok (s\<lparr>ddevices := (ddevices s)(deviceKey user dev := None)\<rparr>), True))"

definition id_char :: "char \<Rightarrow> bool" where
  "id_char c \<longleftrightarrow> list_ex (\<lambda>(lo, hi). lo \<le> c \<and> c \<le> hi) [(CHR ''a'', CHR ''z''), (CHR ''A'', CHR ''Z''), (CHR ''0'', CHR ''9'')]"

definition sanitizeDeviceID :: "string \<Rightarrow> string" where
  "sanitizeDeviceID s = filter (\<lambda>c. id_char c \<or> c = CHR ''-'' \<or> c = CHR ''_'') (take 64 s)"

definition sanitizeClientID :: "string \<Rightarrow> string" where
  "sanitizeClientID s = filter id_char (take 64 s)"

section \<open>Presence\<close>

datatype evtype = Hello | IncomingCall | CallAnsweredElsewhere | CallEnded

record PresenceEvent =
  evType :: evtype
  evRoomID :: string
  evRoomName :: string
  evFrom :: string
  evCallID :: string

text \<open>A subscription is known by a number; its channel has 32 places and a full one drops the event.\<close>

record PresenceSub =
  sbRef :: nat
  sbUser :: string
  sbDeviceID :: string
  sbCh :: "PresenceEvent list"

record PresenceHub =
  subs :: "PresenceSub list"
  nextSub :: nat

definition NewPresenceHub :: PresenceHub where
  "NewPresenceHub = \<lparr>subs = [], nextSub = 0\<rparr>"

definition Subscribe_presence :: "string \<Rightarrow> string \<Rightarrow> PresenceHub \<Rightarrow> PresenceHub \<times> nat" where
  "Subscribe_presence user dev p =
     (p\<lparr>subs := subs p @ [\<lparr>sbRef = nextSub p, sbUser = user, sbDeviceID = dev, sbCh = []\<rparr>], nextSub := Suc (nextSub p)\<rparr>, nextSub p)"

definition Unsubscribe :: "nat \<Rightarrow> PresenceHub \<Rightarrow> PresenceHub" where
  "Unsubscribe ref p = p\<lparr>subs := filter (\<lambda>s. sbRef s \<noteq> ref) (subs p)\<rparr>"

definition deliver_event :: "PresenceEvent \<Rightarrow> PresenceSub \<Rightarrow> PresenceSub" where
  "deliver_event ev s = (if length (sbCh s) < 32 then s\<lparr>sbCh := sbCh s @ [ev]\<rparr> else s)"

definition to_subs :: "(PresenceSub \<Rightarrow> bool) \<Rightarrow> PresenceEvent \<Rightarrow> PresenceHub \<Rightarrow> PresenceHub" where
  "to_subs sel ev p = p\<lparr>subs := map (\<lambda>s. if sel s then deliver_event ev s else s) (subs p)\<rparr>"

text \<open>A name that occurs twice in the list gets the event twice.\<close>

definition NotifyUsers :: "string list \<Rightarrow> string \<Rightarrow> PresenceEvent \<Rightarrow> PresenceHub \<Rightarrow> PresenceHub" where
  "NotifyUsers users exclude ev p =
     fold (\<lambda>u p. if u = '''' \<or> u = exclude then p else to_subs (\<lambda>s. sbUser s = u) ev p) users p"

definition NotifyUser :: "string \<Rightarrow> PresenceEvent \<Rightarrow> PresenceHub \<Rightarrow> PresenceHub" where
  "NotifyUser user ev p = (if user = '''' then p else to_subs (\<lambda>s. sbUser s = user) ev p)"

text \<open>\<open>policy\<close> is the ringing policy of the user's devices.\<close>

definition Ring_presence :: "(string \<Rightarrow> string \<Rightarrow> bool) \<Rightarrow> string list \<Rightarrow> string \<Rightarrow> PresenceEvent \<Rightarrow> PresenceHub \<Rightarrow> PresenceHub \<times> string list" where
  "Ring_presence policy users exclude ev p =
     fold (\<lambda>u (p, rang).
             if u = '''' \<or> u = exclude then (p, rang)
             else let sel = (\<lambda>s. sbUser s = u \<and> policy u (sbDeviceID s))
                  in (to_subs sel ev p, if list_ex sel (subs p) then rang @ [u] else rang))
       users (p, [])"

definition IsOnline :: "string \<Rightarrow> PresenceHub \<Rightarrow> bool" where
  "IsOnline user p = list_ex (\<lambda>s. sbUser s = user) (subs p)"

definition WantsRing :: "(string \<Rightarrow> string \<Rightarrow> bool) \<Rightarrow> string \<Rightarrow> PresenceHub \<Rightarrow> bool" where
  "WantsRing policy user p = list_ex (\<lambda>s. sbUser s = user \<and> policy user (sbDeviceID s)) (subs p)"

end
