(* ===== verification/GoRunes.thy ===== *)
theory GoRunes
  imports GoStrings
begin

text \<open>
  Ranging over a Go string: its runes, each given by its encoding. A byte that begins no valid encoding yields the
  replacement character, whose encoding is three bytes, and one byte is consumed. The table is that of
  \<open>unicode/utf8\<close>: no overlong forms, no surrogates, nothing above U+10FFFF.
\<close>

definition byte_in :: "nat \<Rightarrow> nat \<Rightarrow> char \<Rightarrow> bool" where
  "byte_in lo hi c \<longleftrightarrow> lo \<le> of_char c \<and> of_char c \<le> hi"

definition RuneError :: string where
  "RuneError = [CHR 0xEF, CHR 0xBF, CHR 0xBD]"

text \<open>How many bytes the valid encoding at the front of a non-empty string takes; \<open>0\<close> when there is none.\<close>

definition rune_width :: "string \<Rightarrow> nat" where
  "rune_width s =
     (case s of
        [] \<Rightarrow> 0
      | a # t \<Rightarrow>
          let ok = (\<lambda>n f. length t \<ge> n \<and> f (t ! 0) \<and> list_all (byte_in 0x80 0xBF) (take n t))
          in if byte_in 0 0x7F a then 1
             else if byte_in 0xC2 0xDF a then (if ok 1 (byte_in 0x80 0xBF) then 2 else 0)
             else if byte_in 0xE0 0xE0 a then (if ok 2 (byte_in 0xA0 0xBF) then 3 else 0)
             else if byte_in 0xED 0xED a then (if ok 2 (byte_in 0x80 0x9F) then 3 else 0)
             else if byte_in 0xE1 0xEF a then (if ok 2 (byte_in 0x80 0xBF) then 3 else 0)
             else if byte_in 0xF0 0xF0 a then (if ok 3 (byte_in 0x90 0xBF) then 4 else 0)
             else if byte_in 0xF1 0xF3 a then (if ok 3 (byte_in 0x80 0xBF) then 4 else 0)
             else if byte_in 0xF4 0xF4 a then (if ok 3 (byte_in 0x80 0x8F) then 4 else 0)
             else 0)"

function runes :: "string \<Rightarrow> string list" where
  "runes s =
     (if s = [] then []
      else if rune_width s = 0 then RuneError # runes (tl s)
      else take (rune_width s) s # runes (drop (rune_width s) s))"
  by pat_completeness auto
termination
  by (relation "measure length") auto

declare runes.simps [simp del]

lemma runes_Nil [simp]: "runes [] = []"
  by (simp add: runes.simps)

text \<open>The runes below U+0020 and U+007F are single bytes.\<close>

definition control_rune :: "string \<Rightarrow> bool" where
  "control_rune r \<longleftrightarrow> (case r of [c] \<Rightarrow> of_char c < (0x20 :: nat) \<or> of_char c = (0x7F :: nat) | _ \<Rightarrow> False)"

definition join_runes :: "string list \<Rightarrow> string" where
  "join_runes rs = concat rs"

end
