(* ===== verification/VideoRooms.thy ===== *)
theory VideoRooms
  imports VideoHub LiveCalls GoRunes Tokens
begin

text \<open>
  The service of video calls: rooms and their members (\<^verbatim>\<open>service_rooms.go\<close>), PINs and the sanitisers
  (\<^verbatim>\<open>service_security.go\<close>), persistence and call history (\<^verbatim>\<open>service.go\<close>), the decision to ring (\<^verbatim>\<open>ring.go\<close>), the HTTP
  handlers (\<^verbatim>\<open>handlers.go\<close>, \<^verbatim>\<open>handlers_invite.go\<close>) and the two sockets (\<^verbatim>\<open>ws.go\<close>), all under
  \<^verbatim>\<open>internal/videocall\<close>.

  The hub, the registry of calls and the session store are those of their own theories; the session store is reached through
  \<open>inviteSessionsAdapter\<close> of \<^verbatim>\<open>internal/api/api.go\<close>. Clocks, random identifiers and signed tokens are arguments. What
  leaves the process (audit records, push messages) is a list of effects.
\<close>

section \<open>State\<close>

record Room =
  rmID :: string
  rmName :: string
  rmOwner :: string
  rmMembers :: "string list"
  rmCreatedAt :: secs
  rmPIN :: string
  rmPINExpiresAt :: secs

record CallSession =
  csRoomID :: string
  csRoomName :: string
  csUser :: string
  csStartedAt :: secs
  csDurationS :: int
  csBytesSent :: int
  csBytesRecv :: int
  csCodec :: string
  csConnectionType :: string

record VService =
  rooms :: "string \<rightharpoonup> Room"
  vdirty :: bool
  roomsFile :: "Room list jsonfile"
  hist :: "CallSession list"
  histFile :: "CallSession list jsonfile"
  vhub :: Hub
  vpresence :: PresenceHub
  vcalls :: callRegistry
  vdevices :: deviceStore
  guestJTIs :: "string \<rightharpoonup> string list"
  inviteSessions :: Store
  pinBuckets :: "string \<rightharpoonup> nanos list"
  ringStats :: "string \<Rightarrow> int"

datatype veffect =
    Audit string string string
  | PushRing string PresenceEvent
  | FCMRing string PresenceEvent
  | FCMEnded string string string
  | LeaveLater string

datatype room_error = RoomNotFound | RoomNotAuthorized | RoomInvalidName | CannotRemoveOwner | OwnerRequired

section \<open>The session store as the invitation tracker\<close>

definition Invite_Add :: "nanos \<Rightarrow> string \<Rightarrow> string \<Rightarrow> secs \<Rightarrow> Store \<Rightarrow> Store" where
  "Invite_Add now jti user expires s =
     Add \<lparr>JTI = jti, User = user, IP = '''', UserAgent = '''', IssuedAt = unix now, LastSeen = unix now,
          ExpiresAt = expires, Revoked = False\<rparr> s"

definition Invite_IsValid :: "string \<Rightarrow> Store \<Rightarrow> bool" where
  "Invite_IsValid jti s \<longleftrightarrow> Has jti s \<and> \<not> HasTombstone jti s"

definition Invite_Tombstone :: "nanos \<Rightarrow> string \<Rightarrow> Store \<Rightarrow> Store" where
  "Invite_Tombstone now jti s = snd (Revoke now jti s)"

section \<open>Sanitisers\<close>

definition sanitizeName :: "string \<Rightarrow> string" where
  "sanitizeName s =
     (let t = TrimSpace s
      in if t = '''' then ''Sala'' else join_runes (take 80 (filter (\<lambda>r. \<not> control_rune r) (runes t))))"

definition sanitizeAuditField :: "string \<Rightarrow> string" where
  "sanitizeAuditField s =
     join_runes (map (\<lambda>r. if control_rune r \<or> r = [CHR 0x22] \<or> r = [CHR 0x5C] then ''?'' else r) (take 80 (runes s)))"

definition sanitizeDeviceLabel :: "string \<Rightarrow> string" where
  "sanitizeDeviceLabel s = TrimSpace (join_runes (filter (\<lambda>r. \<not> control_rune r) (take 60 (runes (TrimSpace s)))))"

definition pin_alphabet :: string where
  "pin_alphabet = ''23456789ABCDEFGHJKLMNPQRSTUVWXYZ''"

text \<open>\<open>bs\<close> are the random bytes.\<close>

definition randomPIN :: "nat list \<Rightarrow> string" where
  "randomPIN bs = map (\<lambda>b. pin_alphabet ! (b mod length pin_alphabet)) bs"

section \<open>Rooms\<close>

definition CreateRoom :: "string \<Rightarrow> string \<Rightarrow> nanos \<Rightarrow> string \<Rightarrow> VService \<Rightarrow> VService \<times> (room_error + Room)" where
  "CreateRoom user name now newID s =
     (if user = '''' then (s, Err OwnerRequired)
      else let r = \<lparr>rmID = newID, rmName = sanitizeName name, rmOwner = user, rmMembers = [], rmCreatedAt = unix now,
                    rmPIN = '''', rmPINExpiresAt = 0\<rparr>
           in (s\<lparr>rooms := (rooms s)(newID \<mapsto> r), vdirty := True\<rparr>, Ok r))"

text \<open>The guard that the owner-only operations share.\<close>

definition owned_room :: "string \<Rightarrow> string \<Rightarrow> VService \<Rightarrow> room_error + Room" where
  "owned_room user room s =
     (case rooms s room of
        None \<Rightarrow> Err RoomNotFound
      | Some r \<Rightarrow> if rmOwner r \<noteq> user then Err RoomNotAuthorized else Ok r)"

text \<open>
  The deletion is one critical section; the peers of the room are put out afterwards, without the lock, one by one. The same holds for the
  removal of a member: there only the peers of one account are put out.
\<close>

definition DeleteRoom_locked :: "string \<Rightarrow> string \<Rightarrow> VService \<Rightarrow> VService \<times> (room_error + unit)" where
  "DeleteRoom_locked user room s =
     (case owned_room user room s of
        Inl e \<Rightarrow> (s, Err e)
      | Inr r \<Rightarrow> (s\<lparr>rooms := (rooms s)(room := None), vdirty := True\<rparr>, Ok ()))"

definition evict_one :: "string option \<Rightarrow> string \<Rightarrow> Hub \<Rightarrow> Hub" where
  "evict_one who i h =
     (case who of None \<Rightarrow> Leave i h | Some user \<Rightarrow> if PeerUser i h = Some user then Leave i h else h)"

definition DeleteRoom :: "string \<Rightarrow> string \<Rightarrow> VService \<Rightarrow> VService \<times> (room_error + unit)" where
  "DeleteRoom user room s =
     (case DeleteRoom_locked user room s of
        (s1, Inl e) \<Rightarrow> (s1, Err e)
      | (s1, Inr _) \<Rightarrow> (s1\<lparr>vhub := fold (evict_one None) (PeersInRoom room (vhub s1)) (vhub s1)\<rparr>, Ok ()))"

definition RenameRoom :: "string \<Rightarrow> string \<Rightarrow> string \<Rightarrow> VService \<Rightarrow> VService \<times> (room_error + unit)" where
  "RenameRoom user room newName s =
     (if TrimSpace newName = '''' then (s, Err RoomInvalidName)
      else case owned_room user room s of
        Inl e \<Rightarrow> (s, Err e)
      | Inr r \<Rightarrow> (s\<lparr>rooms := (rooms s)(room \<mapsto> r\<lparr>rmName := sanitizeName newName\<rparr>), vdirty := True\<rparr>, Ok ()))"

definition AddMember :: "string \<Rightarrow> string \<Rightarrow> string \<Rightarrow> VService \<Rightarrow> VService \<times> (room_error + unit)" where
  "AddMember user room member s =
     (case owned_room user room s of
        Inl e \<Rightarrow> (s, Err e)
      | Inr r \<Rightarrow>
          if member \<in> set (rmMembers r) then (s, Ok ())
          else (s\<lparr>rooms := (rooms s)(room \<mapsto> r\<lparr>rmMembers := rmMembers r @ [member]\<rparr>), vdirty := True\<rparr>, Ok ()))"

definition evictUserFromRoom :: "string \<Rightarrow> string \<Rightarrow> Hub \<Rightarrow> Hub" where
  "evictUserFromRoom room user h = fold (evict_one (Some user)) (PeersInRoom room h) h"

text \<open>The answer of the critical section tells whether somebody was removed.\<close>

definition RemoveMember_locked :: "string \<Rightarrow> string \<Rightarrow> string \<Rightarrow> VService \<Rightarrow> VService \<times> (room_error + bool)" where
  "RemoveMember_locked user room member s =
     (case owned_room user room s of
        Inl e \<Rightarrow> (s, Err e)
      | Inr r \<Rightarrow>
          if member = rmOwner r then (s, Err CannotRemoveOwner)
          else if member \<in> set (rmMembers r)
          then (s\<lparr>rooms := (rooms s)(room \<mapsto> r\<lparr>rmMembers := filter (\<lambda>m. m \<noteq> member) (rmMembers r)\<rparr>), vdirty := True\<rparr>, Ok True)
          else (s, Ok False))"

definition RemoveMember :: "string \<Rightarrow> string \<Rightarrow> string \<Rightarrow> VService \<Rightarrow> VService \<times> (room_error + unit)" where
  "RemoveMember user room member s =
     (case RemoveMember_locked user room member s of
        (s1, Inl e) \<Rightarrow> (s1, Err e)
      | (s1, Inr removed) \<Rightarrow> (if removed then s1\<lparr>vhub := evictUserFromRoom room member (vhub s1)\<rparr> else s1, Ok ()))"

definition RoomForUser :: "string \<Rightarrow> string \<Rightarrow> VService \<Rightarrow> Room option" where
  "RoomForUser user room s =
     (case rooms s room of
        None \<Rightarrow> None
      | Some r \<Rightarrow> if rmOwner r = user \<or> user \<in> set (rmMembers r) then Some r else None)"

definition IsRoomOwner :: "string \<Rightarrow> string \<Rightarrow> VService \<Rightarrow> bool" where
  "IsRoomOwner room user s \<longleftrightarrow> user \<noteq> '''' \<and> (case rooms s room of None \<Rightarrow> False | Some r \<Rightarrow> rmOwner r = user)"

definition CanJoin :: "string \<Rightarrow> string \<Rightarrow> VService \<Rightarrow> bool" where
  "CanJoin user room s \<longleftrightarrow>
     (case rooms s room of None \<Rightarrow> False | Some r \<Rightarrow> rmOwner r = user \<or> user \<in> set (rmMembers r))"

definition ListRoomsForUser :: "string list \<Rightarrow> string \<Rightarrow> VService \<Rightarrow> Room list" where
  "ListRoomsForUser ks user s =
     slice_stable (\<lambda>a b. if rmCreatedAt a \<noteq> rmCreatedAt b then rmCreatedAt a > rmCreatedAt b else rmID a > rmID b)
       (filter (\<lambda>r. rmOwner r = user \<or> user \<in> set (rmMembers r)) (List.map_filter (rooms s) ks))"

section \<open>PINs\<close>

definition SetPIN :: "string \<Rightarrow> string \<Rightarrow> int \<Rightarrow> nanos \<Rightarrow> string \<Rightarrow> VService \<Rightarrow> VService \<times> (room_error + string)" where
  "SetPIN user room ttlHours now pin s =
     (case owned_room user room s of
        Inl e \<Rightarrow> (s, Err e)
      | Inr r \<Rightarrow>
          (s\<lparr>rooms := (rooms s)(room \<mapsto> r\<lparr>rmPIN := pin,
               rmPINExpiresAt := (if ttlHours > 0 then unix (now + wrap64 (ttlHours * 3600 * second)) else 0)\<rparr>), vdirty := True\<rparr>, Ok pin))"

definition RevokePIN :: "string \<Rightarrow> string \<Rightarrow> nanos \<Rightarrow> VService \<Rightarrow> VService \<times> (room_error + unit)" where
  "RevokePIN user room now s =
     (case owned_room user room s of
        Inl e \<Rightarrow> (s, Err e)
      | Inr r \<Rightarrow>
          (let jtis = (case guestJTIs s room of None \<Rightarrow> [] | Some js \<Rightarrow> js)
           in (s\<lparr>rooms := (rooms s)(room \<mapsto> r\<lparr>rmPIN := '''', rmPINExpiresAt := 0\<rparr>), vdirty := True,
                 guestJTIs := (guestJTIs s)(room := None),
                 inviteSessions := fold (Invite_Tombstone now) jtis (inviteSessions s)\<rparr>, Ok ())))"

definition pin_matches :: "secs \<Rightarrow> string \<Rightarrow> Room \<Rightarrow> bool" where
  "pin_matches now pin r \<longleftrightarrow> rmPIN r = pin \<and> (rmPINExpiresAt r = 0 \<or> rmPINExpiresAt r \<ge> now)"

text \<open>\<open>ks\<close> is the order of the range; the last match wins.\<close>

definition LookupByPIN :: "string list \<Rightarrow> nanos \<Rightarrow> string \<Rightarrow> VService \<Rightarrow> Room option" where
  "LookupByPIN ks now pin s =
     (if pin = '''' then None
      else fold (\<lambda>r found. if pin_matches (unix now) pin r then Some r else found) (List.map_filter (rooms s) ks) None)"

definition pinGCCutoff :: secs where "pinGCCutoff = 30"

definition pin_stale :: "secs \<Rightarrow> Room \<Rightarrow> bool" where
  "pin_stale now r \<longleftrightarrow> rmPIN r \<noteq> '''' \<and> rmPINExpiresAt r > 0 \<and> rmPINExpiresAt r + pinGCCutoff < now"

definition gcExpiredPINs :: "string list \<Rightarrow> nanos \<Rightarrow> VService \<Rightarrow> VService" where
  "gcExpiredPINs ks now s =
     s\<lparr>rooms := (\<lambda>k. map_option (\<lambda>r. if pin_stale (unix now) r then r\<lparr>rmPIN := '''', rmPINExpiresAt := 0\<rparr> else r) (rooms s k)),
       vdirty := (vdirty s \<or> list_ex (pin_stale (unix now)) (List.map_filter (rooms s) ks))\<rparr>"

text \<open>Five attempts a minute and address.\<close>

definition pinAllow :: "nanos \<Rightarrow> string \<Rightarrow> VService \<Rightarrow> VService \<times> bool" where
  "pinAllow now ip s =
     (let kept = filter (\<lambda>t. t > now - 60 * second) (case pinBuckets s ip of None \<Rightarrow> [] | Some hs \<Rightarrow> hs);
          allowed = length kept < 5;
          hits = (if allowed then kept @ [now] else kept)
      in (s\<lparr>pinBuckets := (pinBuckets s)(ip := if hits = [] then None else Some hits)\<rparr>, allowed))"

section \<open>Persistence\<close>

definition load_room :: "Room \<Rightarrow> (string \<rightharpoonup> Room) \<Rightarrow> (string \<rightharpoonup> Room)" where
  "load_room r m = (if rmID r = '''' then m else m(rmID r \<mapsto> r))"

definition save_rooms :: "string list \<Rightarrow> bool \<Rightarrow> VService \<Rightarrow> VService" where
  "save_rooms ks ok s =
     (if ok then s\<lparr>roomsFile := Doc (sort_key rmCreatedAt (List.map_filter (rooms s) ks))\<rparr> else s)"

definition flushOnce :: "string list \<Rightarrow> bool \<Rightarrow> VService \<Rightarrow> VService" where
  "flushOnce ks ok s = (if vdirty s then save_rooms ks ok (s\<lparr>vdirty := False\<rparr>) else s)"

text \<open>
  A new process: rooms, calls and devices from their files, and an empty hub, presence and index of guest tokens. A rooms file
  that cannot be read is an error, one that cannot be decoded starts empty. The session store is opened by its own package.
\<close>

definition Open_video :: "secs \<Rightarrow> Room list jsonfile \<Rightarrow> LiveCall list jsonfile \<Rightarrow> RingDevice list jsonfile \<Rightarrow> CallSession list jsonfile \<Rightarrow> Store
    \<Rightarrow> VService option" where
  "Open_video now rf cf df hf st =
     (if rf = Unreadable then None
      else Some \<lparr>rooms = (case rf of Doc rs \<Rightarrow> fold load_room rs Map.empty | _ \<Rightarrow> Map.empty), vdirty = False, roomsFile = rf,
                 hist = (case hf of Doc h \<Rightarrow> h | _ \<Rightarrow> []), histFile = hf, vhub = NewHub 4, vpresence = NewPresenceHub, vcalls = newCallRegistry now cf,
                 vdevices = newDeviceStore now df, guestJTIs = Map.empty, inviteSessions = st, pinBuckets = Map.empty, ringStats = (\<lambda>_. 0)\<rparr>)"

definition RecordCallSession :: "bool \<Rightarrow> nanos \<Rightarrow> CallSession \<Rightarrow> VService \<Rightarrow> VService" where
  "RecordCallSession ok now cs s =
     (let cs1 = (if csStartedAt cs = 0 then cs\<lparr>csStartedAt := unix now - csDurationS cs\<rparr> else cs);
          cs2 = (case rooms s (csRoomID cs1) of None \<Rightarrow> cs1 | Some r \<Rightarrow> cs1\<lparr>csRoomName := rmName r\<rparr>);
          hs = hist s @ [cs2];
          kept = (if length hs > 500 then drop (length hs - 500) hs else hs)
      in s\<lparr>hist := kept, histFile := (if ok then Doc kept else histFile s)\<rparr>)"

definition HistoryForUser :: "string \<Rightarrow> int \<Rightarrow> VService \<Rightarrow> CallSession list" where
  "HistoryForUser user limit s =
     (let n = (if limit \<le> 0 \<or> limit > 200 then 50 else nat limit)
      in take n (filter (\<lambda>c. csUser c = user) (rev (hist s))))"

end
