(* ===== verification/VideoHandlers.thy ===== *)
theory VideoHandlers
  imports VideoRooms RateLimit
begin

text \<open>
  The HTTP handlers and the sockets of video calls, \<^verbatim>\<open>handlers.go\<close>, \<^verbatim>\<open>handlers_invite.go\<close>, \<^verbatim>\<open>ws.go\<close>,
  \<^verbatim>\<open>ring.go\<close> and \<^verbatim>\<open>turn.go\<close> of \<^verbatim>\<open>internal/videocall\<close>.

  A handler runs at one instant \<open>vNow\<close>; identifiers it draws, the verdict of each write, the order in which Go ranges
  over a map, and the signing and parsing of tokens come from the record \<open>vhost\<close>. The request body is the decoded value, or
  \<open>None\<close> when decoding fails. Parts that \<open>NewRouter\<close> may leave unset are the flags of \<open>vconf\<close>; the registry of calls, the
  device store and the presence hub are always set by \<open>Open\<close>. The audit callback is set.
\<close>

section \<open>Surroundings of a request\<close>

record vconf =
  hasIssuer :: bool
  hasSessions :: bool
  hasPush :: bool
  hasFCM :: bool
  turnSecret :: string
  turnHosts :: "string list"

record vhost =
  vNow :: nanos
  vPeerID :: string
  vFallbackID :: string
  vNewID :: string
  vJTI :: string
  vPIN :: string
  vSign :: "claims \<Rightarrow> string option"
  vParse :: jwt_parse
  vUpgrade :: bool
  vWritten :: bool
  vSaved :: bool
  vRoomKeys :: "string list"
  vCallKeys :: "string list"
  vDeviceKeys :: "string list"
  vHostName :: string
  vTLS :: bool
  vMac :: "string \<Rightarrow> string \<Rightarrow> string"
  vUpper :: "string \<Rightarrow> string"
  vState :: "payload \<Rightarrow> (string \<rightharpoonup> string) option"

section \<open>TURN credentials\<close>

record TURNCredentials =
  tcURLs :: "string list"
  tcUsername :: string
  tcCredential :: string
  tcTTL :: secs

definition fmt_int :: "int \<Rightarrow> string" where
  "fmt_int i = (if i < 0 then CHR ''-'' # decimal (nat (- i)) else decimal (nat i))"

definition sanitizeUser :: "string \<Rightarrow> string" where
  "sanitizeUser u =
     (if u = '''' then ''anon''
      else map (\<lambda>c. if c = CHR '':'' \<or> c = CHR '' '' \<or> c = CHR 0x09 \<or> c = CHR 0x0A then CHR ''_'' else c) u)"

definition stunOnly :: "string list \<Rightarrow> string list" where
  "stunOnly hosts =
     (let out = filter (\<lambda>h. HasPrefix h ''stun:'') hosts
      in if out = [] then [''stun:stun.l.google.com:19302''] else out)"

text \<open>\<open>mac\<close> is the base64 of HMAC-SHA1; a missing configuration has no secret and no hosts.\<close>

definition MintTURNCredentials :: "(string \<Rightarrow> string \<Rightarrow> string) \<Rightarrow> nanos \<Rightarrow> vconf \<Rightarrow> string \<Rightarrow> nanos \<Rightarrow> TURNCredentials" where
  "MintTURNCredentials mac now cf user ttl =
     (if turnSecret cf = '''' then \<lparr>tcURLs = stunOnly (turnHosts cf), tcUsername = '''', tcCredential = '''', tcTTL = 0\<rparr>
      else
          let ttl' = max (60 * second) (min ttl (24 * 60 * 60 * second));
              username = fmt_int (unix (now + ttl')) @ '':'' @ sanitizeUser user
          in \<lparr>tcURLs = turnHosts cf, tcUsername = username, tcCredential = mac (turnSecret cf) username, tcTTL = ttl' div second\<rparr>)"

definition turn_for :: "vhost \<Rightarrow> vconf \<Rightarrow> string \<Rightarrow> TURNCredentials" where
  "turn_for H cf user = MintTURNCredentials (vMac H) (vNow H) cf user (60 * 60 * second)"

section \<open>The decision to ring\<close>

fun reason_text :: "ringReason \<Rightarrow> string" where
  "reason_text NewCall = ''new-call''"
| "reason_text Ongoing = ''ongoing''"
| "reason_text Rejoin = ''rejoin''"
| "reason_text ResumeHint = ''resume-hint''"

definition incRingStat :: "string \<Rightarrow> VService \<Rightarrow> VService" where
  "incRingStat reason s = s\<lparr>ringStats := (ringStats s)(reason := ringStats s reason + 1)\<rparr>"

definition saved_calls :: "vhost \<Rightarrow> callRegistry \<Rightarrow> callRegistry" where
  "saved_calls H r = (if rdirty r then save_calls (vCallKeys H) (vSaved H) r else r)"

definition policy_of :: "vhost \<Rightarrow> VService \<Rightarrow> string \<Rightarrow> string \<Rightarrow> bool" where
  "policy_of H s user dev = ShouldRing user dev (unix (vNow H)) (vdevices s)"

text \<open>Who is rung, after the dedup of each recipient; the number of suppressed ones.\<close>

fun ring_list :: "string \<Rightarrow> string \<Rightarrow> secs \<Rightarrow> string list \<Rightarrow> callRegistry \<Rightarrow> callRegistry \<times> string list \<times> nat" where
  "ring_list room user now [] r = (r, [], 0)"
| "ring_list room user now (x # xs) r =
     (if x = '''' \<or> x = user then ring_list room user now xs r
      else case AllowRing room x now r of
        (r1, False) \<Rightarrow> (let (r2, xs', n) = ring_list room user now xs r1 in (r2, xs', Suc n))
      | (r1, True) \<Rightarrow> (let (r2, xs', n) = ring_list room user now xs r1 in (r2, x # xs', n)))"

definition off_app :: "vhost \<Rightarrow> vconf \<Rightarrow> string list \<Rightarrow> PresenceEvent \<Rightarrow> VService \<Rightarrow> veffect list" where
  "off_app H cf recipients ev s =
     (let away = filter (\<lambda>u. \<not> WantsRing (policy_of H s) u (vpresence s)) recipients
      in (if hasPush cf then map (\<lambda>u. PushRing u ev) away else [])
         @ (if hasFCM cf then map (\<lambda>u. FCMRing u ev) away else []))"

text \<open>The parts (2) and (3) of \<open>announceJoin\<close>: the other devices of the account, then the members.\<close>

definition answered_here :: "string \<Rightarrow> string \<Rightarrow> Room \<Rightarrow> string \<Rightarrow> VService \<Rightarrow> VService" where
  "answered_here user roomID room callID s =
     (if is_guest user then s
      else s\<lparr>vpresence := NotifyUser user \<lparr>evType = CallAnsweredElsewhere, evRoomID = roomID, evRoomName = rmName room,
                                      evFrom = '''', evCallID = callID\<rparr> (vpresence s)\<rparr>)"

definition ring_members :: "vhost \<Rightarrow> vconf \<Rightarrow> string \<Rightarrow> string \<Rightarrow> Room \<Rightarrow> PresenceEvent \<Rightarrow> VService \<Rightarrow> VService \<times> veffect list" where
  "ring_members H cf roomID user room ev s =
     (let (r2, recipients, deduped) = ring_list roomID user (unix (vNow H)) (rmOwner room # rmMembers room) (vcalls s);
          s3 = s\<lparr>vcalls := r2\<rparr>;
          s4 = (if deduped > 0 then incRingStat ''deduped'' s3 else s3)
      in if recipients = [] then (s4, [])
         else let (p, rang) = Ring_presence (policy_of H s4) recipients user ev (vpresence s4);
                  s5 = incRingStat ''new-call'' (s4\<lparr>vpresence := p\<rparr>)
              in (s5, Audit ''videocall.ring'' user roomID # off_app H cf recipients ev s5))"

definition announceJoin :: "vhost \<Rightarrow> vconf \<Rightarrow> string \<Rightarrow> string \<Rightarrow> string \<Rightarrow> string \<Rightarrow> bool \<Rightarrow> VService \<Rightarrow> VService \<times> veffect list" where
  "announceJoin H cf roomID user displayName clientID resume s =
     (case OnJoin roomID user clientID resume (unix (vNow H)) (vNewID H) (vcalls s) of
        (r1, dec) \<Rightarrow>
          (case rooms s roomID of
             None \<Rightarrow> (s\<lparr>vcalls := saved_calls H r1\<rparr>, [])
           | Some room \<Rightarrow>
               (let s2 = answered_here user roomID room (rdCallID dec) (s\<lparr>vcalls := saved_calls H r1\<rparr>)
                in if \<not> rdRing dec then (incRingStat (reason_text (rdReason dec)) s2, [])
                   else ring_members H cf roomID user room
                          \<lparr>evType = IncomingCall, evRoomID = roomID, evRoomName = rmName room, evFrom = displayName,
                           evCallID = rdCallID dec\<rparr> s2)))"

definition broadcastCallEnded :: "vconf \<Rightarrow> string \<Rightarrow> string \<Rightarrow> VService \<Rightarrow> VService \<times> veffect list" where
  "broadcastCallEnded cf roomID callID s =
     (case rooms s roomID of
        None \<Rightarrow> (s, [])
      | Some room \<Rightarrow>
          (let all = rmOwner room # rmMembers room
           in (s\<lparr>vpresence := NotifyUsers all '''' \<lparr>evType = CallEnded, evRoomID = roomID, evRoomName = rmName room,
                                                     evFrom = '''', evCallID = callID\<rparr> (vpresence s)\<rparr>,
               if hasFCM cf then map (\<lambda>u. FCMEnded u roomID callID) (filter (\<lambda>u. u \<noteq> '''') all) else [])))"

definition onPeerGone :: "vhost \<Rightarrow> vconf \<Rightarrow> string \<Rightarrow> string \<Rightarrow> bool \<Rightarrow> VService \<Rightarrow> VService \<times> veffect list" where
  "onPeerGone H cf roomID clientID graceful s =
     (let (r1, ended, callID) = OnPeerGone roomID clientID graceful (unix (vNow H)) (vcalls s);
          s1 = s\<lparr>vcalls := saved_calls H r1\<rparr>
      in if ended then broadcastCallEnded cf roomID callID s1 else (s1, []))"

definition touchLiveCalls :: "vhost \<Rightarrow> VService \<Rightarrow> VService" where
  "touchLiveCalls H s = s\<lparr>vcalls := Touch_calls (OccupiedRooms (vRoomKeys H) (vhub s)) (unix (vNow H)) (vcalls s)\<rparr>"

text \<open>One tick of \<open>callHeartbeat\<close>; the stop signal only touches.\<close>

definition callHeartbeat :: "vhost \<Rightarrow> vconf \<Rightarrow> VService \<Rightarrow> VService \<times> veffect list" where
  "callHeartbeat H cf s =
     (let s1 = touchLiveCalls H s;
          (r, gone) = GC_calls (vCallKeys H) (unix (vNow H)) (vcalls s1);
          (s2, es) = fold (\<lambda>c (t, es). let (t', es') = broadcastCallEnded cf (lcRoom c) (lcCallID c) t in (t', es @ es'))
                       gone (s1\<lparr>vcalls := r\<rparr>, [])
      in (s2\<lparr>vcalls := saved_calls H (vcalls s2)\<rparr>, es))"

section \<open>Replies\<close>

text \<open>The long dash of the messages, in UTF-8.\<close>

definition dash :: string where
  "dash = [CHR '' '', CHR 0xE2, CHR 0x80, CHR 0x94, CHR '' '']"

datatype vreply =
    VErr nat string
  | VNoContent
  | VOk
  | VRoom Room
  | VRooms "Room list"
  | VTurn TURNCredentials
  | VHistory "CallSession list"
  | VInvite string string secs string
  | VInvited string secs string
  | VPin string secs string
  | VGuest string string string secs
  | VDevices "RingDevice list" secs
  | VDevicesSet "RingDevice list"

fun room_error_text :: "room_error \<Rightarrow> string" where
  "room_error_text RoomNotFound = ''room not found''"
| "room_error_text RoomNotAuthorized = ''not authorized''"
| "room_error_text RoomInvalidName = ''invalid name''"
| "room_error_text CannotRemoveOwner = ''cannot remove owner''"
| "room_error_text OwnerRequired = ''owner required''"

fun hub_error_text :: "hub_error \<Rightarrow> string" where
  "hub_error_text ErrMissingID = ''peer missing id or room''"
| "hub_error_text ErrRoomFull = ''room is full''"
| "hub_error_text ErrPeerNotInRoom = ''peer not in any room''"
| "hub_error_text ErrTargetNotInRoom = ''target peer is not in the same room''"
| "hub_error_text ErrTargetUnknown = ''target peer not connected''"
| "hub_error_text ErrRateLimited = ''rate limit exceeded''"
| "hub_error_text ErrAlreadyJoined = ''user already in room''"

type_synonym vresult = "VService \<times> vreply \<times> veffect list"

definition say :: "VService \<Rightarrow> nat \<Rightarrow> string \<Rightarrow> vresult" where
  "say s code text = (s, VErr code text, [])"

definition no_room :: Room where
  "no_room = \<lparr>rmID = '''', rmName = '''', rmOwner = '''', rmMembers = [], rmCreatedAt = 0, rmPIN = '''', rmPINExpiresAt = 0\<rparr>"

text \<open>The first result of \<open>s.Room(id)\<close>.\<close>

definition room_or_zero :: "string \<Rightarrow> VService \<Rightarrow> Room" where
  "room_or_zero i s = (case rooms s i of None \<Rightarrow> no_room | Some r \<Rightarrow> r)"

section \<open>Rooms, members and history\<close>

text \<open>The body of a request for rooms: the fields \<open>id\<close> and \<open>name\<close>.\<close>

definition HandleRooms :: "vhost \<Rightarrow> string \<Rightarrow> request \<Rightarrow> (string \<times> string) option \<Rightarrow> VService \<Rightarrow> vresult" where
  "HandleRooms H user rq body s =
     (if user = '''' then say s 401 ''unauthorized''
      else if Method rq = MethodGet then (s, VRooms (ListRoomsForUser (vRoomKeys H) user s), [])
      else if Method rq = MethodPost then
        (case body of
           None \<Rightarrow> say s 400 ''invalid body''
         | Some (_, name) \<Rightarrow>
             (case CreateRoom user name (vNow H) (vNewID H) s of
                (s1, Inl e) \<Rightarrow> say s1 400 (room_error_text e)
              | (s1, Inr room) \<Rightarrow> (s1, VRoom room, [])))
      else if Method rq = MethodPatch then
        (case body of
           None \<Rightarrow> say s 400 ''invalid body''
         | Some (i, name) \<Rightarrow>
             (case RenameRoom user i name s of
                (s1, Inl e) \<Rightarrow> say s1 400 (room_error_text e)
              | (s1, Inr _) \<Rightarrow> (s1, VRoom (room_or_zero i s1), [Audit ''videocall.room_renamed'' user i])))
      else if Method rq = MethodDelete then
        (case DeleteRoom user (Query rq ''id'') s of
           (s1, Inl e) \<Rightarrow> say s1 400 (room_error_text e)
         | (s1, Inr _) \<Rightarrow> (s1, VNoContent, []))
      else say s 405 ''method not allowed'')"

definition HandleMembers :: "string \<Rightarrow> request \<Rightarrow> (string \<times> string) option \<Rightarrow> VService \<Rightarrow> vresult" where
  "HandleMembers user rq body s =
     (if user = '''' then say s 401 ''unauthorized''
      else if Method rq = MethodPost then
        (case body of
           None \<Rightarrow> say s 400 ''invalid body''
         | Some (i, m) \<Rightarrow>
             let member = TrimSpace m
             in if member = '''' then say s 400 ''member required''
                else case AddMember user i member s of
                       (s1, Inl e) \<Rightarrow> say s1 400 (room_error_text e)
                     | (s1, Inr _) \<Rightarrow> (s1, VNoContent, []))
      else if Method rq = MethodDelete then
        (case RemoveMember user (Query rq ''room_id'') (Query rq ''member'') s of
           (s1, Inl e) \<Rightarrow> say s1 400 (room_error_text e)
         | (s1, Inr _) \<Rightarrow> (s1, VNoContent, []))
      else say s 405 ''method not allowed'')"

definition HandleTURN :: "vhost \<Rightarrow> vconf \<Rightarrow> string \<Rightarrow> VService \<Rightarrow> vresult" where
  "HandleTURN H cf user s = (if user = '''' then say s 401 ''unauthorized'' else (s, VTurn (turn_for H cf user), []))"

text \<open>\<open>limit\<close> is what \<open>Atoi\<close> makes of the parameter.\<close>

definition HandleHistory :: "string \<Rightarrow> int option \<Rightarrow> VService \<Rightarrow> vresult" where
  "HandleHistory user limit s =
     (if user = '''' then say s 401 ''unauthorized''
      else (s, VHistory (HistoryForUser user (case limit of Some n \<Rightarrow> if n > 0 then n else 50 | None \<Rightarrow> 50) s), []))"

definition capped :: "int \<Rightarrow> int \<Rightarrow> int" where
  "capped most n = (if n < 0 \<or> n > most then 0 else n)"

definition HandleRecordSession :: "vhost \<Rightarrow> string \<Rightarrow> request \<Rightarrow> CallSession option \<Rightarrow> VService \<Rightarrow> vresult" where
  "HandleRecordSession H user rq body s =
     (if Method rq \<noteq> MethodPost then say s 405 ''method not allowed''
      else if user = '''' then say s 401 ''unauthorized''
      else case body of
        None \<Rightarrow> say s 400 ''invalid body''
      | Some cs \<Rightarrow>
          let maxBytes = 100 * 1024 * 1024 * 1024;
              cs' = cs\<lparr>csUser := user, csDurationS := capped (24 * 3600) (csDurationS cs),
                       csBytesSent := capped maxBytes (csBytesSent cs), csBytesRecv := capped maxBytes (csBytesRecv cs)\<rparr>
          in (RecordCallSession (vSaved H) (vNow H) cs' s, VNoContent, []))"

section \<open>Invitations\<close>

definition invite_ttl :: "int \<Rightarrow> nanos" where
  "invite_ttl mins = (let ttl = wrap64 (mins * 60 * second) in if ttl \<le> 0 \<or> ttl > 24 * 60 * 60 * second then 60 * 60 * second else ttl)"

definition invite_url :: "vhost \<Rightarrow> string \<Rightarrow> string" where
  "invite_url H tok =
     (if \<not> vTLS H \<and> CHR '':'' \<notin> set (vHostName H) then ''http'' else ''https'') @ ''://'' @ vHostName H @ ''/#videocall=join&token='' @ tok"

text \<open>\<open>IssueVideocallInviteToken\<close> and the tracking of its identifier, which the two invitation handlers share.\<close>

definition issue_invite :: "vhost \<Rightarrow> vconf \<Rightarrow> string \<Rightarrow> string \<Rightarrow> nanos \<Rightarrow> VService \<Rightarrow> (VService \<times> string) option" where
  "issue_invite H cf user room ttl s =
     (case vSign H (invite_claims (vNow H) (vJTI H) user room ttl) of
        None \<Rightarrow> None
      | Some tok \<Rightarrow>
          Some (if hasSessions cf
                then s\<lparr>inviteSessions := Invite_Add (vNow H) (vJTI H) (''INVITE:'' @ user) (unix (vNow H + ttl)) (inviteSessions s)\<rparr>
                else s, tok))"

definition HandleInvite :: "vhost \<Rightarrow> vconf \<Rightarrow> string \<Rightarrow> request \<Rightarrow> (string \<times> int) option \<Rightarrow> VService \<Rightarrow> vresult" where
  "HandleInvite H cf user rq body s =
     (if Method rq \<noteq> MethodPost then say s 405 ''method not allowed''
      else if user = '''' then say s 401 ''unauthorized''
      else if \<not> hasIssuer cf then say s 500 ''invite issuer not configured''
      else case body of
        None \<Rightarrow> say s 400 ''invalid body''
      | Some (i, mins) \<Rightarrow>
          (case RoomForUser user i s of
             None \<Rightarrow> say s 404 ''room not found''
           | Some room \<Rightarrow>
               if rmOwner room \<noteq> user then say s 403 ''only owner can invite''
               else case issue_invite H cf user (rmID room) (invite_ttl mins) s of
                      None \<Rightarrow> say s 500 ''issue''
                    | Some (s1, tok) \<Rightarrow>
                        (s1, VInvite (invite_url H tok) tok (unix (vNow H + invite_ttl mins)) (rmID room),
                         [Audit ''videocall.invite_issued'' user (rmID room)])))"

text \<open>\<open>HandleInviteConsume\<close> in its three moments, which other requests can come between: the checks, the grant, the tombstone.\<close>

definition consume_check :: "vhost \<Rightarrow> vconf \<Rightarrow> string \<Rightarrow> request \<Rightarrow> string option \<Rightarrow> VService \<Rightarrow> (nat \<times> string) + (string \<times> string)" where
  "consume_check H cf user rq body s =
     (if Method rq \<noteq> MethodPost then Err (405, ''method not allowed'')
      else if user = '''' then Err (401, ''unauthorized'')
      else if \<not> hasIssuer cf then Err (500, ''invite issuer not configured'')
      else case body of
        None \<Rightarrow> Err (400, ''invalid body'')
      | Some tok \<Rightarrow>
          (case VerifyVideocallInviteToken (vParse H) (vNow H) tok of
             None \<Rightarrow> Err (401, ''invalid invite'')
           | Some (i, jti) \<Rightarrow>
               if hasSessions cf \<and> jti \<noteq> '''' \<and> \<not> Invite_IsValid jti (inviteSessions s) then Err (401, ''invalid invite'')
               else if rooms s i = None then Err (401, ''invalid invite'')
               else Ok (i, jti)))"

definition consume_grant :: "string \<Rightarrow> string \<Rightarrow> VService \<Rightarrow> VService \<times> Room option" where
  "consume_grant user i s =
     (case rooms s i of
        None \<Rightarrow> (s, None)
      | Some r \<Rightarrow>
          if rmOwner r \<noteq> user \<and> user \<notin> set (rmMembers r)
          then let r' = r\<lparr>rmMembers := rmMembers r @ [user]\<rparr> in (s\<lparr>rooms := (rooms s)(i \<mapsto> r'), vdirty := True\<rparr>, Some r')
          else (s, Some r))"

definition consume_spend :: "vhost \<Rightarrow> vconf \<Rightarrow> string \<Rightarrow> VService \<Rightarrow> VService" where
  "consume_spend H cf jti s =
     (if hasSessions cf \<and> jti \<noteq> '''' then s\<lparr>inviteSessions := Invite_Tombstone (vNow H) jti (inviteSessions s)\<rparr> else s)"

definition HandleInviteConsume :: "vhost \<Rightarrow> vconf \<Rightarrow> string \<Rightarrow> request \<Rightarrow> string option \<Rightarrow> VService \<Rightarrow> vresult" where
  "HandleInviteConsume H cf user rq body s =
     (case consume_check H cf user rq body s of
        Inl (code, text) \<Rightarrow> say s code text
      | Inr (i, jti) \<Rightarrow>
          (case consume_grant user i s of
             (s1, None) \<Rightarrow> say s1 401 ''invalid invite''
           | (s1, Some room) \<Rightarrow> (consume_spend H cf jti s1, VRoom room, [Audit ''videocall.invite_consumed'' user i])))"

text \<open>\<open>ToUpper_runes\<close>: ASCII letters, and \<open>up\<close> for the encoding of any other rune.\<close>

definition ToUpper_runes :: "(string \<Rightarrow> string) \<Rightarrow> string \<Rightarrow> string" where
  "ToUpper_runes up s =
     join_runes (map (\<lambda>r. case r of
                          [c] \<Rightarrow> if byte_in 97 122 c then [char_of (of_char c - 32 :: nat)] else r
                        | _ \<Rightarrow> up r) (runes s))"

record pinbody =
  pbRoomID :: string
  pbTTLHours :: int

definition HandlePIN :: "vhost \<Rightarrow> string \<Rightarrow> request \<Rightarrow> pinbody option \<Rightarrow> VService \<Rightarrow> vresult" where
  "HandlePIN H user rq body s =
     (if user = '''' then say s 401 ''unauthorized''
      else if Method rq = MethodPost then
        (case body of
           None \<Rightarrow> say s 400 ''invalid body''
         | Some b \<Rightarrow>
             (case SetPIN user (pbRoomID b) (pbTTLHours b) (vNow H) (vPIN H) s of
                (s1, Inl e) \<Rightarrow> say s1 400 (room_error_text e)
              | (s1, Inr pin) \<Rightarrow>
                  (s1, VPin pin (rmPINExpiresAt (room_or_zero (pbRoomID b) s1)) (pbRoomID b),
                   [Audit ''videocall.pin_generated'' user (pbRoomID b)])))
      else if Method rq = MethodDelete then
        (case body of
           None \<Rightarrow> say s 400 ''invalid body''
         | Some b \<Rightarrow>
             (case RevokePIN user (pbRoomID b) (vNow H) s of
                (s1, Inl e) \<Rightarrow> say s1 400 (room_error_text e)
              | (s1, Inr _) \<Rightarrow> (s1, VNoContent, [Audit ''videocall.pin_revoked'' user (pbRoomID b)])))
      else say s 405 ''method not allowed'')"

record kickbody =
  kbRoomID :: string
  kbPeerID :: string
  kbReason :: string

text \<open>\<open>KickPeer\<close> leaves the removal for 50 ms later: the effect \<open>LeaveLater\<close>.\<close>

definition HandleKick :: "string \<Rightarrow> request \<Rightarrow> kickbody option \<Rightarrow> VService \<Rightarrow> vresult" where
  "HandleKick user rq body s =
     (if Method rq \<noteq> MethodPost then say s 405 ''method not allowed''
      else if user = '''' then say s 401 ''unauthorized''
      else case body of
        None \<Rightarrow> say s 400 ''invalid body''
      | Some b \<Rightarrow>
          if kbRoomID b = '''' \<or> kbPeerID b = '''' then say s 400 ''missing room_id or peer_id''
          else case rooms s (kbRoomID b) of
            None \<Rightarrow> say s 404 ''room not found''
          | Some room \<Rightarrow>
              if rmOwner room \<noteq> user then say s 403 ''only the room owner can kick''
              else case find (\<lambda>p. piID p = kbPeerID b) (PeersInRoomWithUser (kbRoomID b) (vhub s)) of
                None \<Rightarrow> say s 404 ''peer not in this room''
              | Some p \<Rightarrow>
                  if piUser p = user then say s 400 ''cannot kick yourself''
                  else case KickPeer (kbPeerID b)
                         (if kbReason b = '''' then ''The room owner removed you from the call.'' else kbReason b) (vhub s) of
                    (h, None) \<Rightarrow> say (s\<lparr>vhub := h\<rparr>) 404 ''peer not found''
                  | (h, Some _) \<Rightarrow>
                      (s\<lparr>vhub := h\<rparr>, VNoContent,
                       [Audit ''videocall.kicked'' user (kbRoomID b @ '' '' @ sanitizeAuditField (piUser p)), LeaveLater (kbPeerID b)]))"

definition guestTTL :: nanos where "guestTTL = 4 * 60 * 60 * second"

definition guest_name :: "string \<Rightarrow> string" where
  "guest_name raw = (let d = take 60 (TrimSpace raw) in if d = '''' then ''Convidado'' else d)"

text \<open>The body: the fields \<open>pin\<close> and \<open>display_name\<close>.\<close>

definition HandleJoinByPIN :: "vhost \<Rightarrow> vconf \<Rightarrow> request \<Rightarrow> (string \<times> string) option \<Rightarrow> VService \<Rightarrow> vresult" where
  "HandleJoinByPIN H cf rq body s =
     (if Method rq \<noteq> MethodPost then say s 405 ''method not allowed''
      else case pinAllow (vNow H) (ClientIP rq) s of
        (s1, False) \<Rightarrow> say s1 429 (''too many attempts'' @ dash @ ''wait 1 minute'')
      | (s1, True) \<Rightarrow>
          if \<not> hasIssuer cf then say s1 503 ''guest tokens unavailable''
          else case body of
            None \<Rightarrow> say s1 400 ''invalid body''
          | Some (rawpin, rawname) \<Rightarrow>
              (let pin = ToUpper_runes (vUpper H) (TrimSpace rawpin);
                   displayName = guest_name rawname
               in case LookupByPIN (vRoomKeys H) (vNow H) pin s1 of
                    None \<Rightarrow> say s1 401 ''invalid or expired PIN''
                  | Some room \<Rightarrow>
                      (case vSign H (guest_claims (vNow H) (vJTI H) displayName (rmID room) guestTTL) of
                         None \<Rightarrow> say s1 500 ''issue''
                       | Some tok \<Rightarrow>
                           (if hasSessions cf \<and> vJTI H \<noteq> ''''
                            then s1\<lparr>inviteSessions := Invite_Add (vNow H) (vJTI H) (''GUEST:'' @ rmID room)
                                                     (unix (vNow H + guestTTL)) (inviteSessions s1),
                                    guestJTIs := (guestJTIs s1)(rmID room \<mapsto>
                                      (case guestJTIs s1 (rmID room) of None \<Rightarrow> [] | Some js \<Rightarrow> js) @ [vJTI H])\<rparr>
                            else s1,
                            VGuest (rmID room) (rmName room) tok (unix (vNow H + guestTTL)),
                            [Audit ''videocall.guest_joined'' (''guest:'' @ sanitizeAuditField displayName) (rmID room)]))))"

record wabody =
  wbRoomID :: string
  wbTTLMin :: int
  wbToJID :: string
  wbMessage :: string

definition invite_text :: "vhost \<Rightarrow> wabody \<Rightarrow> Room \<Rightarrow> string \<Rightarrow> string" where
  "invite_text H b room url =
     (if TrimSpace (wbMessage b) = ''''
      then ''Come talk to me in room *'' @ rmName room @ ''*: '' @ url @ CHR 0x0A # ''(link expires in ''
           @ fmt_int (invite_ttl (wbTTLMin b) div (60 * second)) @ '' min)''
      else TrimSpace (wbMessage b) @ CHR 0x0A # url)"

text \<open>\<open>sender\<close> is \<open>WhatsAppSender\<close>, when it is set: owner, recipient and text to an error or none.\<close>

definition HandleInviteWhatsApp :: "vhost \<Rightarrow> vconf \<Rightarrow> (string \<Rightarrow> string \<Rightarrow> string \<Rightarrow> string option) option \<Rightarrow> string \<Rightarrow> request
    \<Rightarrow> wabody option \<Rightarrow> VService \<Rightarrow> vresult" where
  "HandleInviteWhatsApp H cf sender user rq body s =
     (if Method rq \<noteq> MethodPost then say s 405 ''method not allowed''
      else if user = '''' then say s 401 ''unauthorized''
      else case sender of
        None \<Rightarrow> say s 503 (''WhatsApp not configured'' @ dash @ ''install the WAHA gateway'')
      | Some send \<Rightarrow>
          if \<not> hasIssuer cf then say s 500 ''invite issuer not configured''
          else case body of
            None \<Rightarrow> say s 400 ''invalid body''
          | Some b \<Rightarrow>
              if TrimSpace (wbToJID b) = '''' then say s 400 ''missing to_jid''
              else case RoomForUser user (wbRoomID b) s of
                None \<Rightarrow> say s 404 ''room not found''
              | Some room \<Rightarrow>
                  if rmOwner room \<noteq> user then say s 403 ''only owner can invite''
                  else case issue_invite H cf user (rmID room) (invite_ttl (wbTTLMin b)) s of
                    None \<Rightarrow> say s 500 ''issue''
                  | Some (s1, tok) \<Rightarrow>
                      (let url = invite_url H tok
                       in case send (rmOwner room) (wbToJID b) (invite_text H b room url) of
                            Some e \<Rightarrow> say s1 502 (''whatsapp: '' @ e)
                          | None \<Rightarrow>
                              (s1, VInvited url (unix (vNow H + invite_ttl (wbTTLMin b))) (wbToJID b),
                               [Audit ''videocall.invite_whatsapp'' user (rmID room)])))"

section \<open>Devices\<close>

record devbody =
  dbDeviceID :: string
  dbRing :: "bool option"
  dbMuteHours :: "int option"
  dbLabel :: string
  dbForget :: bool

definition mute_until :: "secs \<Rightarrow> int option \<Rightarrow> secs option" where
  "mute_until now hours = map_option (\<lambda>h. let h' = min 720 (max 0 h) in if h' > 0 then now + h' * 3600 else 0) hours"

definition HandleDevices :: "vhost \<Rightarrow> string \<Rightarrow> request \<Rightarrow> devbody option \<Rightarrow> VService \<Rightarrow> vresult" where
  "HandleDevices H user rq body s =
     (if user = '''' then say s 401 ''unauthorized''
      else if Method rq = MethodGet then (s, VDevices (List_devices (vDeviceKeys H) user (vdevices s)) (unix (vNow H)), [])
      else if Method rq = MethodPost then
        (case body of
           None \<Rightarrow> say s 400 ''bad json''
         | Some b \<Rightarrow>
             let dev = sanitizeDeviceID (dbDeviceID b)
             in if dev = '''' then say s 400 ''missing device_id''
                else if dbForget b then
                  (case Forget (vDeviceKeys H) (vSaved H) user dev (vdevices s) of
                     (_, False) \<Rightarrow> say s 404 ''device not found''
                   | (d, True) \<Rightarrow> (s\<lparr>vdevices := d\<rparr>, VOk, [Audit ''videocall.device_forget'' user dev]))
                else
                  (case Set_device (vDeviceKeys H) (vSaved H) user dev (dbRing b) (mute_until (unix (vNow H)) (dbMuteHours b))
                          (sanitizeDeviceLabel (dbLabel b)) (vdevices s) of
                     (_, False) \<Rightarrow> say s 404 ''device not found''
                   | (d, True) \<Rightarrow>
                       (s\<lparr>vdevices := d\<rparr>, VDevicesSet (List_devices (vDeviceKeys H) user d), [Audit ''videocall.device_policy'' user dev])))
      else say s 405 ''method not allowed'')"

section \<open>The signalling socket\<close>

datatype wsout =
    WSRefused nat string
  | WSNoUpgrade
  | WSJoinError string string
  | WSUnwritten
  | WSJoined string Room "PeerInfo list" TURNCredentials

fun mapJoinErrorPT :: "hub_error \<Rightarrow> string \<times> string" where
  "mapJoinErrorPT ErrRoomFull = (''error-full'', ''Room is full'' @ dash @ ''the 4-person limit was reached.'')"
| "mapJoinErrorPT ErrAlreadyJoined = (''error-conflict'', ''Your account is already in this room in another tab. Close that one to join here.'')"
| "mapJoinErrorPT e = (''error'', ''Could not join the room: '' @ hub_error_text e)"

text \<open>What the deferred function of the two sockets does when the connection is over.\<close>

definition close_peer :: "vhost \<Rightarrow> vconf \<Rightarrow> string \<Rightarrow> string \<Rightarrow> string \<Rightarrow> string \<Rightarrow> string \<Rightarrow> bool \<Rightarrow> VService \<Rightarrow> VService \<times> veffect list" where
  "close_peer H cf action user roomID peer clientID graceful s =
     (let (s1, es) = onPeerGone H cf roomID clientID graceful (s\<lparr>vhub := cleanupRate peer (Leave peer (vhub s))\<rparr>)
      in (s1, es @ [Audit action user roomID]))"

text \<open>What they share after the upgrade: the hub, the ring, the first message.\<close>

definition open_peer :: "vhost \<Rightarrow> vconf \<Rightarrow> string \<Rightarrow> string \<Rightarrow> string \<Rightarrow> string \<Rightarrow> string \<Rightarrow> string \<Rightarrow> bool \<Rightarrow> VService
    \<Rightarrow> VService \<times> wsout \<times> veffect list" where
  "open_peer H cf joined left user displayName roomID clientID resume s =
     (let p = \<lparr>peID = vPeerID H, peUser = user, peRoomID = roomID, peClientID = clientID, peSend = []\<rparr>
      in case Join_hub p (vhub s) of
           (h, Inl e) \<Rightarrow> (s\<lparr>vhub := h\<rparr>, WSJoinError (fst (mapJoinErrorPT e)) (snd (mapJoinErrorPT e)), [])
         | (h, Inr existing) \<Rightarrow>
             let (s1, es) = announceJoin H cf roomID user displayName clientID resume (s\<lparr>vhub := h\<rparr>)
             in if vWritten H
                then (s1, WSJoined (vPeerID H) (room_or_zero roomID s1) existing (turn_for H cf user), Audit joined user roomID # es)
                else let (s2, es2) = close_peer H cf left user roomID (vPeerID H) clientID False s1
                     in (s2, WSUnwritten, Audit joined user roomID # es @ es2))"

definition or_else :: "string \<Rightarrow> string \<Rightarrow> string" where
  "or_else a b = (if a = '''' then b else a)"

text \<open>
  The two sockets check first, then upgrade the connection, then join the hub; between the check and the join no lock is held. A check
  that passes gives the name, the room, the client identity and the hint of \<open>open_peer\<close>.
\<close>

definition HandleWS_check :: "vhost \<Rightarrow> string \<Rightarrow> request \<Rightarrow> VService \<Rightarrow> wsout + string \<times> string \<times> bool" where
  "HandleWS_check H user rq s =
     (let roomID = Query rq ''room_id''
      in if user = '''' then Inl (WSRefused 401 ''unauthorized'')
         else if roomID = '''' then Inl (WSRefused 400 ''missing room_id'')
         else if \<not> CanJoin user roomID s then Inl (WSRefused 403 ''forbidden'')
         else Inr (roomID, or_else (sanitizeClientID (Query rq ''client_id'')) (vFallbackID H), Query rq ''resume'' = ''1''))"

definition HandleWS_join :: "vhost \<Rightarrow> vconf \<Rightarrow> string \<Rightarrow> string \<times> string \<times> bool \<Rightarrow> VService \<Rightarrow> VService \<times> wsout \<times> veffect list" where
  "HandleWS_join H cf user c s =
     (case c of (roomID, clientID, resume) \<Rightarrow>
        if \<not> vUpgrade H then (s, WSNoUpgrade, [])
        else open_peer H cf ''videocall.join'' ''videocall.leave'' user user roomID clientID resume s)"

definition HandleWS :: "vhost \<Rightarrow> vconf \<Rightarrow> string \<Rightarrow> request \<Rightarrow> VService \<Rightarrow> VService \<times> wsout \<times> veffect list" where
  "HandleWS H cf user rq s =
     (case HandleWS_check H user rq s of Inl out \<Rightarrow> (s, out, []) | Inr c \<Rightarrow> HandleWS_join H cf user c s)"

definition HandleGuestWS_check :: "vhost \<Rightarrow> vconf \<Rightarrow> request \<Rightarrow> VService \<Rightarrow> wsout + string \<times> string \<times> string \<times> bool" where
  "HandleGuestWS_check H cf rq s =
     (let tok = Query rq ''token''
      in if \<not> hasIssuer cf then Inl (WSRefused 503 ''guest disabled'')
         else if tok = '''' then Inl (WSRefused 401 ''missing token'')
         else case VerifyVideocallGuestToken (vParse H) (vNow H) tok of
           None \<Rightarrow> Inl (WSRefused 401 ''invalid token'')
         | Some (tokenRoom, displayName) \<Rightarrow>
             let jti = ExtractJTI (vParse H) (vNow H) tok;
                 asked = Query rq ''room_id'';
                 roomID = or_else asked tokenRoom
             in if hasSessions cf \<and> (case jti of None \<Rightarrow> False | Some j \<Rightarrow> j \<noteq> '''' \<and> \<not> Invite_IsValid j (inviteSessions s))
                then Inl (WSRefused 401 ''token revoked'')
                else if asked \<noteq> '''' \<and> asked \<noteq> tokenRoom then Inl (WSRefused 403 ''token/room mismatch'')
                else if rooms s roomID = None then Inl (WSRefused 404 ''room not found'')
                else Inr (displayName, roomID, or_else (case jti of None \<Rightarrow> '''' | Some j \<Rightarrow> sanitizeClientID j) (vFallbackID H),
                          Query rq ''resume'' = ''1''))"

definition HandleGuestWS_join :: "vhost \<Rightarrow> vconf \<Rightarrow> string \<times> string \<times> string \<times> bool \<Rightarrow> VService \<Rightarrow> VService \<times> wsout \<times> veffect list" where
  "HandleGuestWS_join H cf c s =
     (case c of (displayName, roomID, clientID, resume) \<Rightarrow>
        if \<not> vUpgrade H then (s, WSNoUpgrade, [])
        else open_peer H cf ''videocall.guest_joined_ws'' ''videocall.guest_left'' (''guest:'' @ displayName) displayName roomID
               clientID resume s)"

definition HandleGuestWS :: "vhost \<Rightarrow> vconf \<Rightarrow> request \<Rightarrow> VService \<Rightarrow> VService \<times> wsout \<times> veffect list" where
  "HandleGuestWS H cf rq s =
     (case HandleGuestWS_check H cf rq s of Inl out \<Rightarrow> (s, out, []) | Inr c \<Rightarrow> HandleGuestWS_join H cf c s)"

section \<open>Messages of a connected peer\<close>

definition push_err :: "string \<Rightarrow> string \<Rightarrow> VService \<Rightarrow> VService" where
  "push_err peer text s = s\<lparr>vhub := deliver ((blank_msg ''error'')\<lparr>mgError := text\<rparr>) peer (vhub s)\<rparr>"

text \<open>A hub operation whose error, if any, is pushed to the sender.\<close>

definition relay :: "string \<Rightarrow> (Hub \<Rightarrow> Hub \<times> (hub_error + unit)) \<Rightarrow> VService \<Rightarrow> VService" where
  "relay peer f s =
     (case f (vhub s) of
        (h, Inl e) \<Rightarrow> push_err peer (hub_error_text e) (s\<lparr>vhub := h\<rparr>)
      | (h, Inr _) \<Rightarrow> s\<lparr>vhub := h\<rparr>)"

definition on_off :: "string \<Rightarrow> string \<Rightarrow> string option \<Rightarrow> string list" where
  "on_off on off v = (if v = Some ''on'' then [on] else if v = Some ''off'' then [off] else [])"

definition auditStateMsg :: "vhost \<Rightarrow> string \<Rightarrow> string \<Rightarrow> SignalingMsg \<Rightarrow> veffect list" where
  "auditStateMsg H user roomID msg =
     (case vState H (mgPayload msg) of
        None \<Rightarrow> []
      | Some p \<Rightarrow>
          map (\<lambda>a. Audit a user roomID)
            (on_off ''videocall.recording_start'' ''videocall.recording_stop'' (p ''recording'')
             @ on_off ''videocall.screenshare_start'' ''videocall.screenshare_stop'' (p ''screen'')))"

text \<open>One message in the loop of \<open>runWSLoop\<close>; the last component tells whether the client left on purpose.\<close>

definition on_message :: "vhost \<Rightarrow> string \<Rightarrow> string \<Rightarrow> string \<Rightarrow> SignalingMsg \<Rightarrow> VService \<Rightarrow> VService \<times> veffect list \<times> bool" where
  "on_message H user roomID peer msg s =
     (let ty = mgType msg;
          denied = (push_err peer ''forbidden: not the room owner'' s, [Audit (''videocall.owner_action_denied:'' @ ty) user roomID], False);
          done = [Audit (''videocall.owner_action:'' @ ty) user roomID]
      in if ty \<in> {''offer'', ''answer'', ''ice'', ''chat'', ''reset''} then
           (if mgTo msg = '''' then (s, [], False) else (relay peer (Forward (vNow H) peer msg) s, [], False))
         else if ty = ''state'' then
           (relay peer (Broadcast (vNow H) peer msg) s, auditStateMsg H user roomID msg, False)
         else if ty \<in> {''owner-mute'', ''owner-unmute'', ''owner-camera'', ''owner-kick''} then
           (if \<not> IsRoomOwner roomID user s then denied
            else if mgTo msg = '''' then (push_err peer (''owner action: '' @ [CHR 0x27] @ ''to'' @ [CHR 0x27] @ '' is required'') s, [], False)
            else (relay peer (Forward (vNow H) peer msg) s, done @ (if ty = ''owner-kick'' then [LeaveLater (mgTo msg)] else []), False))
         else if ty \<in> {''owner-lock'', ''owner-transfer''} then
           (if \<not> IsRoomOwner roomID user s then denied else (relay peer (Broadcast (vNow H) peer msg) s, done, False))
         else if ty = ''leave'' then (s, [], True)
         else if ty = ''ping'' then (s\<lparr>vhub := deliver (blank_msg ''pong'') peer (vhub s)\<rparr>, [], False)
         else (s, [], False))"

section \<open>The presence socket\<close>

definition HandlePresenceWS :: "vhost \<Rightarrow> string \<Rightarrow> request \<Rightarrow> VService \<Rightarrow> VService \<times> (nat + nat option)" where
  "HandlePresenceWS H user rq s =
     (if user = '''' then (s, Err 401)
      else if \<not> vUpgrade H then (s, Ok None)
      else let dev = sanitizeDeviceID (Query rq ''device_id'');
               label = sanitizeDeviceLabel (Query rq ''device_label'');
               s1 = (if dev \<noteq> '''' then s\<lparr>vdevices := Seen (vDeviceKeys H) (vSaved H) (unix (vNow H)) user dev label (vdevices s)\<rparr> else s);
               (p, ref) = Subscribe_presence user dev (vpresence s1)
           in if vWritten H then (s1\<lparr>vpresence := p\<rparr>, Ok (Some ref))
              else (s1\<lparr>vpresence := Unsubscribe ref p\<rparr>, Ok None))"

section \<open>Shutdown\<close>

text \<open>\<open>ps\<close> is the order of the range over the peers.\<close>

definition SnapshotPeers :: "string list \<Rightarrow> Hub \<Rightarrow> (string \<times> string) list" where
  "SnapshotPeers ps h = map (\<lambda>p. (peUser p, peRoomID p)) (List.map_filter (hPeers h) ps)"

text \<open>
  \<open>Close\<close>: the last touch of the heartbeat, the calls written out, the audit of the connected peers, the final flush of the rooms. The
  push and recording stores close themselves.
\<close>

definition Close_video :: "vhost \<Rightarrow> string list \<Rightarrow> VService \<Rightarrow> VService \<times> veffect list" where
  "Close_video H ps s =
     (let s1 = touchLiveCalls H s;
          s2 = s1\<lparr>vcalls := save_calls (vCallKeys H) (vSaved H) (vcalls s1)\<rparr>
      in (flushOnce (vRoomKeys H) (vSaved H) s2, map (\<lambda>(u, r). Audit ''videocall.leave'' u r) (SnapshotPeers ps (vhub s2))))"

end
