(* ===== verification/VideoHubProps.thy ===== *)
theory VideoHubProps
  imports VideoHub
begin

text \<open>
  The hub under every interleaving of joins, departures, evictions, kicks and messages: its two maps agree, no room exceeds
  its capacity, an account and a client are connected to a room at most once, no channel is closed twice, and
  a message reaches only peers of the sender's room, under the sender's own identifier.
\<close>

section \<open>Peers without their queues\<close>

definition strip :: "Peer \<Rightarrow> Peer" where
  "strip p = p\<lparr>peSend := []\<rparr>"

definition bare :: "Hub \<Rightarrow> (string \<rightharpoonup> Peer)" where
  "bare h i = map_option strip (hPeers h i)"

lemma strip_simps [simp]:
  "peID (strip p) = peID p" "peUser (strip p) = peUser p" "peRoomID (strip p) = peRoomID p"
  "peClientID (strip p) = peClientID p" "strip (p\<lparr>peSend := q\<rparr>) = strip p"
  by (simp_all add: strip_def)

definition queues_ok :: "Hub \<Rightarrow> bool" where
  "queues_ok h \<longleftrightarrow> (\<forall>i p. hPeers h i = Some p \<longrightarrow> length (peSend p) \<le> sendBuf)"

text \<open>Delivery changes queues and nothing else.\<close>

lemma bare_deliver [simp]: "bare (deliver msg i h) = bare h"
  by (rule ext) (simp add: bare_def deliver_def split: option.splits)

lemma deliver_rest [simp]:
  "byRoom (deliver msg i h) = byRoom h" "hRate (deliver msg i h) = hRate h" "maxPerRm (deliver msg i h) = maxPerRm h"
  "closedCh (deliver msg i h) = closedCh h" "hPanic (deliver msg i h) = hPanic h" "room_set (deliver msg i h) r = room_set h r"
  by (simp_all add: deliver_def room_set_def split: option.splits)

lemma queues_deliver: "queues_ok h \<Longrightarrow> queues_ok (deliver msg i h)"
  by (auto simp: queues_ok_def deliver_def split: option.splits)

lemma deliver_all_frame:
  "bare (deliver_all msg ids h) = bare h \<and> byRoom (deliver_all msg ids h) = byRoom h
   \<and> hRate (deliver_all msg ids h) = hRate h \<and> maxPerRm (deliver_all msg ids h) = maxPerRm h
   \<and> closedCh (deliver_all msg ids h) = closedCh h \<and> hPanic (deliver_all msg ids h) = hPanic h"
  by (induction ids arbitrary: h) (simp_all add: deliver_all_def)

lemmas deliver_all_rest [simp] = deliver_all_frame [THEN conjunct1] deliver_all_frame [THEN conjunct2, THEN conjunct1]
  deliver_all_frame [THEN conjunct2, THEN conjunct2, THEN conjunct1]
  deliver_all_frame [THEN conjunct2, THEN conjunct2, THEN conjunct2, THEN conjunct1]
  deliver_all_frame [THEN conjunct2, THEN conjunct2, THEN conjunct2, THEN conjunct2, THEN conjunct1]
  deliver_all_frame [THEN conjunct2, THEN conjunct2, THEN conjunct2, THEN conjunct2, THEN conjunct2]

lemma room_set_deliver_all [simp]: "room_set (deliver_all msg ids h) r = room_set h r"
  by (simp add: room_set_def)

lemma queues_deliver_all: "queues_ok h \<Longrightarrow> queues_ok (deliver_all msg ids h)"
  by (induction ids arbitrary: h) (simp_all add: deliver_all_def queues_deliver)

lemma bare_Some: "bare h i = Some q \<longleftrightarrow> (\<exists>p. hPeers h i = Some p \<and> q = strip p)"
  by (auto simp: bare_def)

lemma bare_None: "bare h i = None \<longleftrightarrow> hPeers h i = None"
  by (simp add: bare_def)

section \<open>The invariant\<close>

definition agree_maps :: "Hub \<Rightarrow> bool" where
  "agree_maps h \<longleftrightarrow> (\<forall>r. distinct (room_set h r) \<and> set (room_set h r) = {i. \<exists>p. bare h i = Some p \<and> peRoomID p = r})"

definition peers_named :: "Hub \<Rightarrow> bool" where
  "peers_named h \<longleftrightarrow> (\<forall>i p. bare h i = Some p \<longrightarrow> peID p = i \<and> i \<notin> set (closedCh h))"

text \<open>Two peers of one room never share a client identity, nor an account.\<close>

definition single_presence :: "Hub \<Rightarrow> bool" where
  "single_presence h \<longleftrightarrow>
     (\<forall>i j p q. bare h i = Some p \<and> bare h j = Some q \<and> i \<noteq> j \<and> peRoomID p = peRoomID q \<longrightarrow>
        (peClientID p = peClientID q \<longrightarrow> peClientID p = '''') \<and> (peUser p = peUser q \<longrightarrow> peUser p = '''' \<or> is_guest (peUser p)))"

definition within_capacity :: "Hub \<Rightarrow> bool" where
  "within_capacity h \<longleftrightarrow> (\<forall>r. length (room_set h r) \<le> maxPerRm h) \<and> 0 < maxPerRm h"

definition hub_wf :: "Hub \<Rightarrow> bool" where
  "hub_wf h \<longleftrightarrow> agree_maps h \<and> peers_named h \<and> single_presence h \<and> within_capacity h \<and> queues_ok h \<and> \<not> hPanic h"

lemmas hub_wf_defs = hub_wf_def agree_maps_def peers_named_def single_presence_def within_capacity_def

lemma hub_wf_deliver_all: "hub_wf h \<Longrightarrow> hub_wf (deliver_all msg ids h)"
  by (simp add: hub_wf_defs queues_deliver_all)

lemma hub_wf_deliver: "hub_wf h \<Longrightarrow> hub_wf (deliver msg i h)"
  by (simp add: hub_wf_defs queues_deliver)

lemma hub_wf_rate: "hub_wf (h\<lparr>hRate := r\<rparr>) = hub_wf h"
  by (simp add: hub_wf_defs bare_def room_set_def queues_ok_def)

lemma bareI: "hPeers h i = Some p \<Longrightarrow> bare h i = Some (strip p)"
  by (simp add: bare_def)

lemma named: "hub_wf h \<Longrightarrow> hPeers h i = Some p \<Longrightarrow> peID p = i \<and> i \<notin> set (closedCh h)"
  using bareI [of h i p] unfolding hub_wf_def peers_named_def by (metis strip_simps(1))

text \<open>Removing a peer from both maps and closing its channel.\<close>

lemma close_ch_frame [simp]:
  "bare (close_ch i h) = bare h" "room_set (close_ch i h) r = room_set h r" "byRoom (close_ch i h) = byRoom h"
  "maxPerRm (close_ch i h) = maxPerRm h" "queues_ok (close_ch i h) = queues_ok h" "hPeers (close_ch i h) = hPeers h"
  by (simp_all add: close_ch_def bare_def fun_eq_iff room_set_def queues_ok_def)

lemma close_ch_open: "i \<notin> set (closedCh h) \<Longrightarrow> closedCh (close_ch i h) = i # closedCh h \<and> hPanic (close_ch i h) = hPanic h"
  by (simp add: close_ch_def)

lemma bare_without: "bare (h\<lparr>hPeers := (hPeers h)(i := None), byRoom := m\<rparr>) = (bare h)(i := None)"
  by (simp add: bare_def fun_eq_iff)

lemma cleanupRate_frame [simp]:
  "bare (cleanupRate i h) = bare h" "room_set (cleanupRate i h) r = room_set h r" "byRoom (cleanupRate i h) = byRoom h"
  "maxPerRm (cleanupRate i h) = maxPerRm h" "queues_ok (cleanupRate i h) = queues_ok h"
  "closedCh (cleanupRate i h) = closedCh h" "hPanic (cleanupRate i h) = hPanic h" "hPeers (cleanupRate i h) = hPeers h"
  by (simp_all add: cleanupRate_def bare_def fun_eq_iff room_set_def queues_ok_def)

lemma hub_wf_remove:
  assumes "hub_wf h" and b: "bare h' = (bare h)(i := None)"
    and h': "\<And>r. room_set h' r = removeAll i (room_set h r)"
      "maxPerRm h' = maxPerRm h" "closedCh h' = i # closedCh h" "\<not> hPanic h'" "queues_ok h'"
  shows "hub_wf h'"
proof -
  have "agree_maps h'"
    using assms(1) unfolding hub_wf_def agree_maps_def b h'(1) by (auto simp: distinct_removeAll)
  moreover have "peers_named h'"
    using assms(1) unfolding hub_wf_def peers_named_def b h'(3) by simp
  moreover have "single_presence h'"
    using assms(1) unfolding hub_wf_def single_presence_def b by (auto split: if_splits)
  moreover have "within_capacity h'"
    using assms(1) unfolding hub_wf_def within_capacity_def h'(1,2) by (meson le_trans length_removeAll_less_eq)
  ultimately show ?thesis
    using h' by (simp add: hub_wf_def)
qed

lemma room_member: "hub_wf h \<Longrightarrow> i \<in> set (room_set h r) \<longleftrightarrow> (\<exists>p. hPeers h i = Some p \<and> peRoomID p = r)"
  unfolding hub_wf_def agree_maps_def by (auto simp: bare_Some)

text \<open>\<open>h\<close> and \<open>h'\<close> with the queues left aside.\<close>

lemma hub_wf_queues:
  assumes "hub_wf h" "bare h' = bare h" "\<And>r. room_set h' r = room_set h r" "maxPerRm h' = maxPerRm h"
    "closedCh h' = closedCh h" "hPanic h' = hPanic h" "queues_ok h'"
  shows "hub_wf h'"
  using assms by (simp add: hub_wf_defs)

lemma removed:
  assumes "hub_wf h" "hPeers h i = Some p" "hPeers h1 = (hPeers h)(i := None)" "closedCh h1 = closedCh h" "\<not> hPanic h1"
    "maxPerRm h1 = maxPerRm h" "\<And>r. room_set h1 r = removeAll i (room_set h r)"
  shows "hub_wf (close_ch i (deliver_all msg ids h1))"
proof (rule hub_wf_remove [OF assms(1), where i = i])
  show "bare (close_ch i (deliver_all msg ids h1)) = (bare h)(i := None)"
    by (simp add: bare_def fun_eq_iff assms(3))
  have "queues_ok h1"
    using assms(1,3) by (auto simp: hub_wf_def queues_ok_def split: if_splits)
  then show "queues_ok (close_ch i (deliver_all msg ids h1))"
    by (simp add: queues_deliver_all)
qed (use named [OF assms(1,2)] assms in \<open>simp_all add: close_ch_open\<close>)

lemma other_room:
  assumes "hub_wf h" "hPeers h i = Some p" "r \<noteq> peRoomID p"
  shows "removeAll i (room_set h r) = room_set h r"
  using room_member [OF assms(1), of i r] assms(2,3) by (intro removeAll_id) auto

lemma Leave_wf:
  assumes "hub_wf h"
  shows "hub_wf (Leave i h)"
proof (cases "hPeers h i")
  case None
  with assms show ?thesis by (simp add: Leave_def)
next
  case (Some p)
  let ?rest = "removeAll i (room_set h (peRoomID p))"
  let ?h1 = "h\<lparr>hPeers := (hPeers h)(i := None), byRoom := (byRoom h)(peRoomID p := if ?rest = [] then None else Some ?rest)\<rparr>"
  have ids: "byRoom h (peRoomID p) = Some (room_set h (peRoomID p))"
    using room_member [OF assms, of i "peRoomID p"] Some by (cases "byRoom h (peRoomID p)") (auto simp: room_set_def)
  have rooms: "room_set ?h1 r = removeAll i (room_set h r)" for r
    using other_room [OF assms Some, of r] by (cases "r = peRoomID p") (simp_all add: room_set_def)
  have "Leave i h = close_ch i (deliver_all (left_msg i) ?rest ?h1)"
    using Some ids by (simp add: Leave_def Let_def)
  moreover have "hub_wf (close_ch i (deliver_all (left_msg i) ?rest ?h1))"
    using rooms assms by (intro removed [OF assms Some]) (simp_all add: hub_wf_def)
  ultimately show ?thesis by simp
qed

lemma evict_wf:
  assumes "hub_wf h" "\<And>p. hPeers h i = Some p \<Longrightarrow> peRoomID p = room"
  shows "hub_wf (evictLocked room i h)"
proof (cases "hPeers h i")
  case None
  with assms show ?thesis by (simp add: evictLocked_def)
next
  case (Some p)
  let ?rest = "removeAll i (room_set h room)"
  let ?h1 = "h\<lparr>hPeers := (hPeers h)(i := None), byRoom := (byRoom h)(room \<mapsto> ?rest)\<rparr>"
  have rooms: "room_set ?h1 r = removeAll i (room_set h r)" for r
    using other_room [OF assms(1) Some, of r] assms(2) [OF Some] by (cases "r = room") (simp_all add: room_set_def)
  have "hub_wf (close_ch i (deliver_all (left_msg i) ?rest ?h1))"
    using rooms assms(1) by (intro removed [OF assms(1) Some]) (simp_all add: hub_wf_def)
  then show ?thesis
    using Some by (simp add: evictLocked_def Let_def cleanupRate_def hub_wf_rate)
qed

lemma evict_frame:
  "bare (evictLocked room i h) = (bare h)(i := None)" "maxPerRm (evictLocked room i h) = maxPerRm h"
  by (auto simp: evictLocked_def Let_def bare_without bare_None [symmetric] split: option.splits)

lemma evict_closed: "set (closedCh (evictLocked room i h)) \<subseteq> insert i (set (closedCh h))"
  by (auto simp: evictLocked_def Let_def close_ch_def split: option.splits)

lemma evict_fold:
  "hub_wf h \<Longrightarrow> (\<And>i p. i \<in> set gs \<Longrightarrow> bare h i = Some p \<Longrightarrow> peRoomID p = room) \<Longrightarrow>
    hub_wf (fold (evictLocked room) gs h) \<and> bare (fold (evictLocked room) gs h) = (\<lambda>i. if i \<in> set gs then None else bare h i)
    \<and> maxPerRm (fold (evictLocked room) gs h) = maxPerRm h \<and> set (closedCh (fold (evictLocked room) gs h)) \<subseteq> set gs \<union> set (closedCh h)"
proof (induction gs arbitrary: h)
  case (Cons g gs)
  let ?h = "evictLocked room g h"
  have wf: "hub_wf ?h"
    using Cons.prems(1) Cons.prems(2) [of g, OF _ bareI] by (intro evict_wf) simp_all
  have "hub_wf (fold (evictLocked room) gs ?h) \<and> bare (fold (evictLocked room) gs ?h) = (\<lambda>i. if i \<in> set gs then None else bare ?h i)
    \<and> maxPerRm (fold (evictLocked room) gs ?h) = maxPerRm ?h
    \<and> set (closedCh (fold (evictLocked room) gs ?h)) \<subseteq> set gs \<union> set (closedCh ?h)"
    using Cons.prems(2) by (intro Cons.IH [OF wf]) (auto simp: evict_frame split: if_splits)
  then show ?case
    using evict_closed [of room g h] by (auto simp: evict_frame fun_eq_iff)
qed simp

text \<open>Adding a new peer to both maps.\<close>

lemma hub_wf_add:
  assumes "hub_wf h" and "bare h i = None" and "i \<notin> set (closedCh h)" and "peID p = i" and "length (peSend p) \<le> sendBuf"
    and "length (room_set h (peRoomID p)) < maxPerRm h"
    and solo: "\<And>j q. bare h j = Some q \<Longrightarrow> peRoomID q = peRoomID p \<Longrightarrow>
      (peClientID q = peClientID p \<longrightarrow> peClientID p = '''') \<and> (peUser q = peUser p \<longrightarrow> peUser p = '''' \<or> is_guest (peUser p))"
    and h': "hPeers h' = (hPeers h)(i \<mapsto> p)" "byRoom h' = (byRoom h)(peRoomID p \<mapsto> List.insert i (room_set h (peRoomID p)))"
      "maxPerRm h' = maxPerRm h" "closedCh h' = closedCh h" "hPanic h' = hPanic h"
  shows "hub_wf h'"
proof -
  have b: "bare h' = (bare h)(i \<mapsto> strip p)"
    by (simp add: bare_def fun_eq_iff h')
  have fresh: "i \<notin> set (room_set h r)" for r
    using room_member [OF assms(1)] assms(2) by (auto simp: bare_None)
  have rooms: "room_set h' r = (if r = peRoomID p then i # room_set h r else room_set h r)" for r
    using fresh [of r] by (simp add: room_set_def h'(2))
  have "agree_maps h'"
    using assms(1,2) fresh unfolding hub_wf_def agree_maps_def b rooms by auto
  moreover have "peers_named h'"
    using assms(1,3,4) unfolding hub_wf_def peers_named_def b h'(4) by auto
  moreover have "single_presence h'"
    unfolding single_presence_def
  proof (intro allI impI)
    fix k j a c
    assume kj: "bare h' k = Some a \<and> bare h' j = Some c \<and> k \<noteq> j \<and> peRoomID a = peRoomID c"
    consider "k = i" "j \<noteq> i" | "j = i" "k \<noteq> i" | "k \<noteq> i" "j \<noteq> i"
      using kj by blast
    then show "(peClientID a = peClientID c \<longrightarrow> peClientID a = '''') \<and> (peUser a = peUser c \<longrightarrow> peUser a = '''' \<or> is_guest (peUser a))"
    proof cases
      case 1
      with kj have "a = strip p" "bare h j = Some c" by (simp_all add: b)
      with solo [of j c] kj show ?thesis by auto
    next
      case 2
      with kj have "c = strip p" "bare h k = Some a" by (simp_all add: b)
      with solo [of k a] kj show ?thesis by auto
    next
      case 3
      with kj have "bare h k = Some a" "bare h j = Some c" by (simp_all add: b)
      with assms(1) kj show ?thesis
        unfolding hub_wf_def single_presence_def by blast
    qed
  qed
  moreover have "within_capacity h'"
    using assms(1,6) unfolding hub_wf_def within_capacity_def rooms h'(3) by auto
  moreover have "queues_ok h'"
    using assms(1,5) unfolding hub_wf_def queues_ok_def h'(1) by (auto split: if_splits)
  ultimately show ?thesis
    using assms(1) h'(5) by (simp add: hub_wf_def)
qed

lemma ghosts_room: "hub_wf h \<Longrightarrow> i \<in> set (ghosts h p) \<Longrightarrow> bare h i = Some q \<Longrightarrow> peRoomID q = peRoomID p"
  using room_member [of h i "peRoomID p"] by (auto simp: ghosts_def bare_Some split: if_splits)

lemma ghosts_all:
  assumes "hub_wf h" "bare h i = Some q" "peRoomID q = peRoomID p" "peClientID q = peClientID p" "peClientID p \<noteq> ''''"
  shows "i \<in> set (ghosts h p)"
  using assms room_member [OF assms(1), of i "peRoomID p"] by (auto simp: ghosts_def bare_Some)

text \<open>What the eviction leaves: the hub is well-formed, and no peer of the room has the client identity.\<close>

definition settled_room :: "Peer \<Rightarrow> Hub \<Rightarrow> Hub" where
  "settled_room p h =
     (let h0 = h\<lparr>byRoom := (byRoom h)(peRoomID p \<mapsto> room_set h (peRoomID p))\<rparr>
      in fold (evictLocked (peRoomID p)) (ghosts h0 p) h0)"

lemma settled_room_facts:
  assumes "hub_wf h"
  shows "hub_wf (settled_room p h)" "maxPerRm (settled_room p h) = maxPerRm h"
    "bare (settled_room p h) = (\<lambda>i. if i \<in> set (ghosts h p) then None else bare h i)"
    "set (closedCh (settled_room p h)) \<subseteq> set (ghosts h p) \<union> set (closedCh h)"
proof -
  let ?h0 = "h\<lparr>byRoom := (byRoom h)(peRoomID p \<mapsto> room_set h (peRoomID p))\<rparr>"
  have r: "room_set ?h0 r = room_set h r" for r
    by (simp add: room_set_def)
  have b: "bare ?h0 = bare h"
    by (simp add: bare_def fun_eq_iff)
  have "queues_ok ?h0"
    using assms by (simp add: hub_wf_def queues_ok_def)
  then have wf: "hub_wf ?h0"
    using r b by (intro hub_wf_queues [OF assms]) simp_all
  have g: "ghosts ?h0 p = ghosts h p"
    by (simp add: ghosts_def r)
  let ?F = "fold (evictLocked (peRoomID p)) (ghosts ?h0 p) ?h0"
  have f: "hub_wf ?F \<and> bare ?F = (\<lambda>i. if i \<in> set (ghosts ?h0 p) then None else bare ?h0 i)
    \<and> maxPerRm ?F = maxPerRm ?h0 \<and> set (closedCh ?F) \<subseteq> set (ghosts ?h0 p) \<union> set (closedCh ?h0)"
    by (rule evict_fold [OF wf]) (rule ghosts_room [OF wf])
  show "hub_wf (settled_room p h)" "maxPerRm (settled_room p h) = maxPerRm h"
    "bare (settled_room p h) = (\<lambda>i. if i \<in> set (ghosts h p) then None else bare h i)"
    "set (closedCh (settled_room p h)) \<subseteq> set (ghosts h p) \<union> set (closedCh h)"
    using f unfolding b g by (simp_all add: settled_room_def Let_def g)
qed

lemma Join_hub_settled:
  "Join_hub p h =
     (if peRoomID p = '''' \<or> peID p = '''' then (h, Err ErrMissingID)
      else let h1 = settled_room p h; ids = room_set h1 (peRoomID p)
        in if length ids \<ge> maxPerRm h1 then (h1, Err ErrRoomFull)
           else if already_joined h1 p then (h1, Err ErrAlreadyJoined)
           else (deliver_all (joined_msg p) (filter (\<lambda>i. i \<noteq> peID p) (List.insert (peID p) ids))
                   (h1\<lparr>hPeers := (hPeers h1)(peID p \<mapsto> p), byRoom := (byRoom h1)(peRoomID p \<mapsto> List.insert (peID p) ids)\<rparr>),
                 Ok (map peer_info (List.map_filter (hPeers h1) ids))))"
  by (simp add: Join_hub_def settled_room_def Let_def)

lemma joined_already: "already_joined h p \<longleftrightarrow> peUser p \<noteq> '''' \<and> \<not> is_guest (peUser p)
    \<and> (\<exists>i \<in> set (room_set h (peRoomID p)). \<exists>q. hPeers h i = Some q \<and> peUser q = peUser p)"
  by (auto simp: already_joined_def list_ex_iff split: option.splits)

definition fresh_peer :: "Peer \<Rightarrow> Hub \<Rightarrow> bool" where
  "fresh_peer p h \<longleftrightarrow> hPeers h (peID p) = None \<and> peID p \<notin> set (closedCh h) \<and> peSend p = []"

lemma Join_wf:
  assumes "hub_wf h" "fresh_peer p h"
  shows "hub_wf (fst (Join_hub p h))"
proof -
  let ?h1 = "settled_room p h"
  note s = settled_room_facts [OF assms(1), of p]
  have nb: "bare h (peID p) = None"
    using assms(2) by (simp add: bare_def fresh_peer_def)
  then have ng: "peID p \<notin> set (ghosts h p)"
    using room_member [OF assms(1), of "peID p" "peRoomID p"] by (auto simp: ghosts_def bare_None split: if_splits)
  have solo: "(peClientID q = peClientID p \<longrightarrow> peClientID p = '''') \<and> (peUser q = peUser p \<longrightarrow> peUser p = '''' \<or> is_guest (peUser p))"
    if j: "bare ?h1 j = Some q" "peRoomID q = peRoomID p" and a: "\<not> already_joined ?h1 p" for j q
  proof -
    have "j \<notin> set (ghosts h p)" "bare h j = Some q"
      using j(1) by (auto simp: s(3) split: if_splits)
    then have "peClientID q = peClientID p \<longrightarrow> peClientID p = ''''"
      using ghosts_all [OF assms(1)] j(2) by blast
    moreover obtain p0 where "hPeers ?h1 j = Some p0" "q = strip p0"
      using j(1) by (auto simp: bare_Some)
    then have "peUser q = peUser p \<longrightarrow> peUser p = '''' \<or> is_guest (peUser p)"
      using a j(2) room_member [OF s(1), of j "peRoomID p"] by (auto simp: joined_already)
    ultimately show ?thesis by blast
  qed
  have "hub_wf (?h1\<lparr>hPeers := (hPeers ?h1)(peID p \<mapsto> p), byRoom := (byRoom ?h1)(peRoomID p \<mapsto> List.insert (peID p) (room_set ?h1 (peRoomID p)))\<rparr>)"
    if "length (room_set ?h1 (peRoomID p)) < maxPerRm ?h1" "\<not> already_joined ?h1 p"
    using that solo assms(2) nb ng s
    by (intro hub_wf_add [OF s(1), of "peID p" p]) (auto simp: fresh_peer_def)
  then show ?thesis
    using assms(1) s(1) by (simp add: Join_hub_settled Let_def hub_wf_deliver_all)
qed

section \<open>Every history of the hub\<close>

text \<open>
  One step: any method with any arguments. A joining peer is new: its identifier is 12 random bytes and its queue is empty.
\<close>

inductive hub_step :: "Hub \<Rightarrow> Hub \<Rightarrow> bool" where
  hub_join: "fresh_peer p h \<Longrightarrow> hub_step h (fst (Join_hub p h))"
| hub_leave: "hub_step h (Leave i h)"
| hub_disconnect: "hub_step h (Disconnect i h)"
| hub_forward: "hub_step h (fst (Forward now i msg h))"
| hub_broadcast: "hub_step h (fst (Broadcast now i msg h))"
| hub_kick: "hub_step h (fst (KickPeer i reason h))"
| hub_drain: "hub_step h (drain i h)"
| hub_rate: "hub_step h (cleanupRate i h)"

lemma allowMsg_frame: "\<exists>r. fst (allowMsg now i h) = h\<lparr>hRate := r\<rparr>"
  by (simp add: allowMsg_def Let_def) blast

lemma allowMsg_wf: "hub_wf h \<Longrightarrow> hub_wf (fst (allowMsg now i h)) \<and> maxPerRm (fst (allowMsg now i h)) = maxPerRm h"
  using allowMsg_frame [of now i h] by (auto simp: hub_wf_rate)

lemma Forward_wf: "hub_wf h \<Longrightarrow> hub_wf (fst (Forward now i msg h)) \<and> maxPerRm (fst (Forward now i msg h)) = maxPerRm h"
  using allowMsg_wf [of h now i]
  by (auto simp: Forward_def hub_wf_deliver split: prod.splits bool.splits option.splits)

lemma Broadcast_wf: "hub_wf h \<Longrightarrow> hub_wf (fst (Broadcast now i msg h)) \<and> maxPerRm (fst (Broadcast now i msg h)) = maxPerRm h"
  using allowMsg_wf [of h now i]
  by (auto simp: Broadcast_def hub_wf_deliver_all split: prod.splits bool.splits option.splits)

lemma drain_wf:
  assumes "hub_wf h"
  shows "hub_wf (drain i h)"
proof (rule hub_wf_queues [OF assms])
  have q: "length (peSend p) \<le> sendBuf" if "hPeers h j = Some p" for j p
    using assms that by (auto simp: hub_wf_def queues_ok_def)
  have "length (tl (peSend p)) \<le> sendBuf" if "hPeers h j = Some p" for j p
    using q [OF that] by simp
  with q show "queues_ok (drain i h)"
    by (auto simp: drain_def queues_ok_def simp del: length_tl split: option.splits)
qed (auto simp: drain_def bare_def fun_eq_iff room_set_def split: option.splits)

lemma Leave_cap: "maxPerRm (Leave i h) = maxPerRm h"
  by (simp add: Leave_def Let_def split: option.splits)

lemma Join_cap: "hub_wf h \<Longrightarrow> maxPerRm (fst (Join_hub p h)) = maxPerRm h"
  using settled_room_facts(2) [of h p] by (simp add: Join_hub_settled Let_def)

lemma hub_step_inv: "hub_step h h' \<Longrightarrow> hub_wf h \<and> maxPerRm h = c \<Longrightarrow> hub_wf h' \<and> maxPerRm h' = c"
proof (induction rule: hub_step.induct)
  case (hub_join p h)
  then show ?case using Join_wf Join_cap by simp
next
  case (hub_leave h i)
  then show ?case by (simp add: Leave_wf Leave_cap)
next
  case (hub_disconnect h i)
  then show ?case by (simp add: Disconnect_def Leave_wf Leave_cap)
next
  case (hub_forward h now i msg)
  then show ?case using Forward_wf by blast
next
  case (hub_broadcast h now i msg)
  then show ?case using Broadcast_wf by blast
next
  case (hub_kick h i reason)
  then show ?case by (simp add: KickPeer_def hub_wf_deliver split: option.splits)
next
  case (hub_drain h i)
  then show ?case using drain_wf by (simp add: drain_def split: option.splits)
next
  case (hub_rate h i)
  then show ?case by (simp add: cleanupRate_def hub_wf_rate)
qed

lemma NewHub_wf: "hub_wf (NewHub m) \<and> maxPerRm (NewHub m) = (if m \<le> 0 then 4 else nat m)"
  by (auto simp: hub_wf_defs NewHub_def bare_def room_set_def queues_ok_def)

interpretation hub_inv: inductive_invariant "\<lambda>h. h = NewHub m" hub_step
  "\<lambda>h. hub_wf h \<and> maxPerRm h = (if m \<le> 0 then 4 else nat m)" for m
proof unfold_locales
  show "hub_wf h \<and> maxPerRm h = (if m \<le> 0 then 4 else nat m)" if "h = NewHub m" for h
    using that NewHub_wf by blast
qed (rule hub_step_inv)

text \<open>
  The signalling hub keeps its rooms in order. In every state that any interleaving of joins, departures, evictions, kicks
  and messages reaches, the peers listed for a room are exactly the connected peers of that room, each once, at most the
  capacity of the mesh; two connections of one account, or of one client, are never in a room together; and no channel was closed
  twice, which would bring the process down.
\<close>
theorem hub_stays_wellformed:
  assumes "reach (\<lambda>h. h = NewHub m) hub_step h"
  shows "\<not> hPanic h
    \<and> distinct (PeersInRoom r h) \<and> length (PeersInRoom r h) \<le> (if m \<le> 0 then 4 else nat m)
    \<and> (i \<in> set (PeersInRoom r h) \<longleftrightarrow> (\<exists>p. hPeers h i = Some p \<and> peRoomID p = r))
    \<and> (hPeers h i = Some p \<and> hPeers h j = Some q \<and> peRoomID p = peRoomID q \<and> i \<noteq> j \<longrightarrow>
        (peClientID p = '''' \<or> peClientID p \<noteq> peClientID q)
        \<and> (peUser p = '''' \<or> is_guest (peUser p) \<or> peUser p \<noteq> peUser q))"
proof -
  have wf: "hub_wf h" "maxPerRm h = (if m \<le> 0 then 4 else nat m)"
    using hub_inv.inv_reach [OF assms] by simp_all
  have "(peClientID p = '''' \<or> peClientID p \<noteq> peClientID q) \<and> (peUser p = '''' \<or> is_guest (peUser p) \<or> peUser p \<noteq> peUser q)"
    if "hPeers h i = Some p" "hPeers h j = Some q" "peRoomID p = peRoomID q" "i \<noteq> j"
    using wf(1) that bareI [OF that(1)] bareI [OF that(2)] unfolding hub_wf_def single_presence_def
    by (metis strip_simps(2,3,4))
  moreover have "length (room_set h r) \<le> maxPerRm h" "distinct (room_set h r)" "\<not> hPanic h"
    using wf(1) by (simp_all add: hub_wf_def within_capacity_def agree_maps_def)
  ultimately show ?thesis
    using room_member [OF wf(1)] wf(2) by (simp add: PeersInRoom_def)
qed

definition some_peer :: "string \<Rightarrow> string \<Rightarrow> string \<Rightarrow> Peer" where
  "some_peer i user client = \<lparr>peID = i, peUser = user, peRoomID = ''room'', peClientID = client, peSend = []\<rparr>"

text \<open>Two connections of the same browser tab: the first is evicted.\<close>

definition after_rejoin :: Hub where
  "after_rejoin = fst (Join_hub (some_peer ''p2'' ''ana'' ''c'') (fst (Join_hub (some_peer ''p1'' ''ana'' ''c'') (NewHub 4))))"

theorem hub_stays_wellformed_witness:
  "PeersInRoom ''room'' after_rejoin = [''p2''] \<and> closedCh after_rejoin = [''p1''] \<and> \<not> hPanic after_rejoin
   \<and> distinct (PeersInRoom ''room'' after_rejoin)"
proof -
  let ?h1 = "fst (Join_hub (some_peer ''p1'' ''ana'' ''c'') (NewHub 4))"
  have e: "PeersInRoom ''room'' after_rejoin = [''p2'']" "closedCh after_rejoin = [''p1'']"
    by (code_simp, code_simp)
  have f: "fresh_peer (some_peer ''p1'' ''ana'' ''c'') (NewHub 4)" "fresh_peer (some_peer ''p2'' ''ana'' ''c'') ?h1"
    by (code_simp, code_simp)
  have "reach (\<lambda>h. h = NewHub 4) hub_step ?h1"
    by (rule reach_step [where step = hub_step, OF _ hub_join [OF f(1)]]) (simp add: reach_init)
  then have "reach (\<lambda>h. h = NewHub 4) hub_step after_rejoin"
    unfolding after_rejoin_def by (rule reach_step [where step = hub_step, OF _ hub_join [OF f(2)]])
  from hub_stays_wellformed [OF this, where r = "''room''"] e show ?thesis by simp
qed

section \<open>Routing\<close>

definition queue_of :: "Hub \<Rightarrow> string \<Rightarrow> SignalingMsg list" where
  "queue_of h i = (case hPeers h i of None \<Rightarrow> [] | Some p \<Rightarrow> peSend p)"

lemma queue_deliver:
  "queue_of (deliver msg i h) j = queue_of h j
   \<or> j = i \<and> hPeers h i \<noteq> None \<and> queue_of (deliver msg i h) j = queue_of h j @ [msg]"
  by (auto simp: queue_of_def deliver_def split: option.splits)

lemma deliver_known: "hPeers (deliver msg i h) j = None \<longleftrightarrow> hPeers h j = None"
  by (simp add: deliver_def split: option.splits)

lemma queue_deliver_other: "j \<noteq> i \<Longrightarrow> queue_of (deliver msg i h) j = queue_of h j"
  using queue_deliver [of msg i h j] by blast

lemma queue_deliver_all:
  "distinct ids \<Longrightarrow> queue_of (deliver_all msg ids h) j = queue_of h j
    \<or> j \<in> set ids \<and> queue_of (deliver_all msg ids h) j = queue_of h j @ [msg]"
proof (induction ids arbitrary: h)
  case (Cons i ids)
  have "queue_of (deliver_all msg ids h') j = queue_of h' j" if "j \<notin> set ids" for h'
    using Cons.IH [of h'] Cons.prems that by simp
  with Cons.IH [of "deliver msg i h"] Cons.prems queue_deliver [of msg i h j] queue_deliver_other [of j i msg h]
  show ?case
    by (cases "j = i") (auto simp: deliver_all_def)
qed (simp add: deliver_all_def)

lemma allowMsg_peers: "hPeers (fst (allowMsg now i h)) = hPeers h" "byRoom (fst (allowMsg now i h)) = byRoom h"
  using allowMsg_frame [of now i h] by auto

text \<open>
  Signalling never leaves the room. Whatever a peer sends, to one target or to all, a queue either keeps its messages or
  grows by that one message, stamped by the hub with the identifier of the sender, and then its owner is connected to the
  sender's room; a message to a peer of another room, an unknown peer, or from one that is not connected is refused and
  reaches nobody.
\<close>
theorem signalling_stays_in_room:
  assumes "hub_wf h" and "send \<in> {Forward now frm msg, Broadcast now frm msg}"
  shows "(queue_of (fst (send h)) j = queue_of h j
      \<or> queue_of (fst (send h)) j = queue_of h j @ [msg\<lparr>mgFrom := frm\<rparr>]
        \<and> (\<exists>p q. hPeers h frm = Some p \<and> hPeers h j = Some q \<and> peRoomID p = peRoomID q) \<and> snd (send h) = Ok ())
    \<and> (snd (send h) \<noteq> Ok () \<longrightarrow> queue_of (fst (send h)) j = queue_of h j)"
proof -
  obtain h1 ok where a: "allowMsg now frm h = (h1, ok)" by fastforce
  have h1: "hPeers h1 = hPeers h" "byRoom h1 = byRoom h" "room_set h1 r = room_set h r" "queue_of h1 i = queue_of h i" for r i
    using allowMsg_peers [of now frm h] a by (simp_all add: room_set_def queue_of_def)
  have fw: "?thesis" if "send = Forward now frm msg"
    using queue_deliver [of "msg\<lparr>mgFrom := frm\<rparr>" "mgTo msg" h1 j]
    by (auto simp: that Forward_def a h1 split: bool.splits option.splits)
  have bc: "?thesis" if "send = Broadcast now frm msg"
  proof (cases "ok \<and> hPeers h frm \<noteq> None")
    case True
    then obtain p where p: "hPeers h frm = Some p" by blast
    let ?ids = "filter (\<lambda>i. i \<noteq> frm) (room_set h (peRoomID p))"
    have "distinct ?ids"
      using assms(1) by (simp add: hub_wf_def agree_maps_def)
    moreover have "\<exists>q. hPeers h j = Some q \<and> peRoomID q = peRoomID p" if "j \<in> set ?ids"
      using that room_member [OF assms(1), of j "peRoomID p"] by auto
    ultimately show ?thesis
      using queue_deliver_all [of ?ids "msg\<lparr>mgFrom := frm\<rparr>" h1 j] True p
      by (auto simp: that Broadcast_def a h1)
  next
    case False
    then show ?thesis
      by (auto simp: that Broadcast_def a h1 split: bool.splits)
  qed
  from assms(2) fw bc show ?thesis by auto
qed

definition two_rooms :: Hub where
  "two_rooms = fst (Join_hub (some_peer ''p2'' ''bob'' ''d'') (fst (Join_hub ((some_peer ''p3'' ''eve'' ''e'')\<lparr>peRoomID := ''other''\<rparr>)
     (fst (Join_hub (some_peer ''p1'' ''ana'' ''c'') (NewHub 4))))))"

lemma two_rooms_wf: "hub_wf two_rooms"
  unfolding two_rooms_def
proof (intro Join_wf)
  show "fresh_peer (some_peer ''p2'' ''bob'' ''d'') (fst (Join_hub ((some_peer ''p3'' ''eve'' ''e'')\<lparr>peRoomID := ''other''\<rparr>)
     (fst (Join_hub (some_peer ''p1'' ''ana'' ''c'') (NewHub 4)))))"
    "fresh_peer ((some_peer ''p3'' ''eve'' ''e'')\<lparr>peRoomID := ''other''\<rparr>) (fst (Join_hub (some_peer ''p1'' ''ana'' ''c'') (NewHub 4)))"
    "fresh_peer (some_peer ''p1'' ''ana'' ''c'') (NewHub 4)"
    by (code_simp, code_simp, code_simp)
qed (simp add: NewHub_wf)

theorem signalling_stays_in_room_witness:
  "hub_wf two_rooms
   \<and> queue_of (fst (Forward 0 ''p1'' ((blank_msg ''offer'')\<lparr>mgTo := ''p3''\<rparr>) two_rooms)) ''p3'' = queue_of two_rooms ''p3''
   \<and> snd (Forward 0 ''p1'' ((blank_msg ''offer'')\<lparr>mgTo := ''p2''\<rparr>) two_rooms) = Ok ()"
proof -
  have "snd (Forward 0 ''p1'' ((blank_msg ''offer'')\<lparr>mgTo := ''p3''\<rparr>) two_rooms) = Err ErrTargetNotInRoom"
    and ok: "snd (Forward 0 ''p1'' ((blank_msg ''offer'')\<lparr>mgTo := ''p2''\<rparr>) two_rooms) = Ok ()"
    by (simp_all add: Forward_def allowMsg_def Let_def refilled_def rateMinStep_def rateBurst_def two_rooms_def Join_hub_def
      NewHub_def room_set_def some_peer_def ghosts_def evictLocked_def already_joined_def is_guest_def HasPrefix_def deliver_all_def deliver_def
      sendBuf_def List.insert_def blank_msg_def)
  then show ?thesis
    using signalling_stays_in_room [OF two_rooms_wf, of "Forward 0 ''p1'' ((blank_msg ''offer'')\<lparr>mgTo := ''p3''\<rparr>)" 0 "''p1''"
        "(blank_msg ''offer'')\<lparr>mgTo := ''p3''\<rparr>" "''p3''"] two_rooms_wf by simp
qed

end
