(* ===== verification/LiveCallsProps.thy ===== *)
theory LiveCallsProps
  imports LiveCalls
begin

text \<open>
  Ringing: a call rings when it begins and not again while it lives, not even across a restart of the server; a member is
  rung at most once a minute for a room; what the policy of a device silences is exactly that device.
\<close>

section \<open>Calls across a restart\<close>

definition calls_keyed :: "callRegistry \<Rightarrow> bool" where
  "calls_keyed r \<longleftrightarrow> (\<forall>k c. rcalls r k = Some c \<longrightarrow> lcRoom c = k \<and> k \<noteq> '''' \<and> lcCallID c \<noteq> '''')"

definition calls_order :: "string list \<Rightarrow> callRegistry \<Rightarrow> bool" where
  "calls_order ks r \<longleftrightarrow> distinct ks \<and> set ks = dom (rcalls r)"

lemma load_call_at:
  "lcRoom c \<noteq> '''' \<Longrightarrow> lcCallID c \<noteq> '''' \<Longrightarrow> load_call now c m (lcRoom c) = (if call_expired now c then m (lcRoom c) else Some c)"
  "k \<noteq> lcRoom c \<Longrightarrow> load_call now c m k = m k"
  by (simp_all add: load_call_def call_expired_def)

lemma load_calls_other: "(\<And>c. c \<in> set arr \<Longrightarrow> lcRoom c \<noteq> k) \<Longrightarrow> fold (load_call now) arr m k = m k"
  by (induction arr arbitrary: m) (auto simp: load_call_def)

lemma load_calls:
  assumes "distinct (map lcRoom arr)" "\<And>c. c \<in> set arr \<Longrightarrow> lcRoom c \<noteq> '''' \<and> lcCallID c \<noteq> ''''" "c \<in> set arr"
  shows "fold (load_call now) arr m (lcRoom c) = (if call_expired now c then m (lcRoom c) else Some c)"
  using assms
proof (induction arr arbitrary: m)
  case (Cons a arr)
  show ?case
  proof (cases "a = c")
    case True
    then have "fold (load_call now) arr (load_call now a m) (lcRoom c) = load_call now a m (lcRoom c)"
      using Cons.prems(1) by (intro load_calls_other) (auto simp: image_iff)
    then show ?thesis
      using Cons.prems(2) [of a] True by (simp add: load_call_at)
  next
    case False
    then have c: "c \<in> set arr" "lcRoom a \<noteq> lcRoom c"
      using Cons.prems(1,3) by auto
    then show ?thesis
      using Cons.IH [of "load_call now a m"] Cons.prems by (simp add: load_call_at)
  qed
qed simp

lemma map_filter_calls:
  assumes "calls_keyed r" "calls_order ks r"
  shows "set (List.map_filter (rcalls r) ks) = ran (rcalls r)" "map lcRoom (List.map_filter (rcalls r) ks) = ks"
proof -
  have *: "set ks' \<subseteq> dom (rcalls r) \<Longrightarrow> map lcRoom (List.map_filter (rcalls r) ks') = ks'" for ks'
    using assms(1) by (induction ks') (auto simp: List.map_filter_def calls_keyed_def)
  then show "map lcRoom (List.map_filter (rcalls r) ks) = ks"
    using assms(2) by (simp add: calls_order_def)
  show "set (List.map_filter (rcalls r) ks) = ran (rcalls r)"
    using assms(2) by (auto simp: List.map_filter_def calls_order_def ran_def image_iff) force
qed

lemma restart_calls:
  assumes "calls_keyed r" "calls_order ks r"
  shows "rcalls (newCallRegistry now (rfile (save_calls ks True r))) k =
    (case rcalls r k of None \<Rightarrow> None | Some c \<Rightarrow> if call_expired now c then None else Some c)"
proof -
  let ?arr = "sort_key lcRoom (List.map_filter (rcalls r) ks)"
  have set: "set ?arr = ran (rcalls r)"
    using map_filter_calls(1) [OF assms] by simp
  have dist: "distinct (map lcRoom ?arr)"
  proof -
    have "mset (map lcRoom ?arr) = mset ks"
      using map_filter_calls(2) [OF assms] by (metis mset_map mset_sort)
    then show ?thesis
      using assms(2) by (metis calls_order_def mset_eq_imp_distinct_iff)
  qed
  have keyed: "lcRoom c \<noteq> '''' \<and> lcCallID c \<noteq> ''''" if "c \<in> set ?arr" for c
    using assms(1) that unfolding set by (auto simp: calls_keyed_def ran_def)
  have eq: "rcalls (newCallRegistry now (rfile (save_calls ks True r))) k = fold (load_call now) ?arr Map.empty k"
    by (simp add: newCallRegistry_def save_calls_def Let_def)
  show ?thesis
  proof (cases "rcalls r k")
    case None
    have "lcRoom c \<noteq> k" if "c \<in> set ?arr" for c
      using assms(1) that None unfolding set by (auto simp: calls_keyed_def ran_def)
    then have "fold (load_call now) ?arr Map.empty k = Map.empty k"
      by (rule load_calls_other)
    with None eq show ?thesis by simp
  next
    case (Some c)
    then have "c \<in> set ?arr" "lcRoom c = k"
      using assms(1) unfolding set by (auto simp: calls_keyed_def ran_def)
    with load_calls [OF dist keyed] Some eq show ?thesis by auto
  qed
qed

lemma restart_live:
  assumes "calls_keyed r" "calls_order ks r" "now \<le> later"
  shows "liveLocked room later (newCallRegistry now (rfile (save_calls ks True r))) = liveLocked room later r"
  using restart_calls [OF assms(1,2), of now room] assms(3)
  by (auto simp: liveLocked_def call_expired_def split: option.splits)

lemma OnJoin_keyed: "calls_keyed r \<Longrightarrow> room \<noteq> '''' \<Longrightarrow> newID \<noteq> '''' \<Longrightarrow> calls_keyed (fst (OnJoin room user client resume now newID r))"
  by (auto simp: calls_keyed_def OnJoin_def liveLocked_def Let_def split: option.splits if_splits)

lemma OnPeerGone_keyed: "calls_keyed r \<Longrightarrow> calls_keyed (fst (OnPeerGone room client graceful now r))"
  by (auto simp: calls_keyed_def OnPeerGone_def Let_def split: option.splits if_splits)

lemma touch_keyed: "calls_keyed r \<Longrightarrow> calls_keyed (touch_call now room r)"
  by (auto simp: calls_keyed_def touch_call_def split: option.splits if_splits)

lemma Touch_keyed: "calls_keyed r \<Longrightarrow> calls_keyed (Touch_calls rooms now r)"
  by (induction rooms arbitrary: r) (simp_all add: Touch_calls_def touch_keyed)

lemma GC_keyed: "calls_keyed r \<Longrightarrow> calls_keyed (fst (GC_calls ks now r))"
  by (auto simp: calls_keyed_def GC_calls_def Let_def keep_vals_def split: option.splits if_splits)

section \<open>One ring per call\<close>

datatype call_event =
    EvJoin string string string bool string
  | EvGone string string bool
  | EvTouch "string list"
  | EvGC "string list"
  | EvAllow string string
  | EvRestart "string list"

fun do_event :: "secs \<Rightarrow> call_event \<Rightarrow> callRegistry \<Rightarrow> callRegistry \<times> (string \<times> ringDecision) list" where
  "do_event now (EvJoin room user client resume newID) r =
     (fst (OnJoin room user client resume now newID r), [(room, snd (OnJoin room user client resume now newID r))])"
| "do_event now (EvGone room client graceful) r = (fst (OnPeerGone room client graceful now r), [])"
| "do_event now (EvTouch rooms) r = (Touch_calls rooms now r, [])"
| "do_event now (EvGC ks) r = (fst (GC_calls ks now r), [])"
| "do_event now (EvAllow room recipient) r = (fst (AllowRing room recipient now r), [])"
| "do_event now (EvRestart ks) r = (newCallRegistry now (rfile (save_calls ks True r)), [])"

fun event_ok :: "call_event \<Rightarrow> callRegistry \<Rightarrow> bool" where
  "event_ok (EvJoin room user client resume newID) r \<longleftrightarrow> room \<noteq> '''' \<and> newID \<noteq> ''''"
| "event_ok (EvRestart ks) r \<longleftrightarrow> calls_order ks r"
| "event_ok e r \<longleftrightarrow> True"

text \<open>A join or the heartbeat keeps the call of a room active; hanging up is the client's \<open>leave\<close>.\<close>

fun keeps_active :: "string \<Rightarrow> call_event \<Rightarrow> bool" where
  "keeps_active R (EvJoin room user client resume newID) \<longleftrightarrow> room = R"
| "keeps_active R (EvTouch rooms) \<longleftrightarrow> R \<in> set rooms"
| "keeps_active R e \<longleftrightarrow> False"

fun hangs_up :: "string \<Rightarrow> call_event \<Rightarrow> bool" where
  "hangs_up R (EvGone room client graceful) \<longleftrightarrow> room = R \<and> graceful"
| "hangs_up R e \<longleftrightarrow> False"

text \<open>
  A run in which nobody hangs up in the room and no event comes later than the grace window after the last activity there.
\<close>

fun steady :: "string \<Rightarrow> secs \<Rightarrow> (secs \<times> call_event) list \<Rightarrow> callRegistry \<Rightarrow> bool" where
  "steady R since [] r = True"
| "steady R since ((t, e) # es) r \<longleftrightarrow>
     since \<le> t \<and> t - since \<le> liveCallGraceSec \<and> event_ok e r \<and> \<not> hangs_up R e
     \<and> steady R (if keeps_active R e then t else since) es (fst (do_event t e r))"

fun run_events :: "(secs \<times> call_event) list \<Rightarrow> callRegistry \<Rightarrow> callRegistry \<times> (string \<times> ringDecision) list" where
  "run_events [] r = (r, [])"
| "run_events ((t, e) # es) r =
     (case run_events es (fst (do_event t e r)) of (r', ds) \<Rightarrow> (r', snd (do_event t e r) @ ds))"

text \<open>The call of the room: its identifier and a lower bound of its last activity.\<close>

definition call_since :: "string \<Rightarrow> string \<Rightarrow> secs \<Rightarrow> callRegistry \<Rightarrow> bool" where
  "call_since R cid since r \<longleftrightarrow> (\<exists>c. rcalls r R = Some c \<and> lcCallID c = cid \<and> since \<le> lcLastActive c)"

lemma touch_calls_at:
  "rcalls (Touch_calls rooms now r) k = (if k \<in> set rooms then map_option (\<lambda>c. c\<lparr>lcLastActive := now\<rparr>) (rcalls r k) else rcalls r k)"
proof (induction rooms arbitrary: r)
  case (Cons a rooms)
  have a: "rcalls (touch_call now a r) k = (if k = a then map_option (\<lambda>c. c\<lparr>lcLastActive := now\<rparr>) (rcalls r k) else rcalls r k)"
    by (auto simp: touch_call_def split: option.splits)
  show ?case
    using Cons.IH [of "touch_call now a r"] a by (auto simp: Touch_calls_def option.map_comp comp_def)
qed (simp add: Touch_calls_def)

lemma event_keeps_call:
  assumes "calls_keyed r" "call_since R cid since r" "since \<le> t" "t - since \<le> liveCallGraceSec" "event_ok e r" "\<not> hangs_up R e"
  shows "calls_keyed (fst (do_event t e r))"
    and "call_since R cid (if keeps_active R e then t else since) (fst (do_event t e r))"
    and "list_all (\<lambda>(room, d). room = R \<longrightarrow> \<not> rdRing d \<and> rdCallID d = cid) (snd (do_event t e r))"
proof -
  obtain c where c: "rcalls r R = Some c" "lcCallID c = cid" "since \<le> lcLastActive c"
    using assms(2) by (auto simp: call_since_def)
  then have live: "liveLocked R t r = Some c" "\<not> call_expired t c"
    using assms(4) by (auto simp: liveLocked_def call_expired_def)
  have "calls_keyed (fst (do_event t e r)) \<and> call_since R cid (if keeps_active R e then t else since) (fst (do_event t e r))
    \<and> list_all (\<lambda>(room, d). room = R \<longrightarrow> \<not> rdRing d \<and> rdCallID d = cid) (snd (do_event t e r))"
  proof (cases e)
    case (EvJoin room user client resume newID)
    have "calls_keyed (fst (OnJoin room user client resume t newID r))"
      using assms(5) EvJoin by (intro OnJoin_keyed [OF assms(1)]) simp_all
    moreover have "call_since R cid (if room = R then t else since) (fst (OnJoin room user client resume t newID r))"
      using c live assms(3) by (auto simp: call_since_def OnJoin_def Let_def split: option.splits)
    moreover have "\<not> rdRing (snd (OnJoin R user client resume t newID r)) \<and> rdCallID (snd (OnJoin R user client resume t newID r)) = cid"
      using c live by (simp add: OnJoin_def Let_def)
    ultimately show ?thesis
      using EvJoin by auto
  next
    case (EvGone room client graceful)
    have "call_since R cid since (fst (OnPeerGone room client graceful t r))"
      using c assms(6) EvGone by (auto simp: call_since_def OnPeerGone_def Let_def split: option.splits)
    then show ?thesis
      using EvGone OnPeerGone_keyed [OF assms(1)] by simp
  next
    case (EvTouch rooms)
    then show ?thesis
      using c assms(3) Touch_keyed [OF assms(1)] by (auto simp: call_since_def touch_calls_at)
  next
    case (EvGC ks)
    have "call_since R cid since (fst (GC_calls ks t r))"
      using c live by (auto simp: call_since_def GC_calls_def Let_def keep_vals_def)
    then show ?thesis
      using EvGC GC_keyed [OF assms(1)] by simp
  next
    case (EvAllow room recipient)
    then show ?thesis
      using assms(1) c by (auto simp: call_since_def AllowRing_def Let_def calls_keyed_def)
  next
    case (EvRestart ks)
    have "calls_keyed (newCallRegistry t (rfile (save_calls ks True r)))"
      using restart_calls [OF assms(1), of ks t] assms(1,5) EvRestart
      by (auto simp: calls_keyed_def split: option.splits if_splits)
    then show ?thesis
      using restart_calls [OF assms(1), of ks t R] assms(5) EvRestart c live by (auto simp: call_since_def)
  qed
  then show "calls_keyed (fst (do_event t e r))" "call_since R cid (if keeps_active R e then t else since) (fst (do_event t e r))"
    "list_all (\<lambda>(room, d). room = R \<longrightarrow> \<not> rdRing d \<and> rdCallID d = cid) (snd (do_event t e r))"
    by blast+
qed

lemma steady_silent:
  "calls_keyed r \<Longrightarrow> call_since R cid since r \<Longrightarrow> steady R since es r \<Longrightarrow>
    list_all (\<lambda>(room, d). room = R \<longrightarrow> \<not> rdRing d \<and> rdCallID d = cid) (snd (run_events es r))"
proof (induction es arbitrary: since r)
  case (Cons te es)
  obtain t e where te: "te = (t, e)" by fastforce
  note k = event_keeps_call [OF Cons.prems(1,2), of t e]
  from Cons.prems(3) te have "list_all (\<lambda>(room, d). room = R \<longrightarrow> \<not> rdRing d \<and> rdCallID d = cid) (snd (run_events es (fst (do_event t e r))))"
    using k by (intro Cons.IH) auto
  with k Cons.prems(3) te show ?case
    by (auto split: prod.splits)
qed simp

text \<open>
  A call rings once. When somebody joins a room without a live call, the room rings (unless the client says it resumes);
  and from then on, however many clients join, drop and come back, whatever happens in other rooms, however long it lasts and
  however often the server restarts, no join rings the room again and all see the same call, as long as nobody hangs up
  and there is activity (a join, or the heartbeat of an occupied room) at least every 90 seconds.
\<close>
theorem call_rings_once:
  assumes "calls_keyed r" and "liveLocked R t r = None" and "R \<noteq> ''''" and "newID \<noteq> ''''"
    and "steady R t es (fst (OnJoin R user client resume t newID r))"
  shows "rdRing (snd (OnJoin R user client resume t newID r)) = (\<not> resume)
    \<and> list_all (\<lambda>(room, d). room = R \<longrightarrow> \<not> rdRing d \<and> rdCallID d = newID)
        (snd (run_events es (fst (OnJoin R user client resume t newID r))))"
proof -
  let ?r = "fst (OnJoin R user client resume t newID r)"
  have "call_since R newID t ?r"
    using assms(2) by (simp add: call_since_def OnJoin_def Let_def)
  then have "list_all (\<lambda>(room, d). room = R \<longrightarrow> \<not> rdRing d \<and> rdCallID d = newID) (snd (run_events es ?r))"
    using OnJoin_keyed [OF assms(1,3,4)] assms(5) by (intro steady_silent)
  then show ?thesis
    using assms(2) by (simp add: OnJoin_def Let_def)
qed

definition empty_registry :: callRegistry where
  "empty_registry = newCallRegistry 0 NoFile"

text \<open>Ana calls; a deploy restarts the server; she reconnects; Bob joins after the heartbeat.\<close>

definition deploy_run :: "(secs \<times> call_event) list" where
  "deploy_run = [(5, EvGone ''r'' ''c1'' False), (6, EvRestart [''r'']), (8, EvJoin ''r'' ''ana'' ''c1'' False ''k2''),
     (90, EvTouch [''r'']), (170, EvJoin ''r'' ''bob'' ''c2'' False ''k3'')]"

theorem call_rings_once_witness:
  "snd (run_events deploy_run (fst (OnJoin ''r'' ''ana'' ''c1'' False 0 ''k1'' empty_registry)))
     = [(''r'', \<lparr>rdRing = False, rdCallID = ''k1'', rdReason = Rejoin, rdNew = False\<rparr>),
        (''r'', \<lparr>rdRing = False, rdCallID = ''k1'', rdReason = Ongoing, rdNew = False\<rparr>)]
   \<and> rdRing (snd (OnJoin ''r'' ''ana'' ''c1'' False 0 ''k1'' empty_registry))"
proof -
  note eval = deploy_run_def empty_registry_def newCallRegistry_def OnJoin_def liveLocked_def OnPeerGone_def Let_def put_if_def
    first_seen_def save_calls_def load_call_def Touch_calls_def touch_call_def liveCallGraceSec_def calls_order_def
  have h: "calls_keyed empty_registry" "liveLocked ''r'' 0 empty_registry = None"
    by (simp_all add: calls_keyed_def eval)
  have s: "steady ''r'' 0 deploy_run (fst (OnJoin ''r'' ''ana'' ''c1'' False 0 ''k1'' empty_registry))"
    by (simp add: eval dom_def List.map_filter_def)
  have "snd (run_events deploy_run (fst (OnJoin ''r'' ''ana'' ''c1'' False 0 ''k1'' empty_registry)))
     = [(''r'', \<lparr>rdRing = False, rdCallID = ''k1'', rdReason = Rejoin, rdNew = False\<rparr>),
        (''r'', \<lparr>rdRing = False, rdCallID = ''k1'', rdReason = Ongoing, rdNew = False\<rparr>)]"
    by (simp add: eval List.map_filter_def)
  with call_rings_once [OF h _ _ s] show ?thesis by simp
qed

text \<open>
  A client that dropped stays among the participants: when the last connected one hangs up, the call does not end, and a new
  call within the grace window rings nobody.
\<close>
lemma dropped_client_swallows_call:
  assumes "liveLocked R t r = None" "c1 \<noteq> ''''" "c2 \<noteq> ''''" "c1 \<noteq> c2" "t \<le> t1" "t1 \<le> t2" "t2 \<le> t3" "t1 - t \<le> 90" "t3 - t2 \<le> 90"
  shows "let r1 = fst (OnJoin R a c1 False t k1 r);
             r2 = fst (OnPeerGone R c1 False t1 (fst (OnJoin R b c2 False t1 k2 r1)));
             g = OnPeerGone R c2 True t2 r2
         in \<not> fst (snd g) \<and> \<not> rdRing (snd (OnJoin R a c3 False t3 k3 (fst g)))"
  using assms by (simp add: OnJoin_def OnPeerGone_def Let_def liveLocked_def liveCallGraceSec_def put_if_def)

section \<open>At most one ring a minute\<close>

lemma AllowRing_stamp:
  assumes "snd (AllowRing room u now r)"
  shows "lastRing (fst (AllowRing room u now r)) (ring_key room u) = Some now"
  using assms by (auto simp: AllowRing_def Let_def keep_vals_def ringDedupSec_def split: if_splits option.splits)

lemma AllowRing_keeps:
  assumes "lastRing r k = Some t" "now - t < ringDedupSec" "k \<noteq> ring_key room u \<or> \<not> snd (AllowRing room u now r)"
  shows "lastRing (fst (AllowRing room u now r)) k = Some t"
  using assms by (auto simp: AllowRing_def Let_def keep_vals_def ringDedupSec_def split: if_splits option.splits)

fun ring_times :: "string \<Rightarrow> string \<Rightarrow> (secs \<times> string \<times> string) list \<Rightarrow> callRegistry \<Rightarrow> secs list" where
  "ring_times R u [] r = []"
| "ring_times R u ((t, room, x) # as) r =
     (let rest = ring_times R u as (fst (AllowRing room x t r))
      in if (room, x) = (R, u) \<and> snd (AllowRing room x t r) then t # rest else rest)"

lemma AllowRing_blocks:
  assumes "(\<exists>s \<ge> t0. lastRing r (ring_key R u) = Some s) \<or> t0 + ringDedupSec \<le> t" "t0 \<le> t"
  shows "(room, x) = (R, u) \<Longrightarrow> snd (AllowRing room x t r) \<Longrightarrow> t0 + ringDedupSec \<le> t"
    and "(\<exists>s \<ge> t0. lastRing (fst (AllowRing room x t r)) (ring_key R u) = Some s) \<or> t0 + ringDedupSec \<le> t"
  using assms
  by (auto simp: AllowRing_def Let_def keep_vals_def ringDedupSec_def split: if_splits option.splits)

lemma ring_times_after:
  "(\<exists>s \<ge> t0. lastRing r (ring_key R u) = Some s) \<or> (\<forall>a \<in> set as. t0 + ringDedupSec \<le> fst a) \<Longrightarrow>
    sorted (map fst as) \<Longrightarrow> \<forall>a \<in> set as. t0 \<le> fst a \<Longrightarrow> t \<in> set (ring_times R u as r) \<Longrightarrow> t0 + ringDedupSec \<le> t"
proof (induction as arbitrary: r)
  case (Cons a as)
  obtain s room x where a: "a = (s, room, x)" by (cases a)
  have pre: "(\<exists>s' \<ge> t0. lastRing r (ring_key R u) = Some s') \<or> t0 + ringDedupSec \<le> s" "t0 \<le> s"
    using Cons.prems(1,3) a by auto
  note step = AllowRing_blocks [OF pre, of room x]
  have "t0 + ringDedupSec \<le> t" if "t \<in> set (ring_times R u as (fst (AllowRing room x s r)))"
    using that step(2) Cons.prems(2,3) a by (intro Cons.IH) (auto intro: order_trans)
  with step(1) Cons.prems(4) a show ?case
    by (auto simp: Let_def split: if_splits)
qed simp

text \<open>
  Two rings of one member for one room are at least a minute apart, whatever attempts are made in between for this and for other
  rooms, as long as the process runs.
\<close>
lemma rings_a_minute_apart:
  "sorted (map fst as) \<Longrightarrow> sorted_wrt (\<lambda>s t. s + ringDedupSec \<le> t) (ring_times R u as r)"
proof (induction as arbitrary: r)
  case (Cons a as)
  obtain s room x where a: "a = (s, room, x)" by (cases a)
  have "s + ringDedupSec \<le> t" if "(room, x) = (R, u)" "snd (AllowRing room x s r)"
    "t \<in> set (ring_times R u as (fst (AllowRing room x s r)))" for t
    using that Cons.prems a AllowRing_stamp [OF that(2)]
    by (intro ring_times_after [of s "fst (AllowRing room x s r)" R u as]) auto
  with Cons a show ?case
    by (auto simp: Let_def)
qed simp

section \<open>Silenced devices\<close>

text \<open>
  A device its owner has silenced is not rung, and a device that is not known rings: silence is always a choice.
\<close>
lemma silence_is_a_choice:
  "ShouldRing user dev now s = False \<longleftrightarrow>
    user \<noteq> '''' \<and> dev \<noteq> '''' \<and> (\<exists>d. ddevices s (deviceKey user dev) = Some d \<and> (\<not> dvRing d \<or> dvMuteUntil d > now))"
  by (auto simp: ShouldRing_def Muted_def split: option.splits)

text \<open>Switching a device on again cancels a pending silence, unless the same request sets one.\<close>
lemma ring_on_cancels_silence:
  assumes "ddevices s (deviceKey user dev) = Some d" "user \<noteq> ''''" "dev \<noteq> ''''" "0 \<le> now"
  shows "ShouldRing user dev now (fst (Set_device ks ok user dev (Some True) None label s))"
  using assms by (simp add: Set_device_def ShouldRing_def Muted_def save_devices_def Let_def)

end
