(* ===== verification/VideoProps.thy ===== *)
theory VideoProps
  imports VideoHandlers VideoHubProps LiveCallsProps
begin

text \<open>
  The service of video calls as a whole: who is seated in a room, what an invitation and a PIN open and what closes them again,
  and who can be put out of a call.
\<close>

section \<open>What the hub's methods do to the seats\<close>

lemma bare_Leave: "bare (Leave i h) = (bare h)(i := None)"
  by (auto simp: Leave_def Let_def bare_without bare_None [symmetric] fun_eq_iff split: option.splits)
     (auto simp: bare_def)

lemma bare_Disconnect: "bare (Disconnect i h) = (bare h)(i := None)"
  using bare_Leave [of i h] by (auto simp: Disconnect_def bare_None [symmetric])

lemma bare_rate [simp]: "bare (h\<lparr>hRate := r\<rparr>) = bare h"
  by (simp add: bare_def fun_eq_iff)

lemma bare_allow: "bare (fst (allowMsg now i h)) = bare h"
  using allowMsg_frame [of now i h] by auto

lemma bare_Forward: "bare (fst (Forward now i msg h)) = bare h"
  using bare_allow [of now i h] by (auto simp: Forward_def split: prod.splits bool.splits option.splits)

lemma bare_Broadcast: "bare (fst (Broadcast now i msg h)) = bare h"
  using bare_allow [of now i h] by (auto simp: Broadcast_def split: prod.splits bool.splits option.splits)

lemma bare_Kick: "bare (fst (KickPeer i reason h)) = bare h"
  by (simp add: KickPeer_def split: option.splits)

lemma bare_drain: "bare (drain i h) = bare h"
  by (auto simp: drain_def bare_def fun_eq_iff split: option.splits)

lemmas bare_quiet = bare_Forward bare_Broadcast bare_Kick bare_drain

lemma bare_Leaves: "bare (fold Leave ids h) = (\<lambda>i. if i \<in> set ids then None else bare h i)"
  by (induction ids arbitrary: h) (auto simp: bare_Leave)

lemma bare_Join:
  assumes "hub_wf h" "bare (fst (Join_hub p h)) i = Some q"
  shows "bare h i = Some q \<or> (i = peID p \<and> q = strip p)"
proof -
  note s = settled_room_facts [OF assms(1), of p]
  have "bare (fst (Join_hub p h)) i \<in> {bare h i, bare (settled_room p h) i, if i = peID p then Some (strip p) else bare (settled_room p h) i}"
    by (simp add: Join_hub_settled Let_def) (auto simp: bare_def)
  with assms(2) show ?thesis
    by (auto simp: s(3) split: if_splits)
qed

section \<open>Seats\<close>

definition may_enter :: "string \<Rightarrow> Room \<Rightarrow> bool" where
  "may_enter user r \<longleftrightarrow> rmOwner r = user \<or> user \<in> set (rmMembers r)"

text \<open>The room of a peer exists, and its account may enter it, or it is a guest.\<close>

definition seat :: "VService \<Rightarrow> Peer \<Rightarrow> bool" where
  "seat s p \<longleftrightarrow> (\<exists>r. rooms s (peRoomID p) = Some r \<and> (is_guest (peUser p) \<or> may_enter (peUser p) r))"

text \<open>
  Everyone is seated rightly, when \<open>b\<close> asks for it, or is one of the \<open>X\<close>: those who are on their way out, or, when nothing
  is asked of the seats, those of whom something else is known.
\<close>

definition video_wf :: "bool \<Rightarrow> (string \<Rightarrow> Peer \<Rightarrow> bool) \<Rightarrow> VService \<Rightarrow> bool" where
  "video_wf b X s \<longleftrightarrow>
     hub_wf (vhub s) \<and> maxPerRm (vhub s) = 4 \<and> (\<forall>i p. bare (vhub s) i = Some p \<longrightarrow> b \<and> seat s p \<or> X i p)"

lemma seat_strip [simp]: "seat s (strip p) = seat s p"
  by (simp add: seat_def)

text \<open>Seats that were held stay held while nobody new sits down and no room loses anyone.\<close>

lemma video_wf_keep:
  assumes "video_wf b X s" "hub_wf (vhub s')" "maxPerRm (vhub s') = maxPerRm (vhub s)"
    "\<And>i p. bare (vhub s') i = Some p \<Longrightarrow> bare (vhub s) i = Some p" "\<And>p. seat s p \<Longrightarrow> seat s' p"
  shows "video_wf b X s'"
  using assms unfolding video_wf_def by metis

text \<open>A service that differs only outside rooms and hub.\<close>

definition same_rooms :: "VService \<Rightarrow> VService \<Rightarrow> bool" where
  "same_rooms s s' \<longleftrightarrow> rooms s' = rooms s \<and> vhub s' = vhub s"

lemma video_wf_same: "same_rooms s s' \<Longrightarrow> video_wf b X s \<Longrightarrow> video_wf b X s'"
  unfolding same_rooms_def video_wf_def seat_def by simp

lemma video_wf_hub:
  assumes "video_wf b X s" "rooms s' = rooms s" "hub_wf (vhub s')" "maxPerRm (vhub s') = maxPerRm (vhub s)"
    "\<And>i p. bare (vhub s') i = Some p \<Longrightarrow> bare (vhub s) i = Some p"
  shows "video_wf b X s'"
proof (rule video_wf_keep [OF assms(1,3,4,5)])
  show "seat s' p" if "seat s p" for p
    using that by (simp add: seat_def assms(2))
qed

lemma incRingStat_frame [simp]:
  "rooms (incRingStat r s) = rooms s" "vhub (incRingStat r s) = vhub s" "guestJTIs (incRingStat r s) = guestJTIs s"
  "inviteSessions (incRingStat r s) = inviteSessions s"
  by (simp_all add: incRingStat_def)

text \<open>Ringing and hanging up touch neither rooms nor seats nor the invitation tracker.\<close>

definition same_core :: "VService \<Rightarrow> VService \<Rightarrow> bool" where
  "same_core s s' \<longleftrightarrow> same_rooms s s' \<and> guestJTIs s' = guestJTIs s \<and> inviteSessions s' = inviteSessions s"

lemmas core_defs = same_core_def same_rooms_def

lemma same_core_trans: "same_core s t \<Longrightarrow> same_core t u \<Longrightarrow> same_core s u"
  by (simp add: core_defs)

lemma same_core_refl [simp]: "same_core s s"
  by (simp add: core_defs)

lemma answered_core: "same_core s (answered_here user room r call s)"
  by (simp add: core_defs answered_here_def)

lemma ring_members_core: "same_core s (fst (ring_members H cf room user r ev s))"
proof -
  obtain r2 recipients n where l: "ring_list room user (unix (vNow H)) (rmOwner r # rmMembers r) (vcalls s) = (r2, recipients, n)"
    by (rule prod_cases3)
  define s4 where "s4 = (if n > 0 then incRingStat ''deduped'' (s\<lparr>vcalls := r2\<rparr>) else s\<lparr>vcalls := r2\<rparr>)"
  obtain p rang where g: "Ring_presence (policy_of H s4) recipients user ev (vpresence s4) = (p, rang)"
    by (rule prod.exhaust)
  have "fst (ring_members H cf room user r ev s) = (if recipients = [] then s4 else incRingStat ''new-call'' (s4\<lparr>vpresence := p\<rparr>))"
    unfolding ring_members_def l using g by (simp add: Let_def flip: s4_def)
  moreover have "same_core s s4"
    by (simp add: s4_def core_defs)
  ultimately show ?thesis
    by (simp add: core_defs)
qed

lemma announceJoin_core: "same_core s (fst (announceJoin H cf room user name client resume s))"
proof -
  obtain r1 dec where o: "OnJoin room user client resume (unix (vNow H)) (vNewID H) (vcalls s) = (r1, dec)"
    by (rule prod.exhaust)
  let ?s1 = "s\<lparr>vcalls := saved_calls H r1\<rparr>"
  have s1: "same_core s ?s1"
    by (simp add: core_defs)
  have a: "same_core s (answered_here user room r c ?s1)" for r c
    using s1 answered_core by (rule same_core_trans)
  then have m: "same_core s (fst (ring_members H cf room user r ev (answered_here user room r c ?s1)))" for r c ev
    using ring_members_core by (rule same_core_trans)
  have "same_core s (incRingStat t (answered_here user room r c ?s1))" for r c t
    using a [of r c] by (simp add: core_defs)
  with m s1 show ?thesis
    by (simp add: announceJoin_def o Let_def split: option.split)
qed

lemma broadcast_core: "same_core s (fst (broadcastCallEnded cf room call s))"
  by (simp add: core_defs broadcastCallEnded_def Let_def split: option.split)

lemma onPeerGone_core: "same_core s (fst (onPeerGone H cf room client graceful s))"
proof -
  obtain r1 ended call where g: "OnPeerGone room client graceful (unix (vNow H)) (vcalls s) = (r1, ended, call)"
    by (cases "OnPeerGone room client graceful (unix (vNow H)) (vcalls s)")
  show ?thesis
    using broadcast_core [of "s\<lparr>vcalls := saved_calls H r1\<rparr>" cf room call]
    by (simp add: core_defs onPeerGone_def g Let_def)
qed

lemma heartbeat_core: "same_core s (fst (callHeartbeat H cf s))"
proof -
  have f: "same_core t (fst (fold (\<lambda>c (t, es). let (t', es') = broadcastCallEnded cf (lcRoom c) (lcCallID c) t in (t', es @ es')) gone (t, es)))"
    for gone t es
  proof (induction gone arbitrary: t es)
    case (Cons c gone)
    have "same_core t (fst (broadcastCallEnded cf (lcRoom c) (lcCallID c) t))"
      by (rule broadcast_core)
    then show ?case
      using Cons.IH same_core_trans by (auto simp: Let_def split: prod.split)
  qed simp
  let ?s1 = "touchLiveCalls H s"
  obtain r gone where g: "GC_calls (vCallKeys H) (unix (vNow H)) (vcalls ?s1) = (r, gone)"
    by fastforce
  obtain s2 es where b: "fold (\<lambda>c (t, es). let (t', es') = broadcastCallEnded cf (lcRoom c) (lcCallID c) t in (t', es @ es'))
      gone (?s1\<lparr>vcalls := r\<rparr>, []) = (s2, es)"
    by fastforce
  have "same_core (?s1\<lparr>vcalls := r\<rparr>) s2"
    using f [of "?s1\<lparr>vcalls := r\<rparr>" gone "[]"] b by simp
  moreover have "fst (callHeartbeat H cf s) = s2\<lparr>vcalls := saved_calls H (vcalls s2)\<rparr>"
    unfolding callHeartbeat_def using g b by simp
  ultimately show ?thesis
    by (simp add: core_defs touchLiveCalls_def)
qed

section \<open>Every handler keeps the seats in order\<close>

lemma video_wf_core: "same_core s s' \<Longrightarrow> video_wf b X s \<Longrightarrow> video_wf b X s'"
  using video_wf_same unfolding same_core_def by blast

lemma Leaves_wf: "hub_wf h \<Longrightarrow> hub_wf (fold Leave ids h) \<and> maxPerRm (fold Leave ids h) = maxPerRm h"
  by (induction ids arbitrary: h) (simp_all add: Leave_wf Leave_cap)

lemma PeerUser_bare: "PeerUser i h = map_option peUser (bare h i)"
  by (simp add: PeerUser_def bare_def option.map_comp o_def)

lemma bare_evict_one:
  "bare (evict_one who i h) =
     (\<lambda>j. if j = i \<and> (who = None \<or> map_option peUser (bare h j) = who) then None else bare h j)"
  by (cases who) (auto simp: evict_one_def PeerUser_bare bare_Leave fun_eq_iff)

lemma evict_one_wf: "hub_wf h \<Longrightarrow> hub_wf (evict_one who i h) \<and> maxPerRm (evict_one who i h) = maxPerRm h"
  by (simp add: evict_one_def Leave_wf Leave_cap split: option.split)

lemma bare_room: "hub_wf h \<Longrightarrow> bare h i = Some p \<Longrightarrow> i \<in> set (PeersInRoom (peRoomID p) h)"
  by (auto simp: hub_wf_def agree_maps_def PeersInRoom_def)

lemma owned_room_Inr: "owned_room user room s = Inr r \<longleftrightarrow> rooms s room = Some r \<and> rmOwner r = user"
  by (auto simp: owned_room_def split: option.splits)

text \<open>A room that keeps its owner and everyone it had.\<close>

lemma seat_grow:
  assumes "rooms s room = Some r" "rooms s' = (rooms s)(room \<mapsto> r')" "\<And>u. may_enter u r \<Longrightarrow> may_enter u r'" "seat s p"
  shows "seat s' p"
  using assms by (auto simp: seat_def)

lemma video_wf_room:
  assumes "video_wf b X s" "rooms s room = Some r" "rooms s' = (rooms s)(room \<mapsto> r')" "\<And>u. may_enter u r \<Longrightarrow> may_enter u r'"
    "vhub s' = vhub s"
  shows "video_wf b X s'"
  by (rule video_wf_keep [OF assms(1)]) (use assms seat_grow in \<open>auto simp: video_wf_def\<close>)

lemma CreateRoom_wf: "video_wf b X s \<Longrightarrow> rooms s i = None \<Longrightarrow> video_wf b X (fst (CreateRoom user name now i s))"
  by (cases "user = ''''", simp add: CreateRoom_def) (rule video_wf_keep [of b X s], auto simp: CreateRoom_def Let_def video_wf_def seat_def)

lemma RenameRoom_wf: "video_wf b X s \<Longrightarrow> video_wf b X (fst (RenameRoom user room name s))"
  by (auto simp: RenameRoom_def owned_room_Inr may_enter_def split: sum.split intro: video_wf_room)

lemma AddMember_wf: "video_wf b X s \<Longrightarrow> video_wf b X (fst (AddMember user room member s))"
  by (auto simp: AddMember_def owned_room_Inr may_enter_def split: sum.split intro: video_wf_room)

lemma consume_grant_wf: "video_wf b X s \<Longrightarrow> video_wf b X (fst (consume_grant user room s))"
  by (auto simp: consume_grant_def Let_def may_enter_def split: option.split intro: video_wf_room)

lemma SetPIN_wf: "video_wf b X s \<Longrightarrow> video_wf b X (fst (SetPIN user room ttl now pin s))"
  by (auto simp: SetPIN_def owned_room_Inr may_enter_def split: sum.split intro: video_wf_room)

lemma RevokePIN_wf: "video_wf b X s \<Longrightarrow> video_wf b X (fst (RevokePIN user room now s))"
  by (auto simp: RevokePIN_def owned_room_Inr may_enter_def Let_def split: sum.split intro: video_wf_room)

lemma gc_wf:
  assumes "video_wf b X s"
  shows "video_wf b X (gcExpiredPINs ks now s)"
proof (rule video_wf_keep [OF assms])
  fix p
  assume "seat s p"
  then obtain r where r: "rooms s (peRoomID p) = Some r" "is_guest (peUser p) \<or> may_enter (peUser p) r"
    by (auto simp: seat_def)
  then show "seat (gcExpiredPINs ks now s) p"
    by (cases "pin_stale (unix now) r") (simp_all add: seat_def gcExpiredPINs_def may_enter_def)
qed (use assms in \<open>auto simp: gcExpiredPINs_def video_wf_def\<close>)

text \<open>
  A deletion and a removal take the right to sit from some peers; those are in the room, and for a removal of the account.
\<close>

lemma DeleteRoom_locked_seats:
  assumes "DeleteRoom_locked user room s = (s', Ok ())"
  shows "vhub s' = vhub s" "seat s p \<Longrightarrow> peRoomID p \<noteq> room \<Longrightarrow> seat s' p"
  using assms by (auto simp: DeleteRoom_locked_def seat_def split: sum.splits)

lemma RemoveMember_locked_seats:
  assumes "RemoveMember_locked user room member s = (s', Ok removed)"
  shows "vhub s' = vhub s" "seat s p \<Longrightarrow> \<not> (removed \<and> peRoomID p = room \<and> peUser p = member) \<Longrightarrow> seat s' p"
  using assms by (auto simp: RemoveMember_locked_def owned_room_Inr seat_def may_enter_def split: sum.splits if_splits)

section \<open>The sockets\<close>

lemma Leave_seats:
  assumes "video_wf b X s"
  shows "video_wf b X (s\<lparr>vhub := Leave i (vhub s)\<rparr>)"
proof (rule video_wf_hub [OF assms])
  show "hub_wf (vhub (s\<lparr>vhub := Leave i (vhub s)\<rparr>))"
    using assms by (simp add: video_wf_def Leave_wf)
qed (simp_all add: Leave_cap bare_Leave split: if_splits)

lemma close_peer_wf:
  assumes "video_wf b X s"
  shows "video_wf b X (fst (close_peer H cf action user room peer client graceful s))"
proof -
  let ?s1 = "s\<lparr>vhub := cleanupRate peer (Leave peer (vhub s))\<rparr>"
  have "video_wf b X ?s1"
  proof (rule video_wf_hub [OF assms])
    show "hub_wf (vhub ?s1)" "maxPerRm (vhub ?s1) = maxPerRm (vhub s)"
      using assms by (simp_all add: video_wf_def cleanupRate_def hub_wf_rate Leave_wf Leave_cap)
  qed (auto simp: cleanupRate_def bare_Leave split: if_splits)
  moreover have "fst (close_peer H cf action user room peer client graceful s) = fst (onPeerGone H cf room client graceful ?s1)"
    by (simp add: close_peer_def split: prod.split)
  ultimately show ?thesis
    using video_wf_core [OF onPeerGone_core] by simp
qed

definition new_peer :: "vhost \<Rightarrow> string \<Rightarrow> string \<Rightarrow> string \<Rightarrow> Peer" where
  "new_peer H user room client = \<lparr>peID = vPeerID H, peUser = user, peRoomID = room, peClientID = client, peSend = []\<rparr>"

lemma Join_seats:
  assumes "video_wf b X s" "fresh_peer p (vhub s)" "b \<and> seat s p \<or> X (peID p) (strip p)"
  shows "video_wf b X (s\<lparr>vhub := fst (Join_hub p (vhub s))\<rparr>)"
proof -
  have wf: "hub_wf (vhub s)" "maxPerRm (vhub s) = 4" and seats: "\<And>i p. bare (vhub s) i = Some p \<Longrightarrow> b \<and> seat s p \<or> X i p"
    using assms(1) by (auto simp: video_wf_def)
  have "b \<and> seat s q \<or> X i q" if "bare (fst (Join_hub p (vhub s))) i = Some q" for i q
    using bare_Join [OF wf(1) that] seats assms(3) by auto
  then show ?thesis
    using Join_wf [OF wf(1) assms(2)] Join_cap [OF wf(1), of p] wf(2) by (simp add: video_wf_def seat_def)
qed

lemma open_peer_wf:
  assumes "video_wf b X s" "fresh_peer (new_peer H user room client) (vhub s)"
    "b \<and> seat s (new_peer H user room client) \<or> X (vPeerID H) (strip (new_peer H user room client))"
  shows "video_wf b X (fst (open_peer H cf joined left user name room client resume s))"
proof -
  let ?p = "new_peer H user room client" and ?s1 = "s\<lparr>vhub := fst (Join_hub (new_peer H user room client) (vhub s))\<rparr>"
  have wf: "video_wf b X ?s1"
    using assms by (intro Join_seats) (simp_all add: new_peer_def)
  then have a: "video_wf b X (fst (announceJoin H cf room user name client resume ?s1))"
    by (rule video_wf_core [OF announceJoin_core])
  obtain h v where j: "Join_hub ?p (vhub s) = (h, v)"
    by fastforce
  obtain s1 es where b: "announceJoin H cf room user name client resume (s\<lparr>vhub := h\<rparr>) = (s1, es)"
    by fastforce
  have "fst (open_peer H cf joined left user name room client resume s) =
      (case v of Inl e \<Rightarrow> s\<lparr>vhub := h\<rparr>
       | Inr ex \<Rightarrow> if vWritten H then s1 else fst (close_peer H cf left user room (vPeerID H) client False s1))"
    using j b by (simp add: open_peer_def new_peer_def Let_def split: sum.split prod.split)
  moreover have "video_wf b X s1"
    using a j b by simp
  ultimately show ?thesis
    using wf j close_peer_wf by (simp split: sum.split)
qed

lemma HandleWS_join_wf:
  assumes "video_wf b X s" "fresh_peer (new_peer H user room client) (vhub s)"
    "b \<and> seat s (new_peer H user room client) \<or> X (vPeerID H) (strip (new_peer H user room client))"
  shows "video_wf b X (fst (HandleWS_join H cf user (room, client, resume) s))"
  using assms open_peer_wf by (simp add: HandleWS_join_def)

lemma HandleGuestWS_join_wf:
  assumes "video_wf b X s" "fresh_peer (new_peer H (''guest:'' @ name) room client) (vhub s)"
    "b \<and> seat s (new_peer H (''guest:'' @ name) room client) \<or> X (vPeerID H) (strip (new_peer H (''guest:'' @ name) room client))"
  shows "video_wf b X (fst (HandleGuestWS_join H cf (name, room, client, resume) s))"
  using assms open_peer_wf by (simp add: HandleGuestWS_join_def)

lemma is_guest_prefix: "is_guest (''guest:'' @ name)"
  by (simp add: is_guest_def HasPrefix_def)

text \<open>A check that passed says who may sit down, at that moment.\<close>

lemma HandleWS_check_seat:
  "HandleWS_check H user rq s = Inr (room, client, resume) \<Longrightarrow> CanJoin user room s"
  by (auto simp: HandleWS_check_def Let_def split: if_splits)

lemma CanJoin_seat: "CanJoin user room s \<Longrightarrow> seat s (new_peer H user room client)"
  by (auto simp: CanJoin_def seat_def new_peer_def may_enter_def split: option.splits)

lemma guest_seat: "rooms s room \<noteq> None \<Longrightarrow> seat s (new_peer H (''guest:'' @ name) room client)"
  using is_guest_prefix [of name] by (auto simp: seat_def new_peer_def)

text \<open>Messages leave everyone seated.\<close>

lemma relay_wf:
  assumes "video_wf b X s" "bare (fst (f (vhub s))) = bare (vhub s)" "hub_wf (fst (f (vhub s)))" "maxPerRm (fst (f (vhub s))) = maxPerRm (vhub s)"
  shows "video_wf b X (relay peer f s)"
proof -
  obtain h v where f: "f (vhub s) = (h, v)" by fastforce
  show ?thesis
    by (rule video_wf_hub [OF assms(1)])
      (use assms f in \<open>auto simp: relay_def push_err_def hub_wf_deliver split: sum.splits\<close>)
qed

lemma push_wf: "video_wf b X s \<Longrightarrow> video_wf b X (s\<lparr>vhub := deliver msg i (vhub s)\<rparr>)"
  by (rule video_wf_hub [of b X s]) (auto simp: video_wf_def hub_wf_deliver)

lemma on_message_wf:
  assumes "video_wf b X s"
  shows "video_wf b X (fst (on_message H user room peer msg s))"
proof -
  have wf: "hub_wf (vhub s)"
    using assms by (simp add: video_wf_def)
  have "video_wf b X (relay peer (Forward (vNow H) peer msg) s)"
    using Forward_wf [OF wf] by (intro relay_wf assms bare_Forward) blast+
  moreover have "video_wf b X (relay peer (Broadcast (vNow H) peer msg) s)"
    using Broadcast_wf [OF wf] by (intro relay_wf assms bare_Broadcast) blast+
  ultimately show ?thesis
    using push_wf [OF assms] assms by (simp add: on_message_def push_err_def Let_def)
qed

section \<open>Every history of the service\<close>

text \<open>
  A step at a later instant \<open>vNow H\<close>: a handler with any request, a message of a connection, the end of one, a delayed removal,
  the writers that drain queues, the two tickers, and whatever else is done to the session store, which the panel's logins share.
  Random identifiers are new: of a room, not that of an existing one. The three moments
  of \<open>HandleInviteConsume\<close> are steps of their own, \<open>v_grant\<close> for any account that the check let pass. Nobody sits down and nobody
  loses the right to sit in these steps; the deletion of a room, the removal of a member and the sockets' joins follow below.
\<close>

inductive vquiet :: "vconf \<Rightarrow> nanos \<times> VService \<Rightarrow> nanos \<times> VService \<Rightarrow> bool" for cf where
  v_rooms: "t \<le> vNow H \<Longrightarrow> rooms s (vNewID H) = None \<Longrightarrow> Method rq \<noteq> MethodDelete \<Longrightarrow>
    vquiet cf (t, s) (vNow H, fst (HandleRooms H user rq body s))"
| v_members: "t \<le> now \<Longrightarrow> Method rq \<noteq> MethodDelete \<Longrightarrow> vquiet cf (t, s) (now, fst (HandleMembers user rq body' s))"
| v_session: "t \<le> vNow H \<Longrightarrow> vquiet cf (t, s) (vNow H, fst (HandleRecordSession H user rq cs s))"
| v_invite: "t \<le> vNow H \<Longrightarrow> vquiet cf (t, s) (vNow H, fst (HandleInvite H cf user rq iv s))"
| v_whatsapp: "t \<le> vNow H \<Longrightarrow> vquiet cf (t, s) (vNow H, fst (HandleInviteWhatsApp H cf sender user rq wa s))"
| v_grant: "t \<le> now \<Longrightarrow> vquiet cf (t, s) (now, fst (consume_grant user room s))"
| v_spend: "t \<le> vNow H \<Longrightarrow> vquiet cf (t, s) (vNow H, consume_spend H cf jti s)"
| v_pin: "t \<le> vNow H \<Longrightarrow> vquiet cf (t, s) (vNow H, fst (HandlePIN H user rq pb s))"
| v_join_pin: "t \<le> vNow H \<Longrightarrow> vquiet cf (t, s) (vNow H, fst (HandleJoinByPIN H cf rq jp s))"
| v_kick: "t \<le> now \<Longrightarrow> vquiet cf (t, s) (now, fst (HandleKick user rq kb s))"
| v_devices: "t \<le> vNow H \<Longrightarrow> vquiet cf (t, s) (vNow H, fst (HandleDevices H user rq db s))"
| v_message: "t \<le> vNow H \<Longrightarrow> vquiet cf (t, s) (vNow H, fst (on_message H user room peer msg s))"
| v_close: "t \<le> vNow H \<Longrightarrow> vquiet cf (t, s) (vNow H, fst (close_peer H cf action user room peer client graceful s))"
| v_leave_later: "t \<le> now \<Longrightarrow> vquiet cf (t, s) (now, s\<lparr>vhub := Leave i (vhub s)\<rparr>)"
| v_drain: "t \<le> now \<Longrightarrow> vquiet cf (t, s) (now, s\<lparr>vhub := drain i (vhub s)\<rparr>)"
| v_presence_ws: "t \<le> vNow H \<Longrightarrow> vquiet cf (t, s) (vNow H, fst (HandlePresenceWS H user rq s))"
| v_presence: "t \<le> now \<Longrightarrow> vquiet cf (t, s) (now, s\<lparr>vpresence := p\<rparr>)"
| v_heartbeat: "t \<le> vNow H \<Longrightarrow> vquiet cf (t, s) (vNow H, fst (callHeartbeat H cf s))"
| v_gc: "t \<le> now \<Longrightarrow> vquiet cf (t, s) (now, gcExpiredPINs ks (now) s)"
| v_flush: "t \<le> now \<Longrightarrow> vquiet cf (t, s) (now, flushOnce ks ok s)"
| v_store: "t \<le> now \<Longrightarrow> store_step (now) (inviteSessions s) st \<Longrightarrow> vquiet cf (t, s) (now, s\<lparr>inviteSessions := st\<rparr>)"

text \<open>
  Every step: the quiet ones, the critical section of a deletion and of a removal, the departure of a peer (which is quiet), and a
  join of anybody who got past a check, whenever that was. The identifier of a new peer is one the hub has never seen.
\<close>

inductive vstep :: "vconf \<Rightarrow> nanos \<times> VService \<Rightarrow> nanos \<times> VService \<Rightarrow> bool" for cf where
  v_quiet: "vquiet cf x y \<Longrightarrow> vstep cf x y"
| v_delete: "t \<le> now \<Longrightarrow> vstep cf (t, s) (now, fst (DeleteRoom_locked user room s))"
| v_remove: "t \<le> now \<Longrightarrow> vstep cf (t, s) (now, fst (RemoveMember_locked user room member s))"
| v_ws: "t \<le> vNow H \<Longrightarrow> fresh_peer (new_peer H user room client) (vhub s) \<Longrightarrow>
    vstep cf (t, s) (vNow H, fst (HandleWS_join H cf user (room, client, resume) s))"
| v_guest_ws: "t \<le> vNow H \<Longrightarrow> fresh_peer (new_peer H (''guest:'' @ name) room client) (vhub s) \<Longrightarrow>
    vstep cf (t, s) (vNow H, fst (HandleGuestWS_join H cf (name, room, client, resume) s))"

inductive video_start :: "nanos \<times> VService \<Rightarrow> bool" where
  "Open_video (unix t) rf cf df hf st = Some s \<Longrightarrow> video_start (t, s)"

lemma start_wf: "video_start ts \<Longrightarrow> video_wf b X (snd ts)"
proof (induction rule: video_start.induct)
  case (1 t rf cf df hf st s)
  then have "vhub s = NewHub 4" by (auto simp: Open_video_def split: if_splits)
  then show ?case using NewHub_wf [of 4] by (simp add: video_wf_def) (simp add: NewHub_def bare_def)
qed

lemma same_rooms_simp: "rooms s' = rooms s \<Longrightarrow> vhub s' = vhub s \<Longrightarrow> video_wf b X s \<Longrightarrow> video_wf b X s'"
  using video_wf_same unfolding same_rooms_def by blast

lemma issue_frame: "issue_invite H cf user room ttl s = Some (s1, tok) \<Longrightarrow> rooms s1 = rooms s \<and> vhub s1 = vhub s \<and> guestJTIs s1 = guestJTIs s"
  by (auto simp: issue_invite_def split: option.splits if_splits)

lemma HandleInvite_frame:
  "rooms (fst (HandleInvite H cf user rq iv s)) = rooms s \<and> vhub (fst (HandleInvite H cf user rq iv s)) = vhub s
   \<and> guestJTIs (fst (HandleInvite H cf user rq iv s)) = guestJTIs s"
  using issue_frame by (auto simp: HandleInvite_def say_def split: option.splits)

lemma HandleInviteWhatsApp_frame:
  "rooms (fst (HandleInviteWhatsApp H cf sender user rq wa s)) = rooms s \<and> vhub (fst (HandleInviteWhatsApp H cf sender user rq wa s)) = vhub s
   \<and> guestJTIs (fst (HandleInviteWhatsApp H cf sender user rq wa s)) = guestJTIs s"
  using issue_frame by (auto simp: HandleInviteWhatsApp_def say_def Let_def split: option.splits)

lemma pinAllow_frame: "pinAllow now ip s = (s1, ok) \<Longrightarrow> same_core s s1"
  by (auto simp: pinAllow_def Let_def core_defs)

lemma HandleJoinByPIN_frame: "same_rooms s (fst (HandleJoinByPIN H cf rq jp s))"
proof -
  obtain s1 ok where p: "pinAllow (vNow H) (ClientIP rq) s = (s1, ok)" by fastforce
  then have "same_rooms s s1" using pinAllow_frame same_core_def by blast
  with p show ?thesis
    by (cases ok) (simp_all add: HandleJoinByPIN_def say_def Let_def same_rooms_def split: option.split)
qed

lemma HandleDevices_frame: "same_core s (fst (HandleDevices H user rq db s))"
  by (auto simp: core_defs HandleDevices_def say_def Let_def split: option.splits prod.splits bool.splits)

lemma HandlePresence_frame: "same_core s (fst (HandlePresenceWS H user rq s))"
  by (auto simp: core_defs HandlePresenceWS_def Let_def split: prod.splits)

lemma HandleRooms_wf:
  "video_wf b X s \<Longrightarrow> rooms s (vNewID H) = None \<Longrightarrow> Method rq \<noteq> MethodDelete \<Longrightarrow> video_wf b X (fst (HandleRooms H user rq body s))"
  using CreateRoom_wf [of b X s "vNewID H" user _ "vNow H"] RenameRoom_wf [of b X s user]
  by (auto simp: HandleRooms_def say_def split: option.split sum.split prod.split) (metis fst_conv)+

lemma HandleMembers_wf:
  "video_wf b X s \<Longrightarrow> Method rq \<noteq> MethodDelete \<Longrightarrow> video_wf b X (fst (HandleMembers user rq body s))"
  using AddMember_wf [of b X s user]
  by (auto simp: HandleMembers_def say_def Let_def split: option.split sum.split prod.split) (metis fst_conv)+

lemma HandlePIN_wf: "video_wf b X s \<Longrightarrow> video_wf b X (fst (HandlePIN H user rq body s))"
  using SetPIN_wf [of b X s user] RevokePIN_wf [of b X s user]
  by (auto simp: HandlePIN_def say_def split: option.split sum.split prod.split) (metis fst_conv)+

lemma HandleKick_wf:
  assumes "video_wf b X s"
  shows "video_wf b X (fst (HandleKick user rq body s))"
proof -
  have "video_wf b X (s\<lparr>vhub := fst (KickPeer i reason (vhub s))\<rparr>)" for i reason
    using push_wf [OF assms] assms by (simp add: KickPeer_def split: option.split)
  then show ?thesis
    using assms by (auto simp: HandleKick_def say_def split: option.split prod.split) (metis fst_conv)+
qed

lemma vquiet_wf: "vquiet cf x y \<Longrightarrow> video_wf b X (snd x) \<Longrightarrow> video_wf b X (snd y)"
proof (induction rule: vquiet.induct)
  case (v_rooms t H s user rq body)
  then show ?case by (simp add: HandleRooms_wf)
next
  case (v_members t now s user rq body')
  then show ?case by (simp add: HandleMembers_wf)
next
  case (v_session t H s user rq cs)
  then show ?case by (auto simp: HandleRecordSession_def say_def RecordCallSession_def Let_def intro: same_rooms_simp split: option.split)
next
  case (v_invite t H s user rq iv)
  then show ?case using HandleInvite_frame same_rooms_simp [of _ s] by simp
next
  case (v_whatsapp t H s sender user rq wa)
  then show ?case using HandleInviteWhatsApp_frame same_rooms_simp [of _ s] by simp
next
  case (v_grant t now s user room)
  then show ?case by (simp add: consume_grant_wf)
next
  case (v_spend t H s jti)
  then show ?case by (auto simp: consume_spend_def intro: same_rooms_simp)
next
  case (v_pin t H s user rq pb)
  then show ?case by (simp add: HandlePIN_wf)
next
  case (v_join_pin t H s rq jp)
  then show ?case using video_wf_same [OF HandleJoinByPIN_frame] by simp
next
  case (v_kick t now s user rq kb)
  then show ?case by (simp add: HandleKick_wf)
next
  case (v_devices t H s user rq db)
  then show ?case using video_wf_core [OF HandleDevices_frame] by simp
next
  case (v_message t H s user room peer msg)
  then show ?case by (simp add: on_message_wf)
next
  case (v_close t H s action user room peer client graceful)
  then show ?case by (simp add: close_peer_wf)
next
  case (v_leave_later t now s i)
  then show ?case by (simp add: Leave_seats)
next
  case (v_drain t now s i)
  then have "hub_wf (drain i (vhub s))" by (simp add: video_wf_def drain_wf)
  moreover have "maxPerRm (drain i (vhub s)) = maxPerRm (vhub s)" by (simp add: drain_def split: option.split)
  ultimately show ?case using v_drain video_wf_hub [of b X s "s\<lparr>vhub := drain i (vhub s)\<rparr>"] by (simp add: bare_drain)
next
  case (v_presence_ws t H s user rq)
  then show ?case using video_wf_core [OF HandlePresence_frame] by simp
next
  case (v_presence t now s p)
  then show ?case using same_rooms_simp [of "s\<lparr>vpresence := p\<rparr>" s] by simp
next
  case (v_heartbeat t H s)
  then show ?case using video_wf_core [OF heartbeat_core] by simp
next
  case (v_gc t now s ks)
  then show ?case by (simp add: gc_wf)
next
  case (v_flush t now s ks ok)
  then show ?case by (auto simp: flushOnce_def save_rooms_def intro: same_rooms_simp)
next
  case (v_store t now s st)
  then show ?case using same_rooms_simp [of "s\<lparr>inviteSessions := st\<rparr>" s] by simp
qed

section \<open>Requests in flight\<close>

text \<open>
  The requests that take more than one critical section, and what each still has to do: a socket that passed its check and has
  not joined yet, a deletion that has not yet listed the peers of its room, a removal that has not, and peers that were
  listed and not yet put out, all of them or those of one account.
\<close>

datatype vpend =
    PendJoin string string string bool
  | PendGuest string string string bool
  | PendClear string
  | PendEvict string string
  | PendLeaves "string option" "string list"

record vworld =
  wNow :: nanos
  wSvc :: VService
  wPend :: "vpend list"
  wPassed :: "(string \<times> string) list"

text \<open>
  \<open>wPassed\<close> records which accounts had the right to enter which rooms when their socket was checked. With \<open>prompt\<close> no room is
  deleted, and no account removed from it, while a socket of theirs is between its check and its join; without it that may happen, as
  the code allows.
\<close>

fun joins_room :: "string \<Rightarrow> vpend \<Rightarrow> bool" where
  "joins_room room (PendJoin user r client resume) \<longleftrightarrow> r = room"
| "joins_room room (PendGuest name r client resume) \<longleftrightarrow> r = room"
| "joins_room room _ \<longleftrightarrow> False"

fun joins_as :: "string \<Rightarrow> string \<Rightarrow> vpend \<Rightarrow> bool" where
  "joins_as user room (PendJoin u r client resume) \<longleftrightarrow> u = user \<and> r = room"
| "joins_as user room _ \<longleftrightarrow> False"

inductive vwork :: "vconf \<Rightarrow> bool \<Rightarrow> vworld \<Rightarrow> vworld \<Rightarrow> bool" for cf prompt where
  w_quiet: "vquiet cf (wNow w, wSvc w) (t, s) \<Longrightarrow> vwork cf prompt w (w\<lparr>wNow := t, wSvc := s\<rparr>)"
| w_delete: "wNow w \<le> t \<Longrightarrow> DeleteRoom_locked user room (wSvc w) = (s, Ok ()) \<Longrightarrow> prompt \<longrightarrow> \<not> list_ex (joins_room room) (wPend w) \<Longrightarrow>
    vwork cf prompt w (w\<lparr>wNow := t, wSvc := s, wPend := PendClear room # wPend w\<rparr>)"
| w_remove: "wNow w \<le> t \<Longrightarrow> RemoveMember_locked user room member (wSvc w) = (s, Ok removed) \<Longrightarrow>
    prompt \<longrightarrow> \<not> list_ex (joins_as member room) (wPend w) \<Longrightarrow>
    vwork cf prompt w (w\<lparr>wNow := t, wSvc := s, wPend := (if removed then [PendEvict room member] else []) @ wPend w\<rparr>)"
| w_list_clear: "wNow w \<le> t \<Longrightarrow> PendClear room \<in> set (wPend w) \<Longrightarrow>
    vwork cf prompt w (w\<lparr>wNow := t, wPend := PendLeaves None (PeersInRoom room (vhub (wSvc w))) # remove1 (PendClear room) (wPend w)\<rparr>)"
| w_list_evict: "wNow w \<le> t \<Longrightarrow> PendEvict room user \<in> set (wPend w) \<Longrightarrow>
    vwork cf prompt w (w\<lparr>wNow := t, wPend := PendLeaves (Some user) (PeersInRoom room (vhub (wSvc w))) # remove1 (PendEvict room user) (wPend w)\<rparr>)"
| w_leave: "wNow w \<le> t \<Longrightarrow> PendLeaves who (i # ids) \<in> set (wPend w) \<Longrightarrow>
    vwork cf prompt w (w\<lparr>wNow := t, wSvc := (wSvc w)\<lparr>vhub := evict_one who i (vhub (wSvc w))\<rparr>,
      wPend := PendLeaves who ids # remove1 (PendLeaves who (i # ids)) (wPend w)\<rparr>)"
| w_check: "wNow w \<le> vNow H \<Longrightarrow> HandleWS_check H user rq (wSvc w) = Inr (room, client, resume) \<Longrightarrow>
    vwork cf prompt w (w\<lparr>wNow := vNow H, wPend := PendJoin user room client resume # wPend w,
      wPassed := (if CanJoin user room (wSvc w) then [(user, room)] else []) @ wPassed w\<rparr>)"
| w_guest_check: "wNow w \<le> vNow H \<Longrightarrow> HandleGuestWS_check H cf rq (wSvc w) = Inr (name, room, client, resume) \<Longrightarrow>
    vwork cf prompt w (w\<lparr>wNow := vNow H, wPend := PendGuest name room client resume # wPend w\<rparr>)"
| w_join: "wNow w \<le> vNow H \<Longrightarrow> PendJoin user room client resume \<in> set (wPend w) \<Longrightarrow>
    fresh_peer (new_peer H user room client) (vhub (wSvc w)) \<Longrightarrow>
    vwork cf prompt w (w\<lparr>wNow := vNow H, wSvc := fst (HandleWS_join H cf user (room, client, resume) (wSvc w)),
      wPend := remove1 (PendJoin user room client resume) (wPend w)\<rparr>)"
| w_guest_join: "wNow w \<le> vNow H \<Longrightarrow> PendGuest name room client resume \<in> set (wPend w) \<Longrightarrow>
    fresh_peer (new_peer H (''guest:'' @ name) room client) (vhub (wSvc w)) \<Longrightarrow>
    vwork cf prompt w (w\<lparr>wNow := vNow H, wSvc := fst (HandleGuestWS_join H cf (name, room, client, resume) (wSvc w)),
      wPend := remove1 (PendGuest name room client resume) (wPend w)\<rparr>)"

definition world_start :: "vworld \<Rightarrow> bool" where
  "world_start w \<longleftrightarrow> video_start (wNow w, wSvc w) \<and> wPend w = [] \<and> wPassed w = []"

text \<open>A deletion or a removal in flight is about to put this peer out.\<close>

fun puts_out :: "string \<Rightarrow> Peer \<Rightarrow> vpend \<Rightarrow> bool" where
  "puts_out i p (PendClear room) \<longleftrightarrow> peRoomID p = room"
| "puts_out i p (PendEvict room user) \<longleftrightarrow> peRoomID p = room \<and> peUser p = user"
| "puts_out i p (PendLeaves who ids) \<longleftrightarrow> i \<in> set ids \<and> (who = None \<or> who = Some (peUser p))"
| "puts_out i p (PendJoin user room client resume) \<longleftrightarrow> False"
| "puts_out i p (PendGuest name room client resume) \<longleftrightarrow> False"

definition leaving :: "vpend list \<Rightarrow> string \<Rightarrow> Peer \<Rightarrow> bool" where
  "leaving W i p \<longleftrightarrow> list_ex (puts_out i p) W"

definition let_in :: "(string \<times> string) list \<Rightarrow> string \<Rightarrow> Peer \<Rightarrow> bool" where
  "let_in C i p \<longleftrightarrow> is_guest (peUser p) \<or> (peUser p, peRoomID p) \<in> set C"

text \<open>The right with which a socket in flight will join.\<close>

fun may_join :: "VService \<Rightarrow> vpend \<Rightarrow> bool" where
  "may_join s (PendJoin user room client resume) \<longleftrightarrow> CanJoin user room s"
| "may_join s (PendGuest name room client resume) \<longleftrightarrow> rooms s room \<noteq> None"
| "may_join s _ \<longleftrightarrow> True"

definition world_inv :: "bool \<Rightarrow> vworld \<Rightarrow> bool" where
  "world_inv prompt w \<longleftrightarrow>
     video_wf False (let_in (wPassed w)) (wSvc w)
   \<and> (prompt \<longrightarrow> video_wf True (leaving (wPend w)) (wSvc w) \<and> list_all (may_join (wSvc w)) (wPend w))
   \<and> (\<forall>user room client resume. PendJoin user room client resume \<in> set (wPend w) \<longrightarrow> (user, room) \<in> set (wPassed w))"

lemma puts_out_strip [simp]: "puts_out i (strip p) x = puts_out i p x"
  by (cases x) simp_all

lemma video_wf_mono:
  assumes "video_wf b X s" "vhub s' = vhub s" "\<And>i p. bare (vhub s) i = Some p \<Longrightarrow> b \<and> seat s p \<or> X i p \<Longrightarrow> b \<and> seat s' p \<or> Y i p"
  shows "video_wf b Y s'"
  using assms unfolding video_wf_def by metis

lemma leaving_Cons [simp]: "leaving (x # W) i p \<longleftrightarrow> puts_out i p x \<or> leaving W i p"
  by (simp add: leaving_def)

lemma leaving_remove1: "leaving W i p \<Longrightarrow> leaving (remove1 x W) i p \<or> puts_out i p x"
  by (induction W) auto

lemma leaving_unjoin:
  "\<not> puts_out i p x \<Longrightarrow> leaving (remove1 x W) i p = leaving W i p"
  by (induction W) auto

text \<open>The three moments at which what a request in flight has to do changes.\<close>

lemma delete_wf:
  assumes "video_wf True (leaving W) s" "DeleteRoom_locked user room s = (s', Ok ())"
  shows "video_wf True (leaving (PendClear room # W)) s'"
proof (rule video_wf_mono [OF assms(1) DeleteRoom_locked_seats(1) [OF assms(2)]])
  fix i p
  assume "True \<and> seat s p \<or> leaving W i p"
  then show "True \<and> seat s' p \<or> leaving (PendClear room # W) i p"
    using DeleteRoom_locked_seats(2) [OF assms(2), of p] by (cases "peRoomID p = room") auto
qed

lemma remove_wf:
  assumes "video_wf True (leaving W) s" "RemoveMember_locked user room member s = (s', Ok removed)"
  shows "video_wf True (leaving ((if removed then [PendEvict room member] else []) @ W)) s'"
proof (rule video_wf_mono [OF assms(1) RemoveMember_locked_seats(1) [OF assms(2)]])
  fix i p
  let ?W = "(if removed then [PendEvict room member] else []) @ W"
  assume "True \<and> seat s p \<or> leaving W i p"
  then show "True \<and> seat s' p \<or> leaving ?W i p"
    using RemoveMember_locked_seats(2) [OF assms(2), of p]
    by (cases "removed \<and> peRoomID p = room \<and> peUser p = member") auto
qed

lemma list_wf:
  assumes "video_wf True (leaving W) s"
    and "x = PendClear room \<and> who = None \<or> x = PendEvict room user \<and> who = Some user"
  shows "video_wf True (leaving (PendLeaves who (PeersInRoom room (vhub s)) # remove1 x W)) s"
proof (rule video_wf_mono [OF assms(1) refl])
  fix i p
  let ?W = "PendLeaves who (PeersInRoom room (vhub s)) # remove1 x W"
  assume p: "bare (vhub s) i = Some p" "True \<and> seat s p \<or> leaving W i p"
  have "i \<in> set (PeersInRoom (peRoomID p) (vhub s))"
    using assms(1) p(1) bare_room unfolding video_wf_def by blast
  then have "leaving ?W i p" if "leaving W i p"
    using leaving_remove1 [OF that, of x] assms(2) by auto
  with p(2) show "True \<and> seat s p \<or> leaving ?W i p" by blast
qed

lemma leave_wf:
  assumes "video_wf b X s"
  shows "video_wf b X (s\<lparr>vhub := evict_one who i (vhub s)\<rparr>)"
proof (rule video_wf_hub [OF assms])
  have "hub_wf (vhub s)" using assms by (simp add: video_wf_def)
  then show "hub_wf (vhub (s\<lparr>vhub := evict_one who i (vhub s)\<rparr>))"
    "maxPerRm (vhub (s\<lparr>vhub := evict_one who i (vhub s)\<rparr>)) = maxPerRm (vhub s)"
    using evict_one_wf by simp_all
qed (auto simp: bare_evict_one split: if_splits)

lemma leave_left:
  assumes "video_wf True (leaving W) s"
  shows "video_wf True (leaving (PendLeaves who ids # remove1 (PendLeaves who (i # ids)) W)) (s\<lparr>vhub := evict_one who i (vhub s)\<rparr>)"
proof (rule video_wf_mono [OF leave_wf [OF assms] refl])
  fix j p
  let ?s = "s\<lparr>vhub := evict_one who i (vhub s)\<rparr>" and ?W = "PendLeaves who ids # remove1 (PendLeaves who (i # ids)) W"
  assume p: "bare (vhub ?s) j = Some p" "True \<and> seat ?s p \<or> leaving W j p"
  then have "\<not> (j = i \<and> (who = None \<or> who = Some (peUser p)))"
    by (auto simp: bare_evict_one split: if_splits)
  then have "leaving ?W j p" if "leaving W j p"
    using leaving_remove1 [OF that, of "PendLeaves who (i # ids)"] by auto
  with p(2) show "True \<and> seat ?s p \<or> leaving ?W j p" by blast
qed

lemma PendJoin_left:
  "PendJoin user room client resume \<in> set (remove1 x W) \<Longrightarrow> PendJoin user room client resume \<in> set W"
  by (rule subsetD [OF set_remove1_subset])

text \<open>Quiet steps take nobody's right to enter a room.\<close>

definition keeps_rights :: "VService \<Rightarrow> VService \<Rightarrow> bool" where
  "keeps_rights s s' \<longleftrightarrow>
     (\<forall>room r. rooms s room = Some r \<longrightarrow>
        (\<exists>r'. rooms s' room = Some r' \<and> rmOwner r' = rmOwner r \<and> set (rmMembers r) \<subseteq> set (rmMembers r')))"

lemma keeps_refl [simp]: "keeps_rights s s"
  by (simp add: keeps_rights_def)

lemma keeps_same: "rooms s' = rooms s \<Longrightarrow> keeps_rights s s'"
  by (simp add: keeps_rights_def)

lemma keeps_core: "same_core s s' \<Longrightarrow> keeps_rights s s'"
  by (simp add: core_defs keeps_same)

lemma keeps_may_join:
  assumes "keeps_rights s s'" "may_join s x"
  shows "may_join s' x"
proof (cases x)
  case (PendJoin user room client resume)
  with assms show ?thesis by (fastforce simp: keeps_rights_def CanJoin_def split: option.splits)
next
  case (PendGuest name room client resume)
  with assms show ?thesis by (fastforce simp: keeps_rights_def)
qed (use assms in simp_all)

lemma keeps_list: "keeps_rights s s' \<Longrightarrow> list_all (may_join s) W \<Longrightarrow> list_all (may_join s') W"
  using keeps_may_join by (fastforce simp: list_all_iff)

lemma room_ops_keep:
  "rooms s i = None \<Longrightarrow> keeps_rights s (fst (CreateRoom user name now i s))" "keeps_rights s (fst (RenameRoom user room name s))"
  "keeps_rights s (fst (AddMember user room member s))" "keeps_rights s (fst (consume_grant user room s))"
  "keeps_rights s (fst (SetPIN user room ttl now pin s))" "keeps_rights s (fst (RevokePIN user room now s))"
  "keeps_rights s (gcExpiredPINs ks now s)"
  by (auto simp: keeps_rights_def CreateRoom_def RenameRoom_def AddMember_def consume_grant_def SetPIN_def RevokePIN_def
      gcExpiredPINs_def owned_room_Inr Let_def split: sum.split option.split)

lemma close_peer_rooms: "rooms (fst (close_peer H cf action user room peer client graceful s)) = rooms s"
  using onPeerGone_core [of "s\<lparr>vhub := cleanupRate peer (Leave peer (vhub s))\<rparr>" H cf room client graceful]
  by (auto simp: close_peer_def core_defs split: prod.splits)

lemma open_peer_rooms: "rooms (fst (open_peer H cf joined left user name room client resume s)) = rooms s"
proof -
  let ?p = "\<lparr>peID = vPeerID H, peUser = user, peRoomID = room, peClientID = client, peSend = []\<rparr>"
  have "rooms (fst (announceJoin H cf room user name client resume (s\<lparr>vhub := h\<rparr>))) = rooms s" for h
    using announceJoin_core [of "s\<lparr>vhub := h\<rparr>" H cf room user name client resume] by (simp add: core_defs)
  then show ?thesis
    by (auto simp: open_peer_def Let_def close_peer_rooms split: prod.splits sum.splits) (metis fst_conv close_peer_rooms)+
qed

lemma join_keeps:
  "keeps_rights s (fst (HandleWS_join H cf user c s))" "keeps_rights s (fst (HandleGuestWS_join H cf c' s))"
  by (auto simp: HandleWS_join_def HandleGuestWS_join_def open_peer_rooms intro!: keeps_same split: prod.split)

lemma on_message_rooms: "rooms (fst (on_message H user room peer msg s)) = rooms s"
  by (simp add: on_message_def relay_def push_err_def Let_def split: prod.split sum.split)

lemma vquiet_keeps: "vquiet cf x y \<Longrightarrow> keeps_rights (snd x) (snd y)"
proof (induction rule: vquiet.induct)
  case (v_rooms t H s rq user body)
  then show ?case
    using room_ops_keep(1) [of s "vNewID H" user _ "vNow H"] room_ops_keep(2) [of s user]
    by (auto simp: HandleRooms_def say_def split: option.split sum.split prod.split) (metis fst_conv)+
next
  case (v_members t now rq s user body')
  then show ?case
    using room_ops_keep(3) [of s user]
    by (auto simp: HandleMembers_def say_def Let_def split: option.split sum.split prod.split) (metis fst_conv)+
next
  case (v_pin t H s user rq pb)
  then show ?case
    using room_ops_keep(5,6) [of s user]
    by (auto simp: HandlePIN_def say_def split: option.split sum.split prod.split) (metis fst_conv)+
next
  case (v_kick t now s user rq kb)
  then show ?case
    by (auto simp: HandleKick_def say_def intro: keeps_same split: option.split prod.split)
next
  case (v_session t H s user rq cs)
  then show ?case
    by (auto simp: HandleRecordSession_def say_def RecordCallSession_def Let_def intro: keeps_same split: option.split)
next
  case (v_join_pin t H s rq jp)
  then show ?case using HandleJoinByPIN_frame [of s H cf rq jp] by (simp add: same_rooms_def keeps_same)
next
  case (v_flush t now s ks ok)
  then show ?case by (auto simp: flushOnce_def save_rooms_def intro: keeps_same)
qed (simp_all add: room_ops_keep keeps_same HandleInvite_frame HandleInviteWhatsApp_frame consume_spend_def on_message_rooms
    close_peer_rooms keeps_core HandleDevices_frame HandlePresence_frame heartbeat_core)

lemma delete_keeps:
  assumes "DeleteRoom_locked user room s = (s', Ok ())" "\<not> joins_room room x" "may_join s x"
  shows "may_join s' x"
  using assms by (cases x) (auto simp: DeleteRoom_locked_def CanJoin_def split: sum.splits)

lemma remove_keeps:
  assumes "RemoveMember_locked user room member s = (s', Ok removed)" "\<not> joins_as member room x" "may_join s x"
  shows "may_join s' x"
  using assms by (cases x) (auto simp: RemoveMember_locked_def owned_room_Inr CanJoin_def split: sum.splits if_splits option.splits)

lemma HandleGuestWS_check_room:
  "HandleGuestWS_check H cf rq s = Inr (name, room, client, resume) \<Longrightarrow> rooms s room \<noteq> None"
  by (auto simp: HandleGuestWS_check_def Let_def split: if_splits option.splits)

lemma world_invI:
  assumes "video_wf False (let_in (wPassed w)) (wSvc w)" "prompt \<Longrightarrow> video_wf True (leaving (wPend w)) (wSvc w)"
    and "prompt \<Longrightarrow> list_all (may_join (wSvc w)) (wPend w)"
    and "\<And>user room client resume. PendJoin user room client resume \<in> set (wPend w) \<Longrightarrow> (user, room) \<in> set (wPassed w)"
  shows "world_inv prompt w"
  using assms by (simp add: world_inv_def)

lemma list_all_remove1: "list_all P W \<Longrightarrow> list_all P (remove1 x W)"
  by (induction W) auto

lemma may_join_hub [simp]: "may_join (s\<lparr>vhub := h\<rparr>) = may_join s"
proof
  show "may_join (s\<lparr>vhub := h\<rparr>) x = may_join s x" for x
    by (cases x) (simp_all add: CanJoin_def)
qed

lemma world_inv_step:
  assumes "vwork cf prompt w w'" "world_inv prompt w"
  shows "world_inv prompt w'"
proof -
  have F: "video_wf False (let_in (wPassed w)) (wSvc w)" and T: "prompt \<Longrightarrow> video_wf True (leaving (wPend w)) (wSvc w)"
    and M: "prompt \<Longrightarrow> list_all (may_join (wSvc w)) (wPend w)"
    and J: "\<And>user room client resume. PendJoin user room client resume \<in> set (wPend w) \<Longrightarrow> (user, room) \<in> set (wPassed w)"
    using assms(2) by (auto simp: world_inv_def)
  note J' = J [OF PendJoin_left] and M' = list_all_remove1 [OF M]
  from assms(1) show ?thesis
  proof cases
    case (w_quiet t s)
    then have "prompt \<Longrightarrow> list_all (may_join s) (wPend w)"
      using vquiet_keeps [OF w_quiet(2)] keeps_list M by simp
    then show ?thesis
      unfolding w_quiet(1) by (intro world_invI) (use F T J vquiet_wf [OF w_quiet(2)] in simp_all)
  next
    case (w_delete t user room s)
    have "video_wf False (let_in (wPassed w)) s"
      by (rule video_wf_mono [OF F DeleteRoom_locked_seats(1) [OF w_delete(3)]]) simp
    moreover have "list_all (may_join s) (wPend w)" if prompt
      using M [OF that] delete_keeps [OF w_delete(3)] w_delete(4) that by (auto simp: list_all_iff list_ex_iff)
    ultimately show ?thesis
      unfolding w_delete(1) by (intro world_invI) (use T J delete_wf [OF _ w_delete(3)] in auto)
  next
    case (w_remove t user room member s removed)
    have "video_wf False (let_in (wPassed w)) s"
      by (rule video_wf_mono [OF F RemoveMember_locked_seats(1) [OF w_remove(3)]]) simp
    moreover have "list_all (may_join s) (wPend w)" if prompt
      using M [OF that] remove_keeps [OF w_remove(3)] w_remove(4) that by (auto simp: list_all_iff list_ex_iff)
    ultimately show ?thesis
      unfolding w_remove(1) by (intro world_invI) (use T J remove_wf [OF _ w_remove(3)] in \<open>auto split: if_splits\<close>)
  next
    case (w_list_clear t room)
    show ?thesis
      unfolding w_list_clear(1)
      by (rule world_invI) (use F J J' M' list_wf [OF T, of "PendClear room" room None] in auto)
  next
    case (w_list_evict t room user)
    show ?thesis
      unfolding w_list_evict(1)
      by (rule world_invI) (use F J J' M' list_wf [OF T, of "PendEvict room user" room "Some user"] in auto)
  next
    case (w_leave t who i ids)
    show ?thesis
      unfolding w_leave(1) by (rule world_invI) (use leave_wf [OF F] leave_left [OF T] J J' M' in auto)
  next
    case (w_check H user rq room client resume)
    have c: "CanJoin user room (wSvc w)"
      by (rule HandleWS_check_seat [OF w_check(3)])
    have "video_wf False (let_in ((user, room) # wPassed w)) (wSvc w)"
      by (rule video_wf_mono [OF F]) (auto simp: let_in_def)
    moreover have "video_wf True (leaving (PendJoin user room client resume # wPend w)) (wSvc w)" if prompt
      by (rule video_wf_mono [OF T [OF that]]) auto
    ultimately show ?thesis
      unfolding w_check(1) by (intro world_invI) (use J M c in auto)
  next
    case (w_guest_check H rq name room client resume)
    have "video_wf True (leaving (PendGuest name room client resume # wPend w)) (wSvc w)" if prompt
      by (rule video_wf_mono [OF T [OF that]]) auto
    then show ?thesis
      unfolding w_guest_check(1)
      by (intro world_invI) (use F J M HandleGuestWS_check_room [OF w_guest_check(3)] in auto)
  next
    case (w_join H user room client resume)
    have X: "let_in (wPassed w) (vPeerID H) (strip (new_peer H user room client))"
      using J [OF w_join(3)] by (simp add: let_in_def new_peer_def)
    have c: "prompt \<Longrightarrow> CanJoin user room (wSvc w)"
      using M w_join(3) by (fastforce simp: list_all_iff)
    have "leaving (remove1 (PendJoin user room client resume) (wPend w)) = leaving (wPend w)"
      by (simp add: fun_eq_iff leaving_unjoin)
    then show ?thesis
      unfolding w_join(1)
      by (intro world_invI)
        (use HandleWS_join_wf [OF F w_join(4)] HandleWS_join_wf [OF T w_join(4)] X CanJoin_seat [OF c] J J' keeps_list [OF join_keeps(1) M'] in auto)
  next
    case (w_guest_join H name room client resume)
    have X: "let_in (wPassed w) (vPeerID H) (strip (new_peer H (''guest:'' @ name) room client))"
      using is_guest_prefix [of name] by (simp add: let_in_def new_peer_def)
    have c: "prompt \<Longrightarrow> rooms (wSvc w) room \<noteq> None"
      using M w_guest_join(3) by (fastforce simp: list_all_iff)
    have "leaving (remove1 (PendGuest name room client resume) (wPend w)) = leaving (wPend w)"
      by (simp add: fun_eq_iff leaving_unjoin)
    then show ?thesis
      unfolding w_guest_join(1)
      by (intro world_invI)
        (use HandleGuestWS_join_wf [OF F w_guest_join(4)] HandleGuestWS_join_wf [OF T w_guest_join(4)] X guest_seat [OF c] J J'
          keeps_list [OF join_keeps(2) M'] in auto)
  qed
qed

interpretation video_inv: inductive_invariant world_start "vwork cf prompt" "world_inv prompt" for cf prompt
proof
  show "world_inv prompt w" if "world_start w" for w
    using that start_wf [of "(wNow w, wSvc w)"] by (simp add: world_start_def world_inv_def)
qed (rule world_inv_step)

text \<open>
  C21. Who sits in a room, in every state that requests, messages, departures and the tickers can bring the service to from any rooms
  file, in every interleaving of the checks, joins, deletions, removals and evictions of concurrent requests: a room holds at
  most four, and every connected peer is a guest or had the right to enter its room when its socket was checked. When moreover no
  room is deleted and no account removed while a socket of theirs is between its check and its join, each connected peer is in a room that exists, and its account is the room's owner or
  one of its members at that moment, or it is a guest, or a deletion or removal in flight is about to put it out; so with no
  deletion or removal in flight only those who may enter the room sit in it.
\<close>
theorem only_members_seated:
  assumes "reach world_start (vwork cf prompt) w" "s = wSvc w" "hPeers (vhub s) i = Some p"
  shows "length (PeersInRoom (peRoomID p) (vhub s)) \<le> 4
    \<and> (is_guest (peUser p) \<or> (peUser p, peRoomID p) \<in> set (wPassed w))
    \<and> (prompt \<longrightarrow>
         (\<exists>r. rooms s (peRoomID p) = Some r \<and> (is_guest (peUser p) \<or> rmOwner r = peUser p \<or> peUser p \<in> set (rmMembers r)))
       \<or> leaving (wPend w) i p)"
proof -
  have inv: "world_inv prompt w"
    by (rule video_inv.inv_reach [OF assms(1)])
  then have wf: "video_wf False (let_in (wPassed w)) s" "prompt \<longrightarrow> video_wf True (leaving (wPend w)) s"
    by (simp_all add: world_inv_def assms(2))
  have p: "bare (vhub s) i = Some (strip p)"
    by (rule bareI [OF assms(3)])
  have "let_in (wPassed w) i (strip p)"
    using wf(1) p unfolding video_wf_def by blast
  moreover have "prompt \<longrightarrow> seat s (strip p) \<or> leaving (wPend w) i (strip p)"
    using wf(2) p unfolding video_wf_def by blast
  moreover have "length (PeersInRoom (peRoomID p) (vhub s)) \<le> 4"
    using wf(1) by (auto simp: video_wf_def hub_wf_def within_capacity_def PeersInRoom_def)
  ultimately show ?thesis
    by (auto simp: seat_def may_enter_def let_in_def leaving_def list_ex_iff)
qed

definition team_room :: Room where
  "team_room = \<lparr>rmID = ''r1'', rmName = ''Team'', rmOwner = ''ana'', rmMembers = [''bob''], rmCreatedAt = 0, rmPIN = '''', rmPINExpiresAt = 0\<rparr>"

definition team_service :: VService where
  "team_service = the (Open_video 0 (Doc [team_room]) NoFile NoFile NoFile \<lparr>sessions = Map.empty, dirty = False, sfile = NoFile\<rparr>)"

definition team_host :: "string \<Rightarrow> vhost" where
  "team_host peer = \<lparr>vNow = 5, vPeerID = peer, vFallbackID = peer, vNewID = ''n1'', vJTI = '''', vPIN = '''', vSign = (\<lambda>_. None),
     vParse = (\<lambda>_ _. None), vUpgrade = True, vWritten = True, vSaved = True, vRoomKeys = [''r1''], vCallKeys = [''r1''], vDeviceKeys = [],
     vHostName = ''host'', vTLS = True, vMac = (\<lambda>_ _. ''''), vUpper = id, vState = (\<lambda>_. None)\<rparr>"

definition plain_conf :: vconf where
  "plain_conf = \<lparr>hasIssuer = False, hasSessions = False, hasPush = False, hasFCM = False, turnSecret = '''', turnHosts = []\<rparr>"

definition ws_room :: "string \<Rightarrow> string \<Rightarrow> request" where
  "ws_room room client = (plain_request MethodGet ''/ws/videocall'')
     \<lparr>Query := (\<lambda>k. if k = ''room_id'' then room else if k = ''client_id'' then client else '''')\<rparr>"

definition bob_peer :: Peer where
  "bob_peer = \<lparr>peID = ''p1'', peUser = ''bob'', peRoomID = ''r1'', peClientID = ''c1'', peSend = []\<rparr>"

lemma team_start: "Open_video (unix 0) (Doc [team_room]) NoFile NoFile NoFile \<lparr>sessions = Map.empty, dirty = False, sfile = NoFile\<rparr> = Some team_service"
  by (simp add: team_service_def Open_video_def unix_def)

lemma team_fresh: "fresh_peer (new_peer (team_host peer) user room client) (vhub team_service)"
  by (simp add: fresh_peer_def new_peer_def team_service_def Open_video_def NewHub_def)

text \<open>Bob's socket is checked, then joins.\<close>

definition team_checked :: vworld where
  "team_checked = \<lparr>wNow = 5, wSvc = team_service, wPend = [PendJoin ''bob'' ''r1'' ''c1'' False], wPassed = [(''bob'', ''r1'')]\<rparr>"

definition team_seated :: vworld where
  "team_seated = team_checked\<lparr>wNow := 5, wSvc := fst (HandleWS_join (team_host ''p1'') plain_conf ''bob'' (''r1'', ''c1'', False) team_service),
     wPend := []\<rparr>"

lemma team_facts:
  "HandleWS_check (team_host ''p1'') ''bob'' (ws_room ''r1'' ''c1'') team_service = Inr (''r1'', ''c1'', False)"
  "CanJoin ''bob'' ''r1'' team_service" "hPeers (vhub (wSvc team_seated)) ''p1'' = Some bob_peer"
  by code_simp+

lemma team_seated_reached: "reach world_start (vwork plain_conf True) team_seated"
proof -
  let ?w0 = "\<lparr>wNow = 0, wSvc = team_service, wPend = [], wPassed = []\<rparr>"
  have "reach world_start (vwork plain_conf True) ?w0"
    by (rule reach_init) (simp add: world_start_def video_start.intros [OF team_start])
  moreover have "vwork plain_conf True ?w0 team_checked"
    using w_check [of ?w0 "team_host ''p1''" "''bob''" "ws_room ''r1'' ''c1''" "''r1''" "''c1''" False plain_conf True] team_facts(1,2)
    by (simp add: team_checked_def team_host_def)
  moreover have "vwork plain_conf True team_checked team_seated"
    using w_join [of team_checked "team_host ''p1''" "''bob''" "''r1''" "''c1''" False plain_conf True]
      team_fresh [of "''p1''" "''bob''" "''r1''" "''c1''"]
    by (simp add: team_checked_def team_seated_def) (simp add: team_host_def)
  ultimately show ?thesis by (meson reach_step)
qed

theorem only_members_seated_witness:
  "length (PeersInRoom ''r1'' (vhub (wSvc team_seated))) \<le> 4
    \<and> (\<exists>r. rooms (wSvc team_seated) ''r1'' = Some r \<and> (is_guest ''bob'' \<or> rmOwner r = ''bob'' \<or> ''bob'' \<in> set (rmMembers r)))"
proof -
  have "\<not> leaving (wPend team_seated) ''p1'' bob_peer" by (simp add: team_seated_def leaving_def)
  then show ?thesis
    using only_members_seated [OF team_seated_reached refl team_facts(3)] by (simp add: bob_peer_def)
qed

section \<open>Who can be put out of a call\<close>

text \<open>The request to expel somebody reaches only other accounts in a room of the caller's own.\<close>

lemma HandleKick_confined:
  assumes "hub_wf (vhub s)" "HandleKick user rq body s = (s', v, es)" "LeaveLater i \<in> set es"
  shows "\<exists>p. hPeers (vhub s) i = Some p \<and> IsRoomOwner (peRoomID p) user s \<and> peUser p \<noteq> user"
proof -
  obtain b r q where b: "body = Some b" "user \<noteq> ''''" "rooms s (kbRoomID b) = Some r" "rmOwner r = user" "i = kbPeerID b"
    "find (\<lambda>p. piID p = kbPeerID b) (PeersInRoomWithUser (kbRoomID b) (vhub s)) = Some q" "piUser q \<noteq> user"
    using assms(2,3) by (auto simp: HandleKick_def say_def split: if_splits option.splits prod.splits)
  then have "q \<in> set (PeersInRoomWithUser (kbRoomID b) (vhub s))" "piID q = i"
    by (auto simp: find_Some_iff in_set_conv_nth)
  then obtain j p where j: "j \<in> set (room_set (vhub s) (kbRoomID b))" "hPeers (vhub s) j = Some p" "q = peer_info p"
    by (auto simp: PeersInRoomWithUser_def List.map_filter_def)
  have "peRoomID p = kbRoomID b" "peID p = j"
    using j(1,2) room_member [OF assms(1), of j "kbRoomID b"] named [OF assms(1) j(2)] by auto
  moreover have "i = j"
    using \<open>piID q = i\<close> j(3) calculation(2) by (simp add: peer_info_def)
  ultimately show ?thesis
    using b j(2,3) by (auto simp: IsRoomOwner_def peer_info_def)
qed

text \<open>
  The socket's \<open>owner-kick\<close> is not confined to the owner's room. The owner of any room who sends it with the identifier of a peer
  in another room gets the error that the target is not in the same room, and the peer is disconnected all the same 200 ms
  later: the delayed disconnection does not depend on the outcome of the forwarding, nor look at the target's room.
\<close>
theorem owner_kick_crosses_rooms:
  assumes "IsRoomOwner room user s" "mgType msg = ''owner-kick''" "mgTo msg = j" "j \<noteq> ''''"
    and "hPeers (vhub s) i = Some p" "peRoomID p = room" "hPeers (vhub s) j = Some q" "peRoomID q \<noteq> room"
    and "snd (allowMsg (vNow H) i (vhub s))"
  shows "snd (Forward (vNow H) i msg (vhub s)) = Err ErrTargetNotInRoom
    \<and> LeaveLater j \<in> set (fst (snd (on_message H user room i msg s)))
    \<and> hPeers (Disconnect j (vhub (fst (on_message H user room i msg s)))) j = None"
proof -
  obtain h1 where a: "allowMsg (vNow H) i (vhub s) = (h1, True)"
    using assms(9) by (cases "allowMsg (vNow H) i (vhub s)") auto
  then have "hPeers h1 = hPeers (vhub s)"
    using allowMsg_peers(1) [of "vNow H" i "vhub s"] by simp
  then have "snd (Forward (vNow H) i msg (vhub s)) = Err ErrTargetNotInRoom"
    using assms(3,5-8) a by (simp add: Forward_def)
  moreover have "LeaveLater j \<in> set (fst (snd (on_message H user room i msg s)))"
    using assms(1-4) by (simp add: on_message_def Let_def)
  moreover have "hPeers (Disconnect j h) j = None" for h
    using bare_Disconnect [of j h] by (simp flip: bare_None)
  ultimately show ?thesis by blast
qed

definition other_room :: Room where
  "other_room = team_room\<lparr>rmID := ''r2'', rmOwner := ''zoe'', rmMembers := []\<rparr>"

definition two_calls :: VService where
  "two_calls =
     (let s0 = the (Open_video 0 (Doc [team_room, other_room]) NoFile NoFile NoFile \<lparr>sessions = Map.empty, dirty = False, sfile = NoFile\<rparr>);
          s1 = fst (HandleWS (team_host ''p1'') plain_conf ''ana'' (ws_room ''r1'' ''c1'') s0)
      in fst (HandleWS (team_host ''p2'') plain_conf ''zoe'' (ws_room ''r2'' ''c2'') s1))"

definition kick_msg :: SignalingMsg where
  "kick_msg = (blank_msg ''owner-kick'')\<lparr>mgTo := ''p2''\<rparr>"

lemma first_message_allowed: "hRate h i = None \<Longrightarrow> snd (allowMsg now i h)"
  by (simp add: allowMsg_def refilled_def rateBurst_def rateMinStep_def Let_def)

lemma two_calls_facts:
  "IsRoomOwner ''r1'' ''ana'' two_calls" "map_option peRoomID (hPeers (vhub two_calls) ''p1'') = Some ''r1''"
  "map_option peRoomID (hPeers (vhub two_calls) ''p2'') = Some ''r2''" "hRate (vhub two_calls) ''p1'' = None"
  by code_simp+

theorem owner_kick_crosses_rooms_witness:
  "snd (Forward (vNow (team_host ''p1'')) ''p1'' kick_msg (vhub two_calls)) = Err ErrTargetNotInRoom
    \<and> LeaveLater ''p2'' \<in> set (fst (snd (on_message (team_host ''p1'') ''ana'' ''r1'' ''p1'' kick_msg two_calls)))
    \<and> hPeers (Disconnect ''p2'' (vhub (fst (on_message (team_host ''p1'') ''ana'' ''r1'' ''p1'' kick_msg two_calls)))) ''p2'' = None"
proof -
  obtain p q where p: "hPeers (vhub two_calls) ''p1'' = Some p" "peRoomID p = ''r1''"
    and q: "hPeers (vhub two_calls) ''p2'' = Some q" "peRoomID q = ''r2''"
    using two_calls_facts(2,3) by auto
  show ?thesis
    by (rule owner_kick_crosses_rooms [OF two_calls_facts(1) _ _ _ p q(1) _ first_message_allowed [OF two_calls_facts(4)]])
      (simp_all add: q(2) kick_msg_def blank_msg_def)
qed

text \<open>
  A seat can be taken over. The client identity is what the browser sends, and the hub tells it to everyone in the room; a member
  who joins with somebody else's is let in and the other is put out.
\<close>

lemma client_id_takes_over:
  assumes "hub_wf (vhub s)" "hPeers (vhub s) j = Some q" "peRoomID q = room" "peClientID q = client" "client \<noteq> ''''"
    and "room \<noteq> ''''" "vPeerID H \<noteq> ''''" "j \<noteq> vPeerID H"
  shows "hPeers (fst (Join_hub (new_peer H user room client) (vhub s))) j = None"
proof -
  let ?p = "new_peer H user room client"
  have "j \<in> set (ghosts (vhub s) ?p)"
    using assms(2-5) by (intro ghosts_all [OF assms(1) bareI [OF assms(2)]]) (simp_all add: new_peer_def)
  then have "bare (settled_room ?p (vhub s)) j = None"
    by (simp add: settled_room_facts(3) [OF assms(1)])
  then have "bare (fst (Join_hub ?p (vhub s))) j = None"
    using assms(6-8) by (simp add: Join_hub_settled Let_def new_peer_def) (simp add: bare_def)
  then show ?thesis by (simp add: bare_None)
qed

text \<open>
  The right to enter is checked before the socket is opened and not again. A member who is removed between the two is seated
  although no longer a member.
\<close>

lemma removed_member_sits_down:
  assumes "RemoveMember owner room user s = (s', Ok ())" "rooms s room = Some r" "user \<noteq> rmOwner r"
    and "Join_hub (new_peer H user room client) (vhub s') = (h, Ok existing)" "vWritten H"
    and s'': "s'' = fst (open_peer H cf joined left user user room client resume s')"
  shows "vhub s'' = h \<and> \<not> CanJoin user room s''"
proof -
  obtain s1 es where b: "announceJoin H cf room user user client resume (s'\<lparr>vhub := h\<rparr>) = (s1, es)"
    by fastforce
  have "s'' = s1"
    using assms(4,5) b by (simp add: s'' open_peer_def new_peer_def Let_def)
  moreover have "same_core (s'\<lparr>vhub := h\<rparr>) s1"
    using announceJoin_core [of "s'\<lparr>vhub := h\<rparr>" H cf room user user client resume] b by simp
  moreover have "\<not> CanJoin user room s'"
    using assms(1-3) by (auto simp: RemoveMember_def RemoveMember_locked_def owned_room_Inr CanJoin_def split: sum.splits if_splits prod.splits)
  ultimately show ?thesis
    by (simp add: core_defs CanJoin_def)
qed

text \<open>A name of control characters only is accepted and stored as the empty name.\<close>

lemma control_name_is_empty: "sanitizeName [CHR 0x01] = ''''" "TrimSpace [CHR 0x01] \<noteq> ''''"
  by code_simp+

text \<open>
  A deploy in the middle of a call rings nobody: what \<open>Close\<close> writes lets the new process recognise the call for 90 seconds.
\<close>

lemma deploy_mid_call_is_silent:
  assumes "calls_keyed (vcalls s)" "rcalls (vcalls s) room = Some c" "room \<in> set (OccupiedRooms (vRoomKeys H) (vhub s))"
    and "calls_order (vCallKeys H) (vcalls s)" "vSaved H"
    and "Open_video (unix t) rf (rfile (vcalls (fst (Close_video H ps s)))) df hf st = Some s1"
    and "t \<le> vNow H2" "unix (vNow H2) - unix (vNow H) \<le> 90"
  shows "snd (announceJoin H2 cf room user name client resume s1) = []"
proof -
  let ?r = "Touch_calls (OccupiedRooms (vRoomKeys H) (vhub s)) (unix (vNow H)) (vcalls s)"
  have k: "calls_keyed ?r"
    by (rule Touch_keyed [OF assms(1)])
  have d: "calls_order (vCallKeys H) ?r"
    using assms(4) by (auto simp: calls_order_def dom_def touch_calls_at)
  have f: "rfile (vcalls (fst (Close_video H ps s))) = rfile (save_calls (vCallKeys H) True ?r)"
    using assms(5) by (simp add: Close_video_def touchLiveCalls_def flushOnce_def save_rooms_def Let_def)
  have s1: "vcalls s1 = newCallRegistry (unix t) (rfile (save_calls (vCallKeys H) True ?r))"
    using assms(6) unfolding f by (auto simp: Open_video_def split: if_splits)
  have "liveLocked room (unix (vNow H2)) (vcalls s1) = liveLocked room (unix (vNow H2)) ?r"
    unfolding s1 by (rule restart_live [OF k d unix_mono [OF assms(7)]])
  also have "\<dots> = Some (c\<lparr>lcLastActive := unix (vNow H)\<rparr>)"
    using assms(2,3,8) by (simp add: liveLocked_def touch_calls_at liveCallGraceSec_def)
  finally have "\<not> rdRing (snd (OnJoin room user client resume (unix (vNow H2)) (vNewID H2) (vcalls s1)))"
    by (simp add: OnJoin_def Let_def)
  then show ?thesis
    by (auto simp: announceJoin_def Let_def split: prod.split option.split)
qed

end
