(* ===== verification/VideoInvites.thy ===== *)
theory VideoInvites
  imports VideoProps AuthProps
begin

text \<open>
  Invitations and guest tokens of video calls over time: the session store that tracks their identifiers, the index of
  a room's guest tokens, and what using, revoking and restarting make of them.
\<close>

section \<open>The invitation tracker under every step\<close>

definition same_track :: "VService \<Rightarrow> VService \<Rightarrow> bool" where
  "same_track s s' \<longleftrightarrow> guestJTIs s' = guestJTIs s \<and> inviteSessions s' = inviteSessions s"

lemma core_track: "same_core s s' \<Longrightarrow> same_track s s'"
  by (simp add: same_core_def same_track_def)

lemma track_trans: "same_track s t \<Longrightarrow> same_track t u \<Longrightarrow> same_track s u"
  by (simp add: same_track_def)

lemma track_refl [simp]: "same_track s s"
  by (simp add: same_track_def)

lemmas room_op_defs = CreateRoom_def RenameRoom_def DeleteRoom_def DeleteRoom_locked_def AddMember_def RemoveMember_def
  RemoveMember_locked_def SetPIN_def

lemma rooms_track:
  "same_track s (fst (HandleRooms H user rq body s))" "same_track s (fst (HandleMembers user rq body' s))"
  "same_track s (fst (consume_grant user room s))" "same_track s (fst (SetPIN user room ttl now pin s))"
  by (auto simp: HandleRooms_def HandleMembers_def consume_grant_def room_op_defs say_def Let_def same_track_def
      split: option.split sum.split prod.split)

lemma misc_track:
  "same_track s (fst (HandleRecordSession H user rq cs s))" "same_track s (fst (HandleKick user rq kb s))"
  "same_track s (gcExpiredPINs ks now s)" "same_track s (flushOnce ks ok s)"
  by (auto simp: HandleRecordSession_def RecordCallSession_def HandleKick_def gcExpiredPINs_def flushOnce_def save_rooms_def
      say_def Let_def same_track_def split: option.split prod.split)

lemma close_peer_track: "same_track s (fst (close_peer H cf action user room peer client graceful s))"
  using core_track [OF onPeerGone_core, of "s\<lparr>vhub := cleanupRate peer (Leave peer (vhub s))\<rparr>" H cf room client graceful]
  by (auto simp: close_peer_def same_track_def split: prod.splits)

lemma open_peer_track: "same_track s (fst (open_peer H cf joined left user name room client resume s))"
proof -
  obtain h v where j: "Join_hub (new_peer H user room client) (vhub s) = (h, v)"
    by fastforce
  obtain s1 es where b: "announceJoin H cf room user name client resume (s\<lparr>vhub := h\<rparr>) = (s1, es)"
    by fastforce
  have s1: "same_track s s1"
    using core_track [OF announceJoin_core, of "s\<lparr>vhub := h\<rparr>" H cf room user name client resume] b by (simp add: same_track_def)
  have "fst (open_peer H cf joined left user name room client resume s) =
      (case v of Inl e \<Rightarrow> s\<lparr>vhub := h\<rparr>
       | Inr ex \<Rightarrow> if vWritten H then s1 else fst (close_peer H cf left user room (vPeerID H) client False s1))"
    using j b by (simp add: open_peer_def new_peer_def Let_def split: sum.split prod.split)
  then show ?thesis
    using s1 track_trans [OF s1 close_peer_track] by (simp add: same_track_def split: sum.split)
qed

lemma ws_track:
  "same_track s (fst (HandleWS_join H cf user c s))" "same_track s (fst (HandleGuestWS_join H cf c' s))"
  by (auto simp: HandleWS_join_def HandleGuestWS_join_def open_peer_track split: prod.split)

lemma cut_track:
  "same_track s (fst (DeleteRoom_locked user room s))" "same_track s (fst (RemoveMember_locked user room member s))"
  by (auto simp: room_op_defs same_track_def split: sum.split)

lemma relay_track: "same_track s (relay peer f s)"
  by (simp add: relay_def push_err_def same_track_def split: prod.split sum.split)

lemma on_message_track: "same_track s (fst (on_message H user room peer msg s))"
  using relay_track by (simp add: on_message_def Let_def push_err_def) (simp add: same_track_def)

text \<open>A token identifier that the tracker knows under expiry \<open>e\<close>, and that the room's index lists unless it is spent.\<close>

definition tracked :: "string \<Rightarrow> secs \<Rightarrow> string \<Rightarrow> VService \<Rightarrow> bool" where
  "tracked jti e room s \<longleftrightarrow>
     wf_store (inviteSessions s) \<and> known jti e (inviteSessions s)
     \<and> (tombstone jti e (inviteSessions s) \<or> (\<exists>js. guestJTIs s room = Some js \<and> jti \<in> set js))"

lemma tracked_same: "same_track s s' \<Longrightarrow> tracked jti e room s \<Longrightarrow> tracked jti e room s'"
  by (simp add: tracked_def same_track_def)

lemma tracked_store:
  assumes "tracked jti e room s" "store_step now (inviteSessions s) (inviteSessions s')" "unix now \<le> e"
    "\<And>js. guestJTIs s room = Some js \<Longrightarrow> \<exists>js'. guestJTIs s' room = Some js' \<and> set js \<subseteq> set js'"
  shows "tracked jti e room s'"
  using assms tombstone_step [OF assms(2)] known_step [OF assms(2)] wf_step [OF assms(2)]
  unfolding tracked_def by (meson subsetD)

lemma Revokes_keep:
  assumes "wf_store st" "known jti e st" "unix now \<le> e" "jti \<noteq> ''''"
  shows "wf_store (fold (Invite_Tombstone now) js st) \<and> known jti e (fold (Invite_Tombstone now) js st)
    \<and> (jti \<in> set js \<or> tombstone jti e st \<longrightarrow> tombstone jti e (fold (Invite_Tombstone now) js st))"
  using assms
proof (induction js arbitrary: st)
  case (Cons j js)
  have step: "store_step now st (Invite_Tombstone now j st)"
    unfolding Invite_Tombstone_def by (rule step_Revoke)
  have "wf_store (Invite_Tombstone now j st)" "known jti e (Invite_Tombstone now j st)"
    using wf_step [OF step] known_step [OF step] Cons.prems by blast+
  moreover have "tombstone jti e (Invite_Tombstone now j st)" if "jti = j \<or> tombstone jti e st"
    using that Revoke_known [OF Cons.prems(2,4), of now] tombstone_step [OF step] Cons.prems
    by (auto simp: Invite_Tombstone_def)
  ultimately show ?case
    using Cons.IH [of "Invite_Tombstone now j st"] Cons.prems(3,4) by auto
qed simp

lemma issue_track:
  assumes "issue_invite H cf user room ttl s = Some (s1, tok)"
  shows "guestJTIs s1 = guestJTIs s \<and> (inviteSessions s1 = inviteSessions s \<or> store_step (vNow H) (inviteSessions s) (inviteSessions s1))"
  using assms by (auto simp: issue_invite_def Invite_Add_def split: option.splits if_splits intro: step_Add)

lemma invite_track:
  "guestJTIs (fst (HandleInvite H cf user rq iv s)) = guestJTIs s \<and>
     (inviteSessions (fst (HandleInvite H cf user rq iv s)) = inviteSessions s
      \<or> store_step (vNow H) (inviteSessions s) (inviteSessions (fst (HandleInvite H cf user rq iv s))))"
  using issue_track by (auto simp: HandleInvite_def say_def split: option.splits)

lemma whatsapp_track:
  "guestJTIs (fst (HandleInviteWhatsApp H cf sender user rq wa s)) = guestJTIs s \<and>
     (inviteSessions (fst (HandleInviteWhatsApp H cf sender user rq wa s)) = inviteSessions s
      \<or> store_step (vNow H) (inviteSessions s) (inviteSessions (fst (HandleInviteWhatsApp H cf sender user rq wa s))))"
  using issue_track by (auto simp: HandleInviteWhatsApp_def say_def Let_def split: option.splits)

lemma tracked_issue:
  assumes "tracked jti e room s" "unix now \<le> e" "guestJTIs s' = guestJTIs s"
    "inviteSessions s' = inviteSessions s \<or> store_step now (inviteSessions s) (inviteSessions s')"
  shows "tracked jti e room s'"
  using assms(4)
proof
  assume "inviteSessions s' = inviteSessions s"
  with assms(1,3) show ?thesis by (simp add: tracked_def)
next
  assume "store_step now (inviteSessions s) (inviteSessions s')"
  then show ?thesis
    by (rule tracked_store [OF assms(1) _ assms(2)]) (simp add: assms(3))
qed

lemma tracked_revoke:
  assumes "tracked jti e room s" "unix now \<le> e" "jti \<noteq> ''''"
  shows "tracked jti e room (fst (RevokePIN user room' now s))"
proof (cases "owned_room user room' s")
  case (Inr r)
  note k = Revokes_keep [of "inviteSessions s" jti e now, OF _ _ assms(2,3)]
  show ?thesis
    using assms(1) Inr k by (auto simp: tracked_def RevokePIN_def Let_def split: option.splits)
qed (use assms in \<open>simp add: RevokePIN_def\<close>)

lemma tracked_join_pin:
  assumes "tracked jti e room s" "unix (vNow H) \<le> e"
  shows "tracked jti e room (fst (HandleJoinByPIN H cf rq jp s))"
proof -
  obtain s1 ok where p: "pinAllow (vNow H) (ClientIP rq) s = (s1, ok)" by fastforce
  then have s1: "tracked jti e room s1"
    using pinAllow_frame core_track tracked_same assms(1) by blast
  let ?add = "\<lambda>i. s1\<lparr>inviteSessions := Invite_Add (vNow H) (vJTI H) (''GUEST:'' @ i) (unix (vNow H + guestTTL)) (inviteSessions s1),
      guestJTIs := (guestJTIs s1)(i \<mapsto> (case guestJTIs s1 i of None \<Rightarrow> [] | Some js \<Rightarrow> js) @ [vJTI H])\<rparr>"
  have "tracked jti e room (?add i)" for i
    by (rule tracked_store [OF s1 _ assms(2)]) (auto simp: Invite_Add_def intro: step_Add)
  with s1 assms(1) show ?thesis
    by (auto simp: HandleJoinByPIN_def p say_def Let_def split: option.split bool.split)
qed

lemma vquiet_tracked:
  "vquiet cf a b \<Longrightarrow> tracked jti e room (snd a) \<Longrightarrow> unix (fst b) \<le> e \<Longrightarrow> jti \<noteq> '''' \<Longrightarrow> tracked jti e room (snd b)"
proof (induction rule: vquiet.induct)
  case (v_invite t H s user rq iv)
  then have h: "tracked jti e room s" "unix (vNow H) \<le> e" by simp_all
  show ?case unfolding snd_conv by (rule tracked_issue [OF h conjunct1 [OF invite_track] conjunct2 [OF invite_track]])
next
  case (v_whatsapp t H s sender user rq wa)
  then have h: "tracked jti e room s" "unix (vNow H) \<le> e" by simp_all
  show ?case unfolding snd_conv by (rule tracked_issue [OF h conjunct1 [OF whatsapp_track] conjunct2 [OF whatsapp_track]])
next
  case (v_spend t H s j)
  then have h: "tracked jti e room s" "unix (vNow H) \<le> e" by simp_all
  show ?case unfolding snd_conv
    by (rule tracked_issue [OF h]) (simp_all add: consume_spend_def Invite_Tombstone_def step_Revoke)
next
  case (v_pin t H s user rq pb)
  have "tracked jti e room (fst (RevokePIN user i (vNow H) s))" "tracked jti e room (fst (SetPIN user i h (vNow H) (vPIN H) s))" for i h
    using v_pin tracked_revoke [of jti e room s "vNow H" user i] tracked_same [OF rooms_track(4), of jti e room s] by auto
  then show ?case
    using v_pin by (auto simp: HandlePIN_def say_def split: option.split sum.split prod.split) (metis fst_conv)+
next
  case (v_join_pin t H s rq jp)
  then show ?case by (simp add: tracked_join_pin)
next
  case (v_store t now s st)
  then have h: "tracked jti e room s" "unix now \<le> e" by simp_all
  show ?case unfolding snd_conv by (rule tracked_issue [OF h]) (simp_all add: v_store)
next
  case (v_leave_later t now s i)
  then show ?case by (simp add: tracked_def)
next
  case (v_drain t now s i)
  then show ?case by (simp add: tracked_def)
next
  case (v_presence t now s p)
  then show ?case by (simp add: tracked_def)
qed (simp_all add: tracked_same [OF rooms_track(1)] tracked_same [OF rooms_track(2)] tracked_same [OF rooms_track(3)]
    tracked_same [OF misc_track(1)] tracked_same [OF misc_track(2)] tracked_same [OF misc_track(3)] tracked_same [OF misc_track(4)]
    tracked_same [OF on_message_track] tracked_same [OF close_peer_track]
    tracked_same [OF core_track [OF HandleDevices_frame]] tracked_same [OF core_track [OF HandlePresence_frame]]
    tracked_same [OF core_track [OF heartbeat_core]])

lemma vstep_tracked:
  "vstep cf a b \<Longrightarrow> tracked jti e room (snd a) \<Longrightarrow> unix (fst b) \<le> e \<Longrightarrow> jti \<noteq> '''' \<Longrightarrow> tracked jti e room (snd b)"
  by (induction rule: vstep.induct)
    (simp_all add: vquiet_tracked tracked_same [OF ws_track(1)] tracked_same [OF ws_track(2)] tracked_same [OF cut_track(1)]
      tracked_same [OF cut_track(2)])

lemma vquiet_time: "vquiet cf a b \<Longrightarrow> fst a \<le> fst b"
  by (induction rule: vquiet.induct) auto

lemma vstep_time: "vstep cf a b \<Longrightarrow> fst a \<le> fst b"
  by (induction rule: vstep.induct) (auto simp: vquiet_time)

lemma steps_time: "steps (vstep cf) a b \<Longrightarrow> fst a \<le> fst b"
  by (induction rule: steps.induct) (use vstep_time in force)+

lemma steps_tracked:
  "steps (vstep cf) a b \<Longrightarrow> tracked jti e room (snd a) \<Longrightarrow> unix (fst b) \<le> e \<Longrightarrow> jti \<noteq> '''' \<Longrightarrow> tracked jti e room (snd b)"
proof (induction rule: steps.induct)
  case (steps_step s t u)
  have "unix (fst t) \<le> e"
    using vstep_time [OF steps_step.hyps(2)] unix_mono [of "fst t" "fst u"] steps_step.prems(2) by simp
  with steps_step show ?case using vstep_tracked by blast
qed

section \<open>Revoking a PIN\<close>

lemma HandleJoinByPIN_tracks:
  assumes "HandleJoinByPIN H cf rq jp s = (s1, VGuest room name tok ex, es)" "hasSessions cf" "vJTI H \<noteq> ''''"
    "wf_store (inviteSessions s)" "sessions (inviteSessions s) (vJTI H) = None"
  shows "tracked (vJTI H) (unix (vNow H + guestTTL)) room s1"
proof -
  obtain s0 ok where p: "pinAllow (vNow H) (ClientIP rq) s = (s0, ok)" by fastforce
  then have i: "inviteSessions s0 = inviteSessions s"
    using pinAllow_frame by (auto simp: core_defs)
  have n: "inviteSessions s1 = Invite_Add (vNow H) (vJTI H) (''GUEST:'' @ room) (unix (vNow H + guestTTL)) (inviteSessions s)"
    and js: "\<exists>js. guestJTIs s1 room = Some (js @ [vJTI H])"
    using assms(1-3) i by (auto simp: HandleJoinByPIN_def p say_def Let_def split: option.splits bool.splits if_splits)
  have "known (vJTI H) (unix (vNow H + guestTTL)) (inviteSessions s1)"
    using assms(3,5) by (simp add: n Invite_Add_def Add_def known_def)
  moreover have "wf_store (inviteSessions s1)"
    using wf_step [OF step_Add assms(4)] by (simp add: n Invite_Add_def)
  ultimately show ?thesis
    using js by (auto simp: tracked_def)
qed

lemma HandlePIN_revokes:
  assumes "HandlePIN H owner rq (Some b) s = (s1, VNoContent, es)" "tracked jti e (pbRoomID b) s" "unix (vNow H) \<le> e" "jti \<noteq> ''''"
  shows "tombstone jti e (inviteSessions s1) \<and> wf_store (inviteSessions s1)"
proof -
  let ?room = "pbRoomID b"
  have "RevokePIN owner ?room (vNow H) s = (s1, Ok ())"
    using assms(1) by (auto simp: HandlePIN_def say_def split: if_splits prod.splits sum.splits)
  then obtain r where "owned_room owner ?room s = Inr r"
    "inviteSessions s1 = fold (Invite_Tombstone (vNow H)) (case guestJTIs s ?room of None \<Rightarrow> [] | Some js \<Rightarrow> js) (inviteSessions s)"
    by (auto simp: RevokePIN_def Let_def split: sum.splits)
  then show ?thesis
    using assms(2) Revokes_keep [of "inviteSessions s" jti e "vNow H", OF _ _ assms(3,4)] by (auto simp: tracked_def)
qed

lemma tombstone_invalid: "tombstone jti e st \<Longrightarrow> jti \<noteq> '''' \<Longrightarrow> \<not> Invite_IsValid jti st"
  by (simp add: Invite_IsValid_def tombstone_HasTombstone)

definition dead :: "string \<Rightarrow> secs \<Rightarrow> VService \<Rightarrow> bool" where
  "dead jti e s \<longleftrightarrow> wf_store (inviteSessions s) \<and> tombstone jti e (inviteSessions s)"

lemma dead_same: "same_track s s' \<Longrightarrow> dead jti e s \<Longrightarrow> dead jti e s'"
  by (simp add: dead_def same_track_def)

text \<open>What the parser returns for a token are the claims it was signed with.\<close>

definition carries_jti :: "jwt_parse \<Rightarrow> string \<Rightarrow> string \<Rightarrow> bool" where
  "carries_jti jparse tok jti \<longleftrightarrow> (\<forall>t c. jparse t tok = Some c \<longrightarrow> str_claim c ''jti'' = jti)"

lemma carries_ExtractJTI:
  assumes "carries_jti jparse tok jti" "jparse t tok = Some c" "jti \<noteq> ''''"
  shows "ExtractJTI jparse t tok = Some jti"
proof -
  have "str_claim c ''jti'' = jti" using assms by (auto simp: carries_jti_def)
  then show ?thesis using assms(2,3) by (simp add: ExtractJTI_def ParseClaims_def)
qed

lemma guest_refused:
  assumes "carries_jti (vParse H) (Query rq ''token'') jti" "jti \<noteq> ''''" "hasSessions cf"
    "vParse H (vNow H) (Query rq ''token'') = None \<or> \<not> Invite_IsValid jti (inviteSessions s)"
  shows "\<exists>code text. HandleGuestWS H cf rq s = (s, WSRefused code text, [])"
proof (cases "vParse H (vNow H) (Query rq ''token'')")
  case None
  then show ?thesis by (simp add: HandleGuestWS_def HandleGuestWS_check_def VerifyVideocallGuestToken_def Let_def)
next
  case (Some c)
  then have "ExtractJTI (vParse H) (vNow H) (Query rq ''token'') = Some jti"
    by (rule carries_ExtractJTI [OF assms(1) _ assms(2)])
  then show ?thesis
    using assms Some by (simp add: HandleGuestWS_def HandleGuestWS_check_def Let_def split: option.split)
qed

text \<open>Whatever a step of the service does to the session store is made of steps of that store.\<close>

lemma store_same: "same_track s s' \<Longrightarrow> steps (store_step now) (inviteSessions s) (inviteSessions s')"
  by (simp add: same_track_def steps.steps_refl)

lemma store_one: "st' = st \<or> store_step now st st' \<Longrightarrow> steps (store_step now) st st'"
  by (auto intro: steps.intros)

lemma store_Revokes: "steps (store_step now) st (fold (Invite_Tombstone now) js st)"
proof (induction js rule: rev_induct)
  case (snoc j js)
  then show ?case by (simp add: Invite_Tombstone_def) (rule steps_step, assumption, rule step_Revoke)
qed (simp add: steps.steps_refl)

lemma store_pin: "steps (store_step (vNow H)) (inviteSessions s) (inviteSessions (fst (HandlePIN H user rq pb s)))"
proof -
  have "steps (store_step (vNow H)) (inviteSessions s) (inviteSessions (fst (RevokePIN user i (vNow H) s)))"
    "steps (store_step (vNow H)) (inviteSessions s) (inviteSessions (fst (SetPIN user i h (vNow H) (vPIN H) s)))" for i h
    using store_Revokes by (simp_all add: RevokePIN_def Let_def steps.steps_refl store_same [OF rooms_track(4)] split: sum.split)
  then show ?thesis
    by (auto simp: HandlePIN_def say_def steps.steps_refl split: option.split sum.split prod.split) (metis fst_conv)+
qed

lemma store_join_pin: "steps (store_step (vNow H)) (inviteSessions s) (inviteSessions (fst (HandleJoinByPIN H cf rq jp s)))"
proof -
  obtain s1 ok where p: "pinAllow (vNow H) (ClientIP rq) s = (s1, ok)" by fastforce
  then have "inviteSessions s1 = inviteSessions s"
    using pinAllow_frame by (auto simp: core_defs)
  then show ?thesis
    using step_Add by (intro store_one) (auto simp: HandleJoinByPIN_def p say_def Let_def Invite_Add_def split: option.split bool.split)
qed

lemma vquiet_store: "vquiet cf a b \<Longrightarrow> steps (store_step (fst b)) (inviteSessions (snd a)) (inviteSessions (snd b))"
proof (induction rule: vquiet.induct)
  case (v_invite t H s user rq iv)
  show ?case unfolding fst_conv snd_conv by (rule store_one) (rule conjunct2 [OF invite_track])
next
  case (v_whatsapp t H s sender user rq wa)
  show ?case unfolding fst_conv snd_conv by (rule store_one) (rule conjunct2 [OF whatsapp_track])
next
  case (v_spend t H s j)
  show ?case unfolding fst_conv snd_conv
    by (rule store_one) (simp add: consume_spend_def Invite_Tombstone_def step_Revoke)
qed (simp_all add: store_one store_pin store_join_pin store_same [OF rooms_track(1)] store_same [OF rooms_track(2)] store_same [OF rooms_track(3)]
    store_same [OF misc_track(1)] store_same [OF misc_track(2)] store_same [OF misc_track(3)] store_same [OF misc_track(4)]
    store_same [OF on_message_track] store_same [OF close_peer_track]
    store_same [OF core_track [OF HandleDevices_frame]] store_same [OF core_track [OF HandlePresence_frame]]
    store_same [OF core_track [OF heartbeat_core]])

lemma vstep_store: "vstep cf a b \<Longrightarrow> steps (store_step (fst b)) (inviteSessions (snd a)) (inviteSessions (snd b))"
  by (induction rule: vstep.induct)
    (simp_all add: vquiet_store store_same [OF ws_track(1)] store_same [OF ws_track(2)] store_same [OF cut_track(1)]
      store_same [OF cut_track(2)])

lemma store_steps_dead:
  "steps (store_step now) st st' \<Longrightarrow> unix now \<le> e \<Longrightarrow> wf_store st \<and> tombstone jti e st \<Longrightarrow> wf_store st' \<and> tombstone jti e st'"
  by (induction rule: steps.induct) (auto intro: wf_step tombstone_step)

lemma steps_dead:
  "steps (vstep cf) a b \<Longrightarrow> dead jti e (snd a) \<Longrightarrow> unix (fst b) \<le> e \<Longrightarrow> dead jti e (snd b)"
proof (induction rule: steps.induct)
  case (steps_step s t u)
  have "unix (fst t) \<le> e"
    using vstep_time [OF steps_step.hyps(2)] unix_mono [of "fst t" "fst u"] steps_step.prems(2) by simp
  with steps_step show ?case
    using store_steps_dead [OF vstep_store] unfolding dead_def by blast
qed

text \<open>
  Revoking a PIN takes back the guest tokens it gave out. A token that \<open>HandleJoinByPIN\<close> issued for a room is
  refused by the guest socket, which then changes nothing, at every later time once the room's owner has revoked
  the PIN: whatever the service did between the issue, the revocation and the attempt, as long as it was one run of the
  process.
\<close>
theorem revoked_pin_locks_out_guests:
  assumes "jwt_checks_expiry (vParse H4)" "e = unix (vNow H0 + guestTTL)" "jti_expires (vParse H4) jti e"
    and "jti = vJTI H0" "jti \<noteq> ''''" "hasSessions cf"
    and "wf_store (inviteSessions s0)" "sessions (inviteSessions s0) jti = None"
    and "HandleJoinByPIN H0 cf rq0 jp s0 = (s1, VGuest room name tok ex, es1)"
    and "steps (vstep cf) (vNow H0, s1) (t2, s2)" "t2 \<le> vNow H2"
    and "HandlePIN H2 owner rq2 (Some \<lparr>pbRoomID = room, pbTTLHours = h\<rparr>) s2 = (s3, VNoContent, es3)"
    and "steps (vstep cf) (vNow H2, s3) (t4, s4)" "t4 \<le> vNow H4"
    and "Query rq4 ''token'' = tok" "carries_jti (vParse H4) tok jti"
  shows "\<exists>code text. HandleGuestWS H4 cf rq4 s4 = (s4, WSRefused code text, [])"
proof (rule guest_refused [OF _ assms(5,6)])
  show "carries_jti (vParse H4) (Query rq4 ''token'') jti"
    using assms(15,16) by simp
  show "vParse H4 (vNow H4) (Query rq4 ''token'') = None \<or> \<not> Invite_IsValid jti (inviteSessions s4)"
  proof (cases "unix (vNow H4) \<le> e")
    case True
    have "unix t2 \<le> e" "unix (vNow H2) \<le> e" "unix t4 \<le> e"
      using True assms(11,14) steps_time [OF assms(13)] unix_mono [of t2 "vNow H4"] unix_mono [of "vNow H2" "vNow H4"]
        unix_mono [of t4 "vNow H4"] by auto
    moreover have "tracked jti e room s1"
      using HandleJoinByPIN_tracks [OF assms(9,6)] assms(2,4,5,7,8) by simp
    ultimately have "tracked jti e room s2"
      using steps_tracked [OF assms(10)] assms(5) by simp
    then have "dead jti e s3"
      using HandlePIN_revokes [OF assms(12)] \<open>unix (vNow H2) \<le> e\<close> assms(5) by (simp add: dead_def)
    then have "dead jti e s4"
      using steps_dead [OF assms(13)] \<open>unix t4 \<le> e\<close> by simp
    then show ?thesis
      using tombstone_invalid [of jti e "inviteSessions s4"] assms(5) by (simp add: dead_def)
  next
    case False
    have "\<not> vNow H4 < e * second"
      using False less_unix_imp by fastforce
    then have "vParse H4 (vNow H4) tok = None"
      using assms(1,3,16) unfolding jwt_checks_expiry_def jti_expires_def carries_jti_def
      by (cases "vParse H4 (vNow H4) tok") blast+
    with assms(15) show ?thesis by simp
  qed
qed

section \<open>An example\<close>

definition demo_room :: Room where
  "demo_room = \<lparr>rmID = ''r1'', rmName = ''Sala'', rmOwner = ''ana'', rmMembers = [''bob''], rmCreatedAt = 0, rmPIN = ''AB23'', rmPINExpiresAt = 0\<rparr>"

definition demo_video :: VService where
  "demo_video = the (Open_video 0 (Doc [demo_room]) NoFile NoFile NoFile empty_store)"

definition guest_parse :: jwt_parse where
  "guest_parse now tok = (if tok = ''gt'' \<and> now < 14400 * second then Some (guest_claims 0 ''g1'' ''Eva'' ''r1'' guestTTL) else None)"

definition demo_host :: "nanos \<Rightarrow> vhost" where
  "demo_host now = \<lparr>vNow = now, vPeerID = ''p1'', vFallbackID = ''c1'', vNewID = ''n1'', vJTI = ''g1'', vPIN = ''CD45'', vSign = (\<lambda>c. Some ''gt''),
     vParse = guest_parse, vUpgrade = True, vWritten = True, vSaved = True, vRoomKeys = [''r1''], vCallKeys = [], vDeviceKeys = [],
     vHostName = ''host'', vTLS = True, vMac = (\<lambda>_ _. ''''), vUpper = id, vState = (\<lambda>_. None)\<rparr>"

definition demo_conf :: vconf where
  "demo_conf = \<lparr>hasIssuer = True, hasSessions = True, hasPush = False, hasFCM = False, turnSecret = '''', turnHosts = []\<rparr>"

definition pin_request :: request where
  "pin_request = plain_request MethodPost ''/api/videocall/join-by-pin''"

definition unpin_request :: request where
  "unpin_request = plain_request MethodDelete ''/api/videocall/pin''"

definition guest_request :: request where
  "guest_request = (plain_request MethodGet ''/ws/videocall-guest'')\<lparr>Query := (\<lambda>k. if k = ''token'' then ''gt'' else '''')\<rparr>"

definition demo_joined :: vresult where
  "demo_joined = HandleJoinByPIN (demo_host 0) demo_conf pin_request (Some (''ab23'', ''Eva'')) demo_video"

definition demo_unpinned :: vresult where
  "demo_unpinned = HandlePIN (demo_host 5) ''ana'' unpin_request (Some \<lparr>pbRoomID = ''r1'', pbTTLHours = 0\<rparr>) (fst demo_joined)"

lemma demo_joined_reply: "fst (snd demo_joined) = VGuest ''r1'' ''Sala'' ''gt'' 14400"
  by code_simp

lemma demo_unpinned_reply: "fst (snd demo_unpinned) = VNoContent"
  by code_simp

lemma demo_guest_admitted:
  "case fst (snd (HandleGuestWS (demo_host 3) demo_conf guest_request (fst demo_joined))) of WSJoined i _ _ _ \<Rightarrow> i = ''p1'' | _ \<Rightarrow> False"
  by code_simp

lemma guest_parse_rules: "jwt_checks_expiry guest_parse" "jti_expires guest_parse ''g1'' 14400" "carries_jti guest_parse ''gt'' ''g1''"
  by (auto simp: jwt_checks_expiry_def jti_expires_def carries_jti_def guest_parse_def guest_claims_def guestTTL_def str_claim_def
      unix_def second_def split: if_splits)

lemma reply_eq: "fst (snd r) = v \<Longrightarrow> r = (fst r, v, snd (snd r))"
  by auto

lemma demo_video_store: "inviteSessions demo_video = empty_store"
  by (simp add: demo_video_def Open_video_def)

lemma demo_host_simps [simp]:
  "vNow (demo_host t) = t" "vParse (demo_host t) = guest_parse" "vJTI (demo_host t) = ''g1''" "hasSessions demo_conf"
  by (simp_all add: demo_host_def demo_conf_def)

theorem revoked_pin_locks_out_guests_witness:
  "\<exists>code text. HandleGuestWS (demo_host 9) demo_conf guest_request (fst demo_unpinned) = (fst demo_unpinned, WSRefused code text, [])"
proof (rule revoked_pin_locks_out_guests [where ?H0.0 = "demo_host 0" and ?H2.0 = "demo_host 5" and e = 14400 and jti = "''g1''"])
  show "HandleJoinByPIN (demo_host 0) demo_conf pin_request (Some (''ab23'', ''Eva'')) demo_video =
      (fst demo_joined, VGuest ''r1'' ''Sala'' ''gt'' 14400, snd (snd demo_joined))"
    using reply_eq [OF demo_joined_reply] by (simp add: demo_joined_def)
  show "HandlePIN (demo_host 5) ''ana'' unpin_request (Some \<lparr>pbRoomID = ''r1'', pbTTLHours = 0\<rparr>) (fst demo_joined) =
      (fst demo_unpinned, VNoContent, snd (snd demo_unpinned))"
    using reply_eq [OF demo_unpinned_reply] by (simp add: demo_unpinned_def)
  show "steps (vstep demo_conf) (vNow (demo_host 0), fst demo_joined) (0, fst demo_joined)"
    "steps (vstep demo_conf) (vNow (demo_host 5), fst demo_unpinned) (5, fst demo_unpinned)"
    by (simp_all add: steps.steps_refl)
qed (simp_all add: guest_parse_rules guestTTL_def second_def unix_def demo_video_store guest_request_def empty_store_def wf_store_def)

text \<open>
  The index of a room's guest tokens lives in memory only. After a restart the owner's revocation no longer reaches a token
  that was issued before it.
\<close>

lemma restart_forgets_guest_tokens:
  assumes "Open_video now rf cf df hf st = Some s" "RevokePIN owner room t s = (s', Ok ())"
  shows "inviteSessions s' = st"
  using assms by (auto simp: Open_video_def RevokePIN_def owned_room_def Let_def split: if_splits option.splits)

definition restarted :: VService where
  "restarted = the (Open_video 6 (Doc [demo_room]) NoFile NoFile NoFile (inviteSessions (fst demo_joined)))"

lemma revocation_after_restart_misses:
  "case fst (snd (HandleGuestWS (demo_host 9) demo_conf guest_request
      (fst (HandlePIN (demo_host 7) ''ana'' unpin_request (Some \<lparr>pbRoomID = ''r1'', pbTTLHours = 0\<rparr>) restarted)))) of
     WSJoined i _ _ _ \<Rightarrow> i = ''p1'' | _ \<Rightarrow> False"
  by code_simp

section \<open>An invitation is used once\<close>

lemma consume_refused:
  assumes "carries_jti (vParse H) tok jti" "jti \<noteq> ''''" "hasSessions cf"
    "vParse H (vNow H) tok = None \<or> \<not> Invite_IsValid jti (inviteSessions s)"
  shows "\<exists>code text. HandleInviteConsume H cf user rq (Some tok) s = (s, VErr code text, [])"
proof (cases "vParse H (vNow H) tok")
  case None
  then show ?thesis by (simp add: HandleInviteConsume_def consume_check_def VerifyVideocallInviteToken_def say_def)
next
  case (Some c)
  then have "str_claim c ''jti'' = jti"
    using assms(1) by (auto simp: carries_jti_def)
  then show ?thesis
    using assms Some by (simp add: HandleInviteConsume_def consume_check_def VerifyVideocallInviteToken_def say_def)
qed

lemma HandleInvite_tracks:
  assumes "HandleInvite H cf user rq (Some (i, mins)) s = (s1, VInvite url tok ex room, es)" "hasSessions cf" "vJTI H \<noteq> ''''"
    "wf_store (inviteSessions s)" "sessions (inviteSessions s) (vJTI H) = None"
  shows "wf_store (inviteSessions s1) \<and> known (vJTI H) ex (inviteSessions s1)"
proof -
  have n: "inviteSessions s1 = Invite_Add (vNow H) (vJTI H) (''INVITE:'' @ user) ex (inviteSessions s)"
    using assms(1,2) by (auto simp: HandleInvite_def say_def issue_invite_def split: option.splits if_splits)
  have "known (vJTI H) ex (inviteSessions s1)"
    using assms(3,5) by (simp add: n Invite_Add_def Add_def known_def)
  moreover have "wf_store (inviteSessions s1)"
    using wf_step [OF step_Add assms(4)] by (simp add: n Invite_Add_def)
  ultimately show ?thesis by blast
qed

lemma store_steps_known:
  "steps (store_step now) st st' \<Longrightarrow> unix now \<le> e \<Longrightarrow> wf_store st \<and> known jti e st \<Longrightarrow> wf_store st' \<and> known jti e st'"
  by (induction rule: steps.induct) (auto intro: wf_step known_step)

lemma steps_known:
  "steps (vstep cf) a b \<Longrightarrow> wf_store (inviteSessions (snd a)) \<and> known jti e (inviteSessions (snd a)) \<Longrightarrow> unix (fst b) \<le> e \<Longrightarrow>
   wf_store (inviteSessions (snd b)) \<and> known jti e (inviteSessions (snd b))"
proof (induction rule: steps.induct)
  case (steps_step s t u)
  have "unix (fst t) \<le> e"
    using vstep_time [OF steps_step.hyps(2)] unix_mono [of "fst t" "fst u"] steps_step.prems(2) by simp
  with steps_step show ?case
    using store_steps_known [OF vstep_store] by blast
qed

lemma HandleInviteConsume_spends:
  assumes "HandleInviteConsume H cf user rq (Some tok) s = (s1, VRoom r, es)" "carries_jti (vParse H) tok jti" "jti \<noteq> ''''" "hasSessions cf"
    "wf_store (inviteSessions s)" "known jti e (inviteSessions s)"
  shows "dead jti e s1" "\<exists>i. CanJoin user i s1 \<and> VerifyVideocallInviteToken (vParse H) (vNow H) tok = Some (i, jti)"
proof -
  obtain i j where c: "consume_check H cf user rq (Some tok) s = Inr (i, j)"
    using assms(1) by (auto simp: HandleInviteConsume_def say_def split: sum.splits)
  then have v: "VerifyVideocallInviteToken (vParse H) (vNow H) tok = Some (i, j)"
    by (auto simp: consume_check_def split: if_splits option.splits)
  then have j: "j = jti"
    using assms(2) by (auto simp: VerifyVideocallInviteToken_def carries_jti_def split: option.splits if_splits)
  obtain s0 where g: "consume_grant user i s = (s0, Some r)" and s1: "s1 = consume_spend H cf jti s0"
    using assms(1) c j by (auto simp: HandleInviteConsume_def say_def split: prod.splits option.splits)
  have st: "inviteSessions s0 = inviteSessions s"
    using rooms_track(3) [of s user i] g by (simp add: same_track_def)
  have "tombstone jti e (Invite_Tombstone (vNow H) jti (inviteSessions s))"
    unfolding Invite_Tombstone_def by (rule Revoke_known [OF assms(6,3)])
  moreover have "wf_store (Invite_Tombstone (vNow H) jti (inviteSessions s))"
    unfolding Invite_Tombstone_def by (rule wf_step [OF step_Revoke assms(5)])
  ultimately show "dead jti e s1"
    using assms(3,4) st by (simp add: s1 consume_spend_def dead_def)
  have "CanJoin user i s0"
    using g by (auto simp: consume_grant_def CanJoin_def Let_def split: option.splits if_splits)
  then have "CanJoin user i s1"
    by (simp add: s1 consume_spend_def CanJoin_def)
  with v j show "\<exists>i. CanJoin user i s1 \<and> VerifyVideocallInviteToken (vParse H) (vNow H) tok = Some (i, jti)" by blast
qed

text \<open>
  C22. An invitation admits once per run. The account that redeems the link becomes a member of the room named in the token; from the
  end of that redemption on, every redemption of that link that starts, by anyone and at any later time, is refused and changes nothing,
  whatever else the service and the session store did in between, as long as the service keeps running and the store is not
  reopened from a file written before the redemption (a kill before the next flush loses the tombstone).
\<close>
theorem invite_single_use:
  assumes "jwt_checks_expiry (vParse H4)" "jti_expires (vParse H4) jti e" "carries_jti (vParse H4) tok jti" "vParse H2 = vParse H4"
    and "jti = vJTI H0" "jti \<noteq> ''''" "hasSessions cf"
    and "wf_store (inviteSessions s0)" "sessions (inviteSessions s0) jti = None"
    and "HandleInvite H0 cf inviter rq0 (Some (i, mins)) s0 = (s1, VInvite url tok e room, es1)"
    and "steps (vstep cf) (vNow H0, s1) (t2, s2)" "t2 \<le> vNow H2"
    and "HandleInviteConsume H2 cf user rq2 (Some tok) s2 = (s3, VRoom r, es3)"
    and "steps (vstep cf) (vNow H2, s3) (t4, s4)" "t4 \<le> vNow H4"
  shows "(\<exists>k. VerifyVideocallInviteToken (vParse H2) (vNow H2) tok = Some (k, jti) \<and> CanJoin user k s3)
    \<and> (\<exists>code text. HandleInviteConsume H4 cf user' rq4 (Some tok) s4 = (s4, VErr code text, []))"
proof -
  note k1 = HandleInvite_tracks [OF assms(10,7) assms(6) [unfolded assms(5)] assms(8) assms(9) [unfolded assms(5)], folded assms(5)]
  have c: "carries_jti (vParse H2) tok jti"
    using assms(3,4) by simp
  have live: "vNow H2 < e * second"
  proof -
    obtain c where "vParse H2 (vNow H2) tok = Some c"
      using assms(13) by (auto simp: HandleInviteConsume_def consume_check_def VerifyVideocallInviteToken_def say_def
          split: sum.splits option.splits if_splits)
    then show ?thesis
      using assms(1-4) unfolding jwt_checks_expiry_def jti_expires_def carries_jti_def by metis
  qed
  then have "unix (vNow H2) \<le> e" "unix t2 \<le> e"
    using less_unix_imp [of "vNow H2" e] unix_mono [OF assms(12)] by simp_all
  then have k2: "wf_store (inviteSessions s2)" "known jti e (inviteSessions s2)"
    using steps_known [OF assms(11), of jti e] k1 by simp_all
  note spent = HandleInviteConsume_spends [OF assms(13) c assms(6,7) k2]
  have "vParse H4 (vNow H4) tok = None \<or> \<not> Invite_IsValid jti (inviteSessions s4)"
  proof (cases "unix (vNow H4) \<le> e")
    case True
    then have "unix t4 \<le> e"
      using unix_mono [OF assms(15)] by simp
    then have "dead jti e s4"
      using steps_dead [OF assms(14)] spent(1) by simp
    then show ?thesis
      using tombstone_invalid [of jti e "inviteSessions s4"] assms(6) by (simp add: dead_def)
  next
    case False
    have "\<not> vNow H4 < e * second"
      using False less_unix_imp by fastforce
    then show ?thesis
      using assms(1-3) unfolding jwt_checks_expiry_def jti_expires_def carries_jti_def
      by (cases "vParse H4 (vNow H4) tok") blast+
  qed
  then show ?thesis
    using spent(2) consume_refused [OF assms(3,6,7)] by blast
qed

definition invite_parse :: jwt_parse where
  "invite_parse now tok = (if tok = ''gt'' \<and> now < 3600 * second then Some (invite_claims 0 ''g1'' ''ana'' ''r1'' (3600 * second)) else None)"

definition invite_host :: "nanos \<Rightarrow> vhost" where
  "invite_host now = (demo_host now)\<lparr>vParse := invite_parse\<rparr>"

definition demo_invited :: vresult where
  "demo_invited = HandleInvite (invite_host 0) demo_conf ''ana'' pin_request (Some (''r1'', 60)) demo_video"

definition demo_consumed :: vresult where
  "demo_consumed = HandleInviteConsume (invite_host 5) demo_conf ''eva'' pin_request (Some ''gt'') (fst demo_invited)"

lemma invite_parse_rules: "jwt_checks_expiry invite_parse" "jti_expires invite_parse ''g1'' 3600" "carries_jti invite_parse ''gt'' ''g1''"
  by (auto simp: jwt_checks_expiry_def jti_expires_def carries_jti_def invite_parse_def invite_claims_def str_claim_def
      unix_def second_def split: if_splits)

lemma invite_host_simps [simp]: "vNow (invite_host t) = t" "vParse (invite_host t) = invite_parse" "vJTI (invite_host t) = ''g1''"
  by (simp_all add: invite_host_def)

lemma demo_invited_reply: "fst (snd demo_invited) = VInvite ''https://host/#videocall=join&token=gt'' ''gt'' 3600 ''r1''"
  by code_simp

lemma demo_consumed_reply: "fst (snd demo_consumed) = VRoom (demo_room\<lparr>rmMembers := [''bob'', ''eva'']\<rparr>)"
  by code_simp

theorem invite_single_use_witness:
  "(\<exists>k. VerifyVideocallInviteToken (vParse (invite_host 5)) (vNow (invite_host 5)) ''gt'' = Some (k, ''g1'') \<and> CanJoin ''eva'' k (fst demo_consumed))
    \<and> (\<exists>code text. HandleInviteConsume (invite_host 9) demo_conf ''zoe'' pin_request (Some ''gt'') (fst demo_consumed)
                   = (fst demo_consumed, VErr code text, []))"
proof (rule invite_single_use [where ?H0.0 = "invite_host 0" and e = 3600])
  show "HandleInvite (invite_host 0) demo_conf ''ana'' pin_request (Some (''r1'', 60)) demo_video =
      (fst demo_invited, VInvite ''https://host/#videocall=join&token=gt'' ''gt'' 3600 ''r1'', snd (snd demo_invited))"
    using reply_eq [OF demo_invited_reply] by (simp add: demo_invited_def)
  show "HandleInviteConsume (invite_host 5) demo_conf ''eva'' pin_request (Some ''gt'') (fst demo_invited) =
      (fst demo_consumed, VRoom (demo_room\<lparr>rmMembers := [''bob'', ''eva'']\<rparr>), snd (snd demo_consumed))"
    using reply_eq [OF demo_consumed_reply] by (simp add: demo_consumed_def)
  show "steps (vstep demo_conf) (vNow (invite_host 0), fst demo_invited) (0, fst demo_invited)"
    "steps (vstep demo_conf) (vNow (invite_host 5), fst demo_consumed) (5, fst demo_consumed)"
    by (simp_all add: steps.steps_refl)
qed (simp_all add: invite_parse_rules demo_video_store empty_store_def wf_store_def)

text \<open>
  Between the check and the tombstone there is no lock: two requests that both pass the check before either spends the link both
  get their account into the room.
\<close>

lemma invite_race_admits_two:
  assumes "consume_check H1 cf u1 rq1 (Some tok) s = Ok (i, jti)" "consume_check H2 cf u2 rq2 (Some tok) s = Ok (i, jti)"
  defines "s' \<equiv> consume_spend H2 cf jti (fst (consume_grant u2 i (consume_spend H1 cf jti (fst (consume_grant u1 i s)))))"
  shows "CanJoin u1 i s' \<and> CanJoin u2 i s'"
proof -
  obtain r where "rooms s i = Some r"
    using assms(1) by (auto simp: consume_check_def split: if_splits option.splits)
  then show ?thesis
    by (auto simp: s'_def consume_spend_def consume_grant_def CanJoin_def Let_def)
qed

end
