(* ===== verification/DeployStore.thy ===== *)
theory DeployStore
  imports GoPath GoRunes Prelude "HOL-Library.Char_ord" "HOL-Library.List_Lexorder" "HOL-Library.Word"
begin

text \<open>
  The registry of deployed applications: \<^verbatim>\<open>internal/deploy/store.go\<close>, the migration of its file in \<^verbatim>\<open>migrate.go\<close>, the
  history queries of \<^verbatim>\<open>lifecycle.go\<close> and the previews of \<^verbatim>\<open>preview.go\<close>.

  The file \<^verbatim>\<open>apps.json\<close> is given by what a decoder sees of it: nothing, unreadable, blank, an array (with the applications,
  when they decode), an object (with its version and the envelope, when they decode), or anything else. Every method of the
  store runs under the process mutex and the file lock. \<open>writeFileAtomic\<close> either replaces the document or leaves it, which
  \<open>DurableFile\<close> shows of it. A nil map and an empty one are the same here; the methods that would write into a nil map create it first.
\<close>

section \<open>Data\<close>

type_synonym environ = "string \<rightharpoonup> string"

record DeployRecord =
  drID :: string
  drRef :: string
  drCommit :: string
  drPreview :: string
  drProject :: string
  drStatus :: string
  drStarted :: secs
  drFinished :: secs
  drMessage :: string
  drError :: string

record App =
  apName :: string
  apBranch :: string
  apComposeFile :: string
  apDomain :: string
  apPort :: int
  apEnv :: environ
  apPreviewEnv :: environ
  apAutodeploy :: bool
  apCreated :: secs
  apUpdated :: secs
  apDeploys :: "DeployRecord list"

record app_project =
  pjID :: string
  pjName :: string

record app_deployment =
  dpID :: string
  dpProjectID :: string
  dpNodeID :: string
  dpBranch :: string
  dpComposeFile :: string
  dpDomain :: string
  dpPort :: int
  dpEnv :: environ
  dpPreviewEnv :: environ
  dpAutodeploy :: bool
  dpCreated :: secs
  dpUpdated :: secs
  dpDeploys :: "DeployRecord list"

record File =
  SchemaVersion :: int
  Projects :: "app_project list"
  Deployments :: "app_deployment list"

datatype appsfile =
    AAbsent
  | AUnreadable
  | ABlank
  | AArray "App list option"
  | AObject "int option" "File option"
  | AOther

datatype Shape = ShapeAusente | ShapeV1Array | ShapeV2 | ShapeDesconhecida

datatype deploy_error =
    DUnreadable
  | DPendingV1
  | DUnknown int
  | DCorrupted
  | DWrite
  | DNoApp string
  | DBadName string
  | DExists string
  | DProvision
  | DConcurrent
  | DNoDataDir
  | DBackup
  | DRolledBack
  | DManual
  | DStep string
  | DResolve string

definition AppsSchemaVersion :: int where "AppsSchemaVersion = 2"
definition DefaultNodeID :: string where "DefaultNodeID = ''vps-187''"
definition maxDeployHistory :: nat where "maxDeployHistory = 30"
definition AppsRoot :: string where "AppsRoot = ''/srv/vpsm-apps''"

section \<open>Names and places\<close>

definition slug_char :: "char \<Rightarrow> bool" where
  "slug_char c \<longleftrightarrow> byte_in 97 122 c \<or> byte_in 48 57 c"

text \<open>The expression \<^verbatim>\<open>^[a-z][a-z0-9-]{1,38}[a-z0-9]$\<close>.\<close>

definition ValidName :: "string \<Rightarrow> bool" where
  "ValidName s \<longleftrightarrow>
     3 \<le> length s \<and> length s \<le> 40 \<and> byte_in 97 122 (hd s) \<and> slug_char (last s)
     \<and> list_all (\<lambda>c. slug_char c \<or> c = CHR ''-'') s"

definition RepoPath :: "string \<Rightarrow> string" where
  "RepoPath name = Join [AppsRoot, name @ ''.git'']"

definition WorkDir :: "string \<Rightarrow> string \<Rightarrow> string" where
  "WorkDir name preview = (if preview = '''' then Join [AppsRoot, name] else Join [AppsRoot, name @ ''-pr-'' @ preview])"

definition ComposeProject :: "string \<Rightarrow> string \<Rightarrow> string" where
  "ComposeProject name preview = (if preview = '''' then ''vpsm-'' @ name else ''vpsm-'' @ name @ ''-pr-'' @ preview)"

definition LogPath :: "string \<Rightarrow> string \<Rightarrow> string \<Rightarrow> string" where
  "LogPath dataDir name deployID = Join [Join [dataDir, ''deploy'', name], deployID @ ''.log'']"

section \<open>The file\<close>

fun detectShapeBytes :: "appsfile \<Rightarrow> Shape \<times> int" where
  "detectShapeBytes (AArray (Some apps)) = (ShapeV1Array, 0)"
| "detectShapeBytes (AObject (Some v) f) =
     (if v \<noteq> AppsSchemaVersion then (ShapeDesconhecida, v) else if f = None then (ShapeDesconhecida, v) else (ShapeV2, v))"
| "detectShapeBytes _ = (ShapeDesconhecida, 0)"

definition DetectShape :: "appsfile \<Rightarrow> (Shape \<times> int) option" where
  "DetectShape f = (case f of AAbsent \<Rightarrow> Some (ShapeAusente, 0) | AUnreadable \<Rightarrow> None | _ \<Rightarrow> Some (detectShapeBytes f))"

definition GuardCLI :: "appsfile \<Rightarrow> deploy_error + unit" where
  "GuardCLI f =
     (case DetectShape f of
        None \<Rightarrow> Err DUnreadable
      | Some (sh, v) \<Rightarrow>
          (case sh of
             ShapeAusente \<Rightarrow> Ok ()
           | ShapeV2 \<Rightarrow> Ok ()
           | ShapeV1Array \<Rightarrow> Err DPendingV1
           | ShapeDesconhecida \<Rightarrow> Err (DUnknown v)))"

definition empty_file :: File where
  "empty_file = \<lparr>SchemaVersion = AppsSchemaVersion, Projects = [], Deployments = []\<rparr>"

definition loadFile :: "appsfile \<Rightarrow> deploy_error + File" where
  "loadFile f =
     (case f of
        AAbsent \<Rightarrow> Ok empty_file
      | AUnreadable \<Rightarrow> Err DUnreadable
      | _ \<Rightarrow>
          (case detectShapeBytes f of
             (ShapeV2, v) \<Rightarrow> (case f of AObject _ (Some d) \<Rightarrow> Ok d | _ \<Rightarrow> Err DCorrupted)
           | (ShapeV1Array, v) \<Rightarrow> Err DPendingV1
           | (_, v) \<Rightarrow> Err (DUnknown v)))"

text \<open>What is on disk once the envelope has been written.\<close>

definition written :: "File \<Rightarrow> appsfile" where
  "written d = AObject (Some (SchemaVersion d)) (Some d)"

section \<open>Conversion\<close>

definition appToV2 :: "App \<Rightarrow> string \<Rightarrow> app_project \<times> app_deployment" where
  "appToV2 a node =
     (\<lparr>pjID = apName a, pjName = apName a\<rparr>,
      \<lparr>dpID = apName a @ ''@'' @ node, dpProjectID = apName a, dpNodeID = node, dpBranch = apBranch a,
       dpComposeFile = apComposeFile a, dpDomain = apDomain a, dpPort = apPort a, dpEnv = apEnv a, dpPreviewEnv = apPreviewEnv a,
       dpAutodeploy = apAutodeploy a, dpCreated = apCreated a, dpUpdated = apUpdated a, dpDeploys = apDeploys a\<rparr>)"

definition v2ToApp :: "app_project \<Rightarrow> app_deployment \<Rightarrow> App" where
  "v2ToApp p d =
     \<lparr>apName = (if dpProjectID d = '''' then pjID p else dpProjectID d), apBranch = dpBranch d, apComposeFile = dpComposeFile d,
      apDomain = dpDomain d, apPort = dpPort d, apEnv = dpEnv d, apPreviewEnv = dpPreviewEnv d, apAutodeploy = dpAutodeploy d,
      apCreated = dpCreated d, apUpdated = dpUpdated d, apDeploys = dpDeploys d\<rparr>"

definition last_by :: "('a \<Rightarrow> string) \<Rightarrow> 'a list \<Rightarrow> (string \<rightharpoonup> 'a)" where
  "last_by k xs = fold (\<lambda>x m. m(k x \<mapsto> x)) xs Map.empty"

definition apps_of :: "File \<Rightarrow> App list" where
  "apps_of f =
     sort_key apName (map (\<lambda>d. v2ToApp (case last_by pjID (Projects f) (dpProjectID d) of
                                         Some p \<Rightarrow> p | None \<Rightarrow> \<lparr>pjID = dpProjectID d, pjName = dpProjectID d\<rparr>) d) (Deployments f))"

definition load_apps :: "appsfile \<Rightarrow> deploy_error + App list" where
  "load_apps f = (case loadFile f of Inl e \<Rightarrow> Err e | Inr d \<Rightarrow> Ok (apps_of d))"

text \<open>The envelope that \<open>persist_apps\<close> builds: labels, nodes and identifiers come from the previous one.\<close>

definition rebuilt :: "File \<Rightarrow> App list \<Rightarrow> File" where
  "rebuilt prev apps =
     \<lparr>SchemaVersion = AppsSchemaVersion,
      Projects = map (\<lambda>a. let p = fst (appToV2 a DefaultNodeID)
                          in case last_by pjID (Projects prev) (apName a) of None \<Rightarrow> p | Some old \<Rightarrow> p\<lparr>pjName := pjName old\<rparr>) apps,
      Deployments = map (\<lambda>a. let d = snd (appToV2 a DefaultNodeID)
                             in case last_by dpProjectID (Deployments prev) (apName a) of
                                  None \<Rightarrow> d | Some old \<Rightarrow> d\<lparr>dpNodeID := dpNodeID old, dpID := dpID old\<rparr>) apps\<rparr>"

definition persist_apps :: "bool \<Rightarrow> App list \<Rightarrow> appsfile \<Rightarrow> appsfile \<times> (deploy_error + unit)" where
  "persist_apps ok apps f =
     (case loadFile f of
        Inl e \<Rightarrow> (f, Err e)
      | Inr prev \<Rightarrow>
          if ok then (written (rebuilt prev (sort_key apName apps)), Ok ()) else (f, Err DWrite))"

section \<open>The methods of the store\<close>

definition List_apps :: "appsfile \<Rightarrow> deploy_error + App list" where
  "List_apps f = load_apps f"

definition Get_app :: "string \<Rightarrow> appsfile \<Rightarrow> deploy_error + App option" where
  "Get_app name f = (case load_apps f of Inl e \<Rightarrow> Err e | Inr apps \<Rightarrow> Ok (find (\<lambda>a. apName a = name) apps))"

definition pruned :: "'a list \<Rightarrow> 'a list" where
  "pruned ds = (if length ds > maxDeployHistory then drop (length ds - maxDeployHistory) ds else ds)"

definition save_app_locked :: "bool \<Rightarrow> secs \<Rightarrow> App \<Rightarrow> appsfile \<Rightarrow> appsfile \<times> (deploy_error + unit)" where
  "save_app_locked ok now a f =
     (case load_apps f of
        Inl e \<Rightarrow> (f, Err e)
      | Inr apps \<Rightarrow>
          let a' = a\<lparr>apUpdated := now, apDeploys := pruned (apDeploys a)\<rparr>
          in persist_apps ok (if list_ex (\<lambda>x. apName x = apName a) apps then upd_first (\<lambda>x. apName x = apName a) (\<lambda>_. a') apps
                               else apps @ [a']) f)"

definition Save_app :: "bool \<Rightarrow> secs \<Rightarrow> App \<Rightarrow> appsfile \<Rightarrow> appsfile \<times> (deploy_error + unit)" where
  "Save_app ok now a f = save_app_locked ok now a f"

text \<open>The application with a name is edited in place and the list written back; without one, an error.\<close>

definition edit_app :: "bool \<Rightarrow> string \<Rightarrow> (App \<Rightarrow> App) \<Rightarrow> appsfile \<Rightarrow> appsfile \<times> (deploy_error + App)" where
  "edit_app ok name g f =
     (case load_apps f of
        Inl e \<Rightarrow> (f, Err e)
      | Inr apps \<Rightarrow>
          (case find (\<lambda>a. apName a = name) apps of
             None \<Rightarrow> (f, Err (DNoApp name))
           | Some a \<Rightarrow>
               (case persist_apps ok (upd_first (\<lambda>a. apName a = name) g apps) f of
                  (f', Inl e) \<Rightarrow> (f', Err e)
                | (f', Inr _) \<Rightarrow> (f', Ok (g a)))))"

definition env_edit :: "(string \<times> string) list \<Rightarrow> string list \<Rightarrow> environ \<Rightarrow> environ" where
  "env_edit sets unset e = fold (\<lambda>k m. m(k := None)) unset (fold (\<lambda>(k, v) m. m(k \<mapsto> v)) sets e)"

definition UpdateEnv :: "bool \<Rightarrow> secs \<Rightarrow> string \<Rightarrow> bool \<Rightarrow> (string \<times> string) list \<Rightarrow> string list \<Rightarrow> appsfile
    \<Rightarrow> appsfile \<times> (deploy_error + App)" where
  "UpdateEnv ok now name preview sets unset f =
     edit_app ok name (\<lambda>a. (if preview then a\<lparr>apPreviewEnv := env_edit sets unset (apPreviewEnv a)\<rparr>
                           else a\<lparr>apEnv := env_edit sets unset (apEnv a)\<rparr>)\<lparr>apUpdated := now\<rparr>) f"

definition put_record :: "DeployRecord \<Rightarrow> DeployRecord list \<Rightarrow> DeployRecord list" where
  "put_record rec ds =
     pruned (if list_ex (\<lambda>d. drID d = drID rec) ds then upd_first (\<lambda>d. drID d = drID rec) (\<lambda>_. rec) ds else ds @ [rec])"

definition AppendDeploy :: "bool \<Rightarrow> secs \<Rightarrow> string \<Rightarrow> DeployRecord \<Rightarrow> appsfile \<Rightarrow> appsfile \<times> (deploy_error + App)" where
  "AppendDeploy ok now name rec f = edit_app ok name (\<lambda>a. a\<lparr>apDeploys := put_record rec (apDeploys a), apUpdated := now\<rparr>) f"

definition Remove_app :: "bool \<Rightarrow> string \<Rightarrow> appsfile \<Rightarrow> appsfile \<times> (deploy_error + unit)" where
  "Remove_app ok name f =
     (case load_apps f of
        Inl e \<Rightarrow> (f, Err e)
      | Inr apps \<Rightarrow> persist_apps ok (filter (\<lambda>a. apName a \<noteq> name) apps) f)"

section \<open>History\<close>

definition LastProdDeploy :: "App \<Rightarrow> DeployRecord option" where
  "LastProdDeploy a = find (\<lambda>d. drPreview d = '''') (rev (apDeploys a))"

definition PreviousCommit :: "App \<Rightarrow> string" where
  "PreviousCommit a =
     (let good = map drCommit (filter (\<lambda>d. drPreview d = '''' \<and> drStatus d = ''running'' \<and> drCommit d \<noteq> '''') (apDeploys a))
      in if length good < 2 then ''''
         else case find (\<lambda>c. c \<noteq> last good) (tl (rev good)) of None \<Rightarrow> '''' | Some c \<Rightarrow> c)"

section \<open>Previews\<close>

definition PreviewTTLHours :: secs where "PreviewTTLHours = 48"
definition MaxPreviews :: nat where "MaxPreviews = 3"

definition active :: "DeployRecord \<Rightarrow> bool" where
  "active d \<longleftrightarrow> drPreview d \<noteq> '''' \<and> drStatus d = ''running''"

definition Previews :: "App \<Rightarrow> string list" where
  "Previews a = rev (remdups (rev (map drPreview (filter active (apDeploys a)))))"

definition ActivePreviews :: "App \<Rightarrow> (string \<rightharpoonup> secs)" where
  "ActivePreviews a = fold (\<lambda>d m. m(drPreview d \<mapsto> (case m (drPreview d) of None \<Rightarrow> max 0 (drStarted d) | Some t \<Rightarrow> max t (drStarted d))))
     (filter active (apDeploys a)) Map.empty"

definition CanDeployPreview :: "App \<Rightarrow> string \<Rightarrow> bool" where
  "CanDeployPreview a slug \<longleftrightarrow>
     ActivePreviews a slug \<noteq> None \<or> length (Previews a) < MaxPreviews"

text \<open>The letters of a branch name; \<open>low\<close> is \<open>unicode.ToLower\<close> of a rune beyond ASCII, given by its encoding.\<close>

definition ToLower_runes :: "(string \<Rightarrow> string) \<Rightarrow> string \<Rightarrow> string" where
  "ToLower_runes low s = join_runes (map (\<lambda>r. case r of [c] \<Rightarrow> [lower_char c] | _ \<Rightarrow> low r) (runes s))"

fun dashed :: "bool \<Rightarrow> string \<Rightarrow> string" where
  "dashed _ [] = []"
| "dashed gap (c # cs) = (if slug_char c then c # dashed False cs else if gap then dashed True cs else CHR ''-'' # dashed True cs)"

definition trim_dashes :: "string \<Rightarrow> string" where
  "trim_dashes s = rev (dropWhile (\<lambda>c. c = CHR ''-'') (rev (dropWhile (\<lambda>c. c = CHR ''-'') s)))"

definition PreviewSlug :: "(string \<Rightarrow> string) \<Rightarrow> string \<Rightarrow> string" where
  "PreviewSlug low branch =
     (let b = trim_dashes (dashed False (ToLower_runes low (TrimPrefix branch ''refs/heads/'')))
      in if length b > 24 then trim_dashes (take 24 b) else b)"

unbundle bit_operations_syntax

text \<open>FNV-1a over 32 bits, and the port of a preview.\<close>

definition fnv32a :: "string \<Rightarrow> 32 word" where
  "fnv32a s = fold (\<lambda>c h. (h XOR word_of_nat (of_char c)) * 16777619) s 2166136261"

definition previewPort :: "string \<Rightarrow> string \<Rightarrow> int" where
  "previewPort name preview = 20000 + int (unat (fnv32a (name @ [CHR 0x00] @ preview) mod 10000))"

section \<open>Migration\<close>

text \<open>
  The directory of the registry: the file and the backups by their time stamp. The record \<open>mhost\<close> says which calls succeed;
  \<open>seen\<close> is the file at the first look, before the locks.
\<close>

record appsdir =
  adFile :: appsfile
  adBackups :: "secs \<rightharpoonup> appsfile"

record mhost =
  mgDataDir :: string
  mgNode :: string
  mgNow :: secs
  mgTryLock :: bool
  mgMkdir :: bool
  mgLockFile :: bool
  mgFlock :: bool
  mgBackup :: bool
  mgWrite :: bool
  mgRemove :: bool
  mgRestore :: bool
  mgDrop :: bool

definition v2_of :: "string \<Rightarrow> App list \<Rightarrow> File" where
  "v2_of node apps =
     \<lparr>SchemaVersion = AppsSchemaVersion, Projects = map (\<lambda>a. fst (appToV2 a node)) apps,
      Deployments = map (\<lambda>a. snd (appToV2 a node)) apps\<rparr>"

text \<open>The closure \<open>rollback\<close>: the file goes, the backup comes back under its name.\<close>

definition migrate_rollback :: "mhost \<Rightarrow> appsdir \<Rightarrow> appsdir \<times> (deploy_error + unit)" where
  "migrate_rollback H d =
     (if \<not> mgRemove H then (d, Err DManual)
      else if \<not> mgRestore H then (d\<lparr>adFile := AAbsent\<rparr>, Err DManual)
      else
        let d' = d\<lparr>adFile := (case adBackups d (mgNow H) of Some f \<Rightarrow> f | None \<Rightarrow> AAbsent)\<rparr>
        in (if mgDrop H then d'\<lparr>adBackups := (adBackups d')(mgNow H := None)\<rparr> else d', Err DRolledBack))"

text \<open>Steps 3 to 8, under both locks.\<close>

definition migrate_locked :: "mhost \<Rightarrow> appsdir \<Rightarrow> appsdir \<times> (deploy_error + unit)" where
  "migrate_locked H d =
     (case adFile d of
        AAbsent \<Rightarrow> (d, Ok ())
      | AUnreadable \<Rightarrow> (d, Err DUnreadable)
      | f \<Rightarrow>
          (case detectShapeBytes f of
             (ShapeV2, v) \<Rightarrow> (d, Ok ())
           | (ShapeV1Array, v) \<Rightarrow>
               (case f of
                  AArray (Some apps) \<Rightarrow>
                    (if \<not> mgBackup H then (d, Err DBackup)
                     else
                       let d1 = d\<lparr>adBackups := (adBackups d)(mgNow H \<mapsto> f)\<rparr>;
                           node = (if mgNode H = '''' then DefaultNodeID else mgNode H)
                       in if mgWrite H then (d1\<lparr>adFile := written (v2_of node apps)\<rparr>, Ok ()) else migrate_rollback H d1)
                | _ \<Rightarrow> (d, Err DCorrupted))
           | (_, v) \<Rightarrow> (d, Err (DUnknown v))))"

definition MigrateApps :: "mhost \<Rightarrow> appsfile \<Rightarrow> appsdir \<Rightarrow> appsdir \<times> (deploy_error + unit)" where
  "MigrateApps H seen d =
     (if mgDataDir H = '''' then (d, Err DNoDataDir)
      else if (case DetectShape seen of Some (sh, v) \<Rightarrow> sh = ShapeV2 \<or> sh = ShapeAusente | None \<Rightarrow> False) then (d, Ok ())
      else if \<not> mgTryLock H then (d, Err DConcurrent)
      else if \<not> mgMkdir H \<or> \<not> mgLockFile H then (d, Err DUnreadable)
      else if \<not> mgFlock H then (d, Err DConcurrent)
      else migrate_locked H d)"

end
