(* ===== verification/DeployRun.thy ===== *)
theory DeployRun
  imports DeployStore Http
begin

text \<open>
  The deploy itself and what surrounds it: \<^verbatim>\<open>run.go\<close>, \<^verbatim>\<open>lifecycle.go\<close>, \<^verbatim>\<open>preview.go\<close>, \<^verbatim>\<open>nginx.go\<close>, \<^verbatim>\<open>compose.go\<close> and
  \<^verbatim>\<open>seed.go\<close> of \<^verbatim>\<open>internal/deploy\<close>, the post-receive hook in \<^verbatim>\<open>cmd/vpsmctl/app.go\<close> and the queue runner in
  \<^verbatim>\<open>internal/queue/runners_deploy.go\<close>.

  Commands (\<^verbatim>\<open>git\<close>, \<^verbatim>\<open>docker\<close>, \<^verbatim>\<open>nginx\<close>), file writes and the clock answer through the record \<open>dhost\<close>; what is
  done to the host is a list of effects, except for the virtual hosts of nginx, which are state. The template of a virtual
  host is filled with a domain and a port; \<open>VBlank\<close> is an empty file.
\<close>

section \<open>The host\<close>

datatype vhostfile = VConf string int | VBlank

record dworld =
  wApps :: appsfile
  wVhosts :: "string \<rightharpoonup> vhostfile"

datatype deffect =
    InitRepo string
  | WriteHook string
  | MakeDir string
  | RemoveAll string
  | Checkout string string
  | WriteEnv string string
  | ComposeUp string string
  | ComposeDown string string string
  | Seed string string

record dhost =
  dNow :: secs
  dNewID :: string
  dRevParse :: "string \<Rightarrow> string \<Rightarrow> string option"
  dSubject :: "string \<Rightarrow> string \<Rightarrow> string"
  dMkdir :: bool
  dCheckout :: bool
  dEnvWritten :: bool
  dComposeThere :: "string \<Rightarrow> bool"
  dComposeUp :: bool
  dSitesDir :: bool
  dVhostWritten :: bool
  dNginxOK :: "(string \<rightharpoonup> vhostfile) \<Rightarrow> bool"
  dReload :: bool
  dSaved :: bool
  dProvisioned :: bool
  dSeeded :: bool

section \<open>Virtual hosts\<close>

definition nginxSitesDir :: string where "nginxSitesDir = ''/etc/nginx/sites-enabled''"

definition vhostPath :: "string \<Rightarrow> string" where
  "vhostPath project = Join [nginxSitesDir, ''vpsm-app-'' @ project @ ''.conf'']"

text \<open>
  \<open>hadPrev\<close> is the error of reading the previous file: nil when there was one. The branch for a rejected configuration removes
  the file in that case, and writes back the bytes read (none) in the other.
\<close>

definition writeVhost :: "dhost \<Rightarrow> string \<Rightarrow> string \<Rightarrow> int \<Rightarrow> dworld \<Rightarrow> dworld \<times> bool" where
  "writeVhost H project domain port w =
     (if \<not> dSitesDir H then (w, False)
      else
        let path = vhostPath project;
            prev = wVhosts w path;
            w1 = w\<lparr>wVhosts := (wVhosts w)(path \<mapsto> VConf domain port)\<rparr>
        in if \<not> dVhostWritten H then (w, False)
           else if \<not> dNginxOK H (wVhosts w1)
           then (if prev \<noteq> None then w\<lparr>wVhosts := (wVhosts w)(path := None)\<rparr> else w\<lparr>wVhosts := (wVhosts w)(path \<mapsto> VBlank)\<rparr>, False)
           else (w1, dReload H))"

definition removeVhost :: "string \<Rightarrow> dworld \<Rightarrow> dworld" where
  "removeVhost project w = w\<lparr>wVhosts := (wVhosts w)(vhostPath project := None)\<rparr>"

section \<open>Deploying\<close>

record Spec =
  spApp :: string
  spRef :: string
  spCommit :: string
  spPreview :: string
  spTrigger :: string
  spDeployID :: string

definition or_default :: "string \<Rightarrow> string \<Rightarrow> string" where
  "or_default a b = (if a = '''' then b else a)"

definition deployDomain :: "App \<Rightarrow> string \<Rightarrow> string" where
  "deployDomain a preview =
     (if apDomain a = '''' then '''' else if preview = '''' then apDomain a else preview @ ''.'' @ apDomain a)"

fun decimals :: "nat \<Rightarrow> string" where
  "decimals n = (if n < 10 then [char_of (48 + n)] else decimals (n div 10) @ [char_of (48 + n mod 10)])"

declare decimals.simps [simp del]

definition deploy_port :: "App \<Rightarrow> string \<Rightarrow> int" where
  "deploy_port a preview = (if preview = '''' then apPort a else previewPort (apName a) preview)"

definition deploy_env :: "App \<Rightarrow> string \<Rightarrow> environ" where
  "deploy_env a preview =
     (let env = (if preview = '''' then apEnv a else apEnv a ++ apPreviewEnv a);
          port = deploy_port a preview
      in if port > 0 \<and> env ''PORT'' = None then env(''PORT'' \<mapsto> decimals (nat port)) else env)"

text \<open>The text of \<^verbatim>\<open>.env\<close>; \<open>keys\<close> lists the keys of the map.\<close>

definition env_line :: "environ \<Rightarrow> string \<Rightarrow> string" where
  "env_line env k =
     (case env k of
        None \<Rightarrow> ''''
      | Some v \<Rightarrow> if CHR 0x0A \<in> set v \<or> CHR 0x0D \<in> set v then '''' else k @ ''='' @ v @ [CHR 0x0A])"

definition env_header :: string where
  "env_header = ''# generated by vps-manager '' @ [CHR 0xE2, CHR 0x80, CHR 0x94] @ '' do not edit (use the app'' @ [CHR 0x27] @ ''s env UI)'' @ [CHR 0x0A]"

definition writeDotEnv :: "string list \<Rightarrow> environ \<Rightarrow> string" where
  "writeDotEnv keys env = env_header @ concat (map (env_line env) (sort keys))"

text \<open>The steps of a deploy after its record is written: the first that fails, and what was done until then.\<close>

definition deploy_steps :: "dhost \<Rightarrow> string list \<Rightarrow> App \<Rightarrow> string \<Rightarrow> string \<Rightarrow> deffect list \<times> string option" where
  "deploy_steps H keys a commit preview =
     (let dir = WorkDir (apName a) preview;
          project = ComposeProject (apName a) preview;
          compose = Join [dir, or_default (apComposeFile a) ''docker-compose.yml''];
          e1 = [MakeDir dir];
          e2 = e1 @ [Checkout commit dir];
          e3 = e2 @ [WriteEnv (Join [dir, ''.env'']) (writeDotEnv keys (deploy_env a preview))]
      in if \<not> dMkdir H then ([], Some ''mkdir work-tree'')
         else if \<not> dCheckout H then (e1, Some ''git checkout'')
         else if \<not> dEnvWritten H then (e2, Some ''write .env'')
         else if \<not> dComposeThere H compose then (e3, Some ''compose file'')
         else if \<not> dComposeUp H then (e3, Some ''docker compose up'')
         else (e3 @ [ComposeUp project compose], None))"

definition put_deploy :: "dhost \<Rightarrow> string \<Rightarrow> DeployRecord \<Rightarrow> dworld \<Rightarrow> dworld" where
  "put_deploy H name rec w = w\<lparr>wApps := fst (AppendDeploy (dSaved H) (dNow H) name rec (wApps w))\<rparr>"

definition Deploy :: "dhost \<Rightarrow> string list \<Rightarrow> Spec \<Rightarrow> dworld \<Rightarrow> dworld \<times> deffect list \<times> (deploy_error + DeployRecord)" where
  "Deploy H keys sp w =
     (case Get_app (spApp sp) (wApps w) of
        Inl e \<Rightarrow> (w, [], Err e)
      | Inr None \<Rightarrow> (w, [], Err (DNoApp (spApp sp)))
      | Inr (Some a) \<Rightarrow>
          (let ref = or_default (spRef sp) (''refs/heads/'' @ or_default (apBranch a) ''main'');
               repo = RepoPath (apName a)
           in case (if spCommit sp \<noteq> '''' then Some (spCommit sp) else dRevParse H repo ref) of
                None \<Rightarrow> (w, [], Err (DResolve ref))
              | Some commit \<Rightarrow>
                  (let rec = \<lparr>drID = or_default (spDeployID sp) (dNewID H), drRef = ref, drCommit = commit, drPreview = spPreview sp,
                             drProject = ComposeProject (apName a) (spPreview sp), drStatus = ''building'', drStarted = dNow H,
                             drFinished = 0, drMessage = dSubject H repo commit, drError = ''''\<rparr>;
                       w1 = put_deploy H (apName a) rec w
                   in case deploy_steps H keys a commit (spPreview sp) of
                        (es, Some step) \<Rightarrow>
                          (put_deploy H (apName a) (rec\<lparr>drStatus := ''failed'', drError := step, drFinished := dNow H\<rparr>) w1, es, Err (DStep step))
                      | (es, None) \<Rightarrow>
                          (let dom = deployDomain a (spPreview sp);
                               port = deploy_port a (spPreview sp);
                               w2 = (if dom \<noteq> '''' \<and> port > 0 then fst (writeVhost H (drProject rec) dom port w1) else w1);
                               rec' = rec\<lparr>drStatus := ''running'', drFinished := dNow H\<rparr>
                           in (put_deploy H (apName a) rec' w2, es, Ok rec')))))"

section \<open>Creating and destroying\<close>

definition Provision :: "dhost \<Rightarrow> string \<Rightarrow> deffect list \<times> (deploy_error + unit)" where
  "Provision H name =
     (if \<not> ValidName name then ([], Err (DBadName name))
      else if \<not> dProvisioned H then ([], Err DProvision)
      else ([InitRepo (RepoPath name), WriteHook (RepoPath name), MakeDir (WorkDir name '''')], Ok ()))"

definition Create_app :: "dhost \<Rightarrow> App \<Rightarrow> dworld \<Rightarrow> dworld \<times> deffect list \<times> (deploy_error + App)" where
  "Create_app H a w =
     (if \<not> ValidName (apName a) then (w, [], Err (DBadName (apName a)))
      else if (case Get_app (apName a) (wApps w) of Inr (Some _) \<Rightarrow> True | _ \<Rightarrow> False) then (w, [], Err (DExists (apName a)))
      else
        let a' = a\<lparr>apBranch := or_default (apBranch a) ''main'', apComposeFile := or_default (apComposeFile a) ''docker-compose.yml'',
                   apCreated := dNow H, apUpdated := dNow H\<rparr>
        in case Provision H (apName a) of
             (es, Inl e) \<Rightarrow> (w, es, Err e)
           | (es, Inr _) \<Rightarrow>
               (case Save_app (dSaved H) (dNow H) a' (wApps w) of
                  (f, Inl e) \<Rightarrow> (w\<lparr>wApps := f\<rparr>, es, Err e)
                | (f, Inr _) \<Rightarrow> (w\<lparr>wApps := f\<rparr>, es, Ok a')))"

definition rolled_back :: "string \<Rightarrow> DeployRecord \<Rightarrow> DeployRecord" where
  "rolled_back preview d = (if drPreview d = preview \<and> drStatus d = ''running'' then d\<lparr>drStatus := ''rolled_back''\<rparr> else d)"

definition TeardownPreview :: "dhost \<Rightarrow> App \<Rightarrow> string \<Rightarrow> dworld \<Rightarrow> dworld \<times> deffect list" where
  "TeardownPreview H a preview w =
     (let project = ComposeProject (apName a) preview;
          dir = WorkDir (apName a) preview;
          w1 = removeVhost project w
      in (case Get_app (apName a) (wApps w1) of
            Inr (Some fresh) \<Rightarrow>
              w1\<lparr>wApps := fst (Save_app (dSaved H) (dNow H) (fresh\<lparr>apDeploys := map (rolled_back preview) (apDeploys fresh)\<rparr>) (wApps w1))\<rparr>
          | _ \<Rightarrow> w1,
          [ComposeDown project dir (or_default (apComposeFile a) ''docker-compose.yml''), RemoveAll dir]))"

definition teardown_all :: "dhost \<Rightarrow> App \<Rightarrow> string list \<Rightarrow> dworld \<Rightarrow> dworld \<times> deffect list" where
  "teardown_all H a ps w = fold (\<lambda>p (w, es). let (w', es') = TeardownPreview H a p w in (w', es @ es')) ps (w, [])"

definition Destroy :: "dhost \<Rightarrow> string \<Rightarrow> dworld \<Rightarrow> dworld \<times> deffect list \<times> (deploy_error + unit)" where
  "Destroy H name w =
     (case Get_app name (wApps w) of
        Inl e \<Rightarrow> (w, [], Err e)
      | Inr None \<Rightarrow> (w, [], Err (DNoApp name))
      | Inr (Some a) \<Rightarrow>
          (let (w1, es) = teardown_all H a (Previews a) w;
               w2 = removeVhost (ComposeProject name '''') w1;
               (f, r) = Remove_app (dSaved H) name (wApps w2)
           in (w2\<lparr>wApps := f\<rparr>,
               es @ [ComposeDown (ComposeProject name '''') (WorkDir name '''') ''docker-compose.yml'', RemoveAll (RepoPath name),
                     RemoveAll (WorkDir name '''')], r)))"

definition CreateAndSeed :: "dhost \<Rightarrow> string \<Rightarrow> int \<Rightarrow> string \<Rightarrow> App \<Rightarrow> environ option \<Rightarrow> dworld
    \<Rightarrow> dworld \<times> deffect list \<times> (deploy_error + App)" where
  "CreateAndSeed H tmplName tmplPort compose a env w =
     (let a' = a\<lparr>apBranch := or_default (apBranch a) ''main'', apComposeFile := ''docker-compose.yml'',
                apPort := (if apPort a = 0 then tmplPort else apPort a), apEnv := (case env of None \<Rightarrow> apEnv a | Some e \<Rightarrow> e)\<rparr>
      in case Create_app H a' w of
           (w1, es, Inl e) \<Rightarrow> (w1, es, Err e)
         | (w1, es, Inr c) \<Rightarrow>
             if dSeeded H then (w1, es @ [Seed (RepoPath (apName c)) compose], Ok c)
             else let (w2, es2, _) = Destroy H (apName c) w1 in (w2, es @ es2, Err (DStep (''seed template: '' @ tmplName))))"

section \<open>Previews\<close>

text \<open>\<open>ReapPreviews\<close>: of every listed application, the previews whose newest deploy is older than two days.\<close>

definition stale_previews :: "secs \<Rightarrow> App \<Rightarrow> string list" where
  "stale_previews now a =
     filter (\<lambda>p. case ActivePreviews a p of None \<Rightarrow> False | Some t \<Rightarrow> t < now - PreviewTTLHours * 3600) (Previews a)"

definition ReapPreviews :: "dhost \<Rightarrow> dworld \<Rightarrow> dworld \<times> deffect list \<times> (deploy_error + nat)" where
  "ReapPreviews H w =
     (case List_apps (wApps w) of
        Inl e \<Rightarrow> (w, [], Err e)
      | Inr apps \<Rightarrow>
          (let (w', es) = fold (\<lambda>a (w, es). let (w', es') = teardown_all H a (stale_previews (dNow H) a) w in (w', es @ es')) apps (w, [])
           in (w', es, Ok (length (concat (map (stale_previews (dNow H)) apps))))))"

section \<open>The push hook\<close>

record HookRef =
  hkRef :: string
  hkCommit :: string
  hkDelete :: bool

text \<open>\<open>ParseHookStdin\<close>: each line is given by its fields.\<close>

definition ParseHookStdin :: "string list list \<Rightarrow> HookRef list" where
  "ParseHookStdin ls =
     map (\<lambda>f. if list_all (\<lambda>c. c = CHR ''0'') (f ! 1) then \<lparr>hkRef = f ! 2, hkCommit = '''', hkDelete = True\<rparr>
              else \<lparr>hkRef = f ! 2, hkCommit = f ! 1, hkDelete = False\<rparr>) (filter (\<lambda>f. length f = 3) ls)"

text \<open>
  One ref in the loop of \<open>cmdAppDeploy\<close>: \<open>a\<close> is the application as it was read before the loop. The last component is the error, if any.
\<close>

definition no_app :: App where
  "no_app = \<lparr>apName = '''', apBranch = '''', apComposeFile = '''', apDomain = '''', apPort = 0, apEnv = Map.empty, apPreviewEnv = Map.empty,
     apAutodeploy = False, apCreated = 0, apUpdated = 0, apDeploys = []\<rparr>"

definition current :: "string \<Rightarrow> dworld \<Rightarrow> App" where
  "current name w = (case Get_app name (wApps w) of Inr (Some a) \<Rightarrow> a | _ \<Rightarrow> no_app)"

definition push_spec :: "string \<Rightarrow> HookRef \<Rightarrow> string \<Rightarrow> Spec" where
  "push_spec name hr preview =
     \<lparr>spApp = name, spRef = hkRef hr, spCommit = hkCommit hr, spPreview = preview, spTrigger = ''push'', spDeployID = ''''\<rparr>"

definition hook_ref :: "dhost \<Rightarrow> (string \<Rightarrow> string) \<Rightarrow> string list \<Rightarrow> string \<Rightarrow> App \<Rightarrow> HookRef \<Rightarrow> dworld \<Rightarrow> dworld \<times> deffect list \<times> bool" where
  "hook_ref H low keys name a hr w =
     (if hkRef hr = ''refs/heads/'' @ or_default (apBranch a) ''main'' then
        (if \<not> apAutodeploy a then (w, [], True)
         else case Deploy H keys (push_spec name hr '''') w of (w', es, r) \<Rightarrow> (w', es, \<not> isl r))
      else
        let slug = PreviewSlug low (hkRef hr)
        in if slug = '''' then (w, [], True)
           else if hkDelete hr then (let (w', es) = TeardownPreview H (current name w) slug w in (w', es, True))
           else if \<not> CanDeployPreview (current name w) slug then (w, [], False)
           else case Deploy H keys (push_spec name hr slug) w of (w', es, r) \<Rightarrow> (w', es, \<not> isl r))"

text \<open>
  The whole of \<open>cmdAppDeploy\<close>: the guard of \<open>openDeployStore\<close>, the application, then every ref of a push (each with the
  answers of the host while it is handled) or one deploy. The flag says whether no ref failed.
\<close>

definition hook_refs :: "(string \<Rightarrow> string) \<Rightarrow> string \<Rightarrow> App \<Rightarrow> (dhost \<times> string list \<times> HookRef) list \<Rightarrow> dworld \<Rightarrow> dworld \<times> deffect list \<times> bool" where
  "hook_refs low name a refs w =
     fold (\<lambda>(H, keys, hr) (w, es, ok). let (w', es', ok') = hook_ref H low keys name a hr w in (w', es @ es', ok \<and> ok')) refs (w, [], True)"

definition cmdAppDeploy :: "(string \<Rightarrow> string) \<Rightarrow> string \<Rightarrow> (dhost \<times> string list \<times> HookRef) list + (dhost \<times> string list \<times> Spec) \<Rightarrow> dworld
    \<Rightarrow> dworld \<times> deffect list \<times> (deploy_error + bool)" where
  "cmdAppDeploy low name mode w =
     (if name = '''' then (w, [], Err (DStep ''--name required''))
      else case GuardCLI (wApps w) of
        Inl e \<Rightarrow> (w, [], Err e)
      | Inr _ \<Rightarrow>
          (case Get_app name (wApps w) of
             Inl e \<Rightarrow> (w, [], Err e)
           | Inr None \<Rightarrow> (w, [], Err (DNoApp name))
           | Inr (Some a) \<Rightarrow>
               (case mode of
                  Inl refs \<Rightarrow> (let (w', es, ok) = hook_refs low name a refs w in (w', es, Ok ok))
                | Inr (H, keys, sp) \<Rightarrow>
                    (case Deploy H keys (sp\<lparr>spApp := name, spTrigger := ''ui'', spDeployID := ''''\<rparr>) w of
                       (w', es, Inl e) \<Rightarrow> (w', es, Err e)
                     | (w', es, Inr _) \<Rightarrow> (w', es, Ok True)))))"

section \<open>The queue runner\<close>

record AppDeployArgs =
  daApp :: string
  daRef :: string
  daCommit :: string
  daPreview :: string
  daTrigger :: string

definition AppDeployRunner_Run :: "dhost \<Rightarrow> string list \<Rightarrow> AppDeployArgs option \<Rightarrow> dworld
    \<Rightarrow> dworld \<times> deffect list \<times> (deploy_error + DeployRecord)" where
  "AppDeployRunner_Run H keys args w =
     (case args of
        None \<Rightarrow> (w, [], Err (DStep ''invalid args''))
      | Some a \<Rightarrow>
          if daApp a = '''' then (w, [], Err (DStep ''app required''))
          else Deploy H keys \<lparr>spApp = daApp a, spRef = daRef a, spCommit = daCommit a, spPreview = daPreview a,
                             spTrigger = or_default (daTrigger a) ''ui'', spDeployID = ''''\<rparr> w)"

definition DeployPreviewReapRunner_Run :: "dhost \<Rightarrow> dworld \<Rightarrow> dworld \<times> deffect list \<times> (deploy_error + nat)" where
  "DeployPreviewReapRunner_Run H w = ReapPreviews H w"

end
