(* ===== verification/DeployProps.thy ===== *)
theory DeployProps
  imports DeployRun
begin

text \<open>
  What the registry of applications and the deploy pipeline guarantee. The registry is a map from names to applications that
  every operation changes at one name, writes that fail changing nothing; the migration of its file loses no application in any
  outcome; histories stay bounded; a deploy always ends in a recorded verdict. And where the code does something else than it
  says: the virtual host a rejected configuration takes away, and what tearing down a preview reaches.
\<close>

section \<open>The file as a map\<close>

lemma last_by_map_of: "last_by k xs = map_of (rev (map (\<lambda>x. (k x, x)) xs))"
proof -
  have "fold (\<lambda>x m. m(k x \<mapsto> x)) xs m = m ++ map_of (rev (map (\<lambda>x. (k x, x)) xs))" for m
    by (induction xs arbitrary: m) (simp_all add: map_add_def fun_eq_iff split: option.splits)
  then show ?thesis by (simp add: last_by_def)
qed

lemma last_by_key: "last_by k xs n = Some x \<Longrightarrow> k x = n \<and> x \<in> set xs"
  by (auto simp: last_by_map_of dest!: map_of_SomeD)

lemma last_by_none: "last_by k xs n = None \<longleftrightarrow> n \<notin> k ` set xs"
  by (auto simp: last_by_map_of map_of_eq_None_iff image_iff)

lemma last_by_distinct:
  assumes "distinct (map k xs)" "x \<in> set xs"
  shows "last_by k xs (k x) = Some x"
proof -
  obtain y where y: "last_by k xs (k x) = Some y"
    using assms(2) last_by_none [of k xs "k x"] by (cases "last_by k xs (k x)") auto
  then show ?thesis
    using last_by_key [OF y] assms by (auto simp: distinct_map inj_on_def)
qed

definition app_of :: "File \<Rightarrow> app_deployment \<Rightarrow> App" where
  "app_of f d = v2ToApp (case last_by pjID (Projects f) (dpProjectID d) of
     Some p \<Rightarrow> p | None \<Rightarrow> \<lparr>pjID = dpProjectID d, pjName = dpProjectID d\<rparr>) d"

lemma apps_of_eq: "apps_of f = sort_key apName (map (app_of f) (Deployments f))"
  by (simp add: apps_of_def app_of_def cong: map_cong)

lemma apName_app_of [simp]: "apName (app_of f d) = dpProjectID d"
  by (auto simp: app_of_def v2ToApp_def dest: last_by_key split: option.splits)

lemma app_of_eq: "app_of f d = v2ToApp \<lparr>pjID = dpProjectID d, pjName = ''''\<rparr> d"
  using apName_app_of [of f d] by (simp add: app_of_def v2ToApp_def)

lemma v2ToApp_appToV2: "app_of f (snd (appToV2 a node)) = a"
  by (simp add: app_of_eq v2ToApp_def appToV2_def)

lemma app_of_rebuilt:
  "app_of f ((snd (appToV2 a node))\<lparr>dpNodeID := n, dpID := i\<rparr>) = a"
  by (simp add: app_of_eq v2ToApp_def appToV2_def)

lemma apps_of_v2_of: "apps_of (v2_of node apps) = sort_key apName apps"
  by (simp add: apps_of_eq v2_of_def v2ToApp_appToV2 o_def)

lemma apps_of_rebuilt: "apps_of (rebuilt prev apps) = sort_key apName apps"
proof -
  have "map (app_of (rebuilt prev apps)) (Deployments (rebuilt prev apps)) = apps"
    by (auto simp: rebuilt_def Let_def o_def v2ToApp_appToV2 app_of_rebuilt intro!: map_idI split: option.splits)
  then show ?thesis by (simp add: apps_of_eq)
qed

definition registry :: "appsfile \<Rightarrow> (string \<rightharpoonup> App) option" where
  "registry f = (case load_apps f of Inl e \<Rightarrow> None | Inr apps \<Rightarrow> Some (map_of (map (\<lambda>a. (apName a, a)) apps)))"

definition names_of :: "appsfile \<Rightarrow> string list" where
  "names_of f = (case loadFile f of Inl e \<Rightarrow> [] | Inr d \<Rightarrow> map dpProjectID (Deployments d))"

text \<open>A file this binary reads, with one deployment for each project.\<close>

definition apps_valid :: "appsfile \<Rightarrow> bool" where
  "apps_valid f \<longleftrightarrow> \<not> isl (loadFile f) \<and> distinct (names_of f)"

lemma loadFile_written: "SchemaVersion d = AppsSchemaVersion \<Longrightarrow> loadFile (written d) = Ok d"
  by (simp add: loadFile_def written_def)

lemma rebuilt_version [simp]: "SchemaVersion (rebuilt prev apps) = AppsSchemaVersion"
  by (simp add: rebuilt_def)

lemma v2_of_version [simp]: "SchemaVersion (v2_of node apps) = AppsSchemaVersion"
  by (simp add: v2_of_def)

lemma load_written_rebuilt: "load_apps (written (rebuilt prev apps)) = Ok (sort_key apName apps)"
  by (simp add: load_apps_def loadFile_written apps_of_rebuilt)

lemma names_rebuilt: "names_of (written (rebuilt prev apps)) = map apName apps"
  by (auto simp: names_of_def loadFile_written rebuilt_def Let_def o_def appToV2_def split: option.splits)

definition keyed :: "App list \<Rightarrow> (string \<rightharpoonup> App)" where
  "keyed apps = map_of (map (\<lambda>a. (apName a, a)) apps)"

lemma keyed_simps [simp]: "keyed [] = Map.empty" "keyed (a # apps) = (keyed apps)(apName a \<mapsto> a)"
  by (simp_all add: keyed_def)

lemma keyed_name: "keyed apps n = Some a \<Longrightarrow> apName a = n \<and> a \<in> set apps"
  by (auto simp: keyed_def dest!: map_of_SomeD)

lemma keyed_none: "keyed apps n = None \<longleftrightarrow> n \<notin> apName ` set apps"
  by (induction apps) auto

lemma keyed_iff: "distinct (map apName apps) \<Longrightarrow> keyed apps n = Some a \<longleftrightarrow> a \<in> set apps \<and> apName a = n"
  by (induction apps) (auto simp: rev_image_eqI dest: keyed_name)

lemma distinct_sort_apps [simp]: "distinct (map apName (sort_key apName apps)) = distinct (map apName apps)"
  by (simp add: distinct_map)

lemma keyed_sort: "distinct (map apName apps) \<Longrightarrow> keyed (sort_key apName apps) = keyed apps"
proof
  fix n
  assume "distinct (map apName apps)"
  then have "keyed (sort_key apName apps) n = Some a \<longleftrightarrow> keyed apps n = Some a" for a
    by (simp add: keyed_iff)
  then show "keyed (sort_key apName apps) n = keyed apps n"
    by (cases "keyed apps n"; cases "keyed (sort_key apName apps) n") auto
qed

lemma keyed_append: "apName a \<notin> apName ` set apps \<Longrightarrow> keyed (apps @ [a]) = (keyed apps)(apName a \<mapsto> a)"
  by (induction apps) (auto simp: fun_upd_twist)

lemma keyed_filter: "keyed (filter (\<lambda>a. apName a \<noteq> n) apps) = (keyed apps)(n := None)"
  by (induction apps) (auto simp: fun_upd_twist)

lemma keyed_upd_first:
  assumes "\<And>a. apName a = n \<Longrightarrow> apName (g a) = n"
  shows "keyed (upd_first (\<lambda>a. apName a = n) g apps)
    = (case find (\<lambda>a. apName a = n) apps of None \<Rightarrow> keyed apps | Some a \<Rightarrow> (keyed apps)(n \<mapsto> g a))"
  using assms by (induction apps) (auto simp: fun_upd_twist split: option.splits)

lemma find_keyed: "find (\<lambda>a. apName a = n) apps = keyed apps n"
  by (induction apps) auto

lemma names_upd_first:
  "(\<And>a. apName a = n \<Longrightarrow> apName (g a) = n) \<Longrightarrow> map apName (upd_first (\<lambda>a. apName a = n) g apps) = map apName apps"
  by (rule map_upd_first) simp

section \<open>One write\<close>

lemma registry_eq: "registry f = (case loadFile f of Inl e \<Rightarrow> None | Inr d \<Rightarrow> Some (keyed (apps_of d)))"
  by (simp add: registry_def load_apps_def keyed_def split: sum.splits)

lemma apps_valid_load:
  assumes "apps_valid f"
  obtains d where "loadFile f = Ok d" "load_apps f = Ok (apps_of d)" "registry f = Some (keyed (apps_of d))"
    "distinct (map apName (apps_of d))"
proof -
  obtain d where d: "loadFile f = Ok d"
    using assms by (cases "loadFile f") (auto simp: apps_valid_def)
  show thesis
    by (rule that [OF d])
      (use d assms in \<open>auto simp: load_apps_def registry_eq apps_valid_def names_of_def apps_of_eq o_def\<close>)
qed

text \<open>Where the application of a name runs, and under which identifier.\<close>

definition placement :: "appsfile \<Rightarrow> string \<Rightarrow> (string \<times> string) option" where
  "placement f n =
     (case loadFile f of
        Inl e \<Rightarrow> None
      | Inr d \<Rightarrow> map_option (\<lambda>x. (dpNodeID x, dpID x)) (last_by dpProjectID (Deployments d) n))"

lemma persist_apps_ok:
  assumes "loadFile f = Ok prev" "distinct (map apName apps)"
  shows "persist_apps ok apps f = (if ok then (written (rebuilt prev (sort_key apName apps)), Ok ()) else (f, Err DWrite))"
    and "apps_valid (written (rebuilt prev (sort_key apName apps)))"
    and "registry (written (rebuilt prev (sort_key apName apps))) = Some (keyed apps)"
  using assms by (simp_all add: persist_apps_def apps_valid_def names_rebuilt loadFile_written registry_eq apps_of_rebuilt keyed_sort)

lemma placement_rebuilt:
  assumes "loadFile f = Ok prev" "n \<in> apName ` set apps"
  shows "placement (written (rebuilt prev (sort_key apName apps))) n
    = Some (case placement f n of Some p \<Rightarrow> p | None \<Rightarrow> (DefaultNodeID, n @ ''@'' @ DefaultNodeID))"
proof -
  let ?ds = "Deployments (rebuilt prev (sort_key apName apps))"
  have names: "dpProjectID ` set ?ds = apName ` set apps"
    by (auto simp: rebuilt_def Let_def appToV2_def image_iff split: option.splits)
  obtain x where x: "last_by dpProjectID ?ds n = Some x"
    using last_by_none [of dpProjectID ?ds n] names assms(2) by (cases "last_by dpProjectID ?ds n") auto
  then have "dpProjectID x = n" "x \<in> set ?ds"
    by (simp_all add: last_by_key)
  then have "(dpNodeID x, dpID x) = (case last_by dpProjectID (Deployments prev) n of
      Some p \<Rightarrow> (dpNodeID p, dpID p) | None \<Rightarrow> (DefaultNodeID, n @ ''@'' @ DefaultNodeID))"
    by (auto simp: rebuilt_def Let_def appToV2_def split: option.splits)
  then show ?thesis
    using x assms(1) by (auto simp: placement_def loadFile_written split: option.splits)
qed

section \<open>The operations\<close>

datatype aop =
    ASave bool secs App
  | AEnv bool secs string bool "(string \<times> string) list" "string list"
  | AAppend bool secs string DeployRecord
  | ARemove bool string

fun do_aop :: "aop \<Rightarrow> appsfile \<Rightarrow> appsfile \<times> bool" where
  "do_aop (ASave ok now a) f = (case Save_app ok now a f of (f', r) \<Rightarrow> (f', \<not> isl r))"
| "do_aop (AEnv ok now n p sets unset) f = (case UpdateEnv ok now n p sets unset f of (f', r) \<Rightarrow> (f', \<not> isl r))"
| "do_aop (AAppend ok now n rec) f = (case AppendDeploy ok now n rec f of (f', r) \<Rightarrow> (f', \<not> isl r))"
| "do_aop (ARemove ok n) f = (case Remove_app ok n f of (f', r) \<Rightarrow> (f', \<not> isl r))"

text \<open>What each operation does to the map of applications.\<close>

definition at_name :: "string \<Rightarrow> (App \<Rightarrow> App) \<Rightarrow> (string \<rightharpoonup> App) \<Rightarrow> (string \<rightharpoonup> App)" where
  "at_name n g m = (case m n of None \<Rightarrow> m | Some a \<Rightarrow> m(n \<mapsto> g a))"

fun aop_effect :: "aop \<Rightarrow> (string \<rightharpoonup> App) \<Rightarrow> (string \<rightharpoonup> App)" where
  "aop_effect (ASave ok now a) m = m(apName a \<mapsto> a\<lparr>apUpdated := now, apDeploys := pruned (apDeploys a)\<rparr>)"
| "aop_effect (AEnv ok now n p sets unset) m =
     at_name n (\<lambda>a. (if p then a\<lparr>apPreviewEnv := env_edit sets unset (apPreviewEnv a)\<rparr>
                     else a\<lparr>apEnv := env_edit sets unset (apEnv a)\<rparr>)\<lparr>apUpdated := now\<rparr>) m"
| "aop_effect (AAppend ok now n rec) m = at_name n (\<lambda>a. a\<lparr>apDeploys := put_record rec (apDeploys a), apUpdated := now\<rparr>) m"
| "aop_effect (ARemove ok n) m = m(n := None)"

text \<open>Every operation is at most one write of a list of applications.\<close>

definition one_write :: "(string \<rightharpoonup> App) \<Rightarrow> appsfile \<Rightarrow> appsfile \<times> bool \<Rightarrow> bool" where
  "one_write m f res \<longleftrightarrow>
     (if snd res then \<exists>prev apps. loadFile f = Ok prev \<and> distinct (map apName apps) \<and> keyed apps = m
                        \<and> fst res = written (rebuilt prev (sort_key apName apps))
      else fst res = f)"

lemma edit_app_write:
  assumes "apps_valid f" "\<And>a. apName a = n \<Longrightarrow> apName (g a) = n" "registry f = Some m" "edit_app ok n g f = (f', r)"
  shows "one_write (at_name n g m) f (f', \<not> isl r)"
proof -
  obtain d where d: "loadFile f = Ok d" "load_apps f = Ok (apps_of d)" "registry f = Some (keyed (apps_of d))"
      "distinct (map apName (apps_of d))"
    using apps_valid_load [OF assms(1)] .
  have dd: "distinct (map apName (upd_first (\<lambda>a. apName a = n) g (apps_of d)))"
    using d(4) assms(2) by (simp add: names_upd_first)
  show ?thesis
  proof (cases "keyed (apps_of d) n")
    case None
    then show ?thesis
      using assms(4) d by (auto simp: edit_app_def find_keyed one_write_def)
  next
    case (Some a)
    have "keyed (upd_first (\<lambda>a. apName a = n) g (apps_of d)) = at_name n g m"
      using assms(2,3) d(3) Some by (simp add: keyed_upd_first find_keyed at_name_def)
    then show ?thesis
      using assms(4) d Some persist_apps_ok(1) [OF d(1) dd, of ok] dd
      by (auto simp: edit_app_def find_keyed one_write_def split: if_splits)
  qed
qed

lemma save_write:
  assumes "apps_valid f" "registry f = Some m" "Save_app ok now a f = (f', r)"
  shows "one_write (aop_effect (ASave ok now a) m) f (f', \<not> isl r)"
proof -
  obtain d where d: "loadFile f = Ok d" "load_apps f = Ok (apps_of d)" "registry f = Some (keyed (apps_of d))"
      "distinct (map apName (apps_of d))"
    using apps_valid_load [OF assms(1)] .
  let ?a = "a\<lparr>apUpdated := now, apDeploys := pruned (apDeploys a)\<rparr>"
  define apps where "apps = (if list_ex (\<lambda>x. apName x = apName a) (apps_of d)
    then upd_first (\<lambda>x. apName x = apName a) (\<lambda>_. ?a) (apps_of d) else apps_of d @ [?a])"
  have there: "list_ex (\<lambda>x. apName x = apName a) (apps_of d) \<longleftrightarrow> keyed (apps_of d) (apName a) \<noteq> None"
    by (simp only: keyed_none list_ex_iff image_iff) metis
  have "distinct (map apName apps)" "keyed apps = aop_effect (ASave ok now a) m"
    using d assms(2) there
    by (auto simp: apps_def names_upd_first keyed_upd_first find_keyed keyed_append keyed_none image_iff split: option.splits)
  moreover have "persist_apps ok apps f = (f', r)"
    using assms(3) d(2) by (simp add: Save_app_def save_app_locked_def apps_def Let_def)
  ultimately show ?thesis
    using persist_apps_ok(1) [OF d(1), of apps ok] d(1) by (auto simp: one_write_def split: if_splits)
qed

lemma remove_write:
  assumes "apps_valid f" "registry f = Some m" "Remove_app ok n f = (f', r)"
  shows "one_write (m(n := None)) f (f', \<not> isl r)"
proof -
  obtain d where d: "loadFile f = Ok d" "load_apps f = Ok (apps_of d)" "registry f = Some (keyed (apps_of d))"
      "distinct (map apName (apps_of d))"
    using apps_valid_load [OF assms(1)] .
  have "distinct (map apName (filter (\<lambda>a. apName a \<noteq> n) (apps_of d)))"
    using d(4) by (rule distinct_map_filter)
  then show ?thesis
    using assms(2,3) d persist_apps_ok(1) [OF d(1), of "filter (\<lambda>a. apName a \<noteq> n) (apps_of d)" ok]
    by (auto simp: Remove_app_def one_write_def keyed_filter split: if_splits)
qed

lemma do_aop_write: "apps_valid f \<Longrightarrow> registry f = Some m \<Longrightarrow> one_write (aop_effect p m) f (do_aop p f)"
  by (cases p) (auto simp del: aop_effect.simps(1) simp: UpdateEnv_def AppendDeploy_def split: prod.split
      intro: save_write remove_write intro!: edit_app_write)

lemma valid_registry: "apps_valid f \<Longrightarrow> \<exists>m. registry f = Some m"
  by (auto elim: apps_valid_load)

lemma one_write_keeps:
  assumes "one_write m f res" "apps_valid f"
  shows "apps_valid (fst res) \<and> (snd res \<longrightarrow> registry (fst res) = Some m) \<and> (\<not> snd res \<longrightarrow> fst res = f)"
  using assms by (cases "snd res") (auto simp: one_write_def persist_apps_ok(2,3))

lemma one_write_placement:
  assumes "one_write m f res" "snd res" "m n \<noteq> None"
  shows "placement (fst res) n = Some (case placement f n of Some p \<Rightarrow> p | None \<Rightarrow> (DefaultNodeID, n @ ''@'' @ DefaultNodeID))"
proof -
  obtain prev apps where "loadFile f = Ok prev" "keyed apps = m" "fst res = written (rebuilt prev (sort_key apName apps))"
    using assms(1,2) by (auto simp: one_write_def)
  moreover have "n \<in> apName ` set apps"
    using assms(3) calculation(2) keyed_none [of apps n] by (cases "keyed apps n") simp_all
  ultimately show ?thesis
    by (simp add: placement_rebuilt)
qed

interpretation apps_map: durable_document do_aop "\<lambda>f. case registry f of Some m \<Rightarrow> m | None \<Rightarrow> Map.empty" registry aop_effect
  "\<lambda>_. True" apps_valid
proof unfold_locales
  fix f p
  assume v: "apps_valid f"
  obtain m where m: "registry f = Some m" using valid_registry [OF v] by blast
  note w = one_write_keeps [OF do_aop_write [OF v m, of p] v]
  show "apps_valid (fst (do_aop p f))"
    using w by blast
  show "(case registry (fst (do_aop p f)) of Some m \<Rightarrow> m | None \<Rightarrow> Map.empty)
        = aop_effect p (case registry f of Some m \<Rightarrow> m | None \<Rightarrow> Map.empty)
      \<and> registry (fst (do_aop p f)) = Some (case registry (fst (do_aop p f)) of Some m \<Rightarrow> m | None \<Rightarrow> Map.empty)"
    if "snd (do_aop p f)"
    using w m that by simp
  show "registry (fst (do_aop p f)) = registry f" if "\<not> snd (do_aop p f)"
    using w that by simp
qed

definition run_aops :: "aop list \<Rightarrow> appsfile \<Rightarrow> appsfile" where
  "run_aops ps f = fold (\<lambda>p f. fst (do_aop p f)) ps f"

text \<open>The operations that were written, among those requested.\<close>

fun written_aops :: "aop list \<Rightarrow> appsfile \<Rightarrow> aop list" where
  "written_aops [] f = []"
| "written_aops (p # ps) f = (if snd (do_aop p f) then [p] else []) @ written_aops ps (fst (do_aop p f))"

lemma run_aops_refines:
  assumes "apps_valid f" "registry f = Some m"
  shows "apps_valid (run_aops ps f) \<and> registry (run_aops ps f) = Some (fold aop_effect (written_aops ps f) m)"
  using assms
proof (induction ps arbitrary: f m)
  case (Cons p ps)
  have w: "apps_valid (fst (do_aop p f))"
      "registry (fst (do_aop p f)) = Some (if snd (do_aop p f) then aop_effect p m else m)"
    using one_write_keeps [OF do_aop_write [OF Cons.prems, of p] Cons.prems(1)] Cons.prems(2) by auto
  show ?case
    using Cons.IH [OF w] by (simp add: run_aops_def split: if_splits)
qed (simp add: run_aops_def)

lemma Get_app_registry: "registry f = Some m \<Longrightarrow> Get_app n f = Ok (m n)"
  by (auto simp: Get_app_def registry_def find_keyed keyed_def split: sum.splits)

lemma Get_app_Ok: "Get_app n f = Ok r \<Longrightarrow> \<exists>m. registry f = Some m \<and> m n = r"
  by (auto simp: Get_app_def registry_def find_keyed keyed_def split: sum.splits)

text \<open>
  C8. The registry of applications is a map from names to applications, kept through failing writes. Start from a file this
  binary reads that has one deployment per project, and run any saves, environment edits, deploy records and removals, where
  any write may fail: what a lookup then answers is what the operations that reported success make of the map, and one more
  operation leaves an application that it does not remove on the node, and under the identifier, that it had.
\<close>
theorem registry_refines_map:
  assumes "apps_valid f" and "registry f = Some m"
  shows "Get_app n (run_aops ps f) = Ok (fold aop_effect (written_aops ps f) m n)
    \<and> (Get_app n (fst (do_aop p (run_aops ps f))) = Ok (Some a) \<longrightarrow> placement (run_aops ps f) n = Some x \<longrightarrow>
        placement (fst (do_aop p (run_aops ps f))) n = Some x)"
proof -
  let ?f = "run_aops ps f"
  have v: "apps_valid ?f" and r: "registry ?f = Some (fold aop_effect (written_aops ps f) m)"
    using run_aops_refines [OF assms] by blast+
  note w = do_aop_write [OF v r, of p]
  have "placement (fst (do_aop p ?f)) n = Some x" if g: "Get_app n (fst (do_aop p ?f)) = Ok (Some a)" and x: "placement ?f n = Some x"
  proof (cases "snd (do_aop p ?f)")
    case True
    then have "aop_effect p (fold aop_effect (written_aops ps f) m) n = Some a"
      using Get_app_Ok [OF g] one_write_keeps [OF w v] by auto
    then show ?thesis
      using one_write_placement [OF w True, of n] x by simp
  next
    case False
    then show ?thesis
      using one_write_keeps [OF w v] x by simp
  qed
  then show ?thesis
    using Get_app_registry [OF r] by blast
qed

definition hello :: App where
  "hello = no_app\<lparr>apName := ''hello'', apBranch := ''main'', apPort := 8080\<rparr>"

definition hello_file :: appsfile where
  "hello_file = written \<lparr>SchemaVersion = 2, Projects = [\<lparr>pjID = ''hello'', pjName = ''Hello''\<rparr>],
     Deployments = [(snd (appToV2 hello ''casa''))]\<rparr>"

theorem registry_refines_map_witness:
  "Get_app ''hello'' (run_aops [AEnv True 5 ''hello'' False [(''A'', ''1'')] [], ARemove False ''hello''] hello_file)
     = Ok (Some (hello\<lparr>apEnv := [''A'' \<mapsto> ''1''], apUpdated := 5\<rparr>))
   \<and> placement (fst (do_aop (AEnv True 6 ''hello'' False [] [''A''])
       (run_aops [AEnv True 5 ''hello'' False [(''A'', ''1'')] [], ARemove False ''hello''] hello_file))) ''hello''
     = Some (''casa'', ''hello@casa'')"
proof -
  have v: "apps_valid hello_file"
    by code_simp
  let ?ps = "[AEnv True 5 ''hello'' False [(''A'', ''1'')] [], ARemove False ''hello'']"
  let ?p = "AEnv True 6 ''hello'' False [] [''A'']"
  have r: "registry hello_file = Some [''hello'' \<mapsto> hello]"
    by (simp add: registry_def load_apps_def hello_file_def loadFile_written apps_of_eq AppsSchemaVersion_def app_of_eq
        v2ToApp_def appToV2_def hello_def no_app_def)
  have w: "map (\<lambda>p. case p of AEnv _ _ _ _ _ _ \<Rightarrow> True | _ \<Rightarrow> False) (written_aops ?ps hello_file) = [True]
      \<and> length (written_aops ?ps hello_file) = 1"
    by code_simp
  have w1: "written_aops ?ps hello_file = [AEnv True 5 ''hello'' False [(''A'', ''1'')] []]"
    using w by (auto split: if_splits)
  have g: "Get_app ''hello'' (run_aops ?ps hello_file) = Ok (Some (hello\<lparr>apEnv := [''A'' \<mapsto> ''1''], apUpdated := 5\<rparr>))"
    using registry_refines_map [OF v r, of "''hello''" ?ps]
    by (simp add: w1 at_name_def env_edit_def hello_def no_app_def del: written_aops.simps)
  have "case Get_app ''hello'' (fst (do_aop ?p (run_aops ?ps hello_file))) of Inr (Some _) \<Rightarrow> True | _ \<Rightarrow> False"
    by code_simp
  then obtain a where a: "Get_app ''hello'' (fst (do_aop ?p (run_aops ?ps hello_file))) = Ok (Some a)"
    by (auto split: sum.splits option.splits)
  have x: "placement (run_aops ?ps hello_file) ''hello'' = Some (''casa'', ''hello@casa'')"
    by code_simp
  show ?thesis
    using registry_refines_map [OF v r, of "''hello''" ?ps ?p a "(''casa'', ''hello@casa'')"] g a x by blast
qed

section \<open>Migration\<close>

lemma migrate_locked_cases:
  assumes "adFile d = AArray (Some apps)"
  shows "migrate_locked H d =
    (if \<not> mgBackup H then (d, Err DBackup)
     else let d1 = d\<lparr>adBackups := (adBackups d)(mgNow H \<mapsto> AArray (Some apps))\<rparr>
          in if mgWrite H then (d1\<lparr>adFile := written (v2_of (if mgNode H = '''' then DefaultNodeID else mgNode H) apps)\<rparr>, Ok ())
             else migrate_rollback H d1)"
  using assms by (simp add: migrate_locked_def Let_def)

lemma migrate_other:
  assumes "\<And>apps. adFile d \<noteq> AArray (Some apps)"
  shows "fst (MigrateApps H seen d) = d"
proof -
  have "fst (migrate_locked H d) = d"
  proof (cases "adFile d")
    case (AArray x)
    then show ?thesis using assms by (cases x) (simp_all add: migrate_locked_def)
  next
    case (AObject v f)
    then show ?thesis by (cases v; cases f) (simp_all add: migrate_locked_def)
  qed (simp_all add: migrate_locked_def)
  then show ?thesis
    by (simp add: MigrateApps_def)
qed

lemma load_v2_of: "load_apps (written (v2_of node apps)) = Ok (sort_key apName apps)"
  by (simp add: load_apps_def loadFile_written apps_of_v2_of)

text \<open>The directory still holds this document: as the file or as the backup of this run.\<close>

definition holds :: "mhost \<Rightarrow> appsdir \<Rightarrow> appsfile \<Rightarrow> bool" where
  "holds H d f \<longleftrightarrow> adFile d = f \<or> adBackups d (mgNow H) = Some f"

lemma migrate_v1:
  assumes "adFile d = AArray (Some apps)" "MigrateApps H seen d = (d', r)" "DetectShape seen = DetectShape (adFile d)"
  shows "r = Ok () \<Longrightarrow> load_apps (adFile d') = Ok (sort_key apName apps)"
    and "r \<noteq> Ok () \<Longrightarrow> r \<noteq> Err DManual \<Longrightarrow> adFile d' = adFile d"
    and "holds H d' (adFile d)"
  using assms
  by (auto simp: MigrateApps_def migrate_locked_cases [OF assms(1)] Let_def load_v2_of holds_def DetectShape_def migrate_rollback_def
      split: if_splits)

text \<open>
  C14. The migration of the registry loses no application, in any outcome. If the old document is on disk when the server starts
  and the migration reports success, the store then reads exactly the applications of the old document, in order of name, and a
  second migration changes nothing; if it fails without asking for a manual restore, the file is the old document; and when even
  the restore fails, the old document is in the backup. A file that is not an old document is never touched.
\<close>
theorem migration_keeps_apps:
  assumes "MigrateApps H (adFile d) d = (d', r)"
  shows "(adFile d = AArray (Some apps) \<and> r = Ok () \<longrightarrow>
            load_apps (adFile d') = Ok (sort_key apName apps) \<and> fst (MigrateApps H' seen d') = d')
       \<and> (r \<noteq> Ok () \<and> r \<noteq> Err DManual \<longrightarrow> adFile d' = adFile d)
       \<and> (adFile d = AArray (Some apps) \<longrightarrow> holds H d' (adFile d))
       \<and> ((\<nexists>apps. adFile d = AArray (Some apps)) \<longrightarrow> d' = d)"
proof (cases "\<exists>apps. adFile d = AArray (Some apps)")
  case True
  then obtain as where as: "adFile d = AArray (Some as)" by blast
  note m = migrate_v1 [OF as assms refl]
  have "fst (MigrateApps H' seen d') = d'" if "r = Ok ()"
  proof (rule migrate_other)
    fix bs
    show "adFile d' \<noteq> AArray (Some bs)"
      using m(1) [OF that] by (auto simp: load_apps_def loadFile_def)
  qed
  then show ?thesis
    using m as by auto
next
  case False
  then have "d' = d"
    using migrate_other [of d H "adFile d"] assms by auto
  then show ?thesis
    using False by auto
qed

definition calm_host :: mhost where
  "calm_host = \<lparr>mgDataDir = ''/d'', mgNode = '''', mgNow = 9, mgTryLock = True, mgMkdir = True, mgLockFile = True, mgFlock = True,
     mgBackup = True, mgWrite = True, mgRemove = True, mgRestore = True, mgDrop = True\<rparr>"

definition old_dir :: appsdir where
  "old_dir = \<lparr>adFile = AArray (Some [hello]), adBackups = Map.empty\<rparr>"

theorem migration_keeps_apps_witness:
  "load_apps (adFile (fst (MigrateApps calm_host (adFile old_dir) old_dir))) = Ok [hello]
   \<and> holds calm_host (fst (MigrateApps calm_host (adFile old_dir) old_dir)) (AArray (Some [hello]))
   \<and> adFile (fst (MigrateApps (calm_host\<lparr>mgWrite := False\<rparr>) (adFile old_dir) old_dir)) = AArray (Some [hello])"
proof -
  have ok: "snd (MigrateApps calm_host (adFile old_dir) old_dir) = Ok ()"
    by code_simp
  have err: "snd (MigrateApps (calm_host\<lparr>mgWrite := False\<rparr>) (adFile old_dir) old_dir) = Err DRolledBack"
    by code_simp
  show ?thesis
    using migration_keeps_apps [of calm_host old_dir "fst (MigrateApps calm_host (adFile old_dir) old_dir)" "Ok ()" "[hello]"]
      migration_keeps_apps [of "calm_host\<lparr>mgWrite := False\<rparr>" old_dir
        "fst (MigrateApps (calm_host\<lparr>mgWrite := False\<rparr>) (adFile old_dir) old_dir)" "Err DRolledBack" "[hello]"]
      ok err by (simp add: prod_eq_iff) (simp add: old_dir_def)
qed

section \<open>Names of previews\<close>

definition dashy :: "char \<Rightarrow> bool" where
  "dashy c \<longleftrightarrow> slug_char c \<or> c = CHR ''-''"

lemma dashed_dashy: "list_all dashy (dashed g s)"
  by (induction g s rule: dashed.induct) (auto simp: dashy_def)

lemma set_dropWhile: "set (dropWhile P xs) \<subseteq> set xs"
  by (auto dest: set_dropWhileD)

lemma trim_dashes_set: "set (trim_dashes s) \<subseteq> set s"
  unfolding trim_dashes_def using set_dropWhile by (metis set_rev subset_trans)

lemma PreviewSlug_dashy: "list_all dashy (PreviewSlug low branch)"
proof -
  let ?b = "trim_dashes (dashed False (ToLower_runes low (TrimPrefix branch ''refs/heads/'')))"
  have "set (PreviewSlug low branch) \<subseteq> set ?b"
    using trim_dashes_set [of "take 24 ?b"] set_take_subset [of 24 ?b] by (auto simp: PreviewSlug_def Let_def)
  then show ?thesis
    using trim_dashes_set dashed_dashy by (fastforce simp: list_all_iff)
qed

lemma trim_dashes_length: "length (trim_dashes s) \<le> length s"
  unfolding trim_dashes_def using length_dropWhile_le by (metis length_rev order_trans)

lemma PreviewSlug_length: "length (PreviewSlug low branch) \<le> 24"
  using trim_dashes_length [of "take 24 (trim_dashes (dashed False (ToLower_runes low (TrimPrefix branch ''refs/heads/''))))"]
  by (auto simp: PreviewSlug_def Let_def)

lemma dashy_ordinary: "list_all dashy w \<Longrightarrow> w \<noteq> '''' \<Longrightarrow> ordinary w"
  by (cases w; cases "tl w") (auto simp: ordinary_def dashy_def slug_char_def byte_in_def list_all_iff)

lemma ValidName_dashy: "ValidName name \<Longrightarrow> list_all dashy name \<and> name \<noteq> ''''"
  by (auto simp: ValidName_def dashy_def list_all_iff)

lemma AppsRoot_elements: "elements AppsRoot = [''srv'', ''vpsm-apps''] \<and> is_rooted AppsRoot \<and> AppsRoot \<noteq> ''''"
  by code_simp

lemma under_AppsRoot: "ordinary w \<Longrightarrow> Join [AppsRoot, w] = AppsRoot @ ''/'' @ w"
  using Join_ordinary [of AppsRoot "[w]"] AppsRoot_elements by (simp add: AppsRoot_def)

lemma WorkDir_place:
  assumes "ValidName name" "list_all dashy preview"
  shows "WorkDir name preview = AppsRoot @ ''/'' @ name @ (if preview = '''' then '''' else ''-pr-'' @ preview)"
proof -
  have d: "list_all dashy ''-pr-''" by code_simp
  have "list_all dashy (name @ ''-pr-'' @ preview)"
    using ValidName_dashy [OF assms(1)] assms(2) d by simp
  then have "ordinary name" "ordinary (name @ ''-pr-'' @ preview)"
    using ValidName_dashy [OF assms(1)] by (auto intro: dashy_ordinary)
  then show ?thesis
    by (simp add: WorkDir_def under_AppsRoot)
qed

text \<open>
  What a push can name stays where it belongs. Whatever the branch is called, its preview has a name of at most 24 letters,
  digits and dashes; the tree it is checked out to is directly under the directory of the applications and differs from the
  production tree of its application and from the trees of its other previews; and its port is between 20000 and 29999.
\<close>
theorem preview_is_confined:
  assumes "ValidName name" and "PreviewSlug low branch = slug" and "slug \<noteq> ''''"
    and "PreviewSlug low' branch' = slug'" and "slug' \<noteq> slug"
  shows "length slug \<le> 24 \<and> list_all dashy slug \<and> WorkDir name slug = ''/srv/vpsm-apps/'' @ name @ ''-pr-'' @ slug
    \<and> WorkDir name slug \<noteq> WorkDir name '''' \<and> WorkDir name slug \<noteq> WorkDir name slug'
    \<and> ComposeProject name slug \<noteq> ComposeProject name slug'
    \<and> 20000 \<le> previewPort name slug \<and> previewPort name slug \<le> 29999"
proof -
  have d: "list_all dashy slug" "list_all dashy slug'" "length slug \<le> 24"
    using PreviewSlug_dashy PreviewSlug_length assms(2,4) by blast+
  have "unat (fnv32a (name @ [CHR 0x00] @ slug) mod 10000) < 10000"
    by (simp add: unat_mod)
  then have "20000 \<le> previewPort name slug \<and> previewPort name slug \<le> 29999"
    unfolding previewPort_def by linarith
  moreover have "WorkDir name slug = AppsRoot @ ''/'' @ name @ ''-pr-'' @ slug" "WorkDir name '''' = AppsRoot @ ''/'' @ name"
      "WorkDir name slug' = AppsRoot @ ''/'' @ name @ (if slug' = '''' then '''' else ''-pr-'' @ slug')"
    using WorkDir_place [OF assms(1) d(1)] WorkDir_place [OF assms(1), of "''''"] WorkDir_place [OF assms(1) d(2)] assms(3)
    by simp_all
  ultimately show ?thesis
    using d assms(3,5) by (auto simp: AppsRoot_def ComposeProject_def)
qed

theorem preview_is_confined_witness:
  "length ''feature-login'' \<le> 24 \<and> WorkDir ''hello'' ''feature-login'' = ''/srv/vpsm-apps/hello-pr-feature-login''
   \<and> WorkDir ''hello'' ''feature-login'' \<noteq> WorkDir ''hello'' ''fix-7'' \<and> previewPort ''hello'' ''feature-login'' \<le> 29999"
proof -
  have "ValidName ''hello''" "PreviewSlug id ''refs/heads/Feature/_login'' = ''feature-login''"
      "PreviewSlug id ''refs/heads/fix#7'' = ''fix-7''"
    by code_simp+
  then show ?thesis
    using preview_is_confined [of "''hello''" id "''refs/heads/Feature/_login''" "''feature-login''" id "''refs/heads/fix#7''" "''fix-7''"]
    by auto
qed

section \<open>The verdict of a deploy\<close>

lemma pruned_length: "length (pruned ds) \<le> maxDeployHistory"
  by (simp add: pruned_def)

lemma pruned_id: "length ds \<le> maxDeployHistory \<Longrightarrow> pruned ds = ds"
  by (simp add: pruned_def)

lemma set_pruned: "set (pruned ds) \<subseteq> set ds"
  by (auto simp: pruned_def dest: in_set_dropD)

lemma put_record_length: "length (put_record rec ds) \<le> maxDeployHistory"
  by (simp add: put_record_def pruned_length)

lemma put_record_in: "length ds \<le> maxDeployHistory \<Longrightarrow> rec \<in> set (put_record rec ds)"
proof (cases "list_ex (\<lambda>d. drID d = drID rec) ds")
  case True
  assume "length ds \<le> maxDeployHistory"
  then have "put_record rec ds = upd_first (\<lambda>d. drID d = drID rec) (\<lambda>_. rec) ds"
    using True by (simp add: put_record_def pruned_id)
  then show ?thesis
    using True upd_first_in [of ds "\<lambda>d. drID d = drID rec" "\<lambda>_. rec"] by (auto simp: list_ex_iff)
next
  case False
  assume "length ds \<le> maxDeployHistory"
  then have "drop (length ds + 1 - maxDeployHistory) (ds @ [rec]) = drop (length ds + 1 - maxDeployHistory) ds @ [rec]"
    by (simp add: maxDeployHistory_def)
  then show ?thesis
    using False by (simp add: put_record_def pruned_def)
qed

lemma set_put_record: "set (put_record rec ds) \<subseteq> insert rec (set ds)"
proof -
  have "set (upd_first (\<lambda>d. drID d = drID rec) (\<lambda>_. rec) ds) \<subseteq> insert rec (set ds)"
    using set_upd_first_subset by fastforce
  then show ?thesis
    unfolding put_record_def by (intro subset_trans [OF set_pruned]) auto
qed

lemma put_deploy_aop: "wApps (put_deploy H n rec w) = fst (do_aop (AAppend (dSaved H) (dNow H) n rec) (wApps w))"
  by (simp add: put_deploy_def split: prod.split)

lemma append_succeeds:
  assumes "apps_valid f" "registry f = Some m" "m n = Some a"
  shows "snd (do_aop (AAppend True now n rec) f)"
proof -
  obtain d where d: "loadFile f = Ok d" "load_apps f = Ok (apps_of d)" "registry f = Some (keyed (apps_of d))"
      "distinct (map apName (apps_of d))"
    using apps_valid_load [OF assms(1)] .
  then show ?thesis
    using assms(2,3) by (simp add: AppendDeploy_def edit_app_def find_keyed persist_apps_def)
qed

lemma put_deploy_registry:
  assumes "apps_valid (wApps w)" "registry (wApps w) = Some m" "m n = Some a" "dSaved H"
  shows "apps_valid (wApps (put_deploy H n rec w))"
    and "registry (wApps (put_deploy H n rec w)) = Some (m(n \<mapsto> a\<lparr>apDeploys := put_record rec (apDeploys a), apUpdated := dNow H\<rparr>))"
proof -
  note w = one_write_keeps [OF do_aop_write [OF assms(1,2), of "AAppend True (dNow H) n rec"] assms(1)]
  show "apps_valid (wApps (put_deploy H n rec w))"
    using w assms(4) by (simp add: put_deploy_aop)
  show "registry (wApps (put_deploy H n rec w)) = Some (m(n \<mapsto> a\<lparr>apDeploys := put_record rec (apDeploys a), apUpdated := dNow H\<rparr>))"
    using w append_succeeds [OF assms(1-3)] assms(3,4) by (simp add: put_deploy_aop at_name_def)
qed

lemma writeVhost_apps: "wApps (fst (writeVhost H project domain port w)) = wApps w"
  by (simp add: writeVhost_def Let_def)

text \<open>The record a deploy starts with, and the shape of what a deploy does to the registry.\<close>

definition started :: "dhost \<Rightarrow> Spec \<Rightarrow> App \<Rightarrow> string \<Rightarrow> string \<Rightarrow> DeployRecord" where
  "started H sp a ref commit =
     \<lparr>drID = or_default (spDeployID sp) (dNewID H), drRef = ref, drCommit = commit, drPreview = spPreview sp,
      drProject = ComposeProject (apName a) (spPreview sp), drStatus = ''building'', drStarted = dNow H,
      drFinished = 0, drMessage = dSubject H (RepoPath (apName a)) commit, drError = ''''\<rparr>"

definition deploy_commit :: "dhost \<Rightarrow> Spec \<Rightarrow> App \<Rightarrow> string \<times> string option" where
  "deploy_commit H sp a =
     (let ref = or_default (spRef sp) (''refs/heads/'' @ or_default (apBranch a) ''main'')
      in (ref, if spCommit sp \<noteq> '''' then Some (spCommit sp) else dRevParse H (RepoPath (apName a)) ref))"

lemma Deploy_shape:
  assumes "Get_app (spApp sp) (wApps w) = Ok (Some a)" "deploy_commit H sp a = (ref, Some commit)"
    "Deploy H keys sp w = (w', es, r)"
  obtains rec where
    "wApps w' = wApps (put_deploy H (apName a) rec (put_deploy H (apName a) (started H sp a ref commit) w))"
    "drID rec = or_default (spDeployID sp) (dNewID H)" "drPreview rec = spPreview sp" "drCommit rec = commit"
    "drFinished rec = dNow H" "drStatus rec = (if isl r then ''failed'' else ''running'')"
    "isl r \<longleftrightarrow> snd (deploy_steps H keys a commit (spPreview sp)) \<noteq> None"
    "es = fst (deploy_steps H keys a commit (spPreview sp))"
proof -
  obtain es1 so where st: "deploy_steps H keys a commit (spPreview sp) = (es1, so)"
    by (cases "deploy_steps H keys a commit (spPreview sp)")
  let ?s = "started H sp a ref commit"
  show thesis
  proof (cases so)
    case (Some step)
    show thesis
      by (rule that [of "?s\<lparr>drStatus := ''failed'', drError := step, drFinished := dNow H\<rparr>"])
        (use assms st Some in \<open>auto simp: Deploy_def Let_def deploy_commit_def started_def split: if_splits\<close>)
  next
    case None
    show thesis
      by (rule that [of "?s\<lparr>drStatus := ''running'', drFinished := dNow H\<rparr>"])
        (use assms st None in \<open>auto simp: Deploy_def Let_def deploy_commit_def started_def put_deploy_def writeVhost_apps split: if_splits\<close>)
  qed
qed

text \<open>
  C20. A deploy always leaves its verdict. When the application exists, its commit resolves and the registry can be written, the
  history of the application ends up with a record of this deploy that says \<^verbatim>\<open>running\<close> exactly when the stack was brought up and
  \<^verbatim>\<open>failed\<close> otherwise; the history has at most 30 records, the settings of the application are as they were and no other
  application changes.
\<close>
theorem deploy_records_verdict:
  assumes "apps_valid (wApps w)" and "Get_app (spApp sp) (wApps w) = Ok (Some a)" and "deploy_commit H sp a = (ref, Some commit)"
    and "dSaved H" and "Deploy H keys sp w = (w', es, r)"
  shows "(\<exists>b rec. Get_app (spApp sp) (wApps w') = Ok (Some b) \<and> rec \<in> set (apDeploys b)
      \<and> drID rec = or_default (spDeployID sp) (dNewID H) \<and> drCommit rec = commit \<and> drPreview rec = spPreview sp
      \<and> drStatus rec = (if isl r then ''failed'' else ''running'') \<and> length (apDeploys b) \<le> 30
      \<and> b = a\<lparr>apDeploys := apDeploys b, apUpdated := dNow H\<rparr>)
    \<and> (\<not> isl r \<longleftrightarrow> (\<exists>project file. ComposeUp project file \<in> set es))
    \<and> (n \<noteq> spApp sp \<longrightarrow> Get_app n (wApps w') = Get_app n (wApps w))"
proof -
  obtain m where m: "registry (wApps w) = Some m" "m (spApp sp) = Some a"
    using Get_app_Ok [OF assms(2)] by blast
  have name: "apName a = spApp sp"
    using assms(2) by (auto simp: Get_app_def find_keyed dest: keyed_name split: sum.splits)
  obtain rec where rec:
    "wApps w' = wApps (put_deploy H (apName a) rec (put_deploy H (apName a) (started H sp a ref commit) w))"
    "drID rec = or_default (spDeployID sp) (dNewID H)" "drPreview rec = spPreview sp" "drCommit rec = commit"
    "drFinished rec = dNow H" "drStatus rec = (if isl r then ''failed'' else ''running'')"
    "isl r \<longleftrightarrow> snd (deploy_steps H keys a commit (spPreview sp)) \<noteq> None"
    "es = fst (deploy_steps H keys a commit (spPreview sp))"
    using Deploy_shape [OF assms(2,3,5)] .
  let ?a1 = "a\<lparr>apDeploys := put_record (started H sp a ref commit) (apDeploys a), apUpdated := dNow H\<rparr>"
  note one = put_deploy_registry [OF assms(1) m assms(4), of "started H sp a ref commit"]
  note two = put_deploy_registry [OF one, where n = "spApp sp" and a = ?a1 and H = H and rec = rec]
  let ?b = "?a1\<lparr>apDeploys := put_record rec (apDeploys ?a1), apUpdated := dNow H\<rparr>"
  have reg: "registry (wApps w') = Some (m(spApp sp \<mapsto> ?b))"
    using two(2) assms(4) by (simp add: rec(1) name)
  have "rec \<in> set (apDeploys ?b)" "length (apDeploys ?b) \<le> 30"
    using put_record_in [OF put_record_length] put_record_length by (simp_all add: maxDeployHistory_def)
  moreover have "\<not> isl r \<longleftrightarrow> (\<exists>project file. ComposeUp project file \<in> set es)"
    unfolding rec(7,8) by (auto simp: deploy_steps_def Let_def)
  moreover have "Get_app n (wApps w') = Get_app n (wApps w)" if "n \<noteq> spApp sp"
    using that Get_app_registry [OF reg] Get_app_registry [OF m(1)] by simp
  ultimately show ?thesis
    using Get_app_registry [OF reg, of "spApp sp"] rec by (intro conjI exI [of _ ?b] exI [of _ rec]) simp_all
qed

definition good_host :: dhost where
  "good_host = \<lparr>dNow = 100, dNewID = ''d1-ab'', dRevParse = (\<lambda>_ _. Some ''c0ffee''), dSubject = (\<lambda>_ _. ''first''), dMkdir = True,
     dCheckout = True, dEnvWritten = True, dComposeThere = (\<lambda>_. True), dComposeUp = True, dSitesDir = True, dVhostWritten = True,
     dNginxOK = (\<lambda>_. True), dReload = True, dSaved = True, dProvisioned = True, dSeeded = True\<rparr>"

definition hello_world :: dworld where
  "hello_world = \<lparr>wApps = hello_file, wVhosts = Map.empty\<rparr>"

definition hello_spec :: Spec where
  "hello_spec = \<lparr>spApp = ''hello'', spRef = '''', spCommit = '''', spPreview = '''', spTrigger = ''ui'', spDeployID = ''''\<rparr>"

lemma hello_file_registry: "apps_valid hello_file \<and> registry hello_file = Some [''hello'' \<mapsto> hello]"
proof
  show "apps_valid hello_file" by code_simp
  show "registry hello_file = Some [''hello'' \<mapsto> hello]"
    by (simp add: registry_def load_apps_def hello_file_def loadFile_written apps_of_eq AppsSchemaVersion_def app_of_eq
        v2ToApp_def appToV2_def hello_def no_app_def)
qed

theorem deploy_records_verdict_witness:
  "\<exists>b rec. Get_app ''hello'' (wApps (fst (Deploy (good_host\<lparr>dComposeUp := False\<rparr>) [] hello_spec hello_world))) = Ok (Some b)
     \<and> rec \<in> set (apDeploys b) \<and> drID rec = ''d1-ab'' \<and> drStatus rec = ''failed'' \<and> length (apDeploys b) \<le> 30"
proof -
  let ?H = "good_host\<lparr>dComposeUp := False\<rparr>"
  have g: "Get_app (spApp hello_spec) (wApps hello_world) = Ok (Some hello)" "apps_valid (wApps hello_world)"
    using hello_file_registry Get_app_registry [of hello_file] by (simp_all add: hello_spec_def hello_world_def)
  have c: "deploy_commit ?H hello_spec hello = (''refs/heads/main'', Some ''c0ffee'')"
    by code_simp
  have p: "Deploy ?H [] hello_spec hello_world = (fst (Deploy ?H [] hello_spec hello_world),
      fst (snd (Deploy ?H [] hello_spec hello_world)), snd (snd (Deploy ?H [] hello_spec hello_world)))"
    by simp
  have "snd (deploy_steps ?H [] hello ''c0ffee'' (spPreview hello_spec)) = Some ''docker compose up''"
    by (simp add: deploy_steps_def Let_def good_host_def)
  then have i: "isl (snd (snd (Deploy ?H [] hello_spec hello_world)))"
    by (metis Deploy_shape [OF g(1) c p] option.distinct(1))
  have s: "dSaved ?H" "spApp hello_spec = ''hello''" "or_default (spDeployID hello_spec) (dNewID ?H) = ''d1-ab''"
    by code_simp+
  obtain b rec where "Get_app (spApp hello_spec) (wApps (fst (Deploy ?H [] hello_spec hello_world))) = Ok (Some b)"
      "rec \<in> set (apDeploys b)" "drID rec = or_default (spDeployID hello_spec) (dNewID ?H)"
      "drStatus rec = (if isl (snd (snd (Deploy ?H [] hello_spec hello_world))) then ''failed'' else ''running'')"
      "length (apDeploys b) \<le> 30"
    by (rule deploy_records_verdict [OF g(2,1) c s(1) p, THEN conjunct1, THEN exE]) (elim exE conjE)
  then show ?thesis
    unfolding s(2,3) if_P [OF i] by (intro exI conjI)
qed

section \<open>The cap on previews\<close>

lemma set_Previews: "set (Previews a) = drPreview ` {d \<in> set (apDeploys a). active d}"
  by (auto simp: Previews_def)

lemma distinct_Previews: "distinct (Previews a)"
  by (simp add: Previews_def)

lemma active_none: "ActivePreviews a slug = None \<longleftrightarrow> slug \<notin> set (Previews a)"
proof -
  have "fold (\<lambda>d m. m(drPreview d \<mapsto> (case m (drPreview d) of None \<Rightarrow> max 0 (drStarted d) | Some t \<Rightarrow> max t (drStarted d)))) ds m slug = None
      \<longleftrightarrow> slug \<notin> drPreview ` set ds \<and> m slug = None" for ds :: "DeployRecord list" and m
    by (induction ds arbitrary: m) auto
  then show ?thesis
    by (auto simp: ActivePreviews_def Previews_def)
qed

definition preview_set :: "string \<Rightarrow> dworld \<Rightarrow> string set" where
  "preview_set n w = set (Previews (current n w))"

lemma preview_set_registry: "registry (wApps w) = Some m \<Longrightarrow> preview_set n w = (case m n of None \<Rightarrow> {} | Some a \<Rightarrow> set (Previews a))"
  by (simp add: preview_set_def current_def Get_app_registry Previews_def no_app_def split: option.splits)

lemma Previews_put_record:
  "set (Previews (a\<lparr>apDeploys := put_record rec (apDeploys a), apUpdated := t\<rparr>))
     \<subseteq> set (Previews a) \<union> (if active rec then {drPreview rec} else {})"
  using set_put_record [of rec "apDeploys a"] by (auto simp: set_Previews)

lemma put_deploy_previews:
  assumes "apps_valid (wApps w)"
  shows "apps_valid (wApps (put_deploy H n rec w))"
    and "preview_set k (put_deploy H n rec w) \<subseteq> preview_set k w \<union> (if k = n \<and> active rec then {drPreview rec} else {})"
proof -
  obtain m where m: "registry (wApps w) = Some m" using valid_registry [OF assms] by blast
  let ?p = "AAppend (dSaved H) (dNow H) n rec"
  note w = one_write_keeps [OF do_aop_write [OF assms m, of ?p] assms]
  show "apps_valid (wApps (put_deploy H n rec w))"
    using w by (simp add: put_deploy_aop)
  show "preview_set k (put_deploy H n rec w) \<subseteq> preview_set k w \<union> (if k = n \<and> active rec then {drPreview rec} else {})"
  proof (cases "snd (do_aop ?p (wApps w))")
    case True
    then have r: "registry (wApps (put_deploy H n rec w)) = Some (aop_effect ?p m)"
      using w by (simp add: put_deploy_aop)
    show ?thesis
      using Previews_put_record
      by (fastforce simp: preview_set_registry [OF r] preview_set_registry [OF m] at_name_def split: option.splits if_splits)
  next
    case False
    then show ?thesis
      using w by (simp add: preview_set_def current_def put_deploy_aop)
  qed
qed

lemma active_started: "\<not> active (started H sp a ref commit)"
  by (simp add: active_def started_def)

text \<open>A deploy adds at most the preview it deploys, to the application it deploys.\<close>

lemma Deploy_previews:
  assumes "apps_valid (wApps w)" "Deploy H keys sp w = (w', es, r)"
  shows "apps_valid (wApps w')"
    and "preview_set k w' \<subseteq> preview_set k w \<union> (if k = spApp sp \<and> spPreview sp \<noteq> '''' then {spPreview sp} else {})"
proof -
  have *: "apps_valid (wApps w') \<and>
    preview_set k w' \<subseteq> preview_set k w \<union> (if k = spApp sp \<and> spPreview sp \<noteq> '''' then {spPreview sp} else {})"
  proof (cases "\<exists>a ref commit. Get_app (spApp sp) (wApps w) = Ok (Some a) \<and> deploy_commit H sp a = (ref, Some commit)")
    case False
    then have "w' = w"
      using assms(2) by (auto simp: Deploy_def deploy_commit_def Let_def split: sum.splits option.splits if_splits)
    then show ?thesis using assms(1) by auto
  next
    case True
    then obtain a ref commit where a: "Get_app (spApp sp) (wApps w) = Ok (Some a)" "deploy_commit H sp a = (ref, Some commit)"
      by blast
    have name: "apName a = spApp sp"
      using a(1) by (auto simp: Get_app_def find_keyed dest: keyed_name split: sum.splits)
    obtain rec where rec: "wApps w' = wApps (put_deploy H (apName a) rec (put_deploy H (apName a) (started H sp a ref commit) w))"
        "drPreview rec = spPreview sp"
      by (rule Deploy_shape [OF a assms(2)])
    note one = put_deploy_previews [OF assms(1), where H = H and n = "apName a" and rec = "started H sp a ref commit"]
    note two = put_deploy_previews [OF one(1), where H = H and n = "apName a" and rec = rec]
    have "preview_set k w' = preview_set k (put_deploy H (apName a) rec (put_deploy H (apName a) (started H sp a ref commit) w))"
      by (simp add: preview_set_def current_def rec(1))
    also have "\<dots> \<subseteq> preview_set k w \<union> (if k = spApp sp \<and> active rec then {spPreview sp} else {})"
      using one(2) [where k = k] two(2) [where k = k] by (auto simp: active_started name rec(2) split: if_splits)
    finally show ?thesis
      using two(1) by (auto simp: rec active_def split: if_splits)
  qed
  show "apps_valid (wApps w')" "preview_set k w' \<subseteq> preview_set k w \<union> (if k = spApp sp \<and> spPreview sp \<noteq> '''' then {spPreview sp} else {})"
    using * by blast+
qed

lemma removeVhost_apps: "wApps (removeVhost project w) = wApps w"
  by (simp add: removeVhost_def)

lemma Teardown_previews:
  assumes "apps_valid (wApps w)" "TeardownPreview H a p w = (w', es)"
  shows "apps_valid (wApps w')" "preview_set k w' \<subseteq> preview_set k w"
proof -
  obtain m where m: "registry (wApps w) = Some m" using valid_registry [OF assms(1)] by blast
  have *: "apps_valid (wApps w') \<and> preview_set k w' \<subseteq> preview_set k w"
  proof (cases "m (apName a)")
    case None
    then have "wApps w' = wApps w"
      using assms(2) Get_app_registry [OF m] by (auto simp: TeardownPreview_def Let_def removeVhost_apps)
    then show ?thesis using assms(1) by (simp add: preview_set_def current_def)
  next
    case (Some fresh)
    have name: "apName fresh = apName a"
      using Some Get_app_registry [OF m, of "apName a"] by (auto simp: Get_app_def find_keyed dest: keyed_name split: sum.splits)
    let ?f = "fresh\<lparr>apDeploys := map (rolled_back p) (apDeploys fresh)\<rparr>"
    let ?p = "ASave (dSaved H) (dNow H) ?f"
    have w': "wApps w' = fst (do_aop ?p (wApps w))"
      using assms(2) Some Get_app_registry [OF m] by (auto simp: TeardownPreview_def Let_def removeVhost_apps split: prod.split)
    note w = one_write_keeps [OF do_aop_write [OF assms(1) m, of ?p] assms(1)]
    have "set (Previews (?f\<lparr>apUpdated := dNow H, apDeploys := pruned (apDeploys ?f)\<rparr>)) \<subseteq> set (Previews fresh)"
      using set_pruned [of "apDeploys ?f"] by (fastforce simp: set_Previews rolled_back_def active_def split: if_splits)
    then have "preview_set k w' \<subseteq> preview_set k w"
      using w Some name preview_set_registry [OF m, of k] preview_set_registry [of w' "aop_effect ?p m" k]
      by (cases "snd (do_aop ?p (wApps w))") (auto simp: w' preview_set_def current_def split: if_splits)
    then show ?thesis
      using w by (simp add: w')
  qed
  show "apps_valid (wApps w')" "preview_set k w' \<subseteq> preview_set k w"
    using * by blast+
qed

lemma card_preview_set: "length (Previews (current n w)) = card (preview_set n w)"
  by (simp add: preview_set_def distinct_card [OF distinct_Previews])

lemma card_insert_below: "finite A \<Longrightarrow> B \<subseteq> A \<union> {x} \<Longrightarrow> card A < n \<Longrightarrow> card B \<le> n"
  by (metis Un_insert_right card_insert_le_m1 card_mono finite_insert le_trans sup_bot_right card_insert_if less_eq_Suc_le less_imp_le)

lemma hook_ref_cap:
  assumes "apps_valid (wApps w)" "card (preview_set name w) \<le> MaxPreviews" "hook_ref H low keys name a hr w = (w', es, ok)"
  shows "apps_valid (wApps w') \<and> card (preview_set name w') \<le> MaxPreviews \<and> (k \<noteq> name \<longrightarrow> preview_set k w' \<subseteq> preview_set k w)"
proof -
  have fin: "finite (preview_set name w)" by (simp add: preview_set_def)
  then have shrunk: "card (preview_set name w') \<le> MaxPreviews" if "preview_set name w' \<subseteq> preview_set name w"
    using that assms(2) by (rule order_trans [OF card_mono])
  let ?slug = "PreviewSlug low (hkRef hr)"
  consider (same) "w' = w"
    | (prod) es' r where "Deploy H keys (push_spec name hr '''') w = (w', es', r)"
    | (down) "TeardownPreview H (current name w) ?slug w = (w', es)"
    | (preview) es' r where "Deploy H keys (push_spec name hr ?slug) w = (w', es', r)" "CanDeployPreview (current name w) ?slug" "?slug \<noteq> ''''"
    using assms(3) by (auto simp: hook_ref_def Let_def split: if_splits prod.splits)
  then show ?thesis
  proof cases
    case same
    then show ?thesis using assms by auto
  next
    case prod
    have "preview_set j w' \<subseteq> preview_set j w" for j
      using Deploy_previews(2) [OF assms(1) prod, of j] by (simp add: push_spec_def)
    then show ?thesis
      using Deploy_previews(1) [OF assms(1) prod] shrunk by blast
  next
    case down
    show ?thesis
      using Teardown_previews [OF assms(1) down] shrunk by blast
  next
    case preview
    have sub: "preview_set name w' \<subseteq> preview_set name w \<union> {?slug}"
      using Deploy_previews(2) [OF assms(1) preview(1), of name] by (auto simp: push_spec_def split: if_splits)
    have "card (preview_set name w') \<le> MaxPreviews"
    proof (cases "?slug \<in> preview_set name w")
      case True
      then show ?thesis
        using sub by (intro shrunk) blast
    next
      case False
      then have "card (preview_set name w) < MaxPreviews"
        using preview(2) by (auto simp: CanDeployPreview_def card_preview_set preview_set_def active_none)
      then show ?thesis
        by (rule card_insert_below [OF fin sub])
    qed
    then show ?thesis
      using Deploy_previews(1) [OF assms(1) preview(1)] Deploy_previews(2) [OF assms(1) preview(1), of k]
      by (auto simp: push_spec_def split: if_splits)
  qed
qed

lemma hook_refs_cap:
  assumes "apps_valid (wApps w)" "card (preview_set name w) \<le> MaxPreviews"
  shows "apps_valid (wApps (fst (hook_refs low name a refs w))) \<and> card (preview_set name (fst (hook_refs low name a refs w))) \<le> MaxPreviews
    \<and> (k \<noteq> name \<longrightarrow> preview_set k (fst (hook_refs low name a refs w)) \<subseteq> preview_set k w)"
proof -
  let ?g = "\<lambda>(H, keys, hr) (w, es, ok). let (w', es', ok') = hook_ref H low keys name a hr w in (w', es @ es', ok \<and> ok')"
  have "apps_valid (wApps v) \<Longrightarrow> card (preview_set name v) \<le> MaxPreviews \<Longrightarrow>
      apps_valid (wApps (fst (fold ?g refs (v, es, ok)))) \<and> card (preview_set name (fst (fold ?g refs (v, es, ok)))) \<le> MaxPreviews
      \<and> (k \<noteq> name \<longrightarrow> preview_set k (fst (fold ?g refs (v, es, ok))) \<subseteq> preview_set k v)" for v es ok
  proof (induction refs arbitrary: v es ok)
    case (Cons x refs)
    obtain H keys hr where x: "x = (H, keys, hr)" by (cases x)
    obtain v1 es1 ok1 where h: "hook_ref H low keys name a hr v = (v1, es1, ok1)" by (cases "hook_ref H low keys name a hr v")
    show ?case
      using Cons.IH [of v1 "es @ es1" "ok \<and> ok1"] hook_ref_cap [OF Cons.prems h, of k] by (auto simp: x h)
  qed simp
  then show ?thesis
    using assms by (simp add: hook_refs_def)
qed


definition push_of :: "string \<Rightarrow> HookRef" where
  "push_of branch = \<lparr>hkRef = ''refs/heads/'' @ branch, hkCommit = ''c'', hkDelete = False\<rparr>"

definition four_pushes :: "(dhost \<times> string list \<times> HookRef) list" where
  "four_pushes = map (\<lambda>b. (good_host\<lparr>dNewID := b\<rparr>, [], push_of b)) [''a'', ''b'', ''c'', ''d'']"


section \<open>Where the code departs from what it says\<close>

text \<open>
  A rejected nginx configuration. The comment of \<open>writeVhost\<close> says that the previous state comes back; the test of the read error is
  inverted, so a virtual host that was there is removed, and where there was none an empty file stays behind.
\<close>
lemma rejected_vhost_is_lost:
  assumes "dSitesDir H" "dVhostWritten H" "\<not> dNginxOK H ((wVhosts w)(vhostPath project \<mapsto> VConf domain port))"
  shows "wVhosts (fst (writeVhost H project domain port w)) (vhostPath project)
    = (if wVhosts w (vhostPath project) = None then Some VBlank else None)"
  using assms by (simp add: writeVhost_def Let_def)

text \<open>
  Two deployments of one project on two nodes: any write gives both the node and the identifier of the last one, which the
  comment of \<open>persist_apps\<close> says the re-read prevents.
\<close>
lemma second_node_overwrites_first:
  "map (\<lambda>d. (dpNodeID d, dpID d)) (Deployments (rebuilt
     \<lparr>SchemaVersion = 2, Projects = [], Deployments = [snd (appToV2 hello ''casa''), snd (appToV2 hello ''vps'')]\<rparr>
     (apps_of \<lparr>SchemaVersion = 2, Projects = [], Deployments = [snd (appToV2 hello ''casa''), snd (appToV2 hello ''vps'')]\<rparr>)))
   = [(''vps'', ''hello@vps''), (''vps'', ''hello@vps'')]"
  by code_simp

text \<open>The name of a preview that comes from a request is not checked: tearing it down removes a directory of the host.\<close>
lemma teardown_reaches_outside: "RemoveAll ''/etc'' \<in> set (snd (TeardownPreview H hello ''/../../../etc'' w))"
proof -
  have "WorkDir (apName hello) ''/../../../etc'' = ''/etc''"
    by code_simp
  then show ?thesis
    by (simp add: TeardownPreview_def Let_def)
qed

text \<open>A valid application name that is the name of another application's preview shares its tree and its stack.\<close>
lemma preview_of_one_is_another:
  "ValidName ''shop-pr-beta'' \<and> WorkDir ''shop-pr-beta'' '''' = WorkDir ''shop'' ''beta''
   \<and> ComposeProject ''shop-pr-beta'' '''' = ComposeProject ''shop'' ''beta''"
  by code_simp

text \<open>Branches that differ have one preview, and so have tags; deleting one takes down the other's.\<close>
lemma branches_share_a_preview:
  "PreviewSlug id ''refs/heads/feature/foo'' = PreviewSlug id ''refs/heads/feature-foo''
   \<and> PreviewSlug id ''refs/tags/v1'' = ''refs-tags-v1''"
  by code_simp

definition run_of :: "string \<Rightarrow> string \<Rightarrow> DeployRecord" where
  "run_of i preview = \<lparr>drID = i, drRef = '''', drCommit = ''c'', drPreview = preview, drProject = '''', drStatus = ''running'',
     drStarted = 1, drFinished = 2, drMessage = '''', drError = ''''\<rparr>"

text \<open>Thirty deploys later the running preview is in no list: it is neither reaped nor taken down with its application.\<close>
lemma forgotten_preview_runs_on:
  "Previews (hello\<lparr>apDeploys := [run_of ''p'' ''beta'']\<rparr>) = [''beta'']
   \<and> Previews (hello\<lparr>apDeploys := fold (\<lambda>n. put_record (run_of (replicate n CHR ''x'') '''')) [1..<31] [run_of ''p'' ''beta'']\<rparr>) = []"
  by code_simp

text \<open>A value with a line break is left out of \<^verbatim>\<open>.env\<close>; a key with one is written, and adds a line of its own.\<close>
lemma key_adds_a_line: "env_line [''A=1'' @ [CHR 0x0A] @ ''B'' \<mapsto> ''2''] (''A=1'' @ [CHR 0x0A] @ ''B'') = ''A=1'' @ [CHR 0x0A] @ ''B=2'' @ [CHR 0x0A]"
  by code_simp

text \<open>The identifier that a queued deploy was promised is not the one it gets.\<close>
lemma queued_deploy_has_another_id:
  assumes "daApp d \<noteq> ''''" "AppDeployRunner_Run H keys (Some d) w = (w', es, Inr rec)"
  shows "drID rec = dNewID H"
  using assms
  by (auto simp: AppDeployRunner_Run_def Deploy_def Let_def or_default_def split: sum.splits option.splits if_splits prod.splits)

end
