(* ===== verification/Config.thy ===== *)
theory Config
  imports GoPath Prelude
begin

text \<open>
  \<^verbatim>\<open>internal/config\<close>: the configuration, its accounts (\<^verbatim>\<open>config.go\<close>) and its file with the backups beside it
  (\<^verbatim>\<open>config_io.go\<close>), and the administrator gate of \<^verbatim>\<open>internal/httpx/rbac.go\<close>.

  The record has the fields that code outside the plain settings reads: accounts, schema, secrets and the values that get a
  default. A configuration file is absent, unreadable, not JSON, or a configuration; a backup is known by its time stamp. What
  the operating system, the random generator and bcrypt answer is the record \<open>chost\<close>.
\<close>

section \<open>Data\<close>

record User =
  usName :: string
  usHash :: string
  usTOTP :: string
  usRecovery :: string
  usMFA :: bool
  usAdmin :: bool
  usAppOnly :: bool

record Config =
  cSchema :: int
  cPrimary :: string
  cListen :: string
  cDataDir :: string
  cJWTSecret :: string
  cJWTSecretFile :: string
  cUsername :: string
  cPasswordHash :: string
  cTOTP :: string
  cRecovery :: string
  cUsers :: "User list"
  cClaudeHome :: string
  cPrivateAIURL :: string
  cPrivateAIAdminTokenFile :: string
  cAdGuardURL :: string
  cSingboxConfigPath :: string
  cSingboxContainer :: string
  cSingboxClashURL :: string
  cSingboxDevicePortsPath :: string
  cDatasaverStateDir :: string
  cDatasaverCAPath :: string
  cDatasaverContainers :: "string list"
  cTactiqIntakeToken :: string
  cLoadedFromBackup :: bool
  cLoadedBackupTS :: secs

definition CurrentSchemaVersion :: int where "CurrentSchemaVersion = 2"
definition maxBackups :: nat where "maxBackups = 10"

section \<open>Accounts\<close>

definition find_user :: "string \<Rightarrow> User list \<Rightarrow> User option" where
  "find_user n us = find (\<lambda>u. usName u = n) us"

definition edit_user :: "string \<Rightarrow> (User \<Rightarrow> User) \<Rightarrow> User list \<Rightarrow> User list" where
  "edit_user n g us = upd_first (\<lambda>u. usName u = n) g us"

definition AllUsers :: "Config \<Rightarrow> User list" where
  "AllUsers c =
     (if cUsername c \<noteq> '''' \<and> cPasswordHash c \<noteq> ''''
      then [\<lparr>usName = cUsername c, usHash = cPasswordHash c, usTOTP = cTOTP c, usRecovery = '''', usMFA = False, usAdmin = False,
             usAppOnly = False\<rparr>] else []) @ cUsers c"

definition HasUser :: "Config \<Rightarrow> string \<Rightarrow> bool" where
  "HasUser c n \<longleftrightarrow> n \<noteq> '''' \<and> (cUsername c = n \<or> find_user n (cUsers c) \<noteq> None)"

definition IsAdmin :: "Config \<Rightarrow> string \<Rightarrow> bool" where
  "IsAdmin c n \<longleftrightarrow>
     (if n = '''' then False
      else if cPrimary c \<noteq> '''' \<and> cPrimary c = n then True
      else if cUsername c = n then cPrimary c = '''' \<or> cUsername c = cPrimary c
      else case find_user n (cUsers c) of None \<Rightarrow> False | Some u \<Rightarrow> usAdmin u)"

datatype account_error =
    EmptyUsername
  | EmptyHash
  | UserExists
  | PrimaryProtected
  | LegacyProtected
  | UserNotFound

definition SetAdmin :: "string \<Rightarrow> bool \<Rightarrow> Config \<Rightarrow> account_error + Config" where
  "SetAdmin n v c =
     (if n = '''' then Err EmptyUsername
      else if cPrimary c \<noteq> '''' \<and> cPrimary c = n then (if \<not> v then Err PrimaryProtected else Ok c)
      else if cUsername c = n then (if \<not> v then Err LegacyProtected else Ok c)
      else if find_user n (cUsers c) \<noteq> None then Ok (c\<lparr>cUsers := edit_user n (\<lambda>u. u\<lparr>usAdmin := v\<rparr>) (cUsers c)\<rparr>)
      else Err UserNotFound)"

text \<open>\<open>seen\<close> is the set of names listed so far.\<close>

fun more_admins :: "string list \<Rightarrow> User list \<Rightarrow> string list" where
  "more_admins seen [] = []"
| "more_admins seen (u # us) =
     (if usAdmin u \<and> usName u \<notin> set seen then usName u # more_admins (usName u # seen) us else more_admins seen us)"

definition Admins :: "Config \<Rightarrow> string list" where
  "Admins c = (let p = (if cPrimary c \<noteq> '''' then [cPrimary c] else []) in p @ more_admins p (AllUsers c))"

definition IsAppOnly :: "Config \<Rightarrow> string \<Rightarrow> bool" where
  "IsAppOnly c n \<longleftrightarrow> n \<noteq> '''' \<and> (case find_user n (cUsers c) of None \<Rightarrow> False | Some u \<Rightarrow> usAppOnly u)"

definition IsLegacyV1 :: "Config \<Rightarrow> bool" where
  "IsLegacyV1 c \<longleftrightarrow> \<not> cSchema c \<ge> CurrentSchemaVersion \<and> (cUsername c \<noteq> '''' \<or> cPasswordHash c \<noteq> '''')"

definition TOTPSecretFor :: "Config \<Rightarrow> string \<Rightarrow> string \<times> bool" where
  "TOTPSecretFor c n =
     (if n = '''' then ('''', False)
      else if cUsername c = n then (cTOTP c, cTOTP c \<noteq> '''')
      else case find_user n (cUsers c) of None \<Rightarrow> ('''', False) | Some u \<Rightarrow> (usTOTP u, usTOTP u \<noteq> ''''))"

definition SetTOTPSecret :: "string \<Rightarrow> string \<Rightarrow> Config \<Rightarrow> Config \<times> bool" where
  "SetTOTPSecret n secret c =
     (if n = '''' then (c, False)
      else if cUsername c = n then (c\<lparr>cTOTP := secret\<rparr>, True)
      else if find_user n (cUsers c) \<noteq> None then (c\<lparr>cUsers := edit_user n (\<lambda>u. u\<lparr>usTOTP := secret\<rparr>) (cUsers c)\<rparr>, True)
      else (c, False))"

definition RecoveryTOTPSecretFor :: "Config \<Rightarrow> string \<Rightarrow> string \<times> bool" where
  "RecoveryTOTPSecretFor c n =
     (if n = '''' then ('''', False)
      else if cUsername c = n then (cRecovery c, cRecovery c \<noteq> '''')
      else case find_user n (cUsers c) of None \<Rightarrow> ('''', False) | Some u \<Rightarrow> (usRecovery u, usRecovery u \<noteq> ''''))"

definition SetRecoveryTOTPSecret :: "string \<Rightarrow> string \<Rightarrow> Config \<Rightarrow> Config \<times> bool" where
  "SetRecoveryTOTPSecret n secret c =
     (if n = '''' then (c, False)
      else if cUsername c = n then (c\<lparr>cRecovery := secret\<rparr>, True)
      else if find_user n (cUsers c) \<noteq> None then (c\<lparr>cUsers := edit_user n (\<lambda>u. u\<lparr>usRecovery := secret\<rparr>) (cUsers c)\<rparr>, True)
      else (c, False))"

definition SetPassword :: "string \<Rightarrow> string \<Rightarrow> Config \<Rightarrow> Config \<times> bool" where
  "SetPassword n hash c =
     (if n = '''' then (c, False)
      else if cUsername c = n then (c\<lparr>cPasswordHash := hash\<rparr>, True)
      else if find_user n (cUsers c) \<noteq> None then (c\<lparr>cUsers := edit_user n (\<lambda>u. u\<lparr>usHash := hash\<rparr>) (cUsers c)\<rparr>, True)
      else (c, False))"

definition new_user :: "string \<Rightarrow> string \<Rightarrow> User" where
  "new_user n hash = \<lparr>usName = n, usHash = hash, usTOTP = '''', usRecovery = '''', usMFA = False, usAdmin = False, usAppOnly = False\<rparr>"

definition AddUser :: "string \<Rightarrow> string \<Rightarrow> Config \<Rightarrow> account_error + Config" where
  "AddUser n hash c =
     (if n = '''' then Err EmptyUsername
      else if hash = '''' then Err EmptyHash
      else if cUsername c = n then Err UserExists
      else if find_user n (cUsers c) \<noteq> None then Err UserExists
      else Ok (c\<lparr>cUsers := cUsers c @ [new_user n hash]\<rparr>))"

fun drop_user :: "string \<Rightarrow> User list \<Rightarrow> User list" where
  "drop_user n [] = []"
| "drop_user n (u # us) = (if usName u = n then us else u # drop_user n us)"

definition RemoveUser :: "string \<Rightarrow> Config \<Rightarrow> account_error + Config" where
  "RemoveUser n c =
     (if n = '''' then Err EmptyUsername
      else if cUsername c = n then Err PrimaryProtected
      else if cPrimary c \<noteq> '''' \<and> cPrimary c = n then Err PrimaryProtected
      else if find_user n (cUsers c) \<noteq> None then Ok (c\<lparr>cUsers := drop_user n (cUsers c)\<rparr>)
      else Err UserNotFound)"

section \<open>The file and its backups\<close>

text \<open>The backups \<^verbatim>\<open>config.json.bak.<ts>\<close> by time stamp, each stamp once.\<close>

record confdir =
  cfLive :: "Config jsonfile"
  cfBaks :: "(secs \<times> Config jsonfile) list"

record chost =
  chNow :: secs
  chSecret :: "string \<Rightarrow> string option"
  chToken :: string
  chPass :: string
  chJWT :: string
  chBcrypt :: "string \<Rightarrow> string option"
  chMkdir :: bool
  chBackup :: bool
  chWrite :: bool
  chRename :: bool
  chReadDir :: bool
  chRemoved :: "secs \<Rightarrow> bool"

datatype config_error =
    NewerSchema int
  | NoBackup
  | BackupCorrupt
  | BackupRead
  | BackupWrite
  | NewWrite
  | RenameFailed
  | BootstrapFailed

definition defaultPath :: string where "defaultPath = ''/opt/panel/data/config.json''"

text \<open>\<open>filepath.Dir\<close>: the part up to the last separator, cleaned.\<close>

definition Dir :: "string \<Rightarrow> string" where
  "Dir p = Clean (rev (dropWhile (\<lambda>c. c \<noteq> CHR ''/'') (rev p)))"

definition trim_right :: "string \<Rightarrow> string \<Rightarrow> string" where
  "trim_right cs s = rev (dropWhile (\<lambda>c. c \<in> set cs) (rev s))"

definition default :: "string \<Rightarrow> string \<Rightarrow> string" where
  "default s d = (if s = '''' then d else s)"

definition plain_defaults :: "string \<Rightarrow> Config \<Rightarrow> Config" where
  "plain_defaults path c =
     c\<lparr>cListen := default (cListen c) '':8765'', cDataDir := default (cDataDir c) (Dir path),
       cClaudeHome := default (cClaudeHome c) ''/root/.claude'',
       cPrivateAIURL := default (cPrivateAIURL c) ''http://127.0.0.1:8787'',
       cPrivateAIAdminTokenFile := default (cPrivateAIAdminTokenFile c) ''/etc/private-ai-api/env'',
       cAdGuardURL := default (cAdGuardURL c) ''http://127.0.0.1:3053'',
       cSingboxConfigPath := default (cSingboxConfigPath c) ''/opt/singbox/config.json'',
       cSingboxContainer := default (cSingboxContainer c) ''singbox'',
       cSingboxClashURL := default (cSingboxClashURL c) ''http://127.0.0.1:9095'',
       cSingboxDevicePortsPath := default (cSingboxDevicePortsPath c) ''/opt/singbox/.device-ports'',
       cDatasaverStateDir := default (cDatasaverStateDir c) ''/opt/datasaver/state'',
       cDatasaverCAPath := default (cDatasaverCAPath c) ''/opt/datasaver/ca/mitmproxy-ca-cert.pem'',
       cDatasaverContainers := (if cDatasaverContainers c = [] then [''datasaver-vps'', ''datasaver-casa''] else cDatasaverContainers c)\<rparr>"

definition applyDefaults :: "chost \<Rightarrow> string \<Rightarrow> Config \<Rightarrow> Config" where
  "applyDefaults H path c0 =
     (let c = plain_defaults path c0;
          token = (\<lambda>c. c\<lparr>cTactiqIntakeToken := default (cTactiqIntakeToken c) (chToken H)\<rparr>)
      in if cJWTSecretFile c \<noteq> '''' \<and> cJWTSecret c = '''' then
           (case chSecret H (cJWTSecretFile c) of
              None \<Rightarrow> c
            | Some b \<Rightarrow> token (c\<lparr>cJWTSecret := trim_right [CHR 0x0A, CHR 0x0D, CHR '' ''] b\<rparr>))
         else token c)"

definition newest_first :: "(secs \<times> 'a) list \<Rightarrow> (secs \<times> 'a) list" where
  "newest_first bs = sort_key (\<lambda>b. - fst b) bs"

definition latestBackup :: "chost \<Rightarrow> confdir \<Rightarrow> (secs \<times> Config jsonfile) option" where
  "latestBackup H d =
     (if \<not> chReadDir H then None else case newest_first (cfBaks d) of [] \<Rightarrow> None | b # _ \<Rightarrow> Some b)"

definition pruneBackups :: "chost \<Rightarrow> nat \<Rightarrow> confdir \<Rightarrow> confdir" where
  "pruneBackups H keep d =
     (if \<not> chReadDir H \<or> length (cfBaks d) \<le> keep then d
      else let old = map fst (drop keep (newest_first (cfBaks d)))
           in d\<lparr>cfBaks := filter (\<lambda>b. \<not> (fst b \<in> set old \<and> chRemoved H (fst b))) (cfBaks d)\<rparr>)"

text \<open>What is written: never the secret when it lives in a file of its own, nor the marks of a recovery.\<close>

definition serialised :: "Config \<Rightarrow> Config" where
  "serialised c = c\<lparr>cJWTSecret := (if cJWTSecretFile c \<noteq> '''' then '''' else cJWTSecret c), cLoadedFromBackup := False,
                    cLoadedBackupTS := 0\<rparr>"

definition put_backup :: "secs \<Rightarrow> 'a \<Rightarrow> (secs \<times> 'a) list \<Rightarrow> (secs \<times> 'a) list" where
  "put_backup t f bs = filter (\<lambda>b. fst b \<noteq> t) bs @ [(t, f)]"

definition backup_live :: "chost \<Rightarrow> confdir \<Rightarrow> config_error + confdir" where
  "backup_live H d =
     (case cfLive d of
        NoFile \<Rightarrow> Ok d
      | Unreadable \<Rightarrow> Err BackupRead
      | f \<Rightarrow> if chBackup H then Ok (d\<lparr>cfBaks := put_backup (chNow H) f (cfBaks d)\<rparr>) else Err BackupWrite)"

definition Save_config :: "chost \<Rightarrow> Config \<Rightarrow> confdir \<Rightarrow> confdir \<times> (config_error + unit)" where
  "Save_config H c d =
     (case backup_live H d of
        Inl e \<Rightarrow> (d, Err e)
      | Inr d1 \<Rightarrow>
          if \<not> chWrite H then (d1, Err NewWrite)
          else if \<not> chRename H then (d1, Err RenameFailed)
          else (pruneBackups H maxBackups (d1\<lparr>cfLive := Doc (serialised c)\<rparr>), Ok ()))"

definition blank_config :: Config where
  "blank_config = \<lparr>cSchema = 0, cPrimary = '''', cListen = '''', cDataDir = '''', cJWTSecret = '''', cJWTSecretFile = '''',
     cUsername = '''', cPasswordHash = '''', cTOTP = '''', cRecovery = '''', cUsers = [], cClaudeHome = '''', cPrivateAIURL = '''',
     cPrivateAIAdminTokenFile = '''', cAdGuardURL = '''', cSingboxConfigPath = '''', cSingboxContainer = '''', cSingboxClashURL = '''',
     cSingboxDevicePortsPath = '''', cDatasaverStateDir = '''', cDatasaverCAPath = '''', cDatasaverContainers = [],
     cTactiqIntakeToken = '''', cLoadedFromBackup = False, cLoadedBackupTS = 0\<rparr>"

text \<open>A fresh install; the last component is the text of \<^verbatim>\<open>INITIAL_CREDENTIALS.txt\<close>.\<close>

definition bootstrap :: "chost \<Rightarrow> string \<Rightarrow> confdir \<Rightarrow> confdir \<times> (config_error + Config \<times> string)" where
  "bootstrap H path d =
     (if \<not> chMkdir H then (d, Err BootstrapFailed)
      else case chBcrypt H (chPass H) of
        None \<Rightarrow> (d, Err BootstrapFailed)
      | Some hash \<Rightarrow>
          (let c = blank_config\<lparr>cSchema := CurrentSchemaVersion, cListen := '':8765'', cDataDir := Dir path, cJWTSecret := chJWT H,
                     cUsername := ''admin'', cPasswordHash := hash, cClaudeHome := ''/root/.claude''\<rparr>
           in case Save_config H c d of
                (d', Inl e) \<Rightarrow> (d', Err e)
              | (d', Inr _) \<Rightarrow> (d', Ok (c, ''username: admin'' @ [CHR 0x0A] @ ''password: '' @ chPass H @ [CHR 0x0A]))))"

definition parseFile :: "Config jsonfile \<Rightarrow> Config option" where
  "parseFile f = (case f of Doc c \<Rightarrow> Some c | _ \<Rightarrow> None)"

definition Load_config :: "chost \<Rightarrow> string \<Rightarrow> confdir \<Rightarrow> confdir \<times> (config_error + Config)" where
  "Load_config H path d =
     (if cfLive d = NoFile then
        (case bootstrap H path d of (d', Inl e) \<Rightarrow> (d', Err e) | (d', Inr (c, _)) \<Rightarrow> (d', Ok c))
      else case parseFile (cfLive d) of
        Some c0 \<Rightarrow>
          (let c = applyDefaults H path c0
           in if cSchema c > CurrentSchemaVersion then (d, Err (NewerSchema (cSchema c))) else (d, Ok c))
      | None \<Rightarrow>
          (case latestBackup H d of
             None \<Rightarrow> (d, Err NoBackup)
           | Some (t, f) \<Rightarrow>
               (case parseFile f of
                  None \<Rightarrow> (d, Err BackupCorrupt)
                | Some c0 \<Rightarrow> (d, Ok ((applyDefaults H path c0)\<lparr>cLoadedFromBackup := True, cLoadedBackupTS := t\<rparr>)))))"

section \<open>The administrator gate\<close>

datatype gate = Unauthorized401 | Forbidden403 | Admitted string

text \<open>\<open>MustPrimary\<close>; a denial of a known caller is also audited. \<open>caller\<close> is what \<open>UserFrom\<close> finds in the request.\<close>

definition MustPrimary :: "Config option \<Rightarrow> string \<Rightarrow> gate" where
  "MustPrimary cfg caller =
     (if caller = '''' then Unauthorized401
      else if (case cfg of None \<Rightarrow> False | Some c \<Rightarrow> IsAdmin c caller) then Admitted caller
      else Forbidden403)"

end
