(* ===== verification/DeployHandlers.thy ===== *)
theory DeployHandlers
  imports DeployProps Config
begin

text \<open>
  The deploy API: \<^verbatim>\<open>handlers_deploy.go\<close>, \<^verbatim>\<open>handlers_deploy_preview.go\<close> and \<^verbatim>\<open>handlers_deploy_catalog.go\<close> of
  \<^verbatim>\<open>internal/api\<close>, and what they guarantee: administrators only, logs read only where logs are.

  A body is \<open>None\<close> when its JSON does not decode. The queue answers with the identifier of the job or an error; what is enqueued
  is an effect. \<open>dqLog\<close> gives the content of a log file.
\<close>

record dqhost =
  dqHost :: dhost
  dqPath :: string
  dqQueue :: bool
  dqJob :: "string option"
  dqLog :: "string \<Rightarrow> string option"

record dqstate =
  dqCfg :: Config
  dqStore :: bool
  dqWorld :: dworld

datatype dqeffect = OnHost deffect | Enqueued string AppDeployArgs string | DAudit string string

text \<open>A template of the catalogue: its identifier, name, port and compose file.\<close>

record Template =
  tpID :: string
  tpName :: string
  tpPort :: int
  tpCompose :: string

datatype dreply =
    DErr nat
  | DApps "App list" string
  | DApp App string
  | DQueued string string
  | DDone
  | DEnv environ environ
  | DLogChunk string int bool
  | DTemplates "Template list"

text \<open>The gate, the store and, for the mutating handlers, the method.\<close>

definition deploy_gate :: "dqstate \<Rightarrow> string \<Rightarrow> nat option" where
  "deploy_gate s caller =
     (case MustPrimary (Some (dqCfg s)) caller of
        Unauthorized401 \<Rightarrow> Some 401
      | Forbidden403 \<Rightarrow> Some 403
      | Admitted _ \<Rightarrow> if \<not> dqStore s then Some 503 else None)"

definition deploy_post :: "dqstate \<Rightarrow> string \<Rightarrow> string \<Rightarrow> nat option" where
  "deploy_post s caller meth = (case deploy_gate s caller of Some e \<Rightarrow> Some e | None \<Rightarrow> if meth \<noteq> MethodPost then Some 405 else None)"

text \<open>A refusal of the gate is recorded; \<open>dqPath\<close> is the path of the request.\<close>

definition deploy_denied :: "dqhost \<Rightarrow> string \<Rightarrow> nat \<Rightarrow> dqeffect list" where
  "deploy_denied H caller e = (if e = 403 then [DAudit ''rbac.denied'' (''admin-only endpoint '' @ dqPath H)] else [])"

text \<open>An application that is there: otherwise, and when the registry cannot be read, 404.\<close>

definition deploy_found :: "string \<Rightarrow> dqstate \<Rightarrow> App option" where
  "deploy_found name s = (case Get_app name (wApps (dqWorld s)) of Inr (Some a) \<Rightarrow> Some a | _ \<Rightarrow> None)"

definition handleDeployApps :: "dqhost \<Rightarrow> string \<Rightarrow> string \<Rightarrow> (App \<times> bool option) option \<Rightarrow> dqstate
    \<Rightarrow> dqstate \<times> dreply \<times> dqeffect list" where
  "handleDeployApps H caller meth body s =
     (case deploy_gate s caller of
        Some e \<Rightarrow> (s, DErr e, deploy_denied H caller e)
      | None \<Rightarrow>
          if meth = MethodGet then
            (case List_apps (wApps (dqWorld s)) of Inl _ \<Rightarrow> (s, DErr 500, []) | Inr apps \<Rightarrow> (s, DApps apps AppsRoot, []))
          else if meth = MethodPost then
            (case body of
               None \<Rightarrow> (s, DErr 400, [])
             | Some (b, auto) \<Rightarrow>
                 (let a = no_app\<lparr>apName := apName b, apPort := apPort b, apDomain := apDomain b, apBranch := apBranch b,
                                 apComposeFile := apComposeFile b, apAutodeploy := (case auto of None \<Rightarrow> True | Some v \<Rightarrow> v)\<rparr>
                  in case Create_app (dqHost H) a (dqWorld s) of
                       (w, es, Inl _) \<Rightarrow> (s\<lparr>dqWorld := w\<rparr>, DErr 400, map OnHost es)
                     | (w, es, Inr c) \<Rightarrow>
                         (s\<lparr>dqWorld := w\<rparr>, DApp c (RepoPath (apName c)), map OnHost es @ [DAudit ''deploy.app.create'' (apName c)])))
          else (s, DErr 405, []))"

definition handleDeployApp :: "dqhost \<Rightarrow> string \<Rightarrow> string \<Rightarrow> dqstate \<Rightarrow> dreply \<times> dqeffect list" where
  "handleDeployApp H caller name s =
     (case deploy_gate s caller of
        Some e \<Rightarrow> (DErr e, deploy_denied H caller e)
      | None \<Rightarrow>
          (case Get_app name (wApps (dqWorld s)) of
             Inl _ \<Rightarrow> (DErr 500, [])
           | Inr None \<Rightarrow> (DErr 404, [])
           | Inr (Some a) \<Rightarrow> (DApp a (RepoPath (apName a)), [])))"

text \<open>The arguments that are marshalled, as the runner decodes them: the identifier of the deploy is not among them.\<close>

definition enqueueDeploy :: "dqhost \<Rightarrow> string \<Rightarrow> string \<Rightarrow> Spec \<Rightarrow> dreply \<times> dqeffect list" where
  "enqueueDeploy H user app sp =
     (if \<not> dqQueue H then (DErr 503, [])
      else case dqJob H of
        None \<Rightarrow> (DErr 500, [])
      | Some job \<Rightarrow>
          (DQueued job (spDeployID sp),
           [Enqueued ''app_deploy'' \<lparr>daApp = spApp sp, daRef = spRef sp, daCommit = spCommit sp, daPreview = spPreview sp, daTrigger = spTrigger sp\<rparr> user,
            DAudit (''deploy.'' @ spTrigger sp) app]))"

definition handleDeployTrigger :: "dqhost \<Rightarrow> string \<Rightarrow> string \<Rightarrow> (string \<times> string \<times> string) option \<Rightarrow> dqstate \<Rightarrow> dreply \<times> dqeffect list" where
  "handleDeployTrigger H caller meth body s =
     (case deploy_post s caller meth of
        Some e \<Rightarrow> (DErr e, deploy_denied H caller e)
      | None \<Rightarrow>
          (case body of
             None \<Rightarrow> (DErr 400, [])
           | Some (name, ref, commit) \<Rightarrow>
               (case deploy_found name s of
                  None \<Rightarrow> (DErr 404, [])
                | Some a \<Rightarrow>
                    enqueueDeploy H caller (apName a) \<lparr>spApp = apName a, spRef = ref, spCommit = commit, spPreview = '''',
                      spTrigger = ''ui'', spDeployID = dNewID (dqHost H)\<rparr>)))"

definition handleDeployRollback :: "dqhost \<Rightarrow> string \<Rightarrow> string \<Rightarrow> (string \<times> string) option \<Rightarrow> dqstate \<Rightarrow> dreply \<times> dqeffect list" where
  "handleDeployRollback H caller meth body s =
     (case deploy_post s caller meth of
        Some e \<Rightarrow> (DErr e, deploy_denied H caller e)
      | None \<Rightarrow>
          (case body of
             None \<Rightarrow> (DErr 400, [])
           | Some (name, to) \<Rightarrow>
               (case deploy_found name s of
                  None \<Rightarrow> (DErr 404, [])
                | Some a \<Rightarrow>
                    (let target = or_default to (PreviousCommit a)
                     in if target = '''' then (DErr 400, [])
                        else enqueueDeploy H caller (apName a) \<lparr>spApp = apName a, spRef = '''', spCommit = target, spPreview = '''',
                               spTrigger = ''rollback'', spDeployID = dNewID (dqHost H)\<rparr>))))"

definition handleDeployDestroy :: "dqhost \<Rightarrow> string \<Rightarrow> string \<Rightarrow> string option \<Rightarrow> dqstate \<Rightarrow> dqstate \<times> dreply \<times> dqeffect list" where
  "handleDeployDestroy H caller meth body s =
     (case deploy_post s caller meth of
        Some e \<Rightarrow> (s, DErr e, deploy_denied H caller e)
      | None \<Rightarrow>
          (case body of
             None \<Rightarrow> (s, DErr 400, [])
           | Some name \<Rightarrow>
               (case Destroy (dqHost H) name (dqWorld s) of
                  (w, es, Inl _) \<Rightarrow> (s\<lparr>dqWorld := w\<rparr>, DErr 400, map OnHost es)
                | (w, es, Inr _) \<Rightarrow> (s\<lparr>dqWorld := w\<rparr>, DDone, map OnHost es @ [DAudit ''deploy.app.destroy'' name]))))"

definition handleDeployEnv :: "dqhost \<Rightarrow> string \<Rightarrow> string \<Rightarrow> string \<Rightarrow> (bool \<times> (string \<times> string) list \<times> string list) option \<Rightarrow> dqstate
    \<Rightarrow> dqstate \<times> dreply \<times> dqeffect list" where
  "handleDeployEnv H caller meth name body s =
     (case deploy_gate s caller of
        Some e \<Rightarrow> (s, DErr e, deploy_denied H caller e)
      | None \<Rightarrow>
          (case deploy_found name s of
             None \<Rightarrow> (s, DErr 404, [])
           | Some a \<Rightarrow>
               if meth = MethodGet then (s, DEnv (apEnv a) (apPreviewEnv a), [])
               else if meth \<noteq> MethodPost then (s, DErr 405, [])
               else case body of
                 None \<Rightarrow> (s, DErr 400, [])
               | Some (preview, sets, unset) \<Rightarrow>
                   (case UpdateEnv (dSaved (dqHost H)) (dNow (dqHost H)) name preview sets unset (wApps (dqWorld s)) of
                      (f, Inl _) \<Rightarrow> (s\<lparr>dqWorld := (dqWorld s)\<lparr>wApps := f\<rparr>\<rparr>, DErr 500, [])
                    | (f, Inr u) \<Rightarrow>
                        (s\<lparr>dqWorld := (dqWorld s)\<lparr>wApps := f\<rparr>\<rparr>, DEnv (apEnv u) (apPreviewEnv u), [DAudit ''deploy.app.env'' name]))))"

definition validDeployID :: "string \<Rightarrow> bool" where
  "validDeployID s \<longleftrightarrow>
     2 \<le> length s \<and> length s \<le> 40 \<and> hd s = CHR ''d'' \<and> list_all (\<lambda>c. byte_in 48 57 c \<or> byte_in 97 102 c \<or> c = CHR ''-'') (tl s)"

text \<open>\<open>offset\<close> is the parsed parameter. Seeking past the end reads nothing.\<close>

definition handleDeployLog :: "dqhost \<Rightarrow> string \<Rightarrow> string \<Rightarrow> string \<Rightarrow> int \<Rightarrow> dqstate \<Rightarrow> dreply \<times> dqeffect list" where
  "handleDeployLog H caller name deployID offset s =
     (case deploy_gate s caller of
        Some e \<Rightarrow> (DErr e, deploy_denied H caller e)
      | None \<Rightarrow>
          if name = '''' \<or> deployID = '''' \<or> \<not> ValidName name \<or> \<not> validDeployID deployID then (DErr 400, [])
          else case dqLog H (LogPath (cDataDir (dqCfg s)) name deployID) of
            None \<Rightarrow> (DLogChunk '''' offset False, [])
          | Some text \<Rightarrow>
              (let chunk = take 65536 (if offset > 0 then drop (nat offset) text else text)
               in (DLogChunk chunk (offset + int (length chunk)) True, [])))"

definition handleDeployPreviewTeardown :: "dqhost \<Rightarrow> string \<Rightarrow> string \<Rightarrow> (string \<times> string) option \<Rightarrow> dqstate
    \<Rightarrow> dqstate \<times> dreply \<times> dqeffect list" where
  "handleDeployPreviewTeardown H caller meth body s =
     (case deploy_post s caller meth of
        Some e \<Rightarrow> (s, DErr e, deploy_denied H caller e)
      | None \<Rightarrow>
          (case body of
             None \<Rightarrow> (s, DErr 400, [])
           | Some (name, slug) \<Rightarrow>
               (case deploy_found name s of
                  None \<Rightarrow> (s, DErr 404, [])
                | Some a \<Rightarrow>
                    if slug = '''' then (s, DErr 400, [])
                    else let (w, es) = TeardownPreview (dqHost H) a slug (dqWorld s)
                         in (s\<lparr>dqWorld := w\<rparr>, DDone, map OnHost es @ [DAudit ''deploy.preview.teardown'' (name @ ''/'' @ slug)]))))"

definition TemplateByID :: "Template list \<Rightarrow> string \<Rightarrow> Template option" where
  "TemplateByID catalog i = find (\<lambda>t. tpID t = i) catalog"

text \<open>The list of templates needs the administrator, not the store.\<close>

definition handleDeployCatalog :: "dqhost \<Rightarrow> Template list \<Rightarrow> string \<Rightarrow> dqstate \<Rightarrow> dreply \<times> dqeffect list" where
  "handleDeployCatalog H catalog caller s =
     (case MustPrimary (Some (dqCfg s)) caller of
        Unauthorized401 \<Rightarrow> (DErr 401, deploy_denied H caller 401)
      | Forbidden403 \<Rightarrow> (DErr 403, deploy_denied H caller 403)
      | Admitted _ \<Rightarrow> (DTemplates catalog, []))"

definition handleDeployCatalogCreate :: "dqhost \<Rightarrow> Template list \<Rightarrow> string \<Rightarrow> string
    \<Rightarrow> (string \<times> string \<times> int \<times> string \<times> environ option) option \<Rightarrow> dqstate \<Rightarrow> dqstate \<times> dreply \<times> dqeffect list" where
  "handleDeployCatalogCreate H catalog caller meth body s =
     (case deploy_post s caller meth of
        Some e \<Rightarrow> (s, DErr e, deploy_denied H caller e)
      | None \<Rightarrow>
          (case body of
             None \<Rightarrow> (s, DErr 400, [])
           | Some (tid, name, port, domain, env) \<Rightarrow>
               (case TemplateByID catalog tid of
                  None \<Rightarrow> (s, DErr 400, [])
                | Some t \<Rightarrow>
                    (case CreateAndSeed (dqHost H) (tpName t) (tpPort t) (tpCompose t)
                            (no_app\<lparr>apName := name, apPort := port, apDomain := domain\<rparr>) env (dqWorld s) of
                       (w, es, Inl _) \<Rightarrow> (s\<lparr>dqWorld := w\<rparr>, DErr 400, map OnHost es)
                     | (w, es, Inr a) \<Rightarrow>
                         (let (r, es') = enqueueDeploy H caller (apName a) \<lparr>spApp = apName a, spRef = '''', spCommit = '''', spPreview = '''',
                                spTrigger = ''ui'', spDeployID = dNewID (dqHost H)\<rparr>
                          in (s\<lparr>dqWorld := w\<rparr>, r,
                              map OnHost es @ [DAudit ''deploy.catalog.create'' (apName a @ '' ('' @ tpID t @ '')'')] @ es'))))))"

section \<open>What the handlers guarantee\<close>

datatype dreq =
    QApps "(App \<times> bool option) option"
  | QTrigger "(string \<times> string \<times> string) option"
  | QRollback "(string \<times> string) option"
  | QDestroy "string option"
  | QEnv string "(bool \<times> (string \<times> string) list \<times> string list) option"
  | QTeardown "(string \<times> string) option"
  | QApp string
  | QLog string string int
  | QTemplates "Template list"
  | QCatalog "Template list" "(string \<times> string \<times> int \<times> string \<times> environ option) option"

fun do_dreq :: "dqhost \<Rightarrow> string \<Rightarrow> string \<Rightarrow> dreq \<Rightarrow> dqstate \<Rightarrow> dqstate \<times> dreply \<times> dqeffect list" where
  "do_dreq H caller meth (QApps b) s = handleDeployApps H caller meth b s"
| "do_dreq H caller meth (QTrigger b) s = (s, handleDeployTrigger H caller meth b s)"
| "do_dreq H caller meth (QRollback b) s = (s, handleDeployRollback H caller meth b s)"
| "do_dreq H caller meth (QDestroy b) s = handleDeployDestroy H caller meth b s"
| "do_dreq H caller meth (QEnv n b) s = handleDeployEnv H caller meth n b s"
| "do_dreq H caller meth (QTeardown b) s = handleDeployPreviewTeardown H caller meth b s"
| "do_dreq H caller meth (QApp n) s = (s, handleDeployApp H caller n s)"
| "do_dreq H caller meth (QLog n i off) s = (s, handleDeployLog H caller n i off s)"
| "do_dreq H caller meth (QTemplates c) s = (s, handleDeployCatalog H c caller s)"
| "do_dreq H caller meth (QCatalog c b) s = handleDeployCatalogCreate H c caller meth b s"

lemmas deploy_handler_defs = handleDeployApps_def handleDeployTrigger_def handleDeployRollback_def handleDeployDestroy_def
  handleDeployEnv_def handleDeployApp_def handleDeployLog_def handleDeployPreviewTeardown_def handleDeployCatalogCreate_def
  handleDeployCatalog_def

lemma gate_refuses: "\<not> IsAdmin (dqCfg s) caller \<Longrightarrow> \<exists>e. deploy_gate s caller = Some e \<and> deploy_post s caller meth = Some e \<and> e \<in> {401, 403}"
  by (auto simp: deploy_gate_def deploy_post_def MustPrimary_def)

lemma hex_ordinary: "validDeployID i \<Longrightarrow> ordinary (i @ ''.log'')"
proof -
  assume v: "validDeployID i"
  then obtain c cs where i: "i = c # cs" "c = CHR ''d''"
    by (cases i) (auto simp: validDeployID_def)
  moreover have "CHR ''/'' \<notin> set cs"
    using v i by (auto simp: validDeployID_def byte_in_def list_all_iff)
  ultimately show ?thesis
    by (auto simp: ordinary_def)
qed

lemma catalog_refuses:
  "\<not> IsAdmin (dqCfg s) caller \<Longrightarrow> \<exists>e. handleDeployCatalog H c caller s = (DErr e, deploy_denied H caller e) \<and> e \<in> {401, 403}"
  by (auto simp: handleDeployCatalog_def MustPrimary_def)

text \<open>
  C18. The deploy API runs commands as root, and only for administrators. Any request of anyone else to any of its ten handlers, of
  whatever shape and in whatever state, is answered 401 or 403 (a 403 is recorded) and neither changes the registry or the virtual hosts
  nor touches the host nor enqueues anything.
\<close>
theorem deploy_api_is_gated:
  assumes "\<not> IsAdmin (dqCfg s) who"
  shows "\<exists>e. do_dreq H who meth r s = (s, DErr e, deploy_denied H who e) \<and> e \<in> {401, 403}"
  using gate_refuses [OF assms, of meth] catalog_refuses [OF assms, of H]
  by (cases r) (auto simp: deploy_handler_defs)

text \<open>A log that is read is a file directly in the log directory of a well-formed application name.\<close>
lemma read_log_is_in_place:
  assumes "dataDir = cDataDir (dqCfg s)" and "dataDir \<noteq> ''''" and "handleDeployLog H caller name i offset s = (DLogChunk text next True, es)"
  shows "IsAdmin (dqCfg s) caller \<and> LogPath dataDir name i = Join [dataDir, ''deploy'', name] @ ''/'' @ i @ ''.log''
    \<and> dqLog H (LogPath dataDir name i) \<noteq> None"
proof -
  have n: "deploy_gate s caller = None" "ValidName name" "validDeployID i" "dqLog H (LogPath dataDir name i) \<noteq> None"
    using assms by (auto simp: handleDeployLog_def Let_def split: option.splits if_splits)
  have "IsAdmin (dqCfg s) caller"
    using gate_refuses [of s caller] n(1) by auto
  moreover have "LogPath dataDir name i = Join [dataDir, ''deploy'', name] @ ''/'' @ i @ ''.log''"
  proof -
    let ?d = "Join [dataDir, ''deploy'', name]"
    have o: "list_all ordinary [''deploy'', name]"
      using dashy_ordinary ValidName_dashy [OF n(2)] by (auto simp: ordinary_def)
    define es where "es = elements dataDir @ [''deploy'', name]"
    have e: "elements ?d = es" "is_rooted ?d = is_rooted dataDir" "?d \<noteq> ''''"
      using Join_elements [OF assms(2) _ o] by (simp_all add: es_def)
    have d: "?d = (if is_rooted dataDir then CHR ''/'' # join_with ''/'' es else join_with ''/'' es)"
      unfolding es_def by (rule Join_ordinary [OF assms(2) _ o]) simp
    have "Join [?d, i @ ''.log''] = (if is_rooted dataDir then CHR ''/'' # join_with ''/'' (es @ [i @ ''.log''])
        else join_with ''/'' (es @ [i @ ''.log'']))"
      using Join_ordinary [OF e(3), of "[i @ ''.log'']"] hex_ordinary [OF n(3)] e(1,2) by simp
    moreover have "join_with ''/'' (es @ [i @ ''.log'']) = join_with ''/'' es @ ''/'' @ i @ ''.log''"
      using join_with_append [of es "[i @ ''.log'']" "''/''"] by (simp add: es_def)
    ultimately show ?thesis
      unfolding LogPath_def using d by (simp split: if_splits)
  qed
  ultimately show ?thesis
    using n(4) by blast
qed

definition admin_state :: dqstate where
  "admin_state = \<lparr>dqCfg = blank_config\<lparr>cPrimary := ''sam'', cDataDir := ''/d''\<rparr>, dqStore = True, dqWorld = hello_world\<rparr>"

definition logging_host :: dqhost where
  "logging_host = \<lparr>dqHost = good_host, dqPath = ''/api/deploy'', dqQueue = True, dqJob = Some ''job1'', dqLog = (\<lambda>p. if p = ''/d/deploy/hello/d1-ab.log'' then Some ''built'' else None)\<rparr>"

theorem deploy_api_is_gated_witness:
  "\<exists>e. do_dreq logging_host ''kim'' ''POST'' (QDestroy (Some ''hello'')) admin_state = (admin_state, DErr e, deploy_denied logging_host ''kim'' e)
    \<and> e \<in> {401, 403}"
proof -
  have "\<not> IsAdmin (dqCfg admin_state) ''kim''" by code_simp
  then show ?thesis by (rule deploy_api_is_gated)
qed

section \<open>Where the code departs from what it says\<close>

text \<open>The slug of a teardown request is only checked to be there: an administrator's request removes a directory of the host.\<close>
lemma teardown_request_removes_etc:
  "OnHost (RemoveAll ''/etc'') \<in> set (snd (snd (handleDeployPreviewTeardown logging_host ''sam'' ''POST'' (Some (''hello'', ''/../../../etc'')) admin_state)))"
proof -
  have f: "deploy_found ''hello'' admin_state = Some hello" "deploy_post admin_state ''sam'' ''POST'' = None"
    using hello_file_registry Get_app_registry [of hello_file]
    by (simp_all add: deploy_found_def admin_state_def hello_world_def deploy_post_def deploy_gate_def MustPrimary_def IsAdmin_def
        MethodPost_def blank_config_def)
  then show ?thesis
    using teardown_reaches_outside [of "dqHost logging_host" "dqWorld admin_state"]
    by (auto simp: handleDeployPreviewTeardown_def Let_def split: prod.split)
qed

text \<open>
  The answer to a deploy request names a deploy; the job it enqueues does not carry that name, and the runner gives the deploy one
  of its own (\<open>queued_deploy_has_another_id\<close>). The log that the client then asks for is never written.
\<close>
lemma answered_id_is_not_the_deploys:
  assumes "handleDeployTrigger H caller meth body s = (DQueued job promised, es)"
    and "Enqueued ''app_deploy'' args user \<in> set es"
    and "AppDeployRunner_Run H' keys (Some args) w = (w', es', Inr rec)" and "daApp args \<noteq> ''''"
  shows "promised = dNewID (dqHost H) \<and> drID rec = dNewID H'"
  using assms(1,2) queued_deploy_has_another_id [OF assms(4,3)]
  by (auto simp: handleDeployTrigger_def enqueueDeploy_def split: option.splits if_splits)

end
