(* ===== verification/UserHandlers.thy ===== *)
theory UserHandlers
  imports Config GoRunes Accounts Sessions Vault Http
begin

text \<open>
  The management of accounts in \<^verbatim>\<open>internal/api/handlers_users.go\<close>: listing, creation, deletion, administrator flag, password
  reset, second factor and revocation of sessions.

  A handler works on the configuration in memory, the configuration files by path, the credential list and account map of the
  authentication service and the session store. A body is \<open>None\<close> when its JSON does not decode; \<open>caller\<close> is what the middleware
  put in the request. Provisioning of messaging containers and the audit log are effects.
\<close>

section \<open>State\<close>

record 's ustate =
  uhCfg :: Config
  uhConf :: "string \<Rightarrow> confdir"
  uhAcc :: "'s account_service"
  uhSess :: "Store option"
  uhUUIDFile :: "uuidMapFile jsonfile"
  uhWhatsapp :: bool

datatype ueffect = UProvision string | UDecommission string | UAudit string string string

record uhost =
  uhNow :: nanos
  uhPath :: string
  uhDisk :: chost
  uhHash :: "string \<Rightarrow> string option"
  uhKeys :: "string list"
  uhMapKeys :: "string list"
  uhMapSaved :: bool

record userInfo =
  uiName :: string
  uiPrimary :: bool
  uiAdmin :: bool
  uiTOTP :: bool
  uiSessions :: nat

datatype ureply = UErr nat | UOk | URevoked nat | UUsers "userInfo list"

definition config_path :: "Config \<Rightarrow> string" where
  "config_path c = Join [cDataDir c, ''config.json'']"

definition credsFromConfig :: "Config \<Rightarrow> Credential list" where
  "credsFromConfig c = map (\<lambda>u. \<lparr>Username = usName u, PasswordHash = usHash u\<rparr>) (AllUsers c)"

definition ReloadUsers :: "Credential list \<Rightarrow> 's account_service \<Rightarrow> 's account_service" where
  "ReloadUsers us a = a\<lparr>aUsers := us\<rparr>"

text \<open>The configuration in memory becomes \<open>c\<close> and is saved; whether the save worked.\<close>

definition save_cfg :: "uhost \<Rightarrow> Config \<Rightarrow> 's ustate \<Rightarrow> 's ustate \<times> bool" where
  "save_cfg H c s =
     (let (d, r) = Save_config (uhDisk H) c (uhConf s (config_path c))
      in (s\<lparr>uhCfg := c, uhConf := (uhConf s)(config_path c := d)\<rparr>, \<not> isl r))"

definition reload :: "'s ustate \<Rightarrow> 's ustate" where
  "reload s = s\<lparr>uhAcc := ReloadUsers (credsFromConfig (uhCfg s)) (uhAcc s)\<rparr>"

text \<open>The gate and the method check that every mutating handler starts with.\<close>

definition admin_post :: "'s ustate \<Rightarrow> string \<Rightarrow> string \<Rightarrow> nat option" where
  "admin_post s caller meth =
     (case MustPrimary (Some (uhCfg s)) caller of
        Unauthorized401 \<Rightarrow> Some 401
      | Forbidden403 \<Rightarrow> Some 403
      | Admitted _ \<Rightarrow> if meth \<noteq> MethodPost then Some 405 else None)"

text \<open>A refusal of the gate is recorded; \<open>uhPath\<close> is the path of the request.\<close>

definition denied :: "uhost \<Rightarrow> string \<Rightarrow> nat \<Rightarrow> ueffect list" where
  "denied H caller e = (if e = 403 then [UAudit caller ''rbac.denied'' (''admin-only endpoint '' @ uhPath H)] else [])"

section \<open>Handlers\<close>

text \<open>\<open>sanitizeList\<close>: entries without a key and repetitions are left out.\<close>

fun sanitizeList :: "('a \<Rightarrow> string) \<Rightarrow> string list \<Rightarrow> 'a list \<Rightarrow> 'a list" where
  "sanitizeList k seen [] = []"
| "sanitizeList k seen (x # xs) =
     (if k x = '''' \<or> k x \<in> set seen then sanitizeList k seen xs else x # sanitizeList k (k x # seen) xs)"

definition live_sessions :: "uhost \<Rightarrow> string \<Rightarrow> 's ustate \<Rightarrow> nat" where
  "live_sessions H n s =
     (case uhSess s of
        None \<Rightarrow> 0
      | Some st \<Rightarrow> length (filter (\<lambda>x. \<not> Revoked x \<and> ExpiresAt x > uhNow H div second) (ListForUser (uhKeys H) n st)))"

definition user_info :: "uhost \<Rightarrow> 's ustate \<Rightarrow> User \<Rightarrow> userInfo" where
  "user_info H s u =
     \<lparr>uiName = usName u, uiPrimary = (usName u = cPrimary (uhCfg s)), uiAdmin = (usName u \<in> set (Admins (uhCfg s))),
      uiTOTP = (usMFA u \<or> usTOTP u \<noteq> ''''), uiSessions = live_sessions H (usName u) s\<rparr>"

definition handleUsersList :: "uhost \<Rightarrow> string \<Rightarrow> 's ustate \<Rightarrow> ureply" where
  "handleUsersList H caller s =
     (if caller = '''' then UErr 401
      else UUsers (sanitizeList uiName [] (map (user_info H s) (AllUsers (uhCfg s)))))"

definition name_char :: "char \<Rightarrow> bool" where
  "name_char c \<longleftrightarrow> byte_in 97 122 c \<or> byte_in 65 90 c \<or> byte_in 48 57 c \<or> c = CHR ''_'' \<or> c = CHR ''-''"

definition handleUserCreate :: "uhost \<Rightarrow> string \<Rightarrow> string \<Rightarrow> (string \<times> string) option \<Rightarrow> 's ustate
    \<Rightarrow> 's ustate \<times> ureply \<times> ueffect list" where
  "handleUserCreate H caller meth body s =
     (case admin_post s caller meth of
        Some e \<Rightarrow> (s, UErr e, denied H caller e)
      | None \<Rightarrow>
          (case body of
             None \<Rightarrow> (s, UErr 400, [])
           | Some (raw, pass) \<Rightarrow>
               (let n = TrimSpace raw
                in if n = '''' \<or> length n > 40 then (s, UErr 400, [])
                   else if \<not> list_all name_char n then (s, UErr 400, [])
                   else if length pass < 8 then (s, UErr 400, [])
                   else case uhHash H pass of
                     None \<Rightarrow> (s, UErr 500, [])
                   | Some hash \<Rightarrow>
                       (case AddUser n hash (uhCfg s) of
                          Inl _ \<Rightarrow> (s, UErr 409, [])
                        | Inr c \<Rightarrow>
                            (let (s1, ok) = save_cfg H c s;
                                 s2 = reload s1
                             in if \<not> ok then (s2, UErr 500, [])
                                else (s2, UOk, (if uhWhatsapp s \<and> Valid_user n then [UProvision n] else []) @ [UAudit caller ''user.create'' n]))))))"

text \<open>After the configuration is saved, the sessions and the account of the deleted user go.\<close>

definition forget_user :: "uhost \<Rightarrow> string \<Rightarrow> 's ustate \<Rightarrow> 's ustate" where
  "forget_user H n s =
     (let s1 = s\<lparr>uhSess := map_option (\<lambda>st. snd (RevokeAllExcept (uhKeys H) n '''' st)) (uhSess s)\<rparr>;
          (gone, m) = uuid_Remove n (aUUIDMap (uhAcc s1))
      in if gone then s1\<lparr>uhAcc := (uhAcc s1)\<lparr>aUUIDMap := m\<rparr>, uhUUIDFile := SaveUUIDMap (uhMapKeys H) (uhMapSaved H) m (uhUUIDFile s1)\<rparr>
         else s1)"

definition handleUserDelete :: "uhost \<Rightarrow> string \<Rightarrow> string \<Rightarrow> string option \<Rightarrow> 's ustate
    \<Rightarrow> 's ustate \<times> ureply \<times> ueffect list" where
  "handleUserDelete H caller meth body s =
     (case admin_post s caller meth of
        Some e \<Rightarrow> (s, UErr e, denied H caller e)
      | None \<Rightarrow>
          (case body of
             None \<Rightarrow> (s, UErr 400, [])
           | Some n \<Rightarrow>
               if n = '''' then (s, UErr 400, [])
               else if n = caller then (s, UErr 403, [])
               else if cPrimary (uhCfg s) \<noteq> '''' \<and> cPrimary (uhCfg s) = n then (s, UErr 403, [])
               else
                 let es = (if uhWhatsapp s \<and> Valid_user n then [UDecommission n] else [])
                 in case RemoveUser n (uhCfg s) of
                      Inl _ \<Rightarrow> (s, UErr 404, es)
                    | Inr c \<Rightarrow>
                        (let (s1, ok) = save_cfg H c s;
                             s2 = reload s1
                         in if \<not> ok then (s2, UErr 500, es)
                            else (forget_user H n s2, UOk, es @ [UAudit caller ''user.delete'' n]))))"

definition handleUserSetAdmin :: "uhost \<Rightarrow> string \<Rightarrow> string \<Rightarrow> (string \<times> bool) option \<Rightarrow> 's ustate
    \<Rightarrow> 's ustate \<times> ureply \<times> ueffect list" where
  "handleUserSetAdmin H caller meth body s =
     (case admin_post s caller meth of
        Some e \<Rightarrow> (s, UErr e, denied H caller e)
      | None \<Rightarrow>
          (case body of
             None \<Rightarrow> (s, UErr 400, [])
           | Some (raw, v) \<Rightarrow>
               (let n = TrimSpace raw
                in if n = '''' then (s, UErr 400, [])
                   else if \<not> HasUser (uhCfg s) n then (s, UErr 404, [])
                   else case SetAdmin n v (uhCfg s) of
                     Inl _ \<Rightarrow> (s, UErr 422, [])
                   | Inr c \<Rightarrow>
                       (let (s1, ok) = save_cfg H c s
                        in if \<not> ok then (s1, UErr 500, [])
                           else (s1, UOk, [UAudit caller (if v then ''user.admin.grant'' else ''user.admin.revoke'') n])))))"

definition handleUserResetPassword :: "uhost \<Rightarrow> string \<Rightarrow> string \<Rightarrow> (string \<times> string) option \<Rightarrow> 's ustate
    \<Rightarrow> 's ustate \<times> ureply \<times> ueffect list" where
  "handleUserResetPassword H caller meth body s =
     (case admin_post s caller meth of
        Some e \<Rightarrow> (s, UErr e, denied H caller e)
      | None \<Rightarrow>
          (case body of
             None \<Rightarrow> (s, UErr 400, [])
           | Some (n, pass) \<Rightarrow>
               if n = '''' \<or> length pass < 8 then (s, UErr 400, [])
               else case uhHash H pass of
                 None \<Rightarrow> (s, UErr 500, [])
               | Some hash \<Rightarrow>
                   (let (c, found) = SetPassword n hash (uhCfg s)
                    in if \<not> found then (s, UErr 404, [])
                       else let (s1, ok) = save_cfg H c s;
                                s2 = reload s1
                            in if \<not> ok then (s2, UErr 500, []) else (s2, UOk, [UAudit caller ''user.reset-password'' n]))))"

definition handleUserDisable2FA :: "uhost \<Rightarrow> string \<Rightarrow> string \<Rightarrow> string option \<Rightarrow> 's ustate
    \<Rightarrow> 's ustate \<times> ureply \<times> ueffect list" where
  "handleUserDisable2FA H caller meth body s =
     (case admin_post s caller meth of
        Some e \<Rightarrow> (s, UErr e, denied H caller e)
      | None \<Rightarrow>
          (case body of
             None \<Rightarrow> (s, UErr 400, [])
           | Some n \<Rightarrow>
               (let (c, found) = SetTOTPSecret n '''' (uhCfg s)
                in if \<not> found then (s, UErr 404, [])
                   else let (s1, ok) = save_cfg H c s
                        in if \<not> ok then (s1, UErr 500, []) else (s1, UOk, [UAudit caller ''user.disable-2fa'' n]))))"

definition handleUserRevokeSessions :: "uhost \<Rightarrow> string \<Rightarrow> string \<Rightarrow> string option \<Rightarrow> 's ustate
    \<Rightarrow> 's ustate \<times> ureply \<times> ueffect list" where
  "handleUserRevokeSessions H caller meth body s =
     (case admin_post s caller meth of
        Some e \<Rightarrow> (s, UErr e, denied H caller e)
      | None \<Rightarrow>
          (case body of
             None \<Rightarrow> (s, UErr 400, [])
           | Some n \<Rightarrow>
               (case uhSess s of
                  None \<Rightarrow> (s, UErr 503, [])
                | Some st \<Rightarrow>
                    (let (k, st') = RevokeAllExcept (uhKeys H) n '''' st
                     in (s\<lparr>uhSess := Some st'\<rparr>, URevoked k, [UAudit caller ''user.revoke-sessions'' (n @ '':'' @ decimal k)])))))"

end
