(* ===== verification/ConfigProps.thy ===== *)
theory ConfigProps
  imports Config
begin

text \<open>
  What the configuration guarantees: an administrator that cannot be removed or demoted, privileges that only a promotion gives,
  a file that a failed save leaves as it was and that reads back as what was saved, and a bounded number of backups. The last
  section has what a recovery from a backup and two sources of the signing secret do.
\<close>

section \<open>Lists of accounts\<close>

lemma find_user_None: "find_user n us = None \<longleftrightarrow> n \<notin> usName ` set us"
  by (induction us) (auto simp: find_user_def)

lemma find_user_Some: "find_user n us = Some u \<Longrightarrow> usName u = n \<and> u \<in> set us"
  by (auto simp: find_user_def find_Some_iff)

lemma find_user_append: "find_user n (us @ vs) = (case find_user n us of None \<Rightarrow> find_user n vs | Some u \<Rightarrow> Some u)"
  by (induction us) (auto simp: find_user_def)

lemma find_user_single: "find_user n [u] = (if usName u = n then Some u else None)"
  by (simp add: find_user_def)

lemma names_edit_user [simp]: "(\<And>u. usName (g u) = usName u) \<Longrightarrow> map usName (edit_user n g us) = map usName us"
  unfolding edit_user_def by (rule map_upd_first) simp

lemma find_edit_user:
  "(\<And>u. usName (g u) = usName u) \<Longrightarrow>
     find_user k (edit_user n g us) = (if k = n then map_option g (find_user k us) else find_user k us)"
  by (induction us) (auto simp: find_user_def edit_user_def)

lemma set_drop_user: "set (drop_user n us) \<subseteq> set us"
  by (induction us) auto

lemma distinct_drop_user: "distinct (map usName us) \<Longrightarrow> distinct (map usName (drop_user n us))"
  by (induction us) (use set_drop_user in fastforce)+

lemma find_drop_user:
  "distinct (map usName us) \<Longrightarrow> find_user k (drop_user n us) = (if k = n then None else find_user k us)"
proof (induction us)
  case (Cons u us)
  then show ?case
    using find_user_None [of "usName u" us] by (auto simp: find_user_def)
qed (simp add: find_user_def)

section \<open>Operations on accounts\<close>

datatype cop =
    CAdd string string
  | CRemove string
  | CSetAdmin string bool
  | CSetPassword string string
  | CSetTOTP string string
  | CSetRecovery string string

fun do_cop :: "cop \<Rightarrow> Config \<Rightarrow> Config" where
  "do_cop (CAdd n h) c = (case AddUser n h c of Inl _ \<Rightarrow> c | Inr c' \<Rightarrow> c')"
| "do_cop (CRemove n) c = (case RemoveUser n c of Inl _ \<Rightarrow> c | Inr c' \<Rightarrow> c')"
| "do_cop (CSetAdmin n v) c = (case SetAdmin n v c of Inl _ \<Rightarrow> c | Inr c' \<Rightarrow> c')"
| "do_cop (CSetPassword n h) c = fst (SetPassword n h c)"
| "do_cop (CSetTOTP n t) c = fst (SetTOTPSecret n t c)"
| "do_cop (CSetRecovery n t) c = fst (SetRecoveryTOTPSecret n t c)"

text \<open>Every account once, and an account that the configuration cannot lose: the primary, or the single account of old.\<close>

definition accounts_ok :: "Config \<Rightarrow> bool" where
  "accounts_ok c \<longleftrightarrow>
     distinct (map usName (cUsers c)) \<and> '''' \<notin> usName ` set (cUsers c)
     \<and> (cUsername c \<noteq> '''' \<longrightarrow> cUsername c \<notin> usName ` set (cUsers c))
     \<and> (if cPrimary c \<noteq> '''' then HasUser c (cPrimary c) else cUsername c \<noteq> '''')"

definition anchor :: "Config \<Rightarrow> string" where
  "anchor c = (if cPrimary c \<noteq> '''' then cPrimary c else cUsername c)"

lemma do_cop_fixed: "cPrimary (do_cop p c) = cPrimary c \<and> cUsername (do_cop p c) = cUsername c"
  by (cases p) (auto simp: AddUser_def RemoveUser_def SetAdmin_def SetPassword_def SetTOTPSecret_def SetRecoveryTOTPSecret_def)

text \<open>The list of accounts after an operation.\<close>

inductive users_step :: "Config \<Rightarrow> cop \<Rightarrow> User list \<Rightarrow> bool" where
  same: "users_step c p (cUsers c)"
| edit: "(\<And>u. usName (g u) = usName u) \<Longrightarrow> (\<And>u. usAdmin (g u) \<Longrightarrow> usAdmin u \<or> p = CSetAdmin n True) \<Longrightarrow>
    users_step c p (edit_user n g (cUsers c))"
| add: "n \<noteq> '''' \<Longrightarrow> n \<noteq> cUsername c \<Longrightarrow> find_user n (cUsers c) = None \<Longrightarrow> users_step c p (cUsers c @ [new_user n h])"
| remove: "n \<noteq> anchor c \<Longrightarrow> users_step c p (drop_user n (cUsers c))"

lemma do_cop_users: "users_step c p (cUsers (do_cop p c))"
proof (cases p)
  case (CSetAdmin n v)
  then show ?thesis
    using users_step.same [of c p] users_step.edit [of "\<lambda>u. u\<lparr>usAdmin := v\<rparr>" p n c] by (auto simp: SetAdmin_def)
next
  case (CSetPassword n h)
  then show ?thesis
    using users_step.same [of c p] users_step.edit [of "\<lambda>u. u\<lparr>usHash := h\<rparr>" p n c] by (auto simp: SetPassword_def)
next
  case (CSetTOTP n t)
  then show ?thesis
    using users_step.same [of c p] users_step.edit [of "\<lambda>u. u\<lparr>usTOTP := t\<rparr>" p n c] by (auto simp: SetTOTPSecret_def)
next
  case (CSetRecovery n t)
  then show ?thesis
    using users_step.same [of c p] users_step.edit [of "\<lambda>u. u\<lparr>usRecovery := t\<rparr>" p n c] by (auto simp: SetRecoveryTOTPSecret_def)
next
  case (CAdd n h)
  then show ?thesis
    using users_step.same [of c p] users_step.add [of n c p h] by (auto simp: AddUser_def)
next
  case (CRemove n)
  then show ?thesis
    using users_step.same [of c p] users_step.remove [of n c p] by (auto simp: RemoveUser_def anchor_def)
qed

lemma users_step_keeps:
  assumes "users_step c p us" "accounts_ok c"
  shows "distinct (map usName us) \<and> '''' \<notin> usName ` set us \<and> (cUsername c \<noteq> '''' \<longrightarrow> cUsername c \<notin> usName ` set us)
    \<and> (find_user (anchor c) (cUsers c) \<noteq> None \<longrightarrow> find_user (anchor c) us \<noteq> None)"
  using assms
proof (cases rule: users_step.cases)
  case same
  then show ?thesis using assms(2) by (simp add: accounts_ok_def)
next
  case (edit g n)
  then have m: "map usName us = map usName (cUsers c)" by simp
  then have "usName ` set us = usName ` set (cUsers c)" by (metis image_set)
  then show ?thesis
    using assms(2) m find_user_None by (auto simp: accounts_ok_def)
next
  case (add n h)
  then show ?thesis
    using assms(2) find_user_None [of n "cUsers c"] by (auto simp: accounts_ok_def new_user_def find_user_append split: option.splits)
next
  case (remove n)
  then show ?thesis
    using assms(2) distinct_drop_user [of "cUsers c" n] set_drop_user [of n "cUsers c"]
    by (auto simp: accounts_ok_def find_drop_user)
qed

lemma accounts_ok_step: "accounts_ok c \<Longrightarrow> accounts_ok (do_cop p c)"
  using users_step_keeps [OF do_cop_users, of c p] do_cop_fixed [of p c]
  by (auto simp: accounts_ok_def HasUser_def anchor_def)

lemma anchor_admin: "accounts_ok c \<Longrightarrow> HasUser c (anchor c) \<and> IsAdmin c (anchor c)"
  by (auto simp: accounts_ok_def anchor_def IsAdmin_def HasUser_def)

interpretation accounts_inv: inductive_invariant accounts_ok "\<lambda>c c'. \<exists>p. c' = do_cop p c" accounts_ok
  by unfold_locales (auto intro: accounts_ok_step)

lemma IsAdmin_step:
  assumes "accounts_ok c" "IsAdmin (do_cop p c) n"
  shows "IsAdmin c n \<or> p = CSetAdmin n True"
proof -
  let ?us = "cUsers (do_cop p c)"
  have "\<exists>u. find_user n (cUsers c) = Some u \<and> (usAdmin u \<or> p = CSetAdmin n True)"
    if f: "find_user n ?us = Some u" "usAdmin u" for u
    using do_cop_users [of c p]
  proof (cases rule: users_step.cases)
    case (edit g k)
    then show ?thesis
      using f by (auto simp: find_edit_user split: if_splits)
  next
    case (add k h)
    then show ?thesis
      using f by (auto simp: find_user_append find_user_single new_user_def split: option.splits if_splits)
  next
    case (remove k)
    then show ?thesis
      using f assms(1) by (auto simp: find_drop_user accounts_ok_def split: if_splits)
  qed (use f in auto)
  then show ?thesis
    using assms(2) do_cop_fixed [of p c] by (auto simp: IsAdmin_def split: if_splits option.splits)
qed

definition run_cops :: "cop list \<Rightarrow> Config \<Rightarrow> Config" where
  "run_cops ps c = fold do_cop ps c"

lemma run_cops_steps: "steps (\<lambda>c c'. \<exists>p. c' = do_cop p c) c (run_cops ps c)"
  by (induction ps rule: rev_induct) (auto simp: run_cops_def intro: steps.intros)

lemma IsAdmin_run:
  "accounts_ok c \<Longrightarrow> IsAdmin (run_cops ps c) n \<Longrightarrow> IsAdmin c n \<or> CSetAdmin n True \<in> set ps"
proof (induction ps rule: rev_induct)
  case (snoc p ps)
  have "accounts_ok (run_cops ps c)"
    by (rule accounts_inv.inv_steps [OF run_cops_steps snoc.prems(1)])
  then show ?case
    using IsAdmin_step [of "run_cops ps c" p n] snoc by (auto simp: run_cops_def)
qed (simp add: run_cops_def)

lemma anchor_run: "anchor (run_cops ps c) = anchor c"
  by (induction ps arbitrary: c) (simp_all add: run_cops_def anchor_def do_cop_fixed)

text \<open>
  C9. The panel never runs out of administrators and nobody becomes one unasked. From a configuration whose accounts are
  distinct and whose primary exists (or, before one is recorded, whose single account exists), any sequence of account creations,
  removals, promotions, demotions and changes of passwords and secrets, refused or not, leaves that account in place and an
  administrator; and an account that is an administrator at the end was one at the start or was promoted on the way.
\<close>
theorem an_admin_remains:
  assumes "accounts_ok c"
  shows "HasUser (run_cops ps c) (anchor c) \<and> IsAdmin (run_cops ps c) (anchor c)
    \<and> (IsAdmin (run_cops ps c) n \<longrightarrow> IsAdmin c n \<or> CSetAdmin n True \<in> set ps)"
proof -
  have "accounts_ok (run_cops ps c)"
    by (rule accounts_inv.inv_steps [OF run_cops_steps assms])
  then show ?thesis
    using anchor_admin anchor_run IsAdmin_run [OF assms] by metis
qed

definition sam_config :: Config where
  "sam_config = blank_config\<lparr>cSchema := 2, cPrimary := ''sam'', cDataDir := ''/d'', cTactiqIntakeToken := ''t'',
     cUsers := [new_user ''sam'' ''h1'', (new_user ''kim'' ''h2'')\<lparr>usAdmin := True\<rparr>]\<rparr>"

theorem an_admin_remains_witness:
  "IsAdmin (run_cops [CSetAdmin ''sam'' False, CRemove ''sam'', CRemove ''kim'', CAdd ''lee'' ''h3''] sam_config) ''sam''
   \<and> \<not> IsAdmin (run_cops [CSetAdmin ''sam'' False, CRemove ''sam'', CRemove ''kim'', CAdd ''lee'' ''h3''] sam_config) ''lee''"
proof -
  let ?ps = "[CSetAdmin ''sam'' False, CRemove ''sam'', CRemove ''kim'', CAdd ''lee'' ''h3'']"
  have "accounts_ok sam_config" "anchor sam_config = ''sam''" "\<not> IsAdmin sam_config ''lee''"
    by code_simp+
  then show ?thesis
    using an_admin_remains [of sam_config ?ps "''lee''"] by simp
qed

section \<open>Saving and loading\<close>

lemma backup_live_keeps: "backup_live H d = Ok d1 \<Longrightarrow> cfLive d1 = cfLive d"
  by (auto simp: backup_live_def split: jsonfile.splits if_splits)

lemma pruneBackups_live [simp]: "cfLive (pruneBackups H k d) = cfLive d"
  by (simp add: pruneBackups_def Let_def)

lemma Save_result:
  assumes "Save_config H c d = (d', r)"
  shows "cfLive d' = (if isl r then cfLive d else Doc (serialised c))"
  using assms by (auto simp: Save_config_def backup_live_keeps split: sum.splits if_splits)

text \<open>Keeping the newest: at most the given number of backups, when they can be removed.\<close>

lemma length_newest [simp]: "length (newest_first bs) = length bs"
  by (simp add: newest_first_def)

lemma set_newest [simp]: "set (newest_first bs) = set bs"
  by (simp add: newest_first_def)

lemma distinct_newest: "distinct (map fst (newest_first bs)) = distinct (map fst bs)"
  by (simp add: newest_first_def distinct_map)

lemma prune_count:
  assumes "distinct (map fst (cfBaks d))" "chReadDir H" "\<And>t. chRemoved H t"
  shows "length (cfBaks (pruneBackups H k d)) \<le> k"
proof (cases "length (cfBaks d) \<le> k")
  case False
  let ?n = "newest_first (cfBaks d)"
  let ?old = "map fst (drop k ?n)"
  have d: "distinct (map fst ?n)" using assms(1) by (simp add: distinct_newest)
  have "set (filter (\<lambda>b. fst b \<notin> set ?old) (cfBaks d)) = {b \<in> set ?n. fst b \<notin> set ?old}"
    by auto
  also have "\<dots> \<subseteq> set (take k ?n)"
  proof
    fix b
    assume b: "b \<in> {b \<in> set ?n. fst b \<notin> set ?old}"
    then have "b \<in> set (take k ?n @ drop k ?n)" by simp
    then show "b \<in> set (take k ?n)"
      using b by (simp only: set_append Un_iff) auto
  qed
  finally have "card (set (filter (\<lambda>b. fst b \<notin> set ?old) (cfBaks d))) \<le> card (set (take k ?n))"
    by (rule card_mono [rotated]) simp
  moreover have "card (set (take k ?n)) \<le> k"
    using card_length [of "take k ?n"] by (simp add: min_def split: if_splits)
  moreover have "distinct (filter (\<lambda>b. fst b \<notin> set ?old) (cfBaks d))"
    using assms(1) by (simp add: distinct_map)
  ultimately have "length (filter (\<lambda>b. fst b \<notin> set ?old) (cfBaks d)) \<le> k"
    unfolding distinct_card [symmetric] by (simp only: distinct_card [symmetric] order_trans)
  then show ?thesis
    using False assms(2,3) by (simp add: pruneBackups_def Let_def)
qed (simp add: pruneBackups_def)

lemma distinct_put_backup: "distinct (map fst bs) \<Longrightarrow> distinct (map fst (put_backup t f bs))"
  by (auto simp: put_backup_def distinct_map_filter)

lemma backup_live_distinct:
  "backup_live H d = Ok d1 \<Longrightarrow> distinct (map fst (cfBaks d)) \<Longrightarrow> distinct (map fst (cfBaks d1))"
  by (auto simp: backup_live_def distinct_put_backup split: jsonfile.splits if_splits)

lemma default_idem [simp]: "default (default s d) d = default s d"
  by (simp add: default_def)

lemma plain_defaults_idem: "plain_defaults path (plain_defaults path c) = plain_defaults path c"
  by (simp add: plain_defaults_def)

lemma plain_defaults_secret: "plain_defaults path (c\<lparr>cJWTSecret := x\<rparr>) = (plain_defaults path c)\<lparr>cJWTSecret := x\<rparr>"
  by (simp add: plain_defaults_def)

lemma plain_defaults_token: "plain_defaults path (c\<lparr>cTactiqIntakeToken := x\<rparr>) = (plain_defaults path c)\<lparr>cTactiqIntakeToken := x\<rparr>"
  by (simp add: plain_defaults_def)

lemma plain_defaults_recovered:
  "plain_defaults path (c\<lparr>cLoadedFromBackup := b, cLoadedBackupTS := t\<rparr>) = (plain_defaults path c)\<lparr>cLoadedFromBackup := b, cLoadedBackupTS := t\<rparr>"
  by (simp add: plain_defaults_def)

lemma plain_defaults_fields [simp]:
  "cJWTSecret (plain_defaults path c) = cJWTSecret c" "cJWTSecretFile (plain_defaults path c) = cJWTSecretFile c"
  "cTactiqIntakeToken (plain_defaults path c) = cTactiqIntakeToken c" "cSchema (plain_defaults path c) = cSchema c"
  by (simp_all add: plain_defaults_def)

lemmas plain_defaults_rules = plain_defaults_idem plain_defaults_secret plain_defaults_token plain_defaults_recovered

text \<open>What a load of what was saved gives: the configuration as it was loaded before, without the mark of a recovery.\<close>

lemma serialised_eq: "serialised c = (c\<lparr>cJWTSecret := (if cJWTSecretFile c \<noteq> '''' then '''' else cJWTSecret c)\<rparr>)
    \<lparr>cLoadedFromBackup := False, cLoadedBackupTS := 0\<rparr>"
  by (simp add: serialised_def)

text \<open>The secret the next start signs with: the one in the file, or what the secret file holds.\<close>

definition next_secret :: "chost \<Rightarrow> Config \<Rightarrow> string" where
  "next_secret H c =
     (if cJWTSecretFile c = '''' then cJWTSecret c
      else case chSecret H (cJWTSecretFile c) of
             None \<Rightarrow> ''''
           | Some b \<Rightarrow> trim_right [CHR 0x0A, CHR 0x0D, CHR '' ''] b)"

lemma plain_applyDefaults: "applyDefaults H path (plain_defaults path c) = applyDefaults H path c"
  by (simp add: applyDefaults_def plain_defaults_idem)

lemma applyDefaults_serialised_plain:
  assumes "plain_defaults path c = c"
  shows "applyDefaults H path (serialised (applyDefaults H path c))
     = (applyDefaults H path c)\<lparr>cJWTSecret := next_secret H (applyDefaults H path c), cLoadedFromBackup := False, cLoadedBackupTS := 0\<rparr>"
  by (cases "cJWTSecretFile c = ''''"; cases "cJWTSecret c = ''''"; cases "chSecret H (cJWTSecretFile c)")
    (simp_all add: applyDefaults_def next_secret_def serialised_eq plain_defaults_rules assms Let_def)

lemma applyDefaults_serialised:
  "applyDefaults H path (serialised (applyDefaults H path c))
     = (applyDefaults H path c)\<lparr>cJWTSecret := next_secret H (applyDefaults H path c), cLoadedFromBackup := False, cLoadedBackupTS := 0\<rparr>"
  using applyDefaults_serialised_plain [OF plain_defaults_idem, of H path c] by (simp add: plain_applyDefaults)

lemma one_source_keeps_secret:
  assumes "cJWTSecretFile c = '''' \<or> cJWTSecret c = ''''"
  shows "next_secret H (applyDefaults H path c) = cJWTSecret (applyDefaults H path c)"
  using assms by (cases "chSecret H (cJWTSecretFile c)") (auto simp: next_secret_def applyDefaults_def Let_def)


definition sound_host :: chost where
  "sound_host = \<lparr>chNow = 50, chSecret = (\<lambda>_. Some (''s3cret'' @ [CHR 0x0A])), chToken = ''tok'', chPass = ''pw'', chJWT = ''jwt'',
     chBcrypt = (\<lambda>p. Some (''h'' @ p)), chMkdir = True, chBackup = True, chWrite = True, chRename = True, chReadDir = True,
     chRemoved = (\<lambda>_. True)\<rparr>"

definition filed_config :: Config where
  "filed_config = sam_config\<lparr>cJWTSecretFile := ''/etc/jwt''\<rparr>"


section \<open>Where the code departs from what it says\<close>

definition broken_dir :: confdir where
  "broken_dir = \<lparr>cfLive = Garbled, cfBaks = [(40, Doc sam_config)]\<rparr>"

text \<open>
  After a start from a backup, the first save copies the broken file over as the newest backup before it writes. If the write then
  fails, the next start finds only the broken file and its copy, and gives up although the good backup is still there.
\<close>
lemma failed_save_after_recovery_bricks:
  "\<not> isl (snd (Load_config sound_host ''/d/config.json'' broken_dir))
   \<and> snd (Load_config sound_host ''/d/config.json'' (fst (Save_config (sound_host\<lparr>chWrite := False\<rparr>) sam_config broken_dir))) = Err BackupCorrupt
   \<and> (40, Doc sam_config) \<in> set (cfBaks (fst (Save_config (sound_host\<lparr>chWrite := False\<rparr>) sam_config broken_dir)))"
  by code_simp

text \<open>A configuration of a newer schema is refused as the live file and accepted as a backup.\<close>
lemma newer_backup_is_accepted:
  "snd (Load_config sound_host ''/d/config.json'' \<lparr>cfLive = Doc (sam_config\<lparr>cSchema := 3\<rparr>), cfBaks = []\<rparr>) = Err (NewerSchema 3)
   \<and> \<not> isl (snd (Load_config sound_host ''/d/config.json'' \<lparr>cfLive = Garbled, cfBaks = [(40, Doc (sam_config\<lparr>cSchema := 3\<rparr>))]\<rparr>))"
  by code_simp

text \<open>With a literal secret and a secret file the literal one signs, until the first save drops it: the next start signs with another.\<close>
lemma both_secrets_switch:
  "(case snd (Load_config sound_host ''/d/config.json'' \<lparr>cfLive = Doc (filed_config\<lparr>cJWTSecret := ''old''\<rparr>), cfBaks = []\<rparr>) of
      Inr c \<Rightarrow> cJWTSecret c = ''old''
        \<and> (case snd (Load_config sound_host ''/d/config.json'' (fst (Save_config sound_host c
                \<lparr>cfLive = Doc (filed_config\<lparr>cJWTSecret := ''old''\<rparr>), cfBaks = []\<rparr>))) of
             Inr c' \<Rightarrow> cJWTSecret c' = ''s3cret'' | _ \<Rightarrow> False)
    | _ \<Rightarrow> False)"
  by code_simp

text \<open>When the secret file cannot be read, the function returns before it makes an intake token.\<close>
lemma unread_secret_skips_token:
  "cTactiqIntakeToken (applyDefaults (sound_host\<lparr>chSecret := (\<lambda>_. None)\<rparr>) p (filed_config\<lparr>cTactiqIntakeToken := ''''\<rparr>)) = ''''"
  by (simp add: applyDefaults_def Let_def sound_host_def filed_config_def sam_config_def blank_config_def)

text \<open>The account of a fresh install is an administrator that the list of administrators does not have.\<close>
lemma first_admin_is_not_listed:
  "(case snd (bootstrap sound_host ''/d/config.json'' \<lparr>cfLive = NoFile, cfBaks = []\<rparr>) of
      Inr (c, _) \<Rightarrow> IsAdmin c ''admin'' \<and> Admins c = [] | _ \<Rightarrow> False)"
  by code_simp

text \<open>Promoting an old single account that is not the primary reports success and promotes nobody.\<close>
lemma promotion_without_effect:
  "SetAdmin ''root'' True (sam_config\<lparr>cUsername := ''root''\<rparr>) = Ok (sam_config\<lparr>cUsername := ''root''\<rparr>)
   \<and> \<not> IsAdmin (sam_config\<lparr>cUsername := ''root''\<rparr>) ''root''"
  by code_simp

end
