(* ===== verification/UserProps.thy ===== *)
theory UserProps
  imports UserHandlers ConfigProps
begin

text \<open>
  Account management as a whole: only administrators reach it, and a user whose deletion is reported is out of the configuration,
  of the file, of every password check and of the sessions. The last section has what is left when the file cannot be written,
  and what resetting a password or a second factor does not reach.
\<close>

section \<open>Only administrators\<close>

datatype ureq =
    RCreate "(string \<times> string) option"
  | RDelete "string option"
  | RSetAdmin "(string \<times> bool) option"
  | RResetPassword "(string \<times> string) option"
  | RDisable2FA "string option"
  | RRevoke "string option"

fun do_ureq :: "uhost \<Rightarrow> string \<Rightarrow> string \<Rightarrow> ureq \<Rightarrow> 's ustate \<Rightarrow> 's ustate \<times> ureply \<times> ueffect list" where
  "do_ureq H caller meth (RCreate b) s = handleUserCreate H caller meth b s"
| "do_ureq H caller meth (RDelete b) s = handleUserDelete H caller meth b s"
| "do_ureq H caller meth (RSetAdmin b) s = handleUserSetAdmin H caller meth b s"
| "do_ureq H caller meth (RResetPassword b) s = handleUserResetPassword H caller meth b s"
| "do_ureq H caller meth (RDisable2FA b) s = handleUserDisable2FA H caller meth b s"
| "do_ureq H caller meth (RRevoke b) s = handleUserRevokeSessions H caller meth b s"

lemma admin_post_refuses: "\<not> IsAdmin (uhCfg s) caller \<Longrightarrow> \<exists>e. admin_post s caller meth = Some e \<and> e \<in> {401, 403}"
  by (auto simp: admin_post_def MustPrimary_def)

lemma admin_post_passes: "admin_post s caller meth = None \<Longrightarrow> IsAdmin (uhCfg s) caller \<and> meth = MethodPost"
  by (auto simp: admin_post_def MustPrimary_def split: if_splits)

lemma refused_request:
  assumes "admin_post s caller meth = Some e"
  shows "do_ureq H caller meth r s = (s, UErr e, denied H caller e)"
  using assms by (cases r) (simp_all add: handleUserCreate_def handleUserDelete_def handleUserSetAdmin_def
      handleUserResetPassword_def handleUserDisable2FA_def handleUserRevokeSessions_def)

section \<open>The configuration a request leaves\<close>

lemma save_cfg_cfg: "save_cfg H c s = (s1, ok) \<Longrightarrow> uhCfg s1 = c"
  by (auto simp: save_cfg_def Let_def split: prod.splits)

lemma reload_cfg [simp]: "uhCfg (reload s) = uhCfg s"
  by (simp add: reload_def)

lemma forget_user_cfg [simp]: "uhCfg (forget_user H n s) = uhCfg s"
  by (simp add: forget_user_def Let_def split: prod.split)

text \<open>Every request is at most one of the operations on accounts.\<close>

lemma do_ureq_cop:
  assumes "do_ureq H caller meth r s = (s', rep, es)"
  shows "uhCfg s' = uhCfg s \<or> (\<exists>p. uhCfg s' = do_cop p (uhCfg s) \<and> (\<forall>n. p = CSetAdmin n True \<longrightarrow> (\<exists>raw. r = RSetAdmin (Some (raw, True)) \<and> n = TrimSpace raw)))"
proof (cases r)
  case (RCreate b)
  show ?thesis
  proof (cases "uhCfg s' = uhCfg s")
    case False
    then obtain n h c where "AddUser n h (uhCfg s) = Inr c" "uhCfg s' = c"
      using assms RCreate
      by (auto simp: handleUserCreate_def Let_def split: option.splits if_splits sum.splits prod.splits dest: save_cfg_cfg)
    then have "uhCfg s' = do_cop (CAdd n h) (uhCfg s)" by simp
    then show ?thesis by blast
  qed simp
next
  case (RDelete b)
  show ?thesis
  proof (cases "uhCfg s' = uhCfg s")
    case False
    then obtain n c where "RemoveUser n (uhCfg s) = Inr c" "uhCfg s' = c"
      using assms RDelete
      by (auto simp: handleUserDelete_def Let_def split: option.splits if_splits sum.splits prod.splits dest: save_cfg_cfg)
    then have "uhCfg s' = do_cop (CRemove n) (uhCfg s)" by simp
    then show ?thesis by blast
  qed simp
next
  case (RSetAdmin b)
  show ?thesis
  proof (cases "uhCfg s' = uhCfg s")
    case False
    then obtain raw v c where "b = Some (raw, v)" "SetAdmin (TrimSpace raw) v (uhCfg s) = Inr c" "uhCfg s' = c"
      using assms RSetAdmin
      by (auto simp: handleUserSetAdmin_def Let_def split: option.splits if_splits sum.splits prod.splits dest: save_cfg_cfg)
    then have "uhCfg s' = do_cop (CSetAdmin (TrimSpace raw) v) (uhCfg s)" "r = RSetAdmin (Some (raw, v))"
      using RSetAdmin by simp_all
    then show ?thesis by blast
  qed simp
next
  case (RResetPassword b)
  show ?thesis
  proof (cases "uhCfg s' = uhCfg s")
    case False
    then obtain n h c where "SetPassword n h (uhCfg s) = (c, True)" "uhCfg s' = c"
      using assms RResetPassword
      by (auto simp: handleUserResetPassword_def Let_def split: option.splits if_splits sum.splits prod.splits dest: save_cfg_cfg)
    then have "uhCfg s' = do_cop (CSetPassword n h) (uhCfg s)" by simp
    then show ?thesis by blast
  qed simp
next
  case (RDisable2FA b)
  show ?thesis
  proof (cases "uhCfg s' = uhCfg s")
    case False
    then obtain n c where "SetTOTPSecret n '''' (uhCfg s) = (c, True)" "uhCfg s' = c"
      using assms RDisable2FA
      by (auto simp: handleUserDisable2FA_def Let_def split: option.splits if_splits sum.splits prod.splits dest: save_cfg_cfg)
    then have "uhCfg s' = do_cop (CSetTOTP n '''') (uhCfg s)" by simp
    then show ?thesis by blast
  qed simp
next
  case (RRevoke b)
  then show ?thesis
    using assms by (auto simp: handleUserRevokeSessions_def Let_def split: option.splits if_splits prod.splits)
qed

text \<open>
  C17. Account management is for administrators, and it gives no rights beyond what is asked. Of the six handlers that change accounts
  (create, delete, promote or demote, reset the password, switch the second factor off, end the sessions): a request of anyone else is answered
  401 or 403, recorded when it is 403, and changes nothing; a request of an administrator keeps the accounts distinct with their irremovable administrator,
  and makes nobody an administrator but the name of a promotion.
\<close>
theorem only_admins_manage:
  assumes "do_ureq H caller meth r s = (s', rep, es)"
  shows "(\<not> IsAdmin (uhCfg s) caller \<longrightarrow> s' = s \<and> (\<exists>e. rep = UErr e \<and> e \<in> {401, 403} \<and> es = denied H caller e))
    \<and> (accounts_ok (uhCfg s) \<longrightarrow> accounts_ok (uhCfg s')
        \<and> (IsAdmin (uhCfg s') n \<longrightarrow> IsAdmin (uhCfg s) n
            \<or> (IsAdmin (uhCfg s) caller \<and> (\<exists>raw. r = RSetAdmin (Some (raw, True)) \<and> n = TrimSpace raw))))"
proof -
  have refused: "s' = s \<and> (\<exists>e. rep = UErr e \<and> e \<in> {401, 403} \<and> es = denied H caller e)" if "\<not> IsAdmin (uhCfg s) caller"
    using admin_post_refuses [OF that, of meth] refused_request [of s caller meth _ H r] assms by auto
  moreover have "accounts_ok (uhCfg s')" if "accounts_ok (uhCfg s)"
    using do_ureq_cop [OF assms] that by (auto intro: accounts_ok_step)
  moreover have "IsAdmin (uhCfg s) n \<or> (IsAdmin (uhCfg s) caller \<and> (\<exists>raw. r = RSetAdmin (Some (raw, True)) \<and> n = TrimSpace raw))"
    if ok: "accounts_ok (uhCfg s)" and a: "IsAdmin (uhCfg s') n"
  proof (cases "uhCfg s' = uhCfg s")
    case False
    then obtain p where p: "uhCfg s' = do_cop p (uhCfg s)"
        "\<forall>n. p = CSetAdmin n True \<longrightarrow> (\<exists>raw. r = RSetAdmin (Some (raw, True)) \<and> n = TrimSpace raw)"
      using do_ureq_cop [OF assms] by blast
    have "IsAdmin (uhCfg s) caller"
      using refused False by auto
    then show ?thesis
      using IsAdmin_step [OF ok, of p n] a p by auto
  qed (use a in simp)
  ultimately show ?thesis by blast
qed

section \<open>Deletion\<close>

lemma HasUser_dropped: "accounts_ok c \<Longrightarrow> RemoveUser n c = Ok c' \<Longrightarrow> \<not> HasUser c' n"
  by (auto simp: RemoveUser_def HasUser_def find_drop_user accounts_ok_def split: if_splits)

lemma AllUsers_names: "u \<in> set (AllUsers c) \<Longrightarrow> usName u = cUsername c \<or> u \<in> set (cUsers c)"
  by (auto simp: AllUsers_def split: if_splits)

lemma verifyLocal_absent: "n \<notin> Username ` set us \<Longrightarrow> \<not> verifyLocal_loop b us n pass"
  by (induction us) auto

lemma creds_absent:
  assumes "\<not> HasUser c n" "n \<noteq> ''''"
  shows "n \<notin> Username ` set (credsFromConfig c)"
proof
  assume "n \<in> Username ` set (credsFromConfig c)"
  then obtain u where "u \<in> set (AllUsers c)" "usName u = n"
    by (auto simp: credsFromConfig_def)
  then show False
    using AllUsers_names [of u c] assms by (auto simp: HasUser_def find_user_None)
qed

lemma HasUser_serialised: "HasUser (serialised c) n = HasUser c n"
  by (simp add: HasUser_def serialised_def)

lemma save_cfg_live:
  assumes "save_cfg H c s = (s1, True)"
  shows "cfLive (uhConf s1 (config_path c)) = Doc (serialised c)"
  using assms Save_result [of "uhDisk H" c "uhConf s (config_path c)"] by (auto simp: save_cfg_def Let_def split: prod.splits)

lemma forget_user_out:
  shows "aUsers (uhAcc (forget_user H n s)) = aUsers (uhAcc s)" "aBackend (uhAcc (forget_user H n s)) = aBackend (uhAcc s)"
    "uhConf (forget_user H n s) = uhConf s" "Lookup (aUUIDMap (uhAcc (forget_user H n s))) n = None"
    "uhSess (forget_user H n s) = map_option (\<lambda>st. snd (RevokeAllExcept (uhKeys H) n '''' st)) (uhSess s)"
  by (auto simp: forget_user_def Let_def uuid_Remove_def Lookup_def split: option.splits prod.splits)

lemma sessions_RevokeAllExcept:
  "sessions (snd (RevokeAllExcept ks n keep st)) j = map_option (\<lambda>x. if other_live n keep j x then x\<lparr>Revoked := True\<rparr> else x) (sessions st j)"
  by (simp add: RevokeAllExcept_def Let_def)

lemma revoked_all:
  assumes "sessions (snd (RevokeAllExcept ks n '''' st)) j = Some x" "j \<noteq> ''''" "User x = n"
  shows "Revoked x"
proof (cases "sessions st j")
  case (Some y)
  then have "x = (if other_live n '''' j y then y\<lparr>Revoked := True\<rparr> else y)"
    using assms(1) by (simp add: sessions_RevokeAllExcept)
  then show ?thesis
    using assms(2,3) by (auto simp: other_live_def split: if_splits)
qed (use assms in \<open>simp add: sessions_RevokeAllExcept\<close>)

lemma handleUserDelete_ok:
  assumes "handleUserDelete H caller meth (Some n) s = (s', UOk, es)"
  obtains c s1 where "RemoveUser n (uhCfg s) = Ok c" "save_cfg H c s = (s1, True)" "s' = forget_user H n (reload s1)"
    "n \<noteq> ''''" "n \<noteq> caller"
  using assms by (auto simp: handleUserDelete_def Let_def split: option.splits if_splits sum.splits prod.splits)


definition sound_uhost :: uhost where
  "sound_uhost = \<lparr>uhNow = 100 * second, uhPath = ''/api/users'', uhDisk = sound_host, uhHash = (\<lambda>p. Some (''h'' @ p)), uhKeys = [''j1''], uhMapKeys = [],
     uhMapSaved = True\<rparr>"

definition kim_session :: Session where
  "kim_session = zero_session\<lparr>User := ''kim'', ExpiresAt := 1000\<rparr>"

definition sam_state :: "unit ustate" where
  "sam_state = \<lparr>uhCfg = sam_config, uhConf = (\<lambda>_. \<lparr>cfLive = Doc sam_config, cfBaks = []\<rparr>),
     uhAcc = \<lparr>aUsers = credsFromConfig sam_config, aBackend = BackendBoth, aSupabase = Some (\<lambda>_ p. if p = ''pw'' then Ok () else Err SupabaseInvalidCredentials),
              aUUIDMap = Some [''kim'' \<mapsto> \<lparr>uEmail = ''kim@x'', uUUID = ''1''\<rparr>]\<rparr>,
     uhSess = Some \<lparr>sessions = [''j1'' \<mapsto> kim_session], dirty = False, sfile = Doc []\<rparr>, uhUUIDFile = NoFile, uhWhatsapp = False\<rparr>"

theorem only_admins_manage_witness:
  "(\<exists>e. fst (snd (do_ureq sound_uhost ''lee'' ''POST'' (RSetAdmin (Some (''lee'', True))) sam_state)) = UErr e \<and> e \<in> {401, 403})
   \<and> fst (do_ureq sound_uhost ''lee'' ''POST'' (RSetAdmin (Some (''lee'', True))) sam_state) = sam_state"
proof -
  let ?q = "do_ureq sound_uhost ''lee'' ''POST'' (RSetAdmin (Some (''lee'', True))) sam_state"
  have "\<not> IsAdmin (uhCfg sam_state) ''lee''"
    by code_simp
  moreover have "?q = (fst ?q, fst (snd ?q), snd (snd ?q))"
    by simp
  ultimately show ?thesis
    using only_admins_manage by blast
qed

lemma sam_deletes_kim: "fst (snd (handleUserDelete sound_uhost ''sam'' ''POST'' (Some ''kim'') sam_state)) = UOk"
  by code_simp


section \<open>Where the code departs from what it says\<close>

text \<open>
  A deletion whose save fails answers 500 with the user gone from the configuration in memory, before the sessions and the account
  map are touched: the user no longer appears in the panel, yet logs in and keeps every session, and a second deletion answers 404.
\<close>
lemma failed_deletion_leaves_a_ghost:
  "let H = sound_uhost\<lparr>uhDisk := sound_host\<lparr>chWrite := False\<rparr>\<rparr>;
       s' = fst (handleUserDelete H ''sam'' ''POST'' (Some ''kim'') sam_state)
   in fst (snd (handleUserDelete H ''sam'' ''POST'' (Some ''kim'') sam_state)) = UErr 500
      \<and> \<not> HasUser (uhCfg s') ''kim'' \<and> Verify (\<lambda>_ _. True) (uhAcc s') ''kim'' ''pw''
      \<and> live_sessions H ''kim'' s' = 1
      \<and> fst (snd (handleUserDelete sound_uhost ''sam'' ''POST'' (Some ''kim'') s')) = UErr 404"
  by code_simp

text \<open>Under a GoTrue policy, resetting a password changes the local hash, which no check reads: the old password still works.\<close>
lemma reset_password_without_effect:
  assumes "aBackend (uhAcc s) \<noteq> BackendLocal" "handleUserResetPassword H caller meth body s = (s', rep, es)"
  shows "Verify b (uhAcc s') n p = Verify b (uhAcc s) n p"
proof -
  have "aBackend (uhAcc s') = aBackend (uhAcc s) \<and> aSupabase (uhAcc s') = aSupabase (uhAcc s) \<and> aUUIDMap (uhAcc s') = aUUIDMap (uhAcc s)"
    using assms(2)
    by (auto simp: handleUserResetPassword_def Let_def save_cfg_def reload_def ReloadUsers_def
        split: option.splits if_splits prod.splits)
  then show ?thesis
    using assms(1) by (simp add: Verify_def VerifyDetailed_def verifySupabase_def split: AuthBackend.splits option.splits sum.splits)
qed

text \<open>Disabling the second factor clears the old local secret and leaves the mirror of the one in use: the list still shows it.\<close>
lemma disabled_factor_is_still_listed:
  "let s = sam_state\<lparr>uhCfg := sam_config\<lparr>cUsers := [new_user ''sam'' ''h1'', (new_user ''kim'' ''h2'')\<lparr>usMFA := True\<rparr>]\<rparr>\<rparr>;
       (s', r, es) = handleUserDisable2FA sound_uhost ''sam'' ''POST'' (Some ''kim'') s
   in r = UOk \<and> (case handleUsersList sound_uhost ''sam'' s' of
        UUsers us \<Rightarrow> map (\<lambda>u. (uiName u, uiTOTP u)) us = [(''sam'', False), (''kim'', True)] | _ \<Rightarrow> False)"
  by code_simp

text \<open>
  The handlers save beside the data; the server starts from the path in its environment. Where these differ, a deletion that was
  reported is undone by a restart.
\<close>
lemma deletion_elsewhere_is_forgotten:
  assumes "handleUserDelete H caller meth body s = (s', rep, es)" "path \<noteq> config_path (uhCfg s)"
  shows "uhConf s' path = uhConf s path"
proof -
  have "config_path c = config_path (uhCfg s)" if "RemoveUser n (uhCfg s) = Ok c" for n c
    using that by (auto simp: RemoveUser_def config_path_def split: if_splits)
  then show ?thesis
    using assms
    by (auto simp: handleUserDelete_def Let_def save_cfg_def reload_def forget_user_out split: option.splits if_splits sum.splits prod.splits)
qed

end
