(* ===== verification/SessionStore.thy ===== *)
theory SessionStore
  imports Prelude
begin

text \<open>
  The two sidecar files of the terminal: who owns a session (\<^verbatim>\<open>internal/pty/ownership.go\<close>) and which sessions
  exist (\<^verbatim>\<open>internal/pty/registry.go\<close>). Both change their map under one lock, stamp a copy of it with the next version
  number, release the lock and write the copy under a second lock, which drops a copy older than what is on disk.
  An operation is therefore two definitions: the part under the first lock, which returns the copy to write if there is one,
  and the whole call, which writes it at once. The interleavings of calls are those of the parts.

  The version is a \<open>uint64\<close>; it is a natural number here, which differs only after \<open>2 ^ 64\<close> mutations of one process.
  A nil receiver, which every method but \<open>SessionsOf\<close> tolerates, is \<open>None\<close>.
\<close>

section \<open>Sidecar files\<close>

text \<open>
  What \<open>os.ReadFile\<close> and \<open>json.Unmarshal\<close> find: nothing, an error, a file of no bytes, text that is not the expected
  JSON, the document \<open>null\<close>, or a map.
\<close>

datatype 'a sidecar = SAbsent | SUnreadable | SZeroBytes | SMalformed | SNull | SMap 'a

datatype load_error = ReadFailed | UnmarshalFailed

definition load_map :: "(string \<rightharpoonup> 'v) sidecar \<Rightarrow> load_error + (string \<rightharpoonup> 'v)" where
  "load_map f =
     (case f of
        SAbsent \<Rightarrow> Ok Map.empty
      | SUnreadable \<Rightarrow> Err ReadFailed
      | SZeroBytes \<Rightarrow> Ok Map.empty
      | SMalformed \<Rightarrow> Err UnmarshalFailed
      | SNull \<Rightarrow> Ok Map.empty
      | SMap m \<Rightarrow> Ok m)"

type_synonym 'v written_map = "(string \<rightharpoonup> 'v) \<times> nat"

section \<open>Ownership\<close>

record Ownership =
  owM :: "string \<rightharpoonup> string"
  owSeq :: nat
  owSaved :: nat
  owDisk :: "(string \<rightharpoonup> string) sidecar"

datatype own_error = ErrOwnedByOther | OwnPersistFailed

definition AudienceAll :: string where "AudienceAll = ''*''"

definition LoadOwnership :: "(string \<rightharpoonup> string) sidecar \<Rightarrow> load_error + Ownership" where
  "LoadOwnership f =
     (case load_map f of
        Inl e \<Rightarrow> Err e
      | Inr m \<Rightarrow> Ok \<lparr>owM = m, owSeq = 0, owSaved = 0, owDisk = f\<rparr>)"

text \<open>A missing key reads as the empty string.\<close>

definition str_of :: "string option \<Rightarrow> string" where
  "str_of x = (case x of None \<Rightarrow> '''' | Some v \<Rightarrow> v)"

definition Owner :: "Ownership option \<Rightarrow> string \<Rightarrow> string" where
  "Owner o' name = (case o' of None \<Rightarrow> '''' | Some ow \<Rightarrow> if name = '''' then '''' else str_of (owM ow name))"

text \<open>\<open>seq++\<close> and the stamped copy, still under the lock.\<close>

definition own_stamp :: "(string \<rightharpoonup> string) \<Rightarrow> Ownership \<Rightarrow> Ownership \<times> string written_map option" where
  "own_stamp m ow = (ow\<lparr>owM := m, owSeq := owSeq ow + 1\<rparr>, Some (m, owSeq ow + 1))"

definition Claim_locked :: "string \<Rightarrow> string \<Rightarrow> Ownership \<Rightarrow> own_error + Ownership \<times> string written_map option" where
  "Claim_locked name user ow =
     (if name = '''' \<or> user = '''' then Ok (ow, None)
      else if (case owM ow name of None \<Rightarrow> False | Some cur \<Rightarrow> cur \<noteq> '''' \<and> cur \<noteq> user) then Err ErrOwnedByOther
      else if str_of (owM ow name) = user then Ok (ow, None)
      else Ok (own_stamp ((owM ow)(name \<mapsto> user)) ow))"

definition Release_locked :: "string \<Rightarrow> Ownership \<Rightarrow> own_error + Ownership \<times> string written_map option" where
  "Release_locked name ow =
     (if name = '''' \<or> owM ow name = None then Ok (ow, None)
      else Ok (own_stamp ((owM ow)(name := None)) ow))"

definition Assign_locked :: "string \<Rightarrow> string \<Rightarrow> Ownership \<Rightarrow> own_error + Ownership \<times> string written_map option" where
  "Assign_locked name target ow =
     (if name = '''' \<or> target = '''' \<or> str_of (owM ow name) = target then Ok (ow, None)
      else Ok (own_stamp ((owM ow)(name \<mapsto> target)) ow))"

definition Rename_locked :: "string \<Rightarrow> string \<Rightarrow> Ownership \<Rightarrow> own_error + Ownership \<times> string written_map option" where
  "Rename_locked old new ow =
     (if old = '''' \<or> new = '''' \<or> old = new then Ok (ow, None)
      else case owM ow old of
        None \<Rightarrow> Ok (ow, None)
      | Some owner \<Rightarrow> Ok (own_stamp ((owM ow)(old := None, new \<mapsto> owner)) ow))"

text \<open>\<open>persist\<close>, under the second lock; \<open>ok\<close> says whether the directory, the temporary file and the rename all worked.\<close>

definition own_persist :: "bool \<Rightarrow> (string \<rightharpoonup> string) \<Rightarrow> nat \<Rightarrow> Ownership \<Rightarrow> Ownership \<times> (own_error + unit)" where
  "own_persist ok snap q ow =
     (if q \<le> owSaved ow then (ow, Ok ())
      else if \<not> ok then (ow, Err OwnPersistFailed)
      else (ow\<lparr>owSaved := q, owDisk := SMap snap\<rparr>, Ok ()))"

text \<open>A whole call: the locked part, then the write of its copy. A nil receiver does nothing.\<close>

definition own_call :: "bool \<Rightarrow> (Ownership \<Rightarrow> own_error + Ownership \<times> string written_map option) \<Rightarrow> Ownership option
    \<Rightarrow> Ownership option \<times> (own_error + unit)" where
  "own_call ok f o' =
     (case o' of
        None \<Rightarrow> (None, Ok ())
      | Some ow \<Rightarrow>
          (case f ow of
             Inl e \<Rightarrow> (Some ow, Err e)
           | Inr (ow1, None) \<Rightarrow> (Some ow1, Ok ())
           | Inr (ow1, Some (snap, q)) \<Rightarrow> (let (ow2, r) = own_persist ok snap q ow1 in (Some ow2, r))))"

definition Claim :: "bool \<Rightarrow> string \<Rightarrow> string \<Rightarrow> Ownership option \<Rightarrow> Ownership option \<times> (own_error + unit)" where
  "Claim ok name user o' = own_call ok (Claim_locked name user) o'"

definition Release :: "bool \<Rightarrow> string \<Rightarrow> Ownership option \<Rightarrow> Ownership option \<times> (own_error + unit)" where
  "Release ok name o' = own_call ok (Release_locked name) o'"

definition Assign :: "bool \<Rightarrow> string \<Rightarrow> string \<Rightarrow> Ownership option \<Rightarrow> Ownership option \<times> (own_error + unit)" where
  "Assign ok name target o' = own_call ok (Assign_locked name target) o'"

definition Rename_own :: "bool \<Rightarrow> string \<Rightarrow> string \<Rightarrow> Ownership option \<Rightarrow> Ownership option \<times> (own_error + unit)" where
  "Rename_own ok old new o' = own_call ok (Rename_locked old new) o'"

definition VisibleTo :: "Ownership option \<Rightarrow> string \<Rightarrow> string \<Rightarrow> bool \<Rightarrow> bool" where
  "VisibleTo o' name user primary =
     (if name = '''' \<or> user = '''' then False
      else let owner = Owner o' name
           in if owner = user then True
              else if owner = AudienceAll then True
              else owner = '''' \<and> primary)"

text \<open>The range over the map visits its keys in the order \<open>ks\<close>.\<close>

definition SessionsOf :: "string list \<Rightarrow> string \<Rightarrow> Ownership \<Rightarrow> string list" where
  "SessionsOf ks user ow =
     (if user = '''' then []
      else filter (\<lambda>name. case owM ow name of
                            None \<Rightarrow> False
                          | Some owner \<Rightarrow> owner \<noteq> AudienceAll \<and> owner = user) ks)"

section \<open>Registry\<close>

record SessionRecord =
  srName :: string
  srSocket :: string
  srPID :: int
  srCreated :: secs
  srBackend :: string

record Registry =
  rgM :: "string \<rightharpoonup> SessionRecord"
  rgSeq :: nat
  rgSaved :: nat
  rgDisk :: "(string \<rightharpoonup> SessionRecord) sidecar"

definition LoadRegistry :: "(string \<rightharpoonup> SessionRecord) sidecar \<Rightarrow> load_error + Registry" where
  "LoadRegistry f =
     (case load_map f of
        Inl e \<Rightarrow> Err e
      | Inr m \<Rightarrow> Ok \<lparr>rgM = m, rgSeq = 0, rgSaved = 0, rgDisk = f\<rparr>)"

definition reg_Get :: "Registry option \<Rightarrow> string \<Rightarrow> SessionRecord option" where
  "reg_Get r name = (case r of None \<Rightarrow> None | Some rg \<Rightarrow> if name = '''' then None else rgM rg name)"

definition reg_Has :: "Registry option \<Rightarrow> string \<Rightarrow> bool" where
  "reg_Has r name \<longleftrightarrow> reg_Get r name \<noteq> None"

definition reg_stamp :: "(string \<rightharpoonup> SessionRecord) \<Rightarrow> Registry \<Rightarrow> Registry \<times> SessionRecord written_map option" where
  "reg_stamp m rg = (rg\<lparr>rgM := m, rgSeq := rgSeq rg + 1\<rparr>, Some (m, rgSeq rg + 1))"

definition Put_locked :: "nanos \<Rightarrow> SessionRecord \<Rightarrow> Registry \<Rightarrow> Registry \<times> SessionRecord written_map option" where
  "Put_locked now rec rg =
     (if srName rec = '''' then (rg, None)
      else let rec' = (if srCreated rec = 0 then rec\<lparr>srCreated := unix now\<rparr> else rec)
           in reg_stamp ((rgM rg)(srName rec \<mapsto> rec')) rg)"

definition Delete_locked :: "string \<Rightarrow> Registry \<Rightarrow> Registry \<times> SessionRecord written_map option" where
  "Delete_locked name rg =
     (if name = '''' \<or> rgM rg name = None then (rg, None)
      else reg_stamp ((rgM rg)(name := None)) rg)"

definition reg_Rename_locked :: "string \<Rightarrow> string \<Rightarrow> Registry \<Rightarrow> Registry \<times> SessionRecord written_map option" where
  "reg_Rename_locked old newName rg =
     (if old = '''' \<or> newName = '''' \<or> old = newName then (rg, None)
      else case rgM rg old of
        None \<Rightarrow> (rg, None)
      | Some rec \<Rightarrow> reg_stamp ((rgM rg)(old := None, newName \<mapsto> rec\<lparr>srName := newName\<rparr>)) rg)"

definition reg_persist :: "bool \<Rightarrow> (string \<rightharpoonup> SessionRecord) \<Rightarrow> nat \<Rightarrow> Registry \<Rightarrow> Registry \<times> bool" where
  "reg_persist ok snap q rg =
     (if q \<le> rgSaved rg then (rg, True)
      else if \<not> ok then (rg, False)
      else (rg\<lparr>rgSaved := q, rgDisk := SMap snap\<rparr>, True))"

definition reg_call :: "bool \<Rightarrow> (Registry \<Rightarrow> Registry \<times> SessionRecord written_map option) \<Rightarrow> Registry option
    \<Rightarrow> Registry option \<times> bool" where
  "reg_call ok f r =
     (case r of
        None \<Rightarrow> (None, True)
      | Some rg \<Rightarrow>
          (case f rg of
             (rg1, None) \<Rightarrow> (Some rg1, True)
           | (rg1, Some (snap, q)) \<Rightarrow> (let (rg2, done') = reg_persist ok snap q rg1 in (Some rg2, done'))))"

definition reg_Put :: "bool \<Rightarrow> nanos \<Rightarrow> SessionRecord \<Rightarrow> Registry option \<Rightarrow> Registry option \<times> bool" where
  "reg_Put ok now rec r = reg_call ok (Put_locked now rec) r"

definition reg_Delete :: "bool \<Rightarrow> string \<Rightarrow> Registry option \<Rightarrow> Registry option \<times> bool" where
  "reg_Delete ok name r = reg_call ok (Delete_locked name) r"

definition reg_Rename :: "bool \<Rightarrow> string \<Rightarrow> string \<Rightarrow> Registry option \<Rightarrow> Registry option \<times> bool" where
  "reg_Rename ok old newName r = reg_call ok (reg_Rename_locked old newName) r"

text \<open>A nil registry lists nothing; otherwise the records in the order \<open>ks\<close> of the range.\<close>

definition reg_List :: "string list \<Rightarrow> Registry option \<Rightarrow> SessionRecord list" where
  "reg_List ks r = (case r of None \<Rightarrow> [] | Some rg \<Rightarrow> List.map_filter (rgM rg) ks)"

end
