(* ===== verification/Terminal.thy ===== *)
theory Terminal
  imports SessionStore UserHandlers
begin

text \<open>
  Terminal sessions: the \<open>dtach\<close> engine (\<^verbatim>\<open>internal/pty/backend_dtach.go\<close>, \<^verbatim>\<open>session.go\<close>), names, quota and listing
  (\<^verbatim>\<open>session_meta.go\<close>), the access check of the terminal socket (\<open>HostShell\<close> in \<^verbatim>\<open>pty.go\<close>) and the handlers that list,
  create, assign, kill, rename and restore sessions (\<^verbatim>\<open>internal/api/handlers_users.go\<close>, \<^verbatim>\<open>handlers_terminal_backup.go\<close>).

  A session is a master process listening on a socket; \<open>tmLive\<close> gives, for each socket that accepts connections, the identity
  of its master. What the machine does (programs on the path, outcome of starting a master, outcome of each file write) is
  the record \<open>termhost\<close>. Removing a socket file is assumed to work. The stream between client and master is not part of
  this theory.
\<close>

section \<open>Names and sockets\<close>

definition safeSessionName :: "string \<Rightarrow> string" where
  "safeSessionName s = (let out = take 40 (filter name_char s) in if out = '''' then ''main'' else out)"

definition maxSessionsPerUser :: nat where "maxSessionsPerUser = 20"

record termhost =
  thDataDir :: string
  thNow :: nanos
  thDtach :: "string option"
  thSdrun :: "string option"
  thRun :: "string list \<Rightarrow> bool \<times> bool"
  thMaster :: nat
  thOwnOk :: bool
  thRegOk :: bool
  thShell :: string
  thIsDir :: "string \<Rightarrow> bool"
  thAccts :: bool
  thConfigDir :: "string \<Rightarrow> string"

text \<open>
  \<open>thRun argv\<close> is the outcome of running a command that starts a master: whether it reports an error, and whether the socket
  accepts connections afterwards (within the three seconds the callers wait).
\<close>

record tstate =
  tmOwn :: "Ownership option"
  tmReg :: "Registry option"
  tmLive :: "string \<rightharpoonup> nat"

definition sessionSoxDir :: "string \<Rightarrow> string" where
  "sessionSoxDir dataDir = Join [dataDir, ''session-sox'']"

definition socketPathFor :: "string \<Rightarrow> string \<Rightarrow> string" where
  "socketPathFor dataDir name = Join [sessionSoxDir dataDir, safeSessionName name @ ''.sock'']"

definition resolveSocket :: "termhost \<Rightarrow> tstate \<Rightarrow> string \<Rightarrow> string" where
  "resolveSocket H s name =
     (case reg_Get (tmReg s) name of
        Some rec \<Rightarrow> if srSocket rec \<noteq> '''' then srSocket rec else socketPathFor (thDataDir H) name
      | None \<Rightarrow> socketPathFor (thDataDir H) name)"

definition socketAlive :: "tstate \<Rightarrow> string \<Rightarrow> bool" where
  "socketAlive s sock \<longleftrightarrow> sock \<noteq> '''' \<and> tmLive s sock \<noteq> None"

section \<open>Starting a master\<close>

definition dtachMasterArgs :: "string \<Rightarrow> string \<Rightarrow> string \<Rightarrow> string list \<Rightarrow> string list \<Rightarrow> string \<Rightarrow> string list" where
  "dtachMasterArgs sdrunPath dtachPath sock cmd env cwd =
     (let dtachArgs = [''-n'', sock, ''-E'', ''-z''] @ cmd
      in if sdrunPath = ''''
         then if env \<noteq> [] then [''env''] @ env @ [dtachPath] @ dtachArgs else dtachPath # dtachArgs
         else [''--quiet'', ''--collect'', ''--scope'', ''--slice=user.slice'']
              @ map (\<lambda>e. ''--setenv='' @ e) env
              @ (if cwd \<noteq> '''' then [''--working-directory='' @ cwd] else [])
              @ [''--'', dtachPath] @ dtachArgs)"

text \<open>The command that is run: the first word of the argument list is replaced by the path of \<open>systemd-run\<close> when there is one.\<close>

definition launch_argv :: "string \<Rightarrow> string \<Rightarrow> string \<Rightarrow> string list \<Rightarrow> string list \<Rightarrow> string \<Rightarrow> string list" where
  "launch_argv sdrunPath dtachPath sock cmd env cwd =
     (let margs = dtachMasterArgs sdrunPath dtachPath sock cmd env cwd
      in if sdrunPath = '''' then margs else sdrunPath # tl margs)"

text \<open>Whether starting reported an error, and whether the socket is alive afterwards.\<close>

definition startDtachMaster :: "termhost \<Rightarrow> string \<Rightarrow> string \<Rightarrow> string list \<Rightarrow> string list \<Rightarrow> string \<Rightarrow> bool \<times> bool" where
  "startDtachMaster H dtachPath sock cmd env cwd =
     (let sdrunPath = str_of (thSdrun H);
          (err, alive) = thRun H (launch_argv sdrunPath dtachPath sock cmd env cwd)
      in if err \<and> sdrunPath \<noteq> '''' \<and> \<not> alive then thRun H (launch_argv '''' dtachPath sock cmd env cwd)
         else (err, alive))"

text \<open>The dead socket file goes; a new master listens on the socket if the start left it alive.\<close>

definition spawn :: "termhost \<Rightarrow> string \<Rightarrow> bool \<Rightarrow> tstate \<Rightarrow> tstate" where
  "spawn H sock alive s = s\<lparr>tmLive := (tmLive s)(sock := if alive then Some (thMaster H) else None)\<rparr>"

definition put_session :: "termhost \<Rightarrow> string \<Rightarrow> string \<Rightarrow> tstate \<Rightarrow> tstate \<times> bool" where
  "put_session H name sock s =
     (let (r, ok) = reg_Put (thRegOk H) (thNow H)
            \<lparr>srName = name, srSocket = sock, srPID = 0, srCreated = 0, srBackend = ''dtach''\<rparr> (tmReg s)
      in (s\<lparr>tmReg := r\<rparr>, ok))"

section \<open>The engine\<close>

datatype client = ClientOn string | BareShell

definition Attach :: "termhost \<Rightarrow> string \<Rightarrow> string list \<Rightarrow> string list \<Rightarrow> string \<Rightarrow> tstate \<Rightarrow> tstate \<times> client" where
  "Attach H name0 cmd0 env cwd s =
     (let name = safeSessionName name0;
          cmd = (if cmd0 = [] then [''/bin/bash'', ''-l''] else cmd0);
          sock = resolveSocket H s name
      in case thDtach H of
           None \<Rightarrow> (s, BareShell)
         | Some dtachPath \<Rightarrow>
             if socketAlive s sock then (s, ClientOn sock)
             else let alive = snd (startDtachMaster H dtachPath sock cmd env cwd)
                  in (fst (put_session H name sock (spawn H sock alive s)), ClientOn sock))"

datatype create_error = NoDtach | StartFailed | PutFailed

definition CreateDetached :: "termhost \<Rightarrow> string \<Rightarrow> string list \<Rightarrow> string list \<Rightarrow> string \<Rightarrow> tstate
    \<Rightarrow> tstate \<times> (create_error + unit)" where
  "CreateDetached H name0 argv0 env cwd s =
     (let name = safeSessionName name0;
          argv = (if argv0 = [] then [''/bin/bash'', ''-l''] else argv0);
          sock = resolveSocket H s name
      in if socketAlive s sock then (s, Ok ())
         else case thDtach H of
           None \<Rightarrow> (spawn H sock False s, Err NoDtach)
         | Some dtachPath \<Rightarrow>
             (let (err, alive) = startDtachMaster H dtachPath sock argv env cwd;
                  s1 = spawn H sock alive s
              in if err then (s1, Err StartFailed)
                 else let (s2, ok) = put_session H name sock s1
                      in (s2, if ok then Ok () else Err PutFailed)))"

definition SessionHas :: "termhost \<Rightarrow> tstate \<Rightarrow> string \<Rightarrow> bool" where
  "SessionHas H s name = socketAlive s (resolveSocket H s (safeSessionName name))"

record session_row =
  rowName :: string
  rowCreated :: secs
  rowAssigned :: string

text \<open>
  The live records of the registry, then the live sockets of the directory that no listed record covers, named by their file.
  \<open>ks\<close> is the order of the range over the registry, \<open>ents\<close> the directory entries.
\<close>

fun sweep :: "termhost \<Rightarrow> tstate \<Rightarrow> string list \<Rightarrow> string list \<Rightarrow> session_row list" where
  "sweep H s seen [] = []"
| "sweep H s seen (nm # rest) =
     (let sock = Join [sessionSoxDir (thDataDir H), nm]
      in if \<not> suffix ''.sock'' nm then sweep H s seen rest
         else if sock \<in> set seen \<or> \<not> socketAlive s sock then sweep H s seen rest
         else \<lparr>rowName = take (length nm - 5) nm, rowCreated = 0, rowAssigned = ''''\<rparr> # sweep H s (sock # seen) rest)"

definition SessionListAll :: "termhost \<Rightarrow> string list \<Rightarrow> string list \<Rightarrow> tstate \<Rightarrow> session_row list" where
  "SessionListAll H ks ents s =
     (let recs = filter (\<lambda>rec. srBackend rec = ''dtach'' \<and> socketAlive s (srSocket rec)) (reg_List ks (tmReg s))
      in map (\<lambda>rec. \<lparr>rowName = srName rec, rowCreated = srCreated rec, rowAssigned = ''''\<rparr>) recs
         @ sweep H s (map srSocket recs) ents)"

definition SessionKill :: "termhost \<Rightarrow> string \<Rightarrow> tstate \<Rightarrow> tstate \<times> bool" where
  "SessionKill H name0 s =
     (let name = safeSessionName name0;
          sock = resolveSocket H s name;
          s1 = (if sock \<noteq> '''' then s\<lparr>tmLive := (tmLive s)(sock := None)\<rparr> else s);
          (r, ok) = reg_Delete (thRegOk H) name (tmReg s1)
      in (s1\<lparr>tmReg := r\<rparr>, ok))"

datatype rename_error = RenameCollision | RenamePersist

definition SessionRename :: "termhost \<Rightarrow> string \<Rightarrow> string \<Rightarrow> tstate \<Rightarrow> tstate \<times> (rename_error + unit)" where
  "SessionRename H old0 new0 s =
     (let old = safeSessionName old0;
          newName = safeSessionName new0
      in if old = '''' \<or> newName = '''' \<or> old = newName then (s, Ok ())
         else if socketAlive s (resolveSocket H s newName) \<or> reg_Has (tmReg s) newName then (s, Err RenameCollision)
         else let (r, ok) = reg_Rename (thRegOk H) old newName (tmReg s)
              in (s\<lparr>tmReg := r\<rparr>, if ok then Ok () else Err RenamePersist))"

section \<open>Quota, listing and the management gate\<close>

definition ownedSessionCount :: "termhost \<Rightarrow> string list \<Rightarrow> string \<Rightarrow> tstate \<Rightarrow> nat" where
  "ownedSessionCount H ks user s =
     (case tmOwn s of
        None \<Rightarrow> 0
      | Some ow \<Rightarrow> length (filter (SessionHas H s) (SessionsOf ks user ow)))"

definition SessionListForUser :: "termhost \<Rightarrow> string list \<Rightarrow> string list \<Rightarrow> string \<Rightarrow> bool \<Rightarrow> tstate \<Rightarrow> session_row list" where
  "SessionListForUser H ks ents user primary s =
     filter (\<lambda>r. VisibleTo (tmOwn s) (rowName r) user primary) (SessionListAll H ks ents s)"

definition OwnsSession :: "string \<Rightarrow> string \<Rightarrow> bool \<Rightarrow> Ownership option \<Rightarrow> bool" where
  "OwnsSession user sessionName primary own \<longleftrightarrow>
     (if user = '''' \<or> sessionName = '''' then False
      else if primary then True
      else Owner own sessionName = user)"

definition SessionListAnnotated :: "termhost \<Rightarrow> string list \<Rightarrow> string list \<Rightarrow> tstate \<Rightarrow> session_row list" where
  "SessionListAnnotated H ks ents s =
     map (\<lambda>r. r\<lparr>rowAssigned := Owner (tmOwn s) (rowName r)\<rparr>) (SessionListAll H ks ents s)"

end
