(* ===== verification/TerminalHandlers.thy ===== *)
theory TerminalHandlers
  imports Terminal
begin

text \<open>
  The terminal socket's access check and the handlers of terminal sessions. The caller is the authenticated user of the
  request, \<open>c\<close> the configuration. \<open>ks\<close> is the order in which the ownership map is ranged over for the quota. The audit log,
  the recorder of a session's output and the account assigned to a session are effects.
\<close>

datatype teffect =
    TAudit string string string
  | TStopRecorder string string
  | TStartRecorder string string
  | TSetAccount string string

datatype treply =
    TErr nat
  | TOk
  | TCreated string bool
  | TNamed string
  | TAssigned string string
  | TRows "session_row list"
  | TRestored nat nat

definition claim :: "termhost \<Rightarrow> string \<Rightarrow> string \<Rightarrow> tstate \<Rightarrow> tstate \<times> bool" where
  "claim H name user s = (let (ow, r) = Claim (thOwnOk H) name user (tmOwn s) in (s\<lparr>tmOwn := ow\<rparr>, \<not> isl r))"

section \<open>The terminal socket\<close>

datatype shell_reply = SessionEnded | NotFound | LimitReached | Shell client

text \<open>The name comes from \<open>name\<close>, then \<open>tab\<close>, then the default.\<close>

definition shell_name :: "request \<Rightarrow> string" where
  "shell_name req =
     (let n = safeSessionName (Query req ''name'');
          n1 = (if n = '''' then safeSessionName (Query req ''tab'') else n)
      in if n1 = '''' then ''main'' else n1)"

definition shell_user :: "string \<Rightarrow> string" where
  "shell_user user = (let u = safeSessionName user in if u = '''' then ''anon'' else u)"

text \<open>The refusal of a reconnection, if there is one.\<close>

definition attach_only :: "termhost \<Rightarrow> request \<Rightarrow> string \<Rightarrow> bool \<Rightarrow> string \<Rightarrow> tstate \<Rightarrow> shell_reply option" where
  "attach_only H req user primary name s =
     (if Query req ''attach'' = ''1''
      then let owner = Owner (tmOwn s) name
           in if owner = user \<or> owner = AudienceAll \<or> primary
              then if SessionHas H s name then None else Some SessionEnded
              else Some NotFound
      else None)"

text \<open>The access check: the state after a claim, or the refusal.\<close>

definition shell_acl :: "termhost \<Rightarrow> string list \<Rightarrow> string \<Rightarrow> bool \<Rightarrow> string \<Rightarrow> tstate \<Rightarrow> tstate \<times> shell_reply option" where
  "shell_acl H ks user primary name s =
     (let owner = Owner (tmOwn s) name
      in if owner = user \<or> owner = AudienceAll then (s, None)
         else if owner \<noteq> '''' then (s, if primary then None else Some NotFound)
         else let exists = SessionHas H s name
              in if exists \<and> \<not> primary then (s, Some NotFound)
                 else if \<not> exists \<and> ownedSessionCount H ks user s \<ge> maxSessionsPerUser then (s, Some LimitReached)
                 else let (s1, ok) = claim H name user s in (s1, if ok then None else Some NotFound))"

definition shell_env :: "string \<Rightarrow> string list" where
  "shell_env configDir = (if configDir \<noteq> '''' then [''CLAUDE_CONFIG_DIR='' @ configDir] else [])"

definition HostShell :: "termhost \<Rightarrow> string list \<Rightarrow> request \<Rightarrow> string \<Rightarrow> bool \<Rightarrow> string \<Rightarrow> tstate \<Rightarrow> tstate \<times> shell_reply" where
  "HostShell H ks req user0 primary configDir s =
     (let user = shell_user user0;
          name = shell_name req
      in case attach_only H req user primary name s of
           Some r \<Rightarrow> (s, r)
         | None \<Rightarrow>
             (case shell_acl H ks user primary name s of
                (s1, Some r) \<Rightarrow> (s1, r)
              | (s1, None) \<Rightarrow>
                  (let (s2, cl) = Attach H name [thShell H, ''-l''] (shell_env configDir) '''' s1
                   in (s2, Shell cl))))"

definition handleHostShell :: "Config \<Rightarrow> termhost \<Rightarrow> string list \<Rightarrow> request \<Rightarrow> string \<Rightarrow> tstate \<Rightarrow> tstate \<times> shell_reply" where
  "handleHostShell c H ks req user s =
     HostShell H ks req user (IsAdmin c user) (thConfigDir H (shell_name req)) s"

section \<open>Handlers\<close>

definition handleTerminalSessions :: "Config \<Rightarrow> termhost \<Rightarrow> string list \<Rightarrow> string list \<Rightarrow> request \<Rightarrow> string \<Rightarrow> tstate \<Rightarrow> treply" where
  "handleTerminalSessions c H ks ents req user s =
     (if user = '''' then TErr 401
      else if Query req ''all'' = ''1'' \<and> IsAdmin c user
        then TRows (sanitizeList rowName [] (SessionListAnnotated H ks ents s))
      else TRows (sanitizeList rowName [] (SessionListForUser H ks ents user (IsAdmin c user) s)))"

text \<open>The part of a creation after the quota: directory, account, master, claim.\<close>

definition create_session :: "termhost \<Rightarrow> string \<Rightarrow> string \<Rightarrow> string \<Rightarrow> string \<Rightarrow> tstate \<Rightarrow> tstate \<times> treply \<times> teffect list" where
  "create_session H user name cwd0 acc0 s =
     (let cwd = TrimSpace cwd0;
          acc = TrimSpace acc0
      in if cwd \<noteq> '''' \<and> \<not> thIsDir H cwd then (s, TErr 400, [])
         else let eff = (if acc \<noteq> '''' \<and> thAccts H then [TSetAccount name acc] else []);
                  (s1, r) = CreateDetached H name [thShell H, ''-l''] (shell_env (thConfigDir H name)) cwd s
              in case r of
                   Inl _ \<Rightarrow> (s1, TErr 500, eff)
                 | Inr _ \<Rightarrow> (fst (claim H name user s1), TCreated name False, eff))"

definition handleTerminalCreate :: "termhost \<Rightarrow> string list \<Rightarrow> string \<Rightarrow> string \<Rightarrow> (string \<times> string \<times> string) option \<Rightarrow> tstate
    \<Rightarrow> tstate \<times> treply \<times> teffect list" where
  "handleTerminalCreate H ks user meth body s =
     (if user = '''' then (s, TErr 401, [])
      else if meth \<noteq> MethodPost then (s, TErr 405, [])
      else case body of
        None \<Rightarrow> (s, TErr 400, [])
      | Some (bname, cwd, acc) \<Rightarrow>
          (let name = safeSessionName bname
           in if name = '''' then (s, TErr 400, [])
              else if SessionHas H s name then (s, TCreated name True, [])
              else if ownedSessionCount H ks user s \<ge> maxSessionsPerUser then (s, TErr 429, [])
              else create_session H user name cwd acc s))"

text \<open>\<open>Assign\<close> is called on the store the process has; the gate is that of the administrator.\<close>

definition handleTerminalAssignSession :: "Config \<Rightarrow> termhost \<Rightarrow> string \<Rightarrow> request \<Rightarrow> (string \<times> string) option \<Rightarrow> tstate
    \<Rightarrow> tstate \<times> treply \<times> teffect list" where
  "handleTerminalAssignSession c H caller req body s =
     (case MustPrimary (Some c) caller of
        Unauthorized401 \<Rightarrow> (s, TErr 401, [])
      | Forbidden403 \<Rightarrow> (s, TErr 403, [TAudit caller ''rbac.denied'' (''admin-only endpoint '' @ Path req)])
      | Admitted _ \<Rightarrow>
          if Method req \<noteq> MethodPost then (s, TErr 405, [])
          else case body of
            None \<Rightarrow> (s, TErr 400, [])
          | Some (bname, btarget) \<Rightarrow>
              (let name = safeSessionName bname;
                   target = TrimSpace btarget
               in if name = '''' then (s, TErr 400, [])
                  else if target \<noteq> AudienceAll \<and> \<not> HasUser c target then (s, TErr 400, [])
                  else let (ow, r) = Assign (thOwnOk H) name target (tmOwn s)
                       in (s\<lparr>tmOwn := ow\<rparr>,
                           if isl r then TErr 500 else TAssigned name target,
                           if isl r then [] else [TAudit caller ''terminal.assign'' (name @ '' -> '' @ target)])))"

definition handleTerminalKillSession :: "Config \<Rightarrow> termhost \<Rightarrow> string \<Rightarrow> string \<Rightarrow> (string \<times> string) option \<Rightarrow> tstate
    \<Rightarrow> tstate \<times> treply \<times> teffect list" where
  "handleTerminalKillSession c H user meth body s =
     (if meth \<noteq> MethodPost then (s, TErr 405, [])
      else if user = '''' then (s, TErr 401, [])
      else case body of
        None \<Rightarrow> (s, TErr 400, [])
      | Some (bname, tab) \<Rightarrow>
          (let target = (if bname = '''' then tab else bname)
           in if \<not> OwnsSession user target (IsAdmin c user) (tmOwn s) then (s, TErr 404, [])
              else let (s1, ok) = SessionKill H target s
                   in if \<not> ok then (s1, TErr 500, [])
                      else (s1\<lparr>tmOwn := fst (Release (thOwnOk H) target (tmOwn s1))\<rparr>, TOk,
                            [TAudit user ''terminal.kill'' target])))"

definition handleTerminalRenameSession :: "Config \<Rightarrow> termhost \<Rightarrow> string \<Rightarrow> string \<Rightarrow> (string \<times> string) option \<Rightarrow> tstate
    \<Rightarrow> tstate \<times> treply \<times> teffect list" where
  "handleTerminalRenameSession c H user meth body s =
     (if meth \<noteq> MethodPost then (s, TErr 405, [])
      else if user = '''' then (s, TErr 401, [])
      else case body of
        None \<Rightarrow> (s, TErr 400, [])
      | Some (name, newName) \<Rightarrow>
          if \<not> OwnsSession user name (IsAdmin c user) (tmOwn s) then (s, TErr 404, [])
          else let (s1, r) = SessionRename H name newName s
               in if isl r then (s1, TErr 400, [])
                  else (s1\<lparr>tmOwn := fst (Rename_own (thOwnOk H) name (safeSessionName newName) (tmOwn s1))\<rparr>,
                        TNamed (safeSessionName newName),
                        [TStopRecorder user name, TStartRecorder user (safeSessionName newName),
                         TAudit user ''terminal.rename'' (name @ ''->'' @ newName)]))"

section \<open>Restoring\<close>

text \<open>A snapshot as the restore uses it: its name, whether it has a window, and the directory of its first pane.\<close>

record snap =
  snName :: string
  snWindows :: bool
  snCWD :: string

definition RestoreSession :: "termhost \<Rightarrow> snap \<Rightarrow> tstate \<Rightarrow> tstate \<times> bool" where
  "RestoreSession H sn s =
     (let name = safeSessionName (snName sn)
      in if name = '''' \<or> \<not> snWindows sn then (s, True)
         else if SessionHas H s name then (s, True)
         else let (s1, r) = CreateDetached H name [thShell H, ''-l''] [] (snCWD sn) s in (s1, \<not> isl r))"

text \<open>The loop over the sessions of a backup; \<open>existing\<close> is the number of names the user owns when it starts.\<close>

fun restore_loop :: "termhost \<Rightarrow> string \<Rightarrow> string \<Rightarrow> nat \<Rightarrow> snap list \<Rightarrow> nat \<Rightarrow> nat \<Rightarrow> tstate \<Rightarrow> tstate \<times> nat \<times> nat" where
  "restore_loop H user only existing [] restored skipped s = (s, restored, skipped)"
| "restore_loop H user only existing (sn # rest) restored skipped s =
     (if only \<noteq> '''' \<and> snName sn \<noteq> safeSessionName only then restore_loop H user only existing rest restored skipped s
      else if existing + restored \<ge> maxSessionsPerUser then restore_loop H user only existing rest restored (skipped + 1) s
      else let (s1, ok) = RestoreSession H sn s
           in if \<not> ok then restore_loop H user only existing rest restored (skipped + 1) s1
              else restore_loop H user only existing rest (restored + 1) skipped
                     (fst (claim H (safeSessionName (snName sn)) user s1)))"

text \<open>\<open>backups\<close> reads a stored backup of the user; the directory of backups can be created. A nil ownership store panics.\<close>

definition handleTerminalRestore :: "termhost \<Rightarrow> string list \<Rightarrow> (string \<Rightarrow> string \<Rightarrow> snap list option) \<Rightarrow> string \<Rightarrow> string
    \<Rightarrow> (string \<times> string) option \<Rightarrow> tstate \<Rightarrow> (tstate \<times> treply \<times> teffect list) option" where
  "handleTerminalRestore H ks backups user meth body s =
     (if meth \<noteq> MethodPost then Some (s, TErr 405, [])
      else if user = '''' then Some (s, TErr 401, [])
      else case body of
        None \<Rightarrow> Some (s, TErr 400, [])
      | Some (bid, only) \<Rightarrow>
          if bid = '''' \<or> \<not> list_all (byte_in 48 57) bid then Some (s, TErr 400, [])
          else case backups user bid of
            None \<Rightarrow> Some (s, TErr 404, [])
          | Some sns \<Rightarrow>
              (case tmOwn s of
                 None \<Rightarrow> None
               | Some ow \<Rightarrow>
                   (let (s1, restored, skipped) =
                          restore_loop H user only (length (SessionsOf ks user ow)) sns 0 0 s
                    in Some (s1, TRestored restored skipped, [TAudit user ''terminal.restore'' bid]))))"

end
