(* ===== verification/SessionStoreProps.thy ===== *)
theory SessionStoreProps
  imports SessionStore
begin

text \<open>
  What the sidecar files of the terminal hold while calls run concurrently: a run interleaves the locked parts of any calls
  and the writes of the copies they stamped, in any order, each write working or not. The contract of a store that stamps its
  copies is one locale, interpreted on the ownership map and on the session registry.
\<close>

section \<open>Interleaved calls\<close>

text \<open>
  A state is the store and the copies that still have to be written. \<open>faulty\<close> says whether a write may fail.
\<close>

inductive versioned_step :: "('op \<Rightarrow> 's \<Rightarrow> 's \<times> ('m \<times> nat) option) \<Rightarrow> (bool \<Rightarrow> 'm \<Rightarrow> nat \<Rightarrow> 's \<Rightarrow> 's) \<Rightarrow> bool
    \<Rightarrow> 's \<times> ('m \<times> nat) list \<Rightarrow> 's \<times> ('m \<times> nat) list \<Rightarrow> bool"
  for mutate :: "'op \<Rightarrow> 's \<Rightarrow> 's \<times> ('m \<times> nat) option" and store_copy :: "bool \<Rightarrow> 'm \<Rightarrow> nat \<Rightarrow> 's \<Rightarrow> 's" and faulty :: bool where
  no_change: "mutate op s = (t, None) \<Longrightarrow> versioned_step mutate store_copy faulty (s, P) (t, P)"
| change: "mutate op s = (t, Some c) \<Longrightarrow> versioned_step mutate store_copy faulty (s, P) (t, c # P)"
| disk_write: "(x, q) \<in> set P \<Longrightarrow> ok \<or> faulty \<Longrightarrow> versioned_step mutate store_copy faulty (s, P) (store_copy ok x q s, remove1 (x, q) P)"

locale versioned_store =
  fixes mem :: "'s \<Rightarrow> 'm"
    and seq :: "'s \<Rightarrow> nat"
    and saved :: "'s \<Rightarrow> nat"
    and stored :: "'s \<Rightarrow> 'm option"
    and mutate :: "'op \<Rightarrow> 's \<Rightarrow> 's \<times> ('m \<times> nat) option"
    and store_copy :: "bool \<Rightarrow> 'm \<Rightarrow> nat \<Rightarrow> 's \<Rightarrow> 's"
  assumes mutate_none: "mutate op s = (t, None) \<Longrightarrow> t = s"
    and mutate_some: "mutate op s = (t, Some (x, q)) \<Longrightarrow>
          q = Suc (seq s) \<and> seq t = q \<and> x = mem t \<and> saved t = saved s \<and> stored t = stored s"
    and write_keeps: "mem (store_copy ok x q s) = mem s \<and> seq (store_copy ok x q s) = seq s"
    and write_stale: "q \<le> saved s \<or> \<not> ok \<Longrightarrow> store_copy ok x q s = s"
    and write_fresh: "saved s < q \<Longrightarrow> ok \<Longrightarrow> saved (store_copy ok x q s) = q \<and> stored (store_copy ok x q s) = Some x"
begin

definition fresh :: "'s \<Rightarrow> bool" where
  "fresh s \<longleftrightarrow> seq s = 0 \<and> saved s = 0 \<and> stored s = Some (mem s)"

text \<open>Version \<open>q\<close> with content \<open>x\<close> was the memory of the process at some moment of the run from \<open>s0\<close>.\<close>

definition was_held :: "bool \<Rightarrow> 's \<Rightarrow> 'm \<Rightarrow> nat \<Rightarrow> bool" where
  "was_held f s0 x q \<longleftrightarrow> (\<exists>t Q. steps (versioned_step mutate store_copy f) (s0, []) (t, Q) \<and> seq t = q \<and> mem t = x)"

definition vinv :: "bool \<Rightarrow> 's \<Rightarrow> 's \<times> ('m \<times> nat) list \<Rightarrow> bool" where
  "vinv f s0 a \<longleftrightarrow>
     (case a of (s, P) \<Rightarrow>
        saved s \<le> seq s
      \<and> (\<forall>(x, q) \<in> set P. 0 < q \<and> q \<le> seq s \<and> (q = seq s \<longrightarrow> x = mem s) \<and> was_held f s0 x q)
      \<and> (saved s = seq s \<longrightarrow> stored s = Some (mem s))
      \<and> (\<exists>x. stored s = Some x \<and> was_held f s0 x (saved s))
      \<and> (\<not> f \<longrightarrow> saved s < seq s \<longrightarrow> (mem s, seq s) \<in> set P))"

lemma vinv_fresh: "fresh s \<Longrightarrow> vinv f s (s, [])"
  by (auto simp: vinv_def fresh_def was_held_def intro: steps.steps_refl)

lemma vinv_change:
  assumes I: "vinv f s0 (s, P)" and r: "steps (versioned_step mutate store_copy f) (s0, []) (s, P)"
    and m: "mutate op s = (t, Some c)"
  shows "vinv f s0 (t, c # P)"
proof -
  obtain x q where c: "c = (x, q)" by (cases c)
  note M = mutate_some [OF m [unfolded c]]
  have "steps (versioned_step mutate store_copy f) (s0, []) (t, c # P)"
    using r versioned_step.change [of mutate op s t c store_copy f P, OF m] by (rule steps.steps_step)
  then have "was_held f s0 x q"
    using M by (auto simp: was_held_def)
  then show ?thesis
    using I M by (fastforce simp: vinv_def c)
qed

lemma vinv_write:
  assumes I: "vinv f s0 (s, P)" and p: "(x, q) \<in> set P" and ok: "ok \<or> f"
  shows "vinv f s0 (store_copy ok x q s, remove1 (x, q) P)"
proof (cases "q \<le> saved s \<or> \<not> ok")
  case True
  have "(mem s, seq s) \<in> set (remove1 (x, q) P)" if "\<not> f" "saved s < seq s"
    using that I True ok by (auto simp: vinv_def in_set_remove1)
  with I show ?thesis
    by (auto simp: vinv_def write_stale [OF True] dest: set_remove1_subset [THEN subsetD])
next
  case False
  have P: "q \<le> seq s" "q = seq s \<Longrightarrow> x = mem s" "was_held f s0 x q"
    using I p by (auto simp: vinv_def)
  have "(mem s, seq s) \<in> set (remove1 (x, q) P)" if "\<not> f" "q < seq s"
    using that I False by (auto simp: vinv_def in_set_remove1)
  with I P False show ?thesis
    by (auto simp: vinv_def write_keeps write_fresh dest: set_remove1_subset [THEN subsetD])
qed

lemma vinv_run: "steps (versioned_step mutate store_copy f) (s0, []) a \<Longrightarrow> fresh s0 \<Longrightarrow> vinv f s0 a"
proof (induction "(s0, [] :: ('m \<times> nat) list)" a rule: steps.induct)
  case steps_refl
  then show ?case by (rule vinv_fresh)
next
  case (steps_step a b)
  then have I: "vinv f s0 a" by simp
  from \<open>versioned_step mutate store_copy f a b\<close> show ?case
  proof (cases rule: versioned_step.cases)
    case (no_change op s t P)
    with I mutate_none [OF no_change(3)] show ?thesis by simp
  next
    case (change op s t c P)
    with I \<open>steps (versioned_step mutate store_copy f) (s0, []) a\<close> show ?thesis by (metis vinv_change)
  next
    case (disk_write x q P ok s)
    with I show ?thesis by (metis vinv_write)
  qed
qed

lemma file_is_a_version:
  assumes "fresh s0" "steps (versioned_step mutate store_copy f) (s0, []) (s, P)"
  obtains t Q where "steps (versioned_step mutate store_copy f) (s0, []) (t, Q)" "seq t = saved s" "stored s = Some (mem t)"
  using vinv_run [OF assms(2,1)] by (auto simp: vinv_def was_held_def)

lemma quiescent_file:
  "fresh s0 \<Longrightarrow> steps (versioned_step mutate store_copy False) (s0, []) (s, []) \<Longrightarrow> stored s = Some (mem s)"
  using vinv_run [of False s0 "(s, [])"] by (auto simp: vinv_def)

lemma newest_written: "fresh s0 \<Longrightarrow> steps (versioned_step mutate store_copy f) (s0, []) (s, P) \<Longrightarrow> saved s = seq s \<Longrightarrow> stored s = Some (mem s)"
  using vinv_run [of f s0 "(s, P)"] by (auto simp: vinv_def)

lemma saved_mono_step: "versioned_step mutate store_copy f a b \<Longrightarrow> saved (fst a) \<le> saved (fst b)"
proof (induction rule: versioned_step.induct)
  case (disk_write x q P ok s)
  then show ?case
    using write_stale [of q s ok x] write_fresh [of s q ok x] by (cases "q \<le> saved s \<or> \<not> ok") auto
qed (auto dest: mutate_none mutate_some)

lemma saved_mono: "steps (versioned_step mutate store_copy f) a b \<Longrightarrow> saved (fst a) \<le> saved (fst b)"
  by (induction rule: steps.induct) (auto dest: saved_mono_step)

end

section \<open>The two stores\<close>

datatype own_op = OClaim string string | ORelease string | OAssign string string | ORename string string

fun own_locked :: "own_op \<Rightarrow> Ownership \<Rightarrow> own_error + Ownership \<times> string written_map option" where
  "own_locked (OClaim n u) = Claim_locked n u"
| "own_locked (ORelease n) = Release_locked n"
| "own_locked (OAssign n t) = Assign_locked n t"
| "own_locked (ORename a b) = Rename_locked a b"

text \<open>The effect of the locked part of a call: a refused claim changes nothing and stamps nothing.\<close>

definition own_mutate :: "own_op \<Rightarrow> Ownership \<Rightarrow> Ownership \<times> string written_map option" where
  "own_mutate op ow = (case own_locked op ow of Inl _ \<Rightarrow> (ow, None) | Inr r \<Rightarrow> r)"

definition own_write :: "bool \<Rightarrow> (string \<rightharpoonup> string) \<Rightarrow> nat \<Rightarrow> Ownership \<Rightarrow> Ownership" where
  "own_write ok x q ow = fst (own_persist ok x q ow)"

text \<open>The map a new process gets from the file; \<open>None\<close> when it refuses to load.\<close>

definition own_stored :: "Ownership \<Rightarrow> (string \<rightharpoonup> string) option" where
  "own_stored ow = (case LoadOwnership (owDisk ow) of Inl _ \<Rightarrow> None | Inr o' \<Rightarrow> Some (owM o'))"

datatype reg_op = RPut nanos SessionRecord | RDelete string | RRename string string

fun reg_mutate :: "reg_op \<Rightarrow> Registry \<Rightarrow> Registry \<times> SessionRecord written_map option" where
  "reg_mutate (RPut now rec) = Put_locked now rec"
| "reg_mutate (RDelete n) = Delete_locked n"
| "reg_mutate (RRename a b) = reg_Rename_locked a b"

definition reg_write :: "bool \<Rightarrow> (string \<rightharpoonup> SessionRecord) \<Rightarrow> nat \<Rightarrow> Registry \<Rightarrow> Registry" where
  "reg_write ok x q rg = fst (reg_persist ok x q rg)"

definition reg_stored :: "Registry \<Rightarrow> (string \<rightharpoonup> SessionRecord) option" where
  "reg_stored rg = (case LoadRegistry (rgDisk rg) of Inl _ \<Rightarrow> None | Inr r \<Rightarrow> Some (rgM r))"

lemmas own_locked_defs = Claim_locked_def Release_locked_def Assign_locked_def Rename_locked_def own_stamp_def
lemmas reg_locked_defs = Put_locked_def Delete_locked_def reg_Rename_locked_def reg_stamp_def

lemma own_mutate_shape:
  "own_mutate op ow = (ow, None)
    \<or> (\<exists>m. own_mutate op ow = (ow\<lparr>owM := m, owSeq := Suc (owSeq ow)\<rparr>, Some (m, Suc (owSeq ow))))"
  by (cases op) (auto simp: own_mutate_def own_locked_defs split: option.split)

lemma reg_mutate_shape:
  "reg_mutate op rg = (rg, None)
    \<or> (\<exists>m. reg_mutate op rg = (rg\<lparr>rgM := m, rgSeq := Suc (rgSeq rg)\<rparr>, Some (m, Suc (rgSeq rg))))"
  by (cases op) (auto simp: reg_locked_defs Let_def split: option.split)

interpretation ownstore: versioned_store owM owSeq owSaved own_stored own_mutate own_write
proof
  fix op s t x q
  show "own_mutate op s = (t, None) \<Longrightarrow> t = s"
    using own_mutate_shape [of op s] by auto
  show "own_mutate op s = (t, Some (x, q)) \<Longrightarrow>
      q = Suc (owSeq s) \<and> owSeq t = q \<and> x = owM t \<and> owSaved t = owSaved s \<and> own_stored t = own_stored s"
    using own_mutate_shape [of op s] by (auto simp: own_stored_def)
qed (auto simp: own_write_def own_persist_def own_stored_def LoadOwnership_def load_map_def)

interpretation regstore: versioned_store rgM rgSeq rgSaved reg_stored reg_mutate reg_write
proof
  fix op s t x q
  show "reg_mutate op s = (t, None) \<Longrightarrow> t = s"
    using reg_mutate_shape [of op s] by auto
  show "reg_mutate op s = (t, Some (x, q)) \<Longrightarrow>
      q = Suc (rgSeq s) \<and> rgSeq t = q \<and> x = rgM t \<and> rgSaved t = rgSaved s \<and> reg_stored t = reg_stored s"
    using reg_mutate_shape [of op s] by (auto simp: reg_stored_def)
qed (auto simp: reg_write_def reg_persist_def reg_stored_def LoadRegistry_def load_map_def)

lemma LoadOwnership_fresh: "LoadOwnership f = Inr ow \<Longrightarrow> ownstore.fresh ow"
  by (auto simp: LoadOwnership_def load_map_def ownstore.fresh_def own_stored_def split: sidecar.splits sum.splits)

lemma LoadRegistry_fresh: "LoadRegistry f = Inr rg \<Longrightarrow> regstore.fresh rg"
  by (auto simp: LoadRegistry_def load_map_def regstore.fresh_def reg_stored_def split: sidecar.splits sum.splits)

section \<open>The file under concurrent calls\<close>

text \<open>
  C11. The ownership file under any interleaving of claims, releases, reassignments and renames with their writes, some of
  which may fail: the file always loads, to a map the process held at the version recorded as saved, no later write takes it
  back to an older version, and once the newest version is saved it is the map in memory. If every write works and no call is
  in flight, the file holds the map in memory.
\<close>

theorem ownership_file_never_goes_back:
  assumes start: "LoadOwnership f = Inr o0"
    and run: "steps (versioned_step own_mutate own_write faulty) (o0, []) (ow, P)"
    and later: "steps (versioned_step own_mutate own_write faulty) (ow, P) (ow', P')"
  shows "(\<exists>t Q. steps (versioned_step own_mutate own_write faulty) (o0, []) (t, Q) \<and> owSeq t = owSaved ow \<and> own_stored ow = Some (owM t))
    \<and> owSaved ow \<le> owSaved ow'
    \<and> (owSaved ow = owSeq ow \<longrightarrow> own_stored ow = Some (owM ow))
    \<and> (\<not> faulty \<and> P = [] \<longrightarrow> own_stored ow = Some (owM ow))"
proof (intro conjI impI)
  note F = LoadOwnership_fresh [OF start]
  show "\<exists>t Q. steps (versioned_step own_mutate own_write faulty) (o0, []) (t, Q) \<and> owSeq t = owSaved ow \<and> own_stored ow = Some (owM t)"
    using ownstore.file_is_a_version [OF F run] by metis
  show "owSaved ow \<le> owSaved ow'"
    using ownstore.saved_mono [OF later] by simp
  show "own_stored ow = Some (owM ow)" if "owSaved ow = owSeq ow"
    using ownstore.newest_written [OF F run that] .
  show "own_stored ow = Some (owM ow)" if "\<not> faulty \<and> P = []"
    using ownstore.quiescent_file [OF F, of ow] run that by simp
qed

text \<open>Two claims whose copies are written in the wrong order: the second copy first, then the first, which is dropped.\<close>

definition own_both :: Ownership where
  "own_both = \<lparr>owM = [''a'' \<mapsto> ''bob'', ''b'' \<mapsto> ''eve''], owSeq = 2, owSaved = 0, owDisk = SAbsent\<rparr>"

definition own_written :: Ownership where
  "own_written = own_both\<lparr>owSaved := 2, owDisk := SMap [''a'' \<mapsto> ''bob'', ''b'' \<mapsto> ''eve'']\<rparr>"

lemma own_race_run:
  "steps (versioned_step own_mutate own_write False) (\<lparr>owM = Map.empty, owSeq = 0, owSaved = 0, owDisk = SAbsent\<rparr>, [])
     (own_written, [([''a'' \<mapsto> ''bob''], 1)])"
proof -
  let ?R = "versioned_step own_mutate own_write False"
  let ?o0 = "\<lparr>owM = Map.empty, owSeq = 0, owSaved = 0, owDisk = SAbsent\<rparr> :: Ownership"
  let ?o1 = "?o0\<lparr>owM := [''a'' \<mapsto> ''bob''], owSeq := 1\<rparr>"
  let ?c1 = "([''a'' \<mapsto> ''bob''], 1) :: string written_map"
  let ?c2 = "([''a'' \<mapsto> ''bob'', ''b'' \<mapsto> ''eve''], 2) :: string written_map"
  have 1: "?R (?o0, []) (?o1, [?c1])"
    by (rule versioned_step.change [where op = "OClaim ''a'' ''bob''"])
       (simp add: own_mutate_def Claim_locked_def own_stamp_def str_of_def)
  have 2: "?R (?o1, [?c1]) (own_both, [?c2, ?c1])"
    by (rule versioned_step.change [where op = "OClaim ''b'' ''eve''"])
       (simp add: own_mutate_def Claim_locked_def own_stamp_def str_of_def own_both_def fun_upd_def)
  have 3: "?R (own_both, [?c2, ?c1]) (own_write True (fst ?c2) (snd ?c2) own_both, remove1 (fst ?c2, snd ?c2) [?c2, ?c1])"
    by (rule versioned_step.disk_write) simp_all
  then have "?R (own_both, [?c2, ?c1]) (own_written, [?c1])"
    by (simp add: own_write_def own_persist_def own_both_def own_written_def)
  with 1 2 show ?thesis
    by (meson steps.steps_refl steps.steps_step)
qed

theorem ownership_file_never_goes_back_witness:
  "own_stored own_written = Some (owM own_written)
    \<and> owSaved own_written \<le> owSaved (own_write True [''a'' \<mapsto> ''bob''] 1 own_written)"
proof -
  have "LoadOwnership SAbsent = Inr \<lparr>owM = Map.empty, owSeq = 0, owSaved = 0, owDisk = SAbsent\<rparr>"
    by (simp add: LoadOwnership_def load_map_def)
  moreover have "versioned_step own_mutate own_write False (own_written, [([''a'' \<mapsto> ''bob''], 1)])
      (own_write True [''a'' \<mapsto> ''bob''] 1 own_written, remove1 ([''a'' \<mapsto> ''bob''], 1) [([''a'' \<mapsto> ''bob''], 1)])"
    by (rule versioned_step.disk_write) simp_all
  then have "steps (versioned_step own_mutate own_write False) (own_written, [([''a'' \<mapsto> ''bob''], 1)])
      (own_write True [''a'' \<mapsto> ''bob''] 1 own_written, [])"
    by (auto intro: steps.steps_step [OF steps.steps_refl])
  ultimately show ?thesis
    using ownership_file_never_goes_back [OF _ own_race_run] by (simp add: own_written_def own_both_def)
qed

end
