(* ===== verification/TerminalProps.thy ===== *)
theory TerminalProps
  imports TerminalHandlers SessionStoreProps
begin

text \<open>
  What the terminal promises its users: a live session stays with its owner whatever other users request, and where that stops.
\<close>

section \<open>Ownership after a call\<close>

lemmas own_call_defs = own_call_def own_persist_def own_locked_defs

lemma Owner_Claim:
  "name \<noteq> '''' \<Longrightarrow> u \<noteq> '''' \<Longrightarrow>
     Owner (fst (Claim ok name u o')) m = (if o' \<noteq> None \<and> m = name \<and> Owner o' name = '''' then u else Owner o' m)"
  by (auto simp: Claim_def own_call_defs Owner_def str_of_def split: option.splits)

lemma Owner_Release: "Owner (fst (Release ok name o')) m = (if m = name then '''' else Owner o' m)"
  by (auto simp: Release_def own_call_defs Owner_def str_of_def split: option.splits)

lemma Owner_Rename:
  "new \<noteq> '''' \<Longrightarrow> old \<noteq> new \<Longrightarrow> Owner o' old \<noteq> '''' \<Longrightarrow>
     Owner (fst (Rename_own ok old new o')) m = (if m = old then '''' else if m = new then Owner o' old else Owner o' m)"
  by (auto simp: Rename_own_def own_call_defs Owner_def str_of_def split: option.splits if_splits)

section \<open>Names and sockets\<close>

lemma safe_nonempty [simp]: "safeSessionName s \<noteq> ''''"
  by (auto simp: safeSessionName_def Let_def)

lemma safe_chars: "list_all name_char (safeSessionName s) \<and> length (safeSessionName s) \<le> 40"
proof -
  have "list_all name_char (take 40 (filter name_char s))"
    by (auto simp: list_all_iff dest: in_set_takeD)
  then show ?thesis
    by (simp add: safeSessionName_def Let_def name_char_def byte_in_def)
qed

lemma safe_fix: "s \<noteq> '''' \<Longrightarrow> list_all name_char s \<Longrightarrow> length s \<le> 40 \<Longrightarrow> safeSessionName s = s"
  by (simp add: safeSessionName_def list_all_iff)

lemma safe_idem [simp]: "safeSessionName (safeSessionName s) = safeSessionName s"
  using safe_chars by (simp add: safe_fix)

lemma shell_name_eq: "shell_name req = safeSessionName (Query req ''name'')"
  by (simp add: shell_name_def)

lemma shell_user_eq: "shell_user u = safeSessionName u"
  by (simp add: shell_user_def)

lemma Clean_nonempty: "Clean q \<noteq> ''''"
proof (cases "is_rooted q \<or> elements q = []")
  case False
  have "Clean q \<noteq> ''''"
  proof
    assume "Clean q = ''''"
    then have "elements q = elements ''''"
      using elements_Clean [of q] by simp
    moreover have "elements '''' = []"
      by (simp add: elements_def clean_step_def)
    ultimately show False using False by simp
  qed
  then show ?thesis .
qed (auto simp: Clean_def)

lemma socketPathFor_nonempty [simp]: "socketPathFor d n \<noteq> ''''"
  by (auto simp: socketPathFor_def Join.simps Clean_nonempty)

lemma resolve_nonempty [simp]: "resolveSocket H s n \<noteq> ''''"
  by (auto simp: resolveSocket_def split: option.splits)

lemma resolve_cong: "tmReg s = tmReg t \<Longrightarrow> thDataDir H = thDataDir K \<Longrightarrow> resolveSocket H s n = resolveSocket K t n"
  by (simp add: resolveSocket_def split: option.split)

lemma alive_iff: "socketAlive s (resolveSocket H t n) \<longleftrightarrow> tmLive s (resolveSocket H t n) \<noteq> None"
  by (simp add: socketAlive_def)

text \<open>Recording the socket a name already resolves to changes no resolution.\<close>

lemma put_session_parts:
  "tmLive (fst (put_session H n x s)) = tmLive s" "tmOwn (fst (put_session H n x s)) = tmOwn s"
  by (simp_all add: put_session_def split_beta Let_def)

lemma put_session_resolve:
  assumes "x = resolveSocket K s n" "n \<noteq> ''''"
  shows "resolveSocket K (fst (put_session H n x s)) m = resolveSocket K s m"
proof -
  have "x \<noteq> ''''" using assms(1) by simp
  then have "resolveSocket K (fst (put_session H n x s)) m = (if tmReg s \<noteq> None \<and> m = n then x else resolveSocket K s m)"
    using assms(2)
    by (auto simp: put_session_def reg_Put_def reg_call_def Put_locked_def reg_stamp_def reg_persist_def resolveSocket_def
        reg_Get_def Let_def split: option.splits)
  with assms(1) show ?thesis by simp
qed

lemma spawn_parts [simp]:
  "tmOwn (spawn H x a s) = tmOwn s" "tmReg (spawn H x a s) = tmReg s"
  "y \<noteq> x \<Longrightarrow> tmLive (spawn H x a s) y = tmLive s y"
  by (simp_all add: spawn_def)

lemma claim_parts [simp]: "tmReg (fst (claim H n u s)) = tmReg s" "tmLive (fst (claim H n u s)) = tmLive s"
  by (simp_all add: claim_def split_beta Let_def)

lemma Owner_claim:
  "n \<noteq> '''' \<Longrightarrow> u \<noteq> '''' \<Longrightarrow>
     Owner (tmOwn (fst (claim H n u s))) m = (if tmOwn s \<noteq> None \<and> m = n \<and> Owner (tmOwn s) n = '''' then u else Owner (tmOwn s) m)"
  by (simp add: claim_def split_beta Let_def Owner_Claim)

text \<open>Starting a session or attaching to one: who owns what and where names lead stay, and no other live socket changes.\<close>

lemma Attach_keeps:
  assumes "Attach H n cmd env cwd s = (t, cl)" "thDataDir K = thDataDir H"
  shows "tmOwn t = tmOwn s" "resolveSocket K t m = resolveSocket K s m"
    "tmLive s y \<noteq> None \<Longrightarrow> tmLive t y = tmLive s y"
    "cl = ClientOn y \<Longrightarrow> y = resolveSocket H s (safeSessionName n)"
proof -
  let ?x = "resolveSocket H s (safeSessionName n)"
  have K: "resolveSocket K u = resolveSocket H u" for u
    using resolve_cong [OF refl assms(2)] by (simp add: fun_eq_iff)
  show "tmOwn t = tmOwn s" "cl = ClientOn y \<Longrightarrow> y = ?x"
    using assms(1) by (auto simp: Attach_def Let_def put_session_parts split: option.splits if_splits)
  show "resolveSocket K t m = resolveSocket K s m"
    using assms(1) resolve_cong [of "spawn H ?x a s" s H H for a]
    by (auto simp: Attach_def Let_def K put_session_resolve split: option.splits if_splits)
  show "tmLive s y \<noteq> None \<Longrightarrow> tmLive t y = tmLive s y"
    using assms(1) by (auto simp: Attach_def Let_def put_session_parts alive_iff spawn_def split: option.splits if_splits)
qed

lemma CreateDetached_keeps:
  assumes "CreateDetached H n cmd env cwd s = (t, r)" "thDataDir K = thDataDir H"
  shows "tmOwn t = tmOwn s" "resolveSocket K t m = resolveSocket K s m"
    "tmLive s y \<noteq> None \<Longrightarrow> tmLive t y = tmLive s y"
proof -
  let ?x = "resolveSocket H s (safeSessionName n)"
  have K: "resolveSocket K u = resolveSocket H u" for u
    using resolve_cong [OF refl assms(2)] by (simp add: fun_eq_iff)
  have R: "resolveSocket H (spawn H ?x a s) k = resolveSocket H s k" for a k
    by (rule resolve_cong) simp_all
  show "tmOwn t = tmOwn s"
    using assms(1) put_session_parts(2)
    by (auto simp: CreateDetached_def Let_def split_beta split: option.splits if_splits)
  have P: "resolveSocket H (fst (put_session H (safeSessionName n) ?x (spawn H ?x a s))) k = resolveSocket H s k" for a k
    by (subst put_session_resolve) (simp_all add: R)
  show "resolveSocket K t m = resolveSocket K s m"
    using assms(1) by (auto simp: CreateDetached_def Let_def K P R split_beta split: option.splits if_splits)
  show "tmLive s y \<noteq> None \<Longrightarrow> tmLive t y = tmLive s y"
    using assms(1) put_session_parts(1)
    by (auto simp: CreateDetached_def Let_def alive_iff spawn_def split_beta split: option.splits if_splits)
qed

text \<open>What the registry answers after a deletion or a renaming.\<close>

lemma reg_Delete_Get: "reg_Get (fst (reg_Delete ok n r)) m = (if m = n then None else reg_Get r m)"
  by (auto simp: reg_Delete_def reg_call_def Delete_locked_def reg_stamp_def reg_persist_def reg_Get_def split: option.splits)

lemma reg_Delete_ok: "snd (reg_Delete True n r)"
  by (auto simp: reg_Delete_def reg_call_def Delete_locked_def reg_stamp_def reg_persist_def split: option.splits)

lemma reg_Rename_Get:
  "old \<noteq> '''' \<Longrightarrow> new \<noteq> '''' \<Longrightarrow> old \<noteq> new \<Longrightarrow>
     reg_Get (fst (reg_Rename ok old new r)) m =
       (case reg_Get r old of
          None \<Rightarrow> reg_Get r m
        | Some rec \<Rightarrow> if m = old then None else if m = new then Some (rec\<lparr>srName := new\<rparr>) else reg_Get r m)"
  by (auto simp: reg_Rename_def reg_call_def reg_Rename_locked_def reg_stamp_def reg_persist_def reg_Get_def split: option.splits)

lemma reg_Rename_ok: "snd (reg_Rename True old new r)"
  by (auto simp: reg_Rename_def reg_call_def reg_Rename_locked_def reg_stamp_def reg_persist_def split: option.splits)

text \<open>Killing a name removes the socket it leads to and its record.\<close>

lemma SessionKill_eq:
  "safeSessionName n = n \<Longrightarrow>
     SessionKill H n s = (s\<lparr>tmLive := (tmLive s)(resolveSocket H s n := None), tmReg := fst (reg_Delete (thRegOk H) n (tmReg s))\<rparr>,
                          snd (reg_Delete (thRegOk H) n (tmReg s)))"
  by (simp add: SessionKill_def Let_def split_beta)

lemma kill_resolve:
  assumes "safeSessionName n = n" "m \<noteq> n"
  shows "resolveSocket K (fst (SessionKill H n s)) m = resolveSocket K s m"
  using assms by (simp add: SessionKill_eq resolveSocket_def reg_Delete_Get)

text \<open>Renaming: the old name loses its record, the new one leads where the old one or itself led.\<close>

lemma SessionRename_ok:
  assumes "SessionRename H old0 new0 s = (t, r)" "\<not> isl r" "safeSessionName old0 \<noteq> safeSessionName new0"
  shows "t = s\<lparr>tmReg := fst (reg_Rename (thRegOk H) (safeSessionName old0) (safeSessionName new0) (tmReg s))\<rparr>"
    "reg_Get (tmReg s) (safeSessionName new0) = None" "tmLive s (resolveSocket H s (safeSessionName new0)) = None"
  using assms by (auto simp: SessionRename_def Let_def split_beta reg_Has_def alive_iff split: if_splits)

lemma SessionRename_same:
  assumes "SessionRename H old0 new0 s = (t, r)" "safeSessionName old0 = safeSessionName new0 \<or> isl r \<and> thRegOk H"
  shows "t = s"
  using assms reg_Rename_ok
  by (auto simp: SessionRename_def Let_def split_beta split: if_splits)

lemma rename_resolve:
  assumes "SessionRename H old0 new0 s = (t, r)" "\<not> isl r" "old = safeSessionName old0" "new = safeSessionName new0" "old \<noteq> new"
  shows "m \<noteq> old \<Longrightarrow> m \<noteq> new \<Longrightarrow> resolveSocket K t m = resolveSocket K s m"
    "resolveSocket K t new = resolveSocket K s new \<or> resolveSocket K t new = resolveSocket K s old"
  using SessionRename_ok [OF assms(1,2)] assms(3-5)
  by (auto simp: resolveSocket_def reg_Rename_Get split: option.splits)

section \<open>A live session and its owner\<close>

text \<open>
  The session \<open>n\<close> of user \<open>v\<close> runs as master \<open>k\<close> on socket \<open>x\<close>, and every name that leads to \<open>x\<close> is owned by \<open>v\<close> or by nobody.
  Owned names are in the form the engine gives them.
\<close>

definition guarded :: "termhost \<Rightarrow> string \<Rightarrow> string \<Rightarrow> string \<Rightarrow> nat \<Rightarrow> tstate \<Rightarrow> bool" where
  "guarded H v n x k s \<longleftrightarrow>
     Owner (tmOwn s) n = v \<and> resolveSocket H s n = x \<and> tmLive s x = Some k
   \<and> (\<forall>m. safeSessionName m = m \<and> resolveSocket H s m = x \<longrightarrow> Owner (tmOwn s) m = v \<or> Owner (tmOwn s) m = '''')
   \<and> (\<forall>m. Owner (tmOwn s) m \<noteq> '''' \<longrightarrow> safeSessionName m = m)"

lemma guarded_cong:
  assumes "guarded H v n x k s" "tmOwn t = tmOwn s" "\<And>m. resolveSocket H t m = resolveSocket H s m" "tmLive t x = tmLive s x"
  shows "guarded H v n x k t"
  using assms by (simp add: guarded_def)

lemma guarded_host: "thDataDir K = thDataDir H \<Longrightarrow> guarded K v n x k s = guarded H v n x k s"
  using resolve_cong [OF refl, of K H s] by (simp add: guarded_def)

text \<open>Another user cannot reach the socket through a name that has an owner other than \<open>v\<close>.\<close>

lemma guarded_elsewhere:
  assumes "guarded H v n x k s" "safeSessionName m = m" "Owner (tmOwn s) m \<noteq> v" "Owner (tmOwn s) m \<noteq> ''''"
  shows "resolveSocket H s m \<noteq> x"
  using assms by (auto simp: guarded_def)

lemma guarded_claim:
  assumes g: "guarded H v n x k s" and v: "v \<noteq> ''''" and u: "u \<noteq> ''''"
    and m: "safeSessionName m = m" "resolveSocket H s m \<noteq> x"
  shows "guarded H v n x k (fst (claim K m u s))"
proof -
  have "m \<noteq> ''''" using m(1) safe_nonempty [of m] by metis
  moreover have "resolveSocket H (fst (claim K m u s)) i = resolveSocket H s i" for i
    by (rule resolve_cong) simp_all
  ultimately show ?thesis
    using g u v m by (auto simp: guarded_def Owner_claim)
qed

lemma dead_elsewhere: "guarded H v n x k s \<Longrightarrow> tmLive s (resolveSocket H s m) = None \<Longrightarrow> resolveSocket H s m \<noteq> x"
  by (auto simp: guarded_def)

section \<open>Requests of other users\<close>

text \<open>A user \<open>u\<close> who is no administrator and not \<open>v\<close>, with a name the engine leaves as it is.\<close>

definition stranger :: "Config \<Rightarrow> string \<Rightarrow> string \<Rightarrow> bool" where
  "stranger c v u \<longleftrightarrow> \<not> IsAdmin c u \<and> u \<noteq> v \<and> safeSessionName u = u"

lemma stranger_nonempty: "stranger c v u \<Longrightarrow> u \<noteq> ''''"
  using safe_nonempty [of u] by (metis stranger_def)

lemma acl_cases:
  assumes "shell_acl H ks u False m s = (t, r)"
  obtains (same) "t = s" "r = None" "Owner (tmOwn s) m = u \<or> Owner (tmOwn s) m = AudienceAll"
    | (refused) "t = s" "r \<noteq> None"
    | (claimed) "Owner (tmOwn s) m = ''''" "\<not> SessionHas H s m" "t = fst (claim H m u s)"
proof -
  consider "Owner (tmOwn s) m = u \<or> Owner (tmOwn s) m = AudienceAll"
    | "\<not> (Owner (tmOwn s) m = u \<or> Owner (tmOwn s) m = AudienceAll)" "Owner (tmOwn s) m \<noteq> '''' \<or> SessionHas H s m
         \<or> ownedSessionCount H ks u s \<ge> maxSessionsPerUser"
    | "\<not> (Owner (tmOwn s) m = u \<or> Owner (tmOwn s) m = AudienceAll)" "Owner (tmOwn s) m = ''''" "\<not> SessionHas H s m"
      "\<not> ownedSessionCount H ks u s \<ge> maxSessionsPerUser"
    by blast
  then show thesis
  proof cases
    case 1
    with assms show thesis by (simp add: shell_acl_def same)
  next
    case 2
    then have "t = s" "r \<noteq> None"
      using assms by (auto simp: shell_acl_def Let_def split: if_splits)
    then show thesis by (rule refused)
  next
    case 3
    with assms have "t = fst (claim H m u s)"
      by (simp add: shell_acl_def Let_def split_beta)
    with 3 show thesis by (simp add: claimed)
  qed
qed

lemma acl_guarded:
  assumes g: "guarded H v n x k s" and v: "v \<noteq> ''''" "v \<noteq> AudienceAll" and u: "u \<noteq> ''''" "u \<noteq> v"
    and m: "safeSessionName m = m"
    and a: "shell_acl H ks u False m s = (t, r)"
  shows "guarded H v n x k t" "r = None \<Longrightarrow> resolveSocket H t m \<noteq> x"
proof -
  have mne: "m \<noteq> ''''" using m safe_nonempty [of m] by metis
  have A: "AudienceAll \<noteq> ''''" by (simp add: AudienceAll_def)
  consider (same) "t = s" "r = None" "Owner (tmOwn s) m = u \<or> Owner (tmOwn s) m = AudienceAll"
    | (refused) "t = s" "r \<noteq> None"
    | (claimed) "Owner (tmOwn s) m = ''''" "\<not> SessionHas H s m" "t = fst (claim H m u s)"
    by (rule acl_cases [OF a])
  then have "guarded H v n x k t \<and> (r = None \<longrightarrow> resolveSocket H t m \<noteq> x)"
  proof cases
    case same
    then show ?thesis
      using g guarded_elsewhere [OF g m] u v A by auto
  next
    case refused
    with g show ?thesis by blast
  next
    case claimed
    have away: "resolveSocket H s m \<noteq> x"
      using claimed(2) dead_elsewhere [OF g] m by (auto simp: SessionHas_def alive_iff)
    have "resolveSocket H t m = resolveSocket H s m"
      by (rule resolve_cong) (simp_all add: claimed)
    then show ?thesis
      using guarded_claim [OF g v(1) u(1) m away] away claimed by simp
  qed
  then show "guarded H v n x k t" "r = None \<Longrightarrow> resolveSocket H t m \<noteq> x" by simp_all
qed

lemma HostShell_guarded:
  assumes g: "guarded H v n x k s" and v: "v \<noteq> ''''" "v \<noteq> AudienceAll" and u: "safeSessionName u = u" "u \<noteq> v"
    and h: "HostShell H ks req u False cfgdir s = (t, r)"
  shows "guarded H v n x k t \<and> r \<noteq> Shell (ClientOn x)"
proof -
  let ?m = "shell_name req"
  have m: "safeSessionName ?m = ?m" by (simp add: shell_name_eq)
  have une: "u \<noteq> ''''" using u(1) safe_nonempty [of u] by metis
  obtain s1 q where acl: "shell_acl H ks u False ?m s = (s1, q)" by (cases "shell_acl H ks u False ?m s")
  note G = acl_guarded [OF g v une u(2) m acl]
  obtain s2 cl where at: "Attach H ?m [thShell H, ''-l''] (shell_env cfgdir) '''' s1 = (s2, cl)"
    by (cases "Attach H ?m [thShell H, ''-l''] (shell_env cfgdir) '''' s1")
  note T = Attach_keeps [OF at refl]
  have "tmLive s2 x = tmLive s1 x"
    using T(3) [of x] G(1) by (auto simp: guarded_def)
  then have g2: "guarded H v n x k s2"
    using guarded_cong [OF G(1) T(1) T(2)] by simp
  have "cl \<noteq> ClientOn x" if "q = None"
    using T(4) [of x] G(2) [OF that] m by auto
  moreover have "q \<noteq> Some (Shell c')" for c'
    using acl by (auto simp: shell_acl_def Let_def split_beta split: if_splits)
  ultimately have "(case q of None \<Rightarrow> Shell cl | Some q' \<Rightarrow> q') \<noteq> Shell (ClientOn x)"
    by (auto split: option.split)
  moreover have "attach_only H req u False ?m s \<noteq> Some (Shell c')" for c'
    by (auto simp: attach_only_def Let_def)
  ultimately show ?thesis
    using h acl at g g2 G(1)
    by (auto simp: HostShell_def Let_def shell_user_eq u split: option.splits)
qed

lemma create_guarded:
  assumes g: "guarded H v n x k s" and v: "v \<noteq> ''''" and u: "u \<noteq> ''''"
    and h: "handleTerminalCreate H ks u meth body s = (t, r, e)"
  shows "guarded H v n x k t"
proof -
  have core: "guarded H v n x k t'"
    if c: "create_session H u m cwd acc s = (t', r', e')" and m: "safeSessionName m = m" and dead: "\<not> SessionHas H s m"
    for m cwd acc t' r' e'
  proof -
    have away: "resolveSocket H s m \<noteq> x"
      using dead dead_elsewhere [OF g] m by (auto simp: SessionHas_def alive_iff)
    obtain s1 q where cd: "CreateDetached H m [thShell H, ''-l''] (shell_env (thConfigDir H m)) (TrimSpace cwd) s = (s1, q)"
      by fastforce
    note T = CreateDetached_keeps [OF cd refl]
    have "tmLive s1 x = tmLive s x"
      using T(3) [of x] g by (auto simp: guarded_def)
    then have g1: "guarded H v n x k s1"
      using guarded_cong [OF g T(1) T(2)] by simp
    have "guarded H v n x k (fst (claim H m u s1))"
      using guarded_claim [OF g1 v u m] T(2) [of m] away by simp
    with c cd g g1 show ?thesis
      by (auto simp: create_session_def Let_def split: if_splits sum.splits)
  qed
  show ?thesis
    using h g core by (auto simp: handleTerminalCreate_def Let_def split: if_splits option.splits prod.splits)
qed

lemma kill_guarded:
  assumes g: "guarded H v n x k s" and v: "v \<noteq> ''''" and u: "stranger c v u" and reg: "thRegOk H"
    and h: "handleTerminalKillSession c H u meth body s = (t, r, e)"
  shows "guarded H v n x k t"
proof -
  have core: "guarded H v n x k (s1\<lparr>tmOwn := fst (Release (thOwnOk H) m (tmOwn s1))\<rparr>)"
    if o': "OwnsSession u m False (tmOwn s)" and s1: "s1 = fst (SessionKill H m s)" for m s1
  proof -
    have O: "Owner (tmOwn s) m = u" "m \<noteq> ''''"
      using o' by (auto simp: OwnsSession_def split: if_splits)
    have m: "safeSessionName m = m"
      using g O(1) stranger_nonempty [OF u] by (simp add: guarded_def)
    have away: "resolveSocket H s m \<noteq> x"
      using guarded_elsewhere [OF g m] O u stranger_nonempty [OF u] by (simp add: stranger_def)
    have nm: "n \<noteq> m"
      using g O u v by (auto simp: guarded_def stranger_def)
    let ?t = "s1\<lparr>tmOwn := fst (Release (thOwnOk H) m (tmOwn s1))\<rparr>"
    have R: "resolveSocket H ?t i = resolveSocket H s i" if "i \<noteq> m" for i
      using kill_resolve [OF m that] resolve_cong [of ?t s1 H H i] by (simp add: s1)
    have W: "Owner (tmOwn ?t) i = (if i = m then '''' else Owner (tmOwn s) i)" for i
      by (simp add: s1 SessionKill_eq [OF m] Owner_Release)
    have L: "tmLive ?t x = tmLive s x"
      using away by (simp add: s1 SessionKill_eq [OF m])
    show ?thesis
      unfolding guarded_def W using g R nm L by (auto simp: guarded_def)
  qed
  have ok: "snd (SessionKill H m s)" if "Owner (tmOwn s) m = u" for m
    using that g stranger_nonempty [OF u] reg SessionKill_eq [of m H s] reg_Delete_ok [of m "tmReg s"]
    by (simp add: guarded_def)
  have adm: "IsAdmin c u = False" using u by (simp add: stranger_def)
  show ?thesis
    using h g core ok
    by (auto simp: handleTerminalKillSession_def Let_def adm split_beta OwnsSession_def split: if_splits option.splits)
qed

text \<open>A user renames a session of theirs: the registry moves the record, the ownership map its entry.\<close>

lemma guarded_rename:
  assumes g: "guarded H v n x k s" and v: "v \<noteq> ''''" and u: "stranger c v u"
    and O: "Owner (tmOwn s) m = u" and sr: "SessionRename H m nw s = (s1, q)" and q: "\<not> isl q"
  shows "guarded H v n x k (s1\<lparr>tmOwn := fst (Rename_own (thOwnOk H) m (safeSessionName nw) (tmOwn s1))\<rparr>)"
proof (cases "m = safeSessionName nw")
  case True
  have s1: "s1 = s"
    by (rule SessionRename_same [OF sr]) (simp add: True)
  have "fst (Rename_own (thOwnOk H) m (safeSessionName nw) (tmOwn s)) = tmOwn s"
    using True by (simp add: Rename_own_def own_call_def Rename_locked_def split: option.split)
  with g s1 show ?thesis by simp
next
  case False
  let ?new = "safeSessionName nw"
  let ?t = "s1\<lparr>tmOwn := fst (Rename_own (thOwnOk H) m ?new (tmOwn s1))\<rparr>"
  have une: "u \<noteq> ''''" by (rule stranger_nonempty [OF u])
  have m: "safeSessionName m = m"
    using g O une by (simp add: guarded_def)
  have away: "resolveSocket H s m \<noteq> x"
    using guarded_elsewhere [OF g m] O une u by (simp add: stranger_def)
  have ne: "safeSessionName m \<noteq> ?new" using False m by simp
  note K = SessionRename_ok [OF sr q ne]
  have newaway: "resolveSocket H s ?new \<noteq> x"
    using K(3) by (rule dead_elsewhere [OF g])
  have R: "resolveSocket H ?t i = resolveSocket H s i" if "i \<noteq> m" "i \<noteq> ?new" for i
    using rename_resolve(1) [OF sr q refl refl ne] that m resolve_cong [of ?t s1 H H i] by simp
  have Rn: "resolveSocket H ?t ?new \<noteq> x"
    using rename_resolve(2) [OF sr q refl refl ne, of H] m away newaway resolve_cong [of ?t s1 H H ?new] by auto
  have own: "tmOwn s1 = tmOwn s" "tmLive s1 = tmLive s" using K(1) by simp_all
  have W: "Owner (tmOwn ?t) i = (if i = m then '''' else if i = ?new then u else Owner (tmOwn s) i)" for i
    using Owner_Rename [OF _ False, of "tmOwn s"] O une own by simp
  have "n \<noteq> m" "n \<noteq> ?new"
    using g O u v newaway by (auto simp: guarded_def stranger_def)
  then show ?thesis
    unfolding guarded_def W using g R Rn own by (auto simp: guarded_def)
qed

lemma rename_guarded:
  assumes g: "guarded H v n x k s" and v: "v \<noteq> ''''" and u: "stranger c v u" and reg: "thRegOk H"
    and h: "handleTerminalRenameSession c H u meth body s = (t, r, e)"
  shows "guarded H v n x k t"
proof -
  have adm: "IsAdmin c u = False" using u by (simp add: stranger_def)
  have same: "guarded H v n x k s1" if "SessionRename H m nw s = (s1, q)" "isl q" for m nw s1 q
    using SessionRename_same [OF that(1)] that(2) reg g by simp
  show ?thesis
    using h g guarded_rename [OF g v u] same
    by (auto simp: handleTerminalRenameSession_def Let_def adm OwnsSession_def split: if_splits option.splits prod.splits)
qed

text \<open>The requests on terminal sessions, and what the caller is connected to afterwards.\<close>

datatype treq =
    QShell request
  | QCreate string "(string \<times> string \<times> string) option"
  | QKill string "(string \<times> string) option"
  | QRename string "(string \<times> string) option"
  | QAssign request "(string \<times> string) option"

fun serve :: "Config \<Rightarrow> termhost \<times> string list \<times> string \<times> treq \<Rightarrow> tstate \<Rightarrow> tstate \<times> client option" where
  "serve c (H, ks, u, QShell req) s =
     (case handleHostShell c H ks req u s of (t, r) \<Rightarrow> (t, case r of Shell cl \<Rightarrow> Some cl | _ \<Rightarrow> None))"
| "serve c (H, ks, u, QCreate meth body) s = (fst (handleTerminalCreate H ks u meth body s), None)"
| "serve c (H, ks, u, QKill meth body) s = (fst (handleTerminalKillSession c H u meth body s), None)"
| "serve c (H, ks, u, QRename meth body) s = (fst (handleTerminalRenameSession c H u meth body s), None)"
| "serve c (H, ks, u, QAssign req body) s = (fst (handleTerminalAssignSession c H u req body s), None)"

fun serve_all :: "Config \<Rightarrow> (termhost \<times> string list \<times> string \<times> treq) list \<Rightarrow> tstate \<Rightarrow> tstate \<times> client option list" where
  "serve_all c [] s = (s, [])"
| "serve_all c (e # es) s =
     (let (t, cl) = serve c e s; (t', cls) = serve_all c es t in (t', cl # cls))"

lemma serve_guarded:
  assumes g: "guarded K v n x k s" and v: "v \<noteq> ''''" "v \<noteq> AudienceAll"
    and u: "stranger c v u" and H: "thDataDir K = thDataDir H" "thRegOk H"
    and h: "serve c (H, ks, u, q) s = (t, cl)"
  shows "guarded K v n x k t \<and> cl \<noteq> Some (ClientOn x)"
proof -
  have gH: "guarded H v n x k s" using g guarded_host [OF H(1)] by simp
  have adm: "IsAdmin c u = False" "safeSessionName u = u" "u \<noteq> v" using u by (simp_all add: stranger_def)
  have "guarded H v n x k t \<and> cl \<noteq> Some (ClientOn x)"
  proof (cases q)
    case (QShell req)
    obtain t' r where sh: "handleHostShell c H ks req u s = (t', r)" by (cases "handleHostShell c H ks req u s")
    with HostShell_guarded [OF gH v adm(2,3)] adm(1) have "guarded H v n x k t' \<and> r \<noteq> Shell (ClientOn x)"
      by (simp add: handleHostShell_def)
    with h QShell sh show ?thesis by (auto split: shell_reply.splits)
  next
    case (QCreate meth body)
    then show ?thesis
      using h create_guarded [OF gH v(1) stranger_nonempty [OF u], of ks meth body]
      by (cases "handleTerminalCreate H ks u meth body s") auto
  next
    case (QKill meth body)
    then show ?thesis
      using h kill_guarded [OF gH v(1) u H(2), of meth body]
      by (cases "handleTerminalKillSession c H u meth body s") auto
  next
    case (QRename meth body)
    then show ?thesis
      using h rename_guarded [OF gH v(1) u H(2), of meth body]
      by (cases "handleTerminalRenameSession c H u meth body s") auto
  next
    case (QAssign req body)
    then show ?thesis
      using h gH adm(1) stranger_nonempty [OF u] by (auto simp: handleTerminalAssignSession_def MustPrimary_def)
  qed
  then show ?thesis using guarded_host [OF H(1)] by simp
qed

text \<open>
  C7. The tenant boundary of terminal sessions: while a session of user \<open>v\<close> runs, no name of another user leads to its
  socket and the registry file can be written (account names and owned names being in the form the engine gives to names), no
  sequence of requests of other users who are no administrators (opening
  terminals, creating, killing, renaming, assigning) ends it, replaces it, takes its name or connects one of them to it. Restoring
  a backup is not among the requests: after a rename it reaches the session of another user
  (\<open>restore_takes_over_renamed_session\<close>).
\<close>

theorem strangers_never_reach_a_session:
  assumes "guarded K v n x k s" "v \<noteq> ''''" "v \<noteq> AudienceAll"
    and "list_all (\<lambda>(H, ks, u, q). stranger c v u \<and> thDataDir K = thDataDir H \<and> thRegOk H) es"
    and "serve_all c es s = (t, cls)"
  shows "Owner (tmOwn t) n = v \<and> resolveSocket K t n = x \<and> tmLive t x = Some k \<and> Some (ClientOn x) \<notin> set cls"
proof -
  have "guarded K v n x k t \<and> Some (ClientOn x) \<notin> set cls"
    using assms
  proof (induction es arbitrary: s cls)
    case (Cons e es)
    obtain H ks u q where e: "e = (H, ks, u, q)" by (cases e)
    obtain t1 cl where s1: "serve c e s = (t1, cl)" by (cases "serve c e s")
    obtain t2 cls' where s2: "serve_all c es t1 = (t2, cls')" by (cases "serve_all c es t1")
    have p: "stranger c v u" "thDataDir K = thDataDir H" "thRegOk H"
      using Cons.prems(4) by (simp_all add: e)
    have "guarded K v n x k t1 \<and> cl \<noteq> Some (ClientOn x)"
      using serve_guarded [OF Cons.prems(1-3) p s1 [unfolded e]] .
    with Cons.IH [of t1 cls'] Cons.prems s1 s2 show ?case by auto
  qed simp
  then show ?thesis by (simp add: guarded_def)
qed

text \<open>A machine with \<open>dtach\<close> and without \<open>systemd-run\<close>, where every start and every write works; one running session of \<open>bob\<close>.\<close>

definition demo_termhost :: termhost where
  "demo_termhost = \<lparr>thDataDir = ''/d'', thNow = 0, thDtach = Some ''/usr/bin/dtach'', thSdrun = None, thRun = (\<lambda>_. (False, True)),
     thMaster = 8, thOwnOk = True, thRegOk = True, thShell = ''/bin/bash'', thIsDir = (\<lambda>_. True), thAccts = False,
     thConfigDir = (\<lambda>_. '''')\<rparr>"

definition demo_own :: "(string \<rightharpoonup> string) \<Rightarrow> Ownership" where
  "demo_own m = \<lparr>owM = m, owSeq = 0, owSaved = 0, owDisk = SMap m\<rparr>"

definition demo_reg :: "(string \<rightharpoonup> SessionRecord) \<Rightarrow> Registry" where
  "demo_reg m = \<lparr>rgM = m, rgSeq = 0, rgSaved = 0, rgDisk = SMap m\<rparr>"

definition bob_runs :: tstate where
  "bob_runs = \<lparr>tmOwn = Some (demo_own [''main'' \<mapsto> ''bob'']), tmReg = Some (demo_reg Map.empty),
     tmLive = [''/d/session-sox/main.sock'' \<mapsto> 7]\<rparr>"

definition shell_request :: "string \<Rightarrow> string \<Rightarrow> request" where
  "shell_request n a = (plain_request MethodGet ''/ws/shell'')\<lparr>Query := (\<lambda>p. if p = ''name'' then n else if p = ''attach'' then a else '''')\<rparr>"

lemma main_socket: "socketPathFor ''/d'' ''main'' = ''/d/session-sox/main.sock''"
  by code_simp

lemma bob_guarded: "guarded demo_termhost ''bob'' ''main'' ''/d/session-sox/main.sock'' 7 bob_runs"
proof -
  have "resolveSocket demo_termhost bob_runs ''main'' = ''/d/session-sox/main.sock''"
    by (simp add: resolveSocket_def bob_runs_def demo_reg_def reg_Get_def demo_termhost_def main_socket)
  moreover have "safeSessionName ''main'' = ''main''" by code_simp
  ultimately show ?thesis
    by (auto simp: guarded_def bob_runs_def demo_own_def Owner_def str_of_def split: if_splits)
qed

theorem strangers_never_reach_a_session_witness:
  "tmLive (fst (serve_all blank_config
      [(demo_termhost, [], ''eve'', QKill MethodPost (Some (''main'', ''''))), (demo_termhost, [], ''eve'', QShell (shell_request ''main'' ''''))]
      bob_runs)) ''/d/session-sox/main.sock'' = Some 7"
proof -
  let ?es = "[(demo_termhost, [], ''eve'', QKill MethodPost (Some (''main'', ''''))), (demo_termhost, [], ''eve'', QShell (shell_request ''main'' ''''))]"
  have "stranger blank_config ''bob'' ''eve''" by code_simp
  then have "list_all (\<lambda>(H, ks, u, q). stranger blank_config ''bob'' u \<and> thDataDir demo_termhost = thDataDir H \<and> thRegOk H) ?es"
    by (simp add: demo_termhost_def)
  then show ?thesis
    using strangers_never_reach_a_session [OF bob_guarded _ _ _ prod.collapse [symmetric], of blank_config ?es]
    by (simp add: AudienceAll_def)
qed

section \<open>Where the boundary ends\<close>

text \<open>
  A renamed session keeps the socket of its old name, and the old name, which nobody owns any more, still leads to it. Every
  handler but the restore refuses a live name without an owner to a user who is no administrator; the restore counts a live name
  as restored and claims it. So a user with a backup of a session of that name gets the running session of another.
\<close>

definition bob_renamed :: tstate where
  "bob_renamed = fst (handleTerminalRenameSession blank_config demo_termhost ''bob'' MethodPost (Some (''main'', ''work''))
     (bob_runs\<lparr>tmReg := Some (demo_reg [''main'' \<mapsto> \<lparr>srName = ''main'', srSocket = ''/d/session-sox/main.sock'', srPID = 0,
        srCreated = 1, srBackend = ''dtach''\<rparr>])\<rparr>))"

definition eve_restores :: tstate where
  "eve_restores = (case handleTerminalRestore demo_termhost [] (\<lambda>u i. Some [\<lparr>snName = ''main'', snWindows = True, snCWD = ''''\<rparr>])
      ''eve'' MethodPost (Some (''1'', '''')) bob_renamed of Some (t, _) \<Rightarrow> t | None \<Rightarrow> bob_renamed)"

lemma restore_takes_over_renamed_session:
  "Owner (tmOwn eve_restores) ''work'' = ''bob''
   \<and> snd (handleHostShell blank_config demo_termhost [] (shell_request ''work'' '''') ''bob'' eve_restores)
       = Shell (ClientOn ''/d/session-sox/main.sock'')
   \<and> snd (handleHostShell blank_config demo_termhost [] (shell_request ''main'' '''') ''eve'' eve_restores)
       = Shell (ClientOn ''/d/session-sox/main.sock'')"
  by code_simp

text \<open>
  When the shell of a renamed session ends, its record stays. The next session created under the old name listens on the socket
  the record still names, so the owner of the renamed session opens, and can kill, the session of another user.
\<close>

definition eve_creates :: tstate where
  "eve_creates = fst (handleTerminalCreate demo_termhost [] ''eve'' MethodPost (Some (''main'', '''', ''''))
     (bob_renamed\<lparr>tmLive := Map.empty\<rparr>))"

lemma stale_record_reaches_new_session:
  "Owner (tmOwn eve_creates) ''main'' = ''eve'' \<and> tmLive eve_creates ''/d/session-sox/main.sock'' = Some 8
   \<and> snd (handleHostShell blank_config demo_termhost [] (shell_request ''work'' '''') ''bob'' eve_creates)
       = Shell (ClientOn ''/d/session-sox/main.sock'')
   \<and> tmLive (fst (handleTerminalKillSession blank_config demo_termhost ''bob'' MethodPost (Some (''work'', '''')) eve_creates))
       ''/d/session-sox/main.sock'' = None"
  by code_simp

text \<open>A session whose shell ended is started again for its owner without the quota being looked at.\<close>

lemma quota_ignores_owned_names:
  assumes o': "Owner (tmOwn s) (shell_name req) = safeSessionName u" and d: "thDtach H = Some dt"
    and dead: "\<not> SessionHas H s (shell_name req)" and na: "Query req ''attach'' \<noteq> ''1''"
    and up: "snd (startDtachMaster H dt (resolveSocket H s (shell_name req)) [thShell H, ''-l''] (shell_env cfgdir) '''')"
    and h: "HostShell H ks req u primary cfgdir s = (t, r)"
  shows "tmLive t (resolveSocket H s (shell_name req)) = Some (thMaster H)"
proof -
  have m: "safeSessionName (shell_name req) = shell_name req" by (simp add: shell_name_eq)
  show ?thesis
    using o' d dead na up h put_session_parts(1)
    by (auto simp: HostShell_def Let_def shell_user_eq attach_only_def shell_acl_def Attach_def m SessionHas_def spawn_def)
qed

text \<open>A registry write that fails leaves the session renamed in memory, while the request is refused and the owner keeps the old name.\<close>

lemma failed_write_splits_rename:
  "(let s = bob_runs\<lparr>tmReg := Some (demo_reg [''main'' \<mapsto> \<lparr>srName = ''main'', srSocket = ''/d/session-sox/main.sock'', srPID = 0,
        srCreated = 1, srBackend = ''dtach''\<rparr>])\<rparr>;
        (t, r, e) = handleTerminalRenameSession blank_config (demo_termhost\<lparr>thRegOk := False\<rparr>) ''bob'' MethodPost (Some (''main'', ''work'')) s
    in r = TErr 400 \<and> reg_Has (tmReg t) ''work'' \<and> \<not> reg_Has (tmReg t) ''main'' \<and> Owner (tmOwn t) ''work'' = '''')"
  by code_simp

text \<open>The argument list for \<open>systemd-run\<close> starts with an option, not with a program name, and its first word is dropped.\<close>

lemma quiet_is_dropped: "''--quiet'' \<notin> set (launch_argv ''/usr/bin/systemd-run'' ''/usr/bin/dtach'' ''/s'' [''sh''] [] '''')"
  by code_simp

end
