(* ===== verification/SessionLog.thy ===== *)
theory SessionLog
  imports GoStrings Prelude
begin

text \<open>
  What happens to the output of a terminal session: the log file with its rotation (\<^verbatim>\<open>internal/pty/sessionlog.go\<close>), the log that
  several connections share, with one scribe at a time and without the multiplexer's own messages
  (\<^verbatim>\<open>sessionlog_compartilhado.go\<close>), the size of the session (\<^verbatim>\<open>tamanho_da_sessao.go\<close>), and the slices of the log that
  are sent to a client.

  Bytes are characters. \<open>os.File\<close> operations take their outcome from the record \<open>lhost\<close>; the clock is an argument. Connection
  numbers and terminal sizes stay far below the ends of \<open>int64\<close> and \<open>uint16\<close> and are natural numbers.
\<close>

section \<open>Searching bytes\<close>

fun bytes_Index :: "string \<Rightarrow> string \<Rightarrow> nat option" where
  "bytes_Index [] p = (if p = [] then Some 0 else None)"
| "bytes_Index (c # s) p = (if HasPrefix (c # s) p then Some 0 else map_option Suc (bytes_Index s p))"

fun bytes_LastIndex :: "string \<Rightarrow> string \<Rightarrow> nat option" where
  "bytes_LastIndex [] p = (if p = [] then Some 0 else None)"
| "bytes_LastIndex (c # s) p =
     (case bytes_LastIndex s p of
        Some i \<Rightarrow> Some (Suc i)
      | None \<Rightarrow> if HasPrefix (c # s) p then Some 0 else None)"

section \<open>The log file\<close>

text \<open>
  An open file: its bytes, whether it was opened for appending, and the offset of the next write otherwise. A write beyond the end
  fills the gap with zero bytes.
\<close>

record lfile =
  lfData :: string
  lfAppend :: bool
  lfPos :: nat

definition lf_write :: "string \<Rightarrow> lfile \<Rightarrow> lfile" where
  "lf_write p f =
     (if lfAppend f then f\<lparr>lfData := lfData f @ p\<rparr>
      else f\<lparr>lfData := take (lfPos f) (lfData f) @ replicate (lfPos f - length (lfData f)) (CHR 0x00) @ p
                       @ drop (lfPos f + length p) (lfData f),
             lfPos := lfPos f + length p\<rparr>)"

record sessionLogWriter =
  lwFile :: "lfile option"
  lwSize :: nat
  lwCur :: string
  lwPrev :: "string option"

text \<open>
  \<open>lwCur\<close> and \<open>lwPrev\<close> are the bytes found at the path and at \<^verbatim>\<open>.1\<close>; while the file is open, \<open>lwCur\<close> is what it holds.
  \<open>lhFault = Some k\<close>: the write fails after \<open>k\<close> bytes.
\<close>

record lhost =
  lhFault :: "nat option"
  lhRename :: bool
  lhReopen :: bool
  lhTruncate :: bool

definition maxSessionLogBytes :: nat where "maxSessionLogBytes = 8 * 1024 * 1024"

definition abreEscritor :: "bool \<Rightarrow> string \<Rightarrow> string option \<Rightarrow> sessionLogWriter" where
  "abreEscritor opened cur prev =
     (if opened then \<lparr>lwFile = Some \<lparr>lfData = cur, lfAppend = True, lfPos = 0\<rparr>, lwSize = length cur, lwCur = cur, lwPrev = prev\<rparr>
      else \<lparr>lwFile = None, lwSize = 0, lwCur = cur, lwPrev = prev\<rparr>)"

definition rotateLocked :: "lhost \<Rightarrow> sessionLogWriter \<Rightarrow> sessionLogWriter" where
  "rotateLocked L w =
     (case lwFile w of
        None \<Rightarrow> w
      | Some f \<Rightarrow>
          let prev = (if lhRename L then Some (lfData f) else lwPrev w)
          in if lhReopen L then \<lparr>lwFile = Some \<lparr>lfData = '''', lfAppend = False, lfPos = 0\<rparr>, lwSize = 0, lwCur = '''', lwPrev = prev\<rparr>
             else \<lparr>lwFile = None, lwSize = 0, lwCur = (if lhRename L then '''' else lwCur w), lwPrev = prev\<rparr>)"

definition lw_Write :: "lhost \<Rightarrow> string \<Rightarrow> sessionLogWriter \<Rightarrow> sessionLogWriter" where
  "lw_Write L p w0 =
     (case lwFile w0 of
        None \<Rightarrow> w0
      | Some _ \<Rightarrow>
          let w = (if lwSize w0 + length p > maxSessionLogBytes then rotateLocked L w0 else w0)
          in case lwFile w of
               None \<Rightarrow> w
             | Some f \<Rightarrow>
                 (case lhFault L of
                    None \<Rightarrow> let f' = lf_write p f in w\<lparr>lwFile := Some f', lwCur := lfData f', lwSize := lwSize w + length p\<rparr>
                  | Some k \<Rightarrow> let f' = lf_write (take k p) f in w\<lparr>lwFile := Some f', lwCur := lfData f'\<rparr>))"

definition descartaUltimos :: "lhost \<Rightarrow> nat \<Rightarrow> sessionLogWriter \<Rightarrow> sessionLogWriter" where
  "descartaUltimos L n w =
     (case lwFile w of
        None \<Rightarrow> w
      | Some f \<Rightarrow>
          if n = 0 \<or> lwSize w < n \<or> \<not> lhTruncate L then w
          else let alvo = lwSize w - n;
                   d = take alvo (lfData f) @ replicate (alvo - length (lfData f)) (CHR 0x00)
               in w\<lparr>lwFile := Some (f\<lparr>lfData := d\<rparr>), lwCur := d, lwSize := alvo\<rparr>)"

definition lw_Close :: "sessionLogWriter \<Rightarrow> sessionLogWriter" where
  "lw_Close w = w\<lparr>lwFile := None\<rparr>"

section \<open>The shared log\<close>

definition limpezaDeAttachDoDtach :: string where
  "limpezaDeAttachDoDtach = [CHR 0x1B, CHR ''['', CHR ''H'', CHR 0x1B, CHR ''['', CHR ''J'']"

definition marcaDeSaidaDoDtach :: string where
  "marcaDeSaidaDoDtach = CHR 0x1B # ''[999H''"

definition textoDeSaidaDoDtach :: string where
  "textoDeSaidaDoDtach = ''[detached]''"

definition validadeDoArrendamento :: nanos where "validadeDoArrendamento = 1500000000"

definition bytesDeCauda :: nat where "bytesDeCauda = 48"

record tamanhoDoCliente =
  tcCols :: nat
  tcRows :: nat
  tcQuadro :: bool

record logCompartilhado =
  lcW :: sessionLogWriter
  lcConexoes :: "nat list"
  lcProximo :: nat
  lcTamanhos :: "nat \<rightharpoonup> tamanhoDoCliente"
  lcCols :: nat
  lcRows :: nat
  lcAplicadores :: "nat list"
  lcEscriba :: nat
  lcUltima :: nanos

record escritorDaSessao =
  esId :: nat
  esPrimeiro :: bool
  esInicio :: string
  esCauda :: string
  esDespediu :: bool

text \<open>
  The start of a connection: bytes wait while they may still be the clearing of the screen. \<open>None\<close> means the chunk only waits.
\<close>

definition apara_inicio :: "string \<Rightarrow> escritorDaSessao \<Rightarrow> escritorDaSessao \<times> string option" where
  "apara_inicio p e =
     (if \<not> esPrimeiro e then (e, Some p)
      else let inicio = esInicio e @ p
           in if length inicio < length limpezaDeAttachDoDtach \<and> HasPrefix limpezaDeAttachDoDtach inicio
              then (e\<lparr>esInicio := inicio\<rparr>, None)
              else (e\<lparr>esPrimeiro := False, esInicio := ''''\<rparr>, Some (TrimPrefix inicio limpezaDeAttachDoDtach)))"

text \<open>Where the farewell starts in the tail followed by the chunk, if it is there.\<close>

definition corte_despedida :: "string \<Rightarrow> nat option" where
  "corte_despedida combinado =
     (case bytes_Index combinado textoDeSaidaDoDtach of
        None \<Rightarrow> None
      | Some i \<Rightarrow>
          (case bytes_LastIndex (take i combinado) marcaDeSaidaDoDtach of
             None \<Rightarrow> None
           | Some j \<Rightarrow> if i - j \<le> 16 then Some j else None))"

text \<open>The farewell is cut off: what is already written of it is undone, the rest does not go out.\<close>

definition apara_despedida :: "lhost \<Rightarrow> string \<Rightarrow> escritorDaSessao \<Rightarrow> sessionLogWriter
    \<Rightarrow> string \<times> escritorDaSessao \<times> sessionLogWriter" where
  "apara_despedida L p e w =
     (case corte_despedida (esCauda e @ p) of
        None \<Rightarrow> (p, e, w)
      | Some corte \<Rightarrow>
          if corte < length (esCauda e) then ('''', e\<lparr>esDespediu := True\<rparr>, descartaUltimos L (length (esCauda e) - corte) w)
          else (take (corte - length (esCauda e)) p, e\<lparr>esDespediu := True\<rparr>, w))"

definition nova_cauda :: "string \<Rightarrow> string \<Rightarrow> string" where
  "nova_cauda cauda p =
     (if length p \<ge> bytesDeCauda then drop (length p - bytesDeCauda) p
      else let c = cauda @ p in if length c > bytesDeCauda then drop (length c - bytesDeCauda) c else c)"

text \<open>The lease: who may write now.\<close>

definition pode_escrever :: "nanos \<Rightarrow> nat \<Rightarrow> logCompartilhado \<Rightarrow> bool" where
  "pode_escrever agora i c \<longleftrightarrow>
     lcEscriba c = i \<or> lcEscriba c = 0 \<or> agora - lcUltima c \<ge> validadeDoArrendamento"

text \<open>\<open>Write\<close>; the number is what it reports as written.\<close>

definition es_Write :: "lhost \<Rightarrow> nanos \<Rightarrow> string \<Rightarrow> escritorDaSessao \<Rightarrow> logCompartilhado
    \<Rightarrow> escritorDaSessao \<times> logCompartilhado \<times> nat" where
  "es_Write L agora p e c =
     (if esDespediu e then (e, c, length p)
      else case apara_inicio p e of
        (e1, None) \<Rightarrow> (e1, c, length p)
      | (e1, Some p1) \<Rightarrow>
          (let (p2, e2, w) = apara_despedida L p1 e1 (lcW c);
               c1 = c\<lparr>lcW := w\<rparr>
           in if p2 = '''' then (e2, c1, length p)
              else if \<not> pode_escrever agora (esId e2) c1 then (e2, c1, length p2)
              else (e2\<lparr>esCauda := nova_cauda (esCauda e2) p2\<rparr>,
                    c1\<lparr>lcEscriba := esId e2, lcUltima := agora, lcW := lw_Write L p2 w\<rparr>, length p)))"

section \<open>The size of the session\<close>

text \<open>One round of the loop: the largest of those that accept a frame, the smallest of the others (\<open>0\<close> for none).\<close>

definition tam_step :: "tamanhoDoCliente \<Rightarrow> (nat \<times> nat) \<times> (nat \<times> nat) \<Rightarrow> (nat \<times> nat) \<times> (nat \<times> nat)" where
  "tam_step t acc =
     (case acc of ((ac, ar), (kc, kr)) \<Rightarrow>
        if tcQuadro t
        then ((if tcCols t > ac then tcCols t else ac, if tcRows t > ar then tcRows t else ar), (kc, kr))
        else ((ac, ar), (if kc = 0 \<or> tcCols t < kc then tcCols t else kc, if kr = 0 \<or> tcRows t < kr then tcRows t else kr)))"

definition com_teto :: "nat \<Rightarrow> nat \<Rightarrow> nat" where
  "com_teto alvo teto = (if teto > 0 \<and> (alvo = 0 \<or> teto < alvo) then teto else alvo)"

text \<open>\<open>ks\<close> is the order of the range over the sizes. Result: state, effective size, whether it changed, and whom to tell.\<close>

definition recalcula :: "nat list \<Rightarrow> logCompartilhado \<Rightarrow> logCompartilhado \<times> nat \<times> nat \<times> bool \<times> nat list" where
  "recalcula ks c =
     (let ((ac, ar), (kc, kr)) = fold tam_step (List.map_filter (lcTamanhos c) ks) ((0, 0), (0, 0));
          cols = com_teto ac kc;
          rows = com_teto ar kr
      in if cols = 0 \<or> rows = 0 then (c, lcCols c, lcRows c, False, [])
         else if cols = lcCols c \<and> rows = lcRows c then (c, cols, rows, False, [])
         else (c\<lparr>lcCols := cols, lcRows := rows\<rparr>, cols, rows, True, lcAplicadores c))"

definition registraTamanho :: "nat list \<Rightarrow> nat \<Rightarrow> nat \<Rightarrow> nat \<Rightarrow> bool \<Rightarrow> logCompartilhado
    \<Rightarrow> logCompartilhado \<times> nat \<times> nat \<times> bool \<times> nat list" where
  "registraTamanho ks i cols rows quadro c =
     (if cols < 2 \<or> rows < 1 \<or> cols > 1000 \<or> rows > 1000 then (c, lcCols c, lcRows c, False, [])
      else recalcula ks (c\<lparr>lcTamanhos := (lcTamanhos c)(i \<mapsto> \<lparr>tcCols = cols, tcRows = rows, tcQuadro = quadro\<rparr>)\<rparr>))"

definition esqueceTamanho :: "nat list \<Rightarrow> nat \<Rightarrow> logCompartilhado \<Rightarrow> logCompartilhado \<times> nat \<times> nat \<times> bool \<times> nat list" where
  "esqueceTamanho ks i c =
     recalcula ks (c\<lparr>lcTamanhos := (lcTamanhos c)(i := None), lcAplicadores := removeAll i (lcAplicadores c)\<rparr>)"

definition registraAplicador :: "nat \<Rightarrow> logCompartilhado \<Rightarrow> logCompartilhado \<times> nat \<times> nat" where
  "registraAplicador i c =
     (c\<lparr>lcAplicadores := (if i \<in> set (lcAplicadores c) then lcAplicadores c else i # lcAplicadores c)\<rparr>, lcCols c, lcRows c)"

section \<open>Connections\<close>

text \<open>The table of shared logs by path; \<open>opened\<close>, \<open>cur\<close>, \<open>prev\<close> describe the file when the first connection opens it.\<close>

definition novo_log :: "bool \<Rightarrow> string \<Rightarrow> string option \<Rightarrow> logCompartilhado" where
  "novo_log opened cur prev =
     \<lparr>lcW = abreEscritor opened cur prev, lcConexoes = [], lcProximo = 0, lcTamanhos = Map.empty, lcCols = 0, lcRows = 0,
      lcAplicadores = [], lcEscriba = 0, lcUltima = 0\<rparr>"

definition pegarLogDaSessao :: "bool \<Rightarrow> string \<Rightarrow> string option \<Rightarrow> string \<Rightarrow> (string \<rightharpoonup> logCompartilhado)
    \<Rightarrow> (string \<rightharpoonup> logCompartilhado) \<times> escritorDaSessao" where
  "pegarLogDaSessao opened cur prev chave T =
     (let c = (case T chave of Some c \<Rightarrow> c | None \<Rightarrow> novo_log opened cur prev);
          i = lcProximo c + 1
      in (T(chave \<mapsto> c\<lparr>lcProximo := i, lcConexoes := lcConexoes c @ [i]\<rparr>),
          \<lparr>esId = i, esPrimeiro = True, esInicio = '''', esCauda = '''', esDespediu = False\<rparr>))"

text \<open>\<open>soltar\<close>; the last component lists the connections to be told the new size.\<close>

definition soltar :: "nat list \<Rightarrow> nat \<Rightarrow> string \<Rightarrow> (string \<rightharpoonup> logCompartilhado)
    \<Rightarrow> (string \<rightharpoonup> logCompartilhado) \<times> sessionLogWriter option \<times> (nat \<times> nat \<times> nat list)" where
  "soltar ks i chave T =
     (case T chave of
        None \<Rightarrow> (T, None, (0, 0, []))
      | Some c0 \<Rightarrow>
          (let c1 = c0\<lparr>lcConexoes := remove1 i (lcConexoes c0)\<rparr>;
               (c2, cols, rows, mudou, aps) = esqueceTamanho ks i c1;
               c3 = (if lcEscriba c2 = i then c2\<lparr>lcEscriba := 0\<rparr> else c2)
           in if lcConexoes c3 = [] then (T(chave := None), Some (lw_Close (lcW c3)), (cols, rows, if mudou then aps else []))
              else (T(chave \<mapsto> c3), None, (cols, rows, if mudou then aps else []))))"

section \<open>Slices of the log\<close>

definition str_or :: "string option \<Rightarrow> string" where
  "str_or x = (case x of None \<Rightarrow> '''' | Some d \<Rightarrow> d)"

definition readLogRotated :: "string option \<Rightarrow> string option \<Rightarrow> string" where
  "readLogRotated prev cur = str_or prev @ str_or cur"

text \<open>
  The last \<open>maxBytes\<close> of the two generations, read at an offset, and the number of bytes there are. An absent file has no bytes.
\<close>

definition read_at :: "string \<Rightarrow> nat \<Rightarrow> nat \<Rightarrow> string" where
  "read_at d from n = take n (drop from d)"

definition lerCauda :: "string option \<Rightarrow> string option \<Rightarrow> nat \<Rightarrow> string \<times> nat" where
  "lerCauda prev cur maxBytes =
     (let anterior = length (str_or prev);
          atual = length (str_or cur);
          n = anterior + atual
      in if n = 0 then ('''', 0)
         else let m = (if maxBytes > n then n else maxBytes);
                  inicio = n - m
              in (if inicio < anterior
                  then read_at (str_or prev) inicio (anterior - inicio) @ read_at (str_or cur) 0 atual
                  else read_at (str_or cur) (inicio - anterior) (atual - (inicio - anterior)), n))"

definition avanca_linha :: "string \<Rightarrow> string" where
  "avanca_linha d =
     (case IndexByte d (CHR 0x0A) of
        None \<Rightarrow> d
      | Some i \<Rightarrow> if i + 1 < length d then drop (i + 1) d else d)"

text \<open>One round of removing what the multiplexer says at the end.\<close>

definition TrimSuffix :: "string \<Rightarrow> string \<Rightarrow> string" where
  "TrimSuffix s p = (if suffix p s then take (length s - length p) s else s)"

definition sem_despedida :: "string \<Rightarrow> string" where
  "sem_despedida b =
     (case bytes_LastIndex b textoDeSaidaDoDtach of
        None \<Rightarrow> b
      | Some i \<Rightarrow>
          if length b - i \<le> 32
          then take (case bytes_LastIndex (take i b) marcaDeSaidaDoDtach of
                       None \<Rightarrow> i
                     | Some j \<Rightarrow> if i - j \<le> 16 then j else i) b
          else b)"

definition ruido_step :: "string \<Rightarrow> string" where
  "ruido_step b = TrimSuffix (sem_despedida b) limpezaDeAttachDoDtach"

lemma ruido_step_length: "length (ruido_step b) \<le> length b"
  by (auto simp: ruido_step_def TrimSuffix_def sem_despedida_def split: option.split)

function semRuidoDoDtachNoFim :: "string \<Rightarrow> string" where
  "semRuidoDoDtachNoFim b =
     (let b1 = ruido_step b in if length b1 = length b then b1 else semRuidoDoDtachNoFim b1)"
  by pat_completeness auto
termination
proof (relation "measure length")
  fix b b1 :: string
  assume "b1 = ruido_step b" "length b1 \<noteq> length b"
  then show "(b1, b) \<in> measure length"
    using ruido_step_length [of b] by simp
qed simp

declare semRuidoDoDtachNoFim.simps [simp del]

definition maxRawLogTailBytes :: nat where "maxRawLogTailBytes = 2 * maxSessionLogBytes"

definition rawLogTail :: "string option \<Rightarrow> string option \<Rightarrow> int \<Rightarrow> string \<times> nat" where
  "rawLogTail prev cur maxBytes =
     (let m = (if maxBytes \<le> 0 \<or> maxBytes > int maxRawLogTailBytes then maxRawLogTailBytes else nat maxBytes);
          (corte, n) = lerCauda prev cur m
      in if n = 0 then ('''', 0)
         else (semRuidoDoDtachNoFim (if length corte < n then avanca_linha corte else corte), n))"

section \<open>Replaying a log to a new client\<close>

text \<open>The greater of two indices, \<open>None\<close> counting as \<open>-1\<close>; the last switch into or out of the alternate screen.\<close>

definition later :: "nat option \<Rightarrow> nat option \<Rightarrow> nat option" where
  "later a b =
     (case a of None \<Rightarrow> b | Some i \<Rightarrow> (case b of None \<Rightarrow> a | Some j \<Rightarrow> if j > i then b else a))"

definition esc_seq :: "string \<Rightarrow> string" where "esc_seq s = CHR 0x1B # s"

definition altScreenEnter :: "string list" where
  "altScreenEnter = [esc_seq ''[?1049h'', esc_seq ''[?1047h'', esc_seq ''[?47h'']"

definition altScreenLeave :: "string list" where
  "altScreenLeave = [esc_seq ''[?1049l'', esc_seq ''[?1047l'', esc_seq ''[?47l'']"

definition last_of :: "string \<Rightarrow> string list \<Rightarrow> nat option" where
  "last_of d ps = fold (\<lambda>p acc. later acc (bytes_LastIndex d p)) ps None"

definition sessionInAltScreen :: "string \<Rightarrow> bool" where
  "sessionInAltScreen d =
     (case last_of d altScreenEnter of
        None \<Rightarrow> False
      | Some e \<Rightarrow> (case last_of d altScreenLeave of None \<Rightarrow> True | Some l \<Rightarrow> e > l))"

definition limiteRepintura :: nat where "limiteRepintura = 20"

definition is_digit :: "char \<Rightarrow> bool" where
  "is_digit c \<longleftrightarrow> (48 :: nat) \<le> of_char c \<and> of_char c \<le> (57 :: nat)"

text \<open>The parameter of a sequence: its value, which stops growing at a thousand.\<close>

definition csi_value :: "string \<Rightarrow> nat" where
  "csi_value ds = fold (\<lambda>c v. if v < 1000 then v * 10 + (of_char c - 48) else v) ds 0"

lemma rest_shorter: "\<not> length d < 2 \<Longrightarrow> length (dropWhile p (drop 2 d)) - Suc 0 < length d"
  using length_dropWhile_le [of p "drop 2 d"] by simp

text \<open>\<open>n\<close> is the number of upward moves of two or more lines counted so far.\<close>

function sobe :: "nat \<Rightarrow> string \<Rightarrow> bool" where
  "sobe n d =
     (if length d < 2 then False
      else if d ! 0 \<noteq> CHR 0x1B \<or> d ! 1 \<noteq> CHR ''['' then sobe n (tl d)
      else let ds = takeWhile is_digit (drop 2 d);
               rest = dropWhile is_digit (drop 2 d);
               v = csi_value ds;
               linhas = (if ds = [] \<or> v = 0 then 1 else v)
           in if rest \<noteq> [] \<and> hd rest = CHR ''A''
              then if linhas \<ge> 2
                   then if n + 1 \<ge> limiteRepintura then True else sobe (n + 1) (tl rest)
                   else sobe n (tl rest)
              else sobe n (tl d))"
  by pat_completeness auto
termination
  by (relation "measure (\<lambda>(n, d). length d)") (auto dest: rest_shorter)

declare sobe.simps [simp del]

definition fluxoERepintado :: "string \<Rightarrow> bool" where "fluxoERepintado d = sobe 0 d"

text \<open>The length of a mouse report at the start of the bytes, \<open>0\<close> for none; one cut off by the end counts whole.\<close>

fun mouse_len :: "nat \<Rightarrow> string \<Rightarrow> nat" where
  "mouse_len i [] = i"
| "mouse_len i (c # s) =
     (if c = CHR ''M'' \<or> c = CHR ''m'' then i + 1
      else if \<not> is_digit c \<and> c \<noteq> CHR '';'' then 0
      else mouse_len (i + 1) s)"

definition tamanhoDoRelatorioDeMouse :: "string \<Rightarrow> nat" where
  "tamanhoDoRelatorioDeMouse b =
     (if length b < 3 \<or> b ! 0 \<noteq> CHR 0x1B \<or> b ! 1 \<noteq> CHR ''['' then 0
      else if b ! 2 \<noteq> CHR ''<'' then 0
      else mouse_len 3 (drop 3 b))"

function sem_mouse :: "string \<Rightarrow> string" where
  "sem_mouse [] = []"
| "sem_mouse (c # s) =
     (let n = tamanhoDoRelatorioDeMouse (c # s)
      in if n > 0 then sem_mouse (drop n (c # s)) else c # sem_mouse s)"
  by pat_completeness auto
termination
  by (relation "measure length") auto

definition semRelatorioDeMouse :: "string \<Rightarrow> string" where
  "semRelatorioDeMouse d =
     (if bytes_Index d (esc_seq ''[<'') = None \<and> bytes_Index d (esc_seq ''[M'') = None then d else sem_mouse d)"

definition maxAttachReplayBytes :: nat where "maxAttachReplayBytes = 128 * 1024"

definition tailDoLog :: "string \<Rightarrow> string" where
  "tailDoLog d = (if length d > maxAttachReplayBytes then drop (length d - maxAttachReplayBytes) d else d)"

text \<open>\<open>None\<close> is \<open>nil\<close>: nothing is replayed.\<close>

definition attachReplay :: "string option \<Rightarrow> string option \<Rightarrow> string option" where
  "attachReplay prev cur =
     (let d = readLogRotated prev cur
      in if d = '''' then None
         else if sessionInAltScreen d then None
         else if fluxoERepintado (tailDoLog d) then None
         else let d1 = (if length d > maxAttachReplayBytes then avanca_linha (tailDoLog d) else d)
              in Some (semRuidoDoDtachNoFim (semRelatorioDeMouse d1)))"

section \<open>A connection's view of the size\<close>

text \<open>
  What the terminal socket does with these answers (\<^verbatim>\<open>pty.go\<close>). The size is computed under the mutex of the logs; it is
  applied after the mutex has been released, one connection at a time, so computations and applications of different connections
  interleave. \<open>szPend\<close> holds what has been computed and not yet applied, a size and the connection it is for, in the order of the
  computations; \<open>szPtys\<close> is the size last applied to each connection (\<open>lastCols\<close>, \<open>lastRows\<close>, which the repaint also restores).
  A joining connection takes the size in force, a resize or a departure tells every connection when the size changed, and
  otherwise a resize only applies to the caller.
\<close>

record sizes =
  szLog :: logCompartilhado
  szPend :: "(nat \<times> nat \<times> nat) list"
  szPtys :: "nat \<rightharpoonup> nat \<times> nat"

definition no_sizes :: "logCompartilhado \<Rightarrow> sizes" where
  "no_sizes c = \<lparr>szLog = c, szPend = [], szPtys = Map.empty\<rparr>"

definition aplicaTamanho :: "nat \<Rightarrow> nat \<Rightarrow> nat \<Rightarrow> (nat \<rightharpoonup> nat \<times> nat) \<Rightarrow> (nat \<rightharpoonup> nat \<times> nat)" where
  "aplicaTamanho cols rows i ptys = (if cols < 2 \<or> rows < 1 then ptys else ptys(i \<mapsto> (cols, rows)))"

text \<open>The three computations, each one critical section.\<close>

definition size_join :: "nat \<Rightarrow> sizes \<Rightarrow> sizes" where
  "size_join i s =
     (let (c', cols, rows) = registraAplicador i (szLog s)
      in s\<lparr>szLog := c', szPend := szPend s @ (if cols > 0 \<and> rows > 0 then [(cols, rows, i)] else [])\<rparr>)"

definition size_resize :: "nat list \<Rightarrow> nat \<Rightarrow> nat \<Rightarrow> nat \<Rightarrow> bool \<Rightarrow> sizes \<Rightarrow> sizes" where
  "size_resize ks i cols rows quadro s =
     (let (c', ec, er, mudou, aps) = registraTamanho ks i cols rows quadro (szLog s)
      in s\<lparr>szLog := c', szPend := szPend s @ (if mudou then map (\<lambda>j. (ec, er, j)) aps else [(ec, er, i)])\<rparr>)"

definition size_leave :: "nat list \<Rightarrow> nat \<Rightarrow> sizes \<Rightarrow> sizes" where
  "size_leave ks i s =
     (let (c', ec, er, mudou, aps) = esqueceTamanho ks i (szLog s)
      in s\<lparr>szLog := c', szPend := szPend s @ (if mudou then map (\<lambda>j. (ec, er, j)) aps else [])\<rparr>)"

text \<open>One application, the \<open>n\<close>-th of those that wait.\<close>

definition carry :: "nat \<times> nat \<times> nat \<Rightarrow> (nat \<rightharpoonup> nat \<times> nat) \<Rightarrow> (nat \<rightharpoonup> nat \<times> nat)" where
  "carry x ptys = (case x of (cols, rows, i) \<Rightarrow> aplicaTamanho cols rows i ptys)"

definition size_apply :: "nat \<Rightarrow> sizes \<Rightarrow> sizes" where
  "size_apply n s =
     (if n < length (szPend s)
      then s\<lparr>szPend := take n (szPend s) @ drop (Suc n) (szPend s), szPtys := carry (szPend s ! n) (szPtys s)\<rparr>
      else s)"

end
