(* ===== verification/SessionLogProps.thy ===== *)
theory SessionLogProps
  imports SessionLog
begin

text \<open>
  The size every client of a session agrees on, the single scribe of a session's log, and what the log holds however the output
  is cut into chunks.
\<close>

section \<open>The size of a session\<close>

text \<open>
  The rule in one line: the largest of the clients that accept a frame, but no more than the smallest of those that do not; with
  none of the first kind, the smallest of the second.
\<close>

definition session_dim :: "(tamanhoDoCliente \<Rightarrow> nat) \<Rightarrow> tamanhoDoCliente set \<Rightarrow> nat" where
  "session_dim f S =
     (let F = f ` {t \<in> S. tcQuadro t}; N = f ` {t \<in> S. \<not> tcQuadro t}
      in if F = {} then Min N else if N = {} then Max F else min (Max F) (Min N))"

definition sizes_ok :: "(nat \<rightharpoonup> tamanhoDoCliente) \<Rightarrow> bool" where
  "sizes_ok m \<longleftrightarrow> finite (dom m) \<and> (\<forall>t \<in> ran m. 2 \<le> tcCols t \<and> 1 \<le> tcRows t)"

text \<open>The accumulators of the loop.\<close>

definition top_of :: "nat list \<Rightarrow> nat" where "top_of xs = (if xs = [] then 0 else Max (set xs))"
definition low_of :: "nat list \<Rightarrow> nat" where "low_of xs = (if xs = [] then 0 else Min (set xs))"

lemma top_of_snoc: "top_of (xs @ [x]) = (if x > top_of xs then x else top_of xs)"
  by (simp add: top_of_def max_def del: Max_less_iff Max_gr_iff Max_le_iff Max_ge_iff)

lemma low_of_snoc:
  assumes "0 \<notin> set xs"
  shows "low_of (xs @ [x]) = (if low_of xs = 0 \<or> x < low_of xs then x else low_of xs)"
proof (cases "xs = []")
  case False
  then have "Min (set xs) \<in> set xs" by simp
  with assms have "Min (set xs) \<noteq> 0" by metis
  with False show ?thesis
    by (simp add: low_of_def min_def del: Min_less_iff Min_gr_iff Min_le_iff Min_ge_iff)
qed (simp add: low_of_def)

lemma tam_fold:
  assumes "\<forall>t \<in> set ts. 0 < tcCols t \<and> 0 < tcRows t"
  shows "fold tam_step ts ((0, 0), (0, 0)) =
     ((top_of (map tcCols (filter tcQuadro ts)), top_of (map tcRows (filter tcQuadro ts))),
      (low_of (map tcCols (filter (\<lambda>t. \<not> tcQuadro t) ts)), low_of (map tcRows (filter (\<lambda>t. \<not> tcQuadro t) ts))))"
  using assms
proof (induction ts rule: rev_induct)
  case Nil
  then show ?case by (simp add: top_of_def low_of_def)
next
  case (snoc t ts)
  have "0 \<notin> set (map tcCols (filter (\<lambda>t. \<not> tcQuadro t) ts))" "0 \<notin> set (map tcRows (filter (\<lambda>t. \<not> tcQuadro t) ts))"
    using snoc.prems by auto
  with snoc show ?case
    by (simp add: tam_step_def top_of_snoc low_of_snoc)
qed

lemma com_teto_dim:
  assumes "set ts = S" "\<forall>t \<in> S. 0 < f t" "S \<noteq> {}"
  shows "com_teto (top_of (map f (filter tcQuadro ts))) (low_of (map f (filter (\<lambda>t. \<not> tcQuadro t) ts))) = session_dim f S"
    and "0 < session_dim f S"
proof -
  let ?F = "filter tcQuadro ts" and ?N = "filter (\<lambda>t. \<not> tcQuadro t) ts"
  have F: "f ` {t \<in> S. tcQuadro t} = set (map f ?F)" and N: "f ` {t \<in> S. \<not> tcQuadro t} = set (map f ?N)"
    using assms(1) by auto
  have some: "?F \<noteq> [] \<or> ?N \<noteq> []"
    using assms(1,3) by (cases ts) (auto simp: filter_empty_conv)
  have pos: "x \<in> set (map f ?F) \<Longrightarrow> 0 < x" "x \<in> set (map f ?N) \<Longrightarrow> 0 < x" for x
    using assms(1,2) by auto
  define a where "a = Max (set (map f ?F))"
  define b where "b = Min (set (map f ?N))"
  have t: "top_of (map f ?F) = (if ?F = [] then 0 else a)" and l: "low_of (map f ?N) = (if ?N = [] then 0 else b)"
    by (simp_all add: top_of_def low_of_def a_def b_def)
  have d: "session_dim f S = (if ?F = [] then b else if ?N = [] then a else min a b)"
    unfolding session_dim_def F N Let_def a_def b_def by (simp only: set_empty map_is_Nil_conv)
  have mx: "0 < a" if "?F \<noteq> []"
    unfolding a_def using that by (intro pos(1) Max_in) (auto simp: filter_empty_conv)
  have mn: "0 < b" if "?N \<noteq> []"
    unfolding b_def using that by (intro pos(2) Min_in) (auto simp: filter_empty_conv)
  show "com_teto (top_of (map f ?F)) (low_of (map f ?N)) = session_dim f S"
    unfolding t l d com_teto_def using some mx mn by (auto simp: min_def)
  show "0 < session_dim f S"
    unfolding d using some mx mn by auto
qed

lemma ran_nonempty: "m \<noteq> Map.empty \<Longrightarrow> ran m \<noteq> {}"
  by (auto simp: ran_def fun_eq_iff)

lemma session_dim_in:
  assumes "finite S" "S \<noteq> {}"
  shows "session_dim f S \<in> f ` S"
proof -
  let ?F = "f ` {t \<in> S. tcQuadro t}" and ?N = "f ` {t \<in> S. \<not> tcQuadro t}"
  have fin: "finite ?F" "finite ?N" using assms(1) by simp_all
  have "?F \<noteq> {} \<or> ?N \<noteq> {}" using assms(2) by auto
  then have "session_dim f S \<in> ?F \<union> ?N"
    using Max_in [OF fin(1)] Min_in [OF fin(2)] by (auto simp: session_dim_def Let_def min_def)
  then show ?thesis by auto
qed

lemma set_map_filter_ran: "set ks = dom m \<Longrightarrow> set (List.map_filter m ks) = ran m"
  by (auto simp: List.map_filter_def ran_def dom_def image_iff) (metis domI option.sel option.distinct(1))+

lemma recalcula_dim:
  assumes "sizes_ok (lcTamanhos c)" "set ks = dom (lcTamanhos c)" "lcTamanhos c \<noteq> Map.empty"
  shows "recalcula ks c =
     (let cols = session_dim tcCols (ran (lcTamanhos c)); rows = session_dim tcRows (ran (lcTamanhos c))
      in if cols = lcCols c \<and> rows = lcRows c then (c, cols, rows, False, [])
         else (c\<lparr>lcCols := cols, lcRows := rows\<rparr>, cols, rows, True, lcAplicadores c))"
proof -
  let ?ts = "List.map_filter (lcTamanhos c) ks"
  have S: "set ?ts = ran (lcTamanhos c)" by (rule set_map_filter_ran [OF assms(2)])
  have ne: "ran (lcTamanhos c) \<noteq> {}" using assms(3) by (rule ran_nonempty)
  have pos: "\<forall>t \<in> ran (lcTamanhos c). 0 < tcCols t" "\<forall>t \<in> ran (lcTamanhos c). 0 < tcRows t"
    using assms(1) by (auto simp: sizes_ok_def)
  have f: "\<forall>t \<in> set ?ts. 0 < tcCols t \<and> 0 < tcRows t" using S pos by auto
  show ?thesis
    unfolding recalcula_def tam_fold [OF f]
    using com_teto_dim(1) [OF S pos(1) ne] com_teto_dim(1) [OF S pos(2) ne]
      com_teto_dim(2) [OF S pos(1) ne] com_teto_dim(2) [OF S pos(2) ne]
    by (simp add: Let_def)
qed

lemma recalcula_empty: "lcTamanhos c = Map.empty \<Longrightarrow> recalcula ks c = (c, lcCols c, lcRows c, False, [])"
  by (simp add: recalcula_def com_teto_def List.map_filter_def)

text \<open>
  The events of a session's connections; a range visits every key once, in some order. With \<open>inorder\<close> no application overtakes an
  older one for the same connection; without it, applications run in any order, which is what the code allows.
\<close>

inductive size_step :: "bool \<Rightarrow> sizes \<Rightarrow> sizes \<Rightarrow> bool" for inorder where
  joins: "size_step inorder s (size_join i s)"
| resizes: "set ks = insert i (dom (lcTamanhos (szLog s))) \<Longrightarrow> size_step inorder s (size_resize ks i cols rows quadro s)"
| leaves: "set ks = dom (lcTamanhos (szLog s)) - {i} \<Longrightarrow> size_step inorder s (size_leave ks i s)"
| applies: "n < length (szPend s) \<Longrightarrow>
    inorder \<longrightarrow> snd (snd (szPend s ! n)) \<notin> (\<lambda>x. snd (snd x)) ` set (take n (szPend s)) \<Longrightarrow>
    size_step inorder s (size_apply n s)"

definition fresh_sizes :: "sizes \<Rightarrow> bool" where
  "fresh_sizes s \<longleftrightarrow> (\<exists>o' cur prev. s = no_sizes (novo_log o' cur prev))"

text \<open>The recorded size, and what the connections have once everything computed has been applied in its order.\<close>

definition size_ok :: "logCompartilhado \<Rightarrow> bool" where
  "size_ok c \<longleftrightarrow>
     sizes_ok (lcTamanhos c)
   \<and> (lcTamanhos c \<noteq> Map.empty \<longrightarrow>
        lcCols c = session_dim tcCols (ran (lcTamanhos c)) \<and> lcRows c = session_dim tcRows (ran (lcTamanhos c)))
   \<and> (lcCols c = 0 \<and> lcRows c = 0 \<or> 2 \<le> lcCols c \<and> 1 \<le> lcRows c)"

definition settles :: "sizes \<Rightarrow> bool" where
  "settles s \<longleftrightarrow>
     (0 < lcCols (szLog s) \<longrightarrow>
        (\<forall>i \<in> set (lcAplicadores (szLog s)).
           fold carry (szPend s) (szPtys s) i = Some (lcCols (szLog s), lcRows (szLog s))))"

definition size_inv :: "bool \<Rightarrow> sizes \<Rightarrow> bool" where
  "size_inv inorder s \<longleftrightarrow> size_ok (szLog s) \<and> (inorder \<longrightarrow> settles s)"

lemma fold_carry_same:
  "2 \<le> cols \<Longrightarrow> 1 \<le> rows \<Longrightarrow>
     fold carry (map (\<lambda>j. (cols, rows, j)) is) ptys i = (if i \<in> set is then Some (cols, rows) else ptys i)"
  by (induction "is" arbitrary: ptys) (auto simp: carry_def aplicaTamanho_def)

lemma fold_carry_other: "i \<notin> (\<lambda>x. snd (snd x)) ` set xs \<Longrightarrow> fold carry xs ptys i = ptys i"
  by (induction xs arbitrary: ptys) (auto simp: carry_def aplicaTamanho_def)

lemma carry_commute: "snd (snd x) \<noteq> snd (snd y) \<Longrightarrow> carry x (carry y m) = carry y (carry x m)"
  by (auto simp: carry_def aplicaTamanho_def fun_upd_twist split: prod.splits)

text \<open>An application that no older one of its connection precedes may be carried out first.\<close>

lemma fold_carry_first:
  "snd (snd x) \<notin> (\<lambda>x. snd (snd x)) ` set xs \<Longrightarrow> fold carry xs (carry x m) = carry x (fold carry xs m)"
  by (induction xs arbitrary: m) (auto simp: carry_commute)

lemma size_apply_settled:
  assumes "n < length (szPend s)" "snd (snd (szPend s ! n)) \<notin> (\<lambda>x. snd (snd x)) ` set (take n (szPend s))"
  shows "fold carry (szPend (size_apply n s)) (szPtys (size_apply n s)) = fold carry (szPend s) (szPtys s)"
proof -
  have "fold carry (szPend s) (szPtys s)
      = fold carry (take n (szPend s) @ szPend s ! n # drop (Suc n) (szPend s)) (szPtys s)"
    using assms(1) by (simp add: id_take_nth_drop [symmetric])
  then show ?thesis
    using assms by (simp add: size_apply_def fold_carry_first)
qed

lemma dims_range:
  assumes "sizes_ok m" "m \<noteq> Map.empty"
  shows "2 \<le> session_dim tcCols (ran m) \<and> 1 \<le> session_dim tcRows (ran m)"
proof -
  have "finite (ran m)" "ran m \<noteq> {}"
    using assms by (simp_all add: sizes_ok_def finite_ran ran_nonempty)
  then show ?thesis
    using session_dim_in [of "ran m" tcCols] session_dim_in [of "ran m" tcRows] assms(1) by (auto simp: sizes_ok_def)
qed

text \<open>
  Recomputing the size after the table changed re-establishes the recorded size, and what it orders to be applied, to everybody or
  also to \<open>i\<close>, settles on it.
\<close>

lemma recalcula_inv:
  assumes ok: "sizes_ok (lcTamanhos c)" and ks: "set ks = dom (lcTamanhos c)"
    and r: "recalcula ks c = (c', ec, er, mudou, aps)"
    and old: "lcCols c = 0 \<and> lcRows c = 0 \<or> 2 \<le> lcCols c \<and> 1 \<le> lcRows c"
  shows "size_ok c'"
    and "settles s \<Longrightarrow> szLog s = c0 \<Longrightarrow> lcCols c0 = lcCols c \<Longrightarrow> lcRows c0 = lcRows c \<Longrightarrow>
      set (lcAplicadores c) \<subseteq> set (lcAplicadores c0) \<Longrightarrow> ys = [] \<or> ys = [(ec, er, i)] \<Longrightarrow>
      settles (s\<lparr>szLog := c', szPend := szPend s @ (if mudou then map (\<lambda>j. (ec, er, j)) aps else ys)\<rparr>)"
proof -
  have A: "lcAplicadores c' = lcAplicadores c"
    using r by (auto simp: recalcula_def Let_def split: prod.splits if_splits)
  consider (E) "lcTamanhos c = Map.empty" "c' = c" "ec = lcCols c" "er = lcRows c" "\<not> mudou"
    | (N) "lcTamanhos c \<noteq> Map.empty" "2 \<le> ec" "1 \<le> er" "lcTamanhos c' = lcTamanhos c" "lcCols c' = ec" "lcRows c' = er"
      "ec = session_dim tcCols (ran (lcTamanhos c))" "er = session_dim tcRows (ran (lcTamanhos c))"
      "mudou \<and> aps = lcAplicadores c \<or> \<not> mudou \<and> lcCols c = ec \<and> lcRows c = er"
  proof (cases "lcTamanhos c = Map.empty")
    case True
    then show ?thesis using recalcula_empty [OF True, of ks] r by (intro E) auto
  next
    case False
    then show ?thesis
      using recalcula_dim [OF ok ks False] dims_range [OF ok False] r
      by (intro N) (auto simp: Let_def split: if_splits)
  qed
  note shape = this
  from shape show "size_ok c'"
    using ok old by cases (auto simp: size_ok_def)
  assume st: "settles s" and c0: "szLog s = c0" "lcCols c0 = lcCols c" "lcRows c0 = lcRows c"
    "set (lcAplicadores c) \<subseteq> set (lcAplicadores c0)" and ys: "ys = [] \<or> ys = [(ec, er, i)]"
  from shape show "settles (s\<lparr>szLog := c', szPend := szPend s @ (if mudou then map (\<lambda>j. (ec, er, j)) aps else ys)\<rparr>)"
  proof cases
    case E
    with st c0 ys show ?thesis
      by (auto simp: settles_def carry_def aplicaTamanho_def)
  next
    case N
    with st c0 ys A show ?thesis
      by (auto simp: settles_def fold_carry_same carry_def aplicaTamanho_def)
  qed
qed

lemma size_join_inv: "size_inv inorder s \<Longrightarrow> size_inv inorder (size_join i s)"
  by (auto simp: size_inv_def size_ok_def settles_def size_join_def registraAplicador_def carry_def aplicaTamanho_def)

lemma size_resize_inv:
  assumes inv: "size_inv inorder s" and ks: "set ks = insert i (dom (lcTamanhos (szLog s)))"
  shows "size_inv inorder (size_resize ks i cols rows quadro s)"
proof (cases "cols < 2 \<or> rows < 1 \<or> cols > 1000 \<or> rows > 1000")
  case True
  with inv show ?thesis
    by (auto simp: size_inv_def size_ok_def settles_def size_resize_def registraTamanho_def carry_def aplicaTamanho_def)
next
  case False
  let ?t = "\<lparr>tcCols = cols, tcRows = rows, tcQuadro = quadro\<rparr>"
  let ?c = "(szLog s)\<lparr>lcTamanhos := (lcTamanhos (szLog s))(i \<mapsto> ?t)\<rparr>"
  obtain c' ec er mudou aps where r: "recalcula ks ?c = (c', ec, er, mudou, aps)"
    by (cases "recalcula ks ?c")
  have "ran ((lcTamanhos (szLog s))(i \<mapsto> ?t)) \<subseteq> insert ?t (ran (lcTamanhos (szLog s)))"
    by (auto simp: ran_def)
  then have ok: "sizes_ok (lcTamanhos ?c)"
    using inv False by (auto simp: size_inv_def size_ok_def sizes_ok_def)
  have old: "lcCols ?c = 0 \<and> lcRows ?c = 0 \<or> 2 \<le> lcCols ?c \<and> 1 \<le> lcRows ?c"
    using inv by (simp add: size_inv_def size_ok_def)
  show ?thesis
    using recalcula_inv(1) [OF ok _ r old] recalcula_inv(2) [OF ok _ r old, where s = s and ys = "[(ec, er, i)]" and i = i]
      inv ks False r
    by (auto simp: size_inv_def size_resize_def registraTamanho_def)
qed

lemma size_leave_inv:
  assumes inv: "size_inv inorder s" and ks: "set ks = dom (lcTamanhos (szLog s)) - {i}"
  shows "size_inv inorder (size_leave ks i s)"
proof -
  let ?c = "(szLog s)\<lparr>lcTamanhos := (lcTamanhos (szLog s))(i := None), lcAplicadores := removeAll i (lcAplicadores (szLog s))\<rparr>"
  obtain c' ec er mudou aps where r: "recalcula ks ?c = (c', ec, er, mudou, aps)"
    by (cases "recalcula ks ?c")
  have "ran ((lcTamanhos (szLog s))(i := None)) \<subseteq> ran (lcTamanhos (szLog s))"
    by (auto simp: ran_def split: if_splits)
  then have ok: "sizes_ok (lcTamanhos ?c)"
    using inv by (auto simp: size_inv_def size_ok_def sizes_ok_def)
  have old: "lcCols ?c = 0 \<and> lcRows ?c = 0 \<or> 2 \<le> lcCols ?c \<and> 1 \<le> lcRows ?c"
    using inv by (simp add: size_inv_def size_ok_def)
  show ?thesis
    using recalcula_inv(1) [OF ok _ r old] recalcula_inv(2) [OF ok _ r old, where s = s and ys = "[]"] inv ks r
    by (auto simp: size_inv_def size_leave_def esqueceTamanho_def)
qed

lemma size_apply_inv:
  assumes "size_inv inorder s" "n < length (szPend s)"
    and "inorder \<longrightarrow> snd (snd (szPend s ! n)) \<notin> (\<lambda>x. snd (snd x)) ` set (take n (szPend s))"
  shows "size_inv inorder (size_apply n s)"
proof -
  have "szLog (size_apply n s) = szLog s" by (simp add: size_apply_def)
  then show ?thesis
    using assms size_apply_settled [OF assms(2)] by (auto simp: size_inv_def settles_def)
qed

interpretation session_size: inductive_invariant fresh_sizes "size_step inorder" "size_inv inorder" for inorder
proof
  show "size_inv inorder s" if "fresh_sizes s" for s
    using that by (auto simp: fresh_sizes_def size_inv_def size_ok_def settles_def no_sizes_def novo_log_def sizes_ok_def)
  show "size_inv inorder t" if "size_inv inorder s" "size_step inorder s t" for s t
    using that(2,1) by cases (auto intro: size_join_inv size_resize_inv size_leave_inv size_apply_inv)
qed

text \<open>
  C12. The size of a session, after any joins, resizes and departures of its connections, in every interleaving of the
  computations under the lock with the applications outside it: while a connection has a size, the session has the largest of those
  that accept a frame, limited by the smallest of those that do not, so a client that left no longer counts, and no client that
  draws the raw stream is smaller than the session. As long as no application overtook an older one for the same connection, what is
  still to be applied leaves every connection with that size, and a connection for which nothing is pending has it already.
\<close>

theorem session_size_agreed:
  assumes "reach fresh_sizes (size_step inorder) s" and "szLog s = c" and "lcTamanhos c \<noteq> Map.empty"
  shows "lcCols c = session_dim tcCols (ran (lcTamanhos c)) \<and> lcRows c = session_dim tcRows (ran (lcTamanhos c))
    \<and> (\<forall>t \<in> ran (lcTamanhos c). \<not> tcQuadro t \<longrightarrow> lcCols c \<le> tcCols t \<and> lcRows c \<le> tcRows t)
    \<and> (inorder \<longrightarrow> (\<forall>i \<in> set (lcAplicadores c).
          fold carry (szPend s) (szPtys s) i = Some (lcCols c, lcRows c)
        \<and> (i \<notin> (\<lambda>x. snd (snd x)) ` set (szPend s) \<longrightarrow> szPtys s i = Some (lcCols c, lcRows c))))"
proof -
  have I: "size_ok c" "inorder \<longrightarrow> settles s"
    using session_size.inv_reach [OF assms(1)] assms(2) by (auto simp: size_inv_def)
  have ok: "sizes_ok (lcTamanhos c)" using I by (simp add: size_ok_def)
  have "0 < lcCols c" using I assms(3) dims_range [OF ok assms(3)] by (auto simp: size_ok_def)
  then have "inorder \<longrightarrow> (\<forall>i \<in> set (lcAplicadores c). fold carry (szPend s) (szPtys s) i = Some (lcCols c, lcRows c))"
    using I(2) assms(2) by (simp add: settles_def)
  moreover have "session_dim f (ran (lcTamanhos c)) \<le> f t" if "t \<in> ran (lcTamanhos c)" "\<not> tcQuadro t" for f t
  proof -
    have "finite (ran (lcTamanhos c))" using ok by (simp add: sizes_ok_def finite_ran)
    then have "Min (f ` {t \<in> ran (lcTamanhos c). \<not> tcQuadro t}) \<le> f t" using that by (intro Min_le) auto
    then show ?thesis using that by (auto simp: session_dim_def Let_def)
  qed
  ultimately show ?thesis using I(1) assms(3) fold_carry_other [of _ "szPend s" "szPtys s"] by (auto simp: size_ok_def)
qed

text \<open>
  A desktop of 120 by 40 that accepts frames and a phone of 53 by 45 that does not; the second resize is computed before the first one
  has been applied to either connection, and three of the four applications have run.
\<close>

definition two_joined :: sizes where
  "two_joined = size_join 2 (size_join 1 (no_sizes (novo_log True '''' None)))"

definition two_sizes :: sizes where
  "two_sizes = size_resize [2, 1] 2 53 45 False (size_resize [1] 1 120 40 True two_joined)"

definition first_applied :: sizes where
  "first_applied = size_apply 1 two_sizes"

definition two_applied :: sizes where
  "two_applied = size_apply 0 (size_apply 0 first_applied)"

lemma two_sizes_pend:
  "szPend two_sizes = [(120, 40, 2), (120, 40, 1), (53, 40, 2), (53, 40, 1)]"
  "szPend first_applied = [(120, 40, 2), (53, 40, 2), (53, 40, 1)]"
  "szPend (size_apply 0 first_applied) = [(53, 40, 2), (53, 40, 1)]"
  "szPend two_applied = [(53, 40, 1)]"
  by code_simp+

lemma two_sizes_reached: "reach fresh_sizes (size_step inorder) two_sizes"
proof -
  have "reach fresh_sizes (size_step inorder) (no_sizes (novo_log True '''' None))"
    by (rule reach.reach_init) (auto simp: fresh_sizes_def)
  then have "reach fresh_sizes (size_step inorder) two_joined"
    unfolding two_joined_def by (meson reach.reach_step size_step.joins)
  moreover have "size_step inorder two_joined (size_resize [1] 1 120 40 True two_joined)"
    by (rule size_step.resizes) (simp add: two_joined_def size_join_def registraAplicador_def no_sizes_def novo_log_def)
  moreover have "size_step inorder (size_resize [1] 1 120 40 True two_joined) two_sizes"
    unfolding two_sizes_def
    by (rule size_step.resizes)
       (simp add: two_joined_def size_join_def size_resize_def registraTamanho_def registraAplicador_def no_sizes_def novo_log_def
         recalcula_def tam_step_def com_teto_def List.map_filter_def insert_commute)
  ultimately show ?thesis by (meson reach.reach_step)
qed

lemma two_applied_reached: "reach fresh_sizes (size_step True) two_applied"
proof -
  have "size_step True two_sizes first_applied"
    unfolding first_applied_def by (rule size_step.applies) (simp_all add: two_sizes_pend)
  moreover have "size_step True first_applied (size_apply 0 first_applied)"
    by (rule size_step.applies) (simp_all add: two_sizes_pend)
  moreover have "size_step True (size_apply 0 first_applied) two_applied"
    unfolding two_applied_def by (rule size_step.applies) (simp_all add: two_sizes_pend)
  ultimately show ?thesis using two_sizes_reached by (meson reach.reach_step)
qed

theorem session_size_agreed_witness:
  "lcCols (szLog two_applied) = 53 \<and> lcRows (szLog two_applied) = 40
    \<and> lcCols (szLog two_applied) = session_dim tcCols (ran (lcTamanhos (szLog two_applied)))
    \<and> szPtys two_applied 2 = Some (53, 40) \<and> szPtys two_applied 1 = Some (120, 40)"
proof -
  have "lcTamanhos (szLog two_applied) 1 \<noteq> None" by code_simp
  then have "lcTamanhos (szLog two_applied) \<noteq> Map.empty" by auto
  moreover have "lcCols (szLog two_applied) = 53" "lcRows (szLog two_applied) = 40" "2 \<in> set (lcAplicadores (szLog two_applied))"
    "szPtys two_applied 1 = Some (120, 40)" by code_simp+
  ultimately show ?thesis
    using session_size_agreed [OF two_applied_reached refl] by (auto simp: two_sizes_pend)
qed

text \<open>
  Applications that overtake one another leave the connections with a size that is no longer the session's, and nothing pending would
  correct it: the applications of the second resize run before those of the first.
\<close>

definition overtaken :: sizes where
  "overtaken = fold size_apply [2, 2, 0, 0] two_sizes"

lemma late_application_disagrees:
  "szPend overtaken = [] \<and> lcCols (szLog overtaken) = 53 \<and> lcRows (szLog overtaken) = 40
    \<and> szPtys overtaken 1 = Some (120, 40) \<and> szPtys overtaken 2 = Some (120, 40)"
  by code_simp

lemma size_applies_reach:
  "reach fresh_sizes (size_step False) s \<Longrightarrow> reach fresh_sizes (size_step False) (fold size_apply ns s)"
proof (induction ns arbitrary: s)
  case (Cons n ns)
  have "reach fresh_sizes (size_step False) (size_apply n s)"
  proof (cases "n < length (szPend s)")
    case True
    then show ?thesis using Cons.prems size_step.applies [of n s False] by (auto intro: reach.reach_step)
  qed (use Cons.prems in \<open>simp add: size_apply_def\<close>)
  with Cons.IH show ?case by simp
qed simp

lemma late_application_reached: "reach fresh_sizes (size_step False) overtaken"
  unfolding overtaken_def by (rule size_applies_reach [OF two_sizes_reached])

end
