(* ===== verification/SessionStream.thy ===== *)
theory SessionStream
  imports SessionLogProps
begin

text \<open>
  What the log of a session holds: no chunk twice when several connections deliver the same output, and the output of the program
  without the multiplexer's messages however it is cut into chunks.
\<close>

section \<open>One scribe at a time\<close>

text \<open>
  The connections of a session receive the same output. A delivery says when, to whom, and which bytes; every connection has its own
  writer, and they share the log.
\<close>

fun es_group :: "lhost \<Rightarrow> (nanos \<times> nat \<times> string) list \<Rightarrow> (nat \<Rightarrow> escritorDaSessao) \<times> logCompartilhado
    \<Rightarrow> (nat \<Rightarrow> escritorDaSessao) \<times> logCompartilhado" where
  "es_group L [] s = s"
| "es_group L ((t, i, p) # ds) s =
     (let (e', c', n) = es_Write L t p (fst s i) (snd s) in es_group L ds ((fst s)(i := e'), c'))"

text \<open>Every delivery to a connection other than \<open>i\<close> comes before the lease that the last recorded write started has run out.\<close>

fun arrendado :: "lhost \<Rightarrow> nat \<Rightarrow> (nanos \<times> nat \<times> string) list \<Rightarrow> (nat \<Rightarrow> escritorDaSessao) \<times> logCompartilhado \<Rightarrow> bool" where
  "arrendado L i [] s \<longleftrightarrow> True"
| "arrendado L i ((t, j, p) # ds) s \<longleftrightarrow>
     (j \<noteq> i \<longrightarrow> t < lcUltima (snd s) + validadeDoArrendamento)
   \<and> arrendado L i ds (es_group L [(t, j, p)] s)"

text \<open>
  A writer that has recorded nothing has no tail, so that its farewell undoes nothing; without the lease it leaves the log, the lease
  and its own tail as they are.
\<close>

lemma es_Write_other:
  assumes "es_Write L t p e c = (e', c', n)" "esCauda e = ''''" "\<not> pode_escrever t (esId e) c"
  shows "c' = c" "esCauda e' = ''''" "esId e' = esId e"
proof -
  have r: "c\<lparr>lcW := lcW c\<rparr> = c" by simp
  have "c' = c \<and> esCauda e' = '''' \<and> esId e' = esId e"
    using assms
    by (auto simp: es_Write_def apara_inicio_def apara_despedida_def r Let_def split: if_splits option.splits prod.splits)
  then show "c' = c" "esCauda e' = ''''" "esId e' = esId e" by blast+
qed

lemma es_Write_scribe:
  assumes "es_Write L t p e c = (e', c', n)" "lcEscriba c = esId e"
  shows "lcEscriba c' = esId e" "esId e' = esId e"
proof -
  have "lcEscriba c' = esId e \<and> esId e' = esId e"
    using assms
    by (auto simp: es_Write_def apara_inicio_def apara_despedida_def pode_escrever_def Let_def
      split: if_splits option.splits prod.splits)
  then show "lcEscriba c' = esId e" "esId e' = esId e" by blast+
qed

text \<open>The scribe \<open>i\<close> holds the lease, and the others have recorded nothing.\<close>

definition scribe_holds :: "nat \<Rightarrow> (nat \<Rightarrow> escritorDaSessao) \<times> logCompartilhado \<Rightarrow> bool" where
  "scribe_holds i s \<longleftrightarrow> i \<noteq> 0 \<and> lcEscriba (snd s) = i \<and> (\<forall>j. esId (fst s j) = j \<and> (j \<noteq> i \<longrightarrow> esCauda (fst s j) = ''''))"

lemma other_leaves_no_trace:
  assumes "scribe_holds i (es, c)" "j \<noteq> i" "t < lcUltima c + validadeDoArrendamento" "es_Write L t p (es j) c = (e', c', n)"
  shows "c' = c" "scribe_holds i (es(j := e'), c)"
proof -
  have "\<not> pode_escrever t (esId (es j)) c"
    using assms(1-3) by (auto simp: scribe_holds_def pode_escrever_def)
  then show "c' = c" "scribe_holds i (es(j := e'), c)"
    using es_Write_other [OF assms(4)] assms(1,2) by (auto simp: scribe_holds_def)
qed

lemma scribe_goes_on:
  assumes "scribe_holds i (es, c)" "es_Write L t p (es i) c = (e', c', n)"
  shows "scribe_holds i (es(i := e'), c')"
  using assms es_Write_scribe [OF assms(2)] by (auto simp: scribe_holds_def)

text \<open>The runs with and without the others' deliveries agree on the log and on the scribe's writer.\<close>

lemma es_group_scribe:
  assumes "scribe_holds i (es, c)" "arrendado L i ds (es, c)" "fs i = es i"
  shows "snd (es_group L ds (es, c)) = snd (es_group L (filter (\<lambda>(t, j, p). j = i) ds) (fs, c))"
  using assms
proof (induction ds arbitrary: es fs c)
  case (Cons d ds)
  obtain t j p where d: "d = (t, j, p)" by (cases d)
  obtain e' c' n where w: "es_Write L t p (es j) c = (e', c', n)" by (cases "es_Write L t p (es j) c")
  show ?case
  proof (cases "j = i")
    case True
    note w' = w [unfolded True]
    have "arrendado L i ds (es(i := e'), c')" "(fs(i := e')) i = (es(i := e')) i"
      using Cons.prems(2) w' d True by simp_all
    with Cons.IH scribe_goes_on [OF Cons.prems(1) w'] have
      "snd (es_group L ds (es(i := e'), c')) = snd (es_group L (filter (\<lambda>(t, j, p). j = i) ds) (fs(i := e'), c'))"
      by blast
    then show ?thesis using Cons.prems(3) w' d True by simp
  next
    case False
    then have "t < lcUltima c + validadeDoArrendamento" using Cons.prems(2) d by simp
    note o = other_leaves_no_trace [OF Cons.prems(1) False this w]
    have "arrendado L i ds (es(j := e'), c)" "fs i = (es(j := e')) i"
      using Cons.prems(2,3) w d False o(1) by simp_all
    with Cons.IH o(2) have
      "snd (es_group L ds (es(j := e'), c)) = snd (es_group L (filter (\<lambda>(t, j, p). j = i) ds) (fs, c))"
      by blast
    then show ?thesis using w d False o(1) by simp
  qed
qed simp

text \<open>
  C28. While the scribe keeps its lease, what the other connections of the session deliver leaves no trace: the shared log, bytes and
  lease, ends exactly as if only the scribe's deliveries had happened, so a chunk that every connection receives is recorded
  once. The others have not recorded anything before (a former scribe's farewell does cut the log), and each of their chunks,
  in any interleaving with the scribe's, arrives before the lease of the scribe's last recorded write has run out.
\<close>

theorem no_chunk_recorded_twice:
  assumes "scribe_holds i (es, c)" and "arrendado L i ds (es, c)"
  shows "snd (es_group L ds (es, c)) = snd (es_group L (filter (\<lambda>(t, j, p). j = i) ds) (es, c))"
  using es_group_scribe [of i es c L ds es] assms by simp

definition fresh_writer :: "nat \<Rightarrow> escritorDaSessao" where
  "fresh_writer i = \<lparr>esId = i, esPrimeiro = False, esInicio = '''', esCauda = '''', esDespediu = False\<rparr>"

definition lhost_ok :: lhost where
  "lhost_ok = \<lparr>lhFault = None, lhRename = True, lhReopen = True, lhTruncate = True\<rparr>"

definition scribe_one :: logCompartilhado where
  "scribe_one = (novo_log True '''' None)\<lparr>lcEscriba := 1\<rparr>"

lemmas es_eval = es_Write_def apara_inicio_def apara_despedida_def corte_despedida_def pode_escrever_def textoDeSaidaDoDtach_def
  marcaDeSaidaDoDtach_def validadeDoArrendamento_def nova_cauda_def bytesDeCauda_def lw_Write_def descartaUltimos_def lf_write_def
  maxSessionLogBytes_def lhost_ok_def fresh_writer_def scribe_one_def novo_log_def abreEscritor_def HasPrefix_def Let_def

theorem no_chunk_recorded_twice_witness:
  "lwCur (lcW (snd (es_group lhost_ok [(0, 1, ''a''), (5, 2, ''a''), (9, 2, ''b''), (12, 1, ''b'')] (fresh_writer, scribe_one)))) = ''ab''"
proof -
  let ?ds = "[(0, 1, ''a''), (5, 2, ''a''), (9, 2, ''b''), (12, 1, ''b'')] :: (nanos \<times> nat \<times> string) list"
  have h: "scribe_holds 1 (fresh_writer, scribe_one)"
    by (simp add: scribe_holds_def fresh_writer_def scribe_one_def)
  have a: "arrendado lhost_ok 1 ?ds (fresh_writer, scribe_one)" by (simp add: es_eval)
  have f: "filter (\<lambda>(t, j, p). j = 1) ?ds = [(0, 1, ''a''), (12, 1, ''b'')]" by simp
  have "lwCur (lcW (snd (es_group lhost_ok [(0, 1, ''a''), (12, 1, ''b'')] (fresh_writer, scribe_one)))) = ''ab''"
    by (simp add: es_eval)
  then show ?thesis
    using no_chunk_recorded_twice [OF h a] f by simp
qed

text \<open>A silence longer than the lease is enough for another connection to take over, although the scribe is alive.\<close>

lemma silence_changes_the_scribe:
  "(let s = es_group lhost_ok [(0, 1, ''a''), (2000000000, 2, ''b''), (2000000001, 1, ''b''), (2000000002, 1, ''c'')]
      (fresh_writer, novo_log True '''' None)
    in lwCur (lcW (snd s)) = ''ab'' \<and> lcEscriba (snd s) = 2)"
  by (simp add: es_eval)

text \<open>
  The farewell of a connection that was the scribe before is cut off without looking at the lease: it removes bytes that another
  connection has recorded since.
\<close>

lemma former_scribe_cuts_the_log:
  "lwCur (lcW (snd (es_group lhost_ok
      [(0, 1, ''a'' @ marcaDeSaidaDoDtach), (2000000000, 2, ''important''), (2000000001, 1, textoDeSaidaDoDtach)]
      (fresh_writer, novo_log True '''' None)))) = ''a'' @ marcaDeSaidaDoDtach @ ''imp''"
  by (simp add: es_eval)

section \<open>Slices\<close>

text \<open>
  C30. Reading the end of the log at an offset, from one or both generations, gives exactly the last bytes of the two generations
  put together, without reading the rest.
\<close>

theorem lerCauda_is_the_tail:
  "lerCauda prev cur m = (drop (length (readLogRotated prev cur) - m) (readLogRotated prev cur), length (readLogRotated prev cur))"
proof -
  let ?p = "str_or prev" and ?c = "str_or cur"
  let ?m = "if m > length ?p + length ?c then length ?p + length ?c else m"
  have e: "length ?p + length ?c - ?m = length ?p + length ?c - m" by simp
  show ?thesis
    unfolding lerCauda_def readLogRotated_def Let_def read_at_def e
    by (auto simp: drop_append)
qed

section \<open>Searching\<close>

lemma Index_Some:
  "bytes_Index s p = Some i \<longleftrightarrow> i \<le> length s \<and> HasPrefix (drop i s) p \<and> (\<forall>j < i. \<not> HasPrefix (drop j s) p)"
proof (induction s arbitrary: i)
  case Nil
  then show ?case by (cases p) auto
next
  case (Cons c s)
  show ?case
    using Cons by (cases i) (auto simp: less_Suc_eq_0_disj)
qed

lemma all_le_Suc: "(\<forall>i \<le> Suc n. P i) \<longleftrightarrow> P 0 \<and> (\<forall>i \<le> n. P (Suc i))"
proof (intro iffI allI impI conjI)
  fix i
  assume "P 0 \<and> (\<forall>i \<le> n. P (Suc i))" "i \<le> Suc n"
  then show "P i" by (cases i) auto
qed auto

lemma Index_None: "bytes_Index s p = None \<longleftrightarrow> (\<forall>i \<le> length s. \<not> HasPrefix (drop i s) p)"
proof (induction s)
  case Nil
  then show ?case by (cases p) auto
next
  case (Cons c s)
  then show ?case by (simp add: all_le_Suc)
qed

lemma LastIndex_None: "bytes_LastIndex s p = None \<longleftrightarrow> (\<forall>i \<le> length s. \<not> HasPrefix (drop i s) p)"
proof (induction s)
  case Nil
  then show ?case by (cases p) auto
next
  case (Cons c s)
  then show ?case by (auto simp: all_le_Suc split: option.split)
qed

lemma LastIndex_Some:
  "bytes_LastIndex s p = Some i \<longleftrightarrow>
     i \<le> length s \<and> HasPrefix (drop i s) p \<and> (\<forall>j \<le> length s. i < j \<longrightarrow> \<not> HasPrefix (drop j s) p)"
proof (induction s arbitrary: i)
  case Nil
  then show ?case by (cases p) auto
next
  case (Cons c s)
  show ?case
  proof (cases "bytes_LastIndex s p")
    case None
    then have "\<forall>j \<le> length s. \<not> HasPrefix (drop j s) p" by (simp only: LastIndex_None)
    with None show ?thesis by (cases i) (auto simp: all_le_Suc)
  next
    case (Some k)
    then have K: "k \<le> length s" "HasPrefix (drop k s) p" using Cons [of k] by simp_all
    show ?thesis
    proof (cases i)
      case 0
      with Some K show ?thesis by (auto simp: all_le_Suc)
    next
      case (Suc i')
      with Some Cons [of i'] show ?thesis by (simp add: all_le_Suc)
    qed
  qed
qed

lemma HasPrefix_take: "HasPrefix s p \<longleftrightarrow> take (length p) s = p"
  unfolding HasPrefix_iff_prefix prefix_def by (metis append_eq_conv_conj append_take_drop_id)

text \<open>The first and the last occurrence in the rest of a string, and the first one in an extension of it.\<close>

lemma Index_drop: "bytes_Index s p = Some i \<Longrightarrow> k \<le> i \<Longrightarrow> bytes_Index (drop k s) p = Some (i - k)"
  by (auto simp: Index_Some)

lemma LastIndex_drop: "bytes_LastIndex s p = Some j \<Longrightarrow> k \<le> j \<Longrightarrow> bytes_LastIndex (drop k s) p = Some (j - k)"
  by (auto simp: LastIndex_Some)

lemma Index_append: "bytes_Index s p = Some i \<Longrightarrow> p \<noteq> '''' \<Longrightarrow> bytes_Index (s @ t) p = Some i"
proof -
  assume a: "bytes_Index s p = Some i" "p \<noteq> ''''"
  have len: "i + length p \<le> length s"
    using a by (auto simp: Index_Some HasPrefix_iff_prefix dest: prefix_length_le)
  have "\<not> HasPrefix (drop j (s @ t)) p" if j: "j < i" for j
  proof
    assume "HasPrefix (drop j (s @ t)) p"
    then have "take (length p) (drop j (s @ t)) = p"
      by (simp only: HasPrefix_take)
    moreover have "take (length p) (drop j (s @ t)) = take (length p) (drop j s)"
      using len j by simp
    ultimately have "HasPrefix (drop j s) p"
      by (simp only: HasPrefix_take)
    with a j show False by (auto simp: Index_Some)
  qed
  moreover have "HasPrefix (drop i (s @ t)) p"
    using a len by (auto simp: Index_Some HasPrefix_iff_prefix)
  ultimately show ?thesis using a by (simp add: Index_Some)
qed

lemma Index_new: "bytes_Index s p = None \<Longrightarrow> bytes_Index (s @ t) p = Some i \<Longrightarrow> length s < i + length p"
proof (rule ccontr)
  assume n: "bytes_Index s p = None" "bytes_Index (s @ t) p = Some i" "\<not> length s < i + length p"
  then have "take (length p) (drop i (s @ t)) = take (length p) (drop i s)" "i \<le> length s" by simp_all
  moreover have "take (length p) (drop i (s @ t)) = p"
    using n(2) by (simp only: Index_Some HasPrefix_take)
  ultimately have "HasPrefix (drop i s) p"
    by (simp only: HasPrefix_take)
  with n(1) \<open>i \<le> length s\<close> show False by (simp add: Index_None)
qed

lemma Index_suffix_None: "bytes_Index (s @ t) p = None \<Longrightarrow> bytes_Index t p = None"
  unfolding Index_None by (metis add_le_cancel_left append_eq_conv_conj drop_drop length_append add.commute)

section \<open>What the program painted\<close>

text \<open>
  The bytes of a connection without the clearing of the screen at their start; while they may still become it, nothing.
\<close>

definition pendente :: "string \<Rightarrow> bool" where
  "pendente x \<longleftrightarrow> length x < length limpezaDeAttachDoDtach \<and> HasPrefix limpezaDeAttachDoDtach x"

definition pintado :: "string \<Rightarrow> string" where
  "pintado x = (if pendente x then '''' else TrimPrefix x limpezaDeAttachDoDtach)"

definition ultimos :: "string \<Rightarrow> string" where
  "ultimos y = drop (length y - bytesDeCauda) y"

lemma pintado_open:
  assumes "\<not> pendente a"
  shows "pintado (a @ b) = pintado a @ b" "\<not> pendente (a @ b)"
proof -
  show np: "\<not> pendente (a @ b)"
    using assms by (auto simp: pendente_def HasPrefix_iff_prefix dest: append_prefixD)
  show "pintado (a @ b) = pintado a @ b"
  proof (cases "HasPrefix a limpezaDeAttachDoDtach")
    case True
    then show ?thesis
      using assms np by (auto simp: pintado_def TrimPrefix_def HasPrefix_iff_prefix prefix_def)
  next
    case False
    have "\<not> HasPrefix (a @ b) limpezaDeAttachDoDtach"
    proof
      assume "HasPrefix (a @ b) limpezaDeAttachDoDtach"
      then have "prefix limpezaDeAttachDoDtach (a @ b)" "prefix a (a @ b)" by (simp_all add: HasPrefix_iff_prefix)
      then have "prefix a limpezaDeAttachDoDtach \<or> prefix limpezaDeAttachDoDtach a"
        by (metis prefix_same_cases)
      moreover have "a = limpezaDeAttachDoDtach" if "prefix a limpezaDeAttachDoDtach"
        using that assms
        by (metis pendente_def HasPrefix_iff_prefix not_less prefix_length_prefix prefix_order.order_refl prefix_order.eq_iff)
      ultimately show False using False by (auto simp: HasPrefix_iff_prefix)
    qed
    with False assms np show ?thesis by (simp add: pintado_def TrimPrefix_def)
  qed
qed

lemma pintado_ext: "\<exists>r. pintado (a @ b) = pintado a @ r"
  using pintado_open(1) [of a b] by (cases "pendente a") (auto simp: pintado_def)

lemma pintado_length: "length (pintado x) \<le> length x"
  by (simp add: pintado_def TrimPrefix_def)

lemma nova_cauda_ultimos: "nova_cauda (ultimos y) p = ultimos (y @ p)"
proof (cases "length y \<le> bytesDeCauda")
  case True
  then show ?thesis by (auto simp: nova_cauda_def ultimos_def Let_def)
next
  case False
  then have "length p = 0 \<or> length y + length p - (length y - bytesDeCauda) > bytesDeCauda" by auto
  with False show ?thesis by (auto simp: nova_cauda_def ultimos_def Let_def add.commute)
qed

text \<open>The writer holds what was there when it was opened and \<open>y\<close> after it.\<close>

definition gravando :: "string \<Rightarrow> string \<Rightarrow> sessionLogWriter \<Rightarrow> bool" where
  "gravando d y w \<longleftrightarrow>
     (case lwFile w of None \<Rightarrow> False | Some f \<Rightarrow> lfAppend f \<and> lfData f = d @ y)
   \<and> lwSize w = length (d @ y) \<and> lwCur w = d @ y"

lemma gravando_write:
  "gravando d y w \<Longrightarrow> length (d @ y @ p) \<le> maxSessionLogBytes \<Longrightarrow> lhFault L = None \<Longrightarrow> gravando d (y @ p) (lw_Write L p w)"
  by (auto simp: gravando_def lw_Write_def lf_write_def Let_def split: option.splits)

lemma gravando_discard:
  "gravando d y w \<Longrightarrow> j \<le> length y \<Longrightarrow> lhTruncate L \<Longrightarrow> gravando d (take j y) (descartaUltimos L (length y - j) w)"
  by (auto simp: gravando_def descartaUltimos_def Let_def split: option.splits)

text \<open>The farewell is found in the tail and the chunk exactly where it is in everything written so far.\<close>

lemma corte_none:
  assumes "bytes_Index (y @ p) textoDeSaidaDoDtach = None"
  shows "corte_despedida (ultimos y @ p) = None"
proof -
  have "y @ p = take (length y - bytesDeCauda) y @ ultimos y @ p"
    by (simp add: ultimos_def)
  with assms have "bytes_Index (ultimos y @ p) textoDeSaidaDoDtach = None"
    by (metis Index_suffix_None)
  then show ?thesis by (simp add: corte_despedida_def)
qed

lemma corte_some:
  assumes new: "bytes_Index y textoDeSaidaDoDtach = None" "bytes_Index (y @ p) textoDeSaidaDoDtach = Some i"
    and mark: "bytes_LastIndex (take i (y @ p)) marcaDeSaidaDoDtach = Some j" "i - j \<le> 16"
  shows "length y - bytesDeCauda \<le> j" "corte_despedida (ultimos y @ p) = Some (j - (length y - bytesDeCauda))" "j \<le> i"
proof -
  let ?k = "length y - bytesDeCauda"
  have ji: "j \<le> i" using mark(1) by (auto simp: LastIndex_Some)
  have "length y < i + 10"
    using Index_new [OF new] by (simp add: textoDeSaidaDoDtach_def)
  then have kj: "?k \<le> j" using mark(2) ji by (simp add: bytesDeCauda_def)
  have u: "ultimos y @ p = drop ?k (y @ p)" by (simp add: ultimos_def)
  have I: "bytes_Index (ultimos y @ p) textoDeSaidaDoDtach = Some (i - ?k)"
    unfolding u using new(2) kj ji by (intro Index_drop) simp_all
  have "take (i - ?k) (ultimos y @ p) = drop ?k (take i (y @ p))"
    unfolding u by (simp only: drop_take)
  then have J: "bytes_LastIndex (take (i - ?k) (ultimos y @ p)) marcaDeSaidaDoDtach = Some (j - ?k)"
    using LastIndex_drop [OF mark(1) kj] by simp
  have "corte_despedida (ultimos y @ p) = (if i - ?k - (j - ?k) \<le> 16 then Some (j - ?k) else None)"
    by (simp only: corte_despedida_def I J option.case)
  with kj ji mark(2) show "?k \<le> j" "corte_despedida (ultimos y @ p) = Some (j - ?k)" "j \<le> i" by simp_all
qed

section \<open>A connection that writes\<close>

text \<open>The connection has received \<open>x\<close> and no farewell: it has written what the program painted, and remembers the end of it.\<close>

definition aberto :: "string \<Rightarrow> string \<Rightarrow> escritorDaSessao \<times> logCompartilhado \<Rightarrow> bool" where
  "aberto d x s \<longleftrightarrow>
     (case s of (e, c) \<Rightarrow>
        \<not> esDespediu e \<and> (esPrimeiro e \<longleftrightarrow> pendente x) \<and> (pendente x \<longrightarrow> esInicio e = x)
      \<and> esCauda e = ultimos (pintado x) \<and> gravando d (pintado x) (lcW c) \<and> (lcEscriba c = 0 \<or> lcEscriba c = esId e))"

text \<open>The farewell was recognised: what was painted before it is all that is written.\<close>

definition fechado :: "string \<Rightarrow> string \<Rightarrow> escritorDaSessao \<times> logCompartilhado \<Rightarrow> bool" where
  "fechado d z s \<longleftrightarrow> esDespediu (fst s) \<and> gravando d z (lcW (snd s))"

text \<open>A machine where every write and truncation works.\<close>

definition lh_ok :: "lhost \<Rightarrow> bool" where
  "lh_ok L \<longleftrightarrow> lhFault L = None \<and> lhTruncate L"

lemma inicio_cases:
  assumes "aberto d x (e, c)"
  obtains (waits) e1 where "apara_inicio p e = (e1, None)" "pendente (x @ p)" "pendente x" "e1 = e\<lparr>esInicio := x @ p\<rparr>"
  | (goes) e1 p1 where "apara_inicio p e = (e1, Some p1)" "\<not> pendente (x @ p)" "pintado x @ p1 = pintado (x @ p)"
      "\<not> esPrimeiro e1" "esCauda e1 = esCauda e" "esDespediu e1 = esDespediu e" "esId e1 = esId e"
proof (cases "pendente x")
  case True
  then have e: "esPrimeiro e" "esInicio e = x" "pintado x = ''''"
    using assms by (simp_all add: aberto_def pintado_def)
  show thesis
  proof (cases "pendente (x @ p)")
    case t: True
    then show thesis
      using waits [OF _ t True refl] e by (simp add: apara_inicio_def Let_def pendente_def)
  next
    case f: False
    have "apara_inicio p e = (e\<lparr>esPrimeiro := False, esInicio := ''''\<rparr>, Some (TrimPrefix (x @ p) limpezaDeAttachDoDtach))"
      using e f by (auto simp: apara_inicio_def Let_def pendente_def)
    moreover have "pintado (x @ p) = TrimPrefix (x @ p) limpezaDeAttachDoDtach"
      using f by (simp add: pintado_def)
    ultimately show thesis
      using f e by (intro goes [of "e\<lparr>esPrimeiro := False, esInicio := ''''\<rparr>" "TrimPrefix (x @ p) limpezaDeAttachDoDtach"]) simp_all
  qed
next
  case False
  then have "\<not> esPrimeiro e" using assms by (simp add: aberto_def)
  then show thesis
    using goes [of e p] pintado_open [OF False, of p] by (simp add: apara_inicio_def)
qed

lemma aberto_parts:
  assumes "aberto d x (e, c)"
  shows "\<not> esDespediu e" "esCauda e = ultimos (pintado x)" "gravando d (pintado x) (lcW c)" "lcEscriba c = 0 \<or> lcEscriba c = esId e"
  using assms by (simp_all add: aberto_def)

lemma fits_pintado: "length d + length x \<le> m \<Longrightarrow> length (d @ pintado x) \<le> m"
  using pintado_length [of x] by simp

lemma write_open:
  assumes a: "aberto d x (e, c)" and L: "lh_ok L" and fits: "length d + length (x @ p) \<le> maxSessionLogBytes"
    and n: "bytes_Index (pintado (x @ p)) textoDeSaidaDoDtach = None"
    and w: "es_Write L t p e c = (e', c', n')"
  shows "aberto d (x @ p) (e', c')"
proof (cases rule: inicio_cases [OF a, of p, case_names waits goes])
  case (waits e1)
  with w a show ?thesis by (auto simp: es_Write_def aberto_def pintado_def)
next
  case (goes e1 p1)
  note A = aberto_parts [OF a]
  have cn: "corte_despedida (ultimos (pintado x) @ p1) = None"
    using corte_none [of "pintado x" p1] n goes(3) by simp
  have g: "gravando d (pintado x @ p1) (lw_Write L p1 (lcW c))"
    using gravando_write [OF A(3), of p1 L] fits_pintado [OF fits] goes(3) L by (simp add: lh_ok_def)
  show ?thesis
    using w A goes cn g nova_cauda_ultimos [of "pintado x" p1]
    by (auto simp: es_Write_def aberto_def apara_despedida_def pode_escrever_def Let_def split: if_splits)
qed

lemma write_farewell:
  assumes a: "aberto d x (e, c)" and L: "lh_ok L" and fits: "length d + length (x @ p) \<le> maxSessionLogBytes"
    and none: "bytes_Index (pintado x) textoDeSaidaDoDtach = None"
    and w: "es_Write L t p e c = (e', c', n)"
    and f: "bytes_Index (pintado (x @ p)) textoDeSaidaDoDtach = Some i"
      "bytes_LastIndex (take i (pintado (x @ p))) marcaDeSaidaDoDtach = Some j" "i - j \<le> 16"
  shows "fechado d (take j (pintado (x @ p))) (e', c')"
proof (cases rule: inicio_cases [OF a, of p, case_names waits goes])
  case (waits e1)
  with f(1) show ?thesis by (simp add: pintado_def textoDeSaidaDoDtach_def)
next
  case (goes e1 p1)
  let ?y = "pintado x" and ?k = "length (pintado x) - bytesDeCauda"
  note A = aberto_parts [OF a]
  note C = corte_some [OF none, of p1 i j, unfolded goes(3), OF f]
  have W: "lhFault L = None" "lhTruncate L" using L by (simp_all add: lh_ok_def)
  have lu: "length (ultimos ?y) = length ?y - ?k" by (simp add: ultimos_def)
  have tk: "take j (pintado (x @ p)) = take j ?y @ take (j - length ?y) p1"
    unfolding goes(3) [symmetric] by simp
  have jk: "j - ?k - length (ultimos ?y) = j - length ?y" "j - ?k < length (ultimos ?y) \<longleftrightarrow> j < length ?y"
    using C(1) lu by auto
  show ?thesis
  proof (cases "j < length ?y")
    case True
    have "gravando d (take j ?y) (descartaUltimos L (length (ultimos ?y) - (j - ?k)) (lcW c))"
      using gravando_discard [OF A(3) _ W(2), of j] C(1) True lu by simp
    with True show ?thesis
      using w A goes C(2) jk tk by (auto simp: es_Write_def fechado_def apara_despedida_def Let_def)
  next
    case False
    have "length (d @ ?y @ take (j - length ?y) p1) \<le> length (d @ pintado (x @ p))"
      unfolding goes(3) [symmetric] by simp
    then have "gravando d (?y @ take (j - length ?y) p1) (lw_Write L (take (j - length ?y) p1) (lcW c))"
      using gravando_write [OF A(3) _ W(1)] fits_pintado [OF fits] by simp
    with False show ?thesis
      using w A goes C(2) jk tk
      by (auto simp: es_Write_def fechado_def apara_despedida_def pode_escrever_def Let_def split: if_splits)
  qed
qed

text \<open>The chunks of a connection, one after the other, each at its time.\<close>

fun es_run :: "lhost \<Rightarrow> (nanos \<times> string) list \<Rightarrow> escritorDaSessao \<times> logCompartilhado \<Rightarrow> escritorDaSessao \<times> logCompartilhado" where
  "es_run L [] s = s"
| "es_run L ((t, p) # cs) (e, c) = (let (e', c', n) = es_Write L t p e c in es_run L cs (e', c'))"

lemma fechado_stays: "fechado d z s \<Longrightarrow> fechado d z (es_run L cs s)"
proof (induction L cs s rule: es_run.induct)
  case (2 L t p cs e c)
  then show ?case by (simp add: fechado_def es_Write_def)
qed simp

lemma run_open:
  assumes "aberto d x s" "lh_ok L" "length d + length (x @ concat (map snd cs)) \<le> maxSessionLogBytes"
    and "bytes_Index (pintado (x @ concat (map snd cs))) textoDeSaidaDoDtach = None"
  shows "aberto d (x @ concat (map snd cs)) (es_run L cs s)"
  using assms
proof (induction L cs s arbitrary: x rule: es_run.induct)
  case (2 L t p cs e c)
  obtain e' c' n where w: "es_Write L t p e c = (e', c', n)" by (cases "es_Write L t p e c")
  obtain r where "pintado ((x @ p) @ concat (map snd cs)) = pintado (x @ p) @ r"
    using pintado_ext by blast
  then have "bytes_Index (pintado (x @ p)) textoDeSaidaDoDtach = None"
    using "2.prems"(4) Index_append [of "pintado (x @ p)" textoDeSaidaDoDtach _ r]
    by (cases "bytes_Index (pintado (x @ p)) textoDeSaidaDoDtach") (auto simp: textoDeSaidaDoDtach_def)
  then have "aberto d (x @ p) (e', c')"
    using write_open [OF "2.prems"(1,2) _ _ w] "2.prems"(3) by simp
  with "2.IH" [OF w [symmetric] refl refl, of "x @ p"] "2.prems" w show ?case by simp
qed simp

lemma run_farewell:
  assumes "aberto d x s" "lh_ok L" "length d + length (x @ concat (map snd cs)) \<le> maxSessionLogBytes"
    and "bytes_Index (pintado x) textoDeSaidaDoDtach = None"
    and "bytes_Index (pintado (x @ concat (map snd cs))) textoDeSaidaDoDtach = Some i"
    and "bytes_LastIndex (take i (pintado (x @ concat (map snd cs)))) marcaDeSaidaDoDtach = Some j" "i - j \<le> 16"
  shows "fechado d (take j (pintado (x @ concat (map snd cs)))) (es_run L cs s)"
  using assms
proof (induction L cs s arbitrary: x rule: es_run.induct)
  case (2 L t p cs e c)
  obtain e' c' n where w: "es_Write L t p e c = (e', c', n)" by (cases "es_Write L t p e c")
  obtain r where r: "pintado ((x @ p) @ concat (map snd cs)) = pintado (x @ p) @ r"
    using pintado_ext by blast
  have fits: "length d + length (x @ p) \<le> maxSessionLogBytes" using "2.prems"(3) by simp
  show ?case
  proof (cases "bytes_Index (pintado (x @ p)) textoDeSaidaDoDtach")
    case None
    have "aberto d (x @ p) (e', c')"
      using write_open [OF "2.prems"(1,2) fits None w] .
    with "2.IH" [OF w [symmetric] refl refl, of "x @ p"] "2.prems" w None show ?thesis by simp
  next
    case (Some i')
    have T: "textoDeSaidaDoDtach \<noteq> ''''" by (simp add: textoDeSaidaDoDtach_def)
    have i: "i' = i"
      using Index_append [OF Some T, of r] "2.prems"(5) r by simp
    then have "i \<le> length (pintado (x @ p))"
      using Some by (simp add: Index_Some)
    then have t: "take i (pintado (x @ p) @ r) = take i (pintado (x @ p))" "j \<le> i"
      using "2.prems"(6) r by (auto simp: LastIndex_Some)
    have m: "bytes_LastIndex (take i (pintado (x @ p))) marcaDeSaidaDoDtach = Some j"
      using "2.prems"(6) r unfolding t(1) [symmetric] by simp
    have "fechado d (take j (pintado (x @ p))) (e', c')"
      using write_farewell [OF "2.prems"(1,2) fits "2.prems"(4) w Some [unfolded i] m "2.prems"(7)] .
    moreover have "take j (pintado (x @ p @ concat (map snd cs))) = take j (pintado (x @ p))"
      using t(2) \<open>i \<le> length (pintado (x @ p))\<close> r by simp
    ultimately show ?thesis
      using fechado_stays [of d "take j (pintado (x @ p))" "(e', c')" L cs] w by simp
  qed
qed simp

text \<open>
  C27. The log of a session with one connection, its scribe, however its output is cut into chunks and whenever they arrive, as long
  as what was there and the output fit the file (it does not rotate) and the writes and the truncation work: when the word of the
  farewell does not occur, the log is what was there followed by the output without the clearing of the screen at its start;
  when its first occurrence is the multiplexer's farewell (the mark stands at most 16 bytes before it), everything from the mark on
  is missing, even where part of it was already written.
\<close>

theorem log_holds_what_was_painted:
  assumes "lh_ok L" "length d + length x \<le> maxSessionLogBytes" "concat (map snd cs) = x"
    and "es_run L cs (\<lparr>esId = 1, esPrimeiro = True, esInicio = '''', esCauda = '''', esDespediu = False\<rparr>, novo_log True d prev) = (e, c)"
  shows "(bytes_Index (pintado x) textoDeSaidaDoDtach = None \<longrightarrow> lwCur (lcW c) = d @ pintado x)
    \<and> (\<forall>i j. bytes_Index (pintado x) textoDeSaidaDoDtach = Some i
           \<and> bytes_LastIndex (take i (pintado x)) marcaDeSaidaDoDtach = Some j \<and> i - j \<le> 16
         \<longrightarrow> lwCur (lcW c) = d @ take j (pintado x))"
proof (intro conjI allI impI)
  let ?s = "(\<lparr>esId = 1, esPrimeiro = True, esInicio = '''', esCauda = '''', esDespediu = False\<rparr>, novo_log True d prev)"
  have p: "pendente ''''" "pintado '''' = ''''"
    by (simp_all add: pintado_def pendente_def limpezaDeAttachDoDtach_def)
  then have start: "aberto d '''' ?s"
    by (simp add: aberto_def novo_log_def abreEscritor_def gravando_def ultimos_def)
  have fits: "length d + length ('''' @ concat (map snd cs)) \<le> maxSessionLogBytes"
    using assms(2,3) by simp
  show "lwCur (lcW c) = d @ pintado x" if "bytes_Index (pintado x) textoDeSaidaDoDtach = None"
    using run_open [OF start assms(1) fits] that assms(3,4) by (simp add: aberto_def gravando_def)
  show "lwCur (lcW c) = d @ take j (pintado x)"
    if "bytes_Index (pintado x) textoDeSaidaDoDtach = Some i
      \<and> bytes_LastIndex (take i (pintado x)) marcaDeSaidaDoDtach = Some j \<and> i - j \<le> 16" for i j
  proof -
    have "bytes_Index (pintado '''') textoDeSaidaDoDtach = None" by (simp add: p textoDeSaidaDoDtach_def)
    then show ?thesis
      using run_farewell [OF start assms(1) fits] that assms(3,4) by (simp add: fechado_def gravando_def)
  qed
qed

text \<open>A farewell cut in two, after the clearing of the screen cut in two.\<close>

definition split_farewell :: "(nanos \<times> string) list" where
  "split_farewell =
     [(0, [CHR 0x1B, CHR ''['']), (1, ''H'' @ [CHR 0x1B] @ ''[Jls'' @ [CHR 0x0A] @ [CHR 0x1B] @ ''[99''),
      (2, ''9H'' @ [CHR 0x0D, CHR 0x0A] @ ''[deta''), (3, ''ched]'')]"

theorem log_holds_what_was_painted_witness:
  "lwCur (lcW (snd (es_run lhost_ok split_farewell
      (\<lparr>esId = 1, esPrimeiro = True, esInicio = '''', esCauda = '''', esDespediu = False\<rparr>, novo_log True ''$ '' None))))
     = ''$ ls'' @ [CHR 0x0A]"
proof -
  let ?x = "concat (map snd split_farewell)"
  have "lh_ok lhost_ok" by code_simp
  moreover have "length ''$ '' + length ?x \<le> maxSessionLogBytes"
    by (simp add: maxSessionLogBytes_def split_farewell_def)
  moreover have "bytes_Index (pintado ?x) textoDeSaidaDoDtach = Some 11" by code_simp
  moreover have "bytes_LastIndex (take 11 (pintado ?x)) marcaDeSaidaDoDtach = Some 3" by code_simp
  moreover have "''$ '' @ take 3 (pintado ?x) = ''$ ls'' @ [CHR 0x0A]" by code_simp
  ultimately show ?thesis
    using log_holds_what_was_painted [OF _ _ refl prod.collapse [symmetric], of lhost_ok "''$ ''" split_farewell None]
    by auto
qed

section \<open>Where the filter ends\<close>

text \<open>
  A rotated file is opened without the append mode, and truncating it leaves the offset behind the end: the next bytes follow a gap
  of zero bytes.
\<close>

definition rotated_log :: sessionLogWriter where
  "rotated_log = lw_Write lhost_ok ''abcd'' (rotateLocked lhost_ok (abreEscritor True ''x'' None))"

lemma discard_after_rotation_leaves_zeros:
  "lwCur (lw_Write lhost_ok ''e'' (descartaUltimos lhost_ok 2 rotated_log)) = ''ab'' @ [CHR 0x00, CHR 0x00] @ ''e''"
  by (simp add: rotated_log_def lw_Write_def rotateLocked_def abreEscritor_def descartaUltimos_def lhost_ok_def lf_write_def
      maxSessionLogBytes_def numeral_2_eq_2 Let_def)

text \<open>A program that printed the word of the farewell shortly before hides the real one: it is recorded.\<close>

lemma printed_word_hides_the_farewell:
  "corte_despedida (''[detached]'' @ [CHR 0x0A] @ [CHR 0x1B] @ ''[999H'' @ [CHR 0x0D, CHR 0x0A] @ ''[detached]'') = None"
  by code_simp

text \<open>At the end of a slice the word alone is enough to cut it off, although the program printed it.\<close>

lemma slice_cuts_printed_word: "semRuidoDoDtachNoFim (''$ echo [detached]'' @ [CHR 0x0A]) = ''$ echo ''"
  by code_simp

end
