(* ===== verification/Idempotency.thy ===== *)
theory Idempotency
  imports Prelude GoStrings
begin

text \<open>
  The table that lets a phone repeat a request without repeating its effect
  (\<^verbatim>\<open>internal/mobilebff/idempotencia.go\<close>, \<^verbatim>\<open>idempotencia_http.go\<close>): results by key, kept for a day, at most ten
  thousand of them, in a file that survives restarts.

  The action behind a key is a parameter that changes a world \<open>'w\<close>; encoding its result as JSON and decoding it again are
  parameters too. The entries are a Go map: \<open>None\<close> is the nil map, which a file with the document \<open>null\<close> leaves behind and which
  panics when it is written to. \<open>ord r\<close> is the order of the \<open>r\<close>-th range over the map. Milliseconds are far from the ends of \<open>int64\<close>.
\<close>

section \<open>The table\<close>

record entradaIdempotente =
  ieCorpo :: string
  ieStatus :: int
  ieQuando :: int

type_synonym tabela = "string \<rightharpoonup> entradaIdempotente"

record Idempotencia =
  idEntradas :: "tabela option"
  idArquivo :: "tabela option jsonfile"

definition validadeIdempotencia :: int where "validadeIdempotencia = 24 * 60 * 60 * 1000"
definition tetoIdempotencia :: nat where "tetoIdempotencia = 10000"

definition UnixMilli :: "nanos \<Rightarrow> int" where "UnixMilli t = t div 1000000"

definition carregar :: "tabela option jsonfile \<Rightarrow> tabela option" where
  "carregar f = (case f of Doc lido \<Rightarrow> lido | _ \<Rightarrow> Some Map.empty)"

definition NovaIdempotencia :: "tabela option jsonfile \<Rightarrow> Idempotencia" where
  "NovaIdempotencia f = \<lparr>idEntradas = carregar f, idArquivo = f\<rparr>"

text \<open>Reading a nil map finds nothing; deleting from it does nothing.\<close>

definition Lembrada :: "nanos \<Rightarrow> string \<Rightarrow> Idempotencia \<Rightarrow> Idempotencia \<times> (string \<times> int) option" where
  "Lembrada agora chave i =
     (if chave = '''' then (i, None)
      else case idEntradas i of
        None \<Rightarrow> (i, None)
      | Some m \<Rightarrow>
          (case m chave of
             None \<Rightarrow> (i, None)
           | Some e \<Rightarrow>
               if UnixMilli agora - ieQuando e > validadeIdempotencia then (i\<lparr>idEntradas := Some (m(chave := None))\<rparr>, None)
               else (i, Some (ieCorpo e, ieStatus e))))"

text \<open>One search for the oldest entry, and the rounds that remove it while there are too many; at most \<open>n\<close> rounds.\<close>

definition mais_velha :: "string list \<Rightarrow> tabela \<Rightarrow> string \<times> int" where
  "mais_velha ks m =
     fold (\<lambda>k (mv, q). case m k of None \<Rightarrow> (mv, q) | Some e \<Rightarrow> if ieQuando e < q then (k, ieQuando e) else (mv, q))
       ks ('''', 2 ^ 62)"

definition quantas :: "string list \<Rightarrow> tabela \<Rightarrow> nat" where
  "quantas ks m = length (filter (\<lambda>k. m k \<noteq> None) ks)"

fun podar_teto :: "(nat \<Rightarrow> string list) \<Rightarrow> nat \<Rightarrow> tabela \<Rightarrow> tabela" where
  "podar_teto ord 0 m = m"
| "podar_teto ord (Suc n) m =
     (if quantas (ord n) m > tetoIdempotencia
      then case mais_velha (ord n) m of (mv, _) \<Rightarrow> if mv = '''' then m else podar_teto ord n (m(mv := None))
      else m)"

text \<open>\<open>podar\<close>: every round removes an entry, so as many rounds as there are entries are enough.\<close>

definition podar :: "nanos \<Rightarrow> (nat \<Rightarrow> string list) \<Rightarrow> tabela \<Rightarrow> tabela" where
  "podar agora ord m =
     (let m1 = keep_vals (\<lambda>e. \<not> ieQuando e < UnixMilli agora - validadeIdempotencia) m
      in podar_teto ord (quantas (ord 0) m1) m1)"

definition gravar :: "bool \<Rightarrow> Idempotencia \<Rightarrow> Idempotencia" where
  "gravar ok i = (if ok then i\<lparr>idArquivo := Doc (idEntradas i)\<rparr> else i)"

text \<open>\<open>None\<close> is the panic of an assignment to a nil map.\<close>

definition Lembrar :: "bool \<Rightarrow> nanos \<Rightarrow> (nat \<Rightarrow> string list) \<Rightarrow> string \<Rightarrow> string \<Rightarrow> int \<Rightarrow> Idempotencia \<Rightarrow> Idempotencia option" where
  "Lembrar ok agora ord chave corpo status i =
     (if chave = '''' then Some i
      else case idEntradas i of
        None \<Rightarrow> None
      | Some m \<Rightarrow>
          Some (gravar ok (i\<lparr>idEntradas :=
            Some (podar agora ord (m(chave \<mapsto> \<lparr>ieCorpo = corpo, ieStatus = status, ieQuando = UnixMilli agora\<rparr>)))\<rparr>)))"

section \<open>Running an action once\<close>

definition chaveDeIdempotencia :: "string \<Rightarrow> string \<Rightarrow> string" where
  "chaveDeIdempotencia user cabecalho =
     (let c = TrimSpace cabecalho in if c = '''' \<or> user = '''' then '''' else user @ '':'' @ c)"

text \<open>
  An action: from a world to a world and an error, or a result that may be nil. \<open>tin\<close> is the time of the lookup, \<open>tout\<close> that of the
  storing. \<open>None\<close> is a panic.
\<close>

type_synonym ('w, 't) action = "'w \<Rightarrow> 'w \<times> (string + 't option)"

definition executar :: "('t \<Rightarrow> string option) \<Rightarrow> bool \<Rightarrow> nanos \<Rightarrow> (nat \<Rightarrow> string list) \<Rightarrow> string \<Rightarrow> ('w, 't) action
    \<Rightarrow> Idempotencia \<Rightarrow> 'w \<Rightarrow> (Idempotencia \<times> 'w \<times> (string + 't option)) option" where
  "executar enc ok tout ord chave fn i w =
     (let (w1, r) = fn w
      in case r of
           Inr (Some out) \<Rightarrow>
             (case enc out of
                None \<Rightarrow> Some (i, w1, r)
              | Some corpo \<Rightarrow> map_option (\<lambda>i1. (i1, w1, r)) (Lembrar ok tout ord chave corpo 200 i))
         | _ \<Rightarrow> Some (i, w1, r))"

definition lembrarResultado :: "('t \<Rightarrow> string option) \<Rightarrow> (string \<Rightarrow> 't option) \<Rightarrow> bool \<Rightarrow> nanos \<Rightarrow> nanos \<Rightarrow> (nat \<Rightarrow> string list)
    \<Rightarrow> string \<Rightarrow> ('w, 't) action \<Rightarrow> Idempotencia option \<Rightarrow> 'w
    \<Rightarrow> (Idempotencia option \<times> 'w \<times> (string + 't option)) option" where
  "lembrarResultado enc dec ok tin tout ord chave fn idem w =
     (case idem of
        None \<Rightarrow> Some (None, fn w)
      | Some i \<Rightarrow>
          if chave = '''' then Some (Some i, fn w)
          else let (i1, hit) = Lembrada tin chave i
               in case hit of
                    None \<Rightarrow> map_option (\<lambda>(i2, w1, r). (Some i2, w1, r)) (executar enc ok tout ord chave fn i1 w)
                  | Some (corpo, _) \<Rightarrow>
                      (case dec corpo of
                         Some g \<Rightarrow> Some (Some i1, w, Ok (Some g))
                       | None \<Rightarrow> map_option (\<lambda>(i2, w1, r). (Some i2, w1, r)) (executar enc ok tout ord chave fn i1 w)))"

end
