(* ===== verification/IdempotencyProps.thy ===== *)
theory IdempotencyProps
  imports Idempotency
begin

text \<open>
  An action repeated under its key is not run again, for a day, across other requests and restarts; and where that stops.
\<close>

section \<open>What stays in the table\<close>

definition enumera :: "(nat \<Rightarrow> string list) \<Rightarrow> bool" where
  "enumera ord \<longleftrightarrow> (\<forall>r. distinct (ord r))"

lemma quantas_le:
  assumes "enumera ord" "finite (dom m)"
  shows "quantas (ord r) m \<le> card (dom m)"
proof -
  have "quantas (ord r) m = card (set (filter (\<lambda>k. m k \<noteq> None) (ord r)))"
    using assms(1) by (simp only: quantas_def enumera_def distinct_card distinct_filter)
  also have "\<dots> \<le> card (dom m)"
    using assms(2) by (intro card_mono) auto
  finally show ?thesis .
qed

lemma podar_teto_small: "(\<And>r. quantas (ord r) m \<le> tetoIdempotencia) \<Longrightarrow> podar_teto ord n m = m"
  by (cases n) (simp_all add: leD)

lemma podar_small:
  assumes "enumera ord" "finite (dom m)" "card (dom m) \<le> tetoIdempotencia"
  shows "podar t ord m = keep_vals (\<lambda>e. \<not> ieQuando e < UnixMilli t - validadeIdempotencia) m"
proof -
  let ?m = "keep_vals (\<lambda>e. \<not> ieQuando e < UnixMilli t - validadeIdempotencia) m"
  have fin: "finite (dom ?m)" using dom_keep_vals assms(2) by (rule finite_subset)
  have "card (dom ?m) \<le> tetoIdempotencia"
    using card_mono [OF assms(2) dom_keep_vals] assms(3) by (rule le_trans)
  then have "podar_teto ord n ?m = ?m" for n
    using quantas_le [OF assms(1) fin] by (intro podar_teto_small) (rule le_trans)
  then show ?thesis by (simp add: podar_def Let_def)
qed

text \<open>The entry of a key, in memory and in the file.\<close>

definition guardada :: "string \<Rightarrow> string \<Rightarrow> int \<Rightarrow> Idempotencia \<Rightarrow> bool" where
  "guardada chave corpo q i \<longleftrightarrow>
     (case idEntradas i of None \<Rightarrow> False | Some m \<Rightarrow> m chave = Some \<lparr>ieCorpo = corpo, ieStatus = 200, ieQuando = q\<rparr>)
   \<and> (case idArquivo i of Doc (Some m) \<Rightarrow> m chave = Some \<lparr>ieCorpo = corpo, ieStatus = 200, ieQuando = q\<rparr> | _ \<Rightarrow> False)"

text \<open>
  What else happens to the table within the day: lookups of any key, results stored under other keys (their write may fail, the table
  stays below its limit), and restarts.
\<close>

inductive outros :: "string \<Rightarrow> int \<Rightarrow> Idempotencia \<Rightarrow> Idempotencia \<Rightarrow> bool" for chave q where
  nada: "outros chave q i i"
| consulta: "outros chave q i j \<Longrightarrow> UnixMilli t - q \<le> validadeIdempotencia \<Longrightarrow> outros chave q i (fst (Lembrada t k j))"
| guarda: "outros chave q i j \<Longrightarrow> UnixMilli t - q \<le> validadeIdempotencia \<Longrightarrow> k \<noteq> chave \<Longrightarrow> enumera ord \<Longrightarrow>
    idEntradas j = Some m \<Longrightarrow> finite (dom m) \<Longrightarrow> card (dom m) < tetoIdempotencia \<Longrightarrow>
    Lembrar ok t ord k corpo st j = Some j' \<Longrightarrow> outros chave q i j'"
| reinicio: "outros chave q i j \<Longrightarrow> outros chave q i (NovaIdempotencia (idArquivo j))"

lemma insert_small: "finite (dom m) \<Longrightarrow> card (dom m) < tetoIdempotencia \<Longrightarrow>
    finite (dom (m(k \<mapsto> e))) \<and> card (dom (m(k \<mapsto> e))) \<le> tetoIdempotencia"
  by (simp add: card_insert_if)

lemma Lembrar_small:
  assumes "enumera ord" "idEntradas i = Some m" "finite (dom m)" "card (dom m) < tetoIdempotencia" "k \<noteq> ''''"
  shows "Lembrar ok t ord k corpo st i =
    Some (gravar ok (i\<lparr>idEntradas := Some (keep_vals (\<lambda>e. \<not> ieQuando e < UnixMilli t - validadeIdempotencia)
       (m(k \<mapsto> \<lparr>ieCorpo = corpo, ieStatus = st, ieQuando = UnixMilli t\<rparr>)))\<rparr>))"
  using assms podar_small [OF assms(1)] insert_small [OF assms(3,4)] by (simp add: Lembrar_def)

lemma outros_guardada: "outros chave q i j \<Longrightarrow> guardada chave corpo q i \<Longrightarrow> guardada chave corpo q j"
proof (induction rule: outros.induct)
  case (consulta i j t k)
  then show ?case by (auto simp: guardada_def Lembrada_def split: option.splits)
next
  case (guarda i j t k ord m ok corpo' st j')
  show ?case
  proof (cases "k = ''''")
    case True
    with guarda show ?thesis by (simp add: Lembrar_def)
  next
    case False
    have "j' = gravar ok (j\<lparr>idEntradas := Some (keep_vals (\<lambda>e. \<not> ieQuando e < UnixMilli t - validadeIdempotencia)
       (m(k \<mapsto> \<lparr>ieCorpo = corpo', ieStatus = st, ieQuando = UnixMilli t\<rparr>)))\<rparr>)"
      using Lembrar_small [OF guarda.hyps(4-7) False, of ok t corpo' st] guarda.hyps(8) by simp
    with guarda show ?thesis by (auto simp: guardada_def gravar_def)
  qed
next
  case (reinicio i j)
  then show ?case by (auto simp: guardada_def NovaIdempotencia_def carregar_def split: jsonfile.splits option.splits)
qed

section \<open>Retries\<close>

text \<open>
  C13. A retry does not repeat the action: when a request under a key has run its action, succeeded and stored its result in the file,
  every request under that key in the following day answers the same result and leaves the world alone, whatever other requests and
  restarts came between, as long as the table stays below its limit. Decoding an encoded result gives it back.
\<close>

theorem retry_answers_the_first_result:
  assumes first: "lembrarResultado enc dec True tin tout ord chave fn (Some i) w = Some (Some i1, w1, Ok (Some out))"
    and fresh: "chave \<noteq> ''''" "snd (Lembrada tin chave i) = None"
    and codec: "enc out = Some corpo" "dec corpo = Some out"
    and table: "enumera ord" "idEntradas i = Some m" "finite (dom m)" "card (dom m) < tetoIdempotencia"
    and between: "outros chave (UnixMilli tout) i1 i2"
    and day: "UnixMilli tin' - UnixMilli tout \<le> validadeIdempotencia"
  shows "lembrarResultado enc dec ok' tin' tout' ord' chave fn (Some i2) w2 = Some (Some i2, w2, Ok (Some out))"
proof -
  obtain i0 where i0: "Lembrada tin chave i = (i0, None)"
    using fresh(2) by (cases "Lembrada tin chave i") simp
  obtain m0 where m0: "idEntradas i0 = Some m0" "dom m0 \<subseteq> dom m"
    using i0 table(2) fresh(1) by (auto simp: Lembrada_def split: option.splits if_splits)
  have small: "finite (dom m0)" "card (dom m0) < tetoIdempotencia"
    using m0(2) table(3,4) card_mono [OF table(3) m0(2)] by (auto intro: finite_subset)
  have "executar enc True tout ord chave fn i0 w = Some (i1, w1, Ok (Some out))"
    using first fresh(1) i0 by (auto simp: lembrarResultado_def)
  then have "Lembrar True tout ord chave corpo 200 i0 = Some i1"
    using codec(1) by (auto simp: executar_def split_beta Let_def split: sum.splits option.splits)
  then have "guardada chave corpo (UnixMilli tout) i1"
    using Lembrar_small [OF table(1) m0(1) small fresh(1)]
    by (auto simp: guardada_def gravar_def validadeIdempotencia_def)
  then have "guardada chave corpo (UnixMilli tout) i2"
    using between by (rule outros_guardada [rotated])
  then have "Lembrada tin' chave i2 = (i2, Some (corpo, 200))"
    using fresh(1) day by (auto simp: guardada_def Lembrada_def split: option.splits)
  then show ?thesis
    using fresh(1) codec(2) by (simp add: lembrarResultado_def)
qed

text \<open>A counter as the world: the first request increments it, the retry after a restart does not.\<close>

definition count_up :: "(nat, string) action" where
  "count_up n = (n + 1, Ok (Some ''done''))"

definition empty_table :: Idempotencia where
  "empty_table = NovaIdempotencia NoFile"

definition after_first :: Idempotencia where
  "after_first = (case lembrarResultado Some Some True 0 0 (\<lambda>_. [''bob:1'']) ''bob:1'' count_up (Some empty_table) 0 of
     Some (Some i, _) \<Rightarrow> i | _ \<Rightarrow> empty_table)"

lemma enumera_one: "enumera (\<lambda>_. [''bob:1''])"
  by (simp add: enumera_def)

lemma empty_table_parts: "idEntradas empty_table = Some Map.empty" "snd (Lembrada 0 ''bob:1'' empty_table) = None"
  by (simp_all add: empty_table_def NovaIdempotencia_def carregar_def Lembrada_def)

lemma first_run:
  "lembrarResultado Some Some True 0 0 (\<lambda>_. [''bob:1'']) ''bob:1'' count_up (Some empty_table) 0 = Some (Some after_first, 1, Ok (Some ''done''))"
proof -
  have "Lembrada 0 ''bob:1'' empty_table = (empty_table, None)"
    by (simp add: empty_table_def NovaIdempotencia_def carregar_def Lembrada_def)
  then have "lembrarResultado Some Some True 0 0 (\<lambda>_. [''bob:1'']) ''bob:1'' count_up (Some empty_table) 0 =
      map_option (\<lambda>i. (Some i, 1, Ok (Some ''done''))) (Lembrar True 0 (\<lambda>_. [''bob:1'']) ''bob:1'' ''done'' 200 empty_table)"
    by (simp add: lembrarResultado_def executar_def count_up_def option.map_comp comp_def)
  then show ?thesis
    by (simp add: after_first_def Lembrar_def empty_table_parts)
qed

theorem retry_answers_the_first_result_witness:
  "lembrarResultado Some Some True 3600000000000 3600000000000 (\<lambda>_. [''bob:1'']) ''bob:1'' count_up
     (Some (NovaIdempotencia (idArquivo after_first))) 1 = Some (Some (NovaIdempotencia (idArquivo after_first)), 1, Ok (Some ''done''))"
proof -
  have "outros ''bob:1'' (UnixMilli 0) after_first (NovaIdempotencia (idArquivo after_first))"
    by (intro outros.reinicio outros.nada)
  then show ?thesis
    by (rule retry_answers_the_first_result [OF first_run _ empty_table_parts(2) _ _ enumera_one empty_table_parts(1) _ _, rotated -2])
       (simp_all add: tetoIdempotencia_def UnixMilli_def validadeIdempotencia_def)
qed

section \<open>Keys\<close>

text \<open>
  The keys of two users never coincide, when user names hold no colon: a stored result is never answered to another account, and
  within an account two keys are equal exactly when the trimmed header values are.
\<close>

theorem keys_separate_users:
  assumes "CHR '':'' \<notin> set u" "CHR '':'' \<notin> set v" "chaveDeIdempotencia u a \<noteq> ''''"
    and "chaveDeIdempotencia u a = chaveDeIdempotencia v b"
  shows "u = v \<and> TrimSpace a = TrimSpace b"
proof -
  have e: "u @ CHR '':'' # TrimSpace a = v @ CHR '':'' # TrimSpace b"
    using assms(3,4) by (auto simp: chaveDeIdempotencia_def Let_def split: if_splits)
  have front: "takeWhile (\<lambda>c. c \<noteq> CHR '':'') (x @ CHR '':'' # y) = x" if "CHR '':'' \<notin> set x" for x y
    using that by (induction x) auto
  have "u = v" using arg_cong [OF e, of "takeWhile (\<lambda>c. c \<noteq> CHR '':'')"] front assms(1,2) by simp
  with e show ?thesis by simp
qed

theorem keys_separate_users_witness: "''bob'' = ''bob'' \<and> TrimSpace ''7 '' = TrimSpace '' 7''"
  by (rule keys_separate_users) code_simp+

section \<open>Where it stops\<close>

text \<open>
  The lookup and the storing hold the lock separately and the action runs between them, so two requests under one key that overlap
  both run it.
\<close>

lemma overlapping_requests_run_twice:
  "(let k = ''bob:1'';
        (i1, h1) = Lembrada 0 k empty_table;
        (i2, h2) = Lembrada 0 k i1
    in h1 = None \<and> h2 = None
     \<and> (case executar Some True 0 (\<lambda>_. [k]) k count_up i2 0 of
          Some (i3, w1, _) \<Rightarrow> (case executar Some True 0 (\<lambda>_. [k]) k count_up i3 w1 of Some (_, w2, _) \<Rightarrow> w2 = 2 | None \<Rightarrow> False)
        | None \<Rightarrow> False))"
  by (simp add: empty_table_def NovaIdempotencia_def carregar_def Lembrada_def executar_def count_up_def Lembrar_def
      gravar_def numeral_2_eq_2)

text \<open>
  The key names the user and the header value, not the operation: a request for another operation under the same value is answered
  with the stored result and its action does not run.
\<close>

lemma other_operation_is_not_run:
  assumes "guardada chave corpo q i" "chave \<noteq> ''''" "UnixMilli t - q \<le> validadeIdempotencia" "dec2 corpo = Some out2"
  shows "lembrarResultado enc2 dec2 ok t t' ord chave fn2 (Some i) w = Some (Some i, w, Ok (Some out2))"
  using assms by (auto simp: guardada_def Lembrada_def lembrarResultado_def split: option.splits)

text \<open>A file with the document \<open>null\<close> leaves a nil map: the first result to be stored panics after its action has run.\<close>

lemma null_file_panics:
  "lembrarResultado Some Some True 0 0 (\<lambda>_. []) ''bob:1'' count_up (Some (NovaIdempotencia (Doc None))) 0 = None"
  by (simp add: NovaIdempotencia_def carregar_def Lembrada_def lembrarResultado_def executar_def count_up_def Lembrar_def)

end
