(* ===== verification/SessionBackup.thy ===== *)
theory SessionBackup
  imports Terminal
begin

text \<open>
  Backups of terminal sessions: the store of files per user (\<^verbatim>\<open>internal/sessionbackup/store.go\<close>), its two kinds of
  retention, and the jobs that fill it (\<^verbatim>\<open>internal/api/handlers_terminal_backup.go\<close>).

  A user's directory is a map from file names without \<^verbatim>\<open>.json\<close> to what is in the file; \<open>ents\<close> lists those names the way
  \<open>os.ReadDir\<close> does, other entries being skipped by \<open>idDoArquivo\<close>. The snapshot of a session is a parameter. \<open>sort.Slice\<close> is the
  stable descending sort; it differs only between files with the same number.
\<close>

section \<open>Data\<close>

record PaneSnapshot =
  pnIndex :: int
  pnCWD :: string
  pnCmd :: string
  pnScrollback :: string

record WindowSnapshot =
  wnIndex :: int
  wnName :: string
  wnLayout :: string
  wnPanes :: "PaneSnapshot list"

record SessionSnapshot =
  ssName :: string
  ssWindows :: "WindowSnapshot list"

record Backup =
  bkID :: string
  bkCreated :: secs
  bkSource :: string
  bkSessions :: "SessionSnapshot list"

definition OrigemManual :: string where "OrigemManual = ''manual''"
definition OrigemAutomatica :: string where "OrigemAutomatica = ''auto''"
definition OrigemAgendada :: string where "OrigemAgendada = ''scheduled''"

type_synonym bdir = "string \<rightharpoonup> Backup jsonfile"

datatype backup_error = BNotExist | BUnreadable | BGarbled | BIO

definition IDValido :: "string \<Rightarrow> bool" where
  "IDValido i \<longleftrightarrow> i \<noteq> '''' \<and> list_all (byte_in 48 57) i"

section \<open>The store\<close>

definition bk_Write :: "bool \<Rightarrow> Backup \<Rightarrow> bdir \<Rightarrow> bdir \<times> (backup_error + unit)" where
  "bk_Write ok bk d = (if ok then (d(bkID bk \<mapsto> Doc bk), Ok ()) else (d, Err BIO))"

definition bk_Read :: "bdir \<Rightarrow> string \<Rightarrow> backup_error + Backup" where
  "bk_Read d i =
     (case d i of
        None \<Rightarrow> Err BNotExist
      | Some f \<Rightarrow> (case f of NoFile \<Rightarrow> Err BNotExist | Unreadable \<Rightarrow> Err BUnreadable | Garbled \<Rightarrow> Err BGarbled | Doc bk \<Rightarrow> Ok bk))"

definition contaLinhas :: "SessionSnapshot \<Rightarrow> nat" where
  "contaLinhas s =
     sum_list (map (\<lambda>w. sum_list (map (\<lambda>p. if pnScrollback p = '''' then 0
                                           else length (filter (\<lambda>c. c = CHR 0x0A) (pnScrollback p)) + 1) (wnPanes w)))
       (ssWindows s))"

record Meta =
  mtID :: string
  mtCriado :: secs
  mtOrigem :: string
  mtSessoes :: "(string \<times> string \<times> nat) list"

text \<open>\<open>resumo\<close> is the one-line summary of a session.\<close>

definition bk_List :: "(SessionSnapshot \<Rightarrow> string) \<Rightarrow> string list \<Rightarrow> bdir \<Rightarrow> Meta list" where
  "bk_List resumo ents d =
     sort_desc mtCriado
       (List.map_filter (\<lambda>i. case bk_Read d i of
            Inl _ \<Rightarrow> None
          | Inr bk \<Rightarrow> Some \<lparr>mtID = bkID bk, mtCriado = bkCreated bk, mtOrigem = bkSource bk,
                            mtSessoes = map (\<lambda>s. (ssName s, resumo s, contaLinhas s)) (bkSessions bk)\<rparr>) ents)"

text \<open>\<open>rm\<close>: removing the file works (an absent file is no error).\<close>

definition bk_Delete :: "bool \<Rightarrow> bool \<Rightarrow> string \<Rightarrow> string \<Rightarrow> bdir \<Rightarrow> bdir \<times> (backup_error + unit)" where
  "bk_Delete rm ok i sessao d =
     (let remove = (if d i = None then (d, Ok ()) else if rm then (d(i := None), Ok ()) else (d, Err BIO))
      in if sessao = '''' then remove
         else case bk_Read d i of
           Inl e \<Rightarrow> (d, Err e)
         | Inr bk \<Rightarrow>
             (let mantidas = filter (\<lambda>sn. safeSessionName (ssName sn) \<noteq> safeSessionName sessao) (bkSessions bk)
              in if mantidas = [] then remove else bk_Write ok (bk\<lparr>bkSessions := mantidas\<rparr>) d))"

section \<open>Retention\<close>

text \<open>
  \<open>strconv.ParseInt(id, 10, 64)\<close> with its error ignored. \<open>ParseUint\<close> reads digit by digit: a byte that is no digit gives \<open>0\<close>, a
  value beyond 64 bits ends the reading with the largest one, whatever follows; then the nearest end of the signed range is taken.
\<close>

fun uint_digits :: "string \<Rightarrow> int \<Rightarrow> int" where
  "uint_digits [] n = n"
| "uint_digits (c # cs) n =
     (if \<not> byte_in 48 57 c then 0
      else let n1 = n * 10 + (of_char c - 48)
           in if n \<ge> 2 ^ 64 div 10 + 1 \<or> n1 > 2 ^ 64 - 1 then 2 ^ 64 - 1 else uint_digits cs n1)"

definition clamp64 :: "int \<Rightarrow> int" where
  "clamp64 v = max (- (2 ^ 63)) (min (2 ^ 63 - 1) v)"

definition ParseInt64 :: "string \<Rightarrow> int" where
  "ParseInt64 s =
     (let (neg, ds) = (case s of c # r \<Rightarrow> if c = CHR ''-'' then (True, r) else if c = CHR ''+'' then (False, r) else (False, s) | [] \<Rightarrow> (False, s));
          un = uint_digits ds 0
      in clamp64 (if neg then - un else un))"

text \<open>The files that count, newest first; all but the first \<open>keep\<close> go. A removal that fails leaves the file: \<open>rm f\<close>.\<close>

definition bk_candidates :: "(Backup \<Rightarrow> bool) \<Rightarrow> string list \<Rightarrow> bdir \<Rightarrow> (string \<times> int) list" where
  "bk_candidates elegivel ents d =
     List.map_filter (\<lambda>i. case bk_Read d i of Inl _ \<Rightarrow> None | Inr bk \<Rightarrow> if elegivel bk then Some (i, ParseInt64 i) else None) ents"

definition bk_podar :: "(string \<Rightarrow> bool) \<Rightarrow> nat \<Rightarrow> (Backup \<Rightarrow> bool) \<Rightarrow> string list \<Rightarrow> bdir \<Rightarrow> bdir" where
  "bk_podar rm keep elegivel ents d =
     (let cs = bk_candidates elegivel ents d
      in if length cs \<le> keep then d
         else fold (\<lambda>f d. if rm (fst f) then d(fst f := None) else d) (drop keep (sort_desc snd cs)) d)"

definition Prune :: "(string \<Rightarrow> bool) \<Rightarrow> nat \<Rightarrow> string list \<Rightarrow> bdir \<Rightarrow> bdir" where
  "Prune rm keep ents d = bk_podar rm keep (\<lambda>bk. bkSource bk \<noteq> OrigemAgendada) ents d"

definition session_of :: "string \<Rightarrow> Backup \<Rightarrow> bool" where
  "session_of sessao bk \<longleftrightarrow>
     bkSource bk = OrigemAgendada \<and> length (bkSessions bk) = 1
   \<and> safeSessionName (ssName (bkSessions bk ! 0)) = safeSessionName sessao"

definition PruneSessao :: "(string \<Rightarrow> bool) \<Rightarrow> int \<Rightarrow> string \<Rightarrow> string list \<Rightarrow> bdir \<Rightarrow> bdir" where
  "PruneSessao rm keep sessao ents d = (if keep \<le> 0 then d else bk_podar rm (nat keep) (session_of sessao) ents d)"

section \<open>The jobs\<close>

text \<open>
  \<open>snapshot n\<close> captures session \<open>n\<close>. The automatic collector groups the live sessions by owner, those without one going to the
  primary account; \<open>us\<close> is the order of the range over the owners and \<open>bid u\<close> the number of the backup written for \<open>u\<close>.
\<close>

definition sessionBackupRetention :: nat where "sessionBackupRetention = 10"

definition auto_owner :: "Config \<Rightarrow> tstate \<Rightarrow> string \<Rightarrow> string" where
  "auto_owner c s name = (let owner = Owner (tmOwn s) name in if owner = '''' then cPrimary c else owner)"

definition auto_backup :: "secs \<Rightarrow> (string \<Rightarrow> SessionSnapshot option) \<Rightarrow> string \<Rightarrow> string list \<Rightarrow> bool \<Rightarrow> string list \<Rightarrow> bdir \<Rightarrow> bdir" where
  "auto_backup now snapshot i names ok ents d =
     (let bk = \<lparr>bkID = i, bkCreated = now, bkSource = OrigemAutomatica, bkSessions = List.map_filter snapshot names\<rparr>
      in if bkSessions bk = [] then d
         else case bk_Write ok bk d of
           (d1, Inl _) \<Rightarrow> d1
         | (d1, Inr _) \<Rightarrow> Prune (\<lambda>_. True) sessionBackupRetention ents d1)"

definition runSessionAutoBackup :: "Config \<Rightarrow> termhost \<Rightarrow> secs \<Rightarrow> (string \<Rightarrow> SessionSnapshot option) \<Rightarrow> (string \<Rightarrow> string) \<Rightarrow> bool
    \<Rightarrow> string list \<Rightarrow> string list \<Rightarrow> string list \<Rightarrow> (string \<Rightarrow> string list) \<Rightarrow> tstate \<Rightarrow> (string \<Rightarrow> bdir) \<Rightarrow> (string \<Rightarrow> bdir)" where
  "runSessionAutoBackup c H now snapshot bid ok ks sox us ents s D =
     (let names = filter (\<lambda>n. n \<noteq> '''' \<and> auto_owner c s n \<noteq> '''') (map rowName (SessionListAll H ks sox s))
      in fold (\<lambda>u D. let mine = filter (\<lambda>n. auto_owner c s n = u) names
                     in if mine = [] then D else D(u := auto_backup now snapshot (bid u) mine ok (ents u) (D u))) us D)"

text \<open>
  The scheduled job writes one backup per session and prunes that session's history after each. \<open>ents\<close> gives the directory listing
  of a directory; \<open>bid i\<close> the number \<open>base + i\<close>. The result counts saved and failed sessions.
\<close>

fun backup_loop :: "secs \<Rightarrow> (string \<Rightarrow> SessionSnapshot option) \<Rightarrow> (nat \<Rightarrow> string) \<Rightarrow> (string \<Rightarrow> bool) \<Rightarrow> (bdir \<Rightarrow> string list) \<Rightarrow> int
    \<Rightarrow> string list \<Rightarrow> nat \<Rightarrow> nat \<Rightarrow> nat \<Rightarrow> bdir \<Rightarrow> bdir \<times> nat \<times> nat" where
  "backup_loop now snapshot bid ok ents keep [] i saved failed d = (d, saved, failed)"
| "backup_loop now snapshot bid ok ents keep (n # ns) i saved failed d =
     (case snapshot n of
        None \<Rightarrow> backup_loop now snapshot bid ok ents keep ns (i + 1) saved (failed + 1) d
      | Some sn \<Rightarrow>
          (case bk_Write (ok n) \<lparr>bkID = bid i, bkCreated = now, bkSource = OrigemAgendada, bkSessions = [sn]\<rparr> d of
             (d1, Inl _) \<Rightarrow> backup_loop now snapshot bid ok ents keep ns (i + 1) saved (failed + 1) d1
           | (d1, Inr _) \<Rightarrow>
               backup_loop now snapshot bid ok ents keep ns (i + 1) (saved + 1) failed
                 (PruneSessao (\<lambda>_. True) keep n (ents d1) d1)))"

datatype job_error = EmptyOwner | NoRegistry | SessionNotFound | CaptureFailed

definition runSessionBackupJob :: "Config \<Rightarrow> termhost \<Rightarrow> secs \<Rightarrow> (string \<Rightarrow> SessionSnapshot option) \<Rightarrow> (nat \<Rightarrow> string) \<Rightarrow> (string \<Rightarrow> bool)
    \<Rightarrow> string list \<Rightarrow> string list \<Rightarrow> (bdir \<Rightarrow> string list) \<Rightarrow> string \<Rightarrow> string \<Rightarrow> int \<Rightarrow> tstate \<Rightarrow> bdir \<Rightarrow> bdir \<times> (job_error + unit)" where
  "runSessionBackupJob c H now snapshot bid ok ks sox ents owner session retention s d =
     (if owner = '''' then (d, Err EmptyOwner)
      else if tmOwn s = None then (d, Err NoRegistry)
      else let primary = IsAdmin c owner;
               t = TrimSpace session;
               specific = (t \<noteq> '''' \<and> t \<noteq> ''all'')
           in if specific \<and> \<not> OwnsSession owner t primary (tmOwn s) then (d, Err SessionNotFound)
              else let names = (if specific then [t]
                                else filter (\<lambda>n. n \<noteq> '''') (map rowName (SessionListForUser H ks sox owner primary s)))
                   in if names = [] then (d, Ok ())
                      else let keep = (if retention \<le> 0 then int sessionBackupRetention else retention);
                               (d1, saved, failed) = backup_loop now snapshot bid ok ents keep names 0 0 0 d
                           in (d1, if saved = 0 then Err CaptureFailed else Ok ()))"

end
