(* ===== verification/SessionBackupProps.thy ===== *)
theory SessionBackupProps
  imports SessionBackup TerminalProps
begin

text \<open>What retention removes: exactly the oldest files of its own kind, and nothing of the other kinds.\<close>

section \<open>Pruning\<close>

lemma fold_delete:
  "fold (\<lambda>f d. if rm (fst f) then d(fst f := None) else d) fs d i = (if rm i \<and> i \<in> fst ` set fs then None else d i)"
  by (induction fs arbitrary: d) auto

text \<open>In a list with strictly descending keys, the elements from position \<open>k\<close> on are those that at least \<open>k\<close> others exceed.\<close>

lemma drop_descending:
  assumes "sorted_wrt (\<lambda>x y. snd y < snd x) (xs :: ('a \<times> int) list)" "x \<in> set xs"
  shows "x \<in> set (drop k xs) \<longleftrightarrow> k \<le> card {y \<in> set xs. snd x < snd y}"
  using assms
proof (induction xs arbitrary: k)
  case (Cons a xs)
  show ?case
  proof (cases "x = a")
    case True
    with Cons.prems have none: "{y \<in> set (a # xs). snd x < snd y} = {}" and "x \<notin> set xs" by (auto dest: order_less_asym)
    then show ?thesis unfolding none using True by (cases k) (auto dest: in_set_dropD)
  next
    case False
    with Cons.prems have x: "x \<in> set xs" and lt: "snd x < snd a" and "a \<notin> set xs" by auto
    have more: "{y \<in> set (a # xs). snd x < snd y} = insert a {y \<in> set xs. snd x < snd y}" using lt by auto
    have "card {y \<in> set (a # xs). snd x < snd y} = Suc (card {y \<in> set xs. snd x < snd y})"
      unfolding more using \<open>a \<notin> set xs\<close> by simp
    with Cons.IH [OF _ x] Cons.prems show ?thesis by (cases k) auto
  qed
qed simp

definition eligible :: "(Backup \<Rightarrow> bool) \<Rightarrow> bdir \<Rightarrow> string \<Rightarrow> bool" where
  "eligible e d i \<longleftrightarrow> (\<exists>bk. bk_Read d i = Inr bk \<and> e bk)"

lemma bk_Read_dom: "bk_Read d i = Inr bk \<Longrightarrow> d i \<noteq> None"
  by (auto simp: bk_Read_def split: option.splits)

lemma eligible_dom: "{i. eligible e d i} \<subseteq> dom d"
  by (auto simp: eligible_def dest: bk_Read_dom)

lemma candidates_filter: "bk_candidates e ents d = map (\<lambda>i. (i, ParseInt64 i)) (filter (eligible e d) ents)"
  by (induction ents) (auto simp: bk_candidates_def List.map_filter_def eligible_def split: sum.splits)

text \<open>The eligible numbers in strictly descending order, when no two files have the same number.\<close>

lemma candidates_descending:
  assumes "distinct ents" "inj_on ParseInt64 (set ents)"
  shows "sorted_wrt (\<lambda>x y. snd y < snd x) (sort_desc snd (bk_candidates e ents d))"
proof -
  let ?cs = "bk_candidates e ents d"
  have "distinct (map snd ?cs)"
    using assms by (auto simp: candidates_filter comp_def distinct_map intro: inj_on_subset)
  then have "distinct (map snd (sort_desc snd ?cs))" by (simp add: distinct_map sort_desc_def)
  then show ?thesis
    using sort_desc_sorted [of snd ?cs] by (auto simp: sorted_wrt_iff_nth_less distinct_conv_nth order.strict_iff_order)
qed

definition newer :: "(Backup \<Rightarrow> bool) \<Rightarrow> bdir \<Rightarrow> string \<Rightarrow> nat" where
  "newer e d i = card {j. eligible e d j \<and> ParseInt64 i < ParseInt64 j}"

lemma candidates_newer:
  assumes "set ents = dom d"
  shows "card {y \<in> set (bk_candidates e ents d). ParseInt64 i < snd y} = newer e d i"
proof -
  have above: "{y \<in> set (bk_candidates e ents d). ParseInt64 i < snd y}
      = (\<lambda>j. (j, ParseInt64 j)) ` {j. eligible e d j \<and> ParseInt64 i < ParseInt64 j}"
    using assms eligible_dom [of e d] by (auto simp: candidates_filter)
  show ?thesis unfolding above newer_def by (intro card_image) (auto simp: inj_on_def)
qed

lemma removed_iff_old:
  assumes "set ents = dom d" "distinct ents" "inj_on ParseInt64 (dom d)"
  shows "i \<in> fst ` set (drop keep (sort_desc snd (bk_candidates e ents d))) \<longleftrightarrow> eligible e d i \<and> keep \<le> newer e d i"
proof -
  let ?cs = "sort_desc snd (bk_candidates e ents d)"
  have S: "set ?cs = (\<lambda>i. (i, ParseInt64 i)) ` {i. eligible e d i}"
    using assms(1) eligible_dom [of e d] by (auto simp: candidates_filter)
  have in_drop: "i \<in> fst ` set (drop keep ?cs) \<longleftrightarrow> (i, ParseInt64 i) \<in> set (drop keep ?cs)"
  proof
    assume "i \<in> fst ` set (drop keep ?cs)"
    then obtain y where y: "y \<in> set (drop keep ?cs)" "fst y = i" by blast
    then have "y = (i, ParseInt64 i)" using S in_set_dropD [OF y(1)] by auto
    with y show "(i, ParseInt64 i) \<in> set (drop keep ?cs)" by simp
  next
    assume "(i, ParseInt64 i) \<in> set (drop keep ?cs)"
    then show "i \<in> fst ` set (drop keep ?cs)" by (rule rev_image_eqI) simp
  qed
  show ?thesis
  proof (cases "eligible e d i")
    case True
    then have "(i, ParseInt64 i) \<in> set ?cs" using S by auto
    from drop_descending [OF candidates_descending this, of keep] True assms in_drop candidates_newer [OF assms(1), of e i]
    show ?thesis by simp
  qed (use S in \<open>auto dest!: in_set_dropD\<close>)
qed

text \<open>
  C29. Retention of session backups: when the files have different numbers and removing a file works, pruning to \<open>keep\<close> removes a file
  exactly if it counts for this kind of retention and at least \<open>keep\<close> files that count have greater numbers. Every other file stays
  as it was.
\<close>

theorem pruning_keeps_the_newest:
  assumes "set ents = dom d" "distinct ents" "inj_on ParseInt64 (dom d)"
  shows "bk_podar (\<lambda>_. True) keep e ents d i = (if eligible e d i \<and> keep \<le> newer e d i then None else d i)"
proof (cases "length (bk_candidates e ents d) \<le> keep")
  case True
  then have "drop keep (sort_desc snd (bk_candidates e ents d)) = []" by (simp add: sort_desc_def)
  with removed_iff_old [OF assms, of i keep e] True show ?thesis by (auto simp: bk_podar_def)
next
  case False
  with removed_iff_old [OF assms, of i keep e] show ?thesis
    by (simp add: bk_podar_def Let_def fold_delete [of "\<lambda>_. True", simplified])
qed

definition bfile :: "string \<Rightarrow> string \<Rightarrow> string list \<Rightarrow> Backup jsonfile" where
  "bfile i src names = Doc \<lparr>bkID = i, bkCreated = 0, bkSource = src,
     bkSessions = map (\<lambda>n. \<lparr>ssName = n, ssWindows = []\<rparr>) names\<rparr>"

definition some_backups :: bdir where
  "some_backups = [''9'' \<mapsto> bfile ''9'' ''auto'' [''a''], ''10'' \<mapsto> bfile ''10'' ''manual'' [''a''],
                   ''11'' \<mapsto> bfile ''11'' ''scheduled'' [''a'']]"

theorem pruning_keeps_the_newest_witness:
  "bk_podar (\<lambda>_. True) 1 (\<lambda>bk. bkSource bk \<noteq> OrigemAgendada) [''10'', ''11'', ''9''] some_backups ''9'' =
    (if eligible (\<lambda>bk. bkSource bk \<noteq> OrigemAgendada) some_backups ''9''
        \<and> 1 \<le> newer (\<lambda>bk. bkSource bk \<noteq> OrigemAgendada) some_backups ''9'' then None else some_backups ''9'')
   \<and> bk_podar (\<lambda>_. True) 1 (\<lambda>bk. bkSource bk \<noteq> OrigemAgendada) [''10'', ''11'', ''9''] some_backups ''9'' = None"
proof -
  have D: "dom some_backups = set [''10'', ''11'', ''9'']" by (auto simp: some_backups_def)
  have "ParseInt64 ''9'' = 9" "ParseInt64 ''10'' = 10" "ParseInt64 ''11'' = 11" by code_simp+
  then have I: "inj_on ParseInt64 (dom some_backups)" unfolding D by (simp add: inj_on_def)
  have "bk_podar (\<lambda>_. True) 1 (\<lambda>bk. bkSource bk \<noteq> OrigemAgendada) [''10'', ''11'', ''9''] some_backups ''9'' = None"
    by code_simp
  with pruning_keeps_the_newest [OF D [symmetric] _ I, of 1 "\<lambda>bk. bkSource bk \<noteq> OrigemAgendada" "''9''"] show ?thesis by simp
qed

text \<open>The two kinds of retention do not touch each other's files, nor one session's history another's.\<close>

lemma podar_keeps_ineligible: "\<not> eligible e d i \<Longrightarrow> bk_podar rm keep e ents d i = d i"
  by (auto simp: bk_podar_def Let_def fold_delete candidates_filter dest!: in_set_dropD)

lemma Prune_keeps_scheduled:
  "bk_Read d i = Inr bk \<Longrightarrow> bkSource bk = OrigemAgendada \<Longrightarrow> Prune rm keep ents d i = d i"
  by (simp add: Prune_def podar_keeps_ineligible eligible_def)

lemma PruneSessao_keeps_others:
  "bk_Read d i = Inr bk \<Longrightarrow> \<not> session_of n bk \<Longrightarrow> PruneSessao rm keep n ents d i = d i"
  by (simp add: PruneSessao_def podar_keeps_ineligible eligible_def)

text \<open>
  A session shared with everybody has the owner \<^verbatim>\<open>*\<close>, which the collector takes for a user: when no other session is alive,
  its automatic backup is a file of the directory of a user called \<^verbatim>\<open>*\<close>, and the primary account gets none.
\<close>

lemma shared_session_backed_up_for_nobody:
  assumes "SessionListAll H ks sox s = [row]" "Owner (tmOwn s) (rowName row) = AudienceAll" "rowName row \<noteq> ''''"
    "snapshot (rowName row) = Some sn" "u \<noteq> AudienceAll"
  shows "runSessionAutoBackup c H now snapshot bid True ks sox [AudienceAll] ents s D u = D u"
    "runSessionAutoBackup c H now snapshot bid True ks sox [AudienceAll] (\<lambda>_. []) s D AudienceAll (bid AudienceAll)
       = Some (Doc \<lparr>bkID = bid AudienceAll, bkCreated = now, bkSource = OrigemAutomatica, bkSessions = [sn]\<rparr>)"
  using assms
  by (simp_all add: runSessionAutoBackup_def auto_owner_def Let_def AudienceAll_def auto_backup_def bk_Write_def Prune_def
      bk_podar_def bk_candidates_def List.map_filter_def)

end
