(* ===== verification/GoTrue.thy ===== *)
theory GoTrue
  imports Accounts Http
begin

text \<open>
  The client of the identity server (\<^verbatim>\<open>internal/auth/supabase.go\<close>) and the helpers of \<^verbatim>\<open>internal/api/mfa.go\<close> that use it
  during a login. The server is a parameter: what it answers to a request. An answer is missing (no connection, or a body that breaks
  off), or a status with a body, which is empty, not JSON, or a document of which the code reads some fields. The result of a call
  may be the nil session without an error; a session is therefore an option of its own.
\<close>

section \<open>Sessions of the identity server\<close>

record SupabaseSession =
  spAccess :: string
  spRefresh :: string
  spExpires :: int
  spEmail :: string

record mfaFactor =
  fcID :: string
  fcType :: string
  fcStatus :: string

text \<open>The fields that the code decodes from any of the bodies; absent ones are empty.\<close>

record gbody =
  gbAccess :: string
  gbRefresh :: string
  gbExpires :: int
  gbErrorCode :: string
  gbEmail :: string
  gbFactors :: "mfaFactor list"
  gbID :: string

definition zero_body :: gbody where
  "zero_body = \<lparr>gbAccess = '''', gbRefresh = '''', gbExpires = 0, gbErrorCode = '''', gbEmail = '''', gbFactors = [], gbID = ''''\<rparr>"

datatype gpayload = PEmpty | PBad | PDoc gbody

datatype http_answer = NoAnswer | Answer nat gpayload

definition decode :: "gpayload \<Rightarrow> gbody option" where
  "decode b = (case b of PDoc d \<Rightarrow> Some d | _ \<Rightarrow> None)"

text \<open>A body that does not decode leaves the zero value where the error is ignored.\<close>

definition decode_or_zero :: "gpayload \<Rightarrow> gbody" where
  "decode_or_zero b = (case decode b of None \<Rightarrow> zero_body | Some d \<Rightarrow> d)"

definition ErrSupabaseNetworkError :: verify_error where
  "ErrSupabaseNetworkError = SupabaseOther ''supabase: network error''"

section \<open>Passwords and refresh tokens\<close>

definition VerifyPassword :: "http_answer \<Rightarrow> verify_error + SupabaseSession option" where
  "VerifyPassword a =
     (case a of
        NoAnswer \<Rightarrow> Err ErrSupabaseNetworkError
      | Answer status b \<Rightarrow>
          if status = 200 then
            (case decode b of
               None \<Rightarrow> Err SupabaseUnexpected
             | Some rb \<Rightarrow> if gbAccess rb = '''' then Err SupabaseUnexpected
                         else Ok (Some \<lparr>spAccess = gbAccess rb, spRefresh = gbRefresh rb, spExpires = gbExpires rb, spEmail = ''''\<rparr>))
          else if status \<ge> 500 then Err ErrSupabaseNetworkError
          else let code = gbErrorCode (decode_or_zero b)
               in if code = ''invalid_credentials'' \<or> code = ''invalid_grant'' then Err SupabaseInvalidCredentials
                  else if code = ''mfa_required'' then Ok None
                  else Err SupabaseUnexpected)"

definition RefreshSession :: "http_answer \<Rightarrow> verify_error + SupabaseSession" where
  "RefreshSession a =
     (case a of
        NoAnswer \<Rightarrow> Err ErrSupabaseNetworkError
      | Answer status b \<Rightarrow>
          if status = 200 then
            (case decode b of
               None \<Rightarrow> Err SupabaseUnexpected
             | Some rb \<Rightarrow> if gbAccess rb = '''' then Err SupabaseUnexpected
                         else Ok \<lparr>spAccess = gbAccess rb, spRefresh = gbRefresh rb, spExpires = gbExpires rb, spEmail = gbEmail rb\<rparr>)
          else if status \<ge> 500 then Err ErrSupabaseNetworkError
          else let code = gbErrorCode (decode_or_zero b)
               in if code = ''invalid_grant'' \<or> code = ''invalid_credentials'' \<or> status = 401 \<or> status = 403
                  then Err SupabaseInvalidCredentials else Err SupabaseUnexpected)"

definition RevokeRefreshToken :: "string \<Rightarrow> http_answer \<Rightarrow> bool" where
  "RevokeRefreshToken refresh a \<longleftrightarrow>
     refresh = '''' \<or> (case a of NoAnswer \<Rightarrow> False | Answer status _ \<Rightarrow> status = 200 \<or> status = 204 \<or> status = 401)"

section \<open>Calls on behalf of a user\<close>

text \<open>
  \<open>ask token method path body\<close> is the answer to a call with a bearer token, \<open>rs\<close> that to the exchange of a refresh token. A call
  that is refused is repeated once with a fresh token.
\<close>

type_synonym gask = "string \<Rightarrow> string \<Rightarrow> string \<Rightarrow> string list \<Rightarrow> http_answer"

record AuthCallResult =
  acStatus :: nat
  acBody :: gpayload
  acRefreshed :: "SupabaseSession option"

definition AuthenticatedRequest :: "gask \<Rightarrow> (string \<Rightarrow> http_answer) \<Rightarrow> string \<Rightarrow> string \<Rightarrow> string \<Rightarrow> string \<Rightarrow> string list
    \<Rightarrow> verify_error + AuthCallResult" where
  "AuthenticatedRequest ask rs access refresh meth path body =
     (case ask access meth path body of
        NoAnswer \<Rightarrow> Err ErrSupabaseNetworkError
      | Answer status b \<Rightarrow>
          if (status = 401 \<or> status = 403) \<and> refresh \<noteq> '''' then
            (case RefreshSession (rs refresh) of
               Inl e \<Rightarrow> Err e
             | Inr newSess \<Rightarrow>
                 (case ask (spAccess newSess) meth path body of
                    NoAnswer \<Rightarrow> Err ErrSupabaseNetworkError
                  | Answer status2 b2 \<Rightarrow> Ok \<lparr>acStatus = status2, acBody = b2, acRefreshed = Some newSess\<rparr>))
          else Ok \<lparr>acStatus = status, acBody = b, acRefreshed = None\<rparr>)"

text \<open>The identifier and status of the first factor of a type; empty strings for none.\<close>

definition findFactorByType :: "mfaFactor list \<Rightarrow> string \<Rightarrow> string \<times> string" where
  "findFactorByType fs t = (case find (\<lambda>f. fcType f = t) fs of None \<Rightarrow> ('''', '''') | Some f \<Rightarrow> (fcID f, fcStatus f))"

text \<open>\<open>None\<close> is an error.\<close>

definition supabaseGetUserMFA :: "gask \<Rightarrow> (string \<Rightarrow> http_answer) \<Rightarrow> string \<Rightarrow> (string \<times> string) option" where
  "supabaseGetUserMFA ask rs access =
     (if access = '''' then None
      else case AuthenticatedRequest ask rs access '''' ''GET'' ''/auth/v1/user'' [] of
        Inl _ \<Rightarrow> None
      | Inr res \<Rightarrow> if acStatus res \<noteq> 200 then None
                  else map_option (\<lambda>u. findFactorByType (gbFactors u) ''totp'') (decode (acBody res)))"

text \<open>\<open>None\<close> is an error, \<open>Some False\<close> a wrong code.\<close>

definition supabaseChallengeAndVerify :: "gask \<Rightarrow> (string \<Rightarrow> http_answer) \<Rightarrow> string \<Rightarrow> string \<Rightarrow> string \<Rightarrow> bool option" where
  "supabaseChallengeAndVerify ask rs access factorID code =
     (case AuthenticatedRequest ask rs access '''' ''POST'' (''/auth/v1/factors/'' @ factorID @ ''/challenge'') [] of
        Inl _ \<Rightarrow> None
      | Inr res \<Rightarrow>
          if acStatus res \<noteq> 200 then None
          else case decode (acBody res) of
            None \<Rightarrow> None
          | Some ch \<Rightarrow>
              if gbID ch = '''' then None
              else case AuthenticatedRequest ask rs access '''' ''POST'' (''/auth/v1/factors/'' @ factorID @ ''/verify'') [gbID ch, code] of
                Inl _ \<Rightarrow> None
              | Inr res2 \<Rightarrow>
                  if acStatus res2 = 200 then Some True
                  else if 400 \<le> acStatus res2 \<and> acStatus res2 < 500 then Some False
                  else None)"

end
