(* ===== verification/LoginHandlers.thy ===== *)
theory LoginHandlers
  imports GoTrue Tokens Devices UserHandlers
begin

text \<open>
  The handlers of \<^verbatim>\<open>internal/api/handlers_auth.go\<close>: login with its second factor, renewal and logout, the list of sessions,
  approval of passkeys, the legacy codes, the change of password and the first set-up.

  The state is what the router keeps. One session store exists in the process and the middleware always has it; \<open>asAttached\<close> says
  whether the authentication service that the handlers use has it too, since one handler replaces that service. The stores of backup
  codes, trusted devices, refresh tokens and passkeys are files per user. What the identity server, the clock, the random generator,
  bcrypt, the JWT and TOTP packages and the file system answer during a request is the record \<open>ahost\<close>; a request reads one clock.
  Audit entries leave out the text of errors and the numbers they quote.
  \<open>user\<close> and \<open>jti\<close> are what the middleware put in the request.
\<close>

section \<open>State\<close>

record 'c astate =
  asCfg :: Config
  asConf :: "string \<Rightarrow> confdir"
  asAcc :: "SupabaseSession option account_service"
  asAuth :: auth_state
  asAttached :: bool
  asLimiter :: Limiter
  asLockout :: Lockout
  asRefreshLimiter :: Limiter
  asCodes :: "string \<Rightarrow> BackupCodesFile jsonfile"
  asDevices :: "string \<Rightarrow> device_file"
  asMobile :: "string \<Rightarrow> mobile_file"
  asPasskeys :: "string \<Rightarrow> 'c passkey_file"
  asUUIDFile :: "uuidMapFile jsonfile"

record ahost =
  ahNow :: nanos
  ahJTI :: string
  ahTicket :: string
  ahSecret :: "string option"
  ahRefreshID :: string
  ahSign :: "claims \<Rightarrow> string option"
  ahParse :: jwt_parse
  ahBcrypt :: "string \<Rightarrow> string \<Rightarrow> bool"
  ahHashPw :: "string \<Rightarrow> string option"
  ahSHA :: "string \<Rightarrow> string"
  ahTOTP :: "string \<Rightarrow> string \<Rightarrow> bool"
  ahGenerate :: "string \<Rightarrow> string \<Rightarrow> (string \<times> string) option"
  ahQR :: "string \<Rightarrow> bool"
  ahDisk :: chost
  ahDevOk :: bool
  ahCodesOk :: bool
  ahMobOk :: bool
  ahPkOk :: bool
  ahAsk :: gask
  ahRefreshGrant :: "string \<Rightarrow> http_answer"
  ahRevokeGrant :: "string \<Rightarrow> http_answer"
  ahMapKeys :: "string list"
  ahSessKeys :: "string list"
  ahHostname :: string
  ahSupabase :: bool
  ahWhatsapp :: bool
  ahBackend :: AuthBackend
  ahClient :: "string \<Rightarrow> string \<Rightarrow> verify_error + SupabaseSession option"

datatype aeffect =
    AAudit string string string
  | ACookie string string
  | AClear string
  | AWarmUp string

definition audit :: "string \<Rightarrow> string \<Rightarrow> string \<Rightarrow> aeffect list" where
  "audit u a t = [AAudit u a t]"

section \<open>Cookies\<close>

definition SetAuthCookie :: "string \<Rightarrow> aeffect list" where "SetAuthCookie tok = [ACookie ''vpsm_token'' tok]"
definition SetSupabaseAccessCookie :: "string \<Rightarrow> aeffect list" where
  "SetSupabaseAccessCookie a = (if a = '''' then [] else [ACookie ''vpsm_supabase_access'' a])"
definition SetSupabaseRefreshCookie :: "string \<Rightarrow> aeffect list" where
  "SetSupabaseRefreshCookie r = (if r = '''' then [] else [ACookie ''vpsm_refresh'' r])"
definition SetDeviceCookie :: "string \<Rightarrow> aeffect list" where
  "SetDeviceCookie x = (if x = '''' then [] else [ACookie ''vpsm_device'' x])"
definition SetCookieFlag :: "bool \<Rightarrow> aeffect list" where
  "SetCookieFlag b = [if b then ACookie ''vpsm_cookie_set'' ''1'' else AClear ''vpsm_cookie_set'']"

definition read_cookie :: "string \<Rightarrow> request \<Rightarrow> string" where
  "read_cookie n req = (case Cookie req n of None \<Rightarrow> '''' | Some v \<Rightarrow> v)"

abbreviation ReadDeviceCookie :: "request \<Rightarrow> string" where "ReadDeviceCookie \<equiv> read_cookie ''vpsm_device''"
abbreviation ReadSupabaseAccessCookie :: "request \<Rightarrow> string" where "ReadSupabaseAccessCookie \<equiv> read_cookie ''vpsm_supabase_access''"
abbreviation ReadSupabaseRefreshCookie :: "request \<Rightarrow> string" where "ReadSupabaseRefreshCookie \<equiv> read_cookie ''vpsm_refresh''"

section \<open>Shared steps\<close>

text \<open>The session store as the handlers' service sees it, and what a call on that service leaves behind.\<close>

definition service :: "'c astate \<Rightarrow> auth_state" where
  "service s = (if asAttached s then asAuth s else (asAuth s)\<lparr>asessions := None\<rparr>)"

definition put_service :: "auth_state \<Rightarrow> 'c astate \<Rightarrow> 'c astate" where
  "put_service a s = s\<lparr>asAuth := (if asAttached s then a else a\<lparr>asessions := asessions (asAuth s)\<rparr>)\<rparr>"

definition router_sessions :: "'c astate \<Rightarrow> Store option" where
  "router_sessions s = asessions (service s)"

definition put_sessions :: "Store \<Rightarrow> 'c astate \<Rightarrow> 'c astate" where
  "put_sessions st s = put_service ((service s)\<lparr>asessions := Some st\<rparr>) s"

definition issue :: "ahost \<Rightarrow> string \<Rightarrow> IssueMeta option \<Rightarrow> 'c astate \<Rightarrow> string option \<times> 'c astate" where
  "issue H user meta s =
     (let (r, a) = Issue (ahSign H) (ahNow H) (ahJTI H) user meta (service s)
      in (map_option fst r, put_service a s))"

definition request_meta :: "request \<Rightarrow> IssueMeta option" where
  "request_meta req = Some \<lparr>meta_ip = ClientIP req, meta_ua = Header req ''User-Agent''\<rparr>"

definition save_conf :: "ahost \<Rightarrow> Config \<Rightarrow> 'c astate \<Rightarrow> 'c astate \<times> bool" where
  "save_conf H c s =
     (let (d, r) = Save_config (ahDisk H) c (asConf s (config_path c))
      in (s\<lparr>asCfg := c, asConf := (asConf s)(config_path c := d)\<rparr>, \<not> isl r))"

text \<open>The lock threshold is five, so counting a failure never divides by zero.\<close>

definition record_failure :: "ahost \<Rightarrow> string \<Rightarrow> 'c astate \<Rightarrow> 'c astate" where
  "record_failure H u s =
     (case RecordFailure (ahNow H) (ahNow H) u (asLockout s) of None \<Rightarrow> s | Some l \<Rightarrow> s\<lparr>asLockout := l\<rparr>)"

definition clear_attempts :: "string \<Rightarrow> string \<Rightarrow> 'c astate \<Rightarrow> 'c astate" where
  "clear_attempts ip u s = s\<lparr>asLimiter := Limiter_Reset ip (asLimiter s), asLockout := RecordSuccess u (asLockout s)\<rparr>"

definition userHasSupabaseMFA :: "Config \<Rightarrow> string \<Rightarrow> bool" where
  "userHasSupabaseMFA c n \<longleftrightarrow> n \<noteq> '''' \<and> (case find_user n (cUsers c) of None \<Rightarrow> False | Some u \<Rightarrow> usMFA u)"

definition setUserSupabaseMFA :: "ahost \<Rightarrow> string \<Rightarrow> bool \<Rightarrow> 'c astate \<Rightarrow> 'c astate" where
  "setUserSupabaseMFA H n enabled s =
     (if n = '''' then s
      else case find_user n (cUsers (asCfg s)) of
        None \<Rightarrow> s
      | Some u \<Rightarrow>
          if usMFA u = enabled then s
          else fst (save_conf H ((asCfg s)\<lparr>cUsers := edit_user n (\<lambda>u. u\<lparr>usMFA := enabled\<rparr>) (cUsers (asCfg s))\<rparr>) s))"

definition trimUA_label :: "string \<Rightarrow> string" where
  "trimUA_label ua0 = (let ua = TrimSpace ua0 in if length ua > 120 then take 120 ua @ [CHR 0xE2, CHR 0x80, CHR 0xA6] else ua)"

section \<open>The second factor\<close>

datatype mfaCheckResult =
    mfaNotRequired
  | mfaUnavailableDenied
  | mfaTrustedDevice
  | mfaCodeRequired
  | mfaCodeVerified
  | mfaBackupUsed
  | mfaCodeInvalid

record mfaCheckOutcome =
  mcResult :: mfaCheckResult
  mcRequired :: bool
  mcFactor :: string

definition no_factor :: mfaCheckOutcome where
  "no_factor = \<lparr>mcResult = mfaNotRequired, mcRequired = False, mcFactor = ''''\<rparr>"

text \<open>After the look-up found a verified factor: trusted device, code, backup code.\<close>

definition check_factor :: "ahost \<Rightarrow> request \<Rightarrow> string \<Rightarrow> string \<Rightarrow> string \<Rightarrow> string \<Rightarrow> 'c astate \<Rightarrow> mfaCheckOutcome \<times> 'c astate" where
  "check_factor H req access factorID name code s =
     (let out = (\<lambda>r. \<lparr>mcResult = r, mcRequired = True, mcFactor = factorID\<rparr>);
          (tr, df) = IsTrusted (ahSHA H) (ahNow H) (ahDevOk H) (ReadDeviceCookie req) (asDevices s name);
          s1 = s\<lparr>asDevices := (asDevices s)(name := df)\<rparr>
      in if tr = Ok True then (out mfaTrustedDevice, s1)
         else if code = '''' then (out mfaCodeRequired, s1)
         else if supabaseChallengeAndVerify (ahAsk H) (ahRefreshGrant H) access factorID code = Some True then (out mfaCodeVerified, s1)
         else let (r, cf) = TryConsume (ahSHA H) (ahNow H) (ahCodesOk H) code (asCodes s1 name);
                  s2 = s1\<lparr>asCodes := (asCodes s1)(name := cf)\<rparr>
              in (out (if r = Ok True then mfaBackupUsed else mfaCodeInvalid), s2))"

definition verifyLoginMFA :: "ahost \<Rightarrow> request \<Rightarrow> SupabaseSession option VerifyResult \<Rightarrow> string \<Rightarrow> string \<Rightarrow> 'c astate
    \<Rightarrow> mfaCheckOutcome \<times> 'c astate" where
  "verifyLoginMFA H req vres name code s =
     (case Option.bind (vSession vres) id of
        None \<Rightarrow> (no_factor, s)
      | Some sess \<Rightarrow>
          if spAccess sess = '''' \<or> aSupabase (asAcc s) = None then (no_factor, s)
          else case supabaseGetUserMFA (ahAsk H) (ahRefreshGrant H) (spAccess sess) of
            None \<Rightarrow>
              if userHasSupabaseMFA (asCfg s) name then (\<lparr>mcResult = mfaUnavailableDenied, mcRequired = True, mcFactor = ''''\<rparr>, s)
              else (no_factor, s)
          | Some (factorID, status) \<Rightarrow>
              (let s1 = setUserSupabaseMFA H name (factorID \<noteq> '''' \<and> status = ''verified'') s
               in if factorID = '''' \<or> status \<noteq> ''verified'' then (no_factor, s1)
                  else check_factor H req (spAccess sess) factorID name code s1))"

section \<open>Login\<close>

datatype areply =
    AErr nat
  | AOk
  | ATotpRequired
  | ALogin string string
  | ARenewed string string
  | ATicketReply string int
  | APairing string string int
  | ASessions "Session list"
  | ARevoked nat
  | ACredentials "(string \<times> string \<times> credential_status) list"
  | AEnrolled bool
  | ASecrets "(string \<times> string) list"
  | AIdentity string string

record login_body =
  lbName :: string
  lbPassword :: string
  lbTOTP :: string
  lbRemember :: bool

text \<open>An address stands for the name it is mapped to.\<close>

definition canonical :: "ahost \<Rightarrow> UUIDMap \<Rightarrow> string \<Rightarrow> string" where
  "canonical H um name0 =
     (let n = TrimSpace name0
      in if CHR ''@'' \<in> set n
         then let l = ToLower n in (case LookupByEmail (ahMapKeys H) um l of None \<Rightarrow> l | Some c \<Rightarrow> c)
         else n)"

definition verdict_audit :: "string \<Rightarrow> string \<Rightarrow> mfaCheckOutcome \<Rightarrow> aeffect list" where
  "verdict_audit pre name mfa =
     (case mcResult mfa of
        mfaUnavailableDenied \<Rightarrow> audit name (pre @ ''login.mfa.unavailable_denied'') ''''
      | mfaCodeInvalid \<Rightarrow> audit name (pre @ ''login.mfa.fail'') (''factor='' @ mcFactor mfa)
      | mfaTrustedDevice \<Rightarrow> audit name (pre @ ''login.mfa.trusted_device'') ''''
      | mfaBackupUsed \<Rightarrow> audit name (pre @ ''login.mfa.backup_used'') (''factor='' @ mcFactor mfa)
      | _ \<Rightarrow> [])"

text \<open>What a login answers when the second factor does not let it through.\<close>

definition mfa_refusal :: "mfaCheckResult \<Rightarrow> areply option" where
  "mfa_refusal r =
     (case r of
        mfaUnavailableDenied \<Rightarrow> Some (AErr 503)
      | mfaCodeRequired \<Rightarrow> Some ATotpRequired
      | mfaCodeInvalid \<Rightarrow> Some (AErr 401)
      | _ \<Rightarrow> None)"

text \<open>A device the user asked to trust; a failure does not stop the login.\<close>

definition remember_device :: "ahost \<Rightarrow> request \<Rightarrow> string \<Rightarrow> bool \<Rightarrow> 'c astate \<Rightarrow> 'c astate \<times> aeffect list" where
  "remember_device H req name wanted s =
     (if \<not> wanted then (s, [])
      else let (r, df) = device_Mint (ahSHA H) (ahNow H) (ahDevOk H) (ahSecret H) name (trimUA_label (Header req ''User-Agent''))
                           (ClientIP req) (asDevices s name);
               s1 = s\<lparr>asDevices := (asDevices s)(name := df)\<rparr>
           in case r of
                Inl _ \<Rightarrow> (s1, [])
              | Inr secret \<Rightarrow> (s1, SetDeviceCookie secret @ audit name ''login.mfa.device_trusted'' ''''))"

definition source_of :: "SupabaseSession option VerifyResult \<Rightarrow> string" where
  "source_of v = (if vSource v = '''' then ''local'' else vSource v)"

definition login_source :: "SupabaseSession option VerifyResult \<Rightarrow> mfaCheckResult \<Rightarrow> string" where
  "login_source v r =
     (case r of
        mfaTrustedDevice \<Rightarrow> source_of v @ ''+mfa-trusted-device''
      | mfaBackupUsed \<Rightarrow> source_of v @ ''+mfa-supabase''
      | mfaCodeVerified \<Rightarrow> source_of v @ ''+mfa-supabase''
      | _ \<Rightarrow> source_of v)"

definition session_cookies :: "SupabaseSession option \<Rightarrow> aeffect list" where
  "session_cookies x =
     (case x of None \<Rightarrow> [] | Some sess \<Rightarrow> SetSupabaseRefreshCookie (spRefresh sess) @ SetSupabaseAccessCookie (spAccess sess))"

text \<open>From the verified password on.\<close>

definition finish_login :: "ahost \<Rightarrow> request \<Rightarrow> login_body \<Rightarrow> string \<Rightarrow> SupabaseSession option VerifyResult \<Rightarrow> 'c astate
    \<Rightarrow> 'c astate \<times> areply \<times> aeffect list" where
  "finish_login H req b name vres s =
     (let (mfa, s1) = verifyLoginMFA H req vres name (lbTOTP b) s;
          e1 = verdict_audit '''' name mfa
      in case mfa_refusal (mcResult mfa) of
           Some r \<Rightarrow> (if r = ATotpRequired then s1 else record_failure H name s1, r, e1)
         | None \<Rightarrow>
             (let s2 = clear_attempts (ClientIP req) name s1;
                  (s3, e3) = remember_device H req name (mcRequired mfa \<and> lbRemember b) s2;
                  (tok, s4) = issue H name (request_meta req) s3
              in case tok of
                   None \<Rightarrow> (s4, AErr 500, e1 @ e3)
                 | Some t \<Rightarrow>
                     (s4, ALogin t name,
                      e1 @ e3 @ audit name ''login.ok'' (login_source vres (mcResult mfa))
                      @ session_cookies (Option.bind (vSession vres) id)
                      @ (if ahWhatsapp H \<and> Valid_user name then [AWarmUp name] else []) @ SetAuthCookie t @ SetCookieFlag True)))"

definition handleLogin :: "ahost \<Rightarrow> request \<Rightarrow> login_body option \<Rightarrow> 'c astate \<Rightarrow> 'c astate \<times> areply \<times> aeffect list" where
  "handleLogin H req body s0 =
     (if Method req \<noteq> MethodPost then (s0, AErr 405, [])
      else let (ok, l) = Allow (ahNow H) (ClientIP req) (asLimiter s0);
               s = s0\<lparr>asLimiter := l\<rparr>
           in if \<not> ok then (s, AErr 429, [])
              else case body of
                None \<Rightarrow> (s, AErr 400, [])
              | Some b \<Rightarrow>
                  (let name = canonical H (aUUIDMap (asAcc s)) (lbName b)
                   in if IsAppOnly (asCfg s) name then (s, AErr 401, audit name ''login.denied.app_only'' ''web panel blocked for an app-only account'')
                      else let ((free, _), lo) = Allowed (ahNow H) name (asLockout s);
                               s1 = s\<lparr>asLockout := lo\<rparr>
                           in if \<not> free then (s1, AErr 423, audit name ''login.locked'' '''')
                              else let (vres, _) = VerifyDetailed (ahBcrypt H) (asAcc s1) name (lbPassword b)
                                   in if \<not> vOK vres then (record_failure H name s1, AErr 401, audit name ''login.fail'' (source_of vres))
                                      else finish_login H req b name vres s1))"

section \<open>Identity, tickets and renewal\<close>

definition handleMe :: "string \<Rightarrow> 'c astate \<Rightarrow> areply" where
  "handleMe user s = AIdentity user (EmailFor (aUUIDMap (asAcc s)) user)"

definition handleWSTicket :: "ahost \<Rightarrow> string \<Rightarrow> string \<Rightarrow> 'c astate \<Rightarrow> 'c astate \<times> areply" where
  "handleWSTicket H user jti s =
     (if user = '''' then (s, AErr 401)
      else (s\<lparr>asAuth := (asAuth s)\<lparr>tickets := IssueWSTicket (ahNow H) (ahTicket H) user jti (tickets (asAuth s))\<rparr>\<rparr>,
            ATicketReply (ahTicket H) (WSTicketTTL div second)))"

definition handleMobilePairStart :: "ahost \<Rightarrow> string \<Rightarrow> 'c astate \<Rightarrow> 'c astate \<times> areply \<times> aeffect list" where
  "handleMobilePairStart H user s =
     (if user = '''' then (s, AErr 401, [])
      else if ahHostname H = '''' then (s, AErr 503, [])
      else let s1 = s\<lparr>asAuth := (asAuth s)\<lparr>pairings := IssuePairingTicket (ahNow H) (ahTicket H) user (pairings (asAuth s))\<rparr>\<rparr>
           in if \<not> ahQR H (ahTicket H) then (s1, AErr 500, [])
              else (s1, APairing (ahTicket H) (''https://'' @ ahHostname H) (PairingTicketTTL div second),
                    audit user ''mobile.pair.start'' ''''))"

text \<open>The old identifier is revoked when the handlers' service has the store.\<close>

definition revoke_current :: "ahost \<Rightarrow> string \<Rightarrow> 'c astate \<Rightarrow> 'c astate" where
  "revoke_current H jti s =
     (case router_sessions s of
        None \<Rightarrow> s
      | Some st \<Rightarrow> if jti = '''' then s else put_sessions (snd (Revoke (ahNow H) jti st)) s)"

definition handleRefresh :: "ahost \<Rightarrow> request \<Rightarrow> string \<Rightarrow> string \<Rightarrow> 'c astate \<Rightarrow> 'c astate \<times> areply \<times> aeffect list" where
  "handleRefresh H req user jti s =
     (if user = '''' then (s, AErr 401, [])
      else let (tok, s1) = issue H user (request_meta req) s
           in case tok of
                None \<Rightarrow> (s1, AErr 500, [])
              | Some t \<Rightarrow> (revoke_current H jti s1, ARenewed t user, SetAuthCookie t @ SetCookieFlag True))"

definition handleRefreshCookie :: "ahost \<Rightarrow> request \<Rightarrow> 'c astate \<Rightarrow> 'c astate \<times> areply \<times> aeffect list" where
  "handleRefreshCookie H req s =
     (if Method req \<noteq> MethodPost then (s, AErr 405, [])
      else if ReadSupabaseRefreshCookie req = '''' then (s, AErr 401, [])
      else if aSupabase (asAcc s) = None then (s, AErr 401, [])
      else case RefreshSession (ahRefreshGrant H (ReadSupabaseRefreshCookie req)) of
        Inl e \<Rightarrow>
          if e = SupabaseInvalidCredentials then (s, AErr 401, [AClear ''vpsm_refresh'', AClear ''vpsm_supabase_access''])
          else (s, AErr 503, [])
      | Inr sess \<Rightarrow>
          (case LookupByEmail (ahMapKeys H) (aUUIDMap (asAcc s)) (spEmail sess) of
             None \<Rightarrow> (s, AErr 401, [])
           | Some name \<Rightarrow>
               if name = '''' then (s, AErr 401, [])
               else if IsAppOnly (asCfg s) name
                 then (s, AErr 401, audit name ''login.refresh.denied.app_only'' ''web panel blocked for an app-only account'')
               else let (tok, s1) = issue H name (request_meta req) s
                    in case tok of
                         None \<Rightarrow> (s1, AErr 500, [])
                       | Some t \<Rightarrow> (s1, ARenewed t name, session_cookies (Some sess) @ SetAuthCookie t @ SetCookieFlag True
                                                        @ audit name ''auth.refresh.cookie'' '''')))"

definition logout_detail :: "ahost \<Rightarrow> request \<Rightarrow> 'c astate \<Rightarrow> string" where
  "logout_detail H req s =
     (let r = ReadSupabaseRefreshCookie req
      in if r = '''' \<or> aSupabase (asAcc s) = None then ''local''
         else if RevokeRefreshToken r (ahRevokeGrant H r) then ''supabase:revoked'' else ''supabase:revoke-failed'')"

definition handleLogout :: "ahost \<Rightarrow> request \<Rightarrow> string \<Rightarrow> string \<Rightarrow> 'c astate \<Rightarrow> 'c astate \<times> areply \<times> aeffect list" where
  "handleLogout H req user jti s =
     (if Method req \<noteq> MethodPost then (s, AErr 405, [])
      else (revoke_current H jti s, AOk,
            audit user ''logout'' (logout_detail H req s)
            @ [AClear ''vpsm_token'', AClear ''vpsm_refresh'', AClear ''vpsm_supabase_access''] @ SetCookieFlag False))"

section \<open>Sessions\<close>

definition handleSessionsList :: "ahost \<Rightarrow> string \<Rightarrow> 'c astate \<Rightarrow> areply" where
  "handleSessionsList H user s =
     (case router_sessions s of
        None \<Rightarrow> ASessions []
      | Some st \<Rightarrow> ASessions (sanitizeList JTI [] (ListForUser (ahSessKeys H) user st)))"

definition handleSessionRevoke :: "ahost \<Rightarrow> string \<Rightarrow> string \<Rightarrow> string option \<Rightarrow> 'c astate \<Rightarrow> 'c astate \<times> areply \<times> aeffect list" where
  "handleSessionRevoke H meth user body s =
     (if meth \<noteq> MethodPost then (s, AErr 405, [])
      else case router_sessions s of
        None \<Rightarrow> (s, AErr 503, [])
      | Some st \<Rightarrow>
          (case body of
             None \<Rightarrow> (s, AErr 400, [])
           | Some j \<Rightarrow>
               if j = '''' then (s, AErr 400, [])
               else if \<not> list_ex (\<lambda>x. JTI x = j) (ListForUser (ahSessKeys H) user st) then (s, AErr 404, [])
               else (put_sessions (snd (Revoke (ahNow H) j st)) s, AOk, audit user ''session.revoke'' (take 8 j))))"

definition handleSessionRevokeAll :: "ahost \<Rightarrow> string \<Rightarrow> string \<Rightarrow> string \<Rightarrow> 'c astate \<Rightarrow> 'c astate \<times> areply \<times> aeffect list" where
  "handleSessionRevokeAll H meth user jti s =
     (if meth \<noteq> MethodPost then (s, AErr 405, [])
      else case router_sessions s of
        None \<Rightarrow> (s, AErr 503, [])
      | Some st \<Rightarrow>
          (let (n, st') = RevokeAllExcept (ahSessKeys H) user jti st
           in (put_sessions st' s, ARevoked n, audit user ''session.revoke_all'' '''')))"

section \<open>Paired devices\<close>

definition handleListMobileSessions :: "string \<Rightarrow> 'c astate \<Rightarrow> areply" where
  "handleListMobileSessions user s =
     (if user = '''' then AErr 401
      else case passkey_ListAll (asPasskeys s user) of
        Inl _ \<Rightarrow> AErr 500
      | Inr recs \<Rightarrow> ACredentials (sanitizeList fst [] (map (\<lambda>r. (crID r, crLabel r, crStatus r)) recs)))"

text \<open>The checks that approval and removal share; \<open>act\<close> is the operation of the store.\<close>

definition credential_action :: "ahost \<Rightarrow> string \<Rightarrow> string \<Rightarrow> string option \<Rightarrow> string
    \<Rightarrow> (string \<Rightarrow> 'c passkey_file \<Rightarrow> (passkey_error + unit) \<times> 'c passkey_file) \<Rightarrow> 'c astate \<Rightarrow> 'c astate \<times> areply \<times> aeffect list" where
  "credential_action H meth user body what act s =
     (if meth \<noteq> MethodPost then (s, AErr 405, [])
      else if user = '''' then (s, AErr 401, [])
      else case body of
        None \<Rightarrow> (s, AErr 400, [])
      | Some i \<Rightarrow>
          if i = '''' then (s, AErr 400, [])
          else case CredentialByID i (asPasskeys s user) of
            Inl _ \<Rightarrow> (s, AErr 500, [])
          | Inr None \<Rightarrow> (s, AErr 404, [])
          | Inr (Some _) \<Rightarrow>
              (let (r, pf) = act i (asPasskeys s user);
                   s1 = s\<lparr>asPasskeys := (asPasskeys s)(user := pf)\<rparr>
               in if isl r then (s1, AErr 404, []) else (s1, AOk, audit user what (take 8 i))))"

definition handleApproveMobileCredential :: "ahost \<Rightarrow> string \<Rightarrow> string \<Rightarrow> string option \<Rightarrow> 'c astate \<Rightarrow> 'c astate \<times> areply \<times> aeffect list" where
  "handleApproveMobileCredential H meth user body s =
     credential_action H meth user body ''mobile.credential.approve'' (Approve (ahNow H) (ahPkOk H)) s"

definition handleRevokeMobileSession :: "ahost \<Rightarrow> string \<Rightarrow> string \<Rightarrow> string option \<Rightarrow> 'c astate \<Rightarrow> 'c astate \<times> areply \<times> aeffect list" where
  "handleRevokeMobileSession H meth user body s =
     credential_action H meth user body ''mobile.credential.revoke'' (passkey_Remove (ahPkOk H)) s"

section \<open>Legacy codes\<close>

definition totpIssuer :: string where "totpIssuer = ''VPS Manager''"

definition handleTOTPStatus :: "string \<Rightarrow> 'c astate \<Rightarrow> areply" where
  "handleTOTPStatus user s = (if user = '''' then AErr 401 else AEnrolled (snd (TOTPSecretFor (asCfg s) user)))"

text \<open>A fresh secret and its image; nothing is stored.\<close>

definition handleTOTPEnroll :: "ahost \<Rightarrow> string \<Rightarrow> string \<Rightarrow> 'c astate \<Rightarrow> areply" where
  "handleTOTPEnroll H meth user s =
     (if meth \<noteq> MethodPost then AErr 405
      else if user = '''' then AErr 401
      else if snd (TOTPSecretFor (asCfg s) user) then AErr 409
      else case ahGenerate H totpIssuer user of
        None \<Rightarrow> AErr 500
      | Some (secret, url) \<Rightarrow> if ahQR H url then ASecrets [(secret, url)] else AErr 500)"

definition handleTOTPConfirm :: "ahost \<Rightarrow> string \<Rightarrow> string \<Rightarrow> (string \<times> string) option \<Rightarrow> 'c astate \<Rightarrow> 'c astate \<times> areply \<times> aeffect list" where
  "handleTOTPConfirm H meth user body s =
     (if meth \<noteq> MethodPost then (s, AErr 405, [])
      else if user = '''' then (s, AErr 401, [])
      else case body of
        None \<Rightarrow> (s, AErr 400, [])
      | Some (secret, code) \<Rightarrow>
          if secret = '''' \<or> code = '''' then (s, AErr 400, [])
          else if \<not> ahTOTP H code secret then (s, AErr 401, audit user ''totp.enroll.fail'' '''')
          else let (c, updated) = SetTOTPSecret user secret (asCfg s)
               in if \<not> updated then (s, AErr 500, [])
                  else let (s1, ok) = save_conf H c s
                       in if ok then (s1, AOk, audit user ''totp.enroll.ok'' '''') else (s1, AErr 500, []))"

definition handleTOTPDisable :: "ahost \<Rightarrow> string \<Rightarrow> string \<Rightarrow> string option \<Rightarrow> 'c astate \<Rightarrow> 'c astate \<times> areply \<times> aeffect list" where
  "handleTOTPDisable H meth user body s =
     (if meth \<noteq> MethodPost then (s, AErr 405, [])
      else if user = '''' then (s, AErr 401, [])
      else case body of
        None \<Rightarrow> (s, AErr 400, [])
      | Some code \<Rightarrow>
          (let (secret, enrolled) = TOTPSecretFor (asCfg s) user
           in if \<not> enrolled then (s, AOk, [])
              else if \<not> ahTOTP H code secret then (s, AErr 401, audit user ''totp.disable.fail'' '''')
              else let (s1, ok) = save_conf H (fst (SetTOTPSecret user '''' (asCfg s))) s
                   in if ok then (s1, AOk, audit user ''totp.disable.ok'' '''') else (s1, AErr 500, [])))"

section \<open>Calls with the user's own session\<close>

text \<open>The answer decoded, with the cookies of a session renewed on the way; \<open>None\<close> is an error. \<open>want\<close>: the body is decoded.\<close>

definition supabaseCall :: "ahost \<Rightarrow> request \<Rightarrow> string \<Rightarrow> string \<Rightarrow> string list \<Rightarrow> bool \<Rightarrow> 'c astate
    \<Rightarrow> (nat \<times> gbody) option \<times> aeffect list" where
  "supabaseCall H req meth path body want s =
     (let access = ReadSupabaseAccessCookie req; refresh = ReadSupabaseRefreshCookie req
      in if aSupabase (asAcc s) = None then (None, [])
         else if access = '''' \<and> refresh = '''' then (None, [])
         else case AuthenticatedRequest (ahAsk H) (ahRefreshGrant H) access refresh meth path body of
           Inl _ \<Rightarrow> (None, [])
         | Inr res \<Rightarrow>
             (let cs = (case acRefreshed res of
                          None \<Rightarrow> []
                        | Some x \<Rightarrow> SetSupabaseAccessCookie (spAccess x) @ SetSupabaseRefreshCookie (spRefresh x))
              in if want \<and> acBody res = PBad then (None, cs) else (Some (acStatus res, decode_or_zero (acBody res)), cs)))"

section \<open>Changing the password\<close>

text \<open>The service that replaces the old one: it has no session store, and the identity server only if its map of accounts loads.\<close>

definition no_accounts :: "uuidMapFile jsonfile \<Rightarrow> bool" where
  "no_accounts f = (case f of Doc d \<Rightarrow> uMappings d = [] | _ \<Rightarrow> True)"

definition rebuilt_service :: "ahost \<Rightarrow> 'c astate \<Rightarrow> SupabaseSession option account_service" where
  "rebuilt_service H s =
     (let base = \<lparr>aUsers = credsFromConfig (asCfg s), aBackend = BackendLocal, aSupabase = None, aUUIDMap = None\<rparr>
      in if \<not> ahSupabase H then base
         else case LoadUUIDMap (asUUIDFile s) of
           Inr (Some m) \<Rightarrow> if no_accounts (asUUIDFile s) then base
                           else base\<lparr>aBackend := ahBackend H, aSupabase := Some (ahClient H), aUUIDMap := Some m\<rparr>
         | _ \<Rightarrow> base)"

definition swap_service :: "ahost \<Rightarrow> 'c astate \<Rightarrow> 'c astate" where
  "swap_service H s = s\<lparr>asAcc := rebuilt_service H s, asAttached := False\<rparr>"

text \<open>After the identity server took the new password, or was not asked.\<close>

definition finish_change :: "ahost \<Rightarrow> string \<Rightarrow> string \<Rightarrow> bool \<Rightarrow> 'c astate \<Rightarrow> 'c astate \<times> areply \<times> aeffect list" where
  "finish_change H user new remote s =
     (case ahHashPw H new of
        None \<Rightarrow> (s, AErr 500, [])
      | Some hash \<Rightarrow>
          (let (c, updated) = SetPassword user hash (asCfg s)
           in if \<not> updated then (s, AErr 500, [])
              else let (s1, ok) = save_conf H c s
                   in if \<not> ok then (s1, AErr 500, [])
                      else let s2 = swap_service H s1;
                               (r, df) = device_RevokeAll (ahDevOk H) (asDevices s2 user)
                           in (s2\<lparr>asDevices := (asDevices s2)(user := df)\<rparr>, AOk,
                               audit user ''password.change'' (if remote then ''supabase+local'' else ''local-only'')
                               @ (if isl r then [] else audit user ''password.change'' ''devices_revoked''))))"

definition handleChangePassword :: "ahost \<Rightarrow> request \<Rightarrow> string \<Rightarrow> (string \<times> string) option \<Rightarrow> 'c astate
    \<Rightarrow> 'c astate \<times> areply \<times> aeffect list" where
  "handleChangePassword H req user body s =
     (if Method req \<noteq> MethodPost then (s, AErr 405, [])
      else if user = '''' then (s, AErr 401, [])
      else case body of
        None \<Rightarrow> (s, AErr 400, [])
      | Some (old, new) \<Rightarrow>
          if \<not> Verify (ahBcrypt H) (asAcc s) user old then (s, AErr 401, audit user ''password.change.fail'' ''old_password_invalid'')
          else if length new < 8 then (s, AErr 400, [])
          else if aSupabase (asAcc s) \<noteq> None \<and> ReadSupabaseAccessCookie req \<noteq> '''' then
            (case supabaseCall H req ''PUT'' ''/auth/v1/user'' [new] False s of
               (None, cs) \<Rightarrow> (s, AErr 502, cs @ audit user ''password.change.fail'' '''')
             | (Some (status, _), cs) \<Rightarrow>
                 if status \<noteq> 200 then (s, AErr status, cs @ audit user ''password.change.fail'' '''')
                 else let (s1, r, e) = finish_change H user new True s in (s1, r, cs @ e))
          else finish_change H user new False s)"

section \<open>First set-up\<close>

definition handleSetupEnroll :: "ahost \<Rightarrow> string \<Rightarrow> string option \<Rightarrow> areply" where
  "handleSetupEnroll H meth body =
     (if meth \<noteq> MethodPost then AErr 405
      else case body of
        None \<Rightarrow> AErr 400
      | Some tok \<Rightarrow>
          (case VerifySetupToken (ahParse H) (ahNow H) tok of
             None \<Rightarrow> AErr 401
           | Some name \<Rightarrow>
               (case (ahGenerate H totpIssuer name, ahGenerate H (totpIssuer @ '' (recovery)'') name) of
                  (Some (s1, u1), Some (s2, u2)) \<Rightarrow> if ahQR H u1 \<and> ahQR H u2 then ASecrets [(s1, u1), (s2, u2)] else AErr 500
                | _ \<Rightarrow> AErr 500)))"

record setup_body =
  stToken :: string
  stMainSecret :: string
  stMainCode :: string
  stRecSecret :: string
  stRecCode :: string

text \<open>Both secrets are set in memory before either result is looked at.\<close>

definition handleSetupConfirm :: "ahost \<Rightarrow> request \<Rightarrow> setup_body option \<Rightarrow> 'c astate \<Rightarrow> 'c astate \<times> areply \<times> aeffect list" where
  "handleSetupConfirm H req body s =
     (if Method req \<noteq> MethodPost then (s, AErr 405, [])
      else case body of
        None \<Rightarrow> (s, AErr 400, [])
      | Some b \<Rightarrow>
          (case VerifySetupToken (ahParse H) (ahNow H) (stToken b) of
             None \<Rightarrow> (s, AErr 401, [])
           | Some name \<Rightarrow>
               if stMainSecret b = '''' \<or> stMainCode b = '''' \<or> stRecSecret b = '''' \<or> stRecCode b = '''' then (s, AErr 400, [])
               else if \<not> ahTOTP H (stMainCode b) (stMainSecret b) then (s, AErr 401, audit name ''setup.totp.main.fail'' '''')
               else if \<not> ahTOTP H (stRecCode b) (stRecSecret b) then (s, AErr 401, audit name ''setup.totp.recovery.fail'' '''')
               else let (c1, okMain) = SetTOTPSecret name (stMainSecret b) (asCfg s);
                        (c2, okRec) = SetRecoveryTOTPSecret name (stRecSecret b) c1
                    in if \<not> okMain \<or> \<not> okRec then (s\<lparr>asCfg := c2\<rparr>, AErr 500, [])
                       else let (s1, ok) = save_conf H c2 s
                            in if \<not> ok then (s1, AErr 500, [])
                               else let (tok, s2) = issue H name (request_meta req) s1
                                    in case tok of
                                         None \<Rightarrow> (s2, AErr 500, [])
                                       | Some t \<Rightarrow> (s2, ALogin t name, audit name ''setup.totp.enrolled'' ''main+recovery'')))"

end
