(* ===== verification/MfaHandlers.thy ===== *)
theory MfaHandlers
  imports LoginHandlers
begin

text \<open>
  Enrolment and removal of the second factor (\<^verbatim>\<open>internal/api/mfa.go\<close>), and the emergency access of
  \<^verbatim>\<open>internal/api/handlers_recovery.go\<close> with its own token, renewed for at most eight hours after the login. The factors live in
  the identity server; its answers are those of \<open>ahost\<close>.
\<close>

section \<open>The second factor\<close>

datatype mreply = MErr nat | MFactor string | MCodes string "string list" | MDisabled | MStatus bool string string nat

text \<open>Leftovers of an enrolment that was not finished are deleted first; their answers are ignored.\<close>

definition stale_factors :: "gbody \<Rightarrow> string list" where
  "stale_factors u = map fcID (filter (\<lambda>f. fcType f = ''totp'' \<and> fcStatus f = ''unverified'') (gbFactors u))"

definition handleMFAEnrollStart :: "ahost \<Rightarrow> request \<Rightarrow> string \<Rightarrow> string \<Rightarrow> 'c astate \<Rightarrow> mreply \<times> aeffect list" where
  "handleMFAEnrollStart H req user friendly0 s =
     (if Method req \<noteq> MethodPost then (MErr 405, [])
      else if user = '''' then (MErr 401, [])
      else let friendly = (if TrimSpace friendly0 = '''' then ''vpsmanager-v2'' else friendly0);
               (cur, e1) = supabaseCall H req ''GET'' ''/auth/v1/user'' [] True s;
               e2 = (case cur of
                       None \<Rightarrow> []
                     | Some (st, u) \<Rightarrow>
                         if st \<noteq> 200 then []
                         else concat (map (\<lambda>i. snd (supabaseCall H req ''DELETE'' (''/auth/v1/factors/'' @ i) [] False s)) (stale_factors u)));
               (r, e3) = supabaseCall H req ''POST'' ''/auth/v1/factors'' [''totp'', friendly] True s
           in case r of
                None \<Rightarrow> (MErr 502, e1 @ e2 @ e3)
              | Some (status, b) \<Rightarrow>
                  if status \<noteq> 200 then (MErr status, e1 @ e2 @ e3)
                  else (MFactor (gbID b), e1 @ e2 @ e3 @ audit user ''mfa.enroll_start'' (''factor_id='' @ gbID b)))"

text \<open>After the identity server verified the code: ten backup codes, then the mirror. \<open>rnd\<close> are the random codes.\<close>

definition finish_enroll :: "ahost \<Rightarrow> (nat \<Rightarrow> string option) \<Rightarrow> string \<Rightarrow> string \<Rightarrow> aeffect list \<Rightarrow> 'c astate \<Rightarrow> 'c astate \<times> mreply \<times> aeffect list" where
  "finish_enroll H rnd user factorID es s =
     (case GenerateBackupCodes (ahSHA H) (ahNow H) user 10 rnd of
        None \<Rightarrow> (s, MErr 500, es)
      | Some (codes, file) \<Rightarrow>
          (let (r, cf) = BackupSave (ahCodesOk H) file (asCodes s user);
               s1 = s\<lparr>asCodes := (asCodes s)(user := cf)\<rparr>
           in if isl r then (s1, MErr 500, es)
              else (setUserSupabaseMFA H user True s1, MCodes factorID codes,
                    es @ audit user ''mfa.enroll_verify.ok'' (''factor_id='' @ factorID))))"

definition handleMFAEnrollVerify :: "ahost \<Rightarrow> (nat \<Rightarrow> string option) \<Rightarrow> request \<Rightarrow> string \<Rightarrow> (string \<times> string) option \<Rightarrow> 'c astate
    \<Rightarrow> 'c astate \<times> mreply \<times> aeffect list" where
  "handleMFAEnrollVerify H rnd req user body s =
     (if Method req \<noteq> MethodPost then (s, MErr 405, [])
      else if user = '''' then (s, MErr 401, [])
      else case body of
        None \<Rightarrow> (s, MErr 400, [])
      | Some (factorID, code0) \<Rightarrow>
          (let code = TrimSpace code0
           in if factorID = '''' \<or> code = '''' then (s, MErr 400, [])
              else case supabaseCall H req ''POST'' (''/auth/v1/factors/'' @ factorID @ ''/challenge'') [] True s of
                (None, e1) \<Rightarrow> (s, MErr 502, e1)
              | (Some (st1, ch), e1) \<Rightarrow>
                  if st1 \<noteq> 200 then (s, MErr st1, e1)
                  else case supabaseCall H req ''POST'' (''/auth/v1/factors/'' @ factorID @ ''/verify'') [gbID ch, code] True s of
                    (None, e2) \<Rightarrow> (s, MErr 502, e1 @ e2)
                  | (Some (st2, ver), e2) \<Rightarrow>
                      if st2 \<noteq> 200 then (s, MErr st2, e1 @ e2 @ audit user ''mfa.enroll_verify.fail'' (''factor='' @ factorID))
                      else finish_enroll H rnd user factorID
                             (e1 @ e2 @ (if gbAccess ver = '''' then []
                                         else SetSupabaseAccessCookie (gbAccess ver) @ SetSupabaseRefreshCookie (gbRefresh ver))) s))"

definition handleMFADisable :: "ahost \<Rightarrow> request \<Rightarrow> string \<Rightarrow> 'c astate \<Rightarrow> 'c astate \<times> mreply \<times> aeffect list" where
  "handleMFADisable H req user s =
     (if Method req \<noteq> MethodPost then (s, MErr 405, [])
      else if user = '''' then (s, MErr 401, [])
      else case supabaseCall H req ''GET'' ''/auth/v1/user'' [] True s of
        (None, e1) \<Rightarrow> (s, MErr 502, e1)
      | (Some (st1, u), e1) \<Rightarrow>
          if st1 \<noteq> 200 then (s, MErr st1, e1)
          else let factorID = fst (findFactorByType (gbFactors u) ''totp'')
               in if factorID = '''' then (s, MErr 404, e1)
                  else case supabaseCall H req ''DELETE'' (''/auth/v1/factors/'' @ factorID) [] False s of
                    (None, e2) \<Rightarrow> (s, MErr 502, e1 @ e2)
                  | (Some (st2, _), e2) \<Rightarrow>
                      if st2 \<noteq> 200 \<and> st2 \<noteq> 204 then (s, MErr st2, e1 @ e2)
                      else let s1 = s\<lparr>asCodes := (asCodes s)(user := snd (BackupDelete (ahCodesOk H) (asCodes s user))),
                                      asDevices := (asDevices s)(user := snd (device_RevokeAll (ahDevOk H) (asDevices s user)))\<rparr>
                           in (setUserSupabaseMFA H user False s1, MDisabled, e1 @ e2 @ audit user ''mfa.disable'' (''factor_id='' @ factorID)))"

definition handleMFAStatus :: "ahost \<Rightarrow> request \<Rightarrow> string \<Rightarrow> 'c astate \<Rightarrow> mreply \<times> aeffect list" where
  "handleMFAStatus H req user s =
     (if Method req \<noteq> MethodGet then (MErr 405, [])
      else if user = '''' then (MErr 401, [])
      else case supabaseCall H req ''GET'' ''/auth/v1/user'' [] True s of
        (None, e1) \<Rightarrow> (MErr 502, e1)
      | (Some (st1, u), e1) \<Rightarrow>
          if st1 \<noteq> 200 then (MErr st1, e1)
          else let (factorID, status) = findFactorByType (gbFactors u) ''totp'';
                   unused = (case CountUnused (asCodes s user) of Inl _ \<Rightarrow> 0 | Inr n \<Rightarrow> n)
               in (MStatus (factorID \<noteq> '''' \<and> status = ''verified'') factorID status unused, e1))"

section \<open>Emergency access\<close>

definition recoveryCookieName :: string where "recoveryCookieName = ''vpsm_recovery_token''"
definition recoveryCookieUser :: string where "recoveryCookieUser = ''vpsm_recovery_user''"
definition recovery_ttl :: nanos where "recovery_ttl = 30 * 60 * second"
definition recoveryTetoAbsoluto :: nanos where "recoveryTetoAbsoluto = 8 * 60 * 60 * second"

datatype rreply = RErr nat | ROk | RRenewed int | RShell | RAction string

definition IssueRecoveryTokenFrom :: "ahost \<Rightarrow> string \<Rightarrow> nanos \<Rightarrow> string option" where
  "IssueRecoveryTokenFrom H user ini = ahSign H (recovery_claims (ahNow H) user recovery_ttl ini)"

definition recovery_cookies :: "string \<Rightarrow> string \<Rightarrow> aeffect list" where
  "recovery_cookies tok user = [ACookie recoveryCookieName tok, ACookie recoveryCookieUser user]"

definition issueRecoverySession :: "ahost \<Rightarrow> request \<Rightarrow> string \<Rightarrow> string \<Rightarrow> 'c astate \<Rightarrow> 'c astate \<times> rreply \<times> aeffect list" where
  "issueRecoverySession H req user action s =
     (let s1 = clear_attempts (ClientIP req) user s
      in case IssueRecoveryTokenFrom H user (ahNow H) of
           None \<Rightarrow> (s1, RErr 500, [])
         | Some tok \<Rightarrow> (s1, ROk, recovery_cookies tok user @ audit user action ''''))"

text \<open>The body: name, password, code. (The fourth field is read and not used.)\<close>

definition handleRecoveryAuth :: "ahost \<Rightarrow> request \<Rightarrow> (string \<times> string \<times> string) option \<Rightarrow> 'c astate
    \<Rightarrow> 'c astate \<times> rreply \<times> aeffect list" where
  "handleRecoveryAuth H req body s0 =
     (if Method req \<noteq> MethodPost then (s0, RErr 405, [])
      else let (ok, l) = Allow (ahNow H) (ClientIP req) (asLimiter s0);
               s = s0\<lparr>asLimiter := l\<rparr>
           in if \<not> ok then (s, RErr 429, [])
              else case body of
                None \<Rightarrow> (s, RErr 400, [])
              | Some (n0, pass, code0) \<Rightarrow>
                  (let name = TrimSpace n0; code = TrimSpace code0
                   in if name = '''' \<or> pass = '''' then (s, RErr 400, [])
                      else if IsAppOnly (asCfg s) name
                        then (s, RErr 401, audit name ''recovery.login.denied.app_only'' ''recovery blocked for an app-only account'')
                      else let ((free, _), lo) = Allowed (ahNow H) name (asLockout s);
                               s1 = s\<lparr>asLockout := lo\<rparr>
                           in if \<not> free then (s1, RErr 423, audit name ''recovery.login.locked'' '''')
                              else if \<not> Verify (ahBcrypt H) (asAcc s1) name pass
                                then (record_failure H name s1, RErr 401, audit name ''recovery.login.fail'' ''bad_password'')
                              else let (secret, has) = RecoveryTOTPSecretFor (asCfg s1) name
                                   in if \<not> has \<or> secret = ''''
                                        then (s1, RErr 403, audit name ''recovery.login.fail'' ''no_recovery_totp_enrolled'')
                                      else if code = '''' then (s1, RErr 400, [])
                                      else if \<not> ahTOTP H code secret
                                        then (record_failure H name s1, RErr 401, audit name ''recovery.login.fail'' ''bad_totp'')
                                      else issueRecoverySession H req name ''recovery.login.ok'' s1))"

definition recoveryUserFromCookie :: "ahost \<Rightarrow> request \<Rightarrow> string option" where
  "recoveryUserFromCookie H req =
     (let v = read_cookie recoveryCookieName req
      in if v = '''' then None else VerifyRecoveryToken (ahParse H) (ahNow H) v)"

text \<open>The gate of the page of the terminal, of its socket, of the actions and of the assistant's container.\<close>

definition recovery_actions :: "string list" where
  "recovery_actions = [''rollback'', ''restart'', ''health'', ''claude-up'']"

definition handleRecoveryAction :: "ahost \<Rightarrow> request \<Rightarrow> rreply \<times> aeffect list" where
  "handleRecoveryAction H req =
     (if Method req \<noteq> MethodPost then (RErr 405, [])
      else case recoveryUserFromCookie H req of
        None \<Rightarrow> (RErr 401, [])
      | Some user \<Rightarrow>
          if \<not> HasPrefix (Path req) ''/recovery/action/'' then (RErr 404, [])
          else let action = TrimPrefix (Path req) ''/recovery/action/''
               in if action \<notin> set recovery_actions then (RErr 404, [])
                  else (RAction action, audit user (''recovery.action.'' @ action) ''''))"

definition handleRecoveryPTY :: "ahost \<Rightarrow> request \<Rightarrow> rreply \<times> aeffect list" where
  "handleRecoveryPTY H req =
     (case recoveryUserFromCookie H req of
        None \<Rightarrow> (RErr 401, [])
      | Some user \<Rightarrow> (RShell, audit user ''recovery.pty.open'' ''''))"

definition handleRecoveryRenew :: "ahost \<Rightarrow> request \<Rightarrow> rreply \<times> aeffect list" where
  "handleRecoveryRenew H req =
     (case recoveryUserFromCookie H req of
        None \<Rightarrow> (RErr 401, [])
      | Some user \<Rightarrow>
          (case RecoveryTokenStart (ahParse H) (ahNow H) (read_cookie recoveryCookieName req) of
             None \<Rightarrow> (RErr 401, [])
           | Some inicio \<Rightarrow>
               (let rest = recoveryTetoAbsoluto - (ahNow H - inicio * second)
                in if rest \<le> 0 then (RErr 403, audit user ''recovery.renew.teto'' '''')
                   else case IssueRecoveryTokenFrom H user (inicio * second) of
                     None \<Rightarrow> (RErr 500, [])
                   | Some tok \<Rightarrow> (RRenewed (rest div second), recovery_cookies tok user))))"

definition handleRecoveryLogout :: "ahost \<Rightarrow> request \<Rightarrow> rreply \<times> aeffect list" where
  "handleRecoveryLogout H req =
     (if Method req \<noteq> MethodPost \<and> Method req \<noteq> MethodGet then (RErr 405, [])
      else (ROk, (case recoveryUserFromCookie H req of None \<Rightarrow> [] | Some u \<Rightarrow> audit u ''recovery.logout'' '''')
                 @ [AClear recoveryCookieName, AClear recoveryCookieUser]))"

end
