(* ===== verification/MobileAuth.thy ===== *)
theory MobileAuth
  imports LoginHandlers
begin

text \<open>
  Sign-in of the phone: password login and renewal (\<^verbatim>\<open>internal/api/mobile_login.go\<close>, \<^verbatim>\<open>internal/mobilebff/auth_login.go\<close>), logout
  (\<^verbatim>\<open>auth_logout.go\<close>), pairing (\<^verbatim>\<open>auth_pairing.go\<close>) and passkeys (\<^verbatim>\<open>internal/api/passkey.go\<close>, \<^verbatim>\<open>auth_passkey.go\<close>,
  \<^verbatim>\<open>internal/auth/webauthn.go\<close>). The WebAuthn library is the record \<open>webauthn\<close>; JSON of its sessions is kept as text.
\<close>

section \<open>Password login\<close>

datatype mobile_error =
    ErrPasskeyInvalidToken
  | ErrPasskeyInvalidCredential
  | ErrPasskeyPendingApproval
  | ErrPasskeyUnavailable
  | ErrPairingTicketInvalid
  | ErrMobileLoginInvalidCredentials
  | ErrMobileLoginLocked
  | ErrMobileLoginRateLimited
  | ErrMobileLoginMFAUnavailable
  | ErrMobileLoginInvalidCode
  | ErrMobileRefreshInvalid
  | ErrInternal

definition mapPasskeyError :: "mobile_error \<Rightarrow> nat" where
  "mapPasskeyError e =
     (case e of
        ErrPasskeyUnavailable \<Rightarrow> 503
      | ErrMobileLoginMFAUnavailable \<Rightarrow> 503
      | ErrMobileLoginLocked \<Rightarrow> 423
      | ErrMobileLoginRateLimited \<Rightarrow> 429
      | ErrPasskeyPendingApproval \<Rightarrow> 400
      | ErrInternal \<Rightarrow> 400
      | _ \<Rightarrow> 401)"

datatype MobileLoginResult = MTokens string string | MTOTPRequired

definition mfa_error :: "mfaCheckResult \<Rightarrow> (mobile_error + MobileLoginResult) option" where
  "mfa_error r =
     (case r of
        mfaUnavailableDenied \<Rightarrow> Some (Err ErrMobileLoginMFAUnavailable)
      | mfaCodeRequired \<Rightarrow> Some (Ok MTOTPRequired)
      | mfaCodeInvalid \<Rightarrow> Some (Err ErrMobileLoginInvalidCode)
      | _ \<Rightarrow> None)"

text \<open>A session token and a refresh token for the device.\<close>

definition mint_mobile :: "ahost \<Rightarrow> string \<Rightarrow> string \<Rightarrow> 'c astate \<Rightarrow> (mobile_error + string) \<times> 'c astate" where
  "mint_mobile H user label s =
     (let (r, mf) = Mint (ahSHA H) (ahNow H) (ahMobOk H) (ahSecret H) (ahRefreshID H) user label (asMobile s user)
      in (case r of Inl _ \<Rightarrow> Err ErrInternal | Inr t \<Rightarrow> Ok t, s\<lparr>asMobile := (asMobile s)(user := mf)\<rparr>))"

definition grant :: "ahost \<Rightarrow> string \<Rightarrow> IssueMeta option \<Rightarrow> string \<Rightarrow> 'c astate \<Rightarrow> (mobile_error + MobileLoginResult) \<times> 'c astate" where
  "grant H user meta label s =
     (let (tok, s1) = issue H user meta s
      in case tok of
           None \<Rightarrow> (Err ErrInternal, s1)
         | Some t \<Rightarrow> (let (r, s2) = mint_mobile H user label s1
                     in (case r of Inl e \<Rightarrow> Err e | Inr rt \<Rightarrow> Ok (MTokens t rt), s2)))"

definition MobileLogin :: "ahost \<Rightarrow> request \<Rightarrow> string \<Rightarrow> string \<Rightarrow> string \<Rightarrow> string \<Rightarrow> 'c astate
    \<Rightarrow> (mobile_error + MobileLoginResult) \<times> 'c astate \<times> aeffect list" where
  "MobileLogin H req name0 pass code label s0 =
     (let (ok, l) = Allow (ahNow H) (ClientIP req) (asLimiter s0);
          s = s0\<lparr>asLimiter := l\<rparr>
      in if \<not> ok then (Err ErrMobileLoginRateLimited, s, [])
         else let name = canonical H (aUUIDMap (asAcc s)) name0;
                  ((free, _), lo) = Allowed (ahNow H) name (asLockout s);
                  s1 = s\<lparr>asLockout := lo\<rparr>
              in if \<not> free then (Err ErrMobileLoginLocked, s1, [])
                 else let (vres, _) = VerifyDetailed (ahBcrypt H) (asAcc s1) name pass
                      in if \<not> vOK vres
                         then (Err ErrMobileLoginInvalidCredentials, record_failure H name s1, audit name ''mobile.login.fail'' (source_of vres))
                         else let (mfa, s2) = verifyLoginMFA H req vres name code s1;
                                  e1 = (if mcResult mfa = mfaTrustedDevice then [] else verdict_audit ''mobile.'' name mfa)
                              in case mfa_error (mcResult mfa) of
                                   Some r \<Rightarrow> (r, if r = Ok MTOTPRequired then s2 else record_failure H name s2, e1)
                                 | None \<Rightarrow>
                                     (let (r, s3) = grant H name (request_meta req) label (clear_attempts (ClientIP req) name s2)
                                      in (r, s3, e1 @ (if isl r then [] else audit name ''mobile.login.ok'' label))))"

text \<open>
  The HTTP operation passes on a request of its own: no remote address, and the address and agent of the real one as headers.
\<close>

definition inner_request :: "request \<Rightarrow> request" where
  "inner_request req =
     (plain_request MethodPost ''/auth/login'')
       \<lparr>Header := (\<lambda>h. if h = ''X-Forwarded-For'' then ClientIP req
                      else if h = ''User-Agent'' then Header req ''User-Agent'' else '''')\<rparr>"

definition mobileLogin_op :: "ahost \<Rightarrow> request \<Rightarrow> string \<Rightarrow> string \<Rightarrow> string \<Rightarrow> string \<Rightarrow> 'c astate
    \<Rightarrow> (nat + MobileLoginResult) \<times> 'c astate \<times> aeffect list" where
  "mobileLogin_op H req name pass code label s =
     (let (r, s1, es) = MobileLogin H (inner_request req) name pass code label s
      in (map_sum mapPasskeyError id r, s1, es))"

text \<open>Renewal: the limit is per name, which the token carries in clear.\<close>

definition MobileRefresh :: "ahost \<Rightarrow> string \<Rightarrow> 'c astate \<Rightarrow> (mobile_error + MobileLoginResult) \<times> 'c astate \<times> aeffect list" where
  "MobileRefresh H token s0 =
     (case ParseMobileRefreshUsername token of
        None \<Rightarrow> (Err ErrMobileRefreshInvalid, s0, [])
      | Some name \<Rightarrow>
          (let (ok, l) = Allow (ahNow H) name (asRefreshLimiter s0);
               s = s0\<lparr>asRefreshLimiter := l\<rparr>
           in if \<not> ok then (Err ErrMobileLoginRateLimited, s, [])
              else let (r, mf) = Rotate (ahSHA H) (ahNow H) (ahMobOk H) (ahSecret H) token (asMobile s name);
                       s1 = s\<lparr>asMobile := (asMobile s)(name := mf)\<rparr>
                   in case r of
                        Inl _ \<Rightarrow> (Err ErrInternal, s1, [])
                      | Inr None \<Rightarrow> (Err ErrMobileRefreshInvalid, s1, audit name ''mobile.refresh.invalid'' '''')
                      | Inr (Some (newRefresh, user)) \<Rightarrow>
                          (let (tok, s2) = issue H user None s1
                           in case tok of
                                None \<Rightarrow> (Err ErrInternal, s2, [])
                              | Some t \<Rightarrow> (Ok (MTokens t newRefresh), s2, audit user ''mobile.refresh.ok'' ''''))))"

text \<open>Logout works on the session store the process started with, whatever service the handlers use now.\<close>

definition revokeOwnSession :: "ahost \<Rightarrow> string \<Rightarrow> 'c astate \<Rightarrow> 'c astate" where
  "revokeOwnSession H jti s =
     (case asessions (asAuth s) of
        None \<Rightarrow> s
      | Some st \<Rightarrow> if jti = '''' then s else s\<lparr>asAuth := (asAuth s)\<lparr>asessions := Some (snd (Revoke (ahNow H) jti st))\<rparr>\<rparr>)"

definition shortJTI :: "string \<Rightarrow> string" where "shortJTI j = (if length j \<le> 8 then j else take 8 j)"

definition mobileLogout_op :: "ahost \<Rightarrow> string \<Rightarrow> string \<Rightarrow> 'c astate \<Rightarrow> 'c astate \<times> aeffect list" where
  "mobileLogout_op H user jti s = (revokeOwnSession H jti s, audit user ''mobile.logout'' (shortJTI jti))"

section \<open>Passkeys\<close>

record 'c webauthn =
  waReady :: bool
  waBeginReg :: "string \<Rightarrow> 'c CredentialRecord list \<Rightarrow> (string \<times> string) option"
  waCreate :: "string \<Rightarrow> 'c CredentialRecord list \<Rightarrow> string \<Rightarrow> string \<Rightarrow> 'c wcredential option"
  waBeginLogin :: "(string \<times> string) option"
  waValidate :: "(string \<Rightarrow> 'c CredentialRecord list option) \<Rightarrow> string \<Rightarrow> string \<Rightarrow> (string \<times> 'c wcredential) option"
  waB64 :: "string \<Rightarrow> string"
  waUnb64 :: "string \<Rightarrow> string option"

definition issueCeremonyToken :: "'c webauthn \<Rightarrow> ahost \<Rightarrow> string \<Rightarrow> string \<Rightarrow> string option \<Rightarrow> string option" where
  "issueCeremonyToken W H user kd payload = ahSign H (ceremony_claims (waB64 W) (ahNow H) (ahJTI H) user kd payload)"

definition verify_ceremony :: "'c webauthn \<Rightarrow> ahost \<Rightarrow> string \<Rightarrow> string \<Rightarrow> 'c astate \<Rightarrow> (string \<times> string option) option \<times> 'c astate" where
  "verify_ceremony W H kd token s =
     (let (r, a) = verifyCeremonyToken (ahParse H) (waUnb64 W) (ahNow H) (ahNow H) kd token (asAuth s)
      in (r, s\<lparr>asAuth := a\<rparr>))"

definition ConsumePairing :: "'c webauthn \<Rightarrow> ahost \<Rightarrow> string \<Rightarrow> 'c astate \<Rightarrow> (mobile_error + string) \<times> 'c astate" where
  "ConsumePairing W H ticket s =
     (let (v, m) = ConsumePairingTicket (ahNow H) ticket (pairings (asAuth s));
          s1 = s\<lparr>asAuth := (asAuth s)\<lparr>pairings := m\<rparr>\<rparr>
      in case v of
           None \<Rightarrow> (Err ErrPairingTicketInvalid, s1)
         | Some user \<Rightarrow>
             (case issueCeremonyToken W H user ''webauthn_reg'' None of None \<Rightarrow> (Err ErrInternal, s1) | Some t \<Rightarrow> (Ok t, s1)))"

definition BeginPasskeyRegistration :: "'c webauthn \<Rightarrow> ahost \<Rightarrow> string \<Rightarrow> 'c astate \<Rightarrow> (mobile_error + string \<times> string) \<times> 'c astate" where
  "BeginPasskeyRegistration W H regToken s =
     (if \<not> waReady W then (Err ErrPasskeyUnavailable, s)
      else case verify_ceremony W H ''webauthn_reg'' regToken s of
        (None, s1) \<Rightarrow> (Err ErrPasskeyInvalidToken, s1)
      | (Some (user, _), s1) \<Rightarrow>
          (case passkey_List (asPasskeys s1 user) of
             Inl _ \<Rightarrow> (Err ErrInternal, s1)
           | Inr approved \<Rightarrow>
               (case waBeginReg W user approved of
                  None \<Rightarrow> (Err ErrInternal, s1)
                | Some (opts, session) \<Rightarrow>
                    (case issueCeremonyToken W H user ''webauthn_reg_session'' (Some session) of
                       None \<Rightarrow> (Err ErrInternal, s1)
                     | Some cont \<Rightarrow> (Ok (opts, cont), s1)))))"

text \<open>The credential is stored; nothing else comes of it. (A notification goes out.)\<close>

definition FinishPasskeyRegistration :: "'c webauthn \<Rightarrow> ahost \<Rightarrow> string \<Rightarrow> string \<Rightarrow> string \<Rightarrow> 'c astate
    \<Rightarrow> (mobile_error + unit) \<times> 'c astate" where
  "FinishPasskeyRegistration W H cont label cred s =
     (if \<not> waReady W then (Err ErrPasskeyUnavailable, s)
      else case verify_ceremony W H ''webauthn_reg_session'' cont s of
        (None, s1) \<Rightarrow> (Err ErrPasskeyInvalidToken, s1)
      | (Some (user, payload), s1) \<Rightarrow>
          (case payload of
             None \<Rightarrow> (Err ErrInternal, s1)
           | Some session \<Rightarrow>
               (case passkey_List (asPasskeys s1 user) of
                  Inl _ \<Rightarrow> (Err ErrInternal, s1)
                | Inr approved \<Rightarrow>
                    (case waCreate W user approved session cred of
                       None \<Rightarrow> (Err ErrPasskeyInvalidCredential, s1)
                     | Some c \<Rightarrow>
                         (let (r, pf) = passkey_Add (ahNow H) (ahPkOk H) c label (asPasskeys s1 user)
                          in (case r of Inl _ \<Rightarrow> Err ErrInternal | Inr _ \<Rightarrow> Ok (), s1\<lparr>asPasskeys := (asPasskeys s1)(user := pf)\<rparr>))))))"

definition BeginPasskeyLogin :: "'c webauthn \<Rightarrow> ahost \<Rightarrow> mobile_error + string \<times> string" where
  "BeginPasskeyLogin W H =
     (if \<not> waReady W then Err ErrPasskeyUnavailable
      else case waBeginLogin W of
        None \<Rightarrow> Err ErrInternal
      | Some (opts, session) \<Rightarrow>
          (case issueCeremonyToken W H '''' ''webauthn_login_session'' (Some session) of
             None \<Rightarrow> Err ErrInternal
           | Some cont \<Rightarrow> Ok (opts, cont)))"

text \<open>What the library may learn of a user: all credentials, also those that wait for approval.\<close>

definition credentials_of :: "'c astate \<Rightarrow> string \<Rightarrow> 'c CredentialRecord list option" where
  "credentials_of s u =
     (if u = '''' then None else case passkey_ListAll (asPasskeys s u) of Inl _ \<Rightarrow> None | Inr cs \<Rightarrow> Some cs)"

definition FinishPasskeyLogin :: "'c webauthn \<Rightarrow> ahost \<Rightarrow> string \<Rightarrow> string \<Rightarrow> IssueMeta \<Rightarrow> 'c astate
    \<Rightarrow> (mobile_error + MobileLoginResult) \<times> 'c astate" where
  "FinishPasskeyLogin W H cont cred meta s =
     (if \<not> waReady W then (Err ErrPasskeyUnavailable, s)
      else case verify_ceremony W H ''webauthn_login_session'' cont s of
        (None, s1) \<Rightarrow> (Err ErrPasskeyInvalidToken, s1)
      | (Some (_, payload), s1) \<Rightarrow>
          (case payload of
             None \<Rightarrow> (Err ErrInternal, s1)
           | Some session \<Rightarrow>
               (case waValidate W (credentials_of s1) session cred of
                  None \<Rightarrow> (Err ErrPasskeyInvalidCredential, s1)
                | Some (user, c) \<Rightarrow>
                    (case CredentialByID (CredentialRecordID c) (asPasskeys s1 user) of
                       Inl _ \<Rightarrow> (Err ErrInternal, s1)
                     | Inr None \<Rightarrow> (Err ErrPasskeyInvalidCredential, s1)
                     | Inr (Some rec) \<Rightarrow>
                         (let (r, pf) = UpdateCredential (ahPkOk H) c (asPasskeys s1 user);
                              s2 = s1\<lparr>asPasskeys := (asPasskeys s1)(user := pf)\<rparr>
                          in if isl r then (Err ErrInternal, s2)
                             else if crStatus rec \<noteq> Approved then (Err ErrPasskeyPendingApproval, s2)
                             else grant H user (Some meta) (crLabel rec) s2)))))"

definition AllowLoginAttempt :: "ahost \<Rightarrow> string \<Rightarrow> 'c astate \<Rightarrow> bool \<times> 'c astate" where
  "AllowLoginAttempt H ip s = (let (ok, l) = Allow (ahNow H) ip (asLimiter s) in (ok, s\<lparr>asLimiter := l\<rparr>))"

definition passkeyLoginFinish_op :: "'c webauthn \<Rightarrow> ahost \<Rightarrow> request \<Rightarrow> string \<Rightarrow> string \<Rightarrow> 'c astate
    \<Rightarrow> (nat + MobileLoginResult) \<times> 'c astate" where
  "passkeyLoginFinish_op W H req cont cred s0 =
     (let ip = ClientIP req; (ok, s) = AllowLoginAttempt H ip s0
      in if \<not> ok then (Inl 429, s)
         else case FinishPasskeyLogin W H cont cred \<lparr>meta_ip = ip, meta_ua = Header req ''User-Agent''\<rparr> s of
           (Inl e, s1) \<Rightarrow> (Inl (if e = ErrPasskeyPendingApproval then 403 else mapPasskeyError e), s1)
         | (Inr r, s1) \<Rightarrow> (Inr r, s1\<lparr>asLimiter := Limiter_Reset ip (asLimiter s1)\<rparr>))"

definition passkeyLoginBegin_op :: "'c webauthn \<Rightarrow> ahost \<Rightarrow> request \<Rightarrow> 'c astate \<Rightarrow> (nat + string \<times> string) \<times> 'c astate" where
  "passkeyLoginBegin_op W H req s0 =
     (let (ok, s) = AllowLoginAttempt H (ClientIP req) s0
      in if \<not> ok then (Inl 429, s) else (map_sum mapPasskeyError id (BeginPasskeyLogin W H), s))"

end
