(* ===== verification/AuthFlow.thy ===== *)
theory AuthFlow
  imports MfaHandlers MobileAuth AuthProps ConfigProps
begin

text \<open>
  What the sign-in handlers guarantee together: which credential every session token rests on, how long emergency access can
  last, and the places where a change of password, a logout or a second factor does not do what it should.
\<close>

section \<open>The second factor\<close>

text \<open>
  The second factor is settled: the identity server knows of none (or cannot be asked, and no factor is on record here), the device
  is trusted, or the code is right, or it is an unused backup code.
\<close>

definition second_factor :: "ahost \<Rightarrow> request \<Rightarrow> SupabaseSession option VerifyResult \<Rightarrow> string \<Rightarrow> string \<Rightarrow> 'c astate \<Rightarrow> bool" where
  "second_factor H req vres name code s \<longleftrightarrow>
     (case Option.bind (vSession vres) id of
        None \<Rightarrow> True
      | Some sess \<Rightarrow>
          spAccess sess = '''' \<or> aSupabase (asAcc s) = None
          \<or> (case supabaseGetUserMFA (ahAsk H) (ahRefreshGrant H) (spAccess sess) of
               None \<Rightarrow> \<not> userHasSupabaseMFA (asCfg s) name
             | Some (factorID, status) \<Rightarrow>
                 factorID = '''' \<or> status \<noteq> ''verified''
                 \<or> fst (IsTrusted (ahSHA H) (ahNow H) (ahDevOk H) (ReadDeviceCookie req) (asDevices s name)) = Ok True
                 \<or> code \<noteq> ''''
                   \<and> (supabaseChallengeAndVerify (ahAsk H) (ahRefreshGrant H) (spAccess sess) factorID code = Some True
                      \<or> fst (TryConsume (ahSHA H) (ahNow H) (ahCodesOk H) code (asCodes s name)) = Ok True)))"

lemma mirror_keeps:
  "asDevices (setUserSupabaseMFA H n e s) = asDevices s" "asCodes (setUserSupabaseMFA H n e s) = asCodes s"
  "asAuth (setUserSupabaseMFA H n e s) = asAuth s" "asAttached (setUserSupabaseMFA H n e s) = asAttached s"
  "asAcc (setUserSupabaseMFA H n e s) = asAcc s"
  by (auto simp: setUserSupabaseMFA_def save_conf_def Let_def split_beta split: option.split)

lemma check_factor_passes:
  "mfa_refusal (mcResult (fst (check_factor H req access f name code s))) = None \<longleftrightarrow>
     fst (IsTrusted (ahSHA H) (ahNow H) (ahDevOk H) (ReadDeviceCookie req) (asDevices s name)) = Ok True
   \<or> code \<noteq> '''' \<and> (supabaseChallengeAndVerify (ahAsk H) (ahRefreshGrant H) access f code = Some True
      \<or> fst (TryConsume (ahSHA H) (ahNow H) (ahCodesOk H) code (asCodes s name)) = Ok True)"
  by (simp add: check_factor_def Let_def split_beta mfa_refusal_def)

lemma mfa_refusal_simps [simp]:
  "mfa_refusal mfaNotRequired = None" "mfa_refusal mfaUnavailableDenied = Some (AErr 503)" "mfa_refusal r \<noteq> Some (ALogin t u)"
  by (simp_all add: mfa_refusal_def split: mfaCheckResult.split)

lemma verifyLoginMFA_passes:
  "mfa_refusal (mcResult (fst (verifyLoginMFA H req vres name code s))) = None \<longleftrightarrow> second_factor H req vres name code s"
  by (auto simp: verifyLoginMFA_def second_factor_def Let_def check_factor_passes mirror_keeps no_factor_def
      split: option.split prod.split)

lemma mfa_error_refusal: "mfa_error r = None \<longleftrightarrow> mfa_refusal r = None"
  by (simp add: mfa_error_def mfa_refusal_def split: mfaCheckResult.split)

section \<open>What a session token rests on\<close>

lemma issue_signs: "fst (issue H u meta s) = ahSign H (session_claims (ahNow H) (ahJTI H) u)"
  by (simp add: issue_def Issue_def Let_def split_beta split: option.split)

lemma grant_signs: "fst (grant H u meta label s) = Ok (MTokens t rt) \<Longrightarrow> ahSign H (session_claims (ahNow H) (ahJTI H) u) = Some t"
  using issue_signs [of H u meta s] by (auto simp: grant_def Let_def split_beta split: option.splits sum.splits)

text \<open>The requests that can be answered with a session token; a renewal in the browser passes the middleware first.\<close>

datatype areq =
    QLogin request login_body
  | QRefresh request
  | QCookie request
  | QSetup request setup_body
  | QMobile request string string string string
  | QRenew string
  | QPasskey request string string

definition reply_token :: "areply \<Rightarrow> string option" where
  "reply_token r = (case r of ALogin t _ \<Rightarrow> Some t | ARenewed t _ \<Rightarrow> Some t | _ \<Rightarrow> None)"

definition result_token :: "'e + MobileLoginResult \<Rightarrow> string option" where
  "result_token r = (case r of Inr (MTokens t _) \<Rightarrow> Some t | _ \<Rightarrow> None)"

fun token_of :: "'c webauthn \<Rightarrow> ahost \<Rightarrow> areq \<Rightarrow> 'c astate \<Rightarrow> string option" where
  "token_of W H (QLogin req b) s = reply_token (fst (snd (handleLogin H req (Some b) s)))"
| "token_of W H (QRefresh req) s =
     (case Middleware (ahParse H) (ahNow H) req (asAuth s) of
        (Serve user jti, a) \<Rightarrow> reply_token (fst (snd (handleRefresh H req user jti (s\<lparr>asAuth := a\<rparr>))))
      | _ \<Rightarrow> None)"
| "token_of W H (QCookie req) s = reply_token (fst (snd (handleRefreshCookie H req s)))"
| "token_of W H (QSetup req b) s = reply_token (fst (snd (handleSetupConfirm H req (Some b) s)))"
| "token_of W H (QMobile req name pass code label) s = result_token (fst (mobileLogin_op H req name pass code label s))"
| "token_of W H (QRenew tok) s = result_token (fst (MobileRefresh H tok s))"
| "token_of W H (QPasskey req cont cred) s = result_token (fst (passkeyLoginFinish_op W H req cont cred s))"

text \<open>The credential behind a token for \<open>u\<close>.\<close>

definition password_ok :: "ahost \<Rightarrow> request \<Rightarrow> string \<Rightarrow> string \<Rightarrow> string \<Rightarrow> string \<Rightarrow> 'c astate \<Rightarrow> bool" where
  "password_ok H req name pass code u s \<longleftrightarrow>
     u = canonical H (aUUIDMap (asAcc s)) name
   \<and> fst (Allow (ahNow H) (ClientIP req) (asLimiter s))
   \<and> fst (fst (Allowed (ahNow H) u (asLockout s)))
   \<and> (let v = fst (VerifyDetailed (ahBcrypt H) (asAcc s) u pass) in vOK v \<and> second_factor H req v u code s)"

fun credential :: "'c webauthn \<Rightarrow> ahost \<Rightarrow> areq \<Rightarrow> string \<Rightarrow> 'c astate \<Rightarrow> bool" where
  "credential W H (QLogin req b) u s \<longleftrightarrow> password_ok H req (lbName b) (lbPassword b) (lbTOTP b) u s \<and> \<not> IsAppOnly (asCfg s) u"
| "credential W H (QRefresh req) u s \<longleftrightarrow> u \<noteq> '''' \<and> (\<exists>jti. fst (Middleware (ahParse H) (ahNow H) req (asAuth s)) = Serve u jti)"
| "credential W H (QCookie req) u s \<longleftrightarrow>
     u \<noteq> '''' \<and> \<not> IsAppOnly (asCfg s) u
   \<and> (\<exists>sess. RefreshSession (ahRefreshGrant H (ReadSupabaseRefreshCookie req)) = Ok sess
           \<and> LookupByEmail (ahMapKeys H) (aUUIDMap (asAcc s)) (spEmail sess) = Some u)"
| "credential W H (QSetup req b) u s \<longleftrightarrow>
     VerifySetupToken (ahParse H) (ahNow H) (stToken b) = Some u
   \<and> ahTOTP H (stMainCode b) (stMainSecret b) \<and> ahTOTP H (stRecCode b) (stRecSecret b)"
| "credential W H (QMobile req name pass code label) u s \<longleftrightarrow> password_ok H (inner_request req) name pass code u s"
| "credential W H (QRenew tok) u s \<longleftrightarrow>
     ParseMobileRefreshUsername tok = Some u
   \<and> (\<exists>f. asMobile s u = Doc f \<and> list_ex (\<lambda>x. mHash x = ahSHA H tok \<and> mExpiresAt x > unix (ahNow H)) (mSessions f))"
| "credential W H (QPasskey req cont cred) u s \<longleftrightarrow>
     (\<exists>session c rec cs. waValidate W (credentials_of s) session cred = Some (u, c) \<and> asPasskeys s u = Doc cs
        \<and> rec \<in> set cs \<and> crID rec = CredentialRecordID c \<and> crStatus rec = Approved)"

lemma second_factor_frame [simp]:
  "second_factor H req v n c (s\<lparr>asLimiter := l, asLockout := k\<rparr>) = second_factor H req v n c s"
  by (simp add: second_factor_def split: option.split prod.split)

lemma finish_login_token:
  "(\<exists>s' t es. finish_login H req b n v s = (s', ALogin t u, es)) \<longleftrightarrow>
     u = n \<and> second_factor H req v n (lbTOTP b) s \<and> ahSign H (session_claims (ahNow H) (ahJTI H) n) \<noteq> None"
proof (cases "mfa_refusal (mcResult (fst (verifyLoginMFA H req v n (lbTOTP b) s)))")
  case None
  then have "second_factor H req v n (lbTOTP b) s" by (simp add: verifyLoginMFA_passes)
  with None show ?thesis
    by (auto simp: finish_login_def Let_def split_beta issue_signs split: option.splits)
next
  case (Some r)
  then have "\<not> second_factor H req v n (lbTOTP b) s" by (simp flip: verifyLoginMFA_passes)
  with Some show ?thesis by (auto simp: finish_login_def Let_def split_beta)
qed

lemma handleLogin_token:
  "(\<exists>s' t es. handleLogin H req (Some b) s = (s', ALogin t u, es)) \<longleftrightarrow>
     Method req = MethodPost \<and> password_ok H req (lbName b) (lbPassword b) (lbTOTP b) u s \<and> \<not> IsAppOnly (asCfg s) u
   \<and> ahSign H (session_claims (ahNow H) (ahJTI H) u) \<noteq> None"
proof -
  let ?l = "Allow (ahNow H) (ClientIP req) (asLimiter s)"
  let ?n = "canonical H (aUUIDMap (asAcc s)) (lbName b)"
  let ?o = "Allowed (ahNow H) ?n (asLockout s)"
  let ?s1 = "s\<lparr>asLimiter := snd ?l, asLockout := snd ?o\<rparr>"
  let ?v = "fst (VerifyDetailed (ahBcrypt H) (asAcc s) ?n (lbPassword b))"
  show ?thesis
  proof (cases "Method req = MethodPost \<and> fst ?l \<and> \<not> IsAppOnly (asCfg s) ?n \<and> fst (fst ?o) \<and> vOK ?v")
    case True
    then have "handleLogin H req (Some b) s = finish_login H req b ?n ?v ?s1"
      by (simp add: handleLogin_def Let_def split_beta)
    with finish_login_token [of H req b ?n ?v ?s1 u] True show ?thesis by (auto simp: password_ok_def Let_def)
  next
    case False
    then have "\<nexists>s' t es. handleLogin H req (Some b) s = (s', ALogin t u, es)"
      by (auto simp: handleLogin_def Let_def split_beta)
    with False show ?thesis by (auto simp: password_ok_def Let_def)
  qed
qed

lemma finish_login_replies:
  "fst (snd (finish_login H req b n v s)) = ALogin t u \<Longrightarrow> u = n \<and> ahSign H (session_claims (ahNow H) (ahJTI H) n) = Some t"
  by (auto simp: finish_login_def Let_def split_beta issue_signs split: option.splits if_splits)

lemma handleLogin_signs:
  "fst (snd (handleLogin H req b s)) = ALogin t u \<Longrightarrow> ahSign H (session_claims (ahNow H) (ahJTI H) u) = Some t"
  by (auto simp: handleLogin_def Let_def split_beta split: if_splits option.splits dest: finish_login_replies)

lemma handleLogin_not_renewed: "fst (snd (handleLogin H req b s)) \<noteq> ARenewed t u"
  by (auto simp: handleLogin_def finish_login_def mfa_refusal_def Let_def split_beta split: option.splits mfaCheckResult.splits)

lemma login_credential:
  assumes "reply_token (fst (snd (handleLogin H req (Some b) s))) = Some t"
  shows "\<exists>u. ahSign H (session_claims (ahNow H) (ahJTI H) u) = Some t \<and> credential W H (QLogin req b) u s"
proof -
  obtain u where *: "fst (snd (handleLogin H req (Some b) s)) = ALogin t u"
    using assms by (auto simp: reply_token_def handleLogin_not_renewed split: areply.splits)
  then have "\<exists>s' t es. handleLogin H req (Some b) s = (s', ALogin t u, es)"
    by (metis prod.collapse)
  with handleLogin_signs [OF *] show ?thesis unfolding handleLogin_token by auto
qed

lemma refresh_credential:
  "reply_token (fst (snd (handleRefresh H req user jti s))) = Some t
   \<Longrightarrow> user \<noteq> '''' \<and> ahSign H (session_claims (ahNow H) (ahJTI H) user) = Some t"
  by (auto simp: handleRefresh_def reply_token_def Let_def split_beta issue_signs split: if_splits option.splits)

lemma cookie_credential:
  "reply_token (fst (snd (handleRefreshCookie H req s))) = Some t
   \<Longrightarrow> \<exists>u. ahSign H (session_claims (ahNow H) (ahJTI H) u) = Some t \<and> credential W H (QCookie req) u s"
  by (auto simp: handleRefreshCookie_def reply_token_def Let_def split_beta issue_signs split: if_splits option.splits sum.splits)

lemma setup_credential:
  "reply_token (fst (snd (handleSetupConfirm H req (Some b) s))) = Some t
   \<Longrightarrow> \<exists>u. ahSign H (session_claims (ahNow H) (ahJTI H) u) = Some t \<and> credential W H (QSetup req b) u s"
  by (auto simp: handleSetupConfirm_def reply_token_def Let_def split_beta issue_signs split: if_splits option.splits)

lemma grant_token:
  "result_token (fst (grant H u meta label s)) = Some t \<Longrightarrow> ahSign H (session_claims (ahNow H) (ahJTI H) u) = Some t"
  using grant_signs [of H u meta label s t] by (auto simp: result_token_def split: sum.splits MobileLoginResult.splits)

lemma result_token_Inl [simp]: "result_token (Inl e) = None"
  by (simp add: result_token_def)

lemma result_token_map [simp]: "result_token (map_sum f id r) = result_token r"
  by (cases r) (auto simp: result_token_def)

lemma mobile_credential:
  assumes "result_token (fst (MobileLogin H req name pass code label s)) = Some t"
  shows "\<exists>u. ahSign H (session_claims (ahNow H) (ahJTI H) u) = Some t \<and> password_ok H req name pass code u s"
proof -
  let ?l = "Allow (ahNow H) (ClientIP req) (asLimiter s)"
  let ?n = "canonical H (aUUIDMap (asAcc s)) name"
  let ?o = "Allowed (ahNow H) ?n (asLockout s)"
  let ?s1 = "s\<lparr>asLimiter := snd ?l, asLockout := snd ?o\<rparr>"
  let ?v = "fst (VerifyDetailed (ahBcrypt H) (asAcc s) ?n pass)"
  let ?m = "verifyLoginMFA H req ?v ?n code ?s1"
  have g: "fst ?l \<and> fst (fst ?o) \<and> vOK ?v"
    using assms by (auto simp: MobileLogin_def Let_def split_beta result_token_def split: if_splits)
  moreover have m: "mfa_error (mcResult (fst ?m)) = None"
    using assms g
    by (auto simp: MobileLogin_def Let_def split_beta result_token_def mfa_error_def split: if_splits mfaCheckResult.splits)
  then have "second_factor H req ?v ?n code s"
    using verifyLoginMFA_passes [of H req ?v ?n code ?s1] by (simp add: mfa_error_refusal)
  moreover have "ahSign H (session_claims (ahNow H) (ahJTI H) ?n) = Some t"
    using assms g m by (auto simp: MobileLogin_def Let_def split_beta intro: grant_token)
  ultimately show ?thesis by (auto simp: password_ok_def Let_def)
qed

lemma Rotate_needs_entry:
  assumes "fst (Rotate H now ok raw tok d) = Ok (Some (new, u))"
  shows "ParseMobileRefreshUsername tok = Some u
       \<and> (\<exists>f. d = Doc f \<and> list_ex (\<lambda>x. mHash x = H tok \<and> mExpiresAt x > unix now) (mSessions f))"
  using assms by (cases d) (auto simp: Rotate_def Rotate_from_def mobile_load_def Let_def split: option.splits if_splits prod.splits sum.splits)

lemma renew_credential:
  "result_token (fst (MobileRefresh H tok s)) = Some t
   \<Longrightarrow> \<exists>u. ahSign H (session_claims (ahNow H) (ahJTI H) u) = Some t \<and> credential W H (QRenew tok) u s"
  by (auto simp: MobileRefresh_def result_token_def Let_def split_beta issue_signs
      split: option.splits if_splits sum.splits dest!: Rotate_needs_entry)

lemma passkey_credential:
  assumes "result_token (fst (FinishPasskeyLogin W H cont cred meta s)) = Some t"
  shows "\<exists>u session c rec cs. ahSign H (session_claims (ahNow H) (ahJTI H) u) = Some t
       \<and> waValidate W (credentials_of s) session cred = Some (u, c) \<and> asPasskeys s u = Doc cs
       \<and> rec \<in> set cs \<and> crID rec = CredentialRecordID c \<and> crStatus rec = Approved"
proof -
  obtain p s1 session where v: "verify_ceremony W H ''webauthn_login_session'' cont s = (Some (p, Some session), s1)"
    using assms by (auto simp: FinishPasskeyLogin_def result_token_def split: if_splits option.splits prod.splits)
  then have k: "asPasskeys s1 = asPasskeys s" and "credentials_of s1 = credentials_of s"
    by (auto simp: verify_ceremony_def credentials_of_def fun_eq_iff split: prod.splits)
  then obtain u c where w: "waValidate W (credentials_of s) session cred = Some (u, c)"
    using assms v by (auto simp: FinishPasskeyLogin_def split: if_splits option.splits)
  moreover obtain rec where r: "CredentialByID (CredentialRecordID c) (asPasskeys s u) = Inr (Some rec)"
    using assms v w k \<open>credentials_of s1 = _\<close> by (auto simp: FinishPasskeyLogin_def split: if_splits option.splits sum.splits)
  ultimately have a: "crStatus rec = Approved" and "ahSign H (session_claims (ahNow H) (ahJTI H) u) = Some t"
    using assms v k \<open>credentials_of s1 = _\<close>
    by (auto simp: FinishPasskeyLogin_def Let_def split_beta split: if_splits dest: grant_token)
  with w r a show ?thesis
    by (fastforce simp: CredentialByID_def passkey_load_def find_Some_iff in_set_conv_nth split: jsonfile.splits sum.splits)
qed

lemma credentials_of_limiter [simp]: "credentials_of (s\<lparr>asLimiter := l\<rparr>) = credentials_of s"
  by (simp add: credentials_of_def fun_eq_iff)

lemma passkey_op_token:
  assumes "result_token (fst (passkeyLoginFinish_op W H req cont cred s)) = Some t"
  obtains l meta where "result_token (fst (FinishPasskeyLogin W H cont cred meta (s\<lparr>asLimiter := l\<rparr>))) = Some t"
proof
  show "result_token (fst (FinishPasskeyLogin W H cont cred \<lparr>meta_ip = ClientIP req, meta_ua = Header req ''User-Agent''\<rparr>
          (s\<lparr>asLimiter := snd (Allow (ahNow H) (ClientIP req) (asLimiter s))\<rparr>))) = Some t"
    using assms
    by (auto simp: passkeyLoginFinish_op_def AllowLoginAttempt_def Let_def split_beta result_token_def split: if_splits sum.splits)
qed

section \<open>Emergency access ends\<close>

text \<open>
  The tokens that one emergency login at \<open>t0\<close> leads to: its own, and those that renewals of them set. The key, and so \<open>sign\<close> and
  \<open>jparse\<close>, stays the same; the rest of the host may change from request to request.
\<close>

inductive recovery_chain :: "(claims \<Rightarrow> string option) \<Rightarrow> jwt_parse \<Rightarrow> nanos \<Rightarrow> string \<Rightarrow> bool"
  for sign jparse t0 where
  first: "\<lbrakk>ahSign H = sign; ahParse H = jparse; ahNow H = t0; handleRecoveryAuth H req b (s :: unit astate) = (s', ROk, es);
           ACookie recoveryCookieName tok \<in> set es\<rbrakk> \<Longrightarrow> recovery_chain sign jparse t0 tok"
| renewed: "\<lbrakk>recovery_chain sign jparse t0 old; ahSign H = sign; ahParse H = jparse; read_cookie recoveryCookieName req = old;
             handleRecoveryRenew H req = (RRenewed n, es); ACookie recoveryCookieName tok \<in> set es\<rbrakk>
            \<Longrightarrow> recovery_chain sign jparse t0 tok"

lemma login_token_cookie:
  assumes "handleRecoveryAuth H req b s = (s', ROk, es)" and "ACookie recoveryCookieName tok \<in> set es"
  shows "\<exists>user. ahSign H (recovery_claims (ahNow H) user recovery_ttl (ahNow H)) = Some tok"
  using assms
  by (auto simp: handleRecoveryAuth_def issueRecoverySession_def recovery_cookies_def IssueRecoveryTokenFrom_def audit_def
      recoveryCookieName_def recoveryCookieUser_def Let_def split: if_splits option.splits prod.splits)

lemma renewed_token_cookie:
  assumes "handleRecoveryRenew H req = (RRenewed n, es)" and "ACookie recoveryCookieName tok \<in> set es"
  obtains user ini where "RecoveryTokenStart (ahParse H) (ahNow H) (read_cookie recoveryCookieName req) = Some ini"
    and "ahNow H - ini * second < recoveryTetoAbsoluto"
    and "ahSign H (recovery_claims (ahNow H) user recovery_ttl (ini * second)) = Some tok"
  using assms
  by (auto simp: handleRecoveryRenew_def recovery_cookies_def IssueRecoveryTokenFrom_def
      recoveryCookieName_def recoveryCookieUser_def Let_def split: if_splits option.splits)

lemma unix_seconds [simp]: "unix (n * second) = n"
  by (simp add: unix_def second_def)

lemma unix_second_le: "unix t * second \<le> t"
  by (simp add: unix_def second_def)

text \<open>The JWT package returns the claims that were signed.\<close>

definition jwt_returns_signed :: "(claims \<Rightarrow> string option) \<Rightarrow> jwt_parse \<Rightarrow> bool" where
  "jwt_returns_signed sign jparse \<longleftrightarrow> (\<forall>c tok now c'. sign c = Some tok \<longrightarrow> jparse now tok = Some c' \<longrightarrow> c' = c)"

lemma start_of_recovery:
  assumes "jwt_returns_signed sign jparse" and "sign (recovery_claims i u ttl ini) = Some tok"
    and "RecoveryTokenStart jparse now tok = Some k" and "0 < unix ini"
  shows "k = unix ini"
proof -
  obtain c where "jparse now tok = Some c" using assms(3) by (auto simp: RecoveryTokenStart_def split: option.splits)
  moreover from this have "c = recovery_claims i u ttl ini" using assms(1,2) by (auto simp: jwt_returns_signed_def)
  ultimately show ?thesis using assms(3,4) by (simp add: RecoveryTokenStart_def recovery_claims_def num_claim_def)
qed

lemma recovery_chain_claims:
  assumes "recovery_chain sign jparse t0 tok" and signed: "jwt_returns_signed sign jparse"
    and "second \<le> t0"
  shows "\<exists>i u ini. sign (recovery_claims i u recovery_ttl ini) = Some tok \<and> unix ini = unix t0 \<and> i < t0 + recoveryTetoAbsoluto"
  using assms(1)
proof induction
  case first
  then show ?case by (force dest: login_token_cookie simp: recoveryTetoAbsoluto_def second_def)
next
  case (renewed old H req n es tok)
  then obtain i u ini where old: "sign (recovery_claims i u recovery_ttl ini) = Some old" and "unix ini = unix t0" by blast
  obtain user k where k: "RecoveryTokenStart (ahParse H) (ahNow H) old = Some k" "ahNow H - k * second < recoveryTetoAbsoluto"
    and tok: "ahSign H (recovery_claims (ahNow H) user recovery_ttl (k * second)) = Some tok"
    using renewed_token_cookie renewed.hyps by metis
  have "0 < unix t0" using assms(3) unix_mono [of second t0] by (simp add: unix_def second_def)
  with start_of_recovery [OF signed old k(1) [unfolded renewed.hyps]] \<open>unix ini = unix t0\<close> have "k = unix t0" by simp
  with k(2) tok unix_second_le [of t0] renewed.hyps show ?case by force
qed

section \<open>Examples\<close>

text \<open>An identity server that knows \<open>sam\<close>, whose second factor is \<open>f\<close>, and a panel at \<open>t\<close> that asks it.\<close>

definition sam_session :: SupabaseSession where
  "sam_session = \<lparr>spAccess = ''at'', spRefresh = ''rt'', spExpires = 3600, spEmail = ''sam@x''\<rparr>"

definition sam_ask :: gask where
  "sam_ask tok meth path body =
     (if path = ''/auth/v1/user''
        then Answer 200 (PDoc (zero_body\<lparr>gbFactors := [\<lparr>fcID = ''f'', fcType = ''totp'', fcStatus = ''verified''\<rparr>]\<rparr>))
      else if path = ''/auth/v1/factors/f/challenge'' then Answer 200 (PDoc (zero_body\<lparr>gbID := ''c''\<rparr>))
      else if body = [''c'', ''123456''] then Answer 200 PEmpty else Answer 401 PEmpty)"

definition name_token :: "claims \<Rightarrow> string option" where
  "name_token c = Some (str_claim c ''sub'')"

definition sam_host :: "nanos \<Rightarrow> ahost" where
  "sam_host t = \<lparr>ahNow = t, ahJTI = ''j'', ahTicket = ''k'', ahSecret = Some ''x'', ahRefreshID = ''i'', ahSign = name_token,
     ahParse = (\<lambda>_ _. None), ahBcrypt = (\<lambda>h p. h = p), ahHashPw = Some, ahSHA = id, ahTOTP = (\<lambda>c s. c = s),
     ahGenerate = (\<lambda>_ _. None), ahQR = (\<lambda>_. True), ahDisk = sound_host, ahDevOk = True, ahCodesOk = True, ahMobOk = True, ahPkOk = True,
     ahAsk = sam_ask, ahRefreshGrant = (\<lambda>_. NoAnswer), ahRevokeGrant = (\<lambda>_. NoAnswer), ahMapKeys = [''sam''], ahSessKeys = [],
     ahHostname = ''h'', ahSupabase = True, ahWhatsapp = False, ahBackend = BackendSupabase,
     ahClient = (\<lambda>e p. if p = ''pw'' then Ok (Some sam_session) else Err SupabaseInvalidCredentials)\<rparr>"

definition panel_state :: "unit astate" where
  "panel_state = \<lparr>asCfg = sam_config, asConf = (\<lambda>_. \<lparr>cfLive = NoFile, cfBaks = []\<rparr>),
     asAcc = \<lparr>aUsers = [], aBackend = BackendSupabase, aSupabase = Some (ahClient (sam_host 0)),
              aUUIDMap = Some [''sam'' \<mapsto> \<lparr>uEmail = ''sam@x'', uUUID = ''1''\<rparr>]\<rparr>,
     asAuth = demo_state empty_store, asAttached = True, asLimiter = NewLimiter 5 (60 * second),
     asLockout = NewLockout 5 second second second, asRefreshLimiter = NewLimiter 5 (60 * second),
     asCodes = (\<lambda>_. NoFile), asDevices = (\<lambda>_. NoFile), asMobile = (\<lambda>_. NoFile), asPasskeys = (\<lambda>_. NoFile), asUUIDFile = NoFile\<rparr>"

definition sam_login :: login_body where
  "sam_login = \<lparr>lbName = '' Sam@x '', lbPassword = ''pw'', lbTOTP = ''123456'', lbRemember = False\<rparr>"

definition login_post :: request where
  "login_post = (plain_request MethodPost ''/api/auth/login'')\<lparr>RemoteAddr := ''1.2.3.4:5''\<rparr>"


lemma sam_signs_in: "reply_token (fst (snd (handleLogin (sam_host 5) login_post (Some sam_login) panel_state))) = Some ''sam''"
  by code_simp

section \<open>Properties of the sign-in flow\<close>

text \<open>
  C16. The login of the panel gives a session for \<open>u\<close> in exactly this case: it is a POST, the limiter lets the address through,
  \<open>u\<close> is the name the input stands for, the account is not confined to the app, it is not locked, the password is accepted, the second
  factor is settled and the token can be signed.
\<close>

theorem login_admits_exactly:
  "(\<exists>s' t es. handleLogin H req (Some b) s = (s', ALogin t u, es)) \<longleftrightarrow>
     Method req = MethodPost \<and> password_ok H req (lbName b) (lbPassword b) (lbTOTP b) u s \<and> \<not> IsAppOnly (asCfg s) u
   \<and> ahSign H (session_claims (ahNow H) (ahJTI H) u) \<noteq> None"
  by (rule handleLogin_token)

text \<open>
  C6. No session without a credential. Whichever of the seven requests is answered with a session token, the token is for a user who
  gave the credential that request asks for: password and second factor for the logins, a session the middleware accepts, a refresh
  token of the identity server for a mapped address, both codes with a set-up token, a live refresh token of the phone, or an approved
  passkey of that user.
\<close>

theorem sessions_need_a_credential:
  assumes "token_of W H q s = Some t"
  shows "\<exists>u. ahSign H (session_claims (ahNow H) (ahJTI H) u) = Some t \<and> credential W H q u s"
proof (cases q)
  case (QPasskey req cont cred)
  then show ?thesis
    using assms by (fastforce elim!: passkey_op_token dest!: passkey_credential)
next
  case (QLogin req b)
  then show ?thesis using assms login_credential [of H req b s t W] by simp
next
  case (QMobile req name pass code label)
  then show ?thesis
    using assms by (auto simp: mobileLogin_op_def Let_def split_beta dest: mobile_credential)
next
  case (QRefresh req)
  with assms obtain user jti a where "Middleware (ahParse H) (ahNow H) req (asAuth s) = (Serve user jti, a)"
    and "reply_token (fst (snd (handleRefresh H req user jti (s\<lparr>asAuth := a\<rparr>)))) = Some t"
    by (auto split: prod.splits admission.splits)
  with QRefresh show ?thesis by (auto dest: refresh_credential)
qed (use assms in \<open>auto simp del: credential.simps intro: cookie_credential setup_credential renew_credential\<close>)

theorem sessions_need_a_credential_witness:
  "token_of undefined (sam_host 5) (QLogin login_post sam_login) panel_state = Some ''sam''
   \<and> password_ok (sam_host 5) login_post '' Sam@x '' ''pw'' ''123456'' ''sam'' panel_state"
proof
  show t: "token_of undefined (sam_host 5) (QLogin login_post sam_login) panel_state = Some ''sam''"
    by (simp add: sam_signs_in)
  from sessions_need_a_credential [OF t]
  obtain u where u: "ahSign (sam_host 5) (session_claims (ahNow (sam_host 5)) (ahJTI (sam_host 5)) u) = Some ''sam''"
    and c: "credential undefined (sam_host 5) (QLogin login_post sam_login) u panel_state" by blast
  from u have "u = ''sam''" by (simp add: sam_host_def name_token_def session_claims_def str_claim_def)
  with c show "password_ok (sam_host 5) login_post '' Sam@x '' ''pw'' ''123456'' ''sam'' panel_state"
    by (simp add: sam_login_def)
qed

text \<open>
  C10. Emergency access ends. Whatever is renewed, a token that goes back to a login at \<open>t0\<close> opens the emergency shell at most until
  eight and a half hours after it. The JWT package is assumed to return the claims that were signed and to refuse expired tokens.
\<close>

theorem recovery_ends:
  assumes "recovery_chain sign jparse t0 tok" and "second \<le> t0"
    and "jwt_returns_signed sign jparse" and "jwt_checks_expiry jparse"
    and "ahParse H = jparse" and "read_cookie recoveryCookieName req = tok" and "handleRecoveryPTY H req = (RShell, es)"
  shows "ahNow H < t0 + recoveryTetoAbsoluto + recovery_ttl"
proof -
  obtain i u ini where s: "sign (recovery_claims i u recovery_ttl ini) = Some tok" and i: "i < t0 + recoveryTetoAbsoluto"
    using recovery_chain_claims [OF assms(1,3,2)] by blast
  obtain c where c: "jparse (ahNow H) tok = Some c"
    using assms(5-7)
    by (auto simp: handleRecoveryPTY_def recoveryUserFromCookie_def VerifyRecoveryToken_def verifyKindToken_def Let_def
        split: if_splits option.splits)
  then have "c = recovery_claims i u recovery_ttl ini" using assms(3) s by (auto simp: jwt_returns_signed_def)
  then have "c ''exp'' = Some (JNum (unix (i + recovery_ttl)))" by (simp add: recovery_claims_def)
  then have "ahNow H < unix (i + recovery_ttl) * second"
    using assms(4) c by (auto simp: jwt_checks_expiry_def)
  also have "\<dots> \<le> i + recovery_ttl" by (rule unix_second_le)
  finally show ?thesis using i by simp
qed

text \<open>A key that has signed two tokens: an emergency login at 10 s and its renewal at 1000 s.\<close>

definition first_claims :: claims where "first_claims = recovery_claims (10 * second) ''sam'' recovery_ttl (10 * second)"
definition next_claims :: claims where "next_claims = recovery_claims (1000 * second) ''sam'' recovery_ttl (10 * second)"

definition two_sign :: "claims \<Rightarrow> string option" where
  "two_sign c = (if c = first_claims then Some ''a'' else if c = next_claims then Some ''b'' else None)"

definition two_parse :: jwt_parse where
  "two_parse now tok =
     (if tok = ''a'' \<and> now < 1810 * second then Some first_claims
      else if tok = ''b'' \<and> now < 2800 * second then Some next_claims else None)"

definition recovery_host :: "nanos \<Rightarrow> ahost" where
  "recovery_host t = (sam_host t)\<lparr>ahSign := two_sign, ahParse := two_parse\<rparr>"

definition recovery_state :: "unit astate" where
  "recovery_state = panel_state\<lparr>asCfg := sam_config\<lparr>cUsers := [(new_user ''sam'' ''h1'')\<lparr>usRecovery := ''r''\<rparr>]\<rparr>\<rparr>"

definition with_recovery :: "string \<Rightarrow> request" where
  "with_recovery tok = (plain_request MethodPost ''/recovery/renew'')\<lparr>Cookie := [recoveryCookieName \<mapsto> tok]\<rparr>"

lemma first_next: "first_claims \<noteq> next_claims"
proof
  assume "first_claims = next_claims"
  then have "first_claims ''iat'' = next_claims ''iat''" by simp
  then show False by (simp add: first_claims_def next_claims_def recovery_claims_def unix_def second_def)
qed

lemma two_returns_signed: "jwt_returns_signed two_sign two_parse"
  by (auto simp: jwt_returns_signed_def two_sign_def two_parse_def split: if_splits)

lemma two_checks_expiry: "jwt_checks_expiry two_parse"
  by (auto simp: jwt_checks_expiry_def two_parse_def first_claims_def next_claims_def recovery_claims_def recovery_ttl_def unix_def second_def
      split: if_splits)

lemma recovery_login:
  "\<exists>s'. handleRecoveryAuth (recovery_host (10 * second)) login_post (Some (''sam'', ''pw'', ''r'')) recovery_state =
     (s', ROk, recovery_cookies ''a'' ''sam'' @ audit ''sam'' ''recovery.login.ok'' '''')"
proof -
  have "Verify (\<lambda>h p. h = p) (asAcc panel_state) ''sam'' ''pw''" by code_simp
  moreover have "fst (Allow (10 * second) (ClientIP login_post) (asLimiter panel_state))" by code_simp
  moreover have "fst (fst (Allowed (10 * second) ''sam'' (asLockout panel_state)))" by code_simp
  moreover have "RecoveryTOTPSecretFor (asCfg recovery_state) ''sam'' = (''r'', True)" "\<not> IsAppOnly (asCfg recovery_state) ''sam''"
    "TrimSpace ''sam'' = ''sam''" "TrimSpace ''r'' = ''r''" "Method login_post = MethodPost" by code_simp+
  ultimately show ?thesis
    by (simp add: handleRecoveryAuth_def issueRecoverySession_def IssueRecoveryTokenFrom_def recovery_host_def recovery_state_def
        two_sign_def first_claims_def Let_def split_beta)
       (simp add: sam_host_def panel_state_def)
qed

lemma recovery_host_simps [simp]:
  "ahNow (recovery_host t) = t" "ahSign (recovery_host t) = two_sign" "ahParse (recovery_host t) = two_parse"
  by (simp_all add: recovery_host_def sam_host_def)

lemma with_recovery_cookie [simp]: "read_cookie recoveryCookieName (with_recovery tok) = tok"
  by (simp add: read_cookie_def with_recovery_def)

lemma recovery_renewal:
  "handleRecoveryRenew (recovery_host (1000 * second)) (with_recovery ''a'') = (RRenewed 27810, recovery_cookies ''b'' ''sam'')"
proof -
  have "VerifyRecoveryToken two_parse (1000 * second) ''a'' = Some ''sam''" "RecoveryTokenStart two_parse (1000 * second) ''a'' = Some 10"
    by code_simp+
  moreover have "two_sign (recovery_claims (1000 * second) ''sam'' recovery_ttl (10 * second)) = Some ''b''"
    using first_next by (simp add: two_sign_def next_claims_def)
  ultimately show ?thesis
    by (simp add: handleRecoveryRenew_def recoveryUserFromCookie_def IssueRecoveryTokenFrom_def recoveryTetoAbsoluto_def second_def)
qed

theorem recovery_ends_witness:
  "recovery_chain two_sign two_parse (10 * second) ''b''
   \<and> handleRecoveryPTY (recovery_host (2000 * second)) (with_recovery ''b'') = (RShell, audit ''sam'' ''recovery.pty.open'' '''')
   \<and> 2000 * second < 10 * second + recoveryTetoAbsoluto + recovery_ttl"
proof (intro conjI)
  obtain s' where l: "handleRecoveryAuth (recovery_host (10 * second)) login_post (Some (''sam'', ''pw'', ''r'')) recovery_state =
      (s', ROk, recovery_cookies ''a'' ''sam'' @ audit ''sam'' ''recovery.login.ok'' '''')" using recovery_login by blast
  have "recovery_chain two_sign two_parse (10 * second) ''a''"
    by (rule recovery_chain.first [OF _ _ _ l]) (simp_all add: recovery_cookies_def)
  then show c: "recovery_chain two_sign two_parse (10 * second) ''b''"
    by (rule recovery_chain.renewed [OF _ _ _ _ recovery_renewal]) (simp_all add: recovery_cookies_def)
  have "VerifyRecoveryToken two_parse (2000 * second) ''b'' = Some ''sam''" by code_simp
  then show p: "handleRecoveryPTY (recovery_host (2000 * second)) (with_recovery ''b'') = (RShell, audit ''sam'' ''recovery.pty.open'' '''')"
    by (simp add: handleRecoveryPTY_def recoveryUserFromCookie_def)
  show "2000 * second < 10 * second + recoveryTetoAbsoluto + recovery_ttl"
    using recovery_ends [OF c _ two_returns_signed two_checks_expiry _ _ p] by (simp add: second_def)
qed

section \<open>After a change of password\<close>

lemma change_detaches:
  "handleChangePassword H req user body s = (s', AOk, es) \<Longrightarrow> \<not> asAttached s'"
  by (auto simp: handleChangePassword_def finish_change_def swap_service_def Let_def split_beta split: if_splits option.splits prod.splits)

text \<open>
  A change of password takes the session store away from the handlers for as long as the process runs: logout then leaves the
  session the middleware looks at as it is, the list of sessions is empty, and revoking them is refused, although the tokens still
  open every route.
\<close>

theorem password_change_detaches_sessions:
  assumes "handleChangePassword H req user body s = (s', AOk, es)"
  shows "asAuth (fst (handleLogout H2 req2 user2 jti s')) = asAuth s' \<and> handleSessionsList H2 user2 s' = ASessions []
       \<and> handleSessionRevoke H2 MethodPost user2 (Some jti) s' = (s', AErr 503, [])
       \<and> handleSessionRevokeAll H2 MethodPost user2 jti s' = (s', AErr 503, [])"
  using change_detaches [OF assms]
  by (simp add: handleLogout_def revoke_current_def handleSessionsList_def handleSessionRevoke_def handleSessionRevokeAll_def
      router_sessions_def service_def)

definition signed_in :: "uuidMapFile jsonfile \<Rightarrow> unit astate" where
  "signed_in f = panel_state\<lparr>asAuth := demo_state demo_store, asUUIDFile := f\<rparr>"

definition changed :: "uuidMapFile jsonfile \<Rightarrow> unit astate" where
  "changed f = fst (handleChangePassword (sam_host 5) login_post ''sam'' (Some (''pw'', ''longer-one'')) (signed_in f))"

theorem password_change_detaches_sessions_witness:
  "handleSessionsList (sam_host 6) ''sam'' (changed NoFile) = ASessions []
   \<and> fst (Middleware demo_parse 7 bearer (asAuth (fst (handleLogout (sam_host 6) login_post ''sam'' ''j1'' (changed NoFile))))) = Serve ''sam'' ''j1''
   \<and> fst (Middleware demo_parse 7 bearer (asAuth (fst (handleLogout (sam_host 6) login_post ''sam'' ''j1'' (signed_in NoFile))))) = SessionRevoked"
proof -
  have "fst (snd (handleChangePassword (sam_host 5) login_post ''sam'' (Some (''pw'', ''longer-one'')) (signed_in NoFile))) = AOk" by code_simp
  then have *: "handleChangePassword (sam_host 5) login_post ''sam'' (Some (''pw'', ''longer-one'')) (signed_in NoFile) =
      (changed NoFile, AOk, snd (snd (handleChangePassword (sam_host 5) login_post ''sam'' (Some (''pw'', ''longer-one'')) (signed_in NoFile))))"
    by (simp add: changed_def prod_eq_iff)
  have "fst (Middleware demo_parse 7 bearer (asAuth (changed NoFile))) = Serve ''sam'' ''j1''" by code_simp
  moreover have "fst (Middleware demo_parse 7 bearer (asAuth (fst (handleLogout (sam_host 6) login_post ''sam'' ''j1'' (signed_in NoFile)))))
      = SessionRevoked" by code_simp
  ultimately show ?thesis
    using password_change_detaches_sessions [OF *, of "sam_host 6" login_post "''sam''" "''j1''"] by simp
qed

text \<open>Without the cookie of the identity server the new password is only written here, and the old one goes on working.\<close>

lemma local_change_keeps_old_password:
  "let f = Doc \<lparr>uSchema = 1, uMappings = [(''sam'', \<lparr>uEmail = ''sam@x'', uUUID = ''1''\<rparr>)]\<rparr>; a = asAcc (changed f)
   in Verify (\<lambda>h p. h = p) a ''sam'' ''pw'' \<and> \<not> Verify (\<lambda>h p. h = p) a ''sam'' ''longer-one''"
  by code_simp

text \<open>Without the map of accounts the service falls back to the local passwords, and no second factor is asked for.\<close>

lemma change_without_map:
  "aSupabase (rebuilt_service H s) = None" if "no_accounts (asUUIDFile s)" for s :: "'c astate"
  using that by (auto simp: rebuilt_service_def Let_def split: sum.splits option.splits)

lemma no_server_no_factor: "second_factor H req v n c s" if "aSupabase (asAcc s) = None" for s :: "'c astate"
  using that by (auto simp: second_factor_def split: option.split)

section \<open>Where the second factor is not asked for\<close>

text \<open>An answer that asks for the second factor counts as a right password without a session, and then no factor is needed.\<close>

lemma mfa_required_is_accepted:
  assumes "status \<noteq> 200" "status < 500" "gbErrorCode (decode_or_zero b) = ''mfa_required''"
  shows "VerifyPassword (Answer status b) = Ok None"
  using assms by (simp add: VerifyPassword_def Let_def)

lemma nil_session_needs_no_factor: "vSession v = Some None \<Longrightarrow> second_factor H req v n c s"
  by (simp add: second_factor_def)

text \<open>Only the first factor of the list is looked at: a leftover enrolment in front hides the verified one.\<close>

lemma leftover_hides_factor:
  assumes "supabaseGetUserMFA (ahAsk H) (ahRefreshGrant H) a = Some (findFactorByType (\<lparr>fcID = i, fcType = ''totp'', fcStatus = ''unverified''\<rparr> # fs) ''totp'')"
    and "vSession v = Some (Some \<lparr>spAccess = a, spRefresh = r, spExpires = e, spEmail = m\<rparr>)"
  shows "second_factor H req v n c s"
  using assms by (auto simp: second_factor_def findFactorByType_def)

section \<open>The phone\<close>

text \<open>All password logins of phones count against one address, since the inner request has none.\<close>

lemma phones_share_a_bucket: "ClientIP (inner_request req) = ''''"
proof -
  have "\<not> trustedProxyIP ''''" "SplitHostPort '''' = None" "LastIndexByte '''' (CHR '':'') = None" by code_simp+
  moreover have "RemoteAddr (inner_request req) = ''''" by (simp add: inner_request_def plain_request_def)
  ultimately show ?thesis by (simp add: ClientIP_def Let_def)
qed

text \<open>Renewal does not look at the accounts or the sessions, and logging out leaves the refresh token.\<close>

lemma renewal_ignores_accounts: "fst (MobileRefresh H tok (s\<lparr>asCfg := c, asAcc := a\<rparr>)) = fst (MobileRefresh H tok s)"
  by (simp add: MobileRefresh_def Let_def split_beta issue_signs split: option.split sum.split)

lemma mobile_logout_keeps_refresh: "asMobile (fst (mobileLogout_op H user jti s)) = asMobile s"
  by (simp add: mobileLogout_op_def revokeOwnSession_def split: option.split)

text \<open>A pending passkey never signs in, and using one does not approve it.\<close>

lemma registration_does_not_sign_in:
  assumes "FinishPasskeyRegistration W H cont label cred s = (r, s')"
  shows "asessions (asAuth s') = asessions (asAuth s) \<and> asMobile s' = asMobile s"
  using assms
  by (auto simp: FinishPasskeyRegistration_def verify_ceremony_def verifyCeremonyToken_def Let_def
      split: if_splits option.splits prod.splits sum.splits)

end
