(* ===== verification/Spec2Isabelle.thy ===== *)
theory Spec2Isabelle
  imports DemoGate QueueSystem Wire AuthProps RateLimitProps DevicesProps Accounts InventoryProps TodosProps VideoInvites DeployHandlers UserProps TerminalProps SessionStream IdempotencyProps SessionBackupProps AuthFlow
begin

text \<open>
  \<^bold>\<open>What this is.\<close> A model in HOL of the Go server of this repository, a control panel for Linux hosts, and the theorems that make
  its core correct. Each theory models files under \<^verbatim>\<open>src/\<close>, keeps their names for types and functions where HOL allows it, and
  is executable, so that the witnesses of the theorems evaluate it.

  \<^bold>\<open>The program and its parts.\<close> One process serves an HTTP API. A request passes the public demo gate, the client address
  and rate limits, and the admission of tokens and sessions; a handler then works on one of the stores, each a JSON file behind a
  mutex. Background work runs in goroutines: the workers and the reaper of the job queue, the ticker of the scheduler, the
  evaluation of metric alerts, the dispatch of notifications, the poller of the node inventory, the timers of the video calls.
  Finished jobs call back into scheduler and notifications; alerts and schedules submit jobs and notify. A second binary,
  \<^verbatim>\<open>vpsmctl\<close>, runs in the git hook of deployed applications and shares their registry through a file lock.

  \<^bold>\<open>Conventions.\<close> A struct is a \<open>record\<close>, shared mutable objects live in an explicit heap (the jobs of queue and scheduler), a Go
  map is a partial function and the order in which Go ranges over it an argument, an error is the left side of a sum or \<open>None\<close>.
  Every raise, early return and failing call is a branch. What the operating system, the clock, the random generator, bcrypt, the
  JWT library, GoTrue, git, docker and nginx answer is an argument (a record of the host, or a function), with the documented
  behaviour the code relies on as named hypotheses. The content of a file is what a decoder sees of it: nothing, unreadable, not
  JSON, or a document. A critical section is one atomic step, and a goroutine that takes the lock several times is as many steps,
  so the step relations interleave as the code does. Where a lock does not cover the whole of an operation, its parts are definitions
  of their own (the parts of a video socket before and after its upgrade, a store that is read and written back, a size that is
  computed and applied), the operation is their composition, and the step relation schedules the parts. Strings are byte sequences; integers are \<open>int\<close> where the code cannot
  overflow, and words where it can (the FNV hash of preview ports).

  \<^bold>\<open>Shared theories.\<close>
  \<^item> \<open>Prelude\<close>: results, list and map lemmas, reachability, and the interfaces stated as locales: \<open>inductive_invariant\<close> (used for
    the queue, the hub and rooms of video calls, the inventory and the accounts), \<open>bounded_log\<close> (the metric and notification rings)
    and \<open>durable_document\<close> (vault, checklist and application registry: what a store with a file promises its clients).
  \<^item> \<open>GoStrings\<close>, \<open>GoRunes\<close>, \<open>GoPath\<close>, \<open>GoNet\<close>, \<open>GoFloat\<close>, \<open>Http\<close>: the parts of Go's library that the modelled code calls.
  \<^item> \<open>DurableFile\<close>: the atomic writers of the stores against a disk with a page cache. A power cut at any point leaves the old or
    the new document, the locale \<open>durable_writer\<close> states the contract, and the variants without a sync are shown to break it.

  \<^bold>\<open>Jobs.\<close>
  \<^item> \<open>JobQueue\<close>, \<open>QueueLemmas\<close>, \<open>QueueProps\<close>, \<open>QueueSystem\<close> (\<^verbatim>\<open>internal/queue/queue.go\<close>): every method and critical section, over a heap of
    jobs and the file; the goroutines as a step relation. The terminal hook runs at most once per job and the maps stay consistent in
    every interleaving; restart, reaper, pruning, deletion and shutdown do what they say; two races are exhibited.
  \<^item> \<open>Scheduler\<close>, \<open>SchedulerProps\<close> (\<^verbatim>\<open>internal/scheduler\<close>): due jobs, chains, limits and the adapter to the queue, whose contract is
    the locale \<open>enqueuer\<close>. What runs unattended is authorized, and firing reaches the queue.
  \<^item> \<open>Metrics\<close>, \<open>MetricsProps\<close>, \<open>Notify\<close>, \<open>NotifyProps\<close> (\<^verbatim>\<open>internal/metrics\<close>, \<^verbatim>\<open>internal/notify\<close>): alert episodes, rings, throttling
    over any sequence of events and edits (\<open>router_moves\<close>), circuit breakers, redaction.
  \<^item> \<open>Wire\<close> (\<^verbatim>\<open>internal/api/api.go\<close>): how the router composes these four, with the lock order; the deadlock it contains is proved.

  \<^bold>\<open>Access.\<close>
  \<^item> \<open>DemoGate\<close> (\<^verbatim>\<open>internal/api/demo_mode.go\<close>), \<open>RateLimit\<close>, \<open>RateLimitProps\<close> (\<^verbatim>\<open>internal/auth/ratelimit.go\<close> and the client address):
    what the demo lets through, and the bound on attempts between two resets of an address.
  \<^item> \<open>Sessions\<close>, \<open>Tokens\<close>, \<open>AuthProps\<close> (\<^verbatim>\<open>internal/auth\<close>): sessions with tombstones, the six kinds of tokens, tickets and the
    middleware. A revoked session stays out while the store is closed properly, and a lost flush brings it back; kinds do not mix,
    one-shot tokens work once (locale \<open>one_shot_store\<close>).
  \<^item> \<open>Devices\<close>, \<open>DevicesProps\<close>: backup codes, refresh tokens, trusted devices, passkeys (locale \<open>credential_store\<close>). The store of refresh
    tokens is built anew for every request, so its mutex excludes nothing: requests read the file and write it back in any
    interleaving (\<open>mobile_inter\<close>); a rotation that no other request overlaps ends the old token, and what overlapping ones do is shown.
  \<^item> \<open>Accounts\<close> (\<^verbatim>\<open>uuid_map.go\<close>, password check), \<open>Config\<close>, \<open>ConfigProps\<close> (\<^verbatim>\<open>internal/config\<close>, \<^verbatim>\<open>internal/httpx/rbac.go\<close>), \<open>UserHandlers\<close>,
    \<open>UserProps\<close> (\<^verbatim>\<open>internal/api/handlers_users.go\<close>): accounts, administrators, the configuration file with its backups, and the
    account handlers over all of these. An administrator always remains, only administrators manage, a deleted user is out.
  \<^item> \<open>GoTrue\<close>, \<open>LoginHandlers\<close>, \<open>MfaHandlers\<close>, \<open>MobileAuth\<close>, \<open>AuthFlow\<close> (\<^verbatim>\<open>internal/auth/supabase.go\<close>; \<^verbatim>\<open>handlers_auth.go\<close>, \<^verbatim>\<open>mfa.go\<close>,
    \<^verbatim>\<open>handlers_recovery.go\<close>, \<^verbatim>\<open>mobile_login.go\<close> and \<^verbatim>\<open>passkey.go\<close> of \<^verbatim>\<open>internal/api\<close>; \<^verbatim>\<open>internal/mobilebff/auth_*.go\<close>): the client of the identity
    server and every way to sign in, over one state with the stores above. Every session token rests on a credential, the login
    admits exactly under its conditions, and emergency access ends however often it is renewed.

  \<^bold>\<open>Stores and services.\<close>
  \<^item> \<open>Vault\<close>, \<open>VaultProps\<close> (\<^verbatim>\<open>internal/secrets\<close>, \<^verbatim>\<open>internal/scope\<close>): the encrypted store, its rotation and the name spaces of tenants.
  \<^item> \<open>Todos\<close>, \<open>TodosProps\<close> (the maintenance checklist), \<open>Inventory\<close>, \<open>Poller\<close>, \<open>InventoryProps\<close> (\<^verbatim>\<open>internal/inventory\<close>): the node document
    under ticks of the poller with partial answers, which are stored when every number in them is finite.
  \<^item> \<open>VideoHub\<close>, \<open>VideoHubProps\<close>, \<open>LiveCalls\<close>, \<open>LiveCallsProps\<close>, \<open>VideoRooms\<close>, \<open>VideoHandlers\<close>, \<open>VideoProps\<close>, \<open>VideoInvites\<close>
    (\<^verbatim>\<open>internal/videocall\<close>): signalling, ringing, rooms, invitations, PINs and guests, with every request, socket message and
    timer as a step, and the checks, joins, deletions, removals and evictions of concurrent requests interleaved (\<open>vwork\<close>). Whoever
    sits in a room is a guest of a valid token or had the right to enter when the socket was checked, and has it still unless the room
    or the member went between check and join; a redeemed invitation and a revoked PIN admit nobody again while the service runs.
  \<^item> \<open>DeployStore\<close>, \<open>DeployRun\<close>, \<open>DeployProps\<close>, \<open>DeployHandlers\<close> (\<^verbatim>\<open>internal/deploy\<close>, the deploy runners of the queue, the hook command
    of \<^verbatim>\<open>cmd/vpsmctl\<close>, the deploy API): the registry refines a map and keeps nodes and identifiers, its migration loses nothing, a
    deploy leaves its verdict, previews are confined and capped, the API is for administrators.

  \<^bold>\<open>Terminals.\<close>
  \<^item> \<open>SessionStore\<close>, \<open>SessionStoreProps\<close> (\<^verbatim>\<open>ownership.go\<close>, \<^verbatim>\<open>registry.go\<close> of \<^verbatim>\<open>internal/pty\<close>): who owns a session and where it lives, in
    memory and in files that are written outside the lock; the locale \<open>versioned_store\<close> states why the file never goes back.
  \<^item> \<open>Terminal\<close>, \<open>TerminalHandlers\<close>, \<open>TerminalProps\<close> (\<^verbatim>\<open>backend_dtach.go\<close>, \<^verbatim>\<open>session_meta.go\<close>, the access part of \<^verbatim>\<open>pty.go\<close>, the
    terminal handlers): sockets, masters and the requests on them. A stranger never reaches a session by opening, creating, killing,
    renaming or assigning; restoring a backup can, which is shown.
  \<^item> \<open>SessionLog\<close>, \<open>SessionLogProps\<close>, \<open>SessionStream\<close> (\<^verbatim>\<open>sessionlog.go\<close>, \<^verbatim>\<open>sessionlog_compartilhado.go\<close>, \<^verbatim>\<open>tamanho_da_sessao.go\<close>): the
    log that several connections share, what is cut from it, its tail, and the size the connections agree on (\<open>size_step\<close>: sizes
    are computed under the lock and applied outside it).
  \<^item> \<open>SessionBackup\<close>, \<open>SessionBackupProps\<close> (\<^verbatim>\<open>internal/sessionbackup\<close>, \<^verbatim>\<open>handlers_terminal_backup.go\<close>): backups and their retention.
  \<^item> \<open>Idempotency\<close>, \<open>IdempotencyProps\<close> (\<^verbatim>\<open>internal/mobilebff/idempotencia.go\<close>, \<^verbatim>\<open>idempotencia_http.go\<close>): a request of the phone that is
    repeated after the first one ended is answered with the first result.

  \<^bold>\<open>Where the code does something else.\<close> Most theories end with the places where a comment or the evident intent and the code
  part: lemmas on concrete inputs or, where the behaviour is general, for all inputs. The manifest lists them as findings.

  \<^bold>\<open>Bounds, fuel and totality.\<close> All definitions are total. Loops that are not structural (digits of numbers, stripping of
  prefixes, cleaning of paths) have termination proofs; the conversion of clock readings to base 36 works in a fixed buffer as
  the code does, and is proved to fit. There is no fuel: goroutines and tickers are step relations, where an infinite run is a
  sequence of steps and invariants hold in every reachable state. Capacities (channels of 64, rings, rooms, histories of 30, ten
  backups, three previews, logs of 8 MiB, sessions per user, eight hours of emergency access) are those of the source.

  \<^bold>\<open>Not modelled.\<close> Code whose effect lies in a process, socket or remote service that the sources only drive: the copy between
  a terminal and its socket, the rendering and capture of screens, the git and file browsers, containers of game servers, Proxmox, WhatsApp, Jira and assistant clients, tunnel
  and DNS filter, host figures. The rest of the mobile backend and most of \<^verbatim>\<open>internal/api\<close> reshape what the modelled parts return. The ceremonies of the WebAuthn
  library and the escape sequences that one-line summaries strip with a regular expression are parameters. The move
  of directories between the first two configuration schemas is a list of renames outside the data directory. JSON encoding,
  HTML, TLS and HTTP framing are the library's. Real time is an argument: no theorem bounds how long a step takes.

  \<^bold>\<open>Plan.\<close> Next in order: confinement of the file browser, the laboratory agent's authentication, the Web Push store, the port allocator of game servers and the compatibility check of the server-driven UI.
\<close>

end
